(* ===== verification/Contracts.thy ===== *)
theory Contracts
  imports Prelude
begin

text \<open>
  The contracts several components keep, each a locale: a machine whose operations preserve an
  invariant, a machine with rows that no operation changes once they are final, and a
  last-writer-wins register behind a duplicate filter. The components interpret them on their own
  operations; what follows from a contract is proved here once.
\<close>

section \<open>Machines with an invariant\<close>

locale op_machine =
  fixes step :: "'s \<Rightarrow> 'op \<Rightarrow> 's"
    and inv :: "'s \<Rightarrow> bool"
  assumes step_inv: "inv s \<Longrightarrow> inv (step s op)"
begin

lemma run_inv: "inv s \<Longrightarrow> inv (foldl step s ops)"
  by (induction ops arbitrary: s) (auto intro: step_inv)

end

text \<open>Once the record under a key is final, no sequence of operations changes it.\<close>

locale absorbing_machine = op_machine step inv
  for step :: "'s \<Rightarrow> 'op \<Rightarrow> 's" and inv :: "'s \<Rightarrow> bool" +
  fixes entry :: "'s \<Rightarrow> 'k \<Rightarrow> 'r option"
    and final :: "'r \<Rightarrow> bool"
  assumes final_step: "inv s \<Longrightarrow> entry s k = Some r \<Longrightarrow> final r \<Longrightarrow> entry (step s op) k = Some r"
begin

lemma final_run: "inv s \<Longrightarrow> entry s k = Some r \<Longrightarrow> final r \<Longrightarrow> entry (foldl step s ops) k = Some r"
  by (induction ops arbitrary: s) (auto intro: step_inv final_step)

end

text \<open>A counter of the state that no operation decreases.\<close>

locale monotone_machine = op_machine step inv
  for step :: "'s \<Rightarrow> 'op \<Rightarrow> 's" and inv :: "'s \<Rightarrow> bool" +
  fixes level :: "'s \<Rightarrow> int"
  assumes level_step: "inv s \<Longrightarrow> level s \<le> level (step s op)"
begin

lemma level_run: "inv s \<Longrightarrow> level s \<le> level (foldl step s ops)"
proof (induction ops arbitrary: s)
  case (Cons op ops)
  then have "level s \<le> level (step s op)" and "inv (step s op)"
    by (auto intro: level_step step_inv)
  with Cons.IH [of "step s op"] show ?case by simp
qed simp

end

section \<open>Last-writer-wins registers\<close>

text \<open>
  \<open>put\<close> takes an event. An event whose identity was seen before is dropped; a relevant event
  becomes the current value under its key when its stamp is greater than the current stamp.
\<close>

locale lww_register =
  fixes put :: "'s \<Rightarrow> 'e \<Rightarrow> 's"
    and seen :: "'s \<Rightarrow> 'i set"
    and ident :: "'e \<Rightarrow> 'i"
    and relevant :: "'e \<Rightarrow> bool"
    and key :: "'e \<Rightarrow> 'k"
    and stamp :: "'e \<Rightarrow> 'o::linorder"
    and load :: "'e \<Rightarrow> 'a"
    and cur :: "'s \<Rightarrow> 'k \<Rightarrow> ('o \<times> 'a) option"
  assumes seen_put: "seen (put s e) = insert (ident e) (seen s)"
    and cur_put: "cur (put s e) k =
      (if ident e \<notin> seen s \<and> relevant e \<and> key e = k \<and>
          (case cur s k of None \<Rightarrow> True | Some (t, a) \<Rightarrow> t < stamp e)
       then Some (stamp e, load e) else cur s k)"
begin

text \<open>The events of a set that compete for a key, and when they name their winner unambiguously.\<close>

definition rivals :: "'e set \<Rightarrow> 'k \<Rightarrow> 'e set" where
  "rivals E k = {e \<in> E. relevant e \<and> key e = k}"

definition coherent :: "'e set \<Rightarrow> bool" where
  "coherent E \<longleftrightarrow> inj_on ident E \<and> (\<forall>k. inj_on stamp (rivals E k))"

definition current_of :: "'s \<Rightarrow> 'e set \<Rightarrow> bool" where
  "current_of s E \<longleftrightarrow> seen s = ident ` E \<and>
     (\<forall>k. case cur s k of
        None \<Rightarrow> rivals E k = {}
      | Some (t, a) \<Rightarrow> \<exists>e \<in> rivals E k. t = stamp e \<and> a = load e \<and>
          (\<forall>e' \<in> rivals E k. stamp e' \<le> stamp e))"

lemma rivals_insert:
  "rivals (insert e E) k = (if relevant e \<and> key e = k then insert e (rivals E k) else rivals E k)"
  by (auto simp: rivals_def)

lemma put_dup: "ident e \<in> seen s \<Longrightarrow> cur (put s e) = cur s \<and> seen (put s e) = seen s"
  by (auto simp: cur_put seen_put fun_eq_iff)

lemma put_new:
  assumes "current_of s E" and new: "ident e \<notin> seen s"
  shows "current_of (put s e) (insert e E)"
  unfolding current_of_def
proof (intro conjI allI)
  show "seen (put s e) = ident ` insert e E"
    using assms(1) by (simp add: seen_put current_of_def)
next
  fix k
  have old: "case cur s k of
        None \<Rightarrow> rivals E k = {}
      | Some (t, a) \<Rightarrow> \<exists>e \<in> rivals E k. t = stamp e \<and> a = load e \<and>
          (\<forall>e' \<in> rivals E k. stamp e' \<le> stamp e)"
    using assms(1) by (simp add: current_of_def)
  show "case cur (put s e) k of
        None \<Rightarrow> rivals (insert e E) k = {}
      | Some (t, a) \<Rightarrow> \<exists>e' \<in> rivals (insert e E) k. t = stamp e' \<and> a = load e' \<and>
          (\<forall>e'' \<in> rivals (insert e E) k. stamp e'' \<le> stamp e')"
  proof (cases "relevant e \<and> key e = k")
    case False
    then have eqs: "rivals (insert e E) k = rivals E k" "cur (put s e) k = cur s k"
      by (simp_all only: rivals_insert cur_put) auto
    show ?thesis unfolding eqs by (rule old)
  next
    case True
    show ?thesis
    proof (cases "cur s k")
      case None
      with old True new show ?thesis by (simp add: cur_put rivals_insert)
    next
      case (Some ta)
      then obtain t a w where w: "ta = (t, a)" "w \<in> rivals E k" "t = stamp w" "a = load w"
        "\<forall>e' \<in> rivals E k. stamp e' \<le> stamp w" using old by (cases ta) auto
      show ?thesis
      proof (cases "stamp w < stamp e")
        case True
        with w \<open>relevant e \<and> key e = k\<close> Some new show ?thesis
          by (auto simp: cur_put rivals_insert intro: order_trans less_imp_le)
      next
        case False
        with w \<open>relevant e \<and> key e = k\<close> Some show ?thesis
          by (auto simp: cur_put rivals_insert not_less)
      qed
    qed
  qed
qed

lemma run_current:
  assumes "current_of s E" and "inj_on ident (E \<union> set es)"
  shows "current_of (foldl put s es) (E \<union> set es)"
  using assms
proof (induction es arbitrary: s E)
  case (Cons e es)
  have "current_of (put s e) (insert e E)"
  proof (cases "ident e \<in> seen s")
    case True
    then obtain e' where "e' \<in> E" "ident e' = ident e"
      using Cons.prems(1) by (auto simp: current_of_def)
    then have "e \<in> E" using Cons.prems(2) by (metis Un_iff inj_onD list.set_intros(1))
    then show ?thesis
      using put_dup [OF True] Cons.prems(1) by (simp add: current_of_def insert_absorb)
  qed (rule put_new [OF Cons.prems(1)])
  moreover have "insert e E \<union> set es = E \<union> set (e # es)" by auto
  ultimately show ?case using Cons.IH [of "put s e" "insert e E"] Cons.prems(2) by simp
qed simp

lemma current_of_unique:
  assumes "current_of s E" "current_of s' E" "coherent E"
  shows "cur s k = cur s' k"
proof -
  have stamps: "x = y" if "x \<in> rivals E k" "y \<in> rivals E k" "stamp x = stamp y" for x y
    using that assms(3) by (auto simp: coherent_def dest: inj_onD)
  have *: "case cur s k of None \<Rightarrow> rivals E k = {}
      | Some (t, a) \<Rightarrow> \<exists>e \<in> rivals E k. t = stamp e \<and> a = load e \<and> (\<forall>e' \<in> rivals E k. stamp e' \<le> stamp e)"
    and **: "case cur s' k of None \<Rightarrow> rivals E k = {}
      | Some (t, a) \<Rightarrow> \<exists>e \<in> rivals E k. t = stamp e \<and> a = load e \<and> (\<forall>e' \<in> rivals E k. stamp e' \<le> stamp e)"
    using assms(1,2) by (simp_all add: current_of_def)
  show ?thesis
  proof (cases "rivals E k = {}")
    case True
    with * ** show ?thesis by (auto split: option.splits prod.splits)
  next
    case False
    then obtain x y where "cur s k = Some (stamp x, load x)" "x \<in> rivals E k" "\<forall>e' \<in> rivals E k. stamp e' \<le> stamp x"
      and "cur s' k = Some (stamp y, load y)" "y \<in> rivals E k" "\<forall>e' \<in> rivals E k. stamp e' \<le> stamp y"
      using * ** by (auto split: option.splits prod.splits)
    with stamps [of x y] show ?thesis by (metis order_antisym)
  qed
qed

text \<open>The value under a key after any run from an empty register: the greatest stamp wins.\<close>

lemma latest_wins:
  assumes "seen s = {}" "\<And>k. cur s k = None" "inj_on ident (set es)"
  shows "case cur (foldl put s es) k of
      None \<Rightarrow> \<forall>e \<in> set es. relevant e \<longrightarrow> key e \<noteq> k
    | Some (t, a) \<Rightarrow> \<exists>e \<in> set es. relevant e \<and> key e = k \<and> t = stamp e \<and> a = load e \<and>
        (\<forall>e' \<in> set es. relevant e' \<and> key e' = k \<longrightarrow> stamp e' \<le> stamp e)"
proof -
  have "current_of s {}" using assms(1,2) by (simp add: current_of_def rivals_def)
  from run_current [OF this, of es] assms(3) have "current_of (foldl put s es) (set es)" by simp
  then have won: "case cur (foldl put s es) k of None \<Rightarrow> rivals (set es) k = {}
      | Some (t, a) \<Rightarrow> \<exists>e \<in> rivals (set es) k. t = stamp e \<and> a = load e \<and>
          (\<forall>e' \<in> rivals (set es) k. stamp e' \<le> stamp e)"
    by (simp add: current_of_def)
  show ?thesis
  proof (cases "cur (foldl put s es) k")
    case None
    with won show ?thesis by (auto simp: rivals_def)
  next
    case (Some ta)
    with won obtain e where "e \<in> rivals (set es) k" "ta = (stamp e, load e)"
      "\<forall>e' \<in> rivals (set es) k. stamp e' \<le> stamp e" by (cases ta) auto
    with Some show ?thesis by (auto simp: rivals_def intro!: bexI [of _ e])
  qed
qed

text \<open>Two runs over the same events, in any order and with any repetition, agree.\<close>

lemma order_irrelevant:
  assumes "seen s = {}" "\<And>k. cur s k = None" "coherent (set es)" "set es' = set es"
  shows "cur (foldl put s es) k = cur (foldl put s es') k"
proof -
  have "current_of s {}" using assms(1,2) by (simp add: current_of_def rivals_def)
  with assms(3,4) have "current_of (foldl put s es) (set es)" "current_of (foldl put s es') (set es)"
    using run_current [of s "{}" es] run_current [of s "{}" es'] by (auto simp: coherent_def)
  then show ?thesis using assms(3) by (rule current_of_unique)
qed

end

section \<open>Replay filters\<close>

text \<open>The calls a filter accepts, in order.\<close>

fun accepted_calls :: "('s \<Rightarrow> 'n \<Rightarrow> rat \<Rightarrow> bool \<times> 's) \<Rightarrow> 's \<Rightarrow> ('n \<times> rat) list \<Rightarrow> ('n \<times> rat) list" where
  "accepted_calls f s [] = []"
| "accepted_calls f s ((n, t) # calls) =
     (case f s n t of (ok, s') \<Rightarrow> (if ok then [(n, t)] else []) @ accepted_calls f s' calls)"

text \<open>
  A filter remembers when a nonce was accepted, forgets it once the window is over, and accepts a
  nonce exactly when it does not remember it.
\<close>

locale nonce_filter =
  fixes accept :: "'s \<Rightarrow> 'n \<Rightarrow> rat \<Rightarrow> bool \<times> 's"
    and valid :: "'s \<Rightarrow> bool"
    and seen_at :: "'s \<Rightarrow> 'n \<Rightarrow> rat option"
    and window :: rat
  assumes accept_valid: "valid s \<Longrightarrow> valid (snd (accept s n t))"
    and accept_iff: "valid s \<Longrightarrow>
      fst (accept s n t) \<longleftrightarrow> (case seen_at s n of None \<Rightarrow> True | Some t0 \<Rightarrow> t - t0 > window)"
    and accept_seen: "valid s \<Longrightarrow> seen_at (snd (accept s n t)) m =
      (if m = n \<and> fst (accept s n t) then Some t
       else (case seen_at s m of None \<Rightarrow> None | Some t0 \<Rightarrow> if t - t0 > window then None else Some t0))"
begin

text \<open>After a nonce was accepted, the next acceptance comes only when the window is over.\<close>

lemma no_replay_after:
  assumes "valid s" "seen_at s n = Some t0" "sorted (map snd calls)" "(n, t) \<in> set (accepted_calls accept s calls)"
  shows "t - t0 > window"
  using assms
proof (induction calls arbitrary: s)
  case (Cons c calls)
  obtain m u where c: "c = (m, u)" by (cases c)
  obtain ok s' where step: "accept s m u = (ok, s')" by fastforce
  have v: "valid s'" using accept_valid [OF Cons.prems(1), of m u] step by simp
  have later: "\<forall>(k, x) \<in> set calls. u \<le> x" using Cons.prems(3) c by auto
  have sub: "set (accepted_calls accept s' calls) \<subseteq> set calls" for s' calls
    by (induction accept s' calls rule: accepted_calls.induct) (auto split: prod.splits if_splits)
  show ?case
  proof (cases "u - t0 > window")
    case True
    have "t = u \<or> (n, t) \<in> set calls" using Cons.prems(4) c step sub by (auto split: if_splits)
    then have "u \<le> t" using later by auto
    then show ?thesis using True by simp
  next
    case False
    then have fresh: "\<not> (m = n \<and> ok)" using accept_iff [OF Cons.prems(1), of m u] Cons.prems(2) step by auto
    then have "seen_at s' n = Some t0" using accept_seen [OF Cons.prems(1), of m u n] Cons.prems(2) step False by auto
    moreover have "(n, t) \<in> set (accepted_calls accept s' calls)" using Cons.prems(4) c step fresh by (auto split: if_splits)
    ultimately show ?thesis using Cons.IH [OF v] Cons.prems(3) c by simp
  qed
qed simp

lemma accepted_apart:
  "valid s \<Longrightarrow> sorted (map snd calls) \<Longrightarrow>
   sorted_wrt (\<lambda>(n, t) (m, u). n = m \<longrightarrow> u - t > window) (accepted_calls accept s calls)"
proof (induction calls arbitrary: s)
  case (Cons c calls)
  obtain n t where c: "c = (n, t)" by (cases c)
  obtain ok s' where step: "accept s n t = (ok, s')" by fastforce
  have v: "valid s'" using accept_valid [OF Cons.prems(1), of n t] step by simp
  have "u - t > window" if "ok" "(n, u) \<in> set (accepted_calls accept s' calls)" for u
    using no_replay_after [OF v _ _ that(2), of t] accept_seen [OF Cons.prems(1), of n t n] step that(1) Cons.prems(2) c by auto
  then show ?case using Cons.IH [OF v] Cons.prems(2) c step by auto
qed simp

end

end
