(* ===== verification/Json.thy ===== *)
theory Json
  imports Prelude
begin

text \<open>
  The JSON documents the services exchange and store: the values of Python's \<open>json\<close> module
  without floats, \<open>json.dumps(..., sort_keys=True)\<close> with its two separator settings,
  \<open>json.loads\<close>, and the round trip between them. \<open>canonical_json\<close> of
  reference/telegraph_federation_demo.py is the compact setting.
\<close>

section \<open>Values\<close>

datatype json = JNull | JBool bool | JInt int | JStr string | JList "json list"
  | JObj "(string \<times> json) list"

text \<open>\<open>isinstance\<close> tests and conversions; a Python \<open>bool\<close> is an \<open>int\<close>.\<close>

fun as_str :: "json \<Rightarrow> string option" where
  "as_str (JStr s) = Some s"
| "as_str _ = None"

fun as_int :: "json \<Rightarrow> int option" where
  "as_int (JInt i) = Some i"
| "as_int (JBool b) = Some (if b then 1 else 0)"
| "as_int _ = None"

fun as_list :: "json \<Rightarrow> json list option" where
  "as_list (JList js) = Some js"
| "as_list _ = None"

fun as_obj :: "json \<Rightarrow> (string, json) dict option" where
  "as_obj (JObj d) = Some d"
| "as_obj _ = None"

text \<open>\<open>doc.get(k)\<close>: the value, or \<open>None\<close> when the key is absent.\<close>

definition jget :: "(string, json) dict \<Rightarrow> string \<Rightarrow> json" where
  "jget d k = (case dget d k of None \<Rightarrow> JNull | Some v \<Rightarrow> v)"

definition opt_str :: "string option \<Rightarrow> json" where
  "opt_str v = (case v of None \<Rightarrow> JNull | Some t \<Rightarrow> JStr t)"

definition jget_default :: "(string, json) dict \<Rightarrow> string \<Rightarrow> json \<Rightarrow> json" where
  "jget_default d k v0 = (case dget d k of None \<Rightarrow> v0 | Some v \<Rightarrow> v)"

text \<open>\<open>bool(x)\<close> and \<open>int(x)\<close>.\<close>

fun truthy :: "json \<Rightarrow> bool" where
  "truthy JNull = False"
| "truthy (JBool b) = b"
| "truthy (JInt i) = (i \<noteq> 0)"
| "truthy (JStr s) = (s \<noteq> [])"
| "truthy (JList js) = (js \<noteq> [])"
| "truthy (JObj d) = (d \<noteq> [])"

fun int_of_json :: "json \<Rightarrow> int outcome" where
  "int_of_json (JInt i) = Inr i"
| "int_of_json (JBool b) = Inr (if b then 1 else 0)"
| "int_of_json (JStr s) =
     (case int_of_str s of None \<Rightarrow> Inl (ValueError ''invalid literal for int()'') | Some i \<Rightarrow> Inr i)"
| "int_of_json _ = Inl (TypeError ''int() argument must be a string or a number'')"

text \<open>Objects as Python builds them: distinct keys at every level.\<close>

fun wf_json :: "json \<Rightarrow> bool" where
  "wf_json (JList js) = list_all wf_json js"
| "wf_json (JObj d) = (distinct (map fst d) \<and> list_all (\<lambda>kv. wf_json (snd kv)) d)"
| "wf_json _ = True"

section \<open>json.dumps\<close>

text \<open>\<open>sort_keys=True\<close>: every object's members in the order of their keys.\<close>

primrec canon :: "json \<Rightarrow> json" where
  "canon JNull = JNull"
| "canon (JBool b) = JBool b"
| "canon (JInt i) = JInt i"
| "canon (JStr s) = JStr s"
| "canon (JList js) = JList (map canon js)"
| "canon (JObj d) = JObj (sort_key fst (map (map_prod id canon) d))"

definition hex_char :: "nat \<Rightarrow> char" where
  "hex_char d = (if d < 10 then char_of (48 + d) else char_of (87 + d))"

definition hex_val :: "char \<Rightarrow> nat option" where
  "hex_val c =
     (let n = code c in
      if 48 \<le> n \<and> n \<le> 57 then Some (n - 48)
      else if 97 \<le> n \<and> n \<le> 102 then Some (n - 87)
      else if 65 \<le> n \<and> n \<le> 70 then Some (n - 55) else None)"

text \<open>The escapes of \<open>ensure_ascii\<close>: named escapes, then four hexadecimal digits.\<close>

definition esc_char :: "char \<Rightarrow> string" where
  "esc_char c =
     (let n = code c in
      if n = 34 then [CHR 0x5C, CHR 0x22]
      else if n = 92 then [CHR 0x5C, CHR 0x5C]
      else if n = 10 then [CHR 0x5C, CHR ''n'']
      else if n = 13 then [CHR 0x5C, CHR ''r'']
      else if n = 9 then [CHR 0x5C, CHR ''t'']
      else if n = 8 then [CHR 0x5C, CHR ''b'']
      else if n = 12 then [CHR 0x5C, CHR ''f'']
      else if 32 \<le> n \<and> n \<le> 126 then [c]
      else [CHR 0x5C, CHR ''u'', CHR ''0'', CHR ''0'', hex_char (n div 16), hex_char (n mod 16)])"

definition emit_str :: "string \<Rightarrow> string" where
  "emit_str s = CHR 0x22 # concat (map esc_char s) @ [CHR 0x22]"

fun join :: "string \<Rightarrow> string list \<Rightarrow> string" where
  "join sep [] = []"
| "join sep [x] = x"
| "join sep (x # y # xs) = x @ sep @ join sep (y # xs)"

text \<open>The separators: \<open>(",", ":")\<close> when \<open>tight\<close>, else \<open>(", ", ": ")\<close>.\<close>

definition item_sep :: "bool \<Rightarrow> string" where
  "item_sep tight = (if tight then '','' else '', '')"

definition key_sep :: "bool \<Rightarrow> string" where
  "key_sep tight = (if tight then '':'' else '': '')"

primrec emit :: "bool \<Rightarrow> json \<Rightarrow> string" where
  "emit sp JNull = ''null''"
| "emit sp (JBool b) = (if b then ''true'' else ''false'')"
| "emit sp (JInt i) = show_int i"
| "emit sp (JStr s) = emit_str s"
| "emit sp (JList js) = CHR ''['' # join (item_sep sp) (map (emit sp) js) @ '']''"
| "emit sp (JObj d) =
     CHR 0x7B # join (item_sep sp)
       (map (\<lambda>kv. emit_str (fst kv) @ key_sep sp @ snd kv) (map (map_prod id (emit sp)) d)) @ [CHR 0x7D]"

definition json_dumps :: "bool \<Rightarrow> json \<Rightarrow> string" where
  "json_dumps tight j = emit tight (canon j)"

definition canonical_json :: "json \<Rightarrow> string" where
  "canonical_json j = json_dumps True j"

section \<open>json.loads\<close>

definition skip_ws :: "string \<Rightarrow> string" where
  "skip_ws = dropWhile (\<lambda>c. code c \<in> {9, 10, 13, 32})"

definition simple_escape :: "char \<Rightarrow> char option" where
  "simple_escape c =
     (let n = code c in
      if n = 34 \<or> n = 92 \<or> n = 47 then Some c
      else if n = 110 then Some (char_of (10::nat))
      else if n = 114 then Some (char_of (13::nat))
      else if n = 116 then Some (char_of (9::nat))
      else if n = 98 then Some (char_of (8::nat))
      else if n = 102 then Some (char_of (12::nat))
      else None)"

definition hex_code :: "char \<Rightarrow> char \<Rightarrow> char \<Rightarrow> char \<Rightarrow> nat option" where
  "hex_code a b c d =
     (case (hex_val a, hex_val b, hex_val c, hex_val d) of
        (Some x, Some y, Some z, Some w) \<Rightarrow> Some (x * 4096 + y * 256 + z * 16 + w)
      | _ \<Rightarrow> None)"

text \<open>The text after an opening quote: the decoded string and what follows the closing quote.\<close>

fun parse_str :: "string \<Rightarrow> (string \<times> string) option" where
  "parse_str [] = None"
| "parse_str (c # r) =
     (if code c = 34 then Some ([], r)
      else if code c = 92 then
        (case r of
           [] \<Rightarrow> None
         | e # r' \<Rightarrow>
             if code e = 117 then
               (case r' of
                  w # x # y # z # r'' \<Rightarrow>
                    (case hex_code w x y z of
                       None \<Rightarrow> None
                     | Some n \<Rightarrow> if n < 256 then map_option (apfst ((#) (char_of n))) (parse_str r'') else None)
                | _ \<Rightarrow> None)
             else (case simple_escape e of
                     None \<Rightarrow> None
                   | Some ch \<Rightarrow> map_option (apfst ((#) ch)) (parse_str r')))
      else if code c < 32 then None
      else map_option (apfst ((#) c)) (parse_str r))"

definition number_end :: "string \<Rightarrow> bool" where
  "number_end r \<longleftrightarrow> (case r of [] \<Rightarrow> True | c # _ \<Rightarrow> code c \<notin> {46, 69, 101})"

definition parse_digits :: "string \<Rightarrow> (nat \<times> string) option" where
  "parse_digits s =
     (case s of
        [] \<Rightarrow> None
      | c # r \<Rightarrow>
          if \<not> is_digit c then None
          else let ds = (if code c = 48 then [c] else takeWhile is_digit s); r' = drop (length ds) s
               in if number_end r' then Some (digits_value 0 ds, r') else None)"

definition parse_number :: "string \<Rightarrow> (int \<times> string) option" where
  "parse_number s =
     (case s of
        [] \<Rightarrow> None
      | c # r \<Rightarrow>
          if code c = 45 then map_option (apfst (\<lambda>n. - int n)) (parse_digits r)
          else map_option (apfst int) (parse_digits s))"

text \<open>A dict from key/value pairs: a repeated key keeps its first place and its last value.\<close>

definition dict_of :: "('k \<times> 'v) list \<Rightarrow> ('k, 'v) dict" where
  "dict_of kvs = foldl (\<lambda>d kv. dset d (fst kv) (snd kv)) [] kvs"

fun parse_value :: "nat \<Rightarrow> string \<Rightarrow> (json \<times> string) option"
  and parse_items :: "nat \<Rightarrow> string \<Rightarrow> (json list \<times> string) option"
  and parse_members :: "nat \<Rightarrow> string \<Rightarrow> ((string \<times> json) list \<times> string) option" where
  "parse_value 0 s = None"
| "parse_value (Suc n) s =
     (case skip_ws s of
        [] \<Rightarrow> None
      | c # r \<Rightarrow>
          if code c = 34 then map_option (apfst JStr) (parse_str r)
          else if code c = 91 then
            (case skip_ws r of
               [] \<Rightarrow> None
             | d # r' \<Rightarrow> if code d = 93 then Some (JList [], r')
                        else map_option (apfst JList) (parse_items n r))
          else if code c = 123 then
            (case skip_ws r of
               [] \<Rightarrow> None
             | d # r' \<Rightarrow> if code d = 125 then Some (JObj [], r')
                        else map_option (apfst (\<lambda>kvs. JObj (dict_of kvs))) (parse_members n r))
          else if starts_with (c # r) ''null'' then Some (JNull, drop 4 (c # r))
          else if starts_with (c # r) ''true'' then Some (JBool True, drop 4 (c # r))
          else if starts_with (c # r) ''false'' then Some (JBool False, drop 5 (c # r))
          else map_option (apfst JInt) (parse_number (c # r)))"
| "parse_items 0 s = None"
| "parse_items (Suc n) s =
     (case parse_value n s of
        None \<Rightarrow> None
      | Some (v, r) \<Rightarrow>
          (case skip_ws r of
             [] \<Rightarrow> None
           | c # r' \<Rightarrow>
               if code c = 44 then map_option (apfst ((#) v)) (parse_items n r')
               else if code c = 93 then Some ([v], r') else None))"
| "parse_members 0 s = None"
| "parse_members (Suc n) s =
     (case skip_ws s of
        [] \<Rightarrow> None
      | q # r \<Rightarrow>
          if code q \<noteq> 34 then None
          else (case parse_str r of
                  None \<Rightarrow> None
                | Some (k, r1) \<Rightarrow>
                    (case skip_ws r1 of
                       [] \<Rightarrow> None
                     | c # r2 \<Rightarrow>
                         if code c \<noteq> 58 then None
                         else (case parse_value n r2 of
                                 None \<Rightarrow> None
                               | Some (v, r3) \<Rightarrow>
                                   (case skip_ws r3 of
                                      [] \<Rightarrow> None
                                    | e # r4 \<Rightarrow>
                                        if code e = 44 then map_option (apfst ((#) (k, v))) (parse_members n r4)
                                        else if code e = 125 then Some ([(k, v)], r4) else None)))))"

definition json_loads :: "string \<Rightarrow> json option" where
  "json_loads s =
     (case parse_value (Suc (length s)) s of
        None \<Rightarrow> None
      | Some (j, r) \<Rightarrow> if skip_ws r = [] then Some j else None)"

section \<open>Round trip\<close>

lemma skip_ws_simps [simp]:
  "skip_ws [] = []"
  "skip_ws (c # s) = (if code c \<in> {9, 10, 13, 32} then skip_ws s else c # s)"
  by (simp_all add: skip_ws_def)

lemma map_fst_canon [simp]: "map fst (map (map_prod id f) d) = map fst d"
  by (simp add: comp_def)

lemma mset_map_sort: "mset (map f (sort_key f xs)) = mset (map f xs)"
  by simp

lemma distinct_map_sort [simp]: "distinct (map f (sort_key f xs)) \<longleftrightarrow> distinct (map f xs)"
  using mset_map_sort by (rule mset_eq_imp_distinct_iff)

lemma canon_wf: "wf_json j \<Longrightarrow> wf_json (canon j)"
proof (induction j)
  case (JObj d)
  have "wf_json (canon v)" if "(k, v) \<in> set d" for k v
    using JObj.IH [of "(k, v)" v] JObj.prems that by (auto simp: list_all_iff)
  then show ?case using JObj.prems by (auto simp: list_all_iff comp_def simp del: map_map)
qed (auto simp: list_all_iff)

lemma canon_idem: "canon (canon j) = canon j"
proof (induction j)
  case (JObj d)
  have "map (map_prod id canon) (sort_key fst (map (map_prod id canon) d)) =
      sort_key fst (map (map_prod id canon) d)" (is "map _ ?xs = ?xs")
  proof (rule map_idI)
    fix kv assume "kv \<in> set ?xs"
    then show "map_prod id canon kv = kv" using JObj.IH by (auto simp: snds.simps)
  qed
  moreover have "sort_key fst ?xs = ?xs" by (simp add: sort_key_id_if_sorted)
  ultimately show ?case by simp
qed auto

lemma hex_val_char: "d < 16 \<Longrightarrow> hex_val (hex_char d) = Some d"
  by (auto simp: hex_val_def hex_char_def Let_def)

lemma char_eqI: "code c = n \<Longrightarrow> c = char_of n"
  by (metis char_of_char)

lemma parse_str_esc: "parse_str (esc_char c @ t) = map_option (apfst ((#) c)) (parse_str t)"
proof -
  have lt: "code c < 256" by simp
  then have hi: "code c div 16 < 16" by (simp add: less_mult_imp_div_less)
  have hx: "hex_code (CHR ''0'') (CHR ''0'') (hex_char (code c div 16)) (hex_char (code c mod 16)) = Some (code c)"
    using hi by (simp add: hex_code_def hex_val_char hex_val_def [of "CHR ''0''"])
  have named: "char_of (92::nat) = CHR 0x5C" "char_of (34::nat) = CHR 0x22" by (simp_all add: char_of_eq_iff)
  show ?thesis
    unfolding esc_char_def Let_def
    using hx lt by (auto simp: simple_escape_def Let_def named dest!: char_eqI)
qed

lemma parse_emit_str: "parse_str (concat (map esc_char s) @ CHR 0x22 # t) = Some (s, t)"
  by (induction s) (simp_all add: parse_str_esc)

text \<open>Numbers: decimal numerals have no leading zero, so the reader takes the whole numeral.\<close>

lemma show_nat_head: "n \<noteq> 0 \<Longrightarrow> hd (show_nat n) \<noteq> CHR ''0''"
proof (induction n rule: show_nat.induct)
  case (1 n)
  show ?case
  proof (cases "n < 10")
    case True
    with 1 have "digit_val (hd (show_nat n)) \<noteq> 0" by (simp add: show_nat.simps [of n])
    moreover have "digit_val (CHR ''0'') = 0" by (simp add: digit_val_def)
    ultimately show ?thesis by metis
  next
    case False
    with 1 show ?thesis by (simp add: show_nat.simps [of n])
  qed
qed

text \<open>What may follow a value: nothing a numeral could absorb.\<close>

definition value_end :: "string \<Rightarrow> bool" where
  "value_end r \<longleftrightarrow> (case r of [] \<Rightarrow> True | c # _ \<Rightarrow> \<not> is_digit c \<and> code c \<notin> {46, 69, 101})"

lemma value_end_simps [simp]:
  "value_end []" "value_end (c # r) \<longleftrightarrow> \<not> is_digit c \<and> code c \<notin> {46, 69, 101}"
  by (simp_all add: value_end_def)

lemma takeWhile_digits: "list_all is_digit s \<Longrightarrow> value_end r \<Longrightarrow> takeWhile is_digit (s @ r) = s"
  by (induction s) (auto simp: value_end_def split: list.splits)

lemma parse_show_digits: "value_end r \<Longrightarrow> parse_digits (show_nat n @ r) = Some (n, r)"
proof -
  assume r: "value_end r"
  then have stop: "number_end r" by (auto simp: number_end_def value_end_def split: list.splits)
  obtain c t where ct: "show_nat n = c # t" by (meson neq_Nil_conv show_nat_nonempty)
  have d: "is_digit c" using show_nat_digits [of n] ct by simp
  show ?thesis
  proof (cases "n = 0")
    case True
    have "show_nat 0 = ''0''" by (simp add: show_nat.simps [of 0] digit_char_def char_of_eq_iff)
    with True show ?thesis using stop by (simp add: parse_digits_def is_digit_def digit_val_def)
  next
    case False
    then have "c \<noteq> CHR ''0''" using show_nat_head [of n] ct by simp
    then have c48: "code c \<noteq> 48" by (auto simp: char_of_eq_iff dest!: char_eqI)
    have "takeWhile is_digit (c # t @ r) = c # t"
      using takeWhile_digits [OF show_nat_digits r, of n] ct by simp
    moreover have "digits_value 0 (c # t) = n" using show_nat_value [of n] ct by simp
    ultimately show ?thesis using d c48 stop ct by (simp add: parse_digits_def Let_def del: digits_value_simps takeWhile.simps)
  qed
qed

lemma parse_show_number: "value_end r \<Longrightarrow> parse_number (show_int i @ r) = Some (i, r)"
proof -
  assume r: "value_end r"
  obtain c t where ct: "show_nat (nat i) = c # t" by (meson neq_Nil_conv show_nat_nonempty)
  have d: "is_digit c" using show_nat_digits [of "nat i"] ct by simp
  have pos: "parse_digits (c # t @ r) = Some (nat i, r)" using parse_show_digits [OF r, of "nat i"] ct by simp
  from d have c45: "code c \<noteq> 45" by (simp add: is_digit_def)
  show ?thesis
  proof (cases "i < 0")
    case True
    then show ?thesis using parse_show_digits [OF r, of "nat (- i)"] by (simp add: parse_number_def show_int_def)
  next
    case False
    then show ?thesis using pos c45 ct by (simp add: parse_number_def show_int_def)
  qed
qed

text \<open>The first character of an emitted value: never white space or a closing bracket.\<close>

lemma show_int_head: "\<exists>c t. show_int i = c # t \<and> (is_digit c \<or> c = CHR ''-'')"
proof -
  obtain c t where "show_nat (nat i) = c # t" by (meson neq_Nil_conv show_nat_nonempty)
  moreover then have "is_digit c" using show_nat_digits [of "nat i"] by simp
  ultimately show ?thesis by (auto simp: show_int_def)
qed

lemma emit_head:
  "\<exists>c t. emit sp j = c # t \<and> code c \<notin> {9, 10, 13, 32, 93, 125} \<and> (case j of JObj _ \<Rightarrow> code c = 123 | _ \<Rightarrow> True)"
proof (cases j)
  case (JInt i)
  then show ?thesis using show_int_head [of i] by (auto simp: is_digit_def)
qed (auto simp: emit_str_def)

text \<open>The nesting fuel of a value, never more than the length of its text.\<close>

primrec jsize :: "json \<Rightarrow> nat" where
  "jsize JNull = 1"
| "jsize (JBool b) = 1"
| "jsize (JInt i) = 1"
| "jsize (JStr s) = 1"
| "jsize (JList js) = Suc (sum_list (map Suc (map jsize js)))"
| "jsize (JObj d) = Suc (sum_list (map (\<lambda>kv. Suc (snd kv)) (map (map_prod id jsize) d)))"

lemma jsize_pos: "0 < jsize j"
  by (cases j) auto

lemma length_join:
  "1 \<le> length sep \<Longrightarrow> list_all2 (\<lambda>n x. n \<le> length x) ns xs \<Longrightarrow>
   sum_list (map Suc ns) \<le> Suc (length (join sep xs))"
proof (induction sep xs arbitrary: ns rule: join.induct)
  case (3 sep x y xs)
  then obtain n m ms where ns: "ns = n # m # ms" "n \<le> length x" "list_all2 (\<lambda>n x. n \<le> length x) (m # ms) (y # xs)"
    by (auto simp: list_all2_Cons2)
  have "sum_list (map Suc (m # ms)) \<le> Suc (length (join sep (y # xs)))"
    by (rule "3.IH" [OF "3.prems"(1) ns(3)])
  with ns(1,2) "3.prems"(1) show ?case by simp
qed (auto simp: list_all2_Cons2)

lemma jsize_le_length: "jsize j \<le> length (emit sp j)"
proof (induction j)
  case (JInt i)
  then show ?case using show_int_head [of i] by (auto simp: Suc_le_eq)
next
  case (JList js)
  have "list_all2 (\<lambda>n x. n \<le> length x) (map jsize js) (map (emit sp) js)"
    using JList by (simp add: list_all2_conv_all_nth)
  from length_join [OF _ this, of "item_sep sp"] show ?case by (simp add: item_sep_def)
next
  case (JObj d)
  have "jsize (snd kv) \<le> length (emit sp (snd kv))" if "kv \<in> set d" for kv
    using JObj [of kv "snd kv"] that by (auto simp: snds.simps)
  then have "list_all2 (\<lambda>n x. n \<le> length x) (map (\<lambda>kv. jsize (snd kv)) d)
      (map (\<lambda>kv. emit_str (fst kv) @ key_sep sp @ emit sp (snd kv)) d)"
    by (simp add: list_all2_map1 list_all2_map2 list_all2_same trans_le_add2)
  from length_join [OF _ this, of "item_sep sp"] show ?case
    by (simp add: item_sep_def comp_def)
qed (auto simp: emit_str_def)

lemma parse_value_space [simp]: "parse_value n (CHR '' '' # s) = parse_value n s"
  by (cases n) simp_all

lemma parse_members_space [simp]: "parse_members n (CHR '' '' # s) = parse_members n s"
  by (cases n) simp_all

lemma parse_items_space [simp]: "parse_items n (CHR '' '' # s) = parse_items n s"
  by (cases n) simp_all

text \<open>A separator is its character and white space that the reader skips.\<close>

lemma item_sepE:
  obtains ws where "item_sep sp = CHR '','' # ws"
    "\<And>n s. parse_items n (ws @ s) = parse_items n s" "\<And>n s. parse_members n (ws @ s) = parse_members n s"
  using that [of "drop 1 (item_sep sp)"] by (simp add: item_sep_def split: if_splits)

lemma key_sepE:
  obtains ws where "key_sep sp = CHR '':'' # ws" "\<And>n s. parse_value n (ws @ s) = parse_value n s"
  using that [of "drop 1 (key_sep sp)"] by (simp add: key_sep_def split: if_splits)

definition reads_back :: "bool \<Rightarrow> json \<Rightarrow> bool" where
  "reads_back sp j \<longleftrightarrow> (\<forall>n r. jsize j \<le> n \<longrightarrow> value_end r \<longrightarrow> parse_value n (emit sp j @ r) = Some (j, r))"

lemma parse_emit_items:
  assumes "js \<noteq> []" "\<forall>j \<in> set js. reads_back sp j" "sum_list (map Suc (map jsize js)) \<le> n"
  shows "parse_items n (join (item_sep sp) (map (emit sp) js) @ CHR '']'' # r) = Some (js, r)"
  using assms
proof (induction js arbitrary: n rule: list_nonempty_induct)
  case (single j)
  then obtain m where "n = Suc m" "jsize j \<le> m" by (cases n) auto
  with single show ?case by (simp add: reads_back_def is_digit_def)
next
  case (cons j js)
  then obtain m where m: "n = Suc m" "jsize j \<le> m" "sum_list (map Suc (map jsize js)) \<le> m"
    by (cases n) auto
  obtain k ks where js: "js = k # ks" using cons.hyps by (cases js) auto
  obtain ws where ws: "item_sep sp = CHR '','' # ws" "\<And>n s. parse_items n (ws @ s) = parse_items n s"
    using item_sepE [of sp] by metis
  let ?rest = "join (item_sep sp) (map (emit sp) js) @ CHR '']'' # r"
  have "parse_value m (emit sp j @ CHR '','' # ws @ ?rest) = Some (j, CHR '','' # ws @ ?rest)"
    using cons.prems(1) m(2) by (simp add: reads_back_def is_digit_def)
  moreover have "parse_items m ?rest = Some (js, r)" using cons.IH cons.prems(1) m(3) by simp
  moreover have "join (item_sep sp) (map (emit sp) (j # js)) @ CHR '']'' # r = emit sp j @ CHR '','' # ws @ ?rest"
    using js ws(1) by simp
  ultimately show ?case using m(1) by (simp add: ws(2))
qed

definition emit_member :: "bool \<Rightarrow> string \<times> json \<Rightarrow> string" where
  "emit_member sp kv = emit_str (fst kv) @ key_sep sp @ emit sp (snd kv)"

lemma emit_JObj:
  "emit sp (JObj d) = CHR 0x7B # join (item_sep sp) (map (emit_member sp) d) @ [CHR 0x7D]"
  by (simp add: emit_member_def [abs_def] comp_def)

lemma parse_member_step:
  assumes "reads_back sp v" "jsize v \<le> n" "c = CHR '','' \<or> c = CHR 0x7D"
  shows "parse_members (Suc n) (emit_member sp (k, v) @ c # r) =
    (if c = CHR '','' then map_option (apfst ((#) (k, v))) (parse_members n r) else Some ([(k, v)], r))"
proof -
  obtain ws where ws: "key_sep sp = CHR '':'' # ws" "\<And>n s. parse_value n (ws @ s) = parse_value n s"
    using key_sepE [of sp] by metis
  have str: "parse_str (concat (map esc_char k) @ CHR 0x22 # CHR '':'' # ws @ emit sp v @ c # r) =
      Some (k, CHR '':'' # ws @ emit sp v @ c # r)"
    by (rule parse_emit_str)
  have "value_end (c # r)" using assms(3) by (auto simp: is_digit_def)
  then have "parse_value n (ws @ emit sp v @ c # r) = Some (v, c # r)"
    using assms(1,2) by (simp add: ws(2) reads_back_def)
  with str assms(3) show ?thesis by (auto simp: emit_member_def emit_str_def ws(1))
qed

lemma parse_emit_members:
  assumes "d \<noteq> []" "\<forall>kv \<in> set d. reads_back sp (snd kv)" "sum_list (map (\<lambda>kv. Suc (jsize (snd kv))) d) \<le> n"
  shows "parse_members n (join (item_sep sp) (map (emit_member sp) d) @ CHR 0x7D # r) = Some (d, r)"
  using assms
proof (induction d arbitrary: n rule: list_nonempty_induct)
  case (single kv)
  then obtain m where "n = Suc m" "jsize (snd kv) \<le> m" by (cases n) auto
  with single parse_member_step [of sp "snd kv" m "CHR 0x7D" "fst kv" r] show ?case by simp
next
  case (cons kv d)
  then obtain m where m: "n = Suc m" "jsize (snd kv) \<le> m" "sum_list (map (\<lambda>kv. Suc (jsize (snd kv))) d) \<le> m"
    by (cases n) auto
  obtain k ks where d: "d = k # ks" using cons.hyps by (cases d) auto
  obtain ws where ws: "item_sep sp = CHR '','' # ws" "\<And>n s. parse_members n (ws @ s) = parse_members n s"
    using item_sepE [of sp] by metis
  let ?rest = "join (item_sep sp) (map (emit_member sp) d) @ CHR 0x7D # r"
  have "parse_members m ?rest = Some (d, r)" using cons.IH cons.prems(1) m(3) by simp
  moreover have "join (item_sep sp) (map (emit_member sp) (kv # d)) @ CHR 0x7D # r = emit_member sp kv @ CHR '','' # ws @ ?rest"
    using d ws(1) by simp
  ultimately show ?case
    using m(1,2) cons.prems(1) parse_member_step [of sp "snd kv" m "CHR '',''" "fst kv" "ws @ ?rest"]
    by (simp add: ws(2))
qed

lemma dict_of_append: "dict_of (xs @ [kv]) = dset (dict_of xs) (fst kv) (snd kv)"
  by (simp add: dict_of_def)

lemma dset_new: "k \<notin> set (dkeys d) \<Longrightarrow> dset d k v = d @ [(k, v)]"
  by (induction d) auto

lemma dict_of_distinct: "distinct (map fst d) \<Longrightarrow> dict_of d = d"
  by (induction d rule: rev_induct) (auto simp: dict_of_append dset_new dict_of_def)

lemma reads_backI:
  assumes "\<And>m r. jsize j \<le> Suc m \<Longrightarrow> value_end r \<Longrightarrow> parse_value (Suc m) (emit sp j @ r) = Some (j, r)"
  shows "reads_back sp j"
  unfolding reads_back_def
proof (intro allI impI)
  fix n r assume n: "jsize j \<le> n" and r: "value_end r"
  then obtain m where "n = Suc m" using jsize_pos [of j] by (cases n) auto
  with assms n r show "parse_value n (emit sp j @ r) = Some (j, r)" by simp
qed

lemma reads_back_int: "reads_back sp (JInt i)"
proof (rule reads_backI)
  fix m r assume "value_end r"
  moreover obtain c t where ct: "show_int i = c # t" "is_digit c \<or> c = CHR ''-''" using show_int_head by blast
  ultimately have "parse_number (c # t @ r) = Some (i, r)" using parse_show_number [of r i] by simp
  moreover have "code c \<notin> {9, 10, 13, 32, 34, 91, 123}" using ct(2) by (auto simp: is_digit_def)
  moreover have "c \<noteq> CHR ''n''" "c \<noteq> CHR ''t''" "c \<noteq> CHR ''f''" using ct(2) by (auto simp: is_digit_def)
  ultimately show "parse_value (Suc m) (emit sp (JInt i) @ r) = Some (JInt i, r)"
    by (simp add: ct(1) starts_with_def)
qed

lemma reads_back_list:
  assumes "\<forall>j \<in> set js. reads_back sp j"
  shows "reads_back sp (JList js)"
proof (rule reads_backI)
  fix m r assume "jsize (JList js) \<le> Suc m"
  then have le: "sum_list (map Suc (map jsize js)) \<le> m" by simp
  show "parse_value (Suc m) (emit sp (JList js) @ r) = Some (JList js, r)"
  proof (cases js)
    case (Cons k ks)
    then have items: "parse_items m (join (item_sep sp) (map (emit sp) js) @ CHR '']'' # r) = Some (js, r)"
      using assms le by (intro parse_emit_items) auto
    obtain c t where "join (item_sep sp) (map (emit sp) js) = c # t" "code c \<notin> {9, 10, 13, 32, 93}"
      using emit_head [of sp k] Cons by (cases ks) auto
    with items show ?thesis by simp
  qed simp
qed

lemma reads_back_obj:
  assumes "\<forall>kv \<in> set d. reads_back sp (snd kv)" "distinct (map fst d)"
  shows "reads_back sp (JObj d)"
proof (rule reads_backI)
  fix m r assume "jsize (JObj d) \<le> Suc m"
  then have le: "sum_list (map (\<lambda>kv. Suc (jsize (snd kv))) d) \<le> m" by (simp add: comp_def)
  show "parse_value (Suc m) (emit sp (JObj d) @ r) = Some (JObj d, r)"
  proof (cases d)
    case (Cons kv ks)
    have items: "parse_members m (join (item_sep sp) (map (emit_member sp) d) @ CHR 0x7D # r) = Some (d, r)"
      using Cons le assms(1) by (intro parse_emit_members) auto
    obtain t where "join (item_sep sp) (map (emit_member sp) d) = CHR 0x22 # t"
      using Cons by (cases ks) (auto simp: emit_member_def emit_str_def)
    with items show ?thesis using assms(2) by (simp add: emit_JObj dict_of_distinct del: emit.simps)
  qed simp
qed

lemma parse_emit: "wf_json j \<Longrightarrow> reads_back sp j"
proof (induction j)
  case JNull
  show ?case by (rule reads_backI) (simp add: starts_with_def)
next
  case (JBool b)
  show ?case by (rule reads_backI) (simp add: starts_with_def)
next
  case (JInt i)
  show ?case by (rule reads_back_int)
next
  case (JStr s)
  show ?case by (rule reads_backI) (simp add: emit_str_def parse_emit_str)
next
  case (JList js)
  then show ?case by (intro reads_back_list) (simp add: list_all_iff)
next
  case (JObj d)
  have "reads_back sp (snd kv)" if "kv \<in> set d" for kv
    using JObj.IH [of kv "snd kv"] JObj.prems that by (auto simp: snds.simps list_all_iff)
  with JObj.prems show ?case by (intro reads_back_obj) auto
qed

lemma json_loads_emit: "wf_json j \<Longrightarrow> json_loads (emit sp j) = Some j"
proof -
  assume "wf_json j"
  then have "reads_back sp j" by (rule parse_emit)
  moreover have "jsize j \<le> Suc (length (emit sp j))" using jsize_le_length [of j sp] by simp
  ultimately have "parse_value (Suc (length (emit sp j))) (emit sp j @ []) = Some (j, [])"
    by (simp only: reads_back_def value_end_simps)
  then show ?thesis by (simp add: json_loads_def del: parse_value.simps)
qed

lemma json_loads_dumps: "wf_json j \<Longrightarrow> json_loads (json_dumps sp j) = Some (canon j)"
  by (simp add: json_dumps_def json_loads_emit canon_wf)

lemma json_dumps_eq_iff:
  "wf_json i \<Longrightarrow> wf_json j \<Longrightarrow> json_dumps sp i = json_dumps sp j \<longleftrightarrow> canon i = canon j"
  by (metis json_dumps_def json_loads_dumps option.inject)

lemma canonical_json_eq_iff:
  "wf_json i \<Longrightarrow> wf_json j \<Longrightarrow> canonical_json i = canonical_json j \<longleftrightarrow> canon i = canon j"
  by (simp add: canonical_json_def json_dumps_eq_iff)

lemma json_loads_canonical: "wf_json j \<Longrightarrow> json_loads (canonical_json j) = Some (canon j)"
  by (simp add: canonical_json_def json_loads_dumps)

end
