(* ===== verification/StoreForward.thy ===== *)
theory StoreForward
  imports Contracts Json
begin

text \<open>
  reference/telegraph_store_forward.py: the durable store-and-forward queue. The two SQLite tables
  are the row list and the event list of the state, in rowid order; an operation returns its
  outcome and the new state, and a \<open>with connection\<close> block that raises leaves the state as it was
  before the block. The clock (\<open>now\<close>), the jitter draw and the digest function are arguments.
\<close>

section \<open>Configuration and rows\<close>

datatype qstate = QQueued | QRetryWait | QInFlight | QCustodyTransferred
  | QDelivered | QExpired | QRejected | QCancelled

text \<open>\<open>TERMINAL_STATES\<close> and \<open>PRIORITY_WEIGHT\<close>.\<close>

definition terminal_state :: "qstate \<Rightarrow> bool" where
  "terminal_state st \<longleftrightarrow> st \<in> {QDelivered, QExpired, QRejected, QCancelled}"

definition priority_weight :: "string \<Rightarrow> int option" where
  "priority_weight p =
     map_of [(''emergency'', 0), (''urgent'', 10), (''normal'', 20), (''bulk'', 30)] p"

record retry_policy =
  rp_initial_seconds :: int
  rp_maximum_seconds :: int
  rp_multiplier :: rat
  rp_jitter_fraction :: rat
  rp_max_attempts :: int

record queue_limits =
  ql_max_messages :: int
  ql_max_bytes :: int
  ql_max_message_bytes :: int

record queue_config =
  qc_office_id :: string
  qc_retry_policy :: retry_policy
  qc_limits :: queue_limits

definition default_retry_policy :: retry_policy where
  "default_retry_policy = \<lparr>rp_initial_seconds = 5, rp_maximum_seconds = 3600, rp_multiplier = 2,
     rp_jitter_fraction = 1/5, rp_max_attempts = 12\<rparr>"

definition default_queue_limits :: queue_limits where
  "default_queue_limits = \<lparr>ql_max_messages = 10000, ql_max_bytes = 512 * 1024 * 1024,
     ql_max_message_bytes = 16 * 1024 * 1024\<rparr>"

text \<open>
  \<open>RetryPolicy.delay\<close>: floats as exact rationals; \<open>draw\<close> is the value of \<open>random()\<close>, from 0 up to 1,
  and \<open>uniform(a, b)\<close> is \<open>a + (b - a) * random()\<close>.
\<close>

text \<open>\<open>multiplier ** n\<close> of a float raises when the power leaves the range of the doubles.\<close>

definition float_bound :: rat where
  "float_bound = 2 ^ 1024"

definition float_power :: "rat \<Rightarrow> nat \<Rightarrow> rat outcome" where
  "float_power x n =
     (if float_bound \<le> \<bar>x ^ n\<bar> then Inl (OtherError ''Numerical result out of range'') else Inr (x ^ n))"

definition retry_base :: "retry_policy \<Rightarrow> int \<Rightarrow> rat outcome" where
  "retry_base p attempt =
     map_sum id (\<lambda>power. min (of_int (rp_maximum_seconds p)) (of_int (rp_initial_seconds p) * power))
       (float_power (rp_multiplier p) (nat (attempt - 1)))"

definition retry_delay :: "retry_policy \<Rightarrow> int \<Rightarrow> rat \<Rightarrow> int outcome" where
  "retry_delay p attempt draw =
     (if attempt < 1 then Inl (ValueError ''attempt must be positive'')
      else map_sum id (\<lambda>base.
             let jitter = base * rp_jitter_fraction p;
                 uniform = (base - jitter) + ((base + jitter) - (base - jitter)) * draw
             in max 1 (py_round uniform)) (retry_base p attempt))"

record qrow =
  q_message_id :: string
  q_destination :: string
  q_next_hop :: "string option"
  q_priority :: string
  q_priority_weight :: int
  q_envelope_json :: string
  q_envelope_digest :: string
  q_size_bytes :: int
  q_state :: qstate
  q_created_at :: int
  q_expires_at :: int
  q_next_attempt_at :: int
  q_attempt_count :: int
  q_last_error :: "string option"
  q_lease_owner :: "string option"
  q_lease_until :: "int option"
  q_custody_office :: "string option"
  q_custody_receipt_json :: "string option"
  q_delivered_at :: "int option"
  q_updated_at :: int

record qevent =
  qe_message_id :: string
  qe_event :: string
  qe_recorded_at :: int
  qe_detail_json :: string

record qstore =
  qs_rows :: "qrow list"
  qs_events :: "qevent list"

definition empty_qstore :: qstore where
  "empty_qstore = \<lparr>qs_rows = [], qs_events = []\<rparr>"

abbreviation find_msg :: "qstore \<Rightarrow> string \<Rightarrow> qrow option" where
  "find_msg s m \<equiv> find_row q_message_id m (qs_rows s)"

definition update_msg :: "string \<Rightarrow> (qrow \<Rightarrow> qrow) \<Rightarrow> qstore \<Rightarrow> qstore" where
  "update_msg m f s = s\<lparr>qs_rows := update_where (\<lambda>r. q_message_id r = m) f (qs_rows s)\<rparr>"

section \<open>Operations\<close>

definition envelope_digest :: "(string \<Rightarrow> string) \<Rightarrow> json \<Rightarrow> string" where
  "envelope_digest sha env = ''sha256:'' @ sha (canonical_json env)"

definition active_row :: "qrow \<Rightarrow> bool" where
  "active_row r \<longleftrightarrow> \<not> terminal_state (q_state r)"

definition queue_usage :: "qstore \<Rightarrow> int \<times> int" where
  "queue_usage s =
     (let active = filter active_row (qs_rows s)
      in (int (length active), sum_list (map q_size_bytes active)))"

definition add_qevent :: "string \<Rightarrow> string \<Rightarrow> int \<Rightarrow> json \<Rightarrow> qstore \<Rightarrow> qstore" where
  "add_qevent m e now detail s =
     s\<lparr>qs_events := qs_events s @
       [\<lparr>qe_message_id = m, qe_event = e, qe_recorded_at = now, qe_detail_json = json_dumps True detail\<rparr>]\<rparr>"

definition new_qrow ::
  "(string \<Rightarrow> string) \<Rightarrow> json \<Rightarrow> string \<Rightarrow> string \<Rightarrow> int \<Rightarrow> string \<Rightarrow> int \<Rightarrow> string option \<Rightarrow> int \<Rightarrow> qrow" where
  "new_qrow sha env m dest expires prio weight hop now =
     \<lparr>q_message_id = m, q_destination = dest, q_next_hop = hop, q_priority = prio,
      q_priority_weight = weight, q_envelope_json = canonical_json env,
      q_envelope_digest = envelope_digest sha env, q_size_bytes = int (length (canonical_json env)),
      q_state = QQueued, q_created_at = now, q_expires_at = expires, q_next_attempt_at = now,
      q_attempt_count = 0, q_last_error = None, q_lease_owner = None, q_lease_until = None,
      q_custody_office = None, q_custody_receipt_json = None, q_delivered_at = None,
      q_updated_at = now\<rparr>"

text \<open>The envelope is a dict; its text is ASCII, so its bytes are its characters.\<close>

definition enqueue ::
  "(string \<Rightarrow> string) \<Rightarrow> queue_config \<Rightarrow> (string, json) dict \<Rightarrow> string \<Rightarrow> int \<Rightarrow> string \<Rightarrow>
   string option \<Rightarrow> int \<Rightarrow> qstore \<Rightarrow> bool outcome \<times> qstore" where
  "enqueue sha cfg env dest expires prio hop now s =
     (case jget env ''message_id'' of
        JStr m \<Rightarrow>
          if m = [] then (Inl (ValueError ''envelope message_id is required''), s) else
          (case priority_weight prio of
             None \<Rightarrow> (Inl (ValueError ''invalid priority''), s)
           | Some weight \<Rightarrow>
               if expires \<le> now then (Inl (ValueError ''expires_at must be in the future''), s) else
               let size = int (length (canonical_json (JObj env))) in
               if size > ql_max_message_bytes (qc_limits cfg)
               then (Inl (QueueFullError ''message exceeds max_message_bytes''), s) else
               (case find_msg s m of
                  Some row \<Rightarrow>
                    if q_envelope_digest row \<noteq> envelope_digest sha (JObj env)
                    then (Inl (ValueError ''message_id collision with different envelope''), s)
                    else (Inr False, s)
                | None \<Rightarrow>
                    let (count, used) = queue_usage s in
                    if count \<ge> ql_max_messages (qc_limits cfg) \<or> used + size > ql_max_bytes (qc_limits cfg)
                    then (Inl (QueueFullError ''store-and-forward capacity exceeded''), s)
                    else (Inr True,
                      add_qevent m ''accepted_for_custody'' now
                        (JObj [(''office_id'', JStr (qc_office_id cfg))])
                        (s\<lparr>qs_rows := qs_rows s @ [new_qrow sha (JObj env) m dest expires prio weight hop now]\<rparr>))))
      | _ \<Rightarrow> (Inl (ValueError ''envelope message_id is required''), s))"

definition idle_row :: "qstate \<Rightarrow> int \<Rightarrow> qrow \<Rightarrow> qrow" where
  "idle_row st now r =
     r\<lparr>q_state := st, q_lease_owner := None, q_lease_until := None, q_updated_at := now\<rparr>"

definition expire_one :: "int \<Rightarrow> qstore \<Rightarrow> string \<Rightarrow> qstore" where
  "expire_one now s m = add_qevent m ''expired'' now (JObj []) (update_msg m (idle_row QExpired now) s)"

definition expire_queue :: "int \<Rightarrow> qstore \<Rightarrow> int \<times> qstore" where
  "expire_queue now s =
     (let ids = map q_message_id (filter (\<lambda>r. active_row r \<and> q_expires_at r \<le> now) (qs_rows s))
      in (int (length ids), foldl (expire_one now) s ids))"

definition lease_over :: "int \<Rightarrow> qrow \<Rightarrow> bool" where
  "lease_over now r \<longleftrightarrow>
     q_state r = QInFlight \<and> (case q_lease_until r of None \<Rightarrow> False | Some t \<Rightarrow> t \<le> now)"

definition release_expired_leases :: "int \<Rightarrow> qstore \<Rightarrow> qstore" where
  "release_expired_leases now s =
     s\<lparr>qs_rows := update_where (lease_over now) (idle_row QRetryWait now) (qs_rows s)\<rparr>"

definition waiting :: "qrow \<Rightarrow> bool" where
  "waiting r \<longleftrightarrow> q_state r = QQueued \<or> q_state r = QRetryWait"

definition due_row :: "int \<Rightarrow> qrow \<Rightarrow> bool" where
  "due_row now r \<longleftrightarrow> waiting r \<and> q_next_attempt_at r \<le> now \<and> now < q_expires_at r"

definition due_key :: "qrow \<Rightarrow> int \<times> int \<times> int \<times> string" where
  "due_key r = (q_priority_weight r, q_next_attempt_at r, q_created_at r, q_message_id r)"

record claimed =
  c_message_id :: string
  c_destination :: string
  c_next_hop :: "string option"
  c_priority :: string
  c_attempt_count :: int
  c_expires_at :: int
  c_envelope :: json

definition claim_row :: "string \<Rightarrow> int \<Rightarrow> int \<Rightarrow> qrow \<Rightarrow> qrow" where
  "claim_row worker lease now r =
     r\<lparr>q_state := QInFlight, q_lease_owner := Some worker, q_lease_until := Some (now + lease),
       q_updated_at := now\<rparr>"

definition claimed_item :: "qrow \<Rightarrow> json \<Rightarrow> claimed" where
  "claimed_item row env =
     \<lparr>c_message_id = q_message_id row, c_destination = q_destination row,
      c_next_hop = q_next_hop row, c_priority = q_priority row,
      c_attempt_count = q_attempt_count row, c_expires_at = q_expires_at row, c_envelope = env\<rparr>"

text \<open>
  One iteration of the claim loop: the guarded \<open>UPDATE\<close>, and only when a row changed the event and
  the claimed item, whose envelope is read back from its stored text.
\<close>

definition claim_one ::
  "string \<Rightarrow> int \<Rightarrow> int \<Rightarrow> (claimed list) outcome \<times> qstore \<Rightarrow> qrow \<Rightarrow> (claimed list) outcome \<times> qstore" where
  "claim_one worker lease now acc row =
     (case acc of
        (Inl e, s) \<Rightarrow> (Inl e, s)
      | (Inr done, s) \<Rightarrow>
          if (\<exists>r \<in> set (qs_rows s). q_message_id r = q_message_id row \<and> waiting r) then
            let s' = add_qevent (q_message_id row) ''delivery_attempt_started'' now
                       (JObj [(''worker_id'', JStr worker)])
                       (s\<lparr>qs_rows := update_where (\<lambda>r. q_message_id r = q_message_id row \<and> waiting r)
                          (claim_row worker lease now) (qs_rows s)\<rparr>)
            in (case json_loads (q_envelope_json row) of
                  None \<Rightarrow> (Inl (ValueError ''JSONDecodeError''), s')
                | Some env \<Rightarrow> (Inr (done @ [claimed_item row env]), s'))
          else (Inr done, s))"

definition claim_due ::
  "string \<Rightarrow> int \<Rightarrow> int \<Rightarrow> int \<Rightarrow> qstore \<Rightarrow> (claimed list) outcome \<times> qstore" where
  "claim_due worker limit lease now s =
     (if limit < 1 \<or> lease < 1
      then (Inl (ValueError ''limit and lease_seconds must be positive''), s)
      else
        let s1 = snd (expire_queue now s);
            s2 = release_expired_leases now s1;
            rows = take (nat limit) (sort_key due_key (filter (due_row now) (qs_rows s2)))
        in (case foldl (claim_one worker lease now) (Inr [], s2) rows of
              (Inl e, _) \<Rightarrow> (Inl e, s1)
            | (Inr items, s3) \<Rightarrow> (Inr items, s3)))"

definition owns_lease :: "string \<Rightarrow> qrow \<Rightarrow> bool" where
  "owns_lease worker r \<longleftrightarrow> q_state r = QInFlight \<and> q_lease_owner r = Some worker"

definition qstate_name :: "qstate \<Rightarrow> string" where
  "qstate_name st =
     (case st of QQueued \<Rightarrow> ''queued'' | QRetryWait \<Rightarrow> ''retry_wait'' | QInFlight \<Rightarrow> ''in_flight''
      | QCustodyTransferred \<Rightarrow> ''custody_transferred'' | QDelivered \<Rightarrow> ''delivered''
      | QExpired \<Rightarrow> ''expired'' | QRejected \<Rightarrow> ''rejected'' | QCancelled \<Rightarrow> ''cancelled'')"

text \<open>The verdict of \<open>fail\<close>: the new state and the time of the next attempt.\<close>

definition fail_verdict ::
  "retry_policy \<Rightarrow> qrow \<Rightarrow> int \<Rightarrow> bool \<Rightarrow> rat \<Rightarrow> (qstate \<times> int) outcome" where
  "fail_verdict p row now retryable draw =
     (let attempt = q_attempt_count row + 1 in
      if now \<ge> q_expires_at row then Inr (QExpired, now)
      else if \<not> retryable \<or> attempt \<ge> rp_max_attempts p then Inr (QRejected, now)
      else (case retry_delay p attempt draw of Inl e \<Rightarrow> Inl e | Inr d \<Rightarrow> Inr (QRetryWait, now + d)))"

definition fail_msg ::
  "queue_config \<Rightarrow> string \<Rightarrow> string \<Rightarrow> string \<Rightarrow> int \<Rightarrow> bool \<Rightarrow> rat \<Rightarrow> qstore \<Rightarrow> qstate outcome \<times> qstore" where
  "fail_msg cfg m worker err now retryable draw s =
     (case find_msg s m of
        None \<Rightarrow> (Inl (KeyError m), s)
      | Some row \<Rightarrow>
          if \<not> owns_lease worker row then (Inl (ValueError ''worker does not own active lease''), s) else
          (case fail_verdict (qc_retry_policy cfg) row now retryable draw of
             Inl e \<Rightarrow> (Inl e, s)
           | Inr (st, next) \<Rightarrow>
               let attempt = q_attempt_count row + 1 in
               (Inr st,
                add_qevent m ''delivery_failed'' now
                  (JObj [(''attempt'', JInt attempt), (''error'', JStr (take 1000 err)),
                     (''retryable'', JBool retryable),
                     (''next_attempt_at'', if st = QRetryWait then JInt next else JNull),
                     (''terminal_state'', if terminal_state st then JStr (qstate_name st) else JNull)])
                  (update_msg m (\<lambda>r. r\<lparr>q_state := st, q_attempt_count := attempt,
                     q_last_error := Some (take 1000 err), q_next_attempt_at := next,
                     q_lease_owner := None, q_lease_until := None, q_updated_at := now\<rparr>) s))))"

definition acknowledge_delivery ::
  "string \<Rightarrow> string \<Rightarrow> json \<Rightarrow> int \<Rightarrow> qstore \<Rightarrow> unit outcome \<times> qstore" where
  "acknowledge_delivery m worker receipt now s =
     (case find_msg s m of
        None \<Rightarrow> (Inl (KeyError m), s)
      | Some row \<Rightarrow>
          if \<not> owns_lease worker row then (Inl (ValueError ''worker does not own active lease''), s)
          else (Inr (),
            add_qevent m ''delivered'' now (JObj [(''receipt'', receipt)])
              (update_msg m (\<lambda>r. r\<lparr>q_state := QDelivered, q_delivered_at := Some now,
                 q_custody_receipt_json := Some (json_dumps True receipt), q_lease_owner := None,
                 q_lease_until := None, q_updated_at := now\<rparr>) s)))"

definition transfer_custody ::
  "string \<Rightarrow> string \<Rightarrow> string \<Rightarrow> json \<Rightarrow> int \<Rightarrow> qstore \<Rightarrow> unit outcome \<times> qstore" where
  "transfer_custody m worker office receipt now s =
     (case find_msg s m of
        None \<Rightarrow> (Inl (KeyError m), s)
      | Some row \<Rightarrow>
          if \<not> owns_lease worker row then (Inl (ValueError ''worker does not own active lease''), s)
          else (Inr (),
            add_qevent m ''custody_transferred'' now
              (JObj [(''receiving_office'', JStr office), (''receipt'', receipt)])
              (update_msg m (\<lambda>r. r\<lparr>q_state := QCustodyTransferred, q_custody_office := Some office,
                 q_custody_receipt_json := Some (json_dumps True receipt), q_lease_owner := None,
                 q_lease_until := None, q_updated_at := now\<rparr>) s)))"

definition cancel_msg :: "string \<Rightarrow> string \<Rightarrow> int \<Rightarrow> qstore \<Rightarrow> bool outcome \<times> qstore" where
  "cancel_msg m reason now s =
     (case find_msg s m of
        None \<Rightarrow> (Inl (KeyError m), s)
      | Some row \<Rightarrow>
          if terminal_state (q_state row) \<or> q_state row = QCustodyTransferred then (Inr False, s)
          else (Inr True,
            add_qevent m ''cancelled'' now (JObj [(''reason'', JStr (take 1000 reason))])
              (update_msg m (\<lambda>r. r\<lparr>q_state := QCancelled, q_last_error := Some (take 1000 reason),
                 q_lease_owner := None, q_lease_until := None, q_updated_at := now\<rparr>) s)))"

definition queue_status :: "string \<Rightarrow> qstore \<Rightarrow> ((string, json) dict) outcome" where
  "queue_status m s =
     (case find_msg s m of
        None \<Rightarrow> Inl (KeyError m)
      | Some row \<Rightarrow>
          let opt_str = (\<lambda>v. case v of None \<Rightarrow> JNull | Some t \<Rightarrow> JStr t) in
          Inr [(''message_id'', JStr (q_message_id row)), (''destination'', JStr (q_destination row)),
            (''next_hop'', opt_str (q_next_hop row)), (''priority'', JStr (q_priority row)),
            (''state'', JStr (qstate_name (q_state row))), (''attempt_count'', JInt (q_attempt_count row)),
            (''created_at'', JInt (q_created_at row)), (''expires_at'', JInt (q_expires_at row)),
            (''next_attempt_at'', JInt (q_next_attempt_at row)), (''last_error'', opt_str (q_last_error row)),
            (''custody_office'', opt_str (q_custody_office row)),
            (''delivered_at'', case q_delivered_at row of None \<Rightarrow> JNull | Some t \<Rightarrow> JInt t)])"

definition queue_events :: "string \<Rightarrow> qstore \<Rightarrow> (string \<times> int \<times> json option) list" where
  "queue_events m s =
     map (\<lambda>e. (qe_event e, qe_recorded_at e, json_loads (qe_detail_json e)))
       (filter (\<lambda>e. qe_message_id e = m) (qs_events s))"

text \<open>
  \<open>process_once\<close>: the sender is an argument that returns its outcome and receipt, or raises; any
  exception of the attempt becomes a retryable failure. \<open>draw\<close> gives each message's jitter.
\<close>

record process_counts =
  n_claimed :: int
  n_delivered :: int
  n_transferred :: int
  n_retry :: int
  n_rejected :: int

definition attempt_item ::
  "queue_config \<Rightarrow> string \<Rightarrow> (claimed \<Rightarrow> (string \<times> json) outcome) \<Rightarrow> int \<Rightarrow> rat \<Rightarrow> process_counts \<Rightarrow>
   claimed \<Rightarrow> qstore \<Rightarrow> process_counts outcome \<times> qstore" where
  "attempt_item cfg worker sender now draw n item s =
     (case sender item of
        Inl e \<Rightarrow> (Inl e, s)
      | Inr (outcome, receipt) \<Rightarrow>
          if outcome = ''delivered'' then
            (case acknowledge_delivery (c_message_id item) worker receipt now s of
               (Inl e, s') \<Rightarrow> (Inl e, s')
             | (Inr _, s') \<Rightarrow> (Inr (n\<lparr>n_delivered := n_delivered n + 1\<rparr>), s'))
          else if outcome = ''custody_transferred'' then
            (case receipt of
               JObj d \<Rightarrow>
                 (case jget d ''office_id'' of
                    JStr office \<Rightarrow>
                      if office = [] then (Inl (ValueError ''custody receipt office_id is required''), s) else
                      (case transfer_custody (c_message_id item) worker office receipt now s of
                         (Inl e, s') \<Rightarrow> (Inl e, s')
                       | (Inr _, s') \<Rightarrow> (Inr (n\<lparr>n_transferred := n_transferred n + 1\<rparr>), s'))
                  | _ \<Rightarrow> (Inl (ValueError ''custody receipt office_id is required''), s))
             | _ \<Rightarrow> (Inl (AttributeError ''get''), s))
          else
            (case fail_msg cfg (c_message_id item) worker (''unsupported outcome: '' @ outcome) now False draw s of
               (Inl e, s') \<Rightarrow> (Inl e, s')
             | (Inr st, s') \<Rightarrow>
                 (Inr (if st = QRejected then n\<lparr>n_rejected := n_rejected n + 1\<rparr>
                       else n\<lparr>n_retry := n_retry n + 1\<rparr>), s')))"

definition process_item ::
  "queue_config \<Rightarrow> string \<Rightarrow> (claimed \<Rightarrow> (string \<times> json) outcome) \<Rightarrow> int \<Rightarrow> (string \<Rightarrow> rat) \<Rightarrow>
   process_counts outcome \<times> qstore \<Rightarrow> claimed \<Rightarrow> process_counts outcome \<times> qstore" where
  "process_item cfg worker sender now draw acc item =
     (case acc of
        (Inl e, s) \<Rightarrow> (Inl e, s)
      | (Inr n0, s) \<Rightarrow>
          let n = n0\<lparr>n_claimed := n_claimed n0 + 1\<rparr> in
          (case attempt_item cfg worker sender now (draw (c_message_id item)) n item s of
             (Inr n', s') \<Rightarrow> (Inr n', s')
           | (Inl e, s') \<Rightarrow>
               (case fail_msg cfg (c_message_id item) worker (err_text e) now True (draw (c_message_id item)) s' of
                  (Inl e', s'') \<Rightarrow> (Inl e', s'')
                | (Inr st, s'') \<Rightarrow>
                    (Inr (if st = QRetryWait then n\<lparr>n_retry := n_retry n + 1\<rparr>
                          else n\<lparr>n_rejected := n_rejected n + 1\<rparr>), s''))))"

definition process_once ::
  "queue_config \<Rightarrow> string \<Rightarrow> (claimed \<Rightarrow> (string \<times> json) outcome) \<Rightarrow> int \<Rightarrow> int \<Rightarrow> (string \<Rightarrow> rat) \<Rightarrow>
   qstore \<Rightarrow> process_counts outcome \<times> qstore" where
  "process_once cfg worker sender limit now draw s =
     (case claim_due worker limit 60 now s of
        (Inl e, s1) \<Rightarrow> (Inl e, s1)
      | (Inr items, s1) \<Rightarrow>
          foldl (process_item cfg worker sender now draw)
            (Inr \<lparr>n_claimed = 0, n_delivered = 0, n_transferred = 0, n_retry = 0, n_rejected = 0\<rparr>, s1)
            items)"

section \<open>How rows evolve\<close>

text \<open>
  Every operation but \<open>enqueue\<close> changes rows in place. A changed row was active, keeps its
  identity, envelope and schedule data, and stays well formed; the event log only grows.
\<close>

definition row_static :: "qrow \<Rightarrow> string \<times> string \<times> int \<times> string \<times> string \<times> int \<times> int \<times> int" where
  "row_static r = (q_message_id r, q_priority r, q_priority_weight r, q_envelope_json r,
     q_envelope_digest r, q_size_bytes r, q_created_at r, q_expires_at r)"

definition row_dynamic_ok :: "queue_config \<Rightarrow> qrow \<Rightarrow> bool" where
  "row_dynamic_ok cfg r \<longleftrightarrow>
     (q_state r = QInFlight \<longleftrightarrow> q_lease_owner r \<noteq> None) \<and>
     (q_lease_owner r = None \<longleftrightarrow> q_lease_until r = None) \<and>
     (q_state r = QDelivered \<longleftrightarrow> q_delivered_at r \<noteq> None) \<and>
     0 \<le> q_attempt_count r \<and>
     (active_row r \<longrightarrow> q_attempt_count r = 0 \<or> q_attempt_count r < rp_max_attempts (qc_retry_policy cfg)) \<and>
     q_attempt_count r \<le> max 1 (rp_max_attempts (qc_retry_policy cfg))"

definition row_evolves :: "queue_config \<Rightarrow> qrow \<Rightarrow> qrow \<Rightarrow> bool" where
  "row_evolves cfg r r' \<longleftrightarrow> r' = r \<or>
     (active_row r \<and> row_static r' = row_static r \<and> (row_dynamic_ok cfg r \<longrightarrow> row_dynamic_ok cfg r'))"

definition store_evolves :: "queue_config \<Rightarrow> qstore \<Rightarrow> qstore \<Rightarrow> bool" where
  "store_evolves cfg s s' \<longleftrightarrow>
     list_all2 (row_evolves cfg) (qs_rows s) (qs_rows s') \<and> (\<exists>es. qs_events s' = qs_events s @ es)"

lemma row_evolves_refl [simp]: "row_evolves cfg r r"
  by (simp add: row_evolves_def)

lemma row_evolves_trans: "row_evolves cfg a b \<Longrightarrow> row_evolves cfg b c \<Longrightarrow> row_evolves cfg a c"
  by (auto simp: row_evolves_def)

lemma store_evolves_refl [simp]: "store_evolves cfg s s"
  by (simp add: store_evolves_def list_all2_same)

lemma store_evolves_trans:
  assumes "store_evolves cfg a b" "store_evolves cfg b c"
  shows "store_evolves cfg a c"
proof -
  have "list_all2 (row_evolves cfg) (qs_rows a) (qs_rows c)"
    by (rule list_all2_trans [of "row_evolves cfg" "row_evolves cfg"])
      (use assms in \<open>auto simp: store_evolves_def intro: row_evolves_trans\<close>)
  then show ?thesis using assms by (auto simp: store_evolves_def)
qed

lemma store_evolves_foldl:
  "(\<And>s x. store_evolves cfg s (f s x)) \<Longrightarrow> store_evolves cfg s (foldl f s xs)"
  by (induction xs arbitrary: s) (auto intro: store_evolves_trans)

lemma add_qevent_evolves [simp]: "store_evolves cfg s (add_qevent m e now d s') \<longleftrightarrow>
    list_all2 (row_evolves cfg) (qs_rows s) (qs_rows s') \<and> (\<exists>es. qs_events s' = qs_events s @ es)"
  if "qs_events s' = qs_events s"
  using that by (auto simp: store_evolves_def add_qevent_def)

lemma update_where_evolves:
  "(\<And>r. r \<in> set rows \<Longrightarrow> p r \<Longrightarrow> row_evolves cfg r (f r)) \<Longrightarrow>
   list_all2 (row_evolves cfg) rows (update_where p f rows)"
  by (auto simp: update_where_def list_all2_map2 list_all2_same)

text \<open>The transitions of one row, each kept by its operation.\<close>

lemma evolves_idle:
  "active_row r \<Longrightarrow> st \<in> {QExpired, QRetryWait, QCustodyTransferred, QCancelled} \<Longrightarrow>
   row_static r' = row_static r \<Longrightarrow> q_state r' = st \<Longrightarrow> q_attempt_count r' = q_attempt_count r \<Longrightarrow>
   q_lease_owner r' = None \<Longrightarrow> q_lease_until r' = None \<Longrightarrow> q_delivered_at r' = q_delivered_at r \<Longrightarrow>
   row_evolves cfg r r'"
  by (auto simp: row_evolves_def row_dynamic_ok_def active_row_def terminal_state_def)

lemma evolves_delivered:
  "active_row r \<Longrightarrow> row_static r' = row_static r \<Longrightarrow> q_state r' = QDelivered \<Longrightarrow>
   q_attempt_count r' = q_attempt_count r \<Longrightarrow> q_lease_owner r' = None \<Longrightarrow> q_lease_until r' = None \<Longrightarrow>
   q_delivered_at r' = Some t \<Longrightarrow> row_evolves cfg r r'"
  by (auto simp: row_evolves_def row_dynamic_ok_def active_row_def terminal_state_def)

lemma evolves_claimed:
  "waiting r \<Longrightarrow> row_static r' = row_static r \<Longrightarrow> q_state r' = QInFlight \<Longrightarrow>
   q_attempt_count r' = q_attempt_count r \<Longrightarrow> q_lease_owner r' = Some w \<Longrightarrow> q_lease_until r' = Some t \<Longrightarrow>
   q_delivered_at r' = q_delivered_at r \<Longrightarrow> row_evolves cfg r r'"
  by (auto simp: row_evolves_def row_dynamic_ok_def waiting_def active_row_def terminal_state_def)

lemma evolves_failed:
  "active_row r \<Longrightarrow> q_state r = QInFlight \<Longrightarrow> row_static r' = row_static r \<Longrightarrow>
   q_state r' \<in> {QExpired, QRejected, QRetryWait} \<Longrightarrow> q_attempt_count r' = q_attempt_count r + 1 \<Longrightarrow>
   (q_state r' = QRetryWait \<Longrightarrow> q_attempt_count r' < rp_max_attempts (qc_retry_policy cfg)) \<Longrightarrow>
   q_lease_owner r' = None \<Longrightarrow> q_lease_until r' = None \<Longrightarrow> q_delivered_at r' = q_delivered_at r \<Longrightarrow>
   row_evolves cfg r r'"
  by (auto simp: row_evolves_def row_dynamic_ok_def active_row_def terminal_state_def)

section \<open>Rows after each operation\<close>

abbreviation ids_distinct :: "qstore \<Rightarrow> bool" where
  "ids_distinct s \<equiv> distinct (map q_message_id (qs_rows s))"

lemma qs_rows_add_qevent [simp]: "qs_rows (add_qevent m e now d s) = qs_rows s"
  by (simp add: add_qevent_def)

lemma qs_rows_update_msg [simp]:
  "qs_rows (update_msg m f s) = update_where (\<lambda>r. q_message_id r = m) f (qs_rows s)"
  by (simp add: update_msg_def)

lemma qs_events_simps [simp]:
  "qs_events (update_msg m f s) = qs_events s"
  "qs_events (release_expired_leases now s) = qs_events s"
  by (simp_all add: update_msg_def release_expired_leases_def)

lemma events_add_qevent [simp]:
  "qs_events (add_qevent m e now d s) =
     qs_events s @ [\<lparr>qe_message_id = m, qe_event = e, qe_recorded_at = now, qe_detail_json = json_dumps True d\<rparr>]"
  by (simp add: add_qevent_def)

lemma row_id_simps [simp]:
  "q_message_id (idle_row st now r) = q_message_id r"
  "q_message_id (claim_row w l now r) = q_message_id r"
  by (simp_all add: idle_row_def claim_row_def)

lemma idle_row_idem [simp]: "idle_row st now (idle_row st now r) = idle_row st now r"
  by (simp add: idle_row_def)

lemma rows_expire_fold:
  "qs_rows (foldl (expire_one now) s ms) =
     update_where (\<lambda>r. q_message_id r \<in> set ms) (idle_row QExpired now) (qs_rows s)"
proof (induction ms arbitrary: s)
  case Nil
  then show ?case by (simp add: update_where_none)
next
  case (Cons m ms)
  then show ?case by (auto simp: expire_one_def update_where_def)
qed

lemma update_where_cong: "(\<And>r. r \<in> set rows \<Longrightarrow> p r = p' r) \<Longrightarrow> update_where p f rows = update_where p' f rows"
  by (auto simp: update_where_def)

lemma rows_expire_queue:
  "ids_distinct s \<Longrightarrow> qs_rows (snd (expire_queue now s)) =
     update_where (\<lambda>r. active_row r \<and> q_expires_at r \<le> now) (idle_row QExpired now) (qs_rows s)"
  unfolding expire_queue_def Let_def snd_conv rows_expire_fold
  by (rule update_where_cong) (auto simp: distinct_map dest: inj_onD)

lemma events_expire_fold: "\<exists>es. qs_events (foldl (expire_one now) s ms) = qs_events s @ es"
proof (induction ms arbitrary: s)
  case (Cons m ms)
  from Cons [of "expire_one now s m"] show ?case by (auto simp: expire_one_def)
qed simp

lemma expire_queue_evolves: "ids_distinct s \<Longrightarrow> store_evolves cfg s (snd (expire_queue now s))"
  unfolding store_evolves_def
proof
  assume d: "ids_distinct s"
  show "list_all2 (row_evolves cfg) (qs_rows s) (qs_rows (snd (expire_queue now s)))"
    unfolding rows_expire_queue [OF d]
    by (rule update_where_evolves, rule evolves_idle [where st = QExpired])
      (auto simp: idle_row_def row_static_def)
  show "\<exists>es. qs_events (snd (expire_queue now s)) = qs_events s @ es"
    by (simp add: expire_queue_def Let_def events_expire_fold)
qed

lemma release_evolves: "store_evolves cfg s (release_expired_leases now s)"
proof -
  have "list_all2 (row_evolves cfg) (qs_rows s) (qs_rows (release_expired_leases now s))"
    unfolding release_expired_leases_def
    by (simp, rule update_where_evolves, rule evolves_idle [where st = QRetryWait])
      (auto simp: idle_row_def row_static_def lease_over_def active_row_def terminal_state_def)
  then show ?thesis by (simp add: store_evolves_def)
qed

lemma evolves_ids: "list_all2 (row_evolves cfg) xs ys \<Longrightarrow> map q_message_id ys = map q_message_id xs"
  by (induction rule: list_all2_induct) (auto simp: row_evolves_def row_static_def)

lemma store_evolves_ids: "store_evolves cfg s s' \<Longrightarrow> ids_distinct s' = ids_distinct s"
  by (metis store_evolves_def evolves_ids)

lemma find_evolves:
  "list_all2 (row_evolves cfg) xs ys \<Longrightarrow> find_row q_message_id m xs = Some r \<Longrightarrow>
   \<exists>r'. find_row q_message_id m ys = Some r' \<and> row_evolves cfg r r'"
  by (induction rule: list_all2_induct) (auto simp: row_evolves_def row_static_def split: if_splits)

lemma update_msg_evolves:
  assumes "ids_distinct s" "find_msg s m = Some row" "row_evolves cfg row (f row)"
  shows "list_all2 (row_evolves cfg) (qs_rows s) (update_where (\<lambda>r. q_message_id r = m) f (qs_rows s))"
proof -
  have "r = row" if "r \<in> set (qs_rows s)" "q_message_id r = m" for r
    using assms(1,2) that by (simp add: find_row_distinct) (metis distinct_map inj_onD)
  then show ?thesis using assms(3) by (auto intro!: update_where_evolves)
qed

lemma claim_fold_evolves:
  "store_evolves cfg s (snd (foldl (claim_one worker lease now) (r, s) rows))"
proof (induction rows arbitrary: r s)
  case (Cons row rows)
  obtain r' s' where step: "claim_one worker lease now (r, s) row = (r', s')" by (cases "claim_one worker lease now (r, s) row")
  have "list_all2 (row_evolves cfg) (qs_rows s)
      (update_where (\<lambda>r. q_message_id r = q_message_id row \<and> waiting r) (claim_row worker lease now) (qs_rows s))"
    by (rule update_where_evolves, rule evolves_claimed) (auto simp: claim_row_def row_static_def)
  then have "store_evolves cfg s s'"
    using step by (auto simp: claim_one_def Let_def store_evolves_def list_all2_same
      split: sum.splits if_splits option.splits)
  with Cons [of s' r'] step show ?case by (auto intro: store_evolves_trans)
qed simp

lemma claim_due_evolves:
  assumes "ids_distinct s"
  shows "store_evolves cfg s (snd (claim_due worker limit lease now s))"
proof -
  let ?s1 = "snd (expire_queue now s)"
  have s1: "store_evolves cfg s ?s1" using assms by (rule expire_queue_evolves)
  have s2: "store_evolves cfg s (release_expired_leases now ?s1)"
    using s1 release_evolves by (rule store_evolves_trans)
  have "store_evolves cfg s (snd (foldl (claim_one worker lease now) (r, release_expired_leases now ?s1) rows))" for r rows
    using s2 claim_fold_evolves by (rule store_evolves_trans)
  then show ?thesis using s1
    by (auto simp: claim_due_def Let_def split: sum.splits prod.splits) (metis snd_conv)
qed

lemma owns_lease_active: "owns_lease w r \<Longrightarrow> active_row r \<and> q_state r = QInFlight"
  by (auto simp: owns_lease_def active_row_def terminal_state_def)

lemma fail_verdict_cases:
  "fail_verdict p row now retryable draw = Inr (st, next) \<Longrightarrow>
   st \<in> {QExpired, QRejected, QRetryWait} \<and> (st = QRetryWait \<longrightarrow> q_attempt_count row + 1 < rp_max_attempts p)"
  by (auto simp: fail_verdict_def Let_def split: if_splits sum.splits)

lemma fail_msg_evolves:
  assumes "ids_distinct s"
  shows "store_evolves cfg s (snd (fail_msg cfg m worker err now retryable draw s))"
proof (cases "find_msg s m")
  case (Some row)
  have "row_evolves cfg row (row\<lparr>q_state := st, q_attempt_count := q_attempt_count row + 1,
      q_last_error := e, q_next_attempt_at := nxt, q_lease_owner := None, q_lease_until := None,
      q_updated_at := now\<rparr>)"
    if "owns_lease worker row" "fail_verdict (qc_retry_policy cfg) row now retryable draw = Inr (st, nxt)" for st e nxt
    using owns_lease_active [OF that(1)] fail_verdict_cases [OF that(2)]
    by (intro evolves_failed) (auto simp: row_static_def)
  then show ?thesis
    using assms Some by (auto simp: fail_msg_def Let_def update_msg_evolves split: sum.splits)
qed (simp add: fail_msg_def)

lemma acknowledge_evolves:
  assumes "ids_distinct s"
  shows "store_evolves cfg s (snd (acknowledge_delivery m worker receipt now s))"
proof (cases "find_msg s m")
  case (Some row)
  have "row_evolves cfg row (row\<lparr>q_state := QDelivered, q_delivered_at := Some now,
      q_custody_receipt_json := j, q_lease_owner := None, q_lease_until := None, q_updated_at := now\<rparr>)"
    if "owns_lease worker row" for j
    using owns_lease_active [OF that] by (intro evolves_delivered) (auto simp: row_static_def)
  then show ?thesis using assms Some by (auto simp: acknowledge_delivery_def update_msg_evolves)
qed (simp add: acknowledge_delivery_def)

lemma transfer_evolves:
  assumes "ids_distinct s"
  shows "store_evolves cfg s (snd (transfer_custody m worker office receipt now s))"
proof (cases "find_msg s m")
  case (Some row)
  have "row_evolves cfg row (row\<lparr>q_state := QCustodyTransferred, q_custody_office := c,
      q_custody_receipt_json := j, q_lease_owner := None, q_lease_until := None, q_updated_at := now\<rparr>)"
    if "owns_lease worker row" for j c
    using owns_lease_active [OF that]
    by (intro evolves_idle [where st = QCustodyTransferred]) (auto simp: row_static_def)
  then show ?thesis using assms Some by (auto simp: transfer_custody_def update_msg_evolves)
qed (simp add: transfer_custody_def)

lemma cancel_evolves:
  assumes "ids_distinct s"
  shows "store_evolves cfg s (snd (cancel_msg m reason now s))"
proof (cases "find_msg s m")
  case (Some row)
  have "row_evolves cfg row (row\<lparr>q_state := QCancelled, q_last_error := e,
      q_lease_owner := None, q_lease_until := None, q_updated_at := now\<rparr>)"
    if "\<not> terminal_state (q_state row)" for e
    using that by (intro evolves_idle [where st = QCancelled]) (auto simp: row_static_def active_row_def)
  then show ?thesis using assms Some by (auto simp: cancel_msg_def update_msg_evolves)
qed (simp add: cancel_msg_def)

lemma op_evolvesD:
  "fail_msg cfg m worker err now retryable draw s = (x, s') \<Longrightarrow> ids_distinct s \<Longrightarrow> store_evolves cfg s s'"
  "acknowledge_delivery m worker receipt now s = (y, s') \<Longrightarrow> ids_distinct s \<Longrightarrow> store_evolves cfg s s'"
  "transfer_custody m worker office receipt now s = (y, s') \<Longrightarrow> ids_distinct s \<Longrightarrow> store_evolves cfg s s'"
  using fail_msg_evolves [of s cfg m worker err now retryable draw]
    acknowledge_evolves [of s cfg m worker receipt now]
    transfer_evolves [of s cfg m worker office receipt now]
  by simp_all

lemma attempt_item_evolves:
  assumes "ids_distinct s"
  shows "store_evolves cfg s (snd (attempt_item cfg worker sender now draw n item s))"
proof (cases "sender item")
  case (Inr out)
  obtain outcome receipt where out: "out = (outcome, receipt)" by (cases out)
  have fail: "store_evolves cfg s (snd (case fail_msg cfg m w e now b draw s of
      (Inl e, s') \<Rightarrow> (Inl e, s') | (Inr st, s') \<Rightarrow> (Inr (f st), s')))" for m w e b and f :: "qstate \<Rightarrow> process_counts"
    using fail_msg_evolves [OF assms, of cfg m w e now b draw] by (auto split: sum.split prod.split)
  have ack: "store_evolves cfg s (snd (case acknowledge_delivery m w r now s of
      (Inl e, s') \<Rightarrow> (Inl e, s') | (Inr u, s') \<Rightarrow> (Inr (k :: process_counts), s')))" for m w r k
    using acknowledge_evolves [OF assms, of cfg m w r now] by (auto split: sum.split prod.split)
  have transfer: "store_evolves cfg s (snd (case transfer_custody m w c r now s of
      (Inl e, s') \<Rightarrow> (Inl e, s') | (Inr u, s') \<Rightarrow> (Inr (k :: process_counts), s')))" for m w c r k
    using transfer_evolves [OF assms, of cfg m w c r now] by (auto split: sum.split prod.split)
  show ?thesis
    using Inr out fail ack transfer by (simp add: attempt_item_def split: json.split)
qed (simp add: attempt_item_def)

lemma process_item_evolves:
  assumes "ids_distinct (snd acc)"
  shows "store_evolves cfg (snd acc) (snd (process_item cfg worker sender now draw acc item))"
proof (cases acc)
  case (Pair r s)
  show ?thesis
  proof (cases r)
    case (Inr n0)
    let ?n = "n0\<lparr>n_claimed := n_claimed n0 + 1\<rparr>"
    obtain r' s' where att: "attempt_item cfg worker sender now (draw (c_message_id item)) ?n item s = (r', s')"
      by (cases "attempt_item cfg worker sender now (draw (c_message_id item)) ?n item s")
    have e1: "store_evolves cfg s s'"
      using attempt_item_evolves [of s cfg worker sender now "draw (c_message_id item)" ?n item] att assms Pair by simp
    then have d: "ids_distinct s'" using assms Pair by (simp add: store_evolves_ids)
    from e1 att Pair Inr show ?thesis
      by (auto simp: process_item_def Let_def dest!: op_evolvesD(1) [OF _ d]
        intro: store_evolves_trans split: sum.splits prod.splits)
  qed (simp add: Pair process_item_def)
qed

lemma process_fold_evolves:
  "ids_distinct (snd acc) \<Longrightarrow>
   store_evolves cfg (snd acc) (snd (foldl (process_item cfg worker sender now draw) acc items))"
proof (induction items arbitrary: acc)
  case (Cons item items)
  have e: "store_evolves cfg (snd acc) (snd (process_item cfg worker sender now draw acc item))"
    using Cons.prems by (rule process_item_evolves)
  then have "ids_distinct (snd (process_item cfg worker sender now draw acc item))"
    using Cons.prems by (simp add: store_evolves_ids)
  from Cons.IH [OF this] e show ?case by (auto intro: store_evolves_trans)
qed simp

lemma process_once_evolves:
  assumes "ids_distinct s"
  shows "store_evolves cfg s (snd (process_once cfg worker sender limit now draw s))"
proof -
  obtain r s1 where c: "claim_due worker limit 60 now s = (r, s1)" by (cases "claim_due worker limit 60 now s")
  then have e: "store_evolves cfg s s1" using claim_due_evolves [OF assms] by (metis snd_conv)
  then have d: "ids_distinct s1" using assms by (simp add: store_evolves_ids)
  have "store_evolves cfg s (snd (foldl (process_item cfg worker sender now draw) (x, s1) items))" for x items
    using e process_fold_evolves [of "(x, s1)"] d by (auto intro: store_evolves_trans)
  then show ?thesis using c e by (auto simp: process_once_def split: sum.splits)
qed

section \<open>The queue as a machine\<close>

datatype queue_op =
    OpEnqueue "(string, json) dict" string int string "string option" int
  | OpExpire int
  | OpClaim string int int int
  | OpFail string string string int bool rat
  | OpAcknowledge string string json int
  | OpTransfer string string string json int
  | OpCancel string string int
  | OpProcess string "claimed \<Rightarrow> (string \<times> json) outcome" int int "string \<Rightarrow> rat"

text \<open>One call of the queue; a list with a key twice is no dict, so no caller can pass it.\<close>

fun queue_step :: "(string \<Rightarrow> string) \<Rightarrow> queue_config \<Rightarrow> qstore \<Rightarrow> queue_op \<Rightarrow> qstore" where
  "queue_step sha cfg s (OpEnqueue env dest expires prio hop now) =
     (if wf_json (JObj env) then snd (enqueue sha cfg env dest expires prio hop now s) else s)"
| "queue_step sha cfg s (OpExpire now) = snd (expire_queue now s)"
| "queue_step sha cfg s (OpClaim worker limit lease now) = snd (claim_due worker limit lease now s)"
| "queue_step sha cfg s (OpFail m worker err now retryable draw) =
     snd (fail_msg cfg m worker err now retryable draw s)"
| "queue_step sha cfg s (OpAcknowledge m worker receipt now) = snd (acknowledge_delivery m worker receipt now s)"
| "queue_step sha cfg s (OpTransfer m worker office receipt now) =
     snd (transfer_custody m worker office receipt now s)"
| "queue_step sha cfg s (OpCancel m reason now) = snd (cancel_msg m reason now s)"
| "queue_step sha cfg s (OpProcess worker sender limit now draw) =
     snd (process_once cfg worker sender limit now draw s)"

definition row_static_ok :: "(string \<Rightarrow> string) \<Rightarrow> qrow \<Rightarrow> bool" where
  "row_static_ok sha r \<longleftrightarrow>
     priority_weight (q_priority r) = Some (q_priority_weight r) \<and>
     q_size_bytes r = int (length (q_envelope_json r)) \<and>
     q_created_at r < q_expires_at r \<and>
     (\<exists>env. wf_json (JObj env) \<and> jget env ''message_id'' = JStr (q_message_id r) \<and>
        q_envelope_json r = canonical_json (JObj env) \<and> q_envelope_digest r = envelope_digest sha (JObj env))"

definition within_capacity :: "queue_config \<Rightarrow> qstore \<Rightarrow> bool" where
  "within_capacity cfg s \<longleftrightarrow>
     fst (queue_usage s) \<le> max 0 (ql_max_messages (qc_limits cfg)) \<and>
     snd (queue_usage s) \<le> max 0 (ql_max_bytes (qc_limits cfg))"

definition queue_inv :: "(string \<Rightarrow> string) \<Rightarrow> queue_config \<Rightarrow> qstore \<Rightarrow> bool" where
  "queue_inv sha cfg s \<longleftrightarrow> ids_distinct s \<and>
     (\<forall>r \<in> set (qs_rows s). row_dynamic_ok cfg r \<and> row_static_ok sha r) \<and> within_capacity cfg s"

lemma evolves_row_ok:
  "row_evolves cfg r r' \<Longrightarrow> row_dynamic_ok cfg r \<and> row_static_ok sha r \<Longrightarrow>
   row_dynamic_ok cfg r' \<and> row_static_ok sha r'"
  by (auto simp: row_evolves_def row_static_ok_def row_static_def)

lemma evolves_usage:
  assumes "list_all2 (row_evolves cfg) xs ys" "\<forall>r \<in> set xs. 0 \<le> q_size_bytes r"
  shows "length (filter active_row ys) \<le> length (filter active_row xs) \<and>
    sum_list (map q_size_bytes (filter active_row ys)) \<le> sum_list (map q_size_bytes (filter active_row xs))"
  using assms by (induction rule: list_all2_induct) (auto simp: row_evolves_def row_static_def)

lemma list_all2_ball:
  "list_all2 R xs ys \<Longrightarrow> (\<And>x y. R x y \<Longrightarrow> P x \<Longrightarrow> Q y) \<Longrightarrow> \<forall>x \<in> set xs. P x \<Longrightarrow> \<forall>y \<in> set ys. Q y"
  by (induction rule: list_all2_induct) auto

lemma queue_inv_evolves:
  assumes "queue_inv sha cfg s" "store_evolves cfg s s'"
  shows "queue_inv sha cfg s'"
proof -
  have e: "list_all2 (row_evolves cfg) (qs_rows s) (qs_rows s')" using assms(2) by (simp add: store_evolves_def)
  have "\<forall>r \<in> set (qs_rows s). 0 \<le> q_size_bytes r"
    using assms(1) by (auto simp: queue_inv_def row_static_ok_def)
  with e have "within_capacity cfg s'"
    using assms(1) evolves_usage [OF e] by (auto simp: queue_inv_def within_capacity_def queue_usage_def Let_def)
  moreover have "\<forall>r \<in> set (qs_rows s'). row_dynamic_ok cfg r \<and> row_static_ok sha r"
    using e evolves_row_ok by (rule list_all2_ball) (use assms(1) in \<open>auto simp: queue_inv_def\<close>)
  ultimately show ?thesis
    using assms store_evolves_ids [OF assms(2)] by (simp add: queue_inv_def)
qed

text \<open>What \<open>enqueue\<close> does: nothing, or one new row when the message is new and fits.\<close>

definition added_by ::
  "(string \<Rightarrow> string) \<Rightarrow> queue_config \<Rightarrow> (string, json) dict \<Rightarrow> string \<Rightarrow> int \<Rightarrow> string \<Rightarrow>
   string option \<Rightarrow> int \<Rightarrow> qstore \<Rightarrow> qstore \<Rightarrow> bool" where
  "added_by sha cfg env dest expires prio hop now s s' \<longleftrightarrow>
     (\<exists>m weight es. jget env ''message_id'' = JStr m \<and> priority_weight prio = Some weight \<and>
        now < expires \<and> find_msg s m = None \<and>
        qs_rows s' = qs_rows s @ [new_qrow sha (JObj env) m dest expires prio weight hop now] \<and>
        qs_events s' = qs_events s @ es \<and>
        fst (queue_usage s) < ql_max_messages (qc_limits cfg) \<and>
        snd (queue_usage s) + int (length (canonical_json (JObj env))) \<le> ql_max_bytes (qc_limits cfg))"

lemma enqueue_cases:
  "(snd (enqueue sha cfg env dest expires prio hop now s) = s \<and>
      fst (enqueue sha cfg env dest expires prio hop now s) \<noteq> Inr True) \<or>
   (added_by sha cfg env dest expires prio hop now s (snd (enqueue sha cfg env dest expires prio hop now s)) \<and>
      fst (enqueue sha cfg env dest expires prio hop now s) = Inr True)"
proof (cases "jget env ''message_id''")
  case (JStr m)
  show ?thesis
  proof (cases "priority_weight prio")
    case (Some w)
    show ?thesis
    proof (cases "m = [] \<or> expires \<le> now \<or> int (length (canonical_json (JObj env))) > ql_max_message_bytes (qc_limits cfg)")
      case True
      then show ?thesis using JStr Some by (auto simp: enqueue_def Let_def)
    next
      case False
      then show ?thesis using JStr Some
        by (cases "find_msg s m"; cases "queue_usage s") (auto simp: enqueue_def added_by_def Let_def)
    qed
  qed (use JStr in \<open>simp add: enqueue_def\<close>)
qed (simp_all add: enqueue_def)

lemma queue_inv_added:
  assumes "queue_inv sha cfg s" "added_by sha cfg env dest expires prio hop now s s'" "wf_json (JObj env)"
  shows "queue_inv sha cfg s'"
proof -
  obtain m w es where a: "jget env ''message_id'' = JStr m" "priority_weight prio = Some w" "now < expires"
      "find_msg s m = None"
      "qs_rows s' = qs_rows s @ [new_qrow sha (JObj env) m dest expires prio w hop now]"
      "fst (queue_usage s) < ql_max_messages (qc_limits cfg)"
      "snd (queue_usage s) + int (length (canonical_json (JObj env))) \<le> ql_max_bytes (qc_limits cfg)"
    using assms(2) by (auto simp: added_by_def)
  have "ids_distinct s'" using assms(1) a(4,5) by (auto simp: queue_inv_def find_row_None_iff new_qrow_def)
  moreover have "within_capacity cfg s'"
    using a(5-7) by (auto simp: within_capacity_def queue_usage_def Let_def new_qrow_def)
  moreover have "row_static_ok sha (new_qrow sha (JObj env) m dest expires prio w hop now)"
    using a(1-3) assms(3) by (auto simp: row_static_ok_def new_qrow_def)
  moreover have "row_dynamic_ok cfg (new_qrow sha (JObj env) m dest expires prio w hop now)"
    by (simp add: row_dynamic_ok_def new_qrow_def)
  ultimately show ?thesis using assms(1) a(5) by (auto simp: queue_inv_def)
qed

lemma queue_step_cases:
  assumes "queue_inv sha cfg s"
  shows "store_evolves cfg s (queue_step sha cfg s op) \<or>
    (\<exists>env dest expires prio hop now. wf_json (JObj env) \<and>
       added_by sha cfg env dest expires prio hop now s (queue_step sha cfg s op))"
proof -
  have d: "ids_distinct s" using assms by (simp add: queue_inv_def)
  show ?thesis
  proof (cases op)
    case (OpEnqueue env dest expires prio hop now)
    then show ?thesis using enqueue_cases [of sha cfg env dest expires prio hop now s] by auto
  qed (simp_all add: d expire_queue_evolves claim_due_evolves fail_msg_evolves acknowledge_evolves
    transfer_evolves cancel_evolves process_once_evolves)
qed

lemma queue_step_inv: "queue_inv sha cfg s \<Longrightarrow> queue_inv sha cfg (queue_step sha cfg s op)"
  using queue_step_cases [of sha cfg s op] by (auto intro: queue_inv_evolves queue_inv_added)

lemma queue_step_final:
  assumes "queue_inv sha cfg s" "find_msg s m = Some r" "terminal_state (q_state r)"
  shows "find_msg (queue_step sha cfg s op) m = Some r"
  using queue_step_cases [OF assms(1), of op]
proof
  assume "store_evolves cfg s (queue_step sha cfg s op)"
  then obtain r' where "find_msg (queue_step sha cfg s op) m = Some r'" "row_evolves cfg r r'"
    using find_evolves [OF _ assms(2)] by (auto simp: store_evolves_def)
  then show ?thesis using assms(3) by (auto simp: row_evolves_def active_row_def)
next
  assume "\<exists>env dest expires prio hop now. wf_json (JObj env) \<and>
       added_by sha cfg env dest expires prio hop now s (queue_step sha cfg s op)"
  then show ?thesis using assms(2) by (auto simp: added_by_def find_row_append)
qed

interpretation queue: absorbing_machine "queue_step sha cfg" "queue_inv sha cfg" find_msg
    "\<lambda>r. terminal_state (q_state r)" for sha cfg
  by unfold_locales (auto intro: queue_step_inv queue_step_final)

lemma queue_inv_empty [simp]: "queue_inv sha cfg empty_qstore"
  by (simp add: queue_inv_def empty_qstore_def within_capacity_def queue_usage_def)

section \<open>What a claim does\<close>

text \<open>
  The reference for \<open>claim_due\<close>: the rows that may be delivered at \<open>now\<close>, the first \<open>limit\<close> of them
  in schedule order, and what becomes of every row.
\<close>

definition claimable :: "int \<Rightarrow> qrow \<Rightarrow> bool" where
  "claimable now r \<longleftrightarrow> now < q_expires_at r \<and> q_next_attempt_at r \<le> now \<and> (waiting r \<or> lease_over now r)"

definition claim_choice :: "int \<Rightarrow> int \<Rightarrow> qstore \<Rightarrow> qrow list" where
  "claim_choice limit now s = take (nat limit) (sort_key due_key (filter (claimable now) (qs_rows s)))"

definition row_item :: "qrow \<Rightarrow> claimed" where
  "row_item r = claimed_item r (the (json_loads (q_envelope_json r)))"

definition settled_row :: "string \<Rightarrow> int \<Rightarrow> int \<Rightarrow> string set \<Rightarrow> qrow \<Rightarrow> qrow" where
  "settled_row worker lease now chosen r =
     (if active_row r \<and> q_expires_at r \<le> now then idle_row QExpired now r
      else if q_message_id r \<in> chosen then claim_row worker lease now r
      else if lease_over now r then idle_row QRetryWait now r
      else r)"

lemma sort_key_map: "(\<And>x. k (f x) = k x) \<Longrightarrow> sort_key k (map f xs) = map f (sort_key k xs)"
proof (induction xs)
  case (Cons x xs)
  have "insort_key k (f x) (map f ys) = map f (insort_key k x ys)" for ys
    using Cons.prems by (induction ys) auto
  with Cons show ?case by simp
qed simp

lemma row_item_id [simp]: "c_message_id (row_item r) = q_message_id r"
  by (simp add: row_item_def claimed_item_def)

lemma claim_fold:
  assumes "ids_distinct s" "distinct (map q_message_id ws)" "set ws \<subseteq> set (qs_rows s)"
    "\<forall>r \<in> set ws. waiting r \<and> json_loads (q_envelope_json r) \<noteq> None"
  shows "fst (foldl (claim_one worker lease now) (Inr done, s) ws) = Inr (done @ map row_item ws) \<and>
    qs_rows (snd (foldl (claim_one worker lease now) (Inr done, s) ws)) =
      update_where (\<lambda>r. q_message_id r \<in> q_message_id ` set ws) (claim_row worker lease now) (qs_rows s)"
  using assms
proof (induction ws arbitrary: s "done")
  case Nil
  then show ?case by (simp add: update_where_none)
next
  case (Cons w ws)
  let ?p = "\<lambda>r. q_message_id r = q_message_id w \<and> waiting r"
  define s1 where "s1 = add_qevent (q_message_id w) ''delivery_attempt_started'' now
      (JObj [(''worker_id'', JStr worker)]) (s\<lparr>qs_rows := update_where ?p (claim_row worker lease now) (qs_rows s)\<rparr>)"
  have w: "w \<in> set (qs_rows s)" "waiting w" "json_loads (q_envelope_json w) \<noteq> None" using Cons.prems by auto
  then obtain env where env: "json_loads (q_envelope_json w) = Some env" by auto
  have "\<exists>r \<in> set (qs_rows s). ?p r" using w by auto
  then have step: "claim_one worker lease now (Inr done, s) w = (Inr (done @ [row_item w]), s1)"
    using env by (simp add: claim_one_def Let_def row_item_def s1_def)
  have uniq: "q_message_id r = q_message_id w \<longleftrightarrow> r = w" if "r \<in> set (qs_rows s)" for r
    using Cons.prems(1) w(1) that by (auto simp: distinct_map dest: inj_onD)
  have rows1: "qs_rows s1 = update_where (\<lambda>r. q_message_id r = q_message_id w) (claim_row worker lease now) (qs_rows s)"
    unfolding s1_def by (simp, rule update_where_cong) (use uniq w(2) in auto)
  have ids1: "map q_message_id (qs_rows s1) = map q_message_id (qs_rows s)"
    unfolding rows1 by (rule map_update_where) simp
  have "set ws \<subseteq> set (qs_rows s1)"
    using Cons.prems(2,3) by (auto simp: rows1 set_update_where image_iff)
  then have IH: "fst (foldl (claim_one worker lease now) (Inr (done @ [row_item w]), s1) ws) =
        Inr ((done @ [row_item w]) @ map row_item ws) \<and>
      qs_rows (snd (foldl (claim_one worker lease now) (Inr (done @ [row_item w]), s1) ws)) =
        update_where (\<lambda>r. q_message_id r \<in> q_message_id ` set ws) (claim_row worker lease now) (qs_rows s1)"
    using Cons.prems ids1 by (intro Cons.IH) auto
  have "update_where (\<lambda>r. q_message_id r \<in> q_message_id ` set ws) (claim_row worker lease now) (qs_rows s1) =
      update_where (\<lambda>r. q_message_id r \<in> q_message_id ` set (w # ws)) (claim_row worker lease now) (qs_rows s)"
    using Cons.prems(2) by (auto simp: rows1 update_where_def claim_row_def)
  then show ?case using IH step by simp
qed

lemma rows_after_housekeeping:
  assumes "ids_distinct s"
  shows "qs_rows (release_expired_leases now (snd (expire_queue now s))) =
    map (settled_row worker lease now {}) (qs_rows s)"
proof -
  have "\<not> lease_over now (idle_row QExpired now r)" for r by (simp add: lease_over_def idle_row_def)
  then show ?thesis
    by (simp add: release_expired_leases_def rows_expire_queue [OF assms] update_where_def settled_row_def)
qed

lemma due_after_housekeeping:
  "due_row now (settled_row worker lease now {} r) = claimable now r"
  "due_key (settled_row worker lease now {} r) = due_key r"
  "row_item (settled_row worker lease now {} r) = row_item r"
  "q_message_id (settled_row worker lease now ms r) = q_message_id r"
  "q_envelope_json (settled_row worker lease now {} r) = q_envelope_json r"
  by (auto simp: settled_row_def due_row_def claimable_def waiting_def lease_over_def idle_row_def
    due_key_def row_item_def claimed_item_def active_row_def terminal_state_def claim_row_def
    split: option.splits)

lemma inv_loads: "queue_inv sha cfg s \<Longrightarrow> r \<in> set (qs_rows s) \<Longrightarrow>
   \<exists>env. jget env ''message_id'' = JStr (q_message_id r) \<and>
     q_envelope_digest r = envelope_digest sha (JObj env) \<and>
     json_loads (q_envelope_json r) = Some (canon (JObj env))"
  unfolding queue_inv_def row_static_ok_def by (metis json_loads_canonical)

lemma claim_choice_set: "r \<in> set (claim_choice limit now s) \<Longrightarrow> r \<in> set (qs_rows s) \<and> claimable now r"
  unfolding claim_choice_def using set_take_subset by fastforce

lemma claim_choice_distinct: "ids_distinct s \<Longrightarrow> distinct (map q_message_id (claim_choice limit now s))"
  by (auto simp: claim_choice_def take_map [symmetric] intro!: distinct_take)
    (simp add: distinct_map inj_on_def)

lemma claim_due_is:
  assumes inv: "queue_inv sha cfg s" and pos: "1 \<le> limit" "1 \<le> lease"
  shows "fst (claim_due worker limit lease now s) = Inr (map row_item (claim_choice limit now s)) \<and>
    qs_rows (snd (claim_due worker limit lease now s)) =
      map (settled_row worker lease now (q_message_id ` set (claim_choice limit now s))) (qs_rows s)"
proof -
  have d: "ids_distinct s" using inv by (simp add: queue_inv_def)
  define s2 where "s2 = release_expired_leases now (snd (expire_queue now s))"
  let ?rel = "settled_row worker lease now {}"
  have rows2: "qs_rows s2 = map ?rel (qs_rows s)"
    unfolding s2_def using d by (rule rows_after_housekeeping)
  define ws where "ws = take (nat limit) (sort_key due_key (filter (due_row now) (qs_rows s2)))"
  have "filter (due_row now) (map ?rel (qs_rows s)) = map ?rel (filter (claimable now) (qs_rows s))"
    by (simp add: filter_map comp_def due_after_housekeeping)
  then have ws: "ws = map ?rel (claim_choice limit now s)"
    by (simp add: ws_def rows2 sort_key_map due_after_housekeeping claim_choice_def take_map)
  have d2: "ids_distinct s2" using d by (simp add: rows2 comp_def due_after_housekeeping)
  have "distinct (map q_message_id ws)"
    using claim_choice_distinct [OF d] by (simp add: ws comp_def due_after_housekeeping)
  moreover have "set ws \<subseteq> set (qs_rows s2)" using claim_choice_set by (fastforce simp: ws rows2)
  moreover have "\<forall>r \<in> set ws. waiting r \<and> json_loads (q_envelope_json r) \<noteq> None"
  proof
    fix r assume r: "r \<in> set ws"
    then obtain r0 where r0: "r = ?rel r0" "r0 \<in> set (qs_rows s)" using claim_choice_set by (auto simp: ws)
    have "due_row now r" using r set_take_subset by (fastforce simp: ws_def)
    then show "waiting r \<and> json_loads (q_envelope_json r) \<noteq> None"
      using inv_loads [OF inv r0(2)] by (auto simp: due_row_def r0(1) due_after_housekeeping)
  qed
  ultimately have fold: "fst (foldl (claim_one worker lease now) (Inr [], s2) ws) = Inr (map row_item ws) \<and>
      qs_rows (snd (foldl (claim_one worker lease now) (Inr [], s2) ws)) =
        update_where (\<lambda>r. q_message_id r \<in> q_message_id ` set ws) (claim_row worker lease now) (qs_rows s2)"
    using claim_fold [OF d2, of ws worker lease now "[]"] by simp
  obtain x s3 where x: "foldl (claim_one worker lease now) (Inr [], s2) ws = (x, s3)" by fastforce
  have items: "map row_item ws = map row_item (claim_choice limit now s)"
    by (simp add: ws comp_def due_after_housekeeping)
  have ids: "q_message_id ` set ws = q_message_id ` set (claim_choice limit now s)"
    by (simp add: ws image_image due_after_housekeeping)
  have row: "(if q_message_id (?rel r) \<in> q_message_id ` set ws then claim_row worker lease now (?rel r) else ?rel r) =
      settled_row worker lease now (q_message_id ` set (claim_choice limit now s)) r"
    if r: "r \<in> set (qs_rows s)" for r
  proof (cases "q_message_id r \<in> q_message_id ` set (claim_choice limit now s)")
    case True
    then obtain r' where "r' \<in> set (claim_choice limit now s)" "q_message_id r' = q_message_id r" by auto
    then have "claimable now r" using claim_choice_set d r by (auto simp: distinct_map dest: inj_onD)
    then show ?thesis
      using True by (simp add: ids due_after_housekeeping)
        (simp add: settled_row_def claimable_def idle_row_def claim_row_def)
  next
    case False
    then show ?thesis
      by (simp add: ids due_after_housekeeping) (simp add: settled_row_def)
  qed
  have "update_where (\<lambda>r. q_message_id r \<in> q_message_id ` set ws) (claim_row worker lease now) (qs_rows s2) =
      map (settled_row worker lease now (q_message_id ` set (claim_choice limit now s))) (qs_rows s)"
    using row by (simp add: rows2 update_where_def)
  then show ?thesis
    using fold x items pos by (simp add: claim_due_def Let_def s2_def [symmetric] ws_def [symmetric])
qed

section \<open>What a processing pass does\<close>

fun count_state :: "qstate \<Rightarrow> process_counts \<Rightarrow> process_counts" where
  "count_state QDelivered n = n\<lparr>n_delivered := n_delivered n + 1\<rparr>"
| "count_state QCustodyTransferred n = n\<lparr>n_transferred := n_transferred n + 1\<rparr>"
| "count_state QRetryWait n = n\<lparr>n_retry := n_retry n + 1\<rparr>"
| "count_state _ n = n\<lparr>n_rejected := n_rejected n + 1\<rparr>"

definition closes_row :: "string \<Rightarrow> qstate \<Rightarrow> qstore \<Rightarrow> qstore \<Rightarrow> bool" where
  "closes_row m st s s' \<longleftrightarrow> st \<in> {QDelivered, QCustodyTransferred, QRetryWait, QRejected} \<and>
     (\<exists>f. qs_rows s' = update_where (\<lambda>r. q_message_id r = m) f (qs_rows s) \<and>
        (\<forall>r. q_message_id (f r) = q_message_id r \<and> q_state (f r) = st))"

text \<open>A row this worker holds, with time left.\<close>

definition held :: "string \<Rightarrow> int \<Rightarrow> qstore \<Rightarrow> string \<Rightarrow> bool" where
  "held worker now s m \<longleftrightarrow> (case find_msg s m of None \<Rightarrow> False
     | Some r \<Rightarrow> owns_lease worker r \<and> now < q_expires_at r \<and> 0 \<le> q_attempt_count r)"

lemma heldE:
  assumes "held worker now s m"
  obtains r where "find_msg s m = Some r" "owns_lease worker r" "now < q_expires_at r" "0 \<le> q_attempt_count r"
  using assms by (auto simp: held_def split: option.splits)

text \<open>No delay before the last attempt overflows.\<close>

definition delays_fit :: "retry_policy \<Rightarrow> bool" where
  "delays_fit p \<longleftrightarrow> \<bar>rp_multiplier p\<bar> ^ nat (rp_max_attempts p - 2) < float_bound"

lemma retry_delay_fits:
  assumes "delays_fit p" "1 \<le> attempt" "attempt < rp_max_attempts p"
  shows "\<exists>d. retry_delay p attempt draw = Inr d"
proof -
  let ?m = "\<bar>rp_multiplier p\<bar>" and ?n = "nat (attempt - 1)"
  have "?m ^ ?n < float_bound"
  proof (cases "1 \<le> ?m")
    case True
    then have "?m ^ ?n \<le> ?m ^ nat (rp_max_attempts p - 2)" using assms(3) by (intro power_increasing) auto
    then show ?thesis using assms(1) by (simp add: delays_fit_def)
  next
    case False
    then have "?m ^ ?n \<le> 1" by (intro power_le_one) auto
    also have "(1 :: rat) < float_bound" by (simp add: float_bound_def)
    finally show ?thesis .
  qed
  then show ?thesis using assms(2) by (simp add: retry_delay_def retry_base_def float_power_def power_abs)
qed

text \<open>Where a delay overflows, \<open>fail\<close> raises and leaves the message in flight.\<close>

lemma overflowing_delays_raise:
  assumes "find_msg s m = Some row" "owns_lease worker row" "now < q_expires_at row" "0 \<le> q_attempt_count row"
    and "q_attempt_count row + 1 < rp_max_attempts (qc_retry_policy cfg)"
    and "float_bound \<le> \<bar>rp_multiplier (qc_retry_policy cfg)\<bar> ^ nat (q_attempt_count row)"
  shows "fail_msg cfg m worker err now True draw s = (Inl (OtherError ''Numerical result out of range''), s)"
  using assms by (simp add: fail_msg_def fail_verdict_def retry_delay_def retry_base_def float_power_def power_abs)

lemma fail_held:
  assumes "delays_fit (qc_retry_policy cfg)" "held worker now s m"
  obtains st s' where "fail_msg cfg m worker err now retryable draw s = (Inr st, s')" "closes_row m st s s'"
    "st = QRetryWait \<or> st = QRejected" "\<not> retryable \<Longrightarrow> st = QRejected"
proof -
  obtain row where row: "find_msg s m = Some row" "owns_lease worker row" "now < q_expires_at row"
    "0 \<le> q_attempt_count row" using assms(2) by (rule heldE)
  have "\<exists>d. retry_delay (qc_retry_policy cfg) (q_attempt_count row + 1) draw = Inr d"
    if "q_attempt_count row + 1 < rp_max_attempts (qc_retry_policy cfg)"
    using retry_delay_fits [OF assms(1) _ that] row(4) by simp
  then obtain st nxt where v: "fail_verdict (qc_retry_policy cfg) row now retryable draw = Inr (st, nxt)"
    "st = QRetryWait \<or> st = QRejected" "\<not> retryable \<longrightarrow> st = QRejected"
    using row(3) by (cases "\<not> retryable \<or> rp_max_attempts (qc_retry_policy cfg) \<le> q_attempt_count row + 1")
      (auto simp: fail_verdict_def Let_def)
  let ?f = "\<lambda>r. r\<lparr>q_state := st, q_attempt_count := q_attempt_count row + 1,
     q_last_error := Some (take 1000 err), q_next_attempt_at := nxt,
     q_lease_owner := None, q_lease_until := None, q_updated_at := now\<rparr>"
  obtain s' where "fail_msg cfg m worker err now retryable draw s = (Inr st, s')"
    "qs_rows s' = update_where (\<lambda>r. q_message_id r = m) ?f (qs_rows s)"
    using row(1,2) v(1) by (simp add: fail_msg_def Let_def)
  moreover have "closes_row m st s s'"
    unfolding closes_row_def using v(2) calculation(2) by (auto intro!: exI [of _ ?f])
  ultimately show ?thesis using that v(2,3) by blast
qed

lemma acknowledge_held:
  assumes "held worker now s m"
  obtains s' where "acknowledge_delivery m worker receipt t s = (Inr (), s')" "closes_row m QDelivered s s'"
proof -
  obtain row where row: "find_msg s m = Some row" "owns_lease worker row" using assms by (rule heldE)
  let ?f = "\<lambda>r. r\<lparr>q_state := QDelivered, q_delivered_at := Some t,
     q_custody_receipt_json := Some (json_dumps True receipt), q_lease_owner := None,
     q_lease_until := None, q_updated_at := t\<rparr>"
  obtain s' where "acknowledge_delivery m worker receipt t s = (Inr (), s')"
    "qs_rows s' = update_where (\<lambda>r. q_message_id r = m) ?f (qs_rows s)"
    using row by (simp add: acknowledge_delivery_def)
  moreover have "closes_row m QDelivered s s'"
    unfolding closes_row_def using calculation(2) by (auto intro!: exI [of _ ?f])
  ultimately show ?thesis using that by blast
qed

lemma transfer_held:
  assumes "held worker now s m"
  obtains s' where "transfer_custody m worker office receipt t s = (Inr (), s')" "closes_row m QCustodyTransferred s s'"
proof -
  obtain row where row: "find_msg s m = Some row" "owns_lease worker row" using assms by (rule heldE)
  let ?f = "\<lambda>r. r\<lparr>q_state := QCustodyTransferred, q_custody_office := Some office,
     q_custody_receipt_json := Some (json_dumps True receipt), q_lease_owner := None,
     q_lease_until := None, q_updated_at := t\<rparr>"
  obtain s' where "transfer_custody m worker office receipt t s = (Inr (), s')"
    "qs_rows s' = update_where (\<lambda>r. q_message_id r = m) ?f (qs_rows s)"
    using row by (simp add: transfer_custody_def)
  moreover have "closes_row m QCustodyTransferred s s'"
    unfolding closes_row_def using calculation(2) by (auto intro!: exI [of _ ?f])
  ultimately show ?thesis using that by blast
qed

lemma attempt_held:
  assumes fit: "delays_fit (qc_retry_policy cfg)" and h: "held worker now s (c_message_id item)"
  shows "(\<exists>e. attempt_item cfg worker sender now draw n item s = (Inl e, s)) \<or>
    (\<exists>st s'. attempt_item cfg worker sender now draw n item s = (Inr (count_state st n), s') \<and>
       closes_row (c_message_id item) st s s')"
proof (cases "sender item")
  case (Inr out)
  obtain outcome receipt where out: "out = (outcome, receipt)" by (cases out)
  obtain s1 where ack: "acknowledge_delivery (c_message_id item) worker receipt now s = (Inr (), s1)"
    "closes_row (c_message_id item) QDelivered s s1" using h by (rule acknowledge_held)
  obtain s3 where fail: "fail_msg cfg (c_message_id item) worker (''unsupported outcome: '' @ outcome) now False draw s = (Inr QRejected, s3)"
    "closes_row (c_message_id item) QRejected s s3" using fit h by (rule fail_held) auto
  have tr: "\<exists>s2. transfer_custody (c_message_id item) worker office receipt now s = (Inr (), s2) \<and>
      closes_row (c_message_id item) QCustodyTransferred s s2" for office
    using h by (rule transfer_held) auto
  consider "outcome = ''delivered''" | "outcome = ''custody_transferred''"
    | "outcome \<noteq> ''delivered''" "outcome \<noteq> ''custody_transferred''" by blast
  then show ?thesis
  proof cases
    case 1
    then show ?thesis using Inr out ack
      by (intro disjI2 exI [of _ QDelivered] exI [of _ s1]) (simp add: attempt_item_def)
  next
    case 2
    show ?thesis
    proof (cases "\<exists>d office. receipt = JObj d \<and> jget d ''office_id'' = JStr office \<and> office \<noteq> []")
      case True
      then obtain d office where r: "receipt = JObj d" "jget d ''office_id'' = JStr office" "office \<noteq> []" by blast
      obtain s2 where "transfer_custody (c_message_id item) worker office receipt now s = (Inr (), s2)"
        "closes_row (c_message_id item) QCustodyTransferred s s2" using tr by blast
      with r 2 show ?thesis using Inr out
        by (intro disjI2 exI [of _ QCustodyTransferred] exI [of _ s2]) (simp add: attempt_item_def)
    next
      case False
      with 2 Inr out show ?thesis by (auto simp: attempt_item_def split: json.splits)
    qed
  next
    case 3
    then show ?thesis using Inr out fail
      by (intro disjI2 exI [of _ QRejected] exI [of _ s3]) (simp add: attempt_item_def)
  qed
qed (simp add: attempt_item_def)

lemma process_item_held:
  assumes fit: "delays_fit (qc_retry_policy cfg)" and h: "held worker now s (c_message_id item)"
  obtains st s' where "process_item cfg worker sender now draw (Inr n, s) item =
      (Inr (count_state st (n\<lparr>n_claimed := n_claimed n + 1\<rparr>)), s')" "closes_row (c_message_id item) st s s'"
proof -
  let ?n = "n\<lparr>n_claimed := n_claimed n + 1\<rparr>" and ?d = "draw (c_message_id item)"
  from attempt_held [OF fit h, of sender ?d ?n] show ?thesis
  proof
    assume "\<exists>e. attempt_item cfg worker sender now ?d ?n item s = (Inl e, s)"
    then obtain e where e: "attempt_item cfg worker sender now ?d ?n item s = (Inl e, s)" by blast
    obtain st s' where "fail_msg cfg (c_message_id item) worker (err_text e) now True ?d s = (Inr st, s')"
      "closes_row (c_message_id item) st s s'" "st = QRetryWait \<or> st = QRejected" using fit h by (rule fail_held)
    with e show ?thesis by (intro that [of st s']) (auto simp: process_item_def Let_def)
  next
    assume "\<exists>st s'. attempt_item cfg worker sender now ?d ?n item s = (Inr (count_state st ?n), s') \<and>
       closes_row (c_message_id item) st s s'"
    then show ?thesis using that by (auto simp: process_item_def Let_def)
  qed
qed

definition state_of :: "qstore \<Rightarrow> string \<Rightarrow> qstate option" where
  "state_of s m = map_option q_state (find_msg s m)"

definition in_state :: "qstate \<Rightarrow> qstore \<Rightarrow> string list \<Rightarrow> int" where
  "in_state st s ms = int (length (filter (\<lambda>m. state_of s m = Some st) ms))"

text \<open>The counters a pass should report, read off the states in which it leaves the messages.\<close>

definition tally :: "process_counts \<Rightarrow> qstore \<Rightarrow> string list \<Rightarrow> process_counts" where
  "tally n s ms =
     \<lparr>n_claimed = n_claimed n + int (length ms), n_delivered = n_delivered n + in_state QDelivered s ms,
      n_transferred = n_transferred n + in_state QCustodyTransferred s ms,
      n_retry = n_retry n + in_state QRetryWait s ms, n_rejected = n_rejected n + in_state QRejected s ms\<rparr>"

definition zero_counts :: process_counts where
  "zero_counts = \<lparr>n_claimed = 0, n_delivered = 0, n_transferred = 0, n_retry = 0, n_rejected = 0\<rparr>"

lemma tally_Cons:
  assumes "state_of s m = Some st" "st \<in> {QDelivered, QCustodyTransferred, QRetryWait, QRejected}"
  shows "tally (count_state st (n\<lparr>n_claimed := n_claimed n + 1\<rparr>)) s ms = tally n s (m # ms)"
  using assms by (auto simp: tally_def in_state_def)

lemma closes_other:
  assumes "closes_row m st s s'" "k \<noteq> m"
  shows "find_msg s' k = find_msg s k"
proof (cases "find_msg s k")
  case (Some r)
  then have "q_message_id r \<noteq> m" using assms(2) find_row_SomeD [OF Some] by simp
  with Some assms(1) show ?thesis by (auto simp: closes_row_def find_row_update_where)
qed (use assms(1) in \<open>auto simp: closes_row_def find_row_update_where\<close>)

lemma closes_state: "closes_row m st s s' \<Longrightarrow> find_msg s m = Some r \<Longrightarrow> state_of s' m = Some st"
  by (auto simp: closes_row_def state_of_def find_row_update_where dest: find_row_SomeD)

lemma process_fold_counts:
  assumes "delays_fit (qc_retry_policy cfg)" "distinct (map c_message_id items)" "\<forall>item \<in> set items. held worker now s (c_message_id item)"
  shows "\<exists>s'. foldl (process_item cfg worker sender now draw) (Inr n, s) items =
      (Inr (tally n s' (map c_message_id items)), s') \<and>
    (\<forall>k. k \<notin> c_message_id ` set items \<longrightarrow> find_msg s' k = find_msg s k) \<and>
    (\<forall>m \<in> c_message_id ` set items. state_of s' m \<in> Some ` {QDelivered, QCustodyTransferred, QRetryWait, QRejected})"
  using assms
proof (induction items arbitrary: s n)
  case Nil
  then show ?case by (simp add: tally_def in_state_def)
next
  case (Cons item items)
  let ?m = "c_message_id item"
  have h: "held worker now s ?m" using Cons.prems by simp
  obtain st s1 where step: "process_item cfg worker sender now draw (Inr n, s) item =
      (Inr (count_state st (n\<lparr>n_claimed := n_claimed n + 1\<rparr>)), s1)" and c: "closes_row ?m st s s1"
    using Cons.prems(1) h by (rule process_item_held)
  have other: "find_msg s1 k = find_msg s k" if "k \<noteq> ?m" for k using c that by (rule closes_other)
  have held1: "held worker now s1 (c_message_id i)" if "i \<in> set items" for i
  proof -
    have "c_message_id i \<noteq> ?m" using Cons.prems(2) that by (auto simp: image_iff)
    then show ?thesis using Cons.prems(3) that other [of "c_message_id i"] by (simp add: held_def)
  qed
  have d: "distinct (map c_message_id items)" using Cons.prems(2) by simp
  obtain s' where IH: "foldl (process_item cfg worker sender now draw)
        (Inr (count_state st (n\<lparr>n_claimed := n_claimed n + 1\<rparr>)), s1) items =
      (Inr (tally (count_state st (n\<lparr>n_claimed := n_claimed n + 1\<rparr>)) s' (map c_message_id items)), s')"
    "\<forall>k. k \<notin> c_message_id ` set items \<longrightarrow> find_msg s' k = find_msg s1 k"
    "\<forall>m \<in> c_message_id ` set items. state_of s' m \<in> Some ` {QDelivered, QCustodyTransferred, QRetryWait, QRejected}"
    using Cons.IH [OF Cons.prems(1) d, of s1 "count_state st (n\<lparr>n_claimed := n_claimed n + 1\<rparr>)"] held1 by blast
  obtain r where r: "find_msg s ?m = Some r" using h by (rule heldE)
  have fresh: "?m \<notin> c_message_id ` set items" using Cons.prems(2) by auto
  then have st: "state_of s' ?m = Some st"
    using closes_state [OF c r] IH(2) by (simp add: state_of_def)
  have ok: "st \<in> {QDelivered, QCustodyTransferred, QRetryWait, QRejected}" using c by (simp add: closes_row_def)
  show ?case
  proof (intro exI [of _ s'] conjI)
    show "foldl (process_item cfg worker sender now draw) (Inr n, s) (item # items) =
        (Inr (tally n s' (map c_message_id (item # items))), s')"
      using step IH(1) tally_Cons [OF st ok, of n "map c_message_id items"] by simp
  qed (use IH(2,3) st ok other in auto)
qed

lemma find_map_row: "(\<And>r. q_message_id (g r) = q_message_id r) \<Longrightarrow>
   find_row q_message_id m (map g rows) = map_option g (find_row q_message_id m rows)"
  by (induction rows) auto

lemma claim_due_held:
  assumes inv: "queue_inv sha cfg s" and pos: "1 \<le> limit" "1 \<le> lease" and r: "r \<in> set (claim_choice limit now s)"
  shows "held worker now (snd (claim_due worker limit lease now s)) (q_message_id r)"
proof -
  have d: "ids_distinct s" and row: "r \<in> set (qs_rows s)" "claimable now r"
    using inv claim_choice_set [OF r] by (auto simp: queue_inv_def)
  then have "find_msg s (q_message_id r) = Some r" by (simp add: find_row_distinct)
  moreover have "0 \<le> q_attempt_count r" using inv row(1) by (auto simp: queue_inv_def row_dynamic_ok_def)
  ultimately show ?thesis
    using claim_due_is [OF inv pos] row(2) r
    by (simp add: held_def find_map_row due_after_housekeeping)
      (auto simp: settled_row_def claimable_def claim_row_def owns_lease_def)
qed

text \<open>The processing pass as a whole: when no delay overflows it does not raise, and its counters are the tally.\<close>

lemma process_once_is:
  assumes fit: "delays_fit (qc_retry_policy cfg)" and inv: "queue_inv sha cfg s" and pos: "1 \<le> limit"
  shows "\<exists>s'. process_once cfg worker sender limit now draw s =
      (Inr (tally zero_counts s' (map q_message_id (claim_choice limit now s))), s') \<and>
    (\<forall>r \<in> set (claim_choice limit now s).
       state_of s' (q_message_id r) \<in> Some ` {QDelivered, QCustodyTransferred, QRetryWait, QRejected})"
proof -
  obtain x s1 where c: "claim_due worker limit 60 now s = (x, s1)" by fastforce
  then have items: "x = Inr (map row_item (claim_choice limit now s))"
    using claim_due_is [OF inv pos, of 60 worker now] by simp
  have ids: "map c_message_id (map row_item (claim_choice limit now s)) = map q_message_id (claim_choice limit now s)"
    by simp
  have dist: "distinct (map c_message_id (map row_item (claim_choice limit now s)))"
    unfolding ids using inv by (auto simp: queue_inv_def intro: claim_choice_distinct)
  have "\<forall>item \<in> set (map row_item (claim_choice limit now s)). held worker now s1 (c_message_id item)"
    using claim_due_held [OF inv pos, of 60 _ now worker] c by auto
  from process_fold_counts [OF fit dist this, of sender draw zero_counts] show ?thesis
    using c items by (auto simp: process_once_def zero_counts_def comp_def)
qed

section \<open>Properties\<close>

abbreviation run_queue :: "(string \<Rightarrow> string) \<Rightarrow> queue_config \<Rightarrow> queue_op list \<Rightarrow> qstore" where
  "run_queue sha cfg ops \<equiv> foldl (queue_step sha cfg) empty_qstore ops"

lemma run_queue_inv: "queue_inv sha cfg (run_queue sha cfg ops)"
  by (simp add: queue.run_inv)

lemma row_persists:
  assumes "queue_inv sha cfg s" "find_msg s m = Some r"
  shows "\<exists>r'. find_msg (foldl (queue_step sha cfg) s ops) m = Some r' \<and> row_static r' = row_static r"
  using assms
proof (induction ops arbitrary: s r)
  case (Cons op ops)
  have "\<exists>r'. find_msg (queue_step sha cfg s op) m = Some r' \<and> row_static r' = row_static r"
    using queue_step_cases [OF Cons.prems(1), of op]
  proof
    assume "store_evolves cfg s (queue_step sha cfg s op)"
    then show ?thesis
      using find_evolves [OF _ Cons.prems(2)] by (fastforce simp: store_evolves_def row_evolves_def)
  qed (use Cons.prems(2) in \<open>auto simp: added_by_def find_row_append\<close>)
  then obtain r' where r': "find_msg (queue_step sha cfg s op) m = Some r'" "row_static r' = row_static r" by blast
  from Cons.IH [OF queue_step_inv [OF Cons.prems(1)] r'(1)] r'(2) show ?case by simp
qed simp

lemma enqueue_accepted:
  assumes "wf_json (JObj env)" "jget env ''message_id'' = JStr m"
    and "fst (enqueue sha cfg env dest expires prio hop t (run_queue sha cfg ops)) = Inr True"
  obtains r where "find_msg (foldl (queue_step sha cfg) empty_qstore (ops @ OpEnqueue env dest expires prio hop t # later)) m = Some r"
    "q_envelope_json r = canonical_json (JObj env)" "q_envelope_digest r = envelope_digest sha (JObj env)"
proof -
  let ?s0 = "run_queue sha cfg ops"
  let ?s1 = "snd (enqueue sha cfg env dest expires prio hop t ?s0)"
  have s1: "queue_step sha cfg ?s0 (OpEnqueue env dest expires prio hop t) = ?s1" using assms(1) by simp
  have "added_by sha cfg env dest expires prio hop t ?s0 ?s1"
    using enqueue_cases [of sha cfg env dest expires prio hop t ?s0] assms(3) by metis
  then obtain r where r: "find_msg ?s1 m = Some r" "q_envelope_json r = canonical_json (JObj env)"
    "q_envelope_digest r = envelope_digest sha (JObj env)"
    using assms(2) by (auto simp: added_by_def find_row_append new_qrow_def)
  have "queue_inv sha cfg ?s1" using queue_step_inv [OF run_queue_inv] s1 by metis
  from row_persists [OF this r(1), of later] obtain r' where
    "find_msg (foldl (queue_step sha cfg) ?s1 later) m = Some r'" "row_static r' = row_static r" by blast
  then show ?thesis using r(2,3) s1 by (intro that [of r']) (simp_all add: row_static_def)
qed

lemma claim_due_positive: "claim_due worker limit lease now s = (Inr items, s') \<Longrightarrow> 1 \<le> limit \<and> 1 \<le> lease"
  by (auto simp: claim_due_def split: if_splits)

lemma claim_due_InrD:
  assumes "claim_due worker limit lease now s = (Inr items, s')" "queue_inv sha cfg s"
  shows "items = map row_item (claim_choice limit now s)" and "queue_inv sha cfg s'"
    and "qs_rows s' = map (settled_row worker lease now (q_message_id ` set (claim_choice limit now s))) (qs_rows s)"
  using claim_due_is [OF assms(2), of limit lease worker now] claim_due_positive [OF assms(1)] assms(1)
    queue_step_inv [OF assms(2), of "OpClaim worker limit lease now"] by simp_all

lemma settled_not_claimable:
  assumes "claimable now1 r" "q_message_id r \<in> ms" "now2 < now1 + lease"
  shows "\<not> claimable now2 (settled_row worker lease now1 ms r)"
  using assms by (simp add: settled_row_def claimable_def waiting_def lease_over_def claim_row_def)

text \<open>
  C1. Whatever sequence of calls a queue has served since its tables were empty, its invariant
  holds: message ids are unique; exactly the rows in flight carry a lease; exactly the delivered
  rows carry a delivery time; no row still active has used up its attempts; each row keeps the
  weight of its priority, the size, canonical text and digest of the envelope it was accepted with;
  and the active rows stay within the configured message and byte capacity.
\<close>

theorem queue_invariant: "queue_inv sha cfg (run_queue sha cfg ops)"
  using run_queue_inv .

text \<open>
  A row in a terminal state (delivered, expired, rejected, cancelled) is final: no later
  sequence of calls changes any column of it.
\<close>

theorem terminal_rows_are_final:
  assumes "find_msg (run_queue sha cfg ops) m = Some r" "terminal_state (q_state r)"
  shows "find_msg (run_queue sha cfg (ops @ later)) m = Some r"
  using queue.final_run [OF run_queue_inv assms] by simp

text \<open>
  C2. \<open>claim_due\<close> computes its reference: it returns the first \<open>limit\<close> claimable messages in the
  order of priority, due time, creation time and id, each with the envelope read back; expired rows
  become expired, the chosen rows are leased to the worker until \<open>now + lease\<close>, rows whose lease ran
  out without being chosen wait for a retry, and every other row is untouched.
\<close>

theorem claim_due_reference:
  assumes "1 \<le> limit" "1 \<le> lease" and "s = run_queue sha cfg ops"
  shows "fst (claim_due worker limit lease now s) = Inr (map row_item (claim_choice limit now s)) \<and>
    qs_rows (snd (claim_due worker limit lease now s)) =
      map (settled_row worker lease now (q_message_id ` set (claim_choice limit now s))) (qs_rows s)"
  using claim_due_is assms run_queue_inv by blast

text \<open>
  C14. A lease excludes every other worker while it lasts: two claims in a row never return the
  same message when the second comes before the lease of the first ends.
\<close>

theorem leases_exclude:
  assumes "claim_due w1 limit1 lease1 now1 (run_queue sha cfg ops) = (Inr xs, s1)"
    and "claim_due w2 limit2 lease2 now2 s1 = (Inr ys, s2)" and "now2 < now1 + lease1"
  shows "c_message_id ` set xs \<inter> c_message_id ` set ys = {}"
proof -
  let ?s = "run_queue sha cfg ops"
  have inv: "queue_inv sha cfg ?s" by (rule run_queue_inv)
  note first = claim_due_InrD [OF assms(1) inv]
  note second = claim_due_InrD [OF assms(2) first(2)]
  show ?thesis
  proof (rule ccontr)
    assume "\<not> ?thesis"
    then obtain r1 r2 where r: "r1 \<in> set (claim_choice limit1 now1 ?s)" "r2 \<in> set (claim_choice limit2 now2 s1)"
      "q_message_id r1 = q_message_id r2" by (auto simp: first(1) second(1))
    then have r1: "r1 \<in> set (qs_rows ?s)" "claimable now1 r1" and r2: "r2 \<in> set (qs_rows s1)" "claimable now2 r2"
      by (simp_all add: claim_choice_set)
    let ?f = "settled_row w1 lease1 now1 (q_message_id ` set (claim_choice limit1 now1 ?s))"
    have "?f r1 \<in> set (qs_rows s1)" "q_message_id (?f r1) = q_message_id r2"
      using r1(1) r(3) by (simp_all add: first(3) due_after_housekeeping)
    then have "r2 = ?f r1"
      using r2(1) first(2) by (auto simp: queue_inv_def distinct_map dest: inj_onD)
    moreover have "\<not> claimable now2 (?f r1)"
      using r1(2) assms(3) r(1) by (intro settled_not_claimable) auto
    ultimately show False using r2(2) by simp
  qed
qed

text \<open>
  When no retry delay overflows the doubles, a processing pass never raises, whatever the sender returns or raises: every message it
  claims ends delivered, handed over, waiting for a retry or rejected, none stays in flight, and
  the reported counters are exactly the numbers of claimed messages left in each of these states.
\<close>

theorem process_once_reports_the_outcome:
  assumes "1 \<le> limit" and "s = run_queue sha cfg ops" and "delays_fit (qc_retry_policy cfg)"
  shows "\<exists>s'. process_once cfg worker sender limit now draw s =
      (Inr (tally zero_counts s' (map q_message_id (claim_choice limit now s))), s') \<and>
    (\<forall>r \<in> set (claim_choice limit now s).
       state_of s' (q_message_id r) \<in> Some ` {QDelivered, QCustodyTransferred, QRetryWait, QRejected})"
  unfolding assms(2) using assms(3) run_queue_inv assms(1) by (rule process_once_is)

text \<open>
  C30. An accepted envelope reaches every later claim unchanged: whatever happens in between, a
  claim that returns the message returns the envelope it was accepted with (its keys sorted).
\<close>

theorem claims_return_the_accepted_envelope:
  assumes "wf_json (JObj env)" "jget env ''message_id'' = JStr m"
    and "fst (enqueue sha cfg env dest expires prio hop t (run_queue sha cfg ops)) = Inr True"
    and "claim_due worker limit lease now
      (run_queue sha cfg (ops @ OpEnqueue env dest expires prio hop t # later)) = (Inr items, s')"
    and "item \<in> set items" "c_message_id item = m"
  shows "c_envelope item = canon (JObj env)"
proof -
  let ?s = "run_queue sha cfg (ops @ OpEnqueue env dest expires prio hop t # later)"
  have inv: "queue_inv sha cfg ?s" by (rule run_queue_inv)
  obtain r where r: "find_msg ?s m = Some r" "q_envelope_json r = canonical_json (JObj env)"
    using assms(1-3) by (rule enqueue_accepted)
  from claim_due_InrD(1) [OF assms(4) inv] assms(5,6)
  obtain x where x: "x \<in> set (qs_rows ?s)" "q_message_id x = m" "item = row_item x"
    by (auto dest: claim_choice_set)
  then have "find_msg ?s m = Some x" using inv by (simp add: find_row_distinct queue_inv_def)
  then have "q_envelope_json x = canonical_json (JObj env)" using r by simp
  with x(3) show ?thesis
    using json_loads_canonical [OF assms(1)] by (simp only: row_item_def claimed_item_def claimed.simps option.sel)
qed

text \<open>
  Enqueueing is idempotent for as long as the queue lives: once an envelope was accepted, the
  same envelope is recognised (no second row, no change) and another envelope under the same
  message id, with another digest, is refused, whatever calls came in between, terminal states
  included.
\<close>

theorem enqueue_deduplicates:
  assumes "wf_json (JObj env)" "jget env ''message_id'' = JStr m"
    and "fst (enqueue sha cfg env dest expires prio hop t (run_queue sha cfg ops)) = Inr True"
    and "s = run_queue sha cfg (ops @ OpEnqueue env dest expires prio hop t # later)"
    and "jget env' ''message_id'' = JStr m" "priority_weight prio' \<noteq> None" "now < expires'"
    and "int (length (canonical_json (JObj env'))) \<le> ql_max_message_bytes (qc_limits cfg)"
  shows "enqueue sha cfg env' dest' expires' prio' hop' now s =
    (if envelope_digest sha (JObj env') = envelope_digest sha (JObj env) then Inr False
     else Inl (ValueError ''message_id collision with different envelope''), s)"
proof -
  obtain r where r: "find_msg s m = Some r" "q_envelope_digest r = envelope_digest sha (JObj env)"
    unfolding assms(4) using assms(1-3) by (rule enqueue_accepted)
  have "m \<noteq> []" using assms(2,3) by (auto simp: enqueue_def)
  with r assms(5-8) show ?thesis by (auto simp: enqueue_def Let_def)
qed

text \<open>
  The retry delay is at least one second and at most the configured maximum plus its jitter
  (rounded up), for every attempt number and every draw of the random generator.
\<close>

lemma retry_delay_bounds:
  assumes "1 \<le> attempt" "0 \<le> draw" "draw \<le> 1" "0 \<le> rp_jitter_fraction p" "rp_jitter_fraction p \<le> 1"
    and "0 \<le> rp_initial_seconds p" "0 \<le> rp_maximum_seconds p" "0 \<le> rp_multiplier p"
    and "rp_multiplier p ^ nat (attempt - 1) < float_bound"
  shows "\<exists>d. retry_delay p attempt draw = Inr d \<and> 1 \<le> d \<and>
    d \<le> max 1 \<lceil>of_int (rp_maximum_seconds p) * (1 + rp_jitter_fraction p)\<rceil>"
proof -
  let ?b = "min (of_int (rp_maximum_seconds p)) (of_int (rp_initial_seconds p) * rp_multiplier p ^ nat (attempt - 1))" and ?j = "rp_jitter_fraction p"
  let ?u = "(?b - ?b * ?j) + ((?b + ?b * ?j) - (?b - ?b * ?j)) * draw"
  have base: "retry_base p attempt = Inr ?b"
    using assms(8,9) by (simp add: retry_base_def float_power_def power_abs)
  have b: "0 \<le> ?b" "?b \<le> of_int (rp_maximum_seconds p)" using assms by simp_all
  have "((?b + ?b * ?j) - (?b - ?b * ?j)) * draw \<le> ((?b + ?b * ?j) - (?b - ?b * ?j)) * 1"
    using b(1) assms(3,4) by (intro mult_left_mono) simp_all
  then have "?u \<le> ?b * (1 + ?j)" by (simp add: algebra_simps)
  also have "\<dots> \<le> of_int (rp_maximum_seconds p) * (1 + ?j)"
    using b(2) assms(4) by (intro mult_right_mono) simp_all
  also have "\<dots> \<le> of_int \<lceil>of_int (rp_maximum_seconds p) * (1 + ?j)\<rceil>" by (rule le_of_int_ceiling)
  finally have round: "py_round ?u \<le> \<lceil>of_int (rp_maximum_seconds p) * (1 + ?j)\<rceil>" by (rule py_round_le)
  have delay: "retry_delay p attempt draw = Inr (max 1 (py_round ?u))"
    using base assms(1) by (simp only: retry_delay_def Let_def map_sum.simps) simp
  show ?thesis by (rule exI, rule conjI, rule delay, rule conjI, rule max.cobounded1, rule max.mono [OF order_refl round])
qed

section \<open>The properties at a concrete queue\<close>

lemma claimed_ids:
  assumes "map_sum (\<lambda>e. e) (map c_message_id) (fst p) = Inr ms"
  obtains xs where "p = (Inr xs, snd p)" "map c_message_id xs = ms"
  using assms by (cases p; cases "fst p") auto

definition demo_config :: queue_config where
  "demo_config = \<lparr>qc_office_id = ''A'', qc_retry_policy = default_retry_policy, qc_limits = default_queue_limits\<rparr>"

definition demo_envelope :: "(string, json) dict" where
  "demo_envelope = [(''message_id'', JStr ''m''), (''body'', JInt 7)]"

definition demo_ops :: "queue_op list" where
  "demo_ops = [OpEnqueue demo_envelope ''B'' 90 ''normal'' None 1]"

lemma terminal_rows_are_final_witness:
  "\<exists>r. q_state r = QCancelled \<and>
     find_msg (run_queue id demo_config ((demo_ops @ [OpCancel ''m'' ''r'' 2]) @ [OpExpire 99, OpClaim ''w'' 5 60 100])) ''m'' = Some r"
proof -
  have "map_option q_state (find_msg (run_queue id demo_config (demo_ops @ [OpCancel ''m'' ''r'' 2])) ''m'') = Some QCancelled"
    by code_simp
  then obtain r where r: "find_msg (run_queue id demo_config (demo_ops @ [OpCancel ''m'' ''r'' 2])) ''m'' = Some r"
    "q_state r = QCancelled" by auto
  then show ?thesis
    using terminal_rows_are_final [OF r(1), of "[OpExpire 99, OpClaim ''w'' 5 60 100]"]
    by (auto simp: terminal_state_def)
qed

lemma claim_due_reference_witness:
  "map_sum (\<lambda>e. e) (map c_message_id) (fst (claim_due ''w'' 5 60 3 (run_queue id demo_config demo_ops))) = Inr [''m'']"
proof -
  have "map c_message_id (map row_item (claim_choice 5 3 (run_queue id demo_config demo_ops))) = [''m'']" by code_simp
  then show ?thesis
    using claim_due_reference [of 5 60 "run_queue id demo_config demo_ops" id demo_config demo_ops "''w''" 3] by simp
qed

lemma leases_exclude_witness:
  "\<exists>xs ys s1 s2. claim_due ''w1'' 5 60 3 (run_queue id demo_config demo_ops) = (Inr xs, s1) \<and>
     map c_message_id xs = [''m''] \<and> claim_due ''w2'' 5 60 62 s1 = (Inr ys, s2) \<and>
     c_message_id ` set xs \<inter> c_message_id ` set ys = {}"
proof -
  let ?s = "run_queue id demo_config demo_ops"
  let ?s1 = "snd (claim_due ''w1'' 5 60 3 ?s)"
  have "map_sum (\<lambda>e. e) (map c_message_id) (fst (claim_due ''w1'' 5 60 3 ?s)) = Inr [''m'']" by code_simp
  then obtain xs where xs: "claim_due ''w1'' 5 60 3 ?s = (Inr xs, ?s1)" "map c_message_id xs = [''m'']"
    by (rule claimed_ids)
  have "is_ok (fst (claim_due ''w2'' 5 60 62 ?s1))" by code_simp
  then obtain ys s2 where ys: "claim_due ''w2'' 5 60 62 ?s1 = (Inr ys, s2)" by (metis is_ok_iff prod.collapse)
  show ?thesis
    by (intro exI conjI, rule xs(1), rule xs(2), rule ys, rule leases_exclude [OF xs(1) ys]) simp
qed

lemma process_once_reports_the_outcome_witness:
  "\<exists>n. fst (process_once demo_config ''w'' (\<lambda>i. Inl (RuntimeError ''down'')) 5 3 (\<lambda>_. 1/2) (run_queue id demo_config demo_ops)) = Inr n \<and>
     n_claimed n = 1"
proof -
  have "delays_fit (qc_retry_policy demo_config)"
    by (simp add: delays_fit_def demo_config_def default_retry_policy_def float_bound_def)
  moreover have "length (claim_choice 5 3 (run_queue id demo_config demo_ops)) = 1" by code_simp
  ultimately show ?thesis
    using process_once_reports_the_outcome [of 5 "run_queue id demo_config demo_ops" id demo_config demo_ops
        "''w''" "\<lambda>i. Inl (RuntimeError ''down'')" 3 "\<lambda>_. 1/2"]
    by (auto simp: tally_def zero_counts_def)
qed

lemma claims_return_the_accepted_envelope_witness:
  "\<exists>item s'. claim_due ''w'' 5 60 3 (run_queue id demo_config ([] @ OpEnqueue demo_envelope ''B'' 90 ''normal'' None 1 # [])) = (Inr [item], s') \<and>
     c_envelope item = canon (JObj demo_envelope)"
proof -
  let ?s = "run_queue id demo_config ([] @ OpEnqueue demo_envelope ''B'' 90 ''normal'' None 1 # [])"
  have "map_sum (\<lambda>e. e) (map c_message_id) (fst (claim_due ''w'' 5 60 3 ?s)) = Inr [''m'']" by code_simp
  then obtain xs where xs: "claim_due ''w'' 5 60 3 ?s = (Inr xs, snd (claim_due ''w'' 5 60 3 ?s))"
    "map c_message_id xs = [''m'']" by (rule claimed_ids)
  then obtain item s' where c: "claim_due ''w'' 5 60 3 ?s = (Inr [item], s')" "c_message_id item = ''m''"
    by (simp only: map_eq_Cons_conv map_is_Nil_conv) blast
  have "wf_json (JObj demo_envelope)" "jget demo_envelope ''message_id'' = JStr ''m''" by code_simp+
  moreover have "fst (enqueue id demo_config demo_envelope ''B'' 90 ''normal'' None 1 (run_queue id demo_config [])) = Inr True"
    by code_simp
  ultimately have "c_envelope item = canon (JObj demo_envelope)"
    using claims_return_the_accepted_envelope [OF _ _ _ c(1), of "''m''" item] c(2) by simp
  with c(1) show ?thesis by blast
qed

lemma enqueue_deduplicates_witness:
  "fst (enqueue id demo_config [(''message_id'', JStr ''m'')] ''B'' 99 ''bulk'' None 5
     (run_queue id demo_config ([] @ OpEnqueue demo_envelope ''B'' 90 ''normal'' None 1 # [OpCancel ''m'' ''r'' 2]))) =
   Inl (ValueError ''message_id collision with different envelope'')"
proof -
  have "wf_json (JObj demo_envelope)" "jget demo_envelope ''message_id'' = JStr ''m''"
    "fst (enqueue id demo_config demo_envelope ''B'' 90 ''normal'' None 1 (run_queue id demo_config [])) = Inr True"
    "jget [(''message_id'', JStr ''m'')] ''message_id'' = JStr ''m''" "priority_weight ''bulk'' \<noteq> None" "(5 :: int) < 99"
    "int (length (canonical_json (JObj [(''message_id'', JStr ''m'')]))) \<le> ql_max_message_bytes (qc_limits demo_config)"
    by code_simp+
  moreover have "envelope_digest id (JObj [(''message_id'', JStr ''m'')]) \<noteq> envelope_digest id (JObj demo_envelope)"
    by code_simp
  ultimately show ?thesis
    using enqueue_deduplicates [of demo_envelope "''m''" id demo_config "''B''" 90 "''normal''" None 1 "[]" _
        "[OpCancel ''m'' ''r'' 2]" "[(''message_id'', JStr ''m'')]" "''bulk''" 5 99 "''B''" None] by simp
qed

lemma retry_delay_bounds_witness:
  "\<exists>d. retry_delay default_retry_policy 20 1 = Inr d \<and> 1 \<le> d \<and> d \<le> 4320"
proof -
  have "max 1 \<lceil>of_int (rp_maximum_seconds default_retry_policy) * (1 + rp_jitter_fraction default_retry_policy)\<rceil> = 4320"
    by code_simp
  then show ?thesis
    using retry_delay_bounds [of 20 1 default_retry_policy] by (simp add: default_retry_policy_def float_bound_def)
qed

end
