(* ===== verification/Heapq.thy ===== *)
theory Heapq
  imports Prelude
begin

text \<open>
  The binary heap of Python's \<open>heapq\<close> on a list, with a comparison that may raise, and the contract
  a search loop needs from its work queue: a locale, interpreted on this heap.
\<close>

section \<open>The contract of a work queue\<close>

text \<open>
  A queue is a bag of items. Adding or taking an item may raise, but not when the items are pairwise
  comparable.
\<close>

locale bag_queue =
  fixes push :: "'q \<Rightarrow> 'e \<Rightarrow> 'q outcome"
    and pop :: "'q \<Rightarrow> ('e \<times> 'q) outcome"
    and items :: "'q \<Rightarrow> 'e multiset"
    and comparable :: "'e set \<Rightarrow> bool"
  assumes push_items: "push q e = Inr q' \<Longrightarrow> items q' = add_mset e (items q)"
    and pop_items: "pop q = Inr (e, q') \<Longrightarrow> items q = add_mset e (items q')"
    and push_total: "comparable (insert e (set_mset (items q))) \<Longrightarrow> is_ok (push q e)"
    and pop_total: "items q \<noteq> {#} \<Longrightarrow> comparable (set_mset (items q)) \<Longrightarrow> is_ok (pop q)"
begin

text \<open>An item that was taken is replaced by finitely many of lower rank: the loop measure.\<close>

lemma replace_decreases:
  assumes "pop q = Inr (e, q1)" "items q2 = items q1 + new" "\<forall>x \<in> set_mset new. rank x < (rank e :: nat)"
  shows "(image_mset rank (items q2), image_mset rank (items q)) \<in> mult less_than"
proof -
  have "(image_mset rank (items q1) + image_mset rank new, image_mset rank (items q1) + {#rank e#}) \<in> mult less_than"
    using assms(3) by (intro one_step_implies_mult) auto
  then show ?thesis using pop_items [OF assms(1)] assms(2) by simp
qed

lemma replace_all:
  assumes "pop q = Inr (e, q1)" "items q2 = items q1 + new"
    and "\<forall>x \<in> set_mset (items q). P x" "\<forall>x \<in> set_mset new. P x"
  shows "P e" "\<forall>x \<in> set_mset (items q2). P x"
  using assms pop_items [OF assms(1)] by auto

end

section \<open>The heap\<close>

definition swap_at :: "'a list \<Rightarrow> nat \<Rightarrow> nat \<Rightarrow> 'a list" where
  "swap_at xs i j = xs[i := xs ! j, j := xs ! i]"

text \<open>\<open>_siftdown\<close>: the item at \<open>pos\<close> rises while it is smaller than its parent.\<close>

function sift_down :: "('a \<Rightarrow> 'a \<Rightarrow> bool outcome) \<Rightarrow> 'a list \<Rightarrow> nat \<Rightarrow> 'a list outcome" where
  "sift_down lt heap pos =
     (if pos = 0 then Inr heap
      else let parent = (pos - 1) div 2 in
        (case lt (heap ! pos) (heap ! parent) of
           Inl e \<Rightarrow> Inl e
         | Inr b \<Rightarrow> if b then sift_down lt (swap_at heap pos parent) parent else Inr heap))"
  by pat_completeness auto
termination by (relation "measure (\<lambda>(lt, heap, pos). pos)") auto

text \<open>\<open>_siftup\<close>: the item at \<open>pos\<close> sinks to a leaf along the smaller children, then rises again.\<close>

definition min_child :: "('a \<Rightarrow> 'a \<Rightarrow> bool outcome) \<Rightarrow> 'a list \<Rightarrow> nat \<Rightarrow> nat outcome" where
  "min_child lt heap pos =
     (let left = 2 * pos + 1 in
      if left + 1 < length heap
      then bindE (lt (heap ! left) (heap ! (left + 1))) (\<lambda>b. Inr (if b then left else left + 1))
      else Inr left)"

lemma min_child_bounds:
  "min_child lt heap pos = Inr c \<Longrightarrow> 2 * pos + 1 < length heap \<Longrightarrow> pos < c \<and> c < length heap"
  by (auto simp: min_child_def Let_def bindE_Inr_iff split: if_splits)

function sift_up :: "('a \<Rightarrow> 'a \<Rightarrow> bool outcome) \<Rightarrow> 'a list \<Rightarrow> nat \<Rightarrow> 'a list outcome" where
  "sift_up lt heap pos =
     (if 2 * pos + 1 < length heap then
        (case min_child lt heap pos of
           Inl e \<Rightarrow> Inl e
         | Inr child \<Rightarrow> sift_up lt (swap_at heap pos child) child)
      else sift_down lt heap pos)"
  by pat_completeness auto
termination
  by (relation "measure (\<lambda>(lt, heap, pos). length heap - pos)")
    (auto simp: swap_at_def dest: min_child_bounds)

declare sift_down.simps [simp del] sift_up.simps [simp del]

definition heappush :: "('a \<Rightarrow> 'a \<Rightarrow> bool outcome) \<Rightarrow> 'a list \<Rightarrow> 'a \<Rightarrow> 'a list outcome" where
  "heappush lt heap x = sift_down lt (heap @ [x]) (length heap)"

definition heappop :: "('a \<Rightarrow> 'a \<Rightarrow> bool outcome) \<Rightarrow> 'a list \<Rightarrow> ('a \<times> 'a list) outcome" where
  "heappop lt heap =
     (case rev heap of
        [] \<Rightarrow> Inl (OtherError ''index out of range'')
      | last_item # rest \<Rightarrow>
          (case rev rest of
             [] \<Rightarrow> Inr (last_item, [])
           | front # tail \<Rightarrow> bindE (sift_up lt (last_item # tail) 0) (\<lambda>h. Inr (front, h))))"

lemma mset_swap_at: "i < length xs \<Longrightarrow> j < length xs \<Longrightarrow> mset (swap_at xs i j) = mset xs"
  unfolding swap_at_def by (rule mset_swap)

lemma length_swap_at [simp]: "length (swap_at xs i j) = length xs"
  by (simp add: swap_at_def)

lemma mset_sift_down: "sift_down lt heap pos = Inr h \<Longrightarrow> pos < length heap \<Longrightarrow> mset h = mset heap"
proof (induction lt heap pos rule: sift_down.induct)
  case (1 lt heap pos)
  show ?case
  proof (cases "pos = 0")
    case False
    let ?p = "(pos - 1) div 2"
    have p: "?p < length heap" using "1.prems"(2) by simp
    obtain b where b: "lt (heap ! pos) (heap ! ?p) = Inr b"
      using "1.prems"(1) False by (subst (asm) sift_down.simps) (auto simp: Let_def split: sum.splits)
    show ?thesis
    proof (cases b)
      case True
      then have "sift_down lt (swap_at heap pos ?p) ?p = Inr h"
        using "1.prems"(1) False b by (subst (asm) sift_down.simps) (simp add: Let_def)
      from "1.IH" [OF False refl b True this] p "1.prems"(2) show ?thesis by (simp add: mset_swap_at)
    next
      case F: False
      then show ?thesis using "1.prems"(1) False b by (subst (asm) sift_down.simps) (simp add: Let_def)
    qed
  qed (use "1.prems" in \<open>simp add: sift_down.simps\<close>)
qed

lemma mset_sift_up: "sift_up lt heap pos = Inr h \<Longrightarrow> pos < length heap \<Longrightarrow> mset h = mset heap"
proof (induction lt heap pos rule: sift_up.induct)
  case (1 lt heap pos)
  show ?case
  proof (cases "2 * pos + 1 < length heap")
    case True
    with "1.prems"(1) obtain c where c: "min_child lt heap pos = Inr c"
      by (subst (asm) sift_up.simps) (auto split: sum.splits)
    with True "1.prems"(1) have "sift_up lt (swap_at heap pos c) c = Inr h"
      by (subst (asm) sift_up.simps) simp
    with "1.IH" [OF True c this] "1.prems"(2) min_child_bounds [OF c True] show ?thesis
      by (simp add: mset_swap_at)
  next
    case False
    then show ?thesis using "1.prems" by (subst (asm) sift_up.simps) (simp add: mset_sift_down)
  qed
qed

lemma ok_sift_down:
  "\<forall>x \<in> set heap. \<forall>y \<in> set heap. is_ok (lt x y) \<Longrightarrow> pos < length heap \<Longrightarrow> is_ok (sift_down lt heap pos)"
proof (induction lt heap pos rule: sift_down.induct)
  case (1 lt heap pos)
  show ?case
  proof (cases "pos = 0")
    case False
    let ?p = "(pos - 1) div 2"
    have p: "?p < length heap" using "1.prems"(2) by simp
    then have "is_ok (lt (heap ! pos) (heap ! ?p))" using "1.prems" by simp
    then obtain b where b: "lt (heap ! pos) (heap ! ?p) = Inr b" by (auto simp: is_ok_iff)
    have "is_ok (sift_down lt (swap_at heap pos ?p) ?p)" if b
      using "1.IH" [OF False refl b that] "1.prems" p mset_eq_setD [OF mset_swap_at [OF "1.prems"(2) p]] by simp
    then show ?thesis using False b by (subst sift_down.simps) (simp add: Let_def)
  qed (simp add: sift_down.simps)
qed

lemma ok_sift_up:
  "\<forall>x \<in> set heap. \<forall>y \<in> set heap. is_ok (lt x y) \<Longrightarrow> pos < length heap \<Longrightarrow> is_ok (sift_up lt heap pos)"
proof (induction lt heap pos rule: sift_up.induct)
  case (1 lt heap pos)
  show ?case
  proof (cases "2 * pos + 1 < length heap")
    case True
    have "\<exists>c. min_child lt heap pos = Inr c"
    proof (cases "2 * pos + 2 < length heap")
      case right: True
      then have "is_ok (lt (heap ! (2 * pos + 1)) (heap ! (2 * pos + 2)))" using "1.prems" by simp
      then show ?thesis by (auto simp: min_child_def Let_def is_ok_iff)
    qed (simp add: min_child_def)
    then obtain c where c: "min_child lt heap pos = Inr c" by blast
    have "is_ok (sift_up lt (swap_at heap pos c) c)"
      using "1.IH" [OF True c] "1.prems" min_child_bounds [OF c True]
        mset_eq_setD [OF mset_swap_at [OF "1.prems"(2), of c]] by simp
    then show ?thesis using True c by (subst sift_up.simps) simp
  next
    case False
    then show ?thesis using "1.prems" by (subst sift_up.simps) (simp add: ok_sift_down)
  qed
qed

lemma heappop_cases:
  obtains "heap = []" "heappop lt heap = Inl (OtherError ''index out of range'')"
  | x where "heap = [x]" "heappop lt heap = Inr (x, [])"
  | front tail x where "heap = front # tail @ [x]"
      "heappop lt heap = bindE (sift_up lt (x # tail) 0) (\<lambda>h. Inr (front, h))"
proof (cases heap rule: rev_cases)
  case (snoc rest x)
  with that(2,3) show ?thesis by (cases rest) (simp_all add: heappop_def)
qed (use that(1) in \<open>simp add: heappop_def\<close>)

text \<open>The heap keeps the contract, whatever the comparison.\<close>

interpretation heap: bag_queue "heappush lt" "heappop lt" mset
    "\<lambda>S. \<forall>x \<in> S. \<forall>y \<in> S. is_ok (lt x y)" for lt
proof
  show "mset q' = add_mset e (mset q)" if "heappush lt q e = Inr q'" for q q' e
    using mset_sift_down [of lt "q @ [e]" "length q" q'] that by (simp add: heappush_def)
  show "mset q = add_mset e (mset q')" if pop: "heappop lt q = Inr (e, q')" for q q' e
  proof (cases rule: heappop_cases [of q lt])
    case (3 front tail x)
    then obtain h where "sift_up lt (x # tail) 0 = Inr h" "e = front" "q' = h"
      using 3(2) pop by (auto simp: bindE_Inr_iff)
    with 3 mset_sift_up [of lt "x # tail" 0 h] show ?thesis by simp
  qed (use pop in auto)
  show "is_ok (heappush lt q e)" if "\<forall>x \<in> insert e (set_mset (mset q)). \<forall>y \<in> insert e (set_mset (mset q)). is_ok (lt x y)" for e q
    unfolding heappush_def using that by (intro ok_sift_down) auto
  show "is_ok (heappop lt q)" if "mset q \<noteq> {#}" "\<forall>x \<in> set_mset (mset q). \<forall>y \<in> set_mset (mset q). is_ok (lt x y)" for q
  proof (cases rule: heappop_cases [of q lt])
    case (3 front tail x)
    have "is_ok (sift_up lt (x # tail) 0)" using that(2) 3 by (intro ok_sift_up) auto
    with 3 show ?thesis by (auto simp: is_ok_iff)
  qed (use that(1) in auto)
qed

end
