(* ===== verification/TrustGraph.thy ===== *)
theory TrustGraph
  imports Heapq Contracts Json
begin

text \<open>
  reference/telegraph_trust_graph.py: the federation graph and the policy-aware path search. A
  Python \<open>frozenset\<close> is a set, a dict an association list, the heap the one of \<open>Heapq\<close>; an operation
  that may raise returns an outcome.
\<close>

section \<open>Nodes, links and policies\<close>

definition trust_weight :: "string \<Rightarrow> int option" where
  "trust_weight t =
     map_of [(''trusted'', 100), (''observed'', 60), (''unknown'', 10), (''restricted'', - 1000)] t"

definition blocked_states :: "string list" where
  "blocked_states = [''restricted'', ''quarantined'', ''withdrawn'', ''revoked'']"

record fed_node =
  n_office_id :: string
  n_trust_status :: string
  n_operational_status :: string
  n_media :: "string set"
  n_security :: "string set"
  n_relay_allowed :: bool
  n_preference :: int

definition node_blocked :: "fed_node \<Rightarrow> bool" where
  "node_blocked n \<longleftrightarrow> n_trust_status n = ''restricted'' \<or> n_operational_status n \<in> set blocked_states"

record fed_link =
  l_source :: string
  l_destination :: string
  l_latency_ms :: int
  l_security :: "string set"
  l_media :: "string set"
  l_enabled :: bool
  l_cost :: int

record route_policy =
  rp_minimum_trust :: string
  rp_required_security :: "string set"
  rp_required_media :: "string set"
  rp_max_hops :: int
  rp_max_latency_ms :: "int option"
  rp_forbidden_offices :: "string set"
  rp_required_offices :: "string set"
  rp_allow_unknown_destination :: bool

text \<open>\<open>RoutePolicy.__post_init__\<close>.\<close>

definition make_policy :: "route_policy \<Rightarrow> route_policy outcome" where
  "make_policy p =
     (if trust_weight (rp_minimum_trust p) = None then Inl (ValueError ''unknown minimum trust'')
      else if rp_max_hops p < 1 then Inl (ValueError ''max_hops must be positive'')
      else (case rp_max_latency_ms p of
              None \<Rightarrow> Inr p
            | Some b \<Rightarrow> if b < 0 then Inl (ValueError ''max_latency_ms cannot be negative'') else Inr p))"

record path_candidate =
  c_offices :: "string list"
  c_latency_ms :: int
  c_trust_floor :: string
  c_score :: int
  c_security :: "string set"
  c_media :: "string set"

record trust_graph =
  g_nodes :: "(string, fed_node) dict"
  g_links :: "(string, fed_link list) dict"

definition empty_graph :: trust_graph where
  "empty_graph = \<lparr>g_nodes = [], g_links = []\<rparr>"

definition links_of :: "trust_graph \<Rightarrow> string \<Rightarrow> fed_link list" where
  "links_of g office = (case dget (g_links g) office of None \<Rightarrow> [] | Some ls \<Rightarrow> ls)"

section \<open>Maintaining the graph\<close>

definition upsert_node :: "fed_node \<Rightarrow> trust_graph \<Rightarrow> unit outcome \<times> trust_graph" where
  "upsert_node n g =
     (if n_office_id n = [] then (Inl (ValueError ''office_id is required''), g)
      else (Inr (), g\<lparr>g_nodes := dset (g_nodes g) (n_office_id n) n,
        g_links := (if dget (g_links g) (n_office_id n) = None
                    then dset (g_links g) (n_office_id n) [] else g_links g)\<rparr>))"

definition link_key :: "fed_link \<Rightarrow> string \<times> int \<times> int" where
  "link_key l = (l_destination l, l_latency_ms l, l_cost l)"

definition insert_link :: "fed_link \<Rightarrow> trust_graph \<Rightarrow> trust_graph" where
  "insert_link l g = g\<lparr>g_links := dset (g_links g) (l_source l) (sort_key link_key (links_of g (l_source l) @ [l]))\<rparr>"

definition reverse_link :: "fed_link \<Rightarrow> fed_link" where
  "reverse_link l = l\<lparr>l_source := l_destination l, l_destination := l_source l\<rparr>"

definition add_link :: "fed_link \<Rightarrow> bool \<Rightarrow> trust_graph \<Rightarrow> unit outcome \<times> trust_graph" where
  "add_link l bidirectional g =
     (if dget (g_nodes g) (l_source l) = None \<or> dget (g_nodes g) (l_destination l) = None
      then (Inl (KeyError ''both offices must exist before adding a link''), g)
      else if l_latency_ms l < 0 then (Inl (ValueError ''latency_ms cannot be negative''), g)
      else let g1 = insert_link l g in
        (Inr (), if bidirectional then insert_link (reverse_link l) g1 else g1))"

definition quarantine :: "string \<Rightarrow> trust_graph \<Rightarrow> unit outcome \<times> trust_graph" where
  "quarantine office g =
     (case dget (g_nodes g) office of
        None \<Rightarrow> (Inl (KeyError office), g)
      | Some n \<Rightarrow> (Inr (), g\<lparr>g_nodes := dset (g_nodes g) office
          (n\<lparr>n_operational_status := ''quarantined'', n_relay_allowed := False\<rparr>)\<rparr>))"

definition restore :: "string \<Rightarrow> trust_graph \<Rightarrow> unit outcome \<times> trust_graph" where
  "restore office g =
     (case dget (g_nodes g) office of
        None \<Rightarrow> (Inl (KeyError office), g)
      | Some n \<Rightarrow> (Inr (), g\<lparr>g_nodes := dset (g_nodes g) office
          (n\<lparr>n_operational_status := ''active''\<rparr>)\<rparr>))"

section \<open>Scoring a path\<close>

definition trust_allowed :: "fed_node \<Rightarrow> route_policy \<Rightarrow> bool \<Rightarrow> bool outcome" where
  "trust_allowed n p is_dest =
     (if node_blocked n \<or> n_office_id n \<in> rp_forbidden_offices p then Inr False
      else if is_dest \<and> rp_allow_unknown_destination p \<and> n_trust_status n = ''unknown'' then Inr True
      else (case trust_weight (n_trust_status n) of
              None \<Rightarrow> Inl (KeyError (n_trust_status n))
            | Some w \<Rightarrow>
                (case trust_weight (rp_minimum_trust p) of
                   None \<Rightarrow> Inl (KeyError (rp_minimum_trust p))
                 | Some m \<Rightarrow> Inr (w \<ge> m))))"

definition node_of :: "trust_graph \<Rightarrow> string \<Rightarrow> fed_node outcome" where
  "node_of g office = (case dget (g_nodes g) office of None \<Rightarrow> Inl (KeyError office) | Some n \<Rightarrow> Inr n)"

fun nodes_of :: "trust_graph \<Rightarrow> string list \<Rightarrow> fed_node list outcome" where
  "nodes_of g [] = Inr []"
| "nodes_of g (x # xs) = bindE (node_of g x) (\<lambda>n. bindE (nodes_of g xs) (\<lambda>ns. Inr (n # ns)))"

fun intersection :: "string set list \<Rightarrow> string set" where
  "intersection [] = {}"
| "intersection (s # ss) = foldl (\<inter>) s ss"

definition path_capabilities ::
  "trust_graph \<Rightarrow> string list \<Rightarrow> fed_link list \<Rightarrow> (string set \<times> string set) outcome" where
  "path_capabilities g path ls =
     bindE (nodes_of g path) (\<lambda>ns. Inr (intersection (map n_security ns @ map l_security ls),
       intersection (map n_media ns @ map l_media ls)))"

text \<open>\<open>min(path, key=...)\<close>: the first office of least weight.\<close>

fun least_trusted :: "fed_node \<Rightarrow> int \<Rightarrow> fed_node list \<Rightarrow> (fed_node \<times> int) outcome" where
  "least_trusted best w [] = Inr (best, w)"
| "least_trusted best w (n # ns) =
     (case trust_weight (n_trust_status n) of
        None \<Rightarrow> Inl (KeyError (n_trust_status n))
      | Some v \<Rightarrow> if v < w then least_trusted n v ns else least_trusted best w ns)"

definition trust_floor :: "fed_node list \<Rightarrow> (fed_node \<times> int) outcome" where
  "trust_floor ns =
     (case ns of
        [] \<Rightarrow> Inl (ValueError ''min() arg is an empty sequence'')
      | n # rest \<Rightarrow>
          (case trust_weight (n_trust_status n) of
             None \<Rightarrow> Inl (KeyError (n_trust_status n))
           | Some w \<Rightarrow> least_trusted n w rest))"

definition path_score ::
  "trust_graph \<Rightarrow> string list \<Rightarrow> fed_link list \<Rightarrow> int \<Rightarrow> (int \<times> string) outcome" where
  "path_score g path ls latency =
     bindE (nodes_of g path) (\<lambda>ns. bindE (trust_floor ns) (\<lambda>(n, w).
       Inr (w * 100 + sum_list (map n_preference (tl ns)) - latency
              - (int (length path) - 1) * 100 - sum_list (map l_cost ls), n_trust_status n)))"

section \<open>The search\<close>

text \<open>
  A queue entry is the tuple (priority, path, links, latency). Tuples compare at the first place
  where they differ; links have no order, so comparing two different ones raises.
\<close>

type_synonym entry = "int \<times> string list \<times> fed_link list \<times> int"

fun links_lt :: "fed_link list \<Rightarrow> fed_link list \<Rightarrow> bool outcome" where
  "links_lt [] ys = Inr (ys \<noteq> [])"
| "links_lt (x # xs) [] = Inr False"
| "links_lt (x # xs) (y # ys) =
     (if x = y then links_lt xs ys
      else Inl (TypeError ''< not supported between instances of FederationLink and FederationLink''))"

fun entry_lt :: "entry \<Rightarrow> entry \<Rightarrow> bool outcome" where
  "entry_lt (p1, path1, links1, lat1) (p2, path2, links2, lat2) =
     (if p1 \<noteq> p2 then Inr (p1 < p2)
      else if path1 \<noteq> path2 then Inr (path1 < path2)
      else if links1 \<noteq> links2 then links_lt links1 links2
      else Inr (lat1 < lat2))"

definition within_latency :: "route_policy \<Rightarrow> int \<Rightarrow> bool" where
  "within_latency p lat = (case rp_max_latency_ms p of None \<Rightarrow> True | Some b \<Rightarrow> lat \<le> b)"

definition heuristic :: "int \<Rightarrow> fed_link list \<Rightarrow> int" where
  "heuristic latency ls = latency + int (length ls) * 100 + sum_list (map l_cost ls)"

definition extend_entry :: "entry \<Rightarrow> fed_link \<Rightarrow> entry" where
  "extend_entry e l = (case e of (_, path, ls, latency) \<Rightarrow>
     (heuristic (latency + l_latency_ms l) (ls @ [l]), path @ [l_destination l], ls @ [l], latency + l_latency_ms l))"

text \<open>The inner \<open>for\<close> loop over the links of the current office.\<close>

fun expand ::
  "trust_graph \<Rightarrow> route_policy \<Rightarrow> string \<Rightarrow> entry \<Rightarrow> fed_link list \<Rightarrow> entry list \<Rightarrow> entry list outcome" where
  "expand g p d e [] queue = Inr queue"
| "expand g p d e (l # rest) queue =
     (case e of (_, path, ls, latency) \<Rightarrow>
        if \<not> l_enabled l \<or> l_destination l \<in> set path then expand g p d e rest queue
        else bindE (node_of g (l_destination l)) (\<lambda>n.
          bindE (trust_allowed n p (l_destination l = d)) (\<lambda>ok.
            if \<not> ok then expand g p d e rest queue
            else if l_destination l \<noteq> d \<and> \<not> n_relay_allowed n then expand g p d e rest queue
            else if \<not> within_latency p (latency + l_latency_ms l) then expand g p d e rest queue
            else bindE (heappush entry_lt queue (extend_entry e l)) (expand g p d e rest))))"

text \<open>What is done with a path that has reached the destination.\<close>

definition finish :: "trust_graph \<Rightarrow> route_policy \<Rightarrow> entry \<Rightarrow> path_candidate option outcome" where
  "finish g p e =
     (case e of (_, path, ls, latency) \<Rightarrow>
        if \<not> rp_required_offices p \<subseteq> set path then Inr None
        else bindE (path_capabilities g path ls) (\<lambda>(security, media).
          if \<not> rp_required_security p \<subseteq> security then Inr None
          else if \<not> rp_required_media p \<subseteq> media then Inr None
          else bindE (path_score g path ls latency) (\<lambda>(score, tfloor).
            Inr (Some \<lparr>c_offices = path, c_latency_ms = latency, c_trust_floor = tfloor,
              c_score = score, c_security = security, c_media = media\<rparr>))))"

text \<open>Which links the loop follows, and what it pushes.\<close>

definition admits :: "trust_graph \<Rightarrow> route_policy \<Rightarrow> string \<Rightarrow> string \<Rightarrow> bool" where
  "admits g p d office \<longleftrightarrow>
     (case dget (g_nodes g) office of None \<Rightarrow> False
      | Some n \<Rightarrow> trust_allowed n p (office = d) = Inr True \<and> (office = d \<or> n_relay_allowed n))"

definition followed :: "trust_graph \<Rightarrow> route_policy \<Rightarrow> string \<Rightarrow> entry \<Rightarrow> fed_link \<Rightarrow> bool" where
  "followed g p d e l \<longleftrightarrow> (case e of (_, path, ls, latency) \<Rightarrow>
     l_enabled l \<and> l_destination l \<notin> set path \<and> admits g p d (l_destination l) \<and>
     within_latency p (latency + l_latency_ms l))"

lemma expand_items:
  "expand g p d e ls q = Inr q' \<Longrightarrow> mset q' = mset q + mset (map (extend_entry e) (filter (followed g p d e) ls))"
proof (induction ls arbitrary: q)
  case (Cons l ls)
  obtain pr path lks lat where e: "e = (pr, path, lks, lat)" by (cases e)
  have push: "mset q1 = add_mset (extend_entry e l) (mset q)" if "heappush entry_lt q (extend_entry e l) = Inr q1" for q1
    using that by (rule heap.push_items)
  from Cons.prems have "(\<not> followed g p d e l \<and> expand g p d e ls q = Inr q') \<or>
     (followed g p d e l \<and> (\<exists>q1. heappush entry_lt q (extend_entry e l) = Inr q1 \<and> expand g p d e ls q1 = Inr q'))"
    by (auto simp: e followed_def admits_def node_of_def bindE_Inr_iff split: if_splits option.splits)
  then show ?case using Cons.IH push by (auto simp: ac_simps)
qed simp

definition entry_rank :: "route_policy \<Rightarrow> entry \<Rightarrow> nat" where
  "entry_rank p e = (case e of (_, path, _, _) \<Rightarrow> nat (rp_max_hops p + 2 - int (length path)))"

lemma extend_rank:
  "e = (pr, path, ls, lat) \<Longrightarrow> int (length path) - 1 < rp_max_hops p \<Longrightarrow> entry_rank p (extend_entry e l) < entry_rank p e"
  by (auto simp: entry_rank_def extend_entry_def)

lemma pop_decreases:
  "heappop entry_lt q = Inr (e, q1) \<Longrightarrow>
   (image_mset (entry_rank p) (mset q1), image_mset (entry_rank p) (mset q)) \<in> mult less_than"
  using heap.replace_decreases [of entry_lt q e q1 q1 "{#}"] by simp

lemma expand_decreases:
  assumes "heappop entry_lt q = Inr ((pr, path, ls, lat), q1)" "\<not> rp_max_hops p \<le> int (length path) - 1"
    and "expand g p d (pr, path, ls, lat) links q1 = Inr q2"
  shows "(image_mset (entry_rank p) (mset q2), image_mset (entry_rank p) (mset q)) \<in> mult less_than"
  using assms(1) expand_items [OF assms(3)] by (rule heap.replace_decreases) (use assms(2) in \<open>auto intro!: extend_rank\<close>)

function search ::
  "trust_graph \<Rightarrow> route_policy \<Rightarrow> string \<Rightarrow> int \<Rightarrow> entry list \<Rightarrow> path_candidate list \<Rightarrow> path_candidate list outcome" where
  "search g p d limit queue results =
     (if queue = [] \<or> int (length results) \<ge> limit then Inr results
      else case heappop entry_lt queue of
        Inl e \<Rightarrow> Inl e
      | Inr ((priority, path, ls, latency), q) \<Rightarrow>
          if last path = d then
            (case finish g p (priority, path, ls, latency) of
               Inl e \<Rightarrow> Inl e
             | Inr None \<Rightarrow> search g p d limit q results
             | Inr (Some c) \<Rightarrow> search g p d limit q (results @ [c]))
          else if int (length path) - 1 \<ge> rp_max_hops p then search g p d limit q results
          else (case expand g p d (priority, path, ls, latency) (links_of g (last path)) q of
                  Inl e \<Rightarrow> Inl e
                | Inr q' \<Rightarrow> search g p d limit q' results))"
  by pat_completeness auto
termination
  by (relation "inv_image (mult less_than)
      (\<lambda>(g, p, d, limit, queue, results). image_mset (entry_rank p) (mset queue))")
    (auto intro: wf_inv_image wf_mult pop_decreases expand_decreases)

declare search.simps [simp del]

definition compare_key :: "path_candidate \<Rightarrow> int \<times> int \<times> string list" where
  "compare_key c = (- c_score c, c_latency_ms c, c_offices c)"

definition candidates ::
  "trust_graph \<Rightarrow> string \<Rightarrow> string \<Rightarrow> route_policy \<Rightarrow> int \<Rightarrow> path_candidate list outcome" where
  "candidates g origin d p limit =
     (case (dget (g_nodes g) origin, dget (g_nodes g) d) of
        (Some no, Some nd) \<Rightarrow>
          if limit < 1 then Inl (ValueError ''limit must be positive'')
          else bindE (trust_allowed no p False) (\<lambda>ok1.
            if \<not> ok1 then Inr []
            else bindE (trust_allowed nd p True) (\<lambda>ok2.
              if \<not> ok2 then Inr []
              else bindE (heappush entry_lt [] (0, [origin], [], 0)) (\<lambda>queue.
                bindE (search g p d limit queue []) (\<lambda>results.
                  Inr (take (nat limit) (sort_key compare_key results))))))
      | _ \<Rightarrow> Inr [])"

section \<open>Routing decisions and the directory\<close>

definition json_set :: "string set \<Rightarrow> json" where
  "json_set S = JList (map JStr (sorted_list_of_set S))"

definition candidate_document :: "path_candidate \<Rightarrow> json" where
  "candidate_document c =
     JObj [(''offices'', JList (map JStr (c_offices c))), (''hop_count'', JInt (int (length (c_offices c)) - 1)),
       (''estimated_latency_ms'', JInt (c_latency_ms c)), (''trust_floor'', JStr (c_trust_floor c)),
       (''score'', JInt (c_score c)), (''security'', json_set (c_security c)), (''media'', json_set (c_media c))]"

definition rejection_reasons :: "trust_graph \<Rightarrow> string \<Rightarrow> string list" where
  "rejection_reasons g d =
     (case dget (g_nodes g) d of
        None \<Rightarrow> [''destination_unknown'']
      | Some n \<Rightarrow> if node_blocked n then [''destination_blocked''] else [''no_policy_compliant_path''])"

definition route_decision ::
  "trust_graph \<Rightarrow> string \<Rightarrow> string \<Rightarrow> route_policy \<Rightarrow> string \<Rightarrow> int \<Rightarrow> json outcome" where
  "route_decision g origin d p message_id now =
     bindE (candidates g origin d p 5) (\<lambda>cs.
       Inr (JObj [(''version'', JStr ''1.0''), (''message_id'', JStr message_id), (''evaluated_at'', JInt now),
         (''origin_office'', JStr origin), (''destination_office'', JStr d),
         (''requirements'', JObj [(''minimum_trust'', JStr (rp_minimum_trust p)),
            (''security'', json_set (rp_required_security p)), (''media'', json_set (rp_required_media p)),
            (''max_hops'', JInt (rp_max_hops p)),
            (''max_latency_ms'', case rp_max_latency_ms p of None \<Rightarrow> JNull | Some b \<Rightarrow> JInt b),
            (''forbidden_offices'', json_set (rp_forbidden_offices p)),
            (''required_offices'', json_set (rp_required_offices p))]),
         (''selected_path'', case cs of [] \<Rightarrow> JNull | c # _ \<Rightarrow> candidate_document c),
         (''candidate_paths'', JList (map candidate_document cs)),
         (''result'', JStr (case cs of [] \<Rightarrow> ''rejected'' | _ \<Rightarrow> ''selected'')),
         (''reason_codes'', case cs of [] \<Rightarrow> JList (map JStr (rejection_reasons g d)) | _ \<Rightarrow> JList [])]))"

text \<open>
  A directory record, its fields at the types the directory publishes; \<open>None\<close> is an absent key,
  except that a missing or non-string office id or destination is \<open>None\<close> as well.
\<close>

record dir_link =
  dl_destination :: "string option"
  dl_latency_ms :: "int option"
  dl_security :: "string list option"
  dl_media :: "string list option"
  dl_enabled :: "bool option"
  dl_cost :: "int option"

record dir_record =
  dr_office_id :: "string option"
  dr_trust_status :: "string option"
  dr_federation_status :: "string option"
  dr_media :: "string list option"
  dr_security :: "string list option"
  dr_relay_allowed :: "bool option"
  dr_route_preference :: "int option"
  dr_links :: "dir_link list option"

definition or_default :: "'a option \<Rightarrow> 'a \<Rightarrow> 'a" where
  "or_default v d = (case v of None \<Rightarrow> d | Some x \<Rightarrow> x)"

definition record_node :: "string \<Rightarrow> dir_record \<Rightarrow> fed_node" where
  "record_node office r =
     \<lparr>n_office_id = office, n_trust_status = or_default (dr_trust_status r) ''unknown'',
      n_operational_status = or_default (dr_federation_status r) ''active'',
      n_media = set (or_default (dr_media r) []), n_security = set (or_default (dr_security r) []),
      n_relay_allowed = or_default (dr_relay_allowed r) True,
      n_preference = or_default (dr_route_preference r) 0\<rparr>"

fun record_links :: "string \<Rightarrow> dir_link list \<Rightarrow> fed_link list" where
  "record_links office [] = []"
| "record_links office (l # ls) =
     (case dl_destination l of
        None \<Rightarrow> record_links office ls
      | Some d \<Rightarrow>
          \<lparr>l_source = office, l_destination = d, l_latency_ms = or_default (dl_latency_ms l) 100,
           l_security = set (or_default (dl_security l) []), l_media = set (or_default (dl_media l) []),
           l_enabled = or_default (dl_enabled l) True, l_cost = or_default (dl_cost l) 0\<rparr>
          # record_links office ls)"

fun load_records :: "dir_record list \<Rightarrow> trust_graph \<Rightarrow> fed_link list \<Rightarrow> (trust_graph \<times> fed_link list) outcome" where
  "load_records [] g pending = Inr (g, pending)"
| "load_records (r # rs) g pending =
     (case dr_office_id r of
        None \<Rightarrow> load_records rs g pending
      | Some office \<Rightarrow>
          (case upsert_node (record_node office r) g of
             (Inl e, _) \<Rightarrow> Inl e
           | (Inr _, g') \<Rightarrow> load_records rs g' (pending @ record_links office (or_default (dr_links r) []))))"

fun load_links :: "fed_link list \<Rightarrow> trust_graph \<Rightarrow> trust_graph outcome" where
  "load_links [] g = Inr g"
| "load_links (l # ls) g =
     (if dget (g_nodes g) (l_source l) \<noteq> None \<and> dget (g_nodes g) (l_destination l) \<noteq> None
      then (case add_link l False g of
              (Inl e, _) \<Rightarrow> Inl e
            | (Inr _, g') \<Rightarrow> load_links ls g')
      else load_links ls g)"

definition from_directory :: "dir_record list \<Rightarrow> trust_graph outcome" where
  "from_directory rs = bindE (load_records rs empty_graph []) (\<lambda>(g, pending). load_links pending g)"

section \<open>The graph as a machine\<close>

datatype graph_op =
    GUpsert fed_node
  | GAddLink fed_link bool
  | GQuarantine string
  | GRestore string

fun graph_step :: "trust_graph \<Rightarrow> graph_op \<Rightarrow> trust_graph" where
  "graph_step g (GUpsert n) = snd (upsert_node n g)"
| "graph_step g (GAddLink l b) = snd (add_link l b g)"
| "graph_step g (GQuarantine x) = snd (quarantine x g)"
| "graph_step g (GRestore x) = snd (restore x g)"

definition link_ok :: "trust_graph \<Rightarrow> string \<Rightarrow> fed_link \<Rightarrow> bool" where
  "link_ok g x l \<longleftrightarrow> l_source l = x \<and> dget (g_nodes g) x \<noteq> None \<and>
     dget (g_nodes g) (l_destination l) \<noteq> None \<and> 0 \<le> l_latency_ms l"

definition graph_ok :: "trust_graph \<Rightarrow> bool" where
  "graph_ok g \<longleftrightarrow> dict_ok (g_nodes g) \<and> dict_ok (g_links g) \<and>
     (\<forall>x n. dget (g_nodes g) x = Some n \<longrightarrow> n_office_id n = x \<and> x \<noteq> []) \<and>
     (\<forall>x. sorted (map link_key (links_of g x))) \<and> (\<forall>x. \<forall>l \<in> set (links_of g x). link_ok g x l)"

lemma graph_ok_empty [simp]: "graph_ok empty_graph"
  by (simp add: graph_ok_def empty_graph_def links_of_def)

lemma links_of_insert: "links_of (insert_link l g) x =
    (if x = l_source l then sort_key link_key (links_of g x @ [l]) else links_of g x)"
  by (simp add: insert_link_def links_of_def)

lemma insert_link_nodes [simp]: "g_nodes (insert_link l g) = g_nodes g"
  by (simp add: insert_link_def)

lemma graph_ok_insert: "graph_ok g \<Longrightarrow> link_ok g (l_source l) l \<Longrightarrow> graph_ok (insert_link l g)"
  unfolding graph_ok_def
  by (auto simp: links_of_insert link_ok_def) (auto simp: insert_link_def)

lemma graph_ok_add: "graph_ok g \<Longrightarrow> graph_ok (snd (add_link l b g))"
proof -
  assume g: "graph_ok g"
  show ?thesis
  proof (cases "fst (add_link l b g)")
    case (Inr u)
    then have l: "link_ok g (l_source l) l" by (auto simp: add_link_def link_ok_def Let_def split: if_splits)
    then have g1: "graph_ok (insert_link l g)" using g by (intro graph_ok_insert)
    have "link_ok (insert_link l g) (l_source (reverse_link l)) (reverse_link l)"
      using l by (auto simp: link_ok_def reverse_link_def)
    then have "graph_ok (insert_link (reverse_link l) (insert_link l g))" by (rule graph_ok_insert [OF g1])
    with g1 g show ?thesis by (simp add: add_link_def Let_def)
  qed (use g in \<open>auto simp: add_link_def Let_def split: if_splits\<close>)
qed

lemma links_of_upsert: "links_of (snd (upsert_node n g)) x = links_of g x"
  by (auto simp: upsert_node_def links_of_def)

lemma graph_ok_upsert: "graph_ok g \<Longrightarrow> graph_ok (snd (upsert_node n g))"
  unfolding graph_ok_def links_of_upsert
  by (auto simp: upsert_node_def link_ok_def)

lemma graph_ok_reclass:
  assumes "graph_ok g" "dget (g_nodes g) x = Some n" "n_office_id m = n_office_id n"
  shows "graph_ok (g\<lparr>g_nodes := dset (g_nodes g) x m\<rparr>)"
  using assms by (auto simp: graph_ok_def links_of_def link_ok_def)

lemma graph_step_ok: "graph_ok g \<Longrightarrow> graph_ok (graph_step g op)"
proof (cases op)
  case (GQuarantine x)
  then show "graph_ok g \<Longrightarrow> ?thesis"
    by (auto simp: quarantine_def graph_ok_reclass split: option.splits)
next
  case (GRestore x)
  then show "graph_ok g \<Longrightarrow> ?thesis"
    by (auto simp: restore_def graph_ok_reclass split: option.splits)
qed (simp_all add: graph_ok_upsert graph_ok_add)

interpretation graph: op_machine graph_step graph_ok
  by unfold_locales (rule graph_step_ok)

lemma load_records_ok: "load_records rs g pending = Inr (g', pending') \<Longrightarrow> graph_ok g \<Longrightarrow> graph_ok g'"
proof (induction rs arbitrary: g pending)
  case (Cons r rs)
  show ?case
  proof (cases "dr_office_id r")
    case (Some x)
    then have "load_records rs (snd (upsert_node (record_node x r) g)) (pending @ record_links x (or_default (dr_links r) [])) = Inr (g', pending')"
      using Cons.prems(1) by (auto split: prod.splits sum.splits)
    then show ?thesis using Cons graph_ok_upsert by blast
  qed (use Cons in auto)
qed simp

lemma load_links_ok: "load_links ls g = Inr g' \<Longrightarrow> graph_ok g \<Longrightarrow> graph_ok g'"
proof (induction ls arbitrary: g)
  case (Cons l ls)
  have "load_links ls g = Inr g' \<or> load_links ls (snd (add_link l False g)) = Inr g'"
    using Cons.prems(1) by (auto split: prod.splits sum.splits if_splits)
  then show ?case using Cons graph_ok_add by blast
qed simp

lemma from_directory_graph_ok: "from_directory rs = Inr g \<Longrightarrow> graph_ok g"
  by (auto simp: from_directory_def bindE_Inr_iff dest: load_records_ok load_links_ok)

end
