(* ===== verification/TrustRoutes.thy ===== *)
theory TrustRoutes
  imports TrustGraph
begin

text \<open>
  What the path search of reference/telegraph_trust_graph.py promises: a declarative reading of
  "policy-compliant path", the invariant of the search loop, and the properties of routing.
\<close>

section \<open>Compliant routes\<close>

fun chain :: "trust_graph \<Rightarrow> string list \<Rightarrow> fed_link list \<Rightarrow> bool" where
  "chain g [x] [] \<longleftrightarrow> True"
| "chain g (x # y # path) (l # ls) \<longleftrightarrow> l \<in> set (links_of g x) \<and> l_destination l = y \<and> chain g (y # path) ls"
| "chain g _ _ \<longleftrightarrow> False"

definition lat_sum :: "fed_link list \<Rightarrow> int" where
  "lat_sum ls = sum_list (map l_latency_ms ls)"

text \<open>A path the search may have under way: simple, enabled, within the limits, past no destination.\<close>

definition partial_route :: "trust_graph \<Rightarrow> route_policy \<Rightarrow> string \<Rightarrow> string \<Rightarrow> string list \<Rightarrow> fed_link list \<Rightarrow> bool" where
  "partial_route g p origin d path ls \<longleftrightarrow>
     chain g path ls \<and> hd path = origin \<and> distinct path \<and> d \<notin> set (butlast path) \<and>
     (\<forall>l \<in> set ls. l_enabled l) \<and> int (length ls) \<le> rp_max_hops p \<and>
     (ls \<noteq> [] \<longrightarrow> within_latency p (lat_sum ls)) \<and> (\<forall>x \<in> set (tl path). admits g p d x)"

definition node_at :: "trust_graph \<Rightarrow> string \<Rightarrow> fed_node" where
  "node_at g x = the (dget (g_nodes g) x)"

definition endpoint_ok :: "trust_graph \<Rightarrow> route_policy \<Rightarrow> string \<Rightarrow> bool \<Rightarrow> bool" where
  "endpoint_ok g p x is_dest \<longleftrightarrow>
     (\<exists>n. dget (g_nodes g) x = Some n \<and> trust_allowed n p is_dest = Inr True)"

definition compliant_route :: "trust_graph \<Rightarrow> route_policy \<Rightarrow> string \<Rightarrow> string \<Rightarrow> string list \<Rightarrow> fed_link list \<Rightarrow> bool" where
  "compliant_route g p origin d path ls \<longleftrightarrow>
     partial_route g p origin d path ls \<and> last path = d \<and> endpoint_ok g p origin False \<and> endpoint_ok g p d True \<and>
     rp_required_offices p \<subseteq> set path \<and>
     (\<forall>x \<in> set path. rp_required_security p \<subseteq> n_security (node_at g x) \<and> rp_required_media p \<subseteq> n_media (node_at g x)) \<and>
     (\<forall>l \<in> set ls. rp_required_security p \<subseteq> l_security l \<and> rp_required_media p \<subseteq> l_media l)"

definition candidate_for ::
  "trust_graph \<Rightarrow> route_policy \<Rightarrow> string \<Rightarrow> string \<Rightarrow> string list \<Rightarrow> fed_link list \<Rightarrow> path_candidate \<Rightarrow> bool" where
  "candidate_for g p origin d path ls c \<longleftrightarrow>
     compliant_route g p origin d path ls \<and> c_offices c = path \<and> c_latency_ms c = lat_sum ls \<and>
     path_score g path ls (lat_sum ls) = Inr (c_score c, c_trust_floor c) \<and>
     path_capabilities g path ls = Inr (c_security c, c_media c)"

lemma chain_length: "chain g path ls \<Longrightarrow> length path = Suc (length ls)"
  by (induction g path ls rule: chain.induct) auto

lemma chain_nonempty: "chain g path ls \<Longrightarrow> path \<noteq> []"
  by auto

lemma chain_snoc:
  "chain g path ls \<Longrightarrow> chain g (path @ [y]) (ls @ [l]) \<longleftrightarrow> l \<in> set (links_of g (last path)) \<and> l_destination l = y"
  by (induction g path ls rule: chain.induct) auto

lemma chain_prefix:
  "chain g (path @ y # suf) (ls @ l # rest) \<Longrightarrow> length path = Suc (length ls) \<Longrightarrow>
   chain g path ls \<and> l \<in> set (links_of g (last path)) \<and> l_destination l = y"
proof (induction path arbitrary: ls)
  case (Cons x path)
  then show ?case
  proof (cases path)
    case Nil
    with Cons.prems show ?thesis by (cases suf; cases rest) auto
  next
    case (Cons z path')
    with Cons.prems obtain l0 ls0 where "ls = l0 # ls0" by (cases ls) auto
    with Cons Cons.IH [of ls0] Cons.prems show ?thesis by auto
  qed
qed simp

lemma chain_link: "chain g path ls \<Longrightarrow> l \<in> set ls \<Longrightarrow> \<exists>x. l \<in> set (links_of g x)"
  by (induction g path ls rule: chain.induct) auto

lemma chain_latency: "graph_ok g \<Longrightarrow> chain g path ls \<Longrightarrow> l \<in> set ls \<Longrightarrow> 0 \<le> l_latency_ms l"
  using chain_link [of g path ls l] by (auto simp: graph_ok_def link_ok_def)

lemma in_intersection: "ss \<noteq> [] \<Longrightarrow> x \<in> intersection ss \<longleftrightarrow> (\<forall>s \<in> set ss. x \<in> s)"
proof -
  have "x \<in> foldl (\<inter>) s ss \<longleftrightarrow> x \<in> s \<and> (\<forall>t \<in> set ss. x \<in> t)" for s :: "string set" and ss
    by (induction ss arbitrary: s) auto
  then show "ss \<noteq> [] \<Longrightarrow> ?thesis" by (cases ss) auto
qed

lemma nodes_of_Inr: "nodes_of g path = Inr ns \<Longrightarrow> ns = map (node_at g) path"
  by (induction path arbitrary: ns) (auto simp: bindE_Inr_iff node_of_def node_at_def split: option.splits)

section \<open>The search loop\<close>

definition entry_ok :: "trust_graph \<Rightarrow> route_policy \<Rightarrow> string \<Rightarrow> string \<Rightarrow> entry \<Rightarrow> bool" where
  "entry_ok g p origin d e \<longleftrightarrow>
     (case e of (_, path, ls, lat) \<Rightarrow> partial_route g p origin d path ls \<and> lat = lat_sum ls)"

definition on_the_way :: "string list \<Rightarrow> fed_link list \<Rightarrow> entry \<Rightarrow> bool" where
  "on_the_way path ls e \<longleftrightarrow>
     (case e of (_, path', ls', _) \<Rightarrow> \<exists>suf rest. path = path' @ suf \<and> ls = ls' @ rest)"

definition search_inv ::
  "trust_graph \<Rightarrow> route_policy \<Rightarrow> string \<Rightarrow> string \<Rightarrow> entry multiset \<Rightarrow> path_candidate list \<Rightarrow> bool" where
  "search_inv g p origin d queue results \<longleftrightarrow>
     (\<forall>e \<in># queue. entry_ok g p origin d e) \<and>
     (\<forall>c \<in> set results. \<exists>path ls. candidate_for g p origin d path ls c) \<and>
     (\<forall>path ls. compliant_route g p origin d path ls \<longrightarrow>
        (\<exists>c \<in> set results. candidate_for g p origin d path ls c) \<or> (\<exists>e \<in># queue. on_the_way path ls e))"

lemma finish_meets_policy:
  assumes "entry_ok g p origin d (pr, path, ls, lat)" "last path = d"
    and "endpoint_ok g p origin False" "endpoint_ok g p d True"
    and "finish g p (pr, path, ls, lat) = Inr r"
  shows "case r of None \<Rightarrow> \<not> compliant_route g p origin d path ls
    | Some c \<Rightarrow> candidate_for g p origin d path ls c"
proof -
  have pr: "partial_route g p origin d path ls" and lat: "lat = lat_sum ls"
    using assms(1) by (simp_all add: entry_ok_def)
  then have ne: "path \<noteq> []" by (auto simp: partial_route_def)
  show ?thesis
  proof (cases "rp_required_offices p \<subseteq> set path")
    case True
    then obtain ns where ns: "nodes_of g path = Inr ns"
      using assms(5) by (auto simp: finish_def path_capabilities_def bindE_Inr_iff)
    have nodes: "ns = map (node_at g) path" using ns by (rule nodes_of_Inr)
    let ?s = "intersection (map n_security ns @ map l_security ls)"
    let ?m = "intersection (map n_media ns @ map l_media ls)"
    have caps: "path_capabilities g path ls = Inr (?s, ?m)" using ns by (simp add: path_capabilities_def)
    have s: "rp_required_security p \<subseteq> ?s \<longleftrightarrow> (\<forall>x \<in> set path. rp_required_security p \<subseteq> n_security (node_at g x)) \<and>
        (\<forall>l \<in> set ls. rp_required_security p \<subseteq> l_security l)"
      using ne nodes by (auto simp: subset_iff in_intersection)
    have m: "rp_required_media p \<subseteq> ?m \<longleftrightarrow> (\<forall>x \<in> set path. rp_required_media p \<subseteq> n_media (node_at g x)) \<and>
        (\<forall>l \<in> set ls. rp_required_media p \<subseteq> l_media l)"
      using ne nodes by (auto simp: subset_iff in_intersection)
    have comp: "compliant_route g p origin d path ls \<longleftrightarrow> rp_required_security p \<subseteq> ?s \<and> rp_required_media p \<subseteq> ?m"
      unfolding s m using True pr assms(2-4) by (auto simp: compliant_route_def)
    show ?thesis
    proof (cases "rp_required_security p \<subseteq> ?s \<and> rp_required_media p \<subseteq> ?m")
      case met: True
      then obtain sc fl where "path_score g path ls lat = Inr (sc, fl)"
        "r = Some \<lparr>c_offices = path, c_latency_ms = lat, c_trust_floor = fl, c_score = sc, c_security = ?s, c_media = ?m\<rparr>"
        using assms(5) True caps by (auto simp: finish_def bindE_Inr_iff)
      then show ?thesis using comp met caps lat by (simp add: candidate_for_def)
    next
      case False
      then have "r = None" using assms(5) True caps by (auto simp: finish_def split: if_splits)
      then show ?thesis using comp False by simp
    qed
  next
    case False
    then have "r = None" using assms(5) by (simp add: finish_def)
    then show ?thesis using False by (simp add: compliant_route_def)
  qed
qed

text \<open>Following a link keeps an entry a partial route.\<close>

lemma lat_sum_snoc [simp]: "lat_sum (ls @ [l]) = lat_sum ls + l_latency_ms l"
  by (simp add: lat_sum_def)

lemma extend_entry_ok:
  assumes "entry_ok g p origin d e" "e = (pr, path, ls, lat)" "last path \<noteq> d"
    and "int (length path) - 1 < rp_max_hops p" "l \<in> set (links_of g (last path))" "followed g p d e l"
  shows "entry_ok g p origin d (extend_entry e l)"
proof -
  have r: "partial_route g p origin d path ls" "lat = lat_sum ls" using assms(1,2) by (simp_all add: entry_ok_def)
  then have c: "chain g path ls" by (simp add: partial_route_def)
  then have ne: "path \<noteq> []" and len: "length path = Suc (length ls)"
    using chain_length by auto
  have "d \<notin> set path"
    using r(1) ne assms(3) by (metis Un_iff append_butlast_last_id partial_route_def empty_iff insert_iff list.set set_append)
  then show ?thesis
    using r assms(2,4-6) c ne len
    by (auto simp: entry_ok_def extend_entry_def partial_route_def followed_def chain_snoc tl_append2)
qed

text \<open>A compliant route past the entry goes on along a link the search follows.\<close>

lemma on_the_way_step:
  assumes g: "graph_ok g" and comp: "compliant_route g p origin d path' ls'"
    and e: "entry_ok g p origin d e" "e = (pr, path, ls, lat)" "last path \<noteq> d" and way: "on_the_way path' ls' e"
  shows "int (length path) - 1 < rp_max_hops p \<and>
    (\<exists>l \<in> set (links_of g (last path)). followed g p d e l \<and> on_the_way path' ls' (extend_entry e l))"
proof -
  have r: "partial_route g p origin d path' ls'" and last: "last path' = d"
    using comp by (simp_all add: compliant_route_def)
  have len: "length path = Suc (length ls)" "length path' = Suc (length ls')" and lat: "lat = lat_sum ls"
    using e(1,2) r by (auto simp: entry_ok_def partial_route_def dest: chain_length)
  obtain suf rest where suf: "path' = path @ suf" "ls' = ls @ rest" using way e(2) by (auto simp: on_the_way_def)
  have "suf \<noteq> []" using suf last e(3) by auto
  then obtain x suf' where x: "suf = x # suf'" by (cases suf) auto
  then obtain l rest' where l: "rest = l # rest'" using len suf by (cases rest) auto
  have c: "chain g (path @ x # suf') (ls @ l # rest')" using r suf x l by (simp add: partial_route_def)
  then have link: "l \<in> set (links_of g (last path))" "l_destination l = x" using chain_prefix len(1) by blast+
  have "0 \<le> lat_sum rest'"
    unfolding lat_sum_def by (rule sum_list_nonneg) (auto intro: chain_latency [OF g c])
  then have "lat_sum ls + l_latency_ms l \<le> lat_sum ls'" using suf l by (simp add: lat_sum_def)
  then have "within_latency p (lat + l_latency_ms l)"
    using r suf l lat by (auto simp: partial_route_def within_latency_def split: option.splits)
  moreover have "l_enabled l" "x \<notin> set path" using r suf x l by (auto simp: partial_route_def)
  moreover have "admits g p d x" using r suf x len by (cases path) (auto simp: partial_route_def)
  ultimately have "followed g p d e l" using e(2) link(2) by (simp add: followed_def)
  moreover have "on_the_way path' ls' (extend_entry e l)" using suf x l e(2) link(2) by (simp add: on_the_way_def extend_entry_def)
  moreover have "int (length path) - 1 < rp_max_hops p" using r suf l len by (simp add: partial_route_def)
  ultimately show ?thesis using link(1) by blast
qed

lemma at_destination:
  assumes "compliant_route g p origin d path' ls'" "entry_ok g p origin d (pr, path, ls, lat)" "last path = d"
    and "on_the_way path' ls' (pr, path, ls, lat)"
  shows "path' = path \<and> ls' = ls"
proof -
  obtain suf rest where suf: "path' = path @ suf" "ls' = ls @ rest" using assms(4) by (auto simp: on_the_way_def)
  have r: "partial_route g p origin d path' ls'" "partial_route g p origin d path ls"
    using assms(1,2) by (simp_all add: compliant_route_def entry_ok_def)
  then have c: "chain g path' ls'" "chain g path ls" by (simp_all add: partial_route_def)
  then have "path \<noteq> []" by auto
  then have "d \<in> set path" using assms(3) by auto
  have "suf = []"
  proof (rule ccontr)
    assume "suf \<noteq> []"
    then have "d \<in> set (butlast path')" using suf \<open>d \<in> set path\<close> by (simp add: butlast_append)
    then show False using r(1) by (simp add: partial_route_def)
  qed
  moreover have "rest = []" using chain_length [OF c(1)] chain_length [OF c(2)] suf \<open>suf = []\<close> by simp
  ultimately show ?thesis using suf by simp
qed

lemma search_inv_pop:
  assumes "search_inv g p origin d (mset queue) results" "heappop entry_lt queue = Inr (e, q)"
  shows "entry_ok g p origin d e" "\<forall>x \<in># mset q. entry_ok g p origin d x"
    "\<forall>path ls. compliant_route g p origin d path ls \<longrightarrow>
        (\<exists>c \<in> set results. candidate_for g p origin d path ls c) \<or> on_the_way path ls e \<or>
        (\<exists>x \<in># mset q. on_the_way path ls x)"
  using assms(1) heap.pop_items [OF assms(2)] by (auto simp: search_inv_def)

lemma search_inv_finish:
  assumes inv: "search_inv g p origin d (mset queue) results"
    and pop: "heappop entry_lt queue = Inr ((pr, path, ls, lat), q)" and d: "last path = d"
    and ends: "endpoint_ok g p origin False" "endpoint_ok g p d True"
    and fin: "finish g p (pr, path, ls, lat) = Inr r"
  shows "search_inv g p origin d (mset q) (case r of None \<Rightarrow> results | Some c \<Rightarrow> results @ [c])"
proof -
  note popped = search_inv_pop [OF inv pop]
  note meets = finish_meets_policy [OF popped(1) d ends fin]
  have old: "\<forall>c \<in> set results. \<exists>path ls. candidate_for g p origin d path ls c"
    using inv by (simp add: search_inv_def)
  have way: "path' = path \<and> ls' = ls"
    if "compliant_route g p origin d path' ls'" "on_the_way path' ls' (pr, path, ls, lat)" for path' ls'
    using at_destination [OF that(1) popped(1) d that(2)] .
  show ?thesis
  proof (cases r)
    case None
    then have "\<not> compliant_route g p origin d path ls" using meets by simp
    then have "(\<exists>c \<in> set results. candidate_for g p origin d path' ls' c) \<or> (\<exists>x \<in># mset q. on_the_way path' ls' x)"
      if comp: "compliant_route g p origin d path' ls'" for path' ls'
      using popped(3) comp way [OF comp] by (cases "on_the_way path' ls' (pr, path, ls, lat)") auto
    then show ?thesis unfolding search_inv_def None option.case using popped(2) old by (intro conjI) simp_all
  next
    case (Some c)
    then have c: "candidate_for g p origin d path ls c" using meets by simp
    then have "\<forall>x \<in> set (results @ [c]). \<exists>path ls. candidate_for g p origin d path ls x" using old by auto
    moreover have "(\<exists>x \<in> set (results @ [c]). candidate_for g p origin d path' ls' x) \<or> (\<exists>x \<in># mset q. on_the_way path' ls' x)"
      if comp: "compliant_route g p origin d path' ls'" for path' ls'
      using popped(3) comp way [OF comp] c by (cases "on_the_way path' ls' (pr, path, ls, lat)") auto
    ultimately show ?thesis unfolding search_inv_def Some option.case using popped(2) by (intro conjI) simp_all
  qed
qed

lemma search_inv_expand:
  assumes inv: "search_inv g p origin d (mset queue) results" and g: "graph_ok g"
    and pop: "heappop entry_lt queue = Inr ((pr, path, ls, lat), q)" and d: "last path \<noteq> d"
    and hops: "\<not> rp_max_hops p \<le> int (length path) - 1"
    and exp: "expand g p d (pr, path, ls, lat) (links_of g (last path)) q = Inr q'"
  shows "search_inv g p origin d (mset q') results"
proof -
  note popped = search_inv_pop [OF inv pop]
  let ?e = "(pr, path, ls, lat)"
  have items: "set_mset (mset q') = set_mset (mset q) \<union> extend_entry ?e ` {l \<in> set (links_of g (last path)). followed g p d ?e l}"
    using expand_items [OF exp] by (simp only: set_mset_union set_mset_mset set_map set_filter)
  have "entry_ok g p origin d x" if "x \<in># mset q'" for x
    using that popped(2) extend_entry_ok [OF popped(1) refl d] hops unfolding items by auto
  moreover have "(\<exists>c \<in> set results. candidate_for g p origin d path' ls' c) \<or> (\<exists>x \<in># mset q'. on_the_way path' ls' x)"
    if comp: "compliant_route g p origin d path' ls'" for path' ls'
  proof (cases "on_the_way path' ls' ?e")
    case True
    then obtain l where "l \<in> set (links_of g (last path))" "followed g p d ?e l" "on_the_way path' ls' (extend_entry ?e l)"
      using on_the_way_step [OF g comp popped(1) refl d] by blast
    then show ?thesis unfolding items by blast
  next
    case False
    with popped(3) comp show ?thesis unfolding items by blast
  qed
  moreover have "\<forall>c \<in> set results. \<exists>path ls. candidate_for g p origin d path ls c"
    using inv by (simp add: search_inv_def)
  ultimately show ?thesis unfolding search_inv_def by blast
qed

lemma search_inv_prune:
  assumes inv: "search_inv g p origin d (mset queue) results" and g: "graph_ok g"
    and pop: "heappop entry_lt queue = Inr ((pr, path, ls, lat), q)" and d: "last path \<noteq> d"
    and hops: "rp_max_hops p \<le> int (length path) - 1"
  shows "search_inv g p origin d (mset q) results"
proof -
  note popped = search_inv_pop [OF inv pop]
  have "\<not> on_the_way path' ls' (pr, path, ls, lat)" if "compliant_route g p origin d path' ls'" for path' ls'
    using on_the_way_step [OF g that popped(1) refl d] hops by auto
  then show ?thesis using inv popped(2,3) unfolding search_inv_def by blast
qed

lemma search_finds:
  assumes "search g p d limit queue results = Inr rs" "search_inv g p origin d (mset queue) results"
    and "graph_ok g" "endpoint_ok g p origin False" "endpoint_ok g p d True" "int (length results) \<le> max 0 limit"
  shows "(\<forall>c \<in> set rs. \<exists>path ls. candidate_for g p origin d path ls c) \<and> int (length rs) \<le> max 0 limit \<and>
    (int (length rs) < limit \<longrightarrow> (\<forall>path ls. compliant_route g p origin d path ls \<longrightarrow>
       (\<exists>c \<in> set rs. candidate_for g p origin d path ls c)))"
  using assms
proof (induction g p d limit queue results rule: search.induct)
  case (1 g p d limit queue results)
  note unfolded = "1.prems"(1) [unfolded search.simps [of g p d limit queue results]]
  show ?case
  proof (cases "queue = [] \<or> int (length results) \<ge> limit")
    case True
    then have "rs = results" using unfolded by simp
    then show ?thesis using "1.prems" True by (auto simp: search_inv_def)
  next
    case run: False
    then obtain pr path ls lat q where pop: "heappop entry_lt queue = Inr ((pr, path, ls, lat), q)"
      using unfolded by (auto split: sum.splits)
    show ?thesis
    proof (cases "last path = d")
      case True
      then obtain r where r: "finish g p (pr, path, ls, lat) = Inr r"
        using unfolded run pop by (auto split: sum.splits)
      note inv = search_inv_finish [OF "1.prems"(2) pop True "1.prems"(4,5) r]
      show ?thesis
      proof (cases r)
        case None
        have "search g p d limit q results = Inr rs" using unfolded run pop True r None by simp
        from "1.IH"(1) [OF run pop refl refl refl refl True r None this] inv None "1.prems"
        show ?thesis by simp
      next
        case (Some c)
        have "search g p d limit q (results @ [c]) = Inr rs" using unfolded run pop True r Some by simp
        from "1.IH"(2) [OF run pop refl refl refl refl True r Some this] inv Some "1.prems" run
        show ?thesis by simp
      qed
    next
      case on: False
      show ?thesis
      proof (cases "int (length path) - 1 \<ge> rp_max_hops p")
        case True
        have "search g p d limit q results = Inr rs" using unfolded run pop on True by simp
        from "1.IH"(3) [OF run pop refl refl refl refl on True this] search_inv_prune [OF "1.prems"(2,3) pop on True] "1.prems"
        show ?thesis by simp
      next
        case False
        then obtain q' where q': "expand g p d (pr, path, ls, lat) (links_of g (last path)) q = Inr q'"
          "search g p d limit q' results = Inr rs"
          using unfolded run pop on by (auto split: sum.splits)
        from "1.IH"(4) [OF run pop refl refl refl refl on False q'] search_inv_expand [OF "1.prems"(2,3) pop on False q'(1)] "1.prems"
        show ?thesis by simp
      qed
    qed
  qed
qed

section \<open>When no comparison raises\<close>

text \<open>Graphs without parallel links: a path determines its links, so queue entries are comparable.\<close>

definition no_parallel_links :: "trust_graph \<Rightarrow> bool" where
  "no_parallel_links g \<longleftrightarrow> (\<forall>x. distinct (map l_destination (links_of g x)))"

definition known_trust :: "trust_graph \<Rightarrow> bool" where
  "known_trust g \<longleftrightarrow> (\<forall>x n. dget (g_nodes g) x = Some n \<longrightarrow> trust_weight (n_trust_status n) \<noteq> None)"

lemma chain_determines:
  "no_parallel_links g \<Longrightarrow> chain g path ls \<Longrightarrow> chain g path ls' \<Longrightarrow> ls = ls'"
proof (induction g path ls arbitrary: ls' rule: chain.induct)
  case (1 g x)
  then show ?case by (cases ls') auto
next
  case (2 g x y path l ls)
  then obtain l' ls0 where ls': "ls' = l' # ls0" by (cases ls') auto
  have "l = l'"
    using "2.prems" ls' by (auto simp: no_parallel_links_def distinct_map dest!: spec [of _ x] inj_onD)
  with 2 ls' show ?case by auto
qed auto

lemma entries_comparable:
  assumes "no_parallel_links g" "\<forall>e \<in> S. entry_ok g p origin d e"
  shows "\<forall>a \<in> S. \<forall>b \<in> S. is_ok (entry_lt a b)"
proof (intro ballI)
  fix a b assume "a \<in> S" "b \<in> S"
  then have "entry_ok g p origin d a" "entry_ok g p origin d b" using assms(2) by auto
  then show "is_ok (entry_lt a b)"
    using chain_determines [OF assms(1)]
    by (cases a; cases b) (auto simp: entry_ok_def partial_route_def)
qed

lemma trust_allowed_ok:
  "trust_weight (n_trust_status n) \<noteq> None \<Longrightarrow> trust_weight (rp_minimum_trust p) \<noteq> None \<Longrightarrow> is_ok (trust_allowed n p b)"
  by (auto simp: trust_allowed_def)

lemma is_ok_bindE: "is_ok r \<Longrightarrow> (\<And>v. r = Inr v \<Longrightarrow> is_ok (f v)) \<Longrightarrow> is_ok (bindE r f)"
  by (cases r) auto

lemma graph_ok_link: "graph_ok g \<Longrightarrow> l \<in> set (links_of g x) \<Longrightarrow> \<exists>n. dget (g_nodes g) (l_destination l) = Some n"
  unfolding graph_ok_def link_ok_def by blast

lemma expand_ok:
  assumes "graph_ok g" "no_parallel_links g" "known_trust g" "trust_weight (rp_minimum_trust p) \<noteq> None"
    and e: "entry_ok g p origin d (pr, path, ls, lat)" "last path \<noteq> d" "int (length path) - 1 < rp_max_hops p"
  shows "set links \<subseteq> set (links_of g (last path)) \<Longrightarrow> \<forall>x \<in> set q. entry_ok g p origin d x \<Longrightarrow>
    is_ok (expand g p d (pr, path, ls, lat) links q)"
proof (induction links arbitrary: q)
  case (Cons l links)
  let ?e = "(pr, path, ls, lat)"
  have l: "l \<in> set (links_of g (last path))" using Cons.prems by simp
  then obtain n where n: "dget (g_nodes g) (l_destination l) = Some n"
    using graph_ok_link [OF assms(1)] by blast
  then have "is_ok (trust_allowed n p (l_destination l = d))"
    using assms(3,4) by (intro trust_allowed_ok) (auto simp: known_trust_def)
  then obtain b where b: "trust_allowed n p (l_destination l = d) = Inr b" by (auto simp: is_ok_iff)
  have rest: "is_ok (expand g p d ?e links q)" using Cons by simp
  show ?case
  proof (cases "followed g p d ?e l")
    case True
    have new: "entry_ok g p origin d (extend_entry ?e l)" using e l True by (intro extend_entry_ok [OF e(1)]) auto
    then have "\<forall>x \<in> insert (extend_entry ?e l) (set_mset (mset q)). entry_ok g p origin d x" using Cons.prems by auto
    from heap.push_total [of "extend_entry ?e l" q entry_lt, OF entries_comparable [OF assms(2) this]]
    obtain q1 where q1: "heappush entry_lt q (extend_entry ?e l) = Inr q1" by (auto simp: is_ok_iff)
    have "set q1 = insert (extend_entry ?e l) (set q)" using heap.push_items [OF q1] by (metis set_mset_add_mset_insert set_mset_mset)
    then have "is_ok (expand g p d ?e links q1)" using Cons new by (intro Cons.IH) auto
    then show ?thesis using rest n b q1 by (simp add: node_of_def)
  next
    case False
    then show ?thesis using rest n b by (auto simp: node_of_def followed_def admits_def)
  qed
qed simp

lemma admitted_nodes: "endpoint_ok g p origin False \<Longrightarrow> partial_route g p origin d path ls \<Longrightarrow> x \<in> set path \<Longrightarrow>
   \<exists>n. dget (g_nodes g) x = Some n"
  by (cases path) (auto simp: partial_route_def endpoint_ok_def admits_def split: option.splits)

lemma nodes_of_ok: "\<forall>x \<in> set path. \<exists>n. dget (g_nodes g) x = Some n \<Longrightarrow> nodes_of g path = Inr (map (node_at g) path)"
  by (induction path) (auto simp: node_of_def node_at_def)

lemma least_trusted_ok: "\<forall>n \<in> set ns. trust_weight (n_trust_status n) \<noteq> None \<Longrightarrow> is_ok (least_trusted b w ns)"
  by (induction ns arbitrary: b w) auto

lemma trust_floor_ok: "ns \<noteq> [] \<Longrightarrow> \<forall>n \<in> set ns. trust_weight (n_trust_status n) \<noteq> None \<Longrightarrow> is_ok (trust_floor ns)"
  by (cases ns) (auto simp: trust_floor_def least_trusted_ok)

lemma finish_ok:
  assumes "known_trust g" "endpoint_ok g p origin False" "entry_ok g p origin d (pr, path, ls, lat)"
  shows "is_ok (finish g p (pr, path, ls, lat))"
proof -
  have r: "partial_route g p origin d path ls" using assms(3) by (simp add: entry_ok_def)
  have nodes: "\<forall>x \<in> set path. \<exists>n. dget (g_nodes g) x = Some n" using admitted_nodes [OF assms(2) r] by blast
  have ne: "path \<noteq> []" using r by (auto simp: partial_route_def)
  have known: "\<forall>n \<in> set (map (node_at g) path). trust_weight (n_trust_status n) \<noteq> None"
    using nodes assms(1) by (fastforce simp: known_trust_def node_at_def)
  have "map (node_at g) path \<noteq> []" using ne by simp
  from trust_floor_ok [OF this known] obtain v where "trust_floor (map (node_at g) path) = Inr v" by (auto simp: is_ok_iff)
  then show ?thesis by (cases v) (simp add: finish_def path_capabilities_def path_score_def nodes_of_ok [OF nodes])
qed

lemma search_total:
  assumes "search_inv g p origin d (mset queue) results" "graph_ok g" "no_parallel_links g" "known_trust g"
    and "trust_weight (rp_minimum_trust p) \<noteq> None" "endpoint_ok g p origin False" "endpoint_ok g p d True"
  shows "is_ok (search g p d limit queue results)"
  using assms
proof (induction g p d limit queue results rule: search.induct)
  case (1 g p d limit queue results)
  show ?case
  proof (cases "queue = [] \<or> int (length results) \<ge> limit")
    case True
    then show ?thesis by (simp add: search.simps [of g p d limit queue results])
  next
    case run: False
    have "\<forall>e \<in> set_mset (mset queue). entry_ok g p origin d e" using "1.prems"(1) by (simp add: search_inv_def)
    then have "is_ok (heappop entry_lt queue)"
      using run by (intro heap.pop_total entries_comparable [OF "1.prems"(3)]) auto
    then obtain x where "heappop entry_lt queue = Inr x" by (auto simp: is_ok_iff)
    then obtain pr path ls lat q where pop: "heappop entry_lt queue = Inr ((pr, path, ls, lat), q)" by (cases x) auto
    note popped = search_inv_pop [OF "1.prems"(1) pop]
    show ?thesis
    proof (cases "last path = d")
      case True
      obtain r where r: "finish g p (pr, path, ls, lat) = Inr r"
        using finish_ok [OF "1.prems"(4,6) popped(1)] by (auto simp: is_ok_iff)
      note inv = search_inv_finish [OF "1.prems"(1) pop True "1.prems"(6,7) r]
      show ?thesis
      proof (cases r)
        case None
        from "1.IH"(1) [OF run pop refl refl refl refl True r None] inv None "1.prems" show ?thesis
          using run pop True r by (subst search.simps) simp
      next
        case (Some c)
        from "1.IH"(2) [OF run pop refl refl refl refl True r Some] inv Some "1.prems" show ?thesis
          using run pop True r by (subst search.simps) simp
      qed
    next
      case on: False
      show ?thesis
      proof (cases "int (length path) - 1 \<ge> rp_max_hops p")
        case True
        from "1.IH"(3) [OF run pop refl refl refl refl on True] search_inv_prune [OF "1.prems"(1,2) pop on True] "1.prems"
        show ?thesis using run pop on True by (subst search.simps) simp
      next
        case False
        have "is_ok (expand g p d (pr, path, ls, lat) (links_of g (last path)) q)"
          using "1.prems" popped(2) False by (intro expand_ok [OF _ _ _ _ popped(1) on]) auto
        then obtain q' where q': "expand g p d (pr, path, ls, lat) (links_of g (last path)) q = Inr q'" by (auto simp: is_ok_iff)
        from "1.IH"(4) [OF run pop refl refl refl refl on False q'] search_inv_expand [OF "1.prems"(1,2) pop on False q'] "1.prems"
        show ?thesis using run pop on False q' by (subst search.simps) simp
      qed
    qed
  qed
qed

section \<open>Properties\<close>

lemma start_inv:
  assumes "make_policy p = Inr p" "heappush entry_lt [] (0, [origin], [], 0) = Inr queue"
  shows "search_inv g p origin d (mset queue) []"
proof -
  have "mset queue = {#(0, [origin], [], 0)#}" using heap.push_items [OF assms(2)] by simp
  moreover have "1 \<le> rp_max_hops p" using assms(1) by (auto simp: make_policy_def split: if_splits option.splits)
  moreover have "on_the_way path ls (0, [origin], [], 0)" if "compliant_route g p origin d path ls" for path ls
    using that by (cases path) (auto simp: on_the_way_def compliant_route_def partial_route_def)
  ultimately show ?thesis by (auto simp: search_inv_def entry_ok_def partial_route_def lat_sum_def)
qed

lemma push_start: "heappush entry_lt [] e = Inr [e]"
  by (simp add: heappush_def sift_down.simps)

lemma candidates_cases:
  assumes "candidates g origin d p limit = Inr cs"
  shows "(cs = [] \<and> \<not> (endpoint_ok g p origin False \<and> endpoint_ok g p d True)) \<or>
    (1 \<le> limit \<and> endpoint_ok g p origin False \<and> endpoint_ok g p d True \<and>
     (\<exists>rs. search g p d limit [(0, [origin], [], 0)] [] = Inr rs \<and> cs = take (nat limit) (sort_key compare_key rs)))"
proof (cases "dget (g_nodes g) origin")
  case None
  then show ?thesis using assms by (simp add: candidates_def endpoint_ok_def)
next
  case (Some no)
  show ?thesis
  proof (cases "dget (g_nodes g) d")
    case None
    then show ?thesis using assms Some by (simp add: candidates_def endpoint_ok_def)
  next
    case d: (Some nd)
    then show ?thesis using assms Some
      by (auto simp: candidates_def bindE_Inr_iff endpoint_ok_def push_start split: if_splits)
  qed
qed

abbreviation run_graph :: "graph_op list \<Rightarrow> trust_graph" where
  "run_graph ops \<equiv> foldl graph_step empty_graph ops"

lemma run_graph_ok: "graph_ok (run_graph ops)"
  by (simp add: graph.run_inv)

text \<open>
  C3. Path selection is sound and complete on every graph the operations can build: the candidates
  are at most \<open>limit\<close>, in the order of score, latency and offices; each is a policy-compliant route
  (a simple chain of enabled links through admitted relays, within the hop and latency limits, with
  the required offices, security and media at every hop) with the latency, score and capabilities of
  its links; and when fewer than \<open>limit\<close> come back, no compliant route is missing.
\<close>

theorem candidates_sound_and_complete:
  assumes "make_policy p = Inr p" and "g = run_graph ops" and "candidates g origin d p limit = Inr cs"
  shows "sorted (map compare_key cs) \<and> int (length cs) \<le> max 0 limit \<and>
    (\<forall>c \<in> set cs. \<exists>path ls. candidate_for g p origin d path ls c) \<and>
    (int (length cs) < limit \<longrightarrow> (\<forall>path ls. compliant_route g p origin d path ls \<longrightarrow>
       (\<exists>c \<in> set cs. candidate_for g p origin d path ls c)))"
  using candidates_cases [OF assms(3)]
proof
  assume "cs = [] \<and> \<not> (endpoint_ok g p origin False \<and> endpoint_ok g p d True)"
  then show ?thesis by (auto simp: compliant_route_def)
next
  assume "1 \<le> limit \<and> endpoint_ok g p origin False \<and> endpoint_ok g p d True \<and>
     (\<exists>rs. search g p d limit [(0, [origin], [], 0)] [] = Inr rs \<and> cs = take (nat limit) (sort_key compare_key rs))"
  then obtain rs where run: "search g p d limit [(0, [origin], [], 0)] [] = Inr rs"
      "endpoint_ok g p origin False" "endpoint_ok g p d True" "1 \<le> limit"
    and cs: "cs = take (nat limit) (sort_key compare_key rs)" by blast
  have "graph_ok g" unfolding assms(2) by (rule run_graph_ok)
  from search_finds [OF run(1) start_inv [OF assms(1) push_start] this run(2,3)]
  have found: "\<forall>c \<in> set rs. \<exists>path ls. candidate_for g p origin d path ls c" "int (length rs) \<le> max 0 limit"
    "int (length rs) < limit \<longrightarrow> (\<forall>path ls. compliant_route g p origin d path ls \<longrightarrow>
       (\<exists>c \<in> set rs. candidate_for g p origin d path ls c))" by simp_all
  then have "cs = sort_key compare_key rs" using cs run(4) by simp
  then show ?thesis using found by simp
qed

text \<open>
  C34. When the graph has no parallel links and every office has a known trust status, path selection
  always returns: the search terminates and no comparison of its heap, no lookup and no weight raises.
\<close>

theorem candidates_total:
  assumes "make_policy p = Inr p" and "g = run_graph ops" and "1 \<le> limit"
    and "no_parallel_links g" and "known_trust g"
  shows "is_ok (candidates g origin d p limit)"
proof (cases "dget (g_nodes g) origin")
  case no: (Some no)
  show ?thesis
  proof (cases "dget (g_nodes g) d")
    case nd: (Some nd)
    have w: "trust_weight (rp_minimum_trust p) \<noteq> None" using assms(1) by (auto simp: make_policy_def split: if_splits)
    have "is_ok (trust_allowed no p False)" "is_ok (trust_allowed nd p True)"
      using assms(5) no nd w by (auto intro!: trust_allowed_ok simp: known_trust_def)
    then obtain b1 b2 where b: "trust_allowed no p False = Inr b1" "trust_allowed nd p True = Inr b2"
      by (auto simp: is_ok_iff)
    have "is_ok (search g p d limit [(0, [origin], [], 0)] [])" if b1 b2
      using that b no nd assms(4,5) w run_graph_ok [of ops] unfolding assms(2)
      by (intro search_total [OF start_inv [OF assms(1) push_start]]) (simp_all add: endpoint_ok_def)
    then show ?thesis using no nd b assms(3) by (auto simp: candidates_def push_start is_ok_iff)
  qed (simp add: candidates_def no)
qed (simp add: candidates_def)

text \<open>
  A quarantined office carries no traffic: after \<open>quarantine\<close> no candidate path has it as
  origin, relay or destination.
\<close>

theorem quarantine_isolates:
  assumes "make_policy p = Inr p" and "dget (g_nodes (run_graph ops)) x \<noteq> None"
    and "candidates (snd (quarantine x (run_graph ops))) origin d p limit = Inr cs" and "c \<in> set cs"
  shows "x \<notin> set (c_offices c)"
proof
  assume x: "x \<in> set (c_offices c)"
  let ?g = "run_graph (ops @ [GQuarantine x])"
  have g: "?g = snd (quarantine x (run_graph ops))" by simp
  obtain path ls where "candidate_for ?g p origin d path ls c"
    using candidates_sound_and_complete [OF assms(1) refl assms(3) [folded g]] assms(4) by blast
  then have r: "partial_route ?g p origin d path ls" "endpoint_ok ?g p origin False" "x \<in> set path"
    using x by (auto simp: candidate_for_def compliant_route_def)
  obtain n where n: "dget (g_nodes ?g) x = Some n" "node_blocked n"
    using assms(2) by (auto simp: quarantine_def node_blocked_def blocked_states_def)
  have "x = origin \<or> x \<in> set (tl path)" using r(1,3) by (cases path) (auto simp: partial_route_def)
  then show False
    using r(1,2) n by (auto simp: partial_route_def endpoint_ok_def admits_def trust_allowed_def)
qed

text \<open>
  Every graph built by the operations, and every graph loaded from a directory, is well formed:
  offices are stored under their own ids, links run between known offices with a latency of at least
  zero, and every link list is sorted.
\<close>

lemma graph_well_formed:
  "graph_ok (run_graph ops) \<and> (from_directory rs = Inr g \<longrightarrow> graph_ok g)"
  using run_graph_ok from_directory_graph_ok by blast

section \<open>The properties on a concrete graph\<close>

definition demo_node :: "string \<Rightarrow> int \<Rightarrow> fed_node" where
  "demo_node x pref = \<lparr>n_office_id = x, n_trust_status = ''trusted'', n_operational_status = ''active'',
     n_media = {''text''}, n_security = {''aead''}, n_relay_allowed = True, n_preference = pref\<rparr>"

definition demo_link :: "string \<Rightarrow> string \<Rightarrow> int \<Rightarrow> string set \<Rightarrow> fed_link" where
  "demo_link x y latency sec = \<lparr>l_source = x, l_destination = y, l_latency_ms = latency,
     l_security = sec, l_media = {''text''}, l_enabled = True, l_cost = 0\<rparr>"

definition demo_policy :: route_policy where
  "demo_policy = \<lparr>rp_minimum_trust = ''observed'', rp_required_security = {''aead''}, rp_required_media = {''text''},
     rp_max_hops = 4, rp_max_latency_ms = None, rp_forbidden_offices = {}, rp_required_offices = {},
     rp_allow_unknown_destination = False\<rparr>"

definition demo_graph_ops :: "graph_op list" where
  "demo_graph_ops = [GUpsert (demo_node ''A'' 0), GUpsert (demo_node ''B'' 0), GUpsert (demo_node ''C'' 500),
     GUpsert (demo_node ''D'' 0), GAddLink (demo_link ''A'' ''B'' 10 {''aead''}) True,
     GAddLink (demo_link ''B'' ''D'' 10 {''aead''}) True,
     GAddLink (demo_link ''A'' ''C'' 50 {''aead''}) False, GAddLink (demo_link ''C'' ''D'' 50 {''aead''}) False]"

lemma no_parallel_check:
  "list_all (\<lambda>(x, ls). distinct (map l_destination ls)) (g_links g) \<Longrightarrow> no_parallel_links g"
  by (auto simp: no_parallel_links_def links_of_def list_all_iff split: option.splits dest!: map_of_SomeD)

lemma known_trust_check:
  "list_all (\<lambda>(x, n). trust_weight (n_trust_status n) \<noteq> None) (g_nodes g) \<Longrightarrow> known_trust g"
  by (auto simp: known_trust_def list_all_iff dest!: map_of_SomeD)

lemma demo_candidate:
  "map_sum (\<lambda>e. e) (map c_offices) (candidates (run_graph demo_graph_ops) ''A'' ''D'' demo_policy 1) = Inr [[''A'', ''B'', ''D'']]"
  by code_simp

lemma demo_policy_made: "make_policy demo_policy = Inr demo_policy"
  by code_simp

lemma candidates_sound_and_complete_witness:
  "\<exists>c path ls. candidates (run_graph demo_graph_ops) ''A'' ''D'' demo_policy 1 = Inr [c] \<and>
     candidate_for (run_graph demo_graph_ops) demo_policy ''A'' ''D'' path ls c"
proof -
  obtain c where c: "candidates (run_graph demo_graph_ops) ''A'' ''D'' demo_policy 1 = Inr [c]"
    using demo_candidate by (cases "candidates (run_graph demo_graph_ops) ''A'' ''D'' demo_policy 1") auto
  then show ?thesis
    using candidates_sound_and_complete [OF demo_policy_made refl c] by auto
qed

lemma candidates_total_witness:
  "is_ok (candidates (run_graph demo_graph_ops) ''A'' ''D'' demo_policy 3)"
proof -
  have "no_parallel_links (run_graph demo_graph_ops)" by (rule no_parallel_check) code_simp
  moreover have "known_trust (run_graph demo_graph_ops)" by (rule known_trust_check) code_simp
  ultimately show ?thesis using candidates_total [OF demo_policy_made refl, of 3] by simp
qed

lemma quarantine_isolates_witness:
  "\<exists>c. candidates (snd (quarantine ''B'' (run_graph demo_graph_ops))) ''A'' ''D'' demo_policy 5 = Inr [c] \<and>
     ''B'' \<notin> set (c_offices c)"
proof -
  let ?r = "candidates (snd (quarantine ''B'' (run_graph demo_graph_ops))) ''A'' ''D'' demo_policy 5"
  have "map_sum (\<lambda>e. e) (map c_offices) ?r = Inr [[''A'', ''C'', ''D'']]" by code_simp
  then obtain c where c: "?r = Inr [c]" by (cases ?r) auto
  moreover have "dget (g_nodes (run_graph demo_graph_ops)) ''B'' \<noteq> None" by code_simp
  ultimately show ?thesis using quarantine_isolates [OF demo_policy_made _ c, of c] by simp
qed

lemma graph_well_formed_witness:
  "graph_ok (run_graph demo_graph_ops) \<and>
   (\<exists>g. from_directory [\<lparr>dr_office_id = Some ''A'', dr_trust_status = None, dr_federation_status = None, dr_media = None,
      dr_security = None, dr_relay_allowed = None, dr_route_preference = None, dr_links = None\<rparr>] = Inr g \<and> graph_ok g)"
proof -
  let ?rs = "[\<lparr>dr_office_id = Some ''A'', dr_trust_status = None, dr_federation_status = None, dr_media = None,
      dr_security = None, dr_relay_allowed = None, dr_route_preference = None, dr_links = None\<rparr>]"
  have "is_ok (from_directory ?rs)" by code_simp
  then obtain g where "from_directory ?rs = Inr g" unfolding is_ok_iff by blast
  then show ?thesis using graph_well_formed [of demo_graph_ops ?rs g] by blast
qed

text \<open>
  Two parallel links of equal latency and cost that differ in their capabilities make path
  selection raise: the heap falls through to comparing the links, which have no order.
\<close>

lemma parallel_links_raise:
  "candidates (run_graph [GUpsert (demo_node ''A'' 0), GUpsert (demo_node ''B'' 0),
     GAddLink (demo_link ''A'' ''B'' 10 {''aead''}) False, GAddLink (demo_link ''A'' ''B'' 10 {''aead'', ''tls''}) False])
     ''A'' ''B'' demo_policy 5 =
   Inl (TypeError ''< not supported between instances of FederationLink and FederationLink'')"
  by code_simp

text \<open>
  The search stops at the first \<open>limit\<close> destinations in the order of its heuristic, which knows
  nothing of trust and preference: with a limit of one it can return a route that scores less than
  another compliant route.
\<close>

theorem limit_may_hide_the_best_route:
  "\<exists>c best cs. candidates (run_graph demo_graph_ops) ''A'' ''D'' demo_policy 1 = Inr [c] \<and>
     candidates (run_graph demo_graph_ops) ''A'' ''D'' demo_policy 5 = Inr (best # cs) \<and> c_score c < c_score best"
proof -
  let ?r1 = "candidates (run_graph demo_graph_ops) ''A'' ''D'' demo_policy 1"
  let ?r5 = "candidates (run_graph demo_graph_ops) ''A'' ''D'' demo_policy 5"
  have "map_sum (\<lambda>e. e) (map c_score) ?r1 = Inr [9780]" by code_simp
  then obtain c where c: "?r1 = Inr [c]" "c_score c = 9780" by (cases ?r1) auto
  have "map_sum (\<lambda>e. e) (map c_score) ?r5 = Inr [10200, 9780]" by code_simp
  then obtain b cs where "?r5 = Inr (b # cs)" "c_score b = 10200" by (cases ?r5) auto
  with c show ?thesis by auto
qed

text \<open>
  \<open>restore\<close> does not undo \<open>quarantine\<close>: the restored office is active again but stays barred
  from relaying, whatever it was allowed before.
\<close>

theorem restore_keeps_relay_disabled:
  assumes "dget (g_nodes g) x = Some n"
  shows "dget (g_nodes (snd (restore x (snd (quarantine x g))))) x =
    Some (n\<lparr>n_operational_status := ''active'', n_relay_allowed := False\<rparr>)"
  using assms by (simp add: quarantine_def restore_def)

lemma restore_keeps_relay_disabled_witness:
  "map_option n_relay_allowed (dget (g_nodes (snd (restore ''B'' (snd (quarantine ''B'' (run_graph demo_graph_ops)))))) ''B'') = Some False"
proof -
  have "dget (g_nodes (run_graph demo_graph_ops)) ''B'' \<noteq> None" by code_simp
  then obtain n where "dget (g_nodes (run_graph demo_graph_ops)) ''B'' = Some n" by blast
  from restore_keeps_relay_disabled [OF this] show ?thesis by simp
qed

end
