(* ===== verification/Crypto.thy ===== *)
theory Crypto
  imports Json
begin

text \<open>
  reference/telegraph_crypto.py and the encodings of reference/telegraph_federation_demo.py: base64url
  text, detached Ed25519 signatures on canonical JSON, and the lookup of a signing key in an identity
  document. Bytes are strings. The Ed25519 primitives and SHA-256 are arguments.
\<close>

section \<open>The primitives\<close>

text \<open>
  The package \<open>cryptography\<close> as the sources use it: the raw public key of a private key, signing,
  and verifying with a raw public key, which raises on a malformed key or a wrong signature.
\<close>

record 'sk crypto =
  ed_public :: "'sk \<Rightarrow> string"
  ed_sign :: "'sk \<Rightarrow> string \<Rightarrow> string"
  ed_verify :: "string \<Rightarrow> string \<Rightarrow> string \<Rightarrow> unit outcome"

text \<open>Documented behaviour: what was signed verifies; keys and signatures are not empty.\<close>

definition signatures_verify :: "'sk crypto \<Rightarrow> bool" where
  "signatures_verify cr \<longleftrightarrow> (\<forall>sk m. ed_verify cr (ed_public cr sk) (ed_sign cr sk m) m = Inr () \<and>
     ed_public cr sk \<noteq> [] \<and> ed_sign cr sk m \<noteq> [])"

definition sha256_text :: "(string \<Rightarrow> string) \<Rightarrow> string \<Rightarrow> string" where
  "sha256_text sha b = ''sha256:'' @ sha b"

section \<open>Base64url\<close>

definition sextet_char :: "nat \<Rightarrow> char" where
  "sextet_char v =
     (if v < 26 then char_of (65 + v) else if v < 52 then char_of (71 + v)
      else if v < 62 then char_of (v - 4) else if v = 62 then CHR ''-'' else CHR ''_'')"

definition sextet_val :: "char \<Rightarrow> nat option" where
  "sextet_val c =
     (let n = code c in
      if 65 \<le> n \<and> n \<le> 90 then Some (n - 65)
      else if 97 \<le> n \<and> n \<le> 122 then Some (n - 71)
      else if 48 \<le> n \<and> n \<le> 57 then Some (n + 4)
      else if n = 45 \<or> n = 43 then Some 62
      else if n = 95 \<or> n = 47 then Some 63
      else None)"

fun sextets :: "nat list \<Rightarrow> nat list" where
  "sextets [] = []"
| "sextets [a] = [a div 4, (a mod 4) * 16]"
| "sextets [a, b] = [a div 4, (a mod 4) * 16 + b div 16, (b mod 16) * 4]"
| "sextets (a # b # c # rest) =
     [a div 4, (a mod 4) * 16 + b div 16, (b mod 16) * 4 + c div 64, c mod 64] @ sextets rest"

text \<open>\<open>urlsafe_b64encode(...).rstrip("=")\<close>.\<close>

definition b64 :: "string \<Rightarrow> string" where
  "b64 s = map sextet_char (sextets (map code s))"

text \<open>
  The lenient decoder of \<open>binascii\<close>: characters outside the alphabet are skipped, \<open>quad\<close> counts the
  sextets of the current group, \<open>left\<close> holds the bits not written yet, and a complete padding ends
  the input.
\<close>

fun a2b :: "nat \<Rightarrow> nat \<Rightarrow> nat \<Rightarrow> string \<Rightarrow> string outcome" where
  "a2b quad left pads [] = (if quad = 0 then Inr [] else Inl (ValueError ''Incorrect padding''))"
| "a2b quad left pads (c # cs) =
     (if c = CHR ''='' then
        (if quad \<ge> 2 \<and> quad + pads + 1 \<ge> 4 then Inr []
         else a2b quad left (if quad \<ge> 2 then pads + 1 else pads) cs)
      else (case sextet_val c of
              None \<Rightarrow> a2b quad left pads cs
            | Some v \<Rightarrow>
                if quad = 0 then a2b 1 v 0 cs
                else if quad = 1 then map_sum id ((#) (char_of (left * 4 + v div 16))) (a2b 2 (v mod 16) 0 cs)
                else if quad = 2 then map_sum id ((#) (char_of (left * 16 + v div 4))) (a2b 3 (v mod 4) 0 cs)
                else map_sum id ((#) (char_of (left * 64 + v))) (a2b 0 0 0 cs)))"

definition is_ascii :: "string \<Rightarrow> bool" where
  "is_ascii s \<longleftrightarrow> list_all (\<lambda>c. code c < (128 :: nat)) s"

definition decode_base64url :: "json \<Rightarrow> string outcome" where
  "decode_base64url v =
     (case v of
        JStr s \<Rightarrow>
          if s = [] then Inl (ValueError ''base64url value must be a non-empty string'')
          else if \<not> is_ascii s then Inl (ValueError ''string argument should contain only ASCII characters'')
          else a2b 0 0 0 (s @ replicate ((4 - length s mod 4) mod 4) (CHR ''=''))
      | _ \<Rightarrow> Inl (ValueError ''base64url value must be a non-empty string''))"

lemma sextet_val_char [simp]: "v < 64 \<Longrightarrow> sextet_val (sextet_char v) = Some v"
proof -
  assume "v < 64"
  then consider "v < 26" | "26 \<le> v" "v < 52" | "52 \<le> v" "v < 62" | "v = 62" | "v = 63" by linarith
  then show ?thesis by cases (auto simp: sextet_val_def sextet_char_def Let_def)
qed

lemma sextet_val_pad [simp]: "sextet_val (CHR ''='') = None"
  by (simp add: sextet_val_def)

lemma sextet_char_not_pad [simp]: "v < 64 \<Longrightarrow> sextet_char v \<noteq> CHR ''=''"
  by (metis sextet_val_char sextet_val_pad option.distinct(1))

lemma sextet_char_ascii: "v < 64 \<Longrightarrow> code (sextet_char v) < (128 :: nat)"
  by (auto simp: sextet_char_def)

lemma sextet_bounds:
  fixes a b c :: nat
  shows "a < 256 \<Longrightarrow> a div 4 < 64" "b < 256 \<Longrightarrow> (a mod 4) * 16 + b div 16 < 64"
    "c < 256 \<Longrightarrow> (b mod 16) * 4 + c div 64 < 64" "(a mod 4) * 16 < 64" "(b mod 16) * 4 < 64" "c mod 64 < 64"
proof -
  have "a mod 4 < 4" "b mod 16 < 16" by simp_all
  then show "b < 256 \<Longrightarrow> (a mod 4) * 16 + b div 16 < 64" "c < 256 \<Longrightarrow> (b mod 16) * 4 + c div 64 < 64"
    "(a mod 4) * 16 < 64" "(b mod 16) * 4 < 64" by linarith+
qed simp_all

lemma sextet_joins:
  fixes a b c :: nat
  shows "b < 256 \<Longrightarrow> a div 4 * 4 + ((a mod 4) * 16 + b div 16) div 16 = a"
    "b < 256 \<Longrightarrow> ((a mod 4) * 16 + b div 16) mod 16 = b div 16"
    "c < 256 \<Longrightarrow> b div 16 * 16 + ((b mod 16) * 4 + c div 64) div 4 = b"
    "c < 256 \<Longrightarrow> ((b mod 16) * 4 + c div 64) mod 4 = c div 64"
    "a div 4 * 4 + (a mod 4) * 16 div 16 = a" "(a mod 4) * 16 mod 16 = 0"
    "b div 16 * 16 + (b mod 16) * 4 div 4 = b" "c div 64 * 64 + c mod 64 = c"
proof -
  show "b < 256 \<Longrightarrow> a div 4 * 4 + ((a mod 4) * 16 + b div 16) div 16 = a"
    "b < 256 \<Longrightarrow> ((a mod 4) * 16 + b div 16) mod 16 = b div 16"
    by (simp_all add: less_mult_imp_div_less)
  show "c < 256 \<Longrightarrow> b div 16 * 16 + ((b mod 16) * 4 + c div 64) div 4 = b"
    "c < 256 \<Longrightarrow> ((b mod 16) * 4 + c div 64) mod 4 = c div 64"
    by (simp_all add: less_mult_imp_div_less)
qed simp_all

lemma a2b_step:
  "v < 64 \<Longrightarrow> a2b 0 left pads (sextet_char v # cs) = a2b 1 v 0 cs"
  "v < 64 \<Longrightarrow> a2b (Suc 0) left pads (sextet_char v # cs) =
     map_sum id ((#) (char_of (left * 4 + v div 16))) (a2b 2 (v mod 16) 0 cs)"
  "v < 64 \<Longrightarrow> a2b 2 left pads (sextet_char v # cs) =
     map_sum id ((#) (char_of (left * 16 + v div 4))) (a2b 3 (v mod 4) 0 cs)"
  "v < 64 \<Longrightarrow> a2b 3 left pads (sextet_char v # cs) = map_sum id ((#) (char_of (left * 64 + v))) (a2b 0 0 0 cs)"
  by simp_all

lemma a2b_sextets:
  "\<forall>b \<in> set bs. b < 256 \<Longrightarrow>
   a2b 0 left pads (map sextet_char (sextets bs) @ replicate ((4 - length (sextets bs) mod 4) mod 4) (CHR ''='')) =
     Inr (map char_of bs)"
proof (induction bs arbitrary: left pads rule: sextets.induct)
  case (2 a)
  then show ?case
    by (simp add: a2b_step sextet_bounds sextet_joins numeral_2_eq_2 [symmetric] del: a2b.simps(2)) (simp add: numeral_2_eq_2)
next
  case (3 a b)
  then have "b div 16 < 16" by (simp add: less_mult_imp_div_less)
  with 3 show ?case
    by (simp add: a2b_step sextet_bounds sextet_joins del: a2b.simps(2)) simp
next
  case (4 a b c rest)
  then have "b div 16 < 16" "c div 64 < 4" by (simp_all add: less_mult_imp_div_less)
  with 4 show ?case
    by (simp add: a2b_step sextet_bounds sextet_joins del: a2b.simps(2))
qed simp

lemma b64_ascii: "is_ascii (b64 s)"
proof -
  have "\<forall>b \<in> set bs. b < 256 \<Longrightarrow> \<forall>v \<in> set (sextets bs). v < 64" for bs
    by (induction bs rule: sextets.induct) (simp_all add: sextet_bounds)
  from this [of "map code s"] have "\<forall>v \<in> set (sextets (map code s)). v < 64" by simp
  then show ?thesis by (auto simp: is_ascii_def b64_def list_all_iff intro!: sextet_char_ascii)
qed

lemma b64_nonempty: "s \<noteq> [] \<Longrightarrow> b64 s \<noteq> []"
  by (cases "map code s" rule: sextets.cases) (auto simp: b64_def)

theorem decode_b64: "s \<noteq> [] \<Longrightarrow> decode_base64url (JStr (b64 s)) = Inr s"
  using a2b_sextets [of "map code s" 0 0] b64_ascii [of s] b64_nonempty [of s]
  by (simp add: decode_base64url_def) (simp add: b64_def comp_def)

section \<open>Documents\<close>

text \<open>\<open>_unsigned\<close>: the document without its signature.\<close>

definition unsigned :: "(string, json) dict \<Rightarrow> (string, json) dict" where
  "unsigned doc = filter (\<lambda>(k, _). k \<noteq> ''signature'') doc"

lemma unsigned_sign [simp]: "dget doc ''signature'' = None \<Longrightarrow> unsigned (doc @ [(''signature'', v)]) = unsigned doc"
  by (simp add: unsigned_def)

lemma unsigned_dset [simp]: "unsigned (dset doc ''signature'' v) = unsigned doc"
  unfolding unsigned_def by (induction doc) auto

text \<open>Iterating \<open>identity.get("keys", [])\<close>: only the entries of a list can be objects.\<close>

fun find_signing_key :: "string \<Rightarrow> json list \<Rightarrow> json outcome option" where
  "find_signing_key key_id [] = None"
| "find_signing_key key_id (k # ks) =
     (case k of
        JObj d \<Rightarrow>
          if jget d ''key_id'' = JStr key_id \<and> jget d ''purpose'' = JStr ''office_signing'' \<and>
             jget d ''algorithm'' = JStr ''Ed25519'' \<and> jget d ''status'' = JStr ''active''
          then Some (case dget d ''public_key'' of None \<Rightarrow> Inl (KeyError ''public_key'') | Some v \<Rightarrow> Inr v)
          else find_signing_key key_id ks
      | _ \<Rightarrow> find_signing_key key_id ks)"

definition signing_key_from_identity :: "(string, json) dict \<Rightarrow> string \<Rightarrow> string outcome" where
  "signing_key_from_identity identity key_id =
     (if jget identity ''office_id'' \<noteq> JStr (before_first (CHR ''#'') key_id)
      then Inl (ValueError ''signature key does not belong to identity office'')
      else
        (case jget_default identity ''keys'' (JList []) of
           JList ks \<Rightarrow>
             (case find_signing_key key_id ks of
                None \<Rightarrow> Inl (ValueError ''active signing key not found in identity'')
              | Some r \<Rightarrow> bindE r decode_base64url)
         | JObj _ \<Rightarrow> Inl (ValueError ''active signing key not found in identity'')
         | JStr _ \<Rightarrow> Inl (ValueError ''active signing key not found in identity'')
         | _ \<Rightarrow> Inl (TypeError ''object is not iterable'')))"

definition verify_document :: "'sk crypto \<Rightarrow> (string, json) dict \<Rightarrow> (string, json) dict \<Rightarrow> bool" where
  "verify_document cr doc identity =
     (case jget doc ''signature'' of
        JObj sg \<Rightarrow>
          if jget sg ''algorithm'' \<noteq> JStr ''Ed25519'' then False else
          (case (jget sg ''key_id'', jget sg ''value'') of
             (JStr key_id, JStr value) \<Rightarrow>
               is_ok (bindE (signing_key_from_identity identity key_id) (\<lambda>pk.
                 bindE (decode_base64url (JStr value)) (\<lambda>sig.
                   ed_verify cr pk sig (canonical_json (JObj (unsigned doc))))))
           | _ \<Rightarrow> False)
      | _ \<Rightarrow> False)"

definition verify_identity :: "'sk crypto \<Rightarrow> (string, json) dict \<Rightarrow> bool" where
  "verify_identity cr identity =
     (case (jget identity ''office_id'', jget identity ''signature'') of
        (JStr office_id, JObj sg) \<Rightarrow>
          (case jget sg ''key_id'' of
             JStr key_id \<Rightarrow> starts_with key_id (office_id @ ''#'') \<and> verify_document cr identity identity
           | _ \<Rightarrow> False)
      | _ \<Rightarrow> False)"

text \<open>A stand-in for the primitives that shows the hypothesis on them can hold.\<close>

definition demo_crypto :: "string crypto" where
  "demo_crypto = \<lparr>ed_public = (\<lambda>sk. CHR ''P'' # sk), ed_sign = (\<lambda>sk m. CHR ''P'' # sk @ show_nat (length m)),
     ed_verify = (\<lambda>pk sg m. if sg = pk @ show_nat (length m) then Inr () else Inl (OtherError ''InvalidSignature''))\<rparr>"

lemma demo_crypto_ok: "signatures_verify demo_crypto"
  by (simp add: signatures_verify_def demo_crypto_def)

end
