(* ===== verification/PyText.thy ===== *)
theory PyText
  imports Json
begin

text \<open>
  \<open>str(x)\<close> and \<open>repr(x)\<close> of Python on JSON values, for the places where the sources turn a field of
  a document into text, and the character classes of their regular expressions.
\<close>

definition char_in :: "char \<Rightarrow> char \<Rightarrow> char \<Rightarrow> bool" where
  "char_in a b c \<longleftrightarrow> code a \<le> code c \<and> code c \<le> code b"

definition alnum :: "char \<Rightarrow> bool" where
  "alnum c \<longleftrightarrow> char_in (CHR ''A'') (CHR ''Z'') c \<or> char_in (CHR ''a'') (CHR ''z'') c \<or> char_in (CHR ''0'') (CHR ''9'') c"

definition hex_digit :: "char \<Rightarrow> bool" where
  "hex_digit c \<longleftrightarrow> char_in (CHR ''A'') (CHR ''F'') c \<or> char_in (CHR ''a'') (CHR ''f'') c \<or> char_in (CHR ''0'') (CHR ''9'') c"

text \<open>A value used as a dictionary key.\<close>

definition hashable :: "json \<Rightarrow> json outcome" where
  "hashable v =
     (case v of
        JList _ \<Rightarrow> Inl (TypeError ''unhashable type: list'')
      | JObj _ \<Rightarrow> Inl (TypeError ''unhashable type: dict'')
      | _ \<Rightarrow> Inr v)"

text \<open>
  \<open>^[A-Za-z0-9][A-Za-z0-9<extra>]{lo,hi}$\<close> as a full match, and a full match of a repeated class.
\<close>

definition token_text :: "string \<Rightarrow> nat \<Rightarrow> nat \<Rightarrow> string \<Rightarrow> bool" where
  "token_text extra lo hi t \<longleftrightarrow>
     (case t of [] \<Rightarrow> False
      | c # cs \<Rightarrow> alnum c \<and> list_all (\<lambda>x. alnum x \<or> x \<in> set extra) cs \<and> lo \<le> length cs \<and> length cs \<le> hi)"

definition chars_text :: "string \<Rightarrow> nat \<Rightarrow> nat \<Rightarrow> string \<Rightarrow> bool" where
  "chars_text extra lo hi t \<longleftrightarrow> list_all (\<lambda>x. alnum x \<or> x \<in> set extra) t \<and> lo \<le> length t \<and> length t \<le> hi"

text \<open>\<open>s.split()\<close>: the words between white space.\<close>

fun py_words_from :: "string \<Rightarrow> string \<Rightarrow> string list" where
  "py_words_from w [] = (if w = [] then [] else [rev w])"
| "py_words_from w (c # cs) =
     (if is_space c then (if w = [] then py_words_from [] cs else rev w # py_words_from [] cs)
      else py_words_from (c # w) cs)"

definition py_words :: "string \<Rightarrow> string list" where
  "py_words s = py_words_from [] s"

definition hex2 :: "nat \<Rightarrow> string" where
  "hex2 n = [hex_char (n div 16), hex_char (n mod 16)]"

definition repr_char :: "char \<Rightarrow> char \<Rightarrow> string" where
  "repr_char q c =
     (let n = code c in
      if c = q \<or> n = 92 then [CHR 0x5C, c]
      else if n = 9 then [CHR 0x5C, CHR ''t'']
      else if n = 10 then [CHR 0x5C, CHR ''n'']
      else if n = 13 then [CHR 0x5C, CHR ''r'']
      else if n < 32 \<or> (127 \<le> n \<and> n \<le> 160) \<or> n = 173 then [CHR 0x5C, CHR ''x''] @ hex2 n
      else [c])"

definition repr_str :: "string \<Rightarrow> string" where
  "repr_str s =
     (let q = (if CHR 0x27 \<in> set s \<and> CHR 0x22 \<notin> set s then CHR 0x22 else CHR 0x27)
      in q # concat (map (repr_char q) s) @ [q])"

primrec py_repr :: "json \<Rightarrow> string" where
  "py_repr JNull = ''None''"
| "py_repr (JBool b) = str_of_bool b"
| "py_repr (JInt i) = show_int i"
| "py_repr (JStr s) = repr_str s"
| "py_repr (JList js) = CHR ''['' # join '', '' (map py_repr js) @ '']''"
| "py_repr (JObj d) =
     CHR 0x7B # join '', '' (map (\<lambda>kv. repr_str (fst kv) @ '': '' @ snd kv) (map (map_prod id py_repr) d)) @ [CHR 0x7D]"

definition py_str :: "json \<Rightarrow> string" where
  "py_str j = (case j of JStr s \<Rightarrow> s | _ \<Rightarrow> py_repr j)"

lemma py_str_JStr [simp]: "py_str (JStr s) = s"
  by (simp add: py_str_def)

end
