(* ===== verification/KeyLifecycle.thy ===== *)
theory KeyLifecycle
  imports Crypto PyText Contracts
begin

text \<open>
  reference/telegraph_key_lifecycle.py: the signing keyring of an office (rotation, retirement,
  revocation, signing, verification) and the replica a peer keeps by applying rotation manifests.
  Freshly generated private keys are arguments.
\<close>

section \<open>Managed keys\<close>

record managed_key =
  mk_key_id :: string
  mk_public_key :: string
  mk_not_before :: int
  mk_not_after :: json
  mk_status :: string
  mk_revoked_at :: "int option"
  mk_revocation_reason :: "string option"

definition new_managed :: "string \<Rightarrow> string \<Rightarrow> int \<Rightarrow> managed_key" where
  "new_managed key_id public not_before =
     \<lparr>mk_key_id = key_id, mk_public_key = public, mk_not_before = not_before, mk_not_after = JNull,
      mk_status = ''active'', mk_revoked_at = None, mk_revocation_reason = None\<rparr>"

definition managed_document :: "managed_key \<Rightarrow> (string, json) dict" where
  "managed_document k =
     [(''key_id'', JStr (mk_key_id k)), (''purpose'', JStr ''office_signing''), (''algorithm'', JStr ''Ed25519''),
      (''public_key'', JStr (mk_public_key k)), (''not_before'', JInt (mk_not_before k)),
      (''status'', JStr (mk_status k))]
     @ (if mk_not_after k \<noteq> JNull then [(''not_after'', mk_not_after k)] else [])
     @ (case mk_revoked_at k of None \<Rightarrow> [] | Some t \<Rightarrow> [(''revoked_at'', JInt t)])
     @ (case mk_revocation_reason k of None \<Rightarrow> [] | Some r \<Rightarrow> [(''revocation_reason'', JStr r)])"

record 'sk keyring =
  kr_office_id :: string
  kr_overlap_seconds :: int
  kr_sequence :: int
  kr_active_key_id :: string
  kr_private_keys :: "(string, 'sk) dict"
  kr_keys :: "(string, managed_key) dict"
  kr_lifecycle :: "json list"

definition public_text :: "'sk crypto \<Rightarrow> 'sk \<Rightarrow> string" where
  "public_text cr sk = b64 (ed_public cr sk)"

definition signing_id :: "string \<Rightarrow> int \<Rightarrow> string" where
  "signing_id office n = office @ ''#signing-'' @ show_int n"

text \<open>\<open>__post_init__\<close>, with the sequence number the constructor was given (1 by default); its dictionaries and its list start empty.\<close>

definition make_keyring :: "'sk crypto \<Rightarrow> string \<Rightarrow> int \<Rightarrow> int \<Rightarrow> int \<Rightarrow> 'sk \<Rightarrow> 'sk keyring outcome" where
  "make_keyring cr office overlap seq now sk =
     (if office = [] \<or> CHR ''#'' \<in> set office then Inl (ValueError ''invalid office_id'')
      else if overlap < 0 then Inl (ValueError ''overlap_seconds cannot be negative'')
      else let key_id = office @ ''#signing-1'' in
        Inr \<lparr>kr_office_id = office, kr_overlap_seconds = overlap, kr_sequence = seq, kr_active_key_id = key_id,
          kr_private_keys = [(key_id, sk)], kr_keys = [(key_id, new_managed key_id (public_text cr sk) now)],
          kr_lifecycle = []\<rparr>)"

section \<open>Operations\<close>

definition kr_sign :: "'sk crypto \<Rightarrow> 'sk keyring \<Rightarrow> (string, json) dict \<Rightarrow> string option \<Rightarrow> json outcome" where
  "kr_sign cr kr doc key_id =
     (let selected = (case key_id of None \<Rightarrow> kr_active_key_id kr | Some k \<Rightarrow> if k = [] then kr_active_key_id kr else k) in
      case (dget (kr_keys kr) selected, dget (kr_private_keys kr) selected) of
        (Some k, Some sk) \<Rightarrow>
          if mk_status k \<in> {''active'', ''retiring''} then
            Inr (JObj [(''algorithm'', JStr ''Ed25519''), (''key_id'', JStr selected),
              (''value'', JStr (b64 (ed_sign cr sk (canonical_json (JObj (unsigned doc))))))])
          else Inl (ValueError ''signing key is unavailable'')
      | _ \<Rightarrow> Inl (ValueError ''signing key is unavailable''))"

definition identity_keys :: "'sk keyring \<Rightarrow> json list" where
  "identity_keys kr = map (\<lambda>k. case dget (kr_keys kr) k of None \<Rightarrow> JNull | Some mk \<Rightarrow> JObj (managed_document mk))
     (sort (dkeys (kr_keys kr)))"

fun key_numbers :: "string list \<Rightarrow> int list outcome" where
  "key_numbers [] = Inr []"
| "key_numbers (k # ks) =
     (case int_of_str (after_last (CHR ''-'') k) of
        None \<Rightarrow> Inl (ValueError ''invalid literal for int()'')
      | Some n \<Rightarrow> bindE (key_numbers ks) (\<lambda>ns. Inr (n # ns)))"

definition next_generation :: "'sk keyring \<Rightarrow> int outcome" where
  "next_generation kr = bindE (key_numbers (dkeys (kr_keys kr))) (\<lambda>ns.
     case ns of [] \<Rightarrow> Inl (ValueError ''max() arg is an empty sequence'') | n # rest \<Rightarrow> Inr (foldl max n rest + 1))"

definition rotation_manifest :: "'sk keyring \<Rightarrow> int \<Rightarrow> string \<Rightarrow> managed_key \<Rightarrow> (string, json) dict" where
  "rotation_manifest kr now old_id new =
     [(''version'', JStr ''1.0''), (''kind'', JStr ''signing_key_rotation''), (''office_id'', JStr (kr_office_id kr)),
      (''sequence'', JInt (kr_sequence kr)), (''issued_at'', JInt now), (''previous_key_id'', JStr old_id),
      (''new_key'', JObj (managed_document new)), (''overlap_until'', JInt (now + kr_overlap_seconds kr))]"

definition rotate_key :: "'sk crypto \<Rightarrow> int \<Rightarrow> 'sk \<Rightarrow> 'sk keyring \<Rightarrow> ((string, json) dict) outcome \<times> 'sk keyring" where
  "rotate_key cr now sk kr =
     (let old_id = kr_active_key_id kr in
      case dget (kr_keys kr) old_id of
        None \<Rightarrow> (Inl (KeyError old_id), kr)
      | Some old \<Rightarrow>
          (case next_generation kr of
             Inl e \<Rightarrow> (Inl e, kr)
           | Inr generation \<Rightarrow>
               let new_id = signing_id (kr_office_id kr) generation;
                   new = new_managed new_id (public_text cr sk) now;
                   manifest0 = rotation_manifest kr now old_id new
               in (case kr_sign cr kr manifest0 (Some old_id) of
                     Inl e \<Rightarrow> (Inl e, kr)
                   | Inr sg \<Rightarrow>
                       let manifest = dset manifest0 ''signature'' sg in
                       (Inr manifest,
                        kr\<lparr>kr_private_keys := dset (kr_private_keys kr) new_id sk,
                           kr_keys := dset (dset (kr_keys kr) old_id
                             (old\<lparr>mk_status := ''retiring'', mk_not_after := JInt (now + kr_overlap_seconds kr)\<rparr>)) new_id new,
                           kr_active_key_id := new_id, kr_sequence := kr_sequence kr + 1,
                           kr_lifecycle := kr_lifecycle kr @ [JObj manifest]\<rparr>))))"

text \<open>The loop of \<open>retire_expired\<close>; comparing a number with a value that is none raises.\<close>

fun retire_loop :: "int \<Rightarrow> (string, managed_key) dict \<Rightarrow> string list \<Rightarrow> (string list) outcome \<times> (string, managed_key) dict" where
  "retire_loop now [] retired = (Inr retired, [])"
| "retire_loop now ((i, k) # ks) retired =
     (if mk_status k = ''retiring'' \<and> mk_not_after k \<noteq> JNull then
        (case as_int (mk_not_after k) of
           None \<Rightarrow> (Inl (TypeError ''>= not supported''), (i, k) # ks)
         | Some t \<Rightarrow>
             if now \<ge> t then
               (let (r, ks') = retire_loop now ks (retired @ [mk_key_id k]) in (r, (i, k\<lparr>mk_status := ''retired''\<rparr>) # ks'))
             else (let (r, ks') = retire_loop now ks retired in (r, (i, k) # ks')))
      else (let (r, ks') = retire_loop now ks retired in (r, (i, k) # ks')))"

definition retire_expired :: "int \<Rightarrow> 'sk keyring \<Rightarrow> (string list) outcome \<times> 'sk keyring" where
  "retire_expired now kr = (let (r, ks) = retire_loop now (kr_keys kr) [] in (r, kr\<lparr>kr_keys := ks\<rparr>))"

definition revocation_record :: "'sk keyring \<Rightarrow> int \<Rightarrow> string \<Rightarrow> string \<Rightarrow> (string, json) dict" where
  "revocation_record kr now key_id reason =
     [(''version'', JStr ''1.0''), (''kind'', JStr ''signing_key_revocation''), (''office_id'', JStr (kr_office_id kr)),
      (''sequence'', JInt (kr_sequence kr)), (''issued_at'', JInt now), (''revoked_key_id'', JStr key_id),
      (''reason'', JStr reason), (''authorized_by'', JStr (kr_active_key_id kr))]"

definition revoke_key :: "'sk crypto \<Rightarrow> string \<Rightarrow> string \<Rightarrow> int \<Rightarrow> 'sk keyring \<Rightarrow> ((string, json) dict) outcome \<times> 'sk keyring" where
  "revoke_key cr key_id reason now kr =
     (if reason = [] then (Inl (ValueError ''revocation reason is required''), kr)
      else case dget (kr_keys kr) key_id of
        None \<Rightarrow> (Inl (KeyError key_id), kr)
      | Some k \<Rightarrow>
          if key_id = kr_active_key_id kr then (Inl (ValueError ''rotate before revoking the active key''), kr)
          else let record0 = revocation_record kr now key_id reason in
            (case kr_sign cr kr record0 (Some (kr_active_key_id kr)) of
               Inl e \<Rightarrow> (Inl e, kr)
             | Inr sg \<Rightarrow>
                 let document = dset record0 ''signature'' sg in
                 (Inr document,
                  kr\<lparr>kr_keys := dset (kr_keys kr) key_id
                       (k\<lparr>mk_status := ''revoked'', mk_revoked_at := Some now, mk_revocation_reason := Some reason\<rparr>),
                     kr_sequence := kr_sequence kr + 1, kr_lifecycle := kr_lifecycle kr @ [JObj document]\<rparr>)))"

definition check_signature :: "'sk crypto \<Rightarrow> string \<Rightarrow> json \<Rightarrow> (string, json) dict \<Rightarrow> unit outcome" where
  "check_signature cr public value doc =
     bindE (decode_base64url (JStr public)) (\<lambda>pk. bindE (decode_base64url value) (\<lambda>sig.
       ed_verify cr pk sig (canonical_json (JObj (unsigned doc)))))"

definition kr_verify :: "'sk crypto \<Rightarrow> 'sk keyring \<Rightarrow> (string, json) dict \<Rightarrow> int \<Rightarrow> bool outcome" where
  "kr_verify cr kr doc moment =
     (case jget doc ''signature'' of
        JObj sg \<Rightarrow>
          if jget sg ''algorithm'' \<noteq> JStr ''Ed25519'' then Inr False else
          (case (jget sg ''key_id'', jget sg ''value'') of
             (JStr key_id, JStr value) \<Rightarrow>
               (case dget (kr_keys kr) key_id of
                  None \<Rightarrow> Inr False
                | Some k \<Rightarrow>
                    if moment < mk_not_before k then Inr False
                    else if mk_status k = ''revoked'' \<and> (\<exists>t \<in> set_option (mk_revoked_at k). moment \<ge> t) then Inr False
                    else if mk_not_after k \<noteq> JNull \<and> as_int (mk_not_after k) = None
                    then Inl (TypeError ''> not supported'')
                    else if (\<exists>t \<in> set_option (as_int (mk_not_after k)). moment > t) then Inr False
                    else Inr (is_ok (check_signature cr (mk_public_key k) (JStr value) doc)))
           | _ \<Rightarrow> Inr False)
      | _ \<Rightarrow> Inr False)"

text \<open>\<open>known_keys.get(x)\<close> for a value of the manifest: a list or an object cannot be a key.\<close>

definition known_get :: "(string, managed_key) dict \<Rightarrow> json \<Rightarrow> managed_key option outcome" where
  "known_get known v =
     (case v of
        JStr k \<Rightarrow> Inr (dget known k)
      | JList _ \<Rightarrow> Inl (TypeError ''unhashable type: list'')
      | JObj _ \<Rightarrow> Inl (TypeError ''unhashable type: dict'')
      | _ \<Rightarrow> Inr None)"

definition field :: "(string, json) dict \<Rightarrow> string \<Rightarrow> json outcome" where
  "field d k = (case dget d k of None \<Rightarrow> Inl (KeyError k) | Some v \<Rightarrow> Inr v)"

definition apply_rotation_manifest ::
  "'sk crypto \<Rightarrow> (string, managed_key) dict \<Rightarrow> (string, json) dict \<Rightarrow> string \<Rightarrow>
   managed_key outcome \<times> (string, managed_key) dict" where
  "apply_rotation_manifest cr known manifest office =
     (if jget manifest ''kind'' \<noteq> JStr ''signing_key_rotation'' \<or> jget manifest ''office_id'' \<noteq> JStr office
      then (Inl (ValueError ''invalid rotation manifest''), known)
      else case known_get known (jget manifest ''previous_key_id'') of
        Inl e \<Rightarrow> (Inl e, known)
      | Inr previous \<Rightarrow>
        (case (previous, jget manifest ''previous_key_id'', jget manifest ''new_key'') of
           (Some prev, JStr prev_id, JObj new_doc) \<Rightarrow>
             (case jget manifest ''signature'' of
                JObj sg \<Rightarrow>
                  if jget sg ''key_id'' \<noteq> JStr prev_id
                  then (Inl (ValueError ''rotation is not authorized by previous key''), known)
                  else if \<not> is_ok (bindE (field sg ''value'') (\<lambda>v. check_signature cr (mk_public_key prev) v manifest))
                  then (Inl (ValueError ''invalid rotation signature''), known)
                  else
                    (case jget new_doc ''key_id'' of
                       JStr key_id \<Rightarrow>
                         if \<not> starts_with key_id (office @ ''#'')
                         then (Inl (ValueError ''new key does not belong to office''), known)
                         else
                           (case bindE (field new_doc ''public_key'') (\<lambda>pub.
                                 bindE (field new_doc ''not_before'') (\<lambda>nb.
                                 bindE (int_of_json nb) (\<lambda>n.
                                 bindE (field manifest ''overlap_until'') (\<lambda>ou.
                                 bindE (int_of_json ou) (\<lambda>until. Inr (pub, n, until)))))) of
                              Inl e \<Rightarrow> (Inl e, known)
                            | Inr (pub, n, until) \<Rightarrow>
                                let new = \<lparr>mk_key_id = key_id, mk_public_key = py_str pub, mk_not_before = n,
                                      mk_not_after = jget new_doc ''not_after'',
                                      mk_status = py_str (jget_default new_doc ''status'' (JStr ''active'')),
                                      mk_revoked_at = None, mk_revocation_reason = None\<rparr>
                                in (Inr new, dset (dset known prev_id
                                      (prev\<lparr>mk_status := ''retiring'', mk_not_after := JInt until\<rparr>)) key_id new))
                     | _ \<Rightarrow> (Inl (ValueError ''new key does not belong to office''), known))
              | _ \<Rightarrow> (Inl (ValueError ''rotation is not authorized by previous key''), known))
         | _ \<Rightarrow> (Inl (ValueError ''rotation trust anchor is unavailable''), known)))"

section \<open>The keyring as a machine\<close>

datatype 'sk key_op =
    KRotate int 'sk
  | KRetire int
  | KRevoke string string int

fun key_step :: "'sk crypto \<Rightarrow> 'sk keyring \<Rightarrow> 'sk key_op \<Rightarrow> 'sk keyring" where
  "key_step cr kr (KRotate now sk) = snd (rotate_key cr now sk kr)"
| "key_step cr kr (KRetire now) = snd (retire_expired now kr)"
| "key_step cr kr (KRevoke key_id reason now) = snd (revoke_key cr key_id reason now kr)"

definition managed_ok :: "'sk crypto \<Rightarrow> 'sk keyring \<Rightarrow> string \<Rightarrow> managed_key \<Rightarrow> bool" where
  "managed_ok cr kr i k \<longleftrightarrow> mk_key_id k = i \<and>
     mk_status k \<in> {''active'', ''retiring'', ''retired'', ''revoked''} \<and>
     (mk_status k = ''active'' \<longleftrightarrow> i = kr_active_key_id kr) \<and>
     (mk_status k = ''active'' \<longrightarrow> mk_not_after k = JNull \<and> mk_revoked_at k = None) \<and>
     (mk_status k \<noteq> ''active'' \<longrightarrow> (\<exists>t. mk_not_after k = JInt t)) \<and>
     (mk_status k = ''revoked'' \<longleftrightarrow> mk_revoked_at k \<noteq> None) \<and>
     (\<exists>sk. dget (kr_private_keys kr) i = Some sk \<and> mk_public_key k = public_text cr sk)"

definition keyring_inv :: "'sk crypto \<Rightarrow> int \<Rightarrow> 'sk keyring \<Rightarrow> bool" where
  "keyring_inv cr seq kr \<longleftrightarrow>
     kr_keys kr \<noteq> [] \<and>
     dkeys (kr_keys kr) = map (\<lambda>n. signing_id (kr_office_id kr) (int n)) [1..<Suc (length (kr_keys kr))] \<and>
     kr_active_key_id kr = signing_id (kr_office_id kr) (int (length (kr_keys kr))) \<and>
     (\<forall>i k. dget (kr_keys kr) i = Some k \<longrightarrow> managed_ok cr kr i k) \<and>
     kr_sequence kr = seq + int (length (kr_lifecycle kr)) \<and>
     kr_office_id kr \<noteq> [] \<and> CHR ''#'' \<notin> set (kr_office_id kr)"

lemma show_int_nat [simp]: "show_int (int n) = show_nat n"
  by (simp add: show_int_def)

lemma signing_id_inj: "signing_id office (int m) = signing_id office (int n) \<longleftrightarrow> m = n"
  by (simp add: signing_id_def show_nat_inj)

lemma signing_id_number: "int_of_str (after_last (CHR ''-'') (signing_id office (int n))) = Some (int n)"
proof -
  have "CHR ''-'' \<notin> set (show_nat n)"
    using show_nat_digits [of n] by (auto simp: list_all_iff is_digit_def)
  then have "after_last (CHR ''-'') ((office @ ''#signing'') @ CHR ''-'' # show_nat n) = show_nat n"
    by (rule after_last_append)
  then show ?thesis by (simp add: signing_id_def)
qed

lemma key_numbers_map: "key_numbers (map (\<lambda>n. signing_id office (int n)) ns) = Inr (map int ns)"
  by (induction ns) (simp_all add: signing_id_number)

lemma foldl_max_upt: "foldl max (int a) (map int [Suc a..<Suc (a + m)]) = int (a + m)"
  by (induction m) simp_all

text \<open>The id of the next generation.\<close>

definition next_id :: "'sk keyring \<Rightarrow> string" where
  "next_id kr = signing_id (kr_office_id kr) (int (Suc (length (kr_keys kr))))"

lemma inv_generation:
  assumes "keyring_inv cr seq kr"
  shows "next_generation kr = Inr (int (Suc (length (kr_keys kr))))"
proof -
  obtain m where m: "length (kr_keys kr) = Suc m" using assms by (cases "kr_keys kr") (auto simp: keyring_inv_def)
  have "[1..<Suc (Suc m)] = 1 # [Suc 1..<Suc (1 + m)]" by (simp add: upt_conv_Cons del: upt_Suc)
  then have "map int [1..<Suc (Suc m)] = int 1 # map int [Suc 1..<Suc (1 + m)]" by (simp del: upt_Suc)
  moreover have "key_numbers (dkeys (kr_keys kr)) = Inr (map int [1..<Suc (Suc m)])"
    using assms m by (simp only: keyring_inv_def key_numbers_map)
  ultimately show ?thesis using foldl_max_upt [of 1 m] m by (simp add: next_generation_def del: upt_Suc)
qed

lemma inv_distinct: "keyring_inv cr seq kr \<Longrightarrow> dict_ok (kr_keys kr)"
  by (auto simp: keyring_inv_def dict_ok_def distinct_map signing_id_inj intro!: inj_onI)

lemma inv_active:
  assumes "keyring_inv cr seq kr"
  obtains k where "dget (kr_keys kr) (kr_active_key_id kr) = Some k" "managed_ok cr kr (kr_active_key_id kr) k"
    "mk_status k = ''active''"
proof -
  have "kr_active_key_id kr \<in> set (dkeys (kr_keys kr))"
    using assms by (auto simp: keyring_inv_def Suc_le_eq)
  then obtain k where k: "dget (kr_keys kr) (kr_active_key_id kr) = Some k" by (metis map_of_eq_None_iff not_None_eq list.set_map)
  then have "managed_ok cr kr (kr_active_key_id kr) k" using assms by (auto simp: keyring_inv_def)
  then show ?thesis using that k by (auto simp: managed_ok_def)
qed

lemma inv_new_key: "keyring_inv cr seq kr \<Longrightarrow>
    dget (kr_keys kr) (next_id kr) = None"
  unfolding next_id_def
  by (auto simp: keyring_inv_def map_of_eq_None_iff signing_id_inj simp flip: list.set_map simp del: of_nat_Suc)

lemma sign_active:
  assumes "keyring_inv cr seq kr"
  obtains sk k where "dget (kr_private_keys kr) (kr_active_key_id kr) = Some sk"
    "dget (kr_keys kr) (kr_active_key_id kr) = Some k" "mk_public_key k = public_text cr sk"
    "kr_sign cr kr doc (Some (kr_active_key_id kr)) =
      Inr (JObj [(''algorithm'', JStr ''Ed25519''), (''key_id'', JStr (kr_active_key_id kr)),
        (''value'', JStr (b64 (ed_sign cr sk (canonical_json (JObj (unsigned doc))))))])"
proof -
  obtain k where k: "dget (kr_keys kr) (kr_active_key_id kr) = Some k" "managed_ok cr kr (kr_active_key_id kr) k"
    "mk_status k = ''active''" using assms by (rule inv_active)
  then obtain sk where "dget (kr_private_keys kr) (kr_active_key_id kr) = Some sk" "mk_public_key k = public_text cr sk"
    by (auto simp: managed_ok_def)
  then show ?thesis using that k by (simp add: kr_sign_def)
qed

text \<open>What a rotation does to a keyring that keeps the invariant.\<close>

definition rotated :: "'sk crypto \<Rightarrow> int \<Rightarrow> 'sk \<Rightarrow> 'sk keyring \<Rightarrow> managed_key \<Rightarrow> (string, json) dict \<Rightarrow> 'sk keyring" where
  "rotated cr now sk kr old manifest =
     (let new_id = next_id kr in
      kr\<lparr>kr_private_keys := dset (kr_private_keys kr) new_id sk,
         kr_keys := dset (dset (kr_keys kr) (kr_active_key_id kr)
           (old\<lparr>mk_status := ''retiring'', mk_not_after := JInt (now + kr_overlap_seconds kr)\<rparr>))
           new_id (new_managed new_id (public_text cr sk) now),
         kr_active_key_id := new_id, kr_sequence := kr_sequence kr + 1,
         kr_lifecycle := kr_lifecycle kr @ [JObj manifest]\<rparr>)"

lemma rotate_is:
  assumes "keyring_inv cr seq kr"
  obtains old manifest where "dget (kr_keys kr) (kr_active_key_id kr) = Some old"
    "rotate_key cr now sk kr = (Inr manifest, rotated cr now sk kr old manifest)"
proof -
  let ?doc = "rotation_manifest kr now (kr_active_key_id kr) (new_managed (next_id kr) (public_text cr sk) now)"
  obtain sk0 old where old: "dget (kr_keys kr) (kr_active_key_id kr) = Some old"
    and "kr_sign cr kr ?doc (Some (kr_active_key_id kr)) =
      Inr (JObj [(''algorithm'', JStr ''Ed25519''), (''key_id'', JStr (kr_active_key_id kr)),
        (''value'', JStr (b64 (ed_sign cr sk0 (canonical_json (JObj (unsigned ?doc))))))])"
    using assms by (rule sign_active)
  moreover have "signing_id (kr_office_id kr) (int (Suc (length (kr_keys kr)))) = next_id kr" by (simp only: next_id_def)
  ultimately have "\<exists>manifest. rotate_key cr now sk kr = (Inr manifest, rotated cr now sk kr old manifest)"
    using inv_generation [OF assms] by (simp add: rotate_key_def rotated_def Let_def del: of_nat_Suc)
  then show ?thesis using that old by blast
qed

lemma dkeys_dset_present: "dget d k \<noteq> None \<Longrightarrow> dkeys (dset d k v) = dkeys d"
  by (induction d) auto

lemma dkeys_dset_absent: "dget d k = None \<Longrightarrow> dkeys (dset d k v) = dkeys d @ [k]"
  by (induction d) auto

lemma length_dset_present: "dget d k \<noteq> None \<Longrightarrow> length (dset d k v) = length d"
  by (metis dkeys_dset_present length_map)

lemma length_dset_absent: "dget d k = None \<Longrightarrow> length (dset d k v) = Suc (length d)"
  using dkeys_dset_absent [of d k v] by (metis length_append_singleton length_map)

lemma rotated_inv:
  assumes inv: "keyring_inv cr seq kr" and old: "dget (kr_keys kr) (kr_active_key_id kr) = Some old"
  shows "keyring_inv cr seq (rotated cr now sk kr old manifest)"
proof -
  let ?new = "next_id kr"
  have next_id: "?new = signing_id (kr_office_id kr) (int (Suc (length (kr_keys kr))))" by (rule next_id_def)
  let ?kr = "rotated cr now sk kr old manifest"
  let ?old = "old\<lparr>mk_status := ''retiring'', mk_not_after := JInt (now + kr_overlap_seconds kr)\<rparr>"
  have fresh: "dget (dset (kr_keys kr) (kr_active_key_id kr) ?old) ?new = None"
    using inv_new_key [OF inv] old by auto
  have len: "length (kr_keys ?kr) = Suc (length (kr_keys kr))"
    using old by (simp add: rotated_def Let_def length_dset_absent [OF fresh] length_dset_present)
  have ids: "dkeys (kr_keys ?kr) = dkeys (kr_keys kr) @ [?new]"
    using old by (simp add: rotated_def Let_def dkeys_dset_absent [OF fresh] dkeys_dset_present)
  have "managed_ok cr ?kr i k" if "dget (kr_keys ?kr) i = Some k" for i k
  proof (cases "i = ?new")
    case True
    then show ?thesis using that by (auto simp: rotated_def Let_def managed_ok_def new_managed_def)
  next
    case False
    then have k: "(i = kr_active_key_id kr \<and> k = ?old) \<or> (i \<noteq> kr_active_key_id kr \<and> dget (kr_keys kr) i = Some k)"
      using that by (auto simp: rotated_def Let_def split: if_splits)
    have ok: "managed_ok cr kr j k'" if "dget (kr_keys kr) j = Some k'" for j k'
      using inv that by (simp add: keyring_inv_def)
    have simps: "kr_active_key_id ?kr = ?new" "dget (kr_private_keys ?kr) i = dget (kr_private_keys kr) i"
      using False by (simp_all add: rotated_def Let_def)
    from k show ?thesis
    proof (elim disjE conjE)
      assume "i = kr_active_key_id kr" "k = ?old"
      then show ?thesis using ok [OF old] False unfolding managed_ok_def simps by simp
    next
      assume "i \<noteq> kr_active_key_id kr" "dget (kr_keys kr) i = Some k"
      then show ?thesis using ok [of i k] False unfolding managed_ok_def simps by auto
    qed
  qed
  then show ?thesis
    using inv len ids next_id by (simp add: keyring_inv_def del: of_nat_Suc) (simp add: rotated_def Let_def)
qed

definition expires_key :: "int \<Rightarrow> managed_key \<Rightarrow> bool" where
  "expires_key now k \<longleftrightarrow> mk_status k = ''retiring'' \<and> (\<exists>t \<in> set_option (as_int (mk_not_after k)). now \<ge> t)"

lemma retire_loop_is:
  "\<forall>k \<in> snd ` set ks. mk_not_after k = JNull \<or> (\<exists>t. mk_not_after k = JInt t) \<Longrightarrow>
   retire_loop now ks retired =
     (Inr (retired @ map mk_key_id (filter (expires_key now) (map snd ks))),
      map (\<lambda>(i, k). (i, if expires_key now k then k\<lparr>mk_status := ''retired''\<rparr> else k)) ks)"
  by (induction ks arbitrary: retired) (auto simp: expires_key_def)

lemma inv_not_after: "keyring_inv cr seq kr \<Longrightarrow> \<forall>k \<in> snd ` set (kr_keys kr). mk_not_after k = JNull \<or> (\<exists>t. mk_not_after k = JInt t)"
proof
  fix k assume "keyring_inv cr seq kr" "k \<in> snd ` set (kr_keys kr)"
  then obtain i where "dget (kr_keys kr) i = Some k" by (auto simp: dget_in_set [OF inv_distinct])
  with \<open>keyring_inv cr seq kr\<close> have "managed_ok cr kr i k" by (simp add: keyring_inv_def)
  then show "mk_not_after k = JNull \<or> (\<exists>t. mk_not_after k = JInt t)"
    by (cases "mk_status k = ''active''") (simp_all add: managed_ok_def)
qed

lemma retire_keys:
  assumes "keyring_inv cr seq kr"
  shows "snd (retire_expired now kr) =
    kr\<lparr>kr_keys := map (\<lambda>(i, k). (i, if expires_key now k then k\<lparr>mk_status := ''retired''\<rparr> else k)) (kr_keys kr)\<rparr>"
  using retire_loop_is [OF inv_not_after [OF assms]] by (simp add: retire_expired_def)

lemma retire_dget:
  assumes "keyring_inv cr seq kr"
  shows "dget (kr_keys (snd (retire_expired now kr))) i =
    map_option (\<lambda>k. if expires_key now k then k\<lparr>mk_status := ''retired''\<rparr> else k) (dget (kr_keys kr) i)"
  unfolding retire_keys [OF assms] by (simp add: map_of_map)

lemma retire_inv: "keyring_inv cr seq kr \<Longrightarrow> keyring_inv cr seq (snd (retire_expired now kr))"
proof -
  assume inv: "keyring_inv cr seq kr"
  let ?kr = "snd (retire_expired now kr)"
  have "managed_ok cr ?kr i k'" if "dget (kr_keys ?kr) i = Some k'" for i k'
  proof -
    from that obtain k where k: "dget (kr_keys kr) i = Some k"
      "k' = (if expires_key now k then k\<lparr>mk_status := ''retired''\<rparr> else k)" by (auto simp: retire_dget [OF inv])
    have "managed_ok cr kr i k" using inv k(1) by (simp add: keyring_inv_def)
    then show ?thesis using k(2)
      by (cases "expires_key now k") (auto simp: managed_ok_def retire_keys [OF inv] expires_key_def)
  qed
  moreover have "dkeys (kr_keys ?kr) = dkeys (kr_keys kr)"
    unfolding retire_keys [OF inv] by (simp add: comp_def case_prod_beta)
  moreover have "length (kr_keys ?kr) = length (kr_keys kr)" unfolding retire_keys [OF inv] by simp
  ultimately show ?thesis
    using inv by (simp add: keyring_inv_def del: upt_Suc) (simp add: retire_keys [OF inv])
qed

lemma revoke_inv:
  assumes inv: "keyring_inv cr seq kr"
  shows "keyring_inv cr seq (snd (revoke_key cr key_id reason now kr))"
proof (cases "reason = [] \<or> dget (kr_keys kr) key_id = None \<or> key_id = kr_active_key_id kr")
  case True
  then show ?thesis using inv by (auto simp: revoke_key_def split: option.split)
next
  case False
  then obtain k where k: "dget (kr_keys kr) key_id = Some k" "reason \<noteq> []" "key_id \<noteq> kr_active_key_id kr" by auto
  let ?doc = "revocation_record kr now key_id reason"
  obtain sg where sg: "kr_sign cr kr ?doc (Some (kr_active_key_id kr)) = Inr sg"
    using inv by (rule sign_active)
  let ?k = "k\<lparr>mk_status := ''revoked'', mk_revoked_at := Some now, mk_revocation_reason := Some reason\<rparr>"
  let ?kr = "snd (revoke_key cr key_id reason now kr)"
  have kr: "?kr = kr\<lparr>kr_keys := dset (kr_keys kr) key_id ?k, kr_sequence := kr_sequence kr + 1,
      kr_lifecycle := kr_lifecycle kr @ [JObj (dset ?doc ''signature'' sg)]\<rparr>"
    using k sg by (simp add: revoke_key_def Let_def)
  have ok: "managed_ok cr kr i k'" if "dget (kr_keys kr) i = Some k'" for i k'
    using inv that by (simp add: keyring_inv_def)
  have "managed_ok cr ?kr i k'" if "dget (kr_keys ?kr) i = Some k'" for i k'
  proof (cases "i = key_id")
    case True
    then have "k' = ?k" using that by (simp add: kr)
    then show ?thesis using ok [OF k(1)] k(3) True by (simp add: managed_ok_def kr)
  next
    case False
    then show ?thesis using ok [of i k'] that by (auto simp: managed_ok_def kr)
  qed
  then show ?thesis
    using inv k(1) by (simp add: keyring_inv_def kr dkeys_dset_present length_dset_present del: upt_Suc)
qed

lemma key_step_inv: "keyring_inv cr seq kr \<Longrightarrow> keyring_inv cr seq (key_step cr kr op)"
proof (cases op)
  case (KRotate now sk)
  assume inv: "keyring_inv cr seq kr"
  obtain old manifest where "dget (kr_keys kr) (kr_active_key_id kr) = Some old"
    "rotate_key cr now sk kr = (Inr manifest, rotated cr now sk kr old manifest)" using inv by (rule rotate_is)
  then show ?thesis using rotated_inv [OF inv] KRotate by simp
qed (simp_all add: retire_inv revoke_inv)

interpretation keyring: monotone_machine "key_step cr" "keyring_inv cr seq" kr_sequence for cr seq
proof
  show "keyring_inv cr seq (key_step cr kr op)" if "keyring_inv cr seq kr" for cr :: "'b crypto" and kr op
    using that by (rule key_step_inv)
  show "kr_sequence kr \<le> kr_sequence (key_step cr kr op)" if inv: "keyring_inv cr seq kr" for cr :: "'b crypto" and kr op
  proof (cases op)
    case (KRotate now sk)
    obtain old manifest where "rotate_key cr now sk kr = (Inr manifest, rotated cr now sk kr old manifest)"
      using inv by (rule rotate_is)
    then show ?thesis using KRotate by (simp add: rotated_def Let_def)
  next
    case (KRetire now)
    then show ?thesis by (simp add: retire_keys [OF inv])
  next
    case (KRevoke key_id reason now)
    then show ?thesis by (auto simp: revoke_key_def Let_def split: option.split sum.split)
  qed
qed

section \<open>Properties\<close>

lemma signing_id_1: "office @ ''#signing-1'' = signing_id office (int (Suc 0))"
proof -
  have "show_int (int (Suc 0)) = ''1''" by code_simp
  then show ?thesis by (simp only: signing_id_def append_assoc) simp
qed

lemma make_keyring_inv:
  assumes "make_keyring cr office overlap seq now sk = Inr kr"
  shows "keyring_inv cr seq kr"
proof -
  let ?id = "signing_id office (int (Suc 0))"
  have kr: "kr = \<lparr>kr_office_id = office, kr_overlap_seconds = overlap, kr_sequence = seq, kr_active_key_id = ?id,
          kr_private_keys = [(?id, sk)], kr_keys = [(?id, new_managed ?id (public_text cr sk) now)],
          kr_lifecycle = []\<rparr>" and "office \<noteq> []" "CHR ''#'' \<notin> set office"
    using assms unfolding make_keyring_def signing_id_1 Let_def by (simp_all split: if_splits)
  then show ?thesis by (simp add: keyring_inv_def managed_ok_def new_managed_def del: of_nat_Suc)
qed

lemma reachable_inv: "make_keyring cr office overlap seq now sk = Inr kr \<Longrightarrow> keyring_inv cr seq (foldl (key_step cr) kr ops)"
  by (rule keyring.run_inv) (rule make_keyring_inv)

text \<open>
  Whatever sequence of rotations, retirements and revocations a keyring has seen, its keys are the
  generations 1 to n of the office; exactly the last one is active, without an end date, and its
  private key is at hand; every other key has an end date; a key carries a revocation time exactly
  when it is revoked; public keys match the private keys; and the sequence number counts the
  lifecycle documents on from where it started.
\<close>

theorem keyring_invariant:
  assumes "make_keyring cr office overlap seq now sk = Inr kr"
  shows "keyring_inv cr seq (foldl (key_step cr) kr ops)"
  using reachable_inv [OF assms] .

text \<open>
  What the keyring signs, it verifies: a document signed with a usable key verifies at exactly the
  moments from the key's \<open>not_before\<close> up to and including its \<open>not_after\<close>.
\<close>

theorem signed_documents_verify:
  assumes "signatures_verify cr" and "make_keyring cr office overlap seq now sk = Inr kr0"
    and "kr = foldl (key_step cr) kr0 ops" and "kr_sign cr kr doc (Some i) = Inr sg" and "i \<noteq> []"
  shows "\<exists>k. dget (kr_keys kr) i = Some k \<and>
    kr_verify cr kr (dset doc ''signature'' sg) moment =
      Inr (mk_not_before k \<le> moment \<and> (mk_not_after k = JNull \<or> (\<exists>t. mk_not_after k = JInt t \<and> moment \<le> t)))"
proof -
  have inv: "keyring_inv cr seq kr" unfolding assms(3) by (rule reachable_inv [OF assms(2)])
  obtain k sk' where k: "dget (kr_keys kr) i = Some k" "dget (kr_private_keys kr) i = Some sk'"
      "mk_status k \<in> {''active'', ''retiring''}"
    and sg: "sg = JObj [(''algorithm'', JStr ''Ed25519''), (''key_id'', JStr i),
      (''value'', JStr (b64 (ed_sign cr sk' (canonical_json (JObj (unsigned doc))))))]"
    using assms(4,5) by (auto simp: kr_sign_def Let_def split: option.splits if_splits)
  have ok: "managed_ok cr kr i k" using inv k(1) by (simp add: keyring_inv_def)
  then have pub: "mk_public_key k = b64 (ed_public cr sk')" using k(2) by (simp add: managed_ok_def public_text_def)
  have "check_signature cr (mk_public_key k) (JStr (b64 (ed_sign cr sk' (canonical_json (JObj (unsigned doc))))))
      (dset doc ''signature'' sg) = Inr ()"
    using assms(1) by (simp add: check_signature_def pub decode_b64 signatures_verify_def)
  then have "kr_verify cr kr (dset doc ''signature'' sg) moment =
      Inr (mk_not_before k \<le> moment \<and> (mk_not_after k = JNull \<or> (\<exists>t. mk_not_after k = JInt t \<and> moment \<le> t)))"
    using k ok by (cases "mk_not_after k = JNull") (auto simp: kr_verify_def sg jget_def managed_ok_def)
  then show ?thesis using k(1) by blast
qed

text \<open>The revocation of a key outlives every operation that does not revoke the key again.\<close>

fun revokes :: "string \<Rightarrow> 'sk key_op \<Rightarrow> bool" where
  "revokes i (KRevoke j reason now) \<longleftrightarrow> i = j"
| "revokes i _ \<longleftrightarrow> False"

definition revoked_since :: "'sk keyring \<Rightarrow> string \<Rightarrow> int \<Rightarrow> bool" where
  "revoked_since kr i t \<longleftrightarrow>
     (\<exists>k. dget (kr_keys kr) i = Some k \<and> mk_status k = ''revoked'' \<and> mk_revoked_at k = Some t)"

lemma revoked_step:
  assumes inv: "keyring_inv cr seq kr" and rev: "revoked_since kr i t" and op: "\<not> revokes i op"
  shows "revoked_since (key_step cr kr op) i t"
proof -
  obtain k where k: "dget (kr_keys kr) i = Some k" "mk_status k = ''revoked''" "mk_revoked_at k = Some t"
    using rev by (auto simp: revoked_since_def)
  have "managed_ok cr kr i k" using inv k(1) by (simp add: keyring_inv_def)
  then have act: "i \<noteq> kr_active_key_id kr" using k(2) by (auto simp: managed_ok_def)
  show ?thesis
  proof (cases op)
    case (KRotate now sk)
    obtain old manifest where "rotate_key cr now sk kr = (Inr manifest, rotated cr now sk kr old manifest)"
      using inv by (rule rotate_is)
    moreover have "i \<noteq> next_id kr" using inv_new_key [OF inv] k(1) by auto
    ultimately show ?thesis using KRotate k act by (simp add: revoked_since_def rotated_def Let_def)
  next
    case (KRetire now)
    then show ?thesis using k by (simp add: revoked_since_def retire_dget [OF inv] expires_key_def)
  next
    case (KRevoke j reason now)
    then show ?thesis using op rev by (auto simp: revoked_since_def revoke_key_def Let_def split: option.split sum.split)
  qed
qed

lemma revoked_run:
  "keyring_inv cr seq kr \<Longrightarrow> revoked_since kr i t \<Longrightarrow> list_all (\<lambda>op. \<not> revokes i op) ops \<Longrightarrow>
   revoked_since (foldl (key_step cr) kr ops) i t"
  by (induction ops arbitrary: kr) (auto intro: revoked_step key_step_inv)

text \<open>
  C40. A revoked key stays dead: after a successful revocation at \<open>t\<close>, no document whose signature
  names the key verifies at any moment from \<open>t\<close> on, whatever happens later short of revoking it again.
\<close>

theorem revoked_keys_stay_dead:
  assumes "make_keyring cr office overlap seq now sk = Inr kr0" and "kr = foldl (key_step cr) kr0 ops"
    and "fst (revoke_key cr i reason t kr) = Inr record_doc" and "list_all (\<lambda>op. \<not> revokes i op) later"
    and "jget doc ''signature'' = JObj sg" and "jget sg ''key_id'' = JStr i" and "t \<le> moment"
  shows "kr_verify cr (foldl (key_step cr) kr (KRevoke i reason t # later)) doc moment = Inr False"
proof -
  have inv: "keyring_inv cr seq kr" unfolding assms(2) by (rule reachable_inv [OF assms(1)])
  have "revoked_since (key_step cr kr (KRevoke i reason t)) i t"
    using assms(3) by (auto simp: revoke_key_def revoked_since_def Let_def split: if_splits option.splits sum.splits)
  from revoked_run [OF key_step_inv [OF inv] this assms(4)]
  obtain k where "dget (kr_keys (foldl (key_step cr) kr (KRevoke i reason t # later))) i = Some k"
    "mk_status k = ''revoked''" "mk_revoked_at k = Some t" by (auto simp: revoked_since_def)
  then show ?thesis using assms(5-7) by (auto simp: kr_verify_def split: json.splits)
qed

lemma jget_dset: "jget (dset d k v) j = (if j = k then v else jget d j)"
  by (simp add: jget_def)

text \<open>
  C29. A peer that knows the keys of an office and applies the manifest of a rotation knows the keys
  after the rotation: \<open>apply_rotation_manifest\<close> accepts what \<open>rotate\<close> publishes and changes the known
  keys exactly as the rotation changes the keyring.
\<close>

theorem rotation_manifests_replicate:
  assumes "signatures_verify cr" and "make_keyring cr office overlap seq t0 sk0 = Inr kr0"
    and "kr = foldl (key_step cr) kr0 ops"
  shows "\<exists>manifest kr' new. rotate_key cr now sk kr = (Inr manifest, kr') \<and>
    apply_rotation_manifest cr (kr_keys kr) manifest (kr_office_id kr) = (Inr new, kr_keys kr')"
proof -
  have inv: "keyring_inv cr seq kr" unfolding assms(3) by (rule reachable_inv [OF assms(2)])
  let ?new = "new_managed (next_id kr) (public_text cr sk) now"
  let ?doc = "rotation_manifest kr now (kr_active_key_id kr) ?new"
  obtain old manifest where old: "dget (kr_keys kr) (kr_active_key_id kr) = Some old"
    and rot: "rotate_key cr now sk kr = (Inr manifest, rotated cr now sk kr old manifest)"
    using inv by (rule rotate_is)
  obtain ska k where k: "dget (kr_keys kr) (kr_active_key_id kr) = Some k" "mk_public_key k = public_text cr ska"
    and sg: "kr_sign cr kr ?doc (Some (kr_active_key_id kr)) =
      Inr (JObj [(''algorithm'', JStr ''Ed25519''), (''key_id'', JStr (kr_active_key_id kr)),
        (''value'', JStr (b64 (ed_sign cr ska (canonical_json (JObj (unsigned ?doc))))))])"
    using inv by (rule sign_active)
  have next_id: "signing_id (kr_office_id kr) (int (Suc (length (kr_keys kr)))) = next_id kr" by (simp only: next_id_def)
  let ?sg = "JObj [(''algorithm'', JStr ''Ed25519''), (''key_id'', JStr (kr_active_key_id kr)),
        (''value'', JStr (b64 (ed_sign cr ska (canonical_json (JObj (unsigned ?doc))))))]"
  have man: "manifest = dset ?doc ''signature'' ?sg"
    using rot old inv_generation [OF inv] sg next_id by (simp add: rotate_key_def Let_def del: of_nat_Suc)
  have fields: "jget manifest ''kind'' = JStr ''signing_key_rotation''" "jget manifest ''office_id'' = JStr (kr_office_id kr)"
      "jget manifest ''previous_key_id'' = JStr (kr_active_key_id kr)" "jget manifest ''new_key'' = JObj (managed_document ?new)"
      "jget manifest ''signature'' = ?sg" "dget manifest ''overlap_until'' = Some (JInt (now + kr_overlap_seconds kr))"
    unfolding man by (simp_all add: jget_dset) (simp_all add: rotation_manifest_def jget_def)
  have check: "is_ok (bindE (field [(''algorithm'', JStr ''Ed25519''), (''key_id'', JStr (kr_active_key_id kr)),
        (''value'', JStr (b64 (ed_sign cr ska (canonical_json (JObj (unsigned ?doc))))))] ''value'')
      (\<lambda>v. check_signature cr (mk_public_key k) v manifest))"
    using assms(1) k(2) by (simp add: field_def check_signature_def public_text_def decode_b64 signatures_verify_def man)
  have prefix: "starts_with (next_id kr) (kr_office_id kr @ ''#'')"
    by (simp add: next_id_def signing_id_def starts_with_def)
  have new: "jget (managed_document ?new) ''key_id'' = JStr (next_id kr)" "jget (managed_document ?new) ''not_after'' = JNull"
      "jget_default (managed_document ?new) ''status'' (JStr ''active'') = JStr ''active''"
      "field (managed_document ?new) ''public_key'' = Inr (JStr (public_text cr sk))"
      "field (managed_document ?new) ''not_before'' = Inr (JInt now)"
      "field manifest ''overlap_until'' = Inr (JInt (now + kr_overlap_seconds kr))"
    using fields(6) by (simp_all add: managed_document_def new_managed_def jget_def jget_default_def field_def)
  have keyed: "jget [(''algorithm'', JStr ''Ed25519''), (''key_id'', JStr (kr_active_key_id kr)),
        (''value'', JStr (b64 (ed_sign cr ska (canonical_json (JObj (unsigned ?doc))))))] ''key_id'' = JStr (kr_active_key_id kr)"
    by (simp add: jget_def)
  have "k = old" using old k(1) by simp
  then have "apply_rotation_manifest cr (kr_keys kr) manifest (kr_office_id kr) =
      (Inr ?new, kr_keys (rotated cr now sk kr old manifest))"
    using old check prefix
    by (simp add: apply_rotation_manifest_def fields(1-5) known_get_def new keyed)
      (simp add: new_managed_def rotated_def Let_def)
  with rot show ?thesis by blast
qed

section \<open>The properties at a concrete keyring\<close>

definition demo_keyring :: "string keyring" where
  "demo_keyring = \<lparr>kr_office_id = ''o'', kr_overlap_seconds = 100, kr_sequence = 1, kr_active_key_id = ''o#signing-1'',
     kr_private_keys = [(''o#signing-1'', ''a'')],
     kr_keys = [(''o#signing-1'', new_managed ''o#signing-1'' (b64 ''Pa'') 5)], kr_lifecycle = []\<rparr>"

lemma demo_keyring_made: "make_keyring demo_crypto ''o'' 100 1 5 ''a'' = Inr demo_keyring"
  by (simp add: make_keyring_def demo_keyring_def public_text_def demo_crypto_def Let_def)

lemma keyring_invariant_witness:
  "kr_active_key_id (foldl (key_step demo_crypto) demo_keyring [KRotate 10 ''b'', KRetire 500]) = ''o#signing-2'' \<and>
   keyring_inv demo_crypto 1 (foldl (key_step demo_crypto) demo_keyring [KRotate 10 ''b'', KRetire 500])"
proof
  show "kr_active_key_id (foldl (key_step demo_crypto) demo_keyring [KRotate 10 ''b'', KRetire 500]) = ''o#signing-2''"
    by code_simp
qed (rule keyring_invariant [OF demo_keyring_made])

lemma signed_documents_verify_witness:
  "\<exists>sg. kr_verify demo_crypto (foldl (key_step demo_crypto) demo_keyring [KRotate 10 ''b''])
     (dset [(''x'', JInt 1)] ''signature'' sg) 111 = Inr False"
proof -
  let ?kr = "foldl (key_step demo_crypto) demo_keyring [KRotate 10 ''b'']"
  have "is_ok (kr_sign demo_crypto ?kr [(''x'', JInt 1)] (Some ''o#signing-1''))" by code_simp
  then obtain sg where sg: "kr_sign demo_crypto ?kr [(''x'', JInt 1)] (Some ''o#signing-1'') = Inr sg"
    unfolding is_ok_iff by blast
  have "map_option mk_not_after (dget (kr_keys ?kr) ''o#signing-1'') = Some (JInt 110)" by code_simp
  with signed_documents_verify [OF demo_crypto_ok demo_keyring_made refl sg, of 111] show ?thesis by auto
qed

lemma revoked_keys_stay_dead_witness:
  "kr_verify demo_crypto (foldl (key_step demo_crypto) (foldl (key_step demo_crypto) demo_keyring [KRotate 10 ''b''])
     (KRevoke ''o#signing-1'' ''lost'' 20 # [KRotate 30 ''c'', KRetire 400]))
     [(''signature'', JObj [(''algorithm'', JStr ''Ed25519''), (''key_id'', JStr ''o#signing-1''), (''value'', JStr ''AAAA'')])] 25 = Inr False"
proof -
  let ?kr = "foldl (key_step demo_crypto) demo_keyring [KRotate 10 ''b'']"
  have "is_ok (fst (revoke_key demo_crypto ''o#signing-1'' ''lost'' 20 ?kr))" by code_simp
  then obtain r where "fst (revoke_key demo_crypto ''o#signing-1'' ''lost'' 20 ?kr) = Inr r" unfolding is_ok_iff by blast
  then show ?thesis by (rule revoked_keys_stay_dead [OF demo_keyring_made refl,
      where sg = "[(''algorithm'', JStr ''Ed25519''), (''key_id'', JStr ''o#signing-1''), (''value'', JStr ''AAAA'')]"])
      (simp_all add: jget_def)
qed

lemma rotation_manifests_replicate_witness:
  "\<exists>manifest kr' new. rotate_key demo_crypto 30 ''c'' (foldl (key_step demo_crypto) demo_keyring [KRotate 10 ''b'']) = (Inr manifest, kr') \<and>
     apply_rotation_manifest demo_crypto (kr_keys (foldl (key_step demo_crypto) demo_keyring [KRotate 10 ''b'']))
       manifest (kr_office_id (foldl (key_step demo_crypto) demo_keyring [KRotate 10 ''b''])) = (Inr new, kr_keys kr')"
  by (rule rotation_manifests_replicate [OF demo_crypto_ok demo_keyring_made refl])

text \<open>
  The hypothesis of \<open>revoked_keys_stay_dead\<close> that the key is not revoked again is needed: \<open>revoke\<close>
  accepts a revoked key and moves its revocation time forward, and documents signed in between count
  as valid again.
\<close>

definition demo_document :: "(string, json) dict" where
  "demo_document = [(''x'', JInt 1), (''signature'', JObj [(''algorithm'', JStr ''Ed25519''), (''key_id'', JStr ''o#signing-1''),
     (''value'', JStr (b64 (ed_sign demo_crypto ''a'' (canonical_json (JObj [(''x'', JInt 1)])))))])]"

theorem second_revocation_revives:
  "kr_verify demo_crypto (foldl (key_step demo_crypto) demo_keyring
     [KRotate 10 ''b'', KRevoke ''o#signing-1'' ''lost'' 20]) demo_document 30 = Inr False \<and>
   kr_verify demo_crypto (foldl (key_step demo_crypto) demo_keyring
     [KRotate 10 ''b'', KRevoke ''o#signing-1'' ''lost'' 20, KRevoke ''o#signing-1'' ''lost again'' 50]) demo_document 30 = Inr True"
  by code_simp

end
