(* ===== verification/Effects.thy ===== *)
theory Effects
  imports Json
begin

text \<open>
  Methods that change state and may raise: an action takes the state and returns the outcome and the
  new state, so that what was changed before a raise is visible. \<open>act\<close> raises the exceptions of Prelude,
  \<open>eact\<close> those of a package with its own hierarchy.
\<close>

type_synonym doc = "(string, json) dict"

type_synonym ('e, 's, 'a) eact = "'s \<Rightarrow> ('e + 'a) \<times> 's"

type_synonym ('s, 'a) act = "(py_error, 's, 'a) eact"

definition ret :: "'a \<Rightarrow> ('e, 's, 'a) eact" where
  "ret v s = (Inr v, s)"

definition raise_err :: "'e \<Rightarrow> ('e, 's, 'a) eact" where
  "raise_err e s = (Inl e, s)"

definition bindS :: "('e, 's, 'a) eact \<Rightarrow> ('a \<Rightarrow> ('e, 's, 'b) eact) \<Rightarrow> ('e, 's, 'b) eact" where
  "bindS m f s = (case m s of (Inl e, s') \<Rightarrow> (Inl e, s') | (Inr v, s') \<Rightarrow> f v s')"

definition pure_act :: "'e + 'a \<Rightarrow> ('e, 's, 'a) eact" where
  "pure_act r s = (r, s)"

definition update_act :: "('s \<Rightarrow> 's) \<Rightarrow> ('e, 's, unit) eact" where
  "update_act f s = (Inr (), f s)"

text \<open>A transaction: an exception undoes what its body changed.\<close>

definition transaction :: "('e, 's, 'a) eact \<Rightarrow> ('e, 's, 'a) eact" where
  "transaction m s = (case m s of (Inl e, _) \<Rightarrow> (Inl e, s) | r \<Rightarrow> r)"

lemma bindS_Inl [simp]: "m s = (Inl e, s') \<Longrightarrow> bindS m f s = (Inl e, s')"
  and bindS_Inr: "m s = (Inr v, s') \<Longrightarrow> bindS m f s = f v s'"
  by (simp_all add: bindS_def)

lemma bindS_Inr_iff: "bindS m f s = (Inr v, s') \<longleftrightarrow> (\<exists>x s1. m s = (Inr x, s1) \<and> f x s1 = (Inr v, s'))"
  by (auto simp: bindS_def split: prod.split sum.split)

lemma basic_Inr_iff:
  "ret x s = (Inr v, s') \<longleftrightarrow> v = x \<and> s' = s"
  "raise_err e s = (Inr v, s') \<longleftrightarrow> False"
  "pure_act r s = (Inr v, s') \<longleftrightarrow> r = Inr v \<and> s' = s"
  by (auto simp: ret_def raise_err_def pure_act_def)

lemma bindS_pure: "bindS (pure_act r) f s = (case r of Inl e \<Rightarrow> (Inl e, s) | Inr v \<Rightarrow> f v s)"
  by (simp add: bindS_def pure_act_def split: sum.split)

lemma bindS_update: "bindS (update_act g) f s = f () (g s)"
  by (simp add: bindS_def update_act_def)

text \<open>
  A relation between the states before and after that composes: what is built from actions that
  keep it keeps it.
\<close>

locale state_frame =
  fixes related :: "'s \<Rightarrow> 's \<Rightarrow> bool"
  assumes related_refl: "related s s"
    and related_trans: "related s t \<Longrightarrow> related t u \<Longrightarrow> related s u"
begin

definition keeps :: "('e, 's, 'a) eact \<Rightarrow> bool" where
  "keeps m \<longleftrightarrow> (\<forall>s. related s (snd (m s)))"

lemma keepsI: "(\<And>s. related s (snd (m s))) \<Longrightarrow> keeps m"
  by (simp add: keeps_def)

lemma keepsD: "keeps m \<Longrightarrow> related s (snd (m s))"
  by (simp add: keeps_def)

lemma keeps_ret: "keeps (ret v)"
  and keeps_raise: "keeps (raise_err e)"
  and keeps_pure: "keeps (pure_act r)"
  by (simp_all add: keeps_def ret_def raise_err_def pure_act_def related_refl)

lemma keeps_bindS_Inr:
  assumes "keeps m" "\<And>v s s'. m s = (Inr v, s') \<Longrightarrow> keeps (f v)"
  shows "keeps (bindS m f)"
proof (rule keepsI)
  fix s
  have m: "related s (snd (m s))" by (rule keepsD [OF assms(1)])
  show "related s (snd (bindS m f s))"
  proof (cases "m s")
    case (Pair r s')
    show ?thesis
    proof (cases r)
      case (Inr v)
      then have "related s' (snd (f v s'))" using keepsD [OF assms(2)] Pair by metis
      then show ?thesis using m Pair Inr by (auto simp: bindS_def intro: related_trans)
    qed (use m Pair in \<open>simp add: bindS_def\<close>)
  qed
qed

lemma keeps_bindS: "keeps m \<Longrightarrow> (\<And>v. keeps (f v)) \<Longrightarrow> keeps (bindS m f)"
  by (rule keeps_bindS_Inr)

lemma keeps_bind_pure: "(\<And>v. r = Inr v \<Longrightarrow> keeps (f v)) \<Longrightarrow> keeps (bindS (pure_act r) f)"
  by (rule keeps_bindS_Inr [OF keeps_pure]) (simp add: pure_act_def)

lemma keeps_if: "(b \<Longrightarrow> keeps m) \<Longrightarrow> (\<not> b \<Longrightarrow> keeps m') \<Longrightarrow> keeps (if b then m else m')"
  by simp

lemma keeps_option: "keeps m \<Longrightarrow> (\<And>v. keeps (f v)) \<Longrightarrow> keeps (case x of None \<Rightarrow> m | Some v \<Rightarrow> f v)"
  by (cases x) simp_all

text \<open>An action that leaves the relation is preceded by its successful prefix.\<close>

lemma unrelated_bindS:
  assumes "keeps m" "\<not> related s (snd (bindS m f s))"
  obtains v s' where "m s = (Inr v, s')" "related s s'" "\<not> related s' (snd (f v s'))"
proof -
  have m: "related s (snd (m s))" by (rule keepsD [OF assms(1)])
  show thesis
  proof (cases "m s")
    case (Pair r s')
    then show thesis using m assms(2) that related_trans by (cases r) (auto simp: bindS_def)
  qed
qed

end

end
