(* ===== verification/Office.thy ===== *)
theory Office
  imports Crypto PyText Contracts Effects
begin

text \<open>
  The Telegraph office: reference/telegraph_federation_demo.py (identity, routing decision, receipts,
  replay cache), reference/telegraph_storage.py (the SQLite store) and
  reference/telegraph_office_service.py (the office state and its request handlers). Clock readings,
  random tokens, the digest and the Ed25519 primitives are arguments; a handler returns an outcome
  and the new state, so a raise shows what was changed before it.
\<close>

section \<open>Documents\<close>

text \<open>\<open>d[k]\<close>, \<open>d[k]\<close> used as an object, and the conversion SQLite's TEXT columns apply to a value.\<close>

definition item :: "doc \<Rightarrow> string \<Rightarrow> json outcome" where
  "item d k = (case dget d k of None \<Rightarrow> Inl (KeyError k) | Some v \<Rightarrow> Inr v)"

definition obj_item :: "doc \<Rightarrow> string \<Rightarrow> doc outcome" where
  "obj_item d k = bindE (item d k) (\<lambda>v. case v of JObj ofc \<Rightarrow> Inr ofc | _ \<Rightarrow> Inl (AttributeError ''get''))"

definition sql_text :: "json \<Rightarrow> string option outcome" where
  "sql_text v =
     (case v of
        JNull \<Rightarrow> Inr None
      | JBool b \<Rightarrow> Inr (Some (if b then ''1'' else ''0''))
      | JInt i \<Rightarrow> Inr (Some (show_int i))
      | JStr s \<Rightarrow> Inr (Some s)
      | _ \<Rightarrow> Inl (OtherError ''type is not supported''))"

text \<open>\<open>int(x)\<close> of a float.\<close>

definition int_of_float :: "rat \<Rightarrow> int" where
  "int_of_float x = (if x < 0 then \<lceil>x\<rceil> else \<lfloor>x\<rfloor>)"

section \<open>Replay protection\<close>

definition replay_accept :: "(string, rat) dict \<Rightarrow> string \<Rightarrow> rat \<Rightarrow> int \<Rightarrow> bool \<times> (string, rat) dict" where
  "replay_accept seen nonce now window =
     (let live = filter (\<lambda>(k, ts). now - ts \<le> of_int window) seen in
      if dget live nonce \<noteq> None then (False, live) else (True, dset live nonce now))"

section \<open>The store\<close>

record peer_row =
  pr_office_id :: string
  pr_trust_status :: string
  pr_identity_json :: string
  pr_updated_at :: int
  pr_identity_verified :: bool

record message_row =
  mr_message_id :: "string option"
  mr_origin :: string
  mr_destination :: string
  mr_envelope_json :: string
  mr_accepted_at :: int

record receipt_row =
  rr_receipt_id :: "string option"
  rr_message_id :: string
  rr_sequence :: int
  rr_receipt_json :: string
  rr_recorded_at :: int

record store =
  st_peers :: "peer_row list"
  st_messages :: "message_row list"
  st_receipts :: "receipt_row list"
  st_nonces :: "(string \<times> rat) list"

definition empty_store :: store where
  "empty_store = \<lparr>st_peers = [], st_messages = [], st_receipts = [], st_nonces = []\<rparr>"

definition dump_doc :: "json \<Rightarrow> string" where
  "dump_doc j = json_dumps True j"

definition load_doc :: "string \<Rightarrow> doc outcome" where
  "load_doc s =
     (case json_loads s of
        None \<Rightarrow> Inl (ValueError ''JSONDecodeError'')
      | Some (JObj d) \<Rightarrow> Inr d
      | Some _ \<Rightarrow> Inl (ValueError ''stored Telegraph document is not an object''))"

definition upsert_peer :: "peer_row \<Rightarrow> peer_row list \<Rightarrow> peer_row list" where
  "upsert_peer r rows =
     (if find_row pr_office_id (pr_office_id r) rows = None then rows @ [r]
      else update_where (\<lambda>x. pr_office_id x = pr_office_id r) (\<lambda>_. r) rows)"

text \<open>A \<open>NULL\<close> in a \<open>NOT NULL\<close> column fails the statement.\<close>

definition save_peer :: "doc \<Rightarrow> (store, unit) act" where
  "save_peer rec =
     bindS (pure_act (bindE (item rec ''office_id'') sql_text)) (\<lambda>oid.
     bindS (pure_act (bindE (item rec ''trust_status'') sql_text)) (\<lambda>trust.
     bindS (pure_act (item rec ''identity'')) (\<lambda>identity.
     bindS (pure_act (bindE (item rec ''updated_at'') int_of_json)) (\<lambda>updated.
       case (oid, trust) of
         (Some ofc, Some t) \<Rightarrow>
           update_act (\<lambda>s. s\<lparr>st_peers := upsert_peer
             \<lparr>pr_office_id = ofc, pr_trust_status = t, pr_identity_json = dump_doc identity,
              pr_updated_at = updated, pr_identity_verified = truthy (jget rec ''identity_verified'')\<rparr> (st_peers s)\<rparr>)
       | _ \<Rightarrow> raise_err (OtherError ''NOT NULL constraint failed'')))))"

definition peer_record :: "peer_row \<Rightarrow> doc outcome" where
  "peer_record r =
     bindE (load_doc (pr_identity_json r)) (\<lambda>identity.
       Inr [(''office_id'', JStr (pr_office_id r)), (''trust_status'', JStr (pr_trust_status r)),
         (''identity'', JObj identity), (''updated_at'', JInt (pr_updated_at r)),
         (''identity_verified'', JBool (pr_identity_verified r))])"

fun load_peers :: "peer_row list \<Rightarrow> (string, doc) dict outcome" where
  "load_peers [] = Inr []"
| "load_peers (r # rs) =
     bindE (peer_record r) (\<lambda>p. bindE (load_peers rs) (\<lambda>d. Inr ((pr_office_id r, p) # d)))"

text \<open>
  \<open>INSERT OR IGNORE\<close>: a \<open>NULL\<close> in a \<open>NOT NULL\<close> column or an existing key skips the row. A text primary key may be \<open>NULL\<close> in
  SQLite, and no such key equals another one.
\<close>

definition key_taken :: "('r \<Rightarrow> string option) \<Rightarrow> string option \<Rightarrow> 'r list \<Rightarrow> bool" where
  "key_taken key k rows \<longleftrightarrow> k \<noteq> None \<and> find_row key k rows \<noteq> None"

definition save_message :: "doc \<Rightarrow> int \<Rightarrow> (store, unit) act" where
  "save_message env accepted_at =
     bindS (pure_act (bindE (item env ''message_id'') sql_text)) (\<lambda>mid.
     bindS (pure_act (bindE (item env ''origin'') sql_text)) (\<lambda>origin.
     bindS (pure_act (bindE (item env ''destination'') sql_text)) (\<lambda>dest.
       update_act (\<lambda>s.
         case (origin, dest) of
           (Some og, Some ds) \<Rightarrow>
             if key_taken mr_message_id mid (st_messages s) then s
             else s\<lparr>st_messages := st_messages s @
               [\<lparr>mr_message_id = mid, mr_origin = og, mr_destination = ds,
                 mr_envelope_json = dump_doc (JObj env), mr_accepted_at = accepted_at\<rparr>]\<rparr>
         | _ \<Rightarrow> s))))"

text \<open>The key \<open>NULL\<close> is read as \<open>None\<close>.\<close>

fun load_messages :: "message_row list \<Rightarrow> (json, doc) dict \<Rightarrow> (json, doc) dict outcome" where
  "load_messages [] acc = Inr acc"
| "load_messages (r # rs) acc =
     bindE (load_doc (mr_envelope_json r)) (\<lambda>p. load_messages rs (dset acc (opt_str (mr_message_id r)) p))"

definition save_receipt :: "doc \<Rightarrow> int \<Rightarrow> (store, unit) act" where
  "save_receipt receipt recorded_at =
     bindS (pure_act (bindE (item receipt ''receipt_id'') sql_text)) (\<lambda>rid.
     bindS (pure_act (bindE (item receipt ''message_id'') sql_text)) (\<lambda>mid.
     bindS (pure_act (int_of_json (jget_default receipt ''sequence'' (JInt 0)))) (\<lambda>sequence.
       update_act (\<lambda>s.
         case mid of
           Some m \<Rightarrow>
             if key_taken rr_receipt_id rid (st_receipts s) then s
             else s\<lparr>st_receipts := st_receipts s @
               [\<lparr>rr_receipt_id = rid, rr_message_id = m, rr_sequence = sequence,
                 rr_receipt_json = dump_doc (JObj receipt), rr_recorded_at = recorded_at\<rparr>]\<rparr>
         | None \<Rightarrow> s))))"

fun group_receipts :: "receipt_row list \<Rightarrow> (json, doc list) dict \<Rightarrow> (json, doc list) dict outcome" where
  "group_receipts [] acc = Inr acc"
| "group_receipts (r # rs) acc =
     bindE (load_doc (rr_receipt_json r)) (\<lambda>p.
       group_receipts rs (dset acc (JStr (rr_message_id r))
         ((case dget acc (JStr (rr_message_id r)) of None \<Rightarrow> [] | Some ps \<Rightarrow> ps) @ [p])))"

definition load_receipts :: "store \<Rightarrow> (json, doc list) dict outcome" where
  "load_receipts s =
     group_receipts (sort_key (\<lambda>r. (rr_message_id r, rr_sequence r, rr_recorded_at r)) (st_receipts s)) []"

text \<open>The primary key makes the second insertion of a live nonce fail.\<close>

definition accept_nonce :: "string \<Rightarrow> rat \<Rightarrow> int \<Rightarrow> store \<Rightarrow> bool \<times> store" where
  "accept_nonce nonce now window s =
     (let live = filter (\<lambda>(k, ts). \<not> ts < now - of_int window) (st_nonces s) in
      if find_row fst nonce live \<noteq> None then (False, s\<lparr>st_nonces := live\<rparr>)
      else (True, s\<lparr>st_nonces := live @ [(nonce, now)]\<rparr>))"

section \<open>The office\<close>

record 'sk office =
  of_office_id :: string
  of_media :: "string set"
  of_security :: "string set"
  of_trust :: "(string, json) dict"
  of_signing_key :: 'sk
  of_replay_cache :: "(string, rat) dict"
  of_receipt_sequence :: int
  of_last_receipt_digest :: "string option"

definition office_public_key :: "'sk crypto \<Rightarrow> 'sk office \<Rightarrow> string" where
  "office_public_key cr ofc = b64 (ed_public cr (of_signing_key ofc))"

definition office_sign :: "'sk crypto \<Rightarrow> 'sk office \<Rightarrow> doc \<Rightarrow> json" where
  "office_sign cr ofc document =
     JObj [(''algorithm'', JStr ''Ed25519''), (''key_id'', JStr (of_office_id ofc @ ''#signing-1'')),
       (''value'', JStr (b64 (ed_sign cr (of_signing_key ofc) (canonical_json (JObj (unsigned document))))))]"

definition signed_doc :: "'sk crypto \<Rightarrow> 'sk office \<Rightarrow> doc \<Rightarrow> doc" where
  "signed_doc cr ofc document = dset document ''signature'' (office_sign cr ofc document)"

definition identity_document :: "'sk crypto \<Rightarrow> 'sk office \<Rightarrow> doc" where
  "identity_document cr ofc =
     signed_doc cr ofc
       [(''version'', JStr ''1.0''), (''office_id'', JStr (of_office_id ofc)), (''issued_at'', JStr ''2026-07-22T00:00:00Z''),
        (''sequence'', JInt 1),
        (''keys'', JList [JObj [(''key_id'', JStr (of_office_id ofc @ ''#signing-1'')), (''purpose'', JStr ''office_signing''),
           (''algorithm'', JStr ''Ed25519''), (''public_key'', JStr (office_public_key cr ofc)),
           (''not_before'', JStr ''2026-07-22T00:00:00Z''), (''status'', JStr ''active'')]]),
        (''services'', JList [JObj [(''type'', JStr ''federation_https''),
           (''uri'', JStr (''https://'' @ of_office_id ofc @ ''/telegraph''))]]),
        (''policy'', JObj [(''accepted_envelope_versions'', JList [JStr ''1.0'']), (''max_clock_skew_seconds'', JInt 300),
           (''replay_window_seconds'', JInt 3600), (''requires_mutual_tls'', JBool True),
           (''allows_store_and_forward'', JBool True), (''allows_gateway_decryption'', JBool False),
           (''requires_code_word_hashing_in_metadata'', JBool True)])]"

text \<open>\<open>route\<close>: the requirements as their three fields, the decision id as an argument.\<close>

definition sorted_strs :: "string set \<Rightarrow> json" where
  "sorted_strs S = JList (map JStr (sorted_list_of_set S))"

definition route_reasons :: "'sk office \<Rightarrow> 'sk office \<Rightarrow> string set \<Rightarrow> string set \<Rightarrow> string list" where
  "route_reasons ofc peer security media =
     (if dget (of_trust ofc) (of_office_id peer) \<in> {Some (JStr ''trusted''), Some (JStr ''observed'')} then [] else [''insufficient_trust''])
     @ (if security - of_security peer = {} then [] else [''security_mismatch''])
     @ (if media - of_media peer = {} then [] else [''media_mismatch''])"

definition office_route ::
  "'sk crypto \<Rightarrow> 'sk office \<Rightarrow> 'sk office \<Rightarrow> json \<Rightarrow> string set \<Rightarrow> string set \<Rightarrow> string \<Rightarrow> doc" where
  "office_route cr ofc peer message_id security media decision_id =
     (let reasons = route_reasons ofc peer security media; eligible = (reasons = []) in
      signed_doc cr ofc
        [(''version'', JStr ''1.0''), (''decision_id'', JStr decision_id), (''message_id'', message_id),
         (''evaluated_at'', JStr ''2026-07-22T00:00:01Z''), (''origin_office'', JStr (of_office_id ofc)),
         (''destination_office'', JStr (of_office_id peer)),
         (''requirements'', JObj [(''minimum_trust'', JStr ''observed''), (''security'', sorted_strs security),
            (''media'', sorted_strs media), (''store_and_forward'', JStr ''allowed''), (''downgrade_policy'', JStr ''forbid''),
            (''required_code_word_purposes'', JList [JStr ''message_verification''])]),
         (''selected_path'', JObj [(''path_id'', JStr (''direct:'' @ of_office_id ofc @ '':'' @ of_office_id peer)),
            (''offices'', JList [JStr (of_office_id peer)]), (''eligible'', JBool eligible),
            (''score'', JInt (if eligible then 1000 else 0)), (''estimated_latency_ms'', JInt 1),
            (''security_state'', JStr (if eligible then ''end_to_end_encrypted'' else ''transport_encrypted_only'')),
            (''media'', sorted_strs (of_media ofc \<inter> of_media peer)), (''downgrades'', JList []),
            (''rejection_reasons'', JList (map JStr reasons))]),
         (''result'', JStr (if eligible then ''selected'' else ''rejected'')),
         (''reason_codes'', JList (map JStr reasons)), (''disclosures'', JList [])])"

text \<open>\<open>receipt\<close>: the sequence is taken first, then the envelope's fields are read.\<close>

definition receipt_body :: "(string \<Rightarrow> string) \<Rightarrow> 'sk office \<Rightarrow> doc \<Rightarrow> string \<Rightarrow> bool \<Rightarrow> string \<Rightarrow> doc outcome" where
  "receipt_body sha ofc env event duplicate rid =
     bindE (item env ''message_id'') (\<lambda>mid.
     bindE (item env ''security_state'') (\<lambda>sec.
     bindE (item env ''code_word_commitment'') (\<lambda>code.
     bindE (item env ''nonce'') (\<lambda>nonce.
       Inr ([(''version'', JStr ''1.0''), (''receipt_id'', JStr rid), (''message_id'', mid),
         (''office_id'', JStr (of_office_id ofc)), (''event'', JStr event), (''recorded_at'', JStr ''2026-07-22T00:00:02Z''),
         (''sequence'', JInt (of_receipt_sequence ofc)),
         (''message_digest'', JStr (sha256_text sha (canonical_json (JObj env)))), (''security_state'', sec),
         (''code_word_evidence'', JList [JObj [(''purpose'', JStr ''message_verification''),
            (''evidence_type'', JStr ''verified_match''), (''evidence'', code)]]),
         (''replay'', JObj [(''nonce'', nonce), (''first_seen_at'', JStr ''2026-07-22T00:00:02Z''),
            (''duplicate_count'', JInt (if duplicate then 1 else 0))])]
         @ (case of_last_receipt_digest ofc of
              None \<Rightarrow> []
            | Some d \<Rightarrow> if d = [] then [] else [(''previous_receipt_digest'', JStr d)]))))))"

definition office_receipt ::
  "'sk crypto \<Rightarrow> (string \<Rightarrow> string) \<Rightarrow> doc \<Rightarrow> string \<Rightarrow> bool \<Rightarrow> string \<Rightarrow> ('sk office, doc) act" where
  "office_receipt cr sha env event duplicate rid ofc =
     (let o1 = ofc\<lparr>of_receipt_sequence := of_receipt_sequence ofc + 1\<rparr> in
      case receipt_body sha o1 env event duplicate rid of
        Inl e \<Rightarrow> (Inl e, o1)
      | Inr body \<Rightarrow>
          let receipt = signed_doc cr o1 body in
          (Inr receipt, o1\<lparr>of_last_receipt_digest := Some (sha256_text sha (canonical_json (JObj receipt)))\<rparr>))"

section \<open>The office service\<close>

record 'sk office_state =
  os_office :: "'sk office"
  os_store :: "store option"
  os_peers :: "(string, doc) dict"
  os_messages :: "(json, doc) dict"
  os_receipts :: "(json, doc list) dict"

definition trust_levels :: "string list" where
  "trust_levels = [''observed'', ''trusted'', ''restricted'']"

definition http_ok :: nat where "http_ok = 200"
definition http_created :: nat where "http_created = 201"
definition http_accepted :: nat where "http_accepted = 202"
definition http_bad_request :: nat where "http_bad_request = 400"
definition http_forbidden :: nat where "http_forbidden = 403"
definition http_conflict :: nat where "http_conflict = 409"
definition http_gone :: nat where "http_gone = 410"
definition http_too_large :: nat where "http_too_large = 413"
definition http_unprocessable :: nat where "http_unprocessable = 422"

definition error_doc :: "string \<Rightarrow> doc" where
  "error_doc e = [(''error'', JStr e)]"

text \<open>\<open>if self.store is not None: self.store....\<close>\<close>

definition on_store :: "(store, 'a) act \<Rightarrow> ('sk office_state, unit) act" where
  "on_store m s =
     (case os_store s of
        None \<Rightarrow> (Inr (), s)
      | Some st \<Rightarrow>
          (case m st of
             (Inl e, st') \<Rightarrow> (Inl e, s\<lparr>os_store := Some st'\<rparr>)
           | (Inr _, st') \<Rightarrow> (Inr (), s\<lparr>os_store := Some st'\<rparr>)))"

text \<open>\<open>__post_init__\<close>: what a restart restores from the store.\<close>

fun latest_receipt :: "doc \<Rightarrow> int \<Rightarrow> doc list \<Rightarrow> (doc \<times> int) outcome" where
  "latest_receipt best n [] = Inr (best, n)"
| "latest_receipt best n (r # rs) =
     bindE (int_of_json (jget_default r ''sequence'' (JInt 0))) (\<lambda>m.
       if m > n then latest_receipt r m rs else latest_receipt best n rs)"

definition restore_chain :: "(string \<Rightarrow> string) \<Rightarrow> doc list \<Rightarrow> 'sk office \<Rightarrow> 'sk office outcome" where
  "restore_chain sha all_receipts ofc =
     (case all_receipts of
        [] \<Rightarrow> Inr ofc
      | r # rs \<Rightarrow>
          bindE (int_of_json (jget_default r ''sequence'' (JInt 0))) (\<lambda>n.
          bindE (latest_receipt r n rs) (\<lambda>(latest, m).
            Inr (ofc\<lparr>of_receipt_sequence := m,
              of_last_receipt_digest := Some (sha256_text sha (canonical_json (JObj latest)))\<rparr>))))"

fun restore_trust :: "(string, doc) dict \<Rightarrow> (string, json) dict \<Rightarrow> (string, json) dict outcome" where
  "restore_trust [] trust = Inr trust"
| "restore_trust ((i, rec) # ps) trust =
     bindE (item rec ''trust_status'') (\<lambda>t. restore_trust ps (dset trust i t))"

definition open_office :: "(string \<Rightarrow> string) \<Rightarrow> 'sk office \<Rightarrow> store option \<Rightarrow> 'sk office_state outcome" where
  "open_office sha ofc st =
     (case st of
        None \<Rightarrow> Inr \<lparr>os_office = ofc, os_store = None, os_peers = [], os_messages = [], os_receipts = []\<rparr>
      | Some store \<Rightarrow>
          bindE (load_peers (st_peers store)) (\<lambda>peers.
          bindE (load_messages (st_messages store) []) (\<lambda>messages.
          bindE (load_receipts store) (\<lambda>receipts.
          bindE (restore_trust peers (of_trust ofc)) (\<lambda>trust.
          bindE (restore_chain sha (concat (map snd receipts)) (ofc\<lparr>of_trust := trust\<rparr>)) (\<lambda>ofc'.
            Inr \<lparr>os_office = ofc', os_store = Some store, os_peers = peers,
              os_messages = messages, os_receipts = receipts\<rparr>))))))"

definition office_capabilities :: "'sk office_state \<Rightarrow> doc" where
  "office_capabilities s =
     [(''office_id'', JStr (of_office_id (os_office s))), (''envelope_versions'', JList [JStr ''1.0'']),
      (''transports'', JList [JStr ''http-development'']), (''media'', sorted_strs (of_media (os_office s))),
      (''security'', sorted_strs (of_security (os_office s))), (''persistent_storage'', JBool (os_store s \<noteq> None)),
      (''directory_sync'', JBool True), (''signed_directory_manifests'', JBool True), (''production_ready'', JBool False)]"

definition office_directory :: "'sk crypto \<Rightarrow> int \<Rightarrow> 'sk office_state \<Rightarrow> doc" where
  "office_directory cr now s =
     signed_doc cr (os_office s)
       [(''version'', JStr ''1.0''), (''office_id'', JStr (of_office_id (os_office s))), (''generated_at'', JInt now),
        (''peers'', JList (map (\<lambda>(_, p). JObj p) (os_peers s))), (''count'', JInt (int (length (os_peers s))))]"

definition office_save_peer :: "doc \<Rightarrow> ('sk office_state, unit) act" where
  "office_save_peer rec =
     bindS (on_store (save_peer rec)) (\<lambda>_.
     bindS (pure_act (item rec ''office_id'')) (\<lambda>oid.
     bindS (pure_act (case oid of JStr i \<Rightarrow> Inr i | _ \<Rightarrow> Inl (TypeError ''office_id''))) (\<lambda>i.
     bindS (update_act (\<lambda>s. s\<lparr>os_peers := dset (os_peers s) i rec\<rparr>)) (\<lambda>_.
     bindS (pure_act (item rec ''trust_status'')) (\<lambda>t.
       update_act (\<lambda>s. s\<lparr>os_office := (os_office s)\<lparr>of_trust := dset (of_trust (os_office s)) i t\<rparr>\<rparr>))))))"

definition register_peer :: "'sk crypto \<Rightarrow> doc \<Rightarrow> int \<Rightarrow> ('sk office_state, nat \<times> doc) act" where
  "register_peer cr document now =
     (case (jget document ''office_id'', jget document ''identity'') of
        (JStr office_id, JObj identity) \<Rightarrow>
          if jget identity ''office_id'' \<noteq> JStr office_id then ret (http_bad_request, error_doc ''peer_identity_mismatch'')
          else bindS (pure_act (hashable (jget_default document ''trust_status'' (JStr ''observed'')))) (\<lambda>trust.
            if trust \<notin> JStr ` set trust_levels then ret (http_bad_request, error_doc ''invalid_trust_status'')
            else if \<not> verify_identity cr identity then ret (http_unprocessable, error_doc ''invalid_peer_signature'')
            else let rec = [(''office_id'', JStr office_id), (''identity'', JObj identity), (''trust_status'', trust),
                   (''updated_at'', JInt now), (''identity_verified'', JBool True)]
              in bindS (office_save_peer rec) (\<lambda>_. ret (http_created, rec)))
      | _ \<Rightarrow> ret (http_bad_request, error_doc ''invalid_peer_record''))"

record sync_counts =
  sc_imported :: int
  sc_updated :: int
  sc_skipped :: int
  sc_rejected :: int

text \<open>One record of a peer's directory.\<close>

definition sync_candidate ::
  "'sk crypto \<Rightarrow> string \<Rightarrow> sync_counts \<Rightarrow> json \<Rightarrow> ('sk office_state, sync_counts) act" where
  "sync_candidate cr source n candidate s =
     (case candidate of
        JObj d \<Rightarrow>
          if jget d ''office_id'' = JStr (of_office_id (os_office s)) then ret (n\<lparr>sc_skipped := sc_skipped n + 1\<rparr>) s else
          (case (jget d ''office_id'', jget d ''identity'') of
             (JStr office_id, JObj identity) \<Rightarrow>
               if jget identity ''office_id'' \<noteq> JStr office_id \<or> \<not> verify_identity cr identity
               then ret (n\<lparr>sc_rejected := sc_rejected n + 1\<rparr>) s else
               (case int_of_json (jget_default d ''updated_at'' (JInt 0)) of
                  Inl _ \<Rightarrow> ret (n\<lparr>sc_rejected := sc_rejected n + 1\<rparr>) s
                | Inr remote \<Rightarrow>
                    (case dget (os_peers s) office_id of
                       None \<Rightarrow>
                         bindS (office_save_peer
                             [(''office_id'', JStr office_id), (''identity'', JObj identity), (''trust_status'', JStr ''observed''),
                              (''updated_at'', JInt remote), (''identity_verified'', JBool True), (''directory_source'', JStr source)])
                           (\<lambda>_. ret (n\<lparr>sc_imported := sc_imported n + 1\<rparr>)) s
                     | Some existing \<Rightarrow>
                         (case int_of_json (jget_default existing ''updated_at'' (JInt 0)) of
                            Inl e \<Rightarrow> (Inl e, s)
                          | Inr known \<Rightarrow>
                              if remote \<le> known then ret (n\<lparr>sc_skipped := sc_skipped n + 1\<rparr>) s
                              else bindS (pure_act (item existing ''trust_status'')) (\<lambda>trust.
                                bindS (office_save_peer
                                  [(''office_id'', JStr office_id), (''identity'', JObj identity), (''trust_status'', trust),
                                   (''updated_at'', JInt remote), (''identity_verified'', JBool True),
                                   (''directory_source'', JStr source)])
                                (\<lambda>_. ret (n\<lparr>sc_updated := sc_updated n + 1\<rparr>))) s)))
           | _ \<Rightarrow> ret (n\<lparr>sc_rejected := sc_rejected n + 1\<rparr>) s)
      | _ \<Rightarrow> ret (n\<lparr>sc_rejected := sc_rejected n + 1\<rparr>) s)"

fun sync_loop ::
  "'sk crypto \<Rightarrow> string \<Rightarrow> sync_counts \<Rightarrow> json list \<Rightarrow> ('sk office_state, sync_counts) act" where
  "sync_loop cr source n [] = ret n"
| "sync_loop cr source n (c # cs) = bindS (sync_candidate cr source n c) (\<lambda>n'. sync_loop cr source n' cs)"

definition sync_directory :: "'sk crypto \<Rightarrow> doc \<Rightarrow> ('sk office_state, nat \<times> doc) act" where
  "sync_directory cr document s =
     (case (jget document ''office_id'', jget document ''peers'') of
        (JStr source, JList peers) \<Rightarrow>
          if length peers > 1000 then ret (http_too_large, error_doc ''directory_too_large'') s else
          (case dget (os_peers s) source of
             None \<Rightarrow> ret (http_forbidden, error_doc ''unknown_directory_source'') s
           | Some src \<Rightarrow>
               bindS (pure_act (item src ''trust_status'')) (\<lambda>trust.
                 if trust = JStr ''restricted'' then ret (http_forbidden, error_doc ''restricted_directory_source'')
                 else bindS (pure_act (obj_item src ''identity'')) (\<lambda>identity.
                   if \<not> verify_document cr document identity
                   then ret (http_unprocessable, error_doc ''invalid_directory_signature'')
                   else bindS (sync_loop cr source \<lparr>sc_imported = 0, sc_updated = 0, sc_skipped = 0, sc_rejected = 0\<rparr> peers) (\<lambda>n.
                     ret (http_accepted,
                       [(''status'', JStr ''directory_synchronized''), (''source_office'', JStr source),
                        (''imported'', JInt (sc_imported n)), (''updated'', JInt (sc_updated n)),
                        (''skipped'', JInt (sc_skipped n)), (''rejected'', JInt (sc_rejected n)),
                        (''signature_verified'', JBool True)])))) s)
      | _ \<Rightarrow> ret (http_bad_request, error_doc ''invalid_directory'') s)"

definition office_accept_nonce :: "string \<Rightarrow> rat \<Rightarrow> ('sk office_state, bool) act" where
  "office_accept_nonce nonce now s =
     (case os_store s of
        Some st \<Rightarrow> (let (ok, st') = accept_nonce nonce now 3600 st in (Inr ok, s\<lparr>os_store := Some st'\<rparr>))
      | None \<Rightarrow>
          (let (ok, seen) = replay_accept (of_replay_cache (os_office s)) nonce now 3600
           in (Inr ok, s\<lparr>os_office := (os_office s)\<lparr>of_replay_cache := seen\<rparr>\<rparr>)))"

definition record_receipt :: "doc \<Rightarrow> int \<Rightarrow> ('sk office_state, unit) act" where
  "record_receipt receipt recorded_at =
     bindS (on_store (save_receipt receipt recorded_at)) (\<lambda>_.
     bindS (pure_act (bindE (item receipt ''message_id'') hashable)) (\<lambda>mid.
       update_act (\<lambda>s. s\<lparr>os_receipts := dset (os_receipts s) mid
         ((case dget (os_receipts s) mid of None \<Rightarrow> [] | Some rs \<Rightarrow> rs) @ [receipt])\<rparr>)))"

definition on_office :: "('sk office, 'a) act \<Rightarrow> ('sk office_state, 'a) act" where
  "on_office m s = (let (r, ofc) = m (os_office s) in (r, s\<lparr>os_office := ofc\<rparr>))"

definition required_fields :: "string list" where
  "required_fields = [''destination'', ''message_id'', ''nonce'', ''origin'', ''payload'', ''security_state'', ''signature'']"

definition accept_message ::
  "'sk crypto \<Rightarrow> (string \<Rightarrow> string) \<Rightarrow> doc \<Rightarrow> rat \<Rightarrow> string \<Rightarrow> ('sk office_state, nat \<times> doc) act" where
  "accept_message cr sha env now rid s =
     (let missing = filter (\<lambda>k. dget env k = None) required_fields;
          me = of_office_id (os_office s) in
      if missing \<noteq> [] then ret (http_bad_request, error_doc ''invalid_envelope'' @ [(''missing'', JList (map JStr missing))]) s
      else if jget env ''destination'' \<noteq> JStr me
      then ret (http_conflict, error_doc ''wrong_destination'' @ [(''expected'', JStr me), (''received'', jget env ''destination'')]) s
      else case (case jget env ''origin'' of JStr origin \<Rightarrow> dget (os_peers s) origin | _ \<Rightarrow> None) of
        None \<Rightarrow> ret (http_forbidden, error_doc ''unknown_origin'') s
      | Some peer \<Rightarrow>
          bindS (pure_act (item peer ''trust_status'')) (\<lambda>trust.
            if trust = JStr ''restricted'' then ret (http_forbidden, error_doc ''restricted_origin'')
            else bindS (pure_act (obj_item peer ''identity'')) (\<lambda>identity.
              if \<not> verify_document cr env identity then ret (http_unprocessable, error_doc ''invalid_envelope_signature'')
              else bindS (office_accept_nonce (py_str (jget env ''nonce'')) now) (\<lambda>fresh.
                if \<not> fresh then
                  bindS (on_office (office_receipt cr sha env ''duplicate_rejected'' True rid)) (\<lambda>receipt.
                  bindS (record_receipt receipt (int_of_float now)) (\<lambda>_.
                    ret (http_conflict, [(''status'', JStr ''duplicate_rejected''), (''receipt'', JObj receipt)])))
                else
                  bindS (on_store (save_message env (int_of_float now))) (\<lambda>_.
                  bindS (pure_act (hashable (jget env ''message_id''))) (\<lambda>mid.
                  bindS (update_act (\<lambda>s. s\<lparr>os_messages := dset (os_messages s) mid env\<rparr>)) (\<lambda>_.
                  bindS (on_office (office_receipt cr sha env ''accepted'' False rid)) (\<lambda>receipt.
                  bindS (record_receipt receipt (int_of_float now)) (\<lambda>_.
                    ret (http_accepted, [(''status'', JStr ''accepted''), (''message_id'', jget env ''message_id''),
                      (''envelope_digest'', JStr (sha256_text sha (canonical_json (JObj env)))),
                      (''signature_verified'', JBool True), (''receipt'', JObj receipt)]))))))))) s)"

definition record_external_receipt :: "'sk crypto \<Rightarrow> doc \<Rightarrow> int \<Rightarrow> ('sk office_state, nat \<times> doc) act" where
  "record_external_receipt cr document now s =
     (case (jget document ''message_id'', jget document ''office_id'', jget document ''receipt_id'') of
        (JStr message_id, JStr office_id, JStr _) \<Rightarrow>
          (case dget (os_peers s) office_id of
             None \<Rightarrow> ret (http_forbidden, error_doc ''unknown_receipt_office'') s
           | Some peer \<Rightarrow>
               bindS (pure_act (obj_item peer ''identity'')) (\<lambda>identity.
                 if \<not> verify_document cr document identity
                 then ret (http_unprocessable, error_doc ''invalid_receipt_signature'')
                 else bindS (record_receipt document now) (\<lambda>_.
                   ret (http_accepted, [(''status'', JStr ''receipt_recorded''), (''message_id'', JStr message_id),
                     (''signature_verified'', JBool True)]))) s)
      | _ \<Rightarrow> ret (http_bad_request, error_doc ''invalid_receipt'') s)"

end
