(* ===== verification/IncrementalSync.thy ===== *)
theory IncrementalSync
  imports Office
begin

text \<open>
  reference/telegraph_incremental_sync.py: the journal of directory changes an office publishes as
  signed deltas, and the application of a peer's delta against the local checkpoint.
\<close>

section \<open>The journal\<close>

record change =
  ch_sequence :: int
  ch_operation :: string
  ch_office_id :: string
  ch_changed_at :: int
  ch_record :: "doc option"
  ch_reason :: "string option"

definition change_document :: "change \<Rightarrow> doc" where
  "change_document c =
     [(''sequence'', JInt (ch_sequence c)), (''operation'', JStr (ch_operation c)),
      (''office_id'', JStr (ch_office_id c)), (''changed_at'', JInt (ch_changed_at c))]
     @ (case ch_record c of None \<Rightarrow> [] | Some r \<Rightarrow> [(''record'', JObj r)])
     @ (case ch_reason c of None \<Rightarrow> [] | Some r \<Rightarrow> [(''reason'', JStr r)])"

record 'sk journal =
  jn_state :: "'sk office_state"
  jn_max_changes :: int
  jn_sequence :: int
  jn_changes :: "change list"
  jn_checkpoints :: "(string, int) dict"

definition new_journal :: "'sk office_state \<Rightarrow> int \<Rightarrow> 'sk journal outcome" where
  "new_journal s max_changes =
     (if max_changes < 1 then Inl (ValueError ''max_changes must be positive'')
      else Inr \<lparr>jn_state = s, jn_max_changes = max_changes, jn_sequence = 0, jn_changes = [], jn_checkpoints = []\<rparr>)"

definition last_n :: "int \<Rightarrow> 'a list \<Rightarrow> 'a list" where
  "last_n n xs = drop (length xs - nat n) xs"

definition append_change ::
  "string \<Rightarrow> string \<Rightarrow> doc option \<Rightarrow> string option \<Rightarrow> int \<Rightarrow> ('sk journal, change) act" where
  "append_change operation office_id rec reason now j =
     (let c = \<lparr>ch_sequence = jn_sequence j + 1, ch_operation = operation, ch_office_id = office_id,
                ch_changed_at = now, ch_record = rec, ch_reason = reason\<rparr>;
          cs = jn_changes j @ [c]
      in (Inr c, j\<lparr>jn_sequence := jn_sequence j + 1,
            jn_changes := (if int (length cs) > jn_max_changes j then last_n (jn_max_changes j) cs else cs)\<rparr>))"

definition record_upsert :: "string \<Rightarrow> int \<Rightarrow> ('sk journal, change) act" where
  "record_upsert office_id now j =
     (case dget (os_peers (jn_state j)) office_id of
        None \<Rightarrow> (Inl (KeyError office_id), j)
      | Some rec \<Rightarrow> append_change ''upsert'' office_id (Some rec) None now j)"

definition record_tombstone :: "string \<Rightarrow> string \<Rightarrow> int \<Rightarrow> ('sk journal, change) act" where
  "record_tombstone office_id reason now j =
     (if reason = [] then (Inl (ValueError ''reason is required''), j)
      else append_change ''tombstone'' office_id None (Some reason) now j)"

definition oldest_available :: "'sk journal \<Rightarrow> int" where
  "oldest_available j = (case jn_changes j of [] \<Rightarrow> jn_sequence j + 1 | c # _ \<Rightarrow> ch_sequence c)"

definition delta_page :: "'sk journal \<Rightarrow> int \<Rightarrow> int \<Rightarrow> change list" where
  "delta_page j since limit = take (nat limit) (filter (\<lambda>c. ch_sequence c > since) (jn_changes j))"

definition page_end :: "change list \<Rightarrow> int \<Rightarrow> int" where
  "page_end page since = (if page = [] then since else ch_sequence (last page))"

definition manifest_since :: "'sk crypto \<Rightarrow> int \<Rightarrow> int \<Rightarrow> int \<Rightarrow> 'sk journal \<Rightarrow> nat \<times> doc" where
  "manifest_since cr since limit now j =
     (if since < 0 \<or> limit < 1 \<or> limit > jn_max_changes j then (http_bad_request, error_doc ''invalid_delta_request'')
      else if jn_changes j \<noteq> [] \<and> since < oldest_available j - 1 then
        (http_gone, error_doc ''checkpoint_expired'' @
          [(''oldest_available_sequence'', JInt (oldest_available j)), (''current_sequence'', JInt (jn_sequence j)),
           (''full_sync_required'', JBool True)])
      else
        let page = delta_page j since limit; upto = page_end page since in
        (http_ok, signed_doc cr (os_office (jn_state j))
          [(''version'', JStr ''1.0''), (''kind'', JStr ''directory_delta''),
           (''office_id'', JStr (of_office_id (os_office (jn_state j)))), (''generated_at'', JInt now),
           (''from_sequence'', JInt since), (''to_sequence'', JInt upto), (''current_sequence'', JInt (jn_sequence j)),
           (''changes'', JList (map (\<lambda>c. JObj (change_document c)) page)), (''count'', JInt (int (length page))),
           (''more'', JBool (\<exists>c \<in> set (jn_changes j). ch_sequence c > upto))]))"

definition checkpoint :: "'sk journal \<Rightarrow> string \<Rightarrow> int" where
  "checkpoint j peer = (case dget (jn_checkpoints j) peer of None \<Rightarrow> 0 | Some n \<Rightarrow> n)"

section \<open>Applying a delta\<close>

record delta_counts =
  dc_applied :: int
  dc_tombstoned :: int
  dc_skipped :: int
  dc_rejected :: int
  dc_last_sequence :: int

definition reject_change :: "delta_counts \<Rightarrow> delta_counts" where
  "reject_change n = n\<lparr>dc_rejected := dc_rejected n + 1\<rparr>"

definition skip_change :: "delta_counts \<Rightarrow> delta_counts" where
  "skip_change n = n\<lparr>dc_skipped := dc_skipped n + 1\<rparr>"

definition apply_upsert ::
  "'sk crypto \<Rightarrow> string \<Rightarrow> int \<Rightarrow> string \<Rightarrow> delta_counts \<Rightarrow> doc \<Rightarrow> ('sk office_state, delta_counts) act" where
  "apply_upsert cr source sequence office_id n change s =
     (case jget change ''record'' of
        JObj rec \<Rightarrow>
          (case jget rec ''identity'' of
             JObj identity \<Rightarrow>
               if jget identity ''office_id'' \<noteq> JStr office_id \<or> \<not> verify_identity cr identity then ret (reject_change n) s
               else bindS (pure_act (int_of_json (jget_default rec ''updated_at'' (JInt 0)))) (\<lambda>remote.
                 let imported = (\<lambda>trust. [(''office_id'', JStr office_id), (''identity'', JObj identity), (''trust_status'', trust),
                       (''updated_at'', JInt remote), (''identity_verified'', JBool True),
                       (''directory_source'', JStr source), (''directory_sequence'', JInt sequence)]);
                     save = (\<lambda>trust. bindS (office_save_peer (imported trust))
                       (\<lambda>_. ret (n\<lparr>dc_applied := dc_applied n + 1\<rparr>)))
                 in case dget (os_peers s) office_id of
                      None \<Rightarrow> save (JStr ''observed'')
                    | Some existing \<Rightarrow>
                        bindS (pure_act (int_of_json (jget_default existing ''updated_at'' (JInt 0)))) (\<lambda>known.
                          if remote \<le> known then ret (skip_change n)
                          else bindS (pure_act (item existing ''trust_status'')) save)) s
           | _ \<Rightarrow> ret (reject_change n) s)
      | _ \<Rightarrow> ret (reject_change n) s)"

definition apply_tombstone ::
  "string \<Rightarrow> int \<Rightarrow> string \<Rightarrow> int \<Rightarrow> delta_counts \<Rightarrow> doc \<Rightarrow> ('sk office_state, delta_counts) act" where
  "apply_tombstone source sequence office_id now n change s =
     (case dget (os_peers s) office_id of
        None \<Rightarrow> ret (skip_change n) s
      | Some existing \<Rightarrow>
          bindS (pure_act (int_of_json (jget_default change ''changed_at'' (JInt now)))) (\<lambda>moment.
          bindS (office_save_peer
              (dset (dset (dset (dset (dset existing ''federation_status'' (JStr ''withdrawn''))
                ''withdrawn_at'' (JInt moment)) ''withdrawal_reason'' (JStr (py_str (jget_default change ''reason'' (JStr ''withdrawn'')))))
                ''directory_source'' (JStr source)) ''directory_sequence'' (JInt sequence)))
            (\<lambda>_. ret (n\<lparr>dc_tombstoned := dc_tombstoned n + 1\<rparr>))) s)"

definition apply_change ::
  "'sk crypto \<Rightarrow> string \<Rightarrow> int \<Rightarrow> delta_counts \<Rightarrow> json \<Rightarrow> ('sk office_state, delta_counts) act" where
  "apply_change cr source now n change s =
     (case change of
        JObj d \<Rightarrow>
          (case (as_int (jget d ''sequence''), jget d ''office_id'') of
             (Some sequence, JStr office_id) \<Rightarrow>
               if sequence \<le> dc_last_sequence n then ret (reject_change n) s else
               let n1 = n\<lparr>dc_last_sequence := sequence\<rparr> in
               if office_id = of_office_id (os_office s) then ret (skip_change n1) s
               else if jget d ''operation'' = JStr ''upsert'' then apply_upsert cr source sequence office_id n1 d s
               else if jget d ''operation'' = JStr ''tombstone'' then apply_tombstone source sequence office_id now n1 d s
               else ret (reject_change n1) s
           | _ \<Rightarrow> ret (reject_change n) s)
      | _ \<Rightarrow> ret (reject_change n) s)"

fun apply_changes ::
  "'sk crypto \<Rightarrow> string \<Rightarrow> int \<Rightarrow> delta_counts \<Rightarrow> json list \<Rightarrow> ('sk office_state, delta_counts) act" where
  "apply_changes cr source now n [] = ret n"
| "apply_changes cr source now n (c # cs) =
     bindS (apply_change cr source now n c) (\<lambda>n'. apply_changes cr source now n' cs)"

definition on_state :: "('sk office_state, 'a) act \<Rightarrow> ('sk journal, 'a) act" where
  "on_state m j = (let (r, s) = m (jn_state j) in (r, j\<lparr>jn_state := s\<rparr>))"

definition apply_manifest :: "'sk crypto \<Rightarrow> doc \<Rightarrow> int \<Rightarrow> ('sk journal, nat \<times> doc) act" where
  "apply_manifest cr document now j =
     (case (jget document ''office_id'', jget document ''changes'',
            as_int (jget document ''from_sequence''), as_int (jget document ''to_sequence'')) of
        (JStr source, JList changes, Some from_seq, Some to_seq) \<Rightarrow>
          if jget document ''kind'' \<noteq> JStr ''directory_delta'' then ret (http_bad_request, error_doc ''invalid_delta_manifest'') j
          else if int (length changes) > jn_max_changes j \<or> to_seq < from_seq
          then ret (http_bad_request, error_doc ''invalid_delta_range'') j else
          (case dget (os_peers (jn_state j)) source of
             None \<Rightarrow> ret (http_forbidden, error_doc ''unknown_directory_source'') j
           | Some src \<Rightarrow>
               if jget src ''trust_status'' = JStr ''restricted''
               then ret (http_forbidden, error_doc ''restricted_directory_source'') j
               else bindS (pure_act (obj_item src ''identity'')) (\<lambda>identity.
                 if \<not> verify_document cr document identity
                 then ret (http_unprocessable, error_doc ''invalid_delta_signature'')
                 else if from_seq \<noteq> checkpoint j source
                 then ret (http_conflict, error_doc ''checkpoint_mismatch'' @
                   [(''expected_from_sequence'', JInt (checkpoint j source)),
                    (''received_from_sequence'', jget document ''from_sequence'')])
                 else bindS (on_state (apply_changes cr source now
                     \<lparr>dc_applied = 0, dc_tombstoned = 0, dc_skipped = 0, dc_rejected = 0, dc_last_sequence = from_seq\<rparr> changes)) (\<lambda>n.
                   if changes \<noteq> [] \<and> dc_last_sequence n \<noteq> to_seq
                   then ret (http_unprocessable, error_doc ''delta_sequence_mismatch'')
                   else bindS (update_act (\<lambda>j. j\<lparr>jn_checkpoints := dset (jn_checkpoints j) source to_seq\<rparr>)) (\<lambda>_.
                     ret (http_accepted,
                       [(''status'', JStr ''directory_delta_applied''), (''source_office'', JStr source),
                        (''checkpoint'', jget document ''to_sequence''), (''applied'', JInt (dc_applied n)),
                        (''tombstoned'', JInt (dc_tombstoned n)), (''skipped'', JInt (dc_skipped n)),
                        (''rejected'', JInt (dc_rejected n)), (''more'', JBool (truthy (jget document ''more''))),
                        (''signature_verified'', JBool True)])))) j)
      | _ \<Rightarrow> ret (http_bad_request, error_doc ''invalid_delta_manifest'') j)"

end
