(* ===== verification/OfficeProps.thy ===== *)
theory OfficeProps
  imports IncrementalSync
begin

text \<open>
  What the Telegraph office and its directory synchronization promise: replay protection in memory
  and in the store, verified peers, local trust decisions, receipts, contiguous journals, and deltas
  that a subscriber accepts.
\<close>

section \<open>Replay protection\<close>

definition cache_filter :: "(string, rat) dict \<Rightarrow> string \<Rightarrow> rat \<Rightarrow> bool \<times> (string, rat) dict" where
  "cache_filter seen nonce now = replay_accept seen nonce now 3600"

definition store_filter :: "store \<Rightarrow> string \<Rightarrow> rat \<Rightarrow> bool \<times> store" where
  "store_filter s nonce now = accept_nonce nonce now 3600 s"

interpretation cache: nonce_filter cache_filter dict_ok dget 3600
proof
  fix s :: "(string, rat) dict" and n t m
  assume ok: "dict_ok s"
  show "dict_ok (snd (cache_filter s n t))" using ok by (simp add: cache_filter_def replay_accept_def Let_def)
  show acc: "fst (cache_filter s n t) \<longleftrightarrow> (case dget s n of None \<Rightarrow> True | Some t0 \<Rightarrow> t - t0 > 3600)"
    using ok by (auto simp: cache_filter_def replay_accept_def Let_def dget_filter split: option.splits if_splits)
  show "dget (snd (cache_filter s n t)) m =
      (if m = n \<and> fst (cache_filter s n t) then Some t
       else (case dget s m of None \<Rightarrow> None | Some t0 \<Rightarrow> if t - t0 > 3600 then None else Some t0))"
    using ok by (auto simp: cache_filter_def replay_accept_def Let_def dget_filter split: option.splits)
qed

text \<open>The store keeps the same association of nonces and times, so it filters the same way.\<close>

lemma find_row_fst: "find_row fst k rows = map_option (Pair k) (map_of rows k)"
  by (induction rows) auto

lemma store_refines_cache:
  "fst (store_filter s n t) = fst (cache_filter (st_nonces s) n t) \<and>
   (dict_ok (st_nonces s) \<longrightarrow> st_nonces (snd (store_filter s n t)) = snd (cache_filter (st_nonces s) n t))"
proof -
  have live: "filter (\<lambda>(k, ts). \<not> ts < t - 3600) (st_nonces s) = filter (\<lambda>(k, ts). t - ts \<le> 3600) (st_nonces s)"
    by (rule filter_cong) auto
  show ?thesis
  proof (cases "dget (filter (\<lambda>(k, ts). t - ts \<le> 3600) (st_nonces s)) n")
    case None
    then have "n \<notin> set (dkeys (filter (\<lambda>(k, ts). t - ts \<le> 3600) (st_nonces s)))"
      by (simp only: map_of_eq_None_iff list.set_map) simp
    then have "dset (filter (\<lambda>(k, ts). t - ts \<le> 3600) (st_nonces s)) n t = filter (\<lambda>(k, ts). t - ts \<le> 3600) (st_nonces s) @ [(n, t)]"
      by (rule dset_new)
    with None show ?thesis
      by (simp add: store_filter_def cache_filter_def accept_nonce_def replay_accept_def Let_def live find_row_fst)
  next
    case (Some x)
    then show ?thesis
      by (simp add: store_filter_def cache_filter_def accept_nonce_def replay_accept_def Let_def live find_row_fst)
  qed
qed

interpretation replay_store: nonce_filter store_filter "\<lambda>s. dict_ok (st_nonces s)" "\<lambda>s. dget (st_nonces s)" 3600
proof
  fix s :: store and n t m
  assume ok: "dict_ok (st_nonces s)"
  note same = store_refines_cache [of s n t]
  show "dict_ok (st_nonces (snd (store_filter s n t)))" using same ok cache.accept_valid [OF ok] by simp
  show "fst (store_filter s n t) \<longleftrightarrow> (case dget (st_nonces s) n of None \<Rightarrow> True | Some t0 \<Rightarrow> t - t0 > 3600)"
    using same cache.accept_iff [OF ok] by simp
  show "dget (st_nonces (snd (store_filter s n t))) m =
      (if m = n \<and> fst (store_filter s n t) then Some t
       else (case dget (st_nonces s) m of None \<Rightarrow> None | Some t0 \<Rightarrow> if t - t0 > 3600 then None else Some t0))"
    using same ok cache.accept_seen [OF ok] by simp
qed

lemma filters_agree:
  "dict_ok (st_nonces s) \<Longrightarrow> accepted_calls store_filter s calls = accepted_calls cache_filter (st_nonces s) calls"
proof (induction calls arbitrary: s)
  case (Cons c calls)
  obtain n t where c: "c = (n, t)" by (cases c)
  note same = store_refines_cache [of s n t]
  have "dict_ok (st_nonces (snd (store_filter s n t)))" using replay_store.accept_valid Cons.prems by blast
  from Cons.IH [OF this] same Cons.prems c show ?case by (simp add: case_prod_beta)
qed simp

section \<open>Saving peers\<close>

lemma bindS_ret [simp]: "bindS (ret v) f s = f v s" "bindS (raise_err e) f s = (Inl e, s)"
  by (simp_all add: bindS_def ret_def raise_err_def)

lemma bindS_pure_known [simp]: "bindS (pure_act (Inr v)) f s = f v s" "bindS (pure_act (Inl e)) f s = (Inl e, s)"
  by (simp_all add: bindS_def pure_act_def)

declare bindS_update [simp]

lemma ret_simps [simp]: "ret v s = (Inr v, s)" "raise_err e s = (Inl e, s)" "update_act g s = (Inr (), g s)"
  by (simp_all add: ret_def raise_err_def update_act_def)

definition peer_ok :: "'sk crypto \<Rightarrow> string \<Rightarrow> doc \<Rightarrow> bool" where
  "peer_ok cr i p \<longleftrightarrow>
     dget p ''office_id'' = Some (JStr i) \<and>
     (\<exists>identity. dget p ''identity'' = Some (JObj identity) \<and> jget identity ''office_id'' = JStr i \<and>
        verify_identity cr identity) \<and>
     (\<exists>t. dget p ''trust_status'' = Some (JStr t) \<and> t \<in> set trust_levels) \<and>
     (\<exists>n. dget p ''updated_at'' = Some (JInt n))"

definition peers_ok :: "'sk crypto \<Rightarrow> 'sk office_state \<Rightarrow> bool" where
  "peers_ok cr s \<longleftrightarrow> (\<forall>i p. dget (os_peers s) i = Some p \<longrightarrow> peer_ok cr i p)"

lemma save_peer_total:
  assumes "peer_ok cr i rec"
  shows "fst (save_peer rec st) = Inr ()"
  using assms by (auto simp: save_peer_def peer_ok_def item_def sql_text_def)

lemma office_save_peer_is:
  assumes "peer_ok cr i rec"
  obtains s' where "office_save_peer rec s = (Inr (), s')" "os_peers s' = dset (os_peers s) i rec"
    "of_office_id (os_office s') = of_office_id (os_office s)" "os_messages s' = os_messages s" "os_receipts s' = os_receipts s"
proof -
  obtain t where rec: "dget rec ''office_id'' = Some (JStr i)" "dget rec ''trust_status'' = Some (JStr t)"
    using assms by (auto simp: peer_ok_def)
  obtain s1 where s1: "on_store (save_peer rec) s = (Inr (), s1)" "os_peers s1 = os_peers s" "os_office s1 = os_office s"
    "os_messages s1 = os_messages s" "os_receipts s1 = os_receipts s"
  proof (cases "os_store s")
    case (Some st)
    obtain st' where "save_peer rec st = (Inr (), st')" using save_peer_total [OF assms, of st] by (metis prod.collapse)
    with Some show ?thesis by (intro that [of "s\<lparr>os_store := Some st'\<rparr>"]) (simp_all add: on_store_def)
  qed (use that [of s] in \<open>simp add: on_store_def\<close>)
  let ?s2 = "s1\<lparr>os_peers := dset (os_peers s1) i rec,
    os_office := (os_office s1)\<lparr>of_trust := dset (of_trust (os_office s1)) i (JStr t)\<rparr>\<rparr>"
  have "office_save_peer rec s = (Inr (), ?s2)"
    using s1(1) rec by (simp add: office_save_peer_def bindS_def [of "on_store (save_peer rec)"] item_def)
  then show ?thesis by (rule that) (simp_all add: s1(2-5))
qed

text \<open>What directory data may do to an office: add observed peers and refresh known ones.\<close>

definition trust_kept :: "'sk office_state \<Rightarrow> 'sk office_state \<Rightarrow> bool" where
  "trust_kept s s' \<longleftrightarrow>
     of_office_id (os_office s') = of_office_id (os_office s) \<and>
     (\<forall>i p. dget (os_peers s) i = Some p \<longrightarrow>
        (\<exists>p'. dget (os_peers s') i = Some p' \<and> dget p' ''trust_status'' = dget p ''trust_status'')) \<and>
     (\<forall>i p'. dget (os_peers s) i = None \<longrightarrow> dget (os_peers s') i = Some p' \<longrightarrow>
        dget p' ''trust_status'' = Some (JStr ''observed'')) \<and>
     dget (os_peers s') (of_office_id (os_office s)) = dget (os_peers s) (of_office_id (os_office s))"

lemma trust_kept_refl [simp]: "trust_kept s s"
  by (simp add: trust_kept_def)

lemma trust_kept_trans:
  assumes "trust_kept a b" "trust_kept b c"
  shows "trust_kept a c"
proof -
  have "\<exists>p'. dget (os_peers c) i = Some p' \<and> dget p' ''trust_status'' = dget p ''trust_status''"
    if "dget (os_peers a) i = Some p" for i p
  proof -
    obtain q where q: "dget (os_peers b) i = Some q" "dget q ''trust_status'' = dget p ''trust_status''"
      using assms(1) \<open>dget (os_peers a) i = Some p\<close> unfolding trust_kept_def by blast
    obtain r where "dget (os_peers c) i = Some r" "dget r ''trust_status'' = dget q ''trust_status''"
      using assms(2) q(1) unfolding trust_kept_def by blast
    with q(2) show ?thesis by simp
  qed
  moreover have "dget p' ''trust_status'' = Some (JStr ''observed'')"
    if "dget (os_peers a) i = None" "dget (os_peers c) i = Some p'" for i p'
  proof (cases "dget (os_peers b) i")
    case None
    then show ?thesis using assms(2) that(2) unfolding trust_kept_def by blast
  next
    case (Some q)
    then have "dget q ''trust_status'' = Some (JStr ''observed'')" using assms(1) that(1) unfolding trust_kept_def by blast
    moreover have "\<exists>p''. dget (os_peers c) i = Some p'' \<and> dget p'' ''trust_status'' = dget q ''trust_status''"
      using assms(2) Some unfolding trust_kept_def by blast
    ultimately show ?thesis using that(2) by auto
  qed
  ultimately show ?thesis using assms by (simp add: trust_kept_def)
qed

lemma trust_kept_save:
  assumes rec: "peer_ok cr i rec" and other: "i \<noteq> of_office_id (os_office s)" and ok: "peers_ok cr s"
    and trust: "dget rec ''trust_status'' =
      (case dget (os_peers s) i of None \<Rightarrow> Some (JStr ''observed'') | Some p \<Rightarrow> dget p ''trust_status'')"
  shows "fst (office_save_peer rec s) = Inr () \<and>
    peers_ok cr (snd (office_save_peer rec s)) \<and> trust_kept s (snd (office_save_peer rec s))"
proof -
  obtain s' where s': "office_save_peer rec s = (Inr (), s')" "os_peers s' = dset (os_peers s) i rec"
    "of_office_id (os_office s') = of_office_id (os_office s)" using rec by (rule office_save_peer_is)
  have "peers_ok cr s'" using ok rec by (simp add: peers_ok_def s'(2))
  moreover have "trust_kept s s'" using other trust by (auto simp: trust_kept_def s'(2,3) split: option.splits)
  ultimately show ?thesis using s'(1) by simp
qed

definition keeps :: "'sk crypto \<Rightarrow> 'sk office_state \<Rightarrow> 'sk office_state \<Rightarrow> bool" where
  "keeps cr s s' \<longleftrightarrow> (peers_ok cr s \<longrightarrow> peers_ok cr s' \<and> trust_kept s s')"

lemma keeps_refl [simp]: "keeps cr s s"
  by (simp add: keeps_def)

lemma keeps_trans: "keeps cr a b \<Longrightarrow> keeps cr b c \<Longrightarrow> keeps cr a c"
  by (auto simp: keeps_def intro: trust_kept_trans)

lemma keeps_bind:
  assumes "keeps cr s (snd (m s))" "\<And>v s'. m s = (Inr v, s') \<Longrightarrow> keeps cr s' (snd (f v s'))"
  shows "keeps cr s (snd (bindS m f s))"
proof (cases "m s")
  case (Pair r s')
  show ?thesis
  proof (cases r)
    case (Inr v)
    then have "keeps cr s' (snd (f v s'))" "keeps cr s s'" using assms Pair by auto
    then have "keeps cr s (snd (f v s'))" by (rule keeps_trans [rotated])
    then show ?thesis using Pair Inr by (simp add: bindS_def)
  qed (use assms(1) Pair in \<open>simp add: bindS_def\<close>)
qed

lemma keeps_pure_then:
  assumes "\<And>v. r = Inr v \<Longrightarrow> keeps cr s (snd (f v s))"
  shows "keeps cr s (snd (bindS (pure_act r) f s))"
  using assms by (cases r) simp_all

text \<open>Saving a verified record of another office, under the trust status it had.\<close>

lemma keeps_save:
  assumes "i \<noteq> of_office_id (os_office s)"
    and "peers_ok cr s \<Longrightarrow> peer_ok cr i rec \<and> dget rec ''trust_status'' =
      (case dget (os_peers s) i of None \<Rightarrow> Some (JStr ''observed'') | Some p \<Rightarrow> dget p ''trust_status'')"
  shows "keeps cr s (snd (bindS (office_save_peer rec) (\<lambda>_. ret v) s))"
proof -
  have "keeps cr s (snd (office_save_peer rec s))" using trust_kept_save [of cr i rec s] assms by (auto simp: keeps_def)
  then show ?thesis by (rule keeps_bind) simp
qed

lemma known_peer: "peers_ok cr s \<Longrightarrow> dget (os_peers s) i = Some p \<Longrightarrow> peer_ok cr i p"
  by (simp add: peers_ok_def)

lemma peer_trust: "peer_ok cr i p \<Longrightarrow> item p ''trust_status'' = Inr t \<Longrightarrow>
    dget p ''trust_status'' = Some t \<and> (\<exists>u. t = JStr u \<and> u \<in> set trust_levels)"
  by (auto simp: peer_ok_def item_def)

lemma observed_level [simp]: "''observed'' \<in> set trust_levels"
  by (simp add: trust_levels_def)

lemma sync_candidate_keeps: "keeps cr s (snd (sync_candidate cr source n candidate s))"
proof (cases candidate)
  case (JObj d)
  show ?thesis
  proof (cases "\<exists>i identity. jget d ''office_id'' = JStr i \<and> jget d ''identity'' = JObj identity \<and>
      i \<noteq> of_office_id (os_office s) \<and> jget identity ''office_id'' = JStr i \<and> verify_identity cr identity")
    case True
    then obtain i identity where d: "jget d ''office_id'' = JStr i" "jget d ''identity'' = JObj identity"
      "i \<noteq> of_office_id (os_office s)" "jget identity ''office_id'' = JStr i" "verify_identity cr identity" by blast
    show ?thesis
    proof (cases "int_of_json (jget_default d ''updated_at'' (JInt 0))")
      case (Inr remote)
      show ?thesis
      proof (cases "dget (os_peers s) i")
        case None
        have "keeps cr s (snd (bindS (office_save_peer
            [(''office_id'', JStr i), (''identity'', JObj identity), (''trust_status'', JStr ''observed''),
             (''updated_at'', JInt remote), (''identity_verified'', JBool True), (''directory_source'', JStr source)])
            (\<lambda>_. ret (n\<lparr>sc_imported := sc_imported n + 1\<rparr>)) s))"
          by (rule keeps_save [OF d(3)]) (simp add: peer_ok_def d None)
        then show ?thesis using JObj d Inr None by (simp add: sync_candidate_def)
      next
        case (Some old)
        have "keeps cr s (snd (bindS (pure_act (item old ''trust_status'')) (\<lambda>trust. bindS (office_save_peer
            [(''office_id'', JStr i), (''identity'', JObj identity), (''trust_status'', trust),
             (''updated_at'', JInt remote), (''identity_verified'', JBool True), (''directory_source'', JStr source)])
            (\<lambda>_. ret (n\<lparr>sc_updated := sc_updated n + 1\<rparr>))) s))"
          by (rule keeps_pure_then, rule keeps_save [OF d(3)])
            (auto simp: peer_ok_def d Some dest!: peer_trust [OF known_peer [OF _ Some]])
        then show ?thesis using JObj d Inr Some by (simp add: sync_candidate_def split: sum.split)
      qed
    qed (use JObj d in \<open>simp add: sync_candidate_def\<close>)
  next
    case False
    then show ?thesis using JObj by (auto simp: sync_candidate_def split: json.split)
  qed
qed (simp_all add: sync_candidate_def)

lemma sync_loop_keeps: "keeps cr s (snd (sync_loop cr source n cs s))"
proof (induction cs arbitrary: n s)
  case (Cons c cs)
  show ?case unfolding sync_loop.simps by (rule keeps_bind [OF sync_candidate_keeps]) (rule Cons.IH)
qed simp

lemma sync_directory_keeps: "keeps cr s (snd (sync_directory cr document s))"
  unfolding sync_directory_def
  by (auto split: json.split option.split intro!: keeps_pure_then keeps_bind sync_loop_keeps)

section \<open>Applying deltas\<close>

lemma apply_upsert_keeps:
  assumes "i \<noteq> of_office_id (os_office s)"
  shows "keeps cr s (snd (apply_upsert cr source sequence i n change s))"
proof (cases "\<exists>rec identity. jget change ''record'' = JObj rec \<and> jget rec ''identity'' = JObj identity \<and>
    jget identity ''office_id'' = JStr i \<and> verify_identity cr identity")
  case True
  then obtain rec identity where d: "jget change ''record'' = JObj rec" "jget rec ''identity'' = JObj identity"
    "jget identity ''office_id'' = JStr i" "verify_identity cr identity" by blast
  show ?thesis
  proof (cases "int_of_json (jget_default rec ''updated_at'' (JInt 0))")
    case (Inr remote)
    have save: "keeps cr s (snd (bindS (office_save_peer
          [(''office_id'', JStr i), (''identity'', JObj identity), (''trust_status'', trust),
           (''updated_at'', JInt remote), (''identity_verified'', JBool True),
           (''directory_source'', JStr source), (''directory_sequence'', JInt sequence)])
          (\<lambda>_. ret (n\<lparr>dc_applied := dc_applied n + 1\<rparr>)) s))"
      if "peers_ok cr s \<Longrightarrow> (\<exists>u. trust = JStr u \<and> u \<in> set trust_levels) \<and>
        (case dget (os_peers s) i of None \<Rightarrow> Some (JStr ''observed'') | Some p \<Rightarrow> dget p ''trust_status'') = Some trust" for trust
      using that by (intro keeps_save [OF assms]) (auto simp: peer_ok_def d split: option.splits)
    show ?thesis
    proof (cases "dget (os_peers s) i")
      case None
      then show ?thesis using save [of "JStr ''observed''"] d Inr by (simp add: apply_upsert_def Let_def)
    next
      case (Some old)
      have "keeps cr s (snd (bindS (pure_act (item old ''trust_status'')) (\<lambda>trust. bindS (office_save_peer
          [(''office_id'', JStr i), (''identity'', JObj identity), (''trust_status'', trust),
           (''updated_at'', JInt remote), (''identity_verified'', JBool True),
           (''directory_source'', JStr source), (''directory_sequence'', JInt sequence)])
          (\<lambda>_. ret (n\<lparr>dc_applied := dc_applied n + 1\<rparr>))) s))"
        by (rule keeps_pure_then, rule save) (auto simp: Some dest!: peer_trust [OF known_peer [OF _ Some]])
      then show ?thesis using d Inr Some
        by (cases "int_of_json (jget_default old ''updated_at'' (JInt 0))") (auto simp: apply_upsert_def Let_def)
    qed
  qed (use d in \<open>simp add: apply_upsert_def\<close>)
next
  case False
  then show ?thesis by (auto simp: apply_upsert_def split: json.split)
qed

lemma apply_tombstone_keeps:
  assumes "i \<noteq> of_office_id (os_office s)"
  shows "keeps cr s (snd (apply_tombstone source sequence i now n change s))"
proof (cases "dget (os_peers s) i")
  case (Some old)
  have "keeps cr s (snd (bindS (office_save_peer
      (dset (dset (dset (dset (dset old ''federation_status'' (JStr ''withdrawn''))
        ''withdrawn_at'' (JInt moment)) ''withdrawal_reason'' r) ''directory_source'' (JStr source))
        ''directory_sequence'' (JInt sequence))) (\<lambda>_. ret (n\<lparr>dc_tombstoned := dc_tombstoned n + 1\<rparr>)) s))" for moment r
    by (rule keeps_save [OF assms]) (use known_peer [OF _ Some, of cr] in \<open>auto simp: peer_ok_def Some\<close>)
  then show ?thesis using Some by (auto simp: apply_tombstone_def intro: keeps_pure_then)
qed (simp add: apply_tombstone_def)

lemma apply_change_keeps: "keeps cr s (snd (apply_change cr source now n change s))"
proof (cases change)
  case (JObj d)
  then show ?thesis
    by (auto simp: apply_change_def Let_def apply_upsert_keeps apply_tombstone_keeps split: option.split json.split)
qed (simp_all add: apply_change_def)

lemma apply_changes_keeps: "keeps cr s (snd (apply_changes cr source now n cs s))"
proof (induction cs arbitrary: n s)
  case (Cons c cs)
  show ?case unfolding apply_changes.simps by (rule keeps_bind [OF apply_change_keeps]) (rule Cons.IH)
qed simp

text \<open>The shape of \<open>apply_manifest\<close>: nothing changes, or the changes are applied after every check passed.\<close>

definition manifest_passes :: "'sk crypto \<Rightarrow> doc \<Rightarrow> 'sk journal \<Rightarrow> string \<Rightarrow> json list \<Rightarrow> int \<Rightarrow> int \<Rightarrow> bool" where
  "manifest_passes cr document j source changes from_seq to_seq \<longleftrightarrow>
     jget document ''office_id'' = JStr source \<and> jget document ''changes'' = JList changes \<and>
     as_int (jget document ''from_sequence'') = Some from_seq \<and> as_int (jget document ''to_sequence'') = Some to_seq \<and>
     jget document ''kind'' = JStr ''directory_delta'' \<and> int (length changes) \<le> jn_max_changes j \<and> from_seq \<le> to_seq \<and>
     from_seq = checkpoint j source \<and>
     (\<exists>src identity. dget (os_peers (jn_state j)) source = Some src \<and> jget src ''trust_status'' \<noteq> JStr ''restricted'' \<and>
        obj_item src ''identity'' = Inr identity \<and> verify_document cr document identity)"

definition start_counts :: "int \<Rightarrow> delta_counts" where
  "start_counts from_seq =
     \<lparr>dc_applied = 0, dc_tombstoned = 0, dc_skipped = 0, dc_rejected = 0, dc_last_sequence = from_seq\<rparr>"

definition accepted_doc :: "doc \<Rightarrow> string \<Rightarrow> delta_counts \<Rightarrow> doc" where
  "accepted_doc document source n =
     [(''status'', JStr ''directory_delta_applied''), (''source_office'', JStr source),
      (''checkpoint'', jget document ''to_sequence''), (''applied'', JInt (dc_applied n)),
      (''tombstoned'', JInt (dc_tombstoned n)), (''skipped'', JInt (dc_skipped n)),
      (''rejected'', JInt (dc_rejected n)), (''more'', JBool (truthy (jget document ''more''))),
      (''signature_verified'', JBool True)]"

lemma apply_manifest_passed:
  assumes "manifest_passes cr document j source changes from_seq to_seq"
  shows "apply_manifest cr document now j =
    (case apply_changes cr source now (start_counts from_seq) changes (jn_state j) of
       (Inl e, s) \<Rightarrow> (Inl e, j\<lparr>jn_state := s\<rparr>)
     | (Inr n, s) \<Rightarrow>
         if changes \<noteq> [] \<and> dc_last_sequence n \<noteq> to_seq
         then (Inr (http_unprocessable, error_doc ''delta_sequence_mismatch''), j\<lparr>jn_state := s\<rparr>)
         else (Inr (http_accepted, accepted_doc document source n),
               j\<lparr>jn_state := s, jn_checkpoints := dset (jn_checkpoints j) source to_seq\<rparr>))"
  using assms
  by (auto simp: manifest_passes_def apply_manifest_def start_counts_def bindS_def [of "on_state _"] on_state_def
    accepted_doc_def split: prod.split sum.split)

definition turned_down :: "'s \<Rightarrow> (nat \<times> doc) outcome \<times> 's \<Rightarrow> bool" where
  "turned_down j p \<longleftrightarrow> snd p = j \<and> (\<forall>d. fst p \<noteq> Inr (http_accepted, d))"

lemma turned_down_simps:
  "turned_down j (Inl e, j)"
  "turned_down j (Inr (c, d), j) \<longleftrightarrow> c \<noteq> http_accepted"
  "turned_down j ((if b then m else m') j) \<longleftrightarrow> (if b then turned_down j (m j) else turned_down j (m' j))"
  "turned_down j (if b then x else y) \<longleftrightarrow> (if b then turned_down j x else turned_down j y)"
  by (auto simp: turned_down_def)

lemma refusal_codes:
  "http_bad_request \<noteq> http_accepted" "http_forbidden \<noteq> http_accepted" "http_unprocessable \<noteq> http_accepted"
  "http_conflict \<noteq> http_accepted"
  by (simp_all add: http_accepted_def http_bad_request_def http_forbidden_def http_unprocessable_def http_conflict_def)

lemma apply_manifest_refused:
  assumes "\<And>source changes from_seq to_seq. \<not> manifest_passes cr document j source changes from_seq to_seq"
  shows "turned_down j (apply_manifest cr document now j)"
proof (cases "\<exists>source changes from_seq to_seq. jget document ''office_id'' = JStr source \<and>
    jget document ''changes'' = JList changes \<and> as_int (jget document ''from_sequence'') = Some from_seq \<and>
    as_int (jget document ''to_sequence'') = Some to_seq")
  case True
  then obtain source changes from_seq to_seq where d: "jget document ''office_id'' = JStr source"
    "jget document ''changes'' = JList changes" "as_int (jget document ''from_sequence'') = Some from_seq"
    "as_int (jget document ''to_sequence'') = Some to_seq" by blast
  show ?thesis
  proof (cases "dget (os_peers (jn_state j)) source")
    case (Some src)
    show ?thesis
    proof (cases "obj_item src ''identity''")
      case (Inr identity)
      have "\<not> (jget document ''kind'' = JStr ''directory_delta'' \<and> int (length changes) \<le> jn_max_changes j \<and> from_seq \<le> to_seq \<and>
          jget src ''trust_status'' \<noteq> JStr ''restricted'' \<and> verify_document cr document identity \<and> from_seq = checkpoint j source)"
        using d Some Inr assms [of source changes from_seq to_seq] by (auto simp: manifest_passes_def)
      then show ?thesis
        by (simp add: apply_manifest_def d Some turned_down_simps refusal_codes Inr not_le) blast
    qed (use d Some in \<open>simp add: apply_manifest_def turned_down_simps refusal_codes\<close>)
  qed (use d in \<open>simp add: apply_manifest_def turned_down_simps refusal_codes\<close>)
next
  case False
  then show ?thesis
    by (auto simp: apply_manifest_def turned_down_simps refusal_codes split: json.split option.split)
qed

lemma apply_manifest_keeps: "keeps cr (jn_state j) (jn_state (snd (apply_manifest cr document now j)))"
proof (cases "\<exists>source changes from_seq to_seq. manifest_passes cr document j source changes from_seq to_seq")
  case True
  then obtain source changes from_seq to_seq where m: "manifest_passes cr document j source changes from_seq to_seq" by blast
  show ?thesis
    using apply_changes_keeps [of cr "jn_state j" source now "start_counts from_seq" changes]
    unfolding apply_manifest_passed [OF m] by (auto split: prod.split sum.split)
next
  case False
  then show ?thesis using apply_manifest_refused [of cr document j now] by (simp add: turned_down_def)
qed

text \<open>A checkpoint never moves back, and moves only to the end of an accepted delta.\<close>

lemma apply_manifest_checkpoint: "checkpoint j peer \<le> checkpoint (snd (apply_manifest cr document now j)) peer"
proof (cases "\<exists>source changes from_seq to_seq. manifest_passes cr document j source changes from_seq to_seq")
  case True
  then obtain source changes from_seq to_seq where m: "manifest_passes cr document j source changes from_seq to_seq" by blast
  then have "checkpoint j source \<le> to_seq" by (simp add: manifest_passes_def)
  then show ?thesis unfolding apply_manifest_passed [OF m]
    by (auto simp: checkpoint_def split: prod.split sum.split)
next
  case False
  then show ?thesis using apply_manifest_refused [of cr document j now] by (simp add: turned_down_def)
qed

section \<open>The journal as a machine\<close>

lemma bindS_rel:
  assumes "R s (snd (m s))" "\<And>v s'. m s = (Inr v, s') \<Longrightarrow> R s' (snd (f v s'))" "\<And>a b c. R a b \<Longrightarrow> R b c \<Longrightarrow> R a c"
  shows "R s (snd (bindS m f s))"
proof (cases "m s")
  case (Pair r s')
  then show ?thesis using assms(1,2) assms(3) [of s s'] by (cases r) (auto simp: bindS_def)
qed

definition same_peers :: "'sk office_state \<Rightarrow> 'sk office_state \<Rightarrow> bool" where
  "same_peers s s' \<longleftrightarrow> os_peers s' = os_peers s"

lemma same_peers_trans: "same_peers a b \<Longrightarrow> same_peers b c \<Longrightarrow> same_peers a c"
  by (simp add: same_peers_def)

lemma same_peers_basic [simp]:
  "same_peers s s" "same_peers s (snd (on_store m s))" "same_peers s (snd (on_office mo s))"
  "same_peers s (snd (office_accept_nonce nonce now s))" "same_peers s (snd (pure_act r s))"
  by (auto simp: same_peers_def on_store_def on_office_def office_accept_nonce_def pure_act_def case_prod_beta
    split: option.split sum.split prod.split)

lemma same_peers_update: "(\<And>s. os_peers (g s) = os_peers s) \<Longrightarrow> same_peers s (snd (update_act g s))"
  by (simp add: same_peers_def)

lemma same_peers_bind:
  "same_peers s (snd (m s)) \<Longrightarrow> (\<And>v s'. same_peers s' (snd (f v s'))) \<Longrightarrow> same_peers s (snd (bindS m f s))"
  by (rule bindS_rel [where R = same_peers]) (auto intro: same_peers_trans)

lemma record_receipt_peers [simp]: "same_peers s (snd (record_receipt receipt t s))"
  unfolding record_receipt_def by (intro same_peers_bind same_peers_basic same_peers_update) simp

lemma accept_message_peers: "same_peers s (snd (accept_message cr sha env now rid s))"
  unfolding accept_message_def Let_def
  by (auto split: option.split intro!: same_peers_bind same_peers_update)

lemma external_receipt_peers: "same_peers s (snd (record_external_receipt cr document now s))"
  unfolding record_external_receipt_def
  by (auto split: option.split json.split intro!: same_peers_bind same_peers_update)

lemma register_peer_ok:
  assumes ok: "peers_ok cr s"
  shows "peers_ok cr (snd (register_peer cr document now s))"
proof (cases "\<exists>i identity trust. jget document ''office_id'' = JStr i \<and> jget document ''identity'' = JObj identity \<and>
    jget identity ''office_id'' = JStr i \<and> hashable (jget_default document ''trust_status'' (JStr ''observed'')) = Inr trust \<and>
    trust \<in> JStr ` set trust_levels \<and> verify_identity cr identity")
  case True
  then obtain i identity trust where d: "jget document ''office_id'' = JStr i" "jget document ''identity'' = JObj identity"
    "jget identity ''office_id'' = JStr i" "hashable (jget_default document ''trust_status'' (JStr ''observed'')) = Inr trust"
    "trust \<in> JStr ` set trust_levels" "verify_identity cr identity" by blast
  let ?rec = "[(''office_id'', JStr i), (''identity'', JObj identity), (''trust_status'', trust),
     (''updated_at'', JInt now), (''identity_verified'', JBool True)]"
  have rec: "peer_ok cr i ?rec" using d by (auto simp: peer_ok_def)
  obtain s' where s': "office_save_peer ?rec s = (Inr (), s')" "os_peers s' = dset (os_peers s) i ?rec"
    using rec by (rule office_save_peer_is)
  have "peers_ok cr s'" using ok rec by (simp add: peers_ok_def s'(2))
  then show ?thesis using d s'(1) by (simp add: register_peer_def Let_def bindS_def [of "office_save_peer _"])
next
  case False
  have "snd (register_peer cr document now s) = s"
  proof (cases "\<exists>i identity. jget document ''office_id'' = JStr i \<and> jget document ''identity'' = JObj identity")
    case True
    then obtain i identity where d: "jget document ''office_id'' = JStr i" "jget document ''identity'' = JObj identity" by blast
    show ?thesis
      using False d by (cases "hashable (jget_default document ''trust_status'' (JStr ''observed''))")
        (simp_all add: register_peer_def)
  next
    case False
    then show ?thesis by (auto simp: register_peer_def split: json.split)
  qed
  then show ?thesis using ok by simp
qed

datatype 'sk journal_op =
    JRegister doc int
  | JSyncDirectory doc
  | JMessage doc rat string
  | JReceipt doc int
  | JApply doc int
  | JUpsert string int
  | JTombstone string string int

fun journal_step :: "'sk crypto \<Rightarrow> (string \<Rightarrow> string) \<Rightarrow> 'sk journal \<Rightarrow> 'sk journal_op \<Rightarrow> 'sk journal" where
  "journal_step cr sha j (JRegister d now) = snd (on_state (register_peer cr d now) j)"
| "journal_step cr sha j (JSyncDirectory d) = snd (on_state (sync_directory cr d) j)"
| "journal_step cr sha j (JMessage env now rid) = snd (on_state (accept_message cr sha env now rid) j)"
| "journal_step cr sha j (JReceipt d now) = snd (on_state (record_external_receipt cr d now) j)"
| "journal_step cr sha j (JApply d now) = snd (apply_manifest cr d now j)"
| "journal_step cr sha j (JUpsert i now) = snd (record_upsert i now j)"
| "journal_step cr sha j (JTombstone i reason now) = snd (record_tombstone i reason now j)"

definition change_ok :: "change \<Rightarrow> bool" where
  "change_ok c \<longleftrightarrow> (case ch_record c of None \<Rightarrow> True | Some r \<Rightarrow> \<exists>n. dget r ''updated_at'' = Some (JInt n))"

definition journal_ok :: "'sk journal \<Rightarrow> bool" where
  "journal_ok j \<longleftrightarrow> 1 \<le> jn_max_changes j \<and> int (length (jn_changes j)) \<le> jn_max_changes j \<and>
     int (length (jn_changes j)) \<le> jn_sequence j \<and>
     map ch_sequence (jn_changes j) = [jn_sequence j - int (length (jn_changes j)) + 1..jn_sequence j] \<and>
     (\<forall>c \<in> set (jn_changes j). change_ok c)"

definition journal_inv :: "'sk crypto \<Rightarrow> 'sk journal \<Rightarrow> bool" where
  "journal_inv cr j \<longleftrightarrow> peers_ok cr (jn_state j) \<and> journal_ok j"

lemma on_state_simps [simp]:
  "jn_state (snd (on_state m j)) = snd (m (jn_state j))" "jn_changes (snd (on_state m j)) = jn_changes j"
  "jn_sequence (snd (on_state m j)) = jn_sequence j" "jn_max_changes (snd (on_state m j)) = jn_max_changes j"
  "jn_checkpoints (snd (on_state m j)) = jn_checkpoints j"
  by (simp_all add: on_state_def case_prod_beta)

lemma on_state_journal_ok [simp]: "journal_ok (snd (on_state m j)) = journal_ok j"
  by (simp add: journal_ok_def)

lemma apply_manifest_journal: "jn_changes (snd (apply_manifest cr d now j)) = jn_changes j"
  "jn_sequence (snd (apply_manifest cr d now j)) = jn_sequence j" "jn_max_changes (snd (apply_manifest cr d now j)) = jn_max_changes j"
proof (atomize (full), cases "\<exists>source changes from_seq to_seq. manifest_passes cr d j source changes from_seq to_seq")
  case True
  then obtain source changes from_seq to_seq where m: "manifest_passes cr d j source changes from_seq to_seq" by blast
  show "jn_changes (snd (apply_manifest cr d now j)) = jn_changes j \<and>
    jn_sequence (snd (apply_manifest cr d now j)) = jn_sequence j \<and> jn_max_changes (snd (apply_manifest cr d now j)) = jn_max_changes j"
    unfolding apply_manifest_passed [OF m] by (auto split: prod.split sum.split)
next
  case False
  then show "jn_changes (snd (apply_manifest cr d now j)) = jn_changes j \<and>
    jn_sequence (snd (apply_manifest cr d now j)) = jn_sequence j \<and> jn_max_changes (snd (apply_manifest cr d now j)) = jn_max_changes j"
    using apply_manifest_refused [of cr d j now] by (simp add: turned_down_def)
qed

lemma map_last_n: "map f (last_n n xs) = last_n n (map f xs)"
  by (simp add: last_n_def drop_map)

lemma upto_snoc: "i \<le> j + 1 \<Longrightarrow> [i..j + 1] = [i..j] @ [j + 1]" for i j :: int
  using upto_rec2 [of i "j + 1"] by simp

lemma drop_upto: "drop k [i..j] = [i + int k..j]" for i j :: int
proof (induction k arbitrary: i)
  case (Suc k)
  then show ?case by (cases "i \<le> j") (simp_all add: upto_rec1 ac_simps)
qed simp

lemma append_change_ok:
  assumes "journal_ok j" "case rec of None \<Rightarrow> True | Some r \<Rightarrow> \<exists>n. dget r ''updated_at'' = Some (JInt n)"
  shows "journal_ok (snd (append_change operation i rec reason now j))"
proof -
  let ?n = "length (jn_changes j)"
  let ?c = "\<lparr>ch_sequence = jn_sequence j + 1, ch_operation = operation, ch_office_id = i, ch_changed_at = now,
      ch_record = rec, ch_reason = reason\<rparr>"
  have j: "1 \<le> jn_max_changes j" "int ?n \<le> jn_max_changes j" "int ?n \<le> jn_sequence j"
      "map ch_sequence (jn_changes j) = [jn_sequence j - int ?n + 1..jn_sequence j]" "\<forall>c \<in> set (jn_changes j). change_ok c"
    using assms(1) by (simp_all add: journal_ok_def)
  have c: "change_ok ?c" using assms(2) by (simp add: change_ok_def)
  have seqs: "map ch_sequence (jn_changes j @ [?c]) = [jn_sequence j - int ?n + 1..jn_sequence j + 1]"
    using j(4) upto_snoc [of "jn_sequence j - int ?n + 1" "jn_sequence j"] by simp
  show ?thesis
  proof (cases "int (Suc ?n) > jn_max_changes j")
    case True
    then have m: "jn_max_changes j = int ?n" using j(2) by simp
    have cut: "last_n (jn_max_changes j) (jn_changes j @ [?c]) = drop 1 (jn_changes j @ [?c])"
      by (simp add: last_n_def m)
    have "map ch_sequence (drop 1 (jn_changes j @ [?c])) = [jn_sequence j + 1 - int ?n + 1..jn_sequence j + 1]"
      by (simp only: drop_map [symmetric] seqs drop_upto) simp
    moreover have "set (drop 1 (jn_changes j @ [?c])) \<subseteq> set (jn_changes j @ [?c])" by (rule set_drop_subset)
    moreover have "length (drop 1 (jn_changes j @ [?c])) = ?n" by simp
    ultimately show ?thesis
      using True j c m cut by (auto simp: journal_ok_def append_change_def Let_def)
  next
    case False
    then show ?thesis using j c seqs by (auto simp: journal_ok_def append_change_def Let_def)
  qed
qed

lemma journal_step_inv: "journal_inv cr j \<Longrightarrow> journal_inv cr (journal_step cr sha j op)"
proof (cases op)
  case (JApply d now)
  then show "journal_inv cr j \<Longrightarrow> ?thesis"
    using apply_manifest_keeps [of cr j d now]
    by (simp add: journal_inv_def keeps_def journal_ok_def apply_manifest_journal)
next
  case (JSyncDirectory d)
  then show "journal_inv cr j \<Longrightarrow> ?thesis"
    using sync_directory_keeps [of cr "jn_state j" d] by (simp add: journal_inv_def keeps_def)
next
  case (JMessage env now rid)
  then show "journal_inv cr j \<Longrightarrow> ?thesis"
    using accept_message_peers [of "jn_state j" cr sha env now rid] by (simp add: journal_inv_def peers_ok_def same_peers_def)
next
  case (JReceipt d now)
  then show "journal_inv cr j \<Longrightarrow> ?thesis"
    using external_receipt_peers [of "jn_state j" cr d now] by (simp add: journal_inv_def peers_ok_def same_peers_def)
next
  case (JUpsert i now)
  show ?thesis if inv: "journal_inv cr j"
  proof (cases "dget (os_peers (jn_state j)) i")
    case (Some rec)
    then have "\<exists>n. dget rec ''updated_at'' = Some (JInt n)" using inv by (auto simp: journal_inv_def peers_ok_def peer_ok_def)
    then have "journal_ok (snd (append_change ''upsert'' i (Some rec) None now j))"
      using inv by (intro append_change_ok) (simp_all add: journal_inv_def)
    then show ?thesis using JUpsert Some inv by (simp add: record_upsert_def journal_inv_def append_change_def Let_def)
  qed (use JUpsert inv in \<open>simp add: record_upsert_def\<close>)
next
  case (JTombstone i reason now)
  show ?thesis if inv: "journal_inv cr j"
  proof -
    have "journal_ok (snd (append_change ''tombstone'' i None (Some reason) now j))"
      using inv by (intro append_change_ok) (simp_all add: journal_inv_def)
    then show ?thesis using JTombstone inv by (simp add: record_tombstone_def journal_inv_def append_change_def Let_def)
  qed
qed (simp add: journal_inv_def register_peer_ok)

lemma journal_checkpoint: "checkpoint j peer \<le> checkpoint (journal_step cr sha j op) peer"
proof (cases op)
  case (JApply d now)
  then show ?thesis by (simp add: apply_manifest_checkpoint)
qed (auto simp: checkpoint_def record_upsert_def record_tombstone_def append_change_def Let_def split: option.split)

interpretation journal: monotone_machine "journal_step cr sha" "journal_inv cr" "\<lambda>j. checkpoint j peer" for cr sha peer
proof
  show "journal_inv cr (journal_step cr sha j op)" if "journal_inv cr j" for cr :: "'b crypto" and sha j op
    using that by (rule journal_step_inv)
qed (rule journal_checkpoint)

section \<open>Pages of the journal\<close>

lemma take_upto: "take k [i..j] = [i..min (i + int k - 1) j]" for i j :: int
proof (induction k arbitrary: i)
  case (Suc k)
  then show ?case by (cases "i \<le> j") (simp_all add: upto_rec1 ac_simps)
qed simp

lemma filter_later:
  "map ch_sequence cs = [a + 1..b] \<Longrightarrow> a \<le> since \<Longrightarrow>
   filter (\<lambda>c. ch_sequence c > since) cs = drop (nat (since - a)) cs"
proof (induction cs arbitrary: a)
  case (Cons c cs)
  have "a + 1 \<le> b" using Cons.prems(1) by (cases "a + 1 \<le> b") auto
  then have c: "ch_sequence c = a + 1" "map ch_sequence cs = [(a + 1) + 1..b]"
    using Cons.prems(1) by (simp_all add: upto_rec1)
  show ?case
  proof (cases "since = a")
    case True
    have "\<forall>x \<in> set (c # cs). ch_sequence x > a" using Cons.prems(1) by (metis atLeastAtMost_iff image_eqI list.set_map set_upto zless_add1_eq linorder_not_le order_le_less_trans less_add_one order_less_le_trans)
    then have "filter (\<lambda>x. ch_sequence x > a) (c # cs) = c # cs" by (intro filter_True)
    then show ?thesis using True by simp
  next
    case False
    then have "nat (since - a) = Suc (nat (since - (a + 1)))" using Cons.prems(2) by simp
    then show ?thesis using Cons.IH [OF c(2)] Cons.prems(2) False c(1) by simp
  qed
qed simp

lemma delta_page_is:
  assumes j: "journal_ok j" and since: "oldest_available j - 1 \<le> since" "since \<le> jn_sequence j" and lim: "1 \<le> limit"
  shows "map ch_sequence (delta_page j since limit) = [since + 1..min (since + limit) (jn_sequence j)] \<and>
    page_end (delta_page j since limit) since = min (since + limit) (jn_sequence j)"
proof -
  let ?a = "jn_sequence j - int (length (jn_changes j))"
  have seqs: "map ch_sequence (jn_changes j) = [?a + 1..jn_sequence j]" using j by (simp add: journal_ok_def)
  have a: "?a \<le> since"
  proof (cases "jn_changes j")
    case (Cons c cs)
    then have "ch_sequence c = ?a + 1" using seqs by (cases "?a + 1 \<le> jn_sequence j") (auto simp: upto_rec1)
    then show ?thesis using since(1) Cons by (simp add: oldest_available_def)
  qed (use since in \<open>simp add: oldest_available_def\<close>)
  have page: "delta_page j since limit = take (nat limit) (drop (nat (since - ?a)) (jn_changes j))"
    using filter_later [OF seqs a] by (simp add: delta_page_def)
  have "map ch_sequence (delta_page j since limit) = take (nat limit) (drop (nat (since - ?a)) [?a + 1..jn_sequence j])"
    by (simp only: page take_map [symmetric] drop_map [symmetric] seqs)
  also have "\<dots> = [since + 1..min (since + limit) (jn_sequence j)]"
    using a lim by (simp add: drop_upto take_upto ac_simps)
  finally have m: "map ch_sequence (delta_page j since limit) = [since + 1..min (since + limit) (jn_sequence j)]" .
  have "page_end (delta_page j since limit) since = min (since + limit) (jn_sequence j)"
  proof (cases "delta_page j since limit = []")
    case True
    then have "min (since + limit) (jn_sequence j) < since + 1" using m by simp
    then show ?thesis using True since(2) lim by (simp add: page_end_def)
  next
    case False
    then have "ch_sequence (last (delta_page j since limit)) = last [since + 1..min (since + limit) (jn_sequence j)]"
      using last_map [of "delta_page j since limit" ch_sequence] m by simp
    moreover have "since + 1 \<le> min (since + limit) (jn_sequence j)" using False m by (metis Nil_is_map_conv upto_empty not_le)
    ultimately show ?thesis using False by (simp add: page_end_def upto_rec2 del: min_less_iff_conj)
  qed
  with m show ?thesis by simp
qed

lemma page_changes: "c \<in> set (delta_page j since limit) \<Longrightarrow> c \<in> set (jn_changes j) \<and> since < ch_sequence c"
  unfolding delta_page_def using set_take_subset by fastforce

section \<open>A published delta is accepted\<close>

lemma jget_simps:
  "jget [] k = JNull" "jget ((k', v) # d) k = (if k = k' then v else jget d k)"
  "jget (dset d k' v) k = (if k = k' then v else jget d k)"
  by (simp_all add: jget_def)

lemma sign_verifies:
  assumes "signatures_verify cr" "CHR ''#'' \<notin> set (of_office_id ofc)"
  shows "verify_document cr (signed_doc cr ofc d) (identity_document cr ofc)"
proof -
  have key: "before_first (CHR ''#'') (of_office_id ofc @ ''#signing-1'') = of_office_id ofc"
    using before_first_append [OF assms(2), of "''signing-1''"] by simp
  have id: "jget (identity_document cr ofc) ''office_id'' = JStr (of_office_id ofc)"
    by (simp add: identity_document_def signed_doc_def jget_def)
  have keys: "jget_default (identity_document cr ofc) ''keys'' (JList []) =
      JList [JObj [(''key_id'', JStr (of_office_id ofc @ ''#signing-1'')), (''purpose'', JStr ''office_signing''),
           (''algorithm'', JStr ''Ed25519''), (''public_key'', JStr (office_public_key cr ofc)),
           (''not_before'', JStr ''2026-07-22T00:00:00Z''), (''status'', JStr ''active'')]]"
    by (simp add: identity_document_def signed_doc_def jget_default_def)
  have "signing_key_from_identity (identity_document cr ofc) (of_office_id ofc @ ''#signing-1'') =
      Inr (ed_public cr (of_signing_key ofc))"
    using assms(1) by (simp add: signing_key_from_identity_def key id keys jget_simps office_public_key_def
      decode_b64 signatures_verify_def)
  then show ?thesis
    using assms(1) by (simp add: verify_document_def signed_doc_def office_sign_def jget_simps decode_b64 signatures_verify_def)
qed

lemma office_save_then:
  assumes "peer_ok cr i rec"
  shows "\<exists>s'. bindS (office_save_peer rec) (\<lambda>_. ret v) s = (Inr v, s')"
proof -
  obtain s' where "office_save_peer rec s = (Inr (), s')" using assms by (rule office_save_peer_is)
  then show ?thesis by (simp add: bindS_def)
qed

text \<open>One change of a published delta never raises and always advances the position.\<close>

lemma apply_upsert_total:
  assumes "peers_ok cr s" "jget d ''record'' = JObj rec" "dget rec ''updated_at'' = Some (JInt u)"
  shows "\<exists>n' s'. apply_upsert cr source sequence i n d s = (Inr n', s') \<and> dc_last_sequence n' = dc_last_sequence n"
proof (cases "\<exists>identity. jget rec ''identity'' = JObj identity \<and> jget identity ''office_id'' = JStr i \<and> verify_identity cr identity")
  case True
  then obtain identity where idn: "jget rec ''identity'' = JObj identity" "jget identity ''office_id'' = JStr i"
    "verify_identity cr identity" by blast
  have up: "int_of_json (jget_default rec ''updated_at'' (JInt 0)) = Inr u" using assms(3) by (simp add: jget_default_def)
  have save: "\<exists>s'. bindS (office_save_peer
          [(''office_id'', JStr i), (''identity'', JObj identity), (''trust_status'', JStr t),
           (''updated_at'', JInt u), (''identity_verified'', JBool True),
           (''directory_source'', JStr source), (''directory_sequence'', JInt sequence)])
          (\<lambda>_. ret (n\<lparr>dc_applied := dc_applied n + 1\<rparr>)) s = (Inr (n\<lparr>dc_applied := dc_applied n + 1\<rparr>), s')"
    if "t \<in> set trust_levels" for t
    using that by (intro office_save_then [where i = i and cr = cr]) (simp add: peer_ok_def idn)
  show ?thesis
  proof (cases "dget (os_peers s) i")
    case None
    then show ?thesis using save [of "''observed''"] assms(2) idn up by (auto simp: apply_upsert_def Let_def)
  next
    case (Some old)
    have "peer_ok cr i old" using assms(1) Some by (rule known_peer)
    then obtain t k where "dget old ''trust_status'' = Some (JStr t)" "t \<in> set trust_levels" "dget old ''updated_at'' = Some (JInt k)"
      by (auto simp: peer_ok_def)
    then show ?thesis using save [of t] assms(2) idn up Some
      by (auto simp: apply_upsert_def Let_def item_def jget_default_def skip_change_def)
  qed
next
  case False
  then show ?thesis using assms(2) by (auto simp: apply_upsert_def reject_change_def split: json.split)
qed

lemma apply_tombstone_total:
  assumes "peers_ok cr s" "dget d ''changed_at'' = Some (JInt t)"
  shows "\<exists>n' s'. apply_tombstone source sequence i now n d s = (Inr n', s') \<and> dc_last_sequence n' = dc_last_sequence n"
proof (cases "dget (os_peers s) i")
  case (Some old)
  have "peer_ok cr i old" using assms(1) Some by (rule known_peer)
  then have "peer_ok cr i (dset (dset (dset (dset (dset old ''federation_status'' (JStr ''withdrawn''))
        ''withdrawn_at'' (JInt t)) ''withdrawal_reason'' r) ''directory_source'' (JStr source))
        ''directory_sequence'' (JInt sequence))" for r by (auto simp: peer_ok_def)
  from office_save_then [OF this] show ?thesis
    using Some assms(2) by (fastforce simp: apply_tombstone_def jget_default_def)
qed (simp add: apply_tombstone_def skip_change_def)

lemma change_document_fields:
  "jget (change_document c) ''sequence'' = JInt (ch_sequence c)" "jget (change_document c) ''office_id'' = JStr (ch_office_id c)"
  "jget (change_document c) ''operation'' = JStr (ch_operation c)"
  "jget (change_document c) ''record'' = (case ch_record c of None \<Rightarrow> JNull | Some r \<Rightarrow> JObj r)"
  "dget (change_document c) ''changed_at'' = Some (JInt (ch_changed_at c))"
  by (auto simp: change_document_def jget_simps split: option.split)

lemma apply_change_total:
  assumes "peers_ok cr s" "change_ok c" "dc_last_sequence n < ch_sequence c"
  shows "\<exists>n' s'. apply_change cr source now n (JObj (change_document c)) s = (Inr n', s') \<and>
    dc_last_sequence n' = ch_sequence c"
proof -
  let ?n = "n\<lparr>dc_last_sequence := ch_sequence c\<rparr>"
  have up: "\<exists>n' s'. apply_upsert cr source (ch_sequence c) (ch_office_id c) ?n (change_document c) s = (Inr n', s') \<and>
      dc_last_sequence n' = ch_sequence c"
  proof (cases "ch_record c")
    case None
    then show ?thesis by (simp add: apply_upsert_def change_document_fields reject_change_def)
  next
    case (Some r)
    then obtain u where "dget r ''updated_at'' = Some (JInt u)" using assms(2) by (auto simp: change_ok_def)
    moreover have "jget (change_document c) ''record'' = JObj r" using Some by (simp add: change_document_fields)
    ultimately show ?thesis using apply_upsert_total [OF assms(1), of "change_document c" r u source "ch_sequence c" "ch_office_id c" ?n] by simp
  qed
  have tomb: "\<exists>n' s'. apply_tombstone source (ch_sequence c) (ch_office_id c) now ?n (change_document c) s = (Inr n', s') \<and>
      dc_last_sequence n' = ch_sequence c"
    using apply_tombstone_total [OF assms(1) change_document_fields(5), of source "ch_sequence c" "ch_office_id c" now ?n] by simp
  show ?thesis
    using assms(3) up tomb
    by (simp add: apply_change_def change_document_fields Let_def skip_change_def reject_change_def)
qed

lemma apply_changes_total:
  assumes "peers_ok cr s" "\<forall>c \<in> set cs. change_ok c" "sorted_wrt (<) (dc_last_sequence n # map ch_sequence cs)"
  shows "\<exists>n' s'. apply_changes cr source now n (map (\<lambda>c. JObj (change_document c)) cs) s = (Inr n', s') \<and>
    dc_last_sequence n' = (if cs = [] then dc_last_sequence n else ch_sequence (last cs))"
  using assms
proof (induction cs arbitrary: n s)
  case (Cons c cs)
  obtain n1 s1 where step: "apply_change cr source now n (JObj (change_document c)) s = (Inr n1, s1)"
    "dc_last_sequence n1 = ch_sequence c"
    using apply_change_total [of cr s c n source now] Cons.prems by auto
  have "peers_ok cr s1" using apply_change_keeps [of cr s source now n "JObj (change_document c)"] step Cons.prems(1)
    by (simp add: keeps_def)
  then obtain n2 s2 where "apply_changes cr source now n1 (map (\<lambda>c. JObj (change_document c)) cs) s1 = (Inr n2, s2)"
    "dc_last_sequence n2 = (if cs = [] then dc_last_sequence n1 else ch_sequence (last cs))"
    using Cons.IH [of s1 n1] Cons.prems step(2) by auto
  then show ?case using step by (simp add: bindS_def)
qed simp

definition reachable_journal :: "'sk crypto \<Rightarrow> (string \<Rightarrow> string) \<Rightarrow> 'sk journal \<Rightarrow> bool" where
  "reachable_journal cr sha j \<longleftrightarrow>
     (\<exists>s m j0 ops. os_peers s = [] \<and> new_journal s m = Inr j0 \<and> j = foldl (journal_step cr sha) j0 ops)"

lemma new_journal_inv: "os_peers s = [] \<Longrightarrow> new_journal s m = Inr j \<Longrightarrow> journal_inv cr j"
  by (auto simp: new_journal_def journal_inv_def peers_ok_def journal_ok_def split: if_splits)

lemma reachable_journal_inv: "reachable_journal cr sha j \<Longrightarrow> journal_inv cr j"
  unfolding reachable_journal_def using journal.run_inv new_journal_inv by metis

lemma sorted_from: "sorted_wrt (<) (a # [a + 1..b])" for a b :: int
  by simp

lemma published_passes:
  assumes cr: "signatures_verify cr" and me: "CHR ''#'' \<notin> set (of_office_id (os_office (jn_state jp)))"
    and jp: "journal_ok jp"
    and since: "0 \<le> since" "oldest_available jp - 1 \<le> since" "since \<le> jn_sequence jp"
    and limit: "1 \<le> limit" "limit \<le> jn_max_changes jp" "limit \<le> jn_max_changes js"
    and src: "dget (os_peers (jn_state js)) (of_office_id (os_office (jn_state jp))) = Some src"
      "jget src ''trust_status'' \<noteq> JStr ''restricted''"
      "jget src ''identity'' = JObj (identity_document cr (os_office (jn_state jp)))"
    and check: "checkpoint js (of_office_id (os_office (jn_state jp))) = since"
  shows "\<exists>d. manifest_since cr since limit now jp = (http_ok, d) \<and>
    manifest_passes cr d js (of_office_id (os_office (jn_state jp)))
      (map (\<lambda>c. JObj (change_document c)) (delta_page jp since limit)) since (min (since + limit) (jn_sequence jp))"
proof -
  let ?p = "of_office_id (os_office (jn_state jp))" and ?page = "delta_page jp since limit"
  note page = delta_page_is [OF jp since(2,3) limit(1)]
  define body where "body = [(''version'', JStr ''1.0''), (''kind'', JStr ''directory_delta''),
           (''office_id'', JStr ?p), (''generated_at'', JInt now),
           (''from_sequence'', JInt since), (''to_sequence'', JInt (page_end ?page since)), (''current_sequence'', JInt (jn_sequence jp)),
           (''changes'', JList (map (\<lambda>c. JObj (change_document c)) ?page)), (''count'', JInt (int (length ?page))),
           (''more'', JBool (\<exists>c \<in> set (jn_changes jp). ch_sequence c > page_end ?page since))]"
  let ?d = "signed_doc cr (os_office (jn_state jp)) body"
  have man: "manifest_since cr since limit now jp = (http_ok, ?d)"
    using since limit unfolding body_def by (simp add: manifest_since_def Let_def)
  have fields: "jget ?d ''kind'' = JStr ''directory_delta''" "jget ?d ''office_id'' = JStr ?p" "jget ?d ''from_sequence'' = JInt since"
      "jget ?d ''to_sequence'' = JInt (page_end ?page since)" "jget ?d ''changes'' = JList (map (\<lambda>c. JObj (change_document c)) ?page)"
    by (simp_all add: signed_doc_def body_def jget_simps)
  have len: "int (length ?page) \<le> jn_max_changes js"
  proof -
    have "length ?page \<le> nat limit" by (simp add: delta_page_def)
    then show ?thesis using limit by linarith
  qed
  have verify: "verify_document cr ?d (identity_document cr (os_office (jn_state jp)))" by (rule sign_verifies [OF cr me])
  have idn: "obj_item src ''identity'' = Inr (identity_document cr (os_office (jn_state jp)))"
    using src(3) by (auto simp: obj_item_def item_def jget_def split: option.splits)
  have "manifest_passes cr ?d js ?p (map (\<lambda>c. JObj (change_document c)) ?page) since (min (since + limit) (jn_sequence jp))"
    unfolding manifest_passes_def fields using page since(3) limit(1) check src(1,2) len verify idn by auto
  with man show ?thesis by blast
qed

text \<open>An office can register any office that hands over its identity document.\<close>

lemma identity_verifies:
  assumes "signatures_verify cr" "CHR ''#'' \<notin> set (of_office_id ofc)"
  shows "verify_identity cr (identity_document cr ofc)"
proof -
  have "verify_document cr (identity_document cr ofc) (identity_document cr ofc)"
    using sign_verifies [OF assms] by (subst (1) identity_document_def) simp
  then show ?thesis
    by (simp add: verify_identity_def identity_document_def signed_doc_def office_sign_def jget_simps starts_with_def)
qed

definition introduction :: "'sk crypto \<Rightarrow> 'sk office \<Rightarrow> doc" where
  "introduction cr ofc = [(''office_id'', JStr (of_office_id ofc)), (''identity'', JObj (identity_document cr ofc))]"

lemma register_introduction:
  assumes "signatures_verify cr" "CHR ''#'' \<notin> set (of_office_id ofc)"
  shows "dget (os_peers (snd (register_peer cr (introduction cr ofc) now s))) (of_office_id ofc) =
    Some [(''office_id'', JStr (of_office_id ofc)), (''identity'', JObj (identity_document cr ofc)),
      (''trust_status'', JStr ''observed''), (''updated_at'', JInt now), (''identity_verified'', JBool True)]"
proof -
  let ?rec = "[(''office_id'', JStr (of_office_id ofc)), (''identity'', JObj (identity_document cr ofc)),
      (''trust_status'', JStr ''observed''), (''updated_at'', JInt now), (''identity_verified'', JBool True)]"
  have idn: "jget (identity_document cr ofc) ''office_id'' = JStr (of_office_id ofc)"
    by (simp add: identity_document_def signed_doc_def jget_simps)
  have v: "verify_identity cr (identity_document cr ofc)" using assms by (rule identity_verifies)
  have "peer_ok cr (of_office_id ofc) ?rec" by (simp add: peer_ok_def idn v)
  then obtain s' where s': "office_save_peer ?rec s = (Inr (), s')" "os_peers s' = dset (os_peers s) (of_office_id ofc) ?rec"
    by (rule office_save_peer_is)
  then show ?thesis
    by (simp add: register_peer_def introduction_def jget_simps jget_default_def hashable_def idn v Let_def
      bindS_def [of "office_save_peer _"])
qed

section \<open>Messages and receipts\<close>

text \<open>The messages the office holds, in memory and in its store.\<close>

definition message_rows :: "'sk office_state \<Rightarrow> message_row list" where
  "message_rows s = (case os_store s of None \<Rightarrow> [] | Some st \<Rightarrow> st_messages st)"

definition held_mail :: "'sk office_state \<Rightarrow> (json, doc) dict \<times> bool \<times> message_row list" where
  "held_mail s = (os_messages s, os_store s = None, message_rows s)"

definition keeps_mail :: "('sk office_state, 'a) act \<Rightarrow> bool" where
  "keeps_mail m \<longleftrightarrow> (\<forall>s. held_mail (snd (m s)) = held_mail s)"

lemma keeps_mail_bind:
  assumes "keeps_mail m" "\<And>v. keeps_mail (f v)"
  shows "keeps_mail (bindS m f)"
  unfolding keeps_mail_def
proof
  fix s
  obtain r s1 where m: "m s = (r, s1)" by fastforce
  have "held_mail s1 = held_mail s" using assms(1) m by (metis keeps_mail_def snd_conv)
  then show "held_mail (snd (bindS m f s)) = held_mail s"
    using assms(2) m by (cases r) (simp_all add: bindS_def keeps_mail_def)
qed

lemma keeps_mail_basic [simp]: "keeps_mail (ret v)" "keeps_mail (pure_act r)" "keeps_mail (on_office g)"
  by (simp_all add: keeps_mail_def held_mail_def message_rows_def ret_def pure_act_def on_office_def case_prod_beta)

lemma save_receipt_rows: "st_messages (snd (save_receipt r t st)) = st_messages st"
  by (simp add: save_receipt_def bindS_def pure_act_def update_act_def split: sum.split option.split)

lemma keeps_mail_receipt [simp]: "keeps_mail (record_receipt r t)"
proof -
  have "keeps_mail (on_store (save_receipt r t) :: ('sk office_state, unit) act)"
    using save_receipt_rows [of r t]
    by (auto simp: keeps_mail_def held_mail_def message_rows_def on_store_def split: option.split sum.split prod.split) (metis snd_conv)+
  then show ?thesis
    unfolding record_receipt_def by (intro keeps_mail_bind keeps_mail_basic) (simp_all add: keeps_mail_def held_mail_def message_rows_def update_act_def)
qed

lemma receipt_step_keeps [simp]:
  "held_mail (snd (bindS (on_office h) (\<lambda>receipt. bindS (record_receipt receipt t) (\<lambda>_. ret (g receipt))) s)) = held_mail s"
proof -
  have "keeps_mail (bindS (on_office h) (\<lambda>receipt. bindS (record_receipt receipt t) (\<lambda>_. ret (g receipt))))"
    by (intro keeps_mail_bind keeps_mail_basic keeps_mail_receipt)
  then show ?thesis by (simp add: keeps_mail_def)
qed

text \<open>What an envelope passes before the office stores it.\<close>

definition envelope_passes ::
  "'sk crypto \<Rightarrow> doc \<Rightarrow> rat \<Rightarrow> 'sk office_state \<Rightarrow> string \<Rightarrow> json \<Rightarrow> bool" where
  "envelope_passes cr env now s origin mid \<longleftrightarrow>
     (\<forall>k \<in> set required_fields. dget env k \<noteq> None) \<and> jget env ''destination'' = JStr (of_office_id (os_office s)) \<and>
     jget env ''origin'' = JStr origin \<and> jget env ''message_id'' = mid \<and>
     (\<exists>peer identity. dget (os_peers s) origin = Some peer \<and> jget peer ''trust_status'' \<noteq> JStr ''restricted'' \<and>
        jget peer ''identity'' = JObj identity \<and> verify_document cr env identity) \<and>
     fst (office_accept_nonce (py_str (jget env ''nonce'')) now s) = Inr True"

text \<open>
  Exactly this envelope is filed: under its message id in memory, and, with a store, in one new row that names its id, origin and
  destination, unless the id has a row already.
\<close>

definition files_envelope :: "doc \<Rightarrow> rat \<Rightarrow> string \<Rightarrow> json \<Rightarrow> 'sk office_state \<Rightarrow> 'sk office_state \<Rightarrow> bool" where
  "files_envelope env now origin mid s s' \<longleftrightarrow>
     os_messages s' = dset (os_messages s) mid env \<and>
     (if os_store s = None then message_rows s' = []
      else \<exists>key. sql_text mid = Inr key \<and>
        message_rows s' = (if key_taken mr_message_id key (message_rows s) then message_rows s
          else message_rows s @ [\<lparr>mr_message_id = key, mr_origin = origin, mr_destination = of_office_id (os_office s),
            mr_envelope_json = dump_doc (JObj env), mr_accepted_at = int_of_float now\<rparr>]))"

lemma files_envelope_cong:
  "held_mail t = held_mail s' \<Longrightarrow> files_envelope env now origin mid s t \<longleftrightarrow> files_envelope env now origin mid s s'"
  by (simp add: files_envelope_def held_mail_def)

lemma office_accept_nonce_is:
  "\<exists>ok s1. office_accept_nonce n now s = (Inr ok, s1) \<and> held_mail s1 = held_mail s"
  by (auto simp: office_accept_nonce_def Let_def case_prod_beta held_mail_def message_rows_def accept_nonce_def split: option.split)

text \<open>What the store step does to an envelope with texts as its origin and destination.\<close>

lemma save_message_is:
  assumes "jget env ''origin'' = JStr origin" "jget env ''destination'' = JStr dest" "dget env ''message_id'' \<noteq> None"
  shows "save_message env t st =
    (case sql_text (jget env ''message_id'') of
       Inl e \<Rightarrow> (Inl e, st)
     | Inr key \<Rightarrow> (Inr (), if key_taken mr_message_id key (st_messages st) then st
         else st\<lparr>st_messages := st_messages st @ [\<lparr>mr_message_id = key, mr_origin = origin, mr_destination = dest,
           mr_envelope_json = dump_doc (JObj env), mr_accepted_at = t\<rparr>]\<rparr>))"
proof -
  have "item env ''origin'' = Inr (JStr origin)" "item env ''destination'' = Inr (JStr dest)" "item env ''message_id'' = Inr (jget env ''message_id'')"
    using assms by (auto simp: item_def jget_def split: option.splits)
  then show ?thesis
    by (simp add: save_message_def bindS_def pure_act_def update_act_def sql_text_def [of "JStr _"] split: sum.split)
qed

lemma accept_message_cases:
  "(held_mail (snd (accept_message cr sha env now rid s)) = held_mail s) \<or>
   (\<exists>origin mid. envelope_passes cr env now s origin mid \<and>
      files_envelope env now origin mid s (snd (accept_message cr sha env now rid s)))"
proof (cases "filter (\<lambda>k. dget env k = None) required_fields = [] \<and> jget env ''destination'' = JStr (of_office_id (os_office s))")
  case True
  show ?thesis
  proof (cases "\<exists>origin peer. jget env ''origin'' = JStr origin \<and> dget (os_peers s) origin = Some peer")
    case False
    then show ?thesis using True by (auto simp: accept_message_def ret_def split: json.split option.split)
  next
    case known: True
    then obtain origin peer where o: "jget env ''origin'' = JStr origin" "dget (os_peers s) origin = Some peer" by blast
    show ?thesis
    proof (cases "\<exists>trust identity. item peer ''trust_status'' = Inr trust \<and> trust \<noteq> JStr ''restricted'' \<and>
        obj_item peer ''identity'' = Inr identity \<and> verify_document cr env identity")
      case False
      then show ?thesis using True o
        by (cases "item peer ''trust_status''"; cases "obj_item peer ''identity''")
          (auto simp: accept_message_def Let_def ret_def bindS_def pure_act_def)
    next
      case verified: True
      then obtain trust identity where p: "item peer ''trust_status'' = Inr trust" "trust \<noteq> JStr ''restricted''"
        "obj_item peer ''identity'' = Inr identity" "verify_document cr env identity" by blast
      obtain ok s1 where n: "office_accept_nonce (py_str (jget env ''nonce'')) now s = (Inr ok, s1)" "held_mail s1 = held_mail s"
        using office_accept_nonce_is [of "py_str (jget env ''nonce'')" now s] by blast
      let ?store = "\<lambda>mid. bindS (update_act (\<lambda>s. s\<lparr>os_messages := dset (os_messages s) mid env\<rparr>)) (\<lambda>_.
          bindS (on_office (office_receipt cr sha env ''accepted'' False rid)) (\<lambda>receipt.
          bindS (record_receipt receipt (int_of_float now)) (\<lambda>_.
            ret (http_accepted, [(''status'', JStr ''accepted''), (''message_id'', jget env ''message_id''),
              (''envelope_digest'', JStr (sha256_text sha (canonical_json (JObj env)))),
              (''signature_verified'', JBool True), (''receipt'', JObj receipt)]))))"
      have eq: "accept_message cr sha env now rid s =
        (if ok then bindS (on_store (save_message env (int_of_float now))) (\<lambda>_.
            bindS (pure_act (hashable (jget env ''message_id''))) ?store) s1
         else bindS (on_office (office_receipt cr sha env ''duplicate_rejected'' True rid)) (\<lambda>receipt.
            bindS (record_receipt receipt (int_of_float now)) (\<lambda>_.
              ret (http_conflict, [(''status'', JStr ''duplicate_rejected''), (''receipt'', JObj receipt)]))) s1)"
        using True o p n by (simp add: accept_message_def Let_def bindS_def [of "pure_act _"] bindS_def [of "office_accept_nonce _ _"] pure_act_def)
      show ?thesis
      proof (cases ok)
        case False
        then show ?thesis unfolding eq using n(2) by simp
      next
        case ok: True
        show ?thesis
        proof (cases "held_mail (snd (accept_message cr sha env now rid s)) = held_mail s")
          case changed: False
          have "\<forall>k \<in> set required_fields. dget env k \<noteq> None" using True by (auto simp: filter_empty_conv)
          then have fields: "dget env ''message_id'' \<noteq> None" by (simp add: required_fields_def)
          note save = save_message_is [OF o(1) conjunct2 [OF True] fields, of "int_of_float now"]
          obtain u s2 where s2: "on_store (save_message env (int_of_float now)) s1 = (Inr u, s2)"
          proof (cases "on_store (save_message env (int_of_float now)) s1")
            case (Pair r s2)
            show ?thesis
            proof (cases r)
              case (Inl e)
              then have "held_mail s2 = held_mail s1"
                using Pair save by (auto simp: on_store_def held_mail_def message_rows_def split: option.splits sum.splits)
              then show ?thesis using changed n(2) Pair Inl ok unfolding eq by (simp add: bindS_def [of "on_store _"])
            qed (use Pair that in simp)
          qed
          have "\<exists>mid. hashable (jget env ''message_id'') = Inr mid"
          proof (rule ccontr)
            assume "\<nexists>mid. hashable (jget env ''message_id'') = Inr mid"
            then obtain e where h: "hashable (jget env ''message_id'') = Inl e" by (cases "hashable (jget env ''message_id'')") auto
            then have "\<nexists>key. sql_text (jget env ''message_id'') = Inr key" by (auto simp: hashable_def sql_text_def split: json.splits)
            then have "held_mail s2 = held_mail s1"
              using s2 save by (auto simp: on_store_def split: option.splits sum.splits)
            then show False using changed n(2) s2 h ok unfolding eq by (simp add: bindS_def [of "on_store _"] bindS_def [of "pure_act _"] pure_act_def)
          qed
          then obtain mid where h: "hashable (jget env ''message_id'') = Inr mid" by blast
          then have mid: "mid = jget env ''message_id''" by (auto simp: hashable_def split: json.splits)
          let ?s3 = "s2\<lparr>os_messages := dset (os_messages s2) mid env\<rparr>"
          have run: "accept_message cr sha env now rid s = ?store mid s2"
            unfolding eq using ok s2 h by (simp add: bindS_def [of "on_store _"] bindS_def [of "pure_act _"] pure_act_def)
          have last: "held_mail (snd (?store mid s2)) = held_mail ?s3"
            by (simp add: bindS_def [of "update_act _"] update_act_def)
          have "files_envelope env now origin mid s ?s3"
            using s2 save n(2) unfolding files_envelope_def mid
            by (auto simp: on_store_def held_mail_def message_rows_def True split: option.splits sum.splits) (blast+)
          then have "files_envelope env now origin mid s (snd (accept_message cr sha env now rid s))"
            unfolding run files_envelope_cong [OF last] .
          moreover have "envelope_passes cr env now s origin mid"
          proof -
            have "jget peer ''trust_status'' = trust" "jget peer ''identity'' = JObj identity"
              using p(1,3) by (auto simp: item_def obj_item_def jget_def bindE_def split: option.splits json.splits)
            then show ?thesis using True o p n ok mid by (auto simp: envelope_passes_def filter_empty_conv)
          qed
          ultimately show ?thesis by metis
        qed simp
      qed
    qed
  qed
next
  case False
  then show ?thesis
    by (cases "filter (\<lambda>k. dget env k = None) required_fields = []") (simp_all add: accept_message_def Let_def ret_def)
qed


lemma receipt_verifies:
  assumes cr: "signatures_verify cr" and me: "CHR ''#'' \<notin> set (of_office_id ofc)"
    and r: "office_receipt cr sha env event dup rid ofc = (Inr r, ofc1)"
  shows "verify_document cr r (identity_document cr ofc) \<and> jget r ''sequence'' = JInt (of_receipt_sequence ofc + 1) \<and>
    jget r ''previous_receipt_digest'' = (case of_last_receipt_digest ofc of None \<Rightarrow> JNull | Some d \<Rightarrow> if d = [] then JNull else JStr d) \<and>
    ofc1 = ofc\<lparr>of_receipt_sequence := of_receipt_sequence ofc + 1, of_last_receipt_digest := Some (sha256_text sha (canonical_json (JObj r)))\<rparr>"
proof -
  let ?o1 = "ofc\<lparr>of_receipt_sequence := of_receipt_sequence ofc + 1\<rparr>"
  have idn: "identity_document cr ?o1 = identity_document cr ofc"
    by (simp add: identity_document_def signed_doc_def office_sign_def office_public_key_def)
  obtain body where b: "receipt_body sha ?o1 env event dup rid = Inr body" "r = signed_doc cr ?o1 body"
    "ofc1 = ?o1\<lparr>of_last_receipt_digest := Some (sha256_text sha (canonical_json (JObj r)))\<rparr>"
    using r by (auto simp: office_receipt_def Let_def split: sum.splits)
  have "verify_document cr r (identity_document cr ?o1)" unfolding b(2) using cr me by (intro sign_verifies) simp_all
  moreover have "jget r ''sequence'' = JInt (of_receipt_sequence ofc + 1)"
    using b(1) unfolding b(2) by (auto simp: receipt_body_def bindE_def signed_doc_def jget_simps split: sum.splits option.splits)
  moreover have "jget r ''previous_receipt_digest'' =
      (case of_last_receipt_digest ofc of None \<Rightarrow> JNull | Some d \<Rightarrow> if d = [] then JNull else JStr d)"
    using b(1) unfolding b(2) by (auto simp: receipt_body_def bindE_def signed_doc_def jget_simps split: sum.splits option.splits)
  ultimately show ?thesis using b(3) idn by simp
qed

end
