(* ===== verification/OfficeTheorems.thy ===== *)
theory OfficeTheorems
  imports OfficeProps
begin

text \<open>The properties of the Telegraph office and of directory synchronization, with their witnesses.\<close>

section \<open>Properties\<close>

text \<open>
  Replay protection, in memory and in the store: when calls come in the order of time, both filters
  accept the same nonces, and no nonce is accepted twice within the window of an hour.
\<close>

theorem nonces_are_accepted_once:
  assumes "sorted (map snd calls)"
  shows "accepted_calls store_filter empty_store calls = accepted_calls cache_filter [] calls \<and>
    sorted_wrt (\<lambda>(n, t) (m, u). n = m \<longrightarrow> u - t > 3600) (accepted_calls cache_filter [] calls)"
  using filters_agree [of empty_store calls] cache.accepted_apart [OF dict_ok_Nil assms]
  by (simp add: empty_store_def)

text \<open>
  C5. Every peer an office keeps is verified, whatever requests, directories and deltas it processed:
  the record is filed under the office id of its identity, the identity carries a valid signature of
  its own, and the trust status is one of the three levels. The journal stays bounded and contiguous.
\<close>

theorem peers_are_verified:
  assumes "os_peers s = []" and "new_journal s m = Inr j"
  shows "journal_inv cr (foldl (journal_step cr sha) j ops)"
  using journal.run_inv [OF new_journal_inv [OF assms]] .


text \<open>
  A checkpoint never moves back, whatever the office processes, and a delta changes anything at all
  only after it passed every check: a known, unrestricted source, a valid signature of that source over
  the whole delta, and a start at the local checkpoint.
\<close>

theorem deltas_are_authenticated_and_in_order:
  "checkpoint j peer \<le> checkpoint (foldl (journal_step cr sha) j ops) peer \<and>
   (snd (apply_manifest cr d now j) = j \<or>
    (\<exists>source changes from_seq to_seq. manifest_passes cr d j source changes from_seq to_seq))"
proof
  show "checkpoint j peer \<le> checkpoint (foldl (journal_step cr sha) j ops) peer"
  proof (induction ops arbitrary: j)
    case (Cons op ops)
    have "checkpoint j peer \<le> checkpoint (journal_step cr sha j op) peer"
      by (rule journal_checkpoint)
    then show ?case using Cons.IH [of "journal_step cr sha j op"] by simp
  qed simp
  show "snd (apply_manifest cr d now j) = j \<or>
    (\<exists>source changes from_seq to_seq. manifest_passes cr d j source changes from_seq to_seq)"
    using apply_manifest_refused [of cr d j now] by (auto simp: turned_down_def)
qed

text \<open>
  C28. Synchronization makes progress: the delta a publisher serves from a checkpoint it still covers is
  accepted by every subscriber that knows the publisher's identity and stands at that checkpoint, and
  takes the subscriber's checkpoint to the end of the page, without an exception on the way.
\<close>

theorem published_deltas_are_accepted:
  assumes "signatures_verify cr" and "reachable_journal cr sha jp" and "reachable_journal cr sha js"
    and "publisher = of_office_id (os_office (jn_state jp))" and "CHR ''#'' \<notin> set publisher"
    and "since = checkpoint js publisher" and "0 \<le> since" and "oldest_available jp - 1 \<le> since" and "since \<le> jn_sequence jp"
    and "1 \<le> limit" and "limit \<le> jn_max_changes jp" and "limit \<le> jn_max_changes js"
    and "dget (os_peers (jn_state js)) publisher = Some src" and "jget src ''trust_status'' \<noteq> JStr ''restricted''"
    and "jget src ''identity'' = JObj (identity_document cr (os_office (jn_state jp)))"
  shows "\<exists>d r js'. manifest_since cr since limit now jp = (http_ok, d) \<and>
    apply_manifest cr d now' js = (Inr (http_accepted, r), js') \<and>
    checkpoint js' publisher = min (since + limit) (jn_sequence jp)"
proof -
  have jp: "journal_ok jp" using reachable_journal_inv [OF assms(2)] by (simp add: journal_inv_def)
  have js: "peers_ok cr (jn_state js)" using reachable_journal_inv [OF assms(3)] by (simp add: journal_inv_def)
  let ?page = "delta_page jp since limit"
  note page = delta_page_is [OF jp assms(8,9,10)]
  obtain d where d: "manifest_since cr since limit now jp = (http_ok, d)"
    and pass: "manifest_passes cr d js publisher (map (\<lambda>c. JObj (change_document c)) ?page) since (min (since + limit) (jn_sequence jp))"
    using published_passes [OF assms(1) _ jp assms(7-12) _ assms(14)] assms(4-6,13,15) by blast
  have "\<forall>c \<in> set ?page. change_ok c" using jp unfolding journal_ok_def by (blast dest: page_changes)
  moreover have "sorted_wrt (<) (dc_last_sequence (start_counts since) # map ch_sequence ?page)"
    using page by (simp add: start_counts_def)
  ultimately obtain n s where run: "apply_changes cr publisher now' (start_counts since) (map (\<lambda>c. JObj (change_document c)) ?page) (jn_state js) = (Inr n, s)"
    "dc_last_sequence n = (if ?page = [] then since else ch_sequence (last ?page))"
    using apply_changes_total [OF js, of ?page "start_counts since" publisher now'] by (auto simp: start_counts_def)
  have "dc_last_sequence n = min (since + limit) (jn_sequence jp)" using run(2) page by (simp add: page_end_def)
  then have "apply_manifest cr d now' js = (Inr (http_accepted, accepted_doc d publisher n),
      js\<lparr>jn_state := s, jn_checkpoints := dset (jn_checkpoints js) publisher (min (since + limit) (jn_sequence jp))\<rparr>)"
    unfolding apply_manifest_passed [OF pass] using run(1) by simp
  then show ?thesis using d by (auto simp: checkpoint_def)
qed

text \<open>
  The pages of a journal are complete: from a checkpoint the journal still covers, a page holds
  exactly the changes with the next sequence numbers, none skipped and none repeated, up to the limit or
  the current sequence, and it says there is more exactly when it ends before the current sequence.
\<close>

theorem journal_pages_are_complete:
  assumes "reachable_journal cr sha j" and "oldest_available j - 1 \<le> since" and "since \<le> jn_sequence j" and "1 \<le> limit"
  shows "map ch_sequence (delta_page j since limit) = [since + 1..min (since + limit) (jn_sequence j)] \<and>
    set (delta_page j since limit) \<subseteq> set (jn_changes j) \<and>
    ((\<exists>c \<in> set (jn_changes j). ch_sequence c > page_end (delta_page j since limit) since) \<longleftrightarrow>
      since + limit < jn_sequence j)"
proof -
  have j: "journal_ok j" using reachable_journal_inv [OF assms(1)] by (simp add: journal_inv_def)
  note page = delta_page_is [OF j assms(2-4)]
  have seqs: "ch_sequence ` set (jn_changes j) = {jn_sequence j - int (length (jn_changes j)) + 1..jn_sequence j}"
    using j by (metis journal_ok_def list.set_map set_upto)
  have "(\<exists>c \<in> set (jn_changes j). ch_sequence c > min (since + limit) (jn_sequence j)) \<longleftrightarrow> since + limit < jn_sequence j"
  proof
    assume "\<exists>c \<in> set (jn_changes j). ch_sequence c > min (since + limit) (jn_sequence j)"
    then show "since + limit < jn_sequence j" using seqs by (auto simp: image_iff dest!: equalityD1 [THEN subsetD])
  next
    assume less: "since + limit < jn_sequence j"
    have "jn_changes j \<noteq> []"
    proof
      assume "jn_changes j = []"
      then show False using assms(2,4) less by (simp add: oldest_available_def)
    qed
    then have "jn_sequence j \<in> ch_sequence ` set (jn_changes j)" unfolding seqs by (cases "jn_changes j") auto
    then show "\<exists>c \<in> set (jn_changes j). ch_sequence c > min (since + limit) (jn_sequence j)" using less by auto
  qed
  then show ?thesis using page page_changes by auto
qed

text \<open>
  Receipts form a signed chain: a receipt verifies under the identity the office publishes, its
  sequence is the next number, and the receipt after it carries its digest.
\<close>

theorem receipts_form_a_signed_chain:
  assumes "signatures_verify cr" and "CHR ''#'' \<notin> set (of_office_id ofc)"
    and "office_receipt cr sha env event dup rid ofc = (Inr r, ofc1)"
    and "office_receipt cr sha env' event' dup' rid' ofc1 = (Inr r', ofc2)"
  shows "verify_document cr r (identity_document cr ofc) \<and> verify_document cr r' (identity_document cr ofc) \<and>
    jget r ''sequence'' = JInt (of_receipt_sequence ofc + 1) \<and> jget r' ''sequence'' = JInt (of_receipt_sequence ofc + 2) \<and>
    jget r' ''previous_receipt_digest'' = JStr (sha256_text sha (canonical_json (JObj r)))"
proof -
  note first = receipt_verifies [OF assms(1-3)]
  then have "CHR ''#'' \<notin> set (of_office_id ofc1)" "of_receipt_sequence ofc1 = of_receipt_sequence ofc + 1"
    "of_last_receipt_digest ofc1 = Some (sha256_text sha (canonical_json (JObj r)))" "identity_document cr ofc1 = identity_document cr ofc"
    using assms(2) by (simp_all add: identity_document_def signed_doc_def office_sign_def office_public_key_def)
  with receipt_verifies [OF assms(1) _ assms(4)] first show ?thesis by (simp add: sha256_text_def)
qed

text \<open>
  C7. The office stores a message only when it is addressed to it, comes from a known and unrestricted
  peer, carries a valid signature of that peer and a nonce that is fresh; then exactly this envelope is
  filed under its message id, in memory and in the messages table. Otherwise both stay as they are.
\<close>

theorem messages_are_authenticated:
  "let s' = snd (accept_message cr sha env now rid s) in
   (os_messages s' = os_messages s \<and> message_rows s' = message_rows s) \<or>
   (\<exists>origin mid. envelope_passes cr env now s origin mid \<and> files_envelope env now origin mid s s')"
  using accept_message_cases [of cr sha env now rid s] by (auto simp: held_mail_def Let_def)

section \<open>Concrete runs\<close>

definition demo_office :: "string \<Rightarrow> string office" where
  "demo_office i = \<lparr>of_office_id = i, of_media = {''text''}, of_security = {''end_to_end_encrypted''}, of_trust = [],
     of_signing_key = i, of_replay_cache = [], of_receipt_sequence = 0, of_last_receipt_digest = None\<rparr>"

definition demo_state :: "string \<Rightarrow> string office_state" where
  "demo_state i = \<lparr>os_office = demo_office i, os_store = None, os_peers = [], os_messages = [], os_receipts = []\<rparr>"

definition demo_journal :: "string \<Rightarrow> string journal" where
  "demo_journal i = \<lparr>jn_state = demo_state i, jn_max_changes = 2, jn_sequence = 0, jn_changes = [], jn_checkpoints = []\<rparr>"

lemma demo_new: "new_journal (demo_state i) 2 = Inr (demo_journal i)"
  by (simp add: new_journal_def demo_journal_def)

definition demo_calls :: "(string \<times> rat) list" where
  "demo_calls = [(''a'', 0), (''b'', 5), (''a'', 10), (''a'', 3700)]"

theorem nonces_are_accepted_once_witness:
  "accepted_calls store_filter empty_store demo_calls = [(''a'', 0), (''b'', 5), (''a'', 3700)] \<and>
   sorted_wrt (\<lambda>(n, t) (m, u). n = m \<longrightarrow> u - t > 3600) [(''a'', 0), (''b'', 5), (''a'', 3700 :: rat)]"
proof -
  have "sorted (map snd demo_calls)" by (simp add: demo_calls_def)
  note nonces_are_accepted_once [OF this]
  moreover have "accepted_calls cache_filter [] demo_calls = [(''a'', 0), (''b'', 5), (''a'', 3700)]"
    by (simp add: demo_calls_def cache_filter_def replay_accept_def)
  ultimately show ?thesis by simp
qed

definition demo_publisher :: "string journal" where
  "demo_publisher = journal_step demo_crypto id (demo_journal ''A'') (JTombstone ''x'' ''gone'' 5)"

definition demo_subscriber :: "string journal" where
  "demo_subscriber = journal_step demo_crypto id (demo_journal ''B'') (JRegister (introduction demo_crypto (demo_office ''A'')) 6)"

lemma demo_reachable: "reachable_journal demo_crypto id demo_publisher" "reachable_journal demo_crypto id demo_subscriber"
proof -
  have r: "reachable_journal demo_crypto id (journal_step demo_crypto id (demo_journal i) op)" for i op
    unfolding reachable_journal_def
    by (rule exI [of _ "demo_state i"], rule exI [of _ 2], rule exI [of _ "demo_journal i"], rule exI [of _ "[op]"])
      (simp add: demo_new, simp add: demo_state_def)
  show "reachable_journal demo_crypto id demo_publisher" "reachable_journal demo_crypto id demo_subscriber"
    unfolding demo_publisher_def demo_subscriber_def by (rule r)+
qed

lemma demo_publisher_is:
  "demo_publisher = (demo_journal ''A'')\<lparr>jn_sequence := 1, jn_changes :=
     [\<lparr>ch_sequence = 1, ch_operation = ''tombstone'', ch_office_id = ''x'', ch_changed_at = 5, ch_record = None, ch_reason = Some ''gone''\<rparr>]\<rparr>"
  by (simp add: demo_publisher_def record_tombstone_def append_change_def demo_journal_def Let_def)

lemma demo_subscriber_is:
  "dget (os_peers (jn_state demo_subscriber)) ''A'' =
     Some [(''office_id'', JStr ''A''), (''identity'', JObj (identity_document demo_crypto (demo_office ''A''))),
       (''trust_status'', JStr ''observed''), (''updated_at'', JInt 6), (''identity_verified'', JBool True)]"
  "jn_checkpoints demo_subscriber = []" "jn_max_changes demo_subscriber = 2"
  using register_introduction [OF demo_crypto_ok, of "demo_office ''A''" 6 "demo_state ''B''"]
  by (simp_all add: demo_subscriber_def demo_journal_def demo_office_def)

theorem peers_are_verified_witness:
  "journal_inv demo_crypto (foldl (journal_step demo_crypto id) (demo_journal ''B'')
     [JRegister (introduction demo_crypto (demo_office ''A'')) 6, JUpsert ''A'' 7])"
proof -
  have "os_peers (demo_state ''B'') = []" by (simp add: demo_state_def)
  from peers_are_verified [OF this demo_new] show ?thesis .
qed


theorem published_deltas_are_accepted_witness:
  "\<exists>d r js'. manifest_since demo_crypto 0 2 8 demo_publisher = (http_ok, d) \<and>
    apply_manifest demo_crypto d 9 demo_subscriber = (Inr (http_accepted, r), js') \<and> checkpoint js' ''A'' = 1"
  using published_deltas_are_accepted [OF demo_crypto_ok demo_reachable, of "''A''" 0 2 _ 8 9]
  by (simp add: demo_publisher_is demo_subscriber_is checkpoint_def oldest_available_def demo_journal_def demo_state_def demo_office_def jget_def)

theorem journal_pages_are_complete_witness:
  "map ch_sequence (delta_page demo_publisher 0 1) = [1..1]"
  using journal_pages_are_complete [OF demo_reachable(1), of 0 1]
  by (simp add: demo_publisher_is oldest_available_def demo_journal_def)


definition demo_envelope :: doc where
  "demo_envelope = [(''message_id'', JStr ''m''), (''security_state'', JStr ''s''), (''code_word_commitment'', JStr ''c''), (''nonce'', JStr ''n'')]"

theorem receipts_form_a_signed_chain_witness:
  "\<exists>r o1 r' o2. office_receipt demo_crypto id demo_envelope ''accepted'' False ''r1'' (demo_office ''A'') = (Inr r, o1) \<and>
     office_receipt demo_crypto id demo_envelope ''duplicate_rejected'' True ''r2'' o1 = (Inr r', o2) \<and>
     verify_document demo_crypto r' (identity_document demo_crypto (demo_office ''A'')) \<and> jget r' ''sequence'' = JInt 2"
proof -
  have "\<exists>r o1. office_receipt demo_crypto id demo_envelope event dup rid ofc = (Inr r, o1)" for event dup rid and ofc :: "string office"
    by (simp add: office_receipt_def receipt_body_def demo_envelope_def item_def Let_def)
  then obtain r o1 r' o2 where r: "office_receipt demo_crypto id demo_envelope ''accepted'' False ''r1'' (demo_office ''A'') = (Inr r, o1)"
    "office_receipt demo_crypto id demo_envelope ''duplicate_rejected'' True ''r2'' o1 = (Inr r', o2)" by metis
  have "CHR ''#'' \<notin> set (of_office_id (demo_office ''A''))" by (simp add: demo_office_def)
  with receipts_form_a_signed_chain [OF demo_crypto_ok _ r] r show ?thesis by (simp add: demo_office_def)
qed

section \<open>Deviations\<close>

text \<open>
  The fields an envelope must have do not include code_word_commitment, which the receipt reads: an
  authentic envelope without it is stored and its nonce is used up before the KeyError.
\<close>

lemma envelope_stored_before_key_error:
  assumes "\<forall>k \<in> set required_fields. dget env k \<noteq> None" "jget env ''destination'' = JStr (of_office_id (os_office s))"
    and "jget env ''origin'' = JStr origin" "dget (os_peers s) origin = Some peer"
    and "dget peer ''trust_status'' = Some (JStr ''trusted'')" "dget peer ''identity'' = Some (JObj identity)"
    and "verify_document cr env identity" "os_store s = None"
    and "office_accept_nonce (py_str (jget env ''nonce'')) now s = (Inr True, s1)"
    and "jget env ''message_id'' = JStr mid" "dget env ''code_word_commitment'' = None"
  shows "fst (accept_message cr sha env now rid s) = Inl (KeyError ''code_word_commitment'') \<and>
    dget (os_messages (snd (accept_message cr sha env now rid s))) (JStr mid) = Some env"
proof -
  have "filter (\<lambda>k. dget env k = None) required_fields = []" using assms(1) by (simp add: filter_empty_conv)
  moreover have "os_store s1 = None" using assms(8,9) by (auto simp: office_accept_nonce_def Let_def split: prod.splits)
  moreover obtain sec where "dget env ''security_state'' = Some sec" using assms(1) by (auto simp: required_fields_def)
  moreover obtain m where "dget env ''message_id'' = Some m" using assms(1) by (auto simp: required_fields_def)
  ultimately show ?thesis using assms(2-)
    by (simp add: accept_message_def bindS_def pure_act_def item_def obj_item_def on_store_def hashable_def update_act_def
      on_office_def office_receipt_def receipt_body_def Let_def)
qed

text \<open>
  A restart takes the receipt chain from every stored receipt, also those of other offices, so the own
  sequence continues from a number and a digest another office chose.
\<close>

lemma restart_adopts_foreign_receipts:
  "map_sum id (\<lambda>s. of_receipt_sequence (os_office s))
     (open_office id (demo_office ''A'') (Some (snd (save_receipt
       [(''receipt_id'', JStr ''r''), (''message_id'', JStr ''m''), (''office_id'', JStr ''B''), (''sequence'', JInt 41)] 5 empty_store))))
   = Inr 41"
  by code_simp

text \<open>The columns of the peer table do not include the federation status: a withdrawn peer comes back as a plain one.\<close>

lemma withdrawal_not_persisted: "peer_record r = Inr d \<Longrightarrow> dget d ''federation_status'' = None"
  by (auto simp: peer_record_def bindE_def split: sum.splits)

text \<open>A delta whose changes do not end at its to_sequence is answered with an error after they were applied.\<close>

lemma mismatched_delta_is_applied:
  assumes "manifest_passes cr d j source changes from_seq to_seq" "changes \<noteq> []"
    and "apply_changes cr source now (start_counts from_seq) changes (jn_state j) = (Inr n, s)" "dc_last_sequence n \<noteq> to_seq"
  shows "apply_manifest cr d now j = (Inr (http_unprocessable, error_doc ''delta_sequence_mismatch''), j\<lparr>jn_state := s\<rparr>)"
  using assms by (simp add: apply_manifest_passed [OF assms(1)])

end
