(* ===== verification/ControlPlane.thy ===== *)
theory ControlPlane
  imports OfficeTheorems
begin

text \<open>
  reference/telegraph_control_plane.py: signed heartbeats, the observation of each peer, the health
  score, status and route cost derived from it, and the quarantine recommendations. The clock, the
  signer and the measured latency are arguments. The quotient of \<open>congestion_percent\<close> is an exact
  rational, and \<open>//\<close> is \<open>div\<close>.
\<close>

section \<open>Policy and observations\<close>

record control_policy =
  cpl_heartbeat_interval :: int
  cpl_degraded_after :: int
  cpl_unreachable_after :: int
  cpl_quarantine_failures :: int
  cpl_quarantine_score :: int
  cpl_congestion_warning :: int
  cpl_congestion_critical :: int
  cpl_clock_skew :: int
  cpl_base_cost :: int

definition default_control_policy :: control_policy where
  "default_control_policy = \<lparr>cpl_heartbeat_interval = 30, cpl_degraded_after = 90, cpl_unreachable_after = 180,
     cpl_quarantine_failures = 5, cpl_quarantine_score = 20, cpl_congestion_warning = 75, cpl_congestion_critical = 95,
     cpl_clock_skew = 300, cpl_base_cost = 100\<rparr>"

definition check_control_policy :: "control_policy \<Rightarrow> control_policy outcome" where
  "check_control_policy p =
     (if list_ex (\<lambda>v. v \<le> 0) [cpl_heartbeat_interval p, cpl_degraded_after p, cpl_unreachable_after p,
           cpl_quarantine_failures p, cpl_clock_skew p, cpl_base_cost p]
      then Inl (ValueError ''control-plane thresholds must be positive'')
      else if cpl_degraded_after p \<ge> cpl_unreachable_after p
      then Inl (ValueError ''degraded threshold must precede unreachable threshold'')
      else if \<not> (0 \<le> cpl_quarantine_score p \<and> cpl_quarantine_score p \<le> 100)
      then Inl (ValueError ''quarantine score threshold must be between 0 and 100'')
      else if \<not> (0 \<le> cpl_congestion_warning p \<and> cpl_congestion_warning p < cpl_congestion_critical p \<and>
                 cpl_congestion_critical p \<le> 100)
      then Inl (ValueError ''invalid congestion thresholds'')
      else Inr p)"

record observation =
  ob_office_id :: string
  ob_sequence :: int
  ob_last_seen :: "int option"
  ob_last_issued :: "int option"
  ob_failures :: int
  ob_latency :: "int option"
  ob_queue_depth :: int
  ob_queue_capacity :: int
  ob_workers :: int
  ob_maintenance :: "int option"
  ob_advertised :: string
  ob_services :: "(string, string) dict"
  ob_capabilities :: "string option"
  ob_score :: int
  ob_status :: string
  ob_cost :: int
  ob_quarantine :: bool
  ob_error :: "string option"

definition new_observation :: "string \<Rightarrow> observation" where
  "new_observation office_id = \<lparr>ob_office_id = office_id, ob_sequence = 0, ob_last_seen = None, ob_last_issued = None,
     ob_failures = 0, ob_latency = None, ob_queue_depth = 0, ob_queue_capacity = 0, ob_workers = 0,
     ob_maintenance = None, ob_advertised = ''healthy'', ob_services = [], ob_capabilities = None, ob_score = 0,
     ob_status = ''unreachable'', ob_cost = 10000, ob_quarantine = False, ob_error = None\<rparr>"

definition congestion_percent :: "observation \<Rightarrow> int" where
  "congestion_percent b =
     (if ob_queue_capacity b \<le> 0 then 0
      else min 100 (max 0 (py_round (of_int (ob_queue_depth b * 100) / of_int (ob_queue_capacity b)))))"

definition jopt :: "('a \<Rightarrow> json) \<Rightarrow> 'a option \<Rightarrow> json" where
  "jopt f v = (case v of None \<Rightarrow> JNull | Some x \<Rightarrow> f x)"

definition sorted_pairs :: "(string, string) dict \<Rightarrow> json" where
  "sorted_pairs d = JObj (map (\<lambda>(k, v). (k, JStr v)) (sort_key fst d))"

definition observation_document :: "observation \<Rightarrow> doc" where
  "observation_document b =
     [(''office_id'', JStr (ob_office_id b)), (''sequence'', JInt (ob_sequence b)), (''last_seen_at'', jopt JInt (ob_last_seen b)),
      (''last_issued_at'', jopt JInt (ob_last_issued b)), (''consecutive_failures'', JInt (ob_failures b)),
      (''latency_ms'', jopt JInt (ob_latency b)), (''queue_depth'', JInt (ob_queue_depth b)),
      (''queue_capacity'', JInt (ob_queue_capacity b)), (''congestion_percent'', JInt (congestion_percent b)),
      (''active_workers'', JInt (ob_workers b)), (''maintenance_until'', jopt JInt (ob_maintenance b)),
      (''advertised_status'', JStr (ob_advertised b)), (''service_health'', sorted_pairs (ob_services b)),
      (''capabilities_digest'', jopt JStr (ob_capabilities b)), (''health_score'', JInt (ob_score b)),
      (''derived_status'', JStr (ob_status b)), (''route_cost'', JInt (ob_cost b)),
      (''quarantine_recommended'', JBool (ob_quarantine b)), (''last_error'', jopt JStr (ob_error b))]"

section \<open>Derived health\<close>

text \<open>The parts of \<open>_derive\<close>: age, status, score, quarantine, route cost.\<close>

definition age_of :: "control_policy \<Rightarrow> observation \<Rightarrow> int \<Rightarrow> int" where
  "age_of p b now = (case ob_last_seen b of None \<Rightarrow> cpl_unreachable_after p + 1 | Some t \<Rightarrow> max 0 (now - t))"

definition in_maintenance :: "observation \<Rightarrow> int \<Rightarrow> bool" where
  "in_maintenance b now = (case ob_maintenance b of None \<Rightarrow> False | Some t \<Rightarrow> now < t)"

definition live_status :: "control_policy \<Rightarrow> observation \<Rightarrow> int \<Rightarrow> string" where
  "live_status p b now =
     (if in_maintenance b now \<or> ob_advertised b = ''maintenance'' then ''maintenance''
      else if age_of p b now \<ge> cpl_unreachable_after p then ''unreachable''
      else if age_of p b now \<ge> cpl_degraded_after p then ''degraded''
      else if ob_advertised b \<in> {''degraded'', ''unreachable''} then ob_advertised b
      else if list_ex (\<lambda>(_, v). v \<notin> {''healthy'', ''ok'', ''ready''}) (ob_services b) then ''degraded''
      else ''healthy'')"

definition status_score :: "string \<Rightarrow> int" where
  "status_score status =
     (if status = ''maintenance'' then 40 else if status = ''degraded'' then 65
      else if status = ''unreachable'' then 0 else 100)"

definition health_score :: "control_policy \<Rightarrow> observation \<Rightarrow> string \<Rightarrow> int" where
  "health_score p b status =
     min 100 (max 0 (status_score status
       - min 40 (ob_failures b * 10)
       - (case ob_latency b of None \<Rightarrow> 0 | Some l \<Rightarrow> min 25 (l div 100))
       - (if congestion_percent b \<ge> cpl_congestion_critical p then 35
          else if congestion_percent b \<ge> cpl_congestion_warning p then 15 else 0)
       - (if ob_workers b = 0 \<and> ob_queue_depth b > 0 then 20 else 0)))"

definition route_cost :: "control_policy \<Rightarrow> observation \<Rightarrow> string \<Rightarrow> int \<Rightarrow> int" where
  "route_cost p b status score =
     cpl_base_cost p + (100 - score) * 10 + congestion_percent b * 3
     + (case ob_latency b of None \<Rightarrow> 0 | Some l \<Rightarrow> l)
     + (if status = ''maintenance'' then 5000
        else if status \<in> {''unreachable'', ''quarantine_recommended''} then 100000 else 0)"

definition derive :: "control_policy \<Rightarrow> int \<Rightarrow> observation \<Rightarrow> observation" where
  "derive p now b =
     (let status = live_status p b now;
          score = health_score p b status;
          quarantine = (ob_failures b \<ge> cpl_quarantine_failures p
            \<or> (status = ''unreachable'' \<and> score \<le> cpl_quarantine_score p));
          final = (if quarantine then ''quarantine_recommended'' else status)
      in b\<lparr>ob_score := score, ob_status := final, ob_cost := route_cost p b final score, ob_quarantine := quarantine\<rparr>)"

section \<open>The control plane\<close>

record control_plane =
  cp_office_id :: string
  cp_policy :: control_policy
  cp_local_sequence :: int
  cp_peers :: "(string, observation) dict"

definition new_control_plane :: "string \<Rightarrow> control_policy option \<Rightarrow> control_plane outcome" where
  "new_control_plane office_id policy =
     (if office_id = [] then Inl (ValueError ''office_id is required'')
      else bindE (check_control_policy (case policy of None \<Rightarrow> default_control_policy | Some p \<Rightarrow> p)) (\<lambda>p.
        Inr \<lparr>cp_office_id = office_id, cp_policy = p, cp_local_sequence = 0, cp_peers = []\<rparr>))"

definition int_field :: "doc \<Rightarrow> string \<Rightarrow> int outcome" where
  "int_field d k = int_of_json (jget_default d k (JInt 0))"

text \<open>\<open>heartbeat\<close>: the sequence number is taken before the metrics are checked.\<close>

definition str_pairs :: "doc \<Rightarrow> (string, string) dict" where
  "str_pairs d = map (\<lambda>(k, v). (k, py_str v)) d"

definition heartbeat_body :: "control_plane \<Rightarrow> doc \<Rightarrow> int \<Rightarrow> doc outcome" where
  "heartbeat_body c metrics now =
     bindE (int_field metrics ''queue_depth'') (\<lambda>depth.
     bindE (int_field metrics ''queue_capacity'') (\<lambda>capacity.
       if depth < 0 \<or> capacity < 0 \<or> (depth > capacity \<and> capacity > 0) then Inl (ValueError ''invalid queue metrics'')
       else (case jget_default metrics ''services'' (JObj []) of
           JObj services \<Rightarrow>
             bindE (int_field metrics ''latency_ms'') (\<lambda>latency.
             bindE (int_field metrics ''active_workers'') (\<lambda>workers.
               Inr [(''version'', JStr ''1.0''), (''kind'', JStr ''telegraph_control_heartbeat''),
                 (''office_id'', JStr (cp_office_id c)), (''sequence'', JInt (cp_local_sequence c)), (''issued_at'', JInt now),
                 (''valid_until'', JInt (now + cpl_heartbeat_interval (cp_policy c) * 2)),
                 (''status'', JStr (py_str (jget_default metrics ''status'' (JStr ''healthy'')))),
                 (''maintenance_until'', jget metrics ''maintenance_until''),
                 (''metrics'', JObj [(''latency_ms'', JInt (max 0 latency)), (''queue_depth'', JInt depth),
                    (''queue_capacity'', JInt capacity), (''active_workers'', JInt (max 0 workers)),
                    (''services'', sorted_pairs (str_pairs services))]),
                 (''capabilities_digest'', jget metrics ''capabilities_digest'')]))
         | _ \<Rightarrow> Inl (ValueError ''services must be an object''))))"

definition heartbeat :: "(doc \<Rightarrow> json) \<Rightarrow> doc \<Rightarrow> int \<Rightarrow> (control_plane, doc) act" where
  "heartbeat signer metrics now c =
     (let c1 = c\<lparr>cp_local_sequence := cp_local_sequence c + 1\<rparr> in
      (map_sum id (\<lambda>body. dset body ''signature'' (signer body)) (heartbeat_body c1 metrics now), c1))"

text \<open>The checks of \<open>ingest\<close> before a peer's observation is touched: the office, the issue time and the sequence.\<close>

definition heartbeat_checks :: "'sk crypto \<Rightarrow> control_policy \<Rightarrow> doc \<Rightarrow> doc \<Rightarrow> int \<Rightarrow> (string \<times> int \<times> int) outcome" where
  "heartbeat_checks cr p hb identity now =
     (if jget hb ''kind'' \<noteq> JStr ''telegraph_control_heartbeat'' then Inl (ValueError ''unsupported control-plane document'')
      else (case jget hb ''office_id'' of
          JStr office_id \<Rightarrow>
            if jget identity ''office_id'' \<noteq> JStr office_id then Inl (ValueError ''heartbeat identity mismatch'')
            else if \<not> verify_document cr hb identity then Inl (ValueError ''invalid heartbeat signature'')
            else bindE (int_field hb ''issued_at'') (\<lambda>issued.
              bindE (int_field hb ''valid_until'') (\<lambda>valid_until.
                if \<bar>now - issued\<bar> > cpl_clock_skew p then Inl (ValueError ''heartbeat outside allowed clock skew'')
                else if valid_until < now then Inl (ValueError ''heartbeat expired'')
                else bindE (int_field hb ''sequence'') (\<lambda>sequence. Inr (office_id, issued, sequence))))
        | _ \<Rightarrow> Inl (ValueError ''heartbeat identity mismatch'')))"

definition queue_metrics :: "doc \<Rightarrow> (doc \<times> int \<times> int) outcome" where
  "queue_metrics hb =
     (case jget_default hb ''metrics'' (JObj []) of
        JObj metrics \<Rightarrow>
          bindE (int_field metrics ''queue_depth'') (\<lambda>d.
          bindE (int_field metrics ''queue_capacity'') (\<lambda>c.
            let depth = max 0 d; capacity = max 0 c in
            if capacity \<noteq> 0 \<and> depth > capacity then Inl (ValueError ''queue depth exceeds advertised capacity'')
            else Inr (metrics, depth, capacity)))
      | _ \<Rightarrow> Inl (ValueError ''heartbeat metrics are invalid''))"

definition peer_of :: "control_plane \<Rightarrow> string \<Rightarrow> observation" where
  "peer_of c office_id = (case dget (cp_peers c) office_id of None \<Rightarrow> new_observation office_id | Some b \<Rightarrow> b)"

definition put_peer :: "string \<Rightarrow> observation \<Rightarrow> control_plane \<Rightarrow> control_plane" where
  "put_peer office_id b c = c\<lparr>cp_peers := dset (cp_peers c) office_id b\<rparr>"

text \<open>
  The assignments to the observation, in their order: a conversion that raises leaves the earlier
  ones in place.
\<close>

definition observe_int :: "(int \<Rightarrow> observation \<Rightarrow> observation) \<Rightarrow> int outcome \<Rightarrow> (observation, unit) act" where
  "observe_int assign r = bindS (pure_act r) (\<lambda>n. update_act (assign n))"

definition observe ::
  "doc \<Rightarrow> doc \<Rightarrow> int \<Rightarrow> int \<Rightarrow> int \<Rightarrow> int option \<Rightarrow> int \<Rightarrow> int \<Rightarrow> (observation, unit) act" where
  "observe hb metrics now issued sequence measured depth capacity =
     bindS (update_act (\<lambda>b. b\<lparr>ob_sequence := sequence, ob_last_seen := Some now, ob_last_issued := Some issued, ob_failures := 0\<rparr>)) (\<lambda>_.
     bindS (observe_int (\<lambda>n b. b\<lparr>ob_latency := Some (max 0 n)\<rparr>)
       (case measured of Some l \<Rightarrow> Inr l | None \<Rightarrow> int_field metrics ''latency_ms'')) (\<lambda>_.
     bindS (update_act (\<lambda>b. b\<lparr>ob_queue_depth := depth, ob_queue_capacity := capacity\<rparr>)) (\<lambda>_.
     bindS (observe_int (\<lambda>n b. b\<lparr>ob_workers := max 0 n\<rparr>) (int_field metrics ''active_workers'')) (\<lambda>_.
     bindS (if jget hb ''maintenance_until'' = JNull then update_act (\<lambda>b. b\<lparr>ob_maintenance := None\<rparr>)
       else observe_int (\<lambda>n b. b\<lparr>ob_maintenance := Some n\<rparr>) (int_of_json (jget hb ''maintenance_until''))) (\<lambda>_.
       update_act (\<lambda>b. b\<lparr>ob_advertised := py_str (jget_default hb ''status'' (JStr ''healthy'')),
         ob_services := (case jget_default metrics ''services'' (JObj []) of JObj d \<Rightarrow> str_pairs d | _ \<Rightarrow> []),
         ob_capabilities := (case jget hb ''capabilities_digest'' of JNull \<Rightarrow> None | v \<Rightarrow> Some (py_str v)),
         ob_error := None\<rparr>))))))"

definition ingest ::
  "'sk crypto \<Rightarrow> doc \<Rightarrow> doc \<Rightarrow> int \<Rightarrow> int option \<Rightarrow> (control_plane, observation) act" where
  "ingest cr hb identity now measured c =
     (case heartbeat_checks cr (cp_policy c) hb identity now of
        Inl e \<Rightarrow> (Inl e, c)
      | Inr (office_id, issued, sequence) \<Rightarrow>
          let b = peer_of c office_id; c1 = put_peer office_id b c in
          if sequence \<le> ob_sequence b then (Inl (ValueError ''stale or replayed heartbeat''), c1)
          else (case queue_metrics hb of
              Inl e \<Rightarrow> (Inl e, c1)
            | Inr (metrics, depth, capacity) \<Rightarrow>
                (case observe hb metrics now issued sequence measured depth capacity b of
                   (Inl e, b1) \<Rightarrow> (Inl e, put_peer office_id b1 c)
                 | (Inr _, b1) \<Rightarrow> let b2 = derive (cp_policy c) now b1 in (Inr b2, put_peer office_id b2 c))))"

definition record_failure :: "string \<Rightarrow> string \<Rightarrow> int \<Rightarrow> (control_plane, observation) act" where
  "record_failure office_id error now c =
     (let b = peer_of c office_id;
          b1 = derive (cp_policy c) now (b\<lparr>ob_failures := ob_failures b + 1, ob_error := Some (take 1000 error)\<rparr>)
      in (Inr b1, put_peer office_id b1 c))"

definition refresh :: "int \<Rightarrow> (control_plane, observation list) act" where
  "refresh now c =
     (let peers = map (\<lambda>(k, b). (k, derive (cp_policy c) now b)) (cp_peers c)
      in (Inr (sort_key ob_office_id (map snd peers)), c\<lparr>cp_peers := peers\<rparr>))"

definition route_costs :: "int \<Rightarrow> (control_plane, (string, int) dict) act" where
  "route_costs now = bindS (refresh now) (\<lambda>_ c. (Inr (map (\<lambda>(k, b). (k, ob_cost b)) (sort_key fst (cp_peers c))), c))"

definition quarantine_recommendations :: "int \<Rightarrow> (control_plane, doc list) act" where
  "quarantine_recommendations now = bindS (refresh now) (\<lambda>_ c.
     (Inr (map (\<lambda>b. [(''office_id'', JStr (ob_office_id b)), (''reason'', JStr ''control_plane_health_threshold''),
         (''health_score'', JInt (ob_score b)), (''consecutive_failures'', JInt (ob_failures b)),
         (''last_seen_at'', jopt JInt (ob_last_seen b)), (''last_error'', jopt JStr (ob_error b))])
       (filter ob_quarantine (sort_key ob_office_id (map snd (cp_peers c))))), c))"

definition control_snapshot :: "int \<Rightarrow> (control_plane, doc) act" where
  "control_snapshot now = bindS (refresh now) (\<lambda>_ c.
     (Inr [(''version'', JStr ''1.0''), (''kind'', JStr ''telegraph_control_snapshot''), (''observer_office'', JStr (cp_office_id c)),
        (''generated_at'', JInt now),
        (''peers'', JList (map (\<lambda>b. JObj (observation_document b)) (sort_key ob_office_id (map snd (cp_peers c)))))], c))"


section \<open>Bounds of the derived values\<close>

lemma derive_simps [simp]:
  "ob_office_id (derive p now b) = ob_office_id b" "ob_sequence (derive p now b) = ob_sequence b"
  "ob_failures (derive p now b) = ob_failures b" "ob_queue_depth (derive p now b) = ob_queue_depth b"
  "ob_queue_capacity (derive p now b) = ob_queue_capacity b" "ob_workers (derive p now b) = ob_workers b"
  "ob_latency (derive p now b) = ob_latency b"
  by (simp_all add: derive_def Let_def)

lemma health_score_bounds [simp]: "0 \<le> health_score p b status" "health_score p b status \<le> 100"
  by (simp_all add: health_score_def)

lemma congestion_bounds [simp]: "0 \<le> congestion_percent b" "congestion_percent b \<le> 100"
  by (simp_all add: congestion_percent_def)

text \<open>What holds of every observation, and of the control plane.\<close>

definition peer_statuses :: "string set" where
  "peer_statuses = {''healthy'', ''degraded'', ''unreachable'', ''maintenance'', ''quarantine_recommended''}"

definition observed_ok :: "string \<Rightarrow> observation \<Rightarrow> bool" where
  "observed_ok office_id b \<longleftrightarrow>
     ob_office_id b = office_id \<and> 0 \<le> ob_sequence b \<and> 0 \<le> ob_failures b \<and> (\<forall>l. ob_latency b = Some l \<longrightarrow> 0 \<le> l) \<and>
     0 \<le> ob_queue_depth b \<and> 0 \<le> ob_queue_capacity b \<and> (ob_queue_capacity b = 0 \<or> ob_queue_depth b \<le> ob_queue_capacity b) \<and>
     0 \<le> ob_workers b"

definition derived_ok :: "control_policy \<Rightarrow> observation \<Rightarrow> bool" where
  "derived_ok p b \<longleftrightarrow>
     0 \<le> ob_score b \<and> ob_score b \<le> 100 \<and> ob_status b \<in> peer_statuses \<and>
     (ob_quarantine b \<longleftrightarrow> ob_status b = ''quarantine_recommended'') \<and>
     (ob_quarantine b \<longrightarrow> cpl_base_cost p + 100000 \<le> ob_cost b)"

definition plane_ok :: "control_plane \<Rightarrow> bool" where
  "plane_ok c \<longleftrightarrow> dict_ok (cp_peers c) \<and> 0 \<le> cp_local_sequence c \<and>
     (\<forall>k b. dget (cp_peers c) k = Some b \<longrightarrow> observed_ok k b \<and> derived_ok (cp_policy c) b)"

lemma live_status_cases: "live_status p b now \<in> peer_statuses - {''quarantine_recommended''}"
  by (auto simp: live_status_def peer_statuses_def)

lemma derive_ok:
  assumes "observed_ok k b" shows "observed_ok k (derive p now b) \<and> derived_ok p (derive p now b)"
proof -
  have "0 \<le> (case ob_latency b of None \<Rightarrow> 0 | Some l \<Rightarrow> l)" using assms by (auto simp: observed_ok_def split: option.split)
  moreover have "ob_latency (b\<lparr>ob_score := i, ob_status := x, ob_cost := y, ob_quarantine := z\<rparr>) = ob_latency b" for i x y z by simp
  ultimately have cost: "cpl_base_cost p + 100000 \<le> route_cost p b ''quarantine_recommended'' (health_score p b st)" for st
    using health_score_bounds [of p b st] congestion_bounds [of b]
    by (simp add: route_cost_def del: health_score_bounds congestion_bounds)
  show ?thesis using assms live_status_cases [of p b now] cost
    by (auto simp: observed_ok_def derived_ok_def derive_def Let_def peer_statuses_def)
qed

lemma new_observation_ok: "observed_ok k (new_observation k) \<and> derived_ok p (new_observation k)"
  by (simp add: observed_ok_def derived_ok_def new_observation_def peer_statuses_def)

lemma peer_of_ok: "plane_ok c \<Longrightarrow> observed_ok k (peer_of c k) \<and> derived_ok (cp_policy c) (peer_of c k)"
  using new_observation_ok by (auto simp: plane_ok_def peer_of_def split: option.split)

lemma put_peer_ok: "plane_ok c \<Longrightarrow> observed_ok k b \<and> derived_ok (cp_policy c) b \<Longrightarrow> plane_ok (put_peer k b c)"
  by (auto simp: plane_ok_def put_peer_def)

text \<open>The assignments of a heartbeat keep what is observed in bounds, wherever a conversion stops them.\<close>

lemma queue_metrics_ok:
  "queue_metrics hb = Inr (metrics, depth, capacity) \<Longrightarrow> 0 \<le> depth \<and> 0 \<le> capacity \<and> (capacity = 0 \<or> depth \<le> capacity)"
  by (auto simp: queue_metrics_def bindE_def Let_def split: json.splits sum.splits if_splits)

definition keeps_observed :: "(observation, 'a) act \<Rightarrow> bool" where
  "keeps_observed m \<longleftrightarrow> (\<forall>b k p. observed_ok k b \<longrightarrow> derived_ok p b \<longrightarrow> observed_ok k (snd (m b)) \<and> derived_ok p (snd (m b)))"

lemma keeps_observed_bind: "keeps_observed m \<Longrightarrow> (\<And>v. keeps_observed (f v)) \<Longrightarrow> keeps_observed (bindS m f)"
  unfolding keeps_observed_def bindS_def by (simp split: prod.split sum.split) (metis snd_conv)

lemma keeps_observed_update:
  "(\<And>b k p. observed_ok k b \<Longrightarrow> derived_ok p b \<Longrightarrow> observed_ok k (f b) \<and> derived_ok p (f b)) \<Longrightarrow> keeps_observed (update_act f)"
  by (simp add: keeps_observed_def update_act_def)

lemma keeps_observed_int:
  "(\<And>n b k p. observed_ok k b \<Longrightarrow> derived_ok p b \<Longrightarrow> observed_ok k (g n b) \<and> derived_ok p (g n b)) \<Longrightarrow>
   keeps_observed (observe_int g r)"
  unfolding observe_int_def by (intro keeps_observed_bind keeps_observed_update) (simp_all add: keeps_observed_def pure_act_def)

lemma observe_keeps:
  assumes "0 \<le> sequence" "0 \<le> depth" "0 \<le> capacity" "capacity = 0 \<or> depth \<le> capacity"
  shows "keeps_observed (observe hb metrics now issued sequence measured depth capacity)"
  unfolding observe_def using assms
  by (intro keeps_observed_bind keeps_observed_update keeps_observed_int)
    (auto simp: observed_ok_def derived_ok_def intro!: keeps_observed_update keeps_observed_int)

datatype control_op =
    CHeartbeat doc int
  | CIngest doc doc int "int option"
  | CFailure string string int
  | CRefresh int

fun control_step :: "'sk crypto \<Rightarrow> (doc \<Rightarrow> json) \<Rightarrow> control_plane \<Rightarrow> control_op \<Rightarrow> control_plane" where
  "control_step cr signer c (CHeartbeat metrics now) = snd (heartbeat signer metrics now c)"
| "control_step cr signer c (CIngest hb identity now measured) = snd (ingest cr hb identity now measured c)"
| "control_step cr signer c (CFailure office_id error now) = snd (record_failure office_id error now c)"
| "control_step cr signer c (CRefresh now) = snd (refresh now c)"

lemma ingest_cases:
  "(\<exists>e. ingest cr hb identity now measured c = (Inl e, c)) \<or>
   (\<exists>office_id issued sequence. heartbeat_checks cr (cp_policy c) hb identity now = Inr (office_id, issued, sequence) \<and>
     ((\<exists>e. ingest cr hb identity now measured c = (Inl e, put_peer office_id (peer_of c office_id) c)) \<or>
      (\<exists>metrics depth capacity r b1. ob_sequence (peer_of c office_id) < sequence \<and> queue_metrics hb = Inr (metrics, depth, capacity) \<and>
         observe hb metrics now issued sequence measured depth capacity (peer_of c office_id) = (r, b1) \<and>
         ingest cr hb identity now measured c =
           (case r of Inl e \<Rightarrow> (Inl e, put_peer office_id b1 c)
            | Inr _ \<Rightarrow> (Inr (derive (cp_policy c) now b1), put_peer office_id (derive (cp_policy c) now b1) c)))))"
proof (cases "heartbeat_checks cr (cp_policy c) hb identity now")
  case (Inr ois)
  obtain i s q where ois: "ois = (i, s, q)" by (cases ois)
  show ?thesis
  proof (cases "\<exists>m d k. ob_sequence (peer_of c i) < q \<and> queue_metrics hb = Inr (m, d, k)")
    case True
    then obtain m d k where *: "ob_sequence (peer_of c i) < q" "queue_metrics hb = Inr (m, d, k)" by blast
    obtain r b1 where o: "observe hb m now s q measured d k (peer_of c i) = (r, b1)" by fastforce
    have "ingest cr hb identity now measured c =
           (case r of Inl e \<Rightarrow> (Inl e, put_peer i b1 c)
            | Inr _ \<Rightarrow> (Inr (derive (cp_policy c) now b1), put_peer i (derive (cp_policy c) now b1) c))"
      using Inr ois * o by (cases r) (simp_all add: ingest_def Let_def)
    with Inr ois * o show ?thesis by blast
  next
    case False
    then have "\<exists>e. ingest cr hb identity now measured c = (Inl e, put_peer i (peer_of c i) c)"
      using Inr ois by (cases "queue_metrics hb") (auto simp: ingest_def Let_def)
    with Inr ois show ?thesis by blast
  qed
qed (simp add: ingest_def)

lemma ingest_ok:
  assumes c: "plane_ok c" shows "plane_ok (snd (ingest cr hb identity now measured c))"
  using ingest_cases [of cr hb identity now measured c]
proof (elim disjE exE conjE)
  fix i s q m d k r b1
  assume *: "ob_sequence (peer_of c i) < q" "queue_metrics hb = Inr (m, d, k)"
    "observe hb m now s q measured d k (peer_of c i) = (r, b1)"
    "ingest cr hb identity now measured c =
           (case r of Inl e \<Rightarrow> (Inl e, put_peer i b1 c)
            | Inr _ \<Rightarrow> (Inr (derive (cp_policy c) now b1), put_peer i (derive (cp_policy c) now b1) c))"
  have "0 \<le> q" using *(1) peer_of_ok [OF c, of i] by (simp add: observed_ok_def)
  then have b1: "observed_ok i b1 \<and> derived_ok (cp_policy c) b1"
    using observe_keeps [of q d k hb m now s measured] queue_metrics_ok [OF *(2)] peer_of_ok [OF c, of i] *(3)
    unfolding keeps_observed_def by (metis snd_conv)
  then show ?thesis using derive_ok [of i b1 "cp_policy c" now] put_peer_ok [OF c, of i] unfolding *(4)
    by (simp split: sum.split)
qed (use c put_peer_ok [OF c] peer_of_ok [OF c] in \<open>simp_all\<close>)

lemma control_step_ok: "plane_ok c \<Longrightarrow> plane_ok (control_step cr signer c op)"
proof (cases op)
  case (CFailure i e now)
  assume c: "plane_ok c"
  let ?b = "(peer_of c i)\<lparr>ob_failures := ob_failures (peer_of c i) + 1, ob_error := Some (take 1000 e)\<rparr>"
  have "observed_ok i ?b" using peer_of_ok [OF c, of i] by (simp add: observed_ok_def)
  from derive_ok [OF this] show ?thesis using CFailure put_peer_ok [OF c, of i] by (simp add: record_failure_def Let_def)
next
  case (CRefresh now)
  assume c: "plane_ok c"
  have "dget (map (\<lambda>(k, b). (k, derive (cp_policy c) now b)) (cp_peers c)) k = map_option (derive (cp_policy c) now) (dget (cp_peers c) k)" for k
    by (simp add: map_of_map comp_def)
  moreover have "dict_ok (map (\<lambda>(k, b). (k, derive (cp_policy c) now b)) (cp_peers c))"
    using c by (simp add: plane_ok_def dict_ok_def comp_def case_prod_beta)
  ultimately show ?thesis using CRefresh c
    by (auto simp: refresh_def Let_def plane_ok_def intro: derive_ok [THEN conjunct1] derive_ok [THEN conjunct2])
next
  case (CHeartbeat metrics now)
  assume "plane_ok c"
  then show ?thesis using CHeartbeat by (simp add: heartbeat_def Let_def plane_ok_def)
next
  case (CIngest hb identity now measured)
  assume "plane_ok c"
  then show ?thesis using CIngest ingest_ok by simp
qed


section \<open>Sequence numbers\<close>

definition sequence_of :: "control_plane \<Rightarrow> string \<Rightarrow> int" where
  "sequence_of c i = ob_sequence (peer_of c i)"

lemma peer_of_put [simp]: "peer_of (put_peer i b c) k = (if k = i then b else peer_of c k)"
  by (simp add: peer_of_def put_peer_def)

lemma observe_sequence: "ob_sequence (snd (observe hb metrics now issued sequence measured depth capacity b)) = sequence"
  by (auto simp: observe_def bindS_def observe_int_def pure_act_def update_act_def split: option.split sum.split)

lemma ingest_sequence: "sequence_of c i \<le> sequence_of (snd (ingest cr hb identity now measured c)) i"
  using ingest_cases [of cr hb identity now measured c]
proof (elim disjE exE conjE)
  fix k s q m d ca r b1
  assume *: "ob_sequence (peer_of c k) < q" "observe hb m now s q measured d ca (peer_of c k) = (r, b1)"
    "ingest cr hb identity now measured c =
           (case r of Inl e \<Rightarrow> (Inl e, put_peer k b1 c)
            | Inr _ \<Rightarrow> (Inr (derive (cp_policy c) now b1), put_peer k (derive (cp_policy c) now b1) c))"
  have "ob_sequence b1 = q" using observe_sequence [of hb m now s q measured d ca "peer_of c k"] *(2) by simp
  then show ?thesis using *(1) unfolding *(3) by (simp add: sequence_of_def split: sum.split)
qed (simp_all add: sequence_of_def)

lemma ingest_accepts:
  assumes "ingest cr hb identity now measured c = (Inr b, c1)"
  shows "\<exists>i s q. heartbeat_checks cr (cp_policy c) hb identity now = Inr (i, s, q) \<and> sequence_of c i < q \<and> sequence_of c1 i = q"
  using ingest_cases [of cr hb identity now measured c]
proof (elim disjE exE conjE)
  fix k s q m d ca r b1
  assume *: "heartbeat_checks cr (cp_policy c) hb identity now = Inr (k, s, q)"
    "ob_sequence (peer_of c k) < q" "observe hb m now s q measured d ca (peer_of c k) = (r, b1)"
    "ingest cr hb identity now measured c =
           (case r of Inl e \<Rightarrow> (Inl e, put_peer k b1 c)
            | Inr _ \<Rightarrow> (Inr (derive (cp_policy c) now b1), put_peer k (derive (cp_policy c) now b1) c))"
  have "ob_sequence b1 = q" using observe_sequence [of hb m now s q measured d ca "peer_of c k"] *(3) by simp
  then show ?thesis using *(1,2,4) assms by (auto simp: sequence_of_def split: sum.splits)
qed (use assms in auto)

lemma control_step_sequence: "sequence_of c i \<le> sequence_of (control_step cr signer c op) i"
proof (cases op)
  case (CRefresh now)
  show ?thesis unfolding CRefresh
    by (simp add: sequence_of_def refresh_def Let_def peer_of_def map_of_map comp_def split: option.split)
next
  case (CHeartbeat metrics now)
  show ?thesis unfolding CHeartbeat by (simp add: sequence_of_def heartbeat_def Let_def peer_of_def)
qed (simp_all add: ingest_sequence [unfolded sequence_of_def] record_failure_def Let_def sequence_of_def)

interpretation control: monotone_machine "control_step cr signer" plane_ok "\<lambda>c. sequence_of c i"
  for cr :: "'sk crypto" and signer i
  by unfold_locales (simp_all add: control_step_ok control_step_sequence)

lemma heartbeat_checks_sequence:
  assumes "heartbeat_checks cr p hb identity now = Inr (i, s, q)" "heartbeat_checks cr' p' hb identity' now' = Inr (i', s', q')"
  shows "i' = i \<and> q' = q"
  using assms by (auto simp: heartbeat_checks_def bindE_def split: json.splits if_splits sum.splits)

text \<open>
  The control plane keeps its invariant under every sequence of calls: each observation is filed
  under its office, its readings are in range, the health score lies between 0 and 100, the status is one
  of the five, and a peer recommended for quarantine costs at least 100000 more than the base cost.
\<close>

theorem control_plane_invariant:
  assumes "new_control_plane office_id policy = Inr c"
  shows "plane_ok (foldl (control_step cr signer) c ops)"
proof -
  have "plane_ok c" using assms by (auto simp: new_control_plane_def bindE_def plane_ok_def split: if_splits sum.splits)
  then show ?thesis by (rule control.run_inv)
qed

text \<open>
  C22. An accepted heartbeat is never accepted again: whatever calls follow and whatever identity, time
  and latency it is presented with, the second ingestion raises, and the sequence known of a peer never
  decreases.
\<close>

theorem heartbeats_are_not_replayed:
  assumes "new_control_plane office_id policy = Inr c0" and "c = foldl (control_step cr signer) c0 before"
    and "ingest cr hb identity now measured c = (Inr b, c1)"
    and "c2 = foldl (control_step cr signer) c1 after"
  shows "(\<exists>e. fst (ingest cr hb identity' now' measured' c2) = Inl e) \<and> (\<forall>i. sequence_of c i \<le> sequence_of c2 i)"
proof
  have c: "plane_ok c" using control_plane_invariant [OF assms(1), of cr signer before] assms(2) by simp
  have c1: "plane_ok c1" using ingest_ok [OF c, of cr hb identity now measured] assms(3) by simp
  obtain i s q where first: "heartbeat_checks cr (cp_policy c) hb identity now = Inr (i, s, q)" "sequence_of c1 i = q"
    using ingest_accepts [OF assms(3)] by blast
  have later: "sequence_of c1 k \<le> sequence_of c2 k" for k using control.level_run [OF c1] assms(4) by simp
  show "\<exists>e. fst (ingest cr hb identity' now' measured' c2) = Inl e"
  proof (rule ccontr)
    assume "\<nexists>e. fst (ingest cr hb identity' now' measured' c2) = Inl e"
    then obtain b' c3 where "ingest cr hb identity' now' measured' c2 = (Inr b', c3)"
      by (metis obj_sumE surj_pair fst_conv)
    then obtain i' s' q' where second: "heartbeat_checks cr (cp_policy c2) hb identity' now' = Inr (i', s', q')" "sequence_of c2 i' < q'"
      using ingest_accepts by blast
    from heartbeat_checks_sequence [OF first(1) second(1)] second(2) first(2) later [of i] show False by simp
  qed
  show "\<forall>i. sequence_of c i \<le> sequence_of c2 i"
    using later ingest_sequence [of c _ cr hb identity now measured] assms(3) by (metis order_trans snd_conv)
qed

section \<open>Silence\<close>

text \<open>
  Silence never improves a peer: while nothing is heard of a peer that is not in maintenance and did
  not advertise itself as unreachable, its health score does not rise and its route cost does not fall.
\<close>

theorem silence_never_improves:
  assumes "ob_maintenance b = None" and "ob_advertised b \<notin> {''maintenance'', ''unreachable''}" and "now \<le> now'"
  shows "ob_score (derive p now' b) \<le> ob_score (derive p now b) \<and> ob_cost (derive p now b) \<le> ob_cost (derive p now' b)"
proof -
  have age: "age_of p b now \<le> age_of p b now'" using assms(3) by (auto simp: age_of_def split: option.split)
  let ?s = "live_status p b now" and ?s' = "live_status p b now'"
  have steps: "?s' = ?s \<or> ?s' = ''unreachable'' \<and> ?s \<in> {''healthy'', ''degraded''} \<or> ?s' = ''degraded'' \<and> ?s = ''healthy''"
    using age assms(1,2) by (auto simp: live_status_def in_maintenance_def)
  then have "status_score ?s' \<le> status_score ?s" by (auto simp: status_score_def)
  then have score: "health_score p b ?s' \<le> health_score p b ?s" unfolding health_score_def by linarith
  have "?s \<noteq> ''maintenance''" "?s' \<noteq> ''maintenance''" using assms(1,2) by (auto simp: live_status_def in_maintenance_def)
  with steps score show ?thesis by (auto simp: derive_def Let_def route_cost_def)
qed

lemma silence_may_help_unreachable:
  "let b = (new_observation ''A'')\<lparr>ob_last_seen := Some 0, ob_advertised := ''unreachable''\<rparr> in
   map (\<lambda>now. (ob_score (derive default_control_policy now b), ob_cost (derive default_control_policy now b))) [0, 90, 180] =
   [(0, 101100), (65, 450), (0, 101100)]"
  by code_simp

section \<open>Heartbeats between offices\<close>

lemma int_field_is: "dget d k = Some (JInt n) \<Longrightarrow> int_field d k = Inr n"
  by (simp add: int_field_def jget_default_def)

text \<open>The metrics a published heartbeat carries, read back.\<close>

lemma heartbeat_readback:
  assumes "heartbeat_body c metrics now = Inr body"
  shows "\<exists>depth capacity latency workers services. int_field metrics ''queue_depth'' = Inr depth \<and>
    int_field metrics ''queue_capacity'' = Inr capacity \<and> int_field metrics ''latency_ms'' = Inr latency \<and>
    0 \<le> depth \<and> 0 \<le> capacity \<and> (capacity = 0 \<or> depth \<le> capacity) \<and>
    body = [(''version'', JStr ''1.0''), (''kind'', JStr ''telegraph_control_heartbeat''),
      (''office_id'', JStr (cp_office_id c)), (''sequence'', JInt (cp_local_sequence c)), (''issued_at'', JInt now),
      (''valid_until'', JInt (now + cpl_heartbeat_interval (cp_policy c) * 2)),
      (''status'', JStr (py_str (jget_default metrics ''status'' (JStr ''healthy'')))),
      (''maintenance_until'', jget metrics ''maintenance_until''),
      (''metrics'', JObj [(''latency_ms'', JInt (max 0 latency)), (''queue_depth'', JInt depth),
         (''queue_capacity'', JInt capacity), (''active_workers'', JInt (max 0 workers)),
         (''services'', sorted_pairs services)]),
      (''capabilities_digest'', jget metrics ''capabilities_digest'')]"
  using assms by (auto simp: heartbeat_body_def bindE_def split: sum.splits if_splits json.splits)

lemma heartbeat_accepted:
  assumes "signatures_verify cr" and "CHR ''#'' \<notin> set (of_office_id ofc)" and "of_office_id ofc = cp_office_id a"
    and "heartbeat (office_sign cr ofc) metrics now a = (Inr hb, a')"
    and "jget metrics ''maintenance_until'' = JNull"
    and "\<bar>now' - now\<bar> \<le> cpl_clock_skew (cp_policy b)" and "now' \<le> now + cpl_heartbeat_interval (cp_policy a) * 2"
    and "sequence_of b (cp_office_id a) < cp_local_sequence a'"
  shows "\<exists>obs b'. ingest cr hb (identity_document cr ofc) now' None b = (Inr obs, b') \<and>
    ob_sequence obs = cp_local_sequence a' \<and> sequence_of b' (cp_office_id a) = cp_local_sequence a' \<and>
    int_field metrics ''queue_depth'' = Inr (ob_queue_depth obs) \<and> ob_last_seen obs = Some now'"
proof -
  have eta: "(\<lambda>body. dset body ''signature'' (office_sign cr ofc body)) = signed_doc cr ofc"
    by (simp add: fun_eq_iff signed_doc_def)
  have a': "a' = a\<lparr>cp_local_sequence := cp_local_sequence a + 1\<rparr>"
    and mapped: "map_sum id (signed_doc cr ofc) (heartbeat_body a' metrics now) = Inr hb"
    using assms(4) eta by (auto simp: heartbeat_def Let_def)
  obtain body where body: "heartbeat_body a' metrics now = Inr body" "hb = signed_doc cr ofc body"
    using mapped by (cases "heartbeat_body a' metrics now") simp_all
  from heartbeat_readback [OF body(1)] obtain depth capacity latency workers services where
    read: "int_field metrics ''queue_depth'' = Inr depth" "0 \<le> depth" "0 \<le> capacity" "capacity = 0 \<or> depth \<le> capacity"
    and b: "body = [(''version'', JStr ''1.0''), (''kind'', JStr ''telegraph_control_heartbeat''),
      (''office_id'', JStr (cp_office_id a')), (''sequence'', JInt (cp_local_sequence a')), (''issued_at'', JInt now),
      (''valid_until'', JInt (now + cpl_heartbeat_interval (cp_policy a') * 2)),
      (''status'', JStr (py_str (jget_default metrics ''status'' (JStr ''healthy'')))),
      (''maintenance_until'', jget metrics ''maintenance_until''),
      (''metrics'', JObj [(''latency_ms'', JInt (max 0 latency)), (''queue_depth'', JInt depth),
         (''queue_capacity'', JInt capacity), (''active_workers'', JInt (max 0 workers)),
         (''services'', sorted_pairs services)]),
      (''capabilities_digest'', jget metrics ''capabilities_digest'')]" by blast
  let ?m = "[(''latency_ms'', JInt (max 0 latency)), (''queue_depth'', JInt depth),
         (''queue_capacity'', JInt capacity), (''active_workers'', JInt (max 0 workers)), (''services'', sorted_pairs services)]"
  have verify: "verify_document cr hb (identity_document cr ofc)" unfolding body(2) by (rule sign_verifies [OF assms(1,2)])
  have get: "jget hb ''kind'' = JStr ''telegraph_control_heartbeat''" "jget hb ''office_id'' = JStr (cp_office_id a)"
      "int_field hb ''issued_at'' = Inr now" "int_field hb ''valid_until'' = Inr (now + cpl_heartbeat_interval (cp_policy a) * 2)"
      "int_field hb ''sequence'' = Inr (cp_local_sequence a')" "jget_default hb ''metrics'' (JObj []) = JObj ?m"
      "jget hb ''maintenance_until'' = JNull"
    unfolding body(2) b by (simp_all add: signed_doc_def jget_simps int_field_def jget_default_def a' assms(5))
  have idn: "jget (identity_document cr ofc) ''office_id'' = JStr (cp_office_id a)"
    by (simp add: identity_document_def signed_doc_def jget_simps assms(3))
  have checks: "heartbeat_checks cr (cp_policy b) hb (identity_document cr ofc) now' = Inr (cp_office_id a, now, cp_local_sequence a')"
    using assms(6,7) by (simp add: heartbeat_checks_def get verify idn)
  have mf: "int_field ?m ''queue_depth'' = Inr depth" "int_field ?m ''queue_capacity'' = Inr capacity"
      "int_field ?m ''latency_ms'' = Inr (max 0 latency)" "int_field ?m ''active_workers'' = Inr (max 0 workers)"
    by (simp_all add: int_field_def jget_default_def)
  have queue: "queue_metrics hb = Inr (?m, depth, capacity)"
    using read by (auto simp: queue_metrics_def get mf Let_def)
  have "fst (observe hb ?m now' now (cp_local_sequence a') None depth capacity p) = Inr ()" for p
    by (simp add: observe_def bindS_def observe_int_def pure_act_def update_act_def get mf)
  moreover have "ob_queue_depth (snd (observe hb ?m now' now (cp_local_sequence a') None depth capacity p)) = depth"
    "ob_last_seen (snd (observe hb ?m now' now (cp_local_sequence a') None depth capacity p)) = Some now'" for p
    by (simp_all add: observe_def bindS_def observe_int_def pure_act_def update_act_def get mf)
  ultimately obtain o1 where o1: "observe hb ?m now' now (cp_local_sequence a') None depth capacity (peer_of b (cp_office_id a)) = (Inr (), o1)"
    "ob_queue_depth o1 = depth" "ob_last_seen o1 = Some now'" by (metis prod.collapse)
  have seq: "ob_sequence o1 = cp_local_sequence a'"
    using observe_sequence [of hb ?m now' now "cp_local_sequence a'" None depth capacity "peer_of b (cp_office_id a)"] o1(1) by simp
  have "ob_last_seen (derive (cp_policy b) now' o1) = Some now'" using o1(3) by (simp add: derive_def Let_def)
  then show ?thesis using assms(8) checks queue o1 seq read(1)
    by (simp add: ingest_def Let_def sequence_of_def)
qed

text \<open>
  Heartbeats get through: what an office publishes with its own key is accepted by every control
  plane that holds the office's identity, has an older sequence and receives it in time, and the
  observation then shows the published sequence and queue readings.
\<close>

theorem published_heartbeats_are_accepted:
  assumes "signatures_verify cr" and "CHR ''#'' \<notin> set (of_office_id ofc)" and "of_office_id ofc = cp_office_id a"
    and "heartbeat (office_sign cr ofc) metrics now a = (Inr hb, a')"
    and "jget metrics ''maintenance_until'' = JNull"
    and "\<bar>now' - now\<bar> \<le> cpl_clock_skew (cp_policy b)" and "now' \<le> now + cpl_heartbeat_interval (cp_policy a) * 2"
    and "sequence_of b (cp_office_id a) < cp_local_sequence a'"
  shows "\<exists>obs b'. ingest cr hb (identity_document cr ofc) now' None b = (Inr obs, b') \<and>
    ob_sequence obs = cp_local_sequence a' \<and> sequence_of b' (cp_office_id a) = cp_local_sequence a' \<and>
    int_field metrics ''queue_depth'' = Inr (ob_queue_depth obs) \<and> ob_last_seen obs = Some now'"
  by (rule heartbeat_accepted [OF assms])

section \<open>Concrete runs\<close>

definition demo_plane :: "string \<Rightarrow> control_plane" where
  "demo_plane i = \<lparr>cp_office_id = i, cp_policy = default_control_policy, cp_local_sequence = 0, cp_peers = []\<rparr>"

lemma demo_plane: "new_control_plane ''A'' None = Inr (demo_plane ''A'')" "new_control_plane ''B'' None = Inr (demo_plane ''B'')"
  by (simp_all add: new_control_plane_def check_control_policy_def default_control_policy_def demo_plane_def)

theorem control_plane_invariant_witness:
  "plane_ok (foldl (control_step demo_crypto (\<lambda>_. JNull)) (demo_plane ''A'') [CFailure ''B'' ''timeout'' 5, CRefresh 7])"
  by (rule control_plane_invariant [OF demo_plane(1)])

definition demo_metrics :: doc where
  "demo_metrics = [(''queue_depth'', JInt 3), (''queue_capacity'', JInt 10)]"

lemma demo_heartbeat:
  obtains hb a' where "heartbeat (office_sign demo_crypto (demo_office ''A'')) demo_metrics 1000 (demo_plane ''A'') = (Inr hb, a')"
    "cp_local_sequence a' = 1"
  by (simp add: heartbeat_def heartbeat_body_def demo_metrics_def demo_plane_def int_field_def jget_default_def)

lemma demo_conditions:
  "CHR ''#'' \<notin> set (of_office_id (demo_office ''A''))" "of_office_id (demo_office ''A'') = cp_office_id (demo_plane ''A'')"
  "jget demo_metrics ''maintenance_until'' = JNull" "\<bar>1010 - 1000\<bar> \<le> cpl_clock_skew (cp_policy (demo_plane ''B''))"
  "1010 \<le> 1000 + cpl_heartbeat_interval (cp_policy (demo_plane ''A'')) * 2"
  "sequence_of (demo_plane ''B'') (cp_office_id (demo_plane ''A'')) < 1"
  by (simp_all add: demo_office_def demo_plane_def demo_metrics_def jget_simps default_control_policy_def
    sequence_of_def peer_of_def new_observation_def)

theorem published_heartbeats_are_accepted_witness:
  "\<exists>hb a' obs b'. heartbeat (office_sign demo_crypto (demo_office ''A'')) demo_metrics 1000 (demo_plane ''A'') = (Inr hb, a') \<and>
     ingest demo_crypto hb (identity_document demo_crypto (demo_office ''A'')) 1010 None (demo_plane ''B'') = (Inr obs, b') \<and>
     ob_queue_depth obs = 3 \<and> ob_sequence obs = 1"
proof -
  obtain hb a' where hb: "heartbeat (office_sign demo_crypto (demo_office ''A'')) demo_metrics 1000 (demo_plane ''A'') = (Inr hb, a')"
    "cp_local_sequence a' = 1" by (rule demo_heartbeat)
  from published_heartbeats_are_accepted [OF demo_crypto_ok demo_conditions(1,2) hb(1) demo_conditions(3-5)] demo_conditions(6) hb
  show ?thesis by (auto simp: demo_metrics_def int_field_def jget_default_def)
qed

theorem heartbeats_are_not_replayed_witness:
  "\<exists>hb obs c1. ingest demo_crypto hb (identity_document demo_crypto (demo_office ''A'')) 1010 None (demo_plane ''B'') = (Inr obs, c1) \<and>
     (\<exists>e. fst (ingest demo_crypto hb (identity_document demo_crypto (demo_office ''A'')) 1020 None
       (foldl (control_step demo_crypto (\<lambda>_. JNull)) c1 [CFailure ''A'' ''timeout'' 1015])) = Inl e)"
proof -
  obtain hb a' where hb: "heartbeat (office_sign demo_crypto (demo_office ''A'')) demo_metrics 1000 (demo_plane ''A'') = (Inr hb, a')"
    "cp_local_sequence a' = 1" by (rule demo_heartbeat)
  obtain obs c1 where i: "ingest demo_crypto hb (identity_document demo_crypto (demo_office ''A'')) 1010 None (demo_plane ''B'') = (Inr obs, c1)"
    using heartbeat_accepted [OF demo_crypto_ok demo_conditions(1,2) hb(1) demo_conditions(3-5)] demo_conditions(6) hb(2) by auto
  have "demo_plane ''B'' = foldl (control_step demo_crypto (\<lambda>_. JNull)) (demo_plane ''B'') []" by simp
  from heartbeats_are_not_replayed [OF demo_plane(2) this i refl] i show ?thesis by blast
qed

theorem silence_never_improves_witness:
  "ob_score (derive default_control_policy 100 (new_observation ''A'')) \<le> ob_score (derive default_control_policy 0 (new_observation ''A''))"
proof -
  have "ob_maintenance (new_observation ''A'') = None" "ob_advertised (new_observation ''A'') \<notin> {''maintenance'', ''unreachable''}"
    by (simp_all add: new_observation_def)
  from silence_never_improves [OF this, of 0 100] show ?thesis by simp
qed

end
