(* ===== verification/GatewayModel.thy ===== *)
theory GatewayModel
  imports Effects Contracts PyText
begin

text \<open>
  The messaging gateway, services/wwcx-messaging-gateway/app: models.py (messages and delivery events),
  compliance.py (keywords and the suppression registry), outbound_policy.py (the authorization policy),
  store.py (the in-memory event store). An instant is an \<open>int\<close> of microseconds, a UUID its text; the
  rendering of an instant (\<open>isoformat\<close>) is an argument.
\<close>

section \<open>Messages\<close>

datatype channel = SMS | MMS

datatype direction = Inbound | Outbound

datatype delivery_state = Delivered | Failed | Undelivered

definition channel_value :: "channel \<Rightarrow> string" where
  "channel_value c = (case c of SMS \<Rightarrow> ''sms'' | MMS \<Rightarrow> ''mms'')"

definition direction_value :: "direction \<Rightarrow> string" where
  "direction_value d = (case d of Inbound \<Rightarrow> ''inbound'' | Outbound \<Rightarrow> ''outbound'')"

definition delivery_value :: "delivery_state \<Rightarrow> string" where
  "delivery_value d = (case d of Delivered \<Rightarrow> ''delivered'' | Failed \<Rightarrow> ''failed'' | Undelivered \<Rightarrow> ''undelivered'')"

record media_item =
  mi_url :: string
  mi_content_type :: "string option"
  mi_sha256 :: "string option"

record gmessage =
  gm_event_id :: string
  gm_provider :: string
  gm_provider_event_id :: string
  gm_direction :: direction
  gm_channel :: channel
  gm_sender :: string
  gm_recipients :: "string list"
  gm_text :: string
  gm_media :: "media_item list"
  gm_occurred_at :: int

record delivery_event =
  de_event_id :: string
  de_provider :: string
  de_provider_event_id :: string
  de_message_id :: string
  de_status :: delivery_state
  de_occurred_at :: int
  de_raw_status :: "string option"

definition event_key :: "gmessage \<Rightarrow> string \<times> string" where
  "event_key m = (gm_provider m, gm_provider_event_id m)"

text \<open>\<open>min(max(int(limit), lo), hi)\<close>, \<open>xs[:n]\<close>, and a stable descending sort.\<close>

definition bounded :: "int \<Rightarrow> int \<Rightarrow> int \<Rightarrow> int" where
  "bounded lo hi n = min (max n lo) hi"

definition py_prefix :: "int \<Rightarrow> 'a list \<Rightarrow> 'a list" where
  "py_prefix n xs = (if n \<ge> 0 then take (nat n) xs else take (length xs - nat (- n)) xs)"

definition sort_desc :: "('a \<Rightarrow> 'b::linorder) \<Rightarrow> 'a list \<Rightarrow> 'a list" where
  "sort_desc f xs = rev (sort_key f (rev xs))"

section \<open>Keyword compliance\<close>

definition stop_words :: "string set" where
  "stop_words = {''STOP'', ''STOPALL'', ''UNSUBSCRIBE'', ''CANCEL'', ''END'', ''QUIT''}"

definition start_words :: "string set" where
  "start_words = {''START'', ''UNSTOP'', ''YES''}"

definition help_words :: "string set" where
  "help_words = {''HELP'', ''INFO''}"

definition normalize_keyword :: "string \<Rightarrow> string" where
  "normalize_keyword text = upper (strip text)"

definition classify_keyword :: "string \<Rightarrow> string option" where
  "classify_keyword text =
     (let keyword = normalize_keyword text in
      if keyword \<in> stop_words then Some ''stop''
      else if keyword \<in> start_words then Some ''start''
      else if keyword \<in> help_words then Some ''help''
      else None)"

record keyword_event =
  ke_address :: string
  ke_action :: string
  ke_keyword :: string
  ke_occurred_at :: int
  ke_message_id :: string
  ke_applied :: bool

record registry =
  rg_suppressed :: "(string, int) dict"
  rg_effective :: "(string, int \<times> string) dict"
  rg_events :: "keyword_event list"

definition empty_registry :: registry where
  "empty_registry = \<lparr>rg_suppressed = [], rg_effective = [], rg_events = []\<rparr>"

definition newer :: "'a::linorder option \<Rightarrow> 'a \<Rightarrow> bool" where
  "newer current k = (case current of None \<Rightarrow> True | Some c \<Rightarrow> k > c)"

definition registry_apply ::
  "string \<Rightarrow> string \<Rightarrow> int option \<Rightarrow> string \<Rightarrow> int \<Rightarrow> registry \<Rightarrow> string option \<times> registry" where
  "registry_apply address text occurred_at message_id now r =
     (case classify_keyword text of
        None \<Rightarrow> (None, r)
      | Some action \<Rightarrow>
          let event_time = (case occurred_at of None \<Rightarrow> now | Some t \<Rightarrow> t);
              consent = action \<in> {''stop'', ''start''};
              applied = (\<not> consent \<or> newer (dget (rg_effective r) address) (event_time, message_id));
              r1 = (if consent \<and> applied
                then r\<lparr>rg_effective := dset (rg_effective r) address (event_time, message_id),
                       rg_suppressed := (if action = ''stop'' then dset (rg_suppressed r) address event_time
                         else dpop (rg_suppressed r) address)\<rparr>
                else r)
          in (Some action, r1\<lparr>rg_events := rg_events r1 @ [\<lparr>ke_address = address, ke_action = action,
                ke_keyword = normalize_keyword text, ke_occurred_at = event_time, ke_message_id = message_id,
                ke_applied = applied\<rparr>]\<rparr>))"

definition may_send :: "registry \<Rightarrow> string \<Rightarrow> bool" where
  "may_send r address \<longleftrightarrow> dget (rg_suppressed r) address = None"

definition keyword_event_doc :: "(int \<Rightarrow> string) \<Rightarrow> keyword_event \<Rightarrow> doc" where
  "keyword_event_doc fmt e =
     [(''address'', JStr (ke_address e)), (''action'', JStr (ke_action e)), (''keyword'', JStr (ke_keyword e)),
      (''occurred_at'', JStr (fmt (ke_occurred_at e))), (''message_id'', JStr (ke_message_id e)), (''applied'', JBool (ke_applied e))]"

definition count_where :: "('a \<Rightarrow> bool) \<Rightarrow> 'a list \<Rightarrow> json" where
  "count_where P xs = JInt (int (length (filter P xs)))"

definition registry_status :: "(int \<Rightarrow> string) \<Rightarrow> int \<Rightarrow> registry \<Rightarrow> doc" where
  "registry_status fmt limit r =
     (let n = int (length (rg_suppressed r)) in
      [(''durable'', JBool False), (''suppression_count'', JInt n), (''keyword_suppression_count'', JInt n),
       (''consent_state_counts'', JObj [(''suppressed'', JInt n),
          (''active'', JInt (max 0 (int (length (rg_effective r)) - n)))]),
       (''action_counts'', JObj (map (\<lambda>a. (a, count_where (\<lambda>e. ke_action e = a) (rg_events r))) [''stop'', ''start'', ''help''])),
       (''stale_event_count'', count_where (\<lambda>e. \<not> ke_applied e) (rg_events r)),
       (''recent_events'', JList (map (\<lambda>e. JObj (keyword_event_doc fmt e))
          (take (nat (bounded 1 100 limit)) (rev (rg_events r)))))])"

section \<open>The in-memory event store\<close>

record control_record =
  cr_action :: string
  cr_actor :: string
  cr_reason :: string

record mem_store =
  me_events :: "(string \<times> string, gmessage) dict"
  me_paused :: bool
  me_last_control :: "control_record option"
  me_compliance :: registry

definition empty_mem_store :: mem_store where
  "empty_mem_store = \<lparr>me_events = [], me_paused = False, me_last_control = None, me_compliance = empty_registry\<rparr>"

definition mem_put :: "int \<Rightarrow> gmessage \<Rightarrow> mem_store \<Rightarrow> bool \<times> mem_store" where
  "mem_put now m s =
     (if dget (me_events s) (event_key m) \<noteq> None then (False, s)
      else let s1 = s\<lparr>me_events := dset (me_events s) (event_key m) m\<rparr> in
        (True, if gm_direction m = Inbound \<and> gm_channel m = SMS
          then s1\<lparr>me_compliance := snd (registry_apply (gm_sender m) (gm_text m) (Some (gm_occurred_at m)) (gm_event_id m) now
                 (me_compliance s1))\<rparr>
          else s1))"

definition mem_count :: "mem_store \<Rightarrow> int" where
  "mem_count s = int (length (me_events s))"

definition mem_recent :: "int \<Rightarrow> mem_store \<Rightarrow> gmessage list" where
  "mem_recent limit s = py_prefix limit (sort_desc gm_occurred_at (map snd (me_events s)))"

definition mem_get :: "string \<Rightarrow> mem_store \<Rightarrow> gmessage option" where
  "mem_get event_id s = find (\<lambda>m. gm_event_id m = event_id) (map snd (me_events s))"

definition control_doc :: "control_record \<Rightarrow> json" where
  "control_doc c = JObj [(''action'', JStr (cr_action c)), (''actor'', JStr (cr_actor c)), (''reason'', JStr (cr_reason c))]"

definition mem_control :: "mem_store \<Rightarrow> doc" where
  "mem_control s = [(''paused'', JBool (me_paused s)),
     (''last_control'', case me_last_control s of None \<Rightarrow> JNull | Some c \<Rightarrow> control_doc c)]"

definition mem_set_paused :: "bool \<Rightarrow> string \<Rightarrow> string \<Rightarrow> mem_store \<Rightarrow> doc \<times> mem_store" where
  "mem_set_paused paused actor reason s =
     (let s1 = s\<lparr>me_paused := paused, me_last_control := Some \<lparr>cr_action = (if paused then ''pause'' else ''resume''),
            cr_actor = actor, cr_reason = reason\<rparr>\<rparr>
      in (mem_control s1, s1))"

section \<open>The outbound policy\<close>

record outbound_policy =
  op_enabled :: bool
  op_senders :: "string set"
  op_prefixes :: "string list"
  op_max_recipients :: int
  op_max_chars :: int
  op_hourly :: int
  op_daily :: int

definition policy_from_values ::
  "bool \<Rightarrow> string option \<Rightarrow> string option \<Rightarrow> int \<Rightarrow> int \<Rightarrow> int \<Rightarrow> int \<Rightarrow> outbound_policy" where
  "policy_from_values enabled senders prefixes recipients chars hourly daily =
     (let items = (\<lambda>v. case v of None \<Rightarrow> [] | Some t \<Rightarrow> comma_items t) in
      \<lparr>op_enabled = enabled, op_senders = set (items senders), op_prefixes = items prefixes,
       op_max_recipients = max 1 (min recipients 32), op_max_chars = max 1 (min chars 10000),
       op_hourly = max 1 (min hourly 100000), op_daily = max 1 (min daily 1000000)\<rparr>)"

definition policy_evaluate :: "outbound_policy \<Rightarrow> gmessage \<Rightarrow> string option" where
  "policy_evaluate p m =
     (if \<not> op_enabled p then Some ''outbound_policy_disabled''
      else if op_senders p = {} then Some ''authorized_sender_allowlist_empty''
      else if gm_sender m \<notin> op_senders p then Some ''sender_not_authorized''
      else if op_prefixes p = [] then Some ''destination_allowlist_empty''
      else if int (length (gm_recipients m)) > op_max_recipients p then Some ''recipient_limit_exceeded''
      else if int (length (gm_text m)) > op_max_chars p then Some ''message_size_limit_exceeded''
      else if list_ex (\<lambda>r. \<not> list_ex (starts_with r) (op_prefixes p)) (gm_recipients m)
      then Some ''destination_not_authorized''
      else None)"

end
