(* ===== verification/GatewayStore.thy ===== *)
theory GatewayStore
  imports GatewayModel
begin

text \<open>
  The PostgreSQL store of the messaging gateway: app/persistence.py (\<open>PostgresEventStore\<close>) and the
  send reservations of app/outbound_policy.py (\<open>PostgresSendRateLimiter\<close>). A table is the list of its
  rows in insertion order; \<open>now()\<close> and fresh job ids are arguments; every method is one transaction, so
  an error leaves the state unchanged. Text compares by code point (the C collation).
\<close>

section \<open>Tables\<close>

record event_row =
  er_id :: string
  er_provider :: string
  er_provider_event_id :: string
  er_type :: string
  er_payload :: gmessage

record text_row =
  tx_id :: string
  tx_provider :: string
  tx_provider_message_id :: "string option"
  tx_direction :: string
  tx_channel :: string
  tx_sender :: string
  tx_recipients :: "string list"
  tx_body :: string
  tx_status :: string
  tx_occurred_at :: int

record consent_row =
  cs_address :: string
  cs_state :: string
  cs_effective_at :: int
  cs_source :: string

record suppression_row =
  sp_address :: string
  sp_reason :: string
  sp_at :: int
  sp_source :: "string option"

record compliance_row =
  cw_event :: keyword_event
  cw_recorded_at :: int

record job_row =
  jb_id :: string
  jb_message_id :: string
  jb_state :: string
  jb_attempts :: int
  jb_available_at :: int
  jb_locked_at :: "int option"
  jb_last_error :: "string option"
  jb_created_at :: int

record reservation_row =
  rv_job_id :: string
  rv_message_id :: string
  rv_provider :: string
  rv_sender :: string
  rv_recipients :: int
  rv_at :: int

record control_row =
  ct_paused :: bool
  ct_updated_at :: int
  ct_updated_by :: string
  ct_reason :: string

record gateway_db =
  gd_events :: "event_row list"
  gd_messages :: "text_row list"
  gd_consent :: "consent_row list"
  gd_suppressions :: "suppression_row list"
  gd_compliance :: "compliance_row list"
  gd_jobs :: "job_row list"
  gd_reservations :: "reservation_row list"
  gd_control :: "control_row option"
  gd_audit :: "control_record list"

text \<open>The state after the migrations: the control row exists and is not paused.\<close>

definition migrated_db :: "int \<Rightarrow> gateway_db" where
  "migrated_db now = \<lparr>gd_events = [], gd_messages = [], gd_consent = [], gd_suppressions = [], gd_compliance = [],
     gd_jobs = [], gd_reservations = [], gd_control = Some \<lparr>ct_paused = False, ct_updated_at = now,
       ct_updated_by = ''system'', ct_reason = ''initial state''\<rparr>, gd_audit = []\<rparr>"

definition seconds :: "int \<Rightarrow> int" where
  "seconds n = n * 1000000"

definition insert_unique :: "('r \<Rightarrow> 'k) \<Rightarrow> 'r \<Rightarrow> 'r list \<Rightarrow> 'r list outcome" where
  "insert_unique key r rows =
     (if find_row key (key r) rows = None then Inr (rows @ [r]) else Inl (OtherError ''UniqueViolation''))"

section \<open>Consent\<close>

definition keyword_reason :: "string \<Rightarrow> bool" where
  "keyword_reason reason \<longleftrightarrow> starts_with reason ''keyword:''"

definition upsert_consent :: "consent_row \<Rightarrow> consent_row list \<Rightarrow> bool \<times> consent_row list" where
  "upsert_consent c rows =
     (case find_row cs_address (cs_address c) rows of
        None \<Rightarrow> (True, rows @ [c])
      | Some old \<Rightarrow>
          if cs_effective_at c > cs_effective_at old \<or>
             (cs_effective_at c = cs_effective_at old \<and> cs_source c > cs_source old)
          then (True, update_where (\<lambda>r. cs_address r = cs_address c) (\<lambda>_. c) rows) else (False, rows))"

definition suppress_address :: "string \<Rightarrow> int \<Rightarrow> string \<Rightarrow> suppression_row list \<Rightarrow> suppression_row list" where
  "suppress_address address t source rows =
     (let row = \<lparr>sp_address = address, sp_reason = ''keyword:stop'', sp_at = t, sp_source = Some source\<rparr> in
      if find_row sp_address address rows = None then rows @ [row]
      else update_where (\<lambda>r. sp_address r = address \<and> keyword_reason (sp_reason r)) (\<lambda>_. row) rows)"

definition release_address :: "string \<Rightarrow> suppression_row list \<Rightarrow> suppression_row list" where
  "release_address address rows = filter (\<lambda>r. \<not> (sp_address r = address \<and> keyword_reason (sp_reason r))) rows"

definition record_compliance :: "int \<Rightarrow> gmessage \<Rightarrow> gateway_db \<Rightarrow> gateway_db" where
  "record_compliance now m d =
     (if gm_direction m \<noteq> Inbound \<or> gm_channel m \<noteq> SMS then d
      else case classify_keyword (gm_text m) of
        None \<Rightarrow> d
      | Some action \<Rightarrow>
          let consent = action \<in> {''stop'', ''start''};
              (applied, rows) = (if consent then upsert_consent
                \<lparr>cs_address = gm_sender m, cs_state = (if action = ''stop'' then ''suppressed'' else ''active''),
                 cs_effective_at = gm_occurred_at m, cs_source = gm_event_id m\<rparr> (gd_consent d) else (True, gd_consent d))
          in d\<lparr>gd_consent := rows,
               gd_suppressions := (if applied \<and> action = ''stop''
                   then suppress_address (gm_sender m) (gm_occurred_at m) (gm_event_id m) (gd_suppressions d)
                 else if applied \<and> action = ''start'' then release_address (gm_sender m) (gd_suppressions d)
                 else gd_suppressions d),
               gd_compliance := gd_compliance d @ [\<lparr>cw_event = \<lparr>ke_address = gm_sender m, ke_action = action,
                 ke_keyword = normalize_keyword (gm_text m), ke_occurred_at = gm_occurred_at m,
                 ke_message_id = gm_event_id m, ke_applied = applied\<rparr>, cw_recorded_at = now\<rparr>]\<rparr>)"

section \<open>Events and messages\<close>

definition row_key :: "event_row \<Rightarrow> string \<times> string" where
  "row_key r = (er_provider r, er_provider_event_id r)"

text \<open>\<open>INSERT ... ON CONFLICT (provider, provider_event_id) DO NOTHING RETURNING id\<close>.\<close>

definition insert_event :: "string \<Rightarrow> gmessage \<Rightarrow> (gateway_db, bool) act" where
  "insert_event kind m d =
     (if find_row row_key (event_key m) (gd_events d) \<noteq> None then (Inr False, d)
      else case insert_unique er_id \<lparr>er_id = gm_event_id m, er_provider = gm_provider m,
             er_provider_event_id = gm_provider_event_id m, er_type = kind, er_payload = m\<rparr> (gd_events d) of
          Inl e \<Rightarrow> (Inl e, d)
        | Inr rows \<Rightarrow> (Inr True, d\<lparr>gd_events := rows\<rparr>))"

definition insert_message :: "string option \<Rightarrow> string \<Rightarrow> gmessage \<Rightarrow> (gateway_db, unit) act" where
  "insert_message provider_id status m d =
     (case insert_unique tx_id \<lparr>tx_id = gm_event_id m, tx_provider = gm_provider m, tx_provider_message_id = provider_id,
             tx_direction = direction_value (gm_direction m), tx_channel = channel_value (gm_channel m), tx_sender = gm_sender m,
             tx_recipients = gm_recipients m, tx_body = gm_text m, tx_status = status, tx_occurred_at = gm_occurred_at m\<rparr>
           (gd_messages d) of
        Inl e \<Rightarrow> (Inl e, d)
      | Inr rows \<Rightarrow> (Inr (), d\<lparr>gd_messages := rows\<rparr>))"

definition put_if_absent :: "int \<Rightarrow> gmessage \<Rightarrow> (gateway_db, bool) act" where
  "put_if_absent now m = transaction
     (bindS (insert_event ''message.received'' m) (\<lambda>inserted.
        if \<not> inserted then ret False
        else bindS (insert_message (Some (gm_provider_event_id m)) ''received'' m) (\<lambda>_.
             bindS (update_act (record_compliance now m)) (\<lambda>_. ret True))))"

definition enqueue_outbound :: "int \<Rightarrow> string \<Rightarrow> gmessage \<Rightarrow> (gateway_db, bool) act" where
  "enqueue_outbound now job_id m =
     (if gm_direction m \<noteq> Outbound then raise_err (ValueError ''outbound queue accepts outbound messages only'')
      else transaction
     (bindS (insert_event ''message.outbound.queued'' m) (\<lambda>inserted.
        if \<not> inserted then ret False
        else bindS (insert_message None ''queued'' m) (\<lambda>_ d.
          (case insert_unique jb_id \<lparr>jb_id = job_id, jb_message_id = gm_event_id m, jb_state = ''pending'', jb_attempts = 0,
                 jb_available_at = now, jb_locked_at = None, jb_last_error = None, jb_created_at = now\<rparr> (gd_jobs d) of
             Inl e \<Rightarrow> (Inl e, d)
           | Inr rows \<Rightarrow> (Inr True, d\<lparr>gd_jobs := rows\<rparr>))))))"

section \<open>The outbound queue\<close>

record claimed_job =
  cj_job_id :: string
  cj_message :: gmessage
  cj_attempts :: int

definition job_payload :: "gateway_db \<Rightarrow> job_row \<Rightarrow> gmessage option" where
  "job_payload d j =
     (case find (\<lambda>e. er_id e = jb_message_id j \<and> er_type e = ''message.outbound.queued'') (gd_events d) of
        None \<Rightarrow> None | Some e \<Rightarrow> Some (er_payload e))"

definition due_jobs :: "gateway_db \<Rightarrow> int \<Rightarrow> job_row list" where
  "due_jobs d now = sort_key (\<lambda>j. (jb_available_at j, jb_created_at j, jb_id j))
     (filter (\<lambda>j. jb_state j = ''pending'' \<and> jb_available_at j \<le> now \<and> job_payload d j \<noteq> None) (gd_jobs d))"

definition update_job :: "string \<Rightarrow> (job_row \<Rightarrow> job_row) \<Rightarrow> gateway_db \<Rightarrow> gateway_db" where
  "update_job job_id f d = d\<lparr>gd_jobs := update_where (\<lambda>j. jb_id j = job_id) f (gd_jobs d)\<rparr>"

definition claim_outbound_job :: "int \<Rightarrow> gateway_db \<Rightarrow> claimed_job option \<times> gateway_db" where
  "claim_outbound_job now d =
     (case due_jobs d now of
        [] \<Rightarrow> (None, d)
      | j # _ \<Rightarrow>
          (case job_payload d j of
             None \<Rightarrow> (None, d)
           | Some m \<Rightarrow>
               (Some \<lparr>cj_job_id = jb_id j, cj_message = m, cj_attempts = jb_attempts j + 1\<rparr>,
                update_job (jb_id j) (\<lambda>r. r\<lparr>jb_state := ''processing'', jb_attempts := jb_attempts j + 1,
                  jb_locked_at := Some now\<rparr>) d)))"

definition suppressed_recipients :: "string list \<Rightarrow> gateway_db \<Rightarrow> string list" where
  "suppressed_recipients recipients d =
     (if recipients = [] then []
      else sort (map sp_address (filter (\<lambda>r. sp_address r \<in> set recipients) (gd_suppressions d))))"

definition set_message :: "string \<Rightarrow> (text_row \<Rightarrow> text_row) \<Rightarrow> gateway_db \<Rightarrow> gateway_db" where
  "set_message message_id f d = d\<lparr>gd_messages := update_where (\<lambda>m. tx_id m = message_id) f (gd_messages d)\<rparr>"

text \<open>\<open>UPDATE outbound_jobs ... WHERE id = %s AND state = 'processing' RETURNING ...\<close>: the job's row before it.\<close>

definition processing_job :: "string \<Rightarrow> gateway_db \<Rightarrow> job_row outcome" where
  "processing_job job_id d =
     (case find (\<lambda>j. jb_id j = job_id \<and> jb_state j = ''processing'') (gd_jobs d) of
        None \<Rightarrow> Inl (RuntimeError ''outbound job is not processing'')
      | Some j \<Rightarrow> Inr j)"

definition complete_outbound_job :: "string \<Rightarrow> string \<Rightarrow> (gateway_db, unit) act" where
  "complete_outbound_job job_id provider_message_id d =
     (case processing_job job_id d of
        Inl e \<Rightarrow> (Inl e, d)
      | Inr j \<Rightarrow> (Inr (), set_message (jb_message_id j)
            (\<lambda>m. m\<lparr>tx_status := ''sent'', tx_provider_message_id := Some provider_message_id\<rparr>)
          (update_job job_id (\<lambda>r. r\<lparr>jb_state := ''sent'', jb_locked_at := None, jb_last_error := None\<rparr>) d)))"

definition block_outbound_job :: "string \<Rightarrow> string \<Rightarrow> string \<Rightarrow> (gateway_db, unit) act" where
  "block_outbound_job job_id reason status d =
     (case processing_job job_id d of
        Inl e \<Rightarrow> (Inl e, d)
      | Inr j \<Rightarrow> (Inr (), set_message (jb_message_id j) (\<lambda>m. m\<lparr>tx_status := status\<rparr>)
          (update_job job_id (\<lambda>r. r\<lparr>jb_state := status, jb_locked_at := None, jb_last_error := Some (take 1000 reason)\<rparr>) d)))"

definition retry_outbound_job :: "int \<Rightarrow> string \<Rightarrow> string \<Rightarrow> int \<Rightarrow> int \<Rightarrow> (gateway_db, string) act" where
  "retry_outbound_job now job_id error delay_seconds max_attempts d =
     (let delay = bounded 1 86400 delay_seconds; attempts = bounded 1 100 max_attempts in
      case processing_job job_id d of
        Inl e \<Rightarrow> (Inl e, d)
      | Inr j \<Rightarrow>
          let over = jb_attempts j \<ge> attempts; state = (if over then ''failed'' else ''pending'') in
          (Inr state, set_message (jb_message_id j) (\<lambda>m. m\<lparr>tx_status := (if state = ''failed'' then ''failed'' else ''queued'')\<rparr>)
            (update_job job_id (\<lambda>r. r\<lparr>jb_state := state,
               jb_available_at := (if over then jb_available_at r else now + seconds delay), jb_locked_at := None,
               jb_last_error := Some (take 1000 error)\<rparr>) d)))"

definition group_counts :: "string list \<Rightarrow> json" where
  "group_counts xs = JObj (map (\<lambda>k. (k, count_where ((=) k) xs)) (sort (remdups xs)))"

definition outbound_queue_status :: "gateway_db \<Rightarrow> doc" where
  "outbound_queue_status d = [(''durable'', JBool True), (''counts'', group_counts (map jb_state (gd_jobs d)))]"

section \<open>Reading\<close>

definition compliance_row_doc :: "(int \<Rightarrow> string) \<Rightarrow> compliance_row \<Rightarrow> json" where
  "compliance_row_doc fmt r =
     (let e = cw_event r in
      JObj [(''message_id'', JStr (ke_message_id e)), (''address'', JStr (ke_address e)), (''action'', JStr (ke_action e)),
        (''keyword'', JStr (ke_keyword e)), (''applied'', JBool (ke_applied e)), (''occurred_at'', JStr (fmt (ke_occurred_at e))),
        (''recorded_at'', JStr (fmt (cw_recorded_at r)))])"

definition compliance_status :: "(int \<Rightarrow> string) \<Rightarrow> int \<Rightarrow> gateway_db \<Rightarrow> doc" where
  "compliance_status fmt limit d =
     [(''durable'', JBool True), (''suppression_count'', JInt (int (length (gd_suppressions d)))),
      (''keyword_suppression_count'', count_where (\<lambda>r. keyword_reason (sp_reason r)) (gd_suppressions d)),
      (''consent_state_counts'', JObj (map (\<lambda>st. (st, count_where (\<lambda>r. cs_state r = st) (gd_consent d))) [''active'', ''suppressed''])),
      (''action_counts'', JObj (map (\<lambda>a. (a, count_where (\<lambda>r. ke_action (cw_event r) = a) (gd_compliance d))) [''stop'', ''start'', ''help''])),
      (''stale_event_count'', count_where (\<lambda>r. \<not> ke_applied (cw_event r)) (gd_compliance d)),
      (''recent_events'', JList (map (compliance_row_doc fmt)
         (take (nat (bounded 1 100 limit)) (rev (sort_key cw_recorded_at (gd_compliance d))))))]"

definition event_count :: "gateway_db \<Rightarrow> int" where
  "event_count d = int (length (gd_events d))"

definition list_recent :: "int \<Rightarrow> gateway_db \<Rightarrow> gmessage list" where
  "list_recent limit d = map er_payload (take (nat (bounded 1 100 limit))
     (rev (sort_key (\<lambda>r. (gm_occurred_at (er_payload r), er_id r))
       (filter (\<lambda>r. er_type r = ''message.received'') (gd_events d)))))"

definition get_event :: "(string \<Rightarrow> string option) \<Rightarrow> string \<Rightarrow> gateway_db \<Rightarrow> gmessage option" where
  "get_event parse_uuid event_id d =
     (case parse_uuid event_id of
        None \<Rightarrow> None
      | Some i \<Rightarrow> map_option er_payload (find (\<lambda>r. er_id r = i \<and> er_type r = ''message.received'') (gd_events d)))"

section \<open>Controls\<close>

definition control_fields :: "(int \<Rightarrow> string) \<Rightarrow> control_row \<Rightarrow> doc" where
  "control_fields fmt c = [(''actor'', JStr (ct_updated_by c)), (''reason'', JStr (ct_reason c)),
     (''updated_at'', JStr (fmt (ct_updated_at c)))]"

definition get_control_state :: "(int \<Rightarrow> string) \<Rightarrow> gateway_db \<Rightarrow> doc outcome" where
  "get_control_state fmt d =
     (case gd_control d of
        None \<Rightarrow> Inl (RuntimeError ''messaging control state is not initialized'')
      | Some c \<Rightarrow> Inr [(''paused'', JBool (ct_paused c)), (''last_control'', JObj (control_fields fmt c))])"

text \<open>The error of a missing control row comes after the transaction: the audit row stays.\<close>

definition set_paused :: "(int \<Rightarrow> string) \<Rightarrow> int \<Rightarrow> bool \<Rightarrow> string \<Rightarrow> string \<Rightarrow> (gateway_db, doc) act" where
  "set_paused fmt now paused actor reason d =
     (let action = (if paused then ''pause'' else ''resume'');
          d1 = d\<lparr>gd_control := map_option (\<lambda>_. \<lparr>ct_paused = paused, ct_updated_at = now, ct_updated_by = actor,
                   ct_reason = reason\<rparr>) (gd_control d),
                 gd_audit := gd_audit d @ [\<lparr>cr_action = action, cr_actor = actor, cr_reason = reason\<rparr>]\<rparr>
      in (case gd_control d1 of
            None \<Rightarrow> (Inl (RuntimeError ''messaging control state is not initialized''), d1)
          | Some c \<Rightarrow> (Inr [(''paused'', JBool (ct_paused c)),
                (''last_control'', JObj ((''action'', JStr action) # control_fields fmt c))], d1)))"

section \<open>Send reservations\<close>

definition reserved_since :: "int \<Rightarrow> gmessage \<Rightarrow> gateway_db \<Rightarrow> int" where
  "reserved_since t m d = int (length (filter (\<lambda>r. rv_at r \<ge> t \<and> rv_provider r = gm_provider m \<and> rv_sender r = gm_sender m)
     (gd_reservations d)))"

definition reserve_send :: "int \<Rightarrow> string \<Rightarrow> gmessage \<Rightarrow> int \<Rightarrow> int \<Rightarrow> gateway_db \<Rightarrow> string option \<times> gateway_db" where
  "reserve_send now job_id m hourly_limit daily_limit d =
     (if find_row rv_job_id job_id (gd_reservations d) \<noteq> None then (None, d)
      else if reserved_since (now - seconds 3600) m d \<ge> hourly_limit then (Some ''hourly_message_limit_exceeded'', d)
      else if reserved_since (now - seconds 86400) m d \<ge> daily_limit then (Some ''daily_message_limit_exceeded'', d)
      else (None, d\<lparr>gd_reservations := gd_reservations d @ [\<lparr>rv_job_id = job_id, rv_message_id = gm_event_id m,
              rv_provider = gm_provider m, rv_sender = gm_sender m, rv_recipients = int (length (gm_recipients m)), rv_at = now\<rparr>]\<rparr>))"

end
