(* ===== verification/GatewayConsent.thy ===== *)
theory GatewayConsent
  imports GatewayStore
begin

text \<open>
  What the gateway promises about consent: the PostgreSQL store refines its in-memory mirror, and the
  keyword state is a last-writer-wins register, so that the order of arrival does not matter.
\<close>

definition suppressed_in :: "gateway_db \<Rightarrow> string \<Rightarrow> bool" where
  "suppressed_in d a \<longleftrightarrow> a \<in> sp_address ` set (gd_suppressions d)"


section \<open>The durable store and its in-memory mirror\<close>

definition mirrors_consent :: "registry \<Rightarrow> gateway_db \<Rightarrow> bool" where
  "mirrors_consent r d \<longleftrightarrow>
     (\<forall>a. map_option (\<lambda>c. (cs_effective_at c, cs_source c)) (find_row cs_address a (gd_consent d)) = dget (rg_effective r) a) \<and>
     (\<forall>a c. find_row cs_address a (gd_consent d) = Some c \<longrightarrow> (cs_state c = ''suppressed'') = (dget (rg_suppressed r) a \<noteq> None)) \<and>
     (\<forall>a. find_row sp_address a (gd_suppressions d) = None \<longleftrightarrow> dget (rg_suppressed r) a = None) \<and>
     (\<forall>s \<in> set (gd_suppressions d). keyword_reason (sp_reason s)) \<and> map cw_event (gd_compliance d) = rg_events r"

lemma find_row_filter:
  "(\<And>r. r \<in> set rows \<Longrightarrow> key r = k \<Longrightarrow> \<not> P r) \<Longrightarrow> find_row key k (filter P rows) = None"
  by (auto simp: find_row_None_iff)

lemma find_row_filter_other:
  "(\<And>r. r \<in> set rows \<Longrightarrow> key r = k \<Longrightarrow> P r) \<Longrightarrow> find_row key k (filter P rows) = find_row key k rows"
  by (induction rows) auto

lemma upsert_consent_is:
  "fst (upsert_consent c rows) =
     newer (map_option (\<lambda>c. (cs_effective_at c, cs_source c)) (find_row cs_address (cs_address c) rows)) (cs_effective_at c, cs_source c)"
  "find_row cs_address a (snd (upsert_consent c rows)) =
     (if a = cs_address c \<and> fst (upsert_consent c rows) then Some c else find_row cs_address a rows)"
proof -
  show "fst (upsert_consent c rows) =
     newer (map_option (\<lambda>c. (cs_effective_at c, cs_source c)) (find_row cs_address (cs_address c) rows)) (cs_effective_at c, cs_source c)"
    by (auto simp: upsert_consent_def newer_def split: option.split)
  show "find_row cs_address a (snd (upsert_consent c rows)) =
     (if a = cs_address c \<and> fst (upsert_consent c rows) then Some c else find_row cs_address a rows)"
  proof (cases "find_row cs_address (cs_address c) rows")
    case None
    then show ?thesis by (auto simp: upsert_consent_def find_row_append split: option.split)
  next
    case (Some old)
    have "find_row cs_address a (update_where (\<lambda>r. cs_address r = cs_address c) (\<lambda>_. c) rows) =
        map_option (\<lambda>r. if cs_address r = cs_address c then c else r) (find_row cs_address a rows)"
      by (rule find_row_update_where) simp
    then show ?thesis using Some
      by (cases "find_row cs_address a rows") (auto simp: upsert_consent_def dest: find_row_SomeD)
  qed
qed

lemma suppress_address_is:
  assumes "\<forall>s \<in> set rows. keyword_reason (sp_reason s)"
  shows "find_row sp_address a (suppress_address x t i rows) = None \<longleftrightarrow> a \<noteq> x \<and> find_row sp_address a rows = None"
    and "\<forall>s \<in> set (suppress_address x t i rows). keyword_reason (sp_reason s)"
proof -
  let ?row = "\<lparr>sp_address = x, sp_reason = ''keyword:stop'', sp_at = t, sp_source = Some i\<rparr>"
  have kw: "keyword_reason ''keyword:stop''" by (simp add: keyword_reason_def starts_with_def)
  show "\<forall>s \<in> set (suppress_address x t i rows). keyword_reason (sp_reason s)"
    using assms kw by (auto simp: suppress_address_def set_update_where Let_def split: if_splits)
  have "find_row sp_address a (update_where (\<lambda>r. sp_address r = x \<and> keyword_reason (sp_reason r)) (\<lambda>_. ?row) rows) = None
      \<longleftrightarrow> find_row sp_address a rows = None"
    by (subst find_row_update_where) simp_all
  then show "find_row sp_address a (suppress_address x t i rows) = None \<longleftrightarrow> a \<noteq> x \<and> find_row sp_address a rows = None"
    by (auto simp: suppress_address_def find_row_append Let_def split: option.split)
qed

lemma release_address_is:
  assumes "\<forall>s \<in> set rows. keyword_reason (sp_reason s)"
  shows "find_row sp_address a (release_address x rows) = (if a = x then None else find_row sp_address a rows)"
  using assms by (auto simp: release_address_def intro: find_row_filter find_row_filter_other)

lemma classify_values: "classify_keyword t = Some action \<Longrightarrow> action \<in> {''stop'', ''start'', ''help''}"
  by (auto simp: classify_keyword_def Let_def split: if_splits)

lemma compliance_mirrors:
  assumes "mirrors_consent r d" and m: "gm_direction m = Inbound" "gm_channel m = SMS"
  shows "mirrors_consent (snd (registry_apply (gm_sender m) (gm_text m) (Some (gm_occurred_at m)) (gm_event_id m) now r))
    (record_compliance now' m d)"
proof (cases "classify_keyword (gm_text m)")
  case None
  then show ?thesis using assms by (simp add: registry_apply_def record_compliance_def)
next
  case (Some action)
  let ?row = "\<lambda>st. \<lparr>cs_address = gm_sender m, cs_state = st, cs_effective_at = gm_occurred_at m, cs_source = gm_event_id m\<rparr>"
  note rel = assms(1) [unfolded mirrors_consent_def]
  have new: "fst (upsert_consent (?row st) (gd_consent d)) = newer (dget (rg_effective r) (gm_sender m)) (gm_occurred_at m, gm_event_id m)" for st
    using rel by (simp add: upsert_consent_is(1))
  have rows: "\<forall>s \<in> set (gd_suppressions d). keyword_reason (sp_reason s)" using rel by blast
  note facts = suppress_address_is [OF rows] release_address_is [OF rows]
  have kept: "\<forall>s \<in> set (release_address x (gd_suppressions d)). keyword_reason (sp_reason s)" for x
    using rows by (auto simp: release_address_def)
  consider "action = ''stop''" | "action = ''start''" | "action = ''help''" using classify_values [OF Some] by blast
  then show ?thesis
  proof cases
    case 1
    obtain ap cr where up: "upsert_consent (?row ''suppressed'') (gd_consent d) = (ap, cr)" by fastforce
    then have ap: "ap = newer (dget (rg_effective r) (gm_sender m)) (gm_occurred_at m, gm_event_id m)"
      and cr: "find_row cs_address a cr = (if a = gm_sender m \<and> ap then Some (?row ''suppressed'') else find_row cs_address a (gd_consent d))" for a
      using new [of "''suppressed''"] upsert_consent_is(2) [of a "?row ''suppressed''" "gd_consent d"] by simp_all
    show ?thesis
      unfolding mirrors_consent_def using rel Some 1 m up cr facts
      by (simp add: registry_apply_def record_compliance_def Let_def flip: ap)
  next
    case 2
    obtain ap cr where up: "upsert_consent (?row ''active'') (gd_consent d) = (ap, cr)" by fastforce
    then have ap: "ap = newer (dget (rg_effective r) (gm_sender m)) (gm_occurred_at m, gm_event_id m)"
      and cr: "find_row cs_address a cr = (if a = gm_sender m \<and> ap then Some (?row ''active'') else find_row cs_address a (gd_consent d))" for a
      using new [of "''active''"] upsert_consent_is(2) [of a "?row ''active''" "gd_consent d"] by simp_all
    show ?thesis
      unfolding mirrors_consent_def using rel Some 2 m up cr facts kept
      by (simp add: registry_apply_def record_compliance_def Let_def flip: ap)
  next
    case 3
    then show ?thesis unfolding mirrors_consent_def using rel Some m
      by (simp add: registry_apply_def record_compliance_def)
  qed
qed

definition mirrors :: "mem_store \<Rightarrow> gateway_db \<Rightarrow> bool" where
  "mirrors s d \<longleftrightarrow> map (\<lambda>r. (row_key r, er_payload r)) (gd_events d) = me_events s \<and>
     (\<forall>r \<in> set (gd_events d). er_id r = gm_event_id (er_payload r) \<and> row_key r = event_key (er_payload r)) \<and>
     map tx_id (gd_messages d) = map er_id (gd_events d) \<and> mirrors_consent (me_compliance s) d"

definition mem_put_act :: "int \<Rightarrow> gmessage \<Rightarrow> (mem_store, bool) act" where
  "mem_put_act now m s = (let (b, s') = mem_put now m s in (Inr b, s'))"

lemma find_row_keys: "find_row row_key k rows = None \<longleftrightarrow> map_of (map (\<lambda>r. (row_key r, er_payload r)) rows) k = None"
  by (induction rows) auto

lemma record_compliance_tables [simp]:
  "gd_events (record_compliance now m d) = gd_events d" "gd_messages (record_compliance now m d) = gd_messages d"
  by (auto simp: record_compliance_def Let_def split: option.split prod.split)

lemma mirrors_step:
  assumes rel: "mirrors s d" and ids: "\<And>m'. m' \<in> snd ` set (me_events s) \<Longrightarrow> gm_event_id m' = gm_event_id m \<Longrightarrow> event_key m' = event_key m"
  shows "\<exists>b s' d'. put_if_absent now m d = (Inr b, d') \<and> mem_put now' m s = (b, s') \<and> mirrors s' d' \<and>
    snd ` set (me_events s') \<subseteq> insert m (snd ` set (me_events s))"
proof (cases "dget (me_events s) (event_key m)")
  case (Some old)
  then have "find_row row_key (event_key m) (gd_events d) \<noteq> None" using rel by (simp add: mirrors_def find_row_keys)
  then show ?thesis using Some rel by (auto simp: put_if_absent_def transaction_def bindS_def insert_event_def ret_def mem_put_def)
next
  case None
  then have fresh: "find_row row_key (event_key m) (gd_events d) = None" using rel by (simp add: mirrors_def find_row_keys)
  have payloads: "snd ` set (me_events s) = er_payload ` set (gd_events d)"
  proof -
    have "me_events s = map (\<lambda>r. (row_key r, er_payload r)) (gd_events d)" using rel by (simp add: mirrors_def)
    then show ?thesis by (simp add: image_image)
  qed
  have "er_id r \<noteq> gm_event_id m" if r: "r \<in> set (gd_events d)" for r
  proof
    assume "er_id r = gm_event_id m"
    then have "event_key (er_payload r) = event_key m" using ids [of "er_payload r"] r rel payloads by (auto simp: mirrors_def)
    then have "row_key r = event_key m" using r rel by (simp add: mirrors_def)
    then show False using fresh r by (metis find_row_None_iff imageI)
  qed
  then have "gm_event_id m \<notin> er_id ` set (gd_events d)" by (metis imageE)
  moreover have "tx_id ` set (gd_messages d) = er_id ` set (gd_events d)" using rel by (metis mirrors_def set_map)
  ultimately have free: "find_row er_id (gm_event_id m) (gd_events d) = None" "find_row tx_id (gm_event_id m) (gd_messages d) = None"
    by (simp_all add: find_row_None_iff)
  let ?ev = "\<lparr>er_id = gm_event_id m, er_provider = gm_provider m, er_provider_event_id = gm_provider_event_id m,
    er_type = ''message.received'', er_payload = m\<rparr>"
  let ?msg = "\<lparr>tx_id = gm_event_id m, tx_provider = gm_provider m, tx_provider_message_id = Some (gm_provider_event_id m),
             tx_direction = direction_value (gm_direction m), tx_channel = channel_value (gm_channel m), tx_sender = gm_sender m,
             tx_recipients = gm_recipients m, tx_body = gm_text m, tx_status = ''received'', tx_occurred_at = gm_occurred_at m\<rparr>"
  let ?d = "d\<lparr>gd_events := gd_events d @ [?ev], gd_messages := gd_messages d @ [?msg]\<rparr>"
  have put: "put_if_absent now m d = (Inr True, record_compliance now m ?d)"
    using fresh free by (simp add: put_if_absent_def transaction_def bindS_def insert_event_def insert_message_def insert_unique_def
      ret_def update_act_def)
  have events: "dset (me_events s) (event_key m) m = me_events s @ [(event_key m, m)]"
    using None by (intro dset_new) (simp add: map_of_eq_None_iff)
  let ?s = "s\<lparr>me_events := me_events s @ [(event_key m, m)]\<rparr>"
  have base: "mirrors ?s ?d" using rel by (auto simp: mirrors_def row_key_def event_key_def mirrors_consent_def)
  show ?thesis
  proof (cases "gm_direction m = Inbound \<and> gm_channel m = SMS")
    case True
    let ?s' = "?s\<lparr>me_compliance := snd (registry_apply (gm_sender m) (gm_text m) (Some (gm_occurred_at m)) (gm_event_id m) now' (me_compliance s))\<rparr>"
    have "mirrors ?s' (record_compliance now m ?d)"
      using base True compliance_mirrors [of "me_compliance s" ?d m now' now] by (simp add: mirrors_def)
    moreover have "mem_put now' m s = (True, ?s')" using None events True by (simp add: mem_put_def Let_def)
    ultimately show ?thesis using put by auto
  next
    case False
    then have "record_compliance now m ?d = ?d" by (auto simp: record_compliance_def)
    moreover have "mem_put now' m s = (True, ?s)" using None events False by (auto simp: mem_put_def Let_def)
    ultimately show ?thesis using put base by auto
  qed
qed

text \<open>Several messages in turn, with the answers.\<close>

fun receive_all :: "(gmessage \<Rightarrow> ('s, bool) act) \<Rightarrow> gmessage list \<Rightarrow> 's \<Rightarrow> bool outcome list \<times> 's" where
  "receive_all f [] s = ([], s)"
| "receive_all f (m # ms) s = (let (r, s1) = f m s; (rs, s2) = receive_all f ms s1 in (r # rs, s2))"

lemma mirrors_run:
  assumes "mirrors s d"
    and "\<And>m m'. m \<in> snd ` set (me_events s) \<union> set ms \<Longrightarrow> m' \<in> snd ` set (me_events s) \<union> set ms \<Longrightarrow>
       gm_event_id m = gm_event_id m' \<Longrightarrow> event_key m = event_key m'"
  shows "\<exists>rs s' d'. receive_all (put_if_absent now) ms d = (rs, d') \<and> receive_all (mem_put_act now) ms s = (rs, s') \<and> mirrors s' d'"
  using assms
proof (induction ms arbitrary: s d)
  case (Cons m ms)
  obtain b s1 d1 where step: "put_if_absent now m d = (Inr b, d1)" "mem_put now m s = (b, s1)" "mirrors s1 d1"
    "snd ` set (me_events s1) \<subseteq> insert m (snd ` set (me_events s))"
    using mirrors_step [OF Cons.prems(1), of m now now] Cons.prems(2) by (metis UnCI list.set_intros(1))
  have "\<exists>rs s' d'. receive_all (put_if_absent now) ms d1 = (rs, d') \<and> receive_all (mem_put_act now) ms s1 = (rs, s') \<and> mirrors s' d'"
  proof (rule Cons.IH [OF step(3)])
    have "snd ` set (me_events s1) \<union> set ms \<subseteq> snd ` set (me_events s) \<union> set (m # ms)" using step(4) by fastforce
    then show "\<And>n n'. n \<in> snd ` set (me_events s1) \<union> set ms \<Longrightarrow> n' \<in> snd ` set (me_events s1) \<union> set ms \<Longrightarrow>
       gm_event_id n = gm_event_id n' \<Longrightarrow> event_key n = event_key n'" using Cons.prems(2) by blast
  qed
  then obtain rs s' d' where rest: "receive_all (put_if_absent now) ms d1 = (rs, d')" "receive_all (mem_put_act now) ms s1 = (rs, s')" "mirrors s' d'"
    by blast
  have "mem_put_act now m s = (Inr b, s1)" using step(2) by (simp add: mem_put_act_def)
  then show ?case using step(1) rest by simp
qed simp

definition ids_consistent :: "gmessage list \<Rightarrow> bool" where
  "ids_consistent ms \<longleftrightarrow> (\<forall>m \<in> set ms. \<forall>m' \<in> set ms. gm_event_id m = gm_event_id m' \<longrightarrow> event_key m = event_key m')"

lemma mirrors_empty: "mirrors empty_mem_store (migrated_db t)"
  by (simp add: mirrors_def empty_mem_store_def migrated_db_def mirrors_consent_def empty_registry_def)



section \<open>Keywords as a last-writer-wins register\<close>

definition mem_receive :: "mem_store \<Rightarrow> gmessage \<Rightarrow> mem_store" where
  "mem_receive s m = snd (mem_put 0 m s)"

definition consent_keyword :: "gmessage \<Rightarrow> bool" where
  "consent_keyword m \<longleftrightarrow> gm_direction m = Inbound \<and> gm_channel m = SMS \<and> classify_keyword (gm_text m) \<in> {Some ''stop'', Some ''start''}"

definition keyword_stamp :: "gmessage \<Rightarrow> int \<times> string" where
  "keyword_stamp m = (gm_occurred_at m, gm_event_id m)"

definition stops :: "gmessage \<Rightarrow> bool" where
  "stops m \<longleftrightarrow> classify_keyword (gm_text m) = Some ''stop''"

definition consent_of :: "mem_store \<Rightarrow> string \<Rightarrow> ((int \<times> string) \<times> bool) option" where
  "consent_of s a = map_option (\<lambda>k. (k, \<not> may_send (me_compliance s) a)) (dget (rg_effective (me_compliance s)) a)"

lemma mem_receive_events:
  "dkeys (me_events (mem_receive s m)) = (if event_key m \<in> set (dkeys (me_events s)) then dkeys (me_events s)
     else dkeys (me_events s) @ [event_key m])"
proof (cases "event_key m \<in> set (dkeys (me_events s))")
  case True
  then have "dget (me_events s) (event_key m) \<noteq> None" by (simp add: map_of_eq_None_iff)
  with True show ?thesis by (simp add: mem_receive_def mem_put_def)
next
  case False
  then have "dset (me_events s) (event_key m) m = me_events s @ [(event_key m, m)]" by (rule dset_new)
  with False show ?thesis by (simp add: mem_receive_def mem_put_def map_of_eq_None_iff Let_def)
qed

lemma registry_apply_consent:
  "consent_keyword m \<Longrightarrow>
   snd (registry_apply (gm_sender m) (gm_text m) (Some (gm_occurred_at m)) (gm_event_id m) now r) =
     (if newer (dget (rg_effective r) (gm_sender m)) (keyword_stamp m)
      then r\<lparr>rg_effective := dset (rg_effective r) (gm_sender m) (keyword_stamp m),
             rg_suppressed := (if stops m then dset (rg_suppressed r) (gm_sender m) (gm_occurred_at m)
               else dpop (rg_suppressed r) (gm_sender m))\<rparr> else r)
     \<lparr>rg_events := rg_events r @ [\<lparr>ke_address = gm_sender m, ke_action = the (classify_keyword (gm_text m)),
        ke_keyword = normalize_keyword (gm_text m), ke_occurred_at = gm_occurred_at m, ke_message_id = gm_event_id m,
        ke_applied = newer (dget (rg_effective r) (gm_sender m)) (keyword_stamp m)\<rparr>]\<rparr>"
  by (auto simp: consent_keyword_def registry_apply_def Let_def keyword_stamp_def stops_def)

lemma registry_apply_other:
  "classify_keyword t \<notin> {Some ''stop'', Some ''start''} \<Longrightarrow>
   rg_effective (snd (registry_apply a t w i now r)) = rg_effective r \<and> rg_suppressed (snd (registry_apply a t w i now r)) = rg_suppressed r"
  by (auto simp: registry_apply_def Let_def split: option.split)

interpretation consent: lww_register mem_receive "\<lambda>s. set (dkeys (me_events s))" event_key consent_keyword gm_sender
  keyword_stamp stops consent_of
proof
  fix s m a
  show "set (dkeys (me_events (mem_receive s m))) = insert (event_key m) (set (dkeys (me_events s)))"
    unfolding mem_receive_events by (simp add: insert_absorb)
  let ?r = "me_compliance s"
  show "consent_of (mem_receive s m) a =
      (if event_key m \<notin> set (dkeys (me_events s)) \<and> consent_keyword m \<and> gm_sender m = a \<and>
          (case consent_of s a of None \<Rightarrow> True | Some (t, _) \<Rightarrow> t < keyword_stamp m)
       then Some (keyword_stamp m, stops m) else consent_of s a)"
  proof (cases "event_key m \<in> set (dkeys (me_events s))")
    case True
    then have "dget (me_events s) (event_key m) \<noteq> None" by (simp add: map_of_eq_None_iff)
    with True show ?thesis by (simp add: mem_receive_def mem_put_def)
  next
    case fresh: False
    then have none: "dget (me_events s) (event_key m) = None" by (simp add: map_of_eq_None_iff)
    show ?thesis
    proof (cases "consent_keyword m")
      case True
      then have "me_compliance (mem_receive s m) =
        snd (registry_apply (gm_sender m) (gm_text m) (Some (gm_occurred_at m)) (gm_event_id m) 0 ?r)"
        using none by (auto simp: mem_receive_def mem_put_def Let_def consent_keyword_def)
      then show ?thesis using True fresh
        by (cases "keyword_stamp m") (auto simp: registry_apply_consent consent_of_def may_send_def newer_def split: option.split if_splits)
    next
      case False
      then have "rg_effective (me_compliance (mem_receive s m)) = rg_effective ?r \<and>
          rg_suppressed (me_compliance (mem_receive s m)) = rg_suppressed ?r"
        using none registry_apply_other [of "gm_text m" "gm_sender m" "Some (gm_occurred_at m)" "gm_event_id m" 0 ?r]
        by (auto simp: mem_receive_def mem_put_def Let_def consent_keyword_def)
      then show ?thesis using False by (simp add: consent_of_def may_send_def)
    qed
  qed
qed

definition latest_keyword :: "gmessage list \<Rightarrow> string \<Rightarrow> gmessage option \<Rightarrow> bool" where
  "latest_keyword ms a latest \<longleftrightarrow>
     (case latest of
        None \<Rightarrow> \<forall>m \<in> set ms. \<not> (consent_keyword m \<and> gm_sender m = a)
      | Some m \<Rightarrow> m \<in> set ms \<and> consent_keyword m \<and> gm_sender m = a \<and>
          (\<forall>m' \<in> set ms. consent_keyword m' \<and> gm_sender m' = a \<longrightarrow> keyword_stamp m' \<le> keyword_stamp m))"

lemma suppressed_has_effective:
  "dget (rg_suppressed (me_compliance (foldl mem_receive empty_mem_store ms))) a \<noteq> None \<Longrightarrow>
   dget (rg_effective (me_compliance (foldl mem_receive empty_mem_store ms))) a \<noteq> None"
proof (induction ms rule: rev_induct)
  case (snoc m ms)
  let ?s = "foldl mem_receive empty_mem_store ms"
  let ?r = "snd (registry_apply (gm_sender m) (gm_text m) (Some (gm_occurred_at m)) (gm_event_id m) 0 (me_compliance ?s))"
  have "me_compliance (mem_receive ?s m) = me_compliance ?s \<or> me_compliance (mem_receive ?s m) = ?r"
    by (auto simp: mem_receive_def mem_put_def Let_def)
  moreover have "dget (rg_suppressed ?r) a \<noteq> None \<Longrightarrow> dget (rg_effective ?r) a \<noteq> None"
    using snoc.IH by (auto simp: registry_apply_def Let_def split: option.splits if_splits)
  ultimately show ?case using snoc by auto
qed (simp add: empty_mem_store_def empty_registry_def)


section \<open>Concrete runs\<close>

definition demo_text :: "string \<Rightarrow> direction \<Rightarrow> string \<Rightarrow> int \<Rightarrow> gmessage" where
  "demo_text i dir text t = \<lparr>gm_event_id = i, gm_provider = ''simulator'', gm_provider_event_id = i, gm_direction = dir, gm_channel = SMS,
     gm_sender = ''+1'', gm_recipients = [''+15''], gm_text = text, gm_media = [], gm_occurred_at = t\<rparr>"

definition demo_keywords :: "gmessage list" where
  "demo_keywords = [demo_text ''b'' Inbound '' start '' 7, demo_text ''a'' Inbound ''STOP'' 5, demo_text ''a'' Inbound ''STOP'' 5]"



end
