(* ===== verification/GatewayDelivery.thy ===== *)
theory GatewayDelivery
  imports GatewayConsent
begin

text \<open>
  Delivery status of outbound messages, app/delivery_status.py: the in-memory store, the PostgreSQL
  store with its reconciliation, and the route of app/delivery_router.py. The message table is that of
  the gateway store; a row of it matches a state when provider, provider message id and the outbound
  direction agree.
\<close>

section \<open>The in-memory store\<close>

record apply_result =
  ar_accepted :: bool
  ar_applied :: bool
  ar_matched :: bool

record delivery_mem =
  dm_events :: "(string \<times> string, delivery_event) dict"
  dm_state :: "(string \<times> string, delivery_event) dict"

definition empty_delivery_mem :: delivery_mem where
  "empty_delivery_mem = \<lparr>dm_events = [], dm_state = []\<rparr>"

definition delivery_key :: "delivery_event \<Rightarrow> string \<times> string" where
  "delivery_key e = (de_provider e, de_provider_event_id e)"

definition target_key :: "delivery_event \<Rightarrow> string \<times> string" where
  "target_key e = (de_provider e, de_message_id e)"

definition delivery_stamp :: "delivery_event \<Rightarrow> int \<times> string" where
  "delivery_stamp e = (de_occurred_at e, de_provider_event_id e)"

definition mem_deliver :: "delivery_event \<Rightarrow> delivery_mem \<Rightarrow> apply_result \<times> delivery_mem" where
  "mem_deliver e s =
     (if dget (dm_events s) (delivery_key e) \<noteq> None
      then (\<lparr>ar_accepted = False, ar_applied = False, ar_matched = False\<rparr>, s)
      else let applied = newer (map_option delivery_stamp (dget (dm_state s) (target_key e))) (delivery_stamp e) in
        (\<lparr>ar_accepted = True, ar_applied = applied, ar_matched = False\<rparr>,
         s\<lparr>dm_events := dset (dm_events s) (delivery_key e) e,
           dm_state := (if applied then dset (dm_state s) (target_key e) e else dm_state s)\<rparr>))"

definition mem_delivery_status :: "(int \<Rightarrow> string) \<Rightarrow> int \<Rightarrow> delivery_mem \<Rightarrow> doc" where
  "mem_delivery_status fmt limit s =
     [(''durable'', JBool False), (''event_count'', JInt (int (length (dm_events s)))),
      (''current_state_count'', JInt (int (length (dm_state s)))), (''unmatched_state_count'', JInt (int (length (dm_state s)))),
      (''recent_events'', JList (map (\<lambda>e. JObj [(''provider'', JStr (de_provider e)),
           (''provider_event_id'', JStr (de_provider_event_id e)), (''provider_message_id'', JStr (de_message_id e)),
           (''status'', JStr (delivery_value (de_status e))), (''occurred_at'', JStr (fmt (de_occurred_at e)))])
         (take (nat (bounded 1 100 limit)) (sort_desc delivery_stamp (map snd (dm_events s))))))]"

section \<open>The PostgreSQL store\<close>

record delivery_row =
  dv_event :: delivery_event
  dv_received_at :: int
  dv_applied :: bool
  dv_matched :: "string option"

record state_row =
  dl_provider :: string
  dl_message_id :: string
  dl_status :: delivery_state
  dl_effective_at :: int
  dl_source :: string
  dl_matched :: "string option"
  dl_updated_at :: int

record delivery_db =
  dd_events :: "delivery_row list"
  dd_states :: "state_row list"
  dd_messages :: "text_row list"

definition state_key :: "state_row \<Rightarrow> string \<times> string" where
  "state_key r = (dl_provider r, dl_message_id r)"

definition targets :: "string \<times> string \<Rightarrow> text_row \<Rightarrow> bool" where
  "targets k m \<longleftrightarrow> tx_provider m = fst k \<and> tx_provider_message_id m = Some (snd k) \<and> tx_direction m = ''outbound''"

definition upsert_state :: "int \<Rightarrow> delivery_event \<Rightarrow> state_row list \<Rightarrow> bool \<times> state_row list" where
  "upsert_state now e rows =
     (case find_row state_key (target_key e) rows of
        None \<Rightarrow> (True, rows @ [\<lparr>dl_provider = de_provider e, dl_message_id = de_message_id e, dl_status = de_status e,
          dl_effective_at = de_occurred_at e, dl_source = de_provider_event_id e, dl_matched = None, dl_updated_at = now\<rparr>])
      | Some old \<Rightarrow>
          if de_occurred_at e > dl_effective_at old \<or>
             (de_occurred_at e = dl_effective_at old \<and> de_provider_event_id e > dl_source old)
          then (True, update_where (\<lambda>r. state_key r = target_key e) (\<lambda>r. r\<lparr>dl_status := de_status e,
             dl_effective_at := de_occurred_at e, dl_source := de_provider_event_id e, dl_updated_at := now\<rparr>) rows)
          else (False, rows))"

definition mark_state :: "int \<Rightarrow> string \<times> string \<Rightarrow> string \<Rightarrow> state_row list \<Rightarrow> state_row list" where
  "mark_state now k message_id rows =
     update_where (\<lambda>r. state_key r = k) (\<lambda>r. r\<lparr>dl_matched := Some message_id, dl_updated_at := now\<rparr>) rows"

definition deliver :: "int \<Rightarrow> delivery_event \<Rightarrow> (delivery_db, apply_result) act" where
  "deliver now e d =
     (if find_row (\<lambda>r. delivery_key (dv_event r)) (delivery_key e) (dd_events d) \<noteq> None
      then (Inr \<lparr>ar_accepted = False, ar_applied = False, ar_matched = False\<rparr>, d)
      else if find_row (\<lambda>r. de_event_id (dv_event r)) (de_event_id e) (dd_events d) \<noteq> None
      then (Inl (OtherError ''UniqueViolation''), d)
      else
        let (applied, states) = upsert_state now e (dd_states d);
            k = target_key e;
            hit = (if applied then find (targets k) (dd_messages d) else None);
            matched = map_option tx_id hit
        in (Inr \<lparr>ar_accepted = True, ar_applied = applied, ar_matched = matched \<noteq> None\<rparr>,
            d\<lparr>dd_events := dd_events d @ [\<lparr>dv_event = e, dv_received_at = now, dv_applied = applied, dv_matched = matched\<rparr>],
              dd_states := (case matched of None \<Rightarrow> states | Some i \<Rightarrow> mark_state now k i states),
              dd_messages := (if applied then update_where (targets k) (\<lambda>m. m\<lparr>tx_status := delivery_value (de_status e)\<rparr>) (dd_messages d)
                else dd_messages d)\<rparr>))"

text \<open>The join of \<open>reconcile_one\<close>: unmatched states in order, each with the messages it matches.\<close>

definition open_matches :: "delivery_db \<Rightarrow> (state_row \<times> text_row) list" where
  "open_matches d = concat (map (\<lambda>s. map (Pair s) (filter (targets (state_key s)) (dd_messages d)))
     (sort_key (\<lambda>s. (dl_updated_at s, dl_provider s, dl_message_id s)) (filter (\<lambda>s. dl_matched s = None) (dd_states d))))"

definition reconcile_one :: "int \<Rightarrow> delivery_db \<Rightarrow> doc \<times> delivery_db" where
  "reconcile_one now d =
     (case open_matches d of
        [] \<Rightarrow> ([(''status'', JStr ''idle'')], d)
      | (s, m) # _ \<Rightarrow>
          ([(''status'', JStr ''matched''), (''provider'', JStr (dl_provider s)), (''provider_message_id'', JStr (dl_message_id s)),
            (''message_id'', JStr (tx_id m))],
           d\<lparr>dd_messages := update_where (\<lambda>x. tx_id x = tx_id m) (\<lambda>x. x\<lparr>tx_status := delivery_value (dl_status s)\<rparr>) (dd_messages d),
             dd_states := mark_state now (state_key s) (tx_id m) (dd_states d),
             dd_events := update_where (\<lambda>r. target_key (dv_event r) = state_key s \<and> dv_applied r \<and> dv_matched r = None)
               (\<lambda>r. r\<lparr>dv_matched := Some (tx_id m)\<rparr>) (dd_events d)\<rparr>))"

definition delivery_status :: "(int \<Rightarrow> string) \<Rightarrow> int \<Rightarrow> delivery_db \<Rightarrow> doc" where
  "delivery_status fmt limit d =
     [(''durable'', JBool True), (''event_count'', JInt (int (length (dd_events d)))),
      (''stale_event_count'', count_where (\<lambda>r. \<not> dv_applied r) (dd_events d)),
      (''current_state_count'', JInt (int (length (dd_states d)))),
      (''unmatched_state_count'', count_where (\<lambda>r. dl_matched r = None) (dd_states d)),
      (''recent_events'', JList (map (\<lambda>r. let e = dv_event r in JObj [(''provider'', JStr (de_provider e)),
           (''provider_event_id'', JStr (de_provider_event_id e)), (''provider_message_id'', JStr (de_message_id e)),
           (''status'', JStr (delivery_value (de_status e))),
           (''raw_status'', case de_raw_status e of None \<Rightarrow> JNull | Some s \<Rightarrow> JStr s),
           (''occurred_at'', JStr (fmt (de_occurred_at e))), (''received_at'', JStr (fmt (dv_received_at r))),
           (''applied'', JBool (dv_applied r)), (''matched'', JBool (dv_matched r \<noteq> None))])
         (take (nat (bounded 1 100 limit)) (rev (sort_key (\<lambda>r. (dv_received_at r, de_event_id (dv_event r))) (dd_events d))))))]"

section \<open>The delivery route\<close>

text \<open>A registered provider, as the routes use it: verification, and normalization that may raise \<open>ValueError\<close>.\<close>

record 'req provider =
  pv_verify :: "'req \<Rightarrow> bool"
  pv_message :: "'req \<Rightarrow> gmessage option"
  pv_delivery :: "'req \<Rightarrow> delivery_event option"

datatype 'a response = Http_error nat string | Http_ok 'a

definition delivery_route ::
  "(string \<Rightarrow> 'req provider option) \<Rightarrow> int \<Rightarrow> string \<Rightarrow> 'req \<Rightarrow> (delivery_db, doc response) act" where
  "delivery_route providers now name req d =
     (case providers name of
        None \<Rightarrow> (Inr (Http_error 404 ''unknown provider''), d)
      | Some p \<Rightarrow>
          if \<not> pv_verify p req then (Inr (Http_error 401 ''webhook verification failed''), d)
          else (case pv_delivery p req of
              None \<Rightarrow> (Inr (Http_error 400 ''invalid provider delivery payload''), d)
            | Some e \<Rightarrow> bindS (deliver now e) (\<lambda>r. ret (Http_ok
                [(''accepted'', JBool (ar_accepted r)), (''duplicate'', JBool (\<not> ar_accepted r)),
                 (''applied'', JBool (ar_applied r)), (''matched'', JBool (ar_matched r)), (''event_id'', JStr (de_event_id e)),
                 (''provider'', JStr name), (''provider_message_id'', JStr (de_message_id e)),
                 (''delivery_status'', JStr (delivery_value (de_status e))), (''send_authorized'', JBool False)])) d))"

section \<open>Latest status wins\<close>

definition mem_delivered :: "delivery_mem \<Rightarrow> delivery_event \<Rightarrow> delivery_mem" where
  "mem_delivered s e = snd (mem_deliver e s)"

definition delivery_of :: "delivery_mem \<Rightarrow> string \<times> string \<Rightarrow> ((int \<times> string) \<times> delivery_state) option" where
  "delivery_of s k = map_option (\<lambda>e. (delivery_stamp e, de_status e)) (dget (dm_state s) k)"

interpretation delivery: lww_register mem_delivered "\<lambda>s. dom (dget (dm_events s))" delivery_key "\<lambda>_. True" target_key
  delivery_stamp de_status delivery_of
proof
  fix s e k
  show "dom (dget (dm_events (mem_delivered s e))) = insert (delivery_key e) (dom (dget (dm_events s)))"
    by (auto simp: mem_delivered_def mem_deliver_def Let_def)
  show "delivery_of (mem_delivered s e) k =
      (if delivery_key e \<notin> dom (dget (dm_events s)) \<and> True \<and> target_key e = k \<and>
          (case delivery_of s k of None \<Rightarrow> True | Some (t, _) \<Rightarrow> t < delivery_stamp e)
       then Some (delivery_stamp e, de_status e) else delivery_of s k)"
    by (cases "dget (dm_events s) (delivery_key e)"; cases "dget (dm_state s) (target_key e)")
      (auto simp: mem_delivered_def mem_deliver_def delivery_of_def Let_def newer_def)
qed

section \<open>The durable store refines the in-memory store\<close>

definition shown_state :: "delivery_db \<Rightarrow> string \<times> string \<Rightarrow> ((int \<times> string) \<times> delivery_state) option" where
  "shown_state d k = map_option (\<lambda>r. ((dl_effective_at r, dl_source r), dl_status r)) (find_row state_key k (dd_states d))"

definition delivery_mirrors :: "delivery_mem \<Rightarrow> delivery_db \<Rightarrow> bool" where
  "delivery_mirrors s d \<longleftrightarrow> map (\<lambda>r. (delivery_key (dv_event r), dv_event r)) (dd_events d) = dm_events s \<and>
     (\<forall>k. shown_state d k = delivery_of s k)"

text \<open>What a message shows: the status of the current state of its provider message id, if there is one.\<close>

definition shown :: "text_row list \<Rightarrow> delivery_db \<Rightarrow> bool" where
  "shown before d \<longleftrightarrow> list_all2 (\<lambda>m0 m. m = m0\<lparr>tx_status := tx_status m\<rparr> \<and>
     (tx_direction m = ''outbound'' \<longrightarrow>
       tx_status m = (case tx_provider_message_id m of None \<Rightarrow> tx_status m0
         | Some i \<Rightarrow> (case shown_state d (tx_provider m, i) of None \<Rightarrow> tx_status m0 | Some (_, st) \<Rightarrow> delivery_value st))))
     before (dd_messages d)"

lemma find_event_key: "find_row (\<lambda>r. delivery_key (dv_event r)) k rows = None \<longleftrightarrow>
  map_of (map (\<lambda>r. (delivery_key (dv_event r), dv_event r)) rows) k = None"
  by (induction rows) auto

lemma mark_shown_state:
  "find_row state_key k (mark_state now k' i rows) =
     map_option (\<lambda>r. if state_key r = k' then r\<lparr>dl_matched := Some i, dl_updated_at := now\<rparr> else r) (find_row state_key k rows)"
  unfolding mark_state_def by (rule find_row_update_where) (simp add: state_key_def)

lemma upsert_state_is:
  "fst (upsert_state now e rows) =
     newer (map_option (\<lambda>r. (dl_effective_at r, dl_source r)) (find_row state_key (target_key e) rows)) (delivery_stamp e)"
  "map_option (\<lambda>r. ((dl_effective_at r, dl_source r), dl_status r)) (find_row state_key k (snd (upsert_state now e rows))) =
     (if k = target_key e \<and> fst (upsert_state now e rows) then Some (delivery_stamp e, de_status e)
      else map_option (\<lambda>r. ((dl_effective_at r, dl_source r), dl_status r)) (find_row state_key k rows))"
proof -
  show "fst (upsert_state now e rows) =
     newer (map_option (\<lambda>r. (dl_effective_at r, dl_source r)) (find_row state_key (target_key e) rows)) (delivery_stamp e)"
    by (auto simp: upsert_state_def newer_def delivery_stamp_def split: option.split)
  let ?f = "\<lambda>r. r\<lparr>dl_status := de_status e, dl_effective_at := de_occurred_at e, dl_source := de_provider_event_id e, dl_updated_at := now\<rparr>"
  have upd: "find_row state_key k' (update_where (\<lambda>r. state_key r = target_key e) ?f rows) =
      map_option (\<lambda>r. if state_key r = target_key e then ?f r else r) (find_row state_key k' rows)" for k'
    by (rule find_row_update_where) (simp add: state_key_def)
  show "map_option (\<lambda>r. ((dl_effective_at r, dl_source r), dl_status r)) (find_row state_key k (snd (upsert_state now e rows))) =
     (if k = target_key e \<and> fst (upsert_state now e rows) then Some (delivery_stamp e, de_status e)
      else map_option (\<lambda>r. ((dl_effective_at r, dl_source r), dl_status r)) (find_row state_key k rows))"
  proof (cases "find_row state_key (target_key e) rows")
    case None
    then show ?thesis by (cases "find_row state_key k rows")
      (auto simp: upsert_state_def find_row_append delivery_stamp_def state_key_def target_key_def)
  next
    case (Some old)
    then have "snd (upsert_state now e rows) = (if fst (upsert_state now e rows)
        then update_where (\<lambda>r. state_key r = target_key e) ?f rows else rows)" by (simp add: upsert_state_def)
    then show ?thesis unfolding delivery_stamp_def using Some
      by (cases "find_row state_key k rows") (auto simp: upd dest: find_row_SomeD)
  qed
qed

lemma targets_status [simp]: "targets k (m\<lparr>tx_status := st\<rparr>) = targets k m"
  by (simp add: targets_def)

lemma deliver_step:
  assumes rel: "delivery_mirrors s d" and ids: "\<And>e'. e' \<in> snd ` set (dm_events s) \<Longrightarrow> de_event_id e' = de_event_id e \<Longrightarrow>
      delivery_key e' = delivery_key e"
    and show0: "shown before d"
  shows "\<exists>r d'. deliver now e d = (Inr r, d') \<and> ar_accepted r = ar_accepted (fst (mem_deliver e s)) \<and>
    ar_applied r = ar_applied (fst (mem_deliver e s)) \<and> delivery_mirrors (mem_delivered s e) d' \<and> shown before d' \<and>
    snd ` set (dm_events (mem_delivered s e)) \<subseteq> insert e (snd ` set (dm_events s))"
proof (cases "dget (dm_events s) (delivery_key e)")
  case (Some old)
  then have "find_row (\<lambda>r. delivery_key (dv_event r)) (delivery_key e) (dd_events d) \<noteq> None"
    using rel by (simp add: delivery_mirrors_def find_event_key)
  then show ?thesis using Some rel show0 by (auto simp: deliver_def mem_delivered_def mem_deliver_def)
next
  case None
  have evs: "dm_events s = map (\<lambda>r. (delivery_key (dv_event r), dv_event r)) (dd_events d)"
    using rel by (simp add: delivery_mirrors_def)
  have st: "shown_state d k = delivery_of s k" for k using rel unfolding delivery_mirrors_def by blast
  have fresh: "find_row (\<lambda>r. delivery_key (dv_event r)) (delivery_key e) (dd_events d) = None"
    using None by (simp add: find_event_key evs)
  have "de_event_id (dv_event r) \<noteq> de_event_id e" if r: "r \<in> set (dd_events d)" for r
  proof
    assume "de_event_id (dv_event r) = de_event_id e"
    moreover have "dv_event r \<in> snd ` set (dm_events s)" using r by (force simp: evs)
    ultimately have "delivery_key (dv_event r) = delivery_key e" using ids by blast
    then show False using fresh r by (metis (mono_tags, lifting) find_row_None_iff imageI)
  qed
  then have id: "find_row (\<lambda>r. de_event_id (dv_event r)) (de_event_id e) (dd_events d) = None"
    by (metis (mono_tags, lifting) find_row_None_iff imageE)
  obtain ap states where up: "upsert_state now e (dd_states d) = (ap, states)" by fastforce
  have ap: "ap = newer (map_option delivery_stamp (dget (dm_state s) (target_key e))) (delivery_stamp e)"
  proof -
    have "map_option (\<lambda>r. (dl_effective_at r, dl_source r)) (find_row state_key (target_key e) (dd_states d)) =
        map_option fst (shown_state d (target_key e))" by (simp add: shown_state_def option.map_comp comp_def)
    also have "\<dots> = map_option delivery_stamp (dget (dm_state s) (target_key e))"
      by (simp add: st delivery_of_def option.map_comp comp_def)
    finally show ?thesis using upsert_state_is(1) [of now e "dd_states d"] up by simp
  qed
  define hit where "hit = map_option tx_id (if ap then find (targets (target_key e)) (dd_messages d) else None)"
  let ?d = "d\<lparr>dd_events := dd_events d @ [\<lparr>dv_event = e, dv_received_at = now, dv_applied = ap, dv_matched = hit\<rparr>],
              dd_states := (case hit of None \<Rightarrow> states | Some i \<Rightarrow> mark_state now (target_key e) i states),
              dd_messages := (if ap then update_where (targets (target_key e)) (\<lambda>m. m\<lparr>tx_status := delivery_value (de_status e)\<rparr>) (dd_messages d)
                else dd_messages d)\<rparr>"
  have run: "deliver now e d = (Inr \<lparr>ar_accepted = True, ar_applied = ap, ar_matched = hit \<noteq> None\<rparr>, ?d)"
    using fresh id by (simp add: deliver_def up Let_def hit_def)
  have state: "shown_state ?d k = (if k = target_key e \<and> ap then Some (delivery_stamp e, de_status e) else shown_state d k)" for k
  proof -
    have "shown_state ?d k = map_option (\<lambda>r. ((dl_effective_at r, dl_source r), dl_status r)) (find_row state_key k states)"
      by (cases hit; cases "find_row state_key k states") (auto simp: shown_state_def mark_shown_state)
    then show ?thesis using upsert_state_is(2) [of k now e "dd_states d"] up by (simp add: shown_state_def)
  qed
  have mem: "mem_deliver e s = (\<lparr>ar_accepted = True, ar_applied = ap, ar_matched = False\<rparr>,
      s\<lparr>dm_events := dm_events s @ [(delivery_key e, e)], dm_state := (if ap then dset (dm_state s) (target_key e) e else dm_state s)\<rparr>)"
    using None ap dset_new [of "delivery_key e" "dm_events s" e] by (simp add: mem_deliver_def map_of_eq_None_iff)
  have "delivery_mirrors (mem_delivered s e) ?d"
    unfolding delivery_mirrors_def state using st by (auto simp: mem_delivered_def mem evs delivery_of_def)
  moreover have "shown before ?d"
    unfolding shown_def state list_all2_conv_all_nth
  proof (intro conjI allI impI)
    show "length before = length (dd_messages ?d)" using show0 by (simp add: shown_def list_all2_lengthD)
    fix n assume n: "n < length before"
    then have len: "n < length (dd_messages d)" using show0 by (simp add: shown_def list_all2_lengthD)
    have old: "dd_messages d ! n = (before ! n)\<lparr>tx_status := tx_status (dd_messages d ! n)\<rparr>"
      "tx_direction (dd_messages d ! n) = ''outbound'' \<longrightarrow> tx_status (dd_messages d ! n) =
        (case tx_provider_message_id (dd_messages d ! n) of None \<Rightarrow> tx_status (before ! n)
         | Some i \<Rightarrow> (case shown_state d (tx_provider (dd_messages d ! n), i) of None \<Rightarrow> tx_status (before ! n) | Some (_, st) \<Rightarrow> delivery_value st))"
      using show0 n by (simp_all add: shown_def list_all2_conv_all_nth)
    have new: "dd_messages ?d ! n = (if ap \<and> targets (target_key e) (dd_messages d ! n)
        then (dd_messages d ! n)\<lparr>tx_status := delivery_value (de_status e)\<rparr> else dd_messages d ! n)"
      using len by (simp add: update_where_def)
    show "dd_messages ?d ! n = (before ! n)\<lparr>tx_status := tx_status (dd_messages ?d ! n)\<rparr>"
      unfolding new by (subst old(1)) (simp split: if_split, metis old(1))
    assume "tx_direction (dd_messages ?d ! n) = ''outbound''"
    then have out: "tx_direction (dd_messages d ! n) = ''outbound''" unfolding new by (simp split: if_splits)
    show "tx_status (dd_messages ?d ! n) = (case tx_provider_message_id (dd_messages ?d ! n) of None \<Rightarrow> tx_status (before ! n)
       | Some i \<Rightarrow> (case if (tx_provider (dd_messages ?d ! n), i) = target_key e \<and> ap then Some (delivery_stamp e, de_status e)
             else shown_state d (tx_provider (dd_messages ?d ! n), i) of None \<Rightarrow> tx_status (before ! n) | Some (_, st) \<Rightarrow> delivery_value st))"
      unfolding new using out old(2) by (auto simp: targets_def target_key_def split: option.split)
  qed
  ultimately show ?thesis using run mem by (auto simp: mem_delivered_def)
qed

definition deliver_all :: "int \<Rightarrow> delivery_event list \<Rightarrow> delivery_db \<Rightarrow> delivery_db" where
  "deliver_all now es d = foldl (\<lambda>d e. snd (deliver now e d)) d es"

lemma deliver_run:
  assumes "delivery_mirrors s d" "shown before d"
    and "\<And>e e'. e \<in> snd ` set (dm_events s) \<union> set es \<Longrightarrow> e' \<in> snd ` set (dm_events s) \<union> set es \<Longrightarrow>
      de_event_id e = de_event_id e' \<Longrightarrow> delivery_key e = delivery_key e'"
  shows "delivery_mirrors (foldl mem_delivered s es) (deliver_all now es d) \<and> shown before (deliver_all now es d)"
  using assms
proof (induction es arbitrary: s d)
  case (Cons e es)
  obtain r d1 where step: "deliver now e d = (Inr r, d1)" "delivery_mirrors (mem_delivered s e) d1" "shown before d1"
    "snd ` set (dm_events (mem_delivered s e)) \<subseteq> insert e (snd ` set (dm_events s))"
    using deliver_step [OF Cons.prems(1) _ Cons.prems(2), of e now] Cons.prems(3) by (metis UnCI list.set_intros(1))
  have "snd ` set (dm_events (mem_delivered s e)) \<union> set es \<subseteq> snd ` set (dm_events s) \<union> set (e # es)" using step(4) by fastforce
  then have "delivery_mirrors (foldl mem_delivered (mem_delivered s e) es) (deliver_all now es d1) \<and> shown before (deliver_all now es d1)"
    using Cons.prems(3) by (intro Cons.IH [OF step(2,3)]) blast
  then show ?case using step(1) by (simp add: deliver_all_def)
qed (simp add: deliver_all_def)

definition latest_delivery :: "delivery_event list \<Rightarrow> string \<times> string \<Rightarrow> delivery_event option \<Rightarrow> bool" where
  "latest_delivery es k latest \<longleftrightarrow>
     (case latest of
        None \<Rightarrow> \<forall>e \<in> set es. target_key e \<noteq> k
      | Some e \<Rightarrow> e \<in> set es \<and> target_key e = k \<and> (\<forall>e' \<in> set es. target_key e' = k \<longrightarrow> delivery_stamp e' \<le> delivery_stamp e))"

text \<open>
  Delivery callbacks may come in any order and any number of times: afterwards an outbound message
  shows the status of the newest event for its provider message id, by time and event id, and its old
  status when there is none.
\<close>

theorem delivery_status_is_latest:
  assumes "inj_on delivery_key (set es)" and "inj_on de_event_id (set es)"
    and "n < length ms" and "tx_direction (ms ! n) = ''outbound''" and "tx_provider_message_id (ms ! n) = Some i"
  shows "\<exists>latest. latest_delivery es (tx_provider (ms ! n), i) latest \<and>
    tx_status (dd_messages (deliver_all now es \<lparr>dd_events = [], dd_states = [], dd_messages = ms\<rparr>) ! n) =
      (case latest of None \<Rightarrow> tx_status (ms ! n) | Some e \<Rightarrow> delivery_value (de_status e))"
proof -
  let ?start = "\<lparr>dd_events = [], dd_states = [], dd_messages = ms\<rparr>" and ?k = "(tx_provider (ms ! n), i)"
  let ?d = "deliver_all now es ?start" and ?s = "foldl mem_delivered empty_delivery_mem es"
  have "delivery_mirrors empty_delivery_mem ?start"
    by (simp add: delivery_mirrors_def empty_delivery_mem_def shown_state_def delivery_of_def)
  moreover have "shown ms ?start" by (auto simp: shown_def shown_state_def list_all2_same split: option.split)
  moreover have none: "snd ` set (dm_events empty_delivery_mem) = {}" by (simp add: empty_delivery_mem_def)
  have "delivery_key e = delivery_key e'" if "e \<in> snd ` set (dm_events empty_delivery_mem) \<union> set es"
    "e' \<in> snd ` set (dm_events empty_delivery_mem) \<union> set es" "de_event_id e = de_event_id e'" for e e'
    using inj_onD [OF assms(2) that(3)] that(1,2) unfolding none by simp
  ultimately have run: "delivery_mirrors ?s ?d" "shown ms ?d"
    using deliver_run [of empty_delivery_mem ?start ms es now] by blast+
  have m: "dd_messages ?d ! n = (ms ! n)\<lparr>tx_status := tx_status (dd_messages ?d ! n)\<rparr>"
    and status: "tx_direction (dd_messages ?d ! n) = ''outbound'' \<longrightarrow> tx_status (dd_messages ?d ! n) =
        (case tx_provider_message_id (dd_messages ?d ! n) of None \<Rightarrow> tx_status (ms ! n)
         | Some i \<Rightarrow> (case shown_state ?d (tx_provider (dd_messages ?d ! n), i) of None \<Rightarrow> tx_status (ms ! n) | Some (_, st) \<Rightarrow> delivery_value st))"
    using run(2) assms(3) by (simp_all add: shown_def list_all2_conv_all_nth)
  have same: "tx_direction (dd_messages ?d ! n) = ''outbound''" "tx_provider_message_id (dd_messages ?d ! n) = Some i"
    "tx_provider (dd_messages ?d ! n) = tx_provider (ms ! n)" by (subst m, simp add: assms(4,5))+
  have state: "shown_state ?d ?k = delivery_of ?s ?k" using run(1) unfolding delivery_mirrors_def by blast
  have shows_state: "tx_status (dd_messages ?d ! n) = (case delivery_of ?s ?k of None \<Rightarrow> tx_status (ms ! n) | Some (_, st) \<Rightarrow> delivery_value st)"
    using status same by (simp add: state)
  have "dom (dget (dm_events empty_delivery_mem)) = {}" "delivery_of empty_delivery_mem k = None" for k
    by (simp_all add: empty_delivery_mem_def delivery_of_def)
  note won = delivery.latest_wins [OF this assms(1), of ?k]
  show ?thesis
  proof (cases "delivery_of ?s ?k")
    case None
    then show ?thesis using won shows_state by (intro exI [of _ None]) (simp add: latest_delivery_def)
  next
    case (Some ts)
    then obtain e where "e \<in> set es" "target_key e = ?k" "snd ts = de_status e"
      "\<forall>e' \<in> set es. target_key e' = ?k \<longrightarrow> delivery_stamp e' \<le> delivery_stamp e"
      using won by (cases ts) auto
    then show ?thesis using shows_state Some by (intro exI [of _ "Some e"]) (cases ts, simp add: latest_delivery_def)
  qed
qed

section \<open>Reconciliation\<close>

definition unmatched :: "delivery_db \<Rightarrow> nat" where
  "unmatched d = length (filter (\<lambda>s. dl_matched s = None) (dd_states d))"

lemma filter_update_less:
  assumes "x \<in> set rows" "p x" "Q x" "\<And>r. p r \<Longrightarrow> \<not> Q (f r)"
  shows "length (filter Q (update_where p f rows)) < length (filter Q rows)"
proof -
  have le: "length (filter Q (update_where p f ys)) \<le> length (filter Q ys)" for ys
    using assms(4) by (induction ys) (auto simp: update_where_def)
  show ?thesis using assms(1-3)
  proof (induction rows)
    case (Cons r rows)
    then show ?case using assms(4) le [of rows] by (auto simp: update_where_def less_Suc_eq_le)
  qed simp
qed

lemma open_matches_set:
  "(s, m) \<in> set (open_matches d) \<longleftrightarrow> s \<in> set (dd_states d) \<and> dl_matched s = None \<and> m \<in> set (dd_messages d) \<and> targets (state_key s) m"
  by (auto simp: open_matches_def)

lemma reconcile_decreases:
  assumes "open_matches d \<noteq> []" shows "unmatched (snd (reconcile_one now d)) < unmatched d"
proof -
  obtain s m rest where o: "open_matches d = (s, m) # rest" using assms by (cases "open_matches d") auto
  then have "s \<in> set (dd_states d)" "dl_matched s = None" using open_matches_set [of s m d] by auto
  then show ?thesis unfolding unmatched_def reconcile_one_def o mark_state_def by (auto intro: filter_update_less [of s])
qed

text \<open>
  Reconciliation ends: with as many calls as there are unmatched states the store is idle, whatever
  the times of the calls, and then every state whose outbound message exists is matched.
\<close>

lemma reconciliation_drains:
  assumes "unmatched d \<le> length clock" and "d' = foldl (\<lambda>d now. snd (reconcile_one now d)) d clock"
  shows "reconcile_one now d' = ([(''status'', JStr ''idle'')], d') \<and>
    (\<forall>s m. s \<in> set (dd_states d') \<and> m \<in> set (dd_messages d') \<and> targets (state_key s) m \<longrightarrow> dl_matched s \<noteq> None)"
proof -
  have "open_matches d' = []"
    using assms
  proof (induction clock arbitrary: d)
    case Nil
    then have "filter (\<lambda>s. dl_matched s = None) (dd_states d) = []" by (simp add: unmatched_def)
    then show ?case using Nil by (simp add: open_matches_def)
  next
    case step: (Cons t clock)
    show ?case
    proof (cases "open_matches d = []")
      case True
      then have "foldl (\<lambda>d now. snd (reconcile_one now d)) d ts = d" for ts
        by (induction ts) (simp_all add: reconcile_one_def)
      then show ?thesis using True step.prems(2) by metis
    next
      case False
      then show ?thesis using reconcile_decreases [of d t] step.prems by (intro step.IH [of "snd (reconcile_one t d)"]) simp_all
    qed
  qed
  then show ?thesis using open_matches_set [of _ _ d'] by (auto simp: reconcile_one_def)
qed

section \<open>Concrete runs\<close>

definition demo_delivery :: "string \<Rightarrow> delivery_state \<Rightarrow> int \<Rightarrow> delivery_event" where
  "demo_delivery i st t = \<lparr>de_event_id = i, de_provider = ''simulator'', de_provider_event_id = i, de_message_id = ''pm-1'',
     de_status = st, de_occurred_at = t, de_raw_status = None\<rparr>"

definition demo_row :: text_row where
  "demo_row = \<lparr>tx_id = ''m1'', tx_provider = ''simulator'', tx_provider_message_id = Some ''pm-1'', tx_direction = ''outbound'',
     tx_channel = ''sms'', tx_sender = ''+1'', tx_recipients = [''+15''], tx_body = ''hello'', tx_status = ''sent'', tx_occurred_at = 0\<rparr>"

theorem delivery_status_is_latest_witness:
  "\<exists>latest. latest_delivery [demo_delivery ''b'' Delivered 7, demo_delivery ''a'' Failed 5] (''simulator'', ''pm-1'') latest \<and>
    tx_status (dd_messages (deliver_all 9 [demo_delivery ''b'' Delivered 7, demo_delivery ''a'' Failed 5]
      \<lparr>dd_events = [], dd_states = [], dd_messages = [demo_row]\<rparr>) ! 0) =
      (case latest of None \<Rightarrow> tx_status demo_row | Some e \<Rightarrow> delivery_value (de_status e))"
proof -
  let ?es = "[demo_delivery ''b'' Delivered 7, demo_delivery ''a'' Failed 5]"
  have "inj_on delivery_key (set ?es)" "inj_on de_event_id (set ?es)" "0 < length [demo_row]"
    "tx_direction ([demo_row] ! 0) = ''outbound''" "tx_provider_message_id ([demo_row] ! 0) = Some ''pm-1''"
    by (simp_all add: demo_delivery_def delivery_key_def demo_row_def)
  from delivery_status_is_latest [OF this, of 9] show ?thesis unfolding nth_Cons_0 by (simp only: demo_row_def text_row.simps)
qed

lemma reconciliation_drains_witness:
  "reconcile_one 12 (snd (reconcile_one 11 \<lparr>dd_events = [], dd_states = [\<lparr>dl_provider = ''simulator'', dl_message_id = ''pm-1'',
     dl_status = Delivered, dl_effective_at = 7, dl_source = ''b'', dl_matched = None, dl_updated_at = 9\<rparr>], dd_messages = [demo_row]\<rparr>)) =
   ([(''status'', JStr ''idle'')], snd (reconcile_one 11 \<lparr>dd_events = [], dd_states = [\<lparr>dl_provider = ''simulator'', dl_message_id = ''pm-1'',
     dl_status = Delivered, dl_effective_at = 7, dl_source = ''b'', dl_matched = None, dl_updated_at = 9\<rparr>], dd_messages = [demo_row]\<rparr>))"
  (is "reconcile_one 12 (snd (reconcile_one 11 ?d)) = _")
proof -
  have "unmatched ?d \<le> length [11 :: int]" by (simp add: unmatched_def)
  from reconciliation_drains [OF this refl, of 12] show ?thesis by simp
qed

end
