(* ===== verification/GatewayWorker.thy ===== *)
theory GatewayWorker
  imports GatewayStore
begin

text \<open>
  app/outbound_worker.py: one iteration of the outbound worker. The registered providers are an
  argument; what is submitted to them is logged in the world with the outcome the provider gave. The
  transactions of one iteration share a clock reading.
\<close>

section \<open>Providers and the world\<close>

text \<open>What \<open>provider.send\<close> does: an answer, or one of the three kinds of exception, by its type name.\<close>

datatype send_outcome = Answer string bool | SafeRetry string | Rejected string | Unsure string

type_synonym provider_table = "string \<Rightarrow> (gmessage \<Rightarrow> send_outcome) option"

record sent_entry =
  se_job_id :: string
  se_message :: gmessage
  se_outcome :: send_outcome

record worker_world =
  ww_db :: gateway_db
  ww_sent :: "sent_entry list"

definition on_db :: "(gateway_db, 'a) act \<Rightarrow> (worker_world, 'a) act" where
  "on_db m w = (let (r, d) = m (ww_db w) in (r, w\<lparr>ww_db := d\<rparr>))"

definition provider_send :: "string \<Rightarrow> gmessage \<Rightarrow> (gmessage \<Rightarrow> send_outcome) \<Rightarrow> (worker_world, send_outcome) act" where
  "provider_send job_id m send w =
     (Inr (send m), w\<lparr>ww_sent := ww_sent w @ [\<lparr>se_job_id = job_id, se_message = m, se_outcome = send m\<rparr>]\<rparr>)"

definition parse_provider_allowlist :: "string option \<Rightarrow> string set" where
  "parse_provider_allowlist value = set (comma_items (case value of None \<Rightarrow> ''simulator'' | Some v \<Rightarrow> v))"

section \<open>One iteration\<close>

record worker_config =
  wc_allowed :: "string set"
  wc_policy :: outbound_policy
  wc_retry_delay :: int
  wc_max_attempts :: int

definition status_doc :: "string \<Rightarrow> (string \<times> string) list \<Rightarrow> doc" where
  "status_doc status entries = (''status'', JStr status) # map (\<lambda>(k, v). (k, JStr v)) entries"

definition block_with :: "claimed_job \<Rightarrow> string \<Rightarrow> string \<Rightarrow> doc \<Rightarrow> (worker_world, doc) act" where
  "block_with job reason status result =
     bindS (on_db (block_outbound_job (cj_job_id job) reason status)) (\<lambda>_. ret result)"

definition finish_send ::
  "worker_config \<Rightarrow> int \<Rightarrow> claimed_job \<Rightarrow> send_outcome \<Rightarrow> (worker_world, doc) act" where
  "finish_send cfg now job outcome =
     (let job_id = cj_job_id job;
          retry = (\<lambda>error reason. bindS (on_db (retry_outbound_job now job_id error (wc_retry_delay cfg) (wc_max_attempts cfg)))
            (\<lambda>state. ret (status_doc state [(''reason'', reason), (''job_id'', job_id)]))) in
      case outcome of
        SafeRetry name \<Rightarrow> retry (''provider safe-retry error: '' @ name) ''provider_safe_retry''
      | Rejected name \<Rightarrow> block_with job (''provider explicitly rejected outbound message: '' @ name) ''blocked''
          (status_doc ''blocked'' [(''reason'', ''provider_rejected''), (''provider_error_type'', name), (''job_id'', job_id)])
      | Unsure name \<Rightarrow> ret (status_doc ''reconcile_required'' [(''reason'', ''provider_outcome_unknown''),
          (''provider_error_type'', name), (''job_id'', job_id)])
      | Answer provider_message_id accepted \<Rightarrow>
          if \<not> accepted then retry ''provider explicitly did not accept outbound message'' ''provider_not_accepted''
          else bindS (on_db (complete_outbound_job job_id provider_message_id)) (\<lambda>_.
            ret (status_doc ''sent'' [(''job_id'', job_id), (''provider'', gm_provider (cj_message job)),
              (''provider_message_id'', provider_message_id)])))"

definition process_job :: "worker_config \<Rightarrow> provider_table \<Rightarrow> int \<Rightarrow> claimed_job \<Rightarrow> (worker_world, doc) act" where
  "process_job cfg providers now job w =
     (let m = cj_message job; job_id = cj_job_id job in
      if gm_provider m \<notin> wc_allowed cfg
      then block_with job ''provider is not in outbound worker allowlist'' ''blocked''
        (status_doc ''blocked'' [(''reason'', ''provider_not_allowlisted''), (''job_id'', job_id)]) w
      else case providers (gm_provider m) of
        None \<Rightarrow> block_with job ''provider adapter is not registered'' ''blocked''
          (status_doc ''blocked'' [(''reason'', ''provider_not_registered''), (''job_id'', job_id)]) w
      | Some send \<Rightarrow>
          (case policy_evaluate (wc_policy cfg) m of
             Some reason \<Rightarrow> block_with job (''outbound authorization policy: '' @ reason) ''blocked''
               (status_doc ''blocked'' [(''reason'', reason), (''job_id'', job_id)]) w
           | None \<Rightarrow>
               let suppressed = suppressed_recipients (gm_recipients m) (ww_db w) in
               if suppressed \<noteq> []
               then block_with job ''one or more recipients are suppressed'' ''suppressed''
                 (status_doc ''suppressed'' [(''job_id'', job_id)]
                   @ [(''suppressed_recipient_count'', JInt (int (length suppressed)))]) w
               else if gm_channel m = MMS \<and> gm_media m \<noteq> []
               then block_with job ''MMS media release is not authorized by the outbound worker'' ''quarantined''
                 (status_doc ''quarantined'' [(''reason'', ''mms_media_release_not_authorized''), (''job_id'', job_id)]) w
               else
                 (case reserve_send now job_id m (op_hourly (wc_policy cfg)) (op_daily (wc_policy cfg)) (ww_db w) of
                    (Some reason, d) \<Rightarrow> block_with job (''outbound rate policy: '' @ reason) ''rate_limited''
                      (status_doc ''rate_limited'' [(''reason'', reason), (''job_id'', job_id)]) (w\<lparr>ww_db := d\<rparr>)
                  | (None, d) \<Rightarrow> bindS (provider_send job_id m send) (finish_send cfg now job) (w\<lparr>ww_db := d\<rparr>))))"

definition worker_once :: "worker_config \<Rightarrow> provider_table \<Rightarrow> int \<Rightarrow> (worker_world, doc) act" where
  "worker_once cfg providers now w =
     (case gd_control (ww_db w) of
        None \<Rightarrow> (Inl (RuntimeError ''messaging control state is not initialized''), w)
      | Some c \<Rightarrow>
          if ct_paused c then (Inr (status_doc ''paused'' []), w)
          else (case claim_outbound_job now (ww_db w) of
              (None, d) \<Rightarrow> (Inr (status_doc ''idle'' []), w\<lparr>ww_db := d\<rparr>)
            | (Some job, d) \<Rightarrow> process_job cfg providers now job (w\<lparr>ww_db := d\<rparr>)))"

section \<open>The gateway as a machine\<close>

datatype gateway_op =
    GReceive int gmessage
  | GEnqueue int string gmessage
  | GWork provider_table int
  | GPause int bool string string

fun gateway_step :: "worker_config \<Rightarrow> worker_world \<Rightarrow> gateway_op \<Rightarrow> worker_world" where
  "gateway_step cfg w (GReceive now m) = snd (on_db (put_if_absent now m) w)"
| "gateway_step cfg w (GEnqueue now job_id m) = snd (on_db (enqueue_outbound now job_id m) w)"
| "gateway_step cfg w (GWork providers now) = snd (worker_once cfg providers now w)"
| "gateway_step cfg w (GPause now paused actor reason) = snd (on_db (set_paused (\<lambda>_. '''') now paused actor reason) w)"

end
