(* ===== verification/GatewayWebhooks.thy ===== *)
theory GatewayWebhooks
  imports GatewayDelivery GatewayWorker
begin

text \<open>
  Provider webhooks of the messaging gateway: the receipt ledgers (app/webhook_receipts.py), the
  comparison of replayed bodies (app/webhook_collision.py), the boundary counters
  (app/webhook_audit.py), the recovery worker (app/inbound_worker.py) and the webhook route of
  app/main.py. The digest of a raw body is an argument; every method is one transaction.
\<close>

section \<open>Receipts\<close>

record receipt =
  wr_id :: string
  wr_provider :: string
  wr_provider_event_id :: string
  wr_message_event_id :: string
  wr_body_sha256 :: string
  wr_verification :: string
  wr_status :: string
  wr_payload :: "gmessage option"
  wr_attempts :: int
  wr_received_at :: int
  wr_processed_at :: "int option"

record webhook_row = receipt +
  wr_available_at :: int
  wr_locked_at :: "int option"
  wr_last_error :: "string option"

definition receipt_key :: "'a receipt_scheme \<Rightarrow> string \<times> string" where
  "receipt_key r = (wr_provider r, wr_provider_event_id r)"

definition processing_states :: "string list" where
  "processing_states = [''accepted'', ''duplicate'', ''failed'', ''processing'', ''verified'']"

definition open_receipt :: "'a receipt_scheme \<Rightarrow> bool" where
  "open_receipt r \<longleftrightarrow> wr_status r = ''verified'' \<or> wr_status r = ''processing''"

section \<open>The in-memory ledger\<close>

type_synonym receipt_mem = "(string, receipt) dict"

definition mem_record_verified ::
  "(string \<Rightarrow> string) \<Rightarrow> int \<Rightarrow> string \<Rightarrow> string \<Rightarrow> gmessage \<Rightarrow> string \<Rightarrow> receipt_mem \<Rightarrow> receipt_mem" where
  "mem_record_verified digest now i provider m body s =
     dset s i \<lparr>wr_id = i, wr_provider = provider, wr_provider_event_id = gm_provider_event_id m,
       wr_message_event_id = gm_event_id m, wr_body_sha256 = digest body, wr_verification = ''verified'',
       wr_status = ''verified'', wr_payload = Some m, wr_attempts = 0, wr_received_at = now, wr_processed_at = None\<rparr>"

definition mem_mark_processed :: "int \<Rightarrow> string \<Rightarrow> string \<Rightarrow> (receipt_mem, unit) act" where
  "mem_mark_processed now i status s =
     (if status \<notin> {''accepted'', ''duplicate''} then (Inl (ValueError ''unsupported webhook processing status''), s)
      else case dget s i of
        None \<Rightarrow> (Inl (RuntimeError ''webhook receipt not found''), s)
      | Some r \<Rightarrow>
          if \<not> open_receipt r then (Inl (RuntimeError ''webhook receipt is already terminal''), s)
          else (Inr (), dset s i (r\<lparr>wr_status := status, wr_processed_at := Some now\<rparr>)))"

definition receipt_doc :: "(int \<Rightarrow> string) \<Rightarrow> 'a receipt_scheme \<Rightarrow> doc" where
  "receipt_doc fmt r =
     [(''id'', JStr (wr_id r)), (''provider'', JStr (wr_provider r)), (''provider_event_id'', JStr (wr_provider_event_id r)),
      (''message_event_id'', JStr (wr_message_event_id r)), (''body_sha256'', JStr (wr_body_sha256 r)),
      (''verification_status'', JStr (wr_verification r)), (''processing_status'', JStr (wr_status r)),
      (''attempt_count'', JInt (wr_attempts r)), (''received_at'', JStr (fmt (wr_received_at r))),
      (''processed_at'', case wr_processed_at r of None \<Rightarrow> JNull | Some t \<Rightarrow> JStr (fmt t))]"

definition mem_receipt_status :: "(int \<Rightarrow> string) \<Rightarrow> int \<Rightarrow> receipt_mem \<Rightarrow> doc" where
  "mem_receipt_status fmt limit s =
     (let records = sort_desc (\<lambda>r. (wr_received_at r, wr_id r)) (map snd s) in
      [(''durable'', JBool False), (''recoverable'', JBool False),
       (''counts'', JObj (map (\<lambda>st. (st, count_where (\<lambda>r. wr_status r = st) records)) processing_states)),
       (''recent_receipts'', JList (map (\<lambda>r. JObj (receipt_doc fmt r)) (take (nat (bounded 1 100 limit)) records)))])"

section \<open>The PostgreSQL ledger\<close>

definition record_verified ::
  "(string \<Rightarrow> string) \<Rightarrow> int \<Rightarrow> string \<Rightarrow> string \<Rightarrow> gmessage \<Rightarrow> string \<Rightarrow> (webhook_row list, string) act" where
  "record_verified digest now i provider m body rows =
     (case insert_unique wr_id \<lparr>wr_id = i, wr_provider = provider, wr_provider_event_id = gm_provider_event_id m,
         wr_message_event_id = gm_event_id m, wr_body_sha256 = digest body, wr_verification = ''verified'',
         wr_status = ''verified'', wr_payload = Some m, wr_attempts = 0, wr_received_at = now, wr_processed_at = None,
         wr_available_at = now, wr_locked_at = None, wr_last_error = None\<rparr> rows of
        Inl e \<Rightarrow> (Inl e, rows) | Inr rows' \<Rightarrow> (Inr i, rows'))"

record claimed_receipt =
  cr_receipt_id :: string
  cr_message :: gmessage
  cr_attempts :: int

definition ready_receipts :: "int \<Rightarrow> webhook_row list \<Rightarrow> webhook_row list" where
  "ready_receipts now rows = sort_key (\<lambda>r. (wr_available_at r, wr_received_at r, wr_id r))
     (filter (\<lambda>r. wr_status r = ''verified'' \<and> wr_payload r \<noteq> None \<and> wr_available_at r \<le> now) rows)"

definition claim_verified :: "int \<Rightarrow> webhook_row list \<Rightarrow> claimed_receipt option \<times> webhook_row list" where
  "claim_verified now rows =
     (case ready_receipts now rows of
        [] \<Rightarrow> (None, rows)
      | r # _ \<Rightarrow>
          (case wr_payload r of
             None \<Rightarrow> (None, rows)
           | Some m \<Rightarrow> (Some \<lparr>cr_receipt_id = wr_id r, cr_message = m, cr_attempts = wr_attempts r + 1\<rparr>,
               update_where (\<lambda>x. wr_id x = wr_id r) (\<lambda>x. x\<lparr>wr_status := ''processing'', wr_attempts := wr_attempts r + 1,
                 wr_locked_at := Some now, wr_last_error := None\<rparr>) rows)))"

definition mark_processed :: "int \<Rightarrow> string \<Rightarrow> string \<Rightarrow> (webhook_row list, unit) act" where
  "mark_processed now i status rows =
     (if status \<notin> {''accepted'', ''duplicate''} then (Inl (ValueError ''unsupported webhook processing status''), rows)
      else if find (\<lambda>r. wr_id r = i \<and> open_receipt r) rows = None
      then (Inl (RuntimeError ''webhook receipt not found or already terminal''), rows)
      else (Inr (), update_where (\<lambda>r. wr_id r = i \<and> open_receipt r) (\<lambda>r. r\<lparr>wr_status := status,
        wr_processed_at := Some now, wr_locked_at := None, wr_last_error := None\<rparr>) rows))"

definition retry_processing :: "int \<Rightarrow> string \<Rightarrow> string \<Rightarrow> int \<Rightarrow> int \<Rightarrow> (webhook_row list, string) act" where
  "retry_processing now i error delay_seconds max_attempts rows =
     (let delay = bounded 1 86400 delay_seconds; attempts = bounded 1 100 max_attempts;
          over = (\<lambda>r. wr_attempts r \<ge> attempts) in
      case find (\<lambda>r. wr_id r = i \<and> wr_status r = ''processing'') rows of
        None \<Rightarrow> (Inl (RuntimeError ''webhook receipt is not processing''), rows)
      | Some r \<Rightarrow> (Inr (if over r then ''failed'' else ''verified''),
          update_where (\<lambda>r. wr_id r = i \<and> wr_status r = ''processing'') (\<lambda>r. r\<lparr>
            wr_status := (if over r then ''failed'' else ''verified''),
            wr_available_at := (if over r then wr_available_at r else now + seconds delay),
            wr_processed_at := (if over r then Some now else None), wr_locked_at := None,
            wr_last_error := Some (take 1000 error)\<rparr>) rows))"

definition receipt_status :: "(int \<Rightarrow> string) \<Rightarrow> int \<Rightarrow> webhook_row list \<Rightarrow> doc" where
  "receipt_status fmt limit rows =
     (let present = sort (remdups (map wr_status rows)) in
      [(''durable'', JBool True), (''recoverable'', JBool True),
       (''counts'', JObj (map (\<lambda>st. (st, count_where (\<lambda>r. wr_status r = st) rows))
          (processing_states @ filter (\<lambda>st. st \<notin> set processing_states) present))),
       (''recent_receipts'', JList (map (\<lambda>r. JObj (receipt_doc fmt r @
            [(''last_error'', case wr_last_error r of None \<Rightarrow> JNull | Some t \<Rightarrow> if t = [] then JNull else JStr (take 1000 t))]))
          (take (nat (bounded 1 100 limit)) (rev (sort_key (\<lambda>r. (wr_received_at r, wr_id r)) rows)))))])"

section \<open>Replayed bodies\<close>

definition processed_states :: "string set" where
  "processed_states = {''accepted'', ''duplicate'', ''conflict''}"

definition body_matches_previous :: "string \<Rightarrow> 'a receipt_scheme list \<Rightarrow> bool option outcome" where
  "body_matches_previous i rows =
     (case find_row wr_id i rows of
        None \<Rightarrow> Inl (RuntimeError ''webhook receipt not found'')
      | Some current \<Rightarrow>
          (case sort_key (\<lambda>r. (wr_received_at r, wr_id r))
             (filter (\<lambda>r. wr_id r \<noteq> i \<and> receipt_key r = receipt_key current \<and> wr_status r \<in> processed_states) rows) of
             [] \<Rightarrow> Inr None
           | previous # _ \<Rightarrow> Inr (Some (wr_body_sha256 previous = wr_body_sha256 current))))"

section \<open>Boundary counters\<close>

definition allowed_outcomes :: "string set" where
  "allowed_outcomes = {''unknown_provider'', ''verification_failed'', ''invalid_payload'', ''paused'', ''accepted'',
     ''duplicate'', ''payload_conflict''}"

type_synonym counter_mem = "(string \<times> string, int) dict"

definition mem_count_outcome :: "string \<Rightarrow> string \<Rightarrow> (counter_mem, unit) act" where
  "mem_count_outcome bucket out s =
     (if out \<notin> allowed_outcomes then (Inl (ValueError ''unsupported webhook audit outcome''), s)
      else let k = (take 128 bucket, out) in
        (Inr (), dset s k ((case dget s k of None \<Rightarrow> 0 | Some n \<Rightarrow> n) + 1)))"

definition mem_counter_status :: "counter_mem \<Rightarrow> doc" where
  "mem_counter_status s =
     [(''durable'', JBool False),
      (''counters'', JList (map (\<lambda>((bucket, out), n). JObj [(''provider_bucket'', JStr bucket), (''outcome'', JStr out),
         (''event_count'', JInt n)]) (sort_key fst s)))]"

record counter_row =
  bc_bucket :: string
  bc_outcome :: string
  bc_count :: int
  bc_first_seen :: int
  bc_last_seen :: int

definition counter_key :: "counter_row \<Rightarrow> string \<times> string" where
  "counter_key r = (bc_bucket r, bc_outcome r)"

definition count_outcome :: "int \<Rightarrow> string \<Rightarrow> string \<Rightarrow> (counter_row list, unit) act" where
  "count_outcome now bucket out rows =
     (if out \<notin> allowed_outcomes then (Inl (ValueError ''unsupported webhook audit outcome''), rows)
      else let k = (take 128 bucket, out) in
        (Inr (), if find_row counter_key k rows = None
           then rows @ [\<lparr>bc_bucket = take 128 bucket, bc_outcome = out, bc_count = 1, bc_first_seen = now, bc_last_seen = now\<rparr>]
           else update_where (\<lambda>r. counter_key r = k) (\<lambda>r. r\<lparr>bc_count := bc_count r + 1, bc_last_seen := now\<rparr>) rows))"

definition counter_status :: "(int \<Rightarrow> string) \<Rightarrow> counter_row list \<Rightarrow> doc" where
  "counter_status fmt rows =
     [(''durable'', JBool True),
      (''counters'', JList (map (\<lambda>r. JObj [(''provider_bucket'', JStr (bc_bucket r)), (''outcome'', JStr (bc_outcome r)),
         (''event_count'', JInt (bc_count r)), (''first_seen_at'', JStr (fmt (bc_first_seen r))),
         (''last_seen_at'', JStr (fmt (bc_last_seen r)))]) (sort_key counter_key rows)))]"

section \<open>The intake\<close>

record intake =
  in_db :: gateway_db
  in_receipts :: "webhook_row list"
  in_counters :: "counter_row list"

definition on_events :: "(gateway_db, 'a) act \<Rightarrow> (intake, 'a) act" where
  "on_events m s = (let (r, d) = m (in_db s) in (r, s\<lparr>in_db := d\<rparr>))"

definition on_receipts :: "(webhook_row list, 'a) act \<Rightarrow> (intake, 'a) act" where
  "on_receipts m s = (let (r, d) = m (in_receipts s) in (r, s\<lparr>in_receipts := d\<rparr>))"

definition on_counters :: "(counter_row list, 'a) act \<Rightarrow> (intake, 'a) act" where
  "on_counters m s = (let (r, d) = m (in_counters s) in (r, s\<lparr>in_counters := d\<rparr>))"

fun error_name :: "py_error \<Rightarrow> string" where
  "error_name (ValueError _) = ''ValueError''"
| "error_name (KeyError _) = ''KeyError''"
| "error_name (RuntimeError _) = ''RuntimeError''"
| "error_name (QueueFullError _) = ''QueueFullError''"
| "error_name (TypeError _) = ''TypeError''"
| "error_name (AttributeError _) = ''AttributeError''"
| "error_name (OtherError name) = name"

text \<open>\<open>run_once\<close> of the recovery worker: at most one receipt.\<close>

definition recover_receipt :: "int \<Rightarrow> int \<Rightarrow> int \<Rightarrow> claimed_receipt \<Rightarrow> (intake, doc) act" where
  "recover_receipt delay max_attempts now c s =
     (let i = cr_receipt_id c; m = cr_message c in
      case on_events (put_if_absent now m) s of
        (Inl e, s1) \<Rightarrow>
          bindS (on_receipts (retry_processing now i (''message persistence raised '' @ error_name e) delay max_attempts))
            (\<lambda>state. ret (status_doc state [(''reason'', ''message_persistence_error''), (''receipt_id'', i)])) s1
      | (Inr accepted, s1) \<Rightarrow>
          let status = (if accepted then ''accepted'' else ''duplicate'') in
          bindS (on_receipts (mark_processed now i status))
            (\<lambda>_. ret (status_doc status [(''receipt_id'', i), (''event_id'', gm_event_id m)])) s1)"

definition inbound_once :: "int \<Rightarrow> int \<Rightarrow> int \<Rightarrow> (intake, doc) act" where
  "inbound_once delay max_attempts now s =
     (case claim_verified now (in_receipts s) of
        (None, rows) \<Rightarrow> (Inr [(''status'', JStr ''idle'')], s\<lparr>in_receipts := rows\<rparr>)
      | (Some c, rows) \<Rightarrow> recover_receipt delay max_attempts now c (s\<lparr>in_receipts := rows\<rparr>))"

text \<open>
  The webhook route. A refusal counts its outcome and answers with its status; \<open>recv\<close> is a request as
  the provider sees it, with its raw body; the extra response headers of a 401 are left out.
\<close>

definition refuse :: "int \<Rightarrow> string \<Rightarrow> string \<Rightarrow> nat \<Rightarrow> string \<Rightarrow> (intake, 'a response) act" where
  "refuse now bucket out status detail = bindS (on_counters (count_outcome now bucket out)) (\<lambda>_. ret (Http_error status detail))"

definition webhook_reply :: "bool \<Rightarrow> gmessage \<Rightarrow> string \<Rightarrow> string \<Rightarrow> doc" where
  "webhook_reply accepted m name i =
     [(''accepted'', JBool accepted), (''duplicate'', JBool (\<not> accepted)), (''event_id'', JStr (gm_event_id m)),
      (''provider'', JStr name), (''receipt_id'', JStr i)]"

definition finish_webhook :: "int \<Rightarrow> string \<Rightarrow> string \<Rightarrow> gmessage \<Rightarrow> bool \<Rightarrow> (intake, doc response) act" where
  "finish_webhook now name i m accepted s =
     (if accepted then
        bindS (on_receipts (mark_processed now i ''accepted'')) (\<lambda>_.
          bindS (on_counters (count_outcome now name ''accepted'')) (\<lambda>_. ret (Http_ok (webhook_reply True m name i)))) s
      else case body_matches_previous i (in_receipts s) of
          Inl e \<Rightarrow> (Inl e, s)
        | Inr body_matches \<Rightarrow>
            bindS (on_receipts (mark_processed now i ''duplicate'')) (\<lambda>_.
              if body_matches = Some False
              then refuse now name ''payload_conflict'' 409
                ''provider_event_id replay body does not match the prior processed webhook''
              else bindS (on_counters (count_outcome now name ''duplicate'')) (\<lambda>_. ret (Http_ok (webhook_reply False m name i)))) s)"

definition accept_webhook ::
  "(string \<Rightarrow> string) \<Rightarrow> int \<Rightarrow> string \<Rightarrow> string \<Rightarrow> gmessage \<Rightarrow> string \<Rightarrow> (intake, doc response) act" where
  "accept_webhook digest now name i m body =
     bindS (on_receipts (record_verified digest now i name m body)) (\<lambda>i.
       bindS (on_events (put_if_absent now m)) (finish_webhook now name i m))"

definition webhook_route ::
  "(string \<Rightarrow> string) \<Rightarrow> (string \<Rightarrow> 'req provider option) \<Rightarrow> int \<Rightarrow> string \<Rightarrow> string \<Rightarrow> string \<Rightarrow> 'req \<Rightarrow>
    (intake, doc response) act" where
  "webhook_route digest providers now name i body req s =
     (case providers name of
        None \<Rightarrow> refuse now ''__unknown__'' ''unknown_provider'' 404 ''unknown provider'' s
      | Some p \<Rightarrow>
          if \<not> pv_verify p req then refuse now name ''verification_failed'' 401 ''webhook verification failed'' s
          else (case pv_message p req of
              None \<Rightarrow> refuse now name ''invalid_payload'' 400 ''invalid provider payload'' s
            | Some m \<Rightarrow>
                (case gd_control (in_db s) of
                   None \<Rightarrow> (Inl (RuntimeError ''messaging control state is not initialized''), s)
                 | Some c \<Rightarrow>
                     if ct_paused c then refuse now name ''paused'' 503 ''messaging intake is paused'' s
                     else accept_webhook digest now name i m body s)))"

end
