(* ===== verification/GatewaySends.thy ===== *)
theory GatewaySends
  imports GatewayWorker GatewayConsent
begin

text \<open>
  What the outbound worker promises: it submits only what may be sent, never submits a job again after
  an outcome that is not a plain failure, and stays within the send limits.
\<close>

section \<open>What the worker may send\<close>

text \<open>The authorization policy, as a list of what must hold.\<close>

definition policy_permits :: "outbound_policy \<Rightarrow> gmessage \<Rightarrow> bool" where
  "policy_permits p m \<longleftrightarrow> op_enabled p \<and> gm_sender m \<in> op_senders p \<and>
     int (length (gm_recipients m)) \<le> op_max_recipients p \<and> int (length (gm_text m)) \<le> op_max_chars p \<and>
     op_prefixes p \<noteq> [] \<and> (\<forall>r \<in> set (gm_recipients m). \<exists>q \<in> set (op_prefixes p). starts_with r q)"

lemma policy_evaluate_None: "policy_evaluate p m = None \<longleftrightarrow> policy_permits p m"
  by (auto simp: policy_evaluate_def policy_permits_def list_ex_iff split: if_splits)

lemma sort_key_Nil_iff [simp]: "sort_key f xs = [] \<longleftrightarrow> xs = []"
  by (metis length_0_conv length_sort)

lemma suppressed_recipients_Nil: "suppressed_recipients rs d = [] \<longleftrightarrow> (\<forall>r \<in> set rs. \<not> suppressed_in d r)"
  by (auto simp: suppressed_recipients_def suppressed_in_def filter_empty_conv)

definition send_permitted :: "worker_config \<Rightarrow> provider_table \<Rightarrow> int \<Rightarrow> gateway_db \<Rightarrow> string \<Rightarrow> gmessage \<Rightarrow> send_outcome \<Rightarrow> bool" where
  "send_permitted cfg providers now d job_id m outcome \<longleftrightarrow>
     (\<exists>c. gd_control d = Some c \<and> \<not> ct_paused c) \<and> gm_provider m \<in> wc_allowed cfg \<and>
     (\<exists>send. providers (gm_provider m) = Some send \<and> outcome = send m) \<and> policy_permits (wc_policy cfg) m \<and>
     (\<forall>r \<in> set (gm_recipients m). \<not> suppressed_in d r) \<and> (gm_channel m = SMS \<or> gm_media m = []) \<and>
     (\<exists>j \<in> set (gd_jobs d). jb_id j = job_id \<and> jb_state j = ''pending'' \<and> jb_available_at j \<le> now \<and> job_payload d j = Some m)"

lemma claim_outbound_job_cases:
  obtains (idle) "claim_outbound_job now d = (None, d)"
  | (job) j m where "j \<in> set (gd_jobs d)" "jb_state j = ''pending''" "jb_available_at j \<le> now" "job_payload d j = Some m"
    "claim_outbound_job now d = (Some \<lparr>cj_job_id = jb_id j, cj_message = m, cj_attempts = jb_attempts j + 1\<rparr>,
       update_job (jb_id j) (\<lambda>r. r\<lparr>jb_state := ''processing'', jb_attempts := jb_attempts j + 1, jb_locked_at := Some now\<rparr>) d)"
proof (cases "due_jobs d now")
  case Nil
  then have "claim_outbound_job now d = (None, d)" by (simp add: claim_outbound_job_def)
  then show ?thesis by (rule idle)
next
  case (Cons j js)
  then have "j \<in> set (due_jobs d now)" by simp
  then have j: "j \<in> set (gd_jobs d)" "jb_state j = ''pending''" "jb_available_at j \<le> now" "job_payload d j \<noteq> None"
    by (auto simp: due_jobs_def)
  then obtain m where m: "job_payload d j = Some m" by blast
  show ?thesis by (rule job [OF j(1-3) m]) (simp add: claim_outbound_job_def Cons m)
qed

lemma claim_keeps:
  assumes "claim_outbound_job now d = (r, d')"
  shows "gd_suppressions d' = gd_suppressions d" "gd_control d' = gd_control d"
    "gd_reservations d' = gd_reservations d" "gd_events d' = gd_events d"
  using assms by (auto simp: claim_outbound_job_def update_job_def split: list.splits option.splits)

lemma on_db_sent [simp]: "ww_sent (snd (on_db m w)) = ww_sent w" "ww_db (snd (on_db m w)) = snd (m (ww_db w))"
  by (simp_all add: on_db_def case_prod_beta)

lemma ret_snd [simp]: "snd (ret v s) = s"
  by (simp add: ret_def)

lemma bindS_on_db: "bindS (on_db m) f w = (case m (ww_db w) of
    (Inl e, d) \<Rightarrow> (Inl e, w\<lparr>ww_db := d\<rparr>) | (Inr v, d) \<Rightarrow> f v (w\<lparr>ww_db := d\<rparr>))"
  by (simp add: bindS_def on_db_def split: prod.split sum.split)

lemma block_with_is:
  "snd (block_with job reason status result w) =
     w\<lparr>ww_db := snd (block_outbound_job (cj_job_id job) reason status (ww_db w))\<rparr>"
  by (simp add: block_with_def bindS_on_db ret_def split: prod.split sum.split)

definition settle :: "worker_config \<Rightarrow> int \<Rightarrow> string \<Rightarrow> send_outcome \<Rightarrow> gateway_db \<Rightarrow> gateway_db" where
  "settle cfg now job_id outcome d =
     (case outcome of
        SafeRetry name \<Rightarrow> snd (retry_outbound_job now job_id (''provider safe-retry error: '' @ name) (wc_retry_delay cfg) (wc_max_attempts cfg) d)
      | Rejected name \<Rightarrow> snd (block_outbound_job job_id (''provider explicitly rejected outbound message: '' @ name) ''blocked'' d)
      | Unsure name \<Rightarrow> d
      | Answer pid accepted \<Rightarrow>
          if accepted then snd (complete_outbound_job job_id pid d)
          else snd (retry_outbound_job now job_id ''provider explicitly did not accept outbound message'' (wc_retry_delay cfg) (wc_max_attempts cfg) d))"

lemma finish_send_is:
  "snd (finish_send cfg now job outcome w) = w\<lparr>ww_db := settle cfg now (cj_job_id job) outcome (ww_db w)\<rparr>"
  by (simp add: finish_send_def settle_def Let_def bindS_on_db ret_def block_with_is split: send_outcome.split prod.split sum.split)

text \<open>
  An iteration either claims nothing, blocks the claimed job without a submission, or reserves the
  submission, submits and settles the job by the outcome.
\<close>

lemma worker_once_cases:
  obtains (idle) "snd (worker_once cfg providers now w) = w"
  | (blocked) job d reason status where "claim_outbound_job now (ww_db w) = (Some job, d)"
      "status \<in> {''blocked'', ''suppressed'', ''quarantined'', ''rate_limited''}"
      "snd (worker_once cfg providers now w) = w\<lparr>ww_db := snd (block_outbound_job (cj_job_id job) reason status d)\<rparr>"
  | (sent) job d d1 outcome where "claim_outbound_job now (ww_db w) = (Some job, d)"
      "send_permitted cfg providers now (ww_db w) (cj_job_id job) (cj_message job) outcome"
      "reserve_send now (cj_job_id job) (cj_message job) (op_hourly (wc_policy cfg)) (op_daily (wc_policy cfg)) d = (None, d1)"
      "snd (worker_once cfg providers now w) =
         \<lparr>ww_db = settle cfg now (cj_job_id job) outcome d1,
          ww_sent = ww_sent w @ [\<lparr>se_job_id = cj_job_id job, se_message = cj_message job, se_outcome = outcome\<rparr>]\<rparr>"
proof (cases "\<exists>c. gd_control (ww_db w) = Some c \<and> \<not> ct_paused c")
  case False
  then have "snd (worker_once cfg providers now w) = w" by (auto simp: worker_once_def split: option.split)
  then show ?thesis by (rule idle)
next
  case running: True
  show ?thesis
  proof (cases rule: claim_outbound_job_cases [of now "ww_db w"])
    case idle
    then have "snd (worker_once cfg providers now w) = w" using running by (auto simp: worker_once_def)
    then show ?thesis by (rule that(1))
  next
    case (job j m)
    let ?job = "\<lparr>cj_job_id = jb_id j, cj_message = m, cj_attempts = jb_attempts j + 1\<rparr>"
    obtain d where claim: "claim_outbound_job now (ww_db w) = (Some ?job, d)" using job(5) by blast
    let ?w = "w\<lparr>ww_db := d\<rparr>"
    have step: "snd (worker_once cfg providers now w) = snd (process_job cfg providers now ?job ?w)"
      using running claim by (auto simp: worker_once_def)
    have block: thesis if ex: "\<exists>reason status res. status \<in> {''blocked'', ''suppressed'', ''quarantined'', ''rate_limited''} \<and>
      process_job cfg providers now ?job ?w = block_with ?job reason status res ?w"
    proof -
      from ex obtain reason status res where b: "status \<in> {''blocked'', ''suppressed'', ''quarantined'', ''rate_limited''}"
        "process_job cfg providers now ?job ?w = block_with ?job reason status res ?w" by blast
      show thesis by (rule blocked [OF claim b(1), of reason]) (simp add: step b(2) block_with_is)
    qed
    note p = process_job_def [of cfg providers now ?job ?w, unfolded Let_def claimed_job.simps]
    show ?thesis
    proof (cases "gm_provider m \<in> wc_allowed cfg \<and> providers (gm_provider m) \<noteq> None")
      case False
      then show ?thesis by (intro block) (cases "gm_provider m \<in> wc_allowed cfg"; simp add: p; blast)
    next
      case True
      then obtain send where send: "gm_provider m \<in> wc_allowed cfg" "providers (gm_provider m) = Some send" by blast
      show ?thesis
      proof (cases "policy_evaluate (wc_policy cfg) m")
        case (Some reason)
        then show ?thesis using send by (intro block) (simp add: p, blast)
      next
        case None
        show ?thesis
        proof (cases "suppressed_recipients (gm_recipients m) d = [] \<and> \<not> (gm_channel m = MMS \<and> gm_media m \<noteq> [])")
          case False
          then show ?thesis using send None
            by (intro block) (cases "suppressed_recipients (gm_recipients m) d = []"; simp add: p; blast)
        next
          case free: True
          obtain r d1 where res: "reserve_send now (jb_id j) m (op_hourly (wc_policy cfg)) (op_daily (wc_policy cfg)) d = (r, d1)" by fastforce
          show ?thesis
          proof (cases r)
            case (Some reason)
            then have "d1 = d" using res by (auto simp: reserve_send_def split: if_splits)
            then show ?thesis using send None free res Some by (intro block) (simp add: p, blast)
          next
            case reserved: None
            have keeps: "gd_suppressions d = gd_suppressions (ww_db w)" by (rule claim_keeps(1) [OF claim])
            have "send_permitted cfg providers now (ww_db w) (jb_id j) m (send m)"
              using running send None free job(1-4)
              by (cases "gm_channel m") (auto simp: send_permitted_def policy_evaluate_None suppressed_recipients_Nil suppressed_in_def keeps)
            moreover have "snd (worker_once cfg providers now w) =
                \<lparr>ww_db = settle cfg now (jb_id j) (send m) d1,
                 ww_sent = ww_sent w @ [\<lparr>se_job_id = jb_id j, se_message = m, se_outcome = send m\<rparr>]\<rparr>"
              using step send None free res reserved
              by (auto simp: p bindS_def [of "provider_send _ _ _"] provider_send_def finish_send_is)
            ultimately show ?thesis using claim res reserved by (intro sent) auto
          qed
        qed
      qed
    qed
  qed
qed

text \<open>
  The send reservation of a job: either it was there, from an earlier attempt, or there was room within both limits
  of the sender at the provider and it is the one row added.
\<close>

definition send_reserved :: "worker_config \<Rightarrow> int \<Rightarrow> string \<Rightarrow> gmessage \<Rightarrow> gateway_db \<Rightarrow> gateway_db \<Rightarrow> bool" where
  "send_reserved cfg now job_id m d d' \<longleftrightarrow>
     (if find_row rv_job_id job_id (gd_reservations d) \<noteq> None then gd_reservations d' = gd_reservations d
      else reserved_since (now - seconds 3600) m d < op_hourly (wc_policy cfg) \<and>
        reserved_since (now - seconds 86400) m d < op_daily (wc_policy cfg) \<and>
        gd_reservations d' = gd_reservations d @ [\<lparr>rv_job_id = job_id, rv_message_id = gm_event_id m, rv_provider = gm_provider m,
          rv_sender = gm_sender m, rv_recipients = int (length (gm_recipients m)), rv_at = now\<rparr>])"

text \<open>
  C10. The worker submits only what may be sent: one message at most per iteration, while the gateway is
  not paused, from a due pending job, to an allowlisted and registered provider, within the authorization
  policy, to recipients none of which is suppressed, without MMS media; and the job has a send reservation, made
  now only when the sender's reservations of the last hour and of the last day are below the limits.
\<close>

theorem only_permitted_sends:
  "ww_sent (snd (worker_once cfg providers now w)) = ww_sent w \<or>
   (\<exists>job_id m outcome. send_permitted cfg providers now (ww_db w) job_id m outcome \<and>
      send_reserved cfg now job_id m (ww_db w) (ww_db (snd (worker_once cfg providers now w))) \<and>
      ww_sent (snd (worker_once cfg providers now w)) =
        ww_sent w @ [\<lparr>se_job_id = job_id, se_message = m, se_outcome = outcome\<rparr>])"
proof (cases rule: worker_once_cases [of cfg providers now w])
  case (sent job d d1 outcome)
  have "gd_reservations (settle cfg now i out x) = gd_reservations x" for i out x
    by (auto simp: settle_def block_outbound_job_def retry_outbound_job_def complete_outbound_job_def Let_def set_message_def
      update_job_def split: send_outcome.split sum.split)
  moreover have "send_reserved cfg now (cj_job_id job) (cj_message job) (ww_db w) d1"
    using sent(3) claim_keeps(3) [OF sent(1)] by (auto simp: reserve_send_def send_reserved_def reserved_since_def split: if_splits)
  ultimately show ?thesis using sent(2,4) by (auto simp: send_reserved_def)
qed simp_all

section \<open>Submissions of a job\<close>

fun retryable :: "send_outcome \<Rightarrow> bool" where
  "retryable (SafeRetry _) = True"
| "retryable (Answer _ accepted) = (\<not> accepted)"
| "retryable _ = False"

definition attempt_limit :: "worker_config \<Rightarrow> int" where
  "attempt_limit cfg = bounded 1 100 (wc_max_attempts cfg)"

lemma attempt_limit_pos [simp]: "1 \<le> attempt_limit cfg" "0 < attempt_limit cfg" "0 \<le> attempt_limit cfg"
  by (simp_all add: attempt_limit_def bounded_def)

definition sends_of :: "string \<Rightarrow> sent_entry list \<Rightarrow> int" where
  "sends_of i sl = int (length (filter (\<lambda>e. se_job_id e = i) sl))"

lemma sends_of_snoc [simp]: "sends_of i (sl @ [e]) = sends_of i sl + (if se_job_id e = i then 1 else 0)"
  by (simp add: sends_of_def)

definition job_ok :: "worker_config \<Rightarrow> sent_entry list \<Rightarrow> job_row \<Rightarrow> bool" where
  "job_ok cfg sl j \<longleftrightarrow> sends_of (jb_id j) sl \<le> jb_attempts j \<and> 0 \<le> jb_attempts j \<and> jb_attempts j \<le> attempt_limit cfg \<and>
     (jb_state j = ''pending'' \<longrightarrow> jb_attempts j < attempt_limit cfg \<and>
        (\<forall>e \<in> set sl. se_job_id e = jb_id j \<longrightarrow> retryable (se_outcome e)))"

text \<open>A submission that is not retryable is the last one of its job.\<close>

definition sends_ordered :: "sent_entry list \<Rightarrow> bool" where
  "sends_ordered sl \<longleftrightarrow> sorted_wrt (\<lambda>a b. se_job_id a = se_job_id b \<longrightarrow> retryable (se_outcome a)) sl"

definition worker_inv :: "worker_config \<Rightarrow> worker_world \<Rightarrow> bool" where
  "worker_inv cfg w \<longleftrightarrow> distinct (map jb_id (gd_jobs (ww_db w))) \<and> (\<forall>j \<in> set (gd_jobs (ww_db w)). job_ok cfg (ww_sent w) j) \<and>
     se_job_id ` set (ww_sent w) \<subseteq> jb_id ` set (gd_jobs (ww_db w)) \<and>
     se_job_id ` set (ww_sent w) \<subseteq> rv_job_id ` set (gd_reservations (ww_db w)) \<and> sends_ordered (ww_sent w)"

lemma update_where_twice:
  "(\<And>r. p (g r) = p r) \<Longrightarrow> update_where p f (update_where p g rows) = update_where p (\<lambda>r. f (g r)) rows"
  by (simp add: update_where_def)

text \<open>What an iteration does to the job table: the claimed job's row is rewritten, with one attempt more.\<close>

definition rewrites_job :: "worker_config \<Rightarrow> string \<Rightarrow> int \<Rightarrow> bool \<Rightarrow> gateway_db \<Rightarrow> gateway_db \<Rightarrow> bool" where
  "rewrites_job cfg i n again d d' \<longleftrightarrow> (\<exists>g. gd_jobs d' = update_where (\<lambda>r. jb_id r = i) g (gd_jobs d) \<and>
     (\<forall>r. jb_id (g r) = jb_id r \<and> jb_attempts (g r) = n \<and>
       (jb_state (g r) = ''pending'' \<longrightarrow> again \<and> n < attempt_limit cfg)))"

lemma rewritesI:
  assumes "gd_jobs d' = update_where (\<lambda>r. jb_id r = i) g (gd_jobs d)"
    and "\<And>r. jb_id (g r) = jb_id r \<and> jb_attempts (g r) = n \<and> (jb_state (g r) = ''pending'' \<longrightarrow> again \<and> n < attempt_limit cfg)"
  shows "rewrites_job cfg i n again d d'"
  using assms unfolding rewrites_job_def by blast

text \<open>A claim, and whatever method ends the claim, on the claimed row.\<close>

definition claimed_row :: "job_row \<Rightarrow> int \<Rightarrow> job_row \<Rightarrow> job_row" where
  "claimed_row j now r = r\<lparr>jb_state := ''processing'', jb_attempts := jb_attempts j + 1, jb_locked_at := Some now\<rparr>"

lemma claimed_row_simps [simp]: "jb_id (claimed_row j now r) = jb_id r" "jb_state (claimed_row j now r) = ''processing''"
  "jb_attempts (claimed_row j now r) = jb_attempts j + 1"
  by (simp_all add: claimed_row_def)

definition claimed_db :: "job_row \<Rightarrow> int \<Rightarrow> gateway_db \<Rightarrow> gateway_db \<Rightarrow> bool" where
  "claimed_db j now d d' \<longleftrightarrow> gd_jobs d' = update_where (\<lambda>r. jb_id r = jb_id j) (claimed_row j now) (gd_jobs d)"

lemma processing_claimed:
  assumes "claimed_db j now d d'" "processing_job (jb_id j) d' = Inr r"
  shows "jb_attempts r = jb_attempts j + 1"
proof -
  have "r \<in> set (gd_jobs d')" "jb_id r = jb_id j"
    using assms(2) by (auto simp: processing_job_def find_Some_iff split: option.splits)
  then show ?thesis using assms(1) by (auto simp: claimed_db_def set_update_where)
qed

lemma untouched_claim: "claimed_db j now d d' \<Longrightarrow> rewrites_job cfg (jb_id j) (jb_attempts j + 1) again d d'"
  by (rule rewritesI [of _ _ "claimed_row j now"]) (simp_all add: claimed_db_def)

lemma ended_claim:
  assumes "claimed_db j now d d'" "gd_jobs d'' = update_where (\<lambda>r. jb_id r = jb_id j) f (gd_jobs d')"
    and "\<And>r. jb_id (f r) = jb_id r \<and> jb_attempts (f r) = jb_attempts r \<and>
      (jb_attempts r = jb_attempts j + 1 \<longrightarrow> jb_state (f r) = ''pending'' \<longrightarrow> again \<and> jb_attempts j + 1 < attempt_limit cfg)"
  shows "rewrites_job cfg (jb_id j) (jb_attempts j + 1) again d d''"
proof (rule rewritesI [of _ _ "\<lambda>r. f (claimed_row j now r)"])
  show "gd_jobs d'' = update_where (\<lambda>r. jb_id r = jb_id j) (\<lambda>r. f (claimed_row j now r)) (gd_jobs d)"
    using assms(1,2) by (simp add: claimed_db_def update_where_twice)
  show "jb_id (f (claimed_row j now r)) = jb_id r \<and> jb_attempts (f (claimed_row j now r)) = jb_attempts j + 1 \<and>
    (jb_state (f (claimed_row j now r)) = ''pending'' \<longrightarrow> again \<and> jb_attempts j + 1 < attempt_limit cfg)" for r
    using assms(3) [of "claimed_row j now r"] by simp
qed

lemma block_rewrites:
  assumes "claimed_db j now d d'" "status \<noteq> ''pending''"
  shows "rewrites_job cfg (jb_id j) (jb_attempts j + 1) again d (snd (block_outbound_job (jb_id j) reason status d'))"
proof (cases "processing_job (jb_id j) d'")
  case (Inr r)
  show ?thesis
    by (rule ended_claim [OF assms(1), where f = "\<lambda>r. r\<lparr>jb_state := status, jb_locked_at := None, jb_last_error := Some (take 1000 reason)\<rparr>"])
      (use assms(2) Inr in \<open>simp_all add: block_outbound_job_def set_message_def update_job_def\<close>)
qed (use untouched_claim [OF assms(1)] in \<open>simp add: block_outbound_job_def\<close>)

lemma retry_rewrites:
  assumes "claimed_db j now d d'"
  shows "rewrites_job cfg (jb_id j) (jb_attempts j + 1) True d
    (snd (retry_outbound_job t (jb_id j) error delay (wc_max_attempts cfg) d'))"
proof (cases "processing_job (jb_id j) d'")
  case (Inr r)
  then have att: "jb_attempts r = jb_attempts j + 1" using processing_claimed [OF assms] by simp
  let ?over = "jb_attempts r \<ge> attempt_limit cfg"
  show ?thesis
    by (rule ended_claim [OF assms, where f = "\<lambda>x. x\<lparr>jb_state := (if ?over then ''failed'' else ''pending''),
          jb_available_at := (if ?over then jb_available_at x else t + seconds (bounded 1 86400 delay)), jb_locked_at := None,
          jb_last_error := Some (take 1000 error)\<rparr>"])
      (use Inr att in \<open>auto simp: retry_outbound_job_def set_message_def update_job_def Let_def attempt_limit_def\<close>)
qed (use untouched_claim [OF assms] in \<open>simp add: retry_outbound_job_def Let_def\<close>)

lemma complete_rewrites:
  assumes "claimed_db j now d d'"
  shows "rewrites_job cfg (jb_id j) (jb_attempts j + 1) again d (snd (complete_outbound_job (jb_id j) pid d'))"
proof (cases "processing_job (jb_id j) d'")
  case (Inr r)
  show ?thesis
    by (rule ended_claim [OF assms(1), where f = "\<lambda>r. r\<lparr>jb_state := ''sent'', jb_locked_at := None, jb_last_error := None\<rparr>"])
      (use Inr in \<open>simp_all add: complete_outbound_job_def set_message_def update_job_def\<close>)
qed (use untouched_claim [OF assms(1)] in \<open>simp add: complete_outbound_job_def\<close>)

lemma rewrites_again: "rewrites_job cfg i n False d d' \<Longrightarrow> rewrites_job cfg i n again d d'"
  by (auto simp: rewrites_job_def)

lemma settle_rewrites:
  "claimed_db j now d d' \<Longrightarrow>
   rewrites_job cfg (jb_id j) (jb_attempts j + 1) (retryable outcome) d (settle cfg t (jb_id j) outcome d')"
  using retry_rewrites block_rewrites [where again = False] complete_rewrites [where again = False] untouched_claim [where again = False]
  by (cases outcome rule: retryable.cases) (auto simp: settle_def)

lemma claim_claimed:
  assumes "claim_outbound_job now d = (Some job, d')"
  obtains j where "j \<in> set (gd_jobs d)" "jb_state j = ''pending''" "cj_job_id job = jb_id j" "claimed_db j now d d'"
proof (cases rule: claim_outbound_job_cases [of now d])
  case (job j m)
  with assms show ?thesis by (intro that [of j]) (auto simp: claimed_db_def update_job_def claimed_row_def [abs_def])
qed (use assms in simp)

lemma rewritten_inv:
  assumes inv: "worker_inv cfg w" and j: "j \<in> set (gd_jobs (ww_db w))" "jb_state j = ''pending''"
    and rw: "rewrites_job cfg (jb_id j) (jb_attempts j + 1) again (ww_db w) d'"
    and sl: "sl = ww_sent w \<or> (sl = ww_sent w @ [e] \<and> se_job_id e = jb_id j \<and> again = retryable (se_outcome e) \<and>
       jb_id j \<in> rv_job_id ` set (gd_reservations d'))"
    and rv: "rv_job_id ` set (gd_reservations (ww_db w)) \<subseteq> rv_job_id ` set (gd_reservations d')"
  shows "worker_inv cfg \<lparr>ww_db = d', ww_sent = sl\<rparr>"
proof -
  obtain g where g: "gd_jobs d' = update_where (\<lambda>r. jb_id r = jb_id j) g (gd_jobs (ww_db w))"
    "\<And>r. jb_id (g r) = jb_id r" "\<And>r. jb_attempts (g r) = jb_attempts j + 1"
    "\<And>r. jb_state (g r) = ''pending'' \<Longrightarrow> again \<and> jb_attempts j + 1 < attempt_limit cfg"
    using rw unfolding rewrites_job_def by blast
  have ids: "map jb_id (gd_jobs d') = map jb_id (gd_jobs (ww_db w))" using g(1,2) by (simp add: map_update_where)
  have jok: "job_ok cfg (ww_sent w) j" using inv j(1) by (simp add: worker_inv_def)
  have "job_ok cfg sl r'" if row: "r' \<in> set (gd_jobs d')" for r'
  proof -
    obtain r where r: "r \<in> set (gd_jobs (ww_db w))" "r' = (if jb_id r = jb_id j then g r else r)"
      using row unfolding g(1) set_update_where image_iff by blast
    show ?thesis
    proof (cases "jb_id r = jb_id j")
      case True
      then show ?thesis using r(2) jok j(2) sl g(2-4) [of r] by (auto simp: job_ok_def)
    next
      case False
      have "job_ok cfg (ww_sent w) r" using inv r(1) by (simp add: worker_inv_def)
      then show ?thesis using r(2) False sl by (auto simp: job_ok_def)
    qed
  qed
  moreover have "sends_ordered sl"
    using inv sl jok j(2) by (auto simp: worker_inv_def sends_ordered_def sorted_wrt_append job_ok_def)
  moreover have "se_job_id ` set sl \<subseteq> jb_id ` set (gd_jobs d')"
  proof -
    have same: "jb_id ` set (gd_jobs d') = jb_id ` set (gd_jobs (ww_db w))" using ids by (metis set_map)
    have "insert (jb_id j) (se_job_id ` set (ww_sent w)) \<subseteq> jb_id ` set (gd_jobs d')"
      unfolding same using inv j(1) by (simp add: worker_inv_def)
    moreover have "se_job_id ` set sl \<subseteq> insert (jb_id j) (se_job_id ` set (ww_sent w))" using sl by auto
    ultimately show ?thesis by (rule subset_trans [rotated])
  qed
  moreover have "se_job_id ` set sl \<subseteq> rv_job_id ` set (gd_reservations d')"
  proof -
    have "se_job_id ` set (ww_sent w) \<subseteq> rv_job_id ` set (gd_reservations d')"
      using inv rv unfolding worker_inv_def by (meson subset_trans)
    then show ?thesis using sl by (elim disjE conjE) simp_all
  qed
  ultimately show ?thesis using inv ids by (simp add: worker_inv_def)
qed

lemma settle_reservations [simp]: "gd_reservations (settle cfg now i outcome d) = gd_reservations d"
  by (auto simp: settle_def block_outbound_job_def retry_outbound_job_def complete_outbound_job_def Let_def set_message_def
    update_job_def split: send_outcome.split sum.split)

lemma block_reservations [simp]: "gd_reservations (snd (block_outbound_job i reason status d)) = gd_reservations d"
  by (auto simp: block_outbound_job_def set_message_def update_job_def split: sum.split)

lemma reserve_send_None:
  "reserve_send now i m h dl d = (None, d') \<Longrightarrow> gd_jobs d' = gd_jobs d \<and> i \<in> rv_job_id ` set (gd_reservations d') \<and>
     rv_job_id ` set (gd_reservations d) \<subseteq> rv_job_id ` set (gd_reservations d')"
  by (auto simp: reserve_send_def find_row_None_iff split: if_splits)

lemma worker_once_inv:
  assumes inv: "worker_inv cfg w" shows "worker_inv cfg (snd (worker_once cfg providers now w))"
proof (cases rule: worker_once_cases [of cfg providers now w])
  case (blocked job d reason status)
  obtain j where j: "j \<in> set (gd_jobs (ww_db w))" "jb_state j = ''pending''" "cj_job_id job = jb_id j" "claimed_db j now (ww_db w) d"
    using blocked(1) by (rule claim_claimed)
  have "rewrites_job cfg (jb_id j) (jb_attempts j + 1) False (ww_db w) (snd (block_outbound_job (jb_id j) reason status d))"
    using blocked(2) by (intro block_rewrites [OF j(4)]) auto
  from rewritten_inv [OF inv j(1,2) this, of "ww_sent w"] show ?thesis
    using blocked(3) j(3) claim_keeps(3) [OF blocked(1)] by (simp add: worker_inv_def)
next
  case (sent job d d1 outcome)
  obtain j where j: "j \<in> set (gd_jobs (ww_db w))" "jb_state j = ''pending''" "cj_job_id job = jb_id j" "claimed_db j now (ww_db w) d"
    using sent(1) by (rule claim_claimed)
  note res = reserve_send_None [OF sent(3)]
  have "claimed_db j now (ww_db w) d1" using j(4) res by (simp add: claimed_db_def)
  from rewritten_inv [OF inv j(1,2) settle_rewrites [OF this, of cfg outcome now],
      of "ww_sent w @ [\<lparr>se_job_id = jb_id j, se_message = cj_message job, se_outcome = outcome\<rparr>]"
         "\<lparr>se_job_id = jb_id j, se_message = cj_message job, se_outcome = outcome\<rparr>"]
  show ?thesis unfolding sent(4) using res j(3) claim_keeps(3) [OF sent(1)] by simp
qed (use inv in simp)

lemma put_if_absent_jobs: "gd_jobs (snd (put_if_absent now m d)) = gd_jobs d"
  "gd_reservations (snd (put_if_absent now m d)) = gd_reservations d"
  by (auto simp: put_if_absent_def transaction_def bindS_def insert_event_def insert_message_def update_act_def ret_def
    record_compliance_def Let_def split: sum.split option.split prod.split)

lemma enqueue_outbound_jobs:
  "gd_reservations (snd (enqueue_outbound now i m d)) = gd_reservations d \<and>
   (gd_jobs (snd (enqueue_outbound now i m d)) = gd_jobs d \<or>
   (i \<notin> jb_id ` set (gd_jobs d) \<and> gd_jobs (snd (enqueue_outbound now i m d)) = gd_jobs d @
     [\<lparr>jb_id = i, jb_message_id = gm_event_id m, jb_state = ''pending'', jb_attempts = 0,
       jb_available_at = now, jb_locked_at = None, jb_last_error = None, jb_created_at = now\<rparr>]))"
  by (auto simp: enqueue_outbound_def transaction_def bindS_def insert_event_def insert_message_def raise_err_def ret_def
    insert_unique_def find_row_None_iff split: sum.split option.split prod.split)

lemma gateway_step_inv:
  assumes inv: "worker_inv cfg w" shows "worker_inv cfg (gateway_step cfg w op)"
proof (cases op)
  case (GReceive now m)
  then show ?thesis using inv by (simp add: worker_inv_def put_if_absent_jobs)
next
  case (GEnqueue now i m)
  let ?d = "snd (enqueue_outbound now i m (ww_db w))"
  consider "gd_jobs ?d = gd_jobs (ww_db w)" | "i \<notin> jb_id ` set (gd_jobs (ww_db w))" "gd_jobs ?d = gd_jobs (ww_db w) @
     [\<lparr>jb_id = i, jb_message_id = gm_event_id m, jb_state = ''pending'', jb_attempts = 0,
       jb_available_at = now, jb_locked_at = None, jb_last_error = None, jb_created_at = now\<rparr>]"
    using enqueue_outbound_jobs by blast
  then show ?thesis
  proof cases
    case 2
    then have "\<forall>e \<in> set (ww_sent w). se_job_id e \<noteq> i" using inv by (auto simp: worker_inv_def)
    then have "sends_of i (ww_sent w) = 0" "\<forall>e \<in> set (ww_sent w). se_job_id e = i \<longrightarrow> retryable (se_outcome e)"
      by (auto simp: sends_of_def filter_empty_conv)
    then show ?thesis using inv 2 GEnqueue by (auto simp: worker_inv_def enqueue_outbound_jobs job_ok_def)
  qed (use inv GEnqueue in \<open>simp add: worker_inv_def enqueue_outbound_jobs\<close>)
next
  case (GWork providers now)
  then show ?thesis using worker_once_inv [OF inv] by simp
next
  case (GPause now paused actor reason)
  then show ?thesis using inv by (simp add: worker_inv_def set_paused_def Let_def split: option.split)
qed

interpretation gateway: op_machine "gateway_step cfg" "worker_inv cfg" for cfg
  by unfold_locales (rule gateway_step_inv)

definition fresh_gateway :: "int \<Rightarrow> worker_world" where
  "fresh_gateway t = \<lparr>ww_db = migrated_db t, ww_sent = []\<rparr>"

lemma fresh_gateway_inv: "worker_inv cfg (fresh_gateway t)"
  by (simp add: worker_inv_def fresh_gateway_def migrated_db_def sends_ordered_def)

lemma distinct_idsD: "distinct (map key rows) \<Longrightarrow> r \<in> set rows \<Longrightarrow> s \<in> set rows \<Longrightarrow> key r = key s \<Longrightarrow> r = s"
  by (metis distinct_map inj_onD)

text \<open>
  C11. A submission whose outcome is not known to be a failure is the last one of its job: whatever
  messages, enqueuings, pauses and iterations happen, after an accepted, rejected or uncertain submission
  the job is never submitted again, and no job is submitted more often than the attempt limit.
\<close>

theorem no_resubmission:
  "let sent = ww_sent (foldl (gateway_step cfg) (fresh_gateway t) ops) in
   sends_ordered sent \<and> (\<forall>i. sends_of i sent \<le> attempt_limit cfg)"
proof -
  let ?w = "foldl (gateway_step cfg) (fresh_gateway t) ops"
  have inv: "worker_inv cfg ?w" using gateway.run_inv [OF fresh_gateway_inv] .
  have "sends_of i (ww_sent ?w) \<le> attempt_limit cfg" for i
  proof (cases "i \<in> se_job_id ` set (ww_sent ?w)")
    case True
    then obtain j where "j \<in> set (gd_jobs (ww_db ?w))" "jb_id j = i" using inv by (auto simp: worker_inv_def)
    then show ?thesis using inv by (auto simp: worker_inv_def job_ok_def)
  next
    case False
    then have "sends_of i (ww_sent ?w) = 0" by (auto simp: sends_of_def filter_empty_conv)
    then show ?thesis by simp
  qed
  then show ?thesis using inv by (simp add: worker_inv_def Let_def)
qed

section \<open>Send rates\<close>

fun op_time :: "gateway_op \<Rightarrow> int" where
  "op_time (GReceive now _) = now"
| "op_time (GEnqueue now _ _) = now"
| "op_time (GWork _ now) = now"
| "op_time (GPause now _ _ _) = now"

text \<open>The reservations of a provider and sender in the window of \<open>width\<close> seconds that ends at \<open>t\<close>.\<close>

definition in_window :: "int \<Rightarrow> string \<Rightarrow> string \<Rightarrow> int \<Rightarrow> reservation_row \<Rightarrow> bool" where
  "in_window width provider sender t r \<longleftrightarrow> rv_provider r = provider \<and> rv_sender r = sender \<and> t - seconds width \<le> rv_at r \<and> rv_at r \<le> t"

definition reserved_in :: "int \<Rightarrow> string \<Rightarrow> string \<Rightarrow> int \<Rightarrow> gateway_db \<Rightarrow> int" where
  "reserved_in width provider sender t d = int (length (filter (in_window width provider sender t) (gd_reservations d)))"

definition rate_ok :: "worker_config \<Rightarrow> gateway_db \<Rightarrow> bool" where
  "rate_ok cfg d \<longleftrightarrow> (\<forall>provider sender t.
     reserved_in 3600 provider sender t d \<le> max 0 (op_hourly (wc_policy cfg)) \<and>
     reserved_in 86400 provider sender t d \<le> max 0 (op_daily (wc_policy cfg)))"

definition rate_inv :: "worker_config \<Rightarrow> int \<Rightarrow> worker_world \<Rightarrow> bool" where
  "rate_inv cfg now w \<longleftrightarrow> (\<forall>r \<in> set (gd_reservations (ww_db w)). rv_at r \<le> now) \<and> rate_ok cfg (ww_db w)"

lemma length_filter_mono: "(\<And>x. x \<in> set xs \<Longrightarrow> P x \<Longrightarrow> Q x) \<Longrightarrow> length (filter P xs) \<le> length (filter Q xs)"
  by (induction xs) auto

lemma reserve_one:
  assumes old: "\<And>provider sender t. reserved_in width provider sender t d \<le> limit"
    and past: "\<forall>r \<in> set (gd_reservations d). rv_at r \<le> now" and room: "reserved_since (now - seconds width) m d < limit"
    and new: "gd_reservations d' = gd_reservations d @ [r]" "rv_provider r = gm_provider m" "rv_sender r = gm_sender m" "rv_at r = now"
  shows "reserved_in width provider sender t d' \<le> limit"
proof (cases "in_window width provider sender t r")
  case False
  then show ?thesis using old [of provider sender t] new(1) by (simp add: reserved_in_def)
next
  case True
  then have t: "now \<le> t" "t - seconds width \<le> now" "provider = gm_provider m" "sender = gm_sender m" using new by (auto simp: in_window_def)
  have "length (filter (in_window width provider sender t) (gd_reservations d)) \<le>
      length (filter (\<lambda>r. rv_at r \<ge> now - seconds width \<and> rv_provider r = gm_provider m \<and> rv_sender r = gm_sender m) (gd_reservations d))"
    using t by (intro length_filter_mono) (auto simp: in_window_def)
  then show ?thesis using room True new(1) by (simp add: reserved_in_def reserved_since_def)
qed

lemma reserve_send_rate:
  assumes "rate_ok cfg d" "\<forall>r \<in> set (gd_reservations d). rv_at r \<le> now"
    and "reserve_send now i m (op_hourly (wc_policy cfg)) (op_daily (wc_policy cfg)) d = (None, d')"
  shows "rate_ok cfg d' \<and> (\<forall>r \<in> set (gd_reservations d'). rv_at r \<le> now)"
proof (cases "find_row rv_job_id i (gd_reservations d) = None")
  case True
  then have room: "reserved_since (now - seconds 3600) m d < op_hourly (wc_policy cfg)"
      "reserved_since (now - seconds 86400) m d < op_daily (wc_policy cfg)"
    and d': "gd_reservations d' = gd_reservations d @ [\<lparr>rv_job_id = i, rv_message_id = gm_event_id m,
              rv_provider = gm_provider m, rv_sender = gm_sender m, rv_recipients = int (length (gm_recipients m)), rv_at = now\<rparr>]"
    using assms(3) by (auto simp: reserve_send_def split: if_splits)
  have "reserved_in 3600 p s t d' \<le> max 0 (op_hourly (wc_policy cfg))" for p s t
    by (rule reserve_one [OF _ assms(2) _ d']) (use assms(1) room in \<open>simp_all add: rate_ok_def\<close>)
  moreover have "reserved_in 86400 p s t d' \<le> max 0 (op_daily (wc_policy cfg))" for p s t
    by (rule reserve_one [OF _ assms(2) _ d']) (use assms(1) room in \<open>simp_all add: rate_ok_def\<close>)
  ultimately show ?thesis using assms(2) d' by (auto simp: rate_ok_def)
next
  case False
  then show ?thesis using assms by (auto simp: reserve_send_def)
qed

lemma rate_ok_cong: "gd_reservations d' = gd_reservations d \<Longrightarrow> rate_ok cfg d' = rate_ok cfg d"
  by (simp add: rate_ok_def reserved_in_def)

lemma gateway_step_rate:
  assumes inv: "rate_inv cfg before w" and "before \<le> op_time op"
  shows "rate_inv cfg (op_time op) (gateway_step cfg w op)"
proof -
  have past: "\<forall>r \<in> set (gd_reservations (ww_db w)). rv_at r \<le> op_time op" using assms by (fastforce simp: rate_inv_def)
  have same: "rate_inv cfg (op_time op) w'" if "gd_reservations (ww_db w') = gd_reservations (ww_db w)" for w'
    using that inv past by (simp add: rate_inv_def rate_ok_cong [OF that])
  show ?thesis
  proof (cases op)
    case (GReceive now m)
    then show ?thesis by (intro same) (simp add: put_if_absent_jobs)
  next
    case (GEnqueue now i m)
    then show ?thesis by (intro same) (simp add: enqueue_outbound_jobs)
  next
    case (GPause now p a r)
    then show ?thesis by (intro same) (simp add: set_paused_def Let_def split: option.split)
  next
    case (GWork providers now)
    show ?thesis
    proof (cases rule: worker_once_cases [of cfg providers now w])
      case idle
      then show ?thesis using GWork by (intro same) simp
    next
      case (blocked job d reason status)
      then show ?thesis using GWork by (intro same) (simp add: claim_keeps(3) [OF blocked(1)])
    next
      case (sent job d d1 outcome)
      have d: "gd_reservations d = gd_reservations (ww_db w)" by (rule claim_keeps(3) [OF sent(1)])
      have "rate_ok cfg d" using inv by (simp add: rate_inv_def rate_ok_cong [OF d])
      moreover have "\<forall>r \<in> set (gd_reservations d). rv_at r \<le> now" using past GWork by (simp add: d)
      ultimately have "rate_ok cfg d1 \<and> (\<forall>r \<in> set (gd_reservations d1). rv_at r \<le> now)"
        using sent(3) by (rule reserve_send_rate)
      then show ?thesis using GWork by (simp add: sent(4) rate_inv_def rate_ok_cong [OF settle_reservations])
    qed
  qed
qed

lemma gateway_run_rate:
  "rate_inv cfg before w \<Longrightarrow> sorted (map op_time ops) \<Longrightarrow> \<forall>op \<in> set ops. before \<le> op_time op \<Longrightarrow>
   rate_ok cfg (ww_db (foldl (gateway_step cfg) w ops))"
proof (induction ops arbitrary: before w)
  case (Cons op ops)
  then have "rate_inv cfg (op_time op) (gateway_step cfg w op)" by (intro gateway_step_rate) auto
  then show ?case using Cons.IH [of "op_time op"] Cons.prems by simp
qed (simp add: rate_inv_def)

text \<open>
  The send limits hold in every window: with calls in the order of time, the jobs a sender submits to
  a provider take at most the hourly limit of reservations in any hour and the daily limit in any day, and
  every submitted job has its reservation.
\<close>

theorem send_rates_are_bounded:
  assumes "sorted (map op_time ops)" and "w = foldl (gateway_step cfg) (fresh_gateway start) ops"
  shows "reserved_in 3600 provider sender t (ww_db w) \<le> max 0 (op_hourly (wc_policy cfg)) \<and>
    reserved_in 86400 provider sender t (ww_db w) \<le> max 0 (op_daily (wc_policy cfg)) \<and>
    se_job_id ` set (ww_sent w) \<subseteq> rv_job_id ` set (gd_reservations (ww_db w))"
proof -
  have "rate_ok cfg (ww_db w)"
  proof (cases ops)
    case Nil
    then show ?thesis using assms(2) by (simp add: rate_ok_def reserved_in_def fresh_gateway_def migrated_db_def)
  next
    case (Cons op rest)
    have "rate_inv cfg (op_time op) (fresh_gateway start)"
      by (simp add: rate_inv_def rate_ok_def reserved_in_def fresh_gateway_def migrated_db_def)
    then show ?thesis unfolding assms(2) using assms(1) Cons by (intro gateway_run_rate) auto
  qed
  moreover have "worker_inv cfg w" unfolding assms(2) using gateway.run_inv [OF fresh_gateway_inv] .
  ultimately show ?thesis by (simp add: rate_ok_def worker_inv_def)
qed

section \<open>Concrete runs\<close>

definition demo_worker :: worker_config where
  "demo_worker = \<lparr>wc_allowed = {''simulator''}, wc_policy = policy_from_values True (Some ''+1'') (Some ''+1, +44'') 1 1600 10 25,
     wc_retry_delay = 60, wc_max_attempts = 5\<rparr>"

definition demo_providers :: "bool \<Rightarrow> provider_table" where
  "demo_providers accepted p = (if p = ''simulator'' then Some (\<lambda>m. Answer ''pm-1'' accepted) else None)"

definition demo_ops :: "gateway_op list" where
  "demo_ops = [GEnqueue 0 ''j1'' (demo_text ''m1'' Outbound ''hello'' 0), GWork (demo_providers False) 1,
     GWork (demo_providers True) (seconds 60 + 1), GWork (demo_providers True) (seconds 120)]"

lemma demo_run: "map se_outcome (ww_sent (foldl (gateway_step demo_worker) (fresh_gateway 0) demo_ops)) = [Answer ''pm-1'' False, Answer ''pm-1'' True]"
  by code_simp

theorem send_rates_are_bounded_witness:
  "reserved_in 3600 ''simulator'' ''+1'' 5 (ww_db (foldl (gateway_step demo_worker) (fresh_gateway 0) demo_ops)) \<le> 10 \<and>
   ww_sent (foldl (gateway_step demo_worker) (fresh_gateway 0) demo_ops) \<noteq> []"
proof -
  have "sorted (map op_time demo_ops)" by (simp add: demo_ops_def seconds_def)
  from send_rates_are_bounded [OF this refl, of "''simulator''" "''+1''" 5 demo_worker 0] demo_run
  show ?thesis by (auto simp: demo_worker_def policy_from_values_def)
qed


end
