(* ===== verification/GatewayInbound.thy ===== *)
theory GatewayInbound
  imports GatewayWebhooks GatewaySends
begin

text \<open>
  What the webhook intake promises when handlers and recovery workers interleave and die between their
  transactions. A flight is a handler or a worker between two of its transactions; the step relation
  \<open>txn\<close> lets any flight go on or die. Receipts tell the truth about the event store, what was
  processed stays processed, and a recorded webhook is recovered. A worker's write to the event store may
  raise for any reason, before or after it was committed; the retry that follows is a transaction of its own.
\<close>

section \<open>Flights and transactions\<close>

record flight =
  fl_receipt :: string
  fl_message :: gmessage
  fl_worker :: bool
  fl_result :: "bool option"
  fl_raised :: bool

definition result_status :: "bool \<Rightarrow> string" where
  "result_status accepted = (if accepted then ''accepted'' else ''duplicate'')"

inductive txn :: "(string \<Rightarrow> string) \<Rightarrow> int \<Rightarrow> int \<Rightarrow> intake \<times> flight list \<Rightarrow> intake \<times> flight list \<Rightarrow> bool"
  for digest :: "string \<Rightarrow> string" and delay :: int and attempts :: int where
  receive: "record_verified digest now i name m body (in_receipts s) = (Inr i, rows) \<Longrightarrow>
    txn digest delay attempts (s, fs) (s\<lparr>in_receipts := rows\<rparr>,
      fs @ [\<lparr>fl_receipt = i, fl_message = m, fl_worker = False, fl_result = None, fl_raised = False\<rparr>])"
| claim: "claim_verified now (in_receipts s) = (Some c, rows) \<Longrightarrow>
    txn digest delay attempts (s, fs) (s\<lparr>in_receipts := rows\<rparr>,
      fs @ [\<lparr>fl_receipt = cr_receipt_id c, fl_message = cr_message c, fl_worker = True, fl_result = None, fl_raised = False\<rparr>])"
| put: "fl_result f = None \<Longrightarrow> \<not> fl_raised f \<Longrightarrow> put_if_absent now (fl_message f) (in_db s) = (Inr b, d) \<Longrightarrow>
    txn digest delay attempts (s, xs @ f # ys) (s\<lparr>in_db := d\<rparr>, xs @ f\<lparr>fl_result := Some b\<rparr> # ys)"
| put_error: "fl_result f = None \<Longrightarrow> \<not> fl_raised f \<Longrightarrow> d = in_db s \<or> d = snd (put_if_absent now (fl_message f) (in_db s)) \<Longrightarrow>
    txn digest delay attempts (s, xs @ f # ys) (s\<lparr>in_db := d\<rparr>, xs @ f\<lparr>fl_raised := True\<rparr> # ys)"
| retry: "fl_raised f \<Longrightarrow> fl_worker f \<Longrightarrow> retry_processing now (fl_receipt f) error delay attempts (in_receipts s) = (r, rows) \<Longrightarrow>
    txn digest delay attempts (s, xs @ f # ys) (s\<lparr>in_receipts := rows\<rparr>, xs @ ys)"
| mark: "fl_result f = Some b \<Longrightarrow> mark_processed now (fl_receipt f) (result_status b) (in_receipts s) = (r, rows) \<Longrightarrow>
    txn digest delay attempts (s, xs @ f # ys) (s\<lparr>in_receipts := rows\<rparr>, xs @ ys)"
| tally: "txn digest delay attempts (s, fs) (s\<lparr>in_counters := counters\<rparr>, fs)"
| store: "txn digest delay attempts (s, fs) (s\<lparr>in_db := ww_db (gateway_step cfg w opn)\<rparr>, fs)" if "ww_db w = in_db s"
| die: "txn digest delay attempts (s, xs @ f # ys) (s, xs @ ys)"

abbreviation txns :: "(string \<Rightarrow> string) \<Rightarrow> int \<Rightarrow> int \<Rightarrow> intake \<times> flight list \<Rightarrow> intake \<times> flight list \<Rightarrow> bool" where
  "txns digest delay attempts \<equiv> (txn digest delay attempts)\<^sup>*\<^sup>*"

section \<open>The handlers are sequences of transactions\<close>

lemma put_if_absent_Inl: "put_if_absent now m d = (Inl e, d') \<Longrightarrow> d' = d"
  by (auto simp: put_if_absent_def transaction_def split: prod.splits sum.splits)

lemma on_events_eq: "on_events a s = (fst (a (in_db s)), s\<lparr>in_db := snd (a (in_db s))\<rparr>)"
  and on_receipts_eq: "on_receipts b s = (fst (b (in_receipts s)), s\<lparr>in_receipts := snd (b (in_receipts s))\<rparr>)"
  and on_counters_eq: "on_counters c s = (fst (c (in_counters s)), s\<lparr>in_counters := snd (c (in_counters s))\<rparr>)"
  by (simp_all add: on_events_def on_receipts_def on_counters_def case_prod_beta)

lemma bindS_cases:
  obtains (err) e s' where "m s = (Inl e, s')" "bindS m f s = (Inl e, s')"
  | (ok) v s' where "m s = (Inr v, s')" "bindS m f s = f v s'"
  by (cases "fst (m s)"; cases "m s") (auto simp: bindS_def)

lemma refuse_tallies: "txns digest delay attempts (s, fs) (snd (refuse now bucket out st detail s), fs)"
proof -
  have "\<exists>counters. snd (refuse now bucket out st detail s) = s\<lparr>in_counters := counters\<rparr>"
    unfolding refuse_def bindS_def on_counters_eq
    by (cases "fst (count_outcome now bucket out (in_counters s))") (auto simp: ret_def)
  then show ?thesis using txn.tally by (metis r_into_rtranclp)
qed

lemma finish_webhook_txns:
  assumes "fl_result f = Some b" "fl_receipt f = i"
  shows "txns digest delay attempts (s, fs @ [f]) (snd (finish_webhook now name i m b s), fs)"
proof -
  have mark: "txn digest delay attempts (s, fs @ [f]) (snd (on_receipts (mark_processed now i (result_status b)) s), fs)"
    using txn.mark [OF assms(1), of now s _ _ digest delay attempts fs "[]"] assms(2)
    by (simp add: on_receipts_eq) (metis prod.collapse)
  have count: "txns digest delay attempts (s, fs) (snd (bindS (on_counters (count_outcome now name out)) (\<lambda>_. ret v) s), fs)"
    for s out v and fs :: "flight list"
    by (rule bindS_cases [of "on_counters (count_outcome now name out)" s "\<lambda>_. ret v"])
      (auto simp: on_counters_eq ret_def intro: txn.tally)
  show ?thesis
  proof (cases "b \<or> (\<exists>v. body_matches_previous i (in_receipts s) = Inr v)")
    case True
    define g where "g = (if b then bindS (on_counters (count_outcome now name ''accepted'')) (\<lambda>_. ret (Http_ok (webhook_reply True m name i)))
      else if body_matches_previous i (in_receipts s) = Inr (Some False) then refuse now name ''payload_conflict'' 409
        ''provider_event_id replay body does not match the prior processed webhook''
      else bindS (on_counters (count_outcome now name ''duplicate'')) (\<lambda>_. ret (Http_ok (webhook_reply False m name i))))"
    have "finish_webhook now name i m b s = bindS (on_receipts (mark_processed now i (result_status b))) (\<lambda>_. g) s"
      using True by (auto simp: finish_webhook_def g_def result_status_def)
    moreover have "txns digest delay attempts (s1, fs) (snd (g s1), fs)" for s1
      unfolding g_def by (auto intro: count refuse_tallies)
    ultimately show ?thesis
      by (cases rule: bindS_cases [of "on_receipts (mark_processed now i (result_status b))" s "\<lambda>_. g"])
        (use mark in \<open>auto intro: converse_rtranclp_into_rtranclp\<close>)
  next
    case False
    then have "snd (finish_webhook now name i m b s) = s"
      by (auto simp: finish_webhook_def split: sum.split)
    then show ?thesis using txn.die [of digest delay attempts s fs f "[]"] by simp
  qed
qed

lemma accept_webhook_txns: "txns digest delay attempts (s, fs) (snd (accept_webhook digest now name i m body s), fs)"
proof (cases "record_verified digest now i name m body (in_receipts s)")
  case (Pair r rows)
  let ?f = "\<lparr>fl_receipt = i, fl_message = m, fl_worker = False, fl_result = None, fl_raised = False\<rparr>"
  show ?thesis
  proof (cases r)
    case (Inl e)
    then have "rows = in_receipts s" using Pair by (auto simp: record_verified_def split: sum.splits)
    then show ?thesis using Pair Inl by (simp add: accept_webhook_def bindS_def on_receipts_eq)
  next
    case (Inr j)
    then have j: "j = i" using Pair by (auto simp: record_verified_def split: sum.splits)
    let ?s1 = "s\<lparr>in_receipts := rows\<rparr>"
    have first: "txn digest delay attempts (s, fs) (?s1, fs @ [?f])"
      using Pair Inr j by (auto intro: txn.receive)
    have rest: "accept_webhook digest now name i m body s = bindS (on_events (put_if_absent now m)) (finish_webhook now name i m) ?s1"
      using Pair Inr j by (simp add: accept_webhook_def bindS_def on_receipts_eq)
    obtain q d where q: "put_if_absent now m (in_db s) = (q, d)" by fastforce
    show ?thesis
    proof (cases q)
      case (Inl e)
      then have "snd (accept_webhook digest now name i m body s) = ?s1"
        using q put_if_absent_Inl [of now m "in_db s" e d] by (simp add: rest bindS_def on_events_eq)
      then show ?thesis using first txn.die [of digest delay attempts ?s1 fs ?f "[]"]
        by (metis append_Nil2 r_into_rtranclp rtranclp.rtrancl_into_rtrancl)
    next
      case (Inr b)
      let ?s2 = "?s1\<lparr>in_db := d\<rparr>" and ?g = "?f\<lparr>fl_result := Some b\<rparr>"
      have second: "txn digest delay attempts (?s1, fs @ [?f]) (?s2, fs @ [?g])"
        using txn.put [of ?f now ?s1 b d digest delay attempts fs "[]"] q Inr by simp
      have "accept_webhook digest now name i m body s = finish_webhook now name i m b ?s2"
        using q Inr by (simp add: rest bindS_def on_events_eq)
      moreover have "txns digest delay attempts (?s2, fs @ [?g]) (snd (finish_webhook now name i m b ?s2), fs)"
        by (rule finish_webhook_txns) simp_all
      ultimately show ?thesis using first second by (metis converse_rtranclp_into_rtranclp)
    qed
  qed
qed

lemma webhook_route_txns: "txns digest delay attempts (s, fs) (snd (webhook_route digest providers now name i body req s), fs)"
  unfolding webhook_route_def
  by (auto split: option.split intro: refuse_tallies accept_webhook_txns)

lemma inbound_once_txns: "txns digest delay attempts (s, fs) (snd (inbound_once delay attempts now s), fs)"
proof (cases "claim_verified now (in_receipts s)")
  case (Pair co rows)
  show ?thesis
  proof (cases co)
    case None
    then have "rows = in_receipts s" using Pair by (auto simp: claim_verified_def split: list.splits option.splits)
    then show ?thesis using Pair None by (simp add: inbound_once_def)
  next
    case (Some c)
    let ?s1 = "s\<lparr>in_receipts := rows\<rparr>"
      and ?f = "\<lparr>fl_receipt = cr_receipt_id c, fl_message = cr_message c, fl_worker = True, fl_result = None, fl_raised = False\<rparr>"
    have first: "txn digest delay attempts (s, fs) (?s1, fs @ [?f])"
      using Pair Some by (auto intro: txn.claim)
    have run: "inbound_once delay attempts now s = recover_receipt delay attempts now c ?s1"
      using Pair Some by (simp add: inbound_once_def)
    obtain q d where q: "put_if_absent now (cr_message c) (in_db s) = (q, d)" by fastforce
    show ?thesis
    proof (cases q)
      case (Inl e)
      then have d: "d = in_db s" using q put_if_absent_Inl by blast
      obtain r rows' where retry: "retry_processing now (cr_receipt_id c) (''message persistence raised '' @ error_name e) delay attempts rows = (r, rows')"
        by fastforce
      have "snd (recover_receipt delay attempts now c ?s1) = ?s1\<lparr>in_receipts := rows'\<rparr>"
        using q Inl d retry by (cases r) (simp_all add: recover_receipt_def Let_def on_events_eq bindS_def on_receipts_eq ret_def)
      moreover have "txn digest delay attempts (?s1, fs @ [?f]) (?s1, fs @ [?f\<lparr>fl_raised := True\<rparr>])"
        using txn.put_error [of ?f "in_db ?s1" ?s1 now digest delay attempts fs "[]"] by simp
      moreover have "txn digest delay attempts (?s1, fs @ [?f\<lparr>fl_raised := True\<rparr>]) (?s1\<lparr>in_receipts := rows'\<rparr>, fs)"
        using txn.retry [of "?f\<lparr>fl_raised := True\<rparr>" now _ delay attempts ?s1 r rows' digest fs "[]"] retry by simp
      ultimately show ?thesis using first run by (metis converse_rtranclp_into_rtranclp r_into_rtranclp)
    next
      case (Inr b)
      let ?s2 = "?s1\<lparr>in_db := d\<rparr>" and ?g = "?f\<lparr>fl_result := Some b\<rparr>"
      obtain r rows' where mark: "mark_processed now (cr_receipt_id c) (result_status b) rows = (r, rows')" by fastforce
      have "snd (recover_receipt delay attempts now c ?s1) = ?s2\<lparr>in_receipts := rows'\<rparr>"
        using q Inr mark by (cases r) (simp_all add: recover_receipt_def Let_def on_events_eq bindS_def on_receipts_eq ret_def result_status_def)
      moreover have "txn digest delay attempts (?s1, fs @ [?f]) (?s2, fs @ [?g])"
        using txn.put [of ?f now ?s1 b d digest delay attempts fs "[]"] q Inr by simp
      moreover have "txn digest delay attempts (?s2, fs @ [?g]) (?s2\<lparr>in_receipts := rows'\<rparr>, fs)"
        using txn.mark [of ?g b now ?s2 r rows' digest delay attempts fs "[]"] mark by simp
      ultimately show ?thesis using first run by (metis converse_rtranclp_into_rtranclp r_into_rtranclp)
    qed
  qed
qed

section \<open>Updating one row\<close>

lemma update_where_Cons: "update_where p f (r # rows) = (if p r then f r else r) # update_where p f rows"
  by (simp add: update_where_def)

lemma update_where_split:
  assumes "distinct (map key rows)" "find p rows = Some r" "\<And>x. p x \<Longrightarrow> key x = key r"
  obtains xs ys where "rows = xs @ r # ys" "\<And>f. update_where p f rows = xs @ f r # ys" "p r"
proof -
  have "\<exists>xs ys. rows = xs @ r # ys \<and> p r \<and> (\<forall>x \<in> set xs. \<not> p x)"
    using assms(2)
  proof (induction rows)
    case (Cons a rows)
    then show ?case by (cases "p a") (force, metis Cons_eq_appendI find.simps(2) set_ConsD)
  qed simp
  then obtain xs ys where rows: "rows = xs @ r # ys" and p: "p r" and xs: "\<forall>x \<in> set xs. \<not> p x" by blast
  have "key r \<notin> key ` set ys" using assms(1) unfolding rows by simp
  then have "\<not> p y" if "y \<in> set ys" for y using assms(3) that by (metis imageI)
  then have "update_where p f ys = ys" for f by (intro update_where_none)
  moreover have "update_where p f xs = xs" for f using xs by (intro update_where_none) auto
  ultimately have "update_where p f rows = xs @ f r # ys" for f
    using p by (simp only: rows update_where_append update_where_Cons if_True)
  then show thesis by (rule that [OF rows _ p])
qed

section \<open>The invariant\<close>

definition stored_keys :: "gateway_db \<Rightarrow> (string \<times> string) set" where
  "stored_keys d = row_key ` set (gd_events d)"

definition accepted_for :: "string \<times> string \<Rightarrow> webhook_row \<Rightarrow> bool" where
  "accepted_for k r \<longleftrightarrow> wr_status r = ''accepted'' \<and> map_option event_key (wr_payload r) = Some k"

definition winning :: "string \<times> string \<Rightarrow> flight \<Rightarrow> bool" where
  "winning k f \<longleftrightarrow> fl_result f = Some True \<and> event_key (fl_message f) = k"

definition receipt_sound :: "int \<Rightarrow> gateway_db \<Rightarrow> webhook_row \<Rightarrow> bool" where
  "receipt_sound attempts d r \<longleftrightarrow> (\<exists>m. wr_payload r = Some m \<and>
      (wr_status r \<in> {''accepted'', ''duplicate''} \<longrightarrow> event_key m \<in> stored_keys d)) \<and>
     wr_status r \<in> set processing_states \<and>
     0 \<le> wr_attempts r \<and> wr_attempts r \<le> bounded 1 100 attempts \<and>
     (wr_status r = ''verified'' \<longrightarrow> wr_attempts r < bounded 1 100 attempts)"

definition flight_sound :: "gateway_db \<Rightarrow> webhook_row list \<Rightarrow> flight \<Rightarrow> bool" where
  "flight_sound d rows f \<longleftrightarrow> (\<exists>r \<in> set rows. wr_id r = fl_receipt f \<and> wr_payload r = Some (fl_message f)) \<and>
     (fl_result f \<noteq> None \<longrightarrow> event_key (fl_message f) \<in> stored_keys d)"

definition intake_inv :: "int \<Rightarrow> intake \<times> flight list \<Rightarrow> bool" where
  "intake_inv attempts = (\<lambda>(s, fs). distinct (map wr_id (in_receipts s)) \<and>
     (\<forall>r \<in> set (in_receipts s). receipt_sound attempts (in_db s) r) \<and>
     (\<forall>f \<in> set fs. flight_sound (in_db s) (in_receipts s) f) \<and>
     (\<forall>k. length (filter (accepted_for k) (in_receipts s)) + length (filter (winning k) fs) \<le> 1))"

lemma intake_invI:
  assumes "distinct (map wr_id (in_receipts s))" "\<And>r. r \<in> set (in_receipts s) \<Longrightarrow> receipt_sound n (in_db s) r"
    "\<And>f. f \<in> set fs \<Longrightarrow> flight_sound (in_db s) (in_receipts s) f"
    "\<And>k. length (filter (accepted_for k) (in_receipts s)) + length (filter (winning k) fs) \<le> 1"
  shows "intake_inv n (s, fs)"
  using assms unfolding intake_inv_def prod.case by blast

lemma intake_invD:
  assumes "intake_inv n (s, fs)"
  shows "distinct (map wr_id (in_receipts s))" "r \<in> set (in_receipts s) \<Longrightarrow> receipt_sound n (in_db s) r"
    "f \<in> set fs \<Longrightarrow> flight_sound (in_db s) (in_receipts s) f"
    "length (filter (accepted_for k) (in_receipts s)) + length (filter (winning k) fs) \<le> 1"
  using assms unfolding intake_inv_def prod.case by blast+

lemma attempts_pos [simp]: "0 < bounded 1 100 n" "0 \<le> bounded 1 100 n"
  by (auto simp: bounded_def)

lemma receipt_sound_mono: "receipt_sound n d r \<Longrightarrow> stored_keys d \<subseteq> stored_keys d' \<Longrightarrow> receipt_sound n d' r"
  and flight_sound_mono: "flight_sound d rows f \<Longrightarrow> stored_keys d \<subseteq> stored_keys d' \<Longrightarrow> flight_sound d' rows f"
  by (auto simp: receipt_sound_def flight_sound_def)

text \<open>A row is replaced by one with the same id and payload.\<close>

lemma flight_sound_replace:
  "flight_sound d (xs @ r # ys) f \<Longrightarrow> wr_id r' = wr_id r \<Longrightarrow> wr_payload r' = wr_payload r \<Longrightarrow> flight_sound d (xs @ r' # ys) f"
  by (auto simp: flight_sound_def)

lemma receipts_replaced:
  assumes inv: "intake_inv n (s, fs)" and rows: "in_receipts s = xs @ r # ys"
    and r': "wr_id r' = wr_id r" "wr_payload r' = wr_payload r" "receipt_sound n (in_db s) r'"
    and fs': "set fs' \<subseteq> set fs"
    and count: "\<And>k. length (filter (accepted_for k) [r']) + length (filter (winning k) fs') \<le>
      length (filter (accepted_for k) [r]) + length (filter (winning k) fs)"
  shows "intake_inv n (s\<lparr>in_receipts := xs @ r' # ys\<rparr>, fs')"
proof -
  have "flight_sound (in_db s) (xs @ r' # ys) f" if "f \<in> set fs'" for f
  proof -
    have "flight_sound (in_db s) (in_receipts s) f" using inv fs' that unfolding intake_inv_def by blast
    then show ?thesis unfolding rows using r'(1,2) by (rule flight_sound_replace)
  qed
  moreover have "length (filter (accepted_for k) (xs @ r' # ys)) + length (filter (winning k) fs') \<le> 1" for k
  proof -
    have "length (filter (accepted_for k) (in_receipts s)) + length (filter (winning k) fs) \<le> 1"
      using inv unfolding intake_inv_def by blast
    moreover have parts: "length (filter (accepted_for k) (xs @ x # ys)) =
        length (filter (accepted_for k) xs) + length (filter (accepted_for k) [x]) + length (filter (accepted_for k) ys)" for x
      by simp
    ultimately show ?thesis using count [of k] parts [of r] parts [of r'] unfolding rows by linarith
  qed
  moreover have "distinct (map wr_id (xs @ r' # ys))" "\<forall>x \<in> set (xs @ r' # ys). receipt_sound n (in_db s) x"
    using inv rows r'(1,3) by (auto simp: intake_inv_def)
  moreover have "in_receipts (s\<lparr>in_receipts := xs @ r' # ys\<rparr>) = xs @ r' # ys" "in_db (s\<lparr>in_receipts := xs @ r' # ys\<rparr>) = in_db s" by simp_all
  ultimately show ?thesis unfolding intake_inv_def prod.case by metis
qed

lemma fewer_flights:
  assumes inv: "intake_inv n (s, fs)" and fs': "set fs' \<subseteq> set fs"
    and count: "\<And>k. length (filter (winning k) fs') \<le> length (filter (winning k) fs)"
  shows "intake_inv n (s, fs')"
proof -
  have "length (filter (accepted_for k) (in_receipts s)) + length (filter (winning k) fs') \<le> 1" for k
  proof -
    have "length (filter (accepted_for k) (in_receipts s)) + length (filter (winning k) fs) \<le> 1"
      using inv unfolding intake_inv_def by blast
    then show ?thesis using count [of k] by linarith
  qed
  then show ?thesis using inv fs' unfolding intake_inv_def by auto
qed

lemma insert_uniqueD: "insert_unique key r rows = Inr rows' \<Longrightarrow> rows' = rows @ [r] \<and> key r \<notin> key ` set rows"
  by (auto simp: insert_unique_def find_row_None_iff split: if_splits)

lemma put_if_absent_keys:
  assumes "put_if_absent now m d = (Inr b, d')"
  shows "stored_keys d' = insert (event_key m) (stored_keys d)" "b \<longleftrightarrow> event_key m \<notin> stored_keys d"
proof -
  show b: "b \<longleftrightarrow> event_key m \<notin> stored_keys d"
    using assms by (auto simp: put_if_absent_def transaction_def bindS_def ret_def update_act_def insert_event_def
        insert_message_def find_row_None_iff stored_keys_def split: if_splits prod.splits sum.splits)
  show "stored_keys d' = insert (event_key m) (stored_keys d)"
  proof (cases b)
    case False
    then have "d' = d" using assms by (auto simp: put_if_absent_def transaction_def bindS_def ret_def update_act_def insert_event_def
        insert_message_def split: if_splits prod.splits sum.splits)
    then show ?thesis using False b by auto
  next
    case True
    then show ?thesis using assms
      by (auto simp: put_if_absent_def transaction_def bindS_def ret_def update_act_def insert_event_def insert_message_def
          stored_keys_def row_key_def event_key_def split: if_splits prod.splits sum.splits dest!: insert_uniqueD)
  qed
qed

section \<open>Every transaction keeps the invariant\<close>

lemma open_receiptD: "open_receipt r \<Longrightarrow> \<not> accepted_for k r"
  by (auto simp: open_receipt_def accepted_for_def)

lemma record_verified_inv:
  assumes inv: "intake_inv n (s, fs)" and run: "record_verified digest now i name m body (in_receipts s) = (Inr j, rows)"
  shows "intake_inv n (s\<lparr>in_receipts := rows\<rparr>, fs @ [\<lparr>fl_receipt = j, fl_message = m, fl_worker = False, fl_result = None, fl_raised = False\<rparr>])"
proof -
  define r where "r = \<lparr>wr_id = i, wr_provider = name, wr_provider_event_id = gm_provider_event_id m,
    wr_message_event_id = gm_event_id m, wr_body_sha256 = digest body, wr_verification = ''verified'',
    wr_status = ''verified'', wr_payload = Some m, wr_attempts = 0, wr_received_at = now, wr_processed_at = None,
    wr_available_at = now, wr_locked_at = None, wr_last_error = None\<rparr>"
  then have "insert_unique wr_id r (in_receipts s) = Inr rows" and j: "j = i"
    using run by (simp_all add: record_verified_def split: sum.splits)
  from insert_uniqueD [OF this(1)] have r: "rows = in_receipts s @ [r]" "wr_id r = i" "wr_payload r = Some m" "wr_status r = ''verified''"
    "wr_attempts r = 0" "i \<notin> wr_id ` set (in_receipts s)" "j = i" by (simp_all add: r_def j)
  have sound: "receipt_sound n d r" for d
    using r(3-5) attempts_pos [of n] by (simp add: receipt_sound_def processing_states_def)
  have "\<not> accepted_for k r" for k using r by (simp add: accepted_for_def)
  then have count: "filter (accepted_for k) rows = filter (accepted_for k) (in_receipts s)" for k by (simp add: r(1))
  let ?f = "\<lparr>fl_receipt = j, fl_message = m, fl_worker = False, fl_result = None, fl_raised = False\<rparr>"
  have win: "filter (winning k) (fs @ [?f]) = filter (winning k) fs" for k by (simp add: winning_def)
  show ?thesis
  proof (rule intake_invI)
    show "distinct (map wr_id (in_receipts (s\<lparr>in_receipts := rows\<rparr>)))"
      using intake_invD(1) [OF inv] r(1,2,6) by simp
    show "receipt_sound n (in_db (s\<lparr>in_receipts := rows\<rparr>)) x" if "x \<in> set (in_receipts (s\<lparr>in_receipts := rows\<rparr>))" for x
      using that intake_invD(2) [OF inv] r(1) sound by auto
    show "flight_sound (in_db (s\<lparr>in_receipts := rows\<rparr>)) (in_receipts (s\<lparr>in_receipts := rows\<rparr>)) f" if "f \<in> set (fs @ [?f])" for f
    proof (cases "f = ?f")
      case True
      then show ?thesis using r by (simp add: flight_sound_def)
    next
      case False
      then show ?thesis using that intake_invD(3) [OF inv, of f] r(1) by (auto simp: flight_sound_def)
    qed
    show "length (filter (accepted_for k) (in_receipts (s\<lparr>in_receipts := rows\<rparr>))) + length (filter (winning k) (fs @ [?f])) \<le> 1" for k
      unfolding win using intake_invD(4) [OF inv, of k] by (simp add: count)
  qed
qed

lemma claim_verifiedD:
  assumes "claim_verified now rows = (Some c, rows')"
  obtains r where "r \<in> set rows" "wr_status r = ''verified''" "wr_available_at r \<le> now" "wr_payload r = Some (cr_message c)"
    "cr_receipt_id c = wr_id r"
    "rows' = update_where (\<lambda>x. wr_id x = wr_id r) (\<lambda>x. x\<lparr>wr_status := ''processing'', wr_attempts := wr_attempts r + 1,
       wr_locked_at := Some now, wr_last_error := None\<rparr>) rows"
proof -
  obtain r rest where r: "ready_receipts now rows = r # rest" "wr_payload r \<noteq> None"
    using assms by (auto simp: claim_verified_def split: list.splits option.splits)
  then have "r \<in> set (ready_receipts now rows)" by simp
  then have "r \<in> set rows" "wr_status r = ''verified''" "wr_available_at r \<le> now" by (auto simp: ready_receipts_def)
  with r assms show thesis by (intro that [of r]) (auto simp: claim_verified_def)
qed

lemma claim_verified_split:
  assumes "claim_verified now rows = (Some c, rows')" and ids: "distinct (map wr_id rows)"
  obtains xs r ys where "rows = xs @ r # ys" "wr_status r = ''verified''" "wr_available_at r \<le> now"
    "wr_payload r = Some (cr_message c)" "cr_receipt_id c = wr_id r"
    "rows' = xs @ r\<lparr>wr_status := ''processing'', wr_attempts := wr_attempts r + 1, wr_locked_at := Some now, wr_last_error := None\<rparr> # ys"
proof -
  obtain r where r: "r \<in> set rows" "wr_status r = ''verified''" "wr_available_at r \<le> now" "wr_payload r = Some (cr_message c)"
    "cr_receipt_id c = wr_id r"
    "rows' = update_where (\<lambda>x. wr_id x = wr_id r) (\<lambda>x. x\<lparr>wr_status := ''processing'', wr_attempts := wr_attempts r + 1,
       wr_locked_at := Some now, wr_last_error := None\<rparr>) rows" using assms(1) by (rule claim_verifiedD)
  have "find (\<lambda>x. wr_id x = wr_id r) rows = Some r"
    using find_row_distinct [OF ids] r(1) by (simp add: find_row_def)
  then obtain xs ys where "rows = xs @ r # ys" "\<And>f. update_where (\<lambda>x. wr_id x = wr_id r) f rows = xs @ f r # ys"
    by (rule update_where_split [OF ids]) auto
  then show thesis using r by (intro that) auto
qed

lemma mark_processedD:
  assumes "mark_processed now i status rows = (q, rows')" and ids: "distinct (map wr_id rows)"
  obtains (err) e where "q = Inl e" "rows' = rows"
  | (hit) xs r ys where "q = Inr ()" "rows = xs @ r # ys" "wr_id r = i" "open_receipt r" "status \<in> {''accepted'', ''duplicate''}"
    "rows' = xs @ r\<lparr>wr_status := status, wr_processed_at := Some now, wr_locked_at := None, wr_last_error := None\<rparr> # ys"
proof (cases "status \<in> {''accepted'', ''duplicate''} \<and> find (\<lambda>r. wr_id r = i \<and> open_receipt r) rows \<noteq> None")
  case False
  then have "\<exists>e. q = Inl e \<and> rows' = rows" using assms(1) by (auto simp: mark_processed_def split: if_splits)
  then show thesis using err by blast
next
  case True
  then obtain r where r: "find (\<lambda>r. wr_id r = i \<and> open_receipt r) rows = Some r" by blast
  then have i: "wr_id r = i" by (auto simp: find_Some_iff)
  obtain xs ys where "rows = xs @ r # ys" "\<And>f. update_where (\<lambda>r. wr_id r = i \<and> open_receipt r) f rows = xs @ f r # ys"
    "wr_id r = i \<and> open_receipt r"
    by (rule update_where_split [OF ids r]) (use i in auto)
  then show thesis using assms(1) True r by (intro hit [of xs r ys]) (auto simp: mark_processed_def)
qed

lemma retry_processingD:
  assumes "retry_processing now i error delay n rows = (q, rows')" and ids: "distinct (map wr_id rows)"
  obtains (err) e where "q = Inl e" "rows' = rows"
  | (hit) xs r r' ys where "rows = xs @ r # ys" "wr_id r = i" "wr_status r = ''processing''" "rows' = xs @ r' # ys"
    "wr_id r' = i" "wr_payload r' = wr_payload r" "wr_attempts r' = wr_attempts r"
    "wr_status r' = (if bounded 1 100 n \<le> wr_attempts r then ''failed'' else ''verified'')"
proof (cases "find (\<lambda>r. wr_id r = i \<and> wr_status r = ''processing'') rows")
  case None
  then show thesis using assms(1) by (intro err) (auto simp: retry_processing_def)
next
  case (Some r)
  then have i: "wr_id r = i" by (auto simp: find_Some_iff)
  let ?f = "\<lambda>r. r\<lparr>wr_status := (if wr_attempts r \<ge> bounded 1 100 n then ''failed'' else ''verified''),
    wr_available_at := (if wr_attempts r \<ge> bounded 1 100 n then wr_available_at r else now + seconds (bounded 1 86400 delay)),
    wr_processed_at := (if wr_attempts r \<ge> bounded 1 100 n then Some now else None), wr_locked_at := None,
    wr_last_error := Some (take 1000 error)\<rparr>"
  obtain xs ys where "rows = xs @ r # ys" "\<And>f. update_where (\<lambda>r. wr_id r = i \<and> wr_status r = ''processing'') f rows = xs @ f r # ys"
    "wr_id r = i \<and> wr_status r = ''processing''"
    by (rule update_where_split [OF ids Some]) (use i in auto)
  moreover have "rows' = update_where (\<lambda>r. wr_id r = i \<and> wr_status r = ''processing'') ?f rows"
    using assms(1) Some by (simp add: retry_processing_def Let_def)
  ultimately show thesis by (intro hit [of xs r ys "?f r"]) auto
qed

lemma settle_events [simp]: "gd_events (settle cfg now i outcome d) = gd_events d"
  by (auto simp: settle_def block_outbound_job_def retry_outbound_job_def complete_outbound_job_def Let_def set_message_def
    update_job_def split: send_outcome.split sum.split)

lemma block_events [simp]: "gd_events (snd (block_outbound_job i reason status d)) = gd_events d"
  by (auto simp: block_outbound_job_def set_message_def update_job_def split: sum.split)

lemma insert_event_keys: "insert_event kind m d = (r, d') \<Longrightarrow> stored_keys d \<subseteq> stored_keys d'"
  by (auto simp: insert_event_def stored_keys_def split: if_splits sum.splits dest!: insert_uniqueD)

lemma insert_message_keys: "stored_keys (snd (insert_message pid st m d)) = stored_keys d"
  by (simp add: insert_message_def stored_keys_def split: sum.split)

lemma bindS_mono:
  assumes "stored_keys d \<subseteq> stored_keys (snd (m d))" "\<And>v d'. m d = (Inr v, d') \<Longrightarrow> stored_keys d' \<subseteq> stored_keys (snd (f v d'))"
  shows "stored_keys d \<subseteq> stored_keys (snd (bindS m f d))"
  using assms by (cases rule: bindS_cases [of m d f]) auto

lemma enqueue_outbound_keys: "stored_keys d \<subseteq> stored_keys (snd (enqueue_outbound now i m d))"
proof -
  have rollback: "stored_keys d \<subseteq> stored_keys (snd (transaction a d))" if "stored_keys d \<subseteq> stored_keys (snd (a d))" for a
    using that by (cases "a d"; cases "fst (a d)") (auto simp: transaction_def)
  have jobs: "stored_keys (d\<lparr>gd_jobs := rows\<rparr>) = stored_keys d" for d rows by (simp add: stored_keys_def)
  show ?thesis
  proof (cases "gm_direction m = Outbound")
    case True
    then have direct: "\<not> gm_direction m \<noteq> Outbound" by simp
    show ?thesis unfolding enqueue_outbound_def if_not_P [OF direct]
    proof (intro rollback bindS_mono)
      show "stored_keys d \<subseteq> stored_keys (snd (insert_event ''message.outbound.queued'' m d))"
        by (rule insert_event_keys [OF prod.collapse [symmetric]])
      fix v d1
      let ?add = "\<lambda>_ d. case insert_unique jb_id \<lparr>jb_id = i, jb_message_id = gm_event_id m, jb_state = ''pending'', jb_attempts = 0,
          jb_available_at = now, jb_locked_at = None, jb_last_error = None, jb_created_at = now\<rparr> (gd_jobs d) of
        Inl e \<Rightarrow> (Inl e, d) | Inr rows \<Rightarrow> (Inr True, d\<lparr>gd_jobs := rows\<rparr>)"
      have "stored_keys d2 \<subseteq> stored_keys (snd (?add w d2))" for w d2 by (simp add: jobs split: sum.split)
      then have "stored_keys d1 \<subseteq> stored_keys (snd (bindS (insert_message None ''queued'' m) ?add d1))"
        by (intro bindS_mono) (simp_all only: insert_message_keys order_refl)
      then show "stored_keys d1 \<subseteq> stored_keys (snd ((if \<not> v then ret False else bindS (insert_message None ''queued'' m) ?add) d1))"
        by (cases v) (simp_all add: ret_def)
    qed
  qed (simp add: enqueue_outbound_def raise_err_def)
qed

lemma gateway_step_keys: "stored_keys (ww_db w) \<subseteq> stored_keys (ww_db (gateway_step cfg w opn))"
proof (cases opn)
  case (GReceive now m)
  show ?thesis
  proof (cases "put_if_absent now m (ww_db w)")
    case (Pair r d)
    then have "stored_keys (ww_db w) \<subseteq> stored_keys d"
      using put_if_absent_Inl [of now m "ww_db w" _ d] put_if_absent_keys(1) [of now m "ww_db w" _ d] by (cases r) blast+
    then show ?thesis using GReceive Pair by simp
  qed
next
  case (GEnqueue now i m)
  then show ?thesis using enqueue_outbound_keys [of "ww_db w"] by simp
next
  case (GWork providers now)
  have "gd_events (ww_db (snd (worker_once cfg providers now w))) = gd_events (ww_db w)"
  proof (cases rule: worker_once_cases [of cfg providers now w])
    case (sent job d d1 outcome)
    then have "gd_events d1 = gd_events d" by (auto simp: reserve_send_def split: if_splits)
    then show ?thesis using sent(4) claim_keeps(4) [OF sent(1)] by simp
  next
    case (blocked job d reason status)
    then show ?thesis using claim_keeps(4) [OF blocked(1)] by simp
  qed simp
  then show ?thesis using GWork by (simp add: stored_keys_def)
next
  case (GPause now paused actor reason)
  then show ?thesis by (simp add: stored_keys_def set_paused_def Let_def split: option.split)
qed

lemma attempts_sound: "receipt_sound n d r \<Longrightarrow> 0 \<le> wr_attempts r \<and> wr_attempts r \<le> bounded 1 100 n"
  by (simp add: receipt_sound_def)

lemma txn_inv:
  assumes "txn digest delay n x y" "intake_inv n x" shows "intake_inv n y"
  using assms
proof (induction rule: txn.induct)
  case (receive now i name m body s rows fs)
  then show ?case by (intro record_verified_inv)
next
  case (claim now s c rows fs)
  let ?f = "\<lparr>fl_receipt = cr_receipt_id c, fl_message = cr_message c, fl_worker = True, fl_result = None, fl_raised = False\<rparr>"
  note inv = claim.prems and ids = intake_invD(1) [OF claim.prems]
  obtain xs r ys where r: "in_receipts s = xs @ r # ys" "wr_status r = ''verified''" "wr_payload r = Some (cr_message c)" "cr_receipt_id c = wr_id r"
    "rows = xs @ r\<lparr>wr_status := ''processing'', wr_attempts := wr_attempts r + 1, wr_locked_at := Some now, wr_last_error := None\<rparr> # ys"
    using claim.hyps ids by (rule claim_verified_split)
  have "receipt_sound n (in_db s) r" using intake_invD(2) [OF inv, of r] r(1) by simp
  then have sound: "receipt_sound n (in_db s) (r\<lparr>wr_status := ''processing'', wr_attempts := wr_attempts r + 1, wr_locked_at := Some now, wr_last_error := None\<rparr>)"
    using r(2) by (auto simp: receipt_sound_def processing_states_def)
  have "intake_inv n (s\<lparr>in_receipts := rows\<rparr>, fs)"
    unfolding r(5) using inv r(1) by (rule receipts_replaced) (use sound in \<open>auto simp: accepted_for_def\<close>)
  moreover have "flight_sound d rows ?f" for d using r by (auto simp: flight_sound_def)
  moreover have "filter (winning k) (fs @ [?f]) = filter (winning k) fs" for k by (simp add: winning_def)
  ultimately show ?case
    by (intro intake_invI) (auto dest: intake_invD simp del: filter_append)
next
  case (put f now s b d xs ys)
  have keys: "stored_keys d = insert (event_key (fl_message f)) (stored_keys (in_db s))"
    "b \<longleftrightarrow> event_key (fl_message f) \<notin> stored_keys (in_db s)" using put_if_absent_keys [OF put.hyps(3)] by auto
  show ?case
  proof (rule intake_invI)
    show "distinct (map wr_id (in_receipts (s\<lparr>in_db := d\<rparr>)))" using intake_invD(1) [OF put.prems] by simp
    show "receipt_sound n (in_db (s\<lparr>in_db := d\<rparr>)) r" if "r \<in> set (in_receipts (s\<lparr>in_db := d\<rparr>))" for r
      using intake_invD(2) [OF put.prems, of r] that keys(1) by (auto intro: receipt_sound_mono)
    show "flight_sound (in_db (s\<lparr>in_db := d\<rparr>)) (in_receipts (s\<lparr>in_db := d\<rparr>)) g" if "g \<in> set (xs @ f\<lparr>fl_result := Some b\<rparr> # ys)" for g
    proof (cases "g = f\<lparr>fl_result := Some b\<rparr>")
      case True
      then show ?thesis using intake_invD(3) [OF put.prems, of f] keys(1) by (auto simp: flight_sound_def)
    next
      case False
      then show ?thesis using intake_invD(3) [OF put.prems, of g] that keys(1) by (auto intro: flight_sound_mono)
    qed
    fix k
    have old: "length (filter (accepted_for k) (in_receipts s)) + length (filter (winning k) (xs @ f # ys)) \<le> 1"
      by (rule intake_invD(4) [OF put.prems])
    show "length (filter (accepted_for k) (in_receipts (s\<lparr>in_db := d\<rparr>))) + length (filter (winning k) (xs @ f\<lparr>fl_result := Some b\<rparr> # ys)) \<le> 1"
    proof (cases "winning k (f\<lparr>fl_result := Some b\<rparr>)")
      case False
      then show ?thesis using old by (auto simp: winning_def split: if_splits)
    next
      case True
      then have new: "k \<notin> stored_keys (in_db s)" "k = event_key (fl_message f)" using keys(2) by (auto simp: winning_def)
      have "filter (accepted_for k) (in_receipts s) = []"
        using intake_invD(2) [OF put.prems] new(1) by (fastforce simp: filter_empty_conv accepted_for_def receipt_sound_def)
      moreover have "filter (winning k) (xs @ ys) = []"
        using intake_invD(3) [OF put.prems] new(1) by (fastforce simp: filter_empty_conv winning_def flight_sound_def)
      ultimately show ?thesis by simp
    qed
  qed
next
  case (put_error f d s now xs ys)
  have keys: "stored_keys (in_db s) \<subseteq> stored_keys d"
  proof (cases "put_if_absent now (fl_message f) (in_db s)")
    case (Pair r d')
    then show ?thesis using put_error.hyps(3) put_if_absent_Inl [of now "fl_message f" "in_db s" _ d']
        put_if_absent_keys(1) [of now "fl_message f" "in_db s" _ d'] by (cases r) auto
  qed
  show ?case
  proof (rule intake_invI)
    show "distinct (map wr_id (in_receipts (s\<lparr>in_db := d\<rparr>)))" using intake_invD(1) [OF put_error.prems] by simp
    show "receipt_sound n (in_db (s\<lparr>in_db := d\<rparr>)) r" if "r \<in> set (in_receipts (s\<lparr>in_db := d\<rparr>))" for r
      using intake_invD(2) [OF put_error.prems, of r] that keys by (auto intro: receipt_sound_mono)
    show "flight_sound (in_db (s\<lparr>in_db := d\<rparr>)) (in_receipts (s\<lparr>in_db := d\<rparr>)) g" if "g \<in> set (xs @ f\<lparr>fl_raised := True\<rparr> # ys)" for g
    proof -
      have "flight_sound (in_db s) (in_receipts s) h" if "h \<in> set (xs @ f # ys)" for h using intake_invD(3) [OF put_error.prems that] .
      then have "flight_sound (in_db s) (in_receipts s) g" using that by (auto simp: flight_sound_def)
      then show ?thesis using keys by (auto intro: flight_sound_mono)
    qed
    show "length (filter (accepted_for k) (in_receipts (s\<lparr>in_db := d\<rparr>))) + length (filter (winning k) (xs @ f\<lparr>fl_raised := True\<rparr> # ys)) \<le> 1" for k
      using intake_invD(4) [OF put_error.prems, of k] put_error.hyps(1) by (simp add: winning_def)
  qed
next
  case (retry f now error s r rows xs ys)
  note ids = intake_invD(1) [OF retry.prems]
  show ?case
  proof (cases rule: retry_processingD [OF retry.hyps(3) ids])
    case (1 e)
    then show ?thesis using retry.prems by (auto intro: fewer_flights)
  next
    case (2 us r0 r1 vs)
    have "receipt_sound n (in_db s) r0" using intake_invD(2) [OF retry.prems, of r0] 2(1) by simp
    then have sound: "receipt_sound n (in_db s) r1" using 2 by (auto simp: receipt_sound_def processing_states_def)
    show ?thesis unfolding 2(4) using retry.prems 2(1)
      by (rule receipts_replaced) (use 2 sound in \<open>auto simp: accepted_for_def\<close>)
  qed
next
  case (mark f b now s r rows xs ys)
  note ids = intake_invD(1) [OF mark.prems]
  show ?case
  proof (cases rule: mark_processedD [OF mark.hyps(2) ids])
    case (1 e)
    then show ?thesis using mark.prems by (auto intro: fewer_flights)
  next
    case (2 us r0 vs)
    let ?r = "r0\<lparr>wr_status := result_status b, wr_processed_at := Some now, wr_locked_at := None, wr_last_error := None\<rparr>"
    have f: "flight_sound (in_db s) (in_receipts s) f" using intake_invD(3) [OF mark.prems, of f] by simp
    then obtain x where "x \<in> set (in_receipts s)" "wr_id x = wr_id r0" "wr_payload x = Some (fl_message f)"
      using 2(3) by (auto simp: flight_sound_def)
    moreover have "r0 \<in> set (in_receipts s)" using 2(2) by simp
    ultimately have payload: "wr_payload r0 = Some (fl_message f)" using ids by (metis distinct_map inj_onD)
    have "receipt_sound n (in_db s) r0" using intake_invD(2) [OF mark.prems, of r0] 2(2) by simp
    then have sound: "receipt_sound n (in_db s) ?r"
      using payload f mark.hyps(1) by (auto simp: receipt_sound_def flight_sound_def result_status_def processing_states_def)
    have count: "length (filter (accepted_for k) [?r]) \<le> length (filter (winning k) [f])" for k
      using payload mark.hyps(1) by (auto simp: accepted_for_def winning_def result_status_def)
    show ?thesis unfolding 2(6) using mark.prems 2(2)
    proof (rule receipts_replaced)
      show "length (filter (accepted_for k) [?r]) + length (filter (winning k) (xs @ ys)) \<le>
          length (filter (accepted_for k) [r0]) + length (filter (winning k) (xs @ f # ys))" for k
        using count [of k] by (cases "winning k f") auto
    qed (use sound in auto)
  qed
next
  case (tally s fs counters)
  then show ?case by (simp add: intake_inv_def)
next
  case (store w s fs cfg opn)
  have "stored_keys (in_db s) \<subseteq> stored_keys (ww_db (gateway_step cfg w opn))"
    using gateway_step_keys [of w cfg opn] store.hyps by simp
  then show ?case using store.prems
    by (intro intake_invI) (auto dest: intake_invD intro: receipt_sound_mono flight_sound_mono)
next
  case (die s xs f ys)
  then show ?case by (rule fewer_flights) auto
qed

lemma txns_inv: "txns digest delay n x y \<Longrightarrow> intake_inv n x \<Longrightarrow> intake_inv n y"
  by (induction rule: rtranclp_induct) (auto intro: txn_inv)

lemma empty_intake_inv: "in_receipts s = [] \<Longrightarrow> intake_inv n (s, [])"
  by (simp add: intake_inv_def)

text \<open>
  C4. Receipts tell the truth. However handlers, workers and the other operations of the gateway
  interleave and wherever they die: a receipt marked accepted or duplicate belongs to a message the event
  store holds, and at most one receipt per provider event is marked accepted.
\<close>

theorem receipts_tell_the_truth:
  assumes "in_receipts s0 = []" and "txns digest delay n (s0, []) (s, fs)"
  shows "(\<forall>r \<in> set (in_receipts s). wr_status r \<in> {''accepted'', ''duplicate''} \<longrightarrow>
      (\<exists>m. wr_payload r = Some m \<and> event_key m \<in> row_key ` set (gd_events (in_db s)))) \<and>
    length (filter (\<lambda>r. wr_status r = ''accepted'' \<and> map_option event_key (wr_payload r) = Some k) (in_receipts s)) \<le> 1"
proof -
  have inv: "intake_inv n (s, fs)" using txns_inv [OF assms(2) empty_intake_inv [OF assms(1)]] .
  have "\<exists>m. wr_payload r = Some m \<and> event_key m \<in> row_key ` set (gd_events (in_db s))"
    if "r \<in> set (in_receipts s)" "wr_status r \<in> {''accepted'', ''duplicate''}" for r
    using intake_invD(2) [OF inv that(1)] that(2) unfolding receipt_sound_def stored_keys_def by blast
  moreover have "length (filter (accepted_for k) (in_receipts s)) \<le> 1"
    using intake_invD(4) [OF inv, of k] by linarith
  ultimately show ?thesis unfolding accepted_for_def [abs_def] by blast
qed

lemma txn_keeps_processed:
  assumes "txn digest delay n x y" "intake_inv n x" "r \<in> set (in_receipts (fst x))" "\<not> open_receipt r"
  shows "r \<in> set (in_receipts (fst y))"
  using assms
proof (induction rule: txn.induct)
  case (receive now i name m body s rows fs)
  then show ?case by (auto simp: record_verified_def split: sum.splits dest!: insert_uniqueD)
next
  case (claim now s c rows fs)
  obtain xs q ys where "in_receipts s = xs @ q # ys" "wr_status q = ''verified''" "\<exists>q'. rows = xs @ q' # ys"
    using claim.hyps intake_invD(1) [OF claim.prems(1)] by (rule claim_verified_split) blast
  then show ?case using claim.prems(2,3) by (auto simp: open_receipt_def)
next
  case (retry f now error s q rows xs ys)
  show ?case
    by (cases rule: retry_processingD [OF retry.hyps(3) intake_invD(1) [OF retry.prems(1)]])
      (use retry.prems(2,3) in \<open>auto simp: open_receipt_def\<close>)
next
  case (mark f b now s q rows xs ys)
  show ?case
    by (cases rule: mark_processedD [OF mark.hyps(2) intake_invD(1) [OF mark.prems(1)]])
      (use mark.prems(2,3) in \<open>auto simp: open_receipt_def\<close>)
qed simp_all

lemma txns_keep_processed:
  "txns digest delay n x y \<Longrightarrow> intake_inv n x \<Longrightarrow> r \<in> set (in_receipts (fst x)) \<Longrightarrow> \<not> open_receipt r \<Longrightarrow>
   r \<in> set (in_receipts (fst y))"
proof (induction rule: rtranclp_induct)
  case (step y z)
  then show ?case using txn_keeps_processed [of digest delay n y z r] txns_inv [of digest delay n x y] by blast
qed

text \<open>
  What was processed stays as it is: no later transaction of any handler or worker changes a receipt
  that is accepted, duplicate or failed, and no receipt is attempted more often than the limit.
\<close>

theorem processed_receipts_are_final:
  assumes "in_receipts s0 = []" and "txns digest delay n (s0, []) (s, fs)" and "txns digest delay n (s, fs) (s', fs')"
    and "r \<in> set (in_receipts s)" and "wr_status r \<noteq> ''verified''" and "wr_status r \<noteq> ''processing''"
  shows "r \<in> set (in_receipts s') \<and> (\<forall>r' \<in> set (in_receipts s'). wr_attempts r' \<le> bounded 1 100 n)"
proof -
  have inv: "intake_inv n (s, fs)" using txns_inv [OF assms(2) empty_intake_inv [OF assms(1)]] .
  have "\<not> open_receipt r" using assms(5,6) by (simp add: open_receipt_def)
  then have "r \<in> set (in_receipts s')" using txns_keep_processed [OF assms(3) inv, of r] assms(4) by simp
  moreover have "intake_inv n (s', fs')" using txns_inv [OF assms(3) inv] .
  ultimately show ?thesis using intake_invD(2) attempts_sound by blast
qed

end
