(* ===== verification/GatewayRecovery.thy ===== *)
theory GatewayRecovery
  imports GatewayInbound
begin

text \<open>
  What the intake achieves: recorded webhooks are recovered, replays are told from changed payloads,
  refused requests leave nothing but a bounded table of counters. The last section has the concrete runs.
\<close>

section \<open>Recovery\<close>

definition due_receipt :: "int \<Rightarrow> webhook_row \<Rightarrow> bool" where
  "due_receipt t r \<longleftrightarrow> wr_status r = ''verified'' \<and> wr_payload r \<noteq> None \<and> wr_available_at r \<le> t"

definition finished_receipt :: "gateway_db \<Rightarrow> webhook_row \<Rightarrow> bool" where
  "finished_receipt d r \<longleftrightarrow> wr_status r \<in> {''accepted'', ''duplicate''} \<and>
     (\<exists>m. wr_payload r = Some m \<and> event_key m \<in> row_key ` set (gd_events d))"

definition receipt_limit :: "int \<Rightarrow> int" where
  "receipt_limit n = bounded 1 100 n"

text \<open>The attempts that the waiting receipts have left: every waiting receipt has one at least.\<close>

definition tries :: "int \<Rightarrow> webhook_row \<Rightarrow> nat" where
  "tries n r = (if wr_status r = ''verified'' then nat (max 1 (receipt_limit n - wr_attempts r)) else 0)"

definition tries_left :: "int \<Rightarrow> webhook_row list \<Rightarrow> nat" where
  "tries_left n rows = sum_list (map (tries n) rows)"

text \<open>The event id of a message is taken: by a message of another provider event, or by a stored text.\<close>

definition id_taken :: "gateway_db \<Rightarrow> gmessage \<Rightarrow> bool" where
  "id_taken d m \<longleftrightarrow> (\<exists>e \<in> set (gd_events d). er_id e = gm_event_id m \<and> row_key e \<noteq> event_key m) \<or>
     (\<exists>t \<in> set (gd_messages d). tx_id t = gm_event_id m)"

definition settled_receipt :: "int \<Rightarrow> gateway_db \<Rightarrow> webhook_row \<Rightarrow> bool" where
  "settled_receipt n d r \<longleftrightarrow> finished_receipt d r \<or>
     wr_status r = ''failed'' \<and> receipt_limit n \<le> wr_attempts r \<and> wr_last_error r \<noteq> None \<and>
       (\<exists>m. wr_payload r = Some m \<and> id_taken d m)"

lemma put_if_absent_rows:
  assumes "put_if_absent now m d = (Inr b, d')"
  shows "set (gd_events d) \<subseteq> set (gd_events d') \<and> set (gd_messages d) \<subseteq> set (gd_messages d')"
  using assms by (auto simp: put_if_absent_def transaction_def bindS_def ret_def update_act_def insert_event_def
      insert_message_def split: if_splits prod.splits sum.splits dest!: insert_uniqueD)

lemma put_if_absent_fails:
  assumes "put_if_absent now m d = (Inl e, d')" shows "id_taken d m"
proof -
  have key: "event_key m \<notin> stored_keys d"
  proof
    assume "event_key m \<in> stored_keys d"
    then have "put_if_absent now m d = (Inr False, d)"
      by (simp add: put_if_absent_def transaction_def bindS_def ret_def insert_event_def find_row_None_iff stored_keys_def)
    then show False using assms by simp
  qed
  have "gm_event_id m \<in> er_id ` set (gd_events d) \<or> gm_event_id m \<in> tx_id ` set (gd_messages d)"
  proof (rule ccontr)
    assume "\<not> ?thesis"
    then have "fst (put_if_absent now m d) = Inr True" using key
      by (simp add: put_if_absent_def transaction_def bindS_def ret_def update_act_def insert_event_def insert_message_def
          insert_unique_def find_row_None_iff stored_keys_def)
    then show False using assms by simp
  qed
  then show ?thesis
  proof
    assume "gm_event_id m \<in> er_id ` set (gd_events d)"
    then obtain e where "e \<in> set (gd_events d)" "er_id e = gm_event_id m" by auto
    moreover have "row_key e \<noteq> event_key m" using key calculation(1) unfolding stored_keys_def by (metis imageI)
    ultimately show ?thesis unfolding id_taken_def by blast
  qed (auto simp: id_taken_def)
qed

lemma id_taken_mono:
  "id_taken d m \<Longrightarrow> set (gd_events d) \<subseteq> set (gd_events d') \<Longrightarrow> set (gd_messages d) \<subseteq> set (gd_messages d') \<Longrightarrow> id_taken d' m"
  by (auto simp: id_taken_def)

lemma settled_mono:
  "settled_receipt n d r \<Longrightarrow> set (gd_events d) \<subseteq> set (gd_events d') \<Longrightarrow> set (gd_messages d) \<subseteq> set (gd_messages d') \<Longrightarrow>
   settled_receipt n d' r"
  using id_taken_mono unfolding settled_receipt_def finished_receipt_def by (meson image_mono subset_eq)

lemma idle_worker: "ready_receipts now (in_receipts s) = [] \<Longrightarrow> snd (inbound_once delay n now s) = s"
  by (simp add: inbound_once_def claim_verified_def)

lemma ready_receipts_Nil: "ready_receipts now rows = [] \<longleftrightarrow> (\<forall>r \<in> set rows. \<not> due_receipt now r)"
  by (auto simp: ready_receipts_def filter_empty_conv due_receipt_def)

text \<open>One iteration with something due settles a receipt or uses up one of its attempts.\<close>

lemma inbound_step:
  assumes ids: "distinct (map wr_id (in_receipts s))" and ready: "ready_receipts now (in_receipts s) \<noteq> []"
  obtains xs r r' ys d where "in_receipts s = xs @ r # ys" "wr_status r = ''verified''" "wr_id r' = wr_id r"
    "wr_payload r' = wr_payload r" "set (gd_events (in_db s)) \<subseteq> set (gd_events d)" "set (gd_messages (in_db s)) \<subseteq> set (gd_messages d)"
    "snd (inbound_once delay n now s) = s\<lparr>in_receipts := xs @ r' # ys, in_db := d\<rparr>"
    "settled_receipt n d r' \<or> wr_status r' = ''verified'' \<and> wr_attempts r' = wr_attempts r + 1 \<and>
       wr_attempts r' < receipt_limit n \<and> wr_available_at r' = now + seconds (bounded 1 86400 delay)"
proof -
  obtain c rows where claim: "claim_verified now (in_receipts s) = (Some c, rows)"
  proof -
    obtain q rest where q: "ready_receipts now (in_receipts s) = q # rest" using ready by (cases "ready_receipts now (in_receipts s)") auto
    then have "q \<in> set (ready_receipts now (in_receipts s))" by simp
    then have "wr_payload q \<noteq> None" by (auto simp: ready_receipts_def)
    then show thesis using q by (auto simp: claim_verified_def intro: that)
  qed
  define m where "m = cr_message c"
  obtain xs r ys where r: "in_receipts s = xs @ r # ys" "wr_status r = ''verified''" "wr_payload r = Some m" "cr_receipt_id c = wr_id r"
    "rows = xs @ r\<lparr>wr_status := ''processing'', wr_attempts := wr_attempts r + 1, wr_locked_at := Some now, wr_last_error := None\<rparr> # ys"
    using claim ids unfolding m_def by (rule claim_verified_split)
  let ?r = "r\<lparr>wr_status := ''processing'', wr_attempts := wr_attempts r + 1, wr_locked_at := Some now, wr_last_error := None\<rparr>"
  have others: "wr_id r \<notin> wr_id ` set xs" "wr_id r \<notin> wr_id ` set ys" using ids r(1) by auto
  have same: "update_where (\<lambda>x. wr_id x = wr_id r \<and> p x) f zs = zs" if "wr_id r \<notin> wr_id ` set zs" for f zs p
    by (rule update_where_none) (metis imageI that)
  have upd: "update_where (\<lambda>x. wr_id x = wr_id r \<and> p x) f rows = xs @ f ?r # ys" if "p ?r" for f p
    using that by (simp only: r(5) update_where_append update_where_Cons same [OF others(1)] same [OF others(2)]) simp
  have other_id: "wr_id x \<noteq> wr_id r" if "x \<in> set xs" for x using that others(1) by (metis imageI)
  have find: "find (\<lambda>x. wr_id x = wr_id r \<and> p x) rows = Some ?r" if "p ?r" for p
  proof -
    have "find (\<lambda>x. wr_id x = wr_id r \<and> p x) (zs @ q # ys) = Some q"
      if "\<forall>x \<in> set zs. wr_id x \<noteq> wr_id r" "wr_id q = wr_id r" "p q" for zs q using that by (induction zs) auto
    then show ?thesis unfolding r(5) using other_id that by simp
  qed
  obtain q d where put: "put_if_absent now m (in_db s) = (q, d)" by fastforce
  show thesis
  proof (cases q)
    case (Inr b)
    note put = put [unfolded Inr]
    let ?r' = "?r\<lparr>wr_status := result_status b, wr_processed_at := Some now, wr_locked_at := None, wr_last_error := None\<rparr>"
    have marked: "mark_processed now (wr_id r) (result_status b) rows = (Inr (), xs @ ?r' # ys)"
      using find [of open_receipt] upd [of open_receipt] by (simp add: mark_processed_def open_receipt_def result_status_def)
    have run: "snd (inbound_once delay n now s) = s\<lparr>in_receipts := xs @ ?r' # ys, in_db := d\<rparr>"
      using claim put marked r(4)
      by (simp add: inbound_once_def recover_receipt_def m_def Let_def on_events_eq bindS_def on_receipts_eq ret_def result_status_def)
    have "settled_receipt n d ?r'" using put_if_absent_keys(1) [OF put] r(3)
      by (simp add: settled_receipt_def finished_receipt_def result_status_def stored_keys_def)
    then show thesis using put_if_absent_rows [OF put] r by (intro that [OF r(1,2) _ _ _ _ run]) auto
  next
    case (Inl e)
    note put = put [unfolded Inl]
    have d: "d = in_db s" using put_if_absent_Inl [OF put] .
    define err where "err = ''message persistence raised '' @ error_name e"
    define over where "over = (receipt_limit n \<le> wr_attempts r + 1)"
    let ?r' = "?r\<lparr>wr_status := (if over then ''failed'' else ''verified''),
      wr_available_at := (if over then wr_available_at r else now + seconds (bounded 1 86400 delay)),
      wr_processed_at := (if over then Some now else None), wr_locked_at := None, wr_last_error := Some (take 1000 err)\<rparr>"
    have retried: "retry_processing now (wr_id r) err delay n rows = (Inr (if over then ''failed'' else ''verified''), xs @ ?r' # ys)"
      using find [of "\<lambda>x. wr_status x = ''processing''"] upd [of "\<lambda>x. wr_status x = ''processing''"]
      by (simp add: retry_processing_def Let_def over_def receipt_limit_def)
    have run: "snd (inbound_once delay n now s) = s\<lparr>in_receipts := xs @ ?r' # ys, in_db := in_db s\<rparr>"
      using claim put retried r(4) unfolding err_def
      by (simp add: inbound_once_def recover_receipt_def m_def Let_def on_events_eq bindS_def on_receipts_eq ret_def d)
    have "settled_receipt n (in_db s) ?r'" if over
      using that put_if_absent_fails [OF put] r(3) by (simp add: settled_receipt_def over_def)
    then show thesis using r by (intro that [OF r(1,2) _ _ _ _ run]) (auto simp: over_def)
  qed
qed

text \<open>A receipt that waits at the start is settled after as many iterations as the waiting receipts have attempts left.\<close>

definition spaced_clock :: "int \<Rightarrow> int list \<Rightarrow> bool" where
  "spaced_clock delay clock \<longleftrightarrow> sorted_wrt (\<lambda>t u. t + seconds (bounded 1 86400 delay) \<le> u) clock"

lemma tries_pos: "wr_status r = ''verified'' \<Longrightarrow> 1 \<le> tries n r"
  by (simp add: tries_def)

lemma recovery_run:
  assumes "distinct (map wr_id (in_receipts s))" "spaced_clock delay clock"
    "(\<exists>r \<in> set (in_receipts s). wr_id r = i \<and> wr_payload r = Some m \<and> wr_status r = ''verified'' \<and> (\<forall>now \<in> set clock. wr_available_at r \<le> now)) \<and>
       tries_left n (in_receipts s) \<le> length clock \<or>
     (\<exists>r \<in> set (in_receipts s). wr_id r = i \<and> wr_payload r = Some m \<and> settled_receipt n (in_db s) r)"
  shows "let s' = foldl (\<lambda>s now. snd (inbound_once delay n now s)) s clock in
    \<exists>r \<in> set (in_receipts s'). wr_id r = i \<and> wr_payload r = Some m \<and> settled_receipt n (in_db s') r"
  using assms
proof (induction clock arbitrary: s)
  case Nil
  have "\<forall>r \<in> set (in_receipts s). wr_status r \<noteq> ''verified''" if "tries_left n (in_receipts s) = 0"
  proof
    fix r assume "r \<in> set (in_receipts s)"
    then have "tries n r \<in> set (map (tries n) (in_receipts s))" by simp
    then have "tries n r \<le> tries_left n (in_receipts s)" unfolding tries_left_def by (rule member_le_sum_list) simp
    then show "wr_status r \<noteq> ''verified''" using tries_pos [of r n] that by auto
  qed
  then show ?case using Nil.prems(3) by auto
next
  case (Cons now clock)
  let ?s1 = "snd (inbound_once delay n now s)"
  have later: "spaced_clock delay clock" "\<forall>u \<in> set clock. now + seconds (bounded 1 86400 delay) \<le> u"
    using Cons.prems(2) by (auto simp: spaced_clock_def)
  show ?case
  proof (cases "ready_receipts now (in_receipts s) = []")
    case True
    have "\<not> (wr_payload r = Some m \<and> wr_status r = ''verified'' \<and> wr_available_at r \<le> now)" if "r \<in> set (in_receipts s)" for r
      using True that by (auto simp: ready_receipts_Nil due_receipt_def)
    then show ?thesis using Cons.IH [of s] Cons.prems later True by (auto simp: idle_worker)
  next
    case False
    obtain xs r r' ys d where step: "in_receipts s = xs @ r # ys" "wr_status r = ''verified''" "wr_id r' = wr_id r"
      "wr_payload r' = wr_payload r" "set (gd_events (in_db s)) \<subseteq> set (gd_events d)" "set (gd_messages (in_db s)) \<subseteq> set (gd_messages d)"
      "?s1 = s\<lparr>in_receipts := xs @ r' # ys, in_db := d\<rparr>"
      "settled_receipt n d r' \<or> wr_status r' = ''verified'' \<and> wr_attempts r' = wr_attempts r + 1 \<and>
         wr_attempts r' < receipt_limit n \<and> wr_available_at r' = now + seconds (bounded 1 86400 delay)"
      using inbound_step [OF Cons.prems(1) False] .
    have ids: "distinct (map wr_id (in_receipts ?s1))" using Cons.prems(1) step(1,3,7) by simp
    have "tries n r' < tries n r"
      using step(2,8) by (auto simp: tries_def settled_receipt_def finished_receipt_def)
    then have left: "tries_left n (in_receipts ?s1) < tries_left n (in_receipts s)" by (simp add: step(1,7) tries_left_def)
    have keep: "settled_receipt n (in_db ?s1) q" if "settled_receipt n (in_db s) q" for q
      using settled_mono [OF that step(5,6)] by (simp add: step(7))
    have "(\<exists>q \<in> set (in_receipts ?s1). wr_id q = i \<and> wr_payload q = Some m \<and> wr_status q = ''verified'' \<and> (\<forall>u \<in> set clock. wr_available_at q \<le> u)) \<and>
        tries_left n (in_receipts ?s1) \<le> length clock \<or>
      (\<exists>q \<in> set (in_receipts ?s1). wr_id q = i \<and> wr_payload q = Some m \<and> settled_receipt n (in_db ?s1) q)"
      using Cons.prems(3)
    proof (elim disjE conjE bexE)
      fix q assume q: "q \<in> set (in_receipts s)" "wr_id q = i" "wr_payload q = Some m" "wr_status q = ''verified''"
        "\<forall>u \<in> set (now # clock). wr_available_at q \<le> u" "tries_left n (in_receipts s) \<le> length (now # clock)"
      have fewer: "tries_left n (in_receipts ?s1) \<le> length clock" using left q(6) by simp
      show ?thesis
      proof (cases "q = r")
        case True
        have there: "r' \<in> set (in_receipts ?s1)" "wr_id r' = i" "wr_payload r' = Some m" using q(2,3) True step(3,4) by (simp_all add: step(7))
        show ?thesis
        proof (cases "settled_receipt n d r'")
          case True
          then show ?thesis using there by (intro disjI2 bexI [of _ r']) (simp_all add: step(7))
        next
          case False
          then have "wr_status r' = ''verified''" "\<forall>u \<in> set clock. wr_available_at r' \<le> u" using step(8) later(2) by simp_all
          then show ?thesis using there fewer by blast
        qed
      next
        case False
        then have "q \<in> set (in_receipts ?s1)" using q(1) by (simp add: step(1,7))
        moreover have "\<forall>u \<in> set clock. wr_available_at q \<le> u" using q(5) by simp
        ultimately show ?thesis using q(2-4) fewer by blast
      qed
    next
      fix q assume q: "q \<in> set (in_receipts s)" "wr_id q = i" "wr_payload q = Some m" "settled_receipt n (in_db s) q"
      then have "q \<noteq> r" using step(2) by (auto simp: settled_receipt_def finished_receipt_def)
      then have "q \<in> set (in_receipts ?s1)" using q(1) by (simp add: step(1,7))
      then show ?thesis using q(2,3) keep [OF q(4)] by blast
    qed
    then show ?thesis using Cons.IH [OF ids later(1)] by simp
  qed
qed

text \<open>
  C13. A recorded webhook is recovered. A receipt that waits, whether its handler died after recording it or
  an attempt failed, is settled after as many runs of the recovery worker as the waiting receipts have
  attempts left, the runs at least the retry delay apart: it is accepted or duplicate and its message is in
  the event store, or it is failed, all its attempts were used up, the error is kept, and its event id is
  taken by another message. Concerns receipts that wait: one left in processing by a worker that died is
  never claimed again.
\<close>

theorem recorded_webhooks_are_recovered:
  assumes "distinct (map wr_id (in_receipts s))" and "spaced_clock delay clock"
    and "tries_left n (in_receipts s) \<le> length clock" and "\<forall>now \<in> set clock. wr_available_at r \<le> now"
    and "r \<in> set (in_receipts s)" and "wr_status r = ''verified''" and "wr_payload r = Some m"
    and "s' = foldl (\<lambda>s now. snd (inbound_once delay n now s)) s clock"
  shows "\<exists>r' \<in> set (in_receipts s'). wr_id r' = wr_id r \<and> wr_payload r' = Some m \<and>
    (wr_status r' \<in> {''accepted'', ''duplicate''} \<and> event_key m \<in> row_key ` set (gd_events (in_db s')) \<or>
     wr_status r' = ''failed'' \<and> receipt_limit n \<le> wr_attempts r' \<and> wr_last_error r' \<noteq> None \<and> id_taken (in_db s') m)"
proof -
  have "\<exists>r' \<in> set (in_receipts s'). wr_id r' = wr_id r \<and> wr_payload r' = Some m \<and> settled_receipt n (in_db s') r'"
    using recovery_run [OF assms(1,2), of "wr_id r" m n] assms(3-8) by (auto simp: Let_def)
  then show ?thesis unfolding settled_receipt_def finished_receipt_def by fastforce
qed

section \<open>Replays\<close>

lemma earliest_unique:
  assumes "x \<in> set xs" "\<forall>y \<in> set xs. f x \<le> f y" "\<And>y. y \<in> set xs \<Longrightarrow> f y = f x \<Longrightarrow> y = x"
  obtains rest where "sort_key f xs = x # rest"
proof (cases "sort_key f xs")
  case Nil
  then show thesis using assms(1) by simp
next
  case (Cons y rest)
  then have "y \<in> set (sort_key f xs)" by simp
  then have y: "y \<in> set xs" by simp
  have "sorted (map f (y # rest))" unfolding Cons [symmetric] by (rule sorted_sort_key)
  moreover have "x \<in> set (y # rest)" unfolding Cons [symmetric] using assms(1) by simp
  ultimately have "f y \<le> f x" by auto
  then have "y = x" using assms(2,3) y by (simp add: order_antisym)
  then show thesis using Cons that by blast
qed

text \<open>
  A replayed provider event is told from a changed one: when the event is stored, the answer is
  duplicate if the body has the digest of the earliest processed receipt of the event, and a conflict
  (409) otherwise; the event store does not change.
\<close>

theorem replays_are_recognised:
  assumes "providers name = Some p" and "pv_verify p req" and "pv_message p req = Some m"
    and "gd_control (in_db s) = Some c" and "\<not> ct_paused c"
    and "distinct (map wr_id (in_receipts s))" and "i \<notin> wr_id ` set (in_receipts s)"
    and "event_key m \<in> row_key ` set (gd_events (in_db s))"
    and "r0 \<in> set (in_receipts s)" and "receipt_key r0 = (name, gm_provider_event_id m)" and "wr_status r0 \<in> processed_states"
    and "\<forall>r \<in> set (in_receipts s). receipt_key r = receipt_key r0 \<and> wr_status r \<in> processed_states \<longrightarrow>
      (wr_received_at r0, wr_id r0) \<le> (wr_received_at r, wr_id r)"
  shows "fst (webhook_route digest providers now name i body req s) =
      Inr (if digest body = wr_body_sha256 r0 then Http_ok (webhook_reply False m name i)
        else Http_error 409 ''provider_event_id replay body does not match the prior processed webhook'') \<and>
    in_db (snd (webhook_route digest providers now name i body req s)) = in_db s"
proof -
  define r where "r = \<lparr>wr_id = i, wr_provider = name, wr_provider_event_id = gm_provider_event_id m,
    wr_message_event_id = gm_event_id m, wr_body_sha256 = digest body, wr_verification = ''verified'',
    wr_status = ''verified'', wr_payload = Some m, wr_attempts = 0, wr_received_at = now, wr_processed_at = None,
    wr_available_at = now, wr_locked_at = None, wr_last_error = None\<rparr>"
  let ?rows = "in_receipts s @ [r]" and ?f = "\<lambda>r :: webhook_row. (wr_received_at r, wr_id r)"
  have rec: "record_verified digest now i name m body (in_receipts s) = (Inr i, ?rows)"
    using assms(7) by (simp add: record_verified_def r_def insert_unique_def find_row_None_iff)
  have put: "put_if_absent now m (in_db s) = (Inr False, in_db s)"
    using assms(8) by (simp add: put_if_absent_def transaction_def bindS_def ret_def insert_event_def find_row_None_iff)
  let ?xs = "filter (\<lambda>x. wr_id x \<noteq> i \<and> receipt_key x = receipt_key r \<and> wr_status x \<in> processed_states) ?rows"
  have key: "receipt_key r = receipt_key r0" using assms(10) by (simp add: r_def receipt_key_def)
  have xs: "r0 \<in> set ?xs" "\<forall>y \<in> set ?xs. ?f r0 \<le> ?f y" using assms(7,9,11,12) key by (auto simp: r_def)
  have "y = r0" if "y \<in> set ?xs" "?f y = ?f r0" for y
    using that assms(6,9) by (auto simp: r_def distinct_map dest: inj_onD)
  then obtain rest where sorted: "sort_key ?f ?xs = r0 # rest" using earliest_unique [OF xs] by blast
  have "find_row wr_id i ?rows = Some r"
    using assms(7) by (simp add: find_row_append find_row_None_iff [THEN iffD2] r_def)
  then have prev: "body_matches_previous i ?rows = Inr (Some (wr_body_sha256 r0 = digest body))"
    unfolding body_matches_previous_def using sorted by (simp add: r_def)
  have find: "find (\<lambda>x. wr_id x = i \<and> open_receipt x) ?rows \<noteq> None"
    unfolding find_None_iff not_not by (intro exI [of _ r]) (simp add: r_def open_receipt_def)
  have run: "webhook_route digest providers now name i body req s =
      finish_webhook now name i m False (s\<lparr>in_receipts := ?rows\<rparr>)"
    using assms(1-5) rec put
    by (simp add: webhook_route_def accept_webhook_def bindS_def on_receipts_eq on_events_eq)
  show ?thesis unfolding run using prev find
    by (auto simp: finish_webhook_def bindS_def on_receipts_eq on_counters_eq mark_processed_def refuse_def ret_def
        count_outcome_def allowed_outcomes_def Let_def)
qed

section \<open>The boundary counters\<close>

definition counter_inv :: "string set \<Rightarrow> intake \<Rightarrow> bool" where
  "counter_inv names s \<longleftrightarrow> distinct (map counter_key (in_counters s)) \<and>
     counter_key ` set (in_counters s) \<subseteq> take 128 ` insert ''__unknown__'' names \<times> allowed_outcomes"

lemma count_outcome_inv:
  assumes "counter_inv names s" "bucket \<in> insert ''__unknown__'' names"
  shows "counter_inv names (snd (on_counters (count_outcome now bucket out) s))"
  using assms by (auto simp: counter_inv_def on_counters_eq count_outcome_def Let_def find_row_None_iff counter_key_def
      set_update_where map_update_where)

definition webhook_call ::
  "(string \<Rightarrow> string) \<Rightarrow> (string \<Rightarrow> 'req provider option) \<Rightarrow> intake \<Rightarrow> int \<times> string \<times> string \<times> string \<times> 'req \<Rightarrow> intake" where
  "webhook_call digest providers s c = (case c of (now, name, i, body, req) \<Rightarrow> snd (webhook_route digest providers now name i body req s))"

lemma bindS_keeps:
  assumes "P (snd (a s))" "\<And>v s'. P s' \<Longrightarrow> P (snd (f v s'))" shows "P (snd (bindS a f s))"
  using assms by (cases rule: bindS_cases [of a s f]) auto

lemma tables_keep_counters [simp]: "counter_inv names (snd (on_receipts a s)) = counter_inv names s"
  "counter_inv names (snd (on_events b s)) = counter_inv names s"
  by (simp_all add: counter_inv_def on_receipts_eq on_events_eq)

lemma counted_inv:
  assumes "counter_inv names s" "bucket \<in> insert ''__unknown__'' names"
  shows "counter_inv names (snd (bindS (on_counters (count_outcome now bucket out)) (\<lambda>_. ret v) s))"
  by (rule bindS_keeps) (use assms in \<open>auto intro: count_outcome_inv simp: ret_def\<close>)

lemma finish_webhook_counters:
  assumes inv: "counter_inv names s" and name: "name \<in> names"
  shows "counter_inv names (snd (finish_webhook now name i m accepted s))"
proof -
  have b: "name \<in> insert ''__unknown__'' names" using name by simp
  have mark: "counter_inv names (snd (bindS (on_receipts a) (\<lambda>_. k) s))" if "\<And>s. counter_inv names s \<Longrightarrow> counter_inv names (snd (k s))"
    for a :: "(webhook_row list, unit) act" and k :: "(intake, doc response) act"
    by (rule bindS_keeps) (use inv that in auto)
  show ?thesis
    by (cases "body_matches_previous i (in_receipts s)"; cases accepted)
      (auto simp: finish_webhook_def inv refuse_def intro!: mark counted_inv b)
qed

lemma webhook_route_counters:
  assumes inv: "counter_inv (dom providers) s" shows "counter_inv (dom providers) (snd (webhook_route digest providers now name i body req s))"
proof (cases "providers name")
  case None
  then show ?thesis using inv by (auto simp: webhook_route_def refuse_def intro!: counted_inv)
next
  case (Some p)
  then have name: "name \<in> dom providers" "name \<in> insert ''__unknown__'' (dom providers)" by auto
  have "counter_inv (dom providers) (snd (accept_webhook digest now name i m body s))" for m
    unfolding accept_webhook_def
  proof (rule bindS_keeps)
    show "counter_inv (dom providers) (snd (on_receipts (record_verified digest now i name m body) s))" by (simp add: inv)
    fix v s1 assume s1: "counter_inv (dom providers) s1"
    show "counter_inv (dom providers) (snd (bindS (on_events (put_if_absent now m)) (finish_webhook now name v m) s1))"
      by (rule bindS_keeps [where P = "counter_inv (dom providers)"]) (simp only: tables_keep_counters s1, rule finish_webhook_counters [OF _ name(1)])
  qed
  then show ?thesis using Some inv
    by (auto simp: webhook_route_def refuse_def intro!: counted_inv name(2) split: option.split)
qed

interpretation boundary: op_machine "webhook_call digest providers" "counter_inv (dom providers)" for digest providers
  by unfold_locales (auto simp: webhook_call_def split: prod.split intro: webhook_route_counters)

lemma refuse_only_counts:
  "in_db (snd (refuse now bucket out st detail s)) = in_db s" "in_receipts (snd (refuse now bucket out st detail s)) = in_receipts s"
  unfolding refuse_def by (rule bindS_keeps; simp add: on_counters_eq ret_def)+

lemma bindS_InrD: "fst (bindS a f s) = Inr y \<Longrightarrow> \<exists>v s'. fst (f v s') = Inr y"
  by (cases rule: bindS_cases [of a s f]) auto

lemma finish_webhook_errors:
  "fst (finish_webhook now name i m accepted s) = Inr (Http_error st detail) \<Longrightarrow> st = 409"
  by (auto simp: finish_webhook_def refuse_def ret_def split: if_splits sum.splits dest!: bindS_InrD)

lemma accept_webhook_errors:
  "fst (accept_webhook digest now name i m body s) = Inr (Http_error st detail) \<Longrightarrow> st = 409"
  unfolding accept_webhook_def by (drule bindS_InrD, elim exE, drule bindS_InrD, elim exE) (rule finish_webhook_errors)

text \<open>
  A refused webhook leaves nothing but a count: any error answer other than 409 comes with an unchanged
  event store and ledger, and however many requests come, the table of counters has at most seven rows
  per registered provider and seven for all unknown ones.
\<close>

theorem refused_webhooks_only_count:
  assumes "in_counters s = []" and "finite (dom providers)"
  shows "length (in_counters (foldl (webhook_call digest providers) s calls)) \<le> 7 * (card (dom providers) + 1) \<and>
    (\<forall>now name i body req st detail. fst (webhook_route digest providers now name i body req s) = Inr (Http_error st detail) \<and> st \<noteq> 409 \<longrightarrow>
      in_db (snd (webhook_route digest providers now name i body req s)) = in_db s \<and>
      in_receipts (snd (webhook_route digest providers now name i body req s)) = in_receipts s)"
proof
  let ?s = "foldl (webhook_call digest providers) s calls" and ?names = "take 128 ` insert ''__unknown__'' (dom providers)"
  have "counter_inv (dom providers) s" using assms(1) by (simp add: counter_inv_def)
  then have inv: "counter_inv (dom providers) ?s" by (rule boundary.run_inv)
  have fin: "finite (?names \<times> allowed_outcomes)" using assms(2) by (simp add: allowed_outcomes_def)
  have "length (in_counters ?s) = card (counter_key ` set (in_counters ?s))"
    using inv by (metis counter_inv_def distinct_card length_map set_map)
  also have "\<dots> \<le> card (?names \<times> allowed_outcomes)" using inv by (intro card_mono [OF fin]) (simp add: counter_inv_def)
  also have "\<dots> = card ?names * 7" by (simp only: card_cartesian_product) (simp add: allowed_outcomes_def)
  also have "card ?names \<le> card (dom providers) + 1"
    using card_image_le [of "insert ''__unknown__'' (dom providers)" "take 128"] card_insert_le_m1 [of 1] assms(2)
    by (simp add: card_insert_if split: if_splits)
  finally show "length (in_counters ?s) \<le> 7 * (card (dom providers) + 1)" by simp
next
  show "\<forall>now name i body req st detail. fst (webhook_route digest providers now name i body req s) = Inr (Http_error st detail) \<and> st \<noteq> 409 \<longrightarrow>
      in_db (snd (webhook_route digest providers now name i body req s)) = in_db s \<and>
      in_receipts (snd (webhook_route digest providers now name i body req s)) = in_receipts s"
    using accept_webhook_errors
    by (auto simp: webhook_route_def refuse_only_counts split: option.splits if_splits)
qed

section \<open>Two things the ledger does not do\<close>

text \<open>A receipt in the state processing is never claimed again, however old its lock is.\<close>

lemma processing_is_not_reclaimed:
  assumes "distinct (map wr_id rows)" "r \<in> set rows" "wr_status r = ''processing''" "claim_verified now rows = (Some c, rows')"
  shows "cr_receipt_id c \<noteq> wr_id r"
proof
  assume same: "cr_receipt_id c = wr_id r"
  obtain q where q: "q \<in> set rows" "wr_status q = ''verified''" "cr_receipt_id c = wr_id q"
    using assms(4) by (rule claim_verifiedD)
  then have "q = r" using assms(1,2) same by (auto simp: distinct_map dest: inj_onD)
  then show False using q(2) assms(3) by simp
qed

definition demo_webhook :: gmessage where
  "demo_webhook = \<lparr>gm_event_id = ''e1'', gm_provider = ''simulator'', gm_provider_event_id = ''p1'', gm_direction = Inbound,
     gm_channel = SMS, gm_sender = ''+15'', gm_recipients = [''+1''], gm_text = ''hi'', gm_media = [], gm_occurred_at = 3\<rparr>"

definition demo_provider :: "string \<Rightarrow> bool provider option" where
  "demo_provider = [''simulator'' \<mapsto> \<lparr>pv_verify = (\<lambda>b. b), pv_message = (\<lambda>_. Some demo_webhook), pv_delivery = (\<lambda>_. None)\<rparr>]"

definition demo_intake :: intake where
  "demo_intake = \<lparr>in_db = migrated_db 0, in_receipts = [], in_counters = []\<rparr>"

definition demo_call :: "int \<Rightarrow> string \<Rightarrow> string \<Rightarrow> (intake, doc response) act" where
  "demo_call now i body = webhook_route (\<lambda>b. b) demo_provider now ''simulator'' i body True"

definition demo_recorded :: intake where
  "demo_recorded = snd (on_receipts (record_verified (\<lambda>b. b) 5 ''r1'' ''simulator'' demo_webhook ''body'') demo_intake)"

text \<open>
  A recovery worker may claim the receipt of a handler that is still at work. It stores the message and
  ends the receipt, and the handler fails with an error instead of its answer.
\<close>

lemma worker_overtakes_handler:
  "let s = snd (inbound_once 30 5 5 demo_recorded) in
    map wr_status (in_receipts s) = [''accepted''] \<and>
    fst (bindS (on_events (put_if_absent 6 demo_webhook)) (finish_webhook 6 ''simulator'' ''r1'' demo_webhook) s) =
      Inl (RuntimeError ''webhook receipt not found or already terminal'')"
  by code_simp

section \<open>Concrete runs\<close>

definition demo_once :: intake where
  "demo_once = snd (demo_call 5 ''r1'' ''body'' demo_intake)"

definition demo_twice :: intake where
  "demo_twice = snd (demo_call 7 ''r2'' ''other'' demo_once)"

lemma demo_calls: "txns (\<lambda>b. b) 30 5 (demo_intake, []) (demo_once, [])" "txns (\<lambda>b. b) 30 5 (demo_once, []) (demo_twice, [])"
  unfolding demo_once_def demo_twice_def demo_call_def by (rule webhook_route_txns)+

lemma demo_receipts: "in_receipts demo_intake = []" "map wr_status (in_receipts demo_once) = [''accepted'']"
  "map wr_status (in_receipts demo_twice) = [''accepted'', ''duplicate'']"
  by (simp add: demo_intake_def, code_simp, code_simp)

theorem receipts_tell_the_truth_witness:
  "length (filter (\<lambda>r. wr_status r = ''accepted'' \<and> map_option event_key (wr_payload r) = Some (''simulator'', ''p1'')) (in_receipts demo_once)) \<le> 1"
  using receipts_tell_the_truth [OF demo_receipts(1) demo_calls(1)] by (rule conjunct2)

theorem processed_receipts_are_final_witness: "hd (in_receipts demo_once) \<in> set (in_receipts demo_twice)"
proof -
  have "hd (in_receipts demo_once) \<in> set (in_receipts demo_once)" "wr_status (hd (in_receipts demo_once)) = ''accepted''"
    using demo_receipts(2) by (auto simp: map_eq_Cons_conv)
  then show ?thesis
    using processed_receipts_are_final [OF demo_receipts(1) demo_calls, of "hd (in_receipts demo_once)"] by simp
qed

definition clashing_db :: gateway_db where
  "clashing_db = snd (put_if_absent 1 (demo_webhook\<lparr>gm_provider_event_id := ''p0''\<rparr>) (migrated_db 0))"

theorem recorded_webhooks_are_recovered_witness:
  "(\<exists>r \<in> set (in_receipts (foldl (\<lambda>s now. snd (inbound_once 30 1 now s)) demo_recorded [9])). wr_id r = ''r1'' \<and>
     wr_status r \<in> {''accepted'', ''duplicate'', ''failed''}) \<and>
   (\<exists>r \<in> set (in_receipts (foldl (\<lambda>s now. snd (inbound_once 30 2 now s)) (demo_recorded\<lparr>in_db := clashing_db\<rparr>) [9, 30000009])). wr_id r = ''r1'' \<and>
     wr_status r \<in> {''accepted'', ''duplicate'', ''failed''})"
proof -
  let ?r = "\<lparr>wr_id = ''r1'', wr_provider = ''simulator'', wr_provider_event_id = ''p1'', wr_message_event_id = ''e1'',
    wr_body_sha256 = ''body'', wr_verification = ''verified'', wr_status = ''verified'', wr_payload = Some demo_webhook,
    wr_attempts = 0, wr_received_at = 5, wr_processed_at = None, wr_available_at = 5, wr_locked_at = None, wr_last_error = None\<rparr>"
  have s: "in_receipts demo_recorded = [?r]" "in_receipts (demo_recorded\<lparr>in_db := clashing_db\<rparr>) = [?r]"
    by (simp_all add: demo_recorded_def demo_intake_def on_receipts_eq record_verified_def insert_unique_def demo_webhook_def)
  have clock: "spaced_clock 30 [9]" "spaced_clock 30 [9, 30000009]" "tries_left 1 [?r] \<le> length [9 :: int]"
    "tries_left 2 [?r] \<le> length [9 :: int, 30000009]"
    by (simp_all add: spaced_clock_def seconds_def bounded_def tries_left_def tries_def receipt_limit_def)
  from recorded_webhooks_are_recovered [of demo_recorded 30 "[9]" 1 ?r demo_webhook, OF _ _ _ _ _ _ _ refl] clock
    recorded_webhooks_are_recovered [of "demo_recorded\<lparr>in_db := clashing_db\<rparr>" 30 "[9, 30000009]" 2 ?r demo_webhook, OF _ _ _ _ _ _ _ refl]
  show ?thesis unfolding s by (simp del: foldl_Cons) blast
qed

theorem replays_are_recognised_witness:
  "fst (demo_call 7 ''r2'' ''other'' demo_once) =
     Inr (Http_error 409 ''provider_event_id replay body does not match the prior processed webhook'')"
proof -
  obtain r0 where r0: "in_receipts demo_once = [r0]" "wr_id r0 = ''r1''" "wr_status r0 = ''accepted''" "wr_body_sha256 r0 = ''body''"
    "receipt_key r0 = (''simulator'', ''p1'')"
  proof -
    have "map (\<lambda>r. (wr_id r, wr_status r, wr_body_sha256 r, receipt_key r)) (in_receipts demo_once) =
      [(''r1'', ''accepted'', ''body'', (''simulator'', ''p1''))]" by code_simp
    then show thesis by (auto simp: map_eq_Cons_conv intro: that)
  qed
  have db: "map row_key (gd_events (in_db demo_once)) = [(''simulator'', ''p1'')]"
    "map_option ct_paused (gd_control (in_db demo_once)) = Some False" by code_simp+
  then obtain c where c: "gd_control (in_db demo_once) = Some c" "\<not> ct_paused c" by auto
  have "event_key demo_webhook \<in> row_key ` set (gd_events (in_db demo_once))"
    using db(1) by (auto simp: map_eq_Cons_conv event_key_def demo_webhook_def)
  then have "fst (webhook_route (\<lambda>b. b) demo_provider 7 ''simulator'' ''r2'' ''other'' True demo_once) =
      Inr (if ''other'' = wr_body_sha256 r0 then Http_ok (webhook_reply False demo_webhook ''simulator'' ''r2'')
        else Http_error 409 ''provider_event_id replay body does not match the prior processed webhook'')"
    using replays_are_recognised [of demo_provider "''simulator''" _ True demo_webhook demo_once c "''r2''" r0 "\<lambda>b. b" 7 "''other''"] r0 c
    by (simp add: demo_provider_def demo_webhook_def processed_states_def)
  then show ?thesis by (simp add: demo_call_def r0(4))
qed

theorem refused_webhooks_only_count_witness:
  "length (in_counters (foldl (webhook_call (\<lambda>b. b) demo_provider) demo_intake
     [(1, ''nobody'', ''r1'', ''x'', True), (2, ''somebody'', ''r2'', ''x'', True), (3, ''simulator'', ''r3'', ''x'', False)])) \<le> 14"
proof -
  have "in_counters demo_intake = []" "finite (dom demo_provider)" "card (dom demo_provider) = 1"
    by (simp_all add: demo_intake_def demo_provider_def)
  then have "length (in_counters (foldl (webhook_call (\<lambda>b. b) demo_provider) demo_intake calls)) \<le> 14" for calls
    using refused_webhooks_only_count [of demo_intake demo_provider "\<lambda>b. b" calls] by simp
  then show ?thesis .
qed

end
