(* ===== verification/GatewayMedia.thy ===== *)
theory GatewayMedia
  imports GatewayModel
begin

text \<open>
  The private quarantine of MMS media, app/quarantine_storage.py and app/media_quarantine.py. The tree of
  files is a state: per digest a blob, its metadata and its scan state, the audit lines, and the temporary
  files left behind. A file has its content and whether it is a regular private file; a JSON file that
  does not parse has no value. The digest, \<open>isoformat\<close> and \<open>fromisoformat\<close> (with an offset) are
  arguments. Every write of a call can fail, before or after it took effect: the configuration names the
  faults of the call, and a write that fails raises \<open>QuarantineStorageError\<close> and leaves what was written
  before it. Left out: errors while reading, and partial contents of a temporary file or an audit line.
\<close>

section \<open>Names\<close>

definition bad_metadata :: py_error where "bad_metadata = OtherError ''InvalidMediaMetadata''"
definition digest_mismatch :: py_error where "digest_mismatch = OtherError ''DigestMismatchError''"
definition media_too_large :: py_error where "media_too_large = OtherError ''MediaTooLargeError''"
definition integrity_error :: py_error where "integrity_error = OtherError ''BlobIntegrityError''"
definition storage_error :: py_error where "storage_error = OtherError ''QuarantineStorageError''"
definition scanner_unavailable :: py_error where "scanner_unavailable = OtherError ''ScannerUnavailableError''"
definition timeout_error :: py_error where "timeout_error = OtherError ''TimeoutError''"

definition normalize_digest :: "string option \<Rightarrow> string outcome" where
  "normalize_digest v =
     (case v of
        None \<Rightarrow> Inl bad_metadata
      | Some t \<Rightarrow> if length t = 64 \<and> list_all hex_digit t then Inr (lower t) else Inl bad_metadata)"

definition id_prefix :: string where
  "id_prefix = ''mms-sha256-''"

definition attachment_id_for_digest :: "string \<Rightarrow> string outcome" where
  "attachment_id_for_digest digest = bindE (normalize_digest (Some digest)) (\<lambda>d. Inr (id_prefix @ d))"

definition digest_from_attachment_id :: "string \<Rightarrow> string outcome" where
  "digest_from_attachment_id i =
     (if \<not> starts_with i id_prefix then Inl bad_metadata else normalize_digest (Some (drop (length id_prefix) i)))"

definition type_char :: "char \<Rightarrow> bool" where
  "type_char c \<longleftrightarrow> alnum c \<or> c \<in> set ''!#$&^_.+-''"

definition content_type_ok :: "string \<Rightarrow> bool" where
  "content_type_ok t \<longleftrightarrow> (let a = takeWhile ((\<noteq>) (CHR ''/'')) t; b = dropWhile ((\<noteq>) (CHR ''/'')) t in
     a \<noteq> [] \<and> list_all type_char a \<and> length b > 1 \<and> list_all type_char (tl b))"

definition normalize_content_type :: "string option \<Rightarrow> string option outcome" where
  "normalize_content_type v =
     (case v of
        None \<Rightarrow> Inr None
      | Some t \<Rightarrow> let n = strip t in
          if length n > 127 \<or> \<not> content_type_ok n then Inl bad_metadata else Inr (Some (lower n)))"

definition name_char :: "char \<Rightarrow> bool" where
  "name_char c \<longleftrightarrow> alnum c \<or> c \<in> set ''._ -''"

text \<open>\<open>re.sub(r"[^A-Za-z0-9._ -]+", "_", s)\<close>: every run of other characters becomes one underscore.\<close>

fun collapse_others :: "bool \<Rightarrow> string \<Rightarrow> string" where
  "collapse_others run [] = []"
| "collapse_others run (c # cs) =
     (if name_char c then c # collapse_others False cs
      else if run then collapse_others True cs else CHR ''_'' # collapse_others True cs)"

definition trim_name :: "string \<Rightarrow> string" where
  "trim_name t = (let edge = (\<lambda>c. c = CHR '' '' \<or> c = CHR ''.'') in rev (dropWhile edge (rev (dropWhile edge t))))"

definition safe_filename :: "string option \<Rightarrow> string option" where
  "safe_filename v =
     (case v of
        None \<Rightarrow> None
      | Some t \<Rightarrow>
          let leaf = after_last (CHR ''/'') (map (\<lambda>c. if c = CHR 0x5C then CHR ''/'' else c) t);
              printable = map (\<lambda>c. if 32 \<le> code c \<and> code c < 127 then c else CHR ''_'') leaf;
              name = take 120 (trim_name (collapse_others False printable))
          in if name = [] then None else Some name)"

definition scanner_id_ok :: "string \<Rightarrow> bool" where
  "scanner_id_ok t \<longleftrightarrow> t \<noteq> [] \<and> length t \<le> 128 \<and> alnum (hd t) \<and> list_all (\<lambda>c. alnum c \<or> c \<in> set ''._:/+-'') (tl t)"

definition normalize_scanner_id :: "string option \<Rightarrow> string option outcome" where
  "normalize_scanner_id v =
     (case v of None \<Rightarrow> Inr None | Some t \<Rightarrow> if scanner_id_ok t then Inr (Some t) else Inl bad_metadata)"

section \<open>The private tree\<close>

record 'c pfile =
  pf_private :: bool
  pf_content :: 'c

record media_store =
  qu_blobs :: "(string, string pfile) dict"
  qu_metadata :: "(string, json option pfile) dict"
  qu_scans :: "(string, json option pfile) dict"
  qu_tmp :: "string list"
  qu_audit :: "doc list"

text \<open>
  What becomes of a write: the temporary file (\<open>mkstemp\<close> fails, or \<open>fsync\<close> does), the private directories, the
  link of the blob (\<open>link\<close> fails, or \<open>chmod\<close> after it), a JSON file (before \<open>os.replace\<close>, or \<open>chmod\<close>
  after it), the audit line (\<open>open\<close> fails, or \<open>fsync\<close> after the write).
\<close>

datatype fault = Works | Fails_before | Fails_after

record quarantine_config =
  qg_max_bytes :: int
  qg_retention_days :: int
  qg_sha :: "string \<Rightarrow> string"
  qg_iso :: "int \<Rightarrow> string"
  qg_parse_iso :: "string \<Rightarrow> int option"
  qg_fault :: "string \<Rightarrow> fault"

definition empty_quarantine :: media_store where
  "empty_quarantine = \<lparr>qu_blobs = [], qu_metadata = [], qu_scans = [], qu_tmp = [], qu_audit = []\<rparr>"

definition make_quarantine :: "quarantine_config \<Rightarrow> quarantine_config outcome" where
  "make_quarantine g =
     (if qg_max_bytes g < 1 \<or> qg_max_bytes g > 100 * 1024 * 1024 then Inl (ValueError ''max_bytes must be between 1 and 100 MiB'')
      else if qg_retention_days g < 1 \<or> qg_retention_days g > 730 then Inl (ValueError ''retention_days must be between 1 and 730'')
      else Inr g)"

definition private_file :: "'c \<Rightarrow> 'c pfile" where
  "private_file c = \<lparr>pf_private = True, pf_content = c\<rparr>"

definition read_private :: "(string, 'c pfile) dict \<Rightarrow> string \<Rightarrow> 'c outcome" where
  "read_private files d =
     (case dget files d of
        None \<Rightarrow> Inl integrity_error
      | Some f \<Rightarrow> if pf_private f then Inr (pf_content f) else Inl integrity_error)"

definition read_json_file :: "(string, json option pfile) dict \<Rightarrow> string \<Rightarrow> doc outcome" where
  "read_json_file files d =
     bindE (read_private files d) (\<lambda>c. case c of Some (JObj doc) \<Rightarrow> Inr doc | _ \<Rightarrow> Inl integrity_error)"

definition write_json_file :: "string \<Rightarrow> doc \<Rightarrow> (string, json option pfile) dict \<Rightarrow> (string, json option pfile) dict" where
  "write_json_file d doc files = dset files d (private_file (Some (JObj doc)))"

definition faulty_write :: "quarantine_config \<Rightarrow> string \<Rightarrow> (media_store \<Rightarrow> media_store) \<Rightarrow> (media_store, unit) act" where
  "faulty_write g name change s =
     (case qg_fault g name of
        Works \<Rightarrow> (Inr (), change s)
      | Fails_before \<Rightarrow> (Inl storage_error, s)
      | Fails_after \<Rightarrow> (Inl storage_error, change s))"

definition audit_line :: "quarantine_config \<Rightarrow> string \<Rightarrow> int \<Rightarrow> doc \<Rightarrow> (media_store, unit) act" where
  "audit_line g event now entries = faulty_write g ''audit''
     (\<lambda>s. s\<lparr>qu_audit := qu_audit s @ [(''event'', JStr event) # (''occurred_at'', JStr (qg_iso g now)) # entries]\<rparr>)"

definition write_metadata :: "quarantine_config \<Rightarrow> string \<Rightarrow> doc \<Rightarrow> (media_store, unit) act" where
  "write_metadata g d doc = faulty_write g ''metadata'' (\<lambda>s. s\<lparr>qu_metadata := write_json_file d doc (qu_metadata s)\<rparr>)"

definition write_scan :: "quarantine_config \<Rightarrow> string \<Rightarrow> doc \<Rightarrow> (media_store, unit) act" where
  "write_scan g d doc = faulty_write g ''scan_state'' (\<lambda>s. s\<lparr>qu_scans := write_json_file d doc (qu_scans s)\<rparr>)"

text \<open>\<open>os.link\<close> and \<open>os.chmod\<close>: whether the blob was there already.\<close>

definition link_blob :: "quarantine_config \<Rightarrow> string \<Rightarrow> string \<Rightarrow> (media_store, bool) act" where
  "link_blob g d data s =
     (if qg_fault g ''link'' = Fails_before then (Inl storage_error, s)
      else if dget (qu_blobs s) d \<noteq> None then (Inr True, s)
      else (if qg_fault g ''link'' = Fails_after then Inl storage_error else Inr False,
            s\<lparr>qu_blobs := dset (qu_blobs s) d (private_file data)\<rparr>))"

section \<open>Reading and verifying\<close>

text \<open>\<open>isinstance(x, int)\<close>, which holds of the booleans too.\<close>

definition int_instance :: "json \<Rightarrow> int option" where
  "int_instance j = (case j of JInt n \<Rightarrow> Some n | JBool b \<Rightarrow> Some (of_bool b) | _ \<Rightarrow> None)"

definition verify_blob :: "quarantine_config \<Rightarrow> string \<Rightarrow> media_store \<Rightarrow> string outcome" where
  "verify_blob g i s =
     bindE (digest_from_attachment_id i) (\<lambda>d.
     bindE (read_private (qu_blobs s) d) (\<lambda>content.
     bindE (read_json_file (qu_metadata s) d) (\<lambda>metadata.
       case int_instance (jget metadata ''byte_count'') of
         None \<Rightarrow> Inl integrity_error
       | Some expected \<Rightarrow>
           if expected < 0 \<or> expected > qg_max_bytes g then Inl integrity_error
           else if int (length content) > qg_max_bytes g then Inl integrity_error
           else if int (length content) \<noteq> expected \<or> qg_sha g content \<noteq> d then Inl integrity_error
           else Inr d)))"

definition str_field :: "doc \<Rightarrow> string \<Rightarrow> string outcome" where
  "str_field d k = (case dget d k of None \<Rightarrow> Inl (KeyError k) | Some j \<Rightarrow> Inr (py_str j))"

definition parse_iso :: "quarantine_config \<Rightarrow> string \<Rightarrow> int outcome" where
  "parse_iso g t = (case qg_parse_iso g t of None \<Rightarrow> Inl (ValueError ''isoformat'') | Some n \<Rightarrow> Inr n)"

definition read_record :: "quarantine_config \<Rightarrow> int \<Rightarrow> string \<Rightarrow> media_store \<Rightarrow> doc outcome" where
  "read_record g now i s =
     bindE (digest_from_attachment_id i) (\<lambda>d.
     bindE (verify_blob g i s) (\<lambda>_.
     bindE (read_json_file (qu_metadata s) d) (\<lambda>metadata.
       let state = (case read_json_file (qu_scans s) d of
             Inl _ \<Rightarrow> [(''state'', JStr ''quarantined_scan_state_missing''), (''verdict'', JNull), (''scanner_id'', JNull), (''scanned_at'', JNull)]
           | Inr doc \<Rightarrow> doc) in
       bindE (str_field metadata ''retention_expires_at'') (\<lambda>t.
       bindE (parse_iso g t) (\<lambda>expires.
         Inr [(''attachment_id'', JStr i), (''sha256'', JStr d), (''content_type'', jget metadata ''content_type''),
           (''safe_filename'', jget metadata ''safe_filename''), (''byte_count'', jget metadata ''byte_count''),
           (''stored_at'', jget metadata ''stored_at''), (''retention_expires_at'', jget metadata ''retention_expires_at''),
           (''lifecycle_state'', JStr (if now \<ge> expires then ''retention_expired_held'' else ''retained_held'')),
           (''state'', jget_default state ''state'' (JStr ''quarantined_scan_state_missing'')), (''verdict'', jget state ''verdict''),
           (''scanner_id'', jget state ''scanner_id''), (''scanned_at'', jget state ''scanned_at''),
           (''release_authorized'', JBool False), (''web_served'', JBool False)])))))"

definition retention_candidates :: "quarantine_config \<Rightarrow> int \<Rightarrow> media_store \<Rightarrow> string list" where
  "retention_candidates g now s = sort (remdups (concat (map (\<lambda>d.
     (case read_json_file (qu_metadata s) d of
        Inl _ \<Rightarrow> []
      | Inr data \<Rightarrow>
          (case bindE (str_field data ''retention_expires_at'') (parse_iso g) of
             Inl _ \<Rightarrow> []
           | Inr expires \<Rightarrow>
               (case str_field data ''attachment_id'' of
                  Inr i \<Rightarrow> if now \<ge> expires then [i] else []
                | Inl _ \<Rightarrow> [])))) (dkeys (qu_metadata s)))))"

section \<open>Ingest\<close>

record ingest_result =
  ig_attachment_id :: string
  ig_sha256 :: string
  ig_byte_count :: int
  ig_duplicate :: bool
  ig_state :: string

text \<open>The chunks written to the temporary file before the size limit is passed, and whether it was.\<close>

fun take_chunks :: "int \<Rightarrow> int \<Rightarrow> string list \<Rightarrow> string \<times> bool" where
  "take_chunks limit n [] = ([], False)"
| "take_chunks limit n (c # cs) =
     (if n + int (length c) > limit \<and> c \<noteq> [] then ([], True)
      else let (data, over) = take_chunks limit (n + int (length c)) cs in (c @ data, over))"

definition metadata_doc :: "quarantine_config \<Rightarrow> int \<Rightarrow> string \<Rightarrow> string \<Rightarrow> int \<Rightarrow> string option \<Rightarrow> string option \<Rightarrow> doc" where
  "metadata_doc g now i d n ctype name =
     [(''contract'', JStr ''wwcx.mms-private-quarantine-blob.v1''), (''attachment_id'', JStr i), (''sha256'', JStr d),
      (''byte_count'', JInt n), (''content_type'', opt_str ctype), (''safe_filename'', opt_str name),
      (''stored_at'', JStr (qg_iso g now)), (''retention_expires_at'', JStr (qg_iso g (now + qg_retention_days g * 86400 * 1000000))),
      (''storage_class'', JStr ''private_quarantine''), (''web_served'', JBool False)]"

definition scan_doc :: "string \<Rightarrow> string \<Rightarrow> string \<Rightarrow> string option \<Rightarrow> string option \<Rightarrow> string option \<Rightarrow> doc" where
  "scan_doc i d state verdict scanner scanned_at =
     [(''contract'', JStr ''wwcx.mms-private-quarantine-scan.v1''), (''attachment_id'', JStr i), (''sha256'', JStr d),
      (''state'', JStr state), (''verdict'', opt_str verdict), (''scanner_id'', opt_str scanner),
      (''scanned_at'', opt_str scanned_at), (''release_authorized'', JBool False)]"

definition ingest_audit :: "string \<Rightarrow> string \<Rightarrow> int \<Rightarrow> json \<Rightarrow> doc" where
  "ingest_audit i d n state = [(''attachment_id'', JStr i), (''sha256'', JStr d), (''byte_count'', JInt n), (''state'', state),
     (''release_authorized'', JBool False)]"

definition finish_duplicate :: "quarantine_config \<Rightarrow> int \<Rightarrow> string \<Rightarrow> string \<Rightarrow> int \<Rightarrow> (media_store, ingest_result) act" where
  "finish_duplicate g now i d n s =
     bindS (pure_act (verify_blob g i s)) (\<lambda>_.
     bindS (pure_act (read_json_file (qu_metadata s) d)) (\<lambda>metadata.
     bindS (pure_act (read_json_file (qu_scans s) d)) (\<lambda>state s.
       if jget metadata ''sha256'' \<noteq> JStr d \<or> jget state ''sha256'' \<noteq> JStr d then (Inl integrity_error, s)
       else let current = py_str (jget_default state ''state'' (JStr ''quarantined_scan_state_missing'')) in
         bindS (audit_line g ''mms_quarantine_duplicate'' now (ingest_audit i d n (JStr current))) (\<lambda>_.
         ret \<lparr>ig_attachment_id = i, ig_sha256 = d, ig_byte_count = n, ig_duplicate = True, ig_state = current\<rparr>) s))) s"

definition finish_fresh ::
  "quarantine_config \<Rightarrow> int \<Rightarrow> string \<Rightarrow> string \<Rightarrow> int \<Rightarrow> string option \<Rightarrow> string option \<Rightarrow> (media_store, ingest_result) act" where
  "finish_fresh g now i d n ctype name =
     bindS (write_metadata g d (metadata_doc g now i d n ctype name)) (\<lambda>_.
     bindS (write_scan g d (scan_doc i d ''quarantined_pending_scan'' None None None)) (\<lambda>_.
     bindS (audit_line g ''mms_quarantine_ingested'' now (ingest_audit i d n (JStr ''quarantined_pending_scan''))) (\<lambda>_.
     ret \<lparr>ig_attachment_id = i, ig_sha256 = d, ig_byte_count = n, ig_duplicate = False, ig_state = ''quarantined_pending_scan''\<rparr>)))"

definition ingest_chunks ::
  "quarantine_config \<Rightarrow> int \<Rightarrow> string list \<Rightarrow> string option \<Rightarrow> string option \<Rightarrow> string option \<Rightarrow> (media_store, ingest_result) act" where
  "ingest_chunks g now chunks expected ctype filename =
     bindS (pure_act (normalize_digest expected)) (\<lambda>d.
     bindS (pure_act (normalize_content_type ctype)) (\<lambda>ntype s.
       let name = safe_filename filename; i = id_prefix @ d; (data, over) = take_chunks (qg_max_bytes g) 0 chunks;
           n = int (length data) in
       if qg_fault g ''temporary'' = Fails_before then (Inl storage_error, s)
       else if over then (Inl media_too_large, s\<lparr>qu_tmp := qu_tmp s @ [data]\<rparr>)
       else if qg_fault g ''temporary'' = Fails_after then (Inl storage_error, s\<lparr>qu_tmp := qu_tmp s @ [data]\<rparr>)
       else if qg_sha g data \<noteq> d
       then bindS (audit_line g ''mms_quarantine_digest_mismatch'' now [(''attachment_id'', JStr i),
            (''expected_sha256'', JStr d), (''actual_sha256'', JStr (qg_sha g data)), (''byte_count'', JInt n), (''release_authorized'', JBool False)])
          (\<lambda>_. raise_err digest_mismatch) s
       else if qg_fault g ''directories'' \<noteq> Works then (Inl storage_error, s\<lparr>qu_tmp := qu_tmp s @ [data]\<rparr>)
       else bindS (link_blob g d data) (\<lambda>duplicate.
         if duplicate then finish_duplicate g now i d n else finish_fresh g now i d n ntype name) s))"

definition ingest_media_blob ::
  "quarantine_config \<Rightarrow> int \<Rightarrow> media_item \<Rightarrow> string list \<Rightarrow> string option \<Rightarrow> (media_store, ingest_result) act" where
  "ingest_media_blob g now item chunks filename =
     (if mi_sha256 item = None \<or> mi_sha256 item = Some [] then raise_err bad_metadata
      else ingest_chunks g now chunks (mi_sha256 item) (mi_content_type item) filename)"

section \<open>Scanning\<close>

definition scan_states :: "string set" where
  "scan_states = {''quarantined_pending_scan'', ''quarantined_scanner_unavailable'', ''quarantined_scan_timeout'',
     ''quarantined_scan_error'', ''quarantined_malicious'', ''scanned_clean_held'', ''quarantined_integrity_error'',
     ''quarantined_scan_state_missing''}"

definition record_scan_state ::
  "quarantine_config \<Rightarrow> int \<Rightarrow> string \<Rightarrow> string \<Rightarrow> string option \<Rightarrow> string option \<Rightarrow> (media_store, doc) act" where
  "record_scan_state g now i state verdict scanner s =
     (if state \<notin> scan_states then (Inl bad_metadata, s)
      else bindS (pure_act (digest_from_attachment_id i)) (\<lambda>d.
        bindS (pure_act (verify_blob g i s)) (\<lambda>_.
        bindS (pure_act (normalize_scanner_id scanner)) (\<lambda>scanner s.
          let scanned_at = (if state \<in> {''quarantined_pending_scan'', ''quarantined_scanner_unavailable''} then None else Some (qg_iso g now));
              entries = [(''attachment_id'', JStr i), (''sha256'', JStr d), (''state'', JStr state),
                   (''verdict'', opt_str verdict), (''scanner_id'', opt_str scanner), (''release_authorized'', JBool False)]
          in bindS (write_scan g d (scan_doc i d state verdict scanner scanned_at)) (\<lambda>_.
             bindS (audit_line g ''mms_quarantine_scan_state'' now entries) (\<lambda>_ s. (read_record g now i s, s))) s))) s)"

text \<open>
  A scanner: its identity, and a scan that answers a verdict or raises; it has the file system in its
  hands, so it may also change the state.
\<close>

record media_scanner =
  ms_id :: "string option"
  ms_scan :: "string \<Rightarrow> string option \<Rightarrow> rat \<Rightarrow> (media_store, string) act"

definition integrity_failure :: "string \<Rightarrow> string option \<Rightarrow> doc" where
  "integrity_failure i scanner = [(''attachment_id'', JStr i), (''state'', JStr ''quarantined_integrity_error''),
     (''verdict'', JStr ''integrity_error''), (''scanner_id'', opt_str scanner), (''release_authorized'', JBool False), (''web_served'', JBool False)]"

definition guarded_scan :: "quarantine_config \<Rightarrow> string \<Rightarrow> media_scanner \<Rightarrow> doc \<Rightarrow> rat \<Rightarrow> (media_store, string) act" where
  "guarded_scan g i scanner record timeout =
     (let ctype = (case jget record ''content_type'' of JStr t \<Rightarrow> Some t | _ \<Rightarrow> None) in
      bindS (\<lambda>s. (verify_blob g i s, s)) (\<lambda>d.
      bindS (ms_scan scanner d ctype timeout) (\<lambda>verdict.
      bindS (\<lambda>s. (verify_blob g i s, s)) (\<lambda>_. ret verdict))))"

definition scan_stored_media ::
  "quarantine_config \<Rightarrow> int \<Rightarrow> string \<Rightarrow> media_scanner option \<Rightarrow> rat \<Rightarrow> (media_store, doc) act" where
  "scan_stored_media g now i scanner timeout s =
     (if timeout < 1/10 \<or> timeout > 300 then (Inl (ValueError ''scanner timeout must be between 0.1 and 300 seconds''), s)
      else let (sid, scanner) = (case normalize_scanner_id (case scanner of None \<Rightarrow> None | Some sc \<Rightarrow> ms_id sc) of
                Inl _ \<Rightarrow> (None, None) | Inr sid \<Rightarrow> (sid, scanner));
               held = (\<lambda>state verdict. record_scan_state g now i state verdict sid) in
      case read_record g now i s of
        Inl e \<Rightarrow> if e = integrity_error then (Inr (integrity_failure i sid), s) else (Inl e, s)
      | Inr record \<Rightarrow>
          (case scanner of
             None \<Rightarrow> held ''quarantined_scanner_unavailable'' None s
           | Some sc \<Rightarrow>
               (case guarded_scan g i sc record timeout s of
                  (Inl e, s1) \<Rightarrow>
                    if e = scanner_unavailable then held ''quarantined_scanner_unavailable'' None s1
                    else if e = timeout_error then held ''quarantined_scan_timeout'' (Some ''timeout'') s1
                    else if e = integrity_error then (Inr (integrity_failure i sid), s1)
                    else held ''quarantined_scan_error'' (Some ''error'') s1
                | (Inr verdict, s1) \<Rightarrow>
                    if verdict = ''clean'' then held ''scanned_clean_held'' (Some ''clean'') s1
                    else if verdict = ''malicious'' then held ''quarantined_malicious'' (Some ''malicious'') s1
                    else held ''quarantined_scan_error'' (Some ''unexpected'') s1)))"

section \<open>The summary of a message\<close>

record media_record =
  mr_sha256 :: "string option"
  mr_content_type :: "string option"
  mr_state :: string
  mr_scan_result :: "string option"

text \<open>The scanner of the compatibility helper: a result, or None when it raises.\<close>

definition assess_media_item :: "(media_item \<Rightarrow> string option) option \<Rightarrow> media_item \<Rightarrow> media_record" where
  "assess_media_item scanner item =
     (case mi_sha256 item of
        None \<Rightarrow> \<lparr>mr_sha256 = None, mr_content_type = mi_content_type item, mr_state = ''quarantined_missing_digest'', mr_scan_result = None\<rparr>
      | Some h \<Rightarrow>
          if h = [] then \<lparr>mr_sha256 = None, mr_content_type = mi_content_type item, mr_state = ''quarantined_missing_digest'', mr_scan_result = None\<rparr>
          else (case scanner of
             None \<Rightarrow> \<lparr>mr_sha256 = Some (lower h), mr_content_type = mi_content_type item, mr_state = ''quarantined_pending_scan'', mr_scan_result = None\<rparr>
           | Some scan \<Rightarrow>
               let (state, result) = (if scan item = Some ''clean'' then (''scanned_clean_held'', ''clean'')
                 else if scan item = Some ''malicious'' then (''quarantined_malicious'', ''malicious'')
                 else (''quarantined_scan_error'', ''error''))
               in \<lparr>mr_sha256 = Some (lower h), mr_content_type = mi_content_type item, mr_state = state, mr_scan_result = Some result\<rparr>))"

definition media_record_doc :: "media_record \<Rightarrow> doc" where
  "media_record_doc r = [(''sha256'', opt_str (mr_sha256 r)), (''content_type'', opt_str (mr_content_type r)), (''state'', JStr (mr_state r)),
     (''scan_result'', opt_str (mr_scan_result r)), (''release_authorized'', JBool False), (''provider_reference_exposed'', JBool False)]"

definition overall_state :: "string list \<Rightarrow> string" where
  "overall_state states =
     (if list_ex (\<lambda>st. st \<in> {''quarantined_malicious'', ''quarantined_scan_error'', ''quarantined_missing_digest''}) states then ''quarantined''
      else if ''quarantined_pending_scan'' \<in> set states then ''quarantined_pending_scan''
      else if set states = {''scanned_clean_held''} then ''scanned_clean_held''
      else ''quarantined'')"

definition quarantine_summary :: "(media_item \<Rightarrow> string option) option \<Rightarrow> gmessage \<Rightarrow> doc" where
  "quarantine_summary scanner m =
     (if gm_channel m = SMS \<or> gm_media m = []
      then [(''applicable'', JBool False), (''state'', JStr ''not_applicable''), (''items'', JList []), (''release_authorized'', JBool False)]
      else let records = map (assess_media_item scanner) (take 16 (gm_media m)) in
        [(''applicable'', JBool True), (''state'', JStr (overall_state (map mr_state records))),
         (''items'', JList (map (\<lambda>r. JObj (media_record_doc r)) records)), (''release_authorized'', JBool False)])"

end
