(* ===== verification/GatewayRoutes.thy ===== *)
theory GatewayRoutes
  imports GatewayRecovery GatewayMedia
begin

text \<open>
  The application: the other routes of app/main.py with app/telegraph_office.py, and the provider
  readiness report (app/provider_readiness.py), for the durable configuration. Environment variables,
  fresh ids, digests and the rendering of instants are arguments; request bodies have passed the
  validation of their models. Static pages and health checks are left out.
\<close>

section \<open>Tokens and settings\<close>

type_synonym environment = "string \<Rightarrow> string option"

definition getenv :: "environment \<Rightarrow> string \<Rightarrow> string \<Rightarrow> string" where
  "getenv env name dflt = (case env name of None \<Rightarrow> dflt | Some v \<Rightarrow> v)"

definition simulator_token :: "environment \<Rightarrow> string" where
  "simulator_token env = getenv env ''WWCX_SIMULATOR_TOKEN'' ''development-only''"

definition enabled :: "environment \<Rightarrow> string \<Rightarrow> bool" where
  "enabled env name \<longleftrightarrow> lower (getenv env name ''false'') = ''true''"

definition require_token :: "environment \<Rightarrow> string option \<Rightarrow> string \<Rightarrow> string \<Rightarrow> ('s, 'a response) act \<Rightarrow> ('s, 'a response) act" where
  "require_token env provided name dflt m =
     (if provided \<noteq> Some (getenv env name dflt) then ret (Http_error 401 ''invalid management token'') else m)"

definition management_read :: "environment \<Rightarrow> string option \<Rightarrow> ('s, 'a response) act \<Rightarrow> ('s, 'a response) act" where
  "management_read env provided = require_token env provided ''WWCX_MANAGEMENT_READ_TOKEN'' ''development-read-only''"

section \<open>Messages as the management interface shows them\<close>

definition sanitized_message :: "(int \<Rightarrow> string) \<Rightarrow> gmessage \<Rightarrow> doc" where
  "sanitized_message fmt m =
     [(''event_id'', JStr (gm_event_id m)), (''provider'', JStr (take 128 (gm_provider m))),
      (''provider_event_id'', JStr (take 256 (gm_provider_event_id m))), (''direction'', JStr (direction_value (gm_direction m))),
      (''channel'', JStr (channel_value (gm_channel m))), (''sender'', JStr (take 256 (gm_sender m))),
      (''recipients'', JList (map (\<lambda>r. JStr (take 256 r)) (take 32 (gm_recipients m)))), (''text_summary'', JStr (take 1000 (gm_text m))),
      (''text_truncated'', JBool (length (gm_text m) > 1000)),
      (''media'', JList (map (\<lambda>i. JObj [(''content_type'', opt_str (mi_content_type i)), (''sha256'', opt_str (mi_sha256 i))])
         (take 16 (gm_media m)))),
      (''media_quarantine'', JObj (quarantine_summary None m)), (''occurred_at'', JStr (fmt (gm_occurred_at m))),
      (''untrusted_content'', JBool True), (''mutation_authorized'', JBool False)]"

section \<open>Provider readiness\<close>

record readiness_row =
  pd_provider :: string
  pd_registered :: bool
  pd_inbound :: bool
  pd_outbound :: bool
  pd_mms :: bool
  pd_missing_inbound :: "string list"
  pd_missing_outbound :: "string list"
  pd_missing_mms :: "string list"

definition present :: "environment \<Rightarrow> string \<Rightarrow> bool" where
  "present env name \<longleftrightarrow> (case env name of None \<Rightarrow> False | Some v \<Rightarrow> strip v \<noteq> [])"

definition missing_fields :: "environment \<Rightarrow> string list \<Rightarrow> string list" where
  "missing_fields env names = filter (\<lambda>n. \<not> present env n) names"

definition readiness_of ::
  "environment \<Rightarrow> string set \<Rightarrow> string \<times> string list \<times> string list \<times> string list \<Rightarrow> readiness_row" where
  "readiness_of env registered contract = (case contract of (name, inbound, outbound, mms) \<Rightarrow>
     let mms_missing = (if name = ''bandwidth'' then [''BANDWIDTH_MMS_ACQUISITION_NOT_IMPLEMENTED''] else missing_fields env mms) in
     \<lparr>pd_provider = name, pd_registered = name \<in> registered, pd_inbound = missing_fields env inbound = [],
      pd_outbound = missing_fields env outbound = [], pd_mms = name \<noteq> ''bandwidth'' \<and> mms_missing = [],
      pd_missing_inbound = missing_fields env inbound, pd_missing_outbound = missing_fields env outbound,
      pd_missing_mms = mms_missing\<rparr>)"

definition provider_contracts :: "(string \<times> string list \<times> string list \<times> string list) list" where
  "provider_contracts =
     [(''telnyx'', [''WWCX_TELNYX_WEBHOOK_PUBLIC_KEY''], [''WWCX_TELNYX_API_KEY''], [''WWCX_TELNYX_API_KEY'']),
      (''bandwidth'', [''WWCX_BANDWIDTH_WEBHOOK_USERNAME'', ''WWCX_BANDWIDTH_WEBHOOK_PASSWORD''],
       [''WWCX_BANDWIDTH_ACCOUNT_ID'', ''WWCX_BANDWIDTH_API_USERNAME'', ''WWCX_BANDWIDTH_API_PASSWORD'', ''WWCX_BANDWIDTH_APPLICATION_ID''], [])]"

definition provider_readiness :: "environment \<Rightarrow> string set \<Rightarrow> readiness_row list" where
  "provider_readiness env registered = map (readiness_of env registered) provider_contracts"

definition readiness_doc :: "readiness_row \<Rightarrow> doc" where
  "readiness_doc r =
     [(''provider'', JStr (pd_provider r)), (''implemented'', JBool True), (''registered'', JBool (pd_registered r)),
      (''inbound_auth_configured'', JBool (pd_inbound r)), (''outbound_configured'', JBool (pd_outbound r)),
      (''mms_acquisition_configured'', JBool (pd_mms r)), (''public_webhook_ready'', JBool False), (''sender_bound'', JBool False),
      (''live_traffic_authorized'', JBool False), (''missing_inbound_fields'', JList (map JStr (pd_missing_inbound r))),
      (''missing_outbound_fields'', JList (map JStr (pd_missing_outbound r))), (''missing_mms_fields'', JList (map JStr (pd_missing_mms r)))]"

definition sanitized_provider_readiness :: "environment \<Rightarrow> string set \<Rightarrow> doc" where
  "sanitized_provider_readiness env registered =
     [(''contract'', JStr ''wwcx.messaging-provider-readiness.v1''),
      (''providers'', JList (map (\<lambda>r. JObj (readiness_doc r)) (provider_readiness env registered))),
      (''secret_values_output'', JBool False), (''provider_contact_performed'', JBool False), (''public_webhook_ready'', JBool False),
      (''sender_binding_verified'', JBool False), (''live_traffic_authorized'', JBool False)]"

section \<open>The state of the application\<close>

text \<open>The message table of the store is the one the delivery store updates.\<close>

record app_state =
  ap_intake :: intake
  ap_delivery_events :: "delivery_row list"
  ap_delivery_states :: "state_row list"

definition on_intake :: "(intake, 'a) act \<Rightarrow> (app_state, 'a) act" where
  "on_intake m s = (let (r, i) = m (ap_intake s) in (r, s\<lparr>ap_intake := i\<rparr>))"

definition delivery_tables :: "app_state \<Rightarrow> delivery_db" where
  "delivery_tables s = \<lparr>dd_events = ap_delivery_events s, dd_states = ap_delivery_states s, dd_messages = gd_messages (in_db (ap_intake s))\<rparr>"

definition on_delivery :: "(delivery_db, 'a) act \<Rightarrow> (app_state, 'a) act" where
  "on_delivery m s =
     (let (r, d) = m (delivery_tables s) in
      (r, s\<lparr>ap_delivery_events := dd_events d, ap_delivery_states := dd_states d,
            ap_intake := (ap_intake s)\<lparr>in_db := (in_db (ap_intake s))\<lparr>gd_messages := dd_messages d\<rparr>\<rparr>\<rparr>))"

definition reply :: "(intake \<Rightarrow> doc) \<Rightarrow> (app_state, doc response) act" where
  "reply f s = (Inr (Http_ok (f (ap_intake s))), s)"

section \<open>Requests\<close>

record dispatch_request =
  dr_sender :: string
  dr_recipients :: "string list"
  dr_channel :: channel
  dr_text :: string
  dr_media :: "media_item list"
  dr_security_mode :: string
  dr_coordinates :: bool
  dr_ciphertext :: "string option"

datatype 'req app_request =
    QueueStatus "string option"
  | ReceiptStatus int "string option"
  | AuditStatus "string option"
  | ComplianceStatus int "string option"
  | RecentMessages int "string option"
  | OneMessage string "string option"
  | DeliveryStatus int "string option"
  | Control bool string string "string option"
  | Simulate gmessage "string option"
  | SimulateOutbound gmessage "string option"
  | EventCount
  | Dispatch dispatch_request "string option"
  | Ledger "string option"
  | Webhook string string 'req
  | Delivery string 'req

text \<open>What a deployment fixes: its settings, providers, digests and renderings.\<close>

record 'req app_config =
  ag_env :: environment
  ag_providers :: "string \<Rightarrow> 'req provider option"
  ag_digest :: "string \<Rightarrow> string"
  ag_fmt :: "int \<Rightarrow> string"
  ag_parse_uuid :: "string \<Rightarrow> string option"

definition paused_error :: py_error where
  "paused_error = RuntimeError ''messaging control state is not initialized''"

text \<open>\<open>if store.get_control_state()["paused"]: raise HTTPException(503)\<close>.\<close>

definition unless_paused :: "string \<Rightarrow> (app_state, 'a response) act \<Rightarrow> (app_state, 'a response) act" where
  "unless_paused detail m s =
     (case gd_control (in_db (ap_intake s)) of
        None \<Rightarrow> (Inl paused_error, s)
      | Some c \<Rightarrow> if ct_paused c then (Inr (Http_error 503 detail), s) else m s)"

definition contract_doc :: "string \<Rightarrow> doc \<Rightarrow> doc" where
  "contract_doc name body = (''contract'', JStr name) # body"

definition recent_doc :: "(int \<Rightarrow> string) \<Rightarrow> int \<Rightarrow> intake \<Rightarrow> doc" where
  "recent_doc fmt limit i =
     (let n = bounded 1 100 limit; events = map (\<lambda>m. JObj (sanitized_message fmt m)) (list_recent n (in_db i)) in
      [(''events'', JList events), (''count'', JInt (int (length events))), (''limit'', JInt n),
       (''content_is_untrusted'', JBool True), (''mutation_authorized'', JBool False)])"

definition message_route :: "'req app_config \<Rightarrow> string \<Rightarrow> (app_state, doc response) act" where
  "message_route g event_id s =
     (case get_event (ag_parse_uuid g) event_id (in_db (ap_intake s)) of
        None \<Rightarrow> (Inr (Http_error 404 ''message event not found''), s)
      | Some m \<Rightarrow> (Inr (Http_ok (contract_doc ''wwcx.messages-conversation-read.v1''
          [(''event'', JObj (sanitized_message (ag_fmt g) m)), (''content_is_untrusted'', JBool True), (''mutation_authorized'', JBool False)])), s))"

definition put_reply :: "gmessage \<Rightarrow> int \<Rightarrow> (bool \<Rightarrow> doc) \<Rightarrow> (app_state, doc response) act" where
  "put_reply m now f = bindS (on_intake (on_events (put_if_absent now m))) (\<lambda>accepted. ret (Http_ok (f accepted)))"

definition simulate_route :: "'req app_config \<Rightarrow> int \<Rightarrow> gmessage \<Rightarrow> string option \<Rightarrow> (app_state, doc response) act" where
  "simulate_route g now m token =
     (if token \<noteq> Some (simulator_token (ag_env g)) then ret (Http_error 401 ''invalid simulator token'')
      else unless_paused ''messaging intake is paused'' (put_reply m now (\<lambda>accepted.
        [(''accepted'', JBool accepted), (''duplicate'', JBool (\<not> accepted)), (''event_id'', JStr (gm_event_id m))])))"

definition outbound_route :: "'req app_config \<Rightarrow> int \<Rightarrow> string \<Rightarrow> gmessage \<Rightarrow> string option \<Rightarrow> (app_state, doc response) act" where
  "outbound_route g now job_id m token =
     (if \<not> enabled (ag_env g) ''WWCX_SIMULATOR_OUTBOUND_ENABLED'' then ret (Http_error 403 ''simulator outbound queueing is disabled'')
      else if token \<noteq> Some (simulator_token (ag_env g)) then ret (Http_error 401 ''invalid simulator token'')
      else if gm_direction m \<noteq> Outbound then ret (Http_error 400 ''outbound queue requires direction=outbound'')
      else if gm_provider m \<noteq> ''simulator'' then ret (Http_error 400 ''simulator outbound route accepts provider=simulator only'')
      else unless_paused ''messaging is paused'' (bindS (on_intake (on_events (enqueue_outbound now job_id m))) (\<lambda>accepted.
        ret (Http_ok [(''queued'', JBool accepted), (''duplicate'', JBool (\<not> accepted)), (''event_id'', JStr (gm_event_id m)),
          (''send_authorized'', JBool False), (''worker_required'', JBool True)]))))"

definition control_route :: "'req app_config \<Rightarrow> int \<Rightarrow> bool \<Rightarrow> string \<Rightarrow> string \<Rightarrow> string option \<Rightarrow> (app_state, doc response) act" where
  "control_route g now pause actor reason token =
     (if \<not> enabled (ag_env g) ''WWCX_MANAGEMENT_CONTROL_ENABLED'' then ret (Http_error 403 ''management controls are disabled'')
      else require_token (ag_env g) token ''WWCX_MANAGEMENT_CONTROL_TOKEN'' ''development-control-only''
        (bindS (on_intake (on_events (set_paused (ag_fmt g) now pause actor reason))) (\<lambda>d. ret (Http_ok d))))"

text \<open>The telegraph office: the message it makes of a request, and its ledger.\<close>

definition dispatch_message :: "int \<Rightarrow> string \<Rightarrow> dispatch_request \<Rightarrow> gmessage" where
  "dispatch_message now i r =
     \<lparr>gm_event_id = i, gm_provider = ''spirit-creek-simulator'', gm_provider_event_id = ''telegraph-'' @ i, gm_direction = Outbound,
      gm_channel = dr_channel r, gm_sender = dr_sender r, gm_recipients = dr_recipients r,
      gm_text = (case dr_ciphertext r of Some c \<Rightarrow> if c = [] then dr_text r else c | None \<Rightarrow> dr_text r),
      gm_media = dr_media r, gm_occurred_at = now\<rparr>"

definition dispatch_route :: "'req app_config \<Rightarrow> int \<Rightarrow> string \<Rightarrow> dispatch_request \<Rightarrow> string option \<Rightarrow> (app_state, doc response) act" where
  "dispatch_route g now i r token =
     (let m = dispatch_message now i r in
      if token \<noteq> Some (simulator_token (ag_env g)) then ret (Http_error 401 ''invalid simulator token'')
      else unless_paused ''messaging intake is paused'' (put_reply m now (\<lambda>accepted.
        [(''accepted'', JBool accepted), (''duplicate'', JBool (\<not> accepted)), (''event_id'', JStr i), (''channel'', JStr (channel_value (dr_channel r))),
         (''security_mode'', JStr (dr_security_mode r)), (''content_sha256'', JStr (ag_digest g (gm_text m))),
         (''server_observed_at_utc'', JStr (ag_fmt g now)), (''coordinates_attached'', JBool (dr_coordinates r)),
         (''storage'', JStr ''simulator-ledger'')])))"

definition ledger_doc :: "(int \<Rightarrow> string) \<Rightarrow> intake \<Rightarrow> doc" where
  "ledger_doc fmt i = [(''events'', JList (map (\<lambda>m. JObj [(''event_id'', JStr (gm_event_id m)),
     (''provider_event_id'', JStr (gm_provider_event_id m)), (''direction'', JStr (direction_value (gm_direction m))),
     (''channel'', JStr (channel_value (gm_channel m))), (''from'', JStr (gm_sender m)), (''to'', JList (map JStr (gm_recipients m))),
     (''occurred_at'', JStr (fmt (gm_occurred_at m)))]) (list_recent 50 (in_db i))))]"

fun handle :: "'req app_config \<Rightarrow> int \<Rightarrow> string \<Rightarrow> 'req app_request \<Rightarrow> (app_state, doc response) act" where
  "handle g now i (QueueStatus token) = management_read (ag_env g) token (reply (\<lambda>s.
     contract_doc ''wwcx.messages-outbound-queue-read.v1'' (outbound_queue_status (in_db s) @ [(''mutation_authorized'', JBool False)])))"
| "handle g now i (ReceiptStatus limit token) = management_read (ag_env g) token (reply (\<lambda>s.
     contract_doc ''wwcx.messages-webhook-receipts-read.v1'' (receipt_status (ag_fmt g) limit (in_receipts s) @
       [(''raw_body_retained'', JBool False), (''unverified_request_rows_persisted'', JBool False), (''mutation_authorized'', JBool False)])))"
| "handle g now i (AuditStatus token) = management_read (ag_env g) token (reply (\<lambda>s.
     contract_doc ''wwcx.messages-webhook-audit-read.v1'' (counter_status (ag_fmt g) (in_counters s) @
       [(''storage_model'', JStr ''bounded_aggregate_counters''), (''raw_request_data_retained'', JBool False), (''mutation_authorized'', JBool False)])))"
| "handle g now i (ComplianceStatus limit token) = management_read (ag_env g) token (reply (\<lambda>s.
     contract_doc ''wwcx.messages-compliance-read.v1'' (compliance_status (ag_fmt g) limit (in_db s) @
       [(''auto_reply_enabled'', JBool False), (''regulatory_compliance_claimed'', JBool False), (''mutation_authorized'', JBool False)])))"
| "handle g now i (RecentMessages limit token) = management_read (ag_env g) token (reply (\<lambda>s.
     contract_doc ''wwcx.messages-conversation-read.v1'' (recent_doc (ag_fmt g) limit s)))"
| "handle g now i (OneMessage event_id token) = management_read (ag_env g) token (message_route g event_id)"
| "handle g now i (DeliveryStatus limit token) = management_read (ag_env g) token (\<lambda>s. (Inr (Http_ok (
     contract_doc ''wwcx.messages-delivery-status-read.v1'' (delivery_status (ag_fmt g) limit (delivery_tables s) @ [(''mutation_authorized'', JBool False)]))), s))"
| "handle g now i (Control pause actor reason token) = control_route g now pause actor reason token"
| "handle g now i (Simulate m token) = simulate_route g now m token"
| "handle g now i (SimulateOutbound m token) = outbound_route g now i m token"
| "handle g now i EventCount = reply (\<lambda>s. [(''count'', JInt (event_count (in_db s)))])"
| "handle g now i (Dispatch r token) = dispatch_route g now i r token"
| "handle g now i (Ledger token) = (if token \<noteq> Some (simulator_token (ag_env g)) then ret (Http_error 401 ''invalid simulator token'')
     else reply (ledger_doc (ag_fmt g)))"
| "handle g now i (Webhook name body req) = on_intake (webhook_route (ag_digest g) (ag_providers g) now name i body req)"
| "handle g now i (Delivery name req) = on_delivery (delivery_route (ag_providers g) now name req)"

section \<open>A paused gateway takes nothing in\<close>

definition resumes :: "'req app_config \<Rightarrow> 'req app_request \<Rightarrow> bool" where
  "resumes g q \<longleftrightarrow> (\<exists>actor reason. q = Control False actor reason (Some (getenv (ag_env g) ''WWCX_MANAGEMENT_CONTROL_TOKEN'' ''development-control-only'')))"

definition intake_frozen :: "app_state \<Rightarrow> app_state \<Rightarrow> bool" where
  "intake_frozen s0 s \<longleftrightarrow> (let d0 = in_db (ap_intake s0); d = in_db (ap_intake s) in
     gd_events d = gd_events d0 \<and> gd_jobs d = gd_jobs d0 \<and> gd_suppressions d = gd_suppressions d0 \<and>
     in_receipts (ap_intake s) = in_receipts (ap_intake s0) \<and> (\<exists>c. gd_control d = Some c \<and> ct_paused c))"

lemma frozen_same: "intake_frozen s0 s \<Longrightarrow> ap_intake s' = ap_intake s \<Longrightarrow> intake_frozen s0 s'"
  by (simp add: intake_frozen_def)

lemma frozenD: "intake_frozen s0 s \<Longrightarrow> \<exists>c. gd_control (in_db (ap_intake s)) = Some c \<and> ct_paused c"
  by (auto simp: intake_frozen_def Let_def)

lemma read_routes [simp]: "snd (management_read env token (reply f) s) = s" "snd (reply f s) = s"
  "snd (management_read env token (\<lambda>s. (Inr (h s), s)) s) = s" "snd (management_read env token (message_route g event_id) s) = s"
  by (simp_all add: management_read_def require_token_def ret_def reply_def message_route_def split: option.split)

lemma unless_paused_frozen:
  assumes "intake_frozen s0 s" shows "snd (unless_paused detail a s) = s"
  using frozenD [OF assms] by (auto simp: unless_paused_def)

lemma set_paused_frozen:
  "intake_frozen s0 s \<Longrightarrow> intake_frozen s0 (snd (on_intake (on_events (set_paused fmt now True actor reason)) s))"
  by (auto simp: intake_frozen_def Let_def on_intake_def on_events_def set_paused_def split: option.splits)

lemma handle_frozen:
  assumes frozen: "intake_frozen s0 s" and no: "\<not> resumes g q"
  shows "intake_frozen s0 (snd (handle g now i q s))"
proof (cases q)
  case (Control pause actor reason token)
  have bind: "snd (bindS a (\<lambda>d. ret (Http_ok d)) s) = snd (a s)" for a :: "(app_state, doc) act"
    by (cases "fst (a s)"; cases "a s") (auto simp: bindS_def ret_def)
  show ?thesis
  proof (cases "enabled (ag_env g) ''WWCX_MANAGEMENT_CONTROL_ENABLED'' \<and>
      token = Some (getenv (ag_env g) ''WWCX_MANAGEMENT_CONTROL_TOKEN'' ''development-control-only'')")
    case True
    then have "pause" using no Control by (auto simp: resumes_def)
    then show ?thesis using True Control set_paused_frozen [OF frozen]
      by (simp add: control_route_def require_token_def bind)
  next
    case False
    then show ?thesis using Control frozen by (auto simp: control_route_def require_token_def ret_def)
  qed
next
  case (Webhook name body req)
  have "snd (webhook_route (ag_digest g) (ag_providers g) now name i body req (ap_intake s)) = ap_intake s \<or>
      (\<exists>b out st detail. webhook_route (ag_digest g) (ag_providers g) now name i body req (ap_intake s) = refuse now b out st detail (ap_intake s))"
    using frozenD [OF frozen] by (auto simp: webhook_route_def split: option.split)
  then have "in_db (snd (webhook_route (ag_digest g) (ag_providers g) now name i body req (ap_intake s))) = in_db (ap_intake s) \<and>
      in_receipts (snd (webhook_route (ag_digest g) (ag_providers g) now name i body req (ap_intake s))) = in_receipts (ap_intake s)"
    by (auto simp: refuse_only_counts)
  then show ?thesis using Webhook frozen by (simp add: on_intake_def intake_frozen_def case_prod_beta)
next
  case (Delivery name req)
  then show ?thesis using frozen by (simp add: on_delivery_def intake_frozen_def case_prod_beta Let_def)
qed (use frozen in \<open>simp_all add: unless_paused_frozen [OF frozen] simulate_route_def outbound_route_def dispatch_route_def Let_def ret_def\<close>)

text \<open>
  C26. A paused gateway takes nothing in: whatever requests come, with whatever tokens, as long as none is an
  authorised resume, no message is stored, queued or recorded as a webhook and no suppression changes;
  and the gateway stays paused.
\<close>

theorem paused_gateway_takes_nothing_in:
  assumes "gd_control (in_db (ap_intake s)) = Some c" and "ct_paused c" and "\<forall>(now, i, q) \<in> set calls. \<not> resumes g q"
    and "s' = foldl (\<lambda>s (now, i, q). snd (handle g now i q s)) s calls"
  shows "gd_events (in_db (ap_intake s')) = gd_events (in_db (ap_intake s)) \<and> gd_jobs (in_db (ap_intake s')) = gd_jobs (in_db (ap_intake s)) \<and>
    gd_suppressions (in_db (ap_intake s')) = gd_suppressions (in_db (ap_intake s)) \<and>
    in_receipts (ap_intake s') = in_receipts (ap_intake s) \<and>
    (\<exists>c. gd_control (in_db (ap_intake s')) = Some c \<and> ct_paused c)"
proof -
  have "intake_frozen s (foldl (\<lambda>s (now, i, q). snd (handle g now i q s)) t calls)" if "intake_frozen s t" for t
    using that assms(3)
  proof (induction calls arbitrary: t)
    case (Cons call calls)
    obtain now i q where call: "call = (now, i, q)" by (cases call)
    then have "intake_frozen s (snd (handle g now i q t))" using Cons.prems by (intro handle_frozen) auto
    then show ?case using Cons.IH Cons.prems(2) call by simp
  qed simp
  moreover have "intake_frozen s s" using assms(1,2) by (simp add: intake_frozen_def)
  ultimately have "intake_frozen s s'" using assms(4) by blast
  then show ?thesis unfolding intake_frozen_def Let_def .
qed

text \<open>A dispatch with an encrypted mode and no ciphertext is stored in the clear, whatever its receipt says.\<close>

lemma dispatch_keeps_plaintext: "dr_ciphertext r = None \<Longrightarrow> gm_text (dispatch_message now i r) = dr_text r"
  by (simp add: dispatch_message_def)

section \<open>A concrete run\<close>

definition demo_app :: "bool app_config" where
  "demo_app = \<lparr>ag_env = (\<lambda>_. None), ag_providers = demo_provider, ag_digest = (\<lambda>b. b), ag_fmt = (\<lambda>_. ''t''), ag_parse_uuid = Some\<rparr>"

definition demo_paused :: app_state where
  "demo_paused = \<lparr>ap_intake = demo_intake\<lparr>in_db := (migrated_db 0)\<lparr>gd_control := Some \<lparr>ct_paused = True, ct_updated_at = 0,
     ct_updated_by = ''ops'', ct_reason = ''maintenance''\<rparr>\<rparr>\<rparr>, ap_delivery_events = [], ap_delivery_states = []\<rparr>"

theorem paused_gateway_takes_nothing_in_witness:
  "gd_events (in_db (ap_intake (foldl (\<lambda>s (now, i, q). snd (handle demo_app now i q s)) demo_paused
     [(1, ''r1'', Webhook ''simulator'' ''body'' True), (2, ''r2'', Simulate demo_webhook (Some ''development-only''))]))) = []"
proof -
  let ?calls = "[(1 :: int, ''r1'', Webhook ''simulator'' ''body'' True), (2, ''r2'', Simulate demo_webhook (Some ''development-only''))]"
  have "gd_control (in_db (ap_intake demo_paused)) = Some \<lparr>ct_paused = True, ct_updated_at = 0, ct_updated_by = ''ops'', ct_reason = ''maintenance''\<rparr>"
    "\<forall>(now, i, q) \<in> set ?calls. \<not> resumes demo_app q" by (simp_all add: demo_paused_def resumes_def)
  from paused_gateway_takes_nothing_in [OF this(1) _ this(2) refl] show ?thesis by (simp add: demo_paused_def migrated_db_def)
qed

end
