(* ===== verification/GatewayQuarantine.thy ===== *)
theory GatewayQuarantine
  imports GatewayMedia
begin

text \<open>
  What the media quarantine promises: what it stored verifies against its digest, and a clean result is
  recorded only of content that verified before and after the scan.
\<close>

section \<open>Reading back\<close>

lemma hex_digit_lower: "hex_digit c \<Longrightarrow> hex_digit (lower_char c) \<and> lower_char (lower_char c) = lower_char c"
  by (auto simp: hex_digit_def char_in_def lower_char_def Let_def)

lemma normalize_digest_idem: "normalize_digest v = Inr d \<Longrightarrow> normalize_digest (Some d) = Inr d"
  using hex_digit_lower by (auto simp: normalize_digest_def lower_def list_all_iff split: option.splits if_splits)

lemma digest_from_id: "digest_from_attachment_id (id_prefix @ d) = normalize_digest (Some d)"
  by (simp add: digest_from_attachment_id_def)

lemma read_private_dset [simp]: "read_private (dset files d (private_file c)) k = (if k = d then Inr c else read_private files k)"
  by (simp add: read_private_def private_file_def)

lemma read_json_write [simp]: "read_json_file (write_json_file d doc files) k = (if k = d then Inr doc else read_json_file files k)"
  by (simp add: read_json_file_def write_json_file_def)

lemma audit_line_is:
  "\<exists>line. snd (audit_line g ev now es s) = s\<lparr>qu_audit := qu_audit s @ line\<rparr>"
  by (auto simp: audit_line_def faulty_write_def split: fault.split intro: exI [of _ "[]"])

lemma audit_line_keeps [simp]: "qu_blobs (snd (audit_line g ev now es s)) = qu_blobs s" "qu_metadata (snd (audit_line g ev now es s)) = qu_metadata s"
  "qu_scans (snd (audit_line g ev now es s)) = qu_scans s" "qu_tmp (snd (audit_line g ev now es s)) = qu_tmp s"
  using audit_line_is [of g ev now es s] by auto

lemma faulty_write_cases:
  assumes "faulty_write g name change s = (r, s')"
  obtains (unwritten) "r = Inl storage_error" "s' = s" | (unreported) "r = Inl storage_error" "s' = change s"
    | (written) "r = Inr ()" "s' = change s"
  using assms by (auto simp: faulty_write_def split: fault.splits)

text \<open>The faults of a call do not matter to what only reads.\<close>

lemma faults_are_for_writes [simp]:
  "verify_blob (g\<lparr>qg_fault := F\<rparr>) i s = verify_blob g i s" "read_record (g\<lparr>qg_fault := F\<rparr>) now i s = read_record g now i s"
  by (simp_all add: verify_blob_def read_record_def parse_iso_def cong: option.case_cong if_cong)

section \<open>The invariant\<close>

definition media_blob_ok :: "quarantine_config \<Rightarrow> media_store \<Rightarrow> string \<Rightarrow> bool" where
  "media_blob_ok g s d \<longleftrightarrow> normalize_digest (Some d) = Inr d \<and>
     (\<exists>content. read_private (qu_blobs s) d = Inr content \<and> qg_sha g content = d \<and> int (length content) \<le> qg_max_bytes g)"

definition media_metadata_ok :: "quarantine_config \<Rightarrow> media_store \<Rightarrow> string \<Rightarrow> bool" where
  "media_metadata_ok g s d \<longleftrightarrow>
     (\<exists>content metadata t. read_private (qu_blobs s) d = Inr content \<and> read_json_file (qu_metadata s) d = Inr metadata \<and>
        jget metadata ''byte_count'' = JInt (int (length content)) \<and> jget metadata ''sha256'' = JStr d \<and>
        dget metadata ''retention_expires_at'' = Some (JStr t) \<and> qg_parse_iso g t \<noteq> None)"

definition media_scan_ok :: "media_store \<Rightarrow> string \<Rightarrow> bool" where
  "media_scan_ok s d \<longleftrightarrow> (\<exists>scan. read_json_file (qu_scans s) d = Inr scan \<and> jget scan ''sha256'' = JStr d)"

definition media_entry_ok :: "quarantine_config \<Rightarrow> media_store \<Rightarrow> string \<Rightarrow> bool" where
  "media_entry_ok g s d \<longleftrightarrow> media_blob_ok g s d \<and> media_metadata_ok g s d"

definition quarantine_ok :: "quarantine_config \<Rightarrow> media_store \<Rightarrow> bool" where
  "quarantine_ok g s \<longleftrightarrow> (\<forall>d. (dget (qu_blobs s) d \<noteq> None \<longrightarrow> media_blob_ok g s d) \<and>
     (dget (qu_metadata s) d \<noteq> None \<longrightarrow> dget (qu_blobs s) d \<noteq> None \<and> media_metadata_ok g s d) \<and>
     (dget (qu_scans s) d \<noteq> None \<longrightarrow> dget (qu_metadata s) d \<noteq> None \<and> media_scan_ok s d))"

lemmas media_ok_defs = media_blob_ok_def media_metadata_ok_def media_scan_ok_def media_entry_ok_def

lemma quarantine_ok_faults [simp]: "quarantine_ok (g\<lparr>qg_fault := F\<rparr>) s = quarantine_ok g s"
  by (simp add: quarantine_ok_def media_ok_defs)

lemma entry_verifies:
  assumes "media_entry_ok g s d" shows "verify_blob g (id_prefix @ d) s = Inr d"
  using assms by (auto simp: media_ok_defs verify_blob_def digest_from_id int_instance_def)

lemma entry_record:
  assumes "media_entry_ok g s d"
  obtains r where "read_record g now (id_prefix @ d) s = Inr r" "jget r ''release_authorized'' = JBool False"
proof -
  obtain metadata t where e: "read_json_file (qu_metadata s) d = Inr metadata"
    "dget metadata ''retention_expires_at'' = Some (JStr t)" "qg_parse_iso g t \<noteq> None" "normalize_digest (Some d) = Inr d"
    using assms by (auto simp: media_ok_defs)
  then show thesis using entry_verifies [OF assms]
    by (auto simp: read_record_def digest_from_id str_field_def parse_iso_def jget_def Let_def intro: that)
qed

lemma metadata_entry: "quarantine_ok g s \<Longrightarrow> dget (qu_metadata s) d \<noteq> None \<Longrightarrow> media_entry_ok g s d"
  by (simp add: quarantine_ok_def media_entry_ok_def)

lemma verified_metadata: "verify_blob g (id_prefix @ d) s = Inr d \<Longrightarrow> dget (qu_metadata s) d \<noteq> None"
  by (auto simp: verify_blob_def digest_from_id bindE_Inr_iff read_json_file_def read_private_def split: option.splits if_splits)

lemma quarantine_ok_same:
  "quarantine_ok g s \<Longrightarrow> qu_blobs s' = qu_blobs s \<Longrightarrow> qu_metadata s' = qu_metadata s \<Longrightarrow> qu_scans s' = qu_scans s \<Longrightarrow> quarantine_ok g s'"
  by (simp add: quarantine_ok_def media_ok_defs)

text \<open>The three writes of an ingest, each of which keeps the invariant.\<close>

lemma dget_write_json: "dget (write_json_file d doc files) k = (if k = d then Some (private_file (Some (JObj doc))) else dget files k)"
  by (simp add: write_json_file_def)

lemma linked_ok:
  assumes inv: "quarantine_ok g s" and d: "normalize_digest (Some d) = Inr d" "qg_sha g data = d" "int (length data) \<le> qg_max_bytes g"
    and new: "dget (qu_blobs s) d = None"
  shows "quarantine_ok g (s\<lparr>qu_blobs := dset (qu_blobs s) d (private_file data)\<rparr>)"
proof -
  let ?s = "s\<lparr>qu_blobs := dset (qu_blobs s) d (private_file data)\<rparr>"
  have none: "dget (qu_metadata s) d = None" "dget (qu_scans s) d = None" using inv new unfolding quarantine_ok_def by blast+
  have "media_blob_ok g ?s d" using d by (simp add: media_blob_ok_def)
  then show ?thesis using inv none by (auto simp: quarantine_ok_def media_ok_defs)
qed

lemma described_ok:
  assumes inv: "quarantine_ok g s" and blob: "read_private (qu_blobs s) d = Inr content" "dget (qu_blobs s) d \<noteq> None"
    and doc: "jget m ''byte_count'' = JInt (int (length content))" "jget m ''sha256'' = JStr d"
      "dget m ''retention_expires_at'' = Some (JStr t)" "qg_parse_iso g t \<noteq> None"
  shows "quarantine_ok g (s\<lparr>qu_metadata := write_json_file d m (qu_metadata s)\<rparr>)"
  using inv blob doc unfolding quarantine_ok_def media_ok_defs by (auto simp: dget_write_json)

lemma marked_ok:
  assumes inv: "quarantine_ok g s" and "dget (qu_metadata s) d \<noteq> None" "jget sc ''sha256'' = JStr d"
  shows "quarantine_ok g (s\<lparr>qu_scans := write_json_file d sc (qu_scans s)\<rparr>)"
  using assms unfolding quarantine_ok_def media_ok_defs by (auto simp: dget_write_json)

lemma take_chunks_is:
  "n \<le> limit \<Longrightarrow> take_chunks limit n cs = (data, over) \<Longrightarrow>
     over = (n + int (length (concat cs)) > limit) \<and> (\<not> over \<longrightarrow> data = concat cs)"
proof (induction cs arbitrary: n data over)
  case (Cons c cs)
  show ?case
  proof (cases "n + int (length c) > limit \<and> c \<noteq> []")
    case True
    then show ?thesis using Cons.prems by auto
  next
    case False
    then have "n + int (length c) \<le> limit" using Cons.prems(1) by (cases c) auto
    moreover obtain rest o1 where r: "take_chunks limit (n + int (length c)) cs = (rest, o1)" by fastforce
    ultimately show ?thesis using Cons.IH [of "n + int (length c)" rest o1] Cons.prems(2) False by (auto split: if_splits)
  qed
qed auto

text \<open>Ingest, on every branch.\<close>

definition stored_result :: "string \<Rightarrow> int \<Rightarrow> ingest_result" where
  "stored_result d n = \<lparr>ig_attachment_id = id_prefix @ d, ig_sha256 = d, ig_byte_count = n, ig_duplicate = False,
     ig_state = ''quarantined_pending_scan''\<rparr>"

lemma finish_fresh_is:
  assumes m: "m = metadata_doc g now (id_prefix @ d) d n ctype name"
    and sc: "sc = scan_doc (id_prefix @ d) d ''quarantined_pending_scan'' None None None"
    and run: "finish_fresh g now (id_prefix @ d) d n ctype name s = (r, s')"
  obtains (undescribed) "r = Inl storage_error" "s' = s"
    | (described) "r = Inl storage_error" "s' = s\<lparr>qu_metadata := write_json_file d m (qu_metadata s)\<rparr>"
    | (marked) line where "r = Inl storage_error \<or> r = Inr (stored_result d n)"
        "s' = s\<lparr>qu_metadata := write_json_file d m (qu_metadata s), qu_scans := write_json_file d sc (qu_scans s), qu_audit := qu_audit s @ line\<rparr>"
proof -
  let ?s1 = "s\<lparr>qu_metadata := write_json_file d m (qu_metadata s)\<rparr>"
  let ?s2 = "?s1\<lparr>qu_scans := write_json_file d sc (qu_scans s)\<rparr>"
  obtain r1 t1 where w1: "write_metadata g d m s = (r1, t1)" by fastforce
  obtain r2 t2 where w2: "write_scan g d sc ?s1 = (r2, t2)" by fastforce
  note run' = run [unfolded finish_fresh_def m [symmetric] sc [symmetric] bindS_def w1 prod.case]
  show ?thesis
  proof (cases rule: faulty_write_cases [OF w1 [unfolded write_metadata_def]])
    case 3
    note run2 = run' [unfolded 3 sum.case w2 prod.case]
    show ?thesis
    proof (cases rule: faulty_write_cases [OF w2 [unfolded write_scan_def]])
      case 3
      then obtain line where "s' = ?s2\<lparr>qu_audit := qu_audit s @ line\<rparr>" "r = Inl storage_error \<or> r = Inr (stored_result d n)"
        using run2 by (auto simp: audit_line_def faulty_write_def ret_def stored_result_def split: fault.splits
            intro: that [of "[]"])
      then show ?thesis by (intro marked [where line = line]) simp_all
    next
      case 2
      then show ?thesis using run2 by (intro marked [where line = "[]"]) auto
    qed (use run2 in \<open>auto intro: described\<close>)
  qed (use run' in \<open>auto intro: undescribed described\<close>)
qed

lemma finish_duplicate_is:
  assumes "finish_duplicate g now i d n s = (r, s')"
  shows "(\<exists>line. s' = s\<lparr>qu_audit := qu_audit s @ line\<rparr>) \<and>
    (\<forall>v. r = Inr v \<longrightarrow> ig_attachment_id v = i \<and> ig_sha256 v = d \<and> ig_duplicate v \<and> (\<exists>x. verify_blob g i s = Inr x))"
proof -
  have "\<exists>line. s = s\<lparr>qu_audit := qu_audit s @ line\<rparr>" by (rule exI [of _ "[]"]) simp
  then show ?thesis using assms
    by (auto simp: finish_duplicate_def bindS_def pure_act_def Let_def ret_def audit_line_def faulty_write_def
        split: sum.splits if_splits fault.splits)
qed

lemma verified_digest: "verify_blob g (id_prefix @ d) s = Inr x \<Longrightarrow> normalize_digest v = Inr d \<Longrightarrow> x = d"
  by (auto simp: verify_blob_def digest_from_id normalize_digest_idem bindE_Inr_iff split: option.splits if_splits)

lemma media_ingest_cases:
  assumes limit: "1 \<le> qg_max_bytes g" and run: "ingest_chunks g now chunks expected ctype filename s = (r, s')"
  obtains (held) files line where "s' = s\<lparr>qu_tmp := qu_tmp s @ files, qu_audit := qu_audit s @ line\<rparr>"
      "\<And>v. r = Inr v \<Longrightarrow> \<exists>d. ig_attachment_id v = id_prefix @ d \<and> ig_sha256 v = d \<and> ig_duplicate v \<and> verify_blob g (id_prefix @ d) s = Inr d"
  | (fresh) d ntype s1 where "normalize_digest expected = Inr d" "normalize_content_type ctype = Inr ntype"
      "qg_sha g (concat chunks) = d" "int (length (concat chunks)) \<le> qg_max_bytes g" "dget (qu_blobs s) d = None"
      "s1 = s\<lparr>qu_blobs := dset (qu_blobs s) d (private_file (concat chunks))\<rparr>"
      "r = Inl storage_error \<and> s' = s1 \<or>
       finish_fresh g now (id_prefix @ d) d (int (length (concat chunks))) ntype (safe_filename filename) s1 = (r, s')"
proof (cases "normalize_digest expected")
  case (Inl e)
  then show ?thesis using run by (intro held [where files = "[]" and line = "[]"]) (auto simp: ingest_chunks_def bindS_def pure_act_def)
next
  case d: (Inr d)
  show ?thesis
  proof (cases "normalize_content_type ctype")
    case (Inl e)
    then show ?thesis using run d by (intro held [where files = "[]" and line = "[]"]) (auto simp: ingest_chunks_def bindS_def pure_act_def)
  next
    case t: (Inr ntype)
    obtain data over where tk: "take_chunks (qg_max_bytes g) 0 chunks = (data, over)" by fastforce
    have ov: "over = (int (length (concat chunks)) > qg_max_bytes g)" "\<not> over \<Longrightarrow> data = concat chunks"
      using take_chunks_is [OF _ tk] limit by auto
    note run' = run [unfolded ingest_chunks_def bindS_def [of "pure_act _"] pure_act_def d t sum.case prod.case Let_def tk]
    consider (failed) "qg_fault g ''temporary'' = Fails_before"
      | (leftover) "qg_fault g ''temporary'' \<noteq> Fails_before" "over \<or> qg_fault g ''temporary'' = Fails_after \<or> qg_sha g data = d \<and> qg_fault g ''directories'' \<noteq> Works"
      | (other) "qg_fault g ''temporary'' = Works" "\<not> over" "qg_sha g data \<noteq> d"
      | (linked) "qg_fault g ''temporary'' = Works" "\<not> over" "qg_sha g data = d" "qg_fault g ''directories'' = Works"
      by (cases "qg_fault g ''temporary''") auto
    then show ?thesis
    proof cases
      case failed
      then show ?thesis using run' by (intro held [where files = "[]" and line = "[]"]) auto
    next
      case leftover
      then show ?thesis using run' by (intro held [where files = "[data]" and line = "[]"]) (auto split: if_splits)
    next
      case other
      let ?es = "[(''attachment_id'', JStr (id_prefix @ d)), (''expected_sha256'', JStr d), (''actual_sha256'', JStr (qg_sha g data)),
        (''byte_count'', JInt (int (length data))), (''release_authorized'', JBool False)]"
      obtain line where l: "snd (audit_line g ''mms_quarantine_digest_mismatch'' now ?es s) = s\<lparr>qu_audit := qu_audit s @ line\<rparr>"
        using audit_line_is by blast
      have "s' = s\<lparr>qu_audit := qu_audit s @ line\<rparr>" "\<exists>e. r = Inl e"
        using run' other l by (auto simp: bindS_def raise_err_def split: prod.splits sum.splits)
      then show ?thesis by (intro held [where files = "[]" and line = line]) auto
    next
      case linked
      note data = ov(2) [OF linked(2)]
      let ?i = "id_prefix @ d"
      let ?s1 = "s\<lparr>qu_blobs := dset (qu_blobs s) d (private_file (concat chunks))\<rparr>"
      have step: "bindS (link_blob g d (concat chunks)) (\<lambda>duplicate. if duplicate then finish_duplicate g now ?i d (int (length (concat chunks)))
          else finish_fresh g now ?i d (int (length (concat chunks))) ntype (safe_filename filename)) s = (r, s')"
        using run' linked unfolding data [symmetric] by simp
      consider "qg_fault g ''link'' = Fails_before" | "qg_fault g ''link'' \<noteq> Fails_before" "dget (qu_blobs s) d \<noteq> None"
        | "qg_fault g ''link'' \<noteq> Fails_before" "dget (qu_blobs s) d = None" by blast
      then show ?thesis
      proof cases
        case 1
        then show ?thesis using step by (intro held [where files = "[]" and line = "[]"]) (auto simp: bindS_def link_blob_def)
      next
        case 2
        then have dup: "finish_duplicate g now ?i d (int (length (concat chunks))) s = (r, s')"
          using step by (simp add: bindS_def link_blob_def)
        obtain line where "s' = s\<lparr>qu_audit := qu_audit s @ line\<rparr>" using finish_duplicate_is [OF dup] by blast
        moreover have "\<exists>k. ig_attachment_id v = id_prefix @ k \<and> ig_sha256 v = k \<and> ig_duplicate v \<and> verify_blob g (id_prefix @ k) s = Inr k"
          if "r = Inr v" for v using finish_duplicate_is [OF dup] that verified_digest [OF _ d] by blast
        ultimately show ?thesis by (intro held [where files = "[]" and line = line]) auto
      next
        case 3
        have "r = Inl storage_error \<and> s' = ?s1 \<or>
            finish_fresh g now ?i d (int (length (concat chunks))) ntype (safe_filename filename) ?s1 = (r, s')"
          using step 3 by (auto simp: bindS_def link_blob_def split: if_splits)
        then show ?thesis using linked data ov(1) 3(2) d t by (intro fresh [of d ntype ?s1]) auto
      qed
    qed
  qed
qed

section \<open>The quarantine as a machine\<close>

text \<open>A scanner that only reads: its identity, and what it answers or raises.\<close>

definition reading_scanner :: "string option \<times> (string \<Rightarrow> string option \<Rightarrow> rat \<Rightarrow> string outcome) \<Rightarrow> media_scanner" where
  "reading_scanner sc = \<lparr>ms_id = fst sc, ms_scan = (\<lambda>d ctype timeout. pure_act (snd sc d ctype timeout))\<rparr>"

text \<open>A call carries the faults that its writes meet.\<close>

datatype media_op =
    MIngest "string \<Rightarrow> fault" int media_item "string list" "string option"
  | MScan "string \<Rightarrow> fault" int string "(string option \<times> (string \<Rightarrow> string option \<Rightarrow> rat \<Rightarrow> string outcome)) option" rat

fun media_step :: "quarantine_config \<Rightarrow> media_store \<Rightarrow> media_op \<Rightarrow> media_store" where
  "media_step g s (MIngest F now item chunks filename) = snd (ingest_media_blob (g\<lparr>qg_fault := F\<rparr>) now item chunks filename s)"
| "media_step g s (MScan F now i scanner timeout) =
     snd (scan_stored_media (g\<lparr>qg_fault := F\<rparr>) now i (map_option reading_scanner scanner) timeout s)"

definition readable_times :: "quarantine_config \<Rightarrow> bool" where
  "readable_times g \<longleftrightarrow> 1 \<le> qg_max_bytes g \<and> (\<forall>t. qg_parse_iso g (qg_iso g t) \<noteq> None)"

lemma readable_faults [simp]: "readable_times (g\<lparr>qg_fault := F\<rparr>) = readable_times g"
  by (simp add: readable_times_def)

lemma metadata_doc_fields:
  "jget (metadata_doc g now i d n ctype name) ''byte_count'' = JInt n" "jget (metadata_doc g now i d n ctype name) ''sha256'' = JStr d"
  "dget (metadata_doc g now i d n ctype name) ''retention_expires_at'' = Some (JStr (qg_iso g (now + qg_retention_days g * 86400 * 1000000)))"
  by (simp_all add: metadata_doc_def jget_def)

text \<open>What one ingest does to the invariant, to the blobs and to the metadata, and what its result says.\<close>

lemma fresh_ingest_ok:
  assumes g: "readable_times g" and inv: "quarantine_ok g s1" and blob: "read_private (qu_blobs s1) d = Inr data" "dget (qu_blobs s1) d \<noteq> None"
    and run: "finish_fresh g now (id_prefix @ d) d (int (length data)) ctype name s1 = (r, s')"
  shows "quarantine_ok g s' \<and> qu_blobs s' = qu_blobs s1 \<and> (\<forall>k. k \<noteq> d \<longrightarrow> dget (qu_metadata s') k = dget (qu_metadata s1) k) \<and>
    (r = Inl storage_error \<or> r = Inr (stored_result d (int (length data))) \<and> dget (qu_metadata s') d \<noteq> None)"
proof -
  define m where "m = metadata_doc g now (id_prefix @ d) d (int (length data)) ctype name"
  define sc where "sc = scan_doc (id_prefix @ d) d ''quarantined_pending_scan'' None None None"
  let ?s1 = "s1\<lparr>qu_metadata := write_json_file d m (qu_metadata s1)\<rparr>"
  let ?s2 = "?s1\<lparr>qu_scans := write_json_file d sc (qu_scans ?s1)\<rparr>"
  have ok1: "quarantine_ok g ?s1" using g
    by (intro described_ok [OF inv blob]) (auto simp: m_def metadata_doc_fields readable_times_def)
  have ok2: "quarantine_ok g ?s2"
    by (rule marked_ok [OF ok1]) (simp_all add: dget_write_json sc_def scan_doc_def jget_def)
  show ?thesis
  proof (cases rule: finish_fresh_is [OF m_def sc_def run])
    case (3 line)
    have "quarantine_ok g s'" by (rule quarantine_ok_same [OF ok2]) (simp_all add: 3(2))
    then show ?thesis using 3 by (auto simp: dget_write_json)
  qed (use inv ok1 in \<open>auto simp: dget_write_json\<close>)
qed

lemma media_ingest_effect:
  assumes g: "readable_times g" and inv: "quarantine_ok g s"
    and run: "ingest_chunks g now chunks expected ctype filename s = (r, s')"
  shows "quarantine_ok g s' \<and> (\<forall>k. dget (qu_metadata s) k \<noteq> None \<longrightarrow> dget (qu_metadata s') k \<noteq> None) \<and>
    (\<forall>k f. dget (qu_blobs s) k = Some f \<longrightarrow> dget (qu_blobs s') k = Some f) \<and>
    (\<forall>v. r = Inr v \<longrightarrow> (\<exists>d. ig_attachment_id v = id_prefix @ d \<and> ig_sha256 v = d \<and> dget (qu_metadata s') d \<noteq> None)) \<and>
    (\<forall>k. dget (qu_blobs s) k = None \<and> dget (qu_blobs s') k \<noteq> None \<and> dget (qu_metadata s') k = None \<longrightarrow>
       r = Inl storage_error \<and> normalize_digest expected = Inr k)"
proof -
  have limit: "1 \<le> qg_max_bytes g" using g by (simp add: readable_times_def)
  show ?thesis
  proof (cases rule: media_ingest_cases [OF limit run])
    case (1 files line)
    have "quarantine_ok g s'" by (rule quarantine_ok_same [OF inv]) (simp_all add: 1(1))
    moreover have "\<exists>d. ig_attachment_id v = id_prefix @ d \<and> ig_sha256 v = d \<and> dget (qu_metadata s') d \<noteq> None" if "r = Inr v" for v
      using 1(2) [OF that] verified_metadata [of g _ s] 1(1) by auto
    ultimately show ?thesis using 1(1) by auto
  next
    case (2 d ntype s1)
    have ok1: "quarantine_ok g s1" unfolding 2(6)
      by (rule linked_ok [OF inv]) (use 2(3-5) normalize_digest_idem [OF 2(1)] in auto)
    have none: "dget (qu_metadata s) d = None" using inv 2(5) unfolding quarantine_ok_def by blast
    have blob: "read_private (qu_blobs s1) d = Inr (concat chunks)" "dget (qu_blobs s1) d \<noteq> None" using 2(6) by simp_all
    from 2(7) show ?thesis
    proof
      assume failed: "r = Inl storage_error \<and> s' = s1"
      then show ?thesis using ok1 2 by (auto split: if_splits)
    next
      assume "finish_fresh g now (id_prefix @ d) d (int (length (concat chunks))) ntype (safe_filename filename) s1 = (r, s')"
      note e = fresh_ingest_ok [OF g ok1 blob this]
      have blobs: "qu_blobs s' = dset (qu_blobs s) d (private_file (concat chunks))" using e 2(6) by simp
      have meta: "dget (qu_metadata s') k = dget (qu_metadata s) k" if "k \<noteq> d" for k using e 2(6) that by simp
      have "dget (qu_metadata s') k \<noteq> None" if "dget (qu_metadata s) k \<noteq> None" for k using meta [of k] none that by (cases "k = d") auto
      moreover have "dget (qu_blobs s') k = Some f" if "dget (qu_blobs s) k = Some f" for k f using that 2(5) by (auto simp: blobs)
      moreover have "r = Inl storage_error \<and> normalize_digest expected = Inr k"
        if "dget (qu_blobs s) k = None \<and> dget (qu_blobs s') k \<noteq> None \<and> dget (qu_metadata s') k = None" for k
      proof -
        have "k = d" using that by (auto simp: blobs split: if_splits)
        then show ?thesis using that e 2(1) by auto
      qed
      moreover have "\<exists>d. ig_attachment_id v = id_prefix @ d \<and> ig_sha256 v = d \<and> dget (qu_metadata s') d \<noteq> None" if "r = Inr v" for v
        using e that by (auto simp: stored_result_def)
      ultimately show ?thesis using e by blast
    qed
  qed
qed

lemma record_scan_state_is:
  assumes "record_scan_state g now i state verdict scanner s = (r, s')"
  obtains (refused) e where "r = Inl e" "s' = s"
  | (marked) d sid seen line where "state \<in> scan_states" "digest_from_attachment_id i = Inr d" "verify_blob g i s = Inr d"
      "r = Inl storage_error \<or> r = read_record g now i s'"
      "s' = s\<lparr>qu_scans := write_json_file d (scan_doc i d state verdict sid seen) (qu_scans s), qu_audit := qu_audit s @ line\<rparr>"
proof (cases "state \<in> scan_states")
  case False
  then show ?thesis using assms by (intro refused) (auto simp: record_scan_state_def)
next
  case st: True
  show ?thesis
  proof (cases "digest_from_attachment_id i")
    case (Inl e)
    then show ?thesis using assms st by (intro refused) (auto simp: record_scan_state_def bindS_def pure_act_def)
  next
    case d: (Inr d)
    show ?thesis
    proof (cases "verify_blob g i s")
      case (Inl e)
      then show ?thesis using assms st d by (intro refused) (auto simp: record_scan_state_def bindS_def pure_act_def)
    next
      case v: (Inr d1)
      then have "d1 = d" using d by (auto simp: verify_blob_def bindE_Inr_iff split: option.splits if_splits)
      note v = v [unfolded this]
      show ?thesis
      proof (cases "normalize_scanner_id scanner")
        case (Inl e)
        then show ?thesis using assms st d v by (intro refused) (auto simp: record_scan_state_def bindS_def pure_act_def)
      next
        case (Inr sid)
        define seen where "seen = (if state \<in> {''quarantined_pending_scan'', ''quarantined_scanner_unavailable''} then None else Some (qg_iso g now))"
        define es where "es = [(''attachment_id'', JStr i), (''sha256'', JStr d), (''state'', JStr state), (''verdict'', opt_str verdict),
          (''scanner_id'', opt_str sid), (''release_authorized'', JBool False)]"
        let ?s1 = "s\<lparr>qu_scans := write_json_file d (scan_doc i d state verdict sid seen) (qu_scans s)\<rparr>"
        obtain r1 t1 where w: "write_scan g d (scan_doc i d state verdict sid seen) s = (r1, t1)" by fastforce
        obtain r2 t2 where a: "audit_line g ''mms_quarantine_scan_state'' now es ?s1 = (r2, t2)" by fastforce
        have run: "bindS (write_scan g d (scan_doc i d state verdict sid seen)) (\<lambda>_.
            bindS (audit_line g ''mms_quarantine_scan_state'' now es) (\<lambda>_ s. (read_record g now i s, s))) s = (r, s')"
          using assms st d v Inr unfolding seen_def es_def
          by (simp add: record_scan_state_def bindS_def [of "pure_act _"] pure_act_def Let_def)
        show ?thesis
        proof (cases rule: faulty_write_cases [OF w [unfolded write_scan_def]])
          case 1
          then show ?thesis using run w by (intro refused) (auto simp: bindS_def)
        next
          case 2
          then have "r = Inl storage_error" "s' = ?s1" using run w by (auto simp: bindS_def)
          then show ?thesis using st d v by (intro marked [where sid = sid and seen = seen and line = "[]"]) auto
        next
          case 3
          then have rest: "bindS (audit_line g ''mms_quarantine_scan_state'' now es) (\<lambda>_ s. (read_record g now i s, s)) ?s1 = (r, s')"
            using run w by (simp add: bindS_def)
          obtain line where l: "t2 = ?s1\<lparr>qu_audit := qu_audit ?s1 @ line\<rparr>"
            using audit_line_is [of g "''mms_quarantine_scan_state''" now es ?s1] a by auto
          have "r = Inl storage_error \<or> r = read_record g now i s'" "s' = t2"
            using rest a faulty_write_cases [OF a [unfolded audit_line_def]] by (auto simp: bindS_def split: sum.splits)
          then show ?thesis using st d v l by (intro marked [where sid = sid and seen = seen and line = line]) auto
        qed
      qed
    qed
  qed
qed

lemma record_scan_state_ok:
  assumes inv: "quarantine_ok g s"
  shows "quarantine_ok g (snd (record_scan_state g now i state verdict scanner s))"
    "qu_blobs (snd (record_scan_state g now i state verdict scanner s)) = qu_blobs s"
    "qu_metadata (snd (record_scan_state g now i state verdict scanner s)) = qu_metadata s"
proof -
  obtain r s' where run: "record_scan_state g now i state verdict scanner s = (r, s')" by fastforce
  have "quarantine_ok g s' \<and> qu_blobs s' = qu_blobs s \<and> qu_metadata s' = qu_metadata s"
  proof (cases rule: record_scan_state_is [OF run])
    case (2 d sid seen line)
    have "dget (qu_metadata s) d \<noteq> None"
      using 2(3) by (auto simp: verify_blob_def bindE_Inr_iff read_json_file_def read_private_def split: option.splits if_splits)
    then have "quarantine_ok g (s\<lparr>qu_scans := write_json_file d (scan_doc i d state verdict sid seen) (qu_scans s)\<rparr>)"
      by (intro marked_ok [OF inv]) (simp_all add: scan_doc_def jget_def)
    then have "quarantine_ok g s'" by (rule quarantine_ok_same) (simp_all add: 2(5))
    then show ?thesis by (simp add: 2(5))
  qed (use inv in simp)
  then show "quarantine_ok g (snd (record_scan_state g now i state verdict scanner s))"
    "qu_blobs (snd (record_scan_state g now i state verdict scanner s)) = qu_blobs s"
    "qu_metadata (snd (record_scan_state g now i state verdict scanner s)) = qu_metadata s" using run by simp_all
qed

lemma recorded_state:
  assumes "record_scan_state g now i state verdict scanner s = (Inr doc, s')"
  shows "jget doc ''state'' = JStr state"
proof (cases rule: record_scan_state_is [OF assms])
  case (2 d sid seen line)
  then have "read_record g now i s' = Inr doc" "read_json_file (qu_scans s') d = Inr (scan_doc i d state verdict sid seen)" by auto
  then show ?thesis using 2(2)
    by (auto simp: read_record_def Let_def bindE_Inr_iff scan_doc_def jget_def jget_default_def)
qed simp

lemma reading_scan_keeps: "snd (guarded_scan g i (reading_scanner sc) rd timeout s) = s"
proof -
  have keeps: "snd (bindS a f s) = s" if "snd (a s) = s" "\<And>v. snd (f v s) = s" for a f and s :: media_store
    using that by (cases "fst (a s)"; cases "a s") (auto simp: bindS_def)
  show ?thesis unfolding guarded_scan_def Let_def
    by (intro keeps) (simp_all add: reading_scanner_def pure_act_def ret_def)
qed

lemma scan_ends:
  assumes P: "P s" "\<And>state verdict sid. P (snd (record_scan_state g now i state verdict sid s))"
  shows "P (snd (scan_stored_media g now i (map_option reading_scanner scanner) timeout s))"
proof -
  have "P (snd (case guarded_scan g i (reading_scanner sc) rd timeout s of
      (Inl e, s1) \<Rightarrow> if e = scanner_unavailable then record_scan_state g now i ''quarantined_scanner_unavailable'' None sid s1
        else if e = timeout_error then record_scan_state g now i ''quarantined_scan_timeout'' (Some ''timeout'') sid s1
        else if e = integrity_error then (Inr (integrity_failure i sid), s1)
        else record_scan_state g now i ''quarantined_scan_error'' (Some ''error'') sid s1
    | (Inr verdict, s1) \<Rightarrow> if verdict = ''clean'' then record_scan_state g now i ''scanned_clean_held'' (Some ''clean'') sid s1
        else if verdict = ''malicious'' then record_scan_state g now i ''quarantined_malicious'' (Some ''malicious'') sid s1
        else record_scan_state g now i ''quarantined_scan_error'' (Some ''unexpected'') sid s1))" for sc rd sid
    using reading_scan_keeps [of g i sc rd timeout s] P by (auto split: prod.split sum.split)
  then show ?thesis using P by (auto simp: scan_stored_media_def Let_def split: option.split sum.split)
qed

text \<open>What one call does, whatever faults its writes meet.\<close>

lemma media_step_effect:
  assumes g: "readable_times g" and inv: "quarantine_ok g s"
  shows "quarantine_ok g (media_step g s opn) \<and>
    (\<forall>k. dget (qu_metadata s) k \<noteq> None \<longrightarrow> dget (qu_metadata (media_step g s opn)) k \<noteq> None) \<and>
    (\<forall>k f. dget (qu_blobs s) k = Some f \<longrightarrow> dget (qu_blobs (media_step g s opn)) k = Some f) \<and>
    (\<forall>k. dget (qu_blobs s) k = None \<and> dget (qu_blobs (media_step g s opn)) k \<noteq> None \<and> dget (qu_metadata (media_step g s opn)) k = None \<longrightarrow>
      (\<exists>F tm item chunks filename. opn = MIngest F tm item chunks filename \<and> normalize_digest (mi_sha256 item) = Inr k \<and>
         fst (ingest_media_blob (g\<lparr>qg_fault := F\<rparr>) tm item chunks filename s) = Inl storage_error))"
proof (cases opn)
  case (MIngest F tm item chunks filename)
  let ?g = "g\<lparr>qg_fault := F\<rparr>"
  show ?thesis
  proof (cases "mi_sha256 item = None \<or> mi_sha256 item = Some []")
    case True
    then have "media_step g s opn = s" by (auto simp: MIngest ingest_media_blob_def raise_err_def)
    then show ?thesis using inv by auto
  next
    case False
    have run: "ingest_chunks ?g tm chunks (mi_sha256 item) (mi_content_type item) filename s =
        (fst (ingest_media_blob ?g tm item chunks filename s), media_step g s opn)"
      using False by (auto simp: MIngest ingest_media_blob_def)
    have "readable_times ?g" "quarantine_ok ?g s" using g inv by simp_all
    note e = media_ingest_effect [OF this run]
    have "quarantine_ok g (media_step g s opn)" using e by simp
    then show ?thesis using e MIngest by blast
  qed
next
  case (MScan F tm i scanner timeout)
  let ?P = "\<lambda>t. quarantine_ok g t \<and> qu_blobs t = qu_blobs s \<and> qu_metadata t = qu_metadata s"
  have inv': "quarantine_ok (g\<lparr>qg_fault := F\<rparr>) s" using inv by simp
  have "?P (media_step g s opn)" unfolding MScan media_step.simps
    by (rule scan_ends) (use inv record_scan_state_ok [OF inv'] in simp_all)
  then show ?thesis by auto
qed

interpretation media: op_machine "media_step g" "\<lambda>s. readable_times g \<and> quarantine_ok g s" for g
  by unfold_locales (use media_step_effect in blast)

text \<open>What is stored stays: blobs do not change and described media stays described.\<close>

lemma media_run_keeps:
  assumes "readable_times g" "quarantine_ok g s"
  shows "quarantine_ok g (foldl (media_step g) s ops) \<and>
    (dget (qu_metadata s) k \<noteq> None \<longrightarrow> dget (qu_metadata (foldl (media_step g) s ops)) k \<noteq> None) \<and>
    (dget (qu_blobs s) k = Some f \<longrightarrow> dget (qu_blobs (foldl (media_step g) s ops)) k = Some f)"
  using assms(2)
proof (induction ops arbitrary: s)
  case (Cons opn ops)
  note e = media_step_effect [OF assms(1) Cons.prems, of opn]
  then have "quarantine_ok g (media_step g s opn)" by blast
  from Cons.IH [OF this] e show ?case by simp
qed simp

lemma empty_quarantine_ok: "quarantine_ok g empty_quarantine"
  by (simp add: quarantine_ok_def empty_quarantine_def)

lemma undescribed_blobs:
  assumes g: "readable_times g" and "s = foldl (media_step g) empty_quarantine ops"
    and "dget (qu_blobs s) d \<noteq> None" "dget (qu_metadata s) d = None"
  shows "\<exists>us F tm item chunks filename vs. ops = us @ MIngest F tm item chunks filename # vs \<and> normalize_digest (mi_sha256 item) = Inr d \<and>
    fst (ingest_media_blob (g\<lparr>qg_fault := F\<rparr>) tm item chunks filename (foldl (media_step g) empty_quarantine us)) = Inl storage_error"
  using assms(2-4)
proof (induction ops arbitrary: s rule: rev_induct)
  case Nil
  then show ?case by (simp add: empty_quarantine_def)
next
  case (snoc opn ops)
  let ?t = "foldl (media_step g) empty_quarantine ops"
  have t: "quarantine_ok g ?t" using media_run_keeps [OF g empty_quarantine_ok] by blast
  have s: "s = media_step g ?t opn" using snoc.prems(1) by simp
  note e = media_step_effect [OF g t, of opn, folded s]
  note kept = e [THEN conjunct2, THEN conjunct1, rule_format] and new = e [THEN conjunct2, THEN conjunct2, THEN conjunct2, rule_format]
  have meta: "dget (qu_metadata ?t) d = None" using kept [of d] snoc.prems(3) by argo
  show ?case
  proof (cases "dget (qu_blobs ?t) d")
    case None
    then obtain F tm item chunks filename where "opn = MIngest F tm item chunks filename" "normalize_digest (mi_sha256 item) = Inr d"
      "fst (ingest_media_blob (g\<lparr>qg_fault := F\<rparr>) tm item chunks filename ?t) = Inl storage_error"
      using new [of d] snoc.prems(2,3) by metis
    then show ?thesis by (intro exI [of _ ops] exI [of _ F] exI [of _ tm] exI [of _ item] exI [of _ chunks] exI [of _ filename]
        exI [of _ "[]"]) simp
  next
    case (Some f)
    then have "dget (qu_blobs ?t) d \<noteq> None" by simp
    from snoc.IH [OF refl this meta] obtain us F tm item chunks filename vs
      where "ops = us @ MIngest F tm item chunks filename # vs" "normalize_digest (mi_sha256 item) = Inr d"
        "fst (ingest_media_blob (g\<lparr>qg_fault := F\<rparr>) tm item chunks filename (foldl (media_step g) empty_quarantine us)) = Inl storage_error"
      by blast
    then show ?thesis by (intro exI [of _ us] exI [of _ F] exI [of _ tm] exI [of _ item] exI [of _ chunks] exI [of _ filename]
        exI [of _ "vs @ [opn]"]) simp
  qed
qed

lemma returned_ingest:
  assumes g: "readable_times g" and inv: "quarantine_ok g s"
    and run: "fst (ingest_media_blob (g\<lparr>qg_fault := F\<rparr>) tm item chunks filename s) = Inr v"
  shows "ig_attachment_id v = id_prefix @ ig_sha256 v \<and> dget (qu_metadata (media_step g s (MIngest F tm item chunks filename))) (ig_sha256 v) \<noteq> None"
proof -
  have sha: "\<not> (mi_sha256 item = None \<or> mi_sha256 item = Some [])"
  proof
    assume "mi_sha256 item = None \<or> mi_sha256 item = Some []"
    then show False using run by (simp add: ingest_media_blob_def raise_err_def)
  qed
  have "ingest_chunks (g\<lparr>qg_fault := F\<rparr>) tm chunks (mi_sha256 item) (mi_content_type item) filename s =
      (Inr v, media_step g s (MIngest F tm item chunks filename))"
    using sha run by (auto simp: ingest_media_blob_def prod_eq_iff)
  from media_ingest_effect [OF _ _ this] g inv show ?thesis by auto
qed


lemma clean_needs_scan:
  assumes run: "scan_stored_media g now i scanner timeout s = (Inr doc, s')" and clean: "jget doc ''state'' = JStr ''scanned_clean_held''"
  shows "\<exists>sc d ctype s1. scanner = Some sc \<and> verify_blob g i s = Inr d \<and> ms_scan sc d ctype timeout s = (Inr ''clean'', s1) \<and>
    verify_blob g i s1 = Inr d"
proof -
  obtain sid sc' where ident: "(case normalize_scanner_id (case scanner of None \<Rightarrow> None | Some sc \<Rightarrow> ms_id sc) of
      Inl _ \<Rightarrow> (None, None) | Inr sid \<Rightarrow> (sid, scanner)) = (sid, sc')" by fastforce
  have not: "jget doc ''state'' = JStr st" if "record_scan_state g now i st v sid s1 = (Inr doc, s')" for st v s1
    using recorded_state [OF that] .
  have fail: "jget (integrity_failure i sid) ''state'' = JStr ''quarantined_integrity_error''"
    by (simp add: integrity_failure_def jget_def)
  obtain rd sc where r: "read_record g now i s = Inr rd" "sc' = Some sc"
    using run clean fail by (auto simp: scan_stored_media_def Let_def ident dest!: not split: if_splits sum.splits option.splits)
  then have sc: "scanner = Some sc" using ident by (auto split: sum.splits)
  obtain s1 where g: "guarded_scan g i sc rd timeout s = (Inr ''clean'', s1)"
    using run clean fail r by (auto simp: scan_stored_media_def Let_def ident dest!: not split: if_splits sum.splits option.splits prod.splits)
  obtain d where d: "verify_blob g i s = Inr d"
    using g by (cases "verify_blob g i s") (auto simp: guarded_scan_def bindS_def Let_def)
  let ?ct = "case jget rd ''content_type'' of JStr t \<Rightarrow> Some t | _ \<Rightarrow> None"
  obtain q s2 where q: "ms_scan sc d ?ct timeout s = (q, s2)" by fastforce
  have "q = Inr ''clean'' \<and> (\<exists>d'. verify_blob g i s2 = Inr d')"
    using g d q by (auto simp: guarded_scan_def bindS_def Let_def ret_def split: sum.splits)
  moreover have "d' = d" if "verify_blob g i s2 = Inr d'" for d'
    using that d by (auto simp: verify_blob_def bindE_Inr_iff split: option.splits if_splits)
  ultimately show ?thesis using sc d q by blast
qed

lemma read_record_held: "read_record g now i s = Inr doc \<Longrightarrow> jget doc ''release_authorized'' = JBool False"
  by (auto simp: read_record_def Let_def bindE_Inr_iff jget_def)

lemma recorded_held:
  assumes "record_scan_state g now i state verdict scanner s = (Inr doc, s')"
  shows "jget doc ''release_authorized'' = JBool False"
  by (cases rule: record_scan_state_is [OF assms]) (auto dest: read_record_held [OF sym])

text \<open>
  C20. A clean result is never recorded on trust: an attachment is reported as scanned clean only when the
  scanner said so of a blob that verified before the scan and verified again after it, whatever the
  scanner did to the files; and no scan authorizes a release.
\<close>

theorem clean_results_are_earned:
  assumes "scan_stored_media g now i scanner timeout s = (Inr doc, s')"
  shows "jget doc ''release_authorized'' = JBool False \<and>
    (jget doc ''state'' = JStr ''scanned_clean_held'' \<longrightarrow>
      (\<exists>sc d ctype s1. scanner = Some sc \<and> verify_blob g i s = Inr d \<and> ms_scan sc d ctype timeout s = (Inr ''clean'', s1) \<and>
        verify_blob g i s1 = Inr d))"
proof
  have "jget (integrity_failure i sid) ''release_authorized'' = JBool False" for sid
    by (simp add: integrity_failure_def jget_def)
  then show "jget doc ''release_authorized'' = JBool False"
    using assms by (auto simp: scan_stored_media_def Let_def dest!: recorded_held split: if_splits sum.splits option.splits prod.splits)
  show "jget doc ''state'' = JStr ''scanned_clean_held'' \<longrightarrow>
      (\<exists>sc d ctype s1. scanner = Some sc \<and> verify_blob g i s = Inr d \<and> ms_scan sc d ctype timeout s = (Inr ''clean'', s1) \<and>
        verify_blob g i s1 = Inr d)"
    using clean_needs_scan [OF assms] by blast
qed

section \<open>Ingest and duplicates\<close>

lemma finish_duplicate_ok:
  assumes "media_entry_ok g s d" "media_scan_ok s d" "qg_fault g ''audit'' = Works"
  obtains r line where "finish_duplicate g now (id_prefix @ d) d n s = (Inr r, s\<lparr>qu_audit := qu_audit s @ [line]\<rparr>)" "ig_duplicate r"
proof -
  obtain metadata scan where "read_json_file (qu_metadata s) d = Inr metadata" "read_json_file (qu_scans s) d = Inr scan"
    "jget metadata ''sha256'' = JStr d" "jget scan ''sha256'' = JStr d" using assms(1,2) by (auto simp: media_ok_defs)
  then show thesis using entry_verifies [OF assms(1)] assms(3)
    by (intro that) (auto simp: finish_duplicate_def bindS_def pure_act_def Let_def audit_line_def faulty_write_def ret_def)
qed

text \<open>
  Media of the announced digest is stored once: when no write fails, and no earlier ingest of the digest
  was cut short, ingesting it succeeds in every state the quarantine reaches, keeps the content under its
  digest, and ingesting it again reports a duplicate and adds nothing but an audit line.
\<close>

lemma ingest_stores_once:
  assumes "readable_times g" and "s = foldl (media_step g) empty_quarantine ops"
    and "mi_sha256 item = Some h" and "normalize_digest (Some h) = Inr d" and "normalize_content_type (mi_content_type item) = Inr ctype"
    and "qg_sha g (concat chunks) = d" and "int (length (concat chunks)) \<le> qg_max_bytes g"
    and "\<And>x. qg_sha g x = d \<Longrightarrow> x = concat chunks"
    and "qg_fault g = (\<lambda>_. Works)" and "dget (qu_blobs s) d \<noteq> None \<Longrightarrow> dget (qu_scans s) d \<noteq> None"
  shows "\<exists>r s' r' line. ingest_media_blob g now item chunks filename s = (Inr r, s') \<and> read_private (qu_blobs s') d = Inr (concat chunks) \<and>
    ingest_media_blob g later item chunks again s' = (Inr r', s'\<lparr>qu_audit := qu_audit s' @ [line]\<rparr>) \<and> ig_duplicate r'"
proof -
  have limit: "1 \<le> qg_max_bytes g" using assms(1) by (simp add: readable_times_def)
  have h: "h \<noteq> []" using assms(4) by (auto simp: normalize_digest_def)
  then have run: "ingest_media_blob g now item chunks filename s = ingest_chunks g now chunks (Some h) (mi_content_type item) filename s"
    for now filename s using assms(3) by (simp add: ingest_media_blob_def)
  obtain data over where tk: "take_chunks (qg_max_bytes g) 0 chunks = (data, over)" by fastforce
  have taken: "\<not> over" "data = concat chunks" using take_chunks_is [OF _ tk] limit assms(7) by auto
  have known: "\<exists>r line. ingest_media_blob g now item chunks filename s = (Inr r, s\<lparr>qu_audit := qu_audit s @ [line]\<rparr>) \<and> ig_duplicate r"
    if ok: "quarantine_ok g s" and there: "dget (qu_blobs s) d \<noteq> None" "dget (qu_scans s) d \<noteq> None" for now filename s
  proof -
    have "media_entry_ok g s d" "media_scan_ok s d" using ok there unfolding quarantine_ok_def media_entry_ok_def by blast+
    then obtain r line where dup: "finish_duplicate g now (id_prefix @ d) d (int (length (concat chunks))) s =
        (Inr r, s\<lparr>qu_audit := qu_audit s @ [line]\<rparr>)" "ig_duplicate r" using finish_duplicate_ok assms(9) by metis
    have "ingest_chunks g now chunks (Some h) (mi_content_type item) filename s = (Inr r, s\<lparr>qu_audit := qu_audit s @ [line]\<rparr>)"
      using there assms(4-6,9) dup(1) tk taken by (simp add: ingest_chunks_def bindS_def pure_act_def link_blob_def)
    then show ?thesis using dup(2) by (intro exI [of _ r] exI [of _ line]) (simp only: run)
  qed
  have inv: "quarantine_ok g s" using media.run_inv [of g empty_quarantine ops] assms(1,2) empty_quarantine_ok by simp
  obtain r s' where first: "ingest_chunks g now chunks (Some h) (mi_content_type item) filename s = (r, s')" by fastforce
  have inv': "quarantine_ok g s'" using media_ingest_effect [OF assms(1) inv first] by blast
  have "(\<exists>v. r = Inr v) \<and> dget (qu_blobs s') d \<noteq> None \<and> dget (qu_scans s') d \<noteq> None"
  proof (cases "dget (qu_blobs s) d")
    case (Some f)
    then show ?thesis using known [OF inv, of now filename] assms(10) run first by auto
  next
    case None
    then show ?thesis using first assms(4-6,9) tk taken
      by (auto simp: ingest_chunks_def bindS_def pure_act_def link_blob_def finish_fresh_def write_metadata_def write_scan_def
          audit_line_def faulty_write_def ret_def dget_write_json Let_def)
  qed
  then obtain v where v: "r = Inr v" "dget (qu_blobs s') d \<noteq> None" "dget (qu_scans s') d \<noteq> None" by blast
  then have "media_blob_ok g s' d" using inv' by (simp add: quarantine_ok_def)
  then have "read_private (qu_blobs s') d = Inr (concat chunks)" using assms(8) by (auto simp: media_blob_ok_def)
  then show ?thesis using known [OF inv' v(2,3), of later again] run first v(1) by auto
qed

section \<open>Two ways to get stuck\<close>

text \<open>
  An ingest cut short after the blob is linked and before its metadata is written, by a crash or by a write
  that fails: the content can never be ingested again, even when no write fails any more.
\<close>

lemma interrupted_ingest_sticks:
  assumes "qg_sha g (concat chunks) = d" "normalize_digest expected = Inr d" "normalize_content_type ctype = Inr t"
    and "1 \<le> qg_max_bytes g" "int (length (concat chunks)) \<le> qg_max_bytes g"
    and "dget (qu_blobs s) d \<noteq> None" "dget (qu_metadata s) d = None" and "qg_fault g = (\<lambda>_. Works)"
  shows "ingest_chunks g now chunks expected ctype filename s = (Inl integrity_error, s)"
proof -
  obtain data over where tk: "take_chunks (qg_max_bytes g) 0 chunks = (data, over)" by fastforce
  have tk': "\<not> over" "data = concat chunks" using take_chunks_is [OF _ tk] assms(4,5) by auto
  have "read_json_file (qu_metadata s) d = Inl integrity_error" using assms(7) by (simp add: read_json_file_def read_private_def)
  then have "verify_blob g (id_prefix @ d) s = Inl integrity_error"
    using normalize_digest_idem [OF assms(2)] assms(6)
    by (auto simp: verify_blob_def digest_from_id read_private_def split: option.split)
  then show ?thesis using assms(1-3,6,8) tk tk'
    by (simp add: ingest_chunks_def link_blob_def finish_duplicate_def bindS_def pure_act_def Let_def)
qed

text \<open>Media over the size limit leaves its temporary file behind.\<close>

lemma oversized_media_leaves_file:
  assumes "normalize_digest expected = Inr d" "normalize_content_type ctype = Inr t"
    and "1 \<le> qg_max_bytes g" "qg_max_bytes g < int (length (concat chunks))" and "qg_fault g ''temporary'' \<noteq> Fails_before"
  shows "\<exists>data. ingest_chunks g now chunks expected ctype filename s = (Inl media_too_large, s\<lparr>qu_tmp := qu_tmp s @ [data]\<rparr>)"
proof -
  obtain data over where tk: "take_chunks (qg_max_bytes g) 0 chunks = (data, over)" by fastforce
  have "over" using take_chunks_is [OF _ tk] assms(3,4) by auto
  then show ?thesis using assms(1,2,5) tk by (intro exI [of _ data]) (simp add: ingest_chunks_def bindS_def pure_act_def Let_def)
qed

section \<open>Concrete runs\<close>

definition demo_hash :: string where
  "demo_hash = replicate 64 (CHR ''a'')"

definition demo_quarantine :: quarantine_config where
  "demo_quarantine = \<lparr>qg_max_bytes = 10, qg_retention_days = 1,
     qg_sha = (\<lambda>x. if x = ''abcd'' then demo_hash else replicate 64 (CHR ''b'')), qg_iso = (\<lambda>_. ''t''), qg_parse_iso = (\<lambda>_. Some 0), qg_fault = (\<lambda>_. Works)\<rparr>"

definition demo_media :: media_item where
  "demo_media = \<lparr>mi_url = ''u'', mi_content_type = Some ''image/png'', mi_sha256 = Some demo_hash\<rparr>"

definition cut_media :: media_item where
  "cut_media = \<lparr>mi_url = ''u'', mi_content_type = None, mi_sha256 = Some (replicate 64 (CHR ''b''))\<rparr>"

definition no_metadata :: "string \<Rightarrow> fault" where
  "no_metadata name = (if name = ''metadata'' then Fails_before else Works)"

definition demo_media_ops :: "media_op list" where
  "demo_media_ops = [MIngest (\<lambda>_. Works) 0 demo_media [''ab'', ''cd''] None, MIngest no_metadata 1 cut_media [''xy''] None]"

definition demo_ingested :: media_store where
  "demo_ingested = foldl (media_step demo_quarantine) empty_quarantine demo_media_ops"

definition demo_scanner :: media_scanner where
  "demo_scanner = reading_scanner (Some ''local:demo'', \<lambda>_ _ _. Inr ''clean'')"

lemma demo_readable: "readable_times demo_quarantine"
  by (simp add: readable_times_def demo_quarantine_def)


theorem clean_results_are_earned_witness:
  "\<exists>doc s'. scan_stored_media demo_quarantine 3 (id_prefix @ demo_hash) (Some demo_scanner) 15 demo_ingested = (Inr doc, s') \<and>
     jget doc ''state'' = JStr ''scanned_clean_held'' \<and> jget doc ''release_authorized'' = JBool False"
proof -
  let ?run = "scan_stored_media demo_quarantine 3 (id_prefix @ demo_hash) (Some demo_scanner) 15 demo_ingested"
  have "(case fst ?run of Inl _ \<Rightarrow> None | Inr doc \<Rightarrow> Some (jget doc ''state'')) = Some (JStr ''scanned_clean_held'')" by code_simp
  then obtain doc s' where run: "?run = (Inr doc, s')" "jget doc ''state'' = JStr ''scanned_clean_held''"
    by (cases ?run; cases "fst ?run") auto
  then show ?thesis using clean_results_are_earned [OF run(1)] by blast
qed

lemma ingest_stores_once_witness:
  "\<exists>r s'. ingest_media_blob demo_quarantine 5 demo_media [''abcd''] None empty_quarantine = (Inr r, s') \<and>
     read_private (qu_blobs s') demo_hash = Inr ''abcd''"
proof -
  have neq: "replicate 64 (CHR ''b'') \<noteq> demo_hash" by code_simp
  have only: "x = concat [''abcd'']" if "qg_sha demo_quarantine x = demo_hash" for x
  proof (rule ccontr)
    assume "x \<noteq> concat [''abcd'']"
    then have "qg_sha demo_quarantine x = replicate 64 (CHR ''b'')" by (simp add: demo_quarantine_def)
    then show False using that neq by simp
  qed
  have facts: "mi_sha256 demo_media = Some demo_hash" "normalize_digest (Some demo_hash) = Inr demo_hash"
    "normalize_content_type (mi_content_type demo_media) = Inr (Some ''image/png'')"
    "qg_sha demo_quarantine (concat [''abcd'']) = demo_hash" "int (length (concat [''abcd''])) \<le> qg_max_bytes demo_quarantine"
    by code_simp+
  have works: "qg_fault demo_quarantine = (\<lambda>_. Works)" by (simp add: demo_quarantine_def)
  have none: "dget (qu_blobs empty_quarantine) demo_hash \<noteq> None \<Longrightarrow> dget (qu_scans empty_quarantine) demo_hash \<noteq> None"
    by (simp add: empty_quarantine_def)
  have start: "empty_quarantine = foldl (media_step demo_quarantine) empty_quarantine []" by simp
  obtain r s' where "ingest_media_blob demo_quarantine 5 demo_media [''abcd''] None empty_quarantine = (Inr r, s')"
    "read_private (qu_blobs s') demo_hash = Inr (concat [''abcd''])"
    using ingest_stores_once [OF demo_readable start facts only works none, of 5 None 6 None] by blast
  then show ?thesis by simp
qed

end
