(* ===== verification/SecurityCore.thy ===== *)
theory SecurityCore
  imports Crypto PyText Effects Contracts
begin

text \<open>
  The security identity gateway, server/edge1_security_auth_core.py: its exceptions, its configuration
  contract, the identity of an assertion and the context of a session. Texts are those of code points
  up to 255; a JSON number that is not an integer is not a value of the model.
\<close>

section \<open>Exceptions\<close>

text \<open>\<open>GatewayError\<close> and its subclasses carry a message; every other exception is raised as it is.\<close>

datatype denial = Configuration | Authentication | Authorization | AuditUnavailable | GatewayFailure

datatype auth_exn = Denied denial string | Raised py_error

type_synonym 'a checked = "auth_exn + 'a"

type_synonym ('s, 'a) guarded = "(auth_exn, 's, 'a) eact"

abbreviation misconfigured :: "string \<Rightarrow> auth_exn" where
  "misconfigured m \<equiv> Denied Configuration m"

abbreviation unauthenticated :: "string \<Rightarrow> auth_exn" where
  "unauthenticated m \<equiv> Denied Authentication m"

abbreviation unauthorized :: "string \<Rightarrow> auth_exn" where
  "unauthorized m \<equiv> Denied Authorization m"

definition safe_reason :: "string \<Rightarrow> string" where
  "safe_reason reason =
     (if list_all (\<lambda>c. char_in (CHR ''a'') (CHR ''z'') c \<or> char_in (CHR ''0'') (CHR ''9'') c \<or> c = CHR ''_'') reason
         \<and> 1 \<le> length reason \<and> length reason \<le> 64
      then reason else ''authentication_denied'')"

section \<open>Values\<close>

definition allowed_scopes :: "string list" where
  "allowed_scopes = [''edge1.security.read'', ''edge1.security.validate'', ''edge1.vpn.self.read'', ''edge1.vpn.self.enroll'',
     ''edge1.vpn.self.rename'', ''edge1.vpn.self.revoke'', ''edge1.vpn.self.policy.accept'']"

definition mutation_scopes :: "string list" where
  "mutation_scopes = [''edge1.security.rules.reload'', ''edge1.security.logs.rotate'', ''edge1.security.restart'']"

definition action_scopes :: "(string, string) dict" where
  "action_scopes = [(''security.console.read'', ''edge1.security.read''), (''security.validate_config'', ''edge1.security.validate'')]"

definition event_id_text :: "string \<Rightarrow> bool" where
  "event_id_text = token_text ''._:-'' 0 127"

definition subject_text :: "string \<Rightarrow> bool" where
  "subject_text = token_text ''._:@/-'' 0 255"

definition jti_text :: "string \<Rightarrow> bool" where
  "jti_text = token_text ''._~-'' 15 255"

definition valid_event_id :: "json \<Rightarrow> bool" where
  "valid_event_id v \<longleftrightarrow> (case v of JStr t \<Rightarrow> event_id_text t | _ \<Rightarrow> False)"

definition require_event_id :: "string \<Rightarrow> string \<Rightarrow> string checked" where
  "require_event_id t label = (if event_id_text t then Inr t else Inl (unauthenticated (label @ ''_invalid'')))"

definition object_keys :: "doc \<Rightarrow> string set" where
  "object_keys d = set (map fst d)"

definition exact_object :: "json \<Rightarrow> string list \<Rightarrow> string \<Rightarrow> doc checked" where
  "exact_object v expected label =
     (case v of
        JObj d \<Rightarrow> if object_keys d = set expected then Inr d else Inl (misconfigured (label @ '' fields do not match the contract''))
      | _ \<Rightarrow> Inl (misconfigured (label @ '' fields do not match the contract'')))"

definition bounded_text :: "nat \<Rightarrow> string \<Rightarrow> bool" where
  "bounded_text maximum t \<longleftrightarrow> t \<noteq> [] \<and> length t \<le> maximum \<and> strip t = t"

definition nonempty_string :: "json \<Rightarrow> string \<Rightarrow> nat \<Rightarrow> string checked" where
  "nonempty_string v label maximum =
     (case v of
        JStr t \<Rightarrow> if bounded_text maximum t then Inr t else Inl (misconfigured (label @ '' must be a bounded non-empty string''))
      | _ \<Rightarrow> Inl (misconfigured (label @ '' must be a bounded non-empty string'')))"

definition bounded_int :: "json \<Rightarrow> int \<Rightarrow> int \<Rightarrow> string \<Rightarrow> int checked" where
  "bounded_int v minimum maximum label =
     (case v of
        JInt i \<Rightarrow> if minimum \<le> i \<and> i \<le> maximum then Inr i else Inl (misconfigured (label @ '' is outside the accepted range''))
      | _ \<Rightarrow> Inl (misconfigured (label @ '' is outside the accepted range'')))"

definition timestamp :: "json \<Rightarrow> string \<Rightarrow> int checked" where
  "timestamp v label =
     (case v of
        JInt i \<Rightarrow> if i < 0 then Inl (unauthenticated (label @ ''_invalid'')) else Inr i
      | _ \<Rightarrow> Inl (unauthenticated (label @ ''_invalid'')))"

text \<open>\<open>set(x)\<close> of a JSON value: the entries of a list, the characters of a text, the keys of an object.\<close>

definition set_of_json :: "json \<Rightarrow> (json set) outcome" where
  "set_of_json v =
     (case v of
        JList js \<Rightarrow> if list_all (\<lambda>j. is_ok (hashable j)) js then Inr (set js) else Inl (TypeError ''unhashable type'')
      | JStr t \<Rightarrow> Inr (set (map (\<lambda>c. JStr [c]) t))
      | JObj d \<Rightarrow> Inr (set (map (\<lambda>kv. JStr (fst kv)) d))
      | _ \<Rightarrow> Inl (TypeError ''object is not iterable''))"

definition raising :: "'a outcome \<Rightarrow> 'a checked" where
  "raising = map_sum Raised id"

section \<open>The configuration\<close>

record auth_config =
  ac_issuer :: string
  ac_audience :: string
  ac_jwks_path :: string
  ac_db_path :: string
  ac_audit_path :: string
  ac_max_lifetime :: int
  ac_skew :: int
  ac_absolute_timeout :: int
  ac_idle_timeout :: int
  ac_token_bytes :: int
  ac_enabled :: bool
  ac_deployment_authorized :: bool

definition auth_contract :: string where
  "auth_contract = ''wwcx.edge1-security-auth-gateway.v1''"

definition required_claims :: "string list" where
  "required_claims = [''iss'', ''aud'', ''sub'', ''display_name'', ''active'', ''role'', ''scope'', ''iat'', ''nbf'', ''exp'', ''jti'', ''nonce'']"

definition is_bool :: "json \<Rightarrow> bool" where
  "is_bool v \<longleftrightarrow> (case v of JBool _ \<Rightarrow> True | _ \<Rightarrow> False)"

text \<open>The flags at the head of \<open>from_mapping\<close>.\<close>

definition check_activation :: "doc \<Rightarrow> unit checked" where
  "check_activation value =
     guard (object_keys value = set [''contract'', ''status'', ''enabled'', ''deployment_authorized'', ''live_route_authorized'', ''issuer'',
         ''audience'', ''trusted_jwks_path'', ''state_db_path'', ''audit_path'', ''assertion'', ''session'', ''permissions'', ''boundaries''])
       (misconfigured ''gateway configuration fields do not match the contract'')
     (guard (jget value ''contract'' = JStr auth_contract) (misconfigured ''gateway configuration contract is invalid'')
     (guard (jget value ''status'' = JStr ''staged_disabled'')
       (misconfigured ''gateway status must remain staged_disabled in repository defaults'')
     (guard (is_bool (jget value ''enabled'') \<and> is_bool (jget value ''deployment_authorized''))
       (misconfigured ''gateway activation flags must be boolean'')
     (guard (jget value ''live_route_authorized'' = JBool False)
       (misconfigured ''repository configuration cannot authorize a live route'')
     (guard (\<not> (jget value ''enabled'' = JBool True \<and> jget value ''deployment_authorized'' = JBool False))
       (misconfigured ''gateway cannot be enabled without deployment authorization'')
     (Inr ()))))))"

definition assertion_settings :: "json \<Rightarrow> (int \<times> int) checked" where
  "assertion_settings v =
     bindE (exact_object v [''algorithm'', ''required_claims'', ''scope_claim'', ''maximum_lifetime_seconds'', ''clock_skew_seconds'',
       ''one_time_required''] ''assertion'') (\<lambda>a.
     guard (jget a ''algorithm'' = JStr ''RS256'') (misconfigured ''only RS256 assertions are accepted'')
     (guard (jget a ''required_claims'' = JList (map JStr required_claims))
       (misconfigured ''required assertion claims do not match the contract'')
     (guard (jget a ''scope_claim'' = JStr ''scope'' \<and> jget a ''one_time_required'' = JBool True)
       (misconfigured ''assertion scope and replay contract is invalid'')
     (bindE (bounded_int (jget a ''maximum_lifetime_seconds'') 15 300 ''assertion.maximum_lifetime_seconds'') (\<lambda>lifetime.
      bindE (bounded_int (jget a ''clock_skew_seconds'') 0 60 ''assertion.clock_skew_seconds'') (\<lambda>skew. Inr (lifetime, skew)))))))"

definition session_settings :: "json \<Rightarrow> (int \<times> int \<times> int) checked" where
  "session_settings v =
     bindE (exact_object v [''opaque_identifier_bytes'', ''identifier_storage'', ''absolute_timeout_seconds'', ''idle_timeout_seconds'',
       ''persistent''] ''session'') (\<lambda>s.
     bindE (bounded_int (jget s ''opaque_identifier_bytes'') 32 64 ''session.opaque_identifier_bytes'') (\<lambda>bytes.
     bindE (bounded_int (jget s ''absolute_timeout_seconds'') 60 28800 ''session.absolute_timeout_seconds'') (\<lambda>absolute.
     bindE (bounded_int (jget s ''idle_timeout_seconds'') 60 absolute ''session.idle_timeout_seconds'') (\<lambda>idle.
     guard (jget s ''identifier_storage'' = JStr ''sha256_only'' \<and> jget s ''persistent'' = JBool False)
       (misconfigured ''session storage contract is invalid'') (Inr (bytes, absolute, idle))))))"

definition check_permissions :: "json \<Rightarrow> unit checked" where
  "check_permissions v =
     bindE (exact_object v [''initial'', ''mutations'', ''unknown_scope_behavior''] ''permissions'') (\<lambda>p.
     bindE (raising (set_of_json (jget p ''initial''))) (\<lambda>initial.
     guard (initial = set (map JStr allowed_scopes)) (misconfigured ''initial permissions do not match the approved boundary'')
     (bindE (raising (set_of_json (jget p ''mutations''))) (\<lambda>mutations.
     guard (mutations = set (map JStr mutation_scopes)) (misconfigured ''mutation permission registry does not match the boundary'')
     (guard (jget p ''unknown_scope_behavior'' = JStr ''deny_assertion'') (misconfigured ''unknown scopes must deny the assertion'')
     (Inr ()))))))"

definition check_boundaries :: "json \<Rightarrow> unit checked" where
  "check_boundaries v =
     bindE (exact_object v [''business159_database_access'', ''business159_cookie_acceptance'', ''password_material_acceptance'',
       ''raw_assertion_storage'', ''raw_session_storage'', ''browser_operations_api_access'', ''mutations_enabled''] ''boundaries'') (\<lambda>b.
     guard (list_all (\<lambda>(_, x). x = JBool False) b) (misconfigured ''a prohibited trust-boundary capability is enabled'') (Inr ()))"

definition auth_config_from :: "doc \<Rightarrow> auth_config checked" where
  "auth_config_from value =
     bindE (check_activation value) (\<lambda>_.
     bindE (nonempty_string (jget value ''issuer'') ''issuer'' 512) (\<lambda>issuer.
     bindE (nonempty_string (jget value ''audience'') ''audience'' 512) (\<lambda>audience.
     guard (issuer \<noteq> audience) (misconfigured ''issuer and audience must be distinct'')
     (bindE (assertion_settings (jget value ''assertion'')) (\<lambda>(lifetime, skew).
     bindE (session_settings (jget value ''session'')) (\<lambda>(bytes, absolute, idle).
     bindE (check_permissions (jget value ''permissions'')) (\<lambda>_.
     bindE (check_boundaries (jget value ''boundaries'')) (\<lambda>_.
     bindE (nonempty_string (jget value ''trusted_jwks_path'') ''trusted_jwks_path'' 4096) (\<lambda>jwks.
     bindE (nonempty_string (jget value ''state_db_path'') ''state_db_path'' 4096) (\<lambda>db.
     bindE (nonempty_string (jget value ''audit_path'') ''audit_path'' 4096) (\<lambda>audit.
     Inr \<lparr>ac_issuer = issuer, ac_audience = audience, ac_jwks_path = jwks, ac_db_path = db, ac_audit_path = audit,
       ac_max_lifetime = lifetime, ac_skew = skew, ac_absolute_timeout = absolute, ac_idle_timeout = idle, ac_token_bytes = bytes,
       ac_enabled = truthy (jget value ''enabled''), ac_deployment_authorized = truthy (jget value ''deployment_authorized'')\<rparr>)))))))))))"

text \<open>\<open>from_path\<close>: the file is the JSON value it holds, if it can be read and parsed.\<close>

definition auth_config_from_path :: "json option \<Rightarrow> auth_config checked" where
  "auth_config_from_path contents =
     (case contents of
        None \<Rightarrow> Inl (misconfigured ''gateway configuration is unavailable'')
      | Some (JObj d) \<Rightarrow> auth_config_from d
      | Some _ \<Rightarrow> Inl (misconfigured ''gateway configuration must be a JSON object''))"

section \<open>Identities and sessions\<close>

record assertion_identity =
  ai_subject :: string
  ai_display_name :: string
  ai_role :: string
  ai_scopes :: "string set"
  ai_issued_at :: int
  ai_expires_at :: int
  ai_jti_hash :: string

record session_context =
  sx_subject :: string
  sx_display_name :: string
  sx_role :: string
  sx_scopes :: "string set"
  sx_issued_at :: int
  sx_expires_at :: int
  sx_last_seen_at :: int
  sx_event_id :: string
  sx_session_hash :: string

section \<open>The library\<close>

text \<open>
  What the gateway takes from its libraries: \<open>hash_secret\<close> (the hexadecimal SHA-256 of the encoded text), the raw
  digest of bytes, \<open>bytes.decode("utf-8")\<close>, the parsed contents of a JSON file, the random values by the number of the draw
  (\<open>token_urlsafe(n)\<close>, \<open>uuid4().hex\<close>, \<open>token_hex(16)\<close>), which appends to the audit file fail, and the percent decoding
  of a form value.
\<close>

record auth_env =
  ae_sha :: "string \<Rightarrow> string"
  ae_digest :: "string \<Rightarrow> string"
  ae_utf8 :: "string \<Rightarrow> string option"
  ae_file :: "string \<Rightarrow> json option"
  ae_token :: "int \<Rightarrow> nat \<Rightarrow> string"
  ae_hex :: "nat \<Rightarrow> string"
  ae_audit_fails :: "nat \<Rightarrow> bool"
  ae_unquote :: "string \<Rightarrow> string"

section \<open>What an accepted configuration is\<close>

lemma guard_Inr_iff: "guard ok e r = Inr v \<longleftrightarrow> ok \<and> r = Inr v"
  by (simp add: guard_def)

lemma exact_object_Inr: "exact_object v expected label = Inr d \<Longrightarrow> v = JObj d \<and> object_keys d = set expected"
  by (auto simp: exact_object_def split: json.splits if_splits)

lemma nonempty_string_Inr: "nonempty_string v label k = Inr t \<Longrightarrow> v = JStr t \<and> bounded_text k t"
  by (auto simp: nonempty_string_def split: json.splits if_splits)

lemma bounded_int_Inr: "bounded_int v lo hi label = Inr i \<Longrightarrow> v = JInt i \<and> lo \<le> i \<and> i \<le> hi"
  by (auto simp: bounded_int_def split: json.splits if_splits)

definition config_ok :: "auth_config \<Rightarrow> bool" where
  "config_ok c \<longleftrightarrow> (ac_enabled c \<longrightarrow> ac_deployment_authorized c) \<and> ac_issuer c \<noteq> ac_audience c \<and>
     15 \<le> ac_max_lifetime c \<and> ac_max_lifetime c \<le> 300 \<and> 0 \<le> ac_skew c \<and> ac_skew c \<le> 60 \<and>
     60 \<le> ac_idle_timeout c \<and> ac_idle_timeout c \<le> ac_absolute_timeout c \<and> ac_absolute_timeout c \<le> 28800 \<and>
     32 \<le> ac_token_bytes c \<and> ac_token_bytes c \<le> 64"

lemma check_activation_Inr:
  "check_activation v = Inr u \<Longrightarrow> jget v ''live_route_authorized'' = JBool False \<and>
     (truthy (jget v ''enabled'') \<longrightarrow> truthy (jget v ''deployment_authorized''))"
  by (auto simp: check_activation_def guard_Inr_iff is_bool_def split: json.splits)

lemma assertion_settings_Inr:
  "assertion_settings v = Inr (l, k) \<Longrightarrow> 15 \<le> l \<and> l \<le> 300 \<and> 0 \<le> k \<and> k \<le> 60"
  by (auto simp: assertion_settings_def bindE_Inr_iff guard_Inr_iff dest!: bounded_int_Inr)

lemma session_settings_Inr:
  "session_settings v = Inr (b, a, i) \<Longrightarrow> 32 \<le> b \<and> b \<le> 64 \<and> 60 \<le> i \<and> i \<le> a \<and> a \<le> 28800"
  by (auto simp: session_settings_def bindE_Inr_iff guard_Inr_iff dest!: bounded_int_Inr)

lemma auth_config_from_ok:
  assumes "auth_config_from v = Inr c"
  shows "config_ok c \<and> jget v ''live_route_authorized'' = JBool False"
  using assms check_activation_Inr [of v "()"]
  by (auto simp: auth_config_from_def bindE_Inr_iff guard_Inr_iff config_ok_def
      dest!: assertion_settings_Inr session_settings_Inr)

end
