(* ===== verification/SecurityAssertion.thy ===== *)
theory SecurityAssertion
  imports SecurityCore
begin

text \<open>
  server/edge1_security_assertion.py: one-time identity assertions, compact RS256 tokens whose claims are
  checked against the configuration, with the RSA verification of PKCS #1 v1.5 as the source computes it.
\<close>

section \<open>Strict JSON\<close>

text \<open>
  \<open>json.loads\<close> with the hook \<open>no_duplicates\<close>: the parser of Json, failing on an object that repeats a key.
\<close>

definition unrepeated :: "((string \<times> json) list \<times> string) option \<Rightarrow> (json \<times> string) option" where
  "unrepeated r = (case r of Some (kvs, s) \<Rightarrow> if distinct (map fst kvs) then Some (JObj kvs, s) else None | None \<Rightarrow> None)"

fun strict_value :: "nat \<Rightarrow> string \<Rightarrow> (json \<times> string) option"
  and strict_items :: "nat \<Rightarrow> string \<Rightarrow> (json list \<times> string) option"
  and strict_members :: "nat \<Rightarrow> string \<Rightarrow> ((string \<times> json) list \<times> string) option" where
  "strict_value 0 s = None"
| "strict_value (Suc n) s =
     (case skip_ws s of
        [] \<Rightarrow> None
      | c # r \<Rightarrow>
          if code c = 91 then
            (case skip_ws r of
               [] \<Rightarrow> None
             | d # r' \<Rightarrow> if code d = 93 then Some (JList [], r') else map_option (apfst JList) (strict_items n r))
          else if code c = 123 then
            (case skip_ws r of
               [] \<Rightarrow> None
             | d # r' \<Rightarrow> if code d = 125 then Some (JObj [], r') else unrepeated (strict_members n r))
          else parse_value (Suc n) s)"
| "strict_items 0 s = None"
| "strict_items (Suc n) s =
     (case strict_value n s of
        None \<Rightarrow> None
      | Some (v, r) \<Rightarrow>
          (case skip_ws r of
             [] \<Rightarrow> None
           | c # r' \<Rightarrow>
               if code c = 44 then map_option (apfst ((#) v)) (strict_items n r')
               else if code c = 93 then Some ([v], r') else None))"
| "strict_members 0 s = None"
| "strict_members (Suc n) s =
     (case skip_ws s of
        [] \<Rightarrow> None
      | q # r \<Rightarrow>
          if code q \<noteq> 34 then None
          else (case parse_str r of
                  None \<Rightarrow> None
                | Some (k, r1) \<Rightarrow>
                    (case skip_ws r1 of
                       [] \<Rightarrow> None
                     | c # r2 \<Rightarrow>
                         if code c \<noteq> 58 then None
                         else (case strict_value n r2 of
                                 None \<Rightarrow> None
                               | Some (v, r3) \<Rightarrow>
                                   (case skip_ws r3 of
                                      [] \<Rightarrow> None
                                    | e # r4 \<Rightarrow>
                                        if code e = 44 then map_option (apfst ((#) (k, v))) (strict_members n r4)
                                        else if code e = 125 then Some ([(k, v)], r4) else None)))))"

definition strict_loads :: "string \<Rightarrow> json option" where
  "strict_loads s =
     (case strict_value (Suc (length s)) s of
        None \<Rightarrow> None
      | Some (j, r) \<Rightarrow> if skip_ws r = [] then Some j else None)"

text \<open>What the strict parser accepts, \<open>json.loads\<close> reads the same way.\<close>

lemma parse_list:
  "skip_ws s = c # r \<Longrightarrow> code c = 91 \<Longrightarrow> parse_value (Suc n) s = (case skip_ws r of [] \<Rightarrow> None
     | d # r' \<Rightarrow> if code d = 93 then Some (JList [], r') else map_option (apfst JList) (parse_items n r))"
  by (simp only: parse_value.simps list.case) simp

lemma parse_object:
  "skip_ws s = c # r \<Longrightarrow> code c = 123 \<Longrightarrow> parse_value (Suc n) s = (case skip_ws r of [] \<Rightarrow> None
     | d # r' \<Rightarrow> if code d = 125 then Some (JObj [], r') else map_option (apfst (\<lambda>kvs. JObj (dict_of kvs))) (parse_members n r))"
  by (simp only: parse_value.simps list.case) simp

lemma unrepeated_Some: "unrepeated r = Some (j, s) \<Longrightarrow> \<exists>kvs. r = Some (kvs, s) \<and> distinct (map fst kvs) \<and> j = JObj kvs"
  by (auto simp: unrepeated_def split: option.splits if_splits)

lemma strict_parses:
  "strict_value n s = Some (j, r) \<Longrightarrow> parse_value n s = Some (j, r)"
  "strict_items n s = Some (js, r) \<Longrightarrow> parse_items n s = Some (js, r)"
  "strict_members n s = Some (kvs, r) \<Longrightarrow> parse_members n s = Some (kvs, r)"
proof (induction n s and n s and n s arbitrary: j r and js r and kvs r rule: strict_value_strict_items_strict_members.induct)
  case (2 n s)
  note step = 2
  show ?case
  proof (cases "skip_ws s")
    case (Cons c t)
    consider "code c = 91" | "code c = 123" | "code c \<noteq> 91" "code c \<noteq> 123" by blast
    then show ?thesis
    proof cases
      case 1
      then show ?thesis using step Cons
        by (auto simp: parse_list [OF Cons 1] apfst_def map_prod_def split: list.splits if_splits)
    next
      case 2
      then show ?thesis using step Cons
        by (auto simp: parse_object [OF Cons 2] dict_of_distinct split: list.splits if_splits dest!: unrepeated_Some)
    next
      case 3
      then show ?thesis using step Cons by (simp del: parse_value.simps)
    qed
  qed (use step in simp)
next
  case (6 n s)
  then show ?case
    by (auto simp: apfst_def map_prod_def split: option.splits list.splits if_splits prod.splits) blast+
qed (auto simp: apfst_def map_prod_def split: option.splits list.splits if_splits prod.splits)

section \<open>Base64url and big-endian numbers\<close>

definition b64url_text :: "string \<Rightarrow> bool" where
  "b64url_text t \<longleftrightarrow> t \<noteq> [] \<and> list_all (\<lambda>c. alnum c \<or> c \<in> set ''_-'') t"

definition b64url_decode :: "string \<Rightarrow> string outcome" where
  "b64url_decode t = (if b64url_text t then decode_base64url (JStr t) else Inl (ValueError ''invalid base64url''))"

definition be_int :: "string \<Rightarrow> int" where
  "be_int bs = foldl (\<lambda>a b. a * 256 + of_char b) 0 bs"

primrec to_be :: "nat \<Rightarrow> int \<Rightarrow> string" where
  "to_be 0 v = []"
| "to_be (Suc k) v = to_be k (v div 256) @ [char_of (v mod 256)]"

function bit_length :: "int \<Rightarrow> nat" where
  "bit_length n = (if n \<le> 0 then 0 else Suc (bit_length (n div 2)))"
  by auto

termination by (relation "measure nat") auto

declare bit_length.simps [simp del]

section \<open>RS256\<close>

definition sha256_prefix :: string where
  "sha256_prefix = to_be 19 0x3031300d060960864801650304020105000420"

definition rsa_number :: "doc \<Rightarrow> string \<Rightarrow> int option" where
  "rsa_number key name =
     (case dget key name of
        None \<Rightarrow> None
      | Some v \<Rightarrow> (case b64url_decode (py_str v) of Inl _ \<Rightarrow> None | Inr b \<Rightarrow> Some (be_int b)))"

definition padded_digest :: "nat \<Rightarrow> string \<Rightarrow> string" where
  "padded_digest n info = [CHR 0x00, CHR 0x01] @ replicate n (CHR 0xFF) @ [CHR 0x00] @ info"

definition verify_rs256 :: "(string \<Rightarrow> string) \<Rightarrow> string \<Rightarrow> string \<Rightarrow> doc \<Rightarrow> bool" where
  "verify_rs256 digest message signature key =
     (case (rsa_number key ''n'', rsa_number key ''e'') of
        (Some n, Some e) \<Rightarrow>
          let size = (bit_length n + 7) div 8; v = be_int signature;
              info = sha256_prefix @ digest message; padding = int size - int (length info) - 3 in
          \<not> (bit_length n < 2048 \<or> e < 3 \<or> e mod 2 = 0) \<and> length signature = size \<and> 0 < v \<and> v < n \<and>
          8 \<le> padding \<and> to_be size (v ^ nat e mod n) = padded_digest (nat padding) info
      | _ \<Rightarrow> False)"

section \<open>Keys, claims and scopes\<close>

definition decode_json :: "auth_env \<Rightarrow> string \<Rightarrow> string \<Rightarrow> doc checked" where
  "decode_json env segment label =
     (case b64url_decode segment of
        Inl _ \<Rightarrow> Inl (unauthenticated (''malformed_'' @ label))
      | Inr b \<Rightarrow>
          (case ae_utf8 env b of
             None \<Rightarrow> Inl (unauthenticated (''malformed_'' @ label))
           | Some t \<Rightarrow>
               (case strict_loads t of Some (JObj d) \<Rightarrow> Inr d | _ \<Rightarrow> Inl (unauthenticated (''malformed_'' @ label)))))"

definition key_matches :: "string \<Rightarrow> json \<Rightarrow> bool" where
  "key_matches kid item \<longleftrightarrow> (case item of JObj d \<Rightarrow> jget d ''kid'' = JStr kid | _ \<Rightarrow> False)"

definition key_trusted :: "doc \<Rightarrow> bool" where
  "key_trusted key \<longleftrightarrow> object_keys key \<subseteq> set [''kty'', ''kid'', ''alg'', ''use'', ''key_ops'', ''n'', ''e''] \<and>
     jget key ''kty'' = JStr ''RSA'' \<and> jget key ''alg'' = JStr ''RS256'' \<and> jget_default key ''use'' (JStr ''sig'') = JStr ''sig'' \<and>
     (case dget key ''key_ops'' of None \<Rightarrow> True | Some v \<Rightarrow> v = JList [JStr ''verify''])"

definition select_jwk :: "json option \<Rightarrow> string \<Rightarrow> doc checked" where
  "select_jwk contents kid =
     (case contents of
        None \<Rightarrow> Inl (unauthenticated ''trusted_keyset_unavailable'')
      | Some document \<Rightarrow>
          (case document of
             JObj [(''keys'', JList items)] \<Rightarrow>
               (case filter (key_matches kid) items of
                  [JObj key] \<Rightarrow> if key_trusted key then Inr key else Inl (unauthenticated ''trusted_key_invalid'')
                | _ \<Rightarrow> Inl (unauthenticated ''trusted_key_not_found''))
           | _ \<Rightarrow> Inl (unauthenticated ''trusted_keyset_invalid'')))"

definition claim_string :: "json \<Rightarrow> string \<Rightarrow> nat \<Rightarrow> string checked" where
  "claim_string v err maximum =
     (case v of
        JStr t \<Rightarrow> if bounded_text maximum t then Inr t else Inl (unauthenticated err)
      | _ \<Rightarrow> Inl (unauthenticated err))"

definition parse_scopes :: "json \<Rightarrow> (string set) checked" where
  "parse_scopes v =
     (let bad = Inl (unauthenticated ''scope_invalid'');
          check = (\<lambda>items. if items = [] \<or> list_ex (\<lambda>i. case i of JStr t \<Rightarrow> t = [] \<or> length t > 128 | _ \<Rightarrow> True) items then bad
            else let texts = map py_str items in if distinct texts then Inr (set texts) else bad) in
      case v of JStr t \<Rightarrow> check (map JStr (py_words t)) | JList items \<Rightarrow> check items | _ \<Rightarrow> bad)"

section \<open>Validation\<close>

definition check_header :: "doc \<Rightarrow> string checked" where
  "check_header h =
     guard (object_keys h \<subseteq> set [''alg'', ''kid'', ''typ'']) (unauthenticated ''unsupported_header'')
     (guard (jget h ''alg'' = JStr ''RS256'' \<and> jget_default h ''typ'' (JStr ''JWT'') = JStr ''JWT'') (unauthenticated ''unsupported_algorithm'')
     (case nonempty_string (jget h ''kid'') ''kid'' 128 of Inl _ \<Rightarrow> Inl (unauthenticated ''kid_invalid'') | Inr kid \<Rightarrow> Inr kid))"

definition check_times :: "auth_config \<Rightarrow> int \<Rightarrow> int \<Rightarrow> int \<Rightarrow> int \<Rightarrow> unit checked" where
  "check_times c now iat nbf expires =
     guard (\<not> (expires \<le> iat \<or> expires - iat > ac_max_lifetime c)) (unauthenticated ''assertion_lifetime_invalid'')
     (guard (\<not> (nbf < iat - ac_skew c \<or> nbf > iat + ac_skew c)) (unauthenticated ''not_before_invalid'')
     (guard (\<not> (iat > now + ac_skew c \<or> nbf > now + ac_skew c \<or> expires \<le> now - ac_skew c)) (unauthenticated ''assertion_time_invalid'')
     (guard (\<not> iat < now - ac_max_lifetime c - ac_skew c) (unauthenticated ''assertion_too_old'') (Inr ()))))"

definition identity_claims :: "auth_env \<Rightarrow> auth_config \<Rightarrow> doc \<Rightarrow> int \<Rightarrow> assertion_identity checked" where
  "identity_claims env c claims now =
     guard (object_keys claims = set required_claims) (unauthenticated ''claim_set_invalid'')
     (guard (jget claims ''iss'' = JStr (ac_issuer c) \<and> jget claims ''aud'' = JStr (ac_audience c)) (unauthenticated ''issuer_or_audience_invalid'')
     (guard (jget claims ''active'' = JBool True) (unauthenticated ''identity_inactive'')
     (bindE (claim_string (jget claims ''sub'') ''subject_invalid'' 256) (\<lambda>subject.
      guard (subject_text subject) (unauthenticated ''subject_invalid'')
     (bindE (claim_string (jget claims ''display_name'') ''display_name_invalid'' 256) (\<lambda>name.
      bindE (claim_string (jget claims ''role'') ''role_invalid'' 128) (\<lambda>role.
      guard (token_text ''._:-'' 0 127 role) (unauthenticated ''role_invalid'')
     (bindE (claim_string (jget claims ''jti'') ''assertion_identifier_invalid'' 256) (\<lambda>jti.
      bindE (claim_string (jget claims ''nonce'') ''assertion_identifier_invalid'' 256) (\<lambda>nonce.
      guard (jti_text jti \<and> jti_text nonce \<and> jti \<noteq> nonce) (unauthenticated ''assertion_identifier_invalid'')
     (bindE (timestamp (jget claims ''iat'') ''iat'') (\<lambda>iat.
      bindE (timestamp (jget claims ''nbf'') ''nbf'') (\<lambda>nbf.
      bindE (timestamp (jget claims ''exp'') ''exp'') (\<lambda>expires.
      bindE (check_times c now iat nbf expires) (\<lambda>_.
      bindE (parse_scopes (jget claims ''scope'')) (\<lambda>scopes.
      guard (scopes \<noteq> {} \<and> scopes \<subseteq> set allowed_scopes) (unauthenticated ''scope_invalid'')
     (guard (scopes \<inter> set mutation_scopes = {}) (unauthenticated ''mutation_scope_forbidden'')
     (Inr \<lparr>ai_subject = subject, ai_display_name = name, ai_role = role, ai_scopes = scopes, ai_issued_at = iat, ai_expires_at = expires,
        ai_jti_hash = ae_sha env (ac_issuer c @ CHR 0x00 # jti @ CHR 0x00 # nonce)\<rparr>))))))))))))))))))"

definition validate_assertion :: "auth_env \<Rightarrow> auth_config \<Rightarrow> string \<Rightarrow> int \<Rightarrow> assertion_identity checked" where
  "validate_assertion env c assertion now =
     (if length assertion > 16384 then Inl (unauthenticated ''malformed_assertion'')
      else case split_on (CHR ''.'') assertion of
        [p0, p1, p2] \<Rightarrow>
          guard (b64url_text p0 \<and> b64url_text p1 \<and> b64url_text p2) (unauthenticated ''malformed_assertion'')
          (bindE (decode_json env p0 ''header'') (\<lambda>header.
           bindE (decode_json env p1 ''claims'') (\<lambda>claims.
           bindE (check_header header) (\<lambda>kid.
           bindE (select_jwk (ae_file env (ac_jwks_path c)) kid) (\<lambda>key.
           bindE (raising (b64url_decode p2)) (\<lambda>signature.
           guard (verify_rs256 (ae_digest env) (p0 @ CHR ''.'' # p1) signature key) (unauthenticated ''invalid_signature'')
           (identity_claims env c claims now)))))))
      | _ \<Rightarrow> Inl (unauthenticated ''malformed_assertion''))"

end
