(* ===== verification/SecurityStore.thy ===== *)
theory SecurityStore
  imports SecurityCore
begin

text \<open>
  server/edge1_security_auth_store.py: the SQLite store of consumed assertions, sessions, CSRF secrets, request
  rates and action guards, and the audit file. Every method is one transaction. Foreign keys are
  checked on insertion; sessions are never deleted. Errors of SQLite other than a violated constraint are left out.
\<close>

section \<open>Tables\<close>

record session_row =
  sn_hash :: string
  sn_subject :: string
  sn_display_name :: string
  sn_role :: string
  sn_scopes_json :: string
  sn_issued_at :: int
  sn_expires_at :: int
  sn_last_seen_at :: int
  sn_jti_hash :: string
  sn_event_id :: string
  sn_revoked_at :: "int option"

record csrf_row =
  cf_session :: string
  cf_hash :: string
  cf_expires_at :: int

record rate_row =
  rw_bucket :: string
  rw_started_at :: int
  rw_count :: int

record guard_row =
  aq_session :: string
  aq_action :: string
  aq_started_at :: int
  aq_completed_at :: "int option"

record auth_db =
  ad_replays :: "(string, int) dict"
  ad_sessions :: "session_row list"
  ad_csrf :: "csrf_row list"
  ad_rates :: "rate_row list"
  ad_guards :: "guard_row list"

definition empty_auth_db :: auth_db where
  "empty_auth_db = \<lparr>ad_replays = [], ad_sessions = [], ad_csrf = [], ad_rates = [], ad_guards = []\<rparr>"

definition find_session :: "auth_db \<Rightarrow> string \<Rightarrow> session_row option" where
  "find_session d h = find_row sn_hash h (ad_sessions d)"

definition guard_key :: "guard_row \<Rightarrow> string \<times> string" where
  "guard_key g = (aq_session g, aq_action g)"

section \<open>Assertions and sessions\<close>

definition consume_assertion :: "string \<Rightarrow> int \<Rightarrow> int \<Rightarrow> (auth_db, bool) guarded" where
  "consume_assertion jti expires now d =
     (let live = filter (\<lambda>(_, e). \<not> e < now) (ad_replays d) in
      if jti \<in> fst ` set live then (Inr False, d)
      else (Inr True, d\<lparr>ad_replays := live @ [(jti, expires)]\<rparr>))"

definition new_session :: "string \<Rightarrow> assertion_identity \<Rightarrow> int \<Rightarrow> int \<Rightarrow> string \<Rightarrow> session_row" where
  "new_session h ident issued expires event =
     \<lparr>sn_hash = h, sn_subject = ai_subject ident, sn_display_name = ai_display_name ident, sn_role = ai_role ident,
      sn_scopes_json = canonical_json (JList (map JStr (sorted_list_of_set (ai_scopes ident)))), sn_issued_at = issued,
      sn_expires_at = expires, sn_last_seen_at = issued, sn_jti_hash = ai_jti_hash ident, sn_event_id = event, sn_revoked_at = None\<rparr>"

definition create_session :: "string \<Rightarrow> assertion_identity \<Rightarrow> int \<Rightarrow> int \<Rightarrow> string \<Rightarrow> (auth_db, unit) guarded" where
  "create_session h ident issued expires event d =
     (if find_session d h \<noteq> None then (Inl (unauthenticated ''session could not be created''), d)
      else (Inr (), d\<lparr>ad_sessions := ad_sessions d @ [new_session h ident issued expires event]\<rparr>))"

definition session_reason :: "int \<Rightarrow> int \<Rightarrow> session_row \<Rightarrow> string" where
  "session_reason now idle r =
     (if sn_revoked_at r \<noteq> None then ''revoked''
      else if now \<ge> sn_expires_at r then ''expired''
      else if now - sn_last_seen_at r \<ge> idle then ''idle_expired''
      else ''active'')"

definition drop_csrf :: "string \<Rightarrow> auth_db \<Rightarrow> auth_db" where
  "drop_csrf h d = d\<lparr>ad_csrf := filter (\<lambda>c. cf_session c \<noteq> h) (ad_csrf d)\<rparr>"

definition set_revoked :: "int \<Rightarrow> session_row \<Rightarrow> session_row" where
  "set_revoked now r = r\<lparr>sn_revoked_at := (case sn_revoked_at r of None \<Rightarrow> Some now | Some t \<Rightarrow> Some t)\<rparr>"

definition update_session :: "string \<Rightarrow> (session_row \<Rightarrow> session_row) \<Rightarrow> auth_db \<Rightarrow> auth_db" where
  "update_session h f d = d\<lparr>ad_sessions := update_where (\<lambda>r. sn_hash r = h) f (ad_sessions d)\<rparr>"

text \<open>The column holds what \<open>create_session\<close> wrote: a list of texts.\<close>

definition scopes_of :: "string \<Rightarrow> (string set) option" where
  "scopes_of t =
     (case json_loads t of
        Some (JList js) \<Rightarrow> Some (set (map py_str js))
      | _ \<Rightarrow> None)"

definition resolve_session :: "string \<Rightarrow> int \<Rightarrow> int \<Rightarrow> (auth_db, session_context option \<times> string) guarded" where
  "resolve_session h now idle d =
     (case find_session d h of
        None \<Rightarrow> (Inr (None, ''unknown_session''), d)
      | Some r \<Rightarrow>
          let reason = session_reason now idle r in
          if reason \<noteq> ''active'' then (Inr (None, reason), drop_csrf h (update_session h (set_revoked now) d))
          else let d' = update_session h (\<lambda>r. r\<lparr>sn_last_seen_at := now\<rparr>) d in
            (case scopes_of (sn_scopes_json r) of
               None \<Rightarrow> (Inl (unauthenticated ''session store is unavailable''), d')
             | Some scopes \<Rightarrow>
                 (Inr (Some \<lparr>sx_subject = sn_subject r, sx_display_name = sn_display_name r, sx_role = sn_role r, sx_scopes = scopes,
                    sx_issued_at = sn_issued_at r, sx_expires_at = sn_expires_at r, sx_last_seen_at = now,
                    sx_event_id = sn_event_id r, sx_session_hash = h\<rparr>, reason), d')))"

definition revoke_session :: "string \<Rightarrow> int \<Rightarrow> (auth_db, bool) guarded" where
  "revoke_session h now d =
     (let hit = (case find_session d h of None \<Rightarrow> False | Some r \<Rightarrow> sn_revoked_at r = None) in
      (Inr hit, drop_csrf h (update_session h (set_revoked now) d)))"

section \<open>CSRF secrets\<close>

definition set_csrf :: "string \<Rightarrow> string \<Rightarrow> int \<Rightarrow> (auth_db, unit) guarded" where
  "set_csrf h secret expires d =
     (if find_row cf_session h (ad_csrf d) \<noteq> None
      then (Inr (), d\<lparr>ad_csrf := update_where (\<lambda>c. cf_session c = h) (\<lambda>c. c\<lparr>cf_hash := secret, cf_expires_at := expires\<rparr>) (ad_csrf d)\<rparr>)
      else if find_session d h = None then (Inl (unauthenticated ''CSRF state could not be created''), d)
      else (Inr (), d\<lparr>ad_csrf := ad_csrf d @ [\<lparr>cf_session = h, cf_hash = secret, cf_expires_at = expires\<rparr>]\<rparr>))"

definition verify_csrf :: "string \<Rightarrow> string \<Rightarrow> int \<Rightarrow> auth_db \<Rightarrow> bool" where
  "verify_csrf h secret now d =
     (case find_row cf_session h (ad_csrf d) of
        None \<Rightarrow> False
      | Some c \<Rightarrow> now < cf_expires_at c \<and> cf_hash c = secret)"

section \<open>Request rates\<close>

definition allow_rate :: "string \<Rightarrow> int \<Rightarrow> int \<Rightarrow> int \<Rightarrow> (auth_db, bool) guarded" where
  "allow_rate bucket now limit window d =
     (case find_row rw_bucket bucket (ad_rates d) of
        None \<Rightarrow> (Inr True, d\<lparr>ad_rates := ad_rates d @ [\<lparr>rw_bucket = bucket, rw_started_at = now, rw_count = 1\<rparr>]\<rparr>)
      | Some r \<Rightarrow>
          if now - rw_started_at r \<ge> window
          then (Inr True, d\<lparr>ad_rates := update_where (\<lambda>r. rw_bucket r = bucket) (\<lambda>r. r\<lparr>rw_started_at := now, rw_count := 1\<rparr>) (ad_rates d)\<rparr>)
          else if rw_count r \<ge> limit then (Inr False, d)
          else (Inr True, d\<lparr>ad_rates := update_where (\<lambda>r. rw_bucket r = bucket) (\<lambda>r. r\<lparr>rw_count := rw_count r + 1\<rparr>) (ad_rates d)\<rparr>))"

section \<open>Action guards\<close>

definition guard_verdict :: "int \<Rightarrow> int \<Rightarrow> int \<Rightarrow> guard_row \<Rightarrow> string" where
  "guard_verdict now inflight cooldown g =
     (case aq_completed_at g of
        None \<Rightarrow> if now - aq_started_at g < inflight then ''in_progress'' else ''started''
      | Some t \<Rightarrow> if now - t < cooldown then ''cooldown'' else ''started'')"

definition begin_action :: "string \<Rightarrow> string \<Rightarrow> int \<Rightarrow> int \<Rightarrow> int \<Rightarrow> (auth_db, string) guarded" where
  "begin_action h action now inflight cooldown d =
     (case find_row guard_key (h, action) (ad_guards d) of
        None \<Rightarrow>
          if find_session d h = None then (Inl (unauthenticated ''action guard is unavailable''), d)
          else (Inr ''started'', d\<lparr>ad_guards := ad_guards d @ [\<lparr>aq_session = h, aq_action = action, aq_started_at = now, aq_completed_at = None\<rparr>]\<rparr>)
      | Some g \<Rightarrow>
          let verdict = guard_verdict now inflight cooldown g in
          if verdict \<noteq> ''started'' then (Inr verdict, d)
          else (Inr ''started'', d\<lparr>ad_guards := update_where (\<lambda>g. guard_key g = (h, action))
            (\<lambda>g. g\<lparr>aq_started_at := now, aq_completed_at := None\<rparr>) (ad_guards d)\<rparr>))"

definition finish_action :: "string \<Rightarrow> string \<Rightarrow> int \<Rightarrow> (auth_db, unit) guarded" where
  "finish_action h action now d =
     (Inr (), d\<lparr>ad_guards := update_where (\<lambda>g. guard_key g = (h, action)) (\<lambda>g. g\<lparr>aq_completed_at := Some now\<rparr>) (ad_guards d)\<rparr>)"

section \<open>The store as a machine\<close>

datatype auth_call =
    Consume string int int
  | CreateSession string assertion_identity int int string
  | Resolve string int int
  | Revoke string int
  | SetCsrf string string int
  | AllowRate string int int int
  | BeginAction string string int int int
  | FinishAction string string int

fun auth_step :: "auth_db \<Rightarrow> auth_call \<Rightarrow> auth_db" where
  "auth_step d (Consume jti expires now) = snd (consume_assertion jti expires now d)"
| "auth_step d (CreateSession h ident issued expires event) = snd (create_session h ident issued expires event d)"
| "auth_step d (Resolve h now idle) = snd (resolve_session h now idle d)"
| "auth_step d (Revoke h now) = snd (revoke_session h now d)"
| "auth_step d (SetCsrf h secret expires) = snd (set_csrf h secret expires d)"
| "auth_step d (AllowRate bucket now limit window) = snd (allow_rate bucket now limit window d)"
| "auth_step d (BeginAction h action now inflight cooldown) = snd (begin_action h action now inflight cooldown d)"
| "auth_step d (FinishAction h action now) = snd (finish_action h action now d)"

definition auth_run :: "auth_db \<Rightarrow> auth_call list \<Rightarrow> auth_db" where
  "auth_run = foldl auth_step"

end
