(* ===== verification/SecurityGateway.thy ===== *)
theory SecurityGateway
  imports SecurityAssertion SecurityStore
begin

text \<open>
  server/edge1_security_auth_gateway.py and the audit file of edge1_security_auth_store.py: exchange of
  assertions for sessions, authentication, authorization, correlation, logout. The clock is read once per call.
\<close>

section \<open>State\<close>

text \<open>The store, the lines of the audit file, the number of random draws so far, and the operations run.\<close>

record auth_state =
  au_db :: auth_db
  au_audit :: "doc list"
  au_draws :: nat
  au_runs :: "(string \<times> string) list"

definition on_auth_db :: "(auth_db, 'a) guarded \<Rightarrow> (auth_state, 'a) guarded" where
  "on_auth_db m s = (let (r, d) = m (au_db s) in (r, s\<lparr>au_db := d\<rparr>))"

definition draw :: "(nat \<Rightarrow> 'a) \<Rightarrow> (auth_state, 'a) guarded" where
  "draw f s = (Inr (f (au_draws s)), s\<lparr>au_draws := Suc (au_draws s)\<rparr>)"

section \<open>The audit file\<close>

definition forbidden_fields :: "string list" where
  "forbidden_fields = [''assertion'', ''token'', ''cookie'', ''password'', ''signature'', ''private_key'', ''csrf'']"

definition append_audit :: "auth_env \<Rightarrow> doc \<Rightarrow> (auth_state, unit) guarded" where
  "append_audit env event s =
     (if ae_audit_fails env (au_draws s)
      then (Inl (Denied AuditUnavailable ''required audit evidence could not be written''), s)
      else (Inr (), s\<lparr>au_audit := au_audit s @ [event]\<rparr>))"

definition audit_sink :: "auth_env \<Rightarrow> int \<Rightarrow> doc \<Rightarrow> (auth_state, string) guarded" where
  "audit_sink env now event =
     bindS (if truthy (jget event ''event_id'') then ret (jget event ''event_id'')
            else draw (\<lambda>k. JStr (''edge1-auth-'' @ ae_hex env k))) (\<lambda>event_id.
     if \<not> valid_event_id event_id then raise_err (Denied AuditUnavailable ''audit event identifier is invalid'')
     else let event' = dset event ''event_id'' event_id;
              event'' = (if dget event' ''timestamp'' = None then dset event' ''timestamp'' (JInt now) else event') in
       if set forbidden_fields \<inter> object_keys event'' \<noteq> {} then raise_err (Denied AuditUnavailable ''audit record contains prohibited fields'')
       else bindS (append_audit env event'') (\<lambda>_. ret (py_str event_id)))"

definition gateway_audit :: "auth_env \<Rightarrow> int \<Rightarrow> doc \<Rightarrow> (auth_state, string) guarded" where
  "gateway_audit env now event =
     bindS (audit_sink env now event) (\<lambda>event_id.
       if event_id_text event_id then ret event_id
       else raise_err (Denied AuditUnavailable ''audit sink returned an invalid event identifier''))"

definition when_given :: "string \<Rightarrow> string \<Rightarrow> doc" where
  "when_given name v = (if v = [] then [] else [(name, JStr v)])"

text \<open>\<open>details\<close> are the optional fields that were given.\<close>

definition audit_denial :: "auth_env \<Rightarrow> int \<Rightarrow> string \<Rightarrow> string \<Rightarrow> string \<Rightarrow> doc \<Rightarrow> (auth_state, unit) guarded" where
  "audit_denial env now event_type request_id reason details =
     bindS (gateway_audit env now ([(''event_type'', JStr event_type), (''request_id'', JStr request_id),
       (''authorization_decision'', JStr ''deny''), (''reason'', JStr reason)] @ details)) (\<lambda>_. ret ())"

section \<open>Exchange\<close>

definition require_enabled :: "auth_config \<Rightarrow> (auth_state, unit) guarded" where
  "require_enabled c =
     (if ac_enabled c \<and> ac_deployment_authorized c then ret () else raise_err (unauthenticated ''gateway_disabled''))"

definition scope_list :: "string set \<Rightarrow> json" where
  "scope_list S = JList (map JStr (sorted_list_of_set S))"

definition open_session :: "auth_env \<Rightarrow> auth_config \<Rightarrow> int \<Rightarrow> string \<Rightarrow> assertion_identity \<Rightarrow> (auth_state, string \<times> session_context) guarded" where
  "open_session env c now request_id ident =
     bindS (draw (ae_token env (ac_token_bytes c))) (\<lambda>token.
     let h = ae_sha env token; expires = min (ai_expires_at ident + ac_absolute_timeout c) (now + ac_absolute_timeout c) in
     bindS (gateway_audit env now [(''event_type'', JStr ''login_succeeded''), (''request_id'', JStr request_id),
       (''actor_subject'', JStr (ai_subject ident)), (''session_identifier_hash'', JStr h), (''scopes'', scope_list (ai_scopes ident)),
       (''authorization_decision'', JStr ''allow''), (''reason'', JStr ''business159_assertion_accepted'')]) (\<lambda>event_id.
     bindS (on_auth_db (create_session h ident now expires event_id)) (\<lambda>_.
     ret (token, \<lparr>sx_subject = ai_subject ident, sx_display_name = ai_display_name ident, sx_role = ai_role ident,
       sx_scopes = ai_scopes ident, sx_issued_at = now, sx_expires_at = expires, sx_last_seen_at = now,
       sx_event_id = event_id, sx_session_hash = h\<rparr>))))"

definition try_exchange :: "auth_env \<Rightarrow> auth_config \<Rightarrow> int \<Rightarrow> string \<Rightarrow> string \<Rightarrow> (auth_state, string \<times> session_context) guarded" where
  "try_exchange env c now assertion request_id =
     bindS (pure_act (validate_assertion env c assertion now)) (\<lambda>ident.
     bindS (on_auth_db (consume_assertion (ai_jti_hash ident) (ai_expires_at ident) now)) (\<lambda>consumed.
     if \<not> consumed then raise_err (unauthenticated ''assertion_replayed'')
     else open_session env c now request_id ident))"

definition login_failed :: "auth_env \<Rightarrow> int \<Rightarrow> string \<Rightarrow> auth_exn \<Rightarrow> auth_state \<Rightarrow> auth_state" where
  "login_failed env now request_id e s =
     (case e of
        Denied AuditUnavailable _ \<Rightarrow> s
      | Denied _ m \<Rightarrow> snd (audit_denial env now ''login_failed'' request_id (safe_reason m) [] s)
      | Raised _ \<Rightarrow> snd (audit_denial env now ''login_failed'' request_id ''internal_validation_failure'' [] s))"

definition exchange_assertion :: "auth_env \<Rightarrow> auth_config \<Rightarrow> int \<Rightarrow> string \<Rightarrow> string \<Rightarrow> (auth_state, string \<times> session_context) guarded" where
  "exchange_assertion env c now assertion request_id =
     bindS (require_enabled c) (\<lambda>_.
     bindS (pure_act (require_event_id request_id ''request_id'')) (\<lambda>_ s.
     case try_exchange env c now assertion request_id s of
       (Inr v, s') \<Rightarrow> (Inr v, s')
     | (Inl e, s') \<Rightarrow> (Inl (unauthenticated ''identity assertion was denied''), login_failed env now request_id e s')))"

section \<open>Sessions and actions\<close>

definition contains_text :: "string \<Rightarrow> string \<Rightarrow> bool" where
  "contains_text part t \<longleftrightarrow> list_ex (\<lambda>i. starts_with (drop i t) part) [0 ..< Suc (length t)]"

definition authenticate_session :: "auth_env \<Rightarrow> auth_config \<Rightarrow> int \<Rightarrow> string \<Rightarrow> string \<Rightarrow> (auth_state, session_context) guarded" where
  "authenticate_session env c now token request_id =
     bindS (require_enabled c) (\<lambda>_.
     bindS (pure_act (require_event_id request_id ''request_id'')) (\<lambda>_.
     if length token < 43 \<or> length token > 256
     then bindS (audit_denial env now ''authorization_denied'' request_id ''malformed_session'' []) (\<lambda>_.
       raise_err (unauthenticated ''session was denied''))
     else let h = ae_sha env token in
       bindS (on_auth_db (resolve_session h now (ac_idle_timeout c))) (\<lambda>(context, reason).
       case context of
         None \<Rightarrow> bindS (audit_denial env now (if contains_text ''expired'' reason then ''session_expired'' else ''authorization_denied'')
             request_id reason (when_given ''session_identifier_hash'' h)) (\<lambda>_. raise_err (unauthenticated ''session was denied''))
       | Some x \<Rightarrow> ret x)))"

definition authorize_action :: "auth_env \<Rightarrow> auth_config \<Rightarrow> int \<Rightarrow> string \<Rightarrow> string \<Rightarrow> string \<Rightarrow> (auth_state, session_context) guarded" where
  "authorize_action env c now token action request_id =
     bindS (pure_act (require_event_id request_id ''request_id'')) (\<lambda>_.
     if action \<in> {''security.rules.reload'', ''security.logs.rotate'', ''security.restart''}
     then bindS (audit_denial env now ''authorization_denied'' request_id ''mutation_scope_locked'' []) (\<lambda>_.
       raise_err (unauthorized ''action is not enabled''))
     else case dget action_scopes action of
       None \<Rightarrow> bindS (audit_denial env now ''authorization_denied'' request_id ''unknown_action'' []) (\<lambda>_.
         raise_err (unauthorized ''action is not allowlisted''))
     | Some required \<Rightarrow>
         bindS (authenticate_session env c now token request_id) (\<lambda>x.
         if required \<notin> sx_scopes x
         then bindS (audit_denial env now ''authorization_denied'' request_id ''scope_missing''
             (when_given ''actor_subject'' (sx_subject x) @ when_given ''session_identifier_hash'' (sx_session_hash x) @
              when_given ''required_scope'' required @ when_given ''authentication_event_id'' (sx_event_id x))) (\<lambda>_.
           raise_err (unauthorized ''scope is not authorized''))
         else bindS (gateway_audit env now [(''event_type'', JStr ''authorization_granted''), (''request_id'', JStr request_id),
           (''actor_subject'', JStr (sx_subject x)), (''session_identifier_hash'', JStr (sx_session_hash x)),
           (''authentication_event_id'', JStr (sx_event_id x)), (''action_id'', JStr action), (''required_scope'', JStr required),
           (''authorization_decision'', JStr ''allow''), (''reason'', JStr ''exact_scope_present'')]) (\<lambda>_. ret x)))"

definition correlate_operations_event ::
  "auth_env \<Rightarrow> auth_config \<Rightarrow> int \<Rightarrow> string \<Rightarrow> string \<Rightarrow> string \<Rightarrow> string \<Rightarrow> (auth_state, string) guarded" where
  "correlate_operations_event env c now token action operations_event_id request_id =
     bindS (pure_act (require_event_id operations_event_id ''operations_event_id'')) (\<lambda>_.
     bindS (authorize_action env c now token action request_id) (\<lambda>x.
     gateway_audit env now [(''event_type'', JStr ''operations_event_correlated''), (''request_id'', JStr request_id),
       (''actor_subject'', JStr (sx_subject x)), (''session_identifier_hash'', JStr (sx_session_hash x)),
       (''authentication_event_id'', JStr (sx_event_id x)), (''operations_event_id'', JStr operations_event_id),
       (''action_id'', JStr action), (''authorization_decision'', JStr ''allow''), (''reason'', JStr ''operations_api_event_preserved'')]))"

definition logout_session :: "auth_env \<Rightarrow> int \<Rightarrow> string \<Rightarrow> string \<Rightarrow> (auth_state, unit) guarded" where
  "logout_session env now token request_id =
     bindS (pure_act (require_event_id request_id ''request_id'')) (\<lambda>_.
     let h = ae_sha env token in
     bindS (on_auth_db (revoke_session h now)) (\<lambda>revoked.
     bindS (gateway_audit env now [(''event_type'', JStr ''logout''), (''request_id'', JStr request_id), (''session_identifier_hash'', JStr h),
       (''authorization_decision'', JStr (if revoked then ''allow'' else ''deny'')),
       (''reason'', JStr (if revoked then ''session_revoked'' else ''unknown_session''))]) (\<lambda>_. ret ())))"

end
