(* ===== verification/SecurityHttp.thy ===== *)
theory SecurityHttp
  imports SecurityGateway
begin

text \<open>
  The HTTP boundary of the security identity gateway: server/edge1_security_auth_http.py with its configuration,
  helpers, types and action handler. The Operations API and the VPN account backend are arguments, and so is the text of the
  console page. The clock is read once before and once after an operation.
\<close>

section \<open>Configuration\<close>

text \<open>Equality of a value with a constant object of texts and flags: \<open>True\<close> equals \<open>1\<close>.\<close>

definition scalar_eq :: "json \<Rightarrow> json \<Rightarrow> bool" where
  "scalar_eq a b \<longleftrightarrow> (case (as_int a, as_int b) of (Some i, Some j) \<Rightarrow> i = j | (None, None) \<Rightarrow> a = b | _ \<Rightarrow> False)"

definition flat_eq :: "json \<Rightarrow> doc \<Rightarrow> bool" where
  "flat_eq v b \<longleftrightarrow> (case v of
     JObj a \<Rightarrow> object_keys a = object_keys b \<and> list_all (\<lambda>(k, x). scalar_eq (jget a k) x) b
   | _ \<Rightarrow> False)"

record http_config =
  hc_enabled :: bool
  hc_deployment_authorized :: bool
  hc_live_route :: bool
  hc_allowed_host :: string
  hc_business159_origin :: string
  hc_same_origin :: string
  hc_routes :: "(string, json) dict"
  hc_session_cookie :: string
  hc_csrf_cookie :: string
  hc_cookie_path :: string
  hc_limits :: "(string, json) dict"
  hc_operations_origin :: string
  hc_operations_secret_path :: string
  hc_operations_timeout :: int
  hc_operations_action :: string

definition expected_routes :: doc where
  "expected_routes = [(''health'', JStr ''/healthz''), (''console'', JStr ''/edge1-ops/security/''),
     (''exchange'', JStr ''/edge1-ops/session/exchange''), (''session'', JStr ''/edge1-ops/session''),
     (''logout'', JStr ''/edge1-ops/session/logout''), (''validate'', JStr ''/edge1-ops/api/v1/security/validate''),
     (''redirect_after_exchange'', JStr ''/edge1-ops/security/'')]"

definition expected_cookies :: doc where
  "expected_cookies = [(''session_name'', JStr ''__Secure-wwcx_edge1_ops_session''), (''csrf_name'', JStr ''__Secure-wwcx_edge1_ops_csrf''),
     (''path'', JStr ''/edge1-ops/''), (''secure'', JBool True), (''http_only_session'', JBool True), (''same_site'', JStr ''Strict''),
     (''persistent'', JBool False)]"

definition expected_boundaries :: doc where
  "expected_boundaries = [(''loopback_only'', JBool True), (''trusted_proxy_required'', JBool True),
     (''csrf_required_for_authenticated_post'', JBool True), (''raw_assertion_storage'', JBool False), (''raw_session_storage'', JBool False),
     (''raw_operations_output_to_browser'', JBool False), (''mutation_actions_enabled'', JBool False)]"

definition limit_names :: "string list" where
  "limit_names = [''maximum_body_bytes'', ''exchange_requests'', ''exchange_window_seconds'', ''session_requests'', ''session_window_seconds'',
     ''action_requests'', ''action_window_seconds'', ''logout_requests'', ''logout_window_seconds'', ''action_inflight_timeout_seconds'',
     ''action_cooldown_seconds'']"

definition text_of :: "json \<Rightarrow> string" where
  "text_of v = (case v of JStr t \<Rightarrow> t | _ \<Rightarrow> [])"

definition int_of :: "json \<Rightarrow> int" where
  "int_of v = (case v of JInt i \<Rightarrow> i | _ \<Rightarrow> 0)"

definition doc_of :: "json \<Rightarrow> doc" where
  "doc_of v = (case v of JObj d \<Rightarrow> d | _ \<Rightarrow> [])"

definition operations_settings :: "json \<Rightarrow> (doc \<times> int) outcome" where
  "operations_settings v =
     (case v of
        JObj ops \<Rightarrow>
          guard (object_keys ops = set [''origin'', ''secret_path'', ''timeout_seconds'', ''allowed_action''])
            (ValueError ''Operations API fields do not match the contract'')
          (guard (jget ops ''origin'' = JStr ''http://127.0.0.1:8097'') (ValueError ''Operations API origin must remain loopback'')
          (guard (jget ops ''allowed_action'' = JStr ''security.validate_config'') (ValueError ''Only configuration validation is allowed'')
          (guard (case jget ops ''secret_path'' of JStr p \<Rightarrow> starts_with p ''/'' | _ \<Rightarrow> False)
            (ValueError ''Operations API secret path must be absolute'')
          (case as_int (jget ops ''timeout_seconds'') of
             Some t \<Rightarrow> guard (1 \<le> t \<and> t \<le> 60) (ValueError ''Operations API timeout is invalid'') (Inr (ops, t))
           | None \<Rightarrow> Inl (ValueError ''Operations API timeout is invalid'')))))
      | _ \<Rightarrow> Inl (ValueError ''Operations API fields do not match the contract''))"

definition limit_settings :: "json \<Rightarrow> doc outcome" where
  "limit_settings v =
     (case v of
        JObj limits \<Rightarrow>
          guard (object_keys limits = set limit_names) (ValueError ''HTTP request limits do not match the contract'')
          (guard (list_all (\<lambda>k. case jget limits k of JInt i \<Rightarrow> i \<ge> 1 | _ \<Rightarrow> False) limit_names) (ValueError ''request limit is invalid'')
          (guard (1024 \<le> int_of (jget limits ''maximum_body_bytes'') \<and> int_of (jget limits ''maximum_body_bytes'') \<le> 65536)
            (ValueError ''maximum body size is invalid'') (Inr limits)))
      | _ \<Rightarrow> Inl (ValueError ''HTTP request limits do not match the contract''))"

definition http_settings :: "doc \<Rightarrow> doc \<Rightarrow> doc \<Rightarrow> int \<Rightarrow> http_config" where
  "http_settings v limits ops timeout =
     \<lparr>hc_enabled = truthy (jget v ''enabled''), hc_deployment_authorized = truthy (jget v ''deployment_authorized''),
        hc_live_route = truthy (jget v ''live_route_authorized''), hc_allowed_host = text_of (jget v ''allowed_host''),
        hc_business159_origin = text_of (jget v ''business159_origin''), hc_same_origin = text_of (jget v ''same_origin''),
        hc_routes = doc_of (jget v ''routes''),
        hc_session_cookie = text_of (jget (doc_of (jget v ''cookies'')) ''session_name''),
        hc_csrf_cookie = text_of (jget (doc_of (jget v ''cookies'')) ''csrf_name''),
        hc_cookie_path = text_of (jget (doc_of (jget v ''cookies'')) ''path''),
        hc_limits = limits, hc_operations_origin = text_of (jget ops ''origin''), hc_operations_secret_path = text_of (jget ops ''secret_path''),
        hc_operations_timeout = timeout, hc_operations_action = text_of (jget ops ''allowed_action'')\<rparr>"

definition http_config_from :: "doc \<Rightarrow> http_config outcome" where
  "http_config_from v =
     guard (object_keys v = set [''contract'', ''status'', ''enabled'', ''deployment_authorized'', ''live_route_authorized'', ''allowed_host'',
         ''business159_origin'', ''same_origin'', ''routes'', ''cookies'', ''request_limits'', ''operations_api'', ''boundaries''])
       (ValueError ''HTTP adapter fields do not match the contract'')
     (guard (jget v ''contract'' = JStr ''wwcx.edge1-security-auth-http.v1'' \<and> jget v ''status'' = JStr ''staged_disabled'')
       (ValueError ''HTTP adapter contract or status is invalid'')
     (guard (is_bool (jget v ''enabled'')) (ValueError ''enabled must be boolean'')
     (guard (is_bool (jget v ''deployment_authorized'')) (ValueError ''deployment_authorized must be boolean'')
     (guard (is_bool (jget v ''live_route_authorized'')) (ValueError ''live_route_authorized must be boolean'')
     (guard (\<not> (truthy (jget v ''enabled'') \<and> \<not> truthy (jget v ''deployment_authorized'')))
       (ValueError ''HTTP adapter cannot be enabled without deployment authorization'')
     (guard (jget v ''allowed_host'' = JStr ''edge1.ww.cx'') (ValueError ''HTTP adapter host must remain exact'')
     (guard (jget v ''business159_origin'' = JStr ''https://ww.cx'') (ValueError ''Business159 browser origin must remain exact'')
     (guard (jget v ''same_origin'' = JStr ''https://edge1.ww.cx'') (ValueError ''Edge1 origin must remain exact'')
     (guard (flat_eq (jget v ''routes'') expected_routes) (ValueError ''HTTP adapter routes do not match the contract'')
     (guard (case jget v ''cookies'' of JObj d \<Rightarrow> object_keys d = object_keys expected_cookies | _ \<Rightarrow> False)
       (ValueError ''HTTP cookie fields do not match the contract'')
     (guard (flat_eq (jget v ''cookies'') expected_cookies) (ValueError ''HTTP cookie policy does not match the contract'')
     (bindE (limit_settings (jget v ''request_limits'')) (\<lambda>limits.
      bindE (operations_settings (jget v ''operations_api'')) (\<lambda>(ops, timeout).
      guard (flat_eq (jget v ''boundaries'') expected_boundaries) (ValueError ''HTTP adapter boundaries do not match the contract'')
     (Inr (http_settings v limits ops timeout))))))))))))))))"

definition http_config_from_path :: "json \<Rightarrow> http_config outcome" where
  "http_config_from_path v = (case v of JObj d \<Rightarrow> http_config_from d | _ \<Rightarrow> Inl (ValueError ''HTTP adapter configuration must be an object''))"

definition route_of :: "http_config \<Rightarrow> string \<Rightarrow> string" where
  "route_of c name = text_of (jget (hc_routes c) name)"

definition limit_of :: "http_config \<Rightarrow> string \<Rightarrow> int" where
  "limit_of c name = int_of (jget (hc_limits c) name)"

section \<open>Requests and responses\<close>

record http_request =
  hq_method :: string
  hq_path :: string
  hq_headers :: "(string \<times> string) list"
  hq_body :: string
  hq_remote :: string
  hq_scheme :: string
  hq_host :: string

record http_response =
  hr_status :: nat
  hr_headers :: "(string \<times> string) list"
  hr_body :: string

definition loopbacks :: "string list" where
  "loopbacks = [''127.0.0.1'', ''::1'']"

definition cookie_text :: "string \<Rightarrow> bool" where
  "cookie_text = chars_text ''_-'' 32 256"

definition header_of :: "http_request \<Rightarrow> string \<Rightarrow> string" where
  "header_of q name =
     (case find (\<lambda>(k, _). lower k = lower name) (hq_headers q) of None \<Rightarrow> [] | Some (_, v) \<Rightarrow> strip v)"

definition content_type_of :: "http_request \<Rightarrow> string" where
  "content_type_of q = lower (strip (before_first (CHR '';'') (header_of q ''content-type'')))"

fun cookie_items :: "(string, string) dict \<Rightarrow> string list \<Rightarrow> (string, string) dict checked" where
  "cookie_items d [] = Inr d"
| "cookie_items d (i # is) =
     (if CHR ''='' \<notin> set i then Inl (Raised (ValueError ''cookie_invalid''))
      else let t = strip i; name = before_first (CHR ''='') t in
        if name = [] \<or> dget d name \<noteq> None then Inl (Raised (ValueError ''cookie_invalid''))
        else cookie_items (dset d name (drop (Suc (length name)) t)) is)"

definition cookies_of :: "http_request \<Rightarrow> (string, string) dict checked" where
  "cookies_of q = (let raw = header_of q ''cookie'' in if raw = [] then Inr [] else cookie_items [] (split_on (CHR '';'') raw))"

definition session_token_of :: "http_config \<Rightarrow> http_request \<Rightarrow> string checked" where
  "session_token_of c q =
     bindE (cookies_of q) (\<lambda>cookies.
       let token = (case dget cookies (hc_session_cookie c) of None \<Rightarrow> [] | Some t \<Rightarrow> t) in
       if cookie_text token then Inr token else Inl (unauthenticated ''session_missing''))"

definition quoted :: "string \<Rightarrow> string" where
  "quoted t = CHR 0x27 # t @ [CHR 0x27]"

definition base_headers :: "(string \<times> string) list" where
  "base_headers = [(''Cache-Control'', ''no-store, max-age=0''), (''Pragma'', ''no-cache''), (''Referrer-Policy'', ''no-referrer''),
     (''X-Content-Type-Options'', ''nosniff''), (''X-Frame-Options'', ''DENY''),
     (''Content-Security-Policy'', ''default-src '' @ quoted ''none'' @ ''; frame-ancestors '' @ quoted ''none'' @ ''; base-uri '' @ quoted ''none'')]"

definition value_response :: "nat \<Rightarrow> json \<Rightarrow> http_response" where
  "value_response status payload =
     (let body = canonical_json payload in
      \<lparr>hr_status = status, hr_headers = base_headers @ [(''Content-Type'', ''application/json; charset=utf-8''),
         (''Content-Length'', show_nat (length body))], hr_body = body\<rparr>)"

definition json_response :: "nat \<Rightarrow> doc \<Rightarrow> http_response" where
  "json_response status payload = value_response status (JObj payload)"

definition error_response :: "nat \<Rightarrow> string \<Rightarrow> http_response" where
  "error_response status name = json_response status [(''error'', JStr name)]"

definition session_cookie :: "http_config \<Rightarrow> string \<Rightarrow> string" where
  "session_cookie c token = hc_session_cookie c @ ''='' @ token @ ''; Path='' @ hc_cookie_path c @ ''; Secure; HttpOnly; SameSite=Strict''"

definition csrf_cookie :: "http_config \<Rightarrow> string \<Rightarrow> string" where
  "csrf_cookie c token = hc_csrf_cookie c @ ''='' @ token @ ''; Path='' @ hc_cookie_path c @ ''; Secure; SameSite=Strict''"

definition clear_cookie :: "http_config \<Rightarrow> string \<Rightarrow> bool \<Rightarrow> string" where
  "clear_cookie c name http_only = name @ ''=; Path='' @ hc_cookie_path c @ ''; Max-Age=0; Secure'' @
     (if http_only then ''; HttpOnly'' else []) @ ''; SameSite=Strict''"

end
