(* ===== verification/SecurityRoutes.thy ===== *)
theory SecurityRoutes
  imports SecurityHttp
begin

text \<open>
  The routes of server/edge1_security_auth_http.py and the action handler of edge1_security_auth_http_actions.py:
  the boundary check, the console page, the account API, exchange, session, logout and the validation action.
\<close>

section \<open>Arguments\<close>

text \<open>The answer of the Operations API, with the clock after it.\<close>

record operation_result =
  op_action :: string
  op_status :: string
  op_message :: string
  op_event_id :: string
  op_duration_ms :: int
  op_exit_code :: json

datatype operation_reply = OperationDone operation_result | OperationTimeout | OperationUnavailable | OperationCrash py_error

datatype 'a backend_reply = BackendDone 'a | BackendError | BackendCrash py_error

text \<open>The methods of \<open>VPNAccountBackend\<close>: enrollment, registration devices, policies, acceptance.\<close>

record vpn_backend =
  vb_enrollment :: "string \<Rightarrow> string \<Rightarrow> doc \<Rightarrow> json backend_reply"
  vb_devices :: "string \<Rightarrow> json backend_reply"
  vb_policies :: "string \<Rightarrow> json backend_reply"
  vb_accept :: "string \<Rightarrow> string \<Rightarrow> json \<Rightarrow> json backend_reply"

record http_world =
  hw_env :: auth_env
  hw_auth :: auth_config
  hw_http :: http_config
  hw_console :: "string option"
  hw_operations :: "string \<Rightarrow> string \<Rightarrow> operation_reply \<times> int"
  hw_backend :: vpn_backend

definition console_read_scope :: string where
  "console_read_scope = ''edge1.security.read''"

definition request_id_draw :: "http_world \<Rightarrow> (auth_state, string) guarded" where
  "request_id_draw w = draw (\<lambda>k. ''edge1-http-'' @ ae_hex (hw_env w) k)"

definition bad_request :: "string \<Rightarrow> auth_exn" where
  "bad_request m = Raised (ValueError m)"

definition require_that :: "bool \<Rightarrow> auth_exn \<Rightarrow> (auth_state, unit) guarded" where
  "require_that ok e = (if ok then ret () else raise_err e)"

section \<open>The boundary\<close>

definition validate_boundary :: "http_config \<Rightarrow> http_request \<Rightarrow> unit checked" where
  "validate_boundary c q =
     guard (hc_enabled c \<and> hc_deployment_authorized c) (Denied GatewayFailure ''http_adapter_disabled'')
     (guard (hq_remote q \<in> set loopbacks) (unauthorized ''non_loopback_backend_client'')
     (guard (hq_scheme q = ''https'' \<and> hq_host q = hc_allowed_host c) (unauthorized ''untrusted_proxy_boundary'')
     (guard (int (length (hq_body q)) \<le> limit_of c ''maximum_body_bytes'') (bad_request ''body_too_large'')
     (guard (CHR ''?'' \<notin> set (hq_path q) \<and> CHR ''#'' \<notin> set (hq_path q) \<and> starts_with (hq_path q) ''/'') (bad_request ''path_invalid'')
     (Inr ())))))"

definition rate_guard :: "http_world \<Rightarrow> string \<Rightarrow> int \<Rightarrow> string \<Rightarrow> (auth_state, bool) guarded" where
  "rate_guard w bucket now kind =
     on_auth_db (allow_rate bucket now (limit_of (hw_http w) (kind @ ''_requests'')) (limit_of (hw_http w) (kind @ ''_window_seconds'')))"

definition require_same_origin :: "http_config \<Rightarrow> http_request \<Rightarrow> (auth_state, unit) guarded" where
  "require_same_origin c q = require_that (header_of q ''origin'' = hc_same_origin c) (unauthorized ''origin_invalid'')"

definition require_csrf :: "http_world \<Rightarrow> http_request \<Rightarrow> int \<Rightarrow> string \<Rightarrow> (auth_state, unit) guarded" where
  "require_csrf w q now h s =
     (let token = header_of q ''x-wwcx-csrf'' in
      require_that (cookie_text token \<and> verify_csrf h (ae_sha (hw_env w) token) now (au_db s)) (unauthorized ''csrf_invalid'') s)"

section \<open>Health and console\<close>

definition health_route :: "http_world \<Rightarrow> (auth_state, http_response) guarded" where
  "health_route w = ret (json_response 200 [(''status'', JStr ''ok''), (''live_route_authorized'', JBool (hc_live_route (hw_http w))),
     (''mutations_enabled'', JBool False)])"

fun count_text :: "string \<Rightarrow> string \<Rightarrow> nat" where
  "count_text part [] = 0"
| "count_text part (c # cs) =
     (if starts_with (c # cs) part then Suc (count_text part (drop (length part - 1) cs)) else count_text part cs)"

fun replace_first :: "string \<Rightarrow> string \<Rightarrow> string \<Rightarrow> string" where
  "replace_first part new [] = []"
| "replace_first part new (c # cs) =
     (if starts_with (c # cs) part then new @ drop (length part) (c # cs) else c # replace_first part new cs)"

text \<open>\<open>t.encode("utf-8")\<close> of code points up to 255.\<close>

definition utf8_encode :: "string \<Rightarrow> string" where
  "utf8_encode t = concat (map (\<lambda>c. let n = code c in if n < (128 :: nat) then [c] else [char_of (192 + n div 64), char_of (128 + n mod 64)]) t)"

definition console_headers :: "string \<Rightarrow> string \<Rightarrow> (string \<times> string) list" where
  "console_headers nonce body =
     [(''Cache-Control'', ''no-store, max-age=0''), (''Pragma'', ''no-cache''), (''Content-Type'', ''text/html; charset=utf-8''),
      (''Content-Length'', show_nat (length body)), (''Referrer-Policy'', ''no-referrer''), (''X-Content-Type-Options'', ''nosniff''),
      (''X-Frame-Options'', ''DENY''), (''Permissions-Policy'', ''camera=(), microphone=(), geolocation=(), payment=(), usb=()''),
      (''Cross-Origin-Opener-Policy'', ''same-origin''), (''Cross-Origin-Resource-Policy'', ''same-origin''),
      (''Content-Security-Policy'', ''default-src '' @ quoted ''self'' @ ''; script-src '' @ quoted (''nonce-'' @ nonce) @
        ''; style-src '' @ quoted (''nonce-'' @ nonce) @ ''; connect-src '' @ quoted ''self'' @ ''; img-src '' @ quoted ''self'' @
        '' data:; object-src '' @ quoted ''none'' @ ''; frame-ancestors '' @ quoted ''none'' @ ''; base-uri '' @ quoted ''none'' @
        ''; form-action '' @ quoted ''self'')]"

definition render_console :: "http_world \<Rightarrow> (auth_state, http_response) guarded" where
  "render_console w =
     (case hw_console w of
        None \<Rightarrow> raise_err (Denied GatewayFailure ''console_unavailable'')
      | Some source \<Rightarrow>
          if count_text ''<style>'' source \<noteq> 1 \<or> count_text ''<script>'' source \<noteq> 1
          then raise_err (Denied GatewayFailure ''console_template_invalid'')
          else bindS (draw (ae_token (hw_env w) 24)) (\<lambda>nonce.
            let tag = (\<lambda>name. ''<'' @ name @ '' nonce='' @ CHR 0x22 # nonce @ [CHR 0x22] @ ''>'');
                body = utf8_encode (replace_first ''<script>'' (tag ''script'') (replace_first ''<style>'' (tag ''style'') source)) in
            ret \<lparr>hr_status = 200, hr_headers = console_headers nonce body, hr_body = body\<rparr>))"

definition rate_limited :: http_response where
  "rate_limited = error_response 429 ''rate_limited''"

text \<open>The common start of the console and session routes.\<close>

definition with_reader :: "http_world \<Rightarrow> http_request \<Rightarrow> int \<Rightarrow> string \<Rightarrow> (session_context \<Rightarrow> (auth_state, http_response) guarded) \<Rightarrow>
    (auth_state, http_response) guarded" where
  "with_reader w q now bucket continue =
     bindS (pure_act (session_token_of (hw_http w) q)) (\<lambda>token.
     bindS (request_id_draw w) (\<lambda>request_id.
     bindS (authenticate_session (hw_env w) (hw_auth w) now token request_id) (\<lambda>x.
     bindS (require_that (console_read_scope \<in> sx_scopes x) (unauthorized ''console_scope_required'')) (\<lambda>_.
     bindS (rate_guard w (bucket @ sx_session_hash x) now ''session'') (\<lambda>allowed.
     if allowed then continue x else ret rate_limited)))))"

definition console_route :: "http_world \<Rightarrow> http_request \<Rightarrow> int \<Rightarrow> (auth_state, http_response) guarded" where
  "console_route w q now = with_reader w q now ''console:'' (\<lambda>_. render_console w)"

definition session_route :: "http_world \<Rightarrow> http_request \<Rightarrow> int \<Rightarrow> (auth_state, http_response) guarded" where
  "session_route w q now = with_reader w q now ''session:'' (\<lambda>x.
     ret (json_response 200 [(''authenticated'', JBool True), (''display_name'', JStr (sx_display_name x)), (''source_role'', JStr (sx_role x)),
       (''scopes'', scope_list (sx_scopes x)), (''expires_at'', JInt (sx_expires_at x)),
       (''authentication_event_id'', JStr (sx_event_id x))]))"

section \<open>Exchange and logout\<close>

definition exchange_origin_allowed :: "http_config \<Rightarrow> http_request \<Rightarrow> bool" where
  "exchange_origin_allowed c q \<longleftrightarrow>
     header_of q ''origin'' = hc_business159_origin c \<or>
     (header_of q ''origin'' = ''null'' \<and> lower (header_of q ''sec-fetch-site'') = ''same-site'' \<and>
      lower (header_of q ''sec-fetch-mode'') = ''navigate'' \<and> lower (header_of q ''sec-fetch-dest'') = ''document'')"

text \<open>
  \<open>parse_qs(text, strict_parsing=True, max_num_fields=4)\<close>: fields separated by \<open>&\<close>, each with a \<open>=\<close>; blank values are dropped.
\<close>

definition parse_field :: "auth_env \<Rightarrow> string \<Rightarrow> (string \<times> string) outcome" where
  "parse_field env t =
     (if CHR ''='' \<notin> set t then Inl (ValueError ''bad query field'')
      else let plus = map (\<lambda>c. if c = CHR ''+'' then CHR '' '' else c); name = before_first (CHR ''='') t in
        Inr (ae_unquote env (plus name), ae_unquote env (plus (drop (Suc (length name)) t))))"

fun parse_fields :: "auth_env \<Rightarrow> string list \<Rightarrow> ((string \<times> string) list) outcome" where
  "parse_fields env [] = Inr []"
| "parse_fields env (t # ts) =
     bindE (parse_field env t) (\<lambda>kv. bindE (parse_fields env ts) (\<lambda>kvs. Inr (if snd kv = [] then kvs else kv # kvs)))"

definition parse_form :: "auth_env \<Rightarrow> string \<Rightarrow> ((string \<times> string) list) outcome" where
  "parse_form env t =
     (if t = [] then Inr []
      else if length (split_on (CHR ''&'') t) > 4 then Inl (ValueError ''Max number of fields exceeded'')
      else parse_fields env (split_on (CHR ''&'') t))"

definition exchange_form :: "auth_env \<Rightarrow> string \<Rightarrow> (string \<times> string) checked" where
  "exchange_form env body =
     (case ae_utf8 env body of
        None \<Rightarrow> Inl (bad_request ''form_encoding_invalid'')
      | Some t \<Rightarrow>
          bindE (raising (parse_form env t)) (\<lambda>kvs.
          if set (map fst kvs) \<noteq> {''assertion'', ''request_id''} \<or> length kvs \<noteq> 2 then Inl (bad_request ''form_invalid'')
          else let get = (\<lambda>k. the (map_of kvs k)) in
            if event_id_text (get ''request_id'') then Inr (get ''assertion'', get ''request_id'')
            else Inl (bad_request ''request_id_invalid'')))"

definition exchange_route :: "http_world \<Rightarrow> http_request \<Rightarrow> int \<Rightarrow> (auth_state, http_response) guarded" where
  "exchange_route w q now =
     (let c = hw_http w; env = hw_env w in
      bindS (require_that (exchange_origin_allowed c q) (unauthorized ''origin_invalid'')) (\<lambda>_.
      bindS (require_that (content_type_of q = ''application/x-www-form-urlencoded'') (bad_request ''content_type_invalid'')) (\<lambda>_.
      bindS (rate_guard w (''exchange:'' @ ae_sha env (''exchange'' @ CHR 0x00 # hq_remote q)) now ''exchange'') (\<lambda>allowed.
      if \<not> allowed then ret rate_limited
      else bindS (pure_act (exchange_form env (hq_body q))) (\<lambda>(assertion, request_id).
        bindS (exchange_assertion env (hw_auth w) now assertion request_id) (\<lambda>(token, x).
        bindS (draw (ae_token env 32)) (\<lambda>csrf.
        bindS (on_auth_db (set_csrf (sx_session_hash x) (ae_sha env csrf) (sx_expires_at x))) (\<lambda>_.
        ret \<lparr>hr_status = 303, hr_headers = base_headers @ [(''Location'', route_of c ''redirect_after_exchange''),
          (''Set-Cookie'', session_cookie c token), (''Set-Cookie'', csrf_cookie c csrf)], hr_body = []\<rparr>))))))))"

definition logout_route :: "http_world \<Rightarrow> http_request \<Rightarrow> int \<Rightarrow> (auth_state, http_response) guarded" where
  "logout_route w q now =
     (let c = hw_http w in
      bindS (require_same_origin c q) (\<lambda>_.
      bindS (pure_act (session_token_of c q)) (\<lambda>token.
      bindS (request_id_draw w) (\<lambda>request_id.
      bindS (authenticate_session (hw_env w) (hw_auth w) now token request_id) (\<lambda>x.
      bindS (rate_guard w (''logout:'' @ sx_session_hash x) now ''logout'') (\<lambda>allowed.
      if \<not> allowed then ret rate_limited
      else bindS (require_csrf w q now (sx_session_hash x)) (\<lambda>_.
        bindS (request_id_draw w) (\<lambda>request_id'.
        bindS (logout_session (hw_env w) now token request_id') (\<lambda>_.
        ret \<lparr>hr_status = 204, hr_headers = base_headers @ [(''Set-Cookie'', clear_cookie c (hc_session_cookie c) True),
          (''Set-Cookie'', clear_cookie c (hc_csrf_cookie c) False)], hr_body = []\<rparr>)))))))))"

section \<open>The validation action\<close>

definition run_operation :: "http_world \<Rightarrow> string \<Rightarrow> string \<Rightarrow> (auth_state, operation_reply \<times> int) guarded" where
  "run_operation w action subject s =
     (Inr (hw_operations w action subject), s\<lparr>au_runs := au_runs s @ [(action, subject)]\<rparr>)"

definition operation_response :: "string \<Rightarrow> operation_result \<Rightarrow> http_response" where
  "operation_response request_id r =
     json_response (if op_status r = ''succeeded'' then 200 else 409) [(''action'', JStr (op_action r)), (''status'', JStr (op_status r)),
       (''message'', JStr (op_message r)), (''event_id'', JStr (op_event_id r)), (''duration_ms'', JInt (op_duration_ms r)),
       (''exit_code'', op_exit_code r), (''request_id'', JStr request_id)]"

definition request_error :: "nat \<Rightarrow> string \<Rightarrow> string \<Rightarrow> http_response" where
  "request_error status name request_id = json_response status [(''error'', JStr name), (''request_id'', JStr request_id)]"

text \<open>The \<open>try\<close> block: the run, the correlation, and the \<open>finally\<close> that releases the guard.\<close>

definition perform_action :: "http_world \<Rightarrow> string \<Rightarrow> string \<Rightarrow> session_context \<Rightarrow> (auth_state, http_response) guarded" where
  "perform_action w token request_id x =
     (let action = hc_operations_action (hw_http w) in
      bindS (run_operation w action (sx_subject x)) (\<lambda>(reply, later) s.
      let (r, s') = (case reply of
            OperationTimeout \<Rightarrow> (Inr (request_error 504 ''operations_timeout'' request_id), s)
          | OperationUnavailable \<Rightarrow> (Inr (request_error 503 ''operations_unavailable'' request_id), s)
          | OperationCrash e \<Rightarrow> (Inl (Raised e), s)
          | OperationDone result \<Rightarrow>
              bindS (correlate_operations_event (hw_env w) (hw_auth w) later token action (op_event_id result) request_id)
                (\<lambda>_. ret (operation_response request_id result)) s) in
      (r, snd (on_auth_db (finish_action (sx_session_hash x) action later) s'))))"

definition validate_action_route :: "http_world \<Rightarrow> http_request \<Rightarrow> int \<Rightarrow> (auth_state, http_response) guarded" where
  "validate_action_route w q now =
     (let c = hw_http w; action = hc_operations_action c in
      bindS (require_same_origin c q) (\<lambda>_.
      bindS (require_that (content_type_of q = ''application/json'' \<and> hq_body q \<in> {[], ''{}'', ''{}'' @ [CHR 10]})
        (bad_request ''action_body_invalid'')) (\<lambda>_.
      bindS (pure_act (session_token_of c q)) (\<lambda>token.
      bindS (request_id_draw w) (\<lambda>request_id.
      bindS (authorize_action (hw_env w) (hw_auth w) now token action request_id) (\<lambda>x.
      bindS (rate_guard w (''action:'' @ sx_session_hash x) now ''action'') (\<lambda>allowed.
      if \<not> allowed then ret (request_error 429 ''rate_limited'' request_id)
      else bindS (require_csrf w q now (sx_session_hash x)) (\<lambda>_.
        bindS (on_auth_db (begin_action (sx_session_hash x) action now (limit_of c ''action_inflight_timeout_seconds'')
          (limit_of c ''action_cooldown_seconds''))) (\<lambda>verdict.
        if verdict \<noteq> ''started'' then ret (request_error 409 ''request_already_in_progress'' request_id)
        else perform_action w token request_id x)))))))))"

end
