(* ===== verification/SecurityAdapter.thy ===== *)
theory SecurityAdapter
  imports SecurityRoutes
begin

text \<open>
  The account API of server/edge1_security_auth_http.py and its dispatcher \<open>handle\<close>, which turns every exception
  into a response. The account API exchanges the assertion for a session of its own and logs it out when it is done.
\<close>

section \<open>The account API\<close>

definition account_scopes :: "(string, string) dict" where
  "account_scopes = [(''list'', ''edge1.vpn.self.read''), (''enroll'', ''edge1.vpn.self.enroll''), (''reregister'', ''edge1.vpn.self.enroll''),
     (''rename'', ''edge1.vpn.self.rename''), (''revoke'', ''edge1.vpn.self.revoke''), (''accept_policy'', ''edge1.vpn.self.policy.accept'')]"

fun from_backend :: "'a backend_reply \<Rightarrow> 'a checked" where
  "from_backend (BackendDone v) = Inr v"
| "from_backend BackendError = Inl (Denied GatewayFailure ''vpn_account_backend_unavailable'')"
| "from_backend (BackendCrash e) = Inl (Raised e)"

definition get_field :: "json \<Rightarrow> string \<Rightarrow> json checked" where
  "get_field v k = (case v of JObj d \<Rightarrow> Inr (jget d k) | _ \<Rightarrow> Inl (Raised (AttributeError ''get'')))"

definition items_of :: "json \<Rightarrow> json list checked" where
  "items_of v =
     (case v of
        JList js \<Rightarrow> Inr js
      | JObj d \<Rightarrow> Inr (map (\<lambda>kv. JStr (fst kv)) d)
      | JStr t \<Rightarrow> Inr (map (\<lambda>c. JStr [c]) t)
      | _ \<Rightarrow> Inl (Raised (TypeError ''object is not iterable'')))"

fun put_addresses :: "json \<Rightarrow> json list \<Rightarrow> (json, json) dict \<Rightarrow> (json, json) dict checked" where
  "put_addresses entry [] m = Inr m"
| "put_addresses entry (a # as) m = bindE (raising (hashable a)) (\<lambda>k. put_addresses entry as (dset m k entry))"

fun index_devices :: "string \<Rightarrow> json list \<Rightarrow> (json, json) dict \<Rightarrow> (json, json) dict checked" where
  "index_devices subject [] m = Inr m"
| "index_devices subject (i # is) m =
     bindE (get_field i ''owner'') (\<lambda>owner.
     if owner \<noteq> JStr subject then index_devices subject is m
     else bindE (get_field i ''assigned_addresses'') (\<lambda>v.
       bindE (if truthy v then items_of v else Inr []) (\<lambda>as.
       bindE (put_addresses i as m) (index_devices subject is))))"

definition device_view :: "(json, json) dict \<Rightarrow> json \<Rightarrow> json checked" where
  "device_view m i =
     bindE (get_field i ''address'') (\<lambda>address.
     bindE (raising (hashable address)) (\<lambda>k.
     let reg = (case dget m k of Some (JObj d) \<Rightarrow> d | _ \<Rightarrow> []); d = doc_of i in
     Inr (JObj [(''id'', jget d ''id''), (''label'', jget d ''label''), (''address'', address), (''profile'', jget d ''profile''),
       (''created_at'', jget d ''created_at''), (''revoked_at'', jget d ''revoked_at''),
       (''status'', jget_default reg ''status'' (JStr ''pending'')), (''registration_id'', jget reg ''id''),
       (''last_seen_at'', jget reg ''last_seen_at''), (''latest_acceptance'', jget reg ''latest_acceptance'')])))"

fun map_checked :: "('a \<Rightarrow> 'b checked) \<Rightarrow> 'a list \<Rightarrow> 'b list checked" where
  "map_checked f [] = Inr []"
| "map_checked f (x # xs) = bindE (f x) (\<lambda>y. bindE (map_checked f xs) (\<lambda>ys. Inr (y # ys)))"

text \<open>\<open>next((x for x in xs if p(x)), None)\<close> with a test that may raise.\<close>

fun first_that :: "(json \<Rightarrow> bool checked) \<Rightarrow> json list \<Rightarrow> json checked" where
  "first_that p [] = Inr JNull"
| "first_that p (x # xs) = bindE (p x) (\<lambda>b. if b then Inr x else first_that p xs)"

definition account_list :: "vpn_backend \<Rightarrow> session_context \<Rightarrow> http_response checked" where
  "account_list b x =
     (let subject = sx_subject x in
      bindE (from_backend (vb_enrollment b subject ''list'' [])) (\<lambda>enrolled.
      bindE (from_backend (vb_devices b subject)) (\<lambda>registrations.
      bindE (items_of registrations) (\<lambda>is.
      bindE (index_devices subject is []) (\<lambda>by_address.
      bindE (case enrolled of JObj d \<Rightarrow> items_of (jget_default d ''devices'' (JList [])) | _ \<Rightarrow> Inl (Raised (AttributeError ''get''))) (\<lambda>entries.
      bindE (map_checked (device_view by_address) entries) (\<lambda>devices.
      bindE (from_backend (vb_policies b subject)) (\<lambda>policies.
      bindE (items_of policies) (\<lambda>ps.
      bindE (first_that (\<lambda>p. bindE (get_field p ''active'') (\<lambda>v. Inr (truthy v))) ps) (\<lambda>active.
      Inr (json_response 200 [(''devices'', JList devices), (''active_policy'', active), (''owner_subject'', JStr subject)])))))))))))"

definition account_enroll :: "vpn_backend \<Rightarrow> session_context \<Rightarrow> string \<Rightarrow> doc \<Rightarrow> http_response checked" where
  "account_enroll b x action parameters =
     bindE (from_backend (vb_enrollment b (sx_subject x) action
       [(''label'', JStr (take 80 (py_str (jget_default parameters ''label'' (JStr (sx_display_name x @ '' device'')))))),
        (''profile'', JStr (py_str (jget_default parameters ''profile'' (JStr ''split'')))),
        (''owner_display_name'', JStr (sx_display_name x))])) (\<lambda>result.
     bindE (get_field result ''enroll_url'') (\<lambda>url. Inr (json_response 200 [(''enroll_url'', url)])))"

definition account_rename :: "vpn_backend \<Rightarrow> session_context \<Rightarrow> doc \<Rightarrow> http_response checked" where
  "account_rename b x parameters =
     bindE (raising (int_of_json (jget_default parameters ''device_id'' (JInt 0)))) (\<lambda>device.
     bindE (from_backend (vb_enrollment b (sx_subject x) ''rename'' [(''device_id'', JInt device),
       (''label'', JStr (take 80 (py_str (jget_default parameters ''label'' (JStr [])))))])) (\<lambda>result.
     Inr (json_response 200 [(''device'', result)])))"

definition account_revoke :: "vpn_backend \<Rightarrow> session_context \<Rightarrow> doc \<Rightarrow> http_response checked" where
  "account_revoke b x parameters =
     bindE (raising (int_of_json (jget_default parameters ''device_id'' (JInt 0)))) (\<lambda>device.
     bindE (from_backend (vb_enrollment b (sx_subject x) ''revoke'' [(''device_id'', JInt device)])) (\<lambda>result.
     Inr (value_response 200 result)))"

definition account_accept :: "vpn_backend \<Rightarrow> session_context \<Rightarrow> doc \<Rightarrow> http_response checked" where
  "account_accept b x parameters =
     (let subject = sx_subject x; registration = py_str (jget_default parameters ''registration_id'' (JStr [])) in
      bindE (from_backend (vb_devices b subject)) (\<lambda>registrations.
      bindE (items_of registrations) (\<lambda>is.
      bindE (first_that (\<lambda>d. bindE (get_field d ''id'') (\<lambda>i.
        if i \<noteq> JStr registration then Inr False else bindE (get_field d ''owner'') (\<lambda>owner. Inr (owner = JStr subject)))) is) (\<lambda>match.
      if match = JNull then Inl (unauthorized ''device_owner_mismatch'')
      else bindE (from_backend (vb_accept b subject registration (jget parameters ''policy_version''))) (\<lambda>acceptance.
        Inr (json_response 200 [(''acceptance'', acceptance)]))))))"

definition account_action :: "http_world \<Rightarrow> string \<Rightarrow> string \<Rightarrow> doc \<Rightarrow> session_context \<Rightarrow> http_response checked" where
  "account_action w required action parameters x =
     (if required \<notin> sx_scopes x then Inl (unauthorized ''scope_missing'')
      else let b = hw_backend w in
        if action = ''list'' then account_list b x
        else if action \<in> {''enroll'', ''reregister''} then account_enroll b x action parameters
        else if action = ''rename'' then account_rename b x parameters
        else if action = ''revoke'' then account_revoke b x parameters
        else account_accept b x parameters)"

text \<open>The request: assertion, request id, action, parameters.\<close>

definition account_request :: "auth_env \<Rightarrow> string \<Rightarrow> (string \<times> string \<times> string \<times> doc) checked" where
  "account_request env body =
     (case (case ae_utf8 env body of None \<Rightarrow> None | Some t \<Rightarrow> json_loads t) of
        None \<Rightarrow> Inl (bad_request ''json_invalid'')
      | Some (JObj d) \<Rightarrow>
          if object_keys d \<noteq> {''assertion'', ''request_id'', ''action'', ''parameters''} then Inl (bad_request ''request_invalid'')
          else (case (jget d ''assertion'', jget d ''request_id'', jget d ''action'', jget d ''parameters'') of
            (JStr a, JStr i, JStr act, JObj ps) \<Rightarrow> if event_id_text i then Inr (a, i, act, ps) else Inl (bad_request ''request_invalid'')
          | _ \<Rightarrow> Inl (bad_request ''request_invalid''))
      | Some _ \<Rightarrow> Inl (bad_request ''request_invalid''))"

text \<open>The \<open>finally\<close> block: an error of the gateway in the logout is dropped.\<close>

definition close_account_session :: "http_world \<Rightarrow> int \<Rightarrow> string \<Rightarrow> auth_state \<Rightarrow> auth_state" where
  "close_account_session w now token s = snd (bindS (request_id_draw w) (logout_session (hw_env w) now token) s)"

definition account_route :: "http_world \<Rightarrow> http_request \<Rightarrow> int \<Rightarrow> (auth_state, http_response) guarded" where
  "account_route w q now =
     bindS (require_that (header_of q ''origin'' = hc_business159_origin (hw_http w)) (unauthorized ''origin_invalid'')) (\<lambda>_.
     bindS (require_that (content_type_of q = ''application/json'') (bad_request ''content_type_invalid'')) (\<lambda>_.
     bindS (pure_act (account_request (hw_env w) (hq_body q))) (\<lambda>(assertion, request_id, action, parameters).
     case dget account_scopes action of
       None \<Rightarrow> raise_err (bad_request ''action_invalid'')
     | Some required \<Rightarrow>
         bindS (exchange_assertion (hw_env w) (hw_auth w) now assertion request_id) (\<lambda>(token, x) s.
           (account_action w required action parameters x, close_account_session w now token s)))))"

section \<open>Dispatch\<close>

definition with_method :: "http_request \<Rightarrow> string \<Rightarrow> (auth_state, http_response) guarded \<Rightarrow> (auth_state, http_response) guarded" where
  "with_method q allowed handler =
     (if upper (hq_method q) \<noteq> allowed
      then let r = error_response 405 ''method_not_allowed'' in ret (r\<lparr>hr_headers := hr_headers r @ [(''Allow'', allowed)]\<rparr>)
      else handler)"

definition route_request :: "http_world \<Rightarrow> http_request \<Rightarrow> int \<Rightarrow> (auth_state, http_response) guarded" where
  "route_request w q now =
     (let c = hw_http w; path = hq_path q in
      if path = route_of c ''health'' then with_method q ''GET'' (health_route w)
      else if path = ''/edge1-ops/account/api'' then with_method q ''POST'' (account_route w q now)
      else if \<not> hc_live_route c then raise_err (Denied GatewayFailure ''live_route_not_authorized'')
      else if path = route_of c ''console'' then with_method q ''GET'' (console_route w q now)
      else if path = route_of c ''exchange'' then with_method q ''POST'' (exchange_route w q now)
      else if path = route_of c ''session'' then with_method q ''GET'' (session_route w q now)
      else if path = route_of c ''logout'' then with_method q ''POST'' (logout_route w q now)
      else if path = route_of c ''validate'' then with_method q ''POST'' (validate_action_route w q now)
      else ret (error_response 404 ''not_found''))"

definition dispatch :: "http_world \<Rightarrow> http_request \<Rightarrow> int \<Rightarrow> (auth_state, http_response) guarded" where
  "dispatch w q now = bindS (pure_act (validate_boundary (hw_http w) q)) (\<lambda>_. route_request w q now)"

definition exn_response :: "auth_exn \<Rightarrow> http_response" where
  "exn_response e =
     (case e of
        Raised (ValueError _) \<Rightarrow> error_response 400 ''bad_request''
      | Denied Authentication _ \<Rightarrow> error_response 401 ''authentication_required''
      | Denied Authorization _ \<Rightarrow> error_response 403 ''forbidden''
      | Denied _ _ \<Rightarrow> error_response 503 ''authentication_service_unavailable''
      | Raised _ \<Rightarrow> error_response 503 ''service_unavailable'')"

definition http_handle :: "http_world \<Rightarrow> http_request \<Rightarrow> int \<Rightarrow> auth_state \<Rightarrow> http_response \<times> auth_state" where
  "http_handle w q now s =
     (case dispatch w q now s of (Inl e, s') \<Rightarrow> (exn_response e, s') | (Inr r, s') \<Rightarrow> (r, s'))"

text \<open>Requests in turn, each with its clock.\<close>

definition http_run :: "http_world \<Rightarrow> auth_state \<Rightarrow> (http_request \<times> int) list \<Rightarrow> auth_state" where
  "http_run w s qs = foldl (\<lambda>s (q, now). snd (http_handle w q now s)) s qs"

definition fresh_auth :: auth_state where
  "fresh_auth = \<lparr>au_db = empty_auth_db, au_audit = [], au_draws = 0, au_runs = []\<rparr>"

end
