(* ===== verification/SecuritySessions.thy ===== *)
theory SecuritySessions
  imports SecurityStore
begin

text \<open>
  What the session store promises whatever sequence of calls it serves: its tables stay consistent, a revoked session stays
  revoked, a session is honoured only while it lives and only with what it was created with, rates are bounded,
  guarded actions are spaced.
\<close>

section \<open>The tables stay consistent\<close>

definition auth_inv :: "auth_db \<Rightarrow> bool" where
  "auth_inv d \<longleftrightarrow> dict_ok (ad_replays d) \<and> distinct (map sn_hash (ad_sessions d)) \<and> distinct (map cf_session (ad_csrf d)) \<and>
     distinct (map rw_bucket (ad_rates d)) \<and> distinct (map guard_key (ad_guards d)) \<and>
     cf_session ` set (ad_csrf d) \<subseteq> sn_hash ` set (ad_sessions d) \<and> aq_session ` set (ad_guards d) \<subseteq> sn_hash ` set (ad_sessions d)"

lemma find_session_None: "find_session d h = None \<longleftrightarrow> h \<notin> sn_hash ` set (ad_sessions d)"
  by (simp add: find_session_def find_row_None_iff)

lemma keys_update_where: "(\<And>r. key (f r) = key r) \<Longrightarrow> map key (update_where p f rows) = map key rows"
  by (rule map_update_where)

lemma key_image_update_where: "(\<And>r. key (f r) = key r) \<Longrightarrow> key ` set (update_where p f rows) = key ` set rows"
  by (metis keys_update_where list.set_map)

lemma consume_inv: "auth_inv d \<Longrightarrow> auth_inv (snd (consume_assertion jti e now d))"
proof -
  assume inv: "auth_inv d"
  let ?live = "filter (\<lambda>(_, e). \<not> e < now) (ad_replays d)"
  have "dict_ok ?live" using inv by (simp add: auth_inv_def dict_ok_filter)
  then have "jti \<notin> fst ` set ?live \<Longrightarrow> dict_ok (?live @ [(jti, e)])" by (auto simp: dict_ok_def)
  then show ?thesis using inv by (simp add: consume_assertion_def auth_inv_def Let_def del: set_filter)
qed

lemma set_revoked_hash [simp]: "sn_hash (set_revoked now r) = sn_hash r"
  by (simp add: set_revoked_def)

lemma update_session_inv:
  "auth_inv d \<Longrightarrow> (\<And>r. sn_hash (f r) = sn_hash r) \<Longrightarrow> auth_inv (update_session h f d)"
  by (simp add: auth_inv_def update_session_def keys_update_where key_image_update_where)

lemma drop_csrf_inv: "auth_inv d \<Longrightarrow> auth_inv (drop_csrf h d)"
  by (auto simp: auth_inv_def drop_csrf_def distinct_map_filter)

lemma resolve_inv: "auth_inv d \<Longrightarrow> auth_inv (snd (resolve_session h now idle d))"
  by (auto simp: resolve_session_def Let_def split: option.splits intro!: drop_csrf_inv update_session_inv)

lemma revoke_session_inv: "auth_inv d \<Longrightarrow> auth_inv (snd (revoke_session h now d))"
  by (auto simp: revoke_session_def intro!: drop_csrf_inv update_session_inv)

lemma create_inv: "auth_inv d \<Longrightarrow> auth_inv (snd (create_session h ident issued expires event d))"
  by (auto simp: create_session_def auth_inv_def find_session_None new_session_def)

lemma set_csrf_inv: "auth_inv d \<Longrightarrow> auth_inv (snd (set_csrf h secret expires d))"
  by (auto simp: set_csrf_def auth_inv_def find_session_None find_row_None_iff keys_update_where key_image_update_where
      simp del: image_subset_iff)

lemma allow_rate_inv: "auth_inv d \<Longrightarrow> auth_inv (snd (allow_rate b now l w d))"
  by (auto simp: allow_rate_def auth_inv_def find_row_None_iff keys_update_where split: option.splits)

lemma guard_key_update [simp]: "guard_key (g\<lparr>aq_started_at := t\<rparr>) = guard_key g"
  "guard_key (g\<lparr>aq_completed_at := e\<rparr>) = guard_key g"
  by (simp_all add: guard_key_def)

lemma begin_action_inv: "auth_inv d \<Longrightarrow> auth_inv (snd (begin_action h a now i c d))"
  by (auto simp: begin_action_def Let_def auth_inv_def find_session_None find_row_None_iff keys_update_where key_image_update_where guard_key_def
      split: option.splits simp del: image_subset_iff)

lemma finish_action_inv: "auth_inv d \<Longrightarrow> auth_inv (snd (finish_action h a now d))"
  by (auto simp: finish_action_def auth_inv_def keys_update_where key_image_update_where simp del: image_subset_iff)

lemma auth_step_inv: "auth_inv d \<Longrightarrow> auth_inv (auth_step d call)"
  by (cases call) (auto intro: consume_inv create_inv resolve_inv revoke_session_inv set_csrf_inv allow_rate_inv begin_action_inv finish_action_inv)

section \<open>How a call changes a session\<close>

definition touched_row :: "int \<Rightarrow> int \<Rightarrow> session_row \<Rightarrow> session_row" where
  "touched_row now idle r = (if session_reason now idle r = ''active'' then r\<lparr>sn_last_seen_at := now\<rparr> else set_revoked now r)"

lemma find_session_update:
  "(\<And>r. sn_hash (f r) = sn_hash r) \<Longrightarrow>
   find_session (update_session h f d) k = map_option (\<lambda>r. if h = k then f r else r) (find_session d k)"
  by (cases "find_session d k")
    (auto simp: find_session_def update_session_def find_row_update_where dest!: find_row_SomeD)

lemma find_session_drop_csrf [simp]: "find_session (drop_csrf h d) k = find_session d k"
  by (simp add: drop_csrf_def find_session_def)

lemma find_session_resolve:
  "find_session (snd (resolve_session h now idle d)) k =
     (if h = k then map_option (touched_row now idle) (find_session d k) else find_session d k)"
  by (cases "find_session d h")
    (auto simp: resolve_session_def Let_def find_session_update touched_row_def option.map_comp comp_def option.map_ident split: option.splits)

lemma find_session_revoke:
  "find_session (snd (revoke_session h now d)) k = (if h = k then map_option (set_revoked now) (find_session d k) else find_session d k)"
  by (auto simp: revoke_session_def find_session_update option.map_ident)

lemma find_session_create:
  "find_session (snd (create_session h ident issued expires event d)) k =
     (if h = k \<and> find_session d k = None then Some (new_session h ident issued expires event) else find_session d k)"
  by (auto simp: create_session_def find_session_def find_row_append new_session_def split: option.splits)

fun session_after :: "auth_call \<Rightarrow> string \<Rightarrow> session_row option \<Rightarrow> session_row option" where
  "session_after (CreateSession h ident issued expires event) k v =
     (if h = k \<and> v = None then Some (new_session h ident issued expires event) else v)"
| "session_after (Resolve h now idle) k v = (if h = k then map_option (touched_row now idle) v else v)"
| "session_after (Revoke h now) k v = (if h = k then map_option (set_revoked now) v else v)"
| "session_after _ k v = v"

lemma find_session_step: "find_session (auth_step d call) k = session_after call k (find_session d k)"
  by (cases call)
    (auto simp: find_session_create find_session_resolve find_session_revoke, auto simp: find_session_def consume_assertion_def set_csrf_def
      allow_rate_def begin_action_def finish_action_def Let_def split: option.splits)

lemma touched_revoked: "sn_revoked_at r \<noteq> None \<Longrightarrow> touched_row now idle r = r"
  by (auto simp: touched_row_def session_reason_def set_revoked_def)

lemma set_revoked_revoked: "sn_revoked_at r \<noteq> None \<Longrightarrow> set_revoked now r = r"
  by (auto simp: set_revoked_def)

interpretation sessions: absorbing_machine auth_step auth_inv find_session "\<lambda>r. sn_revoked_at r \<noteq> None"
proof
  fix d call k r
  assume "find_session d k = Some r" "sn_revoked_at r \<noteq> None"
  then show "find_session (auth_step d call) k = Some r"
    unfolding find_session_step by (cases call) (simp_all add: touched_revoked set_revoked_revoked)
qed (rule auth_step_inv)

section \<open>A session is what was created, as long as it lives\<close>

definition last_use :: "string \<Rightarrow> int \<Rightarrow> auth_call list \<Rightarrow> int" where
  "last_use h issued calls = foldl (\<lambda>t c. case c of Resolve k now _ \<Rightarrow> if k = h then now else t | _ \<Rightarrow> t) issued calls"

text \<open>No revocation, and every resolution before the expiry and within the idle timeout of the use before it.\<close>

fun unharmed :: "string \<Rightarrow> int \<Rightarrow> int \<Rightarrow> auth_call list \<Rightarrow> bool" where
  "unharmed h used expires [] = True"
| "unharmed h used expires (Revoke k t # cs) = (k \<noteq> h \<and> unharmed h used expires cs)"
| "unharmed h used expires (Resolve k now idle # cs) =
     (if k = h then now < expires \<and> now - used < idle \<and> unharmed h now expires cs else unharmed h used expires cs)"
| "unharmed h used expires (_ # cs) = unharmed h used expires cs"

lemma last_use_snoc:
  "last_use h issued (calls @ [c]) = (case c of Resolve k now _ \<Rightarrow> if k = h then now else last_use h issued calls | _ \<Rightarrow> last_use h issued calls)"
  by (simp add: last_use_def split: auth_call.split)

lemma last_use_Nil [simp]: "last_use h issued [] = issued"
  by (simp add: last_use_def)

lemma last_use_Cons:
  "last_use h issued (c # calls) = last_use h (case c of Resolve k now _ \<Rightarrow> if k = h then now else issued | _ \<Rightarrow> issued) calls"
  by (simp add: last_use_def split: auth_call.split)

lemma unharmed_snoc:
  "unharmed h used expires (calls @ [c]) \<longleftrightarrow> unharmed h used expires calls \<and>
     (case c of Revoke k _ \<Rightarrow> k \<noteq> h | Resolve k now idle \<Rightarrow> k = h \<longrightarrow> now < expires \<and> now - last_use h used calls < idle | _ \<Rightarrow> True)"
  by (induction h used expires calls rule: unharmed.induct) (auto simp: last_use_Cons split: auth_call.split)

definition session_of :: "string \<Rightarrow> assertion_identity \<Rightarrow> int \<Rightarrow> int \<Rightarrow> string \<Rightarrow> auth_call list \<Rightarrow> session_row \<Rightarrow> bool" where
  "session_of h ident issued expires event calls r \<longleftrightarrow>
     (\<exists>last rv. r = (new_session h ident issued expires event)\<lparr>sn_last_seen_at := last, sn_revoked_at := rv\<rparr> \<and>
        (rv = None \<longrightarrow> last = last_use h issued calls \<and> unharmed h issued expires calls))"

lemma session_of_new: "session_of h ident issued expires event [] (new_session h ident issued expires event)"
  unfolding session_of_def by (intro exI [of _ issued] exI [of _ None]) (simp add: new_session_def)

lemma session_of_snoc:
  assumes "session_of h ident issued expires event calls r" "session_after c h (Some r) = Some r'"
  shows "session_of h ident issued expires event (calls @ [c]) r'"
proof -
  obtain last rv where r: "r = (new_session h ident issued expires event)\<lparr>sn_last_seen_at := last, sn_revoked_at := rv\<rparr>"
    "rv = None \<longrightarrow> last = last_use h issued calls \<and> unharmed h issued expires calls"
    using assms(1) unfolding session_of_def by blast
  show ?thesis using assms(2)
    by (cases c) (auto simp: r(1) session_of_def last_use_snoc unharmed_snoc touched_row_def session_reason_def set_revoked_def new_session_def
        split: if_splits option.splits dest!: r(2) [rule_format])
qed

lemma session_origin:
  "find_session (auth_run empty_auth_db calls) h = Some r \<Longrightarrow>
   \<exists>before ident issued expires event after. calls = before @ CreateSession h ident issued expires event # after \<and>
     session_of h ident issued expires event after r"
proof (induction calls arbitrary: r rule: rev_induct)
  case (snoc c calls)
  have after: "session_after c h (find_session (auth_run empty_auth_db calls) h) = Some r"
    using snoc.prems by (simp add: auth_run_def find_session_step)
  show ?case
  proof (cases "find_session (auth_run empty_auth_db calls) h")
    case None
    then obtain ident issued expires event where "c = CreateSession h ident issued expires event"
      "r = new_session h ident issued expires event" using after by (cases c) (auto split: if_splits)
    then show ?thesis using session_of_new by blast
  next
    case (Some r0)
    then obtain before ident issued expires event later where
      "calls = before @ CreateSession h ident issued expires event # later" "session_of h ident issued expires event later r0"
      using snoc.IH by blast
    then show ?thesis using session_of_snoc [of h ident issued expires event later r0 c r] after Some
      by (intro exI [of _ before] exI [of _ ident] exI [of _ issued] exI [of _ expires] exI [of _ event] exI [of _ "later @ [c]"]) simp
  qed
qed (simp add: auth_run_def empty_auth_db_def find_session_def)

lemma scopes_round_trip: "finite S \<Longrightarrow> scopes_of (canonical_json (JList (map JStr (sorted_list_of_set S)))) = Some S"
proof -
  assume "finite S"
  moreover have "wf_json (JList (map JStr xs))" for xs by (simp add: list_all_iff)
  moreover have "canon (JList (map JStr xs)) = JList (map JStr xs)" for xs by (simp add: comp_def)
  ultimately show ?thesis by (simp add: scopes_of_def json_loads_canonical comp_def)
qed

definition context_of :: "string \<Rightarrow> assertion_identity \<Rightarrow> int \<Rightarrow> int \<Rightarrow> string \<Rightarrow> int \<Rightarrow> session_context" where
  "context_of h ident issued expires event now =
     \<lparr>sx_subject = ai_subject ident, sx_display_name = ai_display_name ident, sx_role = ai_role ident, sx_scopes = ai_scopes ident,
      sx_issued_at = issued, sx_expires_at = expires, sx_last_seen_at = now, sx_event_id = event, sx_session_hash = h\<rparr>"

text \<open>
  C15. A session is honoured only while it lives, and only as it was created: if a resolution returns a context, then
  an earlier call created the session, the context is that of its identity with exactly its scopes, no call revoked it since,
  and every resolution since, this one included, came before its expiry and within the idle timeout of the one before.
\<close>

theorem honoured_sessions_are_live:
  assumes "resolve_session h now idle (auth_run empty_auth_db calls) = (Inr (Some x, reason), d)"
    and scopes: "\<forall>k ident issued expires event. CreateSession k ident issued expires event \<in> set calls \<longrightarrow> finite (ai_scopes ident)"
  shows "\<exists>before ident issued expires event after. calls = before @ CreateSession h ident issued expires event # after \<and>
    x = context_of h ident issued expires event now \<and> unharmed h issued expires (after @ [Resolve h now idle])"
proof -
  obtain r where r: "find_session (auth_run empty_auth_db calls) h = Some r" "session_reason now idle r = ''active''"
    using assms(1) by (auto simp: resolve_session_def Let_def split: option.splits if_splits)
  obtain before ident issued expires event later where run: "calls = before @ CreateSession h ident issued expires event # later"
    and row: "session_of h ident issued expires event later r" using session_origin [OF r(1)] by blast
  obtain last rv where eq: "r = (new_session h ident issued expires event)\<lparr>sn_last_seen_at := last, sn_revoked_at := rv\<rparr>"
    "rv = None \<longrightarrow> last = last_use h issued later \<and> unharmed h issued expires later" using row unfolding session_of_def by blast
  have live: "rv = None" "now < expires" "now - last < idle"
    using r(2) by (auto simp: eq(1) session_reason_def new_session_def split: if_splits)
  have "finite (ai_scopes ident)" using scopes run by fastforce
  then have "x = context_of h ident issued expires event now"
    using assms(1) r by (simp add: resolve_session_def eq(1) new_session_def scopes_round_trip context_of_def)
  moreover have "unharmed h issued expires (later @ [Resolve h now idle])" using live eq(2) by (simp add: unharmed_snoc)
  ultimately show ?thesis using run by blast
qed

end
