(* ===== verification/SecurityLimits.thy ===== *)
theory SecurityLimits
  imports SecuritySessions
begin

text \<open>
  The counters of the session store: a consumed assertion stays consumed while it is valid, a bucket grants at
  most twice its limit in any window, and guarded actions keep their distance.
\<close>

section \<open>Consumed assertions\<close>

lemma auth_run_snoc [simp]: "auth_run d (calls @ [c]) = auth_step (auth_run d calls) c"
  and auth_run_Nil [simp]: "auth_run d [] = d"
  and auth_run_append: "auth_run d (xs @ ys) = auth_run (auth_run d xs) ys"
  and auth_run_Cons: "auth_run d (c # calls) = auth_run (auth_step d c) calls"
  by (simp_all add: auth_run_def)

fun consumed_at :: "auth_call \<Rightarrow> int option" where
  "consumed_at (Consume _ _ now) = Some now"
| "consumed_at _ = None"

lemma consumed_replays:
  "auth_inv d \<Longrightarrow> dget (ad_replays d) jti = Some e \<Longrightarrow> now \<le> e \<Longrightarrow>
   dget (ad_replays (snd (consume_assertion k e' now d))) jti = Some e \<and> fst (consume_assertion jti e' now d) = Inr False"
proof -
  assume "auth_inv d" "dget (ad_replays d) jti = Some e" "now \<le> e"
  moreover from this have live: "dget (filter (\<lambda>(_, e). \<not> e < now) (ad_replays d)) jti = Some e"
    by (simp add: dget_filter auth_inv_def)
  moreover have "jti \<in> fst ` set (filter (\<lambda>(_, e). \<not> e < now) (ad_replays d))"
    using live by (metis map_of_eq_None_iff option.distinct(1))
  ultimately show ?thesis by (simp add: consume_assertion_def Let_def map_add_Some_iff del: set_filter)
qed

lemma replays_step: "(\<And>j e t. c \<noteq> Consume j e t) \<Longrightarrow> ad_replays (auth_step d c) = ad_replays d"
  by (cases c) (auto simp: create_session_def resolve_session_def revoke_session_def drop_csrf_def update_session_def set_csrf_def
      allow_rate_def begin_action_def finish_action_def Let_def split: option.splits)

lemma consumed_stays:
  assumes "auth_inv d" "dget (ad_replays d) jti = Some e" "\<forall>c \<in> set calls. \<forall>t. consumed_at c = Some t \<longrightarrow> t \<le> e"
  shows "dget (ad_replays (auth_run d calls)) jti = Some e"
  using assms(3)
proof (induction calls rule: rev_induct)
  case (snoc c calls)
  then have IH: "dget (ad_replays (auth_run d calls)) jti = Some e" by simp
  have inv: "auth_inv (auth_run d calls)" using sessions.run_inv [OF assms(1)] by (simp add: auth_run_def)
  show ?case
  proof (cases "\<exists>j e t. c = Consume j e t")
    case True
    then show ?thesis using consumed_replays [OF inv IH] snoc.prems by auto
  next
    case False
    then show ?thesis using IH replays_step [of c "auth_run d calls"] by auto
  qed
qed (simp add: assms(2))

lemma consume_records:
  "fst (consume_assertion jti e now d) = Inr True \<Longrightarrow> auth_inv d \<Longrightarrow> dget (ad_replays (snd (consume_assertion jti e now d))) jti = Some e"
  by (auto simp: consume_assertion_def Let_def map_add_Some_iff map_of_eq_None_iff split: if_splits)

text \<open>
  The record of a consumed assertion is dropped once its expiry has passed, although the assertion is accepted for the
  clock skew longer: in that grace period it can be consumed again, any number of times.
\<close>

lemma expired_assertions_are_consumed_again:
  "\<forall>(k, e) \<in> set (ad_replays d). k = jti \<longrightarrow> e < now \<Longrightarrow> fst (consume_assertion jti e' now d) = Inr True"
  by (auto simp: consume_assertion_def Let_def)

section \<open>Request rates\<close>

text \<open>One bucket as a fixed-window counter: the start of its window and the requests in it.\<close>

definition grant :: "int \<Rightarrow> int \<Rightarrow> int \<Rightarrow> (int \<times> int) option \<Rightarrow> bool \<times> (int \<times> int) option" where
  "grant limit window now v =
     (case v of
        None \<Rightarrow> (True, Some (now, 1))
      | Some (start, n) \<Rightarrow>
          if now - start \<ge> window then (True, Some (now, 1)) else if n \<ge> limit then (False, v) else (True, Some (start, n + 1)))"

fun grants :: "int \<Rightarrow> int \<Rightarrow> (int \<times> int) option \<Rightarrow> int list \<Rightarrow> int list" where
  "grants limit window v [] = []"
| "grants limit window v (t # ts) =
     (if fst (grant limit window t v) then [t] else []) @ grants limit window (snd (grant limit window t v)) ts"

definition bucket_state :: "auth_db \<Rightarrow> string \<Rightarrow> (int \<times> int) option" where
  "bucket_state d b = map_option (\<lambda>r. (rw_started_at r, rw_count r)) (find_row rw_bucket b (ad_rates d))"

fun rate_times :: "string \<Rightarrow> auth_call list \<Rightarrow> int list" where
  "rate_times b [] = []"
| "rate_times b (AllowRate k now _ _ # cs) = (if k = b then now # rate_times b cs else rate_times b cs)"
| "rate_times b (_ # cs) = rate_times b cs"

text \<open>The times at which the store granted a request of the bucket.\<close>

fun rate_grants :: "string \<Rightarrow> auth_db \<Rightarrow> auth_call list \<Rightarrow> int list" where
  "rate_grants b d [] = []"
| "rate_grants b d (c # cs) =
     (case c of AllowRate k now limit window \<Rightarrow> if k = b \<and> fst (allow_rate k now limit window d) = Inr True then [now] else [] | _ \<Rightarrow> [])
     @ rate_grants b (auth_step d c) cs"

lemma allow_rate_is_grant:
  "fst (allow_rate b now limit window d) = Inr (fst (grant limit window now (bucket_state d b)))"
  "bucket_state (snd (allow_rate k now limit window d)) b =
     (if k = b then snd (grant limit window now (bucket_state d b)) else bucket_state d b)"
  by (cases "find_row rw_bucket b (ad_rates d)"; auto simp: allow_rate_def grant_def bucket_state_def)
    (auto simp: allow_rate_def grant_def bucket_state_def find_row_append find_row_update_where option.map_comp comp_def option.map_ident
      split: option.splits dest!: find_row_SomeD)

lemma bucket_state_step: "(\<And>k t l w. c \<noteq> AllowRate k t l w) \<Longrightarrow> bucket_state (auth_step d c) b = bucket_state d b"
  by (cases c) (auto simp: bucket_state_def consume_assertion_def create_session_def resolve_session_def revoke_session_def drop_csrf_def
      update_session_def set_csrf_def begin_action_def finish_action_def Let_def split: option.splits)

definition uniform_rate :: "string \<Rightarrow> int \<Rightarrow> int \<Rightarrow> auth_call list \<Rightarrow> bool" where
  "uniform_rate b limit window calls \<longleftrightarrow> (\<forall>t l w. AllowRate b t l w \<in> set calls \<longrightarrow> l = limit \<and> w = window)"

lemma rate_grants_is_grants:
  "uniform_rate b limit window calls \<Longrightarrow> rate_grants b d calls = grants limit window (bucket_state d b) (rate_times b calls)"
proof (induction calls arbitrary: d)
  case (Cons c calls)
  then have IH: "rate_grants b d' calls = grants limit window (bucket_state d' b) (rate_times b calls)" for d'
    by (auto simp: uniform_rate_def)
  show ?case
  proof (cases c)
    case (AllowRate k t l w)
    then show ?thesis using Cons.prems by (auto simp: IH allow_rate_is_grant uniform_rate_def)
  qed (use IH bucket_state_step [of c d b] in simp_all)
qed simp

lemma grants_are_times: "set (grants limit window v ts) \<subseteq> set ts"
  by (induction ts arbitrary: v) auto

lemma grants_in_window:
  assumes "1 \<le> limit" "sorted ts" "a \<le> s" "0 \<le> n"
  shows "length (filter (\<lambda>t. t < a + window) (grants limit window (Some (s, n)) ts)) \<le> nat (limit - n)"
  using assms(2-)
proof (induction ts arbitrary: s n)
  case (Cons t ts)
  consider "t - s \<ge> window" | "t - s < window" "n \<ge> limit" | "t - s < window" "n < limit" by linarith
  then show ?case
  proof cases
    case 1
    then have "\<not> u < a + window" if "u \<in> set (t # ts)" for u using that Cons.prems by auto
    moreover have "set (grants limit window (Some (s, n)) (t # ts)) \<subseteq> set (t # ts)" by (rule grants_are_times)
    ultimately have "filter (\<lambda>t. t < a + window) (grants limit window (Some (s, n)) (t # ts)) = []"
      by (simp add: filter_empty_conv subset_iff del: grants.simps)
    then show ?thesis by simp
  next
    case 2
    then show ?thesis using Cons.IH [of s n] Cons.prems by (simp add: grant_def)
  next
    case 3
    then show ?thesis using Cons.IH [of s "n + 1"] Cons.prems by (auto simp: grant_def)
  qed
qed simp

lemma grants_from:
  assumes "1 \<le> limit" "sorted ts" "\<forall>t \<in> set ts. a \<le> t" "case v of None \<Rightarrow> True | Some (s, n) \<Rightarrow> 0 \<le> n"
  shows "length (filter (\<lambda>t. t < a + window) (grants limit window v ts)) \<le> 2 * nat limit"
proof -
  have fresh: "length (filter (\<lambda>t. t < a + window) (t # grants limit window (Some (t, 1)) ts)) \<le> nat limit" if "sorted ts" "a \<le> t" for t ts
    using grants_in_window [of limit ts a t 1 window] that assms(1) by auto
  have "length (filter (\<lambda>t. t < a + window) (grants limit window (Some (s, n)) ts)) \<le> nat (limit - n) + nat limit"
    if "sorted ts" "\<forall>t \<in> set ts. a \<le> t" "0 \<le> n" for s n ts
    using that
  proof (induction ts arbitrary: n)
    case (Cons t ts)
    consider "t - s \<ge> window" | "t - s < window" "n \<ge> limit" | "t - s < window" "n < limit" by linarith
    then show ?case
    proof cases
      case 1
      then show ?thesis using fresh [of ts t] Cons.prems by (simp add: grant_def)
    next
      case 2
      then show ?thesis using Cons.IH [of n] Cons.prems by (simp add: grant_def)
    next
      case 3
      then show ?thesis using Cons.IH [of "n + 1"] Cons.prems by (auto simp: grant_def)
    qed
  qed simp
  note started = this
  show ?thesis
  proof (cases v)
    case None
    show ?thesis
    proof (cases ts)
      case (Cons t us)
      then show ?thesis using fresh [of us t] assms by (simp add: None grant_def)
    qed simp
  next
    case (Some p)
    then show ?thesis using started [of ts "snd p" "fst p"] assms by (cases p) auto
  qed
qed

lemma grants_bounded:
  assumes "1 \<le> limit" "sorted ts" "case v of None \<Rightarrow> True | Some (s, n) \<Rightarrow> 0 \<le> n"
  shows "length (filter (\<lambda>t. a \<le> t \<and> t < a + window) (grants limit window v ts)) \<le> 2 * nat limit"
  using assms(2-)
proof (induction ts arbitrary: v)
  case (Cons t ts)
  show ?case
  proof (cases "a \<le> t")
    case True
    then have all: "\<forall>u \<in> set (t # ts). a \<le> u" using Cons.prems by auto
    then have "filter (\<lambda>t. a \<le> t \<and> t < a + window) (grants limit window v (t # ts)) = filter (\<lambda>t. t < a + window) (grants limit window v (t # ts))"
      using grants_are_times [of limit window v "t # ts"] by (intro filter_cong) auto
    then show ?thesis using grants_from [OF assms(1) Cons.prems(1) all Cons.prems(2)] by simp
  next
    case False
    then show ?thesis using Cons.IH [of "snd (grant limit window t v)"] Cons.prems by (auto simp: grant_def split: option.splits)
  qed
qed simp

text \<open>
  C38. Whatever the store is asked, a bucket whose requests come with one limit and window and in order of time grants at
  most twice the limit in any interval of one window's length.
\<close>

theorem request_rates_are_bounded:
  assumes "uniform_rate b limit window calls" "sorted (rate_times b calls)" "1 \<le> limit"
  shows "length (filter (\<lambda>t. a \<le> t \<and> t < a + window) (rate_grants b empty_auth_db calls)) \<le> 2 * nat limit"
  using grants_bounded [OF assms(3,2)] by (simp add: rate_grants_is_grants [OF assms(1)] bucket_state_def empty_auth_db_def)

section \<open>Guarded actions\<close>

fun finish_times :: "string \<Rightarrow> string \<Rightarrow> auth_call list \<Rightarrow> int list" where
  "finish_times h a [] = []"
| "finish_times h a (FinishAction k b now # cs) = (if k = h \<and> b = a then now # finish_times h a cs else finish_times h a cs)"
| "finish_times h a (_ # cs) = finish_times h a cs"

definition guard_state :: "auth_db \<Rightarrow> string \<times> string \<Rightarrow> (int \<times> int option) option" where
  "guard_state d k = map_option (\<lambda>g. (aq_started_at g, aq_completed_at g)) (find_row guard_key k (ad_guards d))"

lemma guard_state_finish:
  "guard_state (snd (finish_action h a now d)) k =
     (if k = (h, a) then map_option (\<lambda>(s, _). (s, Some now)) (guard_state d k) else guard_state d k)"
  by (auto simp: guard_state_def finish_action_def find_row_update_where option.map_comp comp_def dest!: find_row_SomeD
      split: option.splits intro!: option.map_cong)

lemma guard_state_begin_other:
  "k \<noteq> (h, a) \<Longrightarrow> guard_state (snd (begin_action h a now i c d)) k = guard_state d k"
  by (auto simp: guard_state_def begin_action_def Let_def find_row_update_where find_row_append guard_key_def option.map_comp comp_def
      split: option.splits dest!: find_row_SomeD)

lemma guard_state_step:
  "(\<And>h a t. c \<noteq> FinishAction h a t) \<Longrightarrow> (\<And>h a t i j. c = BeginAction h a t i j \<Longrightarrow> (h, a) \<noteq> k) \<Longrightarrow>
   guard_state (auth_step d c) k = guard_state d k"
  by (cases c) (auto simp: guard_state_begin_other, auto simp: guard_state_def consume_assertion_def create_session_def resolve_session_def
      revoke_session_def drop_csrf_def update_session_def set_csrf_def allow_rate_def Let_def split: option.splits)

lemma guard_state_started:
  assumes "begin_action h a now i c d = (Inr ''started'', d')"
  shows "guard_state d' (h, a) = Some (now, None)"
proof (cases "find_row guard_key (h, a) (ad_guards d)")
  case None
  then show ?thesis using assms
    by (auto simp: begin_action_def guard_state_def find_row_append guard_key_def split: if_splits)
next
  case (Some g)
  then have "guard_key g = (h, a)" by (auto dest: find_row_SomeD)
  moreover have "find_row guard_key (h, a) (update_where (\<lambda>g. guard_key g = (h, a)) (\<lambda>g. g\<lparr>aq_started_at := now, aq_completed_at := None\<rparr>) (ad_guards d)) =
      Some (g\<lparr>aq_started_at := now, aq_completed_at := None\<rparr>)"
    by (subst find_row_update_where) (simp_all add: Some calculation)
  ultimately show ?thesis using assms Some
    by (auto simp: begin_action_def Let_def guard_state_def split: if_splits)
qed

lemma begin_action_started:
  "begin_action h a now i c d = (Inr ''started'', d') \<Longrightarrow> guard_state d (h, a) = Some (s, e) \<Longrightarrow>
   (case e of None \<Rightarrow> now - s \<ge> i | Some t \<Rightarrow> now - t \<ge> c)"
  by (auto simp: begin_action_def Let_def guard_state_def guard_verdict_def split: option.splits if_splits)

lemma guard_state_run:
  assumes "guard_state d (h, a) = Some (s, e)" "\<forall>t i c. BeginAction h a t i c \<notin> set calls"
  shows "guard_state (auth_run d calls) (h, a) = Some (s, if finish_times h a calls = [] then e else Some (last (finish_times h a calls)))"
  using assms
proof (induction calls arbitrary: d e)
  case (Cons c calls)
  show ?case
  proof (cases "\<exists>k b t. c = FinishAction k b t")
    case True
    then obtain k b t where c: "c = FinishAction k b t" by blast
    have start: "guard_state (auth_step d c) (h, a) = Some (s, if k = h \<and> b = a then Some t else e)"
      using Cons.prems(1) by (cases "k = h \<and> b = a") (auto simp: c guard_state_finish)
    show ?thesis using Cons.IH [OF start] Cons.prems(2) by (auto simp: auth_run_Cons c)
  next
    case False
    have "finish_times h a (c # calls) = finish_times h a calls" using False by (cases c) auto
    moreover have "guard_state (auth_step d c) (h, a) = Some (s, e)"
      using False Cons.prems by (subst guard_state_step) auto
    ultimately show ?thesis using Cons.IH [of "auth_step d c" e] Cons.prems(2) by (simp add: auth_run_Cons)
  qed
qed simp

text \<open>
  Guarded actions keep their distance: between two starts of the same action in a session, with no start in
  between, either nothing finished and the in-flight timeout has passed since the first, or the cooldown has
  passed since the last finish.
\<close>

theorem guarded_actions_are_spaced:
  assumes "begin_action h a t1 i1 c1 d = (Inr ''started'', d1)" "\<forall>t i c. BeginAction h a t i c \<notin> set calls"
    and "begin_action h a t2 i2 c2 (auth_run d1 calls) = (Inr ''started'', d2)"
  shows "if finish_times h a calls = [] then t2 - t1 \<ge> i2 else t2 - last (finish_times h a calls) \<ge> c2"
  using begin_action_started [OF assms(3) guard_state_run [OF guard_state_started [OF assms(1)] assms(2)]]
  by (auto split: if_splits)

end
