(* ===== verification/SecurityFrames.thy ===== *)
theory SecurityFrames
  imports SecurityAdapter SecurityLimits
begin

text \<open>
  What the gateway and its routes may do to the state: their effect on the store is a sequence of store calls, sessions
  are only created from assertions that validate, and nothing but the validation action runs an operation.
\<close>

section \<open>The frames\<close>

definition session_expiry :: "auth_config \<Rightarrow> int \<Rightarrow> assertion_identity \<Rightarrow> int" where
  "session_expiry c now ident = min (ai_expires_at ident + ac_absolute_timeout c) (now + ac_absolute_timeout c)"

text \<open>A call at the clock \<open>now\<close> for a request that submits the assertions \<open>A\<close>.\<close>

definition call_ok :: "auth_env \<Rightarrow> auth_config \<Rightarrow> int \<Rightarrow> string set \<Rightarrow> auth_call \<Rightarrow> bool" where
  "call_ok env c now A k \<longleftrightarrow>
     (case k of
        CreateSession h ident issued expires event \<Rightarrow>
          issued = now \<and> expires = session_expiry c now ident \<and> (\<exists>a \<in> A. validate_assertion env c a now = Inr ident)
      | Consume _ _ t \<Rightarrow> t = now
      | _ \<Rightarrow> True)"

definition served :: "auth_env \<Rightarrow> auth_config \<Rightarrow> int \<Rightarrow> string set \<Rightarrow> auth_db \<Rightarrow> auth_db \<Rightarrow> bool" where
  "served env c now A d d' \<longleftrightarrow> (\<exists>calls. d' = auth_run d calls \<and> (\<forall>k \<in> set calls. call_ok env c now A k))"

lemma served_refl: "served env c now A d d"
  unfolding served_def by (intro exI [of _ "[]"]) simp

lemma served_trans: "served env c now A d d' \<Longrightarrow> served env c now A d' d'' \<Longrightarrow> served env c now A d d''"
  unfolding served_def by (metis auth_run_append set_append Un_iff)

lemma served_step: "call_ok env c now A k \<Longrightarrow> served env c now A d (auth_step d k)"
  unfolding served_def by (intro exI [of _ "[k]"]) (simp add: auth_run_def)

interpretation calm: state_frame "\<lambda>s s'. served env c now A (au_db s) (au_db s') \<and> au_runs s' = au_runs s"
  for env c now A
  by unfold_locales (auto intro: served_refl served_trans)

interpretation effect: state_frame "\<lambda>s s'. served env c now A (au_db s) (au_db s')"
  for env c now A
  by unfold_locales (auto intro: served_refl served_trans)

interpretation silent: state_frame "\<lambda>s s'. au_runs s' = au_runs s"
  by unfold_locales auto

lemma calm_effect: "calm.keeps env c now A m \<Longrightarrow> effect.keeps env c now A m"
  by (simp add: calm.keeps_def effect.keeps_def)

lemma calm_silent: "calm.keeps env c now A m \<Longrightarrow> silent.keeps m"
  by (simp add: calm.keeps_def silent.keeps_def)

named_theorems calm

lemmas calm_rules [calm] = calm.keeps_ret calm.keeps_raise calm.keeps_pure calm.keeps_bindS calm.keeps_if calm.keeps_option

section \<open>The gateway\<close>

lemma calm_draw [calm]: "calm.keeps env c now A (draw f)"
  by (auto intro!: calm.keepsI simp: draw_def served_refl)

lemma calm_require [calm]: "calm.keeps env c now A (require_that ok e)"
  by (simp add: require_that_def calm)

lemma calm_store:
  assumes "\<And>d. snd (m d) = auth_step d k" "call_ok env c now A k"
  shows "calm.keeps env c now A (on_auth_db m)"
  using assms by (auto intro!: calm.keepsI served_step simp: on_auth_db_def case_prod_unfold Let_def)

lemma calm_resolve [calm]: "calm.keeps env c now A (on_auth_db (resolve_session h t idle))"
  by (rule calm_store [where k = "Resolve h t idle"]) (simp_all add: call_ok_def)

lemma calm_revoke [calm]: "calm.keeps env c now A (on_auth_db (revoke_session h t))"
  by (rule calm_store [where k = "Revoke h t"]) (simp_all add: call_ok_def)

lemma calm_set_csrf [calm]: "calm.keeps env c now A (on_auth_db (set_csrf h secret t))"
  by (rule calm_store [where k = "SetCsrf h secret t"]) (simp_all add: call_ok_def)

lemma calm_rate [calm]: "calm.keeps env c now A (rate_guard w bucket t kind)"
  unfolding rate_guard_def
  by (rule calm_store [where k = "AllowRate bucket t (limit_of (hw_http w) (kind @ ''_requests'')) (limit_of (hw_http w) (kind @ ''_window_seconds''))"])
    (simp_all add: call_ok_def)

lemma calm_begin [calm]: "calm.keeps env c now A (on_auth_db (begin_action h a t i j))"
  by (rule calm_store [where k = "BeginAction h a t i j"]) (simp_all add: call_ok_def)

lemma calm_finish [calm]: "calm.keeps env c now A (on_auth_db (finish_action h a t))"
  by (rule calm_store [where k = "FinishAction h a t"]) (simp_all add: call_ok_def)

lemma calm_consume [calm]: "calm.keeps env c now A (on_auth_db (consume_assertion j e now))"
  by (rule calm_store [where k = "Consume j e now"]) (simp_all add: call_ok_def)

lemma calm_append [calm]: "calm.keeps env c now A (append_audit env' event)"
  by (auto intro!: calm.keepsI simp: append_audit_def served_refl)

lemma calm_sink [calm]: "calm.keeps env c now A (audit_sink env' t event)"
  unfolding audit_sink_def Let_def by (intro calm)

lemma calm_audit [calm]: "calm.keeps env c now A (gateway_audit env' t event)"
  unfolding gateway_audit_def by (intro calm)

lemma calm_denial [calm]: "calm.keeps env c now A (audit_denial env' t event_type request_id reason details)"
  unfolding audit_denial_def by (intro calm)

lemma calm_enabled [calm]: "calm.keeps env c now A (require_enabled c')"
  unfolding require_enabled_def by (intro calm)

lemma calm_open_session:
  "a \<in> A \<Longrightarrow> validate_assertion env c a now = Inr ident \<Longrightarrow> calm.keeps env c now A (open_session env c now request_id ident)"
  unfolding open_session_def Let_def
  by (intro calm calm_store [where k = "CreateSession h ident now (session_expiry c now ident) event" for h event])
    (auto simp: call_ok_def session_expiry_def)

lemma calm_try_exchange: "assertion \<in> A \<Longrightarrow> calm.keeps env c now A (try_exchange env c now assertion request_id)"
  unfolding try_exchange_def by (intro calm.keeps_bind_pure calm calm_open_session)

lemma calm_exchange:
  assumes "assertion \<in> A"
  shows "calm.keeps env c now A (exchange_assertion env c now assertion request_id)"
proof -
  have "calm.keeps env c now A (\<lambda>s. case try_exchange env c now assertion request_id s of
       (Inr v, s') \<Rightarrow> (Inr v, s')
     | (Inl e, s') \<Rightarrow> (Inl (unauthenticated ''identity assertion was denied''), login_failed env now request_id e s'))"
  proof (rule calm.keepsI)
    fix s
    have failed: "served env c now A (au_db s) (au_db (login_failed env now request_id e s)) \<and> au_runs (login_failed env now request_id e s) = au_runs s"
      for e s using calm.keepsD [OF calm_denial] by (auto simp: login_failed_def served_refl split: auth_exn.split denial.split)
    show "served env c now A (au_db s) (au_db (snd (case try_exchange env c now assertion request_id s of (Inr v, s') \<Rightarrow> (Inr v, s')
        | (Inl e, s') \<Rightarrow> (Inl (unauthenticated ''identity assertion was denied''), login_failed env now request_id e s')))) \<and>
      au_runs (snd (case try_exchange env c now assertion request_id s of (Inr v, s') \<Rightarrow> (Inr v, s')
        | (Inl e, s') \<Rightarrow> (Inl (unauthenticated ''identity assertion was denied''), login_failed env now request_id e s'))) = au_runs s"
      using calm.keepsD [OF calm_try_exchange [OF assms], of env c now s request_id] failed
      by (auto split: prod.split sum.split intro: served_trans)
  qed
  then show ?thesis unfolding exchange_assertion_def by (intro calm)
qed

lemma calm_authenticate [calm]: "calm.keeps env c now A (authenticate_session env' c' t token request_id)"
  unfolding authenticate_session_def Let_def case_prod_unfold by (intro calm)

lemma calm_authorize [calm]: "calm.keeps env c now A (authorize_action env' c' t token action request_id)"
  unfolding authorize_action_def by (intro calm)

lemma calm_correlate [calm]: "calm.keeps env c now A (correlate_operations_event env' c' t token action event request_id)"
  unfolding correlate_operations_event_def by (intro calm)

lemma calm_logout_session [calm]: "calm.keeps env c now A (logout_session env' t token request_id)"
  unfolding logout_session_def Let_def by (intro calm)

section \<open>The routes\<close>

lemma calm_request_id [calm]: "calm.keeps env c now A (request_id_draw w)"
  unfolding request_id_draw_def by (intro calm)

lemma calm_require_csrf [calm]: "calm.keeps env c now A (require_csrf w q t h)"
  by (rule calm.keepsI) (simp add: require_csrf_def require_that_def ret_def raise_err_def Let_def served_refl)

lemma calm_with_reader: "(\<And>x. calm.keeps env c now A (f x)) \<Longrightarrow> calm.keeps env c now A (with_reader w q t bucket f)"
  unfolding with_reader_def by (intro calm)

lemma calm_health [calm]: "calm.keeps env c now A (health_route w)"
  unfolding health_route_def by (intro calm)

lemma calm_console [calm]: "calm.keeps env c now A (console_route w q t)"
  unfolding console_route_def render_console_def Let_def by (intro calm_with_reader calm)

lemma calm_session [calm]: "calm.keeps env c now A (session_route w q t)"
  unfolding session_route_def by (intro calm_with_reader calm)

text \<open>The assertions that a request submits to the two routes that exchange one.\<close>

definition form_assertions :: "http_world \<Rightarrow> http_request \<Rightarrow> string set" where
  "form_assertions w q = {a. exchange_origin_allowed (hw_http w) q \<and> (\<exists>i. exchange_form (hw_env w) (hq_body q) = Inr (a, i))}"

definition account_assertions :: "http_world \<Rightarrow> http_request \<Rightarrow> string set" where
  "account_assertions w q = {a. header_of q ''origin'' = hc_business159_origin (hw_http w) \<and>
     (\<exists>i action ps. account_request (hw_env w) (hq_body q) = Inr (a, i, action, ps))}"

lemma calm_require_then:
  "(ok \<Longrightarrow> calm.keeps env c now A (f ())) \<Longrightarrow> calm.keeps env c now A (bindS (require_that ok e) f)"
  by (rule calm.keeps_bindS_Inr [OF calm_require]) (auto simp: require_that_def ret_def raise_err_def split: if_splits)

lemma calm_pure_then:
  "(\<And>v. r = Inr v \<Longrightarrow> calm.keeps env c now A (f v)) \<Longrightarrow> calm.keeps env c now A (bindS (pure_act r) f)"
  by (rule calm.keeps_bindS_Inr [OF calm.keeps_pure]) (auto simp: pure_act_def)

lemma calm_exchange_route: "calm.keeps (hw_env w) (hw_auth w) now (form_assertions w q) (exchange_route w q now)"
  unfolding exchange_route_def Let_def case_prod_unfold
  by (intro calm_require_then calm_pure_then calm calm_exchange) (auto simp: form_assertions_def)

lemma calm_logout_route [calm]: "calm.keeps env c now A (logout_route w q t)"
  unfolding logout_route_def Let_def require_same_origin_def by (intro calm)

lemma calm_close: "served env c now A (au_db s) (au_db (close_account_session w t token s)) \<and> au_runs (close_account_session w t token s) = au_runs s"
  unfolding close_account_session_def by (rule calm.keepsD) (intro calm)

lemma calm_finally: "calm.keeps env c now A (\<lambda>s. (r, close_account_session w t token s))"
  by (rule calm.keepsI) (simp add: calm_close)

lemma calm_account_route: "calm.keeps (hw_env w) (hw_auth w) now (account_assertions w q) (account_route w q now)"
  unfolding account_route_def case_prod_unfold
  by (intro calm_require_then calm_pure_then calm calm_finally calm_exchange) (auto simp: account_assertions_def)

lemma effect_validate_route: "effect.keeps env c now A (validate_action_route w q t)"
proof -
  have run: "effect.keeps env c now A (run_operation w action subject)" for action subject
    by (rule effect.keepsI) (simp add: run_operation_def served_refl)
  have perform: "effect.keeps env c now A (perform_action w token request_id x)" for token request_id x
    unfolding perform_action_def Let_def case_prod_unfold
  proof (rule effect.keeps_bindS [OF run effect.keepsI], goal_cases)
    case (1 v s)
    have finish: "served env c now A (au_db s) (au_db (snd (on_auth_db (finish_action h a later) s')))"
      if "served env c now A (au_db s) (au_db s')" for h a later s'
      using that effect.keepsD [OF calm_effect [OF calm_finish]] served_trans by blast
    have correlate: "served env c now A (au_db s) (au_db (snd (bindS (correlate_operations_event e c' l token a i request_id) (\<lambda>_. ret r) s)))" for e c' l a i r
      by (intro effect.keepsD calm_effect calm)
    show ?case by (cases "fst v") (simp_all add: finish correlate served_refl)
  qed
  show ?thesis unfolding validate_action_route_def Let_def require_same_origin_def
    by (intro effect.keeps_bindS effect.keeps_if perform; (intro calm_effect calm)?) 
qed

end
