(* ===== verification/SecurityTheorems.thy ===== *)
theory SecurityTheorems
  imports SecurityFrames
begin

text \<open>
  What the HTTP boundary of the security identity gateway promises: sessions stem from signed assertions, each used
  once, operations run only for authorised requests, logged-out and account sessions are dead.
\<close>

section \<open>Runs of the boundary\<close>

lemma guarded_Inr_iff:
  "require_that ok e s = (Inr u, s') \<longleftrightarrow> ok \<and> s' = s"
  "require_enabled c s = (Inr u, s') \<longleftrightarrow> ac_enabled c \<and> ac_deployment_authorized c \<and> s' = s"
  "on_auth_db m s = (r, s') \<longleftrightarrow> (\<exists>d. m (au_db s) = (r, d) \<and> s' = s\<lparr>au_db := d\<rparr>)"
  by (auto simp: require_that_def require_enabled_def ret_def raise_err_def on_auth_db_def split: prod.split)

lemmas action_Inr = bindS_Inr_iff basic_Inr_iff guarded_Inr_iff

text \<open>The assertions a request submits, by its path and method.\<close>

definition submitted :: "http_world \<Rightarrow> http_request \<Rightarrow> string set" where
  "submitted w q =
     (if upper (hq_method q) \<noteq> ''POST'' then {}
      else if hq_path q = ''/edge1-ops/account/api'' then account_assertions w q
      else if hq_path q = route_of (hw_http w) ''exchange'' then form_assertions w q else {})"

lemma effect_method: "(upper (hq_method q) = m \<Longrightarrow> effect.keeps env c now A r) \<Longrightarrow> effect.keeps env c now A (with_method q m r)"
  by (auto simp: with_method_def Let_def intro: effect.keeps_ret)

lemma effect_if: "(b \<Longrightarrow> effect.keeps env c now A m) \<Longrightarrow> (\<not> b \<Longrightarrow> effect.keeps env c now A m') \<Longrightarrow> effect.keeps env c now A (if b then m else m')"
  by simp

lemma effect_exchanges:
  "upper (hq_method q) = ''POST'' \<Longrightarrow> hq_path q = ''/edge1-ops/account/api'' \<Longrightarrow>
     effect.keeps (hw_env w) (hw_auth w) now (submitted w q) (account_route w q now)"
  "upper (hq_method q) = ''POST'' \<Longrightarrow> hq_path q \<noteq> ''/edge1-ops/account/api'' \<Longrightarrow> hq_path q = route_of (hw_http w) ''exchange'' \<Longrightarrow>
     effect.keeps (hw_env w) (hw_auth w) now (submitted w q) (exchange_route w q now)"
  using calm_effect [OF calm_account_route, of w now q] calm_effect [OF calm_exchange_route, of w now q] by (simp_all add: submitted_def)

lemma effect_dispatch: "effect.keeps (hw_env w) (hw_auth w) now (submitted w q) (dispatch w q now)"
  unfolding dispatch_def route_request_def Let_def
  by (intro effect.keeps_bindS effect.keeps_pure effect.keeps_ret effect.keeps_raise effect_validate_route effect_if effect_method effect_exchanges;
    (assumption | intro calm_effect calm)?)

lemma served_handle: "served (hw_env w) (hw_auth w) now (submitted w q) (au_db s) (au_db (snd (http_handle w q now s)))"
  using effect.keepsD [OF effect_dispatch [where w = w and q = q and now = now], of s] by (auto simp: http_handle_def split: prod.split sum.split)

lemma served_run:
  "\<exists>calls. au_db (http_run w s qs) = auth_run (au_db s) calls \<and>
     (\<forall>k \<in> set calls. \<exists>(q, now) \<in> set qs. call_ok (hw_env w) (hw_auth w) now (submitted w q) k)"
proof (induction qs rule: rev_induct)
  case Nil
  show ?case by (intro exI [of _ "[]"]) (simp add: http_run_def)
next
  case (snoc p qs)
  obtain q now where p: "p = (q, now)" by (cases p)
  obtain calls where calls: "au_db (http_run w s qs) = auth_run (au_db s) calls"
    "\<forall>k \<in> set calls. \<exists>(q, now) \<in> set qs. call_ok (hw_env w) (hw_auth w) now (submitted w q) k" using snoc.IH by blast
  obtain calls' where calls': "au_db (snd (http_handle w q now (http_run w s qs))) = auth_run (au_db (http_run w s qs)) calls'"
    "\<forall>k \<in> set calls'. call_ok (hw_env w) (hw_auth w) now (submitted w q) k" using served_handle unfolding served_def by blast
  have "\<forall>k \<in> set (calls @ calls'). \<exists>(q, now) \<in> set (qs @ [p]). call_ok (hw_env w) (hw_auth w) now (submitted w q) k"
    using calls(2) calls'(2) p by fastforce
  moreover have "au_db (http_run w s (qs @ [p])) = auth_run (au_db s) (calls @ calls')"
    using calls(1) calls'(1) by (simp add: http_run_def p auth_run_append)
  ultimately show ?case by blast
qed

lemma empty_auth_inv [simp]: "auth_inv empty_auth_db"
  by (simp add: auth_inv_def empty_auth_db_def dict_ok_def)

lemma run_auth_inv: "auth_inv d \<Longrightarrow> auth_inv (auth_run d calls)"
  using sessions.run_inv by (simp add: auth_run_def)

lemma http_run_inv: "auth_inv (au_db s) \<Longrightarrow> auth_inv (au_db (http_run w s qs))"
  using served_run [of w s qs] run_auth_inv by metis

section \<open>Assertions\<close>

text \<open>The three parts of an assertion and the trusted key that signed the first two.\<close>

definition signed_assertion :: "auth_env \<Rightarrow> auth_config \<Rightarrow> string \<Rightarrow> bool" where
  "signed_assertion env c a \<longleftrightarrow>
     (\<exists>p0 p1 p2 kid key signature. split_on (CHR ''.'') a = [p0, p1, p2] \<and> select_jwk (ae_file env (ac_jwks_path c)) kid = Inr key \<and>
        b64url_decode p2 = Inr signature \<and> verify_rs256 (ae_digest env) (p0 @ CHR ''.'' # p1) signature key)"

lemma identity_claims_Inr:
  "identity_claims env c claims now = Inr ident \<Longrightarrow>
     ai_scopes ident \<noteq> {} \<and> ai_scopes ident \<subseteq> set allowed_scopes \<and> ai_scopes ident \<inter> set mutation_scopes = {} \<and>
     jget claims ''iss'' = JStr (ac_issuer c) \<and> jget claims ''aud'' = JStr (ac_audience c) \<and>
     ai_issued_at ident < ai_expires_at ident \<and> ai_expires_at ident \<le> ai_issued_at ident + ac_max_lifetime c \<and>
     ai_issued_at ident \<le> now + ac_skew c \<and> now - ac_skew c < ai_expires_at ident"
  by (auto simp: identity_claims_def check_times_def bindE_Inr_iff guard_Inr_iff)

lemma raising_Inr: "raising r = Inr v \<Longrightarrow> r = Inr v"
  by (cases r) (auto simp: raising_def)

lemma validate_Inr:
  assumes "validate_assertion env c a now = Inr ident"
  obtains claims where "signed_assertion env c a" "identity_claims env c claims now = Inr ident"
proof -
  obtain p0 p1 p2 where parts: "split_on (CHR ''.'') a = [p0, p1, p2]"
    using assms by (auto simp: validate_assertion_def split: if_splits list.splits)
  show thesis
    using assms parts that unfolding validate_assertion_def signed_assertion_def
    by (auto simp: bindE_Inr_iff guard_Inr_iff split: if_splits dest!: raising_Inr)
qed

lemma validated_scopes_finite: "validate_assertion env c a now = Inr ident \<Longrightarrow> finite (ai_scopes ident)"
  by (erule validate_Inr) (metis identity_claims_Inr finite_set finite_subset)

lemma session_of_fields:
  "session_of h ident issued expires event calls r \<Longrightarrow> sn_subject r = ai_subject ident \<and> sn_issued_at r = issued \<and> sn_expires_at r = expires \<and>
     sn_scopes_json r = canonical_json (JList (map JStr (sorted_list_of_set (ai_scopes ident))))"
  by (auto simp: session_of_def new_session_def)

text \<open>
  C8. Every session the gateway ever holds stems from a request that submitted an assertion, in a POST to the exchange or the account
  route with the origin they demand, and this assertion validated at the request's clock: signed by a key of the trusted set, issued to the configured audience, with only allowed scopes; the session has
  exactly those scopes and that subject and ends within the absolute timeout.
\<close>

theorem sessions_stem_from_assertions:
  assumes "r \<in> set (ad_sessions (au_db (http_run w fresh_auth qs)))"
  shows "\<exists>q now a ident. (q, now) \<in> set qs \<and> a \<in> submitted w q \<and> validate_assertion (hw_env w) (hw_auth w) a now = Inr ident \<and>
    signed_assertion (hw_env w) (hw_auth w) a \<and> sn_subject r = ai_subject ident \<and> scopes_of (sn_scopes_json r) = Some (ai_scopes ident) \<and>
    ai_scopes ident \<subseteq> set allowed_scopes - set mutation_scopes \<and> sn_issued_at r = now \<and>
    sn_expires_at r \<le> now + ac_absolute_timeout (hw_auth w)"
proof -
  obtain calls where calls: "au_db (http_run w fresh_auth qs) = auth_run empty_auth_db calls"
    "\<forall>k \<in> set calls. \<exists>(q, now) \<in> set qs. call_ok (hw_env w) (hw_auth w) now (submitted w q) k"
    using served_run [of w fresh_auth qs] by (auto simp: fresh_auth_def)
  have "auth_inv (auth_run empty_auth_db calls)" by (rule run_auth_inv) simp
  then have "find_session (auth_run empty_auth_db calls) (sn_hash r) = Some r"
    using assms unfolding calls(1) by (simp add: find_session_def auth_inv_def find_row_distinct)
  then obtain before ident issued expires event later where run: "calls = before @ CreateSession (sn_hash r) ident issued expires event # later"
    and row: "session_of (sn_hash r) ident issued expires event later r" by (blast dest: session_origin)
  obtain q now where req: "(q, now) \<in> set qs" "call_ok (hw_env w) (hw_auth w) now (submitted w q) (CreateSession (sn_hash r) ident issued expires event)"
    using calls(2) unfolding run by fastforce
  then obtain a where a: "validate_assertion (hw_env w) (hw_auth w) a now = Inr ident" "issued = now"
    "expires = session_expiry (hw_auth w) now ident" "a \<in> submitted w q" by (auto simp: call_ok_def)
  obtain claims where claims: "signed_assertion (hw_env w) (hw_auth w) a" "identity_claims (hw_env w) (hw_auth w) claims now = Inr ident"
    using validate_Inr [OF a(1)] by blast
  have "scopes_of (sn_scopes_json r) = Some (ai_scopes ident) \<and> sn_subject r = ai_subject ident \<and> sn_issued_at r = now \<and>
      sn_expires_at r = session_expiry (hw_auth w) now ident"
    using session_of_fields [OF row] validated_scopes_finite [OF a(1)] a(2,3) by (simp add: scopes_round_trip)
  then show ?thesis using req(1) a(1,4) claims identity_claims_Inr [OF claims(2)]
    by (intro exI [of _ q] exI [of _ now] exI [of _ a] exI [of _ ident]) (auto simp: session_expiry_def)
qed

section \<open>An assertion is exchanged once\<close>

lemma exchange_Inr:
  assumes "exchange_assertion env c now a i s = (Inr v, s')"
  obtains ident s1 where "validate_assertion env c a now = Inr ident"
    "consume_assertion (ai_jti_hash ident) (ai_expires_at ident) now (au_db s) = (Inr True, au_db s1)"
    "open_session env c now i ident s1 = (Inr v, s')"
proof -
  have "try_exchange env c now a i s = (Inr v, s')"
    using assms by (auto simp: exchange_assertion_def action_Inr split: prod.splits sum.splits)
  then obtain ident d where "validate_assertion env c a now = Inr ident"
    "consume_assertion (ai_jti_hash ident) (ai_expires_at ident) now (au_db s) = (Inr True, d)"
    "open_session env c now i ident (s\<lparr>au_db := d\<rparr>) = (Inr v, s')"
    by (auto simp: try_exchange_def action_Inr split: if_splits)
  then show thesis using that [of ident "s\<lparr>au_db := d\<rparr>"] by simp
qed

lemma served_open_session: "validate_assertion env c a now = Inr ident \<Longrightarrow>
   served env c now {a} (au_db s) (au_db (snd (open_session env c now i ident s)))"
  using calm.keepsD [OF calm_open_session [of a "{a}"]] by blast

lemma served_keeps_consumed:
  assumes "served env c now A d d'" "auth_inv d" "dget (ad_replays d) jti = Some e" "now \<le> e"
  shows "auth_inv d' \<and> dget (ad_replays d') jti = Some e"
proof -
  obtain calls where calls: "d' = auth_run d calls" "\<forall>k \<in> set calls. call_ok env c now A k" using assms(1) by (auto simp: served_def)
  have "t = now" if "k \<in> set calls" "consumed_at k = Some t" for k t
    using calls(2) that by (cases k) (auto simp: call_ok_def)
  then show ?thesis using assms(2-) by (auto simp: calls(1) run_auth_inv intro!: consumed_stays)
qed

lemma run_keeps_consumed:
  assumes "auth_inv (au_db s)" "dget (ad_replays (au_db s)) jti = Some e" "\<forall>(q, t) \<in> set qs. t \<le> e"
  shows "auth_inv (au_db (http_run w s qs)) \<and> dget (ad_replays (au_db (http_run w s qs))) jti = Some e"
  using assms(3)
proof (induction qs rule: rev_induct)
  case (snoc p qs)
  then show ?case
    using served_keeps_consumed [OF served_handle [where w = w and now = "snd p" and s = "http_run w s qs" and q = "fst p"], of jti e]
    by (simp add: http_run_def case_prod_unfold)
qed (use assms(1,2) in \<open>simp add: http_run_def\<close>)

text \<open>
  C9. An assertion is exchanged at most once while it is valid: after a successful exchange, and any requests up to
  the expiry of the identity it carries, no exchange of an assertion with the same identifiers succeeds before that expiry.
\<close>

theorem assertions_are_exchanged_once:
  assumes "exchange_assertion (hw_env w) (hw_auth w) now a i s = (Inr v, s1)" "auth_inv (au_db s)"
    and "validate_assertion (hw_env w) (hw_auth w) a now = Inr ident" "validate_assertion (hw_env w) (hw_auth w) a2 now2 = Inr ident2"
    and "ai_jti_hash ident2 = ai_jti_hash ident"
    and "now \<le> ai_expires_at ident" "\<forall>(q, t) \<in> set qs. t \<le> ai_expires_at ident" "now2 \<le> ai_expires_at ident"
  shows "fst (exchange_assertion (hw_env w) (hw_auth w) now2 a2 i2 (http_run w s1 qs)) = Inl (unauthenticated ''identity assertion was denied'') \<or>
    fst (exchange_assertion (hw_env w) (hw_auth w) now2 a2 i2 (http_run w s1 qs)) = Inl (unauthenticated ''request_id_invalid'')"
proof -
  let ?env = "hw_env w" and ?c = "hw_auth w" and ?e = "ai_expires_at ident" and ?j = "ai_jti_hash ident"
  obtain s0 where s0: "consume_assertion ?j ?e now (au_db s) = (Inr True, au_db s0)" "open_session ?env ?c now i ident s0 = (Inr v, s1)"
    using exchange_Inr [OF assms(1)] assms(3) by (metis Inr_inject)
  have "auth_inv (au_db s0)" "dget (ad_replays (au_db s0)) ?j = Some ?e"
    using consume_inv [OF assms(2), of ?j ?e now] consume_records [of ?j ?e now "au_db s"] s0(1) assms(2) by auto
  then have "auth_inv (au_db s1)" "dget (ad_replays (au_db s1)) ?j = Some ?e"
    using served_keeps_consumed [OF served_open_session [OF assms(3), of s0 i]] assms(6) s0(2) by auto
  then have late: "auth_inv (au_db (http_run w s1 qs))" "dget (ad_replays (au_db (http_run w s1 qs))) ?j = Some ?e"
    using run_keeps_consumed [OF _ _ assms(7)] by auto
  show ?thesis
  proof (cases "exchange_assertion ?env ?c now2 a2 i2 (http_run w s1 qs)")
    case (Pair r s2)
    show ?thesis
    proof (cases r)
      case (Inr v2)
      then obtain d where "consume_assertion (ai_jti_hash ident2) (ai_expires_at ident2) now2 (au_db (http_run w s1 qs)) = (Inr True, d)"
        using exchange_Inr [OF Pair [unfolded Inr]] assms(4) by (metis Inr_inject)
      then show ?thesis using consumed_replays [OF late assms(8), of ?j "ai_expires_at ident2"] assms(5) by simp
    next
      case (Inl e)
      have on: "ac_enabled ?c \<and> ac_deployment_authorized ?c"
        using assms(1) by (auto simp: exchange_assertion_def require_enabled_def bindS_def raise_err_def split: if_splits)
      then show ?thesis using Pair Inl
        by (auto simp: exchange_assertion_def require_enabled_def bindS_def ret_def pure_act_def require_event_id_def
            split: if_splits prod.splits sum.splits)
    qed
  qed
qed

section \<open>Operations run only for authorised requests\<close>

lemma silent_method: "calm.keeps env c now A r \<Longrightarrow> silent.keeps (with_method q m r)"
  using calm_silent [of env c now A r] by (auto simp: with_method_def Let_def intro: silent.keeps_ret)

lemma silent_routes:
  "silent.keeps (route_request w q now) \<or>
   (hc_live_route (hw_http w) \<and> hq_path q = route_of (hw_http w) ''validate'' \<and> upper (hq_method q) = ''POST'' \<and>
    route_request w q now = validate_action_route w q now)"
proof -
  let ?c = "hw_http w" and ?p = "hq_path q"
  let ?last = "?p \<noteq> route_of ?c ''health'' \<and> ?p \<noteq> ''/edge1-ops/account/api'' \<and> hc_live_route ?c \<and> ?p \<noteq> route_of ?c ''console'' \<and>
    ?p \<noteq> route_of ?c ''exchange'' \<and> ?p \<noteq> route_of ?c ''session'' \<and> ?p \<noteq> route_of ?c ''logout'' \<and> route_of ?c ''validate'' = ?p \<and>
    upper (hq_method q) = ''POST''"
  show ?thesis
  proof (cases ?last)
    case True
    then show ?thesis by (simp add: route_request_def with_method_def Let_def)
  next
    case False
    then have refused: "?p \<noteq> route_of ?c ''health'' \<Longrightarrow> ?p \<noteq> ''/edge1-ops/account/api'' \<Longrightarrow> hc_live_route ?c \<Longrightarrow> ?p \<noteq> route_of ?c ''console'' \<Longrightarrow>
        ?p \<noteq> route_of ?c ''exchange'' \<Longrightarrow> ?p \<noteq> route_of ?c ''session'' \<Longrightarrow> ?p \<noteq> route_of ?c ''logout'' \<Longrightarrow> ?p = route_of ?c ''validate'' \<Longrightarrow>
        silent.keeps (with_method q ''POST'' (validate_action_route w q now))"
      by (simp add: with_method_def Let_def silent.keeps_ret)
    have "silent.keeps (route_request w q now)"
      unfolding route_request_def Let_def
      by (intro silent.keeps_if silent_method [OF calm_health] silent_method [OF calm_account_route] silent_method [OF calm_console]
          silent_method [OF calm_exchange_route] silent_method [OF calm_session] silent_method [OF calm_logout_route]
          silent.keeps_ret silent.keeps_raise refused) simp_all
    then show ?thesis ..
  qed
qed

lemma loud_dispatch:
  assumes "au_runs (snd (dispatch w q now s)) \<noteq> au_runs s"
  shows "validate_boundary (hw_http w) q = Inr () \<and> hc_live_route (hw_http w) \<and> hq_path q = route_of (hw_http w) ''validate'' \<and>
    upper (hq_method q) = ''POST'' \<and> dispatch w q now s = validate_action_route w q now s"
proof -
  obtain u where valid: "validate_boundary (hw_http w) q = Inr u"
    using silent.unrelated_bindS [OF silent.keeps_pure assms [unfolded dispatch_def]] by (auto simp: pure_act_def)
  then have routed: "dispatch w q now s = route_request w q now s"
    by (simp add: dispatch_def bindS_def pure_act_def)
  then have "\<not> silent.keeps (route_request w q now)" using assms silent.keepsD by metis
  then show ?thesis using silent_routes [of w q now] valid routed by simp
qed

text \<open>What makes a session live at an instant, and the row it is.\<close>

definition live_session :: "http_world \<Rightarrow> auth_db \<Rightarrow> string \<Rightarrow> int \<Rightarrow> session_row \<Rightarrow> bool" where
  "live_session w d h now r \<longleftrightarrow> ac_enabled (hw_auth w) \<and> ac_deployment_authorized (hw_auth w) \<and> find_session d h = Some r \<and>
     sn_revoked_at r = None \<and> now < sn_expires_at r \<and> now - sn_last_seen_at r < ac_idle_timeout (hw_auth w)"

lemma authenticate_Inr:
  assumes "authenticate_session (hw_env w) (hw_auth w) now token i s = (Inr x, s')"
  obtains r where "live_session w (au_db s) (ae_sha (hw_env w) token) now r" "sx_subject x = sn_subject r"
    "scopes_of (sn_scopes_json r) = Some (sx_scopes x)" "sx_session_hash x = ae_sha (hw_env w) token"
    "ad_csrf (au_db s') = ad_csrf (au_db s)"
proof -
  let ?h = "ae_sha (hw_env w) token"
  have "\<exists>reason d. resolve_session ?h now (ac_idle_timeout (hw_auth w)) (au_db s) = (Inr (Some x, reason), d) \<and> s' = s\<lparr>au_db := d\<rparr>"
    and on: "ac_enabled (hw_auth w)" "ac_deployment_authorized (hw_auth w)"
    using assms by (auto simp: authenticate_session_def action_Inr Let_def split: if_splits option.splits)
  then obtain reason d where res: "resolve_session ?h now (ac_idle_timeout (hw_auth w)) (au_db s) = (Inr (Some x, reason), d)" "s' = s\<lparr>au_db := d\<rparr>"
    by blast
  then obtain r where row: "find_session (au_db s) ?h = Some r" "session_reason now (ac_idle_timeout (hw_auth w)) r = ''active''"
    by (auto simp: resolve_session_def Let_def split: option.splits if_splits)
  have "live_session w (au_db s) ?h now r"
    using row on by (auto simp: live_session_def session_reason_def split: if_splits)
  moreover have "sx_subject x = sn_subject r \<and> scopes_of (sn_scopes_json r) = Some (sx_scopes x) \<and> sx_session_hash x = ?h \<and>
      ad_csrf (au_db s') = ad_csrf (au_db s)"
    using res row by (auto simp: resolve_session_def Let_def update_session_def split: option.splits)
  ultimately show thesis using that by blast
qed

lemma audit_keeps_db: "gateway_audit env now event s = (r, s') \<Longrightarrow> au_db s' = au_db s"
  by (auto simp: gateway_audit_def audit_sink_def bindS_def ret_def raise_err_def draw_def append_audit_def Let_def
      split: prod.splits sum.splits if_splits)

lemma authorize_Inr:
  assumes "authorize_action (hw_env w) (hw_auth w) now token action i s = (Inr x, s')"
  obtains r required where "live_session w (au_db s) (ae_sha (hw_env w) token) now r" "sx_subject x = sn_subject r"
    "dget action_scopes action = Some required" "scopes_of (sn_scopes_json r) = Some (sx_scopes x)" "required \<in> sx_scopes x"
    "sx_session_hash x = ae_sha (hw_env w) token" "ad_csrf (au_db s') = ad_csrf (au_db s)"
proof -
  obtain required s1 s2 ev where parts: "dget action_scopes action = Some required"
    "authenticate_session (hw_env w) (hw_auth w) now token i s = (Inr x, s1)" "required \<in> sx_scopes x" "au_db s' = au_db s1"
    using assms by (auto simp: authorize_action_def action_Inr split: if_splits option.splits dest!: audit_keeps_db)
  then show thesis using authenticate_Inr [OF parts(2)] that by (metis)
qed

lemma rate_guard_csrf: "rate_guard w b now kind s = (r, s') \<Longrightarrow> ad_csrf (au_db s') = ad_csrf (au_db s)"
  by (auto simp: rate_guard_def on_auth_db_def allow_rate_def case_prod_unfold Let_def split: option.splits if_splits)

lemma request_id_db: "request_id_draw w s = (r, s') \<Longrightarrow> au_db s' = au_db s"
  by (auto simp: request_id_draw_def draw_def)

lemma verify_csrf_cong: "ad_csrf d = ad_csrf d' \<Longrightarrow> verify_csrf h t now d = verify_csrf h t now d'"
  by (simp add: verify_csrf_def)

lemma perform_runs:
  "au_runs (snd (perform_action w token i x s)) = au_runs s @ [(hc_operations_action (hw_http w), sx_subject x)]"
proof -
  have finish: "au_runs (snd (on_auth_db m s)) = au_runs s" for m :: "(auth_db, unit) guarded" and s
    by (simp add: on_auth_db_def case_prod_unfold Let_def)
  have quiet: "silent.keeps (bindS (correlate_operations_event env c t tok a ev i) (\<lambda>_. ret r))" for env c t tok a ev r
    by (rule calm_silent) (intro calm)
  obtain reply later where "hw_operations w (hc_operations_action (hw_http w)) (sx_subject x) = (reply, later)" by fastforce
  then show ?thesis
    by (cases reply) (simp_all add: perform_action_def run_operation_def bindS_def [of "run_operation w a b" for a b] finish silent.keepsD [OF quiet] Let_def case_prod_unfold)
qed

lemma loud_bindS:
  assumes "silent.keeps m"
  shows "au_runs (snd (bindS m f s)) = au_runs s \<longleftrightarrow> (\<forall>v s'. m s = (Inr v, s') \<longrightarrow> au_runs (snd (f v s')) = au_runs s')"
  using silent.keepsD [OF assms, of s] by (auto simp: bindS_def split: prod.split sum.split)

lemmas silent_parts = silent.keeps_ret silent.keeps_pure calm_silent [OF calm_require] calm_silent [OF calm_request_id]
  calm_silent [OF calm_authorize] calm_silent [OF calm_rate] calm_silent [OF calm_require_csrf] calm_silent [OF calm_begin]

lemma require_csrf_Inr:
  "require_csrf w q now h s = (Inr u, s') \<longleftrightarrow> cookie_text (header_of q ''x-wwcx-csrf'') \<and>
     verify_csrf h (ae_sha (hw_env w) (header_of q ''x-wwcx-csrf'')) now (au_db s) \<and> s' = s"
  by (auto simp: require_csrf_def guarded_Inr_iff Let_def)

lemma silent_eq: "silent.keeps m \<Longrightarrow> m s = (r, s') \<Longrightarrow> au_runs s' = au_runs s"
  using silent.keepsD [of m s] by simp

lemma ret_state: "snd (ret v s) = s"
  by (simp add: ret_def)

text \<open>
  C6. An operation runs only for an authorised request. If handling a request runs one, the adapter is enabled, the request came
  over the trusted boundary as a \<open>POST\<close> from the own origin, its cookie names a live session whose scopes cover the action, its
  CSRF header carries that session's secret, and exactly one operation ran, for the subject of the session.
\<close>

theorem operations_are_authorised:
  assumes "au_runs (snd (http_handle w q now s)) \<noteq> au_runs s"
  shows "validate_boundary (hw_http w) q = Inr () \<and> upper (hq_method q) = ''POST'' \<and> header_of q ''origin'' = hc_same_origin (hw_http w) \<and>
    (\<exists>token r required scopes. session_token_of (hw_http w) q = Inr token \<and> live_session w (au_db s) (ae_sha (hw_env w) token) now r \<and>
       dget action_scopes (hc_operations_action (hw_http w)) = Some required \<and> scopes_of (sn_scopes_json r) = Some scopes \<and> required \<in> scopes \<and>
       verify_csrf (ae_sha (hw_env w) token) (ae_sha (hw_env w) (header_of q ''x-wwcx-csrf'')) now (au_db s) \<and>
       au_runs (snd (http_handle w q now s)) = au_runs s @ [(hc_operations_action (hw_http w), sn_subject r)])"
proof -
  let ?c = "hw_http w" and ?action = "hc_operations_action (hw_http w)"
  have same: "snd (http_handle w q now s) = snd (dispatch w q now s)"
    by (simp add: http_handle_def split: prod.split sum.split)
  have route: "validate_boundary ?c q = Inr ()" "upper (hq_method q) = ''POST''" "dispatch w q now s = validate_action_route w q now s"
    using loud_dispatch [of w q now s] assms same by auto
  have loud: "au_runs (snd (validate_action_route w q now s)) \<noteq> au_runs s" using assms same route(3) by simp
  obtain token request_id x s1 s2 b s3 s4 where steps: "header_of q ''origin'' = hc_same_origin ?c" "session_token_of ?c q = Inr token"
    "request_id_draw w s = (Inr request_id, s1)" "authorize_action (hw_env w) (hw_auth w) now token ?action request_id s1 = (Inr x, s2)"
    "rate_guard w (''action:'' @ sx_session_hash x) now ''action'' s2 = (Inr True, s3)" "require_csrf w q now (sx_session_hash x) s3 = (Inr (), s3)"
    "on_auth_db (begin_action (sx_session_hash x) ?action now (limit_of ?c ''action_inflight_timeout_seconds'')
          (limit_of ?c ''action_cooldown_seconds'')) s3 = (Inr ''started'', s4)"
    "content_type_of q = ''application/json''" "hq_body q \<in> {[], ''{}'', ''{}'' @ [CHR 10]}"
    using loud unfolding validate_action_route_def Let_def require_same_origin_def
    by (auto simp: loud_bindS silent_parts guarded_Inr_iff(1) basic_Inr_iff require_csrf_Inr ret_state simp del: append_Cons append_Nil split: if_splits)
  have "snd (validate_action_route w q now s) = snd (perform_action w token request_id x s4)"
    by (simp add: validate_action_route_def Let_def bindS_def require_same_origin_def require_that_def ret_def pure_act_def steps del: append_Cons append_Nil insert_iff)
  moreover have "au_runs s4 = au_runs s"
    using silent_eq [OF calm_silent [OF calm_request_id] steps(3)] silent_eq [OF calm_silent [OF calm_authorize] steps(4)]
      silent_eq [OF calm_silent [OF calm_rate] steps(5)] silent_eq [OF calm_silent [OF calm_begin] steps(7)] by simp
  ultimately have runs: "au_runs (snd (http_handle w q now s)) = au_runs s @ [(?action, sx_subject x)]"
    using same route(3) by (simp add: perform_runs)
  obtain r required where auth: "live_session w (au_db s1) (ae_sha (hw_env w) token) now r" "sx_subject x = sn_subject r"
    "dget action_scopes ?action = Some required" "scopes_of (sn_scopes_json r) = Some (sx_scopes x)" "required \<in> sx_scopes x"
    "sx_session_hash x = ae_sha (hw_env w) token" "ad_csrf (au_db s2) = ad_csrf (au_db s1)"
    using authorize_Inr [OF steps(4)] by blast
  have "au_db s1 = au_db s" using request_id_db steps(3) by blast
  moreover have "verify_csrf (ae_sha (hw_env w) token) (ae_sha (hw_env w) (header_of q ''x-wwcx-csrf'')) now (au_db s)"
    using steps(6) auth(6,7) rate_guard_csrf [OF steps(5)] \<open>au_db s1 = au_db s\<close> verify_csrf_cong [of "au_db s3" "au_db s"]
    by (simp add: require_csrf_Inr)
  ultimately show ?thesis using route steps(1,2) auth runs by auto
qed

end
