(* ===== verification/SecurityEndings.thy ===== *)
theory SecurityEndings
  imports SecurityTheorems
begin

text \<open>
  How sessions of the security identity gateway end: a logged-out session is dead for good, and the account API leaves no
  session behind. Then the accepted configurations, and concrete runs.
\<close>

section \<open>Logout\<close>

lemma authenticate_needs_live:
  fixes w :: http_world
  assumes "find_session (au_db s) (ae_sha (hw_env w) token) = Some r" "sn_revoked_at r \<noteq> None"
  shows "\<exists>e. fst (authenticate_session (hw_env w) (hw_auth w) now token i s) = Inl e"
proof (cases "authenticate_session (hw_env w) (hw_auth w) now token i s")
  case (Pair v s')
  then show ?thesis
  proof (cases v)
    case (Inr x)
    then obtain r' where "live_session w (au_db s) (ae_sha (hw_env w) token) now r'" using authenticate_Inr Pair by metis
    then show ?thesis using assms by (simp add: live_session_def)
  qed simp
qed

lemma logout_session_Inr:
  assumes "logout_session env now token i s = (Inr u, s')" "find_session (au_db s) (ae_sha env token) = Some r"
  shows "\<exists>r'. find_session (au_db s') (ae_sha env token) = Some r' \<and> sn_revoked_at r' \<noteq> None"
proof -
  have "au_db s' = snd (revoke_session (ae_sha env token) now (au_db s))"
    using assms(1) by (auto simp: logout_session_def action_Inr Let_def dest!: audit_keeps_db)
  then show ?thesis using assms(2) by (simp add: find_session_revoke set_revoked_def split: option.split)
qed

lemma find_session_served:
  assumes "served env c now A d d'" "find_session d h = Some r"
  shows "\<exists>r'. find_session d' h = Some r'"
proof -
  have "\<exists>r'. find_session (auth_run d calls) h = Some r'" for calls
  proof (induction calls rule: rev_induct)
    case (snoc k calls)
    then obtain r' where "find_session (auth_run d calls) h = Some r'" by blast
    then show ?case unfolding auth_run_snoc find_session_step by (cases k) simp_all
  qed (simp add: assms(2))
  then show ?thesis using assms(1) by (auto simp: served_def)
qed

lemma served_eq: "calm.keeps env c now A m \<Longrightarrow> m s = (r, s') \<Longrightarrow> served env c now A (au_db s) (au_db s')"
  using calm.keepsD [of env c now A m s] by simp

text \<open>
  C36. A logged-out session is dead for good: after a logout that answered 204, whatever requests follow, its token is
  never authenticated again.
\<close>

theorem logged_out_sessions_are_dead:
  assumes "logout_route w q now s = (Inr resp, s1)" "hr_status resp = 204" "session_token_of (hw_http w) q = Inr token" "auth_inv (au_db s)"
  shows "\<exists>e. fst (authenticate_session (hw_env w) (hw_auth w) t token i (http_run w s1 qs)) = Inl e"
proof -
  let ?h = "ae_sha (hw_env w) token"
  obtain request_id a x b c d request_id2 e where steps: "request_id_draw w s = (Inr request_id, a)"
    "authenticate_session (hw_env w) (hw_auth w) now token request_id a = (Inr x, b)"
    "rate_guard w (''logout:'' @ sx_session_hash x) now ''logout'' b = (Inr True, c)" "request_id_draw w c = (Inr request_id2, e)"
    "logout_session (hw_env w) now token request_id2 e = (Inr (), s1)"
    using assms(1-3) by (auto simp: logout_route_def Let_def require_same_origin_def action_Inr require_csrf_Inr rate_limited_def error_response_def
        json_response_def value_response_def simp del: append_Cons append_Nil split: if_splits)
  obtain r where "find_session (au_db a) ?h = Some r" using authenticate_Inr [OF steps(2)] by (auto simp: live_session_def)
  then have "\<exists>r. find_session (au_db b) ?h = Some r" by (rule find_session_served [OF served_eq [OF calm_authenticate steps(2)]])
  then obtain r1 where "find_session (au_db b) ?h = Some r1" ..
  then have "\<exists>r. find_session (au_db c) ?h = Some r" by (rule find_session_served [OF served_eq [OF calm_rate steps(3)]])
  then obtain r2 where "find_session (au_db c) ?h = Some r2" ..
  then have "find_session (au_db e) ?h = Some r2" using request_id_db [OF steps(4)] by simp
  then obtain r3 where r3: "find_session (au_db s1) ?h = Some r3" "sn_revoked_at r3 \<noteq> None"
    using logout_session_Inr [OF steps(5)] by blast
  have "served (hw_env w) (hw_auth w) now {} (au_db s) (au_db s1)" by (rule served_eq [OF calm_logout_route assms(1)])
  then have "auth_inv (au_db s1)" using assms(4) run_auth_inv by (auto simp: served_def)
  then have "find_session (au_db (http_run w s1 qs)) ?h = Some r3"
    using served_run [of w s1 qs] sessions.final_run [of "au_db s1" ?h r3] r3 by (auto simp: auth_run_def)
  then show ?thesis using authenticate_needs_live r3(2) by blast
qed

section \<open>The account API\<close>

lemma audit_keeps_db': "au_db (snd (gateway_audit env now event s)) = au_db s"
  using audit_keeps_db by (metis prod.collapse)

lemma login_failed_db [simp]: "au_db (login_failed env now i e s) = au_db s"
  using audit_keeps_db'
  by (auto simp: login_failed_def audit_denial_def bindS_def ret_def split: auth_exn.split denial.split prod.split sum.split)
    (metis snd_conv)+

lemma bindS_draw: "bindS (draw f) g s = g (f (au_draws s)) (s\<lparr>au_draws := Suc (au_draws s)\<rparr>)"
  by (simp add: bindS_def draw_def)

text \<open>An action that creates at most the session of the token it returns.\<close>

definition adds_session :: "auth_env \<Rightarrow> auth_state \<Rightarrow> (auth_exn + string \<times> session_context) \<times> auth_state \<Rightarrow> bool" where
  "adds_session env s p \<longleftrightarrow>
     (case fst p of
        Inl _ \<Rightarrow> ad_sessions (au_db (snd p)) = ad_sessions (au_db s)
      | Inr (token, _) \<Rightarrow> \<exists>r. sn_hash r = ae_sha env token \<and> ad_sessions (au_db (snd p)) = ad_sessions (au_db s) @ [r])"

lemma open_session_adds: "adds_session env s (open_session env c now i ident s)"
proof -
  let ?t = "ae_token env (ac_token_bytes c) (au_draws s)" and ?s = "s\<lparr>au_draws := Suc (au_draws s)\<rparr>"
  obtain r s1 where audit: "gateway_audit env now [(''event_type'', JStr ''login_succeeded''), (''request_id'', JStr i),
       (''actor_subject'', JStr (ai_subject ident)), (''session_identifier_hash'', JStr (ae_sha env ?t)), (''scopes'', scope_list (ai_scopes ident)),
       (''authorization_decision'', JStr ''allow''), (''reason'', JStr ''business159_assertion_accepted'')] ?s = (r, s1)" by fastforce
  then have same: "au_db s1 = au_db s" using audit_keeps_db by fastforce
  show ?thesis
    using audit same
    by (cases r) (auto simp: open_session_def bindS_draw Let_def bindS_def [of "gateway_audit a b d" for a b d] adds_session_def
        bindS_def [of "on_auth_db m" for m] on_auth_db_def create_session_def new_session_def ret_def)
qed

lemma consume_sessions [simp]: "ad_sessions (snd (consume_assertion j e now d)) = ad_sessions d"
  by (simp add: consume_assertion_def Let_def)

lemma try_exchange_adds: "adds_session env s (try_exchange env c now a i s)"
proof (cases "validate_assertion env c a now")
  case (Inl e)
  then show ?thesis by (simp add: try_exchange_def bindS_def pure_act_def adds_session_def)
next
  case (Inr ident)
  let ?s = "s\<lparr>au_db := snd (consume_assertion (ai_jti_hash ident) (ai_expires_at ident) now (au_db s))\<rparr>"
  have "adds_session env ?s p \<longleftrightarrow> adds_session env s p" for p by (simp add: adds_session_def split: sum.split)
  then show ?thesis using open_session_adds [of env ?s c now i ident] Inr
    by (auto simp: try_exchange_def bindS_def pure_act_def on_auth_db_def raise_err_def case_prod_unfold Let_def
        adds_session_def [of env s "(Inl x, y)" for x y] split: sum.split)
qed

lemma exchange_adds: "adds_session env s (exchange_assertion env c now a i s)"
proof -
  have "adds_session env s (Inl e, s)" for e by (simp add: adds_session_def)
  moreover have "adds_session env s (Inl e', login_failed env now i e s')" if "adds_session env s (Inl e, s')" for e e' s'
    using that by (simp add: adds_session_def)
  ultimately show ?thesis using try_exchange_adds [of env s c now a i]
    by (auto simp: exchange_assertion_def require_enabled_def bindS_def ret_def raise_err_def pure_act_def split: prod.split sum.split)
qed

lemma close_revokes:
  assumes "\<forall>k. event_id_text (''edge1-http-'' @ ae_hex (hw_env w) k)"
  shows "find_session (au_db (close_account_session w now token s)) h =
    (if ae_sha (hw_env w) token = h then map_option (set_revoked now) (find_session (au_db s) h) else find_session (au_db s) h)"
proof -
  let ?s = "s\<lparr>au_draws := Suc (au_draws s)\<rparr>" and ?i = "''edge1-http-'' @ ae_hex (hw_env w) (au_draws s)"
  have "au_db (snd (logout_session (hw_env w) now token ?i ?s)) = snd (revoke_session (ae_sha (hw_env w) token) now (au_db s))"
    using assms audit_keeps_db'
    by (auto simp: logout_session_def require_event_id_def bindS_def pure_act_def on_auth_db_def case_prod_unfold Let_def ret_def
        simp del: append_Cons append_Nil split: sum.split)
  then show ?thesis
    by (simp add: close_account_session_def request_id_draw_def bindS_draw find_session_revoke del: append_Cons append_Nil)
qed

text \<open>
  The account API leaves no session behind: every session that did not exist before a request to it is
  revoked after it, whatever the backend answered and however the request failed.
\<close>

theorem account_sessions_are_closed:
  assumes "hq_path q = ''/edge1-ops/account/api''" "\<forall>k. event_id_text (''edge1-http-'' @ ae_hex (hw_env w) k)"
    and "find_session (au_db s) h = None" "find_session (au_db (snd (http_handle w q now s))) h = Some r"
  shows "sn_revoked_at r \<noteq> None"
proof -
  let ?env = "hw_env w"
  have quiet: "au_db (snd (with_method q m (health_route w) s)) = au_db s" for m
    by (simp add: with_method_def health_route_def ret_def Let_def)
  have "au_db (snd (http_handle w q now s)) \<noteq> au_db s" using assms(3,4) by auto
  moreover have "snd (http_handle w q now s) = snd (dispatch w q now s)" by (simp add: http_handle_def split: prod.split sum.split)
  ultimately have changed: "au_db (snd (dispatch w q now s)) \<noteq> au_db s" "snd (http_handle w q now s) = snd (dispatch w q now s)" by simp_all
  have "route_request w q now = with_method q ''GET'' (health_route w) \<or> route_request w q now = with_method q ''POST'' (account_route w q now)"
    by (simp add: route_request_def Let_def assms(1))
  moreover have "snd (dispatch w q now s) = snd (route_request w q now s)"
    using changed(1) by (cases "validate_boundary (hw_http w) q") (simp_all add: dispatch_def bindS_def pure_act_def)
  moreover have "snd (with_method q ''POST'' m s) = snd (m s) \<or> snd (with_method q ''POST'' m s) = s" for m
    by (simp add: with_method_def Let_def ret_def)
  ultimately have "snd (http_handle w q now s) = snd (account_route w q now s)"
    using quiet changed by metis
  moreover have "sn_revoked_at r \<noteq> None" if "find_session (au_db (snd (account_route w q now s))) h = Some r"
  proof -
    have "find_session (au_db s) h \<noteq> None \<or> (\<exists>a i action ps required. account_request ?env (hq_body q) = Inr (a, i, action, ps) \<and>
        snd (account_route w q now s) = snd (bindS (exchange_assertion ?env (hw_auth w) now a i) (\<lambda>(token, x) s.
           (account_action w required action ps x, close_account_session w now token s)) s))"
      using that by (auto simp: account_route_def require_that_def bindS_def [of "if x then ret () else raise_err y" for x y]
          bindS_def [of "pure_act z" for z] pure_act_def ret_def raise_err_def split: if_splits sum.splits option.splits)
    then obtain a i action ps required where run: "snd (account_route w q now s) = snd (bindS (exchange_assertion ?env (hw_auth w) now a i) (\<lambda>(token, x) s.
           (account_action w required action ps x, close_account_session w now token s)) s)" using assms(3) by blast
    obtain e s1 where ex: "exchange_assertion ?env (hw_auth w) now a i s = (e, s1)" by fastforce
    have adds: "adds_session ?env s (e, s1)" using exchange_adds [of ?env s "hw_auth w" now a i] ex by simp
    show ?thesis
    proof (cases e)
      case (Inl err)
      then show ?thesis using adds that assms(3) by (simp add: run bindS_def ex adds_session_def find_session_def)
    next
      case (Inr p)
      then obtain token x where p: "e = Inr (token, x)" by (cases p) auto
      obtain n where n: "sn_hash n = ae_sha ?env token" "ad_sessions (au_db s1) = ad_sessions (au_db s) @ [n]"
        using adds by (auto simp: adds_session_def p)
      have "find_session (au_db s1) h = (if h = ae_sha ?env token then Some n else None)"
        using n assms(3) by (simp add: find_session_def find_row_append)
      then show ?thesis using that
        by (auto simp: run bindS_def ex p close_revokes [OF assms(2)] set_revoked_def split: if_splits option.splits)
    qed
  qed
  ultimately show ?thesis using assms(4) by simp
qed

end
