(* ===== verification/SecurityWitnesses.thy ===== *)
theory SecurityWitnesses
  imports SecurityEndings
begin

text \<open>
  The accepted configurations of the security identity gateway, RS256 signatures that verify, and concrete runs of the
  boundary to which its theorems apply.
\<close>

section \<open>Accepted configurations\<close>

definition http_config_ok :: "http_config \<Rightarrow> bool" where
  "http_config_ok h \<longleftrightarrow> (hc_enabled h \<longrightarrow> hc_deployment_authorized h) \<and> hc_allowed_host h = ''edge1.ww.cx'' \<and>
     hc_same_origin h = ''https://edge1.ww.cx'' \<and> hc_business159_origin h = ''https://ww.cx'' \<and>
     (\<forall>(k, v) \<in> set expected_routes. route_of h k = text_of v) \<and>
     hc_session_cookie h = ''__Secure-wwcx_edge1_ops_session'' \<and> hc_csrf_cookie h = ''__Secure-wwcx_edge1_ops_csrf'' \<and>
     hc_cookie_path h = ''/edge1-ops/'' \<and>
     (\<forall>k \<in> set limit_names. 1 \<le> limit_of h k) \<and> 1024 \<le> limit_of h ''maximum_body_bytes'' \<and> limit_of h ''maximum_body_bytes'' \<le> 65536 \<and>
     hc_operations_origin h = ''http://127.0.0.1:8097'' \<and> hc_operations_action h = ''security.validate_config'' \<and>
     starts_with (hc_operations_secret_path h) ''/'' \<and> 1 \<le> hc_operations_timeout h \<and> hc_operations_timeout h \<le> 60"

lemma limit_settings_Inr:
  "limit_settings v = Inr limits \<Longrightarrow> (\<forall>k \<in> set limit_names. 1 \<le> int_of (jget limits k)) \<and> 1024 \<le> int_of (jget limits ''maximum_body_bytes'') \<and>
     int_of (jget limits ''maximum_body_bytes'') \<le> 65536"
  by (force simp: limit_settings_def guard_Inr_iff list_all_iff int_of_def split: json.splits)

lemma operations_settings_Inr:
  "operations_settings v = Inr (ops, t) \<Longrightarrow> jget ops ''allowed_action'' = JStr ''security.validate_config'' \<and> 1 \<le> t \<and> t \<le> 60 \<and>
     jget ops ''origin'' = JStr ''http://127.0.0.1:8097'' \<and> starts_with (text_of (jget ops ''secret_path'')) ''/''"
  by (auto simp: operations_settings_def guard_Inr_iff text_of_def split: json.splits option.splits)

lemma scalar_eq_text: "scalar_eq v (JStr t) \<Longrightarrow> v = JStr t"
  by (auto simp: scalar_eq_def split: json.splits option.splits)

lemma flat_eq_text: "flat_eq v b \<Longrightarrow> (k, JStr t) \<in> set b \<Longrightarrow> jget (doc_of v) k = JStr t"
  by (auto simp: flat_eq_def doc_of_def list_all_iff dest!: scalar_eq_text split: json.splits)

lemma routes_are_expected: "flat_eq v expected_routes \<Longrightarrow> (k, x) \<in> set expected_routes \<Longrightarrow> jget (doc_of v) k = x"
proof -
  assume eq: "flat_eq v expected_routes" and mem: "(k, x) \<in> set expected_routes"
  have "list_all (\<lambda>(_, x). case x of JStr _ \<Rightarrow> True | _ \<Rightarrow> False) expected_routes" by (simp add: expected_routes_def)
  then obtain t where "x = JStr t" using mem by (auto simp: list_all_iff split: json.splits)
  then show ?thesis using flat_eq_text [OF eq] mem by simp
qed

text \<open>
  Accepted configurations are well-formed: a gateway configuration that loads cannot authorise a live route, is
  only enabled with deployment authorised, and has its lifetimes, skew, timeouts and token size in range; an
  adapter configuration that loads has the exact host, origins, routes, cookie names and action, its limits, body size and timeout in range
  and the Operations API on the loopback, and has a live route exactly when it says so.
\<close>

theorem accepted_configurations_are_well_formed:
  "(auth_config_from v = Inr c \<longrightarrow> config_ok c \<and> jget v ''live_route_authorized'' = JBool False) \<and>
   (http_config_from u = Inr h \<longrightarrow> http_config_ok h \<and> jget u ''live_route_authorized'' = JBool (hc_live_route h))"
proof (intro conjI impI)
  assume loads: "http_config_from u = Inr h"
  obtain limits p where
    parts: "limit_settings (jget u ''request_limits'') = Inr limits" "operations_settings (jget u ''operations_api'') = Inr p"
    "\<not> (truthy (jget u ''enabled'') \<and> \<not> truthy (jget u ''deployment_authorized''))" "jget u ''allowed_host'' = JStr ''edge1.ww.cx''"
    "jget u ''business159_origin'' = JStr ''https://ww.cx''" "jget u ''same_origin'' = JStr ''https://edge1.ww.cx''"
    "flat_eq (jget u ''routes'') expected_routes" "flat_eq (jget u ''cookies'') expected_cookies" "is_bool (jget u ''live_route_authorized'')"
    "h = http_settings u limits (fst p) (snd p)"
    using loads unfolding http_config_from_def guard_Inr_iff bindE_Inr_iff case_prod_unfold sum.inject by blast
  note cookies = flat_eq_text [OF parts(8)]
  have "jget (doc_of (jget u ''cookies'')) ''session_name'' = JStr ''__Secure-wwcx_edge1_ops_session''"
    "jget (doc_of (jget u ''cookies'')) ''csrf_name'' = JStr ''__Secure-wwcx_edge1_ops_csrf''" "jget (doc_of (jget u ''cookies'')) ''path'' = JStr ''/edge1-ops/''"
    by (rule cookies; simp add: expected_cookies_def)+
  moreover have "\<forall>(k, x) \<in> set expected_routes. route_of h k = text_of x"
    using routes_are_expected [OF parts(7)] by (auto simp: parts(10) route_of_def http_settings_def)
  ultimately show "http_config_ok h"
    using parts limit_settings_Inr operations_settings_Inr [of _ "fst p" "snd p"] by (simp add: http_config_ok_def text_of_def limit_of_def http_settings_def)
  show "jget u ''live_route_authorized'' = JBool (hc_live_route h)"
    using parts(9,10) by (cases "jget u ''live_route_authorized''") (auto simp: is_bool_def http_settings_def)
qed (use auth_config_from_ok in blast)+

definition demo_auth_doc :: doc where
  "demo_auth_doc = [(''contract'', JStr auth_contract), (''status'', JStr ''staged_disabled''), (''enabled'', JBool True),
     (''deployment_authorized'', JBool True), (''live_route_authorized'', JBool False), (''issuer'', JStr ''iss''), (''audience'', JStr ''aud''),
     (''trusted_jwks_path'', JStr ''/jwks''), (''state_db_path'', JStr ''/db''), (''audit_path'', JStr ''/audit''),
     (''assertion'', JObj [(''algorithm'', JStr ''RS256''), (''required_claims'', JList (map JStr required_claims)), (''scope_claim'', JStr ''scope''),
       (''maximum_lifetime_seconds'', JInt 120), (''clock_skew_seconds'', JInt 10), (''one_time_required'', JBool True)]),
     (''session'', JObj [(''opaque_identifier_bytes'', JInt 32), (''identifier_storage'', JStr ''sha256_only''),
       (''absolute_timeout_seconds'', JInt 900), (''idle_timeout_seconds'', JInt 600), (''persistent'', JBool False)]),
     (''permissions'', JObj [(''initial'', JList (map JStr allowed_scopes)), (''mutations'', JList (map JStr mutation_scopes)),
       (''unknown_scope_behavior'', JStr ''deny_assertion'')]),
     (''boundaries'', JObj (map (\<lambda>k. (k, JBool False)) [''business159_database_access'', ''business159_cookie_acceptance'',
       ''password_material_acceptance'', ''raw_assertion_storage'', ''raw_session_storage'', ''browser_operations_api_access'', ''mutations_enabled'']))]"

definition demo_auth_config :: auth_config where
  "demo_auth_config = \<lparr>ac_issuer = ''iss'', ac_audience = ''aud'', ac_jwks_path = ''/jwks'', ac_db_path = ''/db'', ac_audit_path = ''/audit'',
     ac_max_lifetime = 120, ac_skew = 10, ac_absolute_timeout = 900, ac_idle_timeout = 600, ac_token_bytes = 32, ac_enabled = True,
     ac_deployment_authorized = True\<rparr>"

definition demo_limits :: doc where
  "demo_limits = (''maximum_body_bytes'', JInt 65536) # map (\<lambda>k. (k, JInt 30)) (tl limit_names)"

definition demo_http_doc :: doc where
  "demo_http_doc = [(''contract'', JStr ''wwcx.edge1-security-auth-http.v1''), (''status'', JStr ''staged_disabled''), (''enabled'', JBool True),
     (''deployment_authorized'', JBool True), (''live_route_authorized'', JBool True), (''allowed_host'', JStr ''edge1.ww.cx''),
     (''business159_origin'', JStr ''https://ww.cx''), (''same_origin'', JStr ''https://edge1.ww.cx''), (''routes'', JObj expected_routes),
     (''cookies'', JObj expected_cookies), (''request_limits'', JObj demo_limits),
     (''operations_api'', JObj [(''origin'', JStr ''http://127.0.0.1:8097''), (''secret_path'', JStr ''/secret''), (''timeout_seconds'', JInt 10),
       (''allowed_action'', JStr ''security.validate_config'')]), (''boundaries'', JObj expected_boundaries)]"

definition demo_http_config :: http_config where
  "demo_http_config = \<lparr>hc_enabled = True, hc_deployment_authorized = True, hc_live_route = True, hc_allowed_host = ''edge1.ww.cx'',
     hc_business159_origin = ''https://ww.cx'', hc_same_origin = ''https://edge1.ww.cx'', hc_routes = expected_routes,
     hc_session_cookie = ''__Secure-wwcx_edge1_ops_session'', hc_csrf_cookie = ''__Secure-wwcx_edge1_ops_csrf'', hc_cookie_path = ''/edge1-ops/'',
     hc_limits = demo_limits, hc_operations_origin = ''http://127.0.0.1:8097'', hc_operations_secret_path = ''/secret'',
     hc_operations_timeout = 10, hc_operations_action = ''security.validate_config''\<rparr>"

lemma demo_auth_config: "auth_config_from demo_auth_doc = Inr demo_auth_config"
  by code_simp

lemma demo_http_config: "http_config_from demo_http_doc = Inr demo_http_config"
  by code_simp

theorem accepted_configurations_are_well_formed_witness: "config_ok demo_auth_config \<and> http_config_ok demo_http_config \<and>
  jget demo_http_doc ''live_route_authorized'' = JBool (hc_live_route demo_http_config)"
  using accepted_configurations_are_well_formed [of demo_auth_doc demo_auth_config demo_http_doc demo_http_config] demo_auth_config demo_http_config
  by blast

section \<open>Signatures that verify\<close>

lemma be_int_snoc: "be_int (bs @ [b]) = be_int bs * 256 + of_char b"
  by (simp add: be_int_def)

lemma of_char_bounds: "0 \<le> (of_char c :: int) \<and> (of_char c :: int) < 256"
  using nat_of_char_less_256 [of c] by (metis of_nat_0_le_iff of_nat_less_numeral_iff of_nat_of_char)

lemma be_int_bounds: "0 \<le> be_int bs \<and> be_int bs < 256 ^ length bs"
proof (induction bs rule: rev_induct)
  case (snoc b bs)
  then show ?case using of_char_bounds [of b] by (simp add: be_int_snoc)
qed (simp add: be_int_def)

lemma to_be_be_int: "to_be (length bs) (be_int bs) = bs"
proof (induction bs rule: rev_induct)
  case (snoc b bs)
  then show ?case using of_char_bounds [of b] by (simp add: be_int_snoc)
qed simp

lemma length_to_be [simp]: "length (to_be k v) = k"
  by (induction k arbitrary: v) simp_all

lemma be_int_to_be: "0 \<le> v \<Longrightarrow> v < 256 ^ k \<Longrightarrow> be_int (to_be k v) = v"
proof (induction k arbitrary: v)
  case (Suc k)
  then have "v div 256 < 256 ^ k" by (simp add: div_less_iff_less_mult mult.commute)
  then show ?case using Suc by (simp add: be_int_snoc)
qed (simp add: be_int_def)

lemma bit_length_is: "2 ^ k \<le> n \<Longrightarrow> n < 2 ^ Suc k \<Longrightarrow> bit_length n = Suc k"
proof (induction k arbitrary: n)
  case 0
  then have "n = 1" by simp
  then show ?case by (simp add: bit_length.simps)
next
  case (Suc k)
  then have "2 ^ k \<le> n div 2" "n div 2 < 2 ^ Suc k" by simp_all
  moreover have "0 < n" using Suc.prems(1) by (meson less_le_trans zero_less_numeral zero_less_power)
  ultimately show ?case using Suc.IH by (simp add: bit_length.simps [of n])
qed

lemma bit_length_bound: "n < 2 ^ bit_length n"
proof (induction n rule: bit_length.induct)
  case (1 n)
  show ?case
  proof (cases "n \<le> 0")
    case True
    then show ?thesis by (simp add: bit_length.simps order.strict_trans1)
  next
    case False
    then have "n div 2 < 2 ^ bit_length (n div 2)" using 1 by simp
    then show ?thesis using False by (simp add: bit_length.simps [of n])
  qed
qed

lemma b64_chars: "list_all (\<lambda>c. alnum c \<or> c \<in> set ''_-'') (b64 s)"
proof -
  have "\<forall>v < 64. alnum (sextet_char v) \<or> sextet_char v \<in> set ''_-''"
    by (auto simp: sextet_char_def alnum_def char_in_def)
  moreover have "\<forall>b \<in> set bs. b < 256 \<Longrightarrow> \<forall>v \<in> set (sextets bs). v < 64" for bs
    by (induction bs rule: sextets.induct) (simp_all add: sextet_bounds)
  from this [of "map code s"] have "\<forall>v \<in> set (sextets (map code s)). v < 64" by simp
  ultimately show ?thesis unfolding b64_def list_all_iff by (metis (no_types, lifting) imageE list.set_map)
qed

lemma b64url_decode_b64: "s \<noteq> [] \<Longrightarrow> b64url_decode (b64 s) = Inr s \<and> b64url_text (b64 s)"
  using b64_chars [of s] b64_nonempty [of s] by (simp add: b64url_decode_def b64url_text_def decode_b64)

lemma verify_rs256_iff:
  assumes "rsa_number key ''n'' = Some n" "rsa_number key ''e'' = Some e" "bit_length n \<ge> 2048" "e \<ge> 3" "e mod 2 = 1"
    and "length (digest message) = 32"
  shows "verify_rs256 digest message signature key \<longleftrightarrow> length signature = (bit_length n + 7) div 8 \<and> 0 < be_int signature \<and> be_int signature < n \<and>
    be_int signature ^ nat e mod n = be_int (padded_digest ((bit_length n + 7) div 8 - 54) (sha256_prefix @ digest message))"
proof -
  let ?size = "(bit_length n + 7) div 8" and ?info = "sha256_prefix @ digest message"
  have size: "?size \<ge> 256" using assms(3) by linarith
  have info: "length ?info = 51" using assms(6) by (simp add: sha256_prefix_def del: to_be.simps)
  have len: "length (padded_digest (?size - 54) ?info) = ?size" using size info by (simp add: padded_digest_def)
  have pad: "nat (int ?size - int (length ?info) - 3) = ?size - 54" "8 \<le> int ?size - int (length ?info) - 3" using size info by linarith+
  have root: "to_be ?size x = padded_digest (?size - 54) ?info \<longleftrightarrow> x = be_int (padded_digest (?size - 54) ?info)" if "0 \<le> x" "x < 256 ^ ?size" for x
    using that be_int_to_be [of x ?size] to_be_be_int [of "padded_digest (?size - 54) ?info"] len by metis
  have pos: "0 < n" using assms(3) by (metis bit_length.simps not_le not_numeral_le_zero)
  have "(2 :: int) ^ bit_length n \<le> 2 ^ (8 * ?size)" by (intro power_increasing) auto
  then have "n < 256 ^ ?size" using bit_length_bound [of n] by (simp add: power_mult)
  then have bound: "0 \<le> be_int signature ^ nat e mod n \<and> be_int signature ^ nat e mod n < 256 ^ ?size"
    using pos by (meson order.strict_trans pos_mod_bound pos_mod_sign)
  show ?thesis
    using root [of "be_int signature ^ nat e mod n"] bound pad assms(1-5)
    by (simp add: verify_rs256_def Let_def del: length_append)
qed

text \<open>
  C37. RS256 verification is the mathematical definition: a signature verifies exactly when the key has a modulus of at least 2048
  bits and an odd exponent from 3, and the signature has the size of the modulus and is an \<open>e\<close>-th root of the padded digest
  modulo \<open>n\<close>; the byte-wise comparison of encodings decides no more and no less.
\<close>

theorem rs256_accepts_signatures:
  assumes "length (digest message) = 32"
  shows "verify_rs256 digest message signature key \<longleftrightarrow>
    (\<exists>n e. rsa_number key ''n'' = Some n \<and> rsa_number key ''e'' = Some e \<and> 2048 \<le> bit_length n \<and> 3 \<le> e \<and> odd e \<and>
       length signature = (bit_length n + 7) div 8 \<and> 0 < be_int signature \<and> be_int signature < n \<and>
       be_int signature ^ nat e mod n = be_int (padded_digest ((bit_length n + 7) div 8 - 54) (sha256_prefix @ digest message)))"
proof (cases "rsa_number key ''n'' = None \<or> rsa_number key ''e'' = None")
  case True
  then show ?thesis by (auto simp: verify_rs256_def split: option.split)
next
  case False
  then obtain n e where key: "rsa_number key ''n'' = Some n" "rsa_number key ''e'' = Some e" by auto
  show ?thesis
  proof (cases "2048 \<le> bit_length n \<and> 3 \<le> e \<and> odd e")
    case True
    then show ?thesis using verify_rs256_iff [OF key, of digest message signature] assms by (simp add: key odd_iff_mod_2_eq_one)
  next
    case False
    then show ?thesis by (auto simp: verify_rs256_def key Let_def even_iff_mod_2_eq_zero)
  qed
qed

text \<open>A key whose modulus divides the cube of a signature less a padded digest.\<close>

definition demo_digest :: "string \<Rightarrow> string" where
  "demo_digest m = replicate 32 (CHR ''d'')"

definition demo_padded :: string where
  "demo_padded = padded_digest 203 (sha256_prefix @ replicate 32 (CHR ''d''))"

definition demo_modulus :: int where
  "demo_modulus = 2 ^ 2052 - be_int demo_padded"

definition demo_key :: doc where
  "demo_key = [(''kty'', JStr ''RSA''), (''kid'', JStr ''k''), (''alg'', JStr ''RS256''), (''n'', JStr (b64 (to_be 257 demo_modulus))),
     (''e'', JStr (b64 [CHR 0x03]))]"

definition demo_signature :: string where
  "demo_signature = to_be 257 (2 ^ 684)"

lemma be_int_append: "be_int (xs @ ys) = be_int xs * 256 ^ length ys + be_int ys"
proof (induction ys rule: rev_induct)
  case (snoc y ys)
  then show ?case by (simp add: be_int_snoc algebra_simps flip: append_assoc)
qed (simp add: be_int_def)

lemma demo_padded_bounds: "0 < be_int demo_padded \<and> be_int demo_padded < 2 ^ 2041"
proof -
  obtain rest where rest: "demo_padded = [CHR 0x00, CHR 0x01] @ rest" "length rest = 255"
    using that [of "replicate 203 (CHR 0xFF) @ CHR 0x00 # sha256_prefix @ replicate 32 (CHR ''d'')"]
    by (simp add: demo_padded_def padded_digest_def sha256_prefix_def del: to_be.simps replicate.simps)
  have "be_int [CHR 0x00, CHR 0x01] = 1" by (simp add: be_int_def)
  then have "be_int demo_padded < 2 * 256 ^ 255" using be_int_bounds [of rest] by (simp only: rest(1) be_int_append rest(2)) linarith
  moreover have "0 < be_int demo_padded" using be_int_bounds [of rest] \<open>be_int [CHR 0x00, CHR 0x01] = 1\<close>
    by (simp only: rest(1) be_int_append rest(2)) (smt (verit) zero_less_power)
  moreover have "2 * 256 ^ 255 = (2 :: int) ^ 2041" by simp
  ultimately show ?thesis by simp
qed

lemma demo_modulus_bounds: "2 ^ 2051 \<le> demo_modulus \<and> demo_modulus < 2 ^ 2052"
proof -
  have "(2 :: int) ^ 2052 - 2 ^ 2041 \<ge> 2 ^ 2051" by simp
  then show ?thesis using demo_padded_bounds unfolding demo_modulus_def by linarith
qed

lemma demo_numbers: "rsa_number demo_key ''n'' = Some demo_modulus" "rsa_number demo_key ''e'' = Some 3"
proof -
  have "to_be 257 demo_modulus \<noteq> []" using length_to_be [of 257 demo_modulus] by (metis list.size(3) zero_neq_numeral)
  moreover have "(2 :: int) ^ 2052 < 256 ^ 257" "(0 :: int) \<le> 2 ^ 2051" by simp_all
  then have "be_int (to_be 257 demo_modulus) = demo_modulus" using demo_modulus_bounds
    by (intro be_int_to_be) linarith+
  ultimately show "rsa_number demo_key ''n'' = Some demo_modulus" by (simp add: rsa_number_def demo_key_def b64url_decode_b64)
  show "rsa_number demo_key ''e'' = Some 3" by (simp add: rsa_number_def demo_key_def b64url_decode_b64 be_int_def)
qed

lemma demo_bit_length: "2048 \<le> bit_length demo_modulus" "(bit_length demo_modulus + 7) div 8 = 257"
proof -
  have "bit_length demo_modulus = Suc 2051" using demo_modulus_bounds by (intro bit_length_is) simp_all
  then show "2048 \<le> bit_length demo_modulus" "(bit_length demo_modulus + 7) div 8 = 257" by simp_all
qed

lemma demo_power: "(2 :: int) ^ 2041 < 2 ^ 2051"
  by simp

lemma demo_signature_root: "be_int demo_signature = 2 ^ 684" "be_int demo_signature ^ 3 mod demo_modulus = be_int demo_padded"
proof -
  have "(2 :: int) ^ 684 < 256 ^ 257" by simp
  then show sig: "be_int demo_signature = 2 ^ 684" unfolding demo_signature_def by (intro be_int_to_be) simp_all
  have "be_int demo_padded < demo_modulus" using demo_padded_bounds demo_modulus_bounds
    by (meson order.strict_trans order.strict_trans2 demo_power)
  then have "(demo_modulus + be_int demo_padded) mod demo_modulus = be_int demo_padded" using demo_padded_bounds by simp
  moreover have "be_int demo_signature ^ 3 = demo_modulus + be_int demo_padded" by (simp add: sig demo_modulus_def flip: power_mult)
  ultimately show "be_int demo_signature ^ 3 mod demo_modulus = be_int demo_padded" by simp
qed

lemma demo_verifies: "verify_rs256 demo_digest m demo_signature demo_key"
proof -
  have "verify_rs256 demo_digest m demo_signature demo_key \<longleftrightarrow> length demo_signature = 257 \<and> 0 < be_int demo_signature \<and>
      be_int demo_signature < demo_modulus \<and> be_int demo_signature ^ nat 3 mod demo_modulus = be_int (padded_digest (257 - 54) (sha256_prefix @ demo_digest m))"
    using verify_rs256_iff [OF demo_numbers demo_bit_length(1), of demo_digest m demo_signature] demo_bit_length(2)
    by (simp add: demo_digest_def)
  moreover have "(2 :: int) ^ 684 < 2 ^ 2051" by simp
  then have "2 ^ 684 < demo_modulus" using demo_modulus_bounds by linarith
  ultimately show ?thesis using demo_signature_root
    by (simp add: demo_digest_def demo_padded_def) (simp add: demo_signature_def)
qed

theorem rs256_accepts_signatures_witness:
  "\<exists>n e. rsa_number demo_key ''n'' = Some n \<and> rsa_number demo_key ''e'' = Some e \<and> odd e \<and>
     be_int demo_signature ^ nat e mod n = be_int (padded_digest ((bit_length n + 7) div 8 - 54) (sha256_prefix @ demo_digest ''m''))"
  using rs256_accepts_signatures [of demo_digest "''m''" demo_signature demo_key] demo_verifies [of "''m''"] by (auto simp: demo_digest_def)

section \<open>An assertion that validates\<close>

definition demo_header :: doc where
  "demo_header = [(''alg'', JStr ''RS256''), (''kid'', JStr ''k'')]"

definition demo_claims :: doc where
  "demo_claims = [(''active'', JBool True), (''aud'', JStr ''aud''), (''display_name'', JStr ''N''), (''exp'', JInt 1060), (''iat'', JInt 1000),
     (''iss'', JStr ''iss''), (''jti'', JStr ''jjjjjjjjjjjjjjjj''), (''nbf'', JInt 1000), (''nonce'', JStr ''nnnnnnnnnnnnnnnn''), (''role'', JStr ''admin''),
     (''scope'', JStr ''edge1.security.read edge1.vpn.self.rename''), (''sub'', JStr ''s1'')]"

definition demo_env :: auth_env where
  "demo_env = \<lparr>ae_sha = id, ae_digest = demo_digest, ae_utf8 = Some, ae_file = (\<lambda>_. Some (JObj [(''keys'', JList [JObj demo_key])])),
     ae_token = (\<lambda>_ k. replicate (43 + k) (CHR ''t'')), ae_hex = (\<lambda>_. ''f''), ae_audit_fails = (\<lambda>_. False), ae_unquote = id\<rparr>"

definition demo_part :: "doc \<Rightarrow> string" where
  "demo_part d = b64 (canonical_json (JObj d))"

definition demo_assertion :: string where
  "demo_assertion = demo_part demo_header @ CHR ''.'' # demo_part demo_claims @ CHR ''.'' # b64 demo_signature"

definition demo_identity :: assertion_identity where
  "demo_identity = \<lparr>ai_subject = ''s1'', ai_display_name = ''N'', ai_role = ''admin'', ai_scopes = {''edge1.security.read'', ''edge1.vpn.self.rename''},
     ai_issued_at = 1000, ai_expires_at = 1060, ai_jti_hash = ''iss'' @ CHR 0x00 # ''jjjjjjjjjjjjjjjj'' @ CHR 0x00 # ''nnnnnnnnnnnnnnnn''\<rparr>"

lemma demo_header_parsed: "strict_loads (canonical_json (JObj demo_header)) = Some (JObj demo_header)"
  by code_simp

lemma demo_claims_parsed: "strict_loads (canonical_json (JObj demo_claims)) = Some (JObj demo_claims)"
  by code_simp

lemma split_on_none: "c \<notin> set s \<Longrightarrow> split_on c s = [s]"
  by (induction s) auto

lemma split_on_append: "c \<notin> set s \<Longrightarrow> split_on c (s @ c # t) = s # split_on c t"
  by (induction s) auto

lemma b64_avoids: "\<not> alnum c \<Longrightarrow> c \<notin> set ''_-'' \<Longrightarrow> c \<notin> set (b64 s)"
  using b64_chars [of s] by (auto simp: list_all_iff)

lemma length_b64: "length (b64 s) \<le> 2 * length s"
proof -
  have "length (sextets bs) \<le> 2 * length bs" for bs by (induction bs rule: sextets.induct) simp_all
  from this [of "map code s"] show ?thesis by (simp add: b64_def)
qed

lemma demo_not_special: "\<not> alnum (CHR ''.'')" "\<not> alnum (CHR ''&'')" "\<not> alnum (CHR ''='')" "\<not> alnum (CHR ''+'')"
  by (simp_all add: alnum_def char_in_def)

lemma demo_part_decodes: "strict_loads (canonical_json (JObj d)) = Some (JObj d) \<Longrightarrow> decode_json demo_env (demo_part d) label = Inr d"
  by (simp add: decode_json_def demo_part_def b64url_decode_b64 demo_env_def canonical_json_def json_dumps_def)

lemma demo_identity_claims:
  assumes "now \<in> {1000, 1030, 1065}"
  shows "identity_claims demo_env demo_auth_config demo_claims now = Inr demo_identity"
proof -
  have "identity_claims env demo_auth_config demo_claims now = Inr (demo_identity\<lparr>ai_jti_hash := ae_sha env (ai_jti_hash demo_identity)\<rparr>)" for env
    using assms by (elim insertE emptyE) (hypsubst, code_simp)+
  then show ?thesis by (simp add: demo_env_def demo_identity_def)
qed

lemma demo_size: "length demo_assertion \<le> 4096"
proof -
  have "length (canonical_json (JObj demo_header)) \<le> 100" "length (canonical_json (JObj demo_claims)) \<le> 400" by code_simp+
  then show ?thesis
    using length_b64 [of "canonical_json (JObj demo_header)"] length_b64 [of "canonical_json (JObj demo_claims)"] length_b64 [of demo_signature]
    by (simp add: demo_assertion_def demo_part_def demo_signature_def)
qed

lemma demo_parts: "split_on (CHR ''.'') demo_assertion = [demo_part demo_header, demo_part demo_claims, b64 demo_signature]"
  by (simp add: demo_assertion_def demo_part_def split_on_append split_on_none b64_avoids demo_not_special)

lemma demo_validates:
  assumes "now \<in> {1000, 1030, 1065}"
  shows "validate_assertion demo_env demo_auth_config demo_assertion now = Inr demo_identity"
proof -
  have "check_header demo_header = Inr ''k''" by code_simp
  moreover have "key_trusted demo_key" by (simp add: key_trusted_def demo_key_def object_keys_def jget_def jget_default_def)
  then have "select_jwk (ae_file demo_env (ac_jwks_path demo_auth_config)) ''k'' = Inr demo_key"
    by (simp add: select_jwk_def demo_env_def key_matches_def) (simp add: demo_key_def jget_def)
  moreover have "demo_signature \<noteq> []" unfolding demo_signature_def using length_to_be [of 257 "2 ^ 684"] by (metis list.size(3) zero_neq_numeral)
  moreover have "canonical_json (JObj d) \<noteq> []" for d by (simp add: canonical_json_def json_dumps_def)
  ultimately show ?thesis
    using demo_size demo_identity_claims [OF assms] demo_verifies [of "demo_part demo_header @ CHR ''.'' # demo_part demo_claims"]
    by (simp add: validate_assertion_def demo_parts guard_def demo_part_decodes demo_header_parsed demo_claims_parsed b64url_decode_b64 raising_def)
      (simp add: demo_env_def demo_part_def b64url_decode_b64)
qed

section \<open>Runs\<close>

definition demo_backend :: vpn_backend where
  "demo_backend = \<lparr>vb_enrollment = (\<lambda>_ _ _. BackendDone (JObj [])), vb_devices = (\<lambda>_. BackendDone (JList [])),
     vb_policies = (\<lambda>_. BackendDone (JList [])), vb_accept = (\<lambda>_ _ _. BackendError)\<rparr>"

definition demo_world :: http_world where
  "demo_world = \<lparr>hw_env = demo_env, hw_auth = demo_auth_config, hw_http = demo_http_config, hw_console = None,
     hw_operations = (\<lambda>_ _. (OperationTimeout, 1040)), hw_backend = demo_backend\<rparr>"

lemma demo_world_parts [simp]: "hw_env demo_world = demo_env" "hw_auth demo_world = demo_auth_config" "hw_http demo_world = demo_http_config"
  "hw_backend demo_world = demo_backend"
  by (simp_all add: demo_world_def)

lemma demo_audit:
  assumes "dget event ''event_id'' = None" "set forbidden_fields \<inter> object_keys event = {}"
  shows "\<exists>lines. gateway_audit demo_env now event s = (Inr ''edge1-auth-f'', s\<lparr>au_draws := Suc (au_draws s), au_audit := lines\<rparr>)"
proof -
  have keys: "object_keys (dset d k v) = insert k (object_keys d)" for d k and v :: json
    using dkeys_dset [where d = d and k = k and v = v] by (simp add: object_keys_def)
  have "event_id_text ''edge1-auth-f''" by code_simp
  moreover have "''event_id'' \<notin> set forbidden_fields" "''timestamp'' \<notin> set forbidden_fields" by (simp_all add: forbidden_fields_def)
  ultimately show ?thesis
    using assms(2) by (auto simp: gateway_audit_def audit_sink_def bindS_def draw_def ret_def raise_err_def append_audit_def Let_def jget_def assms(1) demo_env_def
        valid_event_id_def keys split: if_splits)
qed

lemma demo_exchange:
  assumes "now \<in> {1000, 1030, 1065}" "consume_assertion (ai_jti_hash demo_identity) 1060 now (au_db s) = (Inr True, d)"
    and "find_session d (replicate (43 + au_draws s) (CHR ''t'')) = None"
  shows "\<exists>x s1. exchange_assertion demo_env demo_auth_config now demo_assertion ''r'' s = (Inr (replicate (43 + au_draws s) (CHR ''t''), x), s1) \<and>
     sx_session_hash x = replicate (43 + au_draws s) (CHR ''t'') \<and>
     au_db s1 = d\<lparr>ad_sessions := ad_sessions d @ [new_session (replicate (43 + au_draws s) (CHR ''t'')) demo_identity now
       (session_expiry demo_auth_config now demo_identity) ''edge1-auth-f'']\<rparr> \<and> au_draws s1 = Suc (Suc (au_draws s))"
proof -
  let ?t = "replicate (43 + au_draws s) (CHR ''t'')"
  let ?event = "[(''event_type'', JStr ''login_succeeded''), (''request_id'', JStr ''r''), (''actor_subject'', JStr (ai_subject demo_identity)),
     (''session_identifier_hash'', JStr ?t), (''scopes'', scope_list (ai_scopes demo_identity)),
     (''authorization_decision'', JStr ''allow''), (''reason'', JStr ''business159_assertion_accepted'')]"
  let ?s = "s\<lparr>au_db := d, au_draws := Suc (au_draws s)\<rparr>"
  have "dget ?event ''event_id'' = None" "set forbidden_fields \<inter> object_keys ?event = {}"
    by (simp_all add: forbidden_fields_def object_keys_def)
  then obtain lines where audit: "gateway_audit demo_env now ?event ?s = (Inr ''edge1-auth-f'', ?s\<lparr>au_draws := Suc (au_draws ?s), au_audit := lines\<rparr>)"
    using demo_audit by blast
  have env: "ae_sha demo_env = id" "ae_token demo_env = (\<lambda>_ k. replicate (43 + k) (CHR ''t''))" by (simp_all add: demo_env_def)
  have "event_id_text ''r''" by code_simp
  moreover have "ai_expires_at demo_identity = 1060" by (simp add: demo_identity_def)
  ultimately show ?thesis
    using audit assms(3) demo_validates [OF assms(1)]
    by (simp add: exchange_assertion_def require_enabled_def demo_auth_config_def require_event_id_def try_exchange_def open_session_def
        bindS_def pure_act_def ret_def draw_def on_auth_db_def Let_def assms(2) env create_session_def session_expiry_def del: replicate.simps replicate_append_same replicate_add)
qed

lemma demo_first_exchange:
  obtains x s1 where "exchange_assertion demo_env demo_auth_config 1000 demo_assertion ''r'' fresh_auth = (Inr (replicate 43 (CHR ''t''), x), s1)"
    "sx_session_hash x = replicate 43 (CHR ''t'')" "au_draws s1 = 2"
    "au_db s1 = \<lparr>ad_replays = [(ai_jti_hash demo_identity, 1060)], ad_sessions = [new_session (replicate 43 (CHR ''t'')) demo_identity 1000 1900 ''edge1-auth-f''],
       ad_csrf = [], ad_rates = [], ad_guards = []\<rparr>"
proof -
  have "consume_assertion (ai_jti_hash demo_identity) 1060 1000 (au_db fresh_auth) =
      (Inr True, empty_auth_db\<lparr>ad_replays := [(ai_jti_hash demo_identity, 1060)]\<rparr>)"
    by (simp add: consume_assertion_def fresh_auth_def empty_auth_db_def)
  from demo_exchange [OF _ this] that show thesis
    by (fastforce simp: find_session_def empty_auth_db_def fresh_auth_def session_expiry_def demo_auth_config_def demo_identity_def)
qed

theorem assertions_are_exchanged_once_witness:
  "\<exists>v s1. exchange_assertion demo_env demo_auth_config 1000 demo_assertion ''r'' fresh_auth = (Inr v, s1) \<and>
     (\<exists>e. fst (exchange_assertion demo_env demo_auth_config 1030 demo_assertion ''r'' s1) = Inl e)"
proof -
  obtain v s1 where first: "exchange_assertion demo_env demo_auth_config 1000 demo_assertion ''r'' fresh_auth = (Inr v, s1)"
    using demo_first_exchange by blast
  have "ai_expires_at demo_identity = 1060" by (simp add: demo_identity_def)
  then show ?thesis
    using assertions_are_exchanged_once [of demo_world 1000 demo_assertion "''r''" fresh_auth v s1 demo_identity demo_assertion 1030 demo_identity "[]" "''r''"]
      first demo_validates [of 1000] demo_validates [of 1030]
    by (auto simp: fresh_auth_def http_run_def)
qed

text \<open>In the grace period after its expiry the same assertion is exchanged for a second session.\<close>

lemma assertion_replayed_in_grace_period:
  "\<exists>v s1 v2 s2. exchange_assertion demo_env demo_auth_config 1000 demo_assertion ''r'' fresh_auth = (Inr v, s1) \<and>
     exchange_assertion demo_env demo_auth_config 1065 demo_assertion ''r'' s1 = (Inr v2, s2)"
proof -
  obtain x s1 where first: "exchange_assertion demo_env demo_auth_config 1000 demo_assertion ''r'' fresh_auth = (Inr (replicate 43 (CHR ''t''), x), s1)"
    "au_draws s1 = 2" "au_db s1 = \<lparr>ad_replays = [(ai_jti_hash demo_identity, 1060)],
       ad_sessions = [new_session (replicate 43 (CHR ''t'')) demo_identity 1000 1900 ''edge1-auth-f''], ad_csrf = [], ad_rates = [], ad_guards = []\<rparr>"
    using demo_first_exchange by metis
  obtain d where d: "consume_assertion (ai_jti_hash demo_identity) 1060 1065 (au_db s1) = (Inr True, d)" "ad_sessions d = ad_sessions (au_db s1)"
    by (simp add: consume_assertion_def first(3))
  have "find_session d (replicate (43 + au_draws s1) (CHR ''t'')) = None"
    by (simp add: find_session_def d(2) first(2,3) new_session_def)
  then show ?thesis using demo_exchange [OF _ d(1)] first(1) by blast
qed

section \<open>The account API\<close>

definition demo_account_body :: doc where
  "demo_account_body = [(''action'', JStr ''rename''), (''assertion'', JStr demo_assertion), (''parameters'', JObj []), (''request_id'', JStr ''r'')]"

definition demo_account :: http_request where
  "demo_account = \<lparr>hq_method = ''POST'', hq_path = ''/edge1-ops/account/api'',
     hq_headers = [(''Origin'', ''https://ww.cx''), (''Content-Type'', ''application/json'')], hq_body = canonical_json (JObj demo_account_body),
     hq_remote = ''127.0.0.1'', hq_scheme = ''https'', hq_host = ''edge1.ww.cx''\<rparr>"

lemma demo_account_request: "account_request demo_env (canonical_json (JObj demo_account_body)) = Inr (demo_assertion, ''r'', ''rename'', [])"
proof -
  have "json_loads (canonical_json (JObj demo_account_body)) = Some (JObj demo_account_body)"
    by (subst json_loads_canonical) (simp_all add: demo_account_body_def)
  moreover have "event_id_text ''r''" by code_simp
  ultimately show ?thesis by (simp add: account_request_def demo_env_def) (auto simp: demo_account_body_def object_keys_def jget_def)
qed

lemma length_emit_str: "length (emit_str t) \<le> 6 * length t + 2"
proof -
  have "length (concat (map esc_char t)) \<le> 6 * length t" by (induction t) (auto simp: esc_char_def Let_def)
  then show ?thesis by (simp add: emit_str_def)
qed

lemma demo_account_boundary: "validate_boundary demo_http_config demo_account = Inr ()"
proof -
  have "length (canonical_json (JObj demo_account_body)) \<le> 60000"
    using length_emit_str [of demo_assertion] demo_size
    by (simp add: demo_account_body_def canonical_json_def json_dumps_def item_sep_def key_sep_def) (simp add: emit_str_def esc_char_def)
  then show ?thesis
    by (simp add: validate_boundary_def demo_http_config_def demo_account_def loopbacks_def guard_def limit_of_def demo_limits_def
        jget_def int_of_def starts_with_def)
qed

lemma demo_hex: "event_id_text (''edge1-http-'' @ ae_hex demo_env k)"
proof -
  have "event_id_text ''edge1-http-f''" by code_simp
  then show ?thesis by (simp add: demo_env_def)
qed

lemma account_route_closes:
  assumes "header_of q ''origin'' = hc_business159_origin (hw_http w)" "content_type_of q = ''application/json''"
    and "account_request (hw_env w) (hq_body q) = Inr (a, i, action, ps)" "dget account_scopes action = Some required"
    and "exchange_assertion (hw_env w) (hw_auth w) now a i s = (Inr (token, x), s1)"
  shows "snd (account_route w q now s) = close_account_session w now token s1"
  using assms by (simp add: account_route_def require_that_def bindS_def ret_def pure_act_def)

lemma account_api_handled:
  assumes "validate_boundary (hw_http w) q = Inr ()" "hq_path q = ''/edge1-ops/account/api''"
    and "hq_path q \<noteq> route_of (hw_http w) ''health''" "upper (hq_method q) = ''POST''"
  shows "snd (http_handle w q now s) = snd (account_route w q now s)"
proof -
  have "dispatch w q now s = account_route w q now s"
    using assms by (simp add: dispatch_def bindS_def pure_act_def route_request_def Let_def with_method_def)
  then show ?thesis by (simp add: http_handle_def split: prod.split sum.split)
qed

lemma demo_account_handled:
  assumes "exchange_assertion demo_env demo_auth_config now demo_assertion ''r'' s = (Inr (token, x), s1)"
  shows "snd (http_handle demo_world demo_account now s) = close_account_session demo_world now token s1"
proof -
  have "header_of demo_account ''origin'' = hc_business159_origin demo_http_config" "content_type_of demo_account = ''application/json''"
    by (simp add: demo_account_def header_of_def demo_http_config_def, code_simp) (simp add: demo_account_def content_type_of_def header_of_def, code_simp)
  moreover have "account_request demo_env (hq_body demo_account) = Inr (demo_assertion, ''r'', ''rename'', [])"
    by (simp add: demo_account_def demo_account_request)
  moreover have "dget account_scopes ''rename'' \<noteq> None" by (simp add: account_scopes_def)
  ultimately have "snd (account_route demo_world demo_account now s) = close_account_session demo_world now token s1"
    using assms by (auto intro!: account_route_closes)
  moreover have "hq_path demo_account = ''/edge1-ops/account/api''" "upper (hq_method demo_account) = ''POST''"
    by (simp add: demo_account_def) (simp add: demo_account_def, code_simp)
  moreover have "''/edge1-ops/account/api'' \<noteq> route_of demo_http_config ''health''" by code_simp
  ultimately show ?thesis using account_api_handled [of demo_world demo_account] demo_account_boundary by simp
qed

text \<open>The demo request leaves a session behind, which is revoked.\<close>

lemma demo_account_session:
  "\<exists>r. find_session (au_db (snd (http_handle demo_world demo_account 1000 fresh_auth))) (replicate 43 (CHR ''t'')) = Some r"
proof -
  obtain x s1 where first: "exchange_assertion demo_env demo_auth_config 1000 demo_assertion ''r'' fresh_auth = (Inr (replicate 43 (CHR ''t''), x), s1)"
    "au_db s1 = \<lparr>ad_replays = [(ai_jti_hash demo_identity, 1060)],
       ad_sessions = [new_session (replicate 43 (CHR ''t'')) demo_identity 1000 1900 ''edge1-auth-f''], ad_csrf = [], ad_rates = [], ad_guards = []\<rparr>"
    using demo_first_exchange by metis
  have "find_session (au_db s1) (replicate 43 (CHR ''t'')) \<noteq> None"
    unfolding first(2) by (simp add: find_session_def new_session_def del: replicate.simps replicate_append_same)
  then show ?thesis
    unfolding demo_account_handled [OF first(1)]
    using close_revokes [of demo_world 1000 "replicate 43 (CHR ''t'')" s1 "replicate 43 (CHR ''t'')"] demo_hex by auto
qed

theorem account_sessions_are_closed_witness:
  "\<exists>h r. find_session (au_db fresh_auth) h = None \<and> find_session (au_db (snd (http_handle demo_world demo_account 1000 fresh_auth))) h = Some r \<and>
     sn_revoked_at r \<noteq> None"
proof -
  obtain h r where r: "find_session (au_db (snd (http_handle demo_world demo_account 1000 fresh_auth))) h = Some r"
    using demo_account_session by blast
  moreover have none: "find_session (au_db fresh_auth) h = None" by (simp add: fresh_auth_def empty_auth_db_def find_session_def)
  moreover have "sn_revoked_at r \<noteq> None"
    using account_sessions_are_closed [OF _ _ none r] demo_hex by (simp add: demo_account_def)
  ultimately show ?thesis by blast
qed

end
