(* ===== verification/SecurityRuns.thy ===== *)
theory SecurityRuns
  imports SecurityWitnesses
begin

text \<open>
  Concrete requests to the boundary of the security identity gateway and concrete call sequences of its
  store, to which the theorems on sessions, limits, logout and operations apply.
\<close>

section \<open>A session that is open\<close>

definition plain_env :: auth_env where
  "plain_env = \<lparr>ae_sha = id, ae_digest = id, ae_utf8 = Some, ae_file = (\<lambda>_. None), ae_token = (\<lambda>_ k. replicate (43 + k) (CHR ''t'')),
     ae_hex = (\<lambda>_. ''f''), ae_audit_fails = (\<lambda>_. False), ae_unquote = id\<rparr>"

definition plain_world :: http_world where
  "plain_world = \<lparr>hw_env = plain_env, hw_auth = demo_auth_config, hw_http = demo_http_config, hw_console = None,
     hw_operations = (\<lambda>_ _. (OperationTimeout, 1040)), hw_backend = demo_backend\<rparr>"

definition plain_token :: string where
  "plain_token = replicate 43 (CHR ''t'')"

definition plain_identity :: assertion_identity where
  "plain_identity = \<lparr>ai_subject = ''alice'', ai_display_name = ''Alice'', ai_role = ''operator'',
     ai_scopes = {''edge1.security.read'', ''edge1.security.validate''}, ai_issued_at = 1000, ai_expires_at = 1060, ai_jti_hash = ''j''\<rparr>"

definition plain_db :: auth_db where
  "plain_db = snd (set_csrf plain_token plain_token 1900 (snd (create_session plain_token plain_identity 1000 1900 ''e'' empty_auth_db)))"

definition plain_state :: auth_state where
  "plain_state = \<lparr>au_db = plain_db, au_audit = [], au_draws = 0, au_runs = []\<rparr>"

definition plain_request :: "string \<Rightarrow> http_request" where
  "plain_request name = \<lparr>hq_method = ''POST'', hq_path = route_of demo_http_config name,
     hq_headers = [(''Origin'', ''https://edge1.ww.cx''), (''Content-Type'', ''application/json''), (''X-WWCX-CSRF'', plain_token),
       (''Cookie'', ''__Secure-wwcx_edge1_ops_session='' @ plain_token)], hq_body = ''{}'',
     hq_remote = ''127.0.0.1'', hq_scheme = ''https'', hq_host = ''edge1.ww.cx''\<rparr>"

lemma plain_run: "au_runs (snd (http_handle plain_world (plain_request ''validate'') 1030 plain_state)) = [(''security.validate_config'', ''alice'')]"
  by code_simp

theorem operations_are_authorised_witness:
  "\<exists>r. live_session plain_world plain_db plain_token 1030 r \<and> sn_subject r = ''alice'' \<and>
     au_runs (snd (http_handle plain_world (plain_request ''validate'') 1030 plain_state)) = [(''security.validate_config'', ''alice'')]"
proof -
  have "session_token_of demo_http_config (plain_request ''validate'') = Inr plain_token" by code_simp
  moreover have "au_runs (snd (http_handle plain_world (plain_request ''validate'') 1030 plain_state)) \<noteq> au_runs plain_state"
    unfolding plain_run by (simp add: plain_state_def)
  ultimately show ?thesis
    using operations_are_authorised [of plain_world "plain_request ''validate''" 1030 plain_state] plain_run
    by (auto simp: plain_state_def) (auto simp: plain_world_def plain_env_def)
qed

lemma plain_logout: "case logout_route plain_world (plain_request ''logout'') 1030 plain_state of (Inr resp, _) \<Rightarrow> hr_status resp = 204 | _ \<Rightarrow> False"
  by code_simp

lemma plain_db_inv: "auth_inv plain_db"
proof -
  have "plain_db = auth_run empty_auth_db [CreateSession plain_token plain_identity 1000 1900 ''e'', SetCsrf plain_token plain_token 1900]"
    by (simp add: plain_db_def auth_run_def)
  moreover have "auth_inv empty_auth_db" by (simp add: auth_inv_def empty_auth_db_def)
  ultimately show ?thesis using run_auth_inv by metis
qed

theorem logged_out_sessions_are_dead_witness:
  "\<exists>resp s1 e. logout_route plain_world (plain_request ''logout'') 1030 plain_state = (Inr resp, s1) \<and> hr_status resp = 204 \<and>
     fst (authenticate_session plain_env demo_auth_config 1031 plain_token ''r'' (http_run plain_world s1 [(plain_request ''validate'', 1031)])) = Inl e"
proof -
  obtain resp s1 where out: "logout_route plain_world (plain_request ''logout'') 1030 plain_state = (Inr resp, s1)" "hr_status resp = 204"
    using plain_logout by (auto split: prod.splits sum.splits)
  moreover have "session_token_of demo_http_config (plain_request ''logout'') = Inr plain_token" by code_simp
  moreover have "hw_env plain_world = plain_env" "hw_auth plain_world = demo_auth_config" "hw_http plain_world = demo_http_config"
    by (simp_all add: plain_world_def)
  ultimately show ?thesis
    using logged_out_sessions_are_dead [OF out, of plain_token 1031 "''r''" "[(plain_request ''validate'', 1031)]"] plain_db_inv
    by (auto simp: plain_state_def)
qed

theorem sessions_stem_from_assertions_witness:
  "\<exists>r ident. r \<in> set (ad_sessions (au_db (http_run demo_world fresh_auth [(demo_account, 1000)]))) \<and>
     validate_assertion demo_env demo_auth_config demo_assertion 1000 = Inr ident \<and> sn_issued_at r = 1000 \<and>
     sn_expires_at r \<le> 1000 + ac_absolute_timeout demo_auth_config"
proof -
  obtain r where "find_session (au_db (snd (http_handle demo_world demo_account 1000 fresh_auth))) (replicate 43 (CHR ''t'')) = Some r"
    using demo_account_session by blast
  then have "r \<in> set (ad_sessions (au_db (http_run demo_world fresh_auth [(demo_account, 1000)])))"
    by (auto simp: http_run_def find_session_def dest: find_row_SomeD)
  then show ?thesis
    using sessions_stem_from_assertions [of r demo_world "[(demo_account, 1000)]"] demo_validates [of 1000] by auto
qed

theorem honoured_sessions_are_live_witness:
  "\<exists>x reason d. resolve_session plain_token 1030 600 (auth_run empty_auth_db [CreateSession plain_token plain_identity 1000 1900 ''e'']) =
       (Inr (Some x, reason), d) \<and> x = context_of plain_token plain_identity 1000 1900 ''e'' 1030"
proof -
  let ?calls = "[CreateSession plain_token plain_identity 1000 1900 ''e'']"
  have "case resolve_session plain_token 1030 600 (auth_run empty_auth_db ?calls) of (Inr (Some _, _), _) \<Rightarrow> True | _ \<Rightarrow> False" by code_simp
  then obtain x reason d where x: "resolve_session plain_token 1030 600 (auth_run empty_auth_db ?calls) = (Inr (Some x, reason), d)"
    by (auto split: prod.splits sum.splits option.splits)
  have "finite (ai_scopes plain_identity)" by (simp add: plain_identity_def)
  then show ?thesis using honoured_sessions_are_live [OF x] x by (auto simp: Cons_eq_append_conv)
qed

definition plain_rates :: "auth_call list" where
  "plain_rates = map (\<lambda>t. AllowRate ''b'' t 2 10) [1, 2, 3, 11, 12, 13]"

theorem request_rates_are_bounded_witness:
  "length (filter (\<lambda>t. 2 \<le> t \<and> t < 2 + 10) (rate_grants ''b'' empty_auth_db plain_rates)) = 2 \<and>
   length (filter (\<lambda>t. 2 \<le> t \<and> t < 2 + 10) (rate_grants ''b'' empty_auth_db plain_rates)) \<le> 2 * nat 2"
proof -
  have "uniform_rate ''b'' 2 10 plain_rates" "sorted (rate_times ''b'' plain_rates)"
    by (auto simp: uniform_rate_def plain_rates_def)
  then have "length (filter (\<lambda>t. 2 \<le> t \<and> t < 2 + 10) (rate_grants ''b'' empty_auth_db plain_rates)) \<le> 2 * nat 2"
    using request_rates_are_bounded [of "''b''" 2 10 plain_rates 2] by simp
  moreover have "length (filter (\<lambda>t. 2 \<le> t \<and> t < 2 + 10) (rate_grants ''b'' empty_auth_db plain_rates)) = 2" by code_simp
  ultimately show ?thesis by blast
qed

definition plain_finish :: "auth_call list" where
  "plain_finish = [FinishAction plain_token ''a'' 1010]"

theorem guarded_actions_are_spaced_witness:
  "\<exists>d1 d2. begin_action plain_token ''a'' 1000 30 20 plain_db = (Inr ''started'', d1) \<and>
     begin_action plain_token ''a'' 1040 30 20 (auth_run d1 plain_finish) = (Inr ''started'', d2) \<and>
     (1040 :: int) - last (finish_times plain_token ''a'' plain_finish) \<ge> 20"
proof -
  let ?d1 = "snd (begin_action plain_token ''a'' 1000 30 20 plain_db)"
  let ?d2 = "snd (begin_action plain_token ''a'' 1040 30 20 (auth_run ?d1 plain_finish))"
  have "fst (begin_action plain_token ''a'' 1000 30 20 plain_db) = Inr ''started''" by code_simp
  moreover have "fst (begin_action plain_token ''a'' 1040 30 20 (auth_run ?d1 plain_finish)) = Inr ''started''" by code_simp
  ultimately have "begin_action plain_token ''a'' 1000 30 20 plain_db = (Inr ''started'', ?d1)"
    "begin_action plain_token ''a'' 1040 30 20 (auth_run ?d1 plain_finish) = (Inr ''started'', ?d2)" by (metis prod.collapse)+
  moreover have "\<forall>t i c. BeginAction plain_token ''a'' t i c \<notin> set plain_finish" "finish_times plain_token ''a'' plain_finish \<noteq> []"
    by (simp add: plain_finish_def) code_simp
  ultimately show ?thesis
    using guarded_actions_are_spaced [of plain_token "''a''" 1000 30 20 plain_db ?d1 plain_finish 1040 30 20 ?d2] by (metis (no_types))
qed

end
