(* ===== verification/TurnState.thy ===== *)
theory TurnState
  imports Effects PyText Contracts
begin

text \<open>
  server/edge1_operator_turn_state.py: who owns the turn of a conversation. The four SQLite tables, and \<open>seed\<close>,
  \<open>status\<close> and \<open>handoff\<close> as transactions that a fault may cut off at each of the code's checkpoints. A row
  that was stored as JSON text comes back as it was; times are rationals; the clock and the execution id are arguments.
\<close>

section \<open>Errors and tables\<close>

datatype turn_error =
    UnknownTurn string
  | StaleEpoch string
  | UnauthorizedOwner string
  | IdempotencyConflict string
  | Interrupted string

record turn_row =
  tu_task :: string
  tu_conversation :: string
  tu_owner :: string
  tu_state :: string
  tu_epoch :: int
  tu_started_at :: rat
  tu_last_activity_at :: rat
  tu_handed_off_at :: "rat option"
  tu_previous_owner :: "string option"
  tu_reason :: "string option"
  tu_evidence :: "string option"

record turn_audit =
  ta_id :: nat
  ta_task :: string
  ta_conversation :: string
  ta_event :: string
  ta_from :: string
  ta_to :: string
  ta_epoch :: int
  ta_idempotency_key :: string
  ta_execution_id :: string
  ta_created_at :: rat

record turn_outbox =
  to_id :: nat
  to_task :: string
  to_conversation :: string
  to_event_type :: string
  to_payload :: turn_row
  to_created_at :: rat
  to_delivered :: bool

record turn_idempotency =
  ti_task :: string
  ti_conversation :: string
  ti_key :: string
  ti_fingerprint :: string
  ti_result :: turn_row
  ti_created_at :: rat

record turn_db =
  td_turns :: "turn_row list"
  td_audit :: "turn_audit list"
  td_outbox :: "turn_outbox list"
  td_idempotency :: "turn_idempotency list"

definition empty_turn_db :: turn_db where
  "empty_turn_db = \<lparr>td_turns = [], td_audit = [], td_outbox = [], td_idempotency = []\<rparr>"

definition turn_key :: "turn_row \<Rightarrow> string \<times> string" where
  "turn_key t = (tu_task t, tu_conversation t)"

definition idempotency_of :: "turn_idempotency \<Rightarrow> string \<times> string \<times> string" where
  "idempotency_of i = (ti_task i, ti_conversation i, ti_key i)"

definition find_turn :: "turn_db \<Rightarrow> string \<times> string \<Rightarrow> turn_row option" where
  "find_turn d k = find_row turn_key k (td_turns d)"

section \<open>Seeding and reading\<close>

definition unknown_turn :: "string \<Rightarrow> string \<Rightarrow> turn_error" where
  "unknown_turn task conversation = UnknownTurn (''no turn state for '' @ task @ ''/'' @ conversation)"

definition turn_status :: "string \<Rightarrow> string \<Rightarrow> (turn_error, turn_db, turn_row) eact" where
  "turn_status task conversation d =
     (case find_turn d (task, conversation) of
        None \<Rightarrow> (Inl (unknown_turn task conversation), d)
      | Some t \<Rightarrow> (Inr t, d))"

definition seeded :: "string \<Rightarrow> string \<Rightarrow> string \<Rightarrow> string \<Rightarrow> rat \<Rightarrow> turn_row" where
  "seeded task conversation owner state now =
     \<lparr>tu_task = task, tu_conversation = conversation, tu_owner = owner, tu_state = state, tu_epoch = 0, tu_started_at = now,
      tu_last_activity_at = now, tu_handed_off_at = None, tu_previous_owner = None, tu_reason = None, tu_evidence = None\<rparr>"

definition put_turn :: "turn_row \<Rightarrow> turn_db \<Rightarrow> turn_db" where
  "put_turn t d =
     d\<lparr>td_turns := (if find_turn d (turn_key t) = None then td_turns d @ [t]
                    else update_where (\<lambda>u. turn_key u = turn_key t) (\<lambda>_. t) (td_turns d))\<rparr>"

definition seed :: "string \<Rightarrow> string \<Rightarrow> string \<Rightarrow> string \<Rightarrow> rat \<Rightarrow> (turn_error, turn_db, turn_row) eact" where
  "seed task conversation owner state now =
     bindS (update_act (put_turn (seeded task conversation owner state now))) (\<lambda>_. turn_status task conversation)"

section \<open>Handoff\<close>

record handoff_request =
  hr_task :: string
  hr_conversation :: string
  hr_requesting_agent :: string
  hr_to_agent :: string
  hr_expected_epoch :: int
  hr_idempotency_key :: string
  hr_reason :: "string option"
  hr_evidence :: "string option"

definition handoff_key :: "handoff_request \<Rightarrow> string \<times> string" where
  "handoff_key q = (hr_task q, hr_conversation q)"

definition request_fingerprint :: "handoff_request \<Rightarrow> string" where
  "request_fingerprint q =
     json_dumps True (JObj [(''requesting_agent'', JStr (hr_requesting_agent q)), (''to_agent'', JStr (hr_to_agent q)),
       (''expected_epoch'', JInt (hr_expected_epoch q)), (''reason'', opt_str (hr_reason q)), (''evidence'', opt_str (hr_evidence q))])"

text \<open>\<open>_fault_injector(name)\<close>, and equally the death of the process at that point.\<close>

definition turn_checkpoint :: "(string \<Rightarrow> bool) \<Rightarrow> string \<Rightarrow> (turn_error, turn_db, unit) eact" where
  "turn_checkpoint fault name = (if fault name then raise_err (Interrupted name) else ret ())"

definition handed_off :: "handoff_request \<Rightarrow> rat \<Rightarrow> turn_row \<Rightarrow> turn_row" where
  "handed_off q now t =
     t\<lparr>tu_previous_owner := Some (tu_owner t), tu_owner := hr_to_agent q, tu_state := ''HANDED_OFF'', tu_epoch := tu_epoch t + 1,
       tu_last_activity_at := now, tu_handed_off_at := Some now, tu_reason := hr_reason q, tu_evidence := hr_evidence q\<rparr>"

definition handoff_audit :: "handoff_request \<Rightarrow> turn_row \<Rightarrow> string \<Rightarrow> rat \<Rightarrow> turn_db \<Rightarrow> turn_db" where
  "handoff_audit q current execution now d =
     d\<lparr>td_audit := td_audit d @ [\<lparr>ta_id = Suc (length (td_audit d)), ta_task = hr_task q, ta_conversation = hr_conversation q,
        ta_event = ''turn.handed_off'', ta_from = tu_owner current, ta_to = hr_to_agent q, ta_epoch = tu_epoch current + 1,
        ta_idempotency_key = hr_idempotency_key q, ta_execution_id = execution, ta_created_at = now\<rparr>]\<rparr>"

definition handoff_outbox :: "handoff_request \<Rightarrow> turn_row \<Rightarrow> rat \<Rightarrow> turn_db \<Rightarrow> turn_db" where
  "handoff_outbox q result now d =
     d\<lparr>td_outbox := td_outbox d @ [\<lparr>to_id = Suc (length (td_outbox d)), to_task = hr_task q, to_conversation = hr_conversation q,
        to_event_type = ''turn.handed_off'', to_payload = result, to_created_at = now, to_delivered = False\<rparr>]\<rparr>"

definition handoff_remember :: "handoff_request \<Rightarrow> turn_row \<Rightarrow> rat \<Rightarrow> turn_db \<Rightarrow> turn_db" where
  "handoff_remember q result now d =
     d\<lparr>td_idempotency := td_idempotency d @ [\<lparr>ti_task = hr_task q, ti_conversation = hr_conversation q, ti_key = hr_idempotency_key q,
        ti_fingerprint = request_fingerprint q, ti_result = result, ti_created_at = now\<rparr>]\<rparr>"

text \<open>The checks before a change: the replay, the owner, the epoch.\<close>

definition handoff_replay :: "handoff_request \<Rightarrow> turn_db \<Rightarrow> (turn_error + turn_row) option" where
  "handoff_replay q d =
     (case find_row idempotency_of (hr_task q, hr_conversation q, hr_idempotency_key q) (td_idempotency d) of
        None \<Rightarrow> None
      | Some i \<Rightarrow> Some (if ti_fingerprint i = request_fingerprint q then Inr (ti_result i)
          else Inl (IdempotencyConflict (''idempotency_key '' @ repr_str (hr_idempotency_key q) @ '' was already used for a '' @
            ''different request (different requesting_agent/to_agent/expected_epoch/reason/evidence)''))))"

definition handoff_check :: "handoff_request \<Rightarrow> turn_row \<Rightarrow> turn_error + unit" where
  "handoff_check q current =
     (if tu_owner current \<noteq> hr_requesting_agent q
      then Inl (UnauthorizedOwner (hr_requesting_agent q @ '' is not the current owner ('' @ tu_owner current @ '')''))
      else if tu_epoch current \<noteq> hr_expected_epoch q
      then Inl (StaleEpoch (''expected epoch '' @ show_int (hr_expected_epoch q) @ '', current epoch is '' @ show_int (tu_epoch current)))
      else Inr ())"

definition handoff_apply :: "(string \<Rightarrow> bool) \<Rightarrow> handoff_request \<Rightarrow> rat \<Rightarrow> string \<Rightarrow> turn_row \<Rightarrow> (turn_error, turn_db, turn_row) eact" where
  "handoff_apply fault q now execution current =
     bindS (turn_checkpoint fault ''after_checks'') (\<lambda>_.
     bindS (update_act (put_turn (handed_off q now current))) (\<lambda>_.
     bindS (turn_checkpoint fault ''after_state_update'') (\<lambda>_.
     bindS (update_act (handoff_audit q current execution now)) (\<lambda>_.
     bindS (turn_checkpoint fault ''after_audit_insert'') (\<lambda>_.
     bindS (turn_status (hr_task q) (hr_conversation q)) (\<lambda>result.
     bindS (update_act (handoff_outbox q result now)) (\<lambda>_.
     bindS (turn_checkpoint fault ''after_outbox_insert'') (\<lambda>_.
     bindS (update_act (handoff_remember q result now)) (\<lambda>_.
     bindS (turn_checkpoint fault ''before_commit'') (\<lambda>_. ret result))))))))))"

text \<open>The row, and whether the request was applied now.\<close>

definition handoff_body :: "(string \<Rightarrow> bool) \<Rightarrow> handoff_request \<Rightarrow> rat \<Rightarrow> string \<Rightarrow> (turn_error, turn_db, turn_row \<times> bool) eact" where
  "handoff_body fault q now execution =
     bindS (turn_checkpoint fault ''after_begin'') (\<lambda>_.
     bindS (turn_status (hr_task q) (hr_conversation q)) (\<lambda>current d.
     case handoff_replay q d of
       Some r \<Rightarrow> bindS (pure_act r) (\<lambda>result. ret (result, False)) d
     | None \<Rightarrow>
         bindS (pure_act (handoff_check q current)) (\<lambda>_.
         bindS (handoff_apply fault q now execution current) (\<lambda>result. ret (result, True))) d))"

section \<open>The legacy audit file\<close>

text \<open>The store and what an audit writer, if there is one and it does not fail, has written.\<close>

record turn_world =
  tw_db :: turn_db
  tw_log :: "doc list"

definition handoff_event :: "handoff_request \<Rightarrow> turn_row \<Rightarrow> doc" where
  "handoff_event q result =
     [(''event'', JStr ''turn.handed_off''), (''task_id'', JStr (hr_task q)), (''conversation_id'', JStr (hr_conversation q)),
      (''from_agent'', opt_str (tu_previous_owner result)), (''to_agent'', JStr (tu_owner result)), (''turn_epoch'', JInt (tu_epoch result)),
      (''idempotency_key'', JStr (hr_idempotency_key q))]"

definition handoff :: "bool \<Rightarrow> (string \<Rightarrow> bool) \<Rightarrow> handoff_request \<Rightarrow> rat \<Rightarrow> string \<Rightarrow> (turn_error, turn_world, turn_row) eact" where
  "handoff writes fault q now execution w =
     (case transaction (handoff_body fault q now execution) (tw_db w) of
        (Inl e, d) \<Rightarrow> (Inl e, w\<lparr>tw_db := d\<rparr>)
      | (Inr (result, applied), d) \<Rightarrow>
          (Inr result, w\<lparr>tw_db := d, tw_log := tw_log w @ (if applied \<and> writes then [handoff_event q result] else [])\<rparr>))"

section \<open>Runs\<close>

datatype turn_op =
    Seed string string string string rat
  | Handoff bool "string \<Rightarrow> bool" handoff_request rat string

fun turn_step :: "turn_world \<Rightarrow> turn_op \<Rightarrow> turn_world" where
  "turn_step w (Seed task conversation owner state now) = w\<lparr>tw_db := snd (seed task conversation owner state now (tw_db w))\<rparr>"
| "turn_step w (Handoff writes fault q now execution) = snd (handoff writes fault q now execution w)"

definition turn_run :: "turn_world \<Rightarrow> turn_op list \<Rightarrow> turn_world" where
  "turn_run = foldl turn_step"

end
