(* ===== verification/TurnTheorems.thy ===== *)
theory TurnTheorems
  imports TurnState
begin

text \<open>
  What the turn store promises: its tables agree, a handoff is applied entirely or not at all, one key is applied once, and
  the handoffs since a seed form a chain of owners with consecutive epochs.
\<close>

section \<open>The tables after an operation\<close>

lemma turn_keys_update: "map turn_key (update_where (\<lambda>u. turn_key u = turn_key t) (\<lambda>_. t) rows) = map turn_key rows"
  by (rule map_update_where) simp

lemma find_turn_put [simp]: "find_turn (put_turn t d) k = (if k = turn_key t then Some t else find_turn d k)"
proof (cases "find_turn d (turn_key t)")
  case None
  then show ?thesis by (auto simp: put_turn_def find_turn_def find_row_append split: option.split)
next
  case (Some u)
  have "find_turn (put_turn t d) k = map_option (\<lambda>u. if turn_key u = turn_key t then t else u) (find_turn d k)"
    using Some by (simp add: put_turn_def find_turn_def find_row_update_where)
  then show ?thesis using Some by (cases "find_turn d k") (auto simp: find_turn_def dest: find_row_SomeD)
qed

lemma put_turn_tables [simp]: "td_audit (put_turn t d) = td_audit d" "td_outbox (put_turn t d) = td_outbox d"
  "td_idempotency (put_turn t d) = td_idempotency d"
  by (simp_all add: put_turn_def)

lemma put_turn_keys: "turn_key ` set (td_turns (put_turn t d)) = insert (turn_key t) (turn_key ` set (td_turns d))"
proof (cases "find_turn d (turn_key t)")
  case (Some u)
  then have "turn_key t \<in> turn_key ` set (td_turns d)" by (auto simp: find_turn_def intro: rev_image_eqI dest!: find_row_SomeD)
  moreover have "turn_key ` set (td_turns (put_turn t d)) = turn_key ` set (td_turns d)"
    using Some arg_cong [OF turn_keys_update [of t "td_turns d"], of set] by (simp add: put_turn_def)
  ultimately show ?thesis by auto
qed (simp add: put_turn_def)

lemma put_turn_distinct: "distinct (map turn_key (td_turns d)) \<Longrightarrow> distinct (map turn_key (td_turns (put_turn t d)))"
  by (auto simp: put_turn_def find_turn_def find_row_None_iff turn_keys_update)

lemma bindS_checkpoint: "bindS (turn_checkpoint fault p) f s = (if fault p then (Inl (Interrupted p), s) else f () s)"
  by (simp add: bindS_def turn_checkpoint_def raise_err_def ret_def)

lemma bindS_status: "bindS (turn_status task conversation) f d =
    (case find_turn d (task, conversation) of None \<Rightarrow> (Inl (unknown_turn task conversation), d) | Some t \<Rightarrow> f t d)"
  by (simp add: bindS_def turn_status_def split: option.split)

lemma handoff_tables [simp]:
  "td_turns (handoff_audit q c x now d) = td_turns d" "td_audit (handoff_outbox q r now d) = td_audit d"
  "td_turns (handoff_outbox q r now d) = td_turns d" "td_turns (handoff_remember q r now d) = td_turns d"
  "td_audit (handoff_remember q r now d) = td_audit d" "td_outbox (handoff_remember q r now d) = td_outbox d"
  "td_outbox (handoff_audit q c x now d) = td_outbox d" "td_idempotency (handoff_audit q c x now d) = td_idempotency d"
  "td_idempotency (handoff_outbox q r now d) = td_idempotency d"
  by (simp_all add: handoff_audit_def handoff_outbox_def handoff_remember_def)

lemma turn_key_handed_off [simp]: "turn_key (handed_off q now t) = turn_key t"
  by (simp add: turn_key_def handed_off_def)

lemma find_turn_key: "find_turn d k = Some t \<Longrightarrow> turn_key t = k"
  using find_row_SomeD by (fastforce simp: find_turn_def)

text \<open>The database a handoff that is applied leaves.\<close>

definition applied_db :: "handoff_request \<Rightarrow> rat \<Rightarrow> string \<Rightarrow> turn_row \<Rightarrow> turn_db \<Rightarrow> turn_db" where
  "applied_db q now execution current d =
     (let result = handed_off q now current in
      handoff_remember q result now (handoff_outbox q result now (handoff_audit q current execution now (put_turn result d))))"

lemma handoff_apply_cases:
  assumes "find_turn d (handoff_key q) = Some current"
  shows "(\<exists>p d'. fault p \<and> handoff_apply fault q now execution current d = (Inl (Interrupted p), d')) \<or>
    handoff_apply fault q now execution current d = (Inr (handed_off q now current), applied_db q now execution current d)"
proof -
  have key: "turn_key current = (hr_task q, hr_conversation q)" using find_turn_key [OF assms] by (simp add: handoff_key_def)
  have "find_turn (handoff_audit q current execution now d') k = find_turn d' k" for d' k by (simp add: find_turn_def)
  then show ?thesis
    unfolding handoff_apply_def bindS_checkpoint bindS_update bindS_status
    by (simp add: key ret_def applied_db_def Let_def)
qed

lemma handoff_apply_clean:
  assumes "find_turn d (handoff_key q) = Some current" "\<And>p. \<not> fault p"
  shows "handoff_apply fault q now execution current d = (Inr (handed_off q now current), applied_db q now execution current d)"
  using handoff_apply_cases [OF assms(1)] assms(2) by blast

section \<open>The outcomes of a handoff\<close>

lemma handoff_fails: "fst (handoff writes fault q now execution w) = Inl e \<Longrightarrow> snd (handoff writes fault q now execution w) = w"
  by (auto simp: handoff_def transaction_def split: prod.splits sum.splits)

text \<open>What is returned: the stored result of a replay, or the row after the handoff.\<close>

lemma handoff_Inr:
  assumes "handoff writes fault q now execution w = (Inr result, w')"
  shows "(handoff_replay q (tw_db w) = Some (Inr result) \<and> w' = w) \<or>
    (\<exists>current. handoff_replay q (tw_db w) = None \<and> find_turn (tw_db w) (handoff_key q) = Some current \<and> handoff_check q current = Inr () \<and>
       result = handed_off q now current \<and> tw_db w' = applied_db q now execution current (tw_db w) \<and>
       tw_log w' = tw_log w @ (if writes then [handoff_event q result] else []))"
proof -
  obtain applied d where body: "handoff_body fault q now execution (tw_db w) = (Inr (result, applied), d)"
    "w' = w\<lparr>tw_db := d, tw_log := tw_log w @ (if applied \<and> writes then [handoff_event q result] else [])\<rparr>"
    using assms unfolding handoff_def transaction_def by (auto split: prod.splits sum.splits intro: that)
  obtain current where current: "find_turn (tw_db w) (handoff_key q) = Some current"
    using body(1) by (auto simp: handoff_body_def bindS_def turn_status_def handoff_key_def turn_checkpoint_def raise_err_def ret_def
        split: option.splits if_splits)
  then have status: "turn_status (hr_task q) (hr_conversation q) (tw_db w) = (Inr current, tw_db w)"
    by (simp add: turn_status_def handoff_key_def)
  show ?thesis
  proof (cases "handoff_replay q (tw_db w)")
    case None
    then show ?thesis
      using body current handoff_apply_cases [OF current, of fault now execution]
      by (auto simp: handoff_body_def bindS_def status turn_checkpoint_def raise_err_def ret_def pure_act_def split: if_splits prod.splits sum.splits)
  next
    case (Some r)
    then show ?thesis
      using body by (cases r) (auto simp: handoff_body_def bindS_def status turn_checkpoint_def raise_err_def ret_def pure_act_def split: if_splits)
  qed
qed

lemma handoff_new:
  assumes "find_turn (tw_db w) (handoff_key q) = Some current" "handoff_replay q (tw_db w) = None" "handoff_check q current = Inr ()" "\<And>p. \<not> fault p"
  shows "handoff writes fault q now execution w = (Inr (handed_off q now current),
    w\<lparr>tw_db := applied_db q now execution current (tw_db w), tw_log := tw_log w @ (if writes then [handoff_event q (handed_off q now current)] else [])\<rparr>)"
proof -
  let ?m = "handoff_apply fault q now execution current"
  have "?m (tw_db w) = (Inr (handed_off q now current), applied_db q now execution current (tw_db w))"
    by (rule handoff_apply_clean [OF assms(1,4)])
  then have "bindS ?m (\<lambda>result. ret (result, True)) (tw_db w) = (Inr (handed_off q now current, True), applied_db q now execution current (tw_db w))"
    by (simp add: bindS_def ret_def)
  then have "handoff_body fault q now execution (tw_db w) = (Inr (handed_off q now current, True), applied_db q now execution current (tw_db w))"
    using assms unfolding handoff_body_def bindS_checkpoint bindS_status by (simp add: handoff_key_def bindS_pure)
  then show ?thesis by (simp add: handoff_def transaction_def)
qed

lemma handoff_replayed:
  assumes "find_turn (tw_db w) (handoff_key q) \<noteq> None" "handoff_replay q (tw_db w) = Some r" "\<not> fault ''after_begin''"
  shows "handoff writes fault q now execution w = (r, w)"
proof -
  obtain t where "turn_status (hr_task q) (hr_conversation q) (tw_db w) = (Inr t, tw_db w)"
    using assms(1) by (auto simp: turn_status_def handoff_key_def)
  then show ?thesis
    using assms(2,3) by (cases r) (simp_all add: handoff_def transaction_def handoff_body_def bindS_def turn_checkpoint_def ret_def pure_act_def)
qed

section \<open>The tables agree\<close>

text \<open>
  Every handoff left one row in each of the three logs, at the same place: the same conversation, key, epoch and agents;
  conversations and keys are unique, and ids count up.
\<close>

definition audit_key :: "turn_audit \<Rightarrow> string \<times> string \<times> string" where
  "audit_key a = (ta_task a, ta_conversation a, ta_idempotency_key a)"

definition turn_inv :: "turn_db \<Rightarrow> bool" where
  "turn_inv d \<longleftrightarrow> distinct (map turn_key (td_turns d)) \<and> distinct (map idempotency_of (td_idempotency d)) \<and>
     map idempotency_of (td_idempotency d) = map audit_key (td_audit d) \<and>
     map ti_result (td_idempotency d) = map to_payload (td_outbox d) \<and>
     map (\<lambda>x. (to_task x, to_conversation x)) (td_outbox d) = map (\<lambda>a. (ta_task a, ta_conversation a)) (td_audit d) \<and>
     map (\<lambda>x. (tu_previous_owner (to_payload x), tu_owner (to_payload x), tu_epoch (to_payload x))) (td_outbox d) =
       map (\<lambda>a. (Some (ta_from a), ta_to a, ta_epoch a)) (td_audit d) \<and>
     map ta_id (td_audit d) = [1 ..< Suc (length (td_audit d))] \<and> map to_id (td_outbox d) = [1 ..< Suc (length (td_outbox d))] \<and>
     (\<lambda>a. (ta_task a, ta_conversation a)) ` set (td_audit d) \<subseteq> turn_key ` set (td_turns d)"

lemma handoff_replay_None: "handoff_replay q d = None \<longleftrightarrow> (hr_task q, hr_conversation q, hr_idempotency_key q) \<notin> idempotency_of ` set (td_idempotency d)"
  by (auto simp: handoff_replay_def find_row_None_iff intro: rev_image_eqI split: option.splits dest!: find_row_SomeD)

lemma applied_tables:
  "td_turns (applied_db q now x t d) = td_turns (put_turn (handed_off q now t) d)"
  "td_audit (applied_db q now x t d) = td_audit d @ [\<lparr>ta_id = Suc (length (td_audit d)), ta_task = hr_task q, ta_conversation = hr_conversation q,
        ta_event = ''turn.handed_off'', ta_from = tu_owner t, ta_to = hr_to_agent q, ta_epoch = tu_epoch t + 1,
        ta_idempotency_key = hr_idempotency_key q, ta_execution_id = x, ta_created_at = now\<rparr>]"
  "td_outbox (applied_db q now x t d) = td_outbox d @ [\<lparr>to_id = Suc (length (td_outbox d)), to_task = hr_task q, to_conversation = hr_conversation q,
        to_event_type = ''turn.handed_off'', to_payload = handed_off q now t, to_created_at = now, to_delivered = False\<rparr>]"
  "td_idempotency (applied_db q now x t d) = td_idempotency d @ [\<lparr>ti_task = hr_task q, ti_conversation = hr_conversation q,
        ti_key = hr_idempotency_key q, ti_fingerprint = request_fingerprint q, ti_result = handed_off q now t, ti_created_at = now\<rparr>]"
  by (simp_all add: applied_db_def Let_def) (simp_all add: handoff_audit_def handoff_outbox_def handoff_remember_def)

lemma applied_differs: "applied_db q now x t d \<noteq> d"
  using applied_tables(2) [of q now x t d] by fastforce

lemma find_turn_applied: "find_turn (applied_db q now x t d) k = (if k = turn_key t then Some (handed_off q now t) else find_turn d k)"
  by (simp only: find_turn_def [of "applied_db q now x t d"] applied_tables find_turn_def [symmetric] find_turn_put turn_key_handed_off)

lemma applied_inv:
  assumes "turn_inv d" "find_turn d (handoff_key q) = Some t" "handoff_replay q d = None"
  shows "turn_inv (applied_db q now x t d)"
proof -
  have "turn_key t = (hr_task q, hr_conversation q)" using find_turn_key [OF assms(2)] by (simp add: handoff_key_def)
  moreover have "audit_key ` set (td_audit d) = idempotency_of ` set (td_idempotency d)"
    using assms(1) unfolding turn_inv_def by (metis list.set_map)
  then have "(hr_task q, hr_conversation q, hr_idempotency_key q) \<notin> audit_key ` set (td_audit d)"
    using assms(3) by (simp add: handoff_replay_None)
  ultimately show ?thesis
    using assms(1,3) unfolding turn_inv_def applied_tables put_turn_keys turn_key_handed_off
    by (auto simp: put_turn_distinct idempotency_of_def audit_key_def handed_off_def handoff_replay_None)
qed

lemma seed_tables: "td_audit (snd (seed task c owner st now d)) = td_audit d" "td_outbox (snd (seed task c owner st now d)) = td_outbox d"
  "td_idempotency (snd (seed task c owner st now d)) = td_idempotency d"
  "td_turns (snd (seed task c owner st now d)) = td_turns (put_turn (seeded task c owner st now) d)"
  by (simp_all add: seed_def bindS_update turn_status_def split: option.split)

lemma find_turn_seed: "find_turn (snd (seed task c owner st now d)) k = (if k = (task, c) then Some (seeded task c owner st now) else find_turn d k)"
proof -
  have "turn_key (seeded task c owner st now) = (task, c)" by (simp add: turn_key_def seeded_def)
  then show ?thesis
    by (simp only: find_turn_def [of "snd (seed task c owner st now d)"] seed_tables find_turn_def [symmetric] find_turn_put)
qed

lemma seed_inv: "turn_inv d \<Longrightarrow> turn_inv (snd (seed task c owner st now d))"
  unfolding turn_inv_def seed_tables put_turn_keys by (auto simp: put_turn_distinct)

lemma handoff_state:
  obtains "snd (handoff writes fault q now x w) = w"
  | t where "find_turn (tw_db w) (handoff_key q) = Some t" "handoff_replay q (tw_db w) = None" "handoff_check q t = Inr ()"
      "fst (handoff writes fault q now x w) = Inr (handed_off q now t)" "tw_db (snd (handoff writes fault q now x w)) = applied_db q now x t (tw_db w)"
proof (cases "fst (handoff writes fault q now x w)")
  case (Inr result)
  then have "handoff writes fault q now x w = (Inr result, snd (handoff writes fault q now x w))" by (metis prod.collapse)
  then show ?thesis using handoff_Inr that by (metis fst_conv)
qed (use handoff_fails that in blast)

interpretation turns: absorbing_machine turn_step "\<lambda>w :: turn_world. turn_inv (tw_db w)" "\<lambda>w k. find_row idempotency_of k (td_idempotency (tw_db w))" "\<lambda>_. True"
proof
  fix w :: turn_world and op
  assume "turn_inv (tw_db w)"
  then show "turn_inv (tw_db (turn_step w op))"
  proof (cases op)
    case (Handoff writes fault q now x)
    then show ?thesis
      using \<open>turn_inv (tw_db w)\<close> applied_inv by (cases writes fault q now x w rule: handoff_state) auto
  qed (simp add: seed_inv)
next
  fix w :: turn_world and k r op
  assume "find_row idempotency_of k (td_idempotency (tw_db w)) = Some r"
  then show "find_row idempotency_of k (td_idempotency (tw_db (turn_step w op))) = Some r"
  proof (cases op)
    case (Handoff writes fault q now x)
    then show ?thesis
      using \<open>find_row idempotency_of k (td_idempotency (tw_db w)) = Some r\<close>
      by (cases writes fault q now x w rule: handoff_state) (auto simp: applied_tables find_row_append)
  qed (simp add: seed_tables)
qed

text \<open>
  C31. The tables of the turn store agree after any sequence of seeds and handoffs, also when handoffs are cut off at any point:
  conversations and idempotency keys are unique, and audit, outbox and idempotency rows stand at the same places with the
  same conversation, key, agents and epoch, so that every handoff that happened is announced exactly once.
\<close>

theorem turn_tables_agree:
  "turn_inv (tw_db (turn_run \<lparr>tw_db = empty_turn_db, tw_log = []\<rparr> ops))"
  unfolding turn_run_def by (rule turns.run_inv) (simp add: turn_inv_def empty_turn_db_def)

text \<open>
  C21. A handoff happens entirely or not at all: either nothing changes, and what is returned, if anything, is the stored result of
  the same request; or the requester owned the turn at the epoch it expected, the turn is the only one that changes, and each of
  the three logs has exactly one more row.
\<close>

theorem handoffs_are_atomic:
  "case handoff writes fault q now x w of (r, w') \<Rightarrow>
     (w' = w \<and> (case r of Inl _ \<Rightarrow> True | Inr result \<Rightarrow> handoff_replay q (tw_db w) = Some (Inr result))) \<or>
     (\<exists>t a m i. find_turn (tw_db w) (handoff_key q) = Some t \<and> tu_owner t = hr_requesting_agent q \<and> tu_epoch t = hr_expected_epoch q \<and>
        r = Inr (handed_off q now t) \<and> td_audit (tw_db w') = td_audit (tw_db w) @ [a] \<and> td_outbox (tw_db w') = td_outbox (tw_db w) @ [m] \<and>
        td_idempotency (tw_db w') = td_idempotency (tw_db w) @ [i] \<and>
        find_turn (tw_db w') = (find_turn (tw_db w))(handoff_key q \<mapsto> handed_off q now t))"
proof (cases "handoff writes fault q now x w")
  case (Pair r w')
  show ?thesis
  proof (cases writes fault q now x w rule: handoff_state)
    case 1
    then show ?thesis
      using Pair handoff_Inr [of writes fault q now x w _ w'] applied_differs by (cases r) (auto, metis)
  next
    case (2 t)
    then have "tu_owner t = hr_requesting_agent q \<and> tu_epoch t = hr_expected_epoch q" by (simp add: handoff_check_def split: if_splits)
    moreover have "find_turn (tw_db w') = (find_turn (tw_db w))(handoff_key q \<mapsto> handed_off q now t)"
      using 2(1,5) Pair find_turn_key [OF 2(1)] by (auto simp: find_turn_applied)
    ultimately show ?thesis using 2(1,4,5) Pair by (simp add: applied_tables)
  qed
qed

section \<open>One key, one handoff\<close>

lemma opt_str_inj: "opt_str a = opt_str b \<longleftrightarrow> a = b"
  by (auto simp: opt_str_def split: option.splits)

lemma request_fingerprint_eq:
  "request_fingerprint q = request_fingerprint p \<longleftrightarrow> hr_requesting_agent q = hr_requesting_agent p \<and> hr_to_agent q = hr_to_agent p \<and>
     hr_expected_epoch q = hr_expected_epoch p \<and> hr_reason q = hr_reason p \<and> hr_evidence q = hr_evidence p"
proof -
  have canon_opt: "canon (opt_str v) = opt_str v" "wf_json (opt_str v)" for v by (simp_all add: opt_str_def split: option.split)
  then have wf: "wf_json (JObj [(''requesting_agent'', JStr (hr_requesting_agent r)), (''to_agent'', JStr (hr_to_agent r)),
       (''expected_epoch'', JInt (hr_expected_epoch r)), (''reason'', opt_str (hr_reason r)), (''evidence'', opt_str (hr_evidence r))])" for r
    by simp
  show ?thesis
    unfolding request_fingerprint_def json_dumps_eq_iff [OF wf wf]
    by (auto simp: canon_opt opt_str_inj)
qed

lemma request_fingerprint_same:
  fixes q p :: handoff_request
  assumes "handoff_key q = handoff_key p" "hr_idempotency_key q = hr_idempotency_key p"
  shows "request_fingerprint q = request_fingerprint p \<longleftrightarrow> q = p"
  using assms by (cases q; cases p) (auto simp: request_fingerprint_eq handoff_key_def)

lemma turn_kept: "find_turn (tw_db w) k \<noteq> None \<Longrightarrow> find_turn (tw_db (turn_run w ops)) k \<noteq> None"
proof (induction ops arbitrary: w)
  case (Cons op ops)
  have "find_turn (tw_db (turn_step w op)) k \<noteq> None"
  proof (cases op)
    case (Handoff writes fault q now x)
    then show ?thesis using Cons.prems by (cases writes fault q now x w rule: handoff_state) (auto simp: find_turn_applied)
  qed (use Cons.prems in \<open>auto simp: find_turn_seed\<close>)
  then show ?case using Cons.IH by (simp add: turn_run_def)
qed (simp add: turn_run_def)

lemma handoff_remembered:
  assumes "handoff writes fault q now x w = (Inr result, w1)"
  shows "find_turn (tw_db w1) (handoff_key q) \<noteq> None \<and>
    (\<exists>i. find_row idempotency_of (hr_task q, hr_conversation q, hr_idempotency_key q) (td_idempotency (tw_db w1)) = Some i \<and>
       ti_fingerprint i = request_fingerprint q \<and> ti_result i = result)"
proof (cases "handoff_replay q (tw_db w)")
  case None
  then obtain t where t: "find_turn (tw_db w) (handoff_key q) = Some t" "result = handed_off q now t" "tw_db w1 = applied_db q now x t (tw_db w)"
    using handoff_Inr [OF assms] by auto
  moreover have "find_row idempotency_of (hr_task q, hr_conversation q, hr_idempotency_key q) (td_idempotency (tw_db w)) = None"
    using None by (simp add: handoff_replay_None find_row_None_iff)
  ultimately show ?thesis
    using find_turn_key [OF t(1)]
    by (simp add: find_turn_applied applied_tables find_row_append) (simp add: idempotency_of_def)
next
  case (Some r)
  then have same: "w1 = w" "r = Inr result" using handoff_Inr [OF assms] by auto
  have "find_turn (tw_db w) (handoff_key q) \<noteq> None"
    using assms by (auto simp: handoff_def transaction_def handoff_body_def bindS_checkpoint bindS_status handoff_key_def split: if_splits option.splits)
  then show ?thesis using Some unfolding same by (auto simp: handoff_replay_def split: option.splits if_splits)
qed

text \<open>
  C33. One key is applied once: after a handoff that succeeded, whatever seeds and handoffs follow, the same request returns the same
  row, a different request under its key is refused as a conflict, and neither changes anything.
\<close>

theorem handoffs_apply_once:
  assumes "turn_inv (tw_db w)" "handoff writes fault q now x w = (Inr result, w1)" "\<not> fault2 ''after_begin''"
    and "handoff_key p = handoff_key q" "hr_idempotency_key p = hr_idempotency_key q"
  shows "snd (handoff writes2 fault2 p now2 x2 (turn_run w1 ops)) = turn_run w1 ops \<and>
    (if p = q then fst (handoff writes2 fault2 p now2 x2 (turn_run w1 ops)) = Inr result
     else \<exists>m. fst (handoff writes2 fault2 p now2 x2 (turn_run w1 ops)) = Inl (IdempotencyConflict m))"
proof -
  let ?w = "turn_run w1 ops" and ?k = "(hr_task q, hr_conversation q, hr_idempotency_key q)"
  obtain i where i: "find_row idempotency_of ?k (td_idempotency (tw_db w1)) = Some i" "ti_fingerprint i = request_fingerprint q" "ti_result i = result"
    using handoff_remembered [OF assms(2)] by blast
  have "w1 = turn_step w (Handoff writes fault q now x)" using assms(2) by simp
  then have "turn_inv (tw_db w1)" using turns.step_inv [OF assms(1)] by metis
  then have "find_row idempotency_of ?k (td_idempotency (tw_db ?w)) = Some i"
    unfolding turn_run_def using i(1) by (intro turns.final_run) simp_all
  moreover have "find_turn (tw_db ?w) (handoff_key p) \<noteq> None" using turn_kept handoff_remembered [OF assms(2)] assms(4) by metis
  moreover have "(hr_task p, hr_conversation p, hr_idempotency_key p) = ?k" using assms(4,5) by (simp add: handoff_key_def)
  ultimately show ?thesis
    using handoff_replayed [of ?w p _ fault2 writes2 now2 x2] assms(3) i request_fingerprint_same [OF assms(4,5)]
    by (cases "p = q") (auto simp: handoff_replay_def)
qed

section \<open>The chain of owners\<close>

definition audits :: "turn_db \<Rightarrow> string \<times> string \<Rightarrow> turn_audit list" where
  "audits d k = filter (\<lambda>a. (ta_task a, ta_conversation a) = k) (td_audit d)"

fun linked :: "string \<times> int \<Rightarrow> turn_audit list \<Rightarrow> string \<times> int \<Rightarrow> bool" where
  "linked x [] y \<longleftrightarrow> x = y"
| "linked (owner, epoch) (a # as) y \<longleftrightarrow> ta_from a = owner \<and> ta_epoch a = epoch + 1 \<and> linked (ta_to a, ta_epoch a) as y"

lemma linked_append: "linked x as y \<Longrightarrow> linked y bs z \<Longrightarrow> linked x (as @ bs) z"
  by (induction x as y rule: linked.induct) auto

lemma linked_epoch: "linked x as y \<Longrightarrow> snd y = snd x + int (length as)"
  by (induction x as y rule: linked.induct) auto

text \<open>An audited handoff that a call of the run asked for, by the agent that it names as the owner before and for the epoch before.\<close>

definition asked_for :: "turn_op list \<Rightarrow> turn_audit \<Rightarrow> bool" where
  "asked_for ops a \<longleftrightarrow>
     (\<exists>writes fault q. Handoff writes fault q (ta_created_at a) (ta_execution_id a) \<in> set ops \<and> handoff_key q = (ta_task a, ta_conversation a) \<and>
        ta_from a = hr_requesting_agent q \<and> ta_epoch a = hr_expected_epoch q + 1 \<and> ta_to a = hr_to_agent q \<and> ta_idempotency_key a = hr_idempotency_key q)"

lemma asked_for_mono: "asked_for ops a \<Longrightarrow> set ops \<subseteq> set ops' \<Longrightarrow> asked_for ops' a"
  unfolding asked_for_def by blast

lemma turn_step_linked:
  assumes "find_turn (tw_db w) k = Some t" "\<forall>task c owner st now. op = Seed task c owner st now \<longrightarrow> (task, c) \<noteq> k"
  shows "\<exists>t' new. find_turn (tw_db (turn_step w op)) k = Some t' \<and> audits (tw_db (turn_step w op)) k = audits (tw_db w) k @ new \<and>
    linked (tu_owner t, tu_epoch t) new (tu_owner t', tu_epoch t') \<and> list_all (asked_for [op]) new"
proof (cases op)
  case (Seed task c owner st now)
  then show ?thesis
    using assms by (intro exI [of _ t] exI [of _ "[]"]) (auto simp: find_turn_seed audits_def seed_tables)
next
  case (Handoff writes fault q now x)
  show ?thesis
  proof (cases writes fault q now x w rule: handoff_state)
    case 1
    then show ?thesis using Handoff assms(1) by (intro exI [of _ t] exI [of _ "[]"]) simp
  next
    case (2 u)
    have key: "turn_key u = handoff_key q" by (rule find_turn_key [OF 2(1)])
    show ?thesis
    proof (cases "handoff_key q = k")
      case True
      then have "u = t" using 2(1) assms(1) by simp
      moreover have "hr_requesting_agent q = tu_owner u" "hr_expected_epoch q = tu_epoch u"
        using 2(3) by (simp_all add: handoff_check_def split: if_splits)
      ultimately show ?thesis
        using 2(5) Handoff True key
        by (simp add: find_turn_applied audits_def applied_tables asked_for_def) (auto simp: handoff_key_def handed_off_def)
    next
      case False
      then show ?thesis
        using 2(5) Handoff assms(1) key
        by (intro exI [of _ t] exI [of _ "[]"]) (auto simp: find_turn_applied audits_def applied_tables handoff_key_def)
    qed
  qed
qed

text \<open>
  A turn has one owner per epoch: while a conversation is not seeded again, its handoffs form a chain in the audit table, each
  from the agent the one before went to, with consecutive epochs, from the owner at the start to the owner at the end; and each was
  asked for by a call of this owner that expected the epoch before.
\<close>

theorem handoffs_form_a_chain:
  assumes "find_turn (tw_db w) k = Some t" "\<forall>task c owner st now. Seed task c owner st now \<in> set ops \<longrightarrow> (task, c) \<noteq> k"
  shows "\<exists>t' new. find_turn (tw_db (turn_run w ops)) k = Some t' \<and> audits (tw_db (turn_run w ops)) k = audits (tw_db w) k @ new \<and>
    linked (tu_owner t, tu_epoch t) new (tu_owner t', tu_epoch t') \<and> tu_epoch t' = tu_epoch t + int (length new) \<and>
    list_all (asked_for ops) new"
proof -
  have "\<exists>t' new. find_turn (tw_db (turn_run w ops)) k = Some t' \<and> audits (tw_db (turn_run w ops)) k = audits (tw_db w) k @ new \<and>
    linked (tu_owner t, tu_epoch t) new (tu_owner t', tu_epoch t') \<and> list_all (asked_for ops) new"
    using assms
  proof (induction ops arbitrary: w t)
    case (Cons op ops)
    then obtain u mid where u: "find_turn (tw_db (turn_step w op)) k = Some u" "audits (tw_db (turn_step w op)) k = audits (tw_db w) k @ mid"
      "linked (tu_owner t, tu_epoch t) mid (tu_owner u, tu_epoch u)" "list_all (asked_for [op]) mid" using turn_step_linked [of w k t op] by (metis list.set_intros(1))
    then obtain t' new where "find_turn (tw_db (turn_run (turn_step w op) ops)) k = Some t'"
      "audits (tw_db (turn_run (turn_step w op) ops)) k = audits (tw_db (turn_step w op)) k @ new"
      "linked (tu_owner u, tu_epoch u) new (tu_owner t', tu_epoch t')" "list_all (asked_for ops) new" using Cons.IH [OF u(1)] Cons.prems(2) by (metis list.set_intros(2))
    moreover have "list_all (asked_for (op # ops)) mid" "list_all (asked_for (op # ops)) new"
      using u(4) calculation(4) by (auto simp: list_all_iff intro: asked_for_mono)
    ultimately show ?case using u(2) linked_append [OF u(3)]
      by (intro exI [of _ t'] exI [of _ "mid @ new"]) (simp add: turn_run_def)
  qed (simp add: turn_run_def)
  then show ?thesis using linked_epoch by fastforce
qed

section \<open>A concrete run\<close>

definition demo_handoff :: handoff_request where
  "demo_handoff = \<lparr>hr_task = ''t'', hr_conversation = ''c'', hr_requesting_agent = ''fen'', hr_to_agent = ''gus'', hr_expected_epoch = 0,
     hr_idempotency_key = ''k'', hr_reason = None, hr_evidence = None\<rparr>"

definition demo_turn :: turn_world where
  "demo_turn = turn_run \<lparr>tw_db = empty_turn_db, tw_log = []\<rparr> [Seed ''t'' ''c'' ''fen'' ''ACTIVE'' 1]"

lemma demo_turn_handed: "\<exists>result w1. handoff True (\<lambda>_. False) demo_handoff 2 ''x'' demo_turn = (Inr result, w1) \<and> tu_owner result = ''gus''"
proof -
  have "case handoff True (\<lambda>_. False) demo_handoff 2 ''x'' demo_turn of (Inr result, _) \<Rightarrow> tu_owner result = ''gus'' | _ \<Rightarrow> False" by code_simp
  then show ?thesis by (auto split: prod.splits sum.splits)
qed

theorem handoffs_apply_once_witness:
  "\<exists>result w1. handoff True (\<lambda>_. False) demo_handoff 2 ''x'' demo_turn = (Inr result, w1) \<and>
     fst (handoff True (\<lambda>_. False) demo_handoff 9 ''y'' (turn_run w1 [Seed ''t'' ''c'' ''eve'' ''ACTIVE'' 5])) = Inr result"
proof -
  obtain result w1 where "handoff True (\<lambda>_. False) demo_handoff 2 ''x'' demo_turn = (Inr result, w1)" using demo_turn_handed by blast
  moreover have "turn_inv (tw_db demo_turn)"
    unfolding demo_turn_def turn_run_def by (rule turns.run_inv) (simp add: turn_inv_def empty_turn_db_def)
  ultimately show ?thesis
    using handoffs_apply_once [of demo_turn True "\<lambda>_. False" demo_handoff 2 "''x''" result w1 "\<lambda>_. False" demo_handoff] by force
qed

theorem handoffs_form_a_chain_witness:
  "\<exists>t t' new. find_turn (tw_db demo_turn) (''t'', ''c'') = Some t \<and>
     find_turn (tw_db (turn_run demo_turn [Handoff True (\<lambda>_. False) demo_handoff 2 ''x''])) (''t'', ''c'') = Some t' \<and>
     linked (tu_owner t, tu_epoch t) new (tu_owner t', tu_epoch t')"
proof -
  have "find_turn (tw_db demo_turn) (''t'', ''c'') \<noteq> None" by code_simp
  then obtain t where t: "find_turn (tw_db demo_turn) (''t'', ''c'') = Some t" by blast
  then show ?thesis using handoffs_form_a_chain [OF t, of "[Handoff True (\<lambda>_. False) demo_handoff 2 ''x'']"] by auto
qed

text \<open>
  A seed starts the epochs again but forgets no key: the first handoff of the new turn, if it looks like the first of the old
  one, is answered with the old result and does not happen.
\<close>

lemma reseeded_handoff_is_swallowed:
  "let w = turn_run demo_turn [Handoff True (\<lambda>_. False) demo_handoff 2 ''x'', Seed ''t'' ''c'' ''fen'' ''ACTIVE'' 5];
       (r, w') = handoff True (\<lambda>_. False) demo_handoff 6 ''y'' w in
   (case r of Inr result \<Rightarrow> tu_owner result = ''gus'' | Inl _ \<Rightarrow> False) \<and> map_option tu_owner (find_turn (tw_db w') (''t'', ''c'')) = Some ''fen''"
  by code_simp

end
