(* ===== verification/HostControl.thy ===== *)
theory HostControl
  imports Effects PyText Contracts
begin

text \<open>
  The restart of the telephony console: server/asterisk_process_identity.py, the root broker
  server/edge1_operator_privileged_broker.py, and the typed action of server/edge1_operations_typed_actions.py that
  calls it over its socket. Every command, file or clock the code reads is an observation of the host; successive
  observations have successive numbers, so the host may change between any two of them.
\<close>

section \<open>The host\<close>

record runtime_marker =
  mk_regular :: bool
  mk_uid :: int
  mk_writable_by_others :: bool
  mk_size :: int
  mk_value :: "json option"

record host_env =
  he_fails :: "nat \<Rightarrow> py_error option"
  he_main_pid :: "nat \<Rightarrow> string \<Rightarrow> string option"
  he_active :: "nat \<Rightarrow> string \<Rightarrow> bool"
  he_pidfile :: "nat \<Rightarrow> string \<Rightarrow> string option"
  he_comm :: "nat \<Rightarrow> int \<Rightarrow> string option"
  he_processes :: "nat \<Rightarrow> (string \<times> (string list) option) list"
  he_source :: "nat \<Rightarrow> string option"
  he_source_clean :: "nat \<Rightarrow> bool"
  he_head :: "nat \<Rightarrow> string option"
  he_marker :: "nat \<Rightarrow> runtime_marker option"
  he_restart_status :: "nat \<Rightarrow> int"
  he_health :: "nat \<Rightarrow> bool"
  he_peer :: "nat \<Rightarrow> int \<times> int \<times> int"
  he_allowed_uid :: int
  he_cgroup :: "nat \<Rightarrow> int \<Rightarrow> string option"
  he_audit_fails :: "nat \<Rightarrow> bool"
  he_connects :: "nat \<Rightarrow> bool"
  he_answers :: "nat \<Rightarrow> bool"
  he_clock :: "nat \<Rightarrow> string"
  he_uuid :: "nat \<Rightarrow> string"

text \<open>The number of observations so far, the restarts with their numbers, the broker's audit file.\<close>

record host =
  ho_reads :: nat
  ho_restarts :: "nat list"
  ho_audit :: "doc list"

type_synonym ('e, 'a) host_act = "('e, host, 'a) eact"

definition observe_host :: "(nat \<Rightarrow> 'a) \<Rightarrow> ('e, 'a) host_act" where
  "observe_host f h = (Inr (f (ho_reads h)), h\<lparr>ho_reads := Suc (ho_reads h)\<rparr>)"

text \<open>A command that may time out, or a file that may not be readable.\<close>

definition command :: "host_env \<Rightarrow> (nat \<Rightarrow> 'a) \<Rightarrow> (py_error, 'a) host_act" where
  "command env f h =
     (let h' = h\<lparr>ho_reads := Suc (ho_reads h)\<rparr> in
      case he_fails env (ho_reads h) of Some e \<Rightarrow> (Inl e, h') | None \<Rightarrow> (Inr (f (ho_reads h)), h'))"

definition must :: "bool \<Rightarrow> string \<Rightarrow> (py_error, unit) host_act" where
  "must ok m = (if ok then ret () else raise_err (RuntimeError m))"

section \<open>Process identity\<close>

definition asterisk_service :: string where
  "asterisk_service = ''asterisk.service''"

definition pidfiles :: "string list" where
  "pidfiles = [''/run/asterisk/asterisk.pid'', ''/var/run/asterisk/asterisk.pid'']"

definition valid_pid :: "(int \<Rightarrow> string option) \<Rightarrow> string \<Rightarrow> int option" where
  "valid_pid comm value =
     (case int_of_str value of
        None \<Rightarrow> None
      | Some pid \<Rightarrow>
          if pid \<le> 1 then None
          else (case comm pid of None \<Rightarrow> None | Some name \<Rightarrow> if strip name = ''asterisk'' then Some pid else None))"

text \<open>The first word of the first line of a pid file.\<close>

definition line_break :: "char \<Rightarrow> bool" where
  "line_break c \<longleftrightarrow> c \<in> set [CHR 0x0A, CHR 0x0D, CHR 0x0B, CHR 0x0C, CHR 0x1C, CHR 0x1D, CHR 0x1E, CHR 0x85]"

definition first_word :: "string \<Rightarrow> string option" where
  "first_word contents = (case py_words (takeWhile (\<lambda>c. \<not> line_break c) contents) of [] \<Rightarrow> None | w # _ \<Rightarrow> Some w)"

definition pidfile_pid :: "(int \<Rightarrow> string option) \<Rightarrow> (string \<Rightarrow> string option) \<Rightarrow> string \<Rightarrow> (int \<times> string) option" where
  "pidfile_pid comm pidfile path =
     (case pidfile path of
        None \<Rightarrow> None
      | Some contents \<Rightarrow>
          (case first_word contents of
             None \<Rightarrow> None
           | Some w \<Rightarrow> map_option (\<lambda>pid. (pid, ''pidfile:'' @ path)) (valid_pid comm w)))"

definition procfs_matches :: "(int \<Rightarrow> string option) \<Rightarrow> (string \<times> (string list) option) list \<Rightarrow> int list" where
  "procfs_matches comm processes =
     List.map_filter (\<lambda>(name, argv).
       if name = [] \<or> \<not> list_all is_digit name then None
       else case valid_pid comm name of
         None \<Rightarrow> None
       | Some pid \<Rightarrow> (case argv of Some args \<Rightarrow> if ''-f'' \<in> set args then Some pid else None | None \<Rightarrow> None)) processes"

fun first_some :: "('a \<Rightarrow> 'b option) \<Rightarrow> 'a list \<Rightarrow> 'b option" where
  "first_some f [] = None"
| "first_some f (x # xs) = (case f x of Some y \<Rightarrow> Some y | None \<Rightarrow> first_some f xs)"

definition identify_asterisk :: "host_env \<Rightarrow> nat \<Rightarrow> (int \<times> string) option" where
  "identify_asterisk env k =
     (case (case he_main_pid env k asterisk_service of None \<Rightarrow> None | Some t \<Rightarrow> valid_pid (he_comm env k) (strip t)) of
        Some pid \<Rightarrow> Some (pid, ''systemd:MainPID'')
      | None \<Rightarrow>
          (case first_some (pidfile_pid (he_comm env k) (he_pidfile env k)) pidfiles of
             Some r \<Rightarrow> Some r
           | None \<Rightarrow>
               (case procfs_matches (he_comm env k) (he_processes env k) of
                  [pid] \<Rightarrow> Some (pid, ''procfs:unique-asterisk-f'')
                | _ \<Rightarrow> None)))"

definition resolve_asterisk_pid :: "host_env \<Rightarrow> (py_error, int \<times> string) host_act" where
  "resolve_asterisk_pid env =
     bindS (command env (identify_asterisk env)) (\<lambda>r.
       case r of Some v \<Rightarrow> ret v | None \<Rightarrow> raise_err (RuntimeError ''unable to resolve one validated Asterisk process''))"

section \<open>Services and the source\<close>

definition telephony_service :: string where
  "telephony_service = ''wwcx-telephony-console.service''"

definition messaging_service :: string where
  "messaging_service = ''wwcx-messaging-gateway.service''"

text \<open>\<open>MainPID\<close>; 0 when the command fails or prints no number.\<close>

definition shown_pid :: "string option \<Rightarrow> int" where
  "shown_pid t = (case t of
       None \<Rightarrow> 0
     | Some t \<Rightarrow> if strip t \<noteq> [] \<and> list_all is_digit (strip t) then int (digits_value 0 (strip t)) else 0)"

definition service_pid :: "host_env \<Rightarrow> string \<Rightarrow> (py_error, int) host_act" where
  "service_pid env service = command env (\<lambda>k. shown_pid (he_main_pid env k service))"

definition service_active :: "host_env \<Rightarrow> string \<Rightarrow> (py_error, bool) host_act" where
  "service_active env service = command env (\<lambda>k. he_active env k service)"

definition shown_head :: "string option \<Rightarrow> string" where
  "shown_head t = (case t of None \<Rightarrow> [] | Some t \<Rightarrow> strip t)"

definition repo_head :: "host_env \<Rightarrow> (py_error, string) host_act" where
  "repo_head env = command env (\<lambda>k. shown_head (he_head env k))"

definition source_sha256 :: "host_env \<Rightarrow> (py_error, string) host_act" where
  "source_sha256 env =
     bindS (command env (he_source env)) (\<lambda>r. case r of Some digest \<Rightarrow> ret digest | None \<Rightarrow> raise_err (OtherError ''FileNotFoundError''))"

definition source_is_file :: "host_env \<Rightarrow> ('e, bool) host_act" where
  "source_is_file env = observe_host (\<lambda>k. he_source env k \<noteq> None)"

definition lower_hex :: "nat \<Rightarrow> string \<Rightarrow> bool" where
  "lower_hex n t \<longleftrightarrow> length t = n \<and> list_all (\<lambda>c. is_digit c \<or> char_in (CHR ''a'') (CHR ''f'') c) t"

definition hex_field :: "nat \<Rightarrow> json \<Rightarrow> bool" where
  "hex_field n v \<longleftrightarrow> (case v of JStr t \<Rightarrow> lower_hex n t | _ \<Rightarrow> False)"

definition positive_int :: "json \<Rightarrow> bool" where
  "positive_int v \<longleftrightarrow> (case v of JInt n \<Rightarrow> n > 0 | _ \<Rightarrow> False)"

definition request_id_field :: "json \<Rightarrow> bool" where
  "request_id_field v \<longleftrightarrow> (case v of JStr t \<Rightarrow> chars_text ''._:-'' 16 128 t | _ \<Rightarrow> False)"

section \<open>The broker\<close>

datatype broker_exn = BadRequest string

definition bad :: "bool \<Rightarrow> string \<Rightarrow> broker_exn + unit" where
  "bad ok m = (if ok then Inr () else Inl (BadRequest m))"

definition request_fields :: "string list" where
  "request_fields = [''version'', ''action'', ''request_id'', ''expected_pid'', ''expected_source_sha256'', ''expected_repo_head'']"

definition validate_request :: "json \<Rightarrow> broker_exn + doc" where
  "validate_request v =
     (case v of
        JObj d \<Rightarrow>
          bindE (bad (set (map fst d) = set request_fields) ''request fields do not match protocol'') (\<lambda>_.
          bindE (bad (jget d ''version'' \<in> {JInt 1, JBool True} \<and> jget d ''action'' = JStr ''telephony_console_reload'')
            ''unsupported privileged action'') (\<lambda>_.
          bindE (bad (request_id_field (jget d ''request_id'')) ''invalid request_id'') (\<lambda>_.
          bindE (bad (positive_int (jget d ''expected_pid'')) ''invalid expected_pid'') (\<lambda>_.
          bindE (bad (hex_field 64 (jget d ''expected_source_sha256'')) ''invalid expected_source_sha256'') (\<lambda>_.
          bindE (bad (hex_field 40 (jget d ''expected_repo_head'')) ''invalid expected_repo_head'') (\<lambda>_.
          Inr d))))))
      | _ \<Rightarrow> Inl (BadRequest ''request fields do not match protocol''))"

text \<open>
  Reading a line of at most 8192 bytes from a socket: what arrives comes in segments, and a segment that is longer than a read
  may take is left for the next one.
\<close>

function receive_line :: "string \<Rightarrow> string list \<Rightarrow> string" where
  "receive_line got segments =
     (if length got > 8192 then got
      else case segments of
        [] \<Rightarrow> got
      | segment # rest \<Rightarrow>
          if segment = [] then got
          else let n = min 4096 (8193 - length got); chunk = take n segment; left = drop n segment in
            if CHR 0x0A \<in> set chunk then got @ chunk
            else receive_line (got @ chunk) (if left = [] then rest else left # rest))"
  by pat_completeness auto
termination
  by (relation "measure (\<lambda>(got, segments). sum_list (map length segments))") (auto simp: Let_def min_def)

declare receive_line.simps [simp del]

definition first_line :: "string \<Rightarrow> string" where
  "first_line t = takeWhile (\<lambda>c. c \<noteq> CHR 0x0A) t"

text \<open>Text is that of the model's JSON; bytes that are not its encoding are not JSON.\<close>

definition receive_request :: "string list \<Rightarrow> broker_exn + doc" where
  "receive_request segments =
     (let got = receive_line [] segments in
      if got = [] \<or> length got > 8192 then Inl (BadRequest ''request size is invalid'')
      else case json_loads (first_line got) of
        None \<Rightarrow> Inl (BadRequest ''request is not valid JSON'')
      | Some v \<Rightarrow> validate_request v)"

definition ends_with :: "string \<Rightarrow> string \<Rightarrow> bool" where
  "ends_with t suffix \<longleftrightarrow> length suffix \<le> length t \<and> drop (length t - length suffix) t = suffix"

definition rstrip :: "string \<Rightarrow> string" where
  "rstrip t = rev (dropWhile is_space (rev t))"

text \<open>The lines of a text; the empty ones between or after two breaks do not matter here.\<close>

definition split_lines :: "string \<Rightarrow> string list" where
  "split_lines t = split_on (CHR 0x0A) (map (\<lambda>c. if line_break c then CHR 0x0A else c) t)"

definition allowed_cgroup :: string where
  "allowed_cgroup = ''edge1-operations-api.service''"

definition in_allowed_cgroup :: "string \<Rightarrow> bool" where
  "in_allowed_cgroup contents \<longleftrightarrow>
     list_ex (\<lambda>line. ends_with (rstrip line) (''/system.slice/'' @ allowed_cgroup) \<or> ends_with (rstrip line) (''/'' @ allowed_cgroup))
       (split_lines contents)"

definition peer_is_operations_api :: "host_env \<Rightarrow> int \<Rightarrow> int \<Rightarrow> (broker_exn, bool) host_act" where
  "peer_is_operations_api env pid uid =
     (if uid \<noteq> he_allowed_uid env \<or> pid \<le> 1 then ret False
      else observe_host (\<lambda>k. case he_cgroup env k pid of None \<Rightarrow> False | Some contents \<Rightarrow> in_allowed_cgroup contents))"

text \<open>\<open>_audit\<close> may raise; \<open>_audit_best_effort\<close> does not.\<close>

definition broker_audit :: "host_env \<Rightarrow> doc \<Rightarrow> (py_error, unit) host_act" where
  "broker_audit env entry h =
     (if he_audit_fails env (ho_reads h) then (Inl (OtherError ''OSError''), h\<lparr>ho_reads := Suc (ho_reads h)\<rparr>)
      else (Inr (), h\<lparr>ho_reads := Suc (ho_reads h), ho_audit := ho_audit h @ [entry]\<rparr>))"

definition audit_best_effort :: "host_env \<Rightarrow> doc \<Rightarrow> (broker_exn, unit) host_act" where
  "audit_best_effort env entry h = (Inr (), snd (broker_audit env entry h))"

definition audit_record :: "host_env \<Rightarrow> string \<Rightarrow> string \<Rightarrow> int \<times> int \<times> int \<Rightarrow> string \<Rightarrow> json \<Rightarrow> doc \<Rightarrow> nat \<Rightarrow> doc" where
  "audit_record env started request_id peer status error extra k =
     (case peer of (pid, uid, gid) \<Rightarrow>
       [(''schema'', JStr ''wwcx.edge1-operator-privileged.audit.v1''), (''started_at'', JStr started), (''recorded_at'', JStr (he_clock env k)),
        (''request_id'', JStr request_id), (''action'', JStr ''telephony_console_reload''), (''peer_pid'', JInt pid), (''peer_uid'', JInt uid),
        (''peer_gid'', JInt gid), (''status'', JStr status), (''error'', error)] @ extra)"

text \<open>The approval an administrator left for the current source.\<close>

definition load_approved_runtime :: "host_env \<Rightarrow> (py_error, string \<times> string) host_act" where
  "load_approved_runtime env =
     bindS (observe_host (he_marker env)) (\<lambda>m.
     case m of
       None \<Rightarrow> raise_err (RuntimeError ''approved Telephony runtime marker is unavailable'')
     | Some mk \<Rightarrow>
         bindS (must (mk_regular mk \<and> mk_uid mk = 0 \<and> \<not> mk_writable_by_others mk) ''approved Telephony runtime marker permissions are unsafe'') (\<lambda>_.
         bindS (must (2 \<le> mk_size mk \<and> mk_size mk \<le> 4096) ''approved Telephony runtime marker size is invalid'') (\<lambda>_.
         case mk_value mk of
           None \<Rightarrow> raise_err (RuntimeError ''approved Telephony runtime marker is invalid'')
         | Some (JObj d) \<Rightarrow>
             bindS (must (set (map fst d) = {''version'', ''service'', ''repo_head'', ''source_sha256''})
               ''approved Telephony runtime marker fields are invalid'') (\<lambda>_.
             bindS (must (jget d ''version'' \<in> {JInt 1, JBool True} \<and> jget d ''service'' = JStr telephony_service)
               ''approved Telephony runtime marker target is invalid'') (\<lambda>_.
             bindS (must (hex_field 40 (jget d ''repo_head'')) ''approved Telephony runtime commit is invalid'') (\<lambda>_.
             bindS (must (hex_field 64 (jget d ''source_sha256'')) ''approved Telephony runtime digest is invalid'') (\<lambda>_.
             ret (py_str (jget d ''repo_head''), py_str (jget d ''source_sha256''))))))
         | Some _ \<Rightarrow> raise_err (RuntimeError ''approved Telephony runtime marker fields are invalid''))))"

fun wait_active :: "host_env \<Rightarrow> string \<Rightarrow> nat \<Rightarrow> (py_error, bool) host_act" where
  "wait_active env service 0 = ret False"
| "wait_active env service (Suc n) =
     bindS (service_active env service) (\<lambda>active. if active then ret True else wait_active env service n)"

definition restart_service :: "host_env \<Rightarrow> (py_error, int) host_act" where
  "restart_service env h =
     (let h' = h\<lparr>ho_reads := Suc (ho_reads h), ho_restarts := ho_restarts h @ [ho_reads h]\<rparr> in
      case he_fails env (ho_reads h) of Some e \<Rightarrow> (Inl e, h') | None \<Rightarrow> (Inr (he_restart_status env (ho_reads h)), h'))"

text \<open>Everything that is checked before the restart; the pids that must survive it.\<close>

definition reload_preconditions :: "host_env \<Rightarrow> doc \<Rightarrow> (py_error, int \<times> (int \<times> string) \<times> int) host_act" where
  "reload_preconditions env d =
     bindS (source_is_file env) (\<lambda>present.
     bindS (if present then command env (he_source_clean env) else ret False) (\<lambda>clean.
     bindS (must clean ''Telephony source is unavailable or differs from HEAD'') (\<lambda>_.
     bindS (service_active env telephony_service) (\<lambda>active.
     bindS (must active ''telephony console inactive'') (\<lambda>_.
     bindS (service_active env asterisk_service) (\<lambda>asterisk_up.
     bindS (if asterisk_up then service_active env messaging_service else ret False) (\<lambda>up.
     bindS (must up ''dependency inactive'') (\<lambda>_.
     bindS (service_pid env telephony_service) (\<lambda>pid.
     bindS (resolve_asterisk_pid env) (\<lambda>asterisk.
     bindS (service_pid env messaging_service) (\<lambda>messaging.
     bindS (source_sha256 env) (\<lambda>sha.
     bindS (repo_head env) (\<lambda>head.
     bindS (load_approved_runtime env) (\<lambda>(approved_head, approved_sha).
     bindS (must (jget d ''expected_pid'' = JInt pid) ''pid precondition changed'') (\<lambda>_.
     bindS (must (jget d ''expected_source_sha256'' = JStr sha) ''source precondition changed'') (\<lambda>_.
     bindS (must (jget d ''expected_repo_head'' = JStr head) ''repository precondition changed'') (\<lambda>_.
     bindS (must (approved_head = head \<and> approved_sha = sha) ''current Telephony source is not the approved runtime'') (\<lambda>_.
     bindS (must (fst asterisk > 0 \<and> messaging > 0) ''dependency pid unavailable'') (\<lambda>_.
     ret (pid, asterisk, messaging))))))))))))))))))))"

definition reload_result :: "doc \<Rightarrow> int \<Rightarrow> int \<times> string \<Rightarrow> int \<Rightarrow> int \<times> string \<Rightarrow> doc" where
  "reload_result d pid asterisk pid' asterisk' =
    [(''version'', JInt 1), (''action'', JStr ''telephony_console_reload''), (''request_id'', jget d ''request_id''), (''status'', JStr ''succeeded''),
     (''pid_before'', JInt pid), (''pid_after'', JInt pid'), (''approved_runtime'', JBool True), (''asterisk_pid'', JInt (fst asterisk)),
     (''asterisk_pid_source_before'', JStr (snd asterisk)), (''asterisk_pid_source_after'', JStr (snd asterisk')),
     (''asterisk_pid_unchanged'', JBool True), (''messaging_pid_unchanged'', JBool True), (''configuration_changed'', JBool False),
     (''traffic_generated'', JBool False)]"

definition execute_reload :: "host_env \<Rightarrow> doc \<Rightarrow> (py_error, doc) host_act" where
  "execute_reload env d =
     bindS (reload_preconditions env d) (\<lambda>(pid, asterisk, messaging).
     bindS (restart_service env) (\<lambda>status.
     bindS (must (status = 0) ''telephony console restart failed'') (\<lambda>_.
     bindS (wait_active env telephony_service 10) (\<lambda>active.
     bindS (service_pid env telephony_service) (\<lambda>pid'.
     bindS (resolve_asterisk_pid env) (\<lambda>asterisk'.
     bindS (service_pid env messaging_service) (\<lambda>messaging'.
     bindS (must (active \<and> pid' > 0 \<and> pid' \<noteq> pid) ''telephony console process did not rotate cleanly'') (\<lambda>_.
     bindS (must (fst asterisk' = fst asterisk \<and> messaging' = messaging) ''dependency process changed unexpectedly'') (\<lambda>_.
     ret (reload_result d pid asterisk pid' asterisk'))))))))))"

definition broker_send :: "doc \<Rightarrow> string" where
  "broker_send payload =
     (let data = canonical_json (JObj payload) @ [CHR 0x0A] in
      if length data > 8192
      then canonical_json (JObj [(''version'', JInt 1), (''status'', JStr ''error''), (''error'', JStr ''response_too_large'')]) @ [CHR 0x0A]
      else data)"

definition request_denied :: doc where
  "request_denied = [(''version'', JInt 1), (''status'', JStr ''error''), (''error'', JStr ''request_denied'')]"

definition action_failed :: "string \<Rightarrow> doc" where
  "action_failed request_id = [(''version'', JInt 1), (''status'', JStr ''error''), (''error'', JStr ''action_failed''), (''request_id'', JStr request_id)]"

text \<open>One connection: its peer, its request, and the answer. What was known when an exception came decides what is audited.\<close>

definition authorized_reload :: "host_env \<Rightarrow> string \<Rightarrow> int \<times> int \<times> int \<Rightarrow> doc \<Rightarrow> (py_error, doc) host_act" where
  "authorized_reload env started peer d =
     (let i = py_str (jget d ''request_id'') in
      bindS (\<lambda>h. broker_audit env (audit_record env started i peer ''authorized_attempt'' JNull [] (ho_reads h)) h) (\<lambda>_.
      bindS (execute_reload env d) (\<lambda>result.
      bindS (\<lambda>h. broker_audit env (audit_record env started i peer ''succeeded'' JNull
        [(''pid_before'', jget result ''pid_before''), (''pid_after'', jget result ''pid_after'')] (ho_reads h)) h) (\<lambda>_.
      ret result))))"

definition serve_connection :: "host_env \<Rightarrow> string list \<Rightarrow> host \<Rightarrow> string \<times> host" where
  "serve_connection env segments h =
     (let started = he_clock env (ho_reads h); peer = he_peer env (ho_reads h);
          (allowed, h1) = peer_is_operations_api env (fst peer) (fst (snd peer)) (h\<lparr>ho_reads := Suc (ho_reads h)\<rparr>);
          deny = (\<lambda>h. (broker_send request_denied,
            snd (audit_best_effort env (audit_record env started ''unknown'' peer ''denied'' (JStr ''request_denied'') [] (ho_reads h)) h))) in
      if allowed \<noteq> Inr True then deny h1
      else case receive_request segments of
        Inl _ \<Rightarrow> deny h1
      | Inr d \<Rightarrow>
          let i = py_str (jget d ''request_id'') in
          (case authorized_reload env started peer d h1 of
             (Inr result, h2) \<Rightarrow> (broker_send result, h2)
           | (Inl _, h2) \<Rightarrow> (broker_send (action_failed i),
               snd (audit_best_effort env (audit_record env started i peer ''failed'' (JStr ''action_failed'') [] (ho_reads h2)) h2))))"

end
