(* ===== verification/HostReload.thy ===== *)
theory HostReload
  imports HostControl
begin

text \<open>
  The typed action telephony_console_reload of server/edge1_operations_typed_actions.py, which runs as the unprivileged API and
  asks the broker of HostControl over its socket.
\<close>

section \<open>The action\<close>

text \<open>\<open>TypedActionValidationError\<close> is a \<open>ValueError\<close> of its own.\<close>

datatype ops_exn = Invalid string | NotPermitted string | Raises py_error

definition validate_reload :: "json \<Rightarrow> ops_exn + doc" where
  "validate_reload v =
     (case v of
        JObj d \<Rightarrow>
          guard (set (map fst d) = {''expected_pid'', ''expected_source_sha256'', ''expected_repo_head'', ''idempotency_key''})
            (Invalid ''telephony reload parameters do not match the fixed schema'')
          (guard (positive_int (jget d ''expected_pid'')) (Invalid ''expected_pid must be a positive integer'')
          (guard (hex_field 64 (jget d ''expected_source_sha256'')) (Invalid ''expected_source_sha256 must be lowercase SHA-256'')
          (guard (hex_field 40 (jget d ''expected_repo_head'')) (Invalid ''expected_repo_head must be a full lowercase commit SHA'')
          (guard (request_id_field (jget d ''idempotency_key'')) (Invalid ''idempotency_key format is invalid'') (Inr d)))))
      | _ \<Rightarrow> Inl (Invalid ''telephony reload parameters must be an object''))"

definition broker_request :: "doc \<Rightarrow> string \<Rightarrow> doc" where
  "broker_request p request_id =
     [(''version'', JInt 1), (''action'', JStr ''telephony_console_reload''), (''request_id'', JStr request_id),
      (''expected_pid'', jget p ''expected_pid''), (''expected_source_sha256'', jget p ''expected_source_sha256''),
      (''expected_repo_head'', jget p ''expected_repo_head'')]"

definition broker_answer :: "string \<Rightarrow> string \<Rightarrow> doc outcome" where
  "broker_answer response request_id =
     (let got = receive_line [] [response] in
      if got = [] \<or> length got > 8192 then Inl (RuntimeError ''privileged broker returned an invalid response'')
      else case json_loads (first_line got) of
        None \<Rightarrow> Inl (RuntimeError ''privileged broker returned invalid JSON'')
      | Some (JObj d) \<Rightarrow>
          if jget d ''status'' \<noteq> JStr ''succeeded'' then Inl (RuntimeError ''privileged broker denied or failed the fixed action'')
          else if jget d ''action'' \<noteq> JStr ''telephony_console_reload'' \<or> jget d ''request_id'' \<noteq> JStr request_id
          then Inl (RuntimeError ''privileged broker response correlation failed'')
          else Inr d
      | Some _ \<Rightarrow> Inl (RuntimeError ''privileged broker denied or failed the fixed action''))"

definition broker_reload :: "host_env \<Rightarrow> doc \<Rightarrow> string \<Rightarrow> (py_error, doc) host_act" where
  "broker_reload env p request_id =
     bindS (observe_host (he_connects env)) (\<lambda>connected.
     bindS (must connected ''privileged broker is unavailable'') (\<lambda>_ h.
     let (response, h') = serve_connection env [canonical_json (JObj (broker_request p request_id)) @ [CHR 0x0A]] h in
     bindS (observe_host (he_answers env)) (\<lambda>answered.
     bindS (must answered ''privileged broker is unavailable'') (\<lambda>_.
     pure_act (broker_answer response request_id))) h'))"

fun wait_healthy :: "host_env \<Rightarrow> nat \<Rightarrow> (py_error, bool) host_act" where
  "wait_healthy env 0 = ret False"
| "wait_healthy env (Suc n) =
     bindS (service_active env telephony_service) (\<lambda>active.
     bindS (if active then observe_host (he_health env) else ret False) (\<lambda>healthy.
     if healthy then ret True else wait_healthy env n))"

definition action_preconditions :: "host_env \<Rightarrow> doc \<Rightarrow> (py_error, int \<times> (int \<times> string) \<times> int \<times> string \<times> string) host_act" where
  "action_preconditions env p =
     bindS (source_is_file env) (\<lambda>present.
     bindS (must present ''reviewed Telephony Console source is unavailable'') (\<lambda>_.
     bindS (service_active env telephony_service) (\<lambda>active.
     bindS (must active ''Telephony Console is not active'') (\<lambda>_.
     bindS (service_active env asterisk_service) (\<lambda>asterisk_up.
     bindS (if asterisk_up then service_active env messaging_service else ret False) (\<lambda>up.
     bindS (must up ''PBX or Messaging prerequisite is not active'') (\<lambda>_.
     bindS (service_pid env telephony_service) (\<lambda>pid.
     bindS (resolve_asterisk_pid env) (\<lambda>asterisk.
     bindS (service_pid env messaging_service) (\<lambda>messaging.
     bindS (source_sha256 env) (\<lambda>sha.
     bindS (repo_head env) (\<lambda>head.
     bindS (must (jget p ''expected_pid'' = JInt pid) ''Telephony Console PID precondition changed'') (\<lambda>_.
     bindS (must (jget p ''expected_source_sha256'' = JStr sha) ''Telephony Console source digest precondition changed'') (\<lambda>_.
     bindS (must (jget p ''expected_repo_head'' = JStr head) ''repository HEAD precondition changed'') (\<lambda>_.
     bindS (must (fst asterisk > 0 \<and> messaging > 0) ''PBX or Messaging PID is unavailable'') (\<lambda>_.
     ret (pid, asterisk, messaging, sha, head)))))))))))))))))"

text \<open>One bounded attempt to restart again; its own failure is dropped.\<close>

definition attempt_recovery :: "host_env \<Rightarrow> doc \<Rightarrow> string \<Rightarrow> int \<Rightarrow> json \<Rightarrow> (py_error, unit) host_act" where
  "attempt_recovery env p request_id pid_after broker_pid =
     bindS (if pid_after > 0 then ret pid_after else pure_act (int_of_json (if truthy broker_pid then broker_pid else JInt 0))) (\<lambda>expected h.
     (Inr (), if expected > 0 then snd (broker_reload env (dset p ''expected_pid'' (JInt expected)) (request_id @ ''-recovery'') h) else h))"

definition reload_report :: "int \<Rightarrow> int \<times> string \<Rightarrow> string \<Rightarrow> string \<Rightarrow> string \<Rightarrow> int \<Rightarrow> int \<times> string \<Rightarrow> doc" where
  "reload_report pid asterisk sha head request_id pid' asterisk' =
    [(''service'', JStr telephony_service), (''status'', JStr ''succeeded''), (''pid_before'', JInt pid), (''pid_after'', JInt pid'),
     (''source_sha256'', JStr sha), (''repo_head'', JStr head), (''loopback_health'', JBool True), (''asterisk_pid'', JInt (fst asterisk)),
     (''asterisk_pid_source_before'', JStr (snd asterisk)), (''asterisk_pid_source_after'', JStr (snd asterisk')),
     (''asterisk_pid_unchanged'', JBool True), (''messaging_pid_unchanged'', JBool True), (''configuration_changed'', JBool False),
     (''traffic_generated'', JBool False), (''privilege_broker'', JStr ''fixed_unix_socket_v1''), (''broker_request_id'', JStr request_id),
     (''rollback_policy'', JStr ''one_bounded_recovery_restart_same_reviewed_unit'')]"

definition reload_checked :: "host_env \<Rightarrow> doc \<Rightarrow> (py_error, doc) host_act" where
  "reload_checked env p =
     bindS (action_preconditions env p) (\<lambda>(pid, asterisk, messaging, sha, head).
     bindS (observe_host (\<lambda>k. ''ops-'' @ he_uuid env k)) (\<lambda>request_id.
     bindS (broker_reload env p request_id) (\<lambda>broker.
     bindS (wait_healthy env 10) (\<lambda>healthy.
     bindS (service_pid env telephony_service) (\<lambda>pid'.
     bindS (resolve_asterisk_pid env) (\<lambda>asterisk'.
     bindS (service_pid env messaging_service) (\<lambda>messaging'.
     if \<not> healthy \<or> pid' \<le> 0 \<or> pid' = pid \<or> jget broker ''pid_after'' \<noteq> JInt pid' \<or> \<not> (fst asterisk' = fst asterisk \<and> messaging' = messaging)
     then bindS (attempt_recovery env p request_id pid' (jget broker ''pid_after'')) (\<lambda>_.
       raise_err (RuntimeError ''Telephony Console post-reload verification failed; bounded recovery attempted''))
     else ret (reload_report pid asterisk sha head request_id pid' asterisk'))))))))"

definition telephony_console_reload :: "host_env \<Rightarrow> json \<Rightarrow> (ops_exn, doc) host_act" where
  "telephony_console_reload env v h =
     (case validate_reload v of
        Inl e \<Rightarrow> (Inl e, h)
      | Inr p \<Rightarrow> (case reload_checked env p h of (r, h') \<Rightarrow> (map_sum Raises id r, h')))"

text \<open>The table of handlers has this one.\<close>

definition validate_typed_handler :: "string \<Rightarrow> json \<Rightarrow> ops_exn + doc" where
  "validate_typed_handler name v =
     (if name = ''telephony_console_reload'' then validate_reload v else Inl (Invalid ''unknown typed action handler''))"

definition run_typed_handler :: "host_env \<Rightarrow> string \<Rightarrow> json \<Rightarrow> (ops_exn, doc) host_act" where
  "run_typed_handler env name v =
     (if name = ''telephony_console_reload'' then telephony_console_reload env v
      else raise_err (Invalid ''unknown typed action handler''))"

end
