(* ===== verification/VpnStore.thy ===== *)
theory VpnStore
  imports Effects PyText Contracts
begin

text \<open>
  The registration of VPN devices, server/vpn_access_registration.py: policies, devices, acceptances, exemptions and the
  audit table in SQLite, with one definition per method of \<open>RegistrationStore\<close>. Arguments that requests pass on are JSON values.
\<close>

section \<open>Tables\<close>

record vpn_policy =
  po_id :: string
  po_version :: string
  po_title :: string
  po_notice :: string
  po_privacy_url :: string
  po_terms_url :: string
  po_effective_at :: string
  po_created_at :: string
  po_active :: bool

record vpn_device =
  de_id :: string
  de_key_sha256 :: string
  de_addresses_json :: string
  de_display_name :: string
  de_owner :: string
  de_first_seen_at :: string
  de_last_seen_at :: string
  de_quarantined_at :: "string option"
  de_quarantined_by :: string
  de_quarantine_reason :: string
  de_dns_filtering :: bool
  de_proxy_required :: bool
  de_cache_eligible :: bool
  de_detailed_logging :: bool
  de_spamhaus :: bool
  de_created_at :: string
  de_updated_at :: string

record vpn_acceptance =
  ac_id :: string
  ac_device_id :: string
  ac_policy_id :: string
  ac_accepted_at :: string
  ac_expires_at :: string
  ac_actor :: string
  ac_source :: string

record vpn_exemption =
  ex_id :: string
  ex_device_id :: string
  ex_type :: string
  ex_reason :: string
  ex_approved_by :: string
  ex_created_at :: string
  ex_expires_at :: "string option"
  ex_revoked_at :: "string option"
  ex_revoked_by :: string

record vpn_event =
  ev_id :: string
  ev_created_at :: string
  ev_actor :: string
  ev_type :: string
  ev_device_id :: "string option"
  ev_details_json :: string

record vpn_db =
  vd_policies :: "vpn_policy list"
  vd_devices :: "vpn_device list"
  vd_acceptances :: "vpn_acceptance list"
  vd_exemptions :: "vpn_exemption list"
  vd_events :: "vpn_event list"

definition empty_vpn_db :: vpn_db where
  "empty_vpn_db = \<lparr>vd_policies = [], vd_devices = [], vd_acceptances = [], vd_exemptions = [], vd_events = []\<rparr>"

text \<open>
  The clock in microseconds and the fresh ids by the number of their reading; \<open>isoformat\<close>, \<open>fromisoformat\<close> with the conversion
  to UTC, \<open>ip_interface\<close> and SHA-256.
\<close>

record vpn_env =
  vn_days :: int
  vn_now :: "nat \<Rightarrow> int"
  vn_uuid :: "nat \<Rightarrow> string"
  vn_iso :: "int \<Rightarrow> string"
  vn_parse :: "string \<Rightarrow> int outcome"
  vn_interface :: "string \<Rightarrow> string outcome"
  vn_sha256 :: "string \<Rightarrow> string"

record vpn_state =
  vs_db :: vpn_db
  vs_reads :: nat
  vs_draws :: nat

type_synonym 'a vpn_act = "(py_error, vpn_state, 'a) eact"

definition now_act :: "vpn_env \<Rightarrow> int vpn_act" where
  "now_act env s = (Inr (vn_now env (vs_reads s)), s\<lparr>vs_reads := Suc (vs_reads s)\<rparr>)"

definition uuid_act :: "vpn_env \<Rightarrow> string vpn_act" where
  "uuid_act env s = (Inr (vn_uuid env (vs_draws s)), s\<lparr>vs_draws := Suc (vs_draws s)\<rparr>)"

definition read_db :: "(vpn_db \<Rightarrow> 'a) \<Rightarrow> 'a vpn_act" where
  "read_db f s = (Inr (f (vs_db s)), s)"

definition write_db :: "(vpn_db \<Rightarrow> vpn_db) \<Rightarrow> unit vpn_act" where
  "write_db f s = (Inr (), s\<lparr>vs_db := f (vs_db s)\<rparr>)"

text \<open>A connection as a context: an exception undoes the changes of the database.\<close>

definition vpn_transaction :: "'a vpn_act \<Rightarrow> 'a vpn_act" where
  "vpn_transaction m s = (case m s of (Inl e, s') \<Rightarrow> (Inl e, s'\<lparr>vs_db := vs_db s\<rparr>) | r \<Rightarrow> r)"

definition integrity :: py_error where
  "integrity = OtherError ''IntegrityError''"

text \<open>An insertion is refused when a unique column or a reference would be violated.\<close>

definition insert_checked :: "(vpn_db \<Rightarrow> bool) \<Rightarrow> (vpn_db \<Rightarrow> vpn_db) \<Rightarrow> unit vpn_act" where
  "insert_checked ok f s = (if ok (vs_db s) then write_db f s else (Inl integrity, s))"

definition insert_policy :: "vpn_policy \<Rightarrow> unit vpn_act" where
  "insert_policy p = insert_checked
     (\<lambda>d. po_id p \<notin> po_id ` set (vd_policies d) \<and> po_version p \<notin> po_version ` set (vd_policies d))
     (\<lambda>d. d\<lparr>vd_policies := vd_policies d @ [p]\<rparr>)"

definition insert_device :: "vpn_device \<Rightarrow> unit vpn_act" where
  "insert_device r = insert_checked
     (\<lambda>d. de_id r \<notin> de_id ` set (vd_devices d) \<and> de_key_sha256 r \<notin> de_key_sha256 ` set (vd_devices d))
     (\<lambda>d. d\<lparr>vd_devices := vd_devices d @ [r]\<rparr>)"

definition insert_acceptance :: "vpn_acceptance \<Rightarrow> unit vpn_act" where
  "insert_acceptance a = insert_checked
     (\<lambda>d. ac_id a \<notin> ac_id ` set (vd_acceptances d) \<and> ac_device_id a \<in> de_id ` set (vd_devices d) \<and>
       ac_policy_id a \<in> po_id ` set (vd_policies d))
     (\<lambda>d. d\<lparr>vd_acceptances := vd_acceptances d @ [a]\<rparr>)"

definition insert_exemption :: "vpn_exemption \<Rightarrow> unit vpn_act" where
  "insert_exemption x = insert_checked
     (\<lambda>d. ex_id x \<notin> ex_id ` set (vd_exemptions d) \<and> ex_device_id x \<in> de_id ` set (vd_devices d))
     (\<lambda>d. d\<lparr>vd_exemptions := vd_exemptions d @ [x]\<rparr>)"

definition insert_vpn_event :: "vpn_event \<Rightarrow> unit vpn_act" where
  "insert_vpn_event e = insert_checked (\<lambda>d. ev_id e \<notin> ev_id ` set (vd_events d)) (\<lambda>d. d\<lparr>vd_events := vd_events d @ [e]\<rparr>)"

section \<open>Arguments of requests\<close>

definition stripped :: "json \<Rightarrow> string outcome" where
  "stripped v = (case v of JStr t \<Rightarrow> Inr (strip t) | _ \<Rightarrow> Inl (AttributeError ''strip''))"

text \<open>A value bound to a parameter that is compared with a text column.\<close>

definition sql_column :: "json \<Rightarrow> string option outcome" where
  "sql_column v =
     (case v of
        JNull \<Rightarrow> Inr None
      | JStr t \<Rightarrow> Inr (Some t)
      | JBool b \<Rightarrow> Inr (Some (if b then ''1'' else ''0''))
      | JInt i \<Rightarrow> if - (2 ^ 63) \<le> i \<and> i < 2 ^ 63 then Inr (Some (show_int i)) else Inl (OtherError ''OverflowError'')
      | _ \<Rightarrow> Inl (OtherError ''InterfaceError''))"

definition parse_time :: "vpn_env \<Rightarrow> string \<Rightarrow> int outcome" where
  "parse_time env t = vn_parse env (concat (map (\<lambda>c. if c = CHR ''Z'' then ''+00:00'' else [c]) t))"

definition parse_time_field :: "vpn_env \<Rightarrow> json \<Rightarrow> int outcome" where
  "parse_time_field env v = (case v of JStr t \<Rightarrow> parse_time env t | _ \<Rightarrow> Inl (AttributeError ''replace''))"

definition require :: "bool \<Rightarrow> string \<Rightarrow> unit outcome" where
  "require ok m = (if ok then Inr () else Inl (ValueError m))"

definition fingerprint_peer_key :: "vpn_env \<Rightarrow> json \<Rightarrow> string outcome" where
  "fingerprint_peer_key env v =
     bindE (stripped v) (\<lambda>key.
     bindE (require (16 \<le> int (length key) \<and> int (length key) \<le> 4096) ''invalid WireGuard public key'') (\<lambda>_.
     Inr (vn_sha256 env key)))"

fun map_outcome :: "('a \<Rightarrow> 'b outcome) \<Rightarrow> 'a list \<Rightarrow> 'b list outcome" where
  "map_outcome f [] = Inr []"
| "map_outcome f (x # xs) = bindE (f x) (\<lambda>y. bindE (map_outcome f xs) (\<lambda>ys. Inr (y # ys)))"

definition normalize_addresses :: "vpn_env \<Rightarrow> json \<Rightarrow> string list outcome" where
  "normalize_addresses env v =
     (case (case v of JList js \<Rightarrow> Some js | JObj d \<Rightarrow> Some (map (\<lambda>kv. JStr (fst kv)) d) | _ \<Rightarrow> None) of
        None \<Rightarrow> Inl (ValueError ''assigned addresses must be a list'')
      | Some js \<Rightarrow>
          bindE (map_outcome (vn_interface env) (filter (\<lambda>t. t \<noteq> []) (map (\<lambda>j. strip (py_str j)) js))) (\<lambda>ts.
          Inr (sort (remdups ts))))"

definition exemption_types :: "string list" where
  "exemption_types = [''registration'', ''cache'', ''proxy'', ''dns_filtering'', ''detailed_logging'']"

definition policy_flag_names :: "string list" where
  "policy_flag_names =
     [''dns_filtering_enabled'', ''proxy_required'', ''cache_eligible'', ''detailed_logging_permitted'', ''spamhaus_enabled'']"

section \<open>Rows as dictionaries\<close>

definition flag_int :: "bool \<Rightarrow> json" where
  "flag_int b = JInt (if b then 1 else 0)"

definition policy_doc :: "vpn_policy \<Rightarrow> doc" where
  "policy_doc p =
     [(''id'', JStr (po_id p)), (''version'', JStr (po_version p)), (''title'', JStr (po_title p)), (''notice'', JStr (po_notice p)),
      (''privacy_url'', JStr (po_privacy_url p)), (''terms_url'', JStr (po_terms_url p)), (''effective_at'', JStr (po_effective_at p)),
      (''created_at'', JStr (po_created_at p)), (''active'', flag_int (po_active p))]"

definition acceptance_doc :: "vpn_acceptance \<Rightarrow> doc" where
  "acceptance_doc a =
     [(''id'', JStr (ac_id a)), (''device_id'', JStr (ac_device_id a)), (''policy_id'', JStr (ac_policy_id a)),
      (''accepted_at'', JStr (ac_accepted_at a)), (''expires_at'', JStr (ac_expires_at a)), (''actor'', JStr (ac_actor a)),
      (''source'', JStr (ac_source a))]"

definition exemption_doc :: "vpn_exemption \<Rightarrow> doc" where
  "exemption_doc x =
     [(''id'', JStr (ex_id x)), (''device_id'', JStr (ex_device_id x)), (''exemption_type'', JStr (ex_type x)), (''reason'', JStr (ex_reason x)),
      (''approved_by'', JStr (ex_approved_by x)), (''created_at'', JStr (ex_created_at x)), (''expires_at'', opt_str (ex_expires_at x)),
      (''revoked_at'', opt_str (ex_revoked_at x)), (''revoked_by'', JStr (ex_revoked_by x))]"

section \<open>Audit and policies\<close>

definition vpn_audit :: "vpn_env \<Rightarrow> string \<Rightarrow> string \<Rightarrow> string option \<Rightarrow> doc \<Rightarrow> string vpn_act" where
  "vpn_audit env actor event_type device_id details =
     bindS (uuid_act env) (\<lambda>event_id.
     bindS (now_act env) (\<lambda>now.
     bindS (insert_vpn_event \<lparr>ev_id = event_id, ev_created_at = vn_iso env now, ev_actor = (if strip actor = [] then ''system'' else strip actor),
       ev_type = event_type, ev_device_id = device_id, ev_details_json = canonical_json (JObj details)\<rparr>) (\<lambda>_.
     ret event_id)))"

definition deactivate_policies :: "vpn_db \<Rightarrow> vpn_db" where
  "deactivate_policies d = d\<lparr>vd_policies := map (\<lambda>p. p\<lparr>po_active := False\<rparr>) (vd_policies d)\<rparr>"

definition create_policy :: "vpn_env \<Rightarrow> json \<Rightarrow> json \<Rightarrow> json \<Rightarrow> string \<Rightarrow> json \<Rightarrow> json \<Rightarrow> json \<Rightarrow> json \<Rightarrow> doc vpn_act" where
  "create_policy env version title notice actor privacy_url terms_url effective_at activate =
     bindS (pure_act (stripped version)) (\<lambda>version.
     bindS (pure_act (stripped title)) (\<lambda>title.
     bindS (pure_act (stripped notice)) (\<lambda>notice.
     bindS (pure_act (case activate of JBool b \<Rightarrow> Inr b | _ \<Rightarrow> Inl (ValueError ''activate must be a boolean''))) (\<lambda>activate.
     bindS (pure_act (require (version \<noteq> [] \<and> int (length version) \<le> 80) ''policy version is required and must be at most 80 characters'')) (\<lambda>_.
     bindS (pure_act (require (title \<noteq> [] \<and> int (length title) \<le> 200) ''policy title is required and must be at most 200 characters'')) (\<lambda>_.
     bindS (pure_act (require (notice \<noteq> [] \<and> int (length notice) \<le> 12000) ''policy notice is required and must be at most 12000 characters'')) (\<lambda>_.
     bindS (now_act env) (\<lambda>now.
     bindS (if truthy effective_at then pure_act (bindE (parse_time_field env effective_at) (\<lambda>t. Inr (vn_iso env t))) else ret (vn_iso env now)) (\<lambda>effective.
     bindS (uuid_act env) (\<lambda>policy_id.
     vpn_transaction (
       bindS (if activate then write_db deactivate_policies else ret ()) (\<lambda>_.
       bindS (pure_act (stripped privacy_url)) (\<lambda>privacy_url.
       bindS (pure_act (stripped terms_url)) (\<lambda>terms_url.
       bindS (insert_policy \<lparr>po_id = policy_id, po_version = version, po_title = title, po_notice = notice, po_privacy_url = privacy_url,
         po_terms_url = terms_url, po_effective_at = effective, po_created_at = vn_iso env now, po_active = activate\<rparr>) (\<lambda>_.
       bindS (vpn_audit env actor ''policy.created'' None [(''version'', JStr version), (''active'', JBool activate)]) (\<lambda>_.
       read_db (\<lambda>d. case find_row po_id policy_id (vd_policies d) of None \<Rightarrow> [] | Some p \<Rightarrow> policy_doc p)))))))))))))))))"

text \<open>\<open>ORDER BY ... DESC\<close>, rows that tie in the order of their insertion.\<close>

definition descending :: "('r \<Rightarrow> 'k :: linorder) \<Rightarrow> 'r list \<Rightarrow> 'r list" where
  "descending key rows = rev (sort_key key (rev rows))"

definition list_policies :: "doc list vpn_act" where
  "list_policies = read_db (\<lambda>d. map policy_doc
     (rev (sort_key po_active (sort_key po_effective_at (sort_key po_created_at (vd_policies d))))))"

section \<open>Devices\<close>

text \<open>What is in force at a moment: unrevoked exemptions, the latest acceptance with its policy, the active policy.\<close>

definition active_exemptions :: "vpn_env \<Rightarrow> vpn_db \<Rightarrow> string \<Rightarrow> int \<Rightarrow> vpn_exemption list" where
  "active_exemptions env d device_id now =
     descending ex_created_at (filter (\<lambda>x. ex_device_id x = device_id \<and> ex_revoked_at x = None \<and>
       (case ex_expires_at x of None \<Rightarrow> True | Some t \<Rightarrow> t > vn_iso env now)) (vd_exemptions d))"

definition latest_acceptance :: "vpn_db \<Rightarrow> string \<Rightarrow> (vpn_acceptance \<times> vpn_policy) option" where
  "latest_acceptance d device_id =
     (case rev (sort_key (\<lambda>(a, p). ac_accepted_at a)
         (List.map_filter (\<lambda>a. if ac_device_id a = device_id
             then map_option (Pair a) (find_row po_id (ac_policy_id a) (vd_policies d)) else None) (vd_acceptances d))) of
        [] \<Rightarrow> None
      | r # _ \<Rightarrow> Some r)"

definition active_policy :: "vpn_db \<Rightarrow> vpn_policy option" where
  "active_policy d = (case descending po_effective_at (filter po_active (vd_policies d)) of [] \<Rightarrow> None | p # _ \<Rightarrow> Some p)"

definition device_status :: "vpn_env \<Rightarrow> vpn_db \<Rightarrow> vpn_device \<Rightarrow> int \<Rightarrow> string outcome" where
  "device_status env d r now =
     (if (case de_quarantined_at r of None \<Rightarrow> False | Some t \<Rightarrow> t \<noteq> []) then Inr ''quarantined''
      else if ''registration'' \<in> ex_type ` set (active_exemptions env d (de_id r) now) then Inr ''exempt''
      else case latest_acceptance d (de_id r) of
        None \<Rightarrow> Inr ''pending''
      | Some (a, _) \<Rightarrow>
          if (case active_policy d of None \<Rightarrow> False | Some p \<Rightarrow> ac_policy_id a \<noteq> po_id p) then Inr ''policy_update_required''
          else bindE (parse_time env (ac_expires_at a)) (\<lambda>t. Inr (if t \<le> now then ''expired'' else ''registered'')))"

definition flag_fields :: "vpn_device \<Rightarrow> doc" where
  "flag_fields r =
     [(''dns_filtering_enabled'', JBool (de_dns_filtering r)), (''proxy_required'', JBool (de_proxy_required r)),
      (''cache_eligible'', JBool (de_cache_eligible r)), (''detailed_logging_permitted'', JBool (de_detailed_logging r)),
      (''spamhaus_enabled'', JBool (de_spamhaus r))]"

definition latest_doc :: "(vpn_acceptance \<times> vpn_policy) option \<Rightarrow> json" where
  "latest_doc r = (case r of None \<Rightarrow> JNull
     | Some (a, p) \<Rightarrow> JObj (acceptance_doc a @ [(''policy_version'', JStr (po_version p)), (''policy_title'', JStr (po_title p))]))"

definition enrich_device :: "vpn_env \<Rightarrow> vpn_db \<Rightarrow> int \<Rightarrow> vpn_device \<Rightarrow> doc outcome" where
  "enrich_device env d now r =
     bindE (case json_loads (de_addresses_json r) of None \<Rightarrow> Inl (ValueError ''JSONDecodeError'') | Some v \<Rightarrow> Inr v) (\<lambda>addresses.
     bindE (device_status env d r now) (\<lambda>status.
     let exemptions = active_exemptions env d (de_id r) now in
     Inr ([(''id'', JStr (de_id r)), (''peer_key_sha256'', JStr (de_key_sha256 r)), (''display_name'', JStr (de_display_name r)),
        (''owner'', JStr (de_owner r)), (''first_seen_at'', JStr (de_first_seen_at r)), (''last_seen_at'', JStr (de_last_seen_at r)),
        (''quarantined_at'', opt_str (de_quarantined_at r)), (''quarantined_by'', JStr (de_quarantined_by r)),
        (''quarantine_reason'', JStr (de_quarantine_reason r))] @ flag_fields r @
       [(''created_at'', JStr (de_created_at r)), (''updated_at'', JStr (de_updated_at r)), (''assigned_addresses'', addresses),
        (''status'', JStr status), (''active_exemptions'', JList (map (JObj \<circ> exemption_doc) exemptions)),
        (''active_exemption_types'', JList (map JStr (sort (remdups (map ex_type exemptions))))),
        (''latest_acceptance'', latest_doc (latest_acceptance d (de_id r)))])))"

definition find_device :: "vpn_db \<Rightarrow> string option \<Rightarrow> vpn_device option" where
  "find_device d i = (case i of None \<Rightarrow> None | Some t \<Rightarrow> find_row de_id t (vd_devices d))"

definition unknown_device :: py_error where
  "unknown_device = KeyError ''unknown device''"

definition get_device :: "vpn_env \<Rightarrow> json \<Rightarrow> doc vpn_act" where
  "get_device env i =
     bindS (pure_act (sql_column i)) (\<lambda>i.
     bindS (read_db (\<lambda>d. find_device d i)) (\<lambda>r.
     case r of
       None \<Rightarrow> raise_err unknown_device
     | Some r \<Rightarrow> bindS (now_act env) (\<lambda>now. bindS (read_db (\<lambda>d. enrich_device env d now r)) pure_act)))"

definition list_devices :: "vpn_env \<Rightarrow> doc list vpn_act" where
  "list_devices env =
     bindS (now_act env) (\<lambda>now.
     bindS (read_db (\<lambda>d. map_outcome (enrich_device env d now) (descending de_last_seen_at (sort_key de_id (vd_devices d))))) pure_act)"

definition new_device :: "string \<Rightarrow> string \<Rightarrow> string list \<Rightarrow> string \<Rightarrow> string \<Rightarrow> string \<Rightarrow> vpn_device" where
  "new_device i key addresses display_name owner now =
     \<lparr>de_id = i, de_key_sha256 = key, de_addresses_json = json_dumps False (JList (map JStr addresses)), de_display_name = display_name,
      de_owner = owner, de_first_seen_at = now, de_last_seen_at = now, de_quarantined_at = None, de_quarantined_by = [],
      de_quarantine_reason = [], de_dns_filtering = True, de_proxy_required = False, de_cache_eligible = False,
      de_detailed_logging = False, de_spamhaus = True, de_created_at = now, de_updated_at = now\<rparr>"

definition update_device :: "string \<Rightarrow> (vpn_device \<Rightarrow> vpn_device) \<Rightarrow> vpn_db \<Rightarrow> vpn_db" where
  "update_device i f d = d\<lparr>vd_devices := update_where (\<lambda>r. de_id r = i) f (vd_devices d)\<rparr>"

definition upsert_device :: "vpn_env \<Rightarrow> json \<Rightarrow> json \<Rightarrow> string \<Rightarrow> json \<Rightarrow> json \<Rightarrow> doc vpn_act" where
  "upsert_device env peer_public_key assigned_addresses actor display_name owner =
     bindS (pure_act (fingerprint_peer_key env peer_public_key)) (\<lambda>key.
     bindS (pure_act (normalize_addresses env assigned_addresses)) (\<lambda>addresses.
     bindS (pure_act (stripped display_name)) (\<lambda>display_name.
     bindS (pure_act (stripped owner)) (\<lambda>owner.
     bindS (pure_act (require (int (length display_name) \<le> 200 \<and> int (length owner) \<le> 200) ''device name and owner must be at most 200 characters'')) (\<lambda>_.
     bindS (now_act env) (\<lambda>now.
     bindS (vpn_transaction (
       bindS (read_db (\<lambda>d. find_row de_key_sha256 key (vd_devices d))) (\<lambda>row.
       bindS (case row of
           None \<Rightarrow>
             bindS (uuid_act env) (\<lambda>i.
             bindS (insert_device (new_device i key addresses display_name owner (vn_iso env now))) (\<lambda>_. ret (i, ''device.discovered'')))
         | Some r \<Rightarrow>
             bindS (write_db (update_device (de_id r) (\<lambda>r'. r'\<lparr>de_addresses_json := json_dumps False (JList (map JStr addresses)),
               de_display_name := (if display_name = [] then de_display_name r else display_name),
               de_owner := (if owner = [] then de_owner r else owner), de_last_seen_at := vn_iso env now, de_updated_at := vn_iso env now\<rparr>)))
             (\<lambda>_. ret (de_id r, ''device.seen''))) (\<lambda>(i, event_type).
       bindS (vpn_audit env actor event_type (Some i) [(''assigned_addresses'', JList (map JStr addresses)), (''peer_key_sha256'', JStr key)]) (\<lambda>_.
       ret i))))) (\<lambda>i.
     get_device env (JStr i))))))))"

section \<open>Acceptances, exemptions, quarantine, flags\<close>

text \<open>The device of a request; \<open>None\<close> binds NULL, which no row matches.\<close>

definition known_device :: "json \<Rightarrow> vpn_device vpn_act" where
  "known_device i =
     bindS (pure_act (sql_column i)) (\<lambda>i.
     bindS (read_db (\<lambda>d. find_device d i)) (\<lambda>r. case r of None \<Rightarrow> raise_err unknown_device | Some r \<Rightarrow> ret r))"

definition select_policy :: "json \<Rightarrow> vpn_policy vpn_act" where
  "select_policy version =
     bindS (if truthy version
       then bindS (pure_act (stripped version)) (\<lambda>v. read_db (\<lambda>d. find (\<lambda>p. po_version p = v \<and> po_active p) (vd_policies d)))
       else read_db active_policy) (\<lambda>p.
     case p of None \<Rightarrow> raise_err (ValueError ''no matching active policy'') | Some p \<Rightarrow> ret p)"

definition day :: int where
  "day = 24 * 60 * 60 * 1000000"

definition accept_policy :: "vpn_env \<Rightarrow> json \<Rightarrow> string \<Rightarrow> json \<Rightarrow> json \<Rightarrow> doc vpn_act" where
  "accept_policy env device_id actor policy_version source =
     bindS (now_act env) (\<lambda>now.
     let expires = vn_iso env (now + vn_days env * day) in
     vpn_transaction (
       bindS (known_device device_id) (\<lambda>device.
       bindS (select_policy policy_version) (\<lambda>policy.
       bindS (uuid_act env) (\<lambda>i.
       bindS (pure_act (stripped source)) (\<lambda>given.
       bindS (insert_acceptance \<lparr>ac_id = i, ac_device_id = de_id device, ac_policy_id = po_id policy, ac_accepted_at = vn_iso env now,
         ac_expires_at = expires, ac_actor = actor, ac_source = (if given = [] then ''portal'' else given)\<rparr>) (\<lambda>_.
       bindS (vpn_audit env actor ''policy.accepted'' (Some (de_id device))
         [(''policy_version'', JStr (po_version policy)), (''expires_at'', JStr expires), (''source'', source)]) (\<lambda>_.
       read_db (\<lambda>d. case find_row ac_id i (vd_acceptances d) of None \<Rightarrow> [] | Some a \<Rightarrow> acceptance_doc a)))))))))"

definition exemption_expiry :: "vpn_env \<Rightarrow> json \<Rightarrow> string option vpn_act" where
  "exemption_expiry env expires_at =
     (if \<not> truthy expires_at then ret None
      else
        bindS (pure_act (parse_time_field env expires_at)) (\<lambda>t.
        let expiry = vn_iso env t in
        if expiry = [] then ret (Some expiry)
        else
          bindS (pure_act (parse_time env expiry)) (\<lambda>again.
          bindS (now_act env) (\<lambda>now.
          bindS (pure_act (require (\<not> again \<le> now) ''exemption expiry must be in the future'')) (\<lambda>_. ret (Some expiry))))))"

definition add_exemption :: "vpn_env \<Rightarrow> json \<Rightarrow> json \<Rightarrow> json \<Rightarrow> string \<Rightarrow> json \<Rightarrow> doc vpn_act" where
  "add_exemption env device_id exemption_type reason approved_by expires_at =
     bindS (pure_act (stripped exemption_type)) (\<lambda>kind.
     bindS (pure_act (stripped reason)) (\<lambda>reason.
     bindS (pure_act (require (kind \<in> set exemption_types) ''invalid exemption type'')) (\<lambda>_.
     bindS (pure_act (require (reason \<noteq> [] \<and> int (length reason) \<le> 1000) ''exemption reason is required and must be at most 1000 characters'')) (\<lambda>_.
     bindS (exemption_expiry env expires_at) (\<lambda>expiry.
     bindS (uuid_act env) (\<lambda>i.
     vpn_transaction (
       bindS (known_device device_id) (\<lambda>device.
       bindS (now_act env) (\<lambda>now.
       bindS (insert_exemption \<lparr>ex_id = i, ex_device_id = de_id device, ex_type = kind, ex_reason = reason, ex_approved_by = approved_by,
         ex_created_at = vn_iso env now, ex_expires_at = expiry, ex_revoked_at = None, ex_revoked_by = []\<rparr>) (\<lambda>_.
       bindS (vpn_audit env approved_by ''exemption.added'' (Some (de_id device))
         [(''exemption_type'', JStr kind), (''reason'', JStr reason), (''expires_at'', opt_str expiry)]) (\<lambda>_.
       read_db (\<lambda>d. case find_row ex_id i (vd_exemptions d) of None \<Rightarrow> [] | Some x \<Rightarrow> exemption_doc x))))))))))))"

definition find_exemption :: "vpn_db \<Rightarrow> string option \<Rightarrow> vpn_exemption option" where
  "find_exemption d i = (case i of None \<Rightarrow> None | Some t \<Rightarrow> find_row ex_id t (vd_exemptions d))"

definition revoke_exemption :: "vpn_env \<Rightarrow> json \<Rightarrow> string \<Rightarrow> doc vpn_act" where
  "revoke_exemption env exemption_id actor =
     vpn_transaction (
       bindS (pure_act (sql_column exemption_id)) (\<lambda>i.
       bindS (read_db (\<lambda>d. find_exemption d i)) (\<lambda>row.
       case row of
         None \<Rightarrow> raise_err (KeyError ''unknown exemption'')
       | Some x \<Rightarrow>
           bindS (if ex_revoked_at x = None
             then bindS (now_act env) (\<lambda>now.
               bindS (write_db (\<lambda>d. d\<lparr>vd_exemptions := update_where (\<lambda>r. ex_id r = ex_id x)
                 (\<lambda>r. r\<lparr>ex_revoked_at := Some (vn_iso env now), ex_revoked_by := actor\<rparr>) (vd_exemptions d)\<rparr>)) (\<lambda>_.
               bindS (vpn_audit env actor ''exemption.revoked'' (Some (ex_device_id x))
                 [(''exemption_id'', exemption_id), (''exemption_type'', JStr (ex_type x))]) (\<lambda>_. ret ())))
             else ret ()) (\<lambda>_.
           read_db (\<lambda>d. case find_exemption d i of None \<Rightarrow> [] | Some x \<Rightarrow> exemption_doc x)))))"

definition set_quarantine :: "vpn_env \<Rightarrow> json \<Rightarrow> json \<Rightarrow> string \<Rightarrow> json \<Rightarrow> doc vpn_act" where
  "set_quarantine env device_id quarantined actor reason =
     bindS (pure_act (case quarantined of JBool b \<Rightarrow> Inr b | _ \<Rightarrow> Inl (ValueError ''quarantined must be a boolean''))) (\<lambda>quarantined.
     bindS (pure_act (stripped reason)) (\<lambda>reason.
     bindS (pure_act (require (\<not> (quarantined \<and> reason = [])) ''quarantine reason is required'')) (\<lambda>_.
     bindS (vpn_transaction (
       bindS (known_device device_id) (\<lambda>device.
       bindS (if quarantined then bindS (now_act env) (\<lambda>now. ret (Some (vn_iso env now))) else ret None) (\<lambda>moment.
       bindS (now_act env) (\<lambda>now.
       bindS (write_db (update_device (de_id device) (\<lambda>r. r\<lparr>de_quarantined_at := moment, de_quarantined_by := (if quarantined then actor else []),
         de_quarantine_reason := (if quarantined then reason else []), de_updated_at := vn_iso env now\<rparr>))) (\<lambda>_.
       vpn_audit env actor (if quarantined then ''device.quarantined'' else ''device.quarantine_cleared'') (Some (de_id device))
         (if quarantined then [(''reason'', JStr reason)] else []))))))) (\<lambda>_.
     get_device env device_id))))"

fun set_flag :: "string \<Rightarrow> bool \<Rightarrow> vpn_device \<Rightarrow> vpn_device" where
  "set_flag name b r =
     (if name = ''dns_filtering_enabled'' then r\<lparr>de_dns_filtering := b\<rparr>
      else if name = ''proxy_required'' then r\<lparr>de_proxy_required := b\<rparr>
      else if name = ''cache_eligible'' then r\<lparr>de_cache_eligible := b\<rparr>
      else if name = ''detailed_logging_permitted'' then r\<lparr>de_detailed_logging := b\<rparr>
      else if name = ''spamhaus_enabled'' then r\<lparr>de_spamhaus := b\<rparr> else r)"

text \<open>The elements of \<open>set(flags)\<close>, and the flags when all is well.\<close>

definition flag_set :: "json \<Rightarrow> json list outcome" where
  "flag_set v =
     (case v of
        JObj d \<Rightarrow> Inr (map (\<lambda>kv. JStr (fst kv)) d)
      | JList js \<Rightarrow> map_outcome hashable js
      | JStr t \<Rightarrow> Inr (map (\<lambda>c. JStr [c]) t)
      | _ \<Rightarrow> Inl (TypeError ''object is not iterable''))"

definition checked_flags :: "json \<Rightarrow> (string \<times> bool) list outcome" where
  "checked_flags v =
     (if \<not> truthy v then Inl (ValueError ''one or more policy flags are invalid'')
      else
        bindE (flag_set v) (\<lambda>names.
        bindE (require (set names \<subseteq> JStr ` set policy_flag_names) ''one or more policy flags are invalid'') (\<lambda>_.
        case v of
          JObj d \<Rightarrow> map_outcome (\<lambda>(k, j). case j of JBool b \<Rightarrow> Inr (k, b) | _ \<Rightarrow> Inl (ValueError ''policy flag values must be booleans'')) d
        | _ \<Rightarrow> Inl (AttributeError ''values''))))"

definition set_policy_flags :: "vpn_env \<Rightarrow> json \<Rightarrow> json \<Rightarrow> string \<Rightarrow> doc vpn_act" where
  "set_policy_flags env device_id flags actor =
     bindS (pure_act (checked_flags flags)) (\<lambda>assignments.
     bindS (vpn_transaction (
       bindS (known_device device_id) (\<lambda>device.
       bindS (now_act env) (\<lambda>now.
       bindS (write_db (update_device (de_id device) (\<lambda>r. (fold (\<lambda>(k, b). set_flag k b) assignments r)\<lparr>de_updated_at := vn_iso env now\<rparr>))) (\<lambda>_.
       vpn_audit env actor ''device.policy_flags_changed'' (Some (de_id device)) [(''flags'', flags)]))))) (\<lambda>_.
     get_device env device_id))"

section \<open>Reports\<close>

definition event_doc :: "vpn_event \<Rightarrow> doc outcome" where
  "event_doc e =
     bindE (case json_loads (ev_details_json e) of None \<Rightarrow> Inl (ValueError ''JSONDecodeError'') | Some v \<Rightarrow> Inr v) (\<lambda>details.
     Inr [(''id'', JStr (ev_id e)), (''created_at'', JStr (ev_created_at e)), (''actor'', JStr (ev_actor e)), (''event_type'', JStr (ev_type e)),
       (''device_id'', opt_str (ev_device_id e)), (''details'', details)])"

definition audit_events :: "int \<Rightarrow> doc list vpn_act" where
  "audit_events limit =
     bindS (read_db (\<lambda>d. map_outcome event_doc (take (nat (max 1 (min limit 500))) (descending ev_created_at (vd_events d))))) pure_act"

definition record_event :: "vpn_env \<Rightarrow> string \<Rightarrow> string \<Rightarrow> doc \<Rightarrow> string vpn_act" where
  "record_event env actor event_type details = vpn_transaction (vpn_audit env actor event_type None details)"

text \<open>The constructor; the tables exist already.\<close>

definition open_store :: "vpn_env \<Rightarrow> unit vpn_act" where
  "open_store env = pure_act (require (1 \<le> vn_days env \<and> vn_days env \<le> 365) ''registration_days must be between 1 and 365'')"

definition status_names :: "string list" where
  "status_names = [''pending'', ''registered'', ''expired'', ''policy_update_required'', ''exempt'', ''quarantined'']"

definition expiry_of :: "doc \<Rightarrow> string option" where
  "expiry_of d =
     (case jget d ''latest_acceptance'' of
        JObj a \<Rightarrow> if jget d ''status'' = JStr ''registered'' then as_str (jget a ''expires_at'') else None
      | _ \<Rightarrow> None)"

definition vpn_summary :: "vpn_env \<Rightarrow> doc vpn_act" where
  "vpn_summary env =
     bindS (list_devices env) (\<lambda>devices.
     bindS list_policies (\<lambda>policies.
     bindS (now_act env) (\<lambda>now.
     let expiries = sort (List.map_filter expiry_of devices) in
     ret [(''generated_at'', JStr (vn_iso env now)), (''enforcement_active'', JBool False), (''registration_period_days'', JInt (vn_days env)),
       (''device_counts'', JObj (map (\<lambda>n. (n, JInt (int (length (filter (\<lambda>d. jget d ''status'' = JStr n) devices))))) status_names)),
       (''total_devices'', JInt (int (length devices))),
       (''active_policy'', (case filter (\<lambda>p. truthy (jget p ''active'')) policies of
          [] \<Rightarrow> JNull
        | p # _ \<Rightarrow> JObj [(''version'', jget p ''version''), (''title'', jget p ''title''), (''effective_at'', jget p ''effective_at'')])),
       (''next_registration_expiry'', (case expiries of [] \<Rightarrow> JNull | t # _ \<Rightarrow> JStr t))])))"

section \<open>Calls\<close>

datatype vpn_call =
    CreatePolicy json json json string json json json json
  | UpsertDevice json json string json json
  | AcceptPolicy json string json json
  | AddExemption json json json string json
  | RevokeExemption json string
  | SetQuarantine json json string json
  | SetPolicyFlags json json string
  | RecordEvent string string doc

fun vpn_act_of :: "vpn_env \<Rightarrow> vpn_call \<Rightarrow> doc vpn_act" where
  "vpn_act_of env (CreatePolicy version title notice actor privacy terms effective activate) =
     create_policy env version title notice actor privacy terms effective activate"
| "vpn_act_of env (UpsertDevice key addresses actor name owner) = upsert_device env key addresses actor name owner"
| "vpn_act_of env (AcceptPolicy device actor version source) = accept_policy env device actor version source"
| "vpn_act_of env (AddExemption device kind reason approved expires) = add_exemption env device kind reason approved expires"
| "vpn_act_of env (RevokeExemption i actor) = revoke_exemption env i actor"
| "vpn_act_of env (SetQuarantine device quarantined actor reason) = set_quarantine env device quarantined actor reason"
| "vpn_act_of env (SetPolicyFlags device flags actor) = set_policy_flags env device flags actor"
| "vpn_act_of env (RecordEvent actor kind details) = bindS (record_event env actor kind details) (\<lambda>i. ret [(''id'', JStr i)])"

definition vpn_step :: "vpn_env \<Rightarrow> vpn_state \<Rightarrow> vpn_call \<Rightarrow> vpn_state" where
  "vpn_step env s c = snd (vpn_act_of env c s)"

definition vpn_run :: "vpn_env \<Rightarrow> vpn_state \<Rightarrow> vpn_call list \<Rightarrow> vpn_state" where
  "vpn_run env = foldl (vpn_step env)"

end
