(* ===== verification/OpsStore.thy ===== *)
theory OpsStore
  imports HostReload VpnStore Crypto
begin

text \<open>
  The Edge1 Operations API, server/edge1_operations_api.py: its observations, its tables (audit, nonces, idempotency), the
  authentication of requests and the two ways an allowlisted action runs.
\<close>

section \<open>Environment and state\<close>

text \<open>What a started process does; starting it may fail.\<close>

datatype run_result = Exited int string string | TimedOut string string | Unstartable ops_exn

text \<open>
  Observations by number: the clock in seconds, the time as text, fresh ids, measured durations in milliseconds, the target of
  the repository root, the parsed allowlist, the secret file, processes and failures of the database. The others are constant.
\<close>

record ops_env =
  oe_host :: host_env
  oe_vpn :: vpn_env
  oe_time :: "nat \<Rightarrow> int"
  oe_utc :: "nat \<Rightarrow> string"
  oe_uuid :: "nat \<Rightarrow> string"
  oe_duration :: "nat \<Rightarrow> int"
  oe_root_now :: "nat \<Rightarrow> string option"
  oe_allowlist :: "nat \<Rightarrow> ops_exn + json"
  oe_secret :: "nat \<Rightarrow> ops_exn + string"
  oe_process :: "nat \<Rightarrow> run_result"
  oe_db_fails :: "nat \<Rightarrow> ops_exn option"
  oe_root :: string
  oe_resolve :: "string \<Rightarrow> string"
  oe_mutations_enabled :: bool
  oe_environ :: "string \<Rightarrow> string option"
  oe_hmac :: "string \<Rightarrow> string \<Rightarrow> string"
  oe_sha256 :: "string \<Rightarrow> string"

record ops_event =
  oa_id :: string
  oa_created_at :: string
  oa_actor :: string
  oa_action :: string
  oa_request_hash :: string
  oa_status :: string
  oa_exit_code :: "int option"
  oa_duration_ms :: "int option"
  oa_stdout :: string
  oa_stderr :: string

record ops_claim =
  oi_action :: string
  oi_key :: string
  oi_request_hash :: string
  oi_response_json :: string
  oi_created_at :: string

text \<open>The tables, the processes started with their directory, and the parts the API acts on.\<close>

record ops_state =
  os_reads :: nat
  os_audit :: "ops_event list"
  os_nonces :: "(string \<times> int) list"
  os_claims :: "ops_claim list"
  os_processes :: "(string list \<times> string) list"
  os_host :: host
  os_vpn :: vpn_state

type_synonym 'a ops_act = "(ops_exn, ops_state, 'a) eact"

definition look :: "(nat \<Rightarrow> 'a) \<Rightarrow> 'a ops_act" where
  "look f s = (Inr (f (os_reads s)), s\<lparr>os_reads := Suc (os_reads s)\<rparr>)"

definition raised :: "'a outcome \<Rightarrow> 'a ops_act" where
  "raised r = pure_act (map_sum Raises id r)"

definition look_checked :: "(nat \<Rightarrow> ops_exn + 'a) \<Rightarrow> 'a ops_act" where
  "look_checked f = bindS (look f) pure_act"

text \<open>\<open>connect_db\<close>; the database may fail.\<close>

definition connect_db :: "ops_env \<Rightarrow> unit ops_act" where
  "connect_db env = look_checked (\<lambda>k. case oe_db_fails env k of None \<Rightarrow> Inr () | Some e \<Rightarrow> Inl e)"

definition on_host :: "(ops_exn, 'a) host_act \<Rightarrow> 'a ops_act" where
  "on_host m s = (case m (os_host s) of (r, h) \<Rightarrow> (r, s\<lparr>os_host := h\<rparr>))"

definition on_vpn :: "'a vpn_act \<Rightarrow> 'a ops_act" where
  "on_vpn m s = (case m (os_vpn s) of (r, v) \<Rightarrow> (map_sum Raises id r, s\<lparr>os_vpn := v\<rparr>))"

section \<open>Configuration\<close>

definition gate_variables :: "(string \<times> string) list" where
  "gate_variables =
     [(''telephony_safe_controls'', ''EDGE1_OPS_TELEPHONY_SAFE_CONTROLS_ENABLED''),
      (''vpn_registration'', ''EDGE1_VPN_REGISTRATION_WRITES_ENABLED'')]"

definition env_true :: "string option \<Rightarrow> bool" where
  "env_true v \<longleftrightarrow> (case v of None \<Rightarrow> False | Some t \<Rightarrow> lower t = ''true'')"

definition gate_enabled :: "ops_env \<Rightarrow> string \<Rightarrow> bool outcome" where
  "gate_enabled env name =
     (case dget gate_variables name of
        None \<Rightarrow> Inl (ValueError ''unknown mutation gate'')
      | Some variable \<Rightarrow> Inr (env_true (oe_environ env variable)))"

definition ensure_root_stable :: "ops_env \<Rightarrow> unit ops_act" where
  "ensure_root_stable env = look_checked (\<lambda>k.
     case oe_root_now env k of
       None \<Rightarrow> Inl (Raises (RuntimeError ''repository root is unavailable; service restart required''))
     | Some current \<Rightarrow>
         if current \<noteq> oe_root env then Inl (Raises (RuntimeError ''repository root target changed since service start; service restart required''))
         else Inr ())"

definition allowlist_actions :: "json \<Rightarrow> doc outcome" where
  "allowlist_actions v =
     (case v of
        JObj d \<Rightarrow> (case jget_default d ''actions'' (JObj []) of JObj actions \<Rightarrow> Inr actions | _ \<Rightarrow> Inl (ValueError ''allowlist actions must be an object''))
      | _ \<Rightarrow> Inl (AttributeError ''get''))"

definition load_allowlist :: "ops_env \<Rightarrow> doc ops_act" where
  "load_allowlist env =
     bindS (ensure_root_stable env) (\<lambda>_. look_checked (\<lambda>k. bindE (oe_allowlist env k) (\<lambda>v. map_sum Raises id (allowlist_actions v))))"

definition read_secret :: "ops_env \<Rightarrow> string ops_act" where
  "read_secret env = look_checked (\<lambda>k.
     bindE (oe_secret env k) (\<lambda>v.
     if int (length (strip v)) < 32 then Inl (Raises (ValueError ''secret must contain at least 32 bytes'')) else Inr (strip v)))"

section \<open>Audit\<close>

definition last_part :: "int \<Rightarrow> string \<Rightarrow> string" where
  "last_part n t = drop (nat (int (length t) - n)) t"

definition insert_audit :: "ops_event \<Rightarrow> unit ops_act" where
  "insert_audit e s =
     (if oa_id e \<in> oa_id ` set (os_audit s) then (Inl (Raises integrity), s) else (Inr (), s\<lparr>os_audit := os_audit s @ [e]\<rparr>))"

definition record_audit :: "ops_env \<Rightarrow> string \<Rightarrow> string \<Rightarrow> string \<Rightarrow> string \<Rightarrow> int option \<Rightarrow> int option \<Rightarrow> string \<Rightarrow> string \<Rightarrow> string ops_act" where
  "record_audit env actor action body_hash status exit_code duration out err =
     bindS (look (oe_uuid env)) (\<lambda>event_id.
     bindS (connect_db env) (\<lambda>_.
     bindS (look (oe_utc env)) (\<lambda>now.
     bindS (insert_audit \<lparr>oa_id = event_id, oa_created_at = now, oa_actor = actor, oa_action = action, oa_request_hash = body_hash,
       oa_status = status, oa_exit_code = exit_code, oa_duration_ms = duration, oa_stdout = last_part 12000 out, oa_stderr = last_part 12000 err\<rparr>) (\<lambda>_.
     ret event_id))))"

section \<open>Authentication\<close>

text \<open>A request: its method, target, headers by name, and the bytes that follow them.\<close>

record ops_request =
  oq_method :: string
  oq_path :: string
  oq_header :: "string \<Rightarrow> string option"
  oq_stream :: string

definition header_text :: "ops_request \<Rightarrow> string \<Rightarrow> string" where
  "header_text q name = strip (case oq_header q name of None \<Rightarrow> [] | Some v \<Rightarrow> v)"

definition max_clock_skew :: int where
  "max_clock_skew = 300"

text \<open>Rows older than the window go; a nonce that is known is refused.\<close>

definition store_nonce :: "int \<Rightarrow> string \<Rightarrow> int \<Rightarrow> bool ops_act" where
  "store_nonce cutoff nonce timestamp s =
     (let kept = filter (\<lambda>(n, t). \<not> t < cutoff) (os_nonces s) in
      if nonce \<in> fst ` set kept then (Inr False, s\<lparr>os_nonces := kept\<rparr>)
      else (Inr True, s\<lparr>os_nonces := kept @ [(nonce, timestamp)]\<rparr>))"

definition check_and_store_nonce :: "ops_env \<Rightarrow> string \<Rightarrow> int \<Rightarrow> bool ops_act" where
  "check_and_store_nonce env nonce timestamp =
     bindS (look (oe_time env)) (\<lambda>now.
     bindS (connect_db env) (\<lambda>_. store_nonce (now - max_clock_skew) nonce timestamp))"

definition signed_text :: "ops_request \<Rightarrow> string \<Rightarrow> string" where
  "signed_text q body_hash =
     join [CHR 0x0A] [oq_method q, oq_path q, header_text q ''X-WWCX-Timestamp'', header_text q ''X-WWCX-Nonce'', header_text q ''X-WWCX-Actor'', body_hash]"

text \<open>The reason of a refusal, or the digest of the body and the actor.\<close>

definition authenticate :: "ops_env \<Rightarrow> ops_request \<Rightarrow> string \<Rightarrow> (string + string \<times> string) ops_act" where
  "authenticate env q body =
     (let actor = header_text q ''X-WWCX-Actor''; nonce = header_text q ''X-WWCX-Nonce'';
          timestamp_text = header_text q ''X-WWCX-Timestamp''; supplied = lower (header_text q ''X-WWCX-Signature'') in
      if actor = [] \<or> nonce = [] \<or> timestamp_text = [] \<or> supplied = [] then ret (Inl ''missing authentication headers'')
      else case int_of_str timestamp_text of
        None \<Rightarrow> ret (Inl ''invalid timestamp'')
      | Some timestamp \<Rightarrow>
          bindS (look (oe_time env)) (\<lambda>now.
          if \<bar>now - timestamp\<bar> > max_clock_skew then ret (Inl ''timestamp outside allowed window'')
          else
            let body_hash = oe_sha256 env body in
            bindS (read_secret env) (\<lambda>secret.
            if \<not> is_ascii supplied then raise_err (Raises (TypeError ''comparing strings with non-ASCII characters is not supported''))
            else if oe_hmac env secret (signed_text q body_hash) \<noteq> supplied then ret (Inl ''invalid signature'')
            else bindS (check_and_store_nonce env nonce timestamp) (\<lambda>fresh.
              ret (if fresh then Inr (body_hash, actor) else Inl ''replayed nonce'')))))"

end
