(* ===== verification/OpsActions.thy ===== *)
theory OpsActions
  imports OpsStore
begin

text \<open>
  The actions of server/edge1_operations_api.py: processes with a fixed argument vector, and typed actions behind a
  mutation gate with their idempotency claims.
\<close>

section \<open>What may run\<close>

definition action_config :: "ops_env \<Rightarrow> string \<Rightarrow> doc ops_act" where
  "action_config env name =
     bindS (ensure_root_stable env) (\<lambda>_.
     bindS (load_allowlist env) (\<lambda>actions.
     raised (let action = jget actions name in
       if \<not> truthy action then Inl (KeyError ''unknown action'')
       else case action of JObj d \<Rightarrow> Inr d | _ \<Rightarrow> Inl (ValueError ''invalid action configuration''))))"

definition has_key :: "doc \<Rightarrow> string \<Rightarrow> bool" where
  "has_key d k \<longleftrightarrow> dget d k \<noteq> None"

definition argv_of :: "json \<Rightarrow> string list outcome" where
  "argv_of v =
     (case v of
        JList js \<Rightarrow> if js \<noteq> [] \<and> list_all (\<lambda>j. case j of JStr t \<Rightarrow> t \<noteq> [] | _ \<Rightarrow> False) js then Inr (map py_str js) else Inl (ValueError ''invalid action argv'')
      | _ \<Rightarrow> Inl (ValueError ''invalid action argv''))"

definition timeout_of :: "doc \<Rightarrow> int outcome" where
  "timeout_of d =
     bindE (int_of_json (jget_default d ''timeout_seconds'' (JInt 120))) (\<lambda>timeout.
     if timeout < 1 \<or> timeout > 900 then Inl (ValueError ''invalid action timeout'') else Inr timeout)"

text \<open>The root itself or a directory below it.\<close>

definition in_root :: "ops_env \<Rightarrow> string \<Rightarrow> bool" where
  "in_root env cwd \<longleftrightarrow> cwd = oe_root env \<or> starts_with cwd (if oe_root env = ''/'' then ''/'' else oe_root env @ ''/'')"

definition cwd_of :: "ops_env \<Rightarrow> doc \<Rightarrow> string outcome" where
  "cwd_of env d =
     (case jget_default d ''cwd'' (JStr (oe_root env)) of
        JStr t \<Rightarrow> (let cwd = oe_resolve env t in if in_root env cwd then Inr cwd else Inl (ValueError ''action cwd escapes repository root''))
      | _ \<Rightarrow> Inl (TypeError ''argument should be a str''))"

definition fixed_action :: "ops_env \<Rightarrow> doc \<Rightarrow> ops_exn + (string list \<times> string \<times> int)" where
  "fixed_action env d =
     guard (\<not> has_key d ''typed_handler'') (Raises (ValueError ''typed action must use typed execution path''))
    (guard (\<not> has_key d ''mutation_gate'') (Raises (ValueError ''fixed argv actions cannot declare dedicated mutation gates''))
    (bindE (map_sum Raises id (argv_of (jget d ''argv''))) (\<lambda>argv.
     guard (\<not> (truthy (jget d ''mutating'') \<and> \<not> oe_mutations_enabled env)) (NotPermitted ''legacy mutating actions are disabled'')
    (bindE (map_sum Raises id (cwd_of env d)) (\<lambda>cwd.
     bindE (map_sum Raises id (timeout_of d)) (\<lambda>timeout. Inr (argv, cwd, timeout)))))))"

definition safe_action :: "ops_env \<Rightarrow> string \<Rightarrow> (string list \<times> string \<times> int) ops_act" where
  "safe_action env name = bindS (action_config env name) (\<lambda>d. pure_act (fixed_action env d))"

definition typed_gate :: "ops_env \<Rightarrow> doc \<Rightarrow> ops_exn + unit" where
  "typed_gate env d =
     (let gate = jget d ''mutation_gate'' in
      if truthy (jget d ''mutating'') then
        (case gate of
           JStr g \<Rightarrow>
             if g = [] then Inl (Raises (ValueError ''typed mutating action requires a dedicated mutation gate''))
             else bindE (map_sum Raises id (gate_enabled env g)) (\<lambda>on.
               if on then Inr () else Inl (NotPermitted (''mutation gate '' @ g @ '' is disabled'')))
         | _ \<Rightarrow> Inl (Raises (ValueError ''typed mutating action requires a dedicated mutation gate'')))
      else if gate \<noteq> JNull then Inl (Raises (ValueError ''read-only typed action cannot declare mutation gate''))
      else Inr ())"

definition typed_action :: "ops_env \<Rightarrow> doc \<Rightarrow> ops_exn + (string \<times> int)" where
  "typed_action env d =
     bindE (case jget d ''typed_handler'' of
         JStr h \<Rightarrow> if h = [] \<or> has_key d ''argv'' \<or> has_key d ''cwd'' then Inl (Raises (ValueError ''invalid typed action configuration'')) else Inr h
       | _ \<Rightarrow> Inl (Raises (ValueError ''invalid typed action configuration''))) (\<lambda>handler.
     bindE (typed_gate env d) (\<lambda>_.
     bindE (map_sum Raises id (timeout_of d)) (\<lambda>timeout. Inr (handler, timeout))))"

definition safe_typed_action :: "ops_env \<Rightarrow> string \<Rightarrow> (string \<times> int) ops_act" where
  "safe_typed_action env name = bindS (action_config env name) (\<lambda>d. pure_act (typed_action env d))"

section \<open>Processes\<close>

definition start_process :: "ops_env \<Rightarrow> string list \<Rightarrow> string \<Rightarrow> run_result ops_act" where
  "start_process env argv cwd =
     bindS (look (oe_process env)) (\<lambda>r s.
     (Inr r, case r of Unstartable _ \<Rightarrow> s | _ \<Rightarrow> s\<lparr>os_processes := os_processes s @ [(argv, cwd)]\<rparr>))"

definition run_action :: "ops_env \<Rightarrow> string \<Rightarrow> string \<Rightarrow> string \<Rightarrow> doc ops_act" where
  "run_action env name actor body_hash =
     bindS (safe_action env name) (\<lambda>(argv, cwd, timeout).
     bindS (ensure_root_stable env) (\<lambda>_.
     bindS (start_process env argv cwd) (\<lambda>r.
     bindS (look (oe_duration env)) (\<lambda>duration.
     case r of
       Unstartable e \<Rightarrow> raise_err e
     | Exited n out err \<Rightarrow>
         let status = (if n = 0 then ''succeeded'' else ''failed'') in
         bindS (record_audit env actor name body_hash status (Some n) (Some duration) out err) (\<lambda>event_id.
         ret [(''event_id'', JStr event_id), (''action'', JStr name), (''status'', JStr status), (''exit_code'', JInt n),
           (''duration_ms'', JInt duration), (''stdout'', JStr (last_part 12000 out)), (''stderr'', JStr (last_part 12000 err))])
     | TimedOut out err \<Rightarrow>
         bindS (record_audit env actor name body_hash ''timed_out'' None (Some duration) out err) (\<lambda>event_id.
         ret [(''event_id'', JStr event_id), (''action'', JStr name), (''status'', JStr ''timed_out''), (''duration_ms'', JInt duration)])))))"

section \<open>Typed actions\<close>

definition claim_key :: "ops_claim \<Rightarrow> string \<times> string" where
  "claim_key c = (oi_action c, oi_key c)"

definition add_claim :: "ops_claim \<Rightarrow> unit ops_act" where
  "add_claim c s = (Inr (), s\<lparr>os_claims := os_claims s @ [c]\<rparr>)"

text \<open>A stored answer, a refusal, or a new claim. The response of a claim is empty until its action is done.\<close>

definition idempotency_claim :: "ops_env \<Rightarrow> string \<Rightarrow> string \<Rightarrow> string \<Rightarrow> doc option ops_act" where
  "idempotency_claim env action key request_hash =
     bindS (connect_db env) (\<lambda>_ s.
     (case find_row claim_key (action, key) (os_claims s) of
        Some c \<Rightarrow>
          if oi_request_hash c \<noteq> request_hash then raise_err (Invalid ''idempotency key was already used with different parameters'') s
          else if oi_response_json c = [] then raise_err (Invalid ''idempotent request is incomplete; reconcile state before retry'') s
          else (case json_loads (oi_response_json c) of
             Some (JObj d) \<Rightarrow> ret (Some (dset d ''idempotent_replay'' (JBool True))) s
           | Some _ \<Rightarrow> raise_err (Raises (TypeError ''item assignment'')) s
           | None \<Rightarrow> raise_err (Raises (ValueError ''JSONDecodeError'')) s)
      | None \<Rightarrow>
          bindS (look (oe_utc env)) (\<lambda>now.
          bindS (add_claim \<lparr>oi_action = action, oi_key = key, oi_request_hash = request_hash, oi_response_json = [], oi_created_at = now\<rparr>) (\<lambda>_.
          ret None)) s))"

definition idempotency_complete :: "ops_env \<Rightarrow> string \<Rightarrow> string \<Rightarrow> string \<Rightarrow> doc \<Rightarrow> unit ops_act" where
  "idempotency_complete env action key request_hash response =
     bindS (connect_db env) (\<lambda>_ s.
     let open_claim = (\<lambda>c. claim_key c = (action, key) \<and> oi_request_hash c = request_hash \<and> oi_response_json c = []) in
     if length (filter open_claim (os_claims s)) \<noteq> 1
     then (Inl (Raises (RuntimeError ''idempotency completion state changed unexpectedly'')), s)
     else (Inr (), s\<lparr>os_claims := update_where open_claim (\<lambda>c. c\<lparr>oi_response_json := json_dumps False (JObj response)\<rparr>) (os_claims s)\<rparr>))"

definition exn_text :: "ops_exn \<Rightarrow> string" where
  "exn_text e = (case e of Invalid m \<Rightarrow> m | NotPermitted m \<Rightarrow> m | Raises p \<Rightarrow> err_text p)"

text \<open>The attempt, and what follows when anything in it raised.\<close>

definition typed_attempt :: "ops_env \<Rightarrow> string \<Rightarrow> int \<Rightarrow> string \<Rightarrow> string \<Rightarrow> string \<Rightarrow> string \<Rightarrow> doc \<Rightarrow> doc ops_act" where
  "typed_attempt env handler timeout name actor body_hash key validated =
     bindS (on_host (run_typed_handler (oe_host env) handler (JObj validated))) (\<lambda>result.
     bindS (look (oe_duration env)) (\<lambda>duration.
     bindS (raised (if duration > timeout * 1000 then Inl (RuntimeError ''typed action exceeded configured timeout'') else Inr ())) (\<lambda>_.
     bindS (record_audit env actor name body_hash ''succeeded'' (Some 0) (Some duration) (json_dumps False (JObj result)) []) (\<lambda>event_id.
     let response = [(''action'', JStr name), (''status'', JStr ''succeeded''), (''exit_code'', JInt 0), (''duration_ms'', JInt duration),
       (''result'', JObj result), (''idempotent_replay'', JBool False), (''event_id'', JStr event_id)] in
     bindS (idempotency_complete env name key body_hash response) (\<lambda>_. ret response)))))"

definition typed_failure :: "ops_env \<Rightarrow> string \<Rightarrow> string \<Rightarrow> string \<Rightarrow> string \<Rightarrow> ops_exn \<Rightarrow> doc ops_act" where
  "typed_failure env name actor body_hash key e =
     bindS (look (oe_duration env)) (\<lambda>duration.
     bindS (record_audit env actor name body_hash ''failed'' (Some 1) (Some duration) [] (exn_text e)) (\<lambda>event_id.
     let response = [(''event_id'', JStr event_id), (''action'', JStr name), (''status'', JStr ''failed''), (''exit_code'', JInt 1),
       (''duration_ms'', JInt duration), (''error'', JStr ''typed action failed verification''), (''idempotent_replay'', JBool False)] in
     bindS (idempotency_complete env name key body_hash response) (\<lambda>_. ret response)))"

definition or_else :: "'a ops_act \<Rightarrow> (ops_exn \<Rightarrow> 'a ops_act) \<Rightarrow> 'a ops_act" where
  "or_else m f s = (case m s of (Inl e, s') \<Rightarrow> f e s' | (Inr v, s') \<Rightarrow> (Inr v, s'))"

definition run_typed_action :: "ops_env \<Rightarrow> string \<Rightarrow> string \<Rightarrow> string \<Rightarrow> json \<Rightarrow> doc ops_act" where
  "run_typed_action env name actor body_hash parameters =
     bindS (safe_typed_action env name) (\<lambda>(handler, timeout).
     bindS (pure_act (validate_typed_handler handler parameters)) (\<lambda>validated.
     let key = py_str (jget validated ''idempotency_key'') in
     bindS (idempotency_claim env name key body_hash) (\<lambda>replay.
     case replay of
       Some payload \<Rightarrow> ret payload
     | None \<Rightarrow> or_else (typed_attempt env handler timeout name actor body_hash key validated) (typed_failure env name actor body_hash key))))"

end
