(* ===== verification/OpsRoutes.thy ===== *)
theory OpsRoutes
  imports OpsActions
begin

text \<open>
  The routes of server/edge1_operations_api.py. A request is answered with a status and a document, or, when an exception
  leaves the handler, not at all.
\<close>

datatype ops_reply = Reply nat doc | Dropped

definition answer :: "nat \<Rightarrow> doc \<Rightarrow> ops_reply ops_act" where
  "answer status d = ret (Reply status d)"

definition error_reply :: "nat \<Rightarrow> string \<Rightarrow> ops_reply ops_act" where
  "error_reply status m = answer status [(''error'', JStr m)]"

section \<open>Bodies\<close>

definition max_body :: int where
  "max_body = 16384"

definition read_body :: "ops_request \<Rightarrow> string outcome" where
  "read_body q =
     (case int_of_str (case oq_header q ''Content-Length'' of None \<Rightarrow> ''0'' | Some t \<Rightarrow> t) of
        None \<Rightarrow> Inl (ValueError ''invalid content length'')
      | Some n \<Rightarrow> if n < 0 \<or> n > max_body then Inl (ValueError ''request body too large'') else Inr (take (nat n) (oq_stream q)))"

definition read_json_body :: "ops_request \<Rightarrow> (string \<times> doc) outcome" where
  "read_json_body q =
     bindE (read_body q) (\<lambda>body.
     case json_loads (if body = [] then [CHR 0x7B, CHR 0x7D] else body) of
       None \<Rightarrow> Inl (ValueError ''request body must be valid JSON'')
     | Some (JObj d) \<Rightarrow> Inr (body, d)
     | Some _ \<Rightarrow> Inl (ValueError ''request body must be a JSON object''))"

text \<open>\<open>authenticate_request\<close>: what follows runs for the actor of a request that is signed.\<close>

definition authenticated :: "ops_env \<Rightarrow> ops_request \<Rightarrow> string \<Rightarrow> (string \<Rightarrow> string \<Rightarrow> ops_reply ops_act) \<Rightarrow> ops_reply ops_act" where
  "authenticated env q body f =
     bindS (authenticate env q body) (\<lambda>r. case r of Inl detail \<Rightarrow> error_reply 401 detail | Inr (body_hash, actor) \<Rightarrow> f body_hash actor)"

section \<open>VPN registration\<close>

definition registration_store :: "ops_env \<Rightarrow> unit ops_act" where
  "registration_store env = bindS (on_vpn (open_store (oe_vpn env))) (\<lambda>_. connect_db env)"

definition vpn_get :: "ops_env \<Rightarrow> ops_request \<Rightarrow> ops_reply ops_act" where
  "vpn_get env q =
     authenticated env q [] (\<lambda>_ _.
     bindS (registration_store env) (\<lambda>_.
     if oq_path q = ''/v1/vpn-access/summary'' then bindS (on_vpn (vpn_summary (oe_vpn env))) (answer 200)
     else if oq_path q = ''/v1/vpn-access/devices'' then
       bindS (on_vpn (list_devices (oe_vpn env))) (\<lambda>ds. answer 200 [(''devices'', JList (map JObj ds))])
     else if oq_path q = ''/v1/vpn-access/policies'' then bindS (on_vpn list_policies) (\<lambda>ps. answer 200 [(''policies'', JList (map JObj ps))])
     else if oq_path q = ''/v1/vpn-access/audit'' then bindS (on_vpn (audit_events 100)) (\<lambda>es. answer 200 [(''events'', JList (map JObj es))])
     else error_reply 404 ''not found''))"

definition write_allowed :: "ops_env \<Rightarrow> ops_request \<Rightarrow> string \<Rightarrow> ops_reply ops_act \<Rightarrow> ops_reply ops_act" where
  "write_allowed env q actor f =
     bindS (raised (gate_enabled env ''vpn_registration'')) (\<lambda>enabled.
     if enabled then f
     else
       bindS (registration_store env) (\<lambda>_.
       bindS (on_vpn (record_event (oe_vpn env) actor ''registration.write_denied''
         [(''path'', JStr (oq_path q)), (''reason'', JStr ''registration writes are disabled'')])) (\<lambda>event_id.
       answer 403 [(''error'', JStr ''VPN registration writes are disabled''), (''event_id'', JStr event_id), (''enforcement_active'', JBool False)])))"

definition vpn_call_of :: "string \<Rightarrow> doc \<Rightarrow> string \<Rightarrow> vpn_call option" where
  "vpn_call_of path d actor =
     (let text = (\<lambda>k. jget_default d k (JStr [])) in
      if path = ''/v1/vpn-access/policies'' then
        Some (CreatePolicy (text ''version'') (text ''title'') (text ''notice'') actor (text ''privacy_url'') (text ''terms_url'')
          (jget d ''effective_at'') (jget_default d ''activate'' (JBool True)))
      else if path = ''/v1/vpn-access/devices'' then
        Some (UpsertDevice (text ''peer_public_key'') (jget_default d ''assigned_addresses'' (JList [])) actor (text ''display_name'') (text ''owner''))
      else if path = ''/v1/vpn-access/acceptances'' then
        Some (AcceptPolicy (text ''device_id'') actor (jget d ''policy_version'') (jget_default d ''source'' (JStr ''portal'')))
      else if path = ''/v1/vpn-access/exemptions'' then
        Some (AddExemption (text ''device_id'') (text ''exemption_type'') (text ''reason'') actor (jget d ''expires_at''))
      else if path = ''/v1/vpn-access/exemptions/revoke'' then Some (RevokeExemption (text ''exemption_id'') actor)
      else if path = ''/v1/vpn-access/quarantine'' then
        Some (SetQuarantine (text ''device_id'') (jget d ''quarantined'') actor (text ''reason''))
      else if path = ''/v1/vpn-access/policy-flags'' then
        Some (SetPolicyFlags (text ''device_id'') (jget_default d ''flags'' (JObj [])) actor)
      else None)"

definition vpn_error :: "ops_exn \<Rightarrow> ops_reply ops_act" where
  "vpn_error e =
     (case e of
        Raises (KeyError k) \<Rightarrow> error_reply 404 k
      | Raises (TypeError m) \<Rightarrow> error_reply 400 m
      | Raises (ValueError m) \<Rightarrow> error_reply 400 m
      | Raises p \<Rightarrow> if p = integrity then error_reply 409 ''registration record conflicts with existing state'' else raise_err e
      | Invalid m \<Rightarrow> error_reply 400 m
      | NotPermitted _ \<Rightarrow> raise_err e)"

definition vpn_post :: "ops_env \<Rightarrow> ops_request \<Rightarrow> ops_reply ops_act" where
  "vpn_post env q =
     (case read_json_body q of
        Inl e \<Rightarrow> error_reply 400 (err_text e)
      | Inr (body, d) \<Rightarrow>
          authenticated env q body (\<lambda>_ actor.
          write_allowed env q actor (
          bindS (registration_store env) (\<lambda>_.
          case vpn_call_of (oq_path q) d actor of
            None \<Rightarrow> error_reply 404 ''not found''
          | Some c \<Rightarrow>
              or_else (bindS (on_vpn (vpn_act_of (oe_vpn env) c)) (\<lambda>result.
                answer 200 [(''result'', JObj result), (''enforcement_active'', JBool False)])) vpn_error))))"

section \<open>Reading\<close>

definition health :: "ops_env \<Rightarrow> ops_reply ops_act" where
  "health env =
     or_else
       (bindS (load_allowlist env) (\<lambda>actions.
        bindS (connect_db env) (\<lambda>_.
        bindS (registration_store env) (\<lambda>_.
        answer 200 [(''status'', JStr ''ok''), (''actions'', JInt (int (length actions))), (''mutations_enabled'', JBool (oe_mutations_enabled env)),
          (''mutation_gates'', JObj (map (\<lambda>(name, variable). (name, JBool (env_true (oe_environ env variable)))) gate_variables)),
          (''repository_root_stable'', JBool True), (''vpn_enforcement_active'', JBool False)]))))
       (\<lambda>e. answer 503 [(''status'', JStr ''error''), (''detail'', JStr (exn_text e)), (''repository_root_stable'', JBool False)])"

definition action_view :: "string \<times> json \<Rightarrow> ops_exn + json" where
  "action_view nv =
     (case snd nv of
        JObj d \<Rightarrow> Inr (JObj [(''name'', JStr (fst nv)), (''mutating'', JBool (truthy (jget d ''mutating''))),
          (''typed'', JBool (as_str (jget d ''typed_handler'') \<noteq> None)), (''mutation_gate'', jget d ''mutation_gate'')])
      | _ \<Rightarrow> Inl (Raises (AttributeError ''get'')))"

fun views :: "(string \<times> json) list \<Rightarrow> ops_exn + json list" where
  "views [] = Inr []"
| "views (nv # rest) = bindE (action_view nv) (\<lambda>v. bindE (views rest) (\<lambda>vs. Inr (v # vs)))"

definition list_actions :: "ops_env \<Rightarrow> ops_request \<Rightarrow> ops_reply ops_act" where
  "list_actions env q =
     authenticated env q [] (\<lambda>_ _ s.
     case load_allowlist env s of
       (Inl (Raises (RuntimeError m)), s') \<Rightarrow> answer 503 [(''error'', JStr m), (''repository_root_stable'', JBool False)] s'
     | (Inl e, s') \<Rightarrow> (Inl e, s')
     | (Inr actions, s') \<Rightarrow> bindS (pure_act (views (sort_key fst actions))) (\<lambda>vs. answer 200 [(''actions'', JList vs)]) s')"

definition ops_get :: "ops_env \<Rightarrow> ops_request \<Rightarrow> ops_reply ops_act" where
  "ops_get env q =
     (if oq_path q = ''/healthz'' then health env
      else if starts_with (oq_path q) ''/v1/vpn-access/'' then vpn_get env q
      else if oq_path q = ''/v1/actions'' then list_actions env q
      else error_reply 404 ''not found'')"

section \<open>Running actions\<close>

definition strip_slashes :: "string \<Rightarrow> string" where
  "strip_slashes t = rev (dropWhile (\<lambda>c. c = CHR ''/'') (rev (dropWhile (\<lambda>c. c = CHR ''/'') t)))"

definition action_name :: "string \<Rightarrow> string" where
  "action_name path = strip_slashes (drop (length ''/v1/actions/'') (take (length path - length ''/run'') path))"

definition run_named :: "ops_env \<Rightarrow> string \<Rightarrow> string \<Rightarrow> string \<Rightarrow> string \<Rightarrow> doc option ops_act" where
  "run_named env name actor body_hash body =
     bindS (action_config env name) (\<lambda>d.
     if has_key d ''typed_handler'' then
       bindS (pure_act (if body = [] then Inr (JObj [])
         else case json_loads body of None \<Rightarrow> Inl (Invalid ''typed action body must be valid JSON'') | Some v \<Rightarrow> Inr v)) (\<lambda>parameters.
       bindS (run_typed_action env name actor body_hash parameters) (\<lambda>result. ret (Some result)))
     else if body \<notin> {[], [CHR 0x7B, CHR 0x7D], [CHR 0x7B, CHR 0x7D, CHR 0x0A]} then ret None
     else bindS (run_action env name actor body_hash) (\<lambda>result. ret (Some result)))"

definition run_error :: "ops_env \<Rightarrow> string \<Rightarrow> string \<Rightarrow> string \<Rightarrow> ops_exn \<Rightarrow> ops_reply ops_act" where
  "run_error env name actor body_hash e =
     (case e of
        Raises (KeyError _) \<Rightarrow> error_reply 404 ''unknown action''
      | NotPermitted m \<Rightarrow>
          bindS (record_audit env actor name body_hash ''denied'' None None [] m) (\<lambda>event_id.
          answer 403 [(''error'', JStr m), (''event_id'', JStr event_id)])
      | Invalid m \<Rightarrow>
          bindS (record_audit env actor name body_hash ''denied'' None None [] m) (\<lambda>event_id.
          answer 409 [(''error'', JStr m), (''event_id'', JStr event_id)])
      | Raises p \<Rightarrow>
          bindS (record_audit env actor name body_hash ''error'' None None [] (err_text p)) (\<lambda>event_id.
          answer 500 [(''error'', JStr ''action configuration error''), (''event_id'', JStr event_id)]))"

definition run_reply :: "doc option \<Rightarrow> ops_reply ops_act" where
  "run_reply r =
     (case r of
        None \<Rightarrow> error_reply 400 ''action parameters are not accepted''
      | Some result \<Rightarrow> answer (if jget result ''status'' = JStr ''succeeded'' then 200 else 409) result)"

definition run_route :: "ops_env \<Rightarrow> ops_request \<Rightarrow> ops_reply ops_act" where
  "run_route env q =
     (case read_body q of
        Inl e \<Rightarrow> error_reply 400 (err_text e)
      | Inr body \<Rightarrow>
          authenticated env q body (\<lambda>body_hash actor.
          let name = action_name (oq_path q) in
          or_else (bindS (run_named env name actor body_hash body) run_reply) (run_error env name actor body_hash)))"

definition ops_post :: "ops_env \<Rightarrow> ops_request \<Rightarrow> ops_reply ops_act" where
  "ops_post env q =
     (if starts_with (oq_path q) ''/v1/vpn-access/'' then vpn_post env q
      else if \<not> starts_with (oq_path q) ''/v1/actions/'' \<or> \<not> ends_with (oq_path q) ''/run'' then error_reply 404 ''not found''
      else run_route env q)"

text \<open>One request, and runs of requests. Other methods are refused by the server before any handler.\<close>

definition ops_handle :: "ops_env \<Rightarrow> ops_request \<Rightarrow> ops_state \<Rightarrow> ops_reply \<times> ops_state" where
  "ops_handle env q s =
     (case (if oq_method q = ''GET'' then ops_get env q else if oq_method q = ''POST'' then ops_post env q else error_reply 501 []) s of
        (Inl _, s') \<Rightarrow> (Dropped, s')
      | (Inr r, s') \<Rightarrow> (r, s'))"

definition ops_run :: "ops_env \<Rightarrow> ops_state \<Rightarrow> ops_request list \<Rightarrow> ops_state" where
  "ops_run env = foldl (\<lambda>s q. snd (ops_handle env q s))"

end
