(* ===== verification/VpnTheorems.thy ===== *)
theory VpnTheorems
  imports VpnStore
begin

text \<open>
  What the registration store promises: its tables agree after any calls, a device counts as registered only through an
  acceptance that is recent and of the policy in force, a new policy ends every registration, and quarantine holds
  until it is lifted.
\<close>

section \<open>The tables agree\<close>

definition vpn_ok :: "vpn_db \<Rightarrow> bool" where
  "vpn_ok d \<longleftrightarrow>
     distinct (map po_id (vd_policies d)) \<and> distinct (map po_version (vd_policies d)) \<and> length (filter po_active (vd_policies d)) \<le> 1 \<and>
     distinct (map de_id (vd_devices d)) \<and> distinct (map de_key_sha256 (vd_devices d)) \<and>
     distinct (map ac_id (vd_acceptances d)) \<and> ac_device_id ` set (vd_acceptances d) \<subseteq> de_id ` set (vd_devices d) \<and>
     ac_policy_id ` set (vd_acceptances d) \<subseteq> po_id ` set (vd_policies d) \<and>
     distinct (map ex_id (vd_exemptions d)) \<and> ex_device_id ` set (vd_exemptions d) \<subseteq> de_id ` set (vd_devices d) \<and>
     ex_type ` set (vd_exemptions d) \<subseteq> set exemption_types \<and> distinct (map ev_id (vd_events d))"

definition agreeing :: "vpn_state \<Rightarrow> vpn_state \<Rightarrow> bool" where
  "agreeing s s' \<longleftrightarrow> vpn_ok (vs_db s) \<longrightarrow> vpn_ok (vs_db s')"

text \<open>What holds of every relation that only looks at the tables.\<close>

locale vpn_frame = state_frame related for related :: "vpn_state \<Rightarrow> vpn_state \<Rightarrow> bool" +
  assumes only_tables: "vs_db s' = vs_db s \<Longrightarrow> related s s'"
begin

lemma keeps_readings: "keeps (now_act env)" "keeps (uuid_act env)" "keeps (read_db f)"
  by (simp_all add: keeps_def now_act_def uuid_act_def read_db_def only_tables)

lemma keeps_vpn_transaction: "keeps m \<Longrightarrow> keeps (vpn_transaction m)"
  unfolding keeps_def vpn_transaction_def by (auto split: prod.split sum.split intro: only_tables) (metis snd_conv)

lemma keeps_write: "(\<And>s. related s (s\<lparr>vs_db := f (vs_db s)\<rparr>)) \<Longrightarrow> keeps (write_db f)"
  by (simp add: keeps_def write_db_def)

lemma keeps_insert: "(\<And>s. ok (vs_db s) \<Longrightarrow> related s (s\<lparr>vs_db := f (vs_db s)\<rparr>)) \<Longrightarrow> keeps (insert_checked ok f)"
  by (simp add: keeps_def insert_checked_def write_db_def related_refl)

lemma keeps_known_device: "keeps (known_device i)"
  unfolding known_device_def by (intro keeps_bindS keeps_option keeps_pure keeps_readings keeps_raise keeps_ret)

lemma keeps_select_policy: "keeps (select_policy v)"
  unfolding select_policy_def by (intro keeps_bindS keeps_option keeps_if keeps_pure keeps_readings keeps_raise keeps_ret)

lemma keeps_get_device: "keeps (get_device env i)"
  unfolding get_device_def by (intro keeps_bindS keeps_option keeps_pure keeps_readings keeps_raise)

lemma keeps_expiry: "keeps (exemption_expiry env v)"
  unfolding exemption_expiry_def Let_def by (intro keeps_bindS keeps_if keeps_pure keeps_readings keeps_ret)

lemmas keeps_parts =
  keeps_ret keeps_raise keeps_pure keeps_bindS keeps_if keeps_option keeps_readings keeps_vpn_transaction keeps_known_device
  keeps_select_policy keeps_get_device keeps_expiry

end

interpretation agree: vpn_frame agreeing
  by unfold_locales (auto simp: agreeing_def)

lemma agree_insert [intro]:
  "agree.keeps (insert_device r)" "agree.keeps (insert_acceptance a)" "agree.keeps (insert_vpn_event e)"
  "ex_type x \<in> set exemption_types \<Longrightarrow> agree.keeps (insert_exemption x)" "\<not> po_active p \<Longrightarrow> agree.keeps (insert_policy p)"
  unfolding insert_device_def insert_acceptance_def insert_vpn_event_def insert_exemption_def insert_policy_def
  by (auto intro!: agree.keeps_insert simp: agreeing_def vpn_ok_def image_subset_iff)

lemma agree_audit: "agree.keeps (vpn_audit env actor kind i details)"
  unfolding vpn_audit_def by (intro agree.keeps_parts agree_insert)

lemma image_update_where: "(\<And>r. p r \<Longrightarrow> g (f r) = g r) \<Longrightarrow> g ` set (update_where p f rows) = g ` set rows"
  using map_update_where [of p g f rows] by (metis set_map)

lemma agree_update_device:
  assumes "\<And>r. de_id (f r) = de_id r \<and> de_key_sha256 (f r) = de_key_sha256 r"
  shows "agree.keeps (write_db (update_device i f))"
  using assms by (intro agree.keeps_write) (simp add: agreeing_def vpn_ok_def update_device_def map_update_where image_update_where)

lemma agree_update_exemption:
  assumes "\<And>x. ex_id (f x) = ex_id x \<and> ex_device_id (f x) = ex_device_id x \<and> ex_type (f x) = ex_type x"
  shows "agree.keeps (write_db (\<lambda>d. d\<lparr>vd_exemptions := update_where p f (vd_exemptions d)\<rparr>))"
  using assms by (intro agree.keeps_write) (simp add: agreeing_def vpn_ok_def map_update_where image_update_where)

lemma set_flag_keeps: "de_id (set_flag n b r) = de_id r \<and> de_key_sha256 (set_flag n b r) = de_key_sha256 r \<and>
    de_quarantined_at (set_flag n b r) = de_quarantined_at r"
  by simp

lemma set_flags_keep: "de_id (fold (\<lambda>(k, b). set_flag k b) flags r) = de_id r \<and> de_key_sha256 (fold (\<lambda>(k, b). set_flag k b) flags r) = de_key_sha256 r \<and>
    de_quarantined_at (fold (\<lambda>(k, b). set_flag k b) flags r) = de_quarantined_at r"
proof (induction flags arbitrary: r)
  case (Cons f flags)
  then show ?case using set_flag_keeps by (cases f) (simp del: set_flag.simps)
qed simp

lemma agree_insert_active:
  assumes "vpn_ok (vs_db s)" "\<not> (\<exists>q\<in>set (vd_policies (vs_db s)). po_active q)"
  shows "vpn_ok (vs_db (snd (insert_policy p s)))"
proof -
  have "filter po_active (vd_policies (vs_db s)) = []" using assms(2) by (simp add: filter_empty_conv)
  then show ?thesis
    using assms(1) by (auto simp: insert_policy_def insert_checked_def write_db_def vpn_ok_def image_subset_iff)
qed

lemma vpn_ok_deactivate: "vpn_ok d \<Longrightarrow> vpn_ok (deactivate_policies d)"
  by (simp add: vpn_ok_def deactivate_policies_def comp_def filter_map image_image)

lemma agree_create_body:
  fixes rest :: "unit \<Rightarrow> 'a vpn_act"
  assumes "\<And>r. agree.keeps (rest r)"
  shows "agree.keeps (bindS (if activate then write_db deactivate_policies else ret ()) (\<lambda>_.
    bindS (pure_act a) (\<lambda>x. bindS (pure_act b) (\<lambda>y. bindS (insert_policy (row x y\<lparr>po_active := activate\<rparr>)) rest))))"
proof (rule agree.keepsI)
  fix s :: vpn_state
  let ?s1 = "if activate then s\<lparr>vs_db := deactivate_policies (vs_db s)\<rparr> else s"
  have first: "bindS (if activate then write_db deactivate_policies else ret ()) f s = f () ?s1" for f :: "unit \<Rightarrow> 'a vpn_act"
    by (simp add: bindS_def write_db_def ret_def)
  have ok: "agreeing ?s1 (snd (bindS (insert_policy (row x y\<lparr>po_active := activate\<rparr>)) rest ?s1))" for x y
  proof (cases activate)
    case True
    have none: "\<not> (\<exists>q\<in>set (vd_policies (vs_db ?s1)). po_active q)" using True by (auto simp: deactivate_policies_def)
    obtain r s2 where step: "insert_policy (row x y\<lparr>po_active := activate\<rparr>) ?s1 = (r, s2)" by fastforce
    have "agreeing ?s1 s2" using agree_insert_active [OF _ none, of "row x y\<lparr>po_active := activate\<rparr>"] unfolding step agreeing_def by simp
    then show ?thesis
      using step agree.keepsD [OF assms] agree.related_trans by (cases r) (auto simp: bindS_def)
  next
    case False
    then show ?thesis by (intro agree.keepsD agree.keeps_bindS assms agree_insert) simp
  qed
  have deactivated: "agreeing s ?s1" using vpn_ok_deactivate by (simp add: agreeing_def)
  show "agreeing s (snd (bindS (if activate then write_db deactivate_policies else ret ()) (\<lambda>_.
    bindS (pure_act a) (\<lambda>x. bindS (pure_act b) (\<lambda>y. bindS (insert_policy (row x y\<lparr>po_active := activate\<rparr>)) rest))) s))"
    unfolding first bindS_pure
    by (cases a; cases b) (simp_all only: sum.case bindS_pure snd_conv deactivated agree.related_trans [OF deactivated ok])
qed

lemma agree_create_policy: "agree.keeps (create_policy env version title notice actor privacy terms effective activate)"
proof -
  have row: "\<lparr>po_id = i, po_version = v, po_title = t, po_notice = n, po_privacy_url = x, po_terms_url = y, po_effective_at = e, po_created_at = c,
      po_active = a\<rparr> = (\<lambda>x y. \<lparr>po_id = i, po_version = v, po_title = t, po_notice = n, po_privacy_url = x, po_terms_url = y, po_effective_at = e,
      po_created_at = c, po_active = a\<rparr>) x y\<lparr>po_active := a\<rparr>" for i v t n x y e c a
    by simp
  show ?thesis
    unfolding create_policy_def
    by (subst row) (intro agree.keeps_parts agree_create_body agree_audit)
qed

lemma agree_calls:
  "agree.keeps (upsert_device env key addresses actor name owner)"
  "agree.keeps (accept_policy env device actor version source)"
  "agree.keeps (add_exemption env device kind reason approved expires)"
  "agree.keeps (revoke_exemption env i actor)"
  "agree.keeps (set_quarantine env device quarantined actor reason)"
  "agree.keeps (set_policy_flags env device flags actor)"
  "agree.keeps (record_event env actor event details)"
proof -
  show "agree.keeps (upsert_device env key addresses actor name owner)"
    unfolding upsert_device_def by (auto intro!: agree.keeps_parts agree_audit agree_update_device split: prod.split option.split)
  show "agree.keeps (accept_policy env device actor version source)"
    unfolding accept_policy_def Let_def by (intro agree.keeps_parts agree_audit agree_insert)
  show "agree.keeps (add_exemption env device kind reason approved expires)"
    unfolding add_exemption_def
    by (intro agree.keeps_bind_pure, intro agree.keeps_parts agree_audit agree_insert) (simp add: require_def split: if_splits)
  show "agree.keeps (revoke_exemption env i actor)"
    unfolding revoke_exemption_def by (intro agree.keeps_parts agree_audit agree_update_exemption) auto
  show "agree.keeps (set_quarantine env device quarantined actor reason)"
    unfolding set_quarantine_def by (intro agree.keeps_parts agree_audit agree_update_device) auto
  show "agree.keeps (set_policy_flags env device flags actor)"
    unfolding set_policy_flags_def by (intro agree.keeps_parts agree_audit agree_update_device) (simp add: set_flags_keep)
  show "agree.keeps (record_event env actor event details)"
    unfolding record_event_def by (intro agree.keeps_parts agree_audit)
qed

lemma agree_act: "agree.keeps (vpn_act_of env c)"
  by (cases c) (auto intro!: agree_calls agree_create_policy agree.keeps_bindS agree.keeps_ret)

interpretation registry: op_machine "vpn_step env" "\<lambda>s. vpn_ok (vs_db s)" for env
  using agree.keepsD [OF agree_act] by unfold_locales (simp add: vpn_step_def agreeing_def)

definition fresh_vpn :: vpn_state where
  "fresh_vpn = \<lparr>vs_db = empty_vpn_db, vs_reads = 0, vs_draws = 0\<rparr>"

text \<open>
  After any sequence of calls with any arguments, failing ones included, the tables of the registration agree: ids, versions and
  peer keys are unique, at most one policy is active, acceptances and exemptions refer to existing devices and policies,
  and every exemption has a known type.
\<close>

theorem vpn_tables_agree: "vpn_ok (vs_db (vpn_run env fresh_vpn calls))"
  unfolding vpn_run_def by (rule registry.run_inv) (simp add: vpn_ok_def fresh_vpn_def empty_vpn_db_def)

section \<open>Registered devices accepted\<close>

definition same_acceptances :: "vpn_state \<Rightarrow> vpn_state \<Rightarrow> bool" where
  "same_acceptances s s' \<longleftrightarrow> vd_acceptances (vs_db s') = vd_acceptances (vs_db s)"

interpretation still: vpn_frame same_acceptances
  by unfold_locales (auto simp: same_acceptances_def)

lemma still_inserts:
  "still.keeps (insert_device r)" "still.keeps (insert_vpn_event e)" "still.keeps (insert_exemption x)" "still.keeps (insert_policy p)"
  "still.keeps (write_db (update_device i f))" "still.keeps (write_db deactivate_policies)"
  "still.keeps (write_db (\<lambda>d. d\<lparr>vd_exemptions := g d\<rparr>))"
  unfolding insert_device_def insert_vpn_event_def insert_exemption_def insert_policy_def update_device_def deactivate_policies_def
  by (intro still.keeps_insert still.keeps_write; simp add: same_acceptances_def)+

lemma still_audit: "still.keeps (vpn_audit env actor kind i details)"
  unfolding vpn_audit_def by (intro still.keeps_parts still_inserts)

lemma still_calls:
  "still.keeps (create_policy env version title notice actor privacy terms effective activate)"
  "still.keeps (upsert_device env key addresses actor name owner)"
  "still.keeps (add_exemption env device kind reason approved expires)"
  "still.keeps (revoke_exemption env i actor)"
  "still.keeps (set_quarantine env device quarantined actor reason)"
  "still.keeps (set_policy_flags env device flags actor)"
  "still.keeps (record_event env actor event details)"
proof -
  show "still.keeps (create_policy env version title notice actor privacy terms effective activate)"
    unfolding create_policy_def by (intro still.keeps_parts still_inserts still_audit)
  show "still.keeps (upsert_device env key addresses actor name owner)"
    unfolding upsert_device_def by (auto intro!: still.keeps_parts still_audit still_inserts split: prod.split option.split)
  show "still.keeps (add_exemption env device kind reason approved expires)"
    unfolding add_exemption_def by (intro still.keeps_parts still_audit still_inserts)
  show "still.keeps (revoke_exemption env i actor)"
    unfolding revoke_exemption_def by (intro still.keeps_parts still_audit still_inserts)
  show "still.keeps (set_quarantine env device quarantined actor reason)"
    unfolding set_quarantine_def by (intro still.keeps_parts still_audit still_inserts)
  show "still.keeps (set_policy_flags env device flags actor)"
    unfolding set_policy_flags_def by (intro still.keeps_parts still_audit still_inserts)
  show "still.keeps (record_event env actor event details)"
    unfolding record_event_def by (intro still.keeps_parts still_audit)
qed

lemma readings_Inr:
  "now_act env s = (Inr v, s') \<longleftrightarrow> v = vn_now env (vs_reads s) \<and> s' = s\<lparr>vs_reads := Suc (vs_reads s)\<rparr>"
  "uuid_act env s = (Inr i, s') \<longleftrightarrow> i = vn_uuid env (vs_draws s) \<and> s' = s\<lparr>vs_draws := Suc (vs_draws s)\<rparr>"
  "read_db f s = (Inr w, s') \<longleftrightarrow> w = f (vs_db s) \<and> s' = s"
  "write_db g s = (Inr u, s') \<longleftrightarrow> s' = s\<lparr>vs_db := g (vs_db s)\<rparr>"
  "insert_checked ok g s = (Inr u, s') \<longleftrightarrow> ok (vs_db s) \<and> s' = s\<lparr>vs_db := g (vs_db s)\<rparr>"
  "vpn_transaction m s = (Inr x, s') \<longleftrightarrow> m s = (Inr x, s')"
  by (auto simp: now_act_def uuid_act_def read_db_def write_db_def insert_checked_def vpn_transaction_def split: prod.split sum.split)

lemmas vpn_Inr = bindS_Inr_iff basic_Inr_iff readings_Inr

lemma known_device_Inr: "known_device i s = (Inr r, s') \<longleftrightarrow> (\<exists>t. sql_column i = Inr (Some t) \<and> find_row de_id t (vd_devices (vs_db s)) = Some r) \<and> s' = s"
  by (auto simp: known_device_def vpn_Inr find_device_def split: option.splits)

lemma in_sort_desc [simp]: "set (descending key rows) = set rows"
  by (simp add: descending_def)

lemma active_policy_Some: "active_policy d = Some p \<Longrightarrow> p \<in> set (vd_policies d) \<and> po_active p"
proof -
  assume "active_policy d = Some p"
  then obtain ps where "descending po_effective_at (filter po_active (vd_policies d)) = p # ps"
    by (auto simp: active_policy_def split: list.splits)
  then have "p \<in> set (descending po_effective_at (filter po_active (vd_policies d)))" by simp
  then show ?thesis by simp
qed

lemma find_in: "find P xs = Some x \<Longrightarrow> x \<in> set xs \<and> P x" "Some x = find P xs \<Longrightarrow> x \<in> set xs \<and> P x"
  by (auto simp: find_Some_iff dest!: sym [of "Some x"])

lemma select_policy_Inr: "select_policy v s = (Inr p, s') \<Longrightarrow> s' = s \<and> p \<in> set (vd_policies (vs_db s)) \<and> po_active p"
  by (auto simp: select_policy_def vpn_Inr dest: find_in active_policy_Some active_policy_Some [OF sym] split: if_splits option.splits)

text \<open>The acceptance a successful call records.\<close>

definition accepted_by :: "vpn_env \<Rightarrow> vpn_state \<Rightarrow> json \<Rightarrow> string \<Rightarrow> json \<Rightarrow> json \<Rightarrow> vpn_acceptance \<Rightarrow> bool" where
  "accepted_by env s device actor version source a \<longleftrightarrow>
     is_ok (fst (accept_policy env device actor version source s)) \<and> sql_column device = Inr (Some (ac_device_id a)) \<and>
     ac_expires_at a = vn_iso env (vn_now env (vs_reads s) + vn_days env * day) \<and>
     (\<exists>p\<in>set (vd_policies (vs_db s)). po_id p = ac_policy_id a \<and> po_active p)"

lemma accept_policy_acceptances:
  assumes "accept_policy env device actor version source s = (r, s')"
  shows "vd_acceptances (vs_db s') = vd_acceptances (vs_db s) \<or>
    (\<exists>a. vd_acceptances (vs_db s') = vd_acceptances (vs_db s) @ [a] \<and> accepted_by env s device actor version source a)"
proof (cases r)
  case (Inl e)
  then show ?thesis
    using assms by (auto simp: accept_policy_def Let_def bindS_def now_act_def vpn_transaction_def split: prod.splits sum.splits)
next
  case (Inr v)
  then have run: "accept_policy env device actor version source s = (Inr v, s')" using assms by simp
  define s0 where "s0 = s\<lparr>vs_reads := Suc (vs_reads s)\<rparr>"
  obtain dev p s1 i given s3 where steps: "known_device device s0 = (Inr dev, s0)" "select_policy version s0 = (Inr p, s1)"
    "insert_acceptance \<lparr>ac_id = i, ac_device_id = de_id dev, ac_policy_id = po_id p, ac_accepted_at = vn_iso env (vn_now env (vs_reads s)),
         ac_expires_at = vn_iso env (vn_now env (vs_reads s) + vn_days env * day), ac_actor = actor,
         ac_source = (if given = [] then ''portal'' else given)\<rparr> (s1\<lparr>vs_draws := Suc (vs_draws s1)\<rparr>) = (Inr (), s3)"
    "same_acceptances s3 s'"
    using run still.keepsD [OF still_audit] unfolding accept_policy_def Let_def vpn_Inr s0_def
    by (auto simp: known_device_Inr) (metis snd_conv)
  define a where "a = \<lparr>ac_id = i, ac_device_id = de_id dev, ac_policy_id = po_id p, ac_accepted_at = vn_iso env (vn_now env (vs_reads s)),
         ac_expires_at = vn_iso env (vn_now env (vs_reads s) + vn_days env * day), ac_actor = actor,
         ac_source = (if given = [] then ''portal'' else given)\<rparr>"
  have policy: "s1 = s0" "p \<in> set (vd_policies (vs_db s))" "po_active p" using select_policy_Inr [OF steps(2)] by (simp_all add: s0_def)
  have "vd_acceptances (vs_db s') = vd_acceptances (vs_db s) @ [a]"
    using steps(3,4) unfolding a_def [symmetric] by (simp add: insert_acceptance_def readings_Inr same_acceptances_def policy(1) s0_def)
  moreover have "accepted_by env s device actor version source a"
    using run policy(2,3) steps(1) by (auto simp: accepted_by_def known_device_Inr a_def dest: find_row_SomeD)
  ultimately show ?thesis by blast
qed

lemma still_act: "(\<And>device actor version source. c \<noteq> AcceptPolicy device actor version source) \<Longrightarrow> still.keeps (vpn_act_of env c)"
  by (cases c) (auto intro!: still_calls still.keeps_bindS still.keeps_ret)

lemma vpn_run_snoc: "vpn_run env s (calls @ [c]) = snd (vpn_act_of env c (vpn_run env s calls))"
  by (simp add: vpn_run_def vpn_step_def)

lemma acceptances_stem_from_calls:
  assumes "a \<in> set (vd_acceptances (vs_db (vpn_run env fresh_vpn calls)))"
  shows "\<exists>earlier later device actor version source.
    calls = earlier @ AcceptPolicy device actor version source # later \<and>
    accepted_by env (vpn_run env fresh_vpn earlier) device actor version source a"
  using assms
proof (induction calls rule: rev_induct)
  case (snoc c calls)
  let ?s = "vpn_run env fresh_vpn calls"
  consider "a \<in> set (vd_acceptances (vs_db ?s))"
    | device actor version source where "c = AcceptPolicy device actor version source" "accepted_by env ?s device actor version source a"
  proof (cases "\<exists>device actor version source. c = AcceptPolicy device actor version source")
    case True
    then obtain device actor version source where c: "c = AcceptPolicy device actor version source" by blast
    have "a \<in> set (vd_acceptances (vs_db (snd (accept_policy env device actor version source ?s))))"
      using snoc.prems by (simp add: vpn_run_snoc c)
    then show thesis
      using accept_policy_acceptances [of env device actor version source ?s] that c by (metis UnE empty_iff empty_set prod.collapse set_ConsD set_append)
  next
    case False
    then have "same_acceptances ?s (vpn_run env fresh_vpn (calls @ [c]))"
      unfolding vpn_run_snoc by (intro still.keepsD still_act) blast
    then show thesis using snoc.prems that(1) by (simp add: same_acceptances_def)
  qed
  then show ?case
  proof cases
    case 1
    then show ?thesis using snoc.IH by (metis append.assoc append_Cons)
  next
    case (2 device actor version source)
    then show ?thesis by blast
  qed
qed (simp add: vpn_run_def fresh_vpn_def empty_vpn_db_def)

lemma latest_acceptance_Some:
  assumes "latest_acceptance d i = Some (a, p)"
  shows "a \<in> set (vd_acceptances d) \<and> ac_device_id a = i"
proof -
  define rows where "rows = List.map_filter (\<lambda>a. if ac_device_id a = i
             then map_option (Pair a) (find_row po_id (ac_policy_id a) (vd_policies d)) else None) (vd_acceptances d)"
  obtain rs where "rev (sort_key (\<lambda>(a, p). ac_accepted_at a) rows) = (a, p) # rs"
    using assms by (auto simp: latest_acceptance_def rows_def split: list.splits)
  then have "(a, p) \<in> set (rev (sort_key (\<lambda>(a, p). ac_accepted_at a) rows))" by simp
  then have "(a, p) \<in> set rows" by simp
  then show ?thesis by (auto simp: rows_def List.map_filter_def split: if_splits)
qed

definition times_read_back :: "vpn_env \<Rightarrow> bool" where
  "times_read_back env \<longleftrightarrow> (\<forall>t. parse_time env (vn_iso env t) = Inr t)"

text \<open>
  C23. A device that counts as registered at a moment got there by a call that accepted, for this device, a policy that was active
  then, less than the registration period before; and when a policy is active now, it is the one accepted.
\<close>

theorem registrations_are_accepted:
  assumes "times_read_back env"
    and "device_status env (vs_db (vpn_run env fresh_vpn calls)) r now = Inr ''registered''"
  shows "\<exists>earlier later device actor version source p.
    calls = earlier @ AcceptPolicy device actor version source # later \<and>
    is_ok (fst (accept_policy env device actor version source (vpn_run env fresh_vpn earlier))) \<and>
    sql_column device = Inr (Some (de_id r)) \<and>
    now < vn_now env (vs_reads (vpn_run env fresh_vpn earlier)) + vn_days env * day \<and>
    p \<in> set (vd_policies (vs_db (vpn_run env fresh_vpn earlier))) \<and> po_active p \<and>
    (case active_policy (vs_db (vpn_run env fresh_vpn calls)) of None \<Rightarrow> True | Some q \<Rightarrow> po_id q = po_id p)"
proof -
  let ?d = "vs_db (vpn_run env fresh_vpn calls)"
  obtain a q t where latest: "latest_acceptance ?d (de_id r) = Some (a, q)" "parse_time env (ac_expires_at a) = Inr t" "now < t"
      "case active_policy ?d of None \<Rightarrow> True | Some p \<Rightarrow> po_id p = ac_policy_id a"
    using assms(2) by (auto simp: device_status_def bindE_Inr_iff split: if_splits option.splits)
  obtain earlier later device actor version source where
    call: "calls = earlier @ AcceptPolicy device actor version source # later"
      "accepted_by env (vpn_run env fresh_vpn earlier) device actor version source a"
    using acceptances_stem_from_calls latest_acceptance_Some [OF latest(1)] by metis
  then obtain p where p: "p \<in> set (vd_policies (vs_db (vpn_run env fresh_vpn earlier)))" "po_id p = ac_policy_id a" "po_active p"
    by (auto simp: accepted_by_def)
  have "t = vn_now env (vs_reads (vpn_run env fresh_vpn earlier)) + vn_days env * day"
    using latest(2) call(2) assms(1) by (simp add: accepted_by_def times_read_back_def)
  moreover have "case active_policy ?d of None \<Rightarrow> True | Some q \<Rightarrow> po_id q = po_id p"
    using latest(4) p(2) by (auto split: option.splits)
  moreover have "sql_column device = Inr (Some (de_id r))"
    using call(2) latest_acceptance_Some [OF latest(1)] by (simp add: accepted_by_def)
  ultimately show ?thesis
    using call p latest(3) unfolding accepted_by_def by blast
qed

section \<open>A new policy ends registrations\<close>

lemma audit_Inr: "vpn_audit env actor kind i details s = (Inr v, s') \<Longrightarrow> \<exists>e. vs_db s' = (vs_db s)\<lparr>vd_events := vd_events (vs_db s) @ [e]\<rparr>"
  by (auto simp: vpn_audit_def vpn_Inr insert_vpn_event_def)

lemma bind_readings:
  "bindS (now_act env) f s = f (vn_now env (vs_reads s)) (s\<lparr>vs_reads := Suc (vs_reads s)\<rparr>)"
  "bindS (uuid_act env) g s = g (vn_uuid env (vs_draws s)) (s\<lparr>vs_draws := Suc (vs_draws s)\<rparr>)"
  "bindS (write_db w) h s = h () (s\<lparr>vs_db := w (vs_db s)\<rparr>)"
  "bindS (pure_act r) k s = (Inr v, s') \<longleftrightarrow> (\<exists>x. r = Inr x \<and> k x s = (Inr v, s'))"
  by (auto simp: bindS_def now_act_def uuid_act_def write_db_def pure_act_def split: sum.split)

lemma bind_bind: "bindS (bindS m f) g s = bindS m (\<lambda>x. bindS (f x) g) s" "bindS (ret w) h s = h w s"
  by (auto simp: bindS_def ret_def split: prod.split sum.split)

lemmas vpn_transaction_Inr = readings_Inr(6)

lemma create_policy_Inr:
  assumes "create_policy env version title notice actor privacy terms effective (JBool True) s = (Inr v, s')"
  obtains p where "vd_policies (vs_db s') = vd_policies (deactivate_policies (vs_db s)) @ [p]" "po_active p" "po_id p \<notin> po_id ` set (vd_policies (vs_db s))"
proof -
  have ids: "po_id ` set (vd_policies (deactivate_policies d)) = po_id ` set (vd_policies d)" for d
    by (simp add: deactivate_policies_def image_image)
  have choose: "(if b then pure_act o1 else ret w) = pure_act (if b then o1 else Inr w)" for b :: bool and o1 :: "string outcome" and w
    by (rule ext) (simp add: pure_act_def ret_def)
  obtain p s1 s2 x i where p: "insert_policy p s1 = (Inr (), s2)" "vpn_audit env actor ''policy.created'' None x s2 = (Inr i, s')"
      "po_active p" "vs_db s1 = deactivate_policies (vs_db s)"
    using assms unfolding create_policy_def choose
    by (auto simp: bind_readings vpn_transaction_Inr vpn_Inr(1) [of "insert_policy p" for p] vpn_Inr(1) [of "vpn_audit env actor k j x" for k j x] readings_Inr(3))
  then have "vd_policies (vs_db s') = vd_policies (deactivate_policies (vs_db s)) @ [p]" "po_id p \<notin> po_id ` set (vd_policies (vs_db s))"
    using audit_Inr [OF p(2)] ids p by (auto simp: insert_policy_def readings_Inr)
  then show thesis using that p(3) by blast
qed

lemma reachable_ok: "vpn_ok (vs_db (vpn_run env fresh_vpn calls))"
  unfolding vpn_run_def by (rule registry.run_inv) (simp add: vpn_ok_def fresh_vpn_def empty_vpn_db_def)

text \<open>
  Once a new policy is created and activated, no device counts as registered, or as expired, before it accepts again: the
  new policy is the one in force, and no recorded acceptance is of it.
\<close>

theorem new_policies_end_registrations:
  assumes "is_ok (fst (create_policy env version title notice actor privacy terms effective (JBool True) (vpn_run env fresh_vpn calls)))"
  defines "s \<equiv> vpn_run env fresh_vpn (calls @ [CreatePolicy version title notice actor privacy terms effective (JBool True)])"
  shows "device_status env (vs_db s) r now \<in> {Inr ''quarantined'', Inr ''exempt'', Inr ''pending'', Inr ''policy_update_required''}"
proof -
  let ?d = "vs_db (vpn_run env fresh_vpn calls)"
  obtain v where run: "create_policy env version title notice actor privacy terms effective (JBool True) (vpn_run env fresh_vpn calls) = (Inr v, s)"
    using assms(1) unfolding s_def vpn_run_snoc by (auto simp: is_ok_iff prod_eq_iff)
  obtain p where p: "vd_policies (vs_db s) = vd_policies (deactivate_policies ?d) @ [p]" "po_active p" "po_id p \<notin> po_id ` set (vd_policies ?d)"
    by (rule create_policy_Inr [OF run])
  have "filter po_active (vd_policies (deactivate_policies ?d)) = []"
    by (auto simp: deactivate_policies_def filter_empty_conv)
  then have active: "active_policy (vs_db s) = Some p" using p(1,2) by (simp add: active_policy_def descending_def)
  have "same_acceptances (vpn_run env fresh_vpn calls) s" using still.keepsD [OF still_calls(1)] run by (metis snd_conv)
  then have "ac_policy_id a \<noteq> po_id p" if "latest_acceptance (vs_db s) i = Some (a, q)" for a q i
    using latest_acceptance_Some [OF that] reachable_ok [of env calls] p(3) unfolding same_acceptances_def vpn_ok_def image_subset_iff by metis
  then show ?thesis by (auto simp: device_status_def active split: option.split)
qed

section \<open>Quarantine\<close>

definition held :: "string \<Rightarrow> vpn_db \<Rightarrow> bool" where
  "held i d \<longleftrightarrow> (\<exists>r t. find_row de_id i (vd_devices d) = Some r \<and> de_quarantined_at r = Some t \<and> t \<noteq> [])"

definition holding :: "string \<Rightarrow> vpn_state \<Rightarrow> vpn_state \<Rightarrow> bool" where
  "holding i s s' \<longleftrightarrow> held i (vs_db s) \<longrightarrow> held i (vs_db s')"

interpretation hold: vpn_frame "holding i" for i
  by unfold_locales (auto simp: holding_def)

lemma hold_inserts:
  "hold.keeps i (insert_device r)" "hold.keeps i (insert_vpn_event e)" "hold.keeps i (insert_exemption x)" "hold.keeps i (insert_policy p)"
  "hold.keeps i (insert_acceptance a)" "hold.keeps i (write_db deactivate_policies)" "hold.keeps i (write_db (\<lambda>d. d\<lparr>vd_exemptions := g d\<rparr>))"
  unfolding insert_device_def insert_vpn_event_def insert_exemption_def insert_policy_def insert_acceptance_def deactivate_policies_def
  by (intro hold.keeps_insert hold.keeps_write; force simp: holding_def held_def find_row_append)+

lemma hold_update:
  assumes "\<And>r. de_id (f r) = de_id r"
    and "j = i \<Longrightarrow> (\<forall>r. de_quarantined_at (f r) = de_quarantined_at r) \<or> (\<exists>t. t \<noteq> [] \<and> (\<forall>r. de_quarantined_at (f r) = Some t))"
  shows "hold.keeps i (write_db (update_device j f))"
proof (rule hold.keeps_write)
  fix s :: vpn_state
  show "holding i s (s\<lparr>vs_db := update_device j f (vs_db s)\<rparr>)"
    unfolding holding_def
  proof
    assume "held i (vs_db s)"
    then obtain r t where r: "find_row de_id i (vd_devices (vs_db s)) = Some r" "de_quarantined_at r = Some t" "t \<noteq> []" by (auto simp: held_def)
    moreover have "find_row de_id i (vd_devices (update_device j f (vs_db s))) = Some (if j = i then f r else r)"
      using assms(1) r(1) find_row_SomeD [OF r(1)] by (auto simp: update_device_def find_row_update_where)
    ultimately show "held i (vs_db (s\<lparr>vs_db := update_device j f (vs_db s)\<rparr>))"
      using assms(2) by (cases "j = i") (auto simp: held_def)
  qed
qed

lemma hold_audit: "hold.keeps i (vpn_audit env actor kind j details)"
  unfolding vpn_audit_def by (intro hold.keeps_parts hold_inserts)

lemma hold_calls:
  "hold.keeps i (create_policy env version title notice actor privacy terms effective activate)"
  "hold.keeps i (upsert_device env key addresses actor name owner)"
  "hold.keeps i (accept_policy env device actor version source)"
  "hold.keeps i (add_exemption env device kind reason approved expires)"
  "hold.keeps i (revoke_exemption env j actor)"
  "hold.keeps i (set_policy_flags env device flags actor)"
  "hold.keeps i (record_event env actor event details)"
proof -
  show "hold.keeps i (create_policy env version title notice actor privacy terms effective activate)"
    unfolding create_policy_def by (intro hold.keeps_parts hold_inserts hold_audit)
  show "hold.keeps i (upsert_device env key addresses actor name owner)"
    unfolding upsert_device_def by (auto intro!: hold.keeps_parts hold_audit hold_inserts hold_update split: prod.split option.split)
  show "hold.keeps i (accept_policy env device actor version source)"
    unfolding accept_policy_def Let_def by (intro hold.keeps_parts hold_audit hold_inserts)
  show "hold.keeps i (add_exemption env device kind reason approved expires)"
    unfolding add_exemption_def by (intro hold.keeps_parts hold_audit hold_inserts)
  show "hold.keeps i (revoke_exemption env j actor)"
    unfolding revoke_exemption_def by (intro hold.keeps_parts hold_audit hold_inserts)
  show "hold.keeps i (set_policy_flags env device flags actor)"
    unfolding set_policy_flags_def by (intro hold.keeps_parts hold_audit hold_update) (simp_all add: set_flags_keep)
  show "hold.keeps i (record_event env actor event details)"
    unfolding record_event_def by (intro hold.keeps_parts hold_audit)
qed

definition times_shown :: "vpn_env \<Rightarrow> bool" where
  "times_shown env \<longleftrightarrow> (\<forall>t. vn_iso env t \<noteq> [])"

definition releases :: "string \<Rightarrow> vpn_call \<Rightarrow> bool" where
  "releases i c \<longleftrightarrow> (case c of SetQuarantine device v _ _ \<Rightarrow> v = JBool False \<and> sql_column device = Inr (Some i) | _ \<Rightarrow> False)"

lemma hold_quarantine:
  assumes "times_shown env" "\<not> releases i (SetQuarantine device v actor reason)"
  shows "hold.keeps i (set_quarantine env device v actor reason)"
proof -
  have update: "hold.keeps i (write_db (update_device (de_id r) (\<lambda>r. r\<lparr>de_quarantined_at := moment, de_quarantined_by := w, de_quarantine_reason := x, de_updated_at := y\<rparr>)))"
    if "known_device device s = (Inr r, s1)" "(if b then bindS (now_act env) (\<lambda>now. ret (Some (vn_iso env now))) else ret None) s3 = (Inr moment, s2)" "v = JBool b"
    for s s1 s2 s3 r moment b w x y
    using that assms by (intro hold_update) (auto simp: known_device_Inr releases_def times_shown_def vpn_Inr dest: find_row_SomeD split: if_splits)
  have body: "hold.keeps i (
       bindS (known_device device) (\<lambda>device.
       bindS (if b then bindS (now_act env) (\<lambda>now. ret (Some (vn_iso env now))) else ret None) (\<lambda>moment.
       bindS (now_act env) (\<lambda>now.
       bindS (write_db (update_device (de_id device) (\<lambda>r. r\<lparr>de_quarantined_at := moment, de_quarantined_by := w, de_quarantine_reason := x,
         de_updated_at := vn_iso env now\<rparr>))) (\<lambda>_. vpn_audit env actor k (Some (de_id device)) z)))))"
    if "v = JBool b" for b w x k z
    apply (rule hold.keeps_bindS_Inr [OF hold.keeps_known_device])
    apply (rule hold.keeps_bindS_Inr)
     apply (intro hold.keeps_parts)
    apply (rule hold.keeps_bindS)
     apply (rule hold.keeps_readings)
    apply (rule hold.keeps_bindS)
     apply (rule update [OF _ _ that], assumption, assumption)
    apply (rule hold_audit)
    done
  have checked: "v = JBool b" if "(case v of JBool b \<Rightarrow> Inr b | _ \<Rightarrow> Inl (ValueError ''quarantined must be a boolean'')) = Inr b" for b
    using that by (auto split: json.splits)
  show ?thesis
    unfolding set_quarantine_def
    apply (rule hold.keeps_bind_pure)
    apply (rule hold.keeps_bindS [OF hold.keeps_pure])+
    apply (rule hold.keeps_bindS [OF hold.keeps_vpn_transaction])
     apply (rule body [OF checked], assumption)
    apply (rule hold.keeps_get_device)
    done
qed

lemma hold_act: "times_shown env \<Longrightarrow> \<not> releases i c \<Longrightarrow> hold.keeps i (vpn_act_of env c)"
  using hold_quarantine by (cases c) (auto intro!: hold_calls hold.keeps_bindS hold.keeps_ret)

lemma hold_run: "times_shown env \<Longrightarrow> \<not> list_ex (releases i) calls \<Longrightarrow> holding i s (vpn_run env s calls)"
proof (induction calls arbitrary: s)
  case Nil
  then show ?case by (simp add: vpn_run_def holding_def)
next
  case (Cons c calls)
  then have "holding i s (snd (vpn_act_of env c s))" "holding i (snd (vpn_act_of env c s)) (vpn_run env (snd (vpn_act_of env c s)) calls)"
    using hold.keepsD [OF hold_act] by simp_all
  then show ?case by (simp add: vpn_run_def vpn_step_def holding_def)
qed

lemma same_devices_audit: "vpn_audit env actor kind j details s = (Inr v, s') \<Longrightarrow> vd_devices (vs_db s') = vd_devices (vs_db s)"
  using audit_Inr [of env actor kind j details s v s'] by auto

lemma quarantined_now:
  assumes "times_shown env" "set_quarantine env device (JBool True) actor reason s = (Inr v, s')" "sql_column device = Inr (Some i)"
  shows "held i (vs_db s')"
proof -
  obtain r s1 e where steps: "find_row de_id i (vd_devices (vs_db s)) = Some r"
      "vd_devices (vs_db s1) = update_where (\<lambda>q. de_id q = de_id r) (\<lambda>q. q\<lparr>de_quarantined_at := Some (vn_iso env (vn_now env (vs_reads s))),
        de_quarantined_by := actor, de_quarantine_reason := e, de_updated_at := vn_iso env (vn_now env (Suc (vs_reads s)))\<rparr>) (vd_devices (vs_db s))"
      "get_device env device s1 = (Inr v, s')"
    using assms(2,3) unfolding set_quarantine_def
    by (auto simp: bind_readings vpn_transaction_Inr vpn_Inr(1) [of "vpn_transaction m" for m] vpn_Inr(1) [of "known_device j" for j] known_device_Inr
      bind_bind update_device_def dest!: same_devices_audit)
  have "hold.keeps i (get_device env device)" by (rule hold.keeps_get_device)
  then have "holding i s1 s'" using hold.keepsD [of i "get_device env device" s1] steps(3) by simp
  moreover have "held i (vs_db s1)"
    using steps(1,2) assms(1) find_row_SomeD [OF steps(1)] by (simp add: held_def find_row_update_where times_shown_def)
  ultimately show ?thesis by (simp add: holding_def)
qed

text \<open>
  A quarantined device stays so: after a successful call that quarantines it, whatever calls follow except one that lifts the
  quarantine of this device, its status is quarantined at every moment.
\<close>

theorem quarantine_holds:
  assumes "times_shown env" "sql_column device = Inr (Some i)" "\<not> list_ex (releases i) later"
    and "is_ok (fst (set_quarantine env device (JBool True) actor reason (vpn_run env fresh_vpn calls)))"
  defines "s \<equiv> vpn_run env fresh_vpn (calls @ SetQuarantine device (JBool True) actor reason # later)"
  shows "\<exists>r. find_row de_id i (vd_devices (vs_db s)) = Some r \<and> device_status env (vs_db s) r now = Inr ''quarantined''"
proof -
  let ?s = "snd (set_quarantine env device (JBool True) actor reason (vpn_run env fresh_vpn calls))"
  obtain v where "set_quarantine env device (JBool True) actor reason (vpn_run env fresh_vpn calls) = (Inr v, ?s)"
    using assms(4) by (auto simp: is_ok_iff prod_eq_iff)
  then have "held i (vs_db ?s)" using quarantined_now assms(1,2) by blast
  moreover have "s = vpn_run env ?s later" by (simp add: s_def vpn_run_def vpn_step_def)
  ultimately have "held i (vs_db s)" using hold_run [OF assms(1,3), of ?s] by (simp add: holding_def)
  then show ?thesis by (auto simp: held_def device_status_def)
qed

section \<open>A concrete registration\<close>

text \<open>Times are shown in binary, a reading of the clock is its index, ids count up.\<close>

function bits :: "int \<Rightarrow> string" where
  "bits n = (if n \<le> 0 then [] else (if odd n then CHR ''1'' else CHR ''0'') # bits (n div 2))"
  by pat_completeness auto
termination by (relation "measure nat") auto

declare bits.simps [simp del]

fun of_bits :: "string \<Rightarrow> int" where
  "of_bits [] = 0"
| "of_bits (c # t) = (if c = CHR ''1'' then 1 else 0) + 2 * of_bits t"

lemma of_bits: "0 \<le> n \<Longrightarrow> of_bits (bits n) = n"
proof (induction n rule: bits.induct)
  case (1 n)
  show ?case
  proof (cases "n = 0")
    case False
    then have "of_bits (bits (n div 2)) = n div 2" using 1 by simp
    then show ?thesis using 1 False by (subst bits.simps) (auto elim!: evenE oddE)
  qed (simp add: bits.simps)
qed

lemma bits_plain: "CHR ''Z'' \<notin> set (bits n)"
proof (induction n rule: bits.induct)
  case (1 n)
  then show ?case by (subst bits.simps) simp
qed

definition demo_iso :: "int \<Rightarrow> string" where
  "demo_iso t = (if t < 0 then CHR ''-'' # bits (- t) else CHR ''+'' # bits t)"

definition demo_time :: "string \<Rightarrow> int outcome" where
  "demo_time t = (case t of [] \<Rightarrow> Inl (ValueError ''Invalid isoformat string'')
     | c # r \<Rightarrow> Inr (if c = CHR ''-'' then - of_bits r else of_bits r))"

definition demo_vpn :: vpn_env where
  "demo_vpn = \<lparr>vn_days = 30, vn_now = int, vn_uuid = show_nat, vn_iso = demo_iso, vn_parse = demo_time, vn_interface = Inr, vn_sha256 = id\<rparr>"

lemma demo_times: "times_read_back demo_vpn" "times_shown demo_vpn"
proof -
  have plain: "concat (map (\<lambda>c. if c = CHR ''Z'' then ''+00:00'' else [c]) t) = t" if "CHR ''Z'' \<notin> set t" for t
    using that by (induction t) auto
  have "CHR ''Z'' \<notin> set (demo_iso t)" "demo_time (demo_iso t) = Inr t" for t
    using bits_plain of_bits by (simp_all add: demo_iso_def demo_time_def)
  then show "times_read_back demo_vpn"
    by (simp add: times_read_back_def parse_time_def demo_vpn_def plain)
  show "times_shown demo_vpn" by (simp add: times_shown_def demo_vpn_def demo_iso_def)
qed

definition demo_calls :: "vpn_call list" where
  "demo_calls =
     [CreatePolicy (JStr ''1'') (JStr ''Use'') (JStr ''Be kind'') ''admin'' (JStr []) (JStr []) JNull (JBool True),
      UpsertDevice (JStr ''0123456789abcdef'') (JList [JStr ''10.0.0.2/32'']) ''admin'' (JStr ''laptop'') (JStr ''ann''),
      AcceptPolicy (JStr ''2'') ''ann'' JNull (JStr ''portal'')]"

definition demo_device :: vpn_device where
  "demo_device = new_device ''2'' ''0123456789abcdef'' [''10.0.0.2/32''] ''laptop'' ''ann'' (demo_iso 2)"

lemma demo_registered: "device_status demo_vpn (vs_db (vpn_run demo_vpn fresh_vpn demo_calls)) demo_device 100 = Inr ''registered''"
  by code_simp

theorem registrations_are_accepted_witness:
  "\<exists>earlier later device actor version source p.
    demo_calls = earlier @ AcceptPolicy device actor version source # later \<and>
    is_ok (fst (accept_policy demo_vpn device actor version source (vpn_run demo_vpn fresh_vpn earlier))) \<and>
    sql_column device = Inr (Some ''2'') \<and>
    100 < vn_now demo_vpn (vs_reads (vpn_run demo_vpn fresh_vpn earlier)) + vn_days demo_vpn * day \<and>
    p \<in> set (vd_policies (vs_db (vpn_run demo_vpn fresh_vpn earlier))) \<and> po_active p \<and>
    (case active_policy (vs_db (vpn_run demo_vpn fresh_vpn demo_calls)) of None \<Rightarrow> True | Some q \<Rightarrow> po_id q = po_id p)"
  using registrations_are_accepted [OF demo_times(1) demo_registered] by (simp add: demo_device_def new_device_def)

lemma demo_second_policy: "is_ok (fst (create_policy demo_vpn (JStr ''2'') (JStr ''Use'') (JStr ''Be kinder'') ''admin'' (JStr []) (JStr []) JNull (JBool True)
    (vpn_run demo_vpn fresh_vpn demo_calls)))"
  by code_simp

theorem new_policies_end_registrations_witness:
  "device_status demo_vpn (vs_db (vpn_run demo_vpn fresh_vpn (demo_calls @
      [CreatePolicy (JStr ''2'') (JStr ''Use'') (JStr ''Be kinder'') ''admin'' (JStr []) (JStr []) JNull (JBool True)]))) demo_device 100
    \<in> {Inr ''quarantined'', Inr ''exempt'', Inr ''pending'', Inr ''policy_update_required''}"
  by (rule new_policies_end_registrations [OF demo_second_policy])

lemma demo_quarantine: "is_ok (fst (set_quarantine demo_vpn (JStr ''2'') (JBool True) ''admin'' (JStr ''lost'') (vpn_run demo_vpn fresh_vpn demo_calls)))"
  by code_simp

theorem quarantine_holds_witness:
  "\<exists>r. find_row de_id ''2'' (vd_devices (vs_db (vpn_run demo_vpn fresh_vpn (demo_calls @ SetQuarantine (JStr ''2'') (JBool True) ''admin'' (JStr ''lost'') #
      [AcceptPolicy (JStr ''2'') ''ann'' JNull (JStr ''portal'')])))) = Some r \<and>
    device_status demo_vpn (vs_db (vpn_run demo_vpn fresh_vpn (demo_calls @ SetQuarantine (JStr ''2'') (JBool True) ''admin'' (JStr ''lost'') #
      [AcceptPolicy (JStr ''2'') ''ann'' JNull (JStr ''portal'')]))) r 100 = Inr ''quarantined''"
  by (rule quarantine_holds [OF demo_times(2) _ _ demo_quarantine]) (simp_all add: sql_column_def releases_def)

text \<open>A version that is a number raises an exception that no handler of the routes catches.\<close>

lemma numeric_version_raises: "\<exists>s'. create_policy env (JInt 2) title notice actor privacy terms effective activate s = (Inl (AttributeError ''strip''), s')"
  by (simp add: create_policy_def bindS_def pure_act_def stripped_def)

end
