(* ===== verification/HostTheorems.thy ===== *)
theory HostTheorems
  imports HostReload
begin

text \<open>
  What the restart promises: the broker restarts the service once when everything it observed before was as
  demanded, and never otherwise; the action of the API restarts it at most twice, and once when it succeeds.
\<close>

section \<open>Actions that restart nothing\<close>

definition steady_step :: "host \<Rightarrow> host \<Rightarrow> bool" where
  "steady_step h h' \<longleftrightarrow> ho_restarts h' = ho_restarts h \<and> (\<exists>es. ho_audit h' = ho_audit h @ es)"

interpretation steady: state_frame steady_step
  by unfold_locales (auto simp: steady_step_def)

named_theorems quiet

lemmas [quiet] = steady.keeps_ret steady.keeps_raise steady.keeps_pure steady.keeps_bindS steady.keeps_if steady.keeps_option

lemma quiet_reads [quiet]:
  "steady.keeps (observe_host f)" "steady.keeps (command env g)" "steady.keeps (must ok m)"
  by (simp_all add: steady.keeps_def steady_step_def observe_host_def command_def must_def ret_def raise_err_def Let_def split: option.split)

lemma quiet_observations [quiet]:
  "steady.keeps (resolve_asterisk_pid env)" "steady.keeps (service_pid env s)" "steady.keeps (service_active env s)"
  "steady.keeps (repo_head env)" "steady.keeps (source_sha256 env)" "steady.keeps (source_is_file env)"
  unfolding resolve_asterisk_pid_def service_pid_def service_active_def repo_head_def source_sha256_def source_is_file_def
  by (intro quiet)+

lemma quiet_broker_audit [quiet]: "steady.keeps (broker_audit env e)" "steady.keeps (audit_best_effort env e)"
  by (simp_all add: steady.keeps_def steady_step_def broker_audit_def audit_best_effort_def)

lemma quiet_peer [quiet]: "steady.keeps (peer_is_operations_api env pid uid)"
  unfolding peer_is_operations_api_def by (intro quiet)

lemma quiet_json_obj: "(\<And>d. v = JObj d \<Longrightarrow> steady.keeps (f d)) \<Longrightarrow> steady.keeps m \<Longrightarrow>
    steady.keeps (case v of JObj d \<Rightarrow> f d | _ \<Rightarrow> m)"
  by (cases v) simp_all

lemma quiet_load_approved [quiet]: "steady.keeps (load_approved_runtime env)"
  unfolding load_approved_runtime_def by (intro quiet quiet_json_obj)

lemma quiet_wait [quiet]: "steady.keeps (wait_active env s n)" "steady.keeps (wait_healthy env n)"
  by (induction n) (auto intro!: quiet)

lemma quiet_preconditions [quiet]: "steady.keeps (reload_preconditions env d)" "steady.keeps (action_preconditions env d)"
  unfolding reload_preconditions_def action_preconditions_def by (auto intro!: quiet split: prod.split)

section \<open>What the broker demands\<close>

definition approved_at :: "host_env \<Rightarrow> nat \<Rightarrow> string \<Rightarrow> string \<Rightarrow> bool" where
  "approved_at env k head sha \<longleftrightarrow>
     (\<exists>mk d. he_marker env k = Some mk \<and> mk_regular mk \<and> mk_uid mk = 0 \<and> \<not> mk_writable_by_others mk \<and>
       2 \<le> mk_size mk \<and> mk_size mk \<le> 4096 \<and> mk_value mk = Some (JObj d) \<and>
       set (map fst d) = {''version'', ''service'', ''repo_head'', ''source_sha256''} \<and>
       jget d ''version'' \<in> {JInt 1, JBool True} \<and> jget d ''service'' = JStr telephony_service \<and>
       jget d ''repo_head'' = JStr head \<and> jget d ''source_sha256'' = JStr sha \<and> lower_hex 40 head \<and> lower_hex 64 sha)"

lemma command_Inr: "command env f h = (Inr v, h') \<longleftrightarrow>
    he_fails env (ho_reads h) = None \<and> v = f (ho_reads h) \<and> h' = h\<lparr>ho_reads := Suc (ho_reads h)\<rparr>"
  by (auto simp: command_def Let_def split: option.split)

lemma observe_Inr: "observe_host f h = (Inr v, h') \<longleftrightarrow> v = f (ho_reads h) \<and> h' = h\<lparr>ho_reads := Suc (ho_reads h)\<rparr>"
  by (auto simp: observe_host_def)

lemma must_Inr: "must ok m h = (Inr v, h') \<longleftrightarrow> ok \<and> h' = h"
  by (auto simp: must_def ret_def raise_err_def)

lemmas host_Inr = bindS_Inr_iff basic_Inr_iff command_Inr observe_Inr must_Inr

lemma hex_field_iff: "hex_field n v \<longleftrightarrow> (\<exists>t. v = JStr t \<and> lower_hex n t)"
  by (cases v) (auto simp: hex_field_def)

lemma load_approved_Inr:
  "load_approved_runtime env h = (Inr (head, sha), h') \<longleftrightarrow>
     approved_at env (ho_reads h) head sha \<and> h' = h\<lparr>ho_reads := Suc (ho_reads h)\<rparr>"
proof -
  consider "he_marker env (ho_reads h) = None" | mk where "he_marker env (ho_reads h) = Some mk" "\<nexists>d. mk_value mk = Some (JObj d)"
    | mk d where "he_marker env (ho_reads h) = Some mk" "mk_value mk = Some (JObj d)" by fastforce
  then show ?thesis
  proof cases
    case 2
    then show ?thesis
      by (auto simp: load_approved_runtime_def approved_at_def host_Inr split: option.split json.split)
  next
    case 3
    then show ?thesis
      by (simp add: load_approved_runtime_def approved_at_def host_Inr hex_field_iff) fastforce
  qed (simp add: load_approved_runtime_def approved_at_def host_Inr)
qed

text \<open>The observations from number k that let a request through.\<close>

definition ready_at :: "host_env \<Rightarrow> doc \<Rightarrow> nat \<Rightarrow> bool" where
  "ready_at env d k \<longleftrightarrow>
     (\<forall>i\<in>set [1..<10]. he_fails env (k + i) = None) \<and>
     he_source env k \<noteq> None \<and> he_source_clean env (k + 1) \<and>
     he_active env (k + 2) telephony_service \<and> he_active env (k + 3) asterisk_service \<and> he_active env (k + 4) messaging_service \<and>
     jget d ''expected_pid'' = JInt (shown_pid (he_main_pid env (k + 5) telephony_service)) \<and>
     (\<exists>asterisk. identify_asterisk env (k + 6) = Some asterisk \<and> fst asterisk > 0) \<and>
     shown_pid (he_main_pid env (k + 7) messaging_service) > 0 \<and>
     (\<exists>sha. he_source env (k + 8) = Some sha \<and> jget d ''expected_source_sha256'' = JStr sha \<and>
       jget d ''expected_repo_head'' = JStr (shown_head (he_head env (k + 9))) \<and>
       approved_at env (k + 10) (shown_head (he_head env (k + 9))) sha)"

lemma resolve_Inr: "resolve_asterisk_pid env h = (Inr v, h') \<longleftrightarrow>
    he_fails env (ho_reads h) = None \<and> identify_asterisk env (ho_reads h) = Some v \<and> h' = h\<lparr>ho_reads := Suc (ho_reads h)\<rparr>"
  by (auto simp: resolve_asterisk_pid_def host_Inr split: option.splits)

lemma sha_Inr: "source_sha256 env h = (Inr v, h') \<longleftrightarrow>
    he_fails env (ho_reads h) = None \<and> he_source env (ho_reads h) = Some v \<and> h' = h\<lparr>ho_reads := Suc (ho_reads h)\<rparr>"
  by (auto simp: source_sha256_def host_Inr split: option.splits)

lemma if_false_Inr: "(if b then m else ret False) h = (Inr True, h') \<longleftrightarrow> b \<and> m h = (Inr True, h')"
  by (auto simp: ret_def)

lemma must_bind_Inr: "bindS m (\<lambda>ok. bindS (must ok t) (\<lambda>_. f)) h = (Inr v, h') \<longleftrightarrow> (\<exists>h1. m h = (Inr True, h1) \<and> f h1 = (Inr v, h'))"
  by (auto simp: host_Inr)

lemma if_bind_Inr: "bindS m (\<lambda>b. bindS (if b then m' else ret False) (\<lambda>ok. bindS (must ok t) (\<lambda>_. f))) h = (Inr v, h') \<longleftrightarrow>
    (\<exists>h1 h2. m h = (Inr True, h1) \<and> m' h1 = (Inr True, h2) \<and> f h2 = (Inr v, h'))"
  by (auto simp: host_Inr split: if_splits)

lemma preconditions_Inr:
  "reload_preconditions env d h = (Inr (pid, asterisk, messaging), h') \<longleftrightarrow>
     ready_at env d (ho_reads h) \<and> pid = shown_pid (he_main_pid env (ho_reads h + 5) telephony_service) \<and>
     identify_asterisk env (ho_reads h + 6) = Some asterisk \<and> messaging = shown_pid (he_main_pid env (ho_reads h + 7) messaging_service) \<and>
     h' = h\<lparr>ho_reads := ho_reads h + 11\<rparr>"
proof -
  have range: "(\<forall>i\<in>set [1..<10]. P i) \<longleftrightarrow> P 1 \<and> P 2 \<and> P 3 \<and> P 4 \<and> P 5 \<and> P 6 \<and> P 7 \<and> P 8 \<and> P 9" for P :: "nat \<Rightarrow> bool"
    by (simp add: upt_conv_Cons eval_nat_numeral)
  have one: "Suc k = k + 1" for k by simp
  show ?thesis
    unfolding reload_preconditions_def if_bind_Inr must_bind_Inr ready_at_def range
    by (simp add: service_active_def service_pid_def repo_head_def source_is_file_def resolve_Inr sha_Inr host_Inr load_approved_Inr
      case_prod_unfold) (auto simp: numeral_eq_Suc)
qed

section \<open>Exactly one restart for an authorised request\<close>

definition restarting :: "nat list \<Rightarrow> host \<Rightarrow> host \<Rightarrow> bool" where
  "restarting js h h' \<longleftrightarrow> ho_restarts h' = ho_restarts h @ js \<and> (\<exists>es. ho_audit h' = ho_audit h @ es)"

lemma steady_snd: "steady.keeps m \<Longrightarrow> restarting [] h (snd (m h))"
  using steady.keepsD [of m h] by (simp add: steady_step_def restarting_def)

lemma restarting_trans: "restarting js h h1 \<Longrightarrow> restarting js' h1 h2 \<Longrightarrow> restarting (js @ js') h h2"
  by (auto simp: restarting_def)

lemma restarting_calm: "restarting js h h1 \<Longrightarrow> restarting [] h1 h2 \<Longrightarrow> restarting js h h2"
  "restarting [] h h1 \<Longrightarrow> restarting js h1 h2 \<Longrightarrow> restarting js h h2"
  using restarting_trans by fastforce+

lemma restarting_bindS:
  assumes "restarting js h (snd (m h))" "\<And>v h1. m h = (Inr v, h1) \<Longrightarrow> steady.keeps (f v)"
  shows "restarting js h (snd (bindS m f h))"
proof (cases "m h")
  case (Pair r h1)
  then show ?thesis
    using assms restarting_calm(1) steady_snd by (cases r) (fastforce simp: bindS_def)+
qed

lemma restart_restarts: "restarting [ho_reads h] h (snd (restart_service env h))"
  by (simp add: restart_service_def restarting_def Let_def split: option.split)

lemma execute_reload_restarts:
  "restarting (if ready_at env d (ho_reads h) then [ho_reads h + 11] else []) h (snd (execute_reload env d h))"
proof (cases "reload_preconditions env d h")
  case (Pair r h1)
  have calm: "restarting [] h h1" using steady_snd [OF quiet_preconditions(1), of h env d] Pair by simp
  show ?thesis
  proof (cases r)
    case (Inl e)
    have "\<not> ready_at env d (ho_reads h)"
    proof
      assume ready: "ready_at env d (ho_reads h)"
      then obtain asterisk where "identify_asterisk env (ho_reads h + 6) = Some asterisk" by (auto simp: ready_at_def)
      then have "\<exists>pid messaging h2. reload_preconditions env d h = (Inr (pid, asterisk, messaging), h2)"
        using ready preconditions_Inr [of env d h] by blast
      then show False using Pair Inl by simp
    qed
    then show ?thesis using Pair Inl calm by (simp add: execute_reload_def)
  next
    case (Inr v)
    then obtain pid asterisk messaging where v: "v = (pid, asterisk, messaging)" by (cases v) auto
    define later where "later = (\<lambda>status :: int. bindS (must (status = 0) ''telephony console restart failed'') (\<lambda>_.
      bindS (wait_active env telephony_service 10) (\<lambda>active.
      bindS (service_pid env telephony_service) (\<lambda>pid'.
      bindS (resolve_asterisk_pid env) (\<lambda>asterisk'.
      bindS (service_pid env messaging_service) (\<lambda>messaging'.
      bindS (must (active \<and> pid' > 0 \<and> pid' \<noteq> pid) ''telephony console process did not rotate cleanly'') (\<lambda>_.
      bindS (must (fst asterisk' = fst asterisk \<and> messaging' = messaging) ''dependency process changed unexpectedly'') (\<lambda>_.
      ret (reload_result d pid asterisk pid' asterisk')))))))))"
    have "steady.keeps (later status)" for status unfolding later_def by (intro quiet)
    then have "restarting [ho_reads h1] h1 (snd (bindS (restart_service env) later h1))"
      by (intro restarting_bindS restart_restarts)
    moreover have "execute_reload env d h = bindS (restart_service env) later h1"
      using Pair Inr v by (simp add: execute_reload_def bindS_Inr later_def)
    moreover have "ready_at env d (ho_reads h) \<and> ho_reads h1 = ho_reads h + 11"
      using preconditions_Inr [of env d h pid asterisk messaging h1] Pair Inr v by simp
    ultimately show ?thesis using restarting_calm(2) [OF calm] by simp
  qed
qed

definition operations_peer :: "host_env \<Rightarrow> nat \<Rightarrow> bool" where
  "operations_peer env k \<longleftrightarrow>
     (case he_peer env k of (pid, uid, gid) \<Rightarrow> uid = he_allowed_uid env \<and> pid > 1 \<and>
       (\<exists>contents. he_cgroup env (k + 1) pid = Some contents \<and> in_allowed_cgroup contents))"

text \<open>The request a connection may carry out.\<close>

definition accepted_request :: "host_env \<Rightarrow> string list \<Rightarrow> nat \<Rightarrow> doc option" where
  "accepted_request env segments k =
     (case receive_request segments of
        Inl _ \<Rightarrow> None
      | Inr d \<Rightarrow> if operations_peer env k \<and> \<not> he_audit_fails env (k + 2) then Some d else None)"

definition attempt_entry :: "host_env \<Rightarrow> doc \<Rightarrow> nat \<Rightarrow> doc" where
  "attempt_entry env d k =
     audit_record env (he_clock env k) (py_str (jget d ''request_id'')) (he_peer env k) ''authorized_attempt'' JNull [] (k + 2)"

definition broker_restarts :: "host_env \<Rightarrow> string list \<Rightarrow> nat \<Rightarrow> nat list" where
  "broker_restarts env segments k =
     (case accepted_request env segments k of None \<Rightarrow> [] | Some d \<Rightarrow> if ready_at env d (k + 3) then [k + 14] else [])"

lemma restarting_more_audit: "restarting js h h' \<Longrightarrow> restarting js h (snd (audit_best_effort env e h'))"
  using restarting_calm(1) steady_snd [OF quiet_broker_audit(2)] by metis

lemma bindS_audit: "bindS (\<lambda>h. broker_audit env (e h) h) f h =
    (if he_audit_fails env (ho_reads h) then (Inl (OtherError ''OSError''), h\<lparr>ho_reads := Suc (ho_reads h)\<rparr>)
     else f () (h\<lparr>ho_reads := Suc (ho_reads h), ho_audit := ho_audit h @ [e h]\<rparr>))"
  by (simp add: bindS_def broker_audit_def)

lemma authorized_reload_restarts:
  "restarting (if \<not> he_audit_fails env (ho_reads h) \<and> ready_at env d (ho_reads h + 1) then [ho_reads h + 12] else []) h
     (snd (authorized_reload env started peer d h))"
  "he_audit_fails env (ho_reads h) \<or> (\<exists>es. ho_audit (snd (authorized_reload env started peer d h)) =
     ho_audit h @ audit_record env started (py_str (jget d ''request_id'')) peer ''authorized_attempt'' JNull [] (ho_reads h) # es)"
proof -
  let ?entry = "audit_record env started (py_str (jget d ''request_id'')) peer ''authorized_attempt'' JNull [] (ho_reads h)"
  define later where "later = (\<lambda>result. bindS (\<lambda>h. broker_audit env (audit_record env started (py_str (jget d ''request_id'')) peer ''succeeded'' JNull
        [(''pid_before'', jget result ''pid_before''), (''pid_after'', jget result ''pid_after'')] (ho_reads h)) h) (\<lambda>_. ret result))"
  have late: "steady.keeps (later result)" for result
    unfolding later_def by (intro steady.keeps_bindS steady.keeps_ret)
      (simp add: steady.keeps_def steady_step_def broker_audit_def)
  have unfold: "authorized_reload env started peer d h =
      (if he_audit_fails env (ho_reads h) then (Inl (OtherError ''OSError''), h\<lparr>ho_reads := Suc (ho_reads h)\<rparr>)
       else bindS (execute_reload env d) later (h\<lparr>ho_reads := Suc (ho_reads h), ho_audit := ho_audit h @ [?entry]\<rparr>))"
    by (simp add: authorized_reload_def later_def Let_def bindS_audit)
  define h1 where "h1 = h\<lparr>ho_reads := Suc (ho_reads h), ho_audit := ho_audit h @ [?entry]\<rparr>"
  have reads: "ho_reads h1 = ho_reads h + 1" by (simp add: h1_def)
  have run: "restarting (if ready_at env d (ho_reads h + 1) then [ho_reads h + 12] else []) h1 (snd (bindS (execute_reload env d) later h1))"
  proof (rule restarting_bindS)
    show "restarting (if ready_at env d (ho_reads h + 1) then [ho_reads h + 12] else []) h1 (snd (execute_reload env d h1))"
      using execute_reload_restarts [of env d h1] unfolding reads by (simp add: ac_simps split: if_splits)
  qed (rule late)
  have step: "restarting [] h h1" by (simp add: h1_def restarting_def)
  show "restarting (if \<not> he_audit_fails env (ho_reads h) \<and> ready_at env d (ho_reads h + 1) then [ho_reads h + 12] else []) h
     (snd (authorized_reload env started peer d h))"
    using restarting_calm(2) [OF step run] unfolding unfold h1_def by (simp add: restarting_def)
  show "he_audit_fails env (ho_reads h) \<or> (\<exists>es. ho_audit (snd (authorized_reload env started peer d h)) = ho_audit h @ ?entry # es)"
    using run unfolding unfold h1_def by (auto simp: restarting_def)
qed

definition attempts :: "host_env \<Rightarrow> string list \<Rightarrow> nat \<Rightarrow> doc list" where
  "attempts env segments k = (case accepted_request env segments k of None \<Rightarrow> [] | Some d \<Rightarrow> [attempt_entry env d k])"

lemma serve_restarts:
  "restarting (broker_restarts env segments (ho_reads h)) h (snd (serve_connection env segments h)) \<and>
   (\<exists>es. ho_audit (snd (serve_connection env segments h)) = ho_audit h @ attempts env segments (ho_reads h) @ es)"
proof -
  let ?now = "he_clock env (ho_reads h)" and ?audited = "\<lambda>h'. \<exists>es. ho_audit h' = ho_audit h @ attempts env segments (ho_reads h) @ es"
  obtain pid uid gid where peer: "he_peer env (ho_reads h) = (pid, uid, gid)" by (cases "he_peer env (ho_reads h)") auto
  let ?h1 = "h\<lparr>ho_reads := Suc (ho_reads h)\<rparr>"
  obtain r h2 where ask: "peer_is_operations_api env pid uid ?h1 = (r, h2)" by fastforce
  have calm: "restarting [] h h2"
    using steady_snd [OF quiet_peer, of ?h1 env pid uid] ask by (auto simp: restarting_def)
  have allowed: "r = Inr True \<longleftrightarrow> operations_peer env (ho_reads h)" "r = Inr True \<Longrightarrow> ho_reads h2 = ho_reads h + 2"
    and audit: "ho_audit h2 = ho_audit h"
    using ask peer by (auto simp: peer_is_operations_api_def operations_peer_def observe_host_def ret_def split: if_splits option.splits)
  have best: "?audited (snd (audit_best_effort env e h'))" if "?audited h'" for e h'
    using that by (auto simp: audit_best_effort_def broker_audit_def)
  show ?thesis
  proof (cases "r = Inr True \<and> (\<exists>d. receive_request segments = Inr d)")
    case False
    then have "accepted_request env segments (ho_reads h) = None"
      using allowed by (auto simp: accepted_request_def split: sum.split)
    then show ?thesis
      using False ask peer calm audit best [of h2]
      by (auto simp: serve_connection_def Let_def broker_restarts_def attempts_def intro!: restarting_more_audit split: sum.split)
  next
    case True
    then obtain d where request: "receive_request segments = Inr d" by blast
    have reads: "ho_reads h2 = ho_reads h + 2" using True allowed by blast
    have accepted: "accepted_request env segments (ho_reads h) = (if he_audit_fails env (ho_reads h + 2) then None else Some d)"
      using True allowed request by (simp add: accepted_request_def)
    note run = authorized_reload_restarts(1) [of env h2 d ?now "(pid, uid, gid)"] authorized_reload_restarts(2) [of env h2 ?now "(pid, uid, gid)" d]
    have "broker_restarts env segments (ho_reads h) =
        (if \<not> he_audit_fails env (ho_reads h2) \<and> ready_at env d (ho_reads h2 + 1) then [ho_reads h2 + 12] else [])"
      by (simp add: broker_restarts_def accepted reads eval_nat_numeral)
    then have first: "restarting (broker_restarts env segments (ho_reads h)) h (snd (authorized_reload env ?now (pid, uid, gid) d h2))"
      using restarting_calm(2) [OF calm run(1)] by simp
    have "attempts env segments (ho_reads h) =
        (if he_audit_fails env (ho_reads h2) then []
         else [audit_record env ?now (py_str (jget d ''request_id'')) (pid, uid, gid) ''authorized_attempt'' JNull [] (ho_reads h2)])"
      by (simp add: attempts_def accepted attempt_entry_def peer reads)
    then have second: "?audited (snd (authorized_reload env ?now (pid, uid, gid) d h2))"
      using run(2) first audit by (cases "he_audit_fails env (ho_reads h2)") (auto simp: restarting_def)
    show ?thesis
      using True ask peer request first second best
      by (auto simp: serve_connection_def Let_def intro!: restarting_more_audit split: prod.split sum.split)
  qed
qed

text \<open>
  C12. The broker restarts the telephony console once for a connection when its peer is the Operations API, its request is
  valid, the attempt is in the audit file and everything it then observes is as the request and the approval demand; it restarts
  nothing otherwise.
\<close>

theorem restarts_are_authorised:
  "ho_restarts (snd (serve_connection env segments h)) =
     ho_restarts h @
     (case accepted_request env segments (ho_reads h) of
        None \<Rightarrow> []
      | Some d \<Rightarrow> if ready_at env d (ho_reads h + 3) then [ho_reads h + 14] else []) \<and>
   (\<exists>es. ho_audit (snd (serve_connection env segments h)) =
     ho_audit h @ (case accepted_request env segments (ho_reads h) of None \<Rightarrow> [] | Some d \<Rightarrow> [attempt_entry env d (ho_reads h)]) @ es)"
  using serve_restarts [of env segments h] unfolding restarting_def broker_restarts_def attempts_def by blast

section \<open>Answers over the socket\<close>

lemma newline_free_esc: "CHR 0x0A \<notin> set (esc_char c)"
proof -
  have "code (hex_char d) \<noteq> 10" if "d < 16" for d
    using that by (auto simp: hex_char_def)
  then have free: "hex_char d \<noteq> CHR 0x0A" if "d < 16" for d using that by fastforce
  have "code c < 256" by simp
  then have "hex_char (code c div 16) \<noteq> CHR 0x0A" "hex_char (code c mod 16) \<noteq> CHR 0x0A"
    by (intro free; simp add: less_mult_imp_div_less)+
  then show ?thesis by (auto simp: esc_char_def Let_def)
qed

lemma newline_free_join: "CHR 0x0A \<notin> set sep \<Longrightarrow> \<forall>x\<in>set xs. CHR 0x0A \<notin> set x \<Longrightarrow> CHR 0x0A \<notin> set (join sep xs)"
  by (induction sep xs rule: join.induct) auto

lemma newline_free_show: "CHR 0x0A \<notin> set (show_int i)"
proof -
  have "CHR 0x0A \<notin> set (show_nat n)" for n
    using show_nat_digits [of n] by (auto simp: list_all_iff is_digit_def)
  then show ?thesis by (simp add: show_int_def)
qed

lemma newline_free_str: "CHR 0x0A \<notin> set (emit_str t)"
  using newline_free_esc by (auto simp: emit_str_def)

lemma newline_free_emit: "CHR 0x0A \<notin> set (emit tight j)"
proof (induction j)
  case (JObj d)
  have "CHR 0x0A \<notin> set (emit_str k @ key_sep tight @ emit tight v)" if "(k, v) \<in> set d" for k v
    using JObj.IH [of "(k, v)" v] that newline_free_str by (auto simp: key_sep_def)
  then have "CHR 0x0A \<notin> set (join (item_sep tight) (map (\<lambda>kv. emit_str (fst kv) @ key_sep tight @ snd kv) (map (map_prod id (emit tight)) d)))"
    by (intro newline_free_join) (auto simp: item_sep_def)
  then show ?case by simp
next
  case (JList js)
  then have "CHR 0x0A \<notin> set (join (item_sep tight) (map (emit tight) js))"
    by (intro newline_free_join) (auto simp: item_sep_def)
  then show ?case by simp
qed (auto simp: newline_free_show newline_free_str)

lemma receive_sent:
  "CHR 0x0A \<notin> set got \<Longrightarrow> CHR 0x0A \<notin> set t \<Longrightarrow> length got + length t < 8192 \<Longrightarrow>
    receive_line got [t @ [CHR 0x0A]] = got @ t @ [CHR 0x0A]"
proof (induction "length t" arbitrary: got t rule: less_induct)
  case less
  let ?n = "min 4096 (8193 - length got)"
  show ?case
  proof (cases "length t < ?n")
    case True
    then have "take ?n (t @ [CHR 0x0A]) = t @ [CHR 0x0A]" using less.prems by (intro take_all) auto
    then show ?thesis using less.prems by (subst receive_line.simps) (simp add: Let_def del: take_append)
  next
    case False
    have pos: "0 < ?n" "?n \<le> length t" using less.prems False by auto
    have "receive_line got [t @ [CHR 0x0A]] = receive_line (got @ take ?n t) [drop ?n t @ [CHR 0x0A]]"
      using less.prems pos by (subst receive_line.simps) (auto simp: Let_def dest: in_set_takeD)
    also have "\<dots> = (got @ take ?n t) @ drop ?n t @ [CHR 0x0A]"
      using pos less.prems by (intro less.hyps) (auto dest: in_set_takeD in_set_dropD)
    finally show ?thesis by (simp only: append_assoc append_take_drop_id append.assoc [symmetric, of "take ?n t"])
  qed
qed

lemma first_line_sent: "CHR 0x0A \<notin> set t \<Longrightarrow> first_line (t @ [CHR 0x0A]) = t"
  unfolding first_line_def by (subst takeWhile_append2) auto

text \<open>What the client reads of an answer the broker sends.\<close>

lemma sent_answer:
  assumes "wf_json (JObj d)" "length (canonical_json (JObj d)) < 8192"
  defines "got \<equiv> receive_line [] [canonical_json (JObj d) @ [CHR 0x0A]]"
  shows "json_loads (first_line got) = Some (canon (JObj d))" "length got \<le> 8192" "got \<noteq> []"
proof -
  have free: "CHR 0x0A \<notin> set (canonical_json (JObj d))"
    unfolding canonical_json_def json_dumps_def by (rule newline_free_emit)
  have "got = canonical_json (JObj d) @ [CHR 0x0A]"
    unfolding got_def using free assms(2) by (subst receive_sent) auto
  then show "json_loads (first_line got) = Some (canon (JObj d))" "length got \<le> 8192" "got \<noteq> []"
    using assms free by (simp_all add: first_line_sent json_loads_canonical)
qed

lemma dget_canon:
  assumes "distinct (map fst d)"
  shows "dget (sort_key fst (map (map_prod id canon) d)) k = map_option canon (dget d k)"
proof -
  let ?d = "map (map_prod id canon) d"
  have d: "distinct (map fst (sort_key fst ?d))" "distinct (map fst ?d)" using assms by (simp_all add: comp_def)
  have "dget (sort_key fst ?d) k = Some v \<longleftrightarrow> dget ?d k = Some v" for v
    using map_of_eq_Some_iff [OF d(1)] map_of_eq_Some_iff [OF d(2)] by simp
  moreover have "dget ?d k = map_option canon (dget d k)"
    by (induction d) auto
  ultimately show ?thesis by (metis not_Some_eq)
qed

lemma refused_answer:
  assumes "wf_json (JObj d)" "dget d ''status'' = Some (JStr ''error'')"
  shows "\<exists>e. broker_answer (broker_send d) i = Inl e"
proof -
  define big where "big = [(''version'', JInt 1), (''status'', JStr ''error''), (''error'', JStr ''response_too_large'')]"
  obtain d' where d': "broker_send d = canonical_json (JObj d') @ [CHR 0x0A]" "wf_json (JObj d')" "dget d' ''status'' = Some (JStr ''error'')"
    "length (canonical_json (JObj d')) < 8192"
  proof (cases "length (canonical_json (JObj d)) < 8192")
    case True
    then show thesis using that [of d] assms by (simp add: broker_send_def)
  next
    case False
    have "length (canonical_json (JObj big)) < 8192" unfolding big_def by code_simp
    then show thesis using that [of big] False by (simp add: broker_send_def big_def)
  qed
  have "json_loads (first_line (receive_line [] [broker_send d])) = Some (JObj (sort_key fst (map (map_prod id canon) d')))"
    using sent_answer(1) [OF d'(2,4)] d'(1) by simp
  moreover have "jget (sort_key fst (map (map_prod id canon) d')) ''status'' = JStr ''error''"
    using dget_canon [of d' "''status''"] d' by (simp add: jget_def)
  ultimately show ?thesis by (simp add: broker_answer_def Let_def)
qed

lemma execute_reload_Inr: "execute_reload env d h = (Inr r, h') \<Longrightarrow> ready_at env d (ho_reads h)"
  unfolding execute_reload_def bindS_Inr_iff by (auto simp: preconditions_Inr)

lemma authorized_reload_Inr:
  assumes "authorized_reload env started peer d h = (Inr r, h')"
  shows "\<not> he_audit_fails env (ho_reads h)" "ready_at env d (ho_reads h + 1)"
proof -
  show quiet: "\<not> he_audit_fails env (ho_reads h)"
    using assms by (auto simp: authorized_reload_def Let_def bindS_audit)
  then show "ready_at env d (ho_reads h + 1)"
    using assms by (auto simp: authorized_reload_def Let_def bindS_audit bindS_Inr_iff [of "execute_reload env d"] dest!: execute_reload_Inr)
qed

lemma silent_broker_refuses:
  assumes "broker_restarts env segments (ho_reads h) = []"
  shows "\<exists>e. broker_answer (fst (serve_connection env segments h)) i = Inl e"
proof -
  obtain pid uid gid where peer: "he_peer env (ho_reads h) = (pid, uid, gid)" by (cases "he_peer env (ho_reads h)") auto
  obtain r h2 where ask: "peer_is_operations_api env pid uid (h\<lparr>ho_reads := Suc (ho_reads h)\<rparr>) = (r, h2)" by fastforce
  have allowed: "r = Inr True \<longleftrightarrow> operations_peer env (ho_reads h)" "r = Inr True \<Longrightarrow> ho_reads h2 = ho_reads h + 2"
    using ask peer by (auto simp: peer_is_operations_api_def operations_peer_def observe_host_def ret_def split: if_splits option.splits)
  have "fst (serve_connection env segments h) = broker_send request_denied \<or> (\<exists>j. fst (serve_connection env segments h) = broker_send (action_failed j))"
  proof (cases "r = Inr True \<and> (\<exists>d. receive_request segments = Inr d)")
    case True
    then obtain d where request: "receive_request segments = Inr d" by blast
    obtain r' h3 where run: "authorized_reload env (he_clock env (ho_reads h)) (pid, uid, gid) d h2 = (r', h3)" by fastforce
    have "\<exists>e. r' = Inl e"
    proof (cases r')
      case (Inr result)
      then show ?thesis
        using authorized_reload_Inr [of env _ _ d h2 result h3] run assms True allowed request
        by (simp add: broker_restarts_def accepted_request_def eval_nat_numeral split: if_splits)
    qed simp
    then show ?thesis using True ask peer request run by (auto simp: serve_connection_def Let_def)
  qed (use ask peer in \<open>auto simp: serve_connection_def Let_def split: sum.split\<close>)
  moreover have "\<exists>e. broker_answer (broker_send request_denied) i = Inl e" "\<exists>e. broker_answer (broker_send (action_failed j)) i = Inl e" for j
    by (rule refused_answer; simp add: request_denied_def action_failed_def)+
  ultimately show ?thesis by auto
qed

section \<open>The action\<close>

definition restarted :: "nat \<Rightarrow> nat \<Rightarrow> host \<Rightarrow> host \<Rightarrow> bool" where
  "restarted low high h h' \<longleftrightarrow> (\<exists>js. restarting js h h' \<and> low \<le> length js \<and> length js \<le> high)"

lemma restartedI: "restarting js h h' \<Longrightarrow> low \<le> length js \<Longrightarrow> length js \<le> high \<Longrightarrow> restarted low high h h'"
  by (auto simp: restarted_def)

lemma restarted_trans: "restarted a b h h1 \<Longrightarrow> restarted c d h1 h2 \<Longrightarrow> restarted (a + c) (b + d) h h2"
  unfolding restarted_def using restarting_trans by (metis add_mono length_append)

lemma restarted_calm: "restarted 0 0 h h1 \<Longrightarrow> restarted a b h1 h2 \<Longrightarrow> restarted a b h h2"
  "restarted a b h h1 \<Longrightarrow> restarted 0 0 h1 h2 \<Longrightarrow> restarted a b h h2"
  using restarted_trans [of 0 0 h h1 a b h2] restarted_trans [of a b h h1 0 0 h2] by simp_all

lemma restarted_steady: "steady.keeps m \<Longrightarrow> restarted 0 0 h (snd (m h))"
  using steady_snd restartedI by fastforce

lemma restarted_widen: "restarted a b h h' \<Longrightarrow> c \<le> a \<Longrightarrow> b \<le> d \<Longrightarrow> restarted c d h h'"
  unfolding restarted_def by (meson order_trans)

lemma broker_reload_restarts:
  assumes "broker_reload env p i h = (r, h')"
  shows "restarted (if isl r then 0 else 1) 1 h h'"
proof -
  let ?sent = "[canonical_json (JObj (broker_request p i)) @ [CHR 0x0A]]" and ?h1 = "h\<lparr>ho_reads := Suc (ho_reads h)\<rparr>"
  have step: "restarting [] h ?h1" by (simp add: restarting_def)
  show ?thesis
  proof (cases "he_connects env (ho_reads h)")
    case False
    then show ?thesis
      using assms step by (auto simp: broker_reload_def bindS_def observe_host_def must_def raise_err_def intro!: restartedI)
  next
    case True
    obtain response h2 where serve: "serve_connection env ?sent ?h1 = (response, h2)" by fastforce
    let ?h2 = "h2\<lparr>ho_reads := Suc (ho_reads h2)\<rparr>"
    have "broker_reload env p i h =
        ((if he_answers env (ho_reads h2) then broker_answer response i else Inl (RuntimeError ''privileged broker is unavailable'')), ?h2)"
      using True serve by (simp add: broker_reload_def bindS_def observe_host_def must_def ret_def raise_err_def pure_act_def)
    then have out: "r = (if he_answers env (ho_reads h2) then broker_answer response i else Inl (RuntimeError ''privileged broker is unavailable''))" "h' = ?h2"
      using assms by simp_all
    have "restarting [] h2 h'" by (simp add: out restarting_def)
    moreover have "restarting (broker_restarts env ?sent (ho_reads ?h1)) h h2"
      using restarting_calm(2) [OF step] serve_restarts [of env ?sent ?h1] unfolding serve by (metis snd_conv)
    ultimately have "restarting (broker_restarts env ?sent (ho_reads ?h1)) h h'"
      by (metis restarting_calm(1))
    moreover have "length (broker_restarts env ?sent (ho_reads ?h1)) \<le> 1"
      by (simp add: broker_restarts_def split: option.split)
    moreover have "isl r" if "broker_restarts env ?sent (ho_reads ?h1) = []"
      using silent_broker_refuses [OF that, of i] serve out by auto
    ultimately show ?thesis by (intro restartedI) (auto simp: Suc_le_eq)
  qed
qed

lemma restarted_bindS:
  assumes "restarted 0 a h (snd (m h))" "\<And>v h1. m h = (Inr v, h1) \<Longrightarrow> restarted 0 b h1 (snd (f v h1))"
  shows "restarted 0 (a + b) h (snd (bindS m f h))"
proof (cases "m h")
  case (Pair r h1)
  then show ?thesis
    using assms restarted_trans [of 0 a h h1 0 b] restarted_widen [of 0 a h h1 0 "a + b"]
    by (cases r) (auto simp: bindS_def)
qed

lemma restarted_after_steady:
  assumes "steady.keeps m" "\<And>v h1. restarted 0 b h1 (snd (f v h1))"
  shows "restarted 0 b h (snd (bindS m f h))"
  using restarted_bindS [of 0 h m b f] restarted_steady [OF assms(1)] assms(2) by simp

lemma restarted_broker: "restarted 0 1 h (snd (broker_reload env p i h))"
  using broker_reload_restarts [of env p i h] restarted_widen [of _ 1 h _ 0 1] by (cases "broker_reload env p i h") auto

lemma restarted_recovery: "restarted 0 1 h (snd (attempt_recovery env p i pid' seen h))"
proof -
  have "restarted 0 1 h1 (snd ((\<lambda>h. (Inr (), if expected > 0 then snd (broker_reload env q j h) else h)) h1))" for expected :: int and h1 q j
    using restarted_broker restartedI [of "[]" h1 h1 0 1] by (simp add: restarting_def)
  then show ?thesis
    unfolding attempt_recovery_def by (intro restarted_after_steady) (auto intro!: quiet)
qed

lemma reload_restarts_bounded: "restarted 0 2 h (snd (reload_checked env p h))"
proof -
  define verify where "verify = (\<lambda>pid asterisk messaging sha head i broker.
      bindS (wait_healthy env 10) (\<lambda>healthy.
      bindS (service_pid env telephony_service) (\<lambda>pid'.
      bindS (resolve_asterisk_pid env) (\<lambda>asterisk'.
      bindS (service_pid env messaging_service) (\<lambda>messaging'.
      if \<not> healthy \<or> pid' \<le> 0 \<or> pid' = pid \<or> jget broker ''pid_after'' \<noteq> JInt pid' \<or> \<not> (fst asterisk' = fst asterisk \<and> messaging' = messaging)
      then bindS (attempt_recovery env p i pid' (jget broker ''pid_after'')) (\<lambda>_.
        raise_err (RuntimeError ''Telephony Console post-reload verification failed; bounded recovery attempted''))
      else ret (reload_report pid asterisk sha head i pid' asterisk'))))))"
  have fails: "restarted 0 1 h1 (snd (bindS (attempt_recovery env p i pid' seen) (\<lambda>_. raise_err e) h1))" for h1 i pid' seen and e :: py_error
    using restarted_bindS [of 1 h1 "attempt_recovery env p i pid' seen" 0] restarted_recovery restarted_steady [OF steady.keeps_raise] by fastforce
  have returns: "restarted 0 1 h1 (snd (ret v h1))" for h1 and v :: doc
    by (rule restartedI [of "[]"]) (simp_all add: ret_def restarting_def)
  have verified: "restarted 0 1 h1 (snd (verify pid asterisk messaging sha head i broker h1))" for pid asterisk messaging sha head i broker h1
    unfolding verify_def by (intro restarted_after_steady quiet) (simp add: fails returns del: One_nat_def)
  have "reload_checked env p = bindS (action_preconditions env p) (\<lambda>(pid, asterisk, messaging, sha, head).
      bindS (observe_host (\<lambda>k. ''ops-'' @ he_uuid env k)) (\<lambda>i. bindS (broker_reload env p i) (verify pid asterisk messaging sha head i)))"
    by (simp add: reload_checked_def verify_def)
  moreover have "restarted 0 2 h1 (snd (bindS (broker_reload env p i) (verify pid asterisk messaging sha head i) h1))" for pid asterisk messaging sha head i h1
    unfolding one_add_one [symmetric] by (rule restarted_bindS [OF restarted_broker verified])
  then have "restarted 0 2 h1 (snd (bindS (observe_host (\<lambda>k. ''ops-'' @ he_uuid env k)) (\<lambda>i. bindS (broker_reload env p i) (verify pid asterisk messaging sha head i)) h1))"
    for pid asterisk messaging sha head h1
    by (rule restarted_after_steady [OF quiet_reads(1)])
  ultimately show ?thesis
    by (simp only:) (rule restarted_after_steady [OF quiet_preconditions(2)], simp only: split: prod.split, blast)
qed

lemma action_preconditions_Inr:
  "action_preconditions env p h = (Inr (pid, rest), h') \<Longrightarrow> jget p ''expected_pid'' = JInt pid"
  unfolding action_preconditions_def host_Inr by auto

lemma checked_reload_restarts:
  "case reload_checked env p h of
     (outcome, h') \<Rightarrow>
       \<exists>js. ho_restarts h' = ho_restarts h @ js \<and> length js \<le> 2 \<and>
         (case outcome of
            Inl _ \<Rightarrow> True
          | Inr v \<Rightarrow> length js = 1 \<and>
              (\<exists>before after. jget p ''expected_pid'' = JInt before \<and> jget v ''pid_before'' = JInt before \<and>
                jget v ''pid_after'' = JInt after \<and> 0 < after \<and> after \<noteq> before \<and> jget v ''loopback_health'' = JBool True))"
proof (cases "reload_checked env p h")
  case (Pair outcome h')
  have bound: "restarted 0 2 h h'" using reload_restarts_bounded [of h env p] Pair by simp
  show ?thesis
  proof (cases outcome)
    case (Inl e)
    then show ?thesis using bound Pair by (auto simp: restarted_def restarting_def)
  next
    case (Inr v)
    then have "reload_checked env p h = (Inr v, h')" using Pair by simp
    then obtain pid asterisk messaging sha head h1 where
      first: "action_preconditions env p h = (Inr (pid, asterisk, messaging, sha, head), h1)" and
      rest: "(bindS (observe_host (\<lambda>k. ''ops-'' @ he_uuid env k)) (\<lambda>i. bindS (broker_reload env p i) (\<lambda>broker.
          bindS (wait_healthy env 10) (\<lambda>healthy. bindS (service_pid env telephony_service) (\<lambda>pid'.
          bindS (resolve_asterisk_pid env) (\<lambda>asterisk'. bindS (service_pid env messaging_service) (\<lambda>messaging'.
          if \<not> healthy \<or> pid' \<le> 0 \<or> pid' = pid \<or> jget broker ''pid_after'' \<noteq> JInt pid' \<or> \<not> (fst asterisk' = fst asterisk \<and> messaging' = messaging)
          then bindS (attempt_recovery env p i pid' (jget broker ''pid_after'')) (\<lambda>_.
            raise_err (RuntimeError ''Telephony Console post-reload verification failed; bounded recovery attempted''))
          else ret (reload_report pid asterisk sha head i pid' asterisk')))))))) h1 = (Inr v, h')"
      unfolding reload_checked_def bindS_Inr_iff [of "action_preconditions env p"] by (auto simp del: bindS_Inr)
    then obtain i broker healthy pid' asterisk' messaging' h2 h3 h4 h5 h6 h7 where
      steps: "observe_host (\<lambda>k. ''ops-'' @ he_uuid env k) h1 = (Inr i :: py_error + string, h2)" "broker_reload env p i h2 = (Inr broker, h3)"
        "wait_healthy env 10 h3 = (Inr healthy, h4)" "service_pid env telephony_service h4 = (Inr pid', h5)"
        "resolve_asterisk_pid env h5 = (Inr asterisk', h6)" "service_pid env messaging_service h6 = (Inr messaging', h7)"
      and last: "(if \<not> healthy \<or> pid' \<le> 0 \<or> pid' = pid \<or> jget broker ''pid_after'' \<noteq> JInt pid' \<or> \<not> (fst asterisk' = fst asterisk \<and> messaging' = messaging)
          then bindS (attempt_recovery env p i pid' (jget broker ''pid_after'')) (\<lambda>_.
            raise_err (RuntimeError ''Telephony Console post-reload verification failed; bounded recovery attempted''))
          else ret (reload_report pid asterisk sha head i pid' asterisk')) h7 = (Inr v, h')"
      unfolding bindS_Inr_iff by (elim exE conjE) (rule that)
    have result: "v = reload_report pid asterisk sha head i pid' asterisk'" "h' = h7" "0 < pid'" "pid' \<noteq> pid"
      using last by (auto simp: bindS_Inr_iff basic_Inr_iff split: if_splits)
    note steps = first steps
    have "restarted 0 0 h h1" using restarted_steady [OF quiet_preconditions(2), of h env p] steps(1) by simp
    moreover have "restarted 0 0 h1 h2" using restarted_steady [OF quiet_reads(1)] steps(2) by (metis snd_conv)
    ultimately have "restarted 0 0 h h2" by (rule restarted_calm)
    moreover have "restarted 1 1 h2 h3" using broker_reload_restarts [OF steps(3)] by simp
    moreover have "restarted 0 0 h3 h7"
    proof -
      have "restarted 0 0 h3 h4" using restarted_steady [OF quiet_wait(2), of h3 env 10] steps(4) by simp
      moreover have "restarted 0 0 h4 h5" "restarted 0 0 h6 h7"
        using restarted_steady [OF quiet_observations(2)] steps(5,7) by (metis snd_conv)+
      moreover have "restarted 0 0 h5 h6" using restarted_steady [OF quiet_observations(1), of h5 env] steps(6) by simp
      ultimately show ?thesis using restarted_calm by meson
    qed
    ultimately have "restarted 1 1 h h'" unfolding result(2) using restarted_calm by meson
    then obtain js where js: "ho_restarts h' = ho_restarts h @ js" "length js = 1"
      by (auto simp: restarted_def restarting_def)
    have "jget p ''expected_pid'' = JInt pid" by (rule action_preconditions_Inr [OF steps(1)])
    moreover have "jget v ''pid_before'' = JInt pid" "jget v ''pid_after'' = JInt pid'" "jget v ''loopback_health'' = JBool True"
      by (simp_all add: result reload_report_def jget_def)
    ultimately show ?thesis unfolding Pair Inr using js result(3,4) by auto
  qed
qed

text \<open>
  C27. However the host answers, the reload action restarts the telephony console at most twice, the second time as its bounded
  recovery. When it returns, the console was restarted exactly once, the process it replaced is the one the caller named, and
  the one that runs is another.
\<close>

theorem reloads_restart_once:
  "case telephony_console_reload env v h of
     (outcome, h') \<Rightarrow>
       \<exists>js. ho_restarts h' = ho_restarts h @ js \<and> length js \<le> 2 \<and>
         (case outcome of
            Inl _ \<Rightarrow> True
          | Inr result \<Rightarrow> length js = 1 \<and>
              (\<exists>p before after. v = JObj p \<and> jget p ''expected_pid'' = JInt before \<and> jget result ''pid_before'' = JInt before \<and>
                jget result ''pid_after'' = JInt after \<and> 0 < after \<and> after \<noteq> before \<and> jget result ''loopback_health'' = JBool True))"
proof (cases "validate_reload v")
  case (Inr p)
  then have v: "v = JObj p" by (auto simp: validate_reload_def guard_def split: json.splits if_splits)
  obtain r h' where run: "reload_checked env p h = (r, h')" by fastforce
  then show ?thesis
    using checked_reload_restarts [where env = env and p = p and h = h] Inr v by (cases r) (simp_all add: telephony_console_reload_def)
qed (simp add: telephony_console_reload_def)

text \<open>A unit of that name anywhere in the tree passes for the Operations API.\<close>

lemma nested_unit_is_allowed:
  "in_allowed_cgroup ''0::/user.slice/edge1-operations-api.service''"
  by code_simp

end
