(* ===== verification/OpsTheorems.thy ===== *)
theory OpsTheorems
  imports OpsRoutes VpnTheorems HostTheorems
begin

text \<open>
  What the Operations API promises: only signed requests act, processes are those of the allowlist, a typed action runs once
  per claim, and a signed request is accepted once except at the very end of its window.
\<close>

section \<open>Frames of the API\<close>

text \<open>A relation that does not look at the number of observations.\<close>

locale ops_frame = state_frame related for related :: "ops_state \<Rightarrow> ops_state \<Rightarrow> bool" +
  assumes only_reads: "os_reads s \<le> n \<Longrightarrow> related s (s\<lparr>os_reads := n\<rparr>)"
begin

lemma keeps_look: "keeps (look f)"
  by (simp add: keeps_def look_def only_reads)

lemma keeps_looking: "keeps (look_checked g)" "keeps (raised r)"
  unfolding look_checked_def raised_def by (intro keeps_bindS keeps_look keeps_pure)+

lemma keeps_or_else: "keeps m \<Longrightarrow> (\<And>e. keeps (f e)) \<Longrightarrow> keeps (or_else m f)"
  unfolding keeps_def or_else_def by (auto split: prod.split sum.split) (metis related_trans snd_conv)+

lemma keeps_answer: "keeps (answer n d)" "keeps (error_reply n m)"
  unfolding answer_def error_reply_def by (rule keeps_ret)+

lemma keeps_config:
  "keeps (connect_db env)" "keeps (ensure_root_stable env)" "keeps (load_allowlist env)" "keeps (read_secret env)" "keeps (action_config env name)"
  "keeps (safe_action env name)" "keeps (safe_typed_action env name)"
  unfolding connect_db_def ensure_root_stable_def load_allowlist_def read_secret_def action_config_def safe_action_def safe_typed_action_def
  by (intro keeps_bindS keeps_looking keeps_pure)+

lemma keeps_listing:
  "keeps (\<lambda>s. case load_allowlist env s of
     (Inl (Raises (RuntimeError m)), s') \<Rightarrow> answer 503 [(''error'', JStr m), (''repository_root_stable'', JBool False)] s'
   | (Inl e, s') \<Rightarrow> (Inl e, s')
   | (Inr actions, s') \<Rightarrow> bindS (pure_act (views (sort_key fst actions))) (\<lambda>vs. answer 200 [(''actions'', JList vs)]) s')"
  (is "keeps ?m")
proof (rule keepsI)
  fix s
  have "related s (snd (load_allowlist env s))" by (rule keepsD [OF keeps_config(3)])
  then show "related s (snd (?m s))"
    by (cases "load_allowlist env s") (auto simp: answer_def ret_def bindS_pure split: sum.split ops_exn.split py_error.split)
qed

lemmas keeps_basic = keeps_ret keeps_raise keeps_pure keeps_bindS keeps_if keeps_option keeps_look keeps_looking keeps_or_else keeps_answer keeps_config

lemma keeps_reply_cases:
  "(\<And>x. keeps (f x)) \<Longrightarrow> (\<And>y z. keeps (g y z)) \<Longrightarrow> keeps (case r of Inl x \<Rightarrow> f x | Inr (y, z) \<Rightarrow> g y z)"
  by (auto split: sum.split prod.split)

end

section \<open>Only signed requests act\<close>

definition inert :: "ops_state \<Rightarrow> ops_state \<Rightarrow> bool" where
  "inert s s' \<longleftrightarrow> os_audit s' = os_audit s \<and> os_claims s' = os_claims s \<and> os_processes s' = os_processes s \<and>
     os_host s' = os_host s \<and> vs_db (os_vpn s') = vs_db (os_vpn s)"

interpretation inert: ops_frame inert
  by unfold_locales (auto simp: inert_def)

lemma inert_nonce: "inert.keeps (check_and_store_nonce env nonce ts)"
proof -
  have "inert.keeps (store_nonce cutoff nonce ts)" for cutoff
    by (simp add: inert.keeps_def inert_def store_nonce_def Let_def)
  then show ?thesis unfolding check_and_store_nonce_def by (intro inert.keeps_basic)
qed

lemma inert_authenticate: "inert.keeps (authenticate env q body)"
  unfolding authenticate_def Let_def by (intro inert.keeps_basic inert_nonce)

text \<open>A request that is signed: complete headers, a time in the window, the right code, a nonce that is not known.\<close>

definition signed_at :: "ops_env \<Rightarrow> ops_request \<Rightarrow> string \<Rightarrow> ops_state \<Rightarrow> int \<Rightarrow> bool" where
  "signed_at env q body s ts \<longleftrightarrow>
     (let k = os_reads s in
      header_text q ''X-WWCX-Actor'' \<noteq> [] \<and> header_text q ''X-WWCX-Nonce'' \<noteq> [] \<and>
      int_of_str (header_text q ''X-WWCX-Timestamp'') = Some ts \<and> \<bar>oe_time env k - ts\<bar> \<le> 300 \<and>
      (\<exists>v. oe_secret env (k + 1) = Inr v \<and> 32 \<le> length (strip v) \<and>
        oe_hmac env (strip v) (signed_text q (oe_sha256 env body)) = lower (header_text q ''X-WWCX-Signature'')) \<and>
      header_text q ''X-WWCX-Nonce'' \<notin> fst ` set (filter (\<lambda>(n, t). \<not> t < oe_time env (k + 2) - 300) (os_nonces s)))"

definition after_signed :: "ops_env \<Rightarrow> ops_request \<Rightarrow> ops_state \<Rightarrow> int \<Rightarrow> ops_state" where
  "after_signed env q s ts = s\<lparr>os_reads := os_reads s + 4,
     os_nonces := filter (\<lambda>(n, t). \<not> t < oe_time env (os_reads s + 2) - 300) (os_nonces s) @ [(header_text q ''X-WWCX-Nonce'', ts)]\<rparr>"

lemma look_Inr: "look f s = (Inr v, s') \<longleftrightarrow> v = f (os_reads s) \<and> s' = s\<lparr>os_reads := Suc (os_reads s)\<rparr>"
  by (auto simp: look_def)

lemma look_checked_Inr: "look_checked g s = (Inr v, s') \<longleftrightarrow> g (os_reads s) = Inr v \<and> s' = s\<lparr>os_reads := Suc (os_reads s)\<rparr>"
  by (auto simp: look_checked_def bindS_def look_def pure_act_def)

lemma raised_Inr: "raised r s = (Inr v, s') \<longleftrightarrow> r = Inr v \<and> s' = s"
  by (cases r) (auto simp: raised_def pure_act_def)

lemmas ops_Inr = bindS_Inr_iff basic_Inr_iff look_Inr look_checked_Inr raised_Inr

lemma signed_Inr:
  assumes "authenticate env q body s = (Inr (Inr (h, actor)), s')"
  obtains ts where "signed_at env q body s ts" "s' = after_signed env q s ts" "h = oe_sha256 env body" "actor = header_text q ''X-WWCX-Actor''"
  using assms that
  by (auto simp: authenticate_def Let_def ops_Inr read_secret_def check_and_store_nonce_def connect_db_def store_nonce_def
    signed_at_def after_signed_def max_clock_skew_def bindE_Inr_iff split: if_splits option.splits)

text \<open>What runs inside the store without touching its tables.\<close>

interpretation leaving: vpn_frame "\<lambda>s s'. vs_db s' = vs_db s"
  by unfold_locales auto

lemma leaving_reads:
  "leaving.keeps (open_store env)" "leaving.keeps (list_devices env)" "leaving.keeps list_policies" "leaving.keeps (audit_events n)"
  "leaving.keeps (vpn_summary env)"
proof -
  show "leaving.keeps (open_store env)" "leaving.keeps (audit_events n)"
    unfolding open_store_def audit_events_def by (intro leaving.keeps_parts)+
  show devices: "leaving.keeps (list_devices env)" and policies: "leaving.keeps list_policies"
    unfolding list_devices_def list_policies_def by (intro leaving.keeps_parts)+
  show "leaving.keeps (vpn_summary env)"
    unfolding vpn_summary_def Let_def by (intro leaving.keeps_parts devices policies)
qed

lemma inert_on_vpn: "leaving.keeps m \<Longrightarrow> inert.keeps (on_vpn m)"
  by (auto simp: leaving.keeps_def inert.keeps_def inert_def on_vpn_def split: prod.split) (metis snd_conv)

lemma inert_store: "inert.keeps (registration_store env)"
  unfolding registration_store_def by (intro inert.keeps_basic inert_on_vpn leaving_reads)

lemma inert_authenticated: "(\<And>h a. inert.keeps (f h a)) \<Longrightarrow> inert.keeps (authenticated env q body f)"
  unfolding authenticated_def by (intro inert.keeps_bindS inert_authenticate inert.keeps_reply_cases inert.keeps_answer)

lemma inert_get: "inert.keeps (ops_get env q)"
proof -
  have "inert.keeps (health env)"
    unfolding health_def by (intro inert.keeps_basic inert_store)
  moreover have "inert.keeps (vpn_get env q)"
    unfolding vpn_get_def by (intro inert_authenticated inert.keeps_basic inert_store inert_on_vpn leaving_reads)
  moreover have "inert.keeps (list_actions env q)"
    unfolding list_actions_def by (intro inert_authenticated inert.keeps_listing)
  ultimately show ?thesis unfolding ops_get_def by (intro inert.keeps_basic)
qed

lemma authenticated_unsigned:
  "inert s (snd (authenticated env q body f s)) \<or>
     (\<exists>ts. signed_at env q body s ts \<and> authenticated env q body f s = f (oe_sha256 env body) (header_text q ''X-WWCX-Actor'') (after_signed env q s ts))"
proof (cases "authenticate env q body s")
  case (Pair r s')
  then have "inert s s'" using inert.keepsD [OF inert_authenticate] by (metis snd_conv)
  then show ?thesis
  proof (cases "\<exists>h a. r = Inr (Inr (h, a))")
    case True
    then obtain h a where r: "r = Inr (Inr (h, a))" by blast
    show ?thesis
      by (rule signed_Inr [OF Pair [unfolded r]]) (use Pair r in \<open>auto simp: authenticated_def bindS_def\<close>)
  next
    case False
    then show ?thesis using Pair \<open>inert s s'\<close>
      by (auto simp: authenticated_def bindS_def error_reply_def answer_def ret_def split: sum.split)
  qed
qed

lemma read_json_body_Inr:
  assumes "read_json_body q = Inr bd"
  obtains body where "read_body q = Inr body" "fst bd = body"
proof (cases "read_body q")
  case (Inr body)
  have "(case json_loads t of None \<Rightarrow> Inl e | Some (JObj d) \<Rightarrow> Inr (body, d) | Some _ \<Rightarrow> Inl e') = Inr bd \<Longrightarrow> fst bd = body"
    for t and e e' :: py_error
    by (cases "json_loads t") (auto split: json.splits)
  then have "fst bd = body" using assms [unfolded read_json_body_def Inr bindE_simps] by this
  then show thesis using that Inr by simp
qed (use assms in \<open>simp add: read_json_body_def\<close>)

lemma snd_ops_handle: "snd (ops_handle env q s) =
    snd ((if oq_method q = ''GET'' then ops_get env q else if oq_method q = ''POST'' then ops_post env q else error_reply 501 []) s)"
  by (auto simp: ops_handle_def split: prod.split sum.split)

section \<open>What a whole request keeps\<close>

text \<open>A relation that does not look at the audit: running a process keeps it when starting one does.\<close>

locale ops_audit = ops_frame related for related :: "ops_state \<Rightarrow> ops_state \<Rightarrow> bool" +
  assumes free_audit: "related s (s\<lparr>os_audit := es\<rparr>)"
begin

lemma keeps_audited: "keeps (record_audit env actor name h status x d out err)"
proof -
  have "keeps (insert_audit e)" for e by (simp add: keeps_def insert_audit_def related_refl free_audit)
  then show ?thesis unfolding record_audit_def by (intro keeps_basic)
qed

lemma keeps_run_action:
  assumes "\<And>argv cwd timeout s s'. safe_action env name s = (Inr (argv, cwd, timeout), s') \<Longrightarrow> keeps (start_process env argv cwd)"
  shows "keeps (run_action env name actor h)"
proof -
  have after: "keeps (case r of
       Unstartable e \<Rightarrow> raise_err e
     | Exited x out err \<Rightarrow>
         let status = (if x = 0 then ''succeeded'' else ''failed'') in bindS (record_audit env actor name h status (Some x) (Some d) out err) (f x out err status)
     | TimedOut out err \<Rightarrow> bindS (record_audit env actor name h ''timed_out'' None (Some d) out err) g)"
    if "\<And>x out err status i. keeps (f x out err status i)" "\<And>i. keeps (g i)" for r d f g
    using that by (cases r) (simp_all add: Let_def keeps_raise keeps_bindS keeps_audited)
  show ?thesis
    unfolding run_action_def
  proof (rule keeps_bindS_Inr [OF keeps_config(6)], goal_cases)
    case (1 found s s')
    obtain argv cwd timeout where found: "found = (argv, cwd, timeout)" by (cases found)
    then have "keeps (start_process env argv cwd)" using 1 assms by blast
    then show ?case unfolding found prod.case by (intro keeps_basic after)
  qed
qed

end

text \<open>A relation that looks neither at the audit nor at the claims nor at the host: typed actions keep it.\<close>

locale ops_free = ops_audit related for related :: "ops_state \<Rightarrow> ops_state \<Rightarrow> bool" +
  assumes free_claims: "related s (s\<lparr>os_claims := cs\<rparr>)"
    and free_host: "related s (s\<lparr>os_host := h\<rparr>)"
begin

lemma keeps_writes: "keeps (add_claim c)" "keeps (on_host m)"
  by (simp_all add: keeps_def add_claim_def on_host_def free_claims free_host split: prod.split)

lemma keeps_claim: "keeps (idempotency_claim env action key h)"
  unfolding idempotency_claim_def
proof (intro keeps_bindS keeps_config keepsI, goal_cases)
  case (1 _ s)
  have new: "keeps (bindS (look (oe_utc env)) (\<lambda>now. bindS (add_claim (c now)) (\<lambda>_. ret None)))" for c
    by (intro keeps_basic keeps_writes)
  show ?case using keepsD [OF new] by (auto simp: raise_err_def ret_def related_refl split: option.split json.split)
qed

lemma keeps_complete: "keeps (idempotency_complete env action key h d)"
  unfolding idempotency_complete_def by (intro keeps_bindS keeps_config keepsI) (simp add: Let_def free_claims related_refl)

lemma keeps_typed_action: "keeps (run_typed_action env name actor h parameters)"
  unfolding run_typed_action_def typed_attempt_def typed_failure_def split_def Let_def
  by (intro keeps_basic keeps_writes keeps_audited keeps_claim keeps_complete)

end

text \<open>A relation is kept by a request when it is kept by the parts that write: the tables, the processes and the typed actions.\<close>

locale ops_whole = ops_audit related for related :: "ops_state \<Rightarrow> ops_state \<Rightarrow> bool" +
  fixes env :: ops_env and q :: ops_request
  assumes related_vpn: "related s (s\<lparr>os_vpn := v\<rparr>)"
    and keeps_nonce: "keeps (check_and_store_nonce env nonce ts)"
    and keeps_start: "keeps (run_action env (action_name (oq_path q)) actor h)"
    and keeps_typed: "keeps (run_typed_action env (action_name (oq_path q)) actor h parameters)"
begin

lemma keeps_on_vpn: "keeps (on_vpn m)"
  by (simp add: keeps_def on_vpn_def related_vpn split: prod.split)

lemma keeps_authenticate: "keeps (authenticate env q body)"
  unfolding authenticate_def Let_def by (intro keeps_basic keeps_nonce)

lemma keeps_authenticated: "(\<And>h a. keeps (f h a)) \<Longrightarrow> keeps (authenticated env q body f)"
  unfolding authenticated_def by (intro keeps_bindS keeps_authenticate keeps_reply_cases keeps_answer)

lemma keeps_store: "keeps (registration_store env)"
  unfolding registration_store_def by (intro keeps_basic keeps_on_vpn)

lemma keeps_vpn_error: "keeps (vpn_error e)"
proof (cases e)
  case (Raises p)
  have other: "keeps (if p = integrity then error_reply 409 ''registration record conflicts with existing state'' else raise_err e)"
    by (intro keeps_basic)
  show ?thesis unfolding vpn_error_def Raises using other [unfolded Raises] keeps_answer(2) by (cases p) simp_all
qed (simp_all add: vpn_error_def keeps_answer keeps_raise)

lemma keeps_run_named: "keeps (run_named env (action_name (oq_path q)) actor h body)"
  unfolding run_named_def by (intro keeps_basic keeps_start keeps_typed)

lemma keeps_run_error: "keeps (run_error env name actor h e)"
proof -
  have audited: "keeps (bindS (record_audit env actor name h status None None [] m) (\<lambda>i. answer n (d i)))" for status m n d
    by (intro keeps_basic keeps_audited)
  show ?thesis
  proof (cases e)
    case (Raises p)
    then show ?thesis unfolding run_error_def by (cases p) (simp_all add: audited keeps_answer)
  qed (simp_all add: run_error_def audited)
qed

lemma keeps_run_reply: "keeps (run_reply r)"
  by (cases r) (simp_all add: run_reply_def keeps_answer)

text \<open>A POST leaves everything or runs what follows its authentication.\<close>

lemma post_cases:
  obtains (quiet) "\<And>s. snd (ops_post env q s) = s"
  | (signed) body f where "read_body q = Inr body" "\<And>s. ops_post env q s = authenticated env q body f s" "\<And>h a. keeps (f h a)"
proof (cases "starts_with (oq_path q) ''/v1/vpn-access/''")
  case True
  then have post: "ops_post env q = vpn_post env q" by (simp add: ops_post_def)
  show thesis
  proof (cases "read_json_body q")
    case (Inl e)
    then show thesis by (intro quiet) (simp add: post vpn_post_def error_reply_def answer_def ret_def)
  next
    case (Inr bd)
    then obtain body where "read_body q = Inr body" and "fst bd = body" by (rule read_json_body_Inr)
    moreover obtain d where bd: "bd = (body, d)" using \<open>fst bd = body\<close> by (cases bd) simp
    ultimately have read: "read_body q = Inr body" by simp
    show thesis
      by (rule signed [OF read], simp only: post vpn_post_def Inr bd sum.case prod.case)
        (unfold write_allowed_def, intro keeps_basic keeps_store keeps_on_vpn keeps_vpn_error)
  qed
next
  case False
  then have post: "ops_post env q = (if \<not> starts_with (oq_path q) ''/v1/actions/'' \<or> \<not> ends_with (oq_path q) ''/run''
      then error_reply 404 ''not found'' else run_route env q)" by (simp add: ops_post_def)
  show thesis
  proof (cases "read_body q")
    case (Inr body)
    show thesis
    proof (cases "\<not> starts_with (oq_path q) ''/v1/actions/'' \<or> \<not> ends_with (oq_path q) ''/run''")
      case False
      then have "ops_post env q = run_route env q" using post by simp
      then show thesis
        by - (rule signed [OF Inr], simp only: run_route_def Inr sum.case Let_def,
          intro keeps_basic keeps_run_named keeps_run_reply keeps_run_error)
    next
      case True
      then show thesis by (intro quiet) (simp add: post error_reply_def answer_def ret_def)
    qed
  next
    case (Inl e)
    then show thesis by (intro quiet) (auto simp: post run_route_def error_reply_def answer_def ret_def)
  qed
qed

lemma keeps_post: "keeps (ops_post env q)"
proof (rule post_cases)
  show "keeps (ops_post env q)" if "\<And>s. snd (ops_post env q s) = s" using that by (simp add: keeps_def related_refl)
  show "keeps (ops_post env q)" if "\<And>s. ops_post env q s = authenticated env q body f s" "\<And>h a. keeps (f h a)" for body f
    using keeps_authenticated [OF that(2)] that(1) by (simp add: keeps_def)
qed

lemma keeps_get: "keeps (ops_get env q)"
proof -
  have "keeps (health env)" "keeps (vpn_get env q)"
    unfolding health_def vpn_get_def by (intro keeps_authenticated keeps_basic keeps_store keeps_on_vpn)+
  moreover have "keeps (list_actions env q)"
    unfolding list_actions_def by (intro keeps_authenticated keeps_listing)
  ultimately show ?thesis unfolding ops_get_def by (intro keeps_basic)
qed

lemma keeps_handle: "related s (snd (ops_handle env q s))"
proof -
  have "keeps (if oq_method q = ''GET'' then ops_get env q else if oq_method q = ''POST'' then ops_post env q else error_reply 501 [])"
    by (intro keeps_basic keeps_get keeps_post)
  then show ?thesis unfolding snd_ops_handle by (rule keepsD)
qed

end

section \<open>Requests act once\<close>

text \<open>A stored nonce stays stored until a clock reading has passed the end of its window.\<close>

definition remembered :: "ops_env \<Rightarrow> string \<Rightarrow> int \<Rightarrow> ops_state \<Rightarrow> bool" where
  "remembered env n ts s \<longleftrightarrow> (n, ts) \<in> set (os_nonces s) \<or> (\<exists>j < os_reads s. ts + 300 < oe_time env j)"

definition remembering :: "ops_env \<Rightarrow> string \<Rightarrow> int \<Rightarrow> ops_state \<Rightarrow> ops_state \<Rightarrow> bool" where
  "remembering env n ts s s' \<longleftrightarrow> os_reads s \<le> os_reads s' \<and> (remembered env n ts s \<longrightarrow> remembered env n ts s')"

interpretation memory: ops_frame "remembering env n ts" for env n ts
  by unfold_locales (auto simp: remembering_def remembered_def intro: less_le_trans)

lemma memory_plain:
  "os_reads s' = os_reads s \<Longrightarrow> os_nonces s' = os_nonces s \<Longrightarrow> remembering env n ts s s'"
  by (simp add: remembering_def remembered_def)

lemma store_remembers:
  assumes "k < os_reads s"
  shows "remembering env n ts s (snd (store_nonce (oe_time env k - 300) nonce t s))"
proof (cases "ts + 300 < oe_time env k")
  case True
  have "os_reads (snd (store_nonce (oe_time env k - 300) nonce t s)) = os_reads s" by (simp add: store_nonce_def Let_def)
  then show ?thesis using True assms by (auto simp: remembering_def remembered_def)
next
  case False
  then have "(n, ts) \<in> set (os_nonces s) \<Longrightarrow> (n, ts) \<in> set (os_nonces (snd (store_nonce (oe_time env k - 300) nonce t s)))"
    by (simp add: store_nonce_def Let_def)
  then show ?thesis by (auto simp: remembering_def remembered_def store_nonce_def Let_def)
qed

lemma memory_nonce: "memory.keeps env n ts (check_and_store_nonce env nonce t)"
proof (rule memory.keepsI)
  fix s :: ops_state
  let ?s1 = "s\<lparr>os_reads := Suc (os_reads s)\<rparr>"
  let ?s2 = "s\<lparr>os_reads := Suc (Suc (os_reads s))\<rparr>"
  have s2: "remembering env n ts s ?s2" by (rule memory.only_reads) simp
  then have stored: "remembering env n ts s (snd (store_nonce (oe_time env (os_reads s) - 300) nonce t ?s2))"
    by (rule memory.related_trans) (simp add: store_remembers)
  show "remembering env n ts s (snd (check_and_store_nonce env nonce t s))"
    using stored s2
    by (simp add: check_and_store_nonce_def connect_db_def look_checked_def look_def bindS_def pure_act_def max_clock_skew_def split: option.split)
qed

interpretation memory: ops_free "remembering env n ts" for env n ts
  by unfold_locales (simp_all add: memory_plain)

lemma memory_start: "memory.keeps env n ts (start_process env' argv cwd)"
proof -
  have "memory.keeps env n ts (\<lambda>s. (Inr r, case r of Unstartable _ \<Rightarrow> s | _ \<Rightarrow> s\<lparr>os_processes := os_processes s @ [(argv, cwd)]\<rparr>))" for r :: run_result
    by (auto simp: memory.keeps_def memory_plain split: run_result.split)
  then show ?thesis unfolding start_process_def by (intro memory.keeps_basic)
qed

interpretation memory: ops_whole "remembering env n ts" env q for env n ts q
  by unfold_locales (simp_all add: memory_plain memory_nonce memory.keeps_run_action memory_start memory.keeps_typed_action)

lemma memory_runs: "remembering env n ts s (ops_run env s qs)"
  by (induction qs arbitrary: s) (auto simp: ops_run_def memory.related_refl intro: memory.related_trans memory.keeps_handle)

lemma unsigned_is_inert:
  "inert s (snd (ops_handle env q s)) \<or>
     (oq_method q = ''POST'' \<and> (\<exists>body ts. read_body q = Inr body \<and> signed_at env q body s ts))"
proof (cases "oq_method q = ''POST''")
  case True
  then have "oq_method q \<noteq> ''GET''" by simp
  then have handle: "snd (ops_handle env q s) = snd (ops_post env q s)" using True by (simp add: snd_ops_handle)
  show ?thesis
  proof (rule memory.post_cases [where env = env and q = q])
    assume "\<And>s. snd (ops_post env q s) = s"
    then show ?thesis by (simp add: handle inert.related_refl)
  next
    fix body f
    assume "read_body q = Inr body" "\<And>s. ops_post env q s = authenticated env q body f s"
    then show ?thesis using authenticated_unsigned [of s env q body f] True unfolding handle by metis
  qed
next
  case False
  then show ?thesis using inert.keepsD [OF inert_get [of env q], of s]
    by (simp add: snd_ops_handle error_reply_def answer_def ret_def inert.related_refl)
qed

text \<open>
  Only signed requests act: a request changes the audit, the claims, the processes, the host or the registration tables only
  when it is a POST with a complete and timely signature of its method, path, headers and body under a nonce that is not stored.
\<close>

theorem only_signed_requests_act:
  "case ops_handle env q s of
     (reply, s') \<Rightarrow>
       inert s s' \<or> (oq_method q = ''POST'' \<and> (\<exists>body ts. read_body q = Inr body \<and> signed_at env q body s ts))"
  using unsigned_is_inert [of s env q] by (cases "ops_handle env q s") simp

text \<open>
  C16. With a clock that does not run backwards, a request that acted does not act when it is sent again, however many requests
  come between, except when the second ticks from the last of its window to the next between the two clock readings of its check.
\<close>

theorem requests_act_once:
  assumes "mono (oe_time env)" "\<not> inert s (snd (ops_handle env q s))"
  shows "let s' = ops_run env s (q # qs); k = os_reads s' in
      inert s' (snd (ops_handle env q s')) \<or>
      (\<exists>ts. int_of_str (header_text q ''X-WWCX-Timestamp'') = Some ts \<and> oe_time env k \<le> ts + 300 \<and> ts + 300 < oe_time env (k + 2))"
proof -
  define s' where "s' = ops_run env s (q # qs)"
  obtain body ts where post: "oq_method q = ''POST''" and body: "read_body q = Inr body" and signed: "signed_at env q body s ts"
    using unsigned_is_inert [of s env q] assms(2) by blast
  let ?nonce = "header_text q ''X-WWCX-Nonce''"
  have "oq_method q \<noteq> ''GET''" using post by simp
  then have handle: "snd (ops_handle env q s) = snd (ops_post env q s)" using post by (simp add: snd_ops_handle)
  have first: "remembered env ?nonce ts (snd (ops_handle env q s))"
  proof (rule memory.post_cases [where env = env and q = q and n = ?nonce and ts = ts])
    assume "\<And>s. snd (ops_post env q s) = s"
    then show ?thesis using assms(2) by (simp add: handle inert.related_refl)
  next
    fix body' f
    assume rest: "read_body q = Inr body'" "\<And>s. ops_post env q s = authenticated env q body' f s"
      "\<And>h a. memory.keeps env ?nonce ts (f h a)"
    obtain t where t: "signed_at env q body' s t" and
      f: "ops_post env q s = f (oe_sha256 env body') (header_text q ''X-WWCX-Actor'') (after_signed env q s t)"
      using authenticated_unsigned [of s env q body' f] assms(2) unfolding handle rest(2) by blast
    have "t = ts" using t signed by (simp add: signed_at_def Let_def)
    then have "remembered env ?nonce ts (after_signed env q s t)" by (simp add: remembered_def after_signed_def)
    then show ?thesis using memory.keepsD [OF rest(3)] unfolding handle f remembering_def by blast
  qed
  moreover have "s' = ops_run env (snd (ops_handle env q s)) qs" by (simp add: s'_def ops_run_def)
  ultimately have later: "remembered env ?nonce ts s'" using memory_runs unfolding remembering_def by metis
  have "\<exists>ts. int_of_str (header_text q ''X-WWCX-Timestamp'') = Some ts \<and> oe_time env (os_reads s') \<le> ts + 300 \<and> ts + 300 < oe_time env (os_reads s' + 2)"
    if "signed_at env q body s' t" for t
  proof -
    have t: "t = ts" "int_of_str (header_text q ''X-WWCX-Timestamp'') = Some ts" "oe_time env (os_reads s') \<le> ts + 300"
      using that signed by (auto simp: signed_at_def Let_def)
    have "\<not> ts + 300 < oe_time env j" if "j < os_reads s'" for j
      using monoD [OF assms(1), of j "os_reads s'"] that t(3) by simp
    then have "(?nonce, ts) \<in> set (os_nonces s')" using later by (auto simp: remembered_def)
    moreover have "?nonce \<notin> fst ` set (filter (\<lambda>(n, t). \<not> t < oe_time env (os_reads s' + 2) - 300) (os_nonces s'))"
      using that by (simp add: signed_at_def Let_def)
    ultimately have "ts < oe_time env (os_reads s' + 2) - 300" by force
    then show ?thesis using t by auto
  qed
  then show ?thesis
    using unsigned_is_inert [of s' env q] body unfolding s'_def Let_def by auto
qed

section \<open>Processes are those of the allowlist\<close>

text \<open>A process an entry of some reading of the allowlist under this name asks for.\<close>

definition permitted :: "ops_env \<Rightarrow> string \<Rightarrow> string list \<Rightarrow> string \<Rightarrow> bool" where
  "permitted env name argv cwd \<longleftrightarrow>
     (\<exists>k v actions d. oe_allowlist env k = Inr v \<and> allowlist_actions v = Inr actions \<and> jget actions name = JObj d \<and>
        \<not> has_key d ''typed_handler'' \<and> \<not> has_key d ''mutation_gate'' \<and> jget d ''argv'' = JList (map JStr argv) \<and> argv \<noteq> [] \<and>
        (truthy (jget d ''mutating'') \<longrightarrow> oe_mutations_enabled env) \<and> in_root env cwd)"

definition launching :: "ops_env \<Rightarrow> string \<Rightarrow> ops_state \<Rightarrow> ops_state \<Rightarrow> bool" where
  "launching env name s s' \<longleftrightarrow>
     (\<exists>started. os_processes s' = os_processes s @ started \<and> list_all (\<lambda>(argv, cwd). permitted env name argv cwd) started)"

interpretation launch: ops_frame "launching env name" for env name
proof unfold_locales
  fix s t u :: ops_state
  show "launching env name s s" by (simp add: launching_def)
  show "launching env name s (s\<lparr>os_reads := n\<rparr>)" for n by (simp add: launching_def)
  show "launching env name s u" if "launching env name s t" "launching env name t u"
    using that unfolding launching_def by (metis append.assoc list_all_append)
qed

lemma launch_plain: "os_processes s' = os_processes s \<Longrightarrow> launching env name s s'"
  by (simp add: launching_def)

lemma action_config_Inr:
  assumes "action_config env name s = (Inr d, s')"
  obtains k v actions where "oe_allowlist env k = Inr v" "allowlist_actions v = Inr actions" "jget actions name = JObj d"
proof -
  have lift: "map_sum Raises id (allowlist_actions v) = Inr (actions :: doc) \<Longrightarrow> allowlist_actions v = Inr actions" for v actions
    by (cases "allowlist_actions v") simp_all
  have entry: "(if \<not> truthy a then Inl (e :: py_error) else case a of JObj d \<Rightarrow> Inr d | _ \<Rightarrow> Inl e') = Inr d \<Longrightarrow> a = JObj d" for a e e' d
    by (cases a) (auto split: if_splits)
  obtain k v actions where read: "oe_allowlist env k = Inr v" and actions: "map_sum Raises id (allowlist_actions v) = Inr actions"
    and d: "(if \<not> truthy (jget actions name) then Inl (KeyError ''unknown action'')
      else case jget actions name of JObj d \<Rightarrow> Inr d | _ \<Rightarrow> Inl (ValueError ''invalid action configuration'')) = Inr d"
    using assms unfolding action_config_def load_allowlist_def Let_def ops_Inr bindE_Inr_iff by (elim exE conjE) (rule that)
  show thesis by (rule that [OF read lift [OF actions] entry [OF d]])
qed

lemma argv_of_Inr:
  assumes "argv_of v = Inr argv"
  shows "v = JList (map JStr argv) \<and> argv \<noteq> []"
proof -
  have "list_all (\<lambda>j. case j of JStr t \<Rightarrow> t \<noteq> [] | _ \<Rightarrow> False) js \<Longrightarrow> map (JStr \<circ> py_str) js = js" for js
    by (induction js) (auto split: json.splits)
  then show ?thesis using assms by (cases v) (auto simp: argv_of_def split: if_splits)
qed

lemma fixed_action_Inr:
  assumes "fixed_action env d = Inr (argv, cwd, timeout)"
  shows "\<not> has_key d ''typed_handler'' \<and> \<not> has_key d ''mutation_gate'' \<and> jget d ''argv'' = JList (map JStr argv) \<and> argv \<noteq> [] \<and>
    (truthy (jget d ''mutating'') \<longrightarrow> oe_mutations_enabled env) \<and> in_root env cwd"
proof -
  have lift: "map_sum Raises id r = Inr x \<longleftrightarrow> r = Inr (x :: 'x)" for r :: "'x outcome" and x by (cases r) auto
  have "cwd_of env d = Inr cwd \<Longrightarrow> in_root env cwd" by (auto simp: cwd_of_def Let_def split: json.splits if_splits)
  then show ?thesis
    using assms argv_of_Inr [of "jget d ''argv''" argv] by (auto simp: fixed_action_def guard_def bindE_Inr_iff lift split: if_splits)
qed

lemma safe_action_Inr: "safe_action env name s = (Inr (argv, cwd, timeout), s') \<Longrightarrow> permitted env name argv cwd"
  unfolding safe_action_def permitted_def by (auto simp: bindS_Inr_iff basic_Inr_iff elim!: action_config_Inr dest!: fixed_action_Inr)

interpretation launch: ops_free "launching env name" for env name
  by unfold_locales (simp_all add: launch_plain)

lemma launch_nonce: "launch.keeps env name (check_and_store_nonce env' nonce t)"
proof -
  have "launch.keeps env name (store_nonce cutoff nonce t)" for cutoff
    by (simp add: launch.keeps_def store_nonce_def Let_def launch_plain)
  then show ?thesis unfolding check_and_store_nonce_def by (intro launch.keeps_basic)
qed

lemma launch_start: "permitted env name argv cwd \<Longrightarrow> launch.keeps env name (start_process env' argv cwd)"
proof -
  assume "permitted env name argv cwd"
  then have "launch.keeps env name (\<lambda>s. (Inr r, case r of Unstartable _ \<Rightarrow> s | _ \<Rightarrow> s\<lparr>os_processes := os_processes s @ [(argv, cwd)]\<rparr>))" for r :: run_result
    by (auto simp: launch.keeps_def launching_def split: run_result.split)
  then show ?thesis unfolding start_process_def by (intro launch.keeps_basic)
qed

lemma launch_run: "launch.keeps env name (run_action env name actor h)"
  by (rule launch.keeps_run_action [OF launch_start [OF safe_action_Inr]])

interpretation launch: ops_whole "launching env (action_name (oq_path q))" env q for env q
  by unfold_locales (simp_all add: launch_plain launch_nonce launch_run launch.keeps_typed_action)

text \<open>
  The only processes a request starts are ones the allowlist has under the name in its path: with that entry's arguments,
  in a directory below the repository root, and never for a mutating entry while mutations are disabled.
\<close>

theorem processes_are_allowlisted:
  "case ops_handle env q s of
     (reply, s') \<Rightarrow>
       \<exists>started. os_processes s' = os_processes s @ started \<and>
         list_all (\<lambda>(argv, cwd). permitted env (action_name (oq_path q)) argv cwd) started"
  using launch.keeps_handle [of env q s] by (cases "ops_handle env q s") (simp add: launching_def)

section \<open>Typed actions run once per claim\<close>

definition settled :: "ops_state \<Rightarrow> ops_state \<Rightarrow> bool" where
  "settled s s' \<longleftrightarrow> map claim_key (os_claims s') = map claim_key (os_claims s) \<and> os_host s' = os_host s"

interpretation settle: ops_audit settled
  by unfold_locales (auto simp: settled_def)

text \<open>Claims are added with new keys, and each new one pays for at most two restarts.\<close>

definition claiming :: "ops_state \<Rightarrow> ops_state \<Rightarrow> bool" where
  "claiming s s' \<longleftrightarrow>
     (\<exists>new. map claim_key (os_claims s') = map claim_key (os_claims s) @ new \<and>
        (distinct (map claim_key (os_claims s)) \<longrightarrow> distinct (map claim_key (os_claims s'))) \<and>
        length (ho_restarts (os_host s')) \<le> length (ho_restarts (os_host s)) + 2 * length new)"

interpretation claim: ops_audit claiming
proof unfold_locales
  fix s t u :: ops_state
  show "claiming s s" by (simp add: claiming_def)
  show "claiming s (s\<lparr>os_reads := n\<rparr>)" for n by (simp add: claiming_def)
  show "claiming s (s\<lparr>os_audit := es\<rparr>)" for es by (simp add: claiming_def)
  show "claiming s u" if "claiming s t" "claiming t u"
  proof -
    note steps = that
    obtain new new' where "map claim_key (os_claims t) = map claim_key (os_claims s) @ new"
      "map claim_key (os_claims u) = map claim_key (os_claims t) @ new'"
      "length (ho_restarts (os_host t)) \<le> length (ho_restarts (os_host s)) + 2 * length new"
      "length (ho_restarts (os_host u)) \<le> length (ho_restarts (os_host t)) + 2 * length new'"
      using steps unfolding claiming_def by (elim exE conjE) (rule that)
    then show ?thesis using steps unfolding claiming_def by (intro exI [of _ "new @ new'"]) auto
  qed
qed

lemma settled_claiming: "settled s s' \<Longrightarrow> claiming s s'"
  by (simp add: settled_def claiming_def)

lemma settle_claim: "settle.keeps m \<Longrightarrow> claim.keeps m"
  by (simp add: settle.keeps_def claim.keeps_def settled_claiming)

lemma settle_nonce: "settle.keeps (check_and_store_nonce env nonce t)"
proof -
  have "settle.keeps (store_nonce cutoff nonce t)" for cutoff
    by (simp add: settle.keeps_def store_nonce_def Let_def settled_def)
  then show ?thesis unfolding check_and_store_nonce_def by (intro settle.keeps_basic)
qed

lemma settle_start: "settle.keeps (start_process env argv cwd)"
proof -
  have "settle.keeps (\<lambda>s. (Inr r, case r of Unstartable _ \<Rightarrow> s | _ \<Rightarrow> s\<lparr>os_processes := os_processes s @ [(argv, cwd)]\<rparr>))" for r :: run_result
    by (auto simp: settle.keeps_def settled_def split: run_result.split)
  then show ?thesis unfolding start_process_def by (intro settle.keeps_basic)
qed

lemma settle_complete: "settle.keeps (idempotency_complete env action key h d)"
proof -
  have "map claim_key (update_where p (\<lambda>c. c\<lparr>oi_response_json := t\<rparr>) cs) = map claim_key cs" for p t cs
    by (intro map_update_where) (simp add: claim_key_def)
  then show ?thesis
    unfolding idempotency_complete_def
    by (intro settle.keeps_bindS settle.keeps_config settle.keepsI) (simp add: Let_def settled_def)
qed

text \<open>The attempt itself restarts the console at most twice.\<close>

definition restarting_twice :: "ops_state \<Rightarrow> ops_state \<Rightarrow> bool" where
  "restarting_twice s s' \<longleftrightarrow> map claim_key (os_claims s') = map claim_key (os_claims s) \<and>
     length (ho_restarts (os_host s')) \<le> length (ho_restarts (os_host s)) + 2"

lemma reloads_bounded: "length (ho_restarts (snd (telephony_console_reload env v h))) \<le> length (ho_restarts h) + 2"
proof (cases "validate_reload v")
  case (Inr p)
  have "length (ho_restarts (snd (reload_checked env p h))) \<le> length (ho_restarts h) + 2"
    using reload_restarts_bounded [of h env p] by (auto simp: restarted_def restarting_def)
  then show ?thesis using Inr by (cases "reload_checked env p h") (simp add: telephony_console_reload_def)
qed (simp add: telephony_console_reload_def)

lemma handler_restarts: "restarting_twice s (snd (on_host (run_typed_handler env name v) s))"
proof (cases "name = ''telephony_console_reload''")
  case True
  then show ?thesis
    using reloads_bounded [of env v "os_host s"] by (auto simp: run_typed_handler_def on_host_def restarting_twice_def split: prod.split)
qed (simp add: run_typed_handler_def on_host_def raise_err_def restarting_twice_def)

lemma settled_after:
  assumes "restarting_twice s (snd (m s))" "\<And>v. settle.keeps (f v)"
  shows "restarting_twice s (snd (bindS m f s))"
proof -
  have "restarting_twice s t \<Longrightarrow> restarting_twice s (snd (f v t))" for v t
    using settle.keepsD [OF assms(2), of t v] by (simp add: restarting_twice_def settled_def)
  then show ?thesis using assms(1) by (cases "m s") (auto simp: bindS_def split: sum.split)
qed

lemma attempt_restarts:
  "restarting_twice s (snd (or_else (typed_attempt env handler timeout name actor h key d) (typed_failure env name actor h key) s))"
proof -
  have failure: "settle.keeps (typed_failure env name actor h key e)" for e
    unfolding typed_failure_def Let_def by (intro settle.keeps_basic settle.keeps_audited settle_complete)
  have "restarting_twice s (snd (typed_attempt env handler timeout name actor h key d s))"
    unfolding typed_attempt_def Let_def
    by (intro settled_after handler_restarts settle.keeps_basic settle.keeps_audited settle_complete)
  moreover have "restarting_twice s t \<Longrightarrow> restarting_twice s (snd (typed_failure env name actor h key e t))" for e t
    using settle.keepsD [OF failure, of t e] by (simp add: restarting_twice_def settled_def)
  ultimately show ?thesis
    by (cases "typed_attempt env handler timeout name actor h key d s") (auto simp: or_else_def split: sum.split)
qed

lemma add_claim_fresh:
  assumes "idempotency_claim env action key h s = (r, s')"
  shows "(case r of Inr None \<Rightarrow> (action, key) \<notin> claim_key ` set (os_claims s) \<and>
      map claim_key (os_claims s') = map claim_key (os_claims s) @ [(action, key)] \<and> os_host s' = os_host s | _ \<Rightarrow> settled s s')"
proof -
  obtain c s1 where conn: "connect_db env s = (c, s1)" by fastforce
  have s1: "settled s s1" "os_claims s1 = os_claims s" "os_host s1 = os_host s"
    using conn by (auto simp: connect_db_def look_checked_def look_def bindS_def pure_act_def settled_def split: option.splits)
  show ?thesis
  proof (cases "find_row claim_key (action, key) (os_claims s1)")
    case None
    then have "(action, key) \<notin> claim_key ` set (os_claims s)" using s1 find_row_None_iff by metis
    then show ?thesis
      using assms conn s1 None by (cases c) (auto simp: idempotency_claim_def bindS_def look_def add_claim_def ret_def settled_def claim_key_def)
  next
    case (Some row)
    then show ?thesis
      using assms conn s1
      by (cases c) (auto simp: idempotency_claim_def bindS_def raise_err_def ret_def settled_def split: if_splits option.splits json.splits)
  qed
qed

lemma claim_typed: "claim.keeps (run_typed_action env name actor h parameters)"
proof -
  have run: "claim.keeps (bindS (idempotency_claim env name key h) (\<lambda>replay. case replay of
       Some payload \<Rightarrow> ret payload
     | None \<Rightarrow> or_else (typed_attempt env handler timeout name actor h key d) (typed_failure env name actor h key)))" for key handler timeout d
  proof (rule claim.keepsI)
    fix s :: ops_state
    obtain r s1 where first: "idempotency_claim env name key h s = (r, s1)" by fastforce
    note cases = add_claim_fresh [OF first]
    show "claiming s (snd (bindS (idempotency_claim env name key h) (\<lambda>replay. case replay of
       Some payload \<Rightarrow> ret payload
     | None \<Rightarrow> or_else (typed_attempt env handler timeout name actor h key d) (typed_failure env name actor h key)) s))"
    proof (cases "r = Inr None")
      case True
      have "restarting_twice s1 (snd (or_else (typed_attempt env handler timeout name actor h key d) (typed_failure env name actor h key) s1))"
        by (rule attempt_restarts)
      then show ?thesis using cases first True
        by (auto simp: bindS_def claiming_def restarting_twice_def intro!: exI [of _ "[(name, key)]"])
    next
      case False
      then have "settled s s1" using cases by (auto split: sum.splits option.splits)
      then show ?thesis using first False
        by (auto simp: bindS_def ret_def settled_claiming split: sum.split option.split)
    qed
  qed
  show ?thesis unfolding run_typed_action_def split_def Let_def by (intro claim.keeps_basic run)
qed

interpretation claim: ops_whole claiming env q for env q
proof unfold_locales
  show "claiming s (s\<lparr>os_vpn := v\<rparr>)" for s v by (simp add: claiming_def)
qed (auto intro: settle_claim settle_nonce settle.keeps_run_action settle_start claim_typed)

text \<open>
  Typed actions run once per claim: after any requests, no two claims have the same action and idempotency key, and there
  are at most two restarts of the console, the reload and its recovery, for each claim.
\<close>

theorem typed_actions_run_once:
  "let s = ops_run env \<lparr>os_reads = k, os_audit = es, os_nonces = ns, os_claims = [], os_processes = ps, os_host = h, os_vpn = v\<rparr> qs in
     distinct (map claim_key (os_claims s)) \<and> length (ho_restarts (os_host s)) \<le> length (ho_restarts h) + 2 * length (os_claims s)"
proof -
  have "claiming s (ops_run env s qs)" for s
    by (induction qs arbitrary: s) (auto simp: ops_run_def claim.related_refl intro: claim.related_trans claim.keeps_handle)
  from this [of "\<lparr>os_reads = k, os_audit = es, os_nonces = ns, os_claims = [], os_processes = ps, os_host = h, os_vpn = v\<rparr>"]
  show ?thesis by (auto simp: claiming_def Let_def)
qed

section \<open>A run\<close>

definition demo_host :: host_env where
  "demo_host = \<lparr>he_fails = (\<lambda>_. None), he_main_pid = (\<lambda>_ _. None), he_active = (\<lambda>_ _. False), he_pidfile = (\<lambda>_ _. None), he_comm = (\<lambda>_ _. None),
     he_processes = (\<lambda>_. []), he_source = (\<lambda>_. None), he_source_clean = (\<lambda>_. False), he_head = (\<lambda>_. None), he_marker = (\<lambda>_. None),
     he_restart_status = (\<lambda>_. 0), he_health = (\<lambda>_. False), he_peer = (\<lambda>_. (0, 0, 0)), he_allowed_uid = 0, he_cgroup = (\<lambda>_ _. None),
     he_audit_fails = (\<lambda>_. False), he_connects = (\<lambda>_. False), he_answers = (\<lambda>_. False), he_clock = (\<lambda>_. []), he_uuid = show_nat\<rparr>"

text \<open>A clock that shows \<open>1300\<close> for some readings and \<open>1301\<close> from then on.\<close>

definition demo_ops :: "nat \<Rightarrow> ops_env" where
  "demo_ops tick = \<lparr>oe_host = demo_host, oe_vpn = demo_vpn, oe_time = (\<lambda>k. if k < tick then 1300 else 1301), oe_utc = (\<lambda>_. ''now''), oe_uuid = (\<lambda>k. replicate k CHR ''i''),
     oe_duration = (\<lambda>_. 5), oe_root_now = (\<lambda>_. Some ''/repo''),
     oe_allowlist = (\<lambda>_. Inr (JObj [(''actions'', JObj [(''ls'', JObj [(''argv'', JList [JStr ''/bin/ls''])])])])),
     oe_secret = (\<lambda>_. Inr ''0123456789abcdef0123456789abcdef''), oe_process = (\<lambda>_. Exited 0 ''out'' []), oe_db_fails = (\<lambda>_. None),
     oe_root = ''/repo'', oe_resolve = id, oe_mutations_enabled = False, oe_environ = (\<lambda>_. None), oe_hmac = (\<lambda>_ _. ''ok''), oe_sha256 = (\<lambda>_. ''h'')\<rparr>"

definition demo_request :: ops_request where
  "demo_request = \<lparr>oq_method = ''POST'', oq_path = ''/v1/actions/ls/run'',
     oq_header = map_of [(''X-WWCX-Actor'', ''ann''), (''X-WWCX-Nonce'', ''n1''), (''X-WWCX-Timestamp'', ''1000''), (''X-WWCX-Signature'', ''OK'')],
     oq_stream = []\<rparr>"

definition fresh_ops :: ops_state where
  "fresh_ops = \<lparr>os_reads = 0, os_audit = [], os_nonces = [], os_claims = [], os_processes = [],
     os_host = \<lparr>ho_reads = 0, ho_restarts = [], ho_audit = []\<rparr>, os_vpn = fresh_vpn\<rparr>"

lemma demo_acts: "os_processes (snd (ops_handle (demo_ops 100) demo_request fresh_ops)) = [([''/bin/ls''], ''/repo'')]"
  by code_simp

theorem requests_act_once_witness:
  "let s' = ops_run (demo_ops 100) fresh_ops [demo_request]; k = os_reads s' in
      inert s' (snd (ops_handle (demo_ops 100) demo_request s')) \<or>
      (\<exists>ts. int_of_str (header_text demo_request ''X-WWCX-Timestamp'') = Some ts \<and> oe_time (demo_ops 100) k \<le> ts + 300 \<and>
         ts + 300 < oe_time (demo_ops 100) (k + 2))"
proof (rule requests_act_once [of "demo_ops 100" fresh_ops demo_request "[]"])
  show "mono (oe_time (demo_ops 100))" by (auto simp: demo_ops_def mono_def)
  show "\<not> inert fresh_ops (snd (ops_handle (demo_ops 100) demo_request fresh_ops))"
    using demo_acts by (simp add: inert_def fresh_ops_def)
qed

text \<open>
  The check of the window and the removal of old nonces read the clock separately: when the second ticks in between, the stored
  nonce is removed and the request runs again.
\<close>

definition acted_ops :: ops_state where
  "acted_ops = \<lparr>os_reads = 16,
     os_audit = [\<lparr>oa_id = replicate 13 CHR ''i'', oa_created_at = ''now'', oa_actor = ''ann'', oa_action = ''ls'', oa_request_hash = ''h'', oa_status = ''succeeded'',
       oa_exit_code = Some 0, oa_duration_ms = Some 5, oa_stdout = ''out'', oa_stderr = []\<rparr>],
     os_nonces = [(''n1'', 1000)], os_claims = [], os_processes = [([''/bin/ls''], ''/repo'')],
     os_host = \<lparr>ho_reads = 0, ho_restarts = [], ho_audit = []\<rparr>, os_vpn = fresh_vpn\<rparr>"

lemma demo_first: "snd (ops_handle (demo_ops 17) demo_request fresh_ops) = acted_ops"
  by code_simp

lemma demo_second: "os_processes (snd (ops_handle (demo_ops 17) demo_request acted_ops)) = [([''/bin/ls''], ''/repo''), ([''/bin/ls''], ''/repo'')]"
  by code_simp

lemma replay_at_the_tick:
  "os_processes (ops_run (demo_ops 17) fresh_ops [demo_request, demo_request]) = [([''/bin/ls''], ''/repo''), ([''/bin/ls''], ''/repo'')]"
  using demo_second by (simp add: ops_run_def demo_first)

end
