(* ===== verification/ReleaseControl.thy ===== *)
theory ReleaseControl
  imports HostControl
begin

text \<open>
  The release controller, server/edge1_release_controller.py: releases pinned to a commit below one directory, the links
  \<open>current\<close> and \<open>previous\<close>, and a promotion that switches them, restarts the services and rolls back when anything fails.
\<close>

section \<open>Environment and state\<close>

text \<open>\<open>SystemError\<close> is any other exception, with the name of its class and its text.\<close>

datatype release_exn = ReleaseError string | SystemError string string

text \<open>A command that ran with its status, output and errors, or did not.\<close>

datatype command_result = Ran int string string | RanOut | Unrunnable string string

datatype health_response = Unreachable string | Undecodable | Payload string

text \<open>What is below the release directory under a name: a checkout with its files, a symbolic link that leads elsewhere, or a file.\<close>

datatype release_entry = Tree "(string \<times> string) list" | LinkEntry | FileEntry

text \<open>A runtime link: nothing, a file that is no link, a link to an entry below the release directory, a link to elsewhere.\<close>

datatype pointer = Absent | PlainFile | PointsTo string | Outside

datatype runtime_link = CurrentLink | PreviousLink

datatype managed_file = Missing | Regular string | LinkFile | OtherFile

datatype dropin = OperationsDropin | OperatorDropin

text \<open>The state file, with the value its text parses to.\<close>

datatype state_file = NoStateFile | UnsafeStateFile | StateText "json option"

text \<open>
  Observations by number: failures of file operations, results of commands, the files of a fresh checkout, whether a failed
  clone leaves its directory, whether the source is a directory, health answers, times. The others are constant.
\<close>

record release_env =
  le_io :: "nat \<Rightarrow> (string \<times> string) option"
  le_command :: "nat \<Rightarrow> string list \<Rightarrow> command_result"
  le_checkout :: "nat \<Rightarrow> (string \<times> string) list"
  le_left_behind :: "nat \<Rightarrow> bool"
  le_source_dir :: "nat \<Rightarrow> bool"
  le_health :: "nat \<Rightarrow> health_response"
  le_now :: "nat \<Rightarrow> string"
  le_stamp :: "nat \<Rightarrow> string"
  le_root_user :: bool
  le_source :: string
  le_runtime :: string
  le_state_root :: string
  le_backup_root :: string
  le_pid :: string
  le_sha256 :: "string \<Rightarrow> string"

record release_world =
  rw_reads :: nat
  rw_commands :: "string list list"
  rw_entries :: "(string \<times> release_entry) list"
  rw_links :: "runtime_link \<Rightarrow> pointer"
  rw_dropins :: "dropin \<Rightarrow> managed_file"
  rw_installed :: "string option"
  rw_state :: state_file
  rw_written :: "(string \<times> json) list"
  rw_backups :: "((string \<times> string) \<times> string) list"
  rw_transactions :: "string list"

type_synonym 'a release_act = "(release_exn, release_world, 'a) eact"

definition glance :: "(nat \<Rightarrow> 'a) \<Rightarrow> 'a release_act" where
  "glance f s = (Inr (f (rw_reads s)), s\<lparr>rw_reads := Suc (rw_reads s)\<rparr>)"

definition peek :: "(release_world \<Rightarrow> 'a) \<Rightarrow> 'a release_act" where
  "peek f s = (Inr (f s), s)"

text \<open>A file operation: it fails as the environment says, or has its effect.\<close>

definition file_step :: "release_env \<Rightarrow> (release_world \<Rightarrow> release_world) \<Rightarrow> unit release_act" where
  "file_step env f s =
     (let s' = s\<lparr>rw_reads := Suc (rw_reads s)\<rparr> in
      case le_io env (rw_reads s) of Some (n, t) \<Rightarrow> (Inl (SystemError n t), s') | None \<Rightarrow> (Inr (), f s'))"

definition refuse_release :: "string \<Rightarrow> 'a release_act" where
  "refuse_release m = raise_err (ReleaseError m)"

definition unless :: "bool \<Rightarrow> string \<Rightarrow> unit release_act" where
  "unless ok m = (if ok then ret () else refuse_release m)"

definition handling_release :: "'a release_act \<Rightarrow> (string \<Rightarrow> 'a release_act) \<Rightarrow> 'a release_act" where
  "handling_release m f s = (case m s of (Inl (ReleaseError t), s') \<Rightarrow> f t s' | (Inl (SystemError n t), s') \<Rightarrow> (Inl (SystemError n t), s') | (Inr v, s') \<Rightarrow> (Inr v, s'))"

definition handling_any :: "'a release_act \<Rightarrow> (release_exn \<Rightarrow> 'a release_act) \<Rightarrow> 'a release_act" where
  "handling_any m f s = (case m s of (Inl e, s') \<Rightarrow> f e s' | (Inr v, s') \<Rightarrow> (Inr v, s'))"

definition exn_body :: "release_exn \<Rightarrow> string" where
  "exn_body e = (case e of ReleaseError m \<Rightarrow> m | SystemError _ t \<Rightarrow> t)"

text \<open>The name of the class and the text.\<close>

definition exn_line :: "release_exn \<Rightarrow> string" where
  "exn_line e = (case e of ReleaseError m \<Rightarrow> ''ReleaseError: '' @ m | SystemError n t \<Rightarrow> n @ '': '' @ t)"

section \<open>Commands\<close>

definition run_any :: "release_env \<Rightarrow> string list \<Rightarrow> (int \<times> string \<times> string) release_act" where
  "run_any env argv s =
     (let s' = s\<lparr>rw_reads := Suc (rw_reads s), rw_commands := rw_commands s @ [argv]\<rparr> in
      case le_command env (rw_reads s) argv of
        Unrunnable n t \<Rightarrow> (Inl (SystemError n t), s')
      | RanOut \<Rightarrow> (Inl (ReleaseError (''command timed out: '' @ hd argv)), s')
      | Ran status out err \<Rightarrow> (Inr (status, out, err), s'))"

definition tail_text :: "int \<Rightarrow> string \<Rightarrow> string" where
  "tail_text n t = drop (nat (int (length t) - n)) t"

text \<open>With \<open>check\<close> a status other than 0 is an error.\<close>

definition run_command :: "release_env \<Rightarrow> bool \<Rightarrow> string list \<Rightarrow> (int \<times> string) release_act" where
  "run_command env check argv =
     bindS (run_any env argv) (\<lambda>(status, out, err).
     if check \<and> status \<noteq> 0
     then refuse_release (''command failed ('' @ hd argv @ '' rc='' @ show_int status @ ''): '' @ tail_text 2000 (strip err))
     else ret (status, out))"

definition git :: "release_env \<Rightarrow> bool \<Rightarrow> string \<Rightarrow> string list \<Rightarrow> (int \<times> string) release_act" where
  "git env check directory args = run_command env check ([''git'', ''-c'', ''safe.directory='' @ directory, ''-C'', directory] @ args)"

definition git_text :: "release_env \<Rightarrow> bool \<Rightarrow> string \<Rightarrow> string list \<Rightarrow> string release_act" where
  "git_text env check directory args = bindS (git env check directory args) (\<lambda>(_, out). ret (strip out))"

definition is_sha :: "string \<Rightarrow> bool" where
  "is_sha t = lower_hex 40 t"

definition valid_sha :: "string \<Rightarrow> string release_act" where
  "valid_sha value =
     (let normalized = lower (strip value) in
      if is_sha normalized then ret normalized else refuse_release ''target must be an exact 40-character lowercase hexadecimal commit SHA'')"

section \<open>The source checkout\<close>

record source_snapshot =
  sn_available :: bool
  sn_branch :: "string option"
  sn_head :: "string option"
  sn_dirty :: "bool option"
  sn_origin_main :: "string option"

definition no_source :: source_snapshot where
  "no_source = \<lparr>sn_available = False, sn_branch = None, sn_head = None, sn_dirty = None, sn_origin_main = None\<rparr>"

definition if_sha :: "string \<Rightarrow> string option" where
  "if_sha t = (if is_sha t then Some t else None)"

definition source_snapshot_of :: "release_env \<Rightarrow> source_snapshot release_act" where
  "source_snapshot_of env =
     bindS (glance (le_source_dir env)) (\<lambda>ok.
     if \<not> ok then ret no_source
     else handling_release
       (bindS (git_text env True (le_source env) [''rev-parse'', ''HEAD'']) (\<lambda>head.
        bindS (git_text env False (le_source env) [''symbolic-ref'', ''--short'', ''HEAD'']) (\<lambda>branch.
        bindS (git_text env True (le_source env) [''status'', ''--porcelain'']) (\<lambda>changes.
        bindS (git_text env False (le_source env) [''rev-parse'', ''refs/remotes/origin/main'']) (\<lambda>origin_main.
        ret \<lparr>sn_available = is_sha head, sn_branch = (if branch = [] then None else Some branch), sn_head = if_sha head,
          sn_dirty = Some (changes \<noteq> []), sn_origin_main = if_sha origin_main\<rparr>)))))
       (\<lambda>_. ret no_source))"

definition require_source :: "release_env \<Rightarrow> source_snapshot release_act" where
  "require_source env =
     bindS (source_snapshot_of env) (\<lambda>n.
     bindS (unless (sn_available n) ''dedicated source checkout is unavailable; run the release-controller installer first'') (\<lambda>_.
     bindS (unless (sn_branch n = Some ''main'') ''dedicated source checkout must be on branch main'') (\<lambda>_.
     bindS (unless (sn_dirty n \<noteq> Some True) ''dedicated source checkout must be clean'') (\<lambda>_.
     bindS (unless (sn_origin_main n \<noteq> None) ''dedicated source checkout is missing refs/remotes/origin/main'') (\<lambda>_.
     ret n)))))"

definition require_target :: "release_env \<Rightarrow> string \<Rightarrow> (string \<times> source_snapshot) release_act" where
  "require_target env target =
     bindS (valid_sha target) (\<lambda>target.
     bindS (require_source env) (\<lambda>n.
     bindS (git env False (le_source env) [''cat-file'', ''-e'', target @ ''^{commit}'']) (\<lambda>(exists, _).
     bindS (unless (exists = 0) ''target commit is not present in the dedicated source checkout'') (\<lambda>_.
     bindS (git env False (le_source env) [''merge-base'', ''--is-ancestor'', target, ''refs/remotes/origin/main'']) (\<lambda>(ancestor, _).
     bindS (unless (ancestor = 0) ''target commit is not reachable from the local origin/main ref'') (\<lambda>_.
     ret (target, n)))))))"

section \<open>Releases\<close>

definition rw_entry :: "release_world \<Rightarrow> string \<Rightarrow> release_entry option" where
  "rw_entry s name = dget (rw_entries s) name"

definition set_entry :: "string \<Rightarrow> release_entry \<Rightarrow> release_world \<Rightarrow> release_world" where
  "set_entry name e s = s\<lparr>rw_entries := dset (rw_entries s) name e\<rparr>"

definition drop_entry :: "string \<Rightarrow> release_world \<Rightarrow> release_world" where
  "drop_entry name s = s\<lparr>rw_entries := dpop (rw_entries s) name\<rparr>"

definition rel_path :: "release_env \<Rightarrow> string \<Rightarrow> string" where
  "rel_path env name = le_runtime env @ ''/releases/'' @ name"

definition is_tree :: "release_entry option \<Rightarrow> bool" where
  "is_tree e = (case e of Some (Tree _) \<Rightarrow> True | _ \<Rightarrow> False)"

definition release_head :: "release_env \<Rightarrow> string \<Rightarrow> string release_act" where
  "release_head env name =
     bindS (peek (\<lambda>s. is_tree (rw_entry s name))) (\<lambda>ok.
     bindS (unless ok (''release directory is missing or unsafe: '' @ rel_path env name)) (\<lambda>_.
     bindS (git_text env True (rel_path env name) [''rev-parse'', ''HEAD'']) (\<lambda>head.
     bindS (unless (is_sha head) ''release HEAD is invalid'') (\<lambda>_.
     bindS (git_text env True (rel_path env name) [''status'', ''--porcelain'']) (\<lambda>changes.
     bindS (unless (changes = []) ''release worktree is dirty'') (\<lambda>_.
     ret head))))))"

definition release_schema :: string where
  "release_schema = ''wwcx.edge1-release-controller.v1''"

definition operations_file :: string where
  "operations_file = ''deploy/edge1-release-controller/edge1-operations-api-release.conf''"

definition operator_file :: string where
  "operator_file = ''deploy/edge1-release-controller/edge1-operator-mcp-release.conf''"

definition controller_file :: string where
  "controller_file = ''server/edge1_release_controller.py''"

definition required_files :: "string list" where
  "required_files = [''server/edge1_operations_api.py'', ''server/edge1_operator_http.py'', controller_file, operations_file, operator_file]"

definition missing_files :: "release_entry option \<Rightarrow> string list" where
  "missing_files e = (case e of Some (Tree files) \<Rightarrow> filter (\<lambda>f. dget files f = None) required_files | _ \<Rightarrow> required_files)"

definition atomic_json :: "release_env \<Rightarrow> string \<Rightarrow> doc \<Rightarrow> unit release_act" where
  "atomic_json env path d = file_step env (\<lambda>s. s\<lparr>rw_written := rw_written s @ [(path, JObj d)]\<rparr>)"

definition prepared_doc :: "string \<Rightarrow> string \<Rightarrow> source_snapshot \<Rightarrow> doc" where
  "prepared_doc status target n =
     [(''schema'', JStr release_schema), (''status'', JStr status), (''target'', JStr target), (''source_head'', opt_str (sn_head n))]"

text \<open>\<open>git clone\<close> makes the directory; when it fails it may leave one.\<close>

definition clone_step :: "release_env \<Rightarrow> string \<Rightarrow> unit release_act" where
  "clone_step env temp s =
     (case run_command env True [''git'', ''clone'', ''--no-hardlinks'', ''--no-checkout'', le_source env, rel_path env temp] s of
        (Inl e, s') \<Rightarrow> (Inl e, if le_left_behind env (rw_reads s) then set_entry temp (Tree []) s' else s')
      | (Inr _, s') \<Rightarrow> (Inr (), set_entry temp (Tree []) s'))"

definition checkout_step :: "release_env \<Rightarrow> string \<Rightarrow> string \<Rightarrow> unit release_act" where
  "checkout_step env temp target =
     bindS (git env True (rel_path env temp) [''checkout'', ''--detach'', target]) (\<lambda>_ s.
     (Inr (), set_entry temp (Tree (le_checkout env (rw_reads s))) s))"

definition fill_release :: "release_env \<Rightarrow> string \<Rightarrow> string \<Rightarrow> unit release_act" where
  "fill_release env temp target =
     bindS (clone_step env temp) (\<lambda>_.
     bindS (checkout_step env temp target) (\<lambda>_.
     bindS (release_head env temp) (\<lambda>head.
     bindS (unless (head = target) ''prepared release HEAD does not match target'') (\<lambda>_.
     bindS (peek (\<lambda>s. missing_files (rw_entry s temp))) (\<lambda>missing.
     bindS (unless (missing = []) (''prepared release is missing required control-plane files: '' @ join '', '' missing)) (\<lambda>_.
     file_step env (\<lambda>s. case rw_entry s temp of None \<Rightarrow> s | Some e \<Rightarrow> set_entry target e (drop_entry temp s))))))))"

definition remove_temp :: "string \<Rightarrow> 'a release_act \<Rightarrow> 'a release_act" where
  "remove_temp temp m s = m (if is_tree (rw_entry s temp) then drop_entry temp s else s)"

definition temp_name :: "release_env \<Rightarrow> string \<Rightarrow> string" where
  "temp_name env target = ''.'' @ target @ ''.prepare-'' @ le_pid env"

definition prepare :: "release_env \<Rightarrow> string \<Rightarrow> doc release_act" where
  "prepare env target =
     bindS (unless (le_root_user env) ''prepare requires root'') (\<lambda>_.
     bindS (require_target env target) (\<lambda>(target, source).
     bindS (file_step env id) (\<lambda>_.
     bindS (peek (\<lambda>s. rw_entry s target)) (\<lambda>entry.
     if entry \<noteq> None then
       bindS (unless (is_tree entry) ''existing release path is unsafe'') (\<lambda>_.
       bindS (release_head env target) (\<lambda>head.
       bindS (unless (head = target) ''existing release path contains a different commit'') (\<lambda>_.
       ret (prepared_doc ''already-prepared'' target source))))
     else
       let temp = temp_name env target in
       bindS (peek (\<lambda>s. rw_entry s temp)) (\<lambda>busy.
       bindS (unless (busy = None) ''temporary release path already exists'') (\<lambda>_.
       bindS (handling_any (fill_release env temp target) (\<lambda>e. remove_temp temp (raise_err e))) (\<lambda>_.
       bindS (glance (le_now env)) (\<lambda>now.
       bindS (release_head env target) (\<lambda>head.
       bindS (atomic_json env (le_state_root env @ ''/releases/'' @ target @ ''.json'')
         [(''schema'', JStr release_schema), (''prepared_at'', JStr now), (''target'', JStr target), (''source_head'', opt_str (sn_head source)),
          (''release_head'', JStr head)]) (\<lambda>_.
       ret (prepared_doc ''prepared'' target source)))))))))))"

section \<open>Links\<close>

definition link_path :: "release_env \<Rightarrow> runtime_link \<Rightarrow> string" where
  "link_path env l = le_runtime env @ (case l of CurrentLink \<Rightarrow> ''/current'' | PreviousLink \<Rightarrow> ''/previous'')"

definition link_sha :: "release_env \<Rightarrow> runtime_link \<Rightarrow> string option release_act" where
  "link_sha env l =
     bindS (peek (\<lambda>s. (rw_links s l, case rw_links s l of PointsTo name \<Rightarrow> rw_entry s name | _ \<Rightarrow> None))) (\<lambda>(p, entry).
     case p of
       Absent \<Rightarrow> ret None
     | PlainFile \<Rightarrow> refuse_release (''runtime pointer is not a symlink: '' @ link_path env l)
     | Outside \<Rightarrow> refuse_release (''runtime pointer escapes release root: '' @ link_path env l)
     | PointsTo name \<Rightarrow>
         bindS (unless (entry \<noteq> None) (''runtime pointer is broken: '' @ link_path env l)) (\<lambda>_.
         bindS (unless (entry \<noteq> Some LinkEntry) (''runtime pointer escapes release root: '' @ link_path env l)) (\<lambda>_.
         bindS (unless (is_sha name) (''runtime pointer target is not a commit release: '' @ link_path env l)) (\<lambda>_.
         bindS (release_head env name) (\<lambda>head.
         bindS (unless (head = name) (''runtime pointer release HEAD mismatch: '' @ link_path env l)) (\<lambda>_.
         ret (Some name)))))))"

definition set_link :: "runtime_link \<Rightarrow> pointer \<Rightarrow> release_world \<Rightarrow> release_world" where
  "set_link l p s = s\<lparr>rw_links := (rw_links s)(l := p)\<rparr>"

definition replace_link :: "release_env \<Rightarrow> runtime_link \<Rightarrow> string option \<Rightarrow> unit release_act" where
  "replace_link env l target =
     bindS (file_step env id) (\<lambda>_.
     case target of
       None \<Rightarrow> file_step env (set_link l Absent)
     | Some name \<Rightarrow>
         bindS (peek (\<lambda>s. rw_entry s name)) (\<lambda>entry.
         if entry = None then raise_err (SystemError ''FileNotFoundError'' (rel_path env name))
         else if entry = Some LinkEntry then refuse_release ''refusing runtime pointer outside releases root''
         else file_step env (set_link l (PointsTo name))))"

section \<open>Drop-ins\<close>

definition dropin_path :: "dropin \<Rightarrow> string" where
  "dropin_path d = (case d of
     OperationsDropin \<Rightarrow> ''/etc/systemd/system/edge1-operations-api.service.d/20-edge1-release-root.conf''
   | OperatorDropin \<Rightarrow> ''/etc/systemd/system/edge1-operator-mcp.service.d/20-edge1-release-root.conf'')"

definition backup_name :: "dropin \<Rightarrow> string" where
  "backup_name d = (case d of OperationsDropin \<Rightarrow> ''edge1-operations-api-release.conf'' | OperatorDropin \<Rightarrow> ''edge1-operator-mcp-release.conf'')"

text \<open>A backup: the digest of the copy, when there was a file.\<close>

definition backup_file :: "release_env \<Rightarrow> dropin \<Rightarrow> string \<Rightarrow> string option release_act" where
  "backup_file env d tx =
     bindS (peek (\<lambda>s. rw_dropins s d)) (\<lambda>f.
     case f of
       LinkFile \<Rightarrow> refuse_release (''managed systemd drop-in may not be a symlink: '' @ dropin_path d)
     | Missing \<Rightarrow> ret None
     | OtherFile \<Rightarrow> refuse_release (''managed systemd drop-in is not a regular file: '' @ dropin_path d)
     | Regular t \<Rightarrow>
         bindS (file_step env (\<lambda>s. s\<lparr>rw_backups := dset (rw_backups s) (tx, backup_name d) t\<rparr>)) (\<lambda>_.
         ret (Some (le_sha256 env t))))"

definition backup_doc :: "dropin \<Rightarrow> string option \<Rightarrow> json" where
  "backup_doc d digest = JObj [(''path'', JStr (dropin_path d)), (''present'', JBool (digest \<noteq> None)), (''sha256'', opt_str digest)]"

definition set_dropin :: "dropin \<Rightarrow> managed_file \<Rightarrow> release_world \<Rightarrow> release_world" where
  "set_dropin d f s = s\<lparr>rw_dropins := (rw_dropins s)(d := f)\<rparr>"

definition restore_file :: "release_env \<Rightarrow> dropin \<Rightarrow> string option \<Rightarrow> string \<Rightarrow> unit release_act" where
  "restore_file env d digest tx =
     (case digest of
        None \<Rightarrow> file_step env (set_dropin d Missing)
      | Some h \<Rightarrow>
          bindS (peek (\<lambda>s. dget (rw_backups s) (tx, backup_name d))) (\<lambda>copy.
          case copy of
            None \<Rightarrow> raise_err (SystemError ''FileNotFoundError'' (backup_name d))
          | Some t \<Rightarrow>
              if le_sha256 env t \<noteq> h then refuse_release (''backup hash mismatch for '' @ backup_name d)
              else file_step env (set_dropin d (Regular t))))"

definition tree_file :: "release_entry option \<Rightarrow> string \<Rightarrow> string option" where
  "tree_file e path = (case e of Some (Tree files) \<Rightarrow> dget files path | _ \<Rightarrow> None)"

definition install_dropin :: "release_env \<Rightarrow> string \<Rightarrow> string \<Rightarrow> dropin \<Rightarrow> string release_act" where
  "install_dropin env release path d =
     bindS (peek (\<lambda>s. tree_file (rw_entry s release) path)) (\<lambda>source.
     case source of
       None \<Rightarrow> refuse_release (''release drop-in is missing or unsafe: '' @ rel_path env release @ ''/'' @ path)
     | Some t \<Rightarrow> bindS (file_step env (set_dropin d (Regular t))) (\<lambda>_. ret (le_sha256 env t)))"

definition refresh_controller :: "release_env \<Rightarrow> string \<Rightarrow> doc release_act" where
  "refresh_controller env release =
     bindS (peek (\<lambda>s. tree_file (rw_entry s release) controller_file)) (\<lambda>source.
     case source of
       None \<Rightarrow> refuse_release ''release controller source is unavailable in promoted release''
     | Some t \<Rightarrow>
         bindS (file_step env (\<lambda>s. s\<lparr>rw_installed := Some t\<rparr>)) (\<lambda>_.
         ret [(''path'', JStr ''/usr/local/libexec/edge1-release-controller''), (''sha256'', JStr (le_sha256 env t))]))"

section \<open>Services and postflight\<close>

definition managed_services :: "string list" where
  "managed_services = [''edge1-operations-api.service'', ''edge1-operator-mcp.service'']"

definition managed_ports :: "int list" where
  "managed_ports = [8097, 8102]"

fun restart_each :: "release_env \<Rightarrow> string list \<Rightarrow> unit release_act" where
  "restart_each env [] = ret ()"
| "restart_each env (n # ns) = bindS (run_command env True [''systemctl'', ''restart'', n]) (\<lambda>_. restart_each env ns)"

definition restart_services :: "release_env \<Rightarrow> unit release_act" where
  "restart_services env =
     bindS (run_command env True [''systemctl'', ''daemon-reload'']) (\<lambda>_. restart_each env managed_services)"

definition unit_active :: "release_env \<Rightarrow> string \<Rightarrow> bool release_act" where
  "unit_active env n = bindS (run_command env False [''systemctl'', ''is-active'', ''--quiet'', n]) (\<lambda>(status, _). ret (status = 0))"

fun each_active :: "release_env \<Rightarrow> string list \<Rightarrow> (string \<times> bool) list release_act" where
  "each_active env [] = ret []"
| "each_active env (n # ns) = bindS (unit_active env n) (\<lambda>b. bindS (each_active env ns) (\<lambda>bs. ret ((n, b) # bs)))"

definition strip_brackets :: "string \<Rightarrow> string" where
  "strip_brackets t =
     (let bracket = (\<lambda>c. c = CHR 0x5B \<or> c = CHR 0x5D) in rev (dropWhile bracket (rev (dropWhile bracket t))))"

text \<open>The address before the port, when the fourth column of a line of \<open>ss\<close> ends in the port.\<close>

definition listener_host :: "int \<Rightarrow> string \<Rightarrow> string option" where
  "listener_host port line =
     (let parts = py_words line; suffix = '':'' @ show_int port in
      if length parts < 4 \<or> \<not> ends_with (parts ! 3) suffix then None
      else Some (strip_brackets (take (length (parts ! 3) - length suffix) (parts ! 3))))"

definition listener_hosts :: "release_env \<Rightarrow> int \<Rightarrow> string list release_act" where
  "listener_hosts env port =
     bindS (run_command env False [''ss'', ''-H'', ''-ltn'']) (\<lambda>(status, out).
     ret (if status \<noteq> 0 then [] else List.map_filter (listener_host port) (split_lines out)))"

definition loopback :: "string \<Rightarrow> bool" where
  "loopback host \<longleftrightarrow> host = ''127.0.0.1'' \<or> host = ''::1''"

definition read_health :: "release_env \<Rightarrow> doc release_act" where
  "read_health env =
     bindS (glance (le_health env)) (\<lambda>r.
     case r of
       Unreachable n \<Rightarrow> refuse_release (''operations health unavailable: '' @ n)
     | Undecodable \<Rightarrow> refuse_release ''operations health returned invalid JSON''
     | Payload t \<Rightarrow>
         (case json_loads t of
            None \<Rightarrow> refuse_release ''operations health returned invalid JSON''
          | Some (JObj d) \<Rightarrow> ret d
          | Some _ \<Rightarrow> refuse_release ''operations health must be a JSON object''))"

fun checked_listeners :: "release_env \<Rightarrow> int list \<Rightarrow> (int \<times> string list) list release_act" where
  "checked_listeners env [] = ret []"
| "checked_listeners env (port # ports) =
     bindS (listener_hosts env port) (\<lambda>hosts.
     bindS (unless (hosts \<noteq> []) (''expected loopback listener is absent on port '' @ show_int port)) (\<lambda>_.
     bindS (unless (list_all loopback hosts) (''managed port '' @ show_int port @ '' is exposed beyond loopback'')) (\<lambda>_.
     bindS (checked_listeners env ports) (\<lambda>rest. ret ((port, hosts) # rest)))))"

definition services_doc :: "(string \<times> bool) list \<Rightarrow> json" where
  "services_doc bs = JObj (map (\<lambda>(n, b). (n, JBool b)) bs)"

definition listeners_doc :: "(int \<times> string list) list \<Rightarrow> json" where
  "listeners_doc ls = JObj (map (\<lambda>(port, hosts). (show_int port, JList (map JStr hosts))) ls)"

definition py_opt :: "string option \<Rightarrow> string" where
  "py_opt v = (case v of None \<Rightarrow> ''None'' | Some t \<Rightarrow> t)"

definition postflight_once :: "release_env \<Rightarrow> string \<Rightarrow> doc release_act" where
  "postflight_once env target =
     bindS (valid_sha target) (\<lambda>target.
     bindS (link_sha env CurrentLink) (\<lambda>current.
     bindS (unless (current = Some target) (''runtime current pointer mismatch: expected '' @ target @ '', got '' @ py_opt current)) (\<lambda>_.
     bindS (each_active env managed_services) (\<lambda>services.
     bindS (unless (list_all snd services) ''one or more managed control-plane services are inactive'') (\<lambda>_.
     bindS (read_health env) (\<lambda>health.
     bindS (unless (jget health ''status'' = JStr ''ok'') ''Operations API health is not ok'') (\<lambda>_.
     bindS (unless (jget health ''repository_root_stable'' = JBool True) ''Operations API repository root is not stable'') (\<lambda>_.
     bindS (unless (jget health ''mutations_enabled'' = JBool False) ''Operations API mutations are not disabled'') (\<lambda>_.
     bindS (checked_listeners env managed_ports) (\<lambda>listeners.
     ret [(''target'', JStr target), (''services'', services_doc services), (''operations_health'', JObj health),
       (''listeners'', listeners_doc listeners)]))))))))))"

fun wait_postflight :: "release_env \<Rightarrow> string \<Rightarrow> nat \<Rightarrow> string \<Rightarrow> doc release_act" where
  "wait_postflight env target 0 failure = refuse_release (''postflight did not converge: '' @ failure)"
| "wait_postflight env target (Suc n) failure = handling_release (postflight_once env target) (wait_postflight env target n)"

definition postflight :: "release_env \<Rightarrow> string \<Rightarrow> doc release_act" where
  "postflight env target = wait_postflight env target 12 ''None''"

section \<open>Promotion\<close>

definition transaction_dir :: "release_env \<Rightarrow> string \<Rightarrow> string \<Rightarrow> string release_act" where
  "transaction_dir env target reason =
     bindS (glance (le_stamp env)) (\<lambda>stamp.
     let path = le_backup_root env @ ''/edge1-release-controller-'' @ (if reason = ''rollback'' then ''rollback'' else ''promote'') @ ''-'' @ stamp @ ''-'' @
       le_pid env @ ''-'' @ take 12 target in
     bindS (peek (\<lambda>s. path \<in> set (rw_transactions s))) (\<lambda>exists.
     if exists then raise_err (SystemError ''FileExistsError'' path)
     else bindS (file_step env (\<lambda>s. s\<lparr>rw_transactions := rw_transactions s @ [path]\<rparr>)) (\<lambda>_. ret path)))"

definition write_state :: "release_env \<Rightarrow> doc \<Rightarrow> unit release_act" where
  "write_state env d = file_step env (\<lambda>s. s\<lparr>rw_state := StateText (Some (JObj d))\<rparr>)"

text \<open>What a promotion knows when it starts to change things.\<close>

record promotion =
  pm_target :: string
  pm_current :: "string option"
  pm_previous :: "string option"
  pm_operations :: "string option"
  pm_operator :: "string option"
  pm_dir :: string
  pm_manifest :: doc

definition switch_over :: "release_env \<Rightarrow> promotion \<Rightarrow> doc release_act" where
  "switch_over env p =
     bindS (install_dropin env (pm_target p) operations_file OperationsDropin) (\<lambda>operations.
     bindS (install_dropin env (pm_target p) operator_file OperatorDropin) (\<lambda>operator.
     bindS (case pm_current p of None \<Rightarrow> ret () | Some c \<Rightarrow> replace_link env PreviousLink (Some c)) (\<lambda>_.
     bindS (replace_link env CurrentLink (Some (pm_target p))) (\<lambda>_.
     bindS (restart_services env) (\<lambda>_.
     bindS (postflight env (pm_target p)) (\<lambda>result.
     bindS (refresh_controller env (pm_target p)) (\<lambda>install.
     bindS (glance (le_now env)) (\<lambda>now.
     let completed = pm_manifest p @ [(''completed_at'', JStr now), (''status'', JStr ''succeeded''), (''current'', JStr (pm_target p)),
       (''previous'', opt_str (pm_current p)), (''dropin_hashes'', JObj [(''edge1-operations-api'', JStr operations), (''edge1-operator-mcp'', JStr operator)]),
       (''controller_install'', JObj install), (''postflight'', JObj result), (''backup_dir'', JStr (pm_dir p))] in
     bindS (atomic_json env (pm_dir p @ ''/result.json'') completed) (\<lambda>_.
     bindS (write_state env completed) (\<lambda>_. ret completed))))))))))"

definition put_back :: "release_env \<Rightarrow> promotion \<Rightarrow> unit release_act" where
  "put_back env p =
     bindS (replace_link env CurrentLink (pm_current p)) (\<lambda>_.
     bindS (replace_link env PreviousLink (pm_previous p)) (\<lambda>_.
     bindS (restore_file env OperationsDropin (pm_operations p) (pm_dir p)) (\<lambda>_.
     restore_file env OperatorDropin (pm_operator p) (pm_dir p))))"

definition roll_back :: "release_env \<Rightarrow> promotion \<Rightarrow> unit release_act" where
  "roll_back env p =
     bindS (put_back env p) (\<lambda>_.
     bindS (restart_services env) (\<lambda>_.
     case pm_current p of None \<Rightarrow> ret () | Some c \<Rightarrow> bindS (postflight env c) (\<lambda>_. ret ())))"

text \<open>What follows a failure: the attempt to roll back, its record, and the error that tells how it went.\<close>

definition after_failure :: "release_env \<Rightarrow> promotion \<Rightarrow> release_exn \<Rightarrow> doc release_act" where
  "after_failure env p e =
     bindS (handling_any (bindS (roll_back env p) (\<lambda>_. ret None)) (\<lambda>e'. ret (Some (exn_line e')))) (\<lambda>failure.
     bindS (glance (le_now env)) (\<lambda>now.
     let failed = pm_manifest p @ [(''completed_at'', JStr now), (''status'', JStr ''failed''), (''error'', JStr (exn_line e)),
       (''automatic_rollback_succeeded'', JBool (failure = None)), (''automatic_rollback_error'', opt_str failure), (''backup_dir'', JStr (pm_dir p))] in
     bindS (atomic_json env (pm_dir p @ ''/result.json'') failed) (\<lambda>_.
     bindS (write_state env failed) (\<lambda>_.
     refuse_release (''promotion failed; '' @ (case failure of None \<Rightarrow> ''automatic rollback succeeded'' | Some t \<Rightarrow> ''automatic rollback FAILED: '' @ t) @
       '': '' @ exn_body e)))))"

text \<open>The transaction directory, the copies of the drop-ins and the manifest.\<close>

definition open_promotion :: "release_env \<Rightarrow> string \<Rightarrow> source_snapshot \<Rightarrow> string \<Rightarrow> string option \<Rightarrow> string option \<Rightarrow> promotion release_act" where
  "open_promotion env target source reason old_current old_previous =
     bindS (transaction_dir env target reason) (\<lambda>tx.
     bindS (backup_file env OperationsDropin tx) (\<lambda>operations.
     bindS (backup_file env OperatorDropin tx) (\<lambda>operator.
     bindS (glance (le_now env)) (\<lambda>now.
     let manifest = [(''schema'', JStr release_schema), (''transaction'', JStr reason), (''started_at'', JStr now), (''target'', JStr target),
       (''source_head'', opt_str (sn_head source)), (''old_current'', opt_str old_current), (''old_previous'', opt_str old_previous),
       (''backups'', JObj [(''operations_dropin'', backup_doc OperationsDropin operations), (''operator_dropin'', backup_doc OperatorDropin operator)])] in
     bindS (atomic_json env (tx @ ''/transaction.json'') manifest) (\<lambda>_.
     ret \<lparr>pm_target = target, pm_current = old_current, pm_previous = old_previous, pm_operations = operations, pm_operator = operator,
       pm_dir = tx, pm_manifest = manifest\<rparr>)))))"

definition promote :: "release_env \<Rightarrow> string \<Rightarrow> string \<Rightarrow> doc release_act" where
  "promote env target reason =
     bindS (unless (le_root_user env) ''promotion requires root'') (\<lambda>_.
     bindS (require_target env target) (\<lambda>(target, source).
     bindS (prepare env target) (\<lambda>_.
     bindS (link_sha env CurrentLink) (\<lambda>old_current.
     bindS (link_sha env PreviousLink) (\<lambda>old_previous.
     if old_current = Some target then
       bindS (postflight env target) (\<lambda>result.
       ret (prepared_doc ''already-current'' target source @ [(''postflight'', JObj result)]))
     else
       bindS (open_promotion env target source reason old_current old_previous) (\<lambda>p.
       handling_any (switch_over env p) (after_failure env p)))))))"

definition load_state :: "release_env \<Rightarrow> state_file \<Rightarrow> release_exn + doc" where
  "load_state env f =
     (case f of
        StateText (Some (JObj d)) \<Rightarrow> Inr d
      | StateText (Some _) \<Rightarrow> Inl (ReleaseError ''state JSON must be an object'')
      | StateText None \<Rightarrow> Inl (ReleaseError ''invalid state JSON: JSONDecodeError'')
      | _ \<Rightarrow> Inl (ReleaseError (''state file is missing or unsafe: '' @ le_state_root env @ ''/state.json'')))"

definition rollback_last :: "release_env \<Rightarrow> doc release_act" where
  "rollback_last env =
     bindS (unless (le_root_user env) ''rollback requires root'') (\<lambda>_.
     bindS (peek rw_state) (\<lambda>f.
     bindS (unless (f \<noteq> NoStateFile \<and> f \<noteq> UnsafeStateFile) ''no durable release state is available for rollback'') (\<lambda>_.
     bindS (pure_act (load_state env f)) (\<lambda>state.
     bindS (link_sha env CurrentLink) (\<lambda>current.
     bindS (if truthy (jget state ''previous'') then ret (jget state ''previous'')
       else bindS (link_sha env PreviousLink) (\<lambda>previous. ret (opt_str previous))) (\<lambda>previous.
     case previous of
       JStr t \<Rightarrow>
         bindS (unless (is_sha t) ''no exact previous release is recorded'') (\<lambda>_.
         bindS (unless (current \<noteq> Some t) ''previous release is already current'') (\<lambda>_.
         promote env t ''rollback''))
     | _ \<Rightarrow> refuse_release ''no exact previous release is recorded''))))))"

section \<open>Status\<close>

fun each_listening :: "release_env \<Rightarrow> int list \<Rightarrow> (int \<times> string list) list release_act" where
  "each_listening env [] = ret []"
| "each_listening env (port # ports) =
     bindS (listener_hosts env port) (\<lambda>hosts. bindS (each_listening env ports) (\<lambda>rest. ret ((port, hosts) # rest)))"

text \<open>A link with the errors so far.\<close>

definition link_or_error :: "release_env \<Rightarrow> runtime_link \<Rightarrow> (string option \<times> string list) release_act" where
  "link_or_error env l = handling_release (bindS (link_sha env l) (\<lambda>c. ret (c, []))) (\<lambda>m. ret (None, [m]))"

definition snapshot_doc :: "source_snapshot \<Rightarrow> json" where
  "snapshot_doc n = JObj [(''available'', JBool (sn_available n)), (''branch'', opt_str (sn_branch n)), (''head'', opt_str (sn_head n)),
     (''dirty'', case sn_dirty n of None \<Rightarrow> JNull | Some b \<Rightarrow> JBool b), (''origin_main'', opt_str (sn_origin_main n))]"

definition last_doc :: "doc \<Rightarrow> json" where
  "last_doc d = JObj (map (\<lambda>k. (k, jget d k)) [''status'', ''transaction'', ''target'', ''completed_at'', ''automatic_rollback_succeeded''])"

definition health_ok :: "doc \<Rightarrow> bool" where
  "health_ok d \<longleftrightarrow> jget d ''status'' = JStr ''ok'' \<and> jget d ''repository_root_stable'' = JBool True \<and> jget d ''mutations_enabled'' = JBool False"

definition release_status :: "release_env \<Rightarrow> doc release_act" where
  "release_status env =
     bindS (source_snapshot_of env) (\<lambda>source.
     bindS (link_or_error env CurrentLink) (\<lambda>(current, errors).
     bindS (link_or_error env PreviousLink) (\<lambda>(previous, errors').
     bindS (each_active env managed_services) (\<lambda>services.
     bindS (handling_release (read_health env) (\<lambda>m. ret [(''status'', JStr ''unavailable''), (''detail'', JStr m)])) (\<lambda>health.
     bindS (each_listening env managed_ports) (\<lambda>listeners.
     bindS (peek rw_state) (\<lambda>f.
     bindS (glance (le_now env)) (\<lambda>now.
     let loopback_only = list_all (\<lambda>(_, hosts). hosts \<noteq> [] \<and> list_all loopback hosts) listeners;
       healthy = (current \<noteq> None \<and> list_all snd services \<and> health_ok health \<and> loopback_only \<and> errors @ errors' = []);
       (last_transaction, errors'') = (if f = NoStateFile \<or> f = UnsafeStateFile then (JNull, [])
         else case load_state env f of Inr d \<Rightarrow> (last_doc d, []) | Inl e \<Rightarrow> (JNull, [exn_body e])) in
     ret [(''schema'', JStr ''wwcx.edge1-release-status.v1''), (''generated_at'', JStr now), (''healthy'', JBool healthy), (''action_required'', JBool (\<not> healthy)),
       (''source'', snapshot_doc source),
       (''runtime'', JObj [(''current'', opt_str current), (''previous'', opt_str previous),
         (''source_differs_from_runtime'', JBool (sn_head source \<noteq> None \<and> current \<noteq> None \<and> sn_head source \<noteq> current))]),
       (''services'', services_doc services),
       (''operations_api'', JObj (map (\<lambda>k. (k, jget health k)) [''status'', ''repository_root_stable'', ''mutations_enabled''])),
       (''listeners'', listeners_doc listeners), (''loopback_only'', JBool loopback_only), (''last_transaction'', last_transaction),
       (''errors'', JList (map JStr (errors @ errors' @ errors''))), (''automatic_promotion'', JBool False)]))))))))"

definition write_status :: "release_env \<Rightarrow> bool \<Rightarrow> doc release_act" where
  "write_status env publish =
     bindS (release_status env) (\<lambda>d.
     bindS (atomic_json env (le_state_root env @ ''/status.json'') d) (\<lambda>_.
     bindS (if publish then atomic_json env ''/var/www/edge1-status/release-manager/status.json'' d else ret ()) (\<lambda>_.
     ret d)))"

section \<open>Commands of the controller\<close>

datatype release_op = ShowStatus bool bool | Prepare string | Promote string | RollbackLast

definition release_op_act :: "release_env \<Rightarrow> release_op \<Rightarrow> doc release_act" where
  "release_op_act env c =
     (case c of
        ShowStatus write publish \<Rightarrow> if write \<or> publish then write_status env publish else release_status env
      | Prepare target \<Rightarrow> prepare env target
      | Promote target \<Rightarrow> promote env target ''promote''
      | RollbackLast \<Rightarrow> rollback_last env)"

text \<open>\<open>main\<close>: the exit status and what is printed; other exceptions leave it.\<close>

definition controller_main :: "release_env \<Rightarrow> release_op \<Rightarrow> (int \<times> doc) release_act" where
  "controller_main env c =
     handling_release (bindS (release_op_act env c) (\<lambda>d. ret (0, d)))
       (\<lambda>m. ret (1, [(''schema'', JStr release_schema), (''status'', JStr ''error''), (''error'', JStr m)]))"

text \<open>Invocations one after another, each with its environment.\<close>

definition release_run :: "release_world \<Rightarrow> (release_env \<times> release_op) list \<Rightarrow> release_world" where
  "release_run = foldl (\<lambda>s (env, c). snd (controller_main env c s))"

end
