(* ===== verification/ReleaseTheorems.thy ===== *)
theory ReleaseTheorems
  imports ReleaseControl
begin

text \<open>
  What the release controller promises: it runs only its fixed commands, its links lead to prepared releases, a promotion
  happens entirely or leaves links and drop-ins as they were, and a rollback returns to the release before.
\<close>

section \<open>Commands\<close>

definition git_args :: "string list \<Rightarrow> bool" where
  "git_args args \<longleftrightarrow>
     args \<in> {[''rev-parse'', ''HEAD''], [''symbolic-ref'', ''--short'', ''HEAD''], [''status'', ''--porcelain''], [''rev-parse'', ''refs/remotes/origin/main'']} \<or>
     (\<exists>t. is_sha t \<and> args \<in> {[''cat-file'', ''-e'', t @ ''^{commit}''], [''merge-base'', ''--is-ancestor'', t, ''refs/remotes/origin/main''],
       [''checkout'', ''--detach'', t]})"

text \<open>The commands the controller may run: fixed, but for a commit and the directories it manages.\<close>

definition allowed_command :: "release_env \<Rightarrow> string list \<Rightarrow> bool" where
  "allowed_command env argv \<longleftrightarrow>
     argv = [''ss'', ''-H'', ''-ltn''] \<or> argv = [''systemctl'', ''daemon-reload''] \<or>
     (\<exists>n\<in>set managed_services. argv = [''systemctl'', ''restart'', n] \<or> argv = [''systemctl'', ''is-active'', ''--quiet'', n]) \<or>
     (\<exists>t. is_sha t \<and> argv = [''git'', ''clone'', ''--no-hardlinks'', ''--no-checkout'', le_source env, rel_path env (temp_name env t)]) \<or>
     (\<exists>d args. (d = le_source env \<or> (\<exists>name. d = rel_path env name)) \<and> git_args args \<and>
        argv = [''git'', ''-c'', ''safe.directory='' @ d, ''-C'', d] @ args)"

text \<open>A relation that observations and allowed commands keep.\<close>

locale release_frame = state_frame related for related :: "release_world \<Rightarrow> release_world \<Rightarrow> bool" +
  fixes env :: release_env
  assumes related_reads: "related s (s\<lparr>rw_reads := n\<rparr>)"
    and related_command: "allowed_command env argv \<Longrightarrow> related s (s\<lparr>rw_reads := n, rw_commands := rw_commands s @ [argv]\<rparr>)"
begin

lemma keeps_observing: "keeps (glance f)" "keeps (peek g)" "keeps (refuse_release m)" "keeps (unless ok m)"
  by (simp_all add: keeps_def glance_def peek_def refuse_release_def unless_def raise_err_def ret_def related_reads related_refl)

lemma keeps_file_step: "(\<And>s. related s (f s)) \<Longrightarrow> keeps (file_step env f)"
  using related_reads related_trans by (fastforce simp: keeps_def file_step_def Let_def split: option.split)

lemma keeps_handling:
  "keeps m \<Longrightarrow> (\<And>t. keeps (f t)) \<Longrightarrow> keeps (handling_release m f)"
  "keeps m \<Longrightarrow> (\<And>e. keeps (g e)) \<Longrightarrow> keeps (handling_any m g)"
proof -
  assume m: "keeps m" and f: "\<And>t. keeps (f t)"
  have "related s s' \<Longrightarrow> related s (snd (f t s'))" for s s' t using related_trans keepsD [OF f] by blast
  moreover have "m s = (r, s') \<Longrightarrow> related s s'" for s r s' using keepsD [OF m, of s] by simp
  ultimately show "keeps (handling_release m f)"
    unfolding keeps_def handling_release_def by (auto split: prod.split sum.split release_exn.split)
next
  assume m: "keeps m" and g: "\<And>e. keeps (g e)"
  have "related s s' \<Longrightarrow> related s (snd (g e s'))" for s s' e using related_trans keepsD [OF g] by blast
  moreover have "m s = (r, s') \<Longrightarrow> related s s'" for s r s' using keepsD [OF m, of s] by simp
  ultimately show "keeps (handling_any m g)"
    unfolding keeps_def handling_any_def by (auto split: prod.split sum.split)
qed

lemmas keeps_plain = keeps_ret keeps_raise keeps_pure keeps_bindS keeps_if keeps_option keeps_observing keeps_handling

lemma keeps_run: "allowed_command env argv \<Longrightarrow> keeps (run_command env check argv)"
proof -
  assume "allowed_command env argv"
  then have "keeps (run_any env argv)"
    by (auto simp: keeps_def run_any_def Let_def related_command split: command_result.split)
  then show ?thesis unfolding run_command_def split_def by (intro keeps_plain)
qed

definition managed :: "string \<Rightarrow> bool" where
  "managed d \<longleftrightarrow> d = le_source env \<or> (\<exists>name. d = rel_path env name)"

lemma managed_simps [simp]: "managed (le_source env)" "managed (rel_path env name)"
  by (auto simp: managed_def)

lemma keeps_git: "managed d \<Longrightarrow> git_args args \<Longrightarrow> keeps (git env check d args)"
  unfolding git_def managed_def by (rule keeps_run) (auto simp: allowed_command_def)

lemma keeps_git_text: "managed d \<Longrightarrow> git_args args \<Longrightarrow> keeps (git_text env check d args)"
  unfolding git_text_def split_def by (intro keeps_plain keeps_git)

lemma queries: "git_args [''rev-parse'', ''HEAD'']" "git_args [''symbolic-ref'', ''--short'', ''HEAD'']" "git_args [''status'', ''--porcelain'']"
  "git_args [''rev-parse'', ''refs/remotes/origin/main'']"
  "is_sha t \<Longrightarrow> git_args [''cat-file'', ''-e'', t @ ''^{commit}'']" "is_sha t \<Longrightarrow> git_args [''merge-base'', ''--is-ancestor'', t, ''refs/remotes/origin/main'']"
  "is_sha t \<Longrightarrow> git_args [''checkout'', ''--detach'', t]"
  by (auto simp: git_args_def)

lemma keeps_valid_sha: "keeps (valid_sha t)"
  unfolding valid_sha_def Let_def by (intro keeps_plain)

lemma keeps_source: "keeps (source_snapshot_of env)" "keeps (require_source env)"
proof -
  show snapshot: "keeps (source_snapshot_of env)"
    unfolding source_snapshot_of_def by (intro keeps_plain keeps_git_text queries managed_simps)
  show "keeps (require_source env)" unfolding require_source_def by (intro keeps_plain snapshot)
qed

lemma keeps_target: "keeps (require_target env t)"
  unfolding require_target_def
proof (rule keeps_bindS_Inr [OF keeps_valid_sha], goal_cases)
  case (1 target s s')
  then have "is_sha target" by (auto simp: valid_sha_def Let_def ret_def refuse_release_def raise_err_def split: if_splits)
  then show ?case unfolding split_def by (intro keeps_plain keeps_source keeps_git queries managed_simps)
qed

lemma keeps_head: "keeps (release_head env name)"
  unfolding release_head_def by (intro keeps_plain keeps_git_text queries managed_simps)

lemma keeps_pointer:
  "keeps m \<Longrightarrow> keeps a \<Longrightarrow> keeps b \<Longrightarrow> (\<And>name. keeps (f name)) \<Longrightarrow>
     keeps (case p of Absent \<Rightarrow> m | PlainFile \<Rightarrow> a | PointsTo name \<Rightarrow> f name | Outside \<Rightarrow> b)"
  by (cases p) simp_all

lemma keeps_link_sha: "keeps (link_sha env l)"
  unfolding link_sha_def split_def by (intro keeps_pointer keeps_plain keeps_head)

lemma keeps_services: "keeps (restart_services env)" "keeps (each_active env managed_services)" "keeps (listener_hosts env port)"
proof -
  have restart: "set ns \<subseteq> set managed_services \<Longrightarrow> keeps (restart_each env ns)" for ns
    by (induction ns) (auto intro!: keeps_plain keeps_run simp: allowed_command_def)
  show "keeps (restart_services env)"
    unfolding restart_services_def by (intro keeps_plain keeps_run restart) (simp_all add: allowed_command_def)
  have "set ns \<subseteq> set managed_services \<Longrightarrow> keeps (each_active env ns)" for ns
    by (induction ns) (auto intro!: keeps_plain keeps_run simp: allowed_command_def unit_active_def split_def)
  then show "keeps (each_active env managed_services)" by blast
  show "keeps (listener_hosts env port)"
    unfolding listener_hosts_def split_def by (intro keeps_plain keeps_run) (simp add: allowed_command_def)
qed

lemma keeps_listeners: "keeps (checked_listeners env ports)" "keeps (each_listening env ports)"
  by (induction ports) (auto intro!: keeps_plain keeps_services)

lemma keeps_health: "keeps (read_health env)"
  unfolding read_health_def
  by (intro keeps_bindS keeps_observing) (auto intro!: keeps_plain split: health_response.split json.split)

lemma keeps_postflight: "keeps (postflight env t)"
proof -
  have once: "keeps (postflight_once env t)"
    unfolding postflight_once_def by (intro keeps_plain keeps_valid_sha keeps_link_sha keeps_services keeps_health keeps_listeners)
  have "keeps (wait_postflight env t n m)" for n m
    by (induction n arbitrary: m) (auto intro!: keeps_plain once)
  then show ?thesis unfolding postflight_def by blast
qed

lemma keeps_status: "keeps (release_status env)"
proof -
  have "keeps (link_or_error env l)" for l unfolding link_or_error_def by (intro keeps_plain keeps_link_sha)
  then show ?thesis
    unfolding release_status_def split_def Let_def by (intro keeps_plain keeps_source keeps_services keeps_health keeps_listeners)
qed

end

text \<open>What a successful step found.\<close>

lemma require_target_sha: "require_target env target s = (Inr (t, source), s') \<Longrightarrow> is_sha t \<and> t = lower (strip target)"
  by (auto simp: require_target_def bindS_Inr_iff basic_Inr_iff split_def valid_sha_def Let_def refuse_release_def split: if_splits)

lemma link_sha_Inr: "link_sha env l s = (Inr (Some t), s') \<Longrightarrow> is_sha t \<and> rw_links s l = PointsTo t"
  by (auto simp: link_sha_def bindS_Inr_iff basic_Inr_iff peek_def unless_def refuse_release_def split: pointer.splits if_splits)

definition proper :: "promotion \<Rightarrow> bool" where
  "proper p \<longleftrightarrow> is_sha (pm_target p) \<and> (case pm_current p of None \<Rightarrow> True | Some t \<Rightarrow> is_sha t) \<and> (case pm_previous p of None \<Rightarrow> True | Some t \<Rightarrow> is_sha t)"

lemma open_promotion_proper:
  "open_promotion env t source reason old_current old_previous s = (Inr p, s') \<Longrightarrow> is_sha t \<Longrightarrow>
     case old_current of None \<Rightarrow> True | Some t \<Rightarrow> is_sha t \<Longrightarrow> case old_previous of None \<Rightarrow> True | Some t \<Rightarrow> is_sha t \<Longrightarrow> proper p"
  by (auto simp: open_promotion_def bindS_Inr_iff basic_Inr_iff Let_def proper_def)

text \<open>A relation that does not look at the state file and the records.\<close>

locale release_records = release_frame related env for related env +
  assumes related_state: "related s (s\<lparr>rw_state := f\<rparr>)"
    and related_written: "related s (s\<lparr>rw_written := w\<rparr>)"
begin

lemma keeps_json: "keeps (atomic_json env path d)" "keeps (write_state env d)" "keeps (file_step env id)"
  unfolding atomic_json_def write_state_def
  by (rule keeps_file_step, simp add: related_written related_state related_refl)+

end

text \<open>A relation kept by opening a transaction.\<close>

locale release_backups = release_records related env for related env +
  assumes related_backups: "related s (s\<lparr>rw_backups := b\<rparr>)"
    and related_transactions: "related s (s\<lparr>rw_transactions := x\<rparr>)"
begin

lemma keeps_backup: "keeps (backup_file env d tx)"
  unfolding backup_file_def
  by (rule keeps_bindS [OF keeps_observing(2)]) (auto intro!: keeps_plain keeps_file_step related_backups split: managed_file.split)

lemma keeps_open: "keeps (open_promotion env target source reason old_current old_previous)"
  unfolding open_promotion_def transaction_dir_def Let_def
  by (intro keeps_plain keeps_file_step related_transactions keeps_backup keeps_json)

end

text \<open>A relation kept by preparing a release.\<close>

locale release_quiet = release_backups related env for related env +
  assumes related_temp: "is_sha t \<Longrightarrow> related s (set_entry (temp_name env t) (Tree files) s)"
    and related_drop: "is_sha t \<Longrightarrow> related s (drop_entry (temp_name env t) s)"
    and related_rename: "is_sha t \<Longrightarrow> rw_entry s (temp_name env t) = Some e \<Longrightarrow> related s (set_entry t e (drop_entry (temp_name env t) s))"
begin

lemma keeps_fill:
  assumes sha: "is_sha t"
  shows "keeps (fill_release env (temp_name env t) t)"
proof -
  have temp: "related s s' \<Longrightarrow> related s (set_entry (temp_name env t) (Tree files) s')" for s s' files
    using related_trans related_temp [OF sha] by blast
  have "keeps (run_command env True [''git'', ''clone'', ''--no-hardlinks'', ''--no-checkout'', le_source env, rel_path env (temp_name env t)])"
    by (rule keeps_run) (use sha in \<open>auto simp: allowed_command_def\<close>)
  then have clone: "keeps (clone_step env (temp_name env t))"
    unfolding keeps_def clone_step_def using temp by (auto split: prod.split sum.split) (metis snd_conv)+
  have checkout: "keeps (checkout_step env (temp_name env t) t)"
    unfolding checkout_step_def by (intro keeps_bindS keeps_git managed_simps queries sha keepsI) (simp add: related_temp [OF sha])
  have move: "keeps (file_step env (\<lambda>s. case rw_entry s (temp_name env t) of None \<Rightarrow> s | Some e \<Rightarrow> set_entry t e (drop_entry (temp_name env t) s)))"
    by (rule keeps_file_step) (auto simp: related_refl related_rename [OF sha] split: option.split)
  show ?thesis unfolding fill_release_def by (intro keeps_plain clone checkout keeps_head move)
qed

lemma keeps_prepare: "keeps (prepare env target)"
proof -
  have body: "keeps (bindS (file_step env id) (\<lambda>_. bindS (peek (\<lambda>s. rw_entry s t)) (\<lambda>entry.
     if entry \<noteq> None then
       bindS (unless (is_tree entry) a) (\<lambda>_. bindS (release_head env t) (\<lambda>head. bindS (unless (head = t) b) (\<lambda>_. ret c)))
     else
       bindS (peek (\<lambda>s. rw_entry s (temp_name env t))) (\<lambda>busy.
       bindS (unless (busy = None) d) (\<lambda>_.
       bindS (handling_any (fill_release env (temp_name env t) t) (\<lambda>e. remove_temp (temp_name env t) (raise_err e))) (\<lambda>_.
       bindS (glance (le_now env)) (\<lambda>now. bindS (release_head env t) (\<lambda>head. bindS (atomic_json env path (doc now head)) (\<lambda>_. ret f)))))))))"
    if sha: "is_sha t" for t a b c d path doc f
  proof -
    have "keeps (remove_temp (temp_name env t) (raise_err e))" for e
      by (simp add: keeps_def remove_temp_def raise_err_def related_refl related_drop [OF sha])
    then show ?thesis by (intro keeps_plain keeps_json keeps_head keeps_fill sha)
  qed
  show ?thesis
    unfolding prepare_def Let_def
  proof (intro keeps_bindS [OF keeps_observing(4)] keeps_bindS_Inr [OF keeps_target], goal_cases)
    case (1 _ found s s')
    obtain t source where found: "found = (t, source)" by (cases found)
    then have "is_sha t" using 1 require_target_sha by blast
    then show ?case unfolding found prod.case by (rule body)
  qed
qed

end

text \<open>A relation kept by switching over and back.\<close>

locale release_switch = release_records related env for related env +
  assumes related_link: "is_sha name \<Longrightarrow> rw_entry s name \<noteq> None \<Longrightarrow> rw_entry s name \<noteq> Some LinkEntry \<Longrightarrow> related s (set_link l (PointsTo name) s)"
    and related_unlink: "related s (set_link l Absent s)"
    and related_dropins: "related s (s\<lparr>rw_dropins := d\<rparr>)"
    and related_installed: "related s (s\<lparr>rw_installed := i\<rparr>)"
begin

lemma keeps_replace: "(case target of None \<Rightarrow> True | Some t \<Rightarrow> is_sha t) \<Longrightarrow> keeps (replace_link env l target)"
proof (cases target)
  case None
  then show ?thesis unfolding replace_link_def by (simp) (intro keeps_plain keeps_json keeps_file_step related_unlink)
next
  case (Some name)
  assume "case target of None \<Rightarrow> True | Some t \<Rightarrow> is_sha t"
  then have sha: "is_sha name" using Some by simp
  have "related s (snd ((if entry = None then raise_err e else if entry = Some LinkEntry then refuse_release m else file_step env (set_link l (PointsTo name))) s))"
    if "entry = rw_entry s name" for s entry e m
  proof -
    have "rw_entry s name \<noteq> None \<Longrightarrow> rw_entry s name \<noteq> Some LinkEntry \<Longrightarrow> related s (snd (file_step env (set_link l (PointsTo name)) s))"
      using related_trans [OF related_reads related_link [OF sha, of "s\<lparr>rw_reads := Suc (rw_reads s)\<rparr>" l]] related_reads
      by (simp add: file_step_def Let_def rw_entry_def split: option.split)
    then show ?thesis using that by (simp add: raise_err_def refuse_release_def related_refl)
  qed
  then have pointed: "keeps (bindS (peek (\<lambda>s. rw_entry s name)) (\<lambda>entry. if entry = None then raise_err e
      else if entry = Some LinkEntry then refuse_release m else file_step env (set_link l (PointsTo name))))" for e m
    by (simp add: keeps_def bindS_def peek_def)
  show ?thesis unfolding replace_link_def Some option.case by (rule keeps_bindS [OF keeps_json(3) pointed])
qed

lemma keeps_dropins:
  "keeps (restore_file env d digest tx)" "keeps (install_dropin env release path d)" "keeps (refresh_controller env release)"
  unfolding restore_file_def install_dropin_def refresh_controller_def set_dropin_def
  by (intro keeps_plain keeps_file_step related_dropins related_installed)+

lemma keeps_switch: "proper p \<Longrightarrow> keeps (switch_over env p)"
  unfolding switch_over_def Let_def proper_def
  by (cases "pm_current p"; simp)
    (intro keeps_plain keeps_dropins keeps_replace keeps_services keeps_postflight keeps_json; simp)+

lemma keeps_roll_back: "proper p \<Longrightarrow> keeps (roll_back env p)"
  unfolding roll_back_def put_back_def proper_def
  by (intro keeps_plain keeps_dropins keeps_replace keeps_services keeps_postflight) (auto split: option.splits)

lemma keeps_after: "proper p \<Longrightarrow> keeps (after_failure env p e)"
  unfolding after_failure_def Let_def by (intro keeps_plain keeps_roll_back keeps_json)

end

text \<open>A relation that whole invocations keep.\<close>

locale release_writes = release_quiet related env + release_switch related env for related env
begin

lemma keeps_promote: "keeps (promote env target reason)"
  unfolding promote_def
proof (intro keeps_bindS [OF keeps_observing(4)] keeps_bindS_Inr [OF keeps_target], goal_cases)
  case (1 _ found s s')
  obtain t source where found: "found = (t, source)" by (cases found)
  then have sha: "is_sha t" using 1 require_target_sha by blast
  show ?case unfolding found prod.case
  proof (intro keeps_bindS [OF keeps_prepare] keeps_bindS_Inr [OF keeps_link_sha], goal_cases)
    case (1 _ old_current s1 s1' old_previous s2 s2')
    then have old: "case old_current of None \<Rightarrow> True | Some t \<Rightarrow> is_sha t" "case old_previous of None \<Rightarrow> True | Some t \<Rightarrow> is_sha t"
      using link_sha_Inr by (auto split: option.split)
    have switch: "keeps (bindS (open_promotion env t source reason old_current old_previous) (\<lambda>p. handling_any (switch_over env p) (after_failure env p)))"
    proof (rule keeps_bindS_Inr [OF keeps_open])
      fix p s s'
      assume "open_promotion env t source reason old_current old_previous s = (Inr p, s')"
      then have "proper p" using open_promotion_proper sha old by blast
      then show "keeps (handling_any (switch_over env p) (after_failure env p))" by (intro keeps_plain keeps_switch keeps_after)
    qed
    show ?case by (intro keeps_if keeps_bindS keeps_ret keeps_postflight switch)
  qed
qed

lemma keeps_rollback_last: "keeps (rollback_last env)"
  unfolding rollback_last_def
  by (intro keeps_plain keeps_link_sha) (auto intro!: keeps_plain keeps_promote split: json.split)

lemma keeps_main: "keeps (controller_main env c)"
proof -
  have "keeps (write_status env publish)" for publish unfolding write_status_def by (intro keeps_plain keeps_status keeps_json)
  then have "keeps (release_op_act env c)"
    unfolding release_op_act_def by (cases c) (auto intro!: keeps_plain keeps_status keeps_prepare keeps_promote keeps_rollback_last)
  then show ?thesis unfolding controller_main_def by (intro keeps_plain)
qed

end

section \<open>Fixed commands\<close>

definition running :: "release_env \<Rightarrow> release_world \<Rightarrow> release_world \<Rightarrow> bool" where
  "running env s s' \<longleftrightarrow> (\<exists>cs. rw_commands s' = rw_commands s @ cs \<and> list_all (allowed_command env) cs)"

lemma running_same: "rw_commands s' = rw_commands s \<Longrightarrow> running env s s'"
  by (simp add: running_def)

lemma running_one: "allowed_command env argv \<Longrightarrow> rw_commands s' = rw_commands s @ [argv] \<Longrightarrow> running env s s'"
  by (simp add: running_def)

lemma running_trans: "running env s t \<Longrightarrow> running env t u \<Longrightarrow> running env s u"
  unfolding running_def by (metis append.assoc list_all_append)

interpretation fixed: release_writes "running env" env for env
proof (unfold_locales, goal_cases)
  case (2 s t u)
  then show ?case by (rule running_trans)
next
  case (4 argv s n)
  then show ?case by (rule running_one) simp
qed (simp_all add: running_same set_entry_def drop_entry_def set_link_def)

text \<open>
  The controller runs only its fixed commands, on the source checkout, the releases and the two managed services, with
  nothing of the request in them but an exact commit, whatever it is asked and however the host answers.
\<close>

theorem commands_are_fixed:
  "case controller_main env c s of
     (outcome, s') \<Rightarrow> \<exists>cs. rw_commands s' = rw_commands s @ cs \<and> list_all (allowed_command env) cs"
  using fixed.keepsD [OF fixed.keeps_main [of env c], of s] by (cases "controller_main env c s") (simp add: running_def)

section \<open>Links lead to releases\<close>

definition leads :: "release_world \<Rightarrow> pointer \<Rightarrow> bool" where
  "leads s p \<longleftrightarrow> (case p of Absent \<Rightarrow> True | PointsTo name \<Rightarrow> is_sha name \<and> rw_entry s name \<noteq> None | _ \<Rightarrow> False)"

definition released :: "release_world \<Rightarrow> bool" where
  "released s \<longleftrightarrow> (\<forall>name e. rw_entry s name = Some e \<longrightarrow> is_tree (Some e)) \<and> (\<forall>l. leads s (rw_links s l))"

lemma temp_is_no_sha: "is_sha name \<Longrightarrow> name \<noteq> temp_name env t"
proof
  assume sha: "is_sha name" and "name = temp_name env t"
  then have "CHR ''.'' \<in> set name" by (simp add: temp_name_def)
  moreover have "\<not> (is_digit CHR ''.'' \<or> char_in (CHR ''a'') (CHR ''f'') CHR ''.'')" by code_simp
  ultimately show False using sha unfolding is_sha_def lower_hex_def list_all_iff by blast
qed

lemma rw_entry_simps [simp]:
  "rw_entry (set_entry n e s) m = (if m = n then Some e else rw_entry s m)"
  "rw_entry (drop_entry n s) m = (if m = n then None else rw_entry s m)"
  "rw_links (set_entry n e s) = rw_links s" "rw_links (drop_entry n s) = rw_links s"
  "rw_entry (set_link l p s) m = rw_entry s m" "rw_links (set_link l p s) = (rw_links s)(l := p)"
  by (simp_all add: rw_entry_def set_entry_def drop_entry_def set_link_def)

lemma rw_entry_update [simp]:
  "rw_entry (s\<lparr>rw_reads := n\<rparr>) = rw_entry s" "rw_entry (s\<lparr>rw_reads := n, rw_commands := cs\<rparr>) = rw_entry s" "rw_entry (s\<lparr>rw_dropins := d\<rparr>) = rw_entry s"
  "rw_entry (s\<lparr>rw_installed := i\<rparr>) = rw_entry s" "rw_entry (s\<lparr>rw_state := f\<rparr>) = rw_entry s" "rw_entry (s\<lparr>rw_written := w\<rparr>) = rw_entry s"
  "rw_entry (s\<lparr>rw_backups := b\<rparr>) = rw_entry s" "rw_entry (s\<lparr>rw_transactions := x\<rparr>) = rw_entry s"
  by (simp_all add: rw_entry_def fun_eq_iff)

lemma leads_mono: "leads s p \<Longrightarrow> (\<And>name. is_sha name \<Longrightarrow> rw_entry s name \<noteq> None \<Longrightarrow> rw_entry s' name \<noteq> None) \<Longrightarrow> leads s' p"
  by (cases p) (simp_all add: leads_def)

lemma released_step:
  assumes "\<And>name e. rw_entry s' name = Some e \<Longrightarrow> rw_entry s name = Some e \<or> is_tree (Some e) \<or> (\<exists>name. rw_entry s name = Some e)"
    and "\<And>name. is_sha name \<Longrightarrow> rw_entry s name \<noteq> None \<Longrightarrow> rw_entry s' name \<noteq> None"
    and "\<And>l. rw_links s' l = rw_links s l \<or> leads s' (rw_links s' l)"
  shows "released s \<longrightarrow> released s'"
  using assms leads_mono [of s _ s'] unfolding released_def by metis

lemma released_same: "rw_entry s' = rw_entry s \<Longrightarrow> rw_links s' = rw_links s \<Longrightarrow> released s \<longrightarrow> released s'"
  by (rule released_step) simp_all

lemma released_temp: "released s \<longrightarrow> released (set_entry (temp_name env t) (Tree files) s)"
  by (rule released_step) (auto simp: is_tree_def split: if_splits)

lemma released_drop: "released s \<longrightarrow> released (drop_entry (temp_name env t) s)"
  by (rule released_step) (auto dest: temp_is_no_sha split: if_splits)

lemma released_rename: "rw_entry s (temp_name env t) = Some e \<Longrightarrow> released s \<longrightarrow> released (set_entry t e (drop_entry (temp_name env t) s))"
  by (rule released_step) (auto dest: temp_is_no_sha split: if_splits)

lemma released_link: "is_sha name \<Longrightarrow> rw_entry s name \<noteq> None \<Longrightarrow> released s \<longrightarrow> released (set_link l (PointsTo name) s)"
  by (rule released_step) (auto simp: leads_def split: if_splits)

lemma released_unlink: "released s \<longrightarrow> released (set_link l Absent s)"
  by (rule released_step) (auto simp: leads_def split: if_splits)

interpretation leading: release_writes "\<lambda>s s'. released s \<longrightarrow> released s'" env for env
proof (unfold_locales, goal_cases)
  case (11 t s e)
  then show ?case by (intro released_rename)
next
  case (12 name s l)
  then show ?case by (intro released_link)
qed (blast | simp add: released_same released_temp released_drop released_unlink)+

definition fresh_release :: release_world where
  "fresh_release = \<lparr>rw_reads = 0, rw_commands = [], rw_entries = [], rw_links = (\<lambda>_. Absent), rw_dropins = (\<lambda>_. Missing), rw_installed = None,
     rw_state = NoStateFile, rw_written = [], rw_backups = [], rw_transactions = []\<rparr>"

text \<open>
  After any invocations of the controller, wherever they fail, each of the two links is absent or leads to a prepared
  release that is there under the commit it names, and nothing but checkouts is below the release directory.
\<close>

theorem links_lead_to_releases: "released (release_run fresh_release invocations)"
proof -
  have "released s \<Longrightarrow> released (release_run s invocations)" for s
  proof (induction invocations arbitrary: s)
    case (Cons i rest)
    obtain env c where i: "i = (env, c)" by (cases i)
    have "released (snd (controller_main env c s))" using leading.keepsD [OF leading.keeps_main [of env c], of s] Cons.prems by blast
    then show ?case using Cons.IH by (simp add: release_run_def i)
  qed (simp add: release_run_def)
  moreover have "released fresh_release" by (simp add: released_def leads_def fresh_release_def rw_entry_def)
  ultimately show ?thesis by blast
qed

section \<open>Promotions happen entirely or not at all\<close>

definition still :: "release_world \<Rightarrow> release_world \<Rightarrow> bool" where
  "still s s' \<longleftrightarrow> rw_links s' = rw_links s \<and> rw_dropins s' = rw_dropins s"

interpretation still: release_quiet still env for env
  by unfold_locales (auto simp: still_def set_entry_def drop_entry_def)

definition storing :: "release_world \<Rightarrow> release_world \<Rightarrow> bool" where
  "storing s s' \<longleftrightarrow> rw_entries s' = rw_entries s \<and> rw_backups s' = rw_backups s"

interpretation storing: release_switch storing env for env
  by unfold_locales (auto simp: storing_def set_link_def)

interpretation entries: release_backups "\<lambda>s s'. rw_entries s' = rw_entries s" env for env
  by unfold_locales auto

lemma step_Inr:
  "glance f s = (Inr v, s') \<longleftrightarrow> v = f (rw_reads s) \<and> s' = s\<lparr>rw_reads := Suc (rw_reads s)\<rparr>"
  "peek g s = (Inr w, s') \<longleftrightarrow> w = g s \<and> s' = s"
  "unless ok m s = (Inr u, s') \<longleftrightarrow> ok \<and> s' = s"
  "(refuse_release m :: 'a release_act) s = (Inr x, s') \<longleftrightarrow> False"
  "file_step env h s = (Inr u, s') \<longleftrightarrow> le_io env (rw_reads s) = None \<and> s' = h (s\<lparr>rw_reads := Suc (rw_reads s)\<rparr>)"
  by (auto simp: glance_def peek_def unless_def refuse_release_def file_step_def Let_def ret_def raise_err_def split: option.split if_splits)

lemmas release_Inr = bindS_Inr_iff basic_Inr_iff step_Inr

definition to_pointer :: "string option \<Rightarrow> pointer" where
  "to_pointer v = (case v of None \<Rightarrow> Absent | Some t \<Rightarrow> PointsTo t)"

definition pm_digest :: "promotion \<Rightarrow> dropin \<Rightarrow> string option" where
  "pm_digest p d = (case d of OperationsDropin \<Rightarrow> pm_operations p | OperatorDropin \<Rightarrow> pm_operator p)"

text \<open>What a promotion knows suffices to restore these links and drop-ins.\<close>

definition linked_entry :: "release_world \<Rightarrow> string option \<Rightarrow> bool" where
  "linked_entry s v \<longleftrightarrow> (case v of None \<Rightarrow> True | Some t \<Rightarrow> rw_entry s t \<noteq> None \<and> rw_entry s t \<noteq> Some LinkEntry)"

definition copied :: "release_env \<Rightarrow> release_world \<Rightarrow> string \<Rightarrow> dropin \<Rightarrow> managed_file \<Rightarrow> string option \<Rightarrow> bool" where
  "copied env s tx d f digest \<longleftrightarrow>
     (case digest of
        None \<Rightarrow> f = Missing
      | Some h \<Rightarrow> \<exists>t. f = Regular t \<and> dget (rw_backups s) (tx, backup_name d) = Some t \<and> h = le_sha256 env t)"

definition restorable :: "release_env \<Rightarrow> promotion \<Rightarrow> release_world \<Rightarrow> release_world \<Rightarrow> bool" where
  "restorable env p s0 s \<longleftrightarrow>
     rw_links s0 CurrentLink = to_pointer (pm_current p) \<and> rw_links s0 PreviousLink = to_pointer (pm_previous p) \<and>
     linked_entry s (pm_current p) \<and> linked_entry s (pm_previous p) \<and>
     (\<forall>d. copied env s (pm_dir p) d (rw_dropins s0 d) (pm_digest p d))"

lemma storing_entries: "storing s s' \<Longrightarrow> rw_entries s' = rw_entries s"
  by (simp add: storing_def)

lemma copied_storing: "storing s s' \<Longrightarrow> copied env s' tx d f digest = copied env s tx d f digest"
  by (cases digest) (simp_all add: copied_def storing_def)

lemma linked_entry_same: "rw_entries s' = rw_entries s \<Longrightarrow> linked_entry s' v = linked_entry s v"
  by (cases v) (simp_all add: linked_entry_def rw_entry_def)

lemma restorable_storing: "restorable env p s0 s \<Longrightarrow> storing s s' \<Longrightarrow> restorable env p s0 s'"
  by (simp add: restorable_def copied_storing linked_entry_same [of s' s] storing_entries)

lemma replace_link_Inr:
  "replace_link env l target s = (Inr (), s') \<Longrightarrow>
     rw_links s' = (rw_links s)(l := to_pointer target) \<and> rw_dropins s' = rw_dropins s \<and> storing s s'"
  by (auto simp: replace_link_def release_Inr to_pointer_def set_link_def storing_def split: option.splits if_splits)

lemma restore_file_Inr:
  assumes "copied env s tx d f digest" "restore_file env d digest tx s = (Inr (), s')"
  shows "rw_links s' = rw_links s \<and> rw_dropins s' = (rw_dropins s)(d := f) \<and> storing s s'"
  using assms by (auto simp: restore_file_def copied_def release_Inr set_dropin_def storing_def split: option.splits if_splits)

lemma each_dropin: "(\<forall>d. P d) \<longleftrightarrow> P OperationsDropin \<and> P OperatorDropin"
  by (metis dropin.exhaust)

lemma each_link: "(\<forall>l. P l) \<longleftrightarrow> P CurrentLink \<and> P PreviousLink"
  by (metis runtime_link.exhaust)

lemma put_back_Inr:
  assumes "restorable env p s0 s" "put_back env p s = (Inr (), s')"
  shows "rw_links s' = rw_links s0 \<and> rw_dropins s' = rw_dropins s0"
proof -
  obtain s1 s2 s3 where steps: "replace_link env CurrentLink (pm_current p) s = (Inr (), s1)" "replace_link env PreviousLink (pm_previous p) s1 = (Inr (), s2)"
    "restore_file env OperationsDropin (pm_operations p) (pm_dir p) s2 = (Inr (), s3)" "restore_file env OperatorDropin (pm_operator p) (pm_dir p) s3 = (Inr (), s')"
    using assms(2) unfolding put_back_def bindS_Inr_iff by auto
  note a = replace_link_Inr [OF steps(1)] and b = replace_link_Inr [OF steps(2)]
  have storing: "storing s s2" using a b unfolding storing_def by simp
  have copies: "copied env s (pm_dir p) OperationsDropin (rw_dropins s0 OperationsDropin) (pm_operations p)"
    "copied env s (pm_dir p) OperatorDropin (rw_dropins s0 OperatorDropin) (pm_operator p)"
    using assms(1) by (auto simp: restorable_def each_dropin pm_digest_def)
  note c = restore_file_Inr [OF copies(1) [folded copied_storing [OF storing]] steps(3)]
  then have "storing s s3" using storing unfolding storing_def by simp
  note d = restore_file_Inr [OF copies(2) [folded copied_storing [OF this]] steps(4)]
  have "\<forall>l. rw_links s' l = rw_links s0 l" "\<forall>d. rw_dropins s' d = rw_dropins s0 d"
    using a b c d assms(1) by (auto simp: each_link each_dropin restorable_def)
  then show ?thesis by auto
qed

text \<open>Without failing file operations the four steps succeed.\<close>

lemma put_back_reliable:
  assumes "restorable env p s0 s" "\<forall>k. le_io env k = None"
  shows "\<exists>s'. put_back env p s = (Inr (), s')"
proof -
  have replace: "\<exists>s'. replace_link env l v s = (Inr (), s') \<and> storing s s'" if "linked_entry s v" for l v s
    using that assms(2)
    by (cases v) (auto simp: replace_link_def linked_entry_def bindS_def peek_def file_step_def Let_def set_link_def storing_def)
  have restore: "\<exists>s'. restore_file env d digest tx s = (Inr (), s') \<and> storing s s'" if "copied env s tx d f digest" for d digest tx s f
    using that assms(2)
    by (cases digest) (auto simp: restore_file_def copied_def bindS_def peek_def file_step_def Let_def set_dropin_def storing_def)
  obtain s1 where s1: "replace_link env CurrentLink (pm_current p) s = (Inr (), s1)" "storing s s1"
    using replace [of s "pm_current p" CurrentLink] assms(1) by (auto simp: restorable_def)
  note r1 = restorable_storing [OF assms(1) s1(2)]
  obtain s2 where s2: "replace_link env PreviousLink (pm_previous p) s1 = (Inr (), s2)" "storing s1 s2"
    using replace [of s1 "pm_previous p" PreviousLink] r1 by (auto simp: restorable_def)
  note r2 = restorable_storing [OF r1 s2(2)]
  obtain s3 where s3: "restore_file env OperationsDropin (pm_operations p) (pm_dir p) s2 = (Inr (), s3)" "storing s2 s3"
    using restore [of s2 "pm_dir p" OperationsDropin "rw_dropins s0 OperationsDropin" "pm_operations p"] r2
    by (auto simp: restorable_def each_dropin pm_digest_def)
  note r3 = restorable_storing [OF r2 s3(2)]
  obtain s4 where s4: "restore_file env OperatorDropin (pm_operator p) (pm_dir p) s3 = (Inr (), s4)"
    using restore [of s3 "pm_dir p" OperatorDropin "rw_dropins s0 OperatorDropin" "pm_operator p"] r3
    by (auto simp: restorable_def each_dropin pm_digest_def)
  then show ?thesis using s1 s2 s3 by (simp add: put_back_def bindS_def)
qed

lemma still_step:
  assumes "still.keeps m" "bindS m f s = (r, s')"
  obtains (failed) e where "r = Inl e" "still s s'" | (went) v s1 where "m s = (Inr v, s1)" "still s s1" "f v s1 = (r, s')"
proof (cases "m s")
  case (Pair x s1)
  then have "still s s1" using still.keepsD [OF assms(1), of s] by simp
  then show thesis using Pair assms(2) that by (cases x) (auto simp: bindS_def)
qed

lemma run_command_Inr:
  "run_command env check argv s = (Inr (status, out), s') \<Longrightarrow> \<exists>err. le_command env (rw_reads s) argv = Ran status out err"
  by (auto simp: run_command_def run_any_def release_Inr Let_def split: command_result.splits if_splits)

text \<open>The commit was found below the local \<open>origin/main\<close>.\<close>

definition reachable :: "release_env \<Rightarrow> string \<Rightarrow> bool" where
  "reachable env t \<longleftrightarrow> (\<exists>k out err. le_command env k [''git'', ''-c'', ''safe.directory='' @ le_source env, ''-C'', le_source env,
     ''merge-base'', ''--is-ancestor'', t, ''refs/remotes/origin/main''] = Ran 0 out err)"

lemma require_target_reachable:
  assumes "require_target env target s = (Inr (t, source), s')"
  shows "is_sha t" "t = lower (strip target)" "reachable env t"
proof -
  show "is_sha t" "t = lower (strip target)" using require_target_sha [OF assms] by blast+
  obtain out s1 s2 where "git env False (le_source env) [''merge-base'', ''--is-ancestor'', t, ''refs/remotes/origin/main''] s1 = (Inr (0, out), s2)"
    using assms by (auto simp: require_target_def release_Inr split_def)
  then show "reachable env t" unfolding git_def reachable_def using run_command_Inr by fastforce
qed

text \<open>Every service was seen active, the API healthy, and each port listening on the loopback only.\<close>

definition healthy :: "release_env \<Rightarrow> bool" where
  "healthy env \<longleftrightarrow>
     list_all (\<lambda>n. \<exists>k out err. le_command env k [''systemctl'', ''is-active'', ''--quiet'', n] = Ran 0 out err) managed_services \<and>
     (\<exists>k t d. le_health env k = Payload t \<and> json_loads t = Some (JObj d) \<and> health_ok d) \<and>
     list_all (\<lambda>port. \<exists>k out err. le_command env k [''ss'', ''-H'', ''-ltn''] = Ran 0 out err \<and>
       (let hosts = List.map_filter (listener_host port) (split_lines out) in hosts \<noteq> [] \<and> list_all loopback hosts)) managed_ports"

lemma each_active_Inr:
  "each_active env ns s = (Inr bs, s') \<Longrightarrow> list_all snd bs \<Longrightarrow>
     list_all (\<lambda>n. \<exists>k out err. le_command env k [''systemctl'', ''is-active'', ''--quiet'', n] = Ran 0 out err) ns"
proof (induction ns arbitrary: s bs)
  case (Cons n ns)
  then show ?case using run_command_Inr by (fastforce simp: release_Inr unit_active_def split_def)
qed simp

lemma listener_hosts_Inr:
  assumes "listener_hosts env port s = (Inr hosts, s')" "hosts \<noteq> []"
  obtains k out err where "le_command env k [''ss'', ''-H'', ''-ltn''] = Ran 0 out err" "hosts = List.map_filter (listener_host port) (split_lines out)"
  using assms run_command_Inr [of env False "[''ss'', ''-H'', ''-ltn'']" s] that
  by (auto simp: listener_hosts_def release_Inr split_def split: if_splits)

lemma checked_listeners_Inr:
  "checked_listeners env ports s = (Inr ls, s') \<Longrightarrow>
     list_all (\<lambda>port. \<exists>k out err. le_command env k [''ss'', ''-H'', ''-ltn''] = Ran 0 out err \<and>
       (let hosts = List.map_filter (listener_host port) (split_lines out) in hosts \<noteq> [] \<and> list_all loopback hosts)) ports"
proof (induction ports arbitrary: s ls)
  case (Cons port ports)
  then obtain hosts s1 s2 ls' where found: "listener_hosts env port s = (Inr hosts, s1)" "hosts \<noteq> []" "list_all loopback hosts"
    and more: "checked_listeners env ports s2 = (Inr ls', s')" by (auto simp: release_Inr)
  have "\<exists>k out err. le_command env k [''ss'', ''-H'', ''-ltn''] = Ran 0 out err \<and>
       (let hosts = List.map_filter (listener_host port) (split_lines out) in hosts \<noteq> [] \<and> list_all loopback hosts)"
    by (rule listener_hosts_Inr [OF found(1,2)]) (use found in \<open>unfold Let_def, blast\<close>)
  then show ?case using Cons.IH [OF more] by simp
qed simp

lemma read_health_Inr: "read_health env s = (Inr d, s') \<Longrightarrow> \<exists>k t. le_health env k = Payload t \<and> json_loads t = Some (JObj d)"
  by (auto simp: read_health_def release_Inr split: health_response.splits option.splits json.splits)

lemma postflight_Inr: "postflight env t s = (Inr d, s') \<Longrightarrow> healthy env"
proof -
  have once: "healthy env" if run: "postflight_once env t s = (Inr d, s')" for s d s'
  proof -
    note steps = run [unfolded postflight_once_def release_Inr]
    have "\<exists>s1 bs s2. each_active env managed_services s1 = (Inr bs, s2) \<and> list_all snd bs"
      "\<exists>s1 d s2. read_health env s1 = (Inr d, s2) \<and> health_ok d" "\<exists>s1 ls s2. checked_listeners env managed_ports s1 = (Inr ls, s2)"
      using steps unfolding health_ok_def by blast+
    then obtain bs s1 s2 health s3 s4 ls s5 s6 where steps: "each_active env managed_services s1 = (Inr bs, s2)" "list_all snd bs"
      "read_health env s3 = (Inr health, s4)" "health_ok health" "checked_listeners env managed_ports s5 = (Inr ls, s6)" by blast
    note services = each_active_Inr [OF steps(1,2)] and listeners = checked_listeners_Inr [OF steps(5)]
    obtain k t where "le_health env k = Payload t" "json_loads t = Some (JObj health)" using read_health_Inr [OF steps(3)] by blast
    then show ?thesis unfolding healthy_def using services listeners steps(4) by (intro conjI exI) assumption+
  qed
  have "wait_postflight env t n m s = (Inr d, s') \<Longrightarrow> healthy env" for n m s
    by (induction n arbitrary: m s) (auto simp: step_Inr handling_release_def once split: prod.splits sum.splits release_exn.splits)
  then show "postflight env t s = (Inr d, s') \<Longrightarrow> healthy env" unfolding postflight_def by blast
qed

lemma link_sha_entry:
  assumes "link_sha env l s = (Inr v, s')"
  shows "rw_links s l = to_pointer v \<and> linked_entry s v \<and> rw_entries s' = rw_entries s"
proof -
  have "rw_entries s' = rw_entries s" using entries.keepsD [OF entries.keeps_link_sha [of env l], of s] assms by simp
  moreover have "rw_links s l = to_pointer v \<and> linked_entry s v"
    using assms by (auto simp: link_sha_def release_Inr to_pointer_def linked_entry_def split: pointer.splits)
  ultimately show ?thesis by blast
qed

lemma backup_file_Inr:
  assumes "backup_file env d tx s = (Inr digest, s')"
  shows "copied env s' tx d (rw_dropins s d) digest \<and> rw_dropins s' = rw_dropins s \<and> (\<forall>k. k \<noteq> (tx, backup_name d) \<longrightarrow> dget (rw_backups s') k = dget (rw_backups s) k)"
  using assms by (auto simp: backup_file_def release_Inr copied_def split: managed_file.splits)

lemma open_promotion_Inr:
  assumes "open_promotion env t source reason old_current old_previous s = (Inr p, s')"
  shows "pm_target p = t" "pm_current p = old_current" "pm_previous p = old_previous" "dget (pm_manifest p) ''previous'' = None"
    "\<forall>d. copied env s' (pm_dir p) d (rw_dropins s d) (pm_digest p d)"
proof -
  obtain tx s1 operations s2 operator s3 now where tx: "transaction_dir env t reason s = (Inr tx, s1)"
    and backups: "backup_file env OperationsDropin tx s1 = (Inr operations, s2)" "backup_file env OperatorDropin tx s2 = (Inr operator, s3)"
    and rest: "s' = (s3\<lparr>rw_reads := Suc (Suc (rw_reads s3)), rw_written := rw_written s'\<rparr>)"
    and p: "p = \<lparr>pm_target = t, pm_current = old_current, pm_previous = old_previous, pm_operations = operations, pm_operator = operator,
       pm_dir = tx, pm_manifest = [(''schema'', JStr release_schema), (''transaction'', JStr reason), (''started_at'', JStr now), (''target'', JStr t),
       (''source_head'', opt_str (sn_head source)), (''old_current'', opt_str old_current), (''old_previous'', opt_str old_previous),
       (''backups'', JObj [(''operations_dropin'', backup_doc OperationsDropin operations), (''operator_dropin'', backup_doc OperatorDropin operator)])]\<rparr>"
    using assms by (auto simp: open_promotion_def release_Inr Let_def atomic_json_def)
  show "pm_target p = t" "pm_current p = old_current" "pm_previous p = old_previous" "dget (pm_manifest p) ''previous'' = None" by (simp_all add: p)
  have dropins: "rw_dropins s1 = rw_dropins s"
    using tx by (auto simp: transaction_dir_def release_Inr Let_def split: if_splits)
  note first = backup_file_Inr [OF backups(1)] and second = backup_file_Inr [OF backups(2)]
  have same: "rw_backups s' = rw_backups s3" by (subst rest) simp
  have "copied env s3 tx OperationsDropin (rw_dropins s OperationsDropin) operations"
    using first second dropins by (cases operations) (auto simp: copied_def backup_name_def)
  moreover have "copied env s3 tx OperatorDropin (rw_dropins s OperatorDropin) operator" using first second dropins by simp
  ultimately show "\<forall>d. copied env s' (pm_dir p) d (rw_dropins s d) (pm_digest p d)"
    by (cases operations; cases operator) (simp_all add: each_dropin p pm_digest_def copied_def same)
qed

lemma promote_cases:
  assumes run: "promote env target reason s = (r, s')"
  obtains (refused) e where "r = Inl e" "still s s'"
  | (current) t s1 f where "is_sha t" "t = lower (strip target)" "reachable env t" "still s s1" "rw_links s CurrentLink = PointsTo t"
      "bindS (postflight env t) (\<lambda>x. ret (f x)) s1 = (r, s')"
  | (opened) p s1 where "is_sha (pm_target p)" "pm_target p = lower (strip target)" "reachable env (pm_target p)" "proper p"
      "pm_current p \<noteq> Some (pm_target p)" "still s s1" "restorable env p s s1" "dget (pm_manifest p) ''previous'' = None"
      "handling_any (switch_over env p) (after_failure env p) s1 = (r, s')"
proof -
  show thesis
  proof (rule still_step [OF still.keeps_observing(4) run [unfolded promote_def]], goal_cases)
    case (1 e)
    then show thesis by (rule refused)
  next
    case (2 _ s1)
    note still1 = this(2)
    show thesis
    proof (rule still_step [OF still.keeps_target 2(3)], goal_cases)
      case (1 e)
      then show thesis using still1 still.related_trans refused by blast
    next
      case (2 found s2)
      obtain t source where found: "found = (t, source)" by (cases found)
      note target = require_target_reachable [OF 2(1) [unfolded found]]
      have still2: "still s s2" using still1 2(2) still.related_trans by blast
      show thesis
      proof (rule still_step [OF still.keeps_prepare 2(3) [unfolded found prod.case]], goal_cases)
        case (1 e)
        then show thesis using still2 still.related_trans refused by blast
      next
        case (2 _ s3)
        have still3: "still s s3" using still2 2(2) still.related_trans by blast
        show thesis
        proof (rule still_step [OF still.keeps_link_sha 2(3)], goal_cases)
          case (1 e)
          then show thesis using still3 still.related_trans refused by blast
        next
          case (2 old_current s4)
          note link = link_sha_entry [OF 2(1)] and sha = 2(1)
          have still4: "still s s4" using still3 2(2) still.related_trans by blast
          show thesis
          proof (rule still_step [OF still.keeps_link_sha 2(3)], goal_cases)
            case (1 e)
            then show thesis using still4 still.related_trans refused by blast
          next
            case (2 old_previous s5)
            note link' = link_sha_entry [OF 2(1)] and sha' = 2(1)
            have still5: "still s s5" using still4 2(2) still.related_trans by blast
            show thesis
            proof (cases "old_current = Some t")
              case True
              then have "rw_links s CurrentLink = PointsTo t" using link still3 by (simp add: still_def to_pointer_def)
              then show thesis using current target still5 2(3) True by simp
            next
              case False
              then have started: "bindS (open_promotion env t source reason old_current old_previous) (\<lambda>p. handling_any (switch_over env p) (after_failure env p)) s5 = (r, s')"
                using 2(3) by simp
              show thesis
              proof (rule still_step [OF still.keeps_open started], goal_cases)
                case (1 e)
                then show thesis using still5 still.related_trans refused by blast
              next
                case (2 p s6)
                note p = open_promotion_Inr [OF 2(1)]
                have still6: "still s s6" using still5 2(2) still.related_trans by blast
                have "case old_current of None \<Rightarrow> True | Some t \<Rightarrow> is_sha t" "case old_previous of None \<Rightarrow> True | Some t \<Rightarrow> is_sha t"
                  using sha sha' link_sha_Inr by (auto split: option.split)
                then have proper: "proper p" using open_promotion_proper [OF 2(1) target(1)] by blast
                have "rw_entries s6 = rw_entries s5" using entries.keepsD [OF entries.keeps_open, of env t source reason old_current old_previous s5] 2(1) by simp
                then have "linked_entry s6 old_current" "linked_entry s6 old_previous"
                  using link link' linked_entry_same by metis+
                moreover have "rw_dropins s5 = rw_dropins s" "rw_links s CurrentLink = to_pointer old_current" "rw_links s PreviousLink = to_pointer old_previous"
                  using still5 still3 still4 link link' by (simp_all add: still_def)
                ultimately have "restorable env p s s6" using p by (simp add: restorable_def)
                then show thesis using opened [of p s6] target p proper still6 False 2(3) by simp
              qed
            qed
          qed
        qed
      qed
    qed
  qed
qed

lemma still_postflight:
  assumes "still s s1" "bindS (postflight env t) (\<lambda>x. ret (f x)) s1 = (r, s')"
  shows "still s s'"
proof -
  have "still.keeps (bindS (postflight env t) (\<lambda>x. ret (f x)))" by (intro still.keeps_plain still.keeps_postflight)
  from still.keepsD [OF this, of s1] have "still s1 s'" by (simp add: assms(2))
  then show ?thesis by (rule still.related_trans [OF assms(1)])
qed

lemma switch_over_Inr:
  assumes "switch_over env p s = (Inr d, s')" "dget (pm_manifest p) ''previous'' = None"
  shows "rw_links s' CurrentLink = PointsTo (pm_target p)" "healthy env" "rw_state s' = StateText (Some (JObj d))"
    "rw_links s' PreviousLink = (case pm_current p of None \<Rightarrow> rw_links s PreviousLink | Some c \<Rightarrow> PointsTo c)"
    "jget d ''previous'' = opt_str (pm_current p)"
proof -
  obtain h1 s1 h2 s2 s3 s4 s5 result s6 install s7 now s8 s9 where steps:
    "install_dropin env (pm_target p) operations_file OperationsDropin s = (Inr h1, s1)" "install_dropin env (pm_target p) operator_file OperatorDropin s1 = (Inr h2, s2)"
    "(case pm_current p of None \<Rightarrow> ret () | Some c \<Rightarrow> replace_link env PreviousLink (Some c)) s2 = (Inr (), s3)"
    "replace_link env CurrentLink (Some (pm_target p)) s3 = (Inr (), s4)" "restart_services env s4 = (Inr (), s5)" "postflight env (pm_target p) s5 = (Inr result, s6)"
    "refresh_controller env (pm_target p) s6 = (Inr install, s7)" "glance (le_now env) s7 = (Inr now, s8)"
    and last: "d = pm_manifest p @ [(''completed_at'', JStr now), (''status'', JStr ''succeeded''), (''current'', JStr (pm_target p)),
       (''previous'', opt_str (pm_current p)), (''dropin_hashes'', JObj [(''edge1-operations-api'', JStr h1), (''edge1-operator-mcp'', JStr h2)]),
       (''controller_install'', JObj install), (''postflight'', JObj result), (''backup_dir'', JStr (pm_dir p))]"
      "atomic_json env (pm_dir p @ ''/result.json'') d s8 = (Inr (), s9)" "write_state env d s9 = (Inr (), s')"
    using assms(1) unfolding switch_over_def Let_def bindS_Inr_iff basic_Inr_iff by auto
  have install: "rw_links t' = rw_links t" if "install_dropin env r path dr t = (Inr h, t')" for r path dr t h t'
    using that by (auto simp: install_dropin_def release_Inr set_dropin_def split: option.splits)
  have links: "rw_links s2 = rw_links s" using install [OF steps(1)] install [OF steps(2)] by simp
  have "still s4 s5" using still.keepsD [OF still.keeps_services(1), of s4 env] steps(5) by simp
  moreover have "still s5 s6" using still.keepsD [OF still.keeps_postflight, of s5 env "pm_target p"] steps(6) by simp
  moreover have "rw_links s7 = rw_links s6" using steps(7) by (auto simp: refresh_controller_def release_Inr split: option.splits)
  moreover have "rw_links s' = rw_links s7" using steps(8) last by (auto simp: release_Inr atomic_json_def write_state_def)
  ultimately have final: "rw_links s' = rw_links s4" by (simp add: still_def)
  note current = replace_link_Inr [OF steps(4)]
  show "rw_links s' CurrentLink = PointsTo (pm_target p)" using current by (simp add: final to_pointer_def)
  show "healthy env" by (rule postflight_Inr [OF steps(6)])
  show "rw_state s' = StateText (Some (JObj d))" using last(3) by (auto simp: write_state_def step_Inr)
  show "rw_links s' PreviousLink = (case pm_current p of None \<Rightarrow> rw_links s PreviousLink | Some c \<Rightarrow> PointsTo c)"
    using steps(3) current links replace_link_Inr [of env PreviousLink "pm_current p" s2 s3]
    by (auto simp: final basic_Inr_iff to_pointer_def split: option.splits)
  show "jget d ''previous'' = opt_str (pm_current p)" using assms(2) by (simp add: last(1) jget_def map_add_def)
qed

lemma after_failure_raises: "after_failure env p e s = (Inr d, s') \<Longrightarrow> False"
  by (auto simp: after_failure_def release_Inr Let_def)

lemma roll_back_restores:
  assumes "restorable env p s0 s" "put_back env p s = (Inr (), t)"
  shows "still s0 (snd (roll_back env p s))"
proof -
  have "still.keeps (bindS (restart_services env) (\<lambda>_. case pm_current p of None \<Rightarrow> ret () | Some c \<Rightarrow> bindS (postflight env c) (\<lambda>_. ret ())))"
    by (intro still.keeps_plain still.keeps_services still.keeps_postflight)
  from still.keepsD [OF this, of t] have "still t (snd (roll_back env p s))"
    unfolding roll_back_def bindS_Inr [where m = "put_back env p" and s = s, OF assms(2)] .
  then show ?thesis using put_back_Inr [OF assms] by (simp add: still_def)
qed

lemma attempt_result:
  "handling_any (bindS m (\<lambda>_. ret None)) (\<lambda>e. ret (Some (g e))) s =
     (case m s of (Inl e, s') \<Rightarrow> (Inr (Some (g e)), s') | (Inr v, s') \<Rightarrow> (Inr None, s'))"
  by (cases "m s") (auto simp: handling_any_def bindS_def ret_def split: sum.split)

text \<open>What follows the attempt to roll back leaves links and drop-ins.\<close>

lemma still_after:
  assumes "still s0 (snd (roll_back env p s))"
  shows "still s0 (snd (after_failure env p e s))"
proof -
  have noted: "still.keeps (bindS (glance (le_now env)) (\<lambda>now.
     let failed = f now in
     bindS (atomic_json env path failed) (\<lambda>_. bindS (write_state env failed) (\<lambda>_. refuse_release m))))" for f path m
    unfolding Let_def by (intro still.keeps_plain still.keeps_json)
  have "still s0 (snd (handling_any (bindS (roll_back env p) (\<lambda>_. ret None)) (\<lambda>e'. ret (Some (exn_line e'))) s))"
    using assms unfolding attempt_result by (auto split: prod.split sum.split)
  then show ?thesis
    unfolding after_failure_def
    by (cases "handling_any (bindS (roll_back env p) (\<lambda>_. ret None)) (\<lambda>e'. ret (Some (exn_line e'))) s")
      (auto simp: bindS_def [of "handling_any _ _"] split: sum.split intro: still.related_trans still.keepsD [OF noted])
qed

text \<open>
  C17. When file operations do not fail, a promotion happens entirely or not at all: if it raises, whatever commands, services and
  health checks did, the links and drop-ins are those from before; if it returns, the current link leads to the commit asked for.
\<close>

theorem promotions_are_atomic:
  assumes "\<forall>k. le_io env k = None"
  shows "case promote env target reason s of
      (Inl e, s') \<Rightarrow> rw_links s' = rw_links s \<and> rw_dropins s' = rw_dropins s
    | (Inr d, s') \<Rightarrow> rw_links s' CurrentLink = PointsTo (lower (strip target))"
proof (cases "promote env target reason s")
  case (Pair r s')
  show ?thesis
  proof (rule promote_cases [OF Pair])
    show ?thesis if "r = Inl e" "still s s'" for e using that Pair by (simp add: still_def)
  next
    fix t s1 f
    assume c: "t = lower (strip target)" "still s s1" "rw_links s CurrentLink = PointsTo t" "bindS (postflight env t) (\<lambda>x. ret (f x)) s1 = (r, s')"
    have "still s s'" by (rule still_postflight [OF c(2,4)])
    then show ?thesis using Pair c by (cases r) (simp_all add: still_def)
  next
    fix p s1
    assume o: "pm_target p = lower (strip target)" "proper p" "still s s1" "restorable env p s s1" "dget (pm_manifest p) ''previous'' = None"
      "handling_any (switch_over env p) (after_failure env p) s1 = (r, s')"
    show ?thesis
    proof (cases "switch_over env p s1")
      case (Pair x s2)
      show ?thesis
      proof (cases x)
        case (Inr d)
        then have "r = Inr d" "switch_over env p s1 = (Inr d, s')" using o(6) Pair by (auto simp: handling_any_def)
        then show ?thesis using \<open>promote env target reason s = (r, s')\<close> switch_over_Inr(1) o by simp
      next
        case (Inl e)
        then have after: "after_failure env p e s2 = (r, s')" using o(6) Pair by (simp add: handling_any_def)
        have "storing s1 s2" using storing.keepsD [OF storing.keeps_switch [OF o(2)], of s1 env] Pair by simp
        then have r2: "restorable env p s s2" using restorable_storing o(4) by blast
        obtain t where "put_back env p s2 = (Inr (), t)" using put_back_reliable [OF r2 assms] by blast
        then have "still s (snd (after_failure env p e s2))" by (intro still_after roll_back_restores r2)
        moreover obtain e' where "r = Inl e'" using after by (cases r) (auto dest: after_failure_raises)
        ultimately show ?thesis using after \<open>promote env target reason s = (r, s')\<close> by (simp add: still_def)
      qed
    qed
  qed
qed

text \<open>The text of the error when the rollback did not succeed.\<close>

definition rollback_failed :: string where
  "rollback_failed = ''promotion failed; automatic rollback FAILED: ''"

lemma after_failure_tells:
  assumes "after_failure env p e s = (Inl (ReleaseError m), s')"
  shows "starts_with m rollback_failed \<or> (\<exists>t. put_back env p s = (Inr (), t))"
proof -
  obtain v s1 where attempt: "handling_any (bindS (roll_back env p) (\<lambda>_. ret None)) (\<lambda>e'. ret (Some (exn_line e'))) s = (Inr v, s1)"
    unfolding attempt_result by (cases "roll_back env p s"; cases "fst (roll_back env p s)") auto
  show ?thesis
  proof (cases v)
    case None
    then obtain t where "roll_back env p s = (Inr (), t)"
      using attempt unfolding attempt_result by (auto split: prod.splits sum.splits)
    then show ?thesis by (auto simp: roll_back_def bindS_Inr_iff)
  next
    case (Some t)
    then have "starts_with m rollback_failed"
      using assms attempt
      by (auto simp: after_failure_def bindS_def [of "handling_any _ _"] Let_def atomic_json_def write_state_def file_step_def bindS_def glance_def refuse_release_def raise_err_def
        rollback_failed_def starts_with_def split: option.splits)
    then show ?thesis ..
  qed
qed

text \<open>
  When a promotion raises, even with failing file operations, and the error does not say that the rollback failed, the links
  and drop-ins are those from before.
\<close>

theorem failed_promotions_tell:
  "case promote env target reason s of
     (Inl (ReleaseError m), s') \<Rightarrow>
       starts_with m rollback_failed \<or> (rw_links s' = rw_links s \<and> rw_dropins s' = rw_dropins s)
   | _ \<Rightarrow> True"
proof (cases "promote env target reason s")
  case (Pair r s')
  note run = Pair
  show ?thesis
  proof (cases "\<exists>m. r = Inl (ReleaseError m)")
    case True
    then obtain m where r: "r = Inl (ReleaseError m)" by blast
    have "starts_with m rollback_failed \<or> still s s'"
    proof (rule promote_cases [OF run])
      show ?thesis if "still s s'" using that ..
    next
      fix t s1 f
      assume c: "still s s1" "bindS (postflight env t) (\<lambda>x. ret (f x)) s1 = (r, s')"
      then show ?thesis using still_postflight by blast
    next
      fix p s1
      assume o: "proper p" "restorable env p s s1" "handling_any (switch_over env p) (after_failure env p) s1 = (r, s')"
      obtain e s2 where switch: "switch_over env p s1 = (Inl e, s2)" and after: "after_failure env p e s2 = (r, s')"
        using o(3) r by (cases "switch_over env p s1") (auto simp: handling_any_def split: sum.splits)
      have "storing s1 s2" using storing.keepsD [OF storing.keeps_switch [OF o(1)], of s1 env] switch by simp
      then have r2: "restorable env p s s2" using restorable_storing o(2) by blast
      have "still s s'" if "put_back env p s2 = (Inr (), t)" for t
        using still_after [OF roll_back_restores [OF r2 that], of e] after by simp
      then show ?thesis using after_failure_tells [OF after [unfolded r]] by blast
    qed
    then show ?thesis using run r by (simp add: still_def)
  qed (use run in \<open>auto split: sum.split release_exn.split\<close>)
qed

lemma promoted:
  assumes "promote env target reason s = (Inr d, s')"
  shows "is_sha (lower (strip target))" "reachable env (lower (strip target))" "healthy env" "rw_links s' CurrentLink = PointsTo (lower (strip target))"
    "(rw_links s CurrentLink = PointsTo (lower (strip target)) \<and> still s s') \<or>
     (\<exists>old. rw_links s CurrentLink = to_pointer old \<and> jget d ''previous'' = opt_str old \<and> rw_state s' = StateText (Some (JObj d)) \<and>
        (case old of None \<Rightarrow> True | Some c \<Rightarrow> is_sha c \<and> rw_links s' PreviousLink = PointsTo c))"
proof -
  have "is_sha (lower (strip target)) \<and> reachable env (lower (strip target)) \<and> healthy env \<and> rw_links s' CurrentLink = PointsTo (lower (strip target)) \<and>
    ((rw_links s CurrentLink = PointsTo (lower (strip target)) \<and> still s s') \<or>
     (\<exists>old. rw_links s CurrentLink = to_pointer old \<and> jget d ''previous'' = opt_str old \<and> rw_state s' = StateText (Some (JObj d)) \<and>
        (case old of None \<Rightarrow> True | Some c \<Rightarrow> is_sha c \<and> rw_links s' PreviousLink = PointsTo c)))" (is "?goal")
  proof (rule promote_cases [OF assms])
    fix t s1 f
    assume c: "is_sha t" "t = lower (strip target)" "reachable env t" "still s s1" "rw_links s CurrentLink = PointsTo t"
      "bindS (postflight env t) (\<lambda>x. ret (f x)) s1 = (Inr d, s')"
    obtain x where x: "postflight env t s1 = (Inr x, s')" using c(6) by (auto simp: release_Inr)
    then have "still s1 s'" using still.keepsD [OF still.keeps_postflight, of s1 env t] by simp
    then have "still s s'" using c(4) still.related_trans by blast
    then show ?goal using c postflight_Inr [OF x] by (simp add: still_def)
  next
    fix p s1
    assume o: "is_sha (pm_target p)" "pm_target p = lower (strip target)" "reachable env (pm_target p)" "proper p"
      "restorable env p s s1" "dget (pm_manifest p) ''previous'' = None" "handling_any (switch_over env p) (after_failure env p) s1 = (Inr d, s')"
    have "switch_over env p s1 = (Inr d, s')"
      using o(7) by (cases "switch_over env p s1") (auto simp: handling_any_def split: sum.splits dest: after_failure_raises)
    note done_facts = switch_over_Inr [OF this o(6)]
    have "case pm_current p of None \<Rightarrow> True | Some c \<Rightarrow> is_sha c \<and> rw_links s' PreviousLink = PointsTo c"
      using done_facts(4) o(4) by (auto simp: proper_def split: option.split)
    then show ?goal using done_facts o(1,2,3,5) unfolding restorable_def by metis
  qed simp
  then show "is_sha (lower (strip target))" "reachable env (lower (strip target))" "healthy env" "rw_links s' CurrentLink = PointsTo (lower (strip target))"
    "(rw_links s CurrentLink = PointsTo (lower (strip target)) \<and> still s s') \<or>
     (\<exists>old. rw_links s CurrentLink = to_pointer old \<and> jget d ''previous'' = opt_str old \<and> rw_state s' = StateText (Some (JObj d)) \<and>
        (case old of None \<Rightarrow> True | Some c \<Rightarrow> is_sha c \<and> rw_links s' PreviousLink = PointsTo c))"
    by blast+
qed

text \<open>
  A promotion that returns was checked: the target is an exact commit that was found below the local origin/main, every managed
  service was seen active, the Operations API healthy with mutations disabled, and each managed port listening on the loopback only.
\<close>

theorem promotions_are_checked:
  "case promote env target reason s of
     (Inl _, _) \<Rightarrow> True
   | (Inr d, s') \<Rightarrow>
       is_sha (lower (strip target)) \<and> rw_links s' CurrentLink = PointsTo (lower (strip target)) \<and>
       reachable env (lower (strip target)) \<and> healthy env"
proof (cases "promote env target reason s")
  case (Pair r s')
  then show ?thesis using promoted [of env target reason s _ s'] by (cases r) simp_all
qed

lemma sha_text: "is_sha t \<Longrightarrow> t \<noteq> [] \<and> strip t = t \<and> lower t = t"
proof -
  assume sha: "is_sha t"
  have chars: "\<not> is_space c \<and> lower_char c = c" if "c \<in> set t" for c
    using that sha unfolding is_sha_def lower_hex_def list_all_iff
    by (auto simp: is_digit_def char_in_def is_space_def lower_char_def dest!: bspec)
  then have "dropWhile is_space xs = xs" if "set xs \<subseteq> set t" for xs
    using that hd_in_set [of xs] unfolding dropWhile_eq_self_iff by blast
  then have "strip t = t" by (simp add: strip_def)
  moreover have "lower t = t" using chars by (simp add: lower_def map_idI)
  ultimately show ?thesis using sha by (auto simp: is_sha_def lower_hex_def)
qed

lemma rollback_links:
  assumes "promote env target reason s = (Inr d, s1)"
    and "rw_links s CurrentLink = PointsTo before" "before \<noteq> lower (strip target)"
    and "rollback_last env' s1 = (Inr d', s2)"
  shows "rw_links s2 CurrentLink = PointsTo before \<and> rw_links s2 PreviousLink = PointsTo (lower (strip target))"
proof -
  obtain old where "rw_links s CurrentLink = to_pointer old" "jget d ''previous'' = opt_str old" and state: "rw_state s1 = StateText (Some (JObj d))"
    and "case old of None \<Rightarrow> True | Some c \<Rightarrow> is_sha c \<and> rw_links s1 PreviousLink = PointsTo c"
    using promoted(5) [OF assms(1)] assms(2,3) by auto
  then have previous: "jget d ''previous'' = JStr before" and sha: "is_sha before"
    using assms(2) by (auto simp: to_pointer_def opt_str_def split: option.splits)
  have t: "before \<noteq> []" "lower (strip before) = before" using sha_text [OF sha] by simp_all
  have load: "load_state env' (rw_state s1) = Inr d" by (simp add: state load_state_def)
  obtain current s3 where link: "link_sha env' CurrentLink s1 = (Inr current, s3)" and again: "promote env' before ''rollback'' s3 = (Inr d', s2)"
    using assms(4) t(1) by (auto simp: rollback_last_def release_Inr load previous split: if_splits)
  have "still s1 s3" using still.keepsD [OF still.keeps_link_sha, of s1 env' CurrentLink] link by simp
  then have at: "rw_links s3 CurrentLink = PointsTo (lower (strip target))" using promoted(4) [OF assms(1)] by (simp add: still_def)
  have "rw_links s2 CurrentLink = PointsTo before" using promoted(4) [OF again] t(2) by simp
  moreover have "rw_links s2 PreviousLink = PointsTo (lower (strip target))"
    using promoted(5) [OF again] at assms(3) t(2) by (auto simp: to_pointer_def split: option.splits)
  ultimately show ?thesis ..
qed

text \<open>
  A rollback returns to the release before: after a promotion from one release to another, a rollback that returns has the
  current link lead to the first again and the previous link to the second.
\<close>

theorem rollback_returns:
  "case promote env target reason s of
     (Inl _, _) \<Rightarrow> True
   | (Inr _, s1) \<Rightarrow>
       (case (rw_links s CurrentLink, rollback_last env' s1) of
          (PointsTo before, (Inr _, s2)) \<Rightarrow>
            (if before = lower (strip target) then True
             else rw_links s2 CurrentLink = PointsTo before \<and> rw_links s2 PreviousLink = PointsTo (lower (strip target)))
        | _ \<Rightarrow> True)"
proof (cases "promote env target reason s")
  case (Pair r s1)
  obtain r' s2 where again: "rollback_last env' s1 = (r', s2)" by (cases "rollback_last env' s1")
  show ?thesis
  proof (cases r)
    case (Inr d)
    have "promote env target reason s = (Inr d, s1)" using Pair Inr by simp
    from rollback_links [OF this, where env' = env'] show ?thesis by (cases r'; cases "rw_links s CurrentLink") (simp_all add: Pair Inr again)
  qed (simp add: Pair)
qed

end
