(* ===== verification/ReleaseSuccess.thy ===== *)
theory ReleaseSuccess
  imports ReleaseTheorems
begin

text \<open>
  A promotion of a prepared release succeeds when the host obliges, and what a failed one leaves of the installed controller.
\<close>

section \<open>Actions that succeed\<close>

definition wins :: "'a release_act \<Rightarrow> ('a \<Rightarrow> release_world \<Rightarrow> bool) \<Rightarrow> release_world \<Rightarrow> bool" where
  "wins m Q s \<longleftrightarrow> (case m s of (Inl _, _) \<Rightarrow> False | (Inr v, s') \<Rightarrow> Q v s')"

named_theorems wins_rules

lemma wins_basic [wins_rules]:
  "wins m (\<lambda>v. wins (f v) Q) s \<Longrightarrow> wins (bindS m f) Q s"
  "T x s \<Longrightarrow> wins (ret x) T s"
  "P (g s) s \<Longrightarrow> wins (peek g) P s"
  "(\<And>v. G v (s\<lparr>rw_reads := Suc (rw_reads s)\<rparr>)) \<Longrightarrow> wins (glance h) G s"
  "ok \<Longrightarrow> U () s \<Longrightarrow> wins (unless ok t) U s"
  "wins n R s \<Longrightarrow> wins (handling_release n k) R s"
  "wins n R s \<Longrightarrow> wins (handling_any n k') R s"
  by (auto simp: wins_def bindS_def ret_def peek_def glance_def unless_def handling_release_def handling_any_def split: prod.splits sum.splits)

lemma wins_glance: "Q (h (rw_reads s)) (s\<lparr>rw_reads := Suc (rw_reads s)\<rparr>) \<Longrightarrow> wins (glance h) Q s"
  by (simp add: wins_def glance_def)

lemma wins_file: "\<forall>k. le_io env k = None \<Longrightarrow> Q () (f (s\<lparr>rw_reads := Suc (rw_reads s)\<rparr>)) \<Longrightarrow> wins (file_step env f) Q s"
  by (simp add: wins_def file_step_def Let_def)

text \<open>A command that answers with status 0 and this output whenever it runs.\<close>

definition answers :: "release_env \<Rightarrow> string list \<Rightarrow> string \<Rightarrow> bool" where
  "answers env argv out \<longleftrightarrow> (\<forall>k. \<exists>err. le_command env k argv = Ran 0 out err)"

definition git_answers :: "release_env \<Rightarrow> string \<Rightarrow> string list \<Rightarrow> string \<Rightarrow> bool" where
  "git_answers env directory args out \<longleftrightarrow> answers env ([''git'', ''-c'', ''safe.directory='' @ directory, ''-C'', directory] @ args) out"

lemma wins_run: "answers env argv out \<Longrightarrow> (\<And>n cs. Q (0, out) (s\<lparr>rw_reads := n, rw_commands := cs\<rparr>)) \<Longrightarrow> wins (run_command env check argv) Q s"
proof -
  assume "answers env argv out" and Q: "\<And>n cs. Q (0, out) (s\<lparr>rw_reads := n, rw_commands := cs\<rparr>)"
  then obtain err where "le_command env (rw_reads s) argv = Ran 0 out err" unfolding answers_def by blast
  then show ?thesis using Q by (simp add: wins_def run_command_def run_any_def bindS_def Let_def ret_def)
qed

lemma wins_git:
  "git_answers env d args out \<Longrightarrow> (\<And>n cs. Q (0, out) (s\<lparr>rw_reads := n, rw_commands := cs\<rparr>)) \<Longrightarrow> wins (git env check d args) Q s"
  unfolding git_def git_answers_def by (rule wins_run)

lemma wins_git_text:
  "git_answers env d args out \<Longrightarrow> (\<And>n cs. Q (strip out) (s\<lparr>rw_reads := n, rw_commands := cs\<rparr>)) \<Longrightarrow> wins (git_text env check d args) Q s"
  unfolding git_text_def by (rule wins_basic(1), rule wins_git, assumption) (simp add: wins_def ret_def)

section \<open>A host that obliges\<close>

text \<open>Its file operations succeed, git and systemctl answer as for a clean checkout with this target, and all is healthy.\<close>

definition obliging :: "release_env \<Rightarrow> string \<Rightarrow> bool" where
  "obliging env target \<longleftrightarrow>
     le_root_user env \<and> (\<forall>k. le_io env k = None) \<and> (\<forall>k. le_source_dir env k) \<and>
     (\<exists>h. is_sha h \<and> git_answers env (le_source env) [''rev-parse'', ''HEAD''] h) \<and>
     git_answers env (le_source env) [''symbolic-ref'', ''--short'', ''HEAD''] ''main'' \<and> git_answers env (le_source env) [''status'', ''--porcelain''] [] \<and>
     (\<exists>h. is_sha h \<and> git_answers env (le_source env) [''rev-parse'', ''refs/remotes/origin/main''] h) \<and>
     git_answers env (le_source env) [''cat-file'', ''-e'', target @ ''^{commit}''] [] \<and>
     git_answers env (le_source env) [''merge-base'', ''--is-ancestor'', target, ''refs/remotes/origin/main''] [] \<and>
     (\<forall>name. is_sha name \<longrightarrow> git_answers env (rel_path env name) [''rev-parse'', ''HEAD''] name \<and> git_answers env (rel_path env name) [''status'', ''--porcelain''] []) \<and>
     answers env [''systemctl'', ''daemon-reload''] [] \<and>
     list_all (\<lambda>n. answers env [''systemctl'', ''restart'', n] [] \<and> answers env [''systemctl'', ''is-active'', ''--quiet'', n] []) managed_services \<and>
     (\<exists>out. answers env [''ss'', ''-H'', ''-ltn''] out \<and>
       list_all (\<lambda>port. let hosts = List.map_filter (listener_host port) (split_lines out) in hosts \<noteq> [] \<and> list_all loopback hosts) managed_ports) \<and>
     (\<exists>t d. (\<forall>k. le_health env k = Payload t) \<and> json_loads t = Some (JObj d) \<and> health_ok d)"

lemma strip_texts: "strip [] = []" "strip ''main'' = ''main''"
  by code_simp+

lemma wins_head:
  assumes "obliging env target" "is_sha name" "is_tree (rw_entry s name)" "\<And>n cs. Q name (s\<lparr>rw_reads := n, rw_commands := cs\<rparr>)"
  shows "wins (release_head env name) Q s"
proof -
  have git: "git_answers env (rel_path env name) [''rev-parse'', ''HEAD''] name" "git_answers env (rel_path env name) [''status'', ''--porcelain''] []"
    using assms(1,2) unfolding obliging_def by blast+
  show ?thesis
    unfolding release_head_def by (intro wins_rules wins_git_text [OF git(1)] wins_git_text [OF git(2)]) (simp_all add: assms sha_text strip_texts)
qed


lemma wins_valid_sha: "is_sha t \<Longrightarrow> Q t s \<Longrightarrow> wins (valid_sha t) Q s"
  by (simp add: wins_def valid_sha_def Let_def sha_text ret_def)

lemma wins_target:
  assumes "obliging env t" "is_sha t" "\<And>n cs source. Q (t, source) (s\<lparr>rw_reads := n, rw_commands := cs\<rparr>)"
  shows "wins (require_target env t) Q s"
proof -
  obtain h h' where h: "is_sha h" "git_answers env (le_source env) [''rev-parse'', ''HEAD''] h"
    and h': "is_sha h'" "git_answers env (le_source env) [''rev-parse'', ''refs/remotes/origin/main''] h'"
    using assms(1) unfolding obliging_def by blast
  have texts: "strip h = h" "strip h' = h'" "strip ''main'' = ''main''" "strip [] = []" using h(1) h'(1) by (simp_all add: sha_text strip_texts)
  have ob: "\<forall>k. le_source_dir env k" "git_answers env (le_source env) [''symbolic-ref'', ''--short'', ''HEAD''] ''main''"
    "git_answers env (le_source env) [''status'', ''--porcelain''] []" "git_answers env (le_source env) [''cat-file'', ''-e'', t @ ''^{commit}''] []"
    "git_answers env (le_source env) [''merge-base'', ''--is-ancestor'', t, ''refs/remotes/origin/main''] []"
    using assms(1) unfolding obliging_def by blast+
  have snapshot: "wins (source_snapshot_of env) Q' s" if "\<And>n cs. Q' \<lparr>sn_available = True, sn_branch = Some ''main'', sn_head = Some h, sn_dirty = Some False, sn_origin_main = Some h'\<rparr>
      (s\<lparr>rw_reads := n, rw_commands := cs\<rparr>)" for Q' s
  proof -
    have "wins (handling_release
       (bindS (git_text env True (le_source env) [''rev-parse'', ''HEAD'']) (\<lambda>head.
        bindS (git_text env False (le_source env) [''symbolic-ref'', ''--short'', ''HEAD'']) (\<lambda>branch.
        bindS (git_text env True (le_source env) [''status'', ''--porcelain'']) (\<lambda>changes.
        bindS (git_text env False (le_source env) [''rev-parse'', ''refs/remotes/origin/main'']) (\<lambda>origin_main.
        ret \<lparr>sn_available = is_sha head, sn_branch = (if branch = [] then None else Some branch), sn_head = if_sha head,
          sn_dirty = Some (changes \<noteq> []), sn_origin_main = if_sha origin_main\<rparr>))))) (\<lambda>_. ret no_source)) Q' (s\<lparr>rw_reads := n\<rparr>)" for n
      by (intro wins_rules wins_git_text [OF h(2)] wins_git_text [OF h'(2)] wins_git_text [OF ob(2)] wins_git_text [OF ob(3)])
        (simp add: texts h h' if_sha_def that)
    then show ?thesis using ob(1) by (simp add: source_snapshot_of_def wins_def bindS_def glance_def)
  qed
  have source: "wins (require_source env) R s" if "\<And>n cs source. R source (s\<lparr>rw_reads := n, rw_commands := cs\<rparr>)" for R :: "source_snapshot \<Rightarrow> release_world \<Rightarrow> bool"
    unfolding require_source_def by (rule wins_basic(1), rule snapshot) (auto intro!: wins_rules that)
  have body: "wins (bindS (git env False (le_source env) [''cat-file'', ''-e'', t @ ''^{commit}'']) (\<lambda>(exists, _).
     bindS (unless (exists = 0) a) (\<lambda>_.
     bindS (git env False (le_source env) [''merge-base'', ''--is-ancestor'', t, ''refs/remotes/origin/main'']) (\<lambda>(ancestor, _).
     bindS (unless (ancestor = 0) b) (\<lambda>_. ret (t, source)))))) Q (s\<lparr>rw_reads := n, rw_commands := cs\<rparr>)" for a b source n cs
    by (rule wins_basic(1), rule wins_git [OF ob(4)], simp, rule wins_basic(1), rule wins_basic(5), simp, rule wins_basic(1), rule wins_git [OF ob(5)])
      (auto intro!: wins_rules assms(3))
  show ?thesis
    unfolding require_target_def by (rule wins_basic(1), rule wins_valid_sha [OF assms(2)], rule wins_basic(1), rule source, rule body)
qed

section \<open>Steps of a promotion\<close>

text \<open>Everything but the counters.\<close>

definition same_but :: "release_world \<Rightarrow> release_world \<Rightarrow> bool" where
  "same_but s s' \<longleftrightarrow> rw_entries s' = rw_entries s \<and> rw_links s' = rw_links s \<and> rw_dropins s' = rw_dropins s \<and> rw_transactions s' = rw_transactions s \<and>
     rw_backups s' = rw_backups s"

lemma same_but_simps [simp]:
  "same_but s s" "same_but s (s\<lparr>rw_reads := n\<rparr>)" "same_but s (s\<lparr>rw_reads := n, rw_commands := cs\<rparr>)"
  by (simp_all add: same_but_def)

lemma same_but_trans [trans]: "same_but s t \<Longrightarrow> same_but t u \<Longrightarrow> same_but s u"
  by (simp add: same_but_def)

lemma wins_mono: "wins m P s \<Longrightarrow> (\<And>v s'. P v s' \<Longrightarrow> Q v s') \<Longrightarrow> wins m Q s"
  by (auto simp: wins_def split: prod.splits sum.splits)

lemma wins_iff: "wins m Q s \<longleftrightarrow> (\<exists>v s'. m s = (Inr v, s') \<and> Q v s')"
  by (auto simp: wins_def split: prod.splits sum.splits)

lemma released_same_but: "same_but s s' \<Longrightarrow> released s \<Longrightarrow> released s'"
  using released_same [of s' s] by (simp add: same_but_def rw_entry_def fun_eq_iff)

definition prepared :: "release_world \<Rightarrow> string \<Rightarrow> bool" where
  "prepared s t \<longleftrightarrow> is_sha t \<and> is_tree (rw_entry s t) \<and> missing_files (rw_entry s t) = []"

lemma wins_link:
  assumes "obliging env t" "released s"
  shows "wins (link_sha env l) (\<lambda>v s'. same_but s s' \<and> rw_links s l = to_pointer v) s"
proof (cases "rw_links s l")
  case (PointsTo name)
  have "leads s (PointsTo name)" using assms(2) PointsTo unfolding released_def by metis
  then have "is_sha name" "rw_entry s name \<noteq> None" unfolding leads_def pointer.case by blast+
  moreover from this obtain e where "rw_entry s name = Some e" by blast
  moreover from this have "is_tree (rw_entry s name)" using assms(2) unfolding released_def by metis
  moreover from this have "rw_entry s name \<noteq> Some LinkEntry" by (auto simp: is_tree_def)
  ultimately have name: "is_sha name" "is_tree (rw_entry s name)" "rw_entry s name \<noteq> None" "rw_entry s name \<noteq> Some LinkEntry" by blast+
  then have "\<exists>e. rw_entry s name = Some e" by simp
  with name show ?thesis unfolding link_sha_def
    by - (rule wins_basic(1), rule wins_basic(3), auto simp: PointsTo to_pointer_def intro!: wins_rules wins_head [OF assms(1)])
qed (use assms(2) in \<open>auto simp: link_sha_def released_def leads_def to_pointer_def intro!: wins_rules split: pointer.splits dest: spec [of _ l]\<close>)

lemma wins_active: "obliging env t \<Longrightarrow> wins (each_active env managed_services) (\<lambda>bs s'. same_but s s' \<and> list_all snd bs) s"
proof -
  assume ob: "obliging env t"
  have "list_all (\<lambda>n. answers env [''systemctl'', ''is-active'', ''--quiet'', n] []) ns \<Longrightarrow> wins (each_active env ns) (\<lambda>bs s'. same_but s s' \<and> list_all snd bs) s" for ns s
  proof (induction ns arbitrary: s)
    case (Cons n ns)
    have one: "wins (unit_active env n) (\<lambda>b s'. b \<and> same_but s s') s"
      unfolding unit_active_def by (rule wins_basic(1), rule wins_run) (use Cons.prems in \<open>auto intro!: wins_rules\<close>)
    show ?case unfolding each_active.simps
    proof (rule wins_basic(1), rule wins_mono [OF one])
      fix b s1
      assume b: "b \<and> same_but s s1"
      have "wins (each_active env ns) (\<lambda>bs s'. same_but s1 s' \<and> list_all snd bs) s1" using Cons by simp
      then show "wins (bindS (each_active env ns) (\<lambda>bs. ret ((n, b) # bs))) (\<lambda>bs s'. same_but s s' \<and> list_all snd bs) s1"
        by (rule wins_basic(1) [OF wins_mono]) (use b same_but_trans in \<open>auto intro!: wins_rules\<close>)
    qed
  qed (simp add: wins_def ret_def)
  then show ?thesis using ob unfolding obliging_def by (auto simp: list_all_iff)
qed

lemma wins_restart: "obliging env t \<Longrightarrow> wins (restart_services env) (\<lambda>_ s'. same_but s s') s"
proof -
  assume ob: "obliging env t"
  have "list_all (\<lambda>n. answers env [''systemctl'', ''restart'', n] []) ns \<Longrightarrow> wins (restart_each env ns) (\<lambda>_ s'. same_but s s') s" for ns s
  proof (induction ns arbitrary: s)
    case (Cons n ns)
    have "wins (restart_each env ns) (\<lambda>_ s'. same_but s s') (s\<lparr>rw_reads := k, rw_commands := cs\<rparr>)" for k cs
      by (rule wins_mono [OF Cons.IH]) (use Cons.prems same_but_trans [OF same_but_simps(3)] in auto)
    then show ?case unfolding restart_each.simps by (intro wins_basic(1) wins_run) (use Cons.prems in auto)
  qed (simp add: wins_def ret_def)
  then have each: "wins (restart_each env managed_services) (\<lambda>_ s'. same_but s s') s" for s using ob unfolding obliging_def by (auto simp: list_all_iff)
  have reload: "answers env [''systemctl'', ''daemon-reload''] []" using ob unfolding obliging_def by blast
  have "wins (restart_each env managed_services) (\<lambda>_ s'. same_but s s') (s\<lparr>rw_reads := k, rw_commands := cs\<rparr>)" for k cs
    by (rule wins_mono [OF each]) (rule same_but_trans [OF same_but_simps(3)])
  then show ?thesis unfolding restart_services_def by (intro wins_basic(1) wins_run [OF reload]) auto
qed

lemma wins_listeners: "obliging env t \<Longrightarrow> wins (checked_listeners env managed_ports) (\<lambda>_ s'. same_but s s') s"
proof -
  assume ob: "obliging env t"
  obtain out where out: "answers env [''ss'', ''-H'', ''-ltn''] out"
    "list_all (\<lambda>port. let hosts = List.map_filter (listener_host port) (split_lines out) in hosts \<noteq> [] \<and> list_all loopback hosts) managed_ports"
    using ob unfolding obliging_def by blast
  have "list_all (\<lambda>port. let hosts = List.map_filter (listener_host port) (split_lines out) in hosts \<noteq> [] \<and> list_all loopback hosts) ports \<Longrightarrow>
      wins (checked_listeners env ports) (\<lambda>_ s'. same_but s s') s" for ports s
  proof (induction ports arbitrary: s)
    case (Cons port ports)
    have hosts: "wins (listener_hosts env port) (\<lambda>hosts s'. hosts = List.map_filter (listener_host port) (split_lines out) \<and> same_but s s') s"
      unfolding listener_hosts_def by (rule wins_basic(1), rule wins_run [OF out(1)]) (auto intro!: wins_rules)
    show ?case unfolding checked_listeners.simps
    proof (rule wins_basic(1), rule wins_mono [OF hosts])
      fix hosts s1
      assume h: "hosts = List.map_filter (listener_host port) (split_lines out) \<and> same_but s s1"
      have found: "hosts \<noteq> []" "list_all loopback hosts" using Cons.prems h by (simp_all add: Let_def)
      have "wins (checked_listeners env ports) (\<lambda>_ s'. same_but s1 s') s1" using Cons by simp
      then have "wins (bindS (checked_listeners env ports) (\<lambda>rest. ret ((port, hosts) # rest))) (\<lambda>_ s'. same_but s s') s1"
        by (rule wins_basic(1) [OF wins_mono]) (use h same_but_trans in \<open>auto intro!: wins_rules\<close>)
      then show "wins (bindS (unless (hosts \<noteq> []) (''expected loopback listener is absent on port '' @ show_int port)) (\<lambda>_.
          bindS (unless (list_all loopback hosts) (''managed port '' @ show_int port @ '' is exposed beyond loopback'')) (\<lambda>_.
          bindS (checked_listeners env ports) (\<lambda>rest. ret ((port, hosts) # rest))))) (\<lambda>_ s'. same_but s s') s1"
        by - (rule wins_basic(1), rule wins_basic(5) [OF found(1)], rule wins_basic(1), rule wins_basic(5) [OF found(2)])
    qed
  qed (simp add: wins_def ret_def)
  then show ?thesis using out(2) by blast
qed

lemma wins_then: "wins m P s \<Longrightarrow> (\<And>v s'. P v s' \<Longrightarrow> wins (f v) Q s') \<Longrightarrow> wins (bindS m f) Q s"
  by (rule wins_basic(1), rule wins_mono)

lemma wins_health: "obliging env t \<Longrightarrow> wins (read_health env) (\<lambda>d s'. health_ok d \<and> same_but s s') s"
proof -
  assume "obliging env t"
  then obtain u d where "\<forall>k. le_health env k = Payload u" "json_loads u = Some (JObj d)" "health_ok d"
    unfolding obliging_def by blast
  then show ?thesis by (simp add: read_health_def wins_def bindS_def glance_def ret_def)
qed

lemma wins_postflight:
  assumes "obliging env t" "released s" "is_sha t" "rw_links s CurrentLink = PointsTo t"
  shows "wins (postflight env t) (\<lambda>_ s'. same_but s s') s"
proof -
  have ob: "obliging env t" by (rule assms(1))
  have rest: "wins (bindS (unless (list_all snd bs) a) (\<lambda>_. bindS (read_health env) (\<lambda>health.
     bindS (unless (jget health ''status'' = JStr ''ok'') b) (\<lambda>_.
     bindS (unless (jget health ''repository_root_stable'' = JBool True) c) (\<lambda>_.
     bindS (unless (jget health ''mutations_enabled'' = JBool False) d) (\<lambda>_.
     bindS (checked_listeners env managed_ports) (\<lambda>listeners. ret (e health listeners)))))))) (\<lambda>_ s'. same_but s1 s') s1"
    if "list_all snd bs" for bs a b c d and e :: "doc \<Rightarrow> (int \<times> string list) list \<Rightarrow> doc" and s1
  proof (rule wins_basic(1), rule wins_basic(5) [OF that], rule wins_then [OF wins_health [OF ob]], elim conjE)
    fix health s2
    assume h: "health_ok health" "same_but s1 s2"
    have ok: "jget health ''status'' = JStr ''ok''" "jget health ''repository_root_stable'' = JBool True" "jget health ''mutations_enabled'' = JBool False"
      using h(1) by (simp_all add: health_ok_def)
    have "wins (bindS (checked_listeners env managed_ports) (\<lambda>listeners. ret (e health listeners))) (\<lambda>_ s'. same_but s1 s') s2"
      by (rule wins_then [OF wins_listeners [OF ob]]) (use same_but_trans [OF h(2)] in \<open>auto intro!: wins_rules\<close>)
    then show "wins (bindS (unless (jget health ''status'' = JStr ''ok'') b) (\<lambda>_.
     bindS (unless (jget health ''repository_root_stable'' = JBool True) c) (\<lambda>_.
     bindS (unless (jget health ''mutations_enabled'' = JBool False) d) (\<lambda>_.
     bindS (checked_listeners env managed_ports) (\<lambda>listeners. ret (e health listeners)))))) (\<lambda>_ s'. same_but s1 s') s2"
      by - (rule wins_basic(1), rule wins_basic(5) [OF ok(1)], rule wins_basic(1), rule wins_basic(5) [OF ok(2)],
        rule wins_basic(1), rule wins_basic(5) [OF ok(3)])
  qed
  have linked: "wins (link_sha env CurrentLink) (\<lambda>v s'. v = Some t \<and> same_but s s') s"
    by (rule wins_mono [OF wins_link [OF ob assms(2)]]) (use assms(4) in \<open>auto simp: to_pointer_def split: option.splits\<close>)
  have "wins (postflight_once env t) (\<lambda>_ s'. same_but s s') s"
    unfolding postflight_once_def
  proof (rule wins_basic(1), rule wins_valid_sha [OF assms(3)], rule wins_then [OF linked], rule wins_basic(1), rule wins_basic(5),
      blast, rule wins_then [OF wins_active [OF ob]], elim conjE, goal_cases)
    case (1 v s1 bs s2)
    then have steps: "same_but s s2" "list_all snd bs" using same_but_trans by blast+
    show ?case by (rule wins_mono [OF rest [OF steps(2)]]) (rule same_but_trans [OF steps(1)])
  qed
  then show ?thesis unfolding postflight_def eval_nat_numeral(3)
    by (simp add: numeral_eq_Suc) (rule wins_basic(6))
qed

lemma tree_some: "is_tree e \<Longrightarrow> e \<noteq> None \<and> e \<noteq> Some LinkEntry"
  by (auto simp: is_tree_def split: option.splits)

lemma same_but_io: "obliging env t \<Longrightarrow> wins (file_step env id) (\<lambda>_ s'. same_but s s') s"
  by (rule wins_file) (simp_all add: obliging_def)

lemma prepared_same_but: "same_but s s' \<Longrightarrow> prepared s t \<Longrightarrow> prepared s' t"
  by (simp add: same_but_def prepared_def rw_entry_def)

lemma wins_prepare:
  assumes "obliging env t" "prepared s t"
  shows "wins (prepare env t) (\<lambda>_ s'. same_but s s') s"
proof -
  have sha: "is_sha t" and user: "le_root_user env" using assms by (simp_all add: prepared_def obliging_def)
  have body: "wins (bindS (file_step env id) (\<lambda>_. bindS (peek (\<lambda>s. rw_entry s t)) (\<lambda>entry.
     if entry \<noteq> None then
       bindS (unless (is_tree entry) a) (\<lambda>_. bindS (release_head env t) (\<lambda>head. bindS (unless (head = t) b) (\<lambda>_. ret c)))
     else other))) (\<lambda>_ s'. same_but s s') s1" if s1: "same_but s s1" for a b c other s1
  proof (rule wins_then [OF same_but_io [OF assms(1)]])
    fix s2
    assume "same_but s1 s2"
    then have s2: "same_but s s2" using s1 same_but_trans by blast
    then have tree: "is_tree (rw_entry s2 t)" using prepared_same_but assms(2) by (auto simp: prepared_def)
    then have some: "rw_entry s2 t \<noteq> None" using tree_some by blast
    have "wins (bindS (release_head env t) (\<lambda>head. bindS (unless (head = t) b) (\<lambda>_. ret c))) (\<lambda>_ s'. same_but s s') s2"
      by (rule wins_basic(1), rule wins_head [OF assms(1) sha tree], rule wins_basic(1), rule wins_basic(5))
        (auto intro!: wins_rules same_but_trans [OF s2])
    then show "wins (bindS (peek (\<lambda>s. rw_entry s t)) (\<lambda>entry. if entry \<noteq> None then
       bindS (unless (is_tree entry) a) (\<lambda>_. bindS (release_head env t) (\<lambda>head. bindS (unless (head = t) b) (\<lambda>_. ret c)))
     else other)) (\<lambda>_ s'. same_but s s') s2"
      by - (rule wins_basic(1), rule wins_basic(3), simp only: some not_False_eq_True if_True, rule wins_basic(1), rule wins_basic(5) [OF tree])
  qed
  show ?thesis
    unfolding prepare_def
    by (rule wins_basic(1), rule wins_basic(5) [OF user], rule wins_basic(1), rule wins_target [OF assms(1) sha])
      (simp only: prod.case Let_def, rule body, simp)
qed

text \<open>Everything but links, drop-ins and counters.\<close>

definition kept_files :: "release_world \<Rightarrow> release_world \<Rightarrow> bool" where
  "kept_files s s' \<longleftrightarrow> rw_entries s' = rw_entries s \<and> rw_transactions s' = rw_transactions s \<and> rw_backups s' = rw_backups s"

lemma wins_replace:
  assumes "\<forall>k. le_io env k = None" "is_tree (rw_entry s name)"
  shows "wins (replace_link env l (Some name)) (\<lambda>_ s'. kept_files s s' \<and> rw_links s' = (rw_links s)(l := PointsTo name)) s"
proof -
  have "rw_entry s name \<noteq> None" "rw_entry s name \<noteq> Some LinkEntry" using tree_some [OF assms(2)] by blast+
  then show ?thesis
    unfolding replace_link_def option.case
    by - (rule wins_basic(1), rule wins_file [OF assms(1)], rule wins_basic(1), rule wins_basic(3),
      auto intro!: wins_file [OF assms(1)] simp: kept_files_def set_link_def rw_entry_def)
qed

lemma tree_file_prepared: "is_tree e \<Longrightarrow> missing_files e = [] \<Longrightarrow> f \<in> set required_files \<Longrightarrow> \<exists>t. tree_file e f = Some t"
  by (auto simp: is_tree_def missing_files_def tree_file_def filter_empty_conv split: option.splits release_entry.splits)

lemma wins_install:
  assumes "\<forall>k. le_io env k = None" "prepared s t" "f \<in> set required_files"
  shows "wins (install_dropin env t f d) (\<lambda>_ s'. kept_files s s' \<and> rw_links s' = rw_links s) s"
    "f = controller_file \<Longrightarrow> wins (refresh_controller env t) (\<lambda>_ s'. kept_files s s' \<and> rw_links s' = rw_links s) s"
proof -
  obtain u where u: "tree_file (rw_entry s t) f = Some u" using tree_file_prepared assms(2,3) unfolding prepared_def by blast
  show "wins (install_dropin env t f d) (\<lambda>_ s'. kept_files s s' \<and> rw_links s' = rw_links s) s"
    unfolding install_dropin_def by (rule wins_basic(1), rule wins_basic(3))
      (simp add: u, auto intro!: wins_rules wins_file [OF assms(1)] simp: kept_files_def set_dropin_def)
  assume "f = controller_file"
  then show "wins (refresh_controller env t) (\<lambda>_ s'. kept_files s s' \<and> rw_links s' = rw_links s) s"
    using u unfolding refresh_controller_def by - (rule wins_basic(1), rule wins_basic(3),
      simp, auto intro!: wins_rules wins_file [OF assms(1)] simp: kept_files_def)
qed

text \<open>What stays while a promotion goes well: the prepared target and links that lead to releases.\<close>

definition ready :: "string \<Rightarrow> release_world \<Rightarrow> bool" where
  "ready t s \<longleftrightarrow> prepared s t \<and> released s"

lemma ready_prepared: "ready t s \<Longrightarrow> prepared s t"
  by (simp add: ready_def)

lemma ready_released: "ready t s \<Longrightarrow> released s"
  by (simp add: ready_def)

lemma ready_same: "ready t s \<Longrightarrow> rw_entries s' = rw_entries s \<Longrightarrow> rw_links s' = rw_links s \<Longrightarrow> ready t s'"
  using released_same [of s' s] by (auto simp: ready_def prepared_def rw_entry_def fun_eq_iff)

lemma ready_updates: "ready t (s\<lparr>rw_reads := n\<rparr>) \<longleftrightarrow> ready t s" "ready t (s\<lparr>rw_written := w\<rparr>) \<longleftrightarrow> ready t s" "ready t (s\<lparr>rw_state := f\<rparr>) \<longleftrightarrow> ready t s"
  "ready t (s\<lparr>rw_transactions := x\<rparr>) \<longleftrightarrow> ready t s" "ready t (s\<lparr>rw_backups := b\<rparr>) \<longleftrightarrow> ready t s"
  by (rule iffI; erule ready_same; simp)+

lemma ready_linked: "ready t s \<Longrightarrow> rw_entries s' = rw_entries s \<Longrightarrow> rw_links s' = (rw_links s)(l := PointsTo name) \<Longrightarrow> is_sha name \<Longrightarrow>
    rw_entry s name \<noteq> None \<Longrightarrow> ready t s'"
  using released_link [of name s l] released_same [of s' "set_link l (PointsTo name) s"]
  by (auto simp: ready_def prepared_def rw_entry_def set_link_def fun_eq_iff)

lemma ready_current: "ready t s \<Longrightarrow> rw_links s l = PointsTo c \<Longrightarrow> is_sha c \<and> is_tree (rw_entry s c)"
proof -
  assume r: "ready t s" "rw_links s l = PointsTo c"
  then have "leads s (PointsTo c)" unfolding ready_def released_def by metis
  then have "is_sha c" "rw_entry s c \<noteq> None" unfolding leads_def pointer.case by blast+
  then show ?thesis using r(1) unfolding ready_def released_def by (metis not_None_eq)
qed

lemma wins_previous:
  assumes "\<forall>k. le_io env k = None" "ready t s" "rw_links s CurrentLink = to_pointer c"
  shows "wins (case c of None \<Rightarrow> ret () | Some c \<Rightarrow> replace_link env PreviousLink (Some c)) (\<lambda>_. ready t) s"
proof (cases c)
  case (Some name)
  then have name: "is_sha name" "is_tree (rw_entry s name)" using ready_current [OF assms(2), of CurrentLink name] assms(3) by (auto simp: to_pointer_def)
  then have "rw_entry s name \<noteq> None" using tree_some by blast
  then show ?thesis unfolding Some option.case
    by (intro wins_mono [OF wins_replace [OF assms(1) name(2)]]) (auto simp: kept_files_def intro: ready_linked [OF assms(2)] name)
qed (use assms(2) in \<open>simp add: wins_def ret_def\<close>)

text \<open>With the links of a state and a prepared target, switching over succeeds.\<close>

lemma wins_switch:
  assumes "obliging env t" "ready t s" "pm_target p = t" "rw_links s CurrentLink = to_pointer (pm_current p)"
  shows "wins (switch_over env p) (\<lambda>_ s'. ready t s' \<and> rw_links s' CurrentLink = PointsTo t) s"
proof -
  have io: "\<forall>k. le_io env k = None" and sha: "is_sha t" using assms by (simp_all add: obliging_def ready_def prepared_def)
  have files: "operations_file \<in> set required_files" "operator_file \<in> set required_files" "controller_file \<in> set required_files"
    by (simp_all add: required_files_def)
  have install: "wins (install_dropin env t f d) (\<lambda>_ s'. ready t s' \<and> rw_links s' = rw_links s) s"
    if "f \<in> set required_files" "ready t s" for f d s
    by (rule wins_mono [OF wins_install(1) [OF io ready_prepared that(1)]]) (use that(2) ready_same [OF that(2)] in \<open>auto simp: kept_files_def\<close>)
  have refresh: "wins (refresh_controller env t) (\<lambda>_ s'. ready t s' \<and> rw_links s' = rw_links s) s" if "ready t s" for s
    by (rule wins_mono [OF wins_install(2) [OF io ready_prepared files(3) refl]]) (use that ready_same [OF that] in \<open>auto simp: kept_files_def\<close>)
  have current: "wins (replace_link env CurrentLink (Some t)) (\<lambda>_ s'. ready t s' \<and> rw_links s' CurrentLink = PointsTo t) s" if r: "ready t s" for s
  proof -
    have tree: "is_tree (rw_entry s t)" using r by (simp add: ready_def prepared_def)
    then have "rw_entry s t \<noteq> None" using tree_some by blast
    then show ?thesis
      by (intro wins_mono [OF wins_replace [OF io tree]]) (auto simp: kept_files_def intro: ready_linked [OF r] sha)
  qed
  have same: "ready t s' \<and> rw_links s' CurrentLink = PointsTo t" if "ready t s \<and> rw_links s CurrentLink = PointsTo t" "same_but s s'" for s s'
    using that ready_same [of t s s'] by (simp add: same_but_def)
  have restart: "wins (restart_services env) (\<lambda>_ s'. ready t s' \<and> rw_links s' CurrentLink = PointsTo t) s"
    if "ready t s \<and> rw_links s CurrentLink = PointsTo t" for s
    by (rule wins_mono [OF wins_restart [OF assms(1)]]) (rule same [OF that])
  have check: "wins (postflight env t) (\<lambda>_ s'. ready t s' \<and> rw_links s' CurrentLink = PointsTo t) s"
    if "ready t s \<and> rw_links s CurrentLink = PointsTo t" for s
  proof -
    have "released s" "rw_links s CurrentLink = PointsTo t" using that by (simp_all add: ready_def)
    from wins_postflight [OF assms(1) this(1) sha this(2)] show ?thesis by (rule wins_mono) (rule same [OF that])
  qed
  have finish: "wins (bindS (refresh_controller env t) (\<lambda>install. bindS (glance g) (\<lambda>now. bindS (atomic_json env path (f install now)) (\<lambda>_.
      bindS (write_state env (f install now)) (\<lambda>_. ret (f install now)))))) (\<lambda>_ s'. ready t s' \<and> rw_links s' CurrentLink = PointsTo t) s"
    if "ready t s \<and> rw_links s CurrentLink = PointsTo t" for s path and g :: "nat \<Rightarrow> string" and f :: "doc \<Rightarrow> string \<Rightarrow> doc"
    unfolding atomic_json_def write_state_def
    by (rule wins_then [OF refresh [OF conjunct1 [OF that]]], intro wins_basic(1,2,4) wins_file [OF io]) (use that in \<open>simp add: ready_updates\<close>)
  show ?thesis
    unfolding switch_over_def Let_def assms(3)
  proof (rule wins_then [OF install [OF files(1) assms(2)]], elim conjE, rule wins_then [OF install [OF files(2)]], assumption, elim conjE,
      rule wins_then [OF wins_previous [OF io]], assumption, goal_cases)
    case (1 h s1 h' s2)
    then show ?case using assms(4) by simp
  next
    case (2 h s1 h' s2 _ s3)
    show ?case
      by (rule wins_then [OF current [OF 2(5)]], rule wins_then [OF restart], assumption, rule wins_then [OF check], assumption, rule finish, assumption)
  qed
qed

text \<open>No transaction directory has the name the promotion will give its own.\<close>

definition unused_dirs :: "release_env \<Rightarrow> string \<Rightarrow> string \<Rightarrow> release_world \<Rightarrow> bool" where
  "unused_dirs env target reason s \<longleftrightarrow>
     (\<forall>k. le_backup_root env @ ''/edge1-release-controller-'' @ (if reason = ''rollback'' then ''rollback'' else ''promote'') @ ''-'' @ le_stamp env k @ ''-'' @
       le_pid env @ ''-'' @ take 12 target \<notin> set (rw_transactions s))"

definition plain_dropins :: "release_world \<Rightarrow> bool" where
  "plain_dropins s \<longleftrightarrow> (\<forall>d. rw_dropins s d \<noteq> LinkFile \<and> rw_dropins s d \<noteq> OtherFile)"

lemma wins_backup:
  assumes "\<forall>k. le_io env k = None" "plain_dropins s"
  shows "wins (backup_file env d tx) (\<lambda>_ s'. rw_entries s' = rw_entries s \<and> rw_links s' = rw_links s \<and> rw_dropins s' = rw_dropins s) s"
  using assms(2) unfolding backup_file_def plain_dropins_def
  by (cases "rw_dropins s d") (auto intro!: wins_rules wins_file [OF assms(1)])

lemma wins_open:
  assumes "obliging env t" "plain_dropins s" "unused_dirs env t reason s" "ready t s"
  shows "wins (open_promotion env t source reason c pr) (\<lambda>p s'. pm_target p = t \<and> pm_current p = c \<and> ready t s' \<and> rw_links s' = rw_links s) s"
proof -
  have io: "\<forall>k. le_io env k = None" using assms(1) by (simp add: obliging_def)
  have dir: "wins (transaction_dir env t reason) (\<lambda>_ s'. rw_entries s' = rw_entries s \<and> rw_links s' = rw_links s \<and> rw_dropins s' = rw_dropins s) s"
    unfolding transaction_dir_def Let_def
  proof (rule wins_basic(1), rule wins_glance, rule wins_basic(1), rule wins_basic(3), goal_cases)
    case 1
    have fresh: "path \<notin> set (rw_transactions s) \<Longrightarrow> wins (if path \<in> set (rw_transactions (s\<lparr>rw_reads := Suc (rw_reads s)\<rparr>)) then raise_err e
        else bindS (file_step env (\<lambda>s. s\<lparr>rw_transactions := rw_transactions s @ [path]\<rparr>)) (\<lambda>_. ret path))
      (\<lambda>_ s'. rw_entries s' = rw_entries s \<and> rw_links s' = rw_links s \<and> rw_dropins s' = rw_dropins s) (s\<lparr>rw_reads := Suc (rw_reads s)\<rparr>)" for path e
      by (simp, intro wins_basic(1,2) wins_file [OF io]) simp
    show ?case by (rule fresh) (use assms(3) in \<open>unfold unused_dirs_def, blast\<close>)
  qed
  have last: "wins (bindS (glance g) (\<lambda>now. bindS (atomic_json env path (f now)) (\<lambda>_. ret (h now)))) Q s1"
    if "\<And>now s2. rw_entries s2 = rw_entries s1 \<Longrightarrow> rw_links s2 = rw_links s1 \<Longrightarrow> Q (h now) s2"
    for g :: "nat \<Rightarrow> string" and path f and h :: "string \<Rightarrow> promotion" and Q s1
    unfolding atomic_json_def by (intro wins_basic(1,2,4) wins_file [OF io] that) simp_all
  show ?thesis
    unfolding open_promotion_def Let_def
    by (rule wins_then [OF dir], rule wins_then [OF wins_backup [OF io]], use assms(2) in \<open>simp add: plain_dropins_def\<close>,
      rule wins_then [OF wins_backup [OF io]], use assms(2) in \<open>simp add: plain_dropins_def\<close>, rule last)
      (use ready_same [OF assms(4)] in simp)
qed

text \<open>
  A promotion succeeds when it can: with links that lead to releases, the target prepared, drop-ins that are regular files or
  absent and a new name for the transaction, on a host whose file operations succeed, where git finds the target and clean
  checkouts, the services restart, listen and are healthy, it returns and the current link leads to the target.
\<close>

theorem promotions_succeed:
  assumes "obliging env t" "ready t s" "plain_dropins s" "unused_dirs env t reason s"
  shows "\<exists>d s'. promote env t reason s = (Inr d, s') \<and> rw_links s' CurrentLink = PointsTo t \<and> ready t s'"
proof -
  have user: "le_root_user env" and sha: "is_sha t" using assms by (simp_all add: obliging_def ready_def prepared_def)
  have same: "ready t s' \<and> rw_links s' = rw_links s1 \<and> plain_dropins s' \<and> unused_dirs env t reason s'"
    if "ready t s1 \<and> plain_dropins s1 \<and> unused_dirs env t reason s1" "same_but s1 s'" for s1 s'
    using that ready_same [of t s1 s'] by (simp add: same_but_def plain_dropins_def unused_dirs_def)
  have link: "wins (link_sha env l) (\<lambda>v s'. rw_links s1 l = to_pointer v \<and> ready t s' \<and> rw_links s' = rw_links s1 \<and> plain_dropins s' \<and> unused_dirs env t reason s') s1"
    if "ready t s1 \<and> plain_dropins s1 \<and> unused_dirs env t reason s1" for l s1
    by (rule wins_mono [OF wins_link [OF assms(1) ready_released]]) (use that same [OF that] in blast)+
  have prepare: "wins (prepare env t) (\<lambda>_ s'. ready t s' \<and> plain_dropins s' \<and> unused_dirs env t reason s') s1"
    if "ready t s1 \<and> plain_dropins s1 \<and> unused_dirs env t reason s1" for s1
    by (rule wins_mono [OF wins_prepare [OF assms(1) ready_prepared]]) (use that same [OF that] in blast)+
  have finish: "wins (if c = Some t then bindS (postflight env t) (\<lambda>result. ret (f result))
       else bindS (open_promotion env t source reason c pr) (\<lambda>p. handling_any (switch_over env p) (after_failure env p)))
     (\<lambda>_ s'. ready t s' \<and> rw_links s' CurrentLink = PointsTo t) s1"
    if "ready t s1" "plain_dropins s1" "unused_dirs env t reason s1" "rw_links s1 CurrentLink = to_pointer c" for c source pr f s1
  proof (cases "c = Some t")
    case True
    then have "rw_links s1 CurrentLink = PointsTo t" "released s1" using that by (simp_all add: to_pointer_def ready_def)
    have ends: "ready t s' \<and> rw_links s' CurrentLink = PointsTo t" if "same_but s1 s'" for s'
      using same [of s1 s'] \<open>ready t s1\<close> \<open>plain_dropins s1\<close> \<open>unused_dirs env t reason s1\<close> \<open>rw_links s1 CurrentLink = PointsTo t\<close> that by simp
    have "wins (bindS (postflight env t) (\<lambda>result. ret (f result))) (\<lambda>_ s'. ready t s' \<and> rw_links s' CurrentLink = PointsTo t) s1"
      by (rule wins_then [OF wins_postflight [OF assms(1) \<open>released s1\<close> sha \<open>rw_links s1 CurrentLink = PointsTo t\<close>]], rule wins_basic(2), rule ends)
    then show ?thesis using True by simp
  next
    case False
    have "wins (open_promotion env t source reason c pr) (\<lambda>p s'. pm_target p = t \<and> pm_current p = c \<and> ready t s' \<and> rw_links s' = rw_links s1) s1"
      by (rule wins_open [OF assms(1) that(2,3,1)])
    then have "wins (bindS (open_promotion env t source reason c pr) (\<lambda>p. handling_any (switch_over env p) (after_failure env p)))
      (\<lambda>_ s'. ready t s' \<and> rw_links s' CurrentLink = PointsTo t) s1"
    proof (rule wins_then, elim conjE)
      fix p :: promotion and s2
      assume p: "pm_target p = t" "pm_current p = c" "ready t s2" "rw_links s2 = rw_links s1"
      show "wins (handling_any (switch_over env p) (after_failure env p)) (\<lambda>_ s'. ready t s' \<and> rw_links s' CurrentLink = PointsTo t) s2"
        by (rule wins_basic(7), rule wins_switch [OF assms(1) p(3,1)]) (use that(4) p in simp)
    qed
    then show ?thesis using False by simp
  qed
  have "wins (promote env t reason) (\<lambda>_ s'. ready t s' \<and> rw_links s' CurrentLink = PointsTo t) s"
    unfolding promote_def
  proof (rule wins_basic(1), rule wins_basic(5) [OF user], rule wins_basic(1), rule wins_target [OF assms(1) sha], unfold prod.case,
      rule wins_then [OF prepare], goal_cases)
    case (1 n cs source)
    have "same_but s (s\<lparr>rw_reads := n, rw_commands := cs\<rparr>)" by simp
    from same [OF _ this] show ?case using assms(2-4) by blast
  next
    case (2 n cs source v s1)
    show ?case
    proof (rule wins_then [OF link [OF 2]], elim conjE, rule wins_then [OF link])
      fix c s2 pr s3
      assume s2: "rw_links s1 CurrentLink = to_pointer c" "rw_links s2 = rw_links s1" "ready t s2" "plain_dropins s2" "unused_dirs env t reason s2"
      then show "ready t s2 \<and> plain_dropins s2 \<and> unused_dirs env t reason s2" by blast
      assume s3: "rw_links s2 PreviousLink = to_pointer pr \<and> ready t s3 \<and> rw_links s3 = rw_links s2 \<and> plain_dropins s3 \<and> unused_dirs env t reason s3"
      then have "rw_links s3 CurrentLink = to_pointer c" using s2 by simp
      then show "wins (if c = Some t then bindS (postflight env t) (\<lambda>result. ret (prepared_doc ''already-current'' t source @ [(''postflight'', JObj result)]))
         else bindS (open_promotion env t source reason c pr) (\<lambda>p. handling_any (switch_over env p) (after_failure env p)))
        (\<lambda>_ s'. ready t s' \<and> rw_links s' CurrentLink = PointsTo t) s3"
        using s3 by (intro finish) blast+
    qed
  qed
  then show ?thesis unfolding wins_iff by blast
qed

section \<open>The installed controller\<close>

interpretation installed: release_records "\<lambda>s s'. rw_installed s' = rw_installed s" env for env
  by unfold_locales simp_all

text \<open>
  What follows a failure leaves the installed controller as it is: where the failure came after the new one was installed (the
  result or the state could not be written), the error says that the rollback succeeded and the new controller stays.
\<close>

theorem rollback_leaves_controller: "rw_installed (snd (after_failure env p e s)) = rw_installed s"
proof -
  have link: "installed.keeps (replace_link env l target)" for l target
    unfolding replace_link_def by (intro installed.keeps_plain installed.keeps_file_step) (simp_all add: set_link_def)
  have restore: "installed.keeps (restore_file env d digest tx)" for d digest tx
    unfolding restore_file_def by (intro installed.keeps_plain installed.keeps_file_step) (simp_all add: set_dropin_def)
  have "installed.keeps (roll_back env p)"
    unfolding roll_back_def put_back_def by (intro installed.keeps_plain link restore installed.keeps_services installed.keeps_postflight)
  then have "installed.keeps (after_failure env p e)"
    unfolding after_failure_def Let_def by (intro installed.keeps_plain installed.keeps_json)
  then show ?thesis by (rule installed.keepsD)
qed

section \<open>An example\<close>

definition first_commit :: string where "first_commit = replicate 40 (CHR ''a'')"
definition second_commit :: string where "second_commit = replicate 40 (CHR ''b'')"

definition demo_listeners :: string where
  "demo_listeners = ''L 0 5 127.0.0.1:8097 *'' @ [CHR 0x0A] @ ''L 0 5 [::1]:8102 *''"

definition demo_answer :: "string list \<Rightarrow> string" where
  "demo_answer argv =
     (if hd argv = ''ss'' then demo_listeners
      else if drop 5 argv = [''rev-parse'', ''HEAD''] then (if argv ! 4 = ''/s'' then second_commit else drop 12 (argv ! 4))
      else if drop 5 argv = [''rev-parse'', ''refs/remotes/origin/main''] then second_commit
      else if drop 5 argv = [''symbolic-ref'', ''--short'', ''HEAD''] then ''main''
      else [])"

definition demo_health :: doc where
  "demo_health = [(''mutations_enabled'', JBool False), (''repository_root_stable'', JBool True), (''status'', JStr ''ok'')]"

definition demo_release_host :: release_env where
  "demo_release_host = \<lparr>le_io = (\<lambda>_. None), le_command = (\<lambda>_ argv. Ran 0 (demo_answer argv) []), le_checkout = (\<lambda>_. []), le_left_behind = (\<lambda>_. False),
     le_source_dir = (\<lambda>_. True), le_health = (\<lambda>_. Payload (canonical_json (JObj demo_health))), le_now = (\<lambda>_. ''now''), le_stamp = (\<lambda>_. ''stamp''),
     le_root_user = True, le_source = ''/s'', le_runtime = ''/r'', le_state_root = ''/t'', le_backup_root = ''/b'', le_pid = ''1'', le_sha256 = id\<rparr>"

text \<open>Two prepared releases; the first is current.\<close>

definition demo_release :: release_world where
  "demo_release = fresh_release\<lparr>rw_entries := map (\<lambda>c. (c, Tree (map (\<lambda>f. (f, c)) required_files))) [first_commit, second_commit],
     rw_links := (\<lambda>_. Absent)(CurrentLink := PointsTo first_commit)\<rparr>"

lemma commits: "is_sha first_commit" "is_sha second_commit" "first_commit \<noteq> second_commit"
  by (code_simp)+

lemma demo_listening:
  "list_all (\<lambda>port. let hosts = List.map_filter (listener_host port) (split_lines demo_listeners) in hosts \<noteq> [] \<and> list_all loopback hosts) managed_ports"
proof -
  have lines: "split_lines demo_listeners = [''L 0 5 127.0.0.1:8097 *'', ''L 0 5 [::1]:8102 *'']" by code_simp
  have columns: "py_words ''L 0 5 127.0.0.1:8097 *'' = [''L'', ''0'', ''5'', ''127.0.0.1:8097'', ''*'']"
    "py_words ''L 0 5 [::1]:8102 *'' = [''L'', ''0'', ''5'', ''[::1]:8102'', ''*'']" by code_simp+
  have ports: "show_int 8097 = ''8097''" "show_int 8102 = ''8102''"
    by (simp_all add: show_int_def show_nat.simps [of 8097] show_nat.simps [of 809] show_nat.simps [of 80] show_nat.simps [of 8]
      show_nat.simps [of 8102] show_nat.simps [of 810] show_nat.simps [of 81] digit_char_def) code_simp+
  show ?thesis
    unfolding lines by (simp add: managed_ports_def listener_host_def ports columns ends_with_def Let_def loopback_def strip_brackets_def)
qed

lemma demo_healthy: "json_loads (canonical_json (JObj demo_health)) = Some (JObj demo_health)" "health_ok demo_health"
proof -
  show "json_loads (canonical_json (JObj demo_health)) = Some (JObj demo_health)"
    by (subst json_loads_canonical) (simp_all add: demo_health_def)
  show "health_ok demo_health" by code_simp
qed

lemma demo_ready: "ready second_commit demo_release" "plain_dropins demo_release" "unused_dirs env t reason demo_release"
proof -
  have entries: "rw_entry demo_release name = (if name = first_commit \<or> name = second_commit then Some (Tree (map (\<lambda>f. (f, name)) required_files)) else None)" for name
    using commits(3) by (simp add: rw_entry_def demo_release_def)
  have links: "rw_links demo_release CurrentLink = PointsTo first_commit" "rw_links demo_release PreviousLink = Absent"
    by (simp_all add: demo_release_def)
  have files: "missing_files (Some (Tree (map (\<lambda>f. (f, c)) required_files))) = []" for c
    by (simp add: missing_files_def required_files_def controller_file_def operations_file_def operator_file_def)
  have "leads demo_release (rw_links demo_release l)" for l
    by (cases l) (simp_all add: links leads_def entries commits)
  then show "ready second_commit demo_release"
    by (simp add: ready_def prepared_def released_def entries files commits is_tree_def)
  show "plain_dropins demo_release" "unused_dirs env t reason demo_release"
    by (simp_all add: plain_dropins_def unused_dirs_def demo_release_def fresh_release_def)
qed

lemma demo_obliging: "obliging demo_release_host second_commit"
proof -
  have health: "\<exists>t d. (\<forall>k. le_health demo_release_host k = Payload t) \<and> json_loads t = Some (JObj d) \<and> health_ok d"
    using demo_healthy by (intro exI [of _ "canonical_json (JObj demo_health)"] exI [of _ demo_health]) (simp add: demo_release_host_def)
  have out: "answers demo_release_host argv (demo_answer argv)" for argv by (simp add: answers_def demo_release_host_def)
  then have answer: "demo_answer argv = out \<Longrightarrow> answers demo_release_host argv out" for argv out by metis
  have "answers demo_release_host [''ss'', ''-H'', ''-ltn''] demo_listeners" by (rule answer) (simp add: demo_answer_def)
  with demo_listening have listening: "\<exists>out. answers demo_release_host [''ss'', ''-H'', ''-ltn''] out \<and>
       list_all (\<lambda>port. let hosts = List.map_filter (listener_host port) (split_lines out) in hosts \<noteq> [] \<and> list_all loopback hosts) managed_ports"
    by blast
  have git: "demo_answer ([''git'', ''-c'', ''safe.directory='' @ d, ''-C'', d] @ args) = out \<Longrightarrow> git_answers demo_release_host d args out" for d args out
    unfolding git_answers_def by (rule answer)
  have trees: "git_answers demo_release_host (rel_path demo_release_host name) [''rev-parse'', ''HEAD''] name" "git_answers demo_release_host (rel_path demo_release_host name) [''status'', ''--porcelain''] []" for name
    by (rule git, simp add: demo_answer_def rel_path_def demo_release_host_def)+
  have source: "git_answers demo_release_host (le_source demo_release_host) [''rev-parse'', ''HEAD''] second_commit"
    "git_answers demo_release_host (le_source demo_release_host) [''symbolic-ref'', ''--short'', ''HEAD''] ''main''" "git_answers demo_release_host (le_source demo_release_host) [''status'', ''--porcelain''] []"
    "git_answers demo_release_host (le_source demo_release_host) [''rev-parse'', ''refs/remotes/origin/main''] second_commit"
    "git_answers demo_release_host (le_source demo_release_host) [''cat-file'', ''-e'', t @ ''^{commit}''] []"
    "git_answers demo_release_host (le_source demo_release_host) [''merge-base'', ''--is-ancestor'', t, ''refs/remotes/origin/main''] []" for t
    by (rule git, simp add: demo_answer_def demo_release_host_def)+
  have units: "answers demo_release_host [''systemctl'', ''daemon-reload''] []"
    "list_all (\<lambda>n. answers demo_release_host [''systemctl'', ''restart'', n] [] \<and> answers demo_release_host [''systemctl'', ''is-active'', ''--quiet'', n] []) managed_services"
    by (simp_all add: managed_services_def) (intro conjI answer; simp add: demo_answer_def)+
  have plain: "le_root_user demo_release_host \<and> (\<forall>k. le_io demo_release_host k = None) \<and> (\<forall>k. le_source_dir demo_release_host k)" by (simp add: demo_release_host_def)
  show ?thesis
    unfolding obliging_def using plain health listening trees source units commits by blast
qed

text \<open>The first release is current, the second prepared: its promotion on the obliging host succeeds.\<close>

theorem promotions_succeed_witness:
  "\<exists>d s'. promote demo_release_host second_commit ''promote'' demo_release = (Inr d, s') \<and> rw_links s' CurrentLink = PointsTo second_commit \<and> ready second_commit s'"
  by (rule promotions_succeed [OF demo_obliging demo_ready])

text \<open>On the same host, with a service that does not start: the promotion fails and the first release stays current.\<close>

definition broken_host :: release_env where
  "broken_host = demo_release_host\<lparr>le_command := (\<lambda>_ argv. if hd argv = ''systemctl'' then RanOut else Ran 0 (demo_answer argv) [])\<rparr>"

theorem promotions_are_atomic_witness:
  "case promote broken_host second_commit ''promote'' demo_release of
      (Inl e, s') \<Rightarrow> rw_links s' = rw_links demo_release \<and> rw_dropins s' = rw_dropins demo_release
    | (Inr d, s') \<Rightarrow> rw_links s' CurrentLink = PointsTo (lower (strip second_commit))"
  by (rule promotions_are_atomic) (simp add: broken_host_def demo_release_host_def)

end
