(* ===== verification/MailAuth.thy ===== *)
theory MailAuth
  imports HostControl
begin

text \<open>
  Authentication of the clients that prepare outbound mail, server/outbound_mail_preparation_auth.py: the configuration, the signed
  headers, the table of used nonces and the verification of a request.
\<close>

section \<open>Errors and environment\<close>

datatype mail_auth_error =
  AuthMisconfigured string | PreparationDisabled string | AuthUnavailable string | AuthInvalid string | NonceReplayed string

text \<open>The digests, as hexadecimal text, and the environment variables.\<close>

record mail_auth_env =
  ma_sha256 :: "string \<Rightarrow> string"
  ma_hmac :: "string \<Rightarrow> string \<Rightarrow> string"
  ma_environ :: "string \<Rightarrow> string option"

text \<open>A row of \<open>used_nonces\<close>.\<close>

record used_nonce =
  un_client :: string
  un_nonce :: string
  un_used_at :: int

record verified_client =
  vc_client :: string
  vc_timestamp :: int
  vc_nonce :: string
  vc_content :: string

text \<open>\<open>str.casefold()\<close>; the one letter that folds to a code point above 255 stays.\<close>

definition casefold :: "string \<Rightarrow> string" where
  "casefold t = concat (map (\<lambda>c. if code c = 223 then ''ss'' else [lower_char c]) t)"

section \<open>Configuration\<close>

definition repr_names :: "string list \<Rightarrow> string" where
  "repr_names names = py_repr (JList (map JStr (sort names)))"

definition require_exact_keys :: "json \<Rightarrow> string list \<Rightarrow> string \<Rightarrow> mail_auth_error + doc" where
  "require_exact_keys value expected label =
     (case value of
        JObj d \<Rightarrow>
          if set (map fst d) = set expected then Inr d
          else Inl (AuthMisconfigured (label @ '' keys invalid; missing='' @ repr_names (filter (\<lambda>k. k \<notin> set (map fst d)) expected) @ '', unexpected='' @
            repr_names (filter (\<lambda>k. k \<notin> set expected) (map fst d))))
      | _ \<Rightarrow> Inl (AuthMisconfigured (label @ '' must be an object'')))"

text \<open>\<open>isinstance(value, int)\<close> holds of booleans too.\<close>

definition whole :: "json \<Rightarrow> int option" where
  "whole v = (case v of JInt n \<Rightarrow> Some n | JBool b \<Rightarrow> Some (of_bool b) | _ \<Rightarrow> None)"

definition require_int :: "json \<Rightarrow> string \<Rightarrow> int \<Rightarrow> int \<Rightarrow> mail_auth_error + int" where
  "require_int value label least most =
     (let bad = Inl (AuthMisconfigured (label @ '' must be between '' @ show_int least @ '' and '' @ show_int most)) in
      case whole value of None \<Rightarrow> bad | Some n \<Rightarrow> if least \<le> n \<and> n \<le> most then Inr n else bad)"

definition require_text :: "json \<Rightarrow> string \<Rightarrow> mail_auth_error + string" where
  "require_text value label =
     (case value of
        JStr t \<Rightarrow> if strip t = [] then Inl (AuthMisconfigured (label @ '' must be non-empty text'')) else Inr (strip t)
      | _ \<Rightarrow> Inl (AuthMisconfigured (label @ '' must be non-empty text'')))"

definition client_id_text :: "string \<Rightarrow> bool" where
  "client_id_text t = token_text ''._:-'' 2 63 t"

definition nonce_text :: "string \<Rightarrow> bool" where
  "nonce_text t = chars_text ''_-'' 16 128 t"

definition upper_letter :: "char \<Rightarrow> bool" where
  "upper_letter c = char_in (CHR ''A'') (CHR ''Z'') c"

definition variable_name :: "string \<Rightarrow> bool" where
  "variable_name t \<longleftrightarrow>
     (case t of [] \<Rightarrow> False
      | c # cs \<Rightarrow> upper_letter c \<and> list_all (\<lambda>x. upper_letter x \<or> is_digit x \<or> x = CHR ''_'') cs \<and> 2 \<le> length cs \<and> length cs \<le> 80)"

definition auth_keys :: "string list" where
  "auth_keys = [''enabled'', ''authentication'', ''secret_env'', ''allowed_clients'', ''clock_skew_seconds'', ''nonce_ttl_seconds'', ''nonce_store'',
     ''max_request_bytes'']"

text \<open>The strings of a list, when it holds nothing else.\<close>

definition strings_of :: "json list \<Rightarrow> string list option" where
  "strings_of vs = those (map as_str vs)"

definition check_clients :: "json \<Rightarrow> mail_auth_error + unit" where
  "check_clients value =
     (case value of
        JList vs \<Rightarrow>
          guard (vs \<noteq> [] \<and> int (length vs) \<le> 50) (AuthMisconfigured ''preparation_api.allowed_clients must contain between 1 and 50 clients'')
            (case strings_of vs of
               None \<Rightarrow> Inl (AuthMisconfigured ''preparation_api.allowed_clients is invalid'')
             | Some clients \<Rightarrow>
                 guard (list_all client_id_text clients) (AuthMisconfigured ''preparation_api.allowed_clients is invalid'')
                   (guard (distinct clients) (AuthMisconfigured ''preparation_api.allowed_clients must be unique'') (Inr ())))
      | _ \<Rightarrow> Inl (AuthMisconfigured ''preparation_api.allowed_clients must contain between 1 and 50 clients''))"

text \<open>\<open>validate_config\<close>, with the object it accepted.\<close>

definition validate_auth_config :: "json \<Rightarrow> mail_auth_error + doc" where
  "validate_auth_config value =
     bindE (require_exact_keys value auth_keys ''preparation_api'') (\<lambda>d.
     guard (case jget d ''enabled'' of JBool _ \<Rightarrow> True | _ \<Rightarrow> False) (AuthMisconfigured ''preparation_api.enabled must be boolean'')
     (guard (jget d ''authentication'' = JStr ''hmac_sha256'') (AuthMisconfigured ''unsupported preparation API authentication'')
     (bindE (require_text (jget d ''secret_env'') ''preparation_api.secret_env'') (\<lambda>secret_env.
     guard (variable_name secret_env) (AuthMisconfigured ''preparation_api.secret_env is invalid'')
     (bindE (check_clients (jget d ''allowed_clients'')) (\<lambda>_.
     bindE (require_int (jget d ''clock_skew_seconds'') ''preparation_api.clock_skew_seconds'' 30 900) (\<lambda>skew.
     bindE (require_int (jget d ''nonce_ttl_seconds'') ''preparation_api.nonce_ttl_seconds'' 60 86400) (\<lambda>ttl.
     guard (skew \<le> ttl) (AuthMisconfigured ''preparation_api.nonce_ttl_seconds must not be shorter than clock skew'')
     (bindE (require_text (jget d ''nonce_store'') ''preparation_api.nonce_store'') (\<lambda>_.
     bindE (require_int (jget d ''max_request_bytes'') ''preparation_api.max_request_bytes'' 1024 10485760) (\<lambda>_.
     Inr d)))))))))))"

text \<open>Fields of an accepted configuration.\<close>

definition conf_int :: "doc \<Rightarrow> string \<Rightarrow> int" where
  "conf_int d k = (case whole (jget d k) of Some n \<Rightarrow> n | None \<Rightarrow> 0)"

definition conf_bool :: "doc \<Rightarrow> string \<Rightarrow> bool" where
  "conf_bool d k = truthy (jget d k)"

definition conf_str :: "doc \<Rightarrow> string \<Rightarrow> string" where
  "conf_str d k = (case jget d k of JStr t \<Rightarrow> t | _ \<Rightarrow> [])"

definition conf_list :: "doc \<Rightarrow> string \<Rightarrow> json list" where
  "conf_list d k = (case jget d k of JList vs \<Rightarrow> vs | _ \<Rightarrow> [])"

text \<open>\<open>environment.get(config["secret_env"], "")\<close>: the name as it is written, not stripped.\<close>

definition auth_secret :: "mail_auth_env \<Rightarrow> doc \<Rightarrow> string" where
  "auth_secret env d = (case ma_environ env (conf_str d ''secret_env'') of None \<Rightarrow> [] | Some t \<Rightarrow> t)"

definition auth_status :: "mail_auth_env \<Rightarrow> json \<Rightarrow> mail_auth_error + doc" where
  "auth_status env value =
     bindE (validate_auth_config value) (\<lambda>d.
     Inr [(''enabled'', jget d ''enabled''), (''authentication'', jget d ''authentication''),
       (''runtime_secret_configured'', JBool (32 \<le> int (length (auth_secret env d)))),
       (''allowed_client_count'', JInt (int (length (conf_list d ''allowed_clients'')))), (''clock_skew_seconds'', jget d ''clock_skew_seconds''),
       (''replay_protection'', JStr ''sqlite_nonce_store'')])"

section \<open>Signed headers\<close>

definition canonical_request :: "string \<Rightarrow> string \<Rightarrow> string \<Rightarrow> int \<Rightarrow> string \<Rightarrow> string \<Rightarrow> string" where
  "canonical_request method path client_id timestamp nonce body_sha256 =
     join [CHR 0x0A] [''WWCX-HMAC-SHA256'', upper method, path, client_id, show_int timestamp, nonce, body_sha256]"

definition build_headers :: "mail_auth_env \<Rightarrow> string \<Rightarrow> string \<Rightarrow> string \<Rightarrow> string \<Rightarrow> string \<Rightarrow> int \<Rightarrow> string \<Rightarrow> (string \<times> string) list outcome" where
  "build_headers env secret client_id method path body timestamp nonce =
     guard (32 \<le> int (length secret)) (ValueError ''preparation API secret must contain at least 32 characters'')
     (guard (client_id_text client_id) (ValueError ''preparation API client ID is invalid'')
     (guard (nonce_text nonce) (ValueError ''preparation API nonce is invalid'')
     (let digest = ma_sha256 env body in
      Inr [(''X-WWCX-Client-ID'', client_id), (''X-WWCX-Timestamp'', show_int timestamp), (''X-WWCX-Nonce'', nonce), (''X-WWCX-Content-SHA256'', digest),
        (''X-WWCX-Signature'', ma_hmac env secret (canonical_request method path client_id timestamp nonce digest))])))"

definition normalized_headers :: "(string \<times> string) list \<Rightarrow> (string \<times> string) list" where
  "normalized_headers hs = dict_of (map (\<lambda>(k, v). (casefold k, strip v)) hs)"

definition required_header :: "(string \<times> string) list \<Rightarrow> string \<Rightarrow> mail_auth_error + string" where
  "required_header hs name =
     (case dget hs (casefold name) of
        None \<Rightarrow> Inl (AuthInvalid ''required preparation API header is missing'')
      | Some v \<Rightarrow> if v = [] then Inl (AuthInvalid ''required preparation API header is missing'') else Inr v)"

section \<open>Verification\<close>

type_synonym 'a mail_auth_act = "(mail_auth_error, used_nonce list, 'a) eact"

definition insert_nonce :: "string \<Rightarrow> string \<Rightarrow> int \<Rightarrow> unit mail_auth_act" where
  "insert_nonce client nonce now rows =
     (if list_ex (\<lambda>r. un_client r = client \<and> un_nonce r = nonce) rows then (Inl (NonceReplayed ''preparation API nonce was already used''), rows)
      else (Inr (), rows @ [\<lparr>un_client = client, un_nonce = nonce, un_used_at = now\<rparr>]))"

definition claim_nonce :: "string \<Rightarrow> string \<Rightarrow> int \<Rightarrow> int \<Rightarrow> unit mail_auth_act" where
  "claim_nonce client nonce now ttl =
     transaction (bindS (update_act (filter (\<lambda>r. \<not> un_used_at r < now - ttl))) (\<lambda>_. insert_nonce client nonce now))"

text \<open>A request as it arrives.\<close>

record mail_request =
  mq_headers :: "(string \<times> string) list"
  mq_method :: string
  mq_path :: string
  mq_body :: string

definition checked_timestamp :: "int \<Rightarrow> int \<Rightarrow> string \<Rightarrow> mail_auth_error + int" where
  "checked_timestamp skew now t =
     (case int_of_str t of
        None \<Rightarrow> Inl (AuthInvalid ''preparation API timestamp is invalid'')
      | Some ts \<Rightarrow> if \<bar>now - ts\<bar> > skew then Inl (AuthInvalid ''preparation API timestamp is outside the allowed window'') else Inr ts)"

text \<open>The checks before the nonce is claimed.\<close>

definition check_request :: "mail_auth_env \<Rightarrow> doc \<Rightarrow> int \<Rightarrow> mail_request \<Rightarrow> mail_auth_error + verified_client" where
  "check_request env d now q =
     guard (conf_bool d ''enabled'') (PreparationDisabled ''external preparation API is disabled'')
     (guard (int (length (mq_body q)) \<le> conf_int d ''max_request_bytes'') (AuthInvalid ''preparation API request exceeds size limit'')
     (let hs = normalized_headers (mq_headers q) in
      bindE (required_header hs ''X-WWCX-Client-ID'') (\<lambda>client.
      guard (JStr client \<in> set (conf_list d ''allowed_clients'')) (AuthInvalid ''preparation API client is not allowed'')
      (bindE (required_header hs ''X-WWCX-Timestamp'') (\<lambda>timestamp_text.
      bindE (checked_timestamp (conf_int d ''clock_skew_seconds'') now timestamp_text) (\<lambda>timestamp.
      bindE (required_header hs ''X-WWCX-Nonce'') (\<lambda>nonce.
      guard (nonce_text nonce) (AuthInvalid ''preparation API nonce is invalid'')
      (bindE (map_sum id casefold (required_header hs ''X-WWCX-Content-SHA256'')) (\<lambda>digest.
      guard (lower_hex 64 digest) (AuthInvalid ''preparation API content digest is invalid'')
      (guard (digest = ma_sha256 env (mq_body q)) (AuthInvalid ''preparation API content digest does not match'')
      (bindE (map_sum id casefold (required_header hs ''X-WWCX-Signature'')) (\<lambda>signature.
      guard (lower_hex 64 signature) (AuthInvalid ''preparation API signature is invalid'')
      (guard (32 \<le> int (length (auth_secret env d))) (AuthUnavailable ''preparation API runtime secret is not configured'')
      (guard (signature = ma_hmac env (auth_secret env d) (canonical_request (mq_method q) (mq_path q) client timestamp nonce digest))
        (AuthInvalid ''preparation API signature was not accepted'')
      (Inr \<lparr>vc_client = client, vc_timestamp = timestamp, vc_nonce = nonce, vc_content = digest\<rparr>)))))))))))))))"

definition verify_request :: "mail_auth_env \<Rightarrow> json \<Rightarrow> int \<Rightarrow> mail_request \<Rightarrow> verified_client mail_auth_act" where
  "verify_request env config now q =
     bindS (pure_act (validate_auth_config config)) (\<lambda>d.
     bindS (pure_act (check_request env d now q)) (\<lambda>v.
     bindS (claim_nonce (vc_client v) (vc_nonce v) now (conf_int d ''nonce_ttl_seconds'')) (\<lambda>_. ret v)))"

text \<open>Requests one after another, each at its time.\<close>

definition verify_run :: "mail_auth_env \<Rightarrow> json \<Rightarrow> used_nonce list \<Rightarrow> (int \<times> mail_request) list \<Rightarrow> used_nonce list" where
  "verify_run env config = foldl (\<lambda>rows (now, q). snd (verify_request env config now q rows))"

end
