(* ===== verification/MailAuthTheorems.thy ===== *)
theory MailAuthTheorems
  imports MailAuth
begin

text \<open>
  What the verification of preparation requests promises: it accepts only signed, timely requests of allowed clients, it accepts
  what \<open>build_headers\<close> signs, and it accepts nothing twice as long as nonces are kept for twice the clock skew.
\<close>

lemma mail_guard_Inr_iff: "guard ok e r = Inr v \<longleftrightarrow> ok \<and> r = Inr v"
  by (simp add: guard_def)

lemma map_sum_Inr_iff: "map_sum id f r = Inr v \<longleftrightarrow> (\<exists>x. r = Inr x \<and> v = f x)"
  by (cases r) auto

section \<open>Accepted configurations\<close>

definition auth_settings :: "doc \<Rightarrow> bool" where
  "auth_settings d \<longleftrightarrow>
     (\<exists>b. jget d ''enabled'' = JBool b) \<and> variable_name (strip (conf_str d ''secret_env'')) \<and>
     (\<exists>clients. jget d ''allowed_clients'' = JList (map JStr clients) \<and> clients \<noteq> [] \<and> distinct clients \<and> list_all client_id_text clients) \<and>
     30 \<le> conf_int d ''clock_skew_seconds'' \<and> conf_int d ''clock_skew_seconds'' \<le> 900 \<and>
     conf_int d ''clock_skew_seconds'' \<le> conf_int d ''nonce_ttl_seconds'' \<and> conf_int d ''nonce_ttl_seconds'' \<le> 86400 \<and>
     1024 \<le> conf_int d ''max_request_bytes'' \<and> conf_int d ''max_request_bytes'' \<le> 10485760"

lemma require_int_Inr: "require_int v label lo hi = Inr n \<longleftrightarrow> whole v = Some n \<and> lo \<le> n \<and> n \<le> hi"
  by (auto simp: require_int_def Let_def split: option.split)

lemma require_text_Inr: "require_text v label = Inr t \<longleftrightarrow> (\<exists>u. v = JStr u \<and> t = strip u \<and> t \<noteq> [])"
  by (auto simp: require_text_def split: json.split)

lemma strings_of_Some: "strings_of vs = Some ts \<Longrightarrow> vs = map JStr ts"
proof (induction vs arbitrary: ts)
  case (Cons v vs)
  then show ?case by (cases v) (auto simp: strings_of_def)
qed (simp add: strings_of_def)

lemma check_clients_Inr: "check_clients v = Inr u \<Longrightarrow> \<exists>clients. v = JList (map JStr clients) \<and> clients \<noteq> [] \<and> distinct clients \<and> list_all client_id_text clients"
  by (auto simp: check_clients_def mail_guard_Inr_iff split: json.splits option.splits dest!: strings_of_Some)

lemma validated_settings: "validate_auth_config config = Inr d \<Longrightarrow> config = JObj d \<and> auth_settings d"
proof -
  assume valid: "validate_auth_config config = Inr d"
  then obtain secret u skew ttl most where
    keys: "require_exact_keys config auth_keys ''preparation_api'' = Inr d"
    and on: "case jget d ''enabled'' of JBool _ \<Rightarrow> True | _ \<Rightarrow> False"
    and secret: "require_text (jget d ''secret_env'') ''preparation_api.secret_env'' = Inr secret" "variable_name secret"
    and clients: "check_clients (jget d ''allowed_clients'') = Inr u"
    and ints: "require_int (jget d ''clock_skew_seconds'') ''preparation_api.clock_skew_seconds'' 30 900 = Inr skew"
      "require_int (jget d ''nonce_ttl_seconds'') ''preparation_api.nonce_ttl_seconds'' 60 86400 = Inr ttl" "skew \<le> ttl"
      "require_int (jget d ''max_request_bytes'') ''preparation_api.max_request_bytes'' 1024 10485760 = Inr most"
    unfolding validate_auth_config_def by (simp only: bindE_Inr_iff mail_guard_Inr_iff) blast
  have "config = JObj d" using keys by (auto simp: require_exact_keys_def split: json.splits if_splits)
  moreover have "\<exists>b. jget d ''enabled'' = JBool b" using on by (auto split: json.splits)
  moreover have "variable_name (strip (conf_str d ''secret_env''))" using secret by (auto simp: require_text_Inr conf_str_def)
  ultimately show ?thesis
    using ints check_clients_Inr [OF clients] unfolding auth_settings_def by (simp add: require_int_Inr conf_int_def)
qed

section \<open>Accepted requests\<close>

text \<open>What an accepted request shows: its signature is the HMAC of exactly this method, path, client, time, nonce and body.\<close>

definition authentic :: "mail_auth_env \<Rightarrow> doc \<Rightarrow> int \<Rightarrow> mail_request \<Rightarrow> verified_client \<Rightarrow> bool" where
  "authentic env d now q v \<longleftrightarrow>
     conf_bool d ''enabled'' \<and> JStr (vc_client v) \<in> set (conf_list d ''allowed_clients'') \<and> \<bar>now - vc_timestamp v\<bar> \<le> conf_int d ''clock_skew_seconds'' \<and>
     nonce_text (vc_nonce v) \<and> vc_content v = ma_sha256 env (mq_body q) \<and> 32 \<le> int (length (auth_secret env d)) \<and>
     int (length (mq_body q)) \<le> conf_int d ''max_request_bytes'' \<and>
     (\<exists>signature. dget (normalized_headers (mq_headers q)) (casefold ''X-WWCX-Signature'') = Some signature \<and>
        casefold signature = ma_hmac env (auth_secret env d)
          (canonical_request (mq_method q) (mq_path q) (vc_client v) (vc_timestamp v) (vc_nonce v) (ma_sha256 env (mq_body q))))"

lemma required_header_Inr: "required_header hs name = Inr v \<longleftrightarrow> dget hs (casefold name) = Some v \<and> v \<noteq> []"
  by (auto simp: required_header_def split: option.split)

lemma checked_timestamp_Inr: "checked_timestamp skew now t = Inr ts \<longleftrightarrow> int_of_str t = Some ts \<and> \<bar>now - ts\<bar> \<le> skew"
  by (auto simp: checked_timestamp_def split: option.split)

lemma check_request_authentic: "check_request env d now q = Inr v \<Longrightarrow> authentic env d now q v"
  unfolding check_request_def Let_def
  by (simp only: bindE_Inr_iff mail_guard_Inr_iff map_sum_Inr_iff required_header_Inr checked_timestamp_Inr) (auto simp: authentic_def)

lemma verify_request_Inr:
  "verify_request env config now q rows = (Inr v, rows') \<longleftrightarrow>
     (\<exists>d. validate_auth_config config = Inr d \<and> check_request env d now q = Inr v \<and>
        claim_nonce (vc_client v) (vc_nonce v) now (conf_int d ''nonce_ttl_seconds'') rows = (Inr (), rows'))"
  by (auto simp: verify_request_def bindS_Inr_iff basic_Inr_iff)

definition live_rows :: "int \<Rightarrow> int \<Rightarrow> used_nonce list \<Rightarrow> used_nonce list" where
  "live_rows now ttl = filter (\<lambda>r. \<not> un_used_at r < now - ttl)"

definition known_nonce :: "string \<Rightarrow> string \<Rightarrow> used_nonce list \<Rightarrow> bool" where
  "known_nonce client nonce rows \<longleftrightarrow> (\<exists>r\<in>set rows. un_client r = client \<and> un_nonce r = nonce)"

lemma claim_nonce_cases:
  "claim_nonce client nonce now ttl rows =
     (if known_nonce client nonce (live_rows now ttl rows) then (Inl (NonceReplayed ''preparation API nonce was already used''), rows)
      else (Inr (), live_rows now ttl rows @ [\<lparr>un_client = client, un_nonce = nonce, un_used_at = now\<rparr>]))"
  by (simp add: claim_nonce_def transaction_def bindS_update insert_nonce_def live_rows_def [symmetric] known_nonce_def list_ex_iff)

text \<open>
  A request is accepted only when its client is allowed, its time within the clock skew, and its signature the HMAC under the
  runtime secret of exactly this method, path, client, time, nonce and body, and its nonce is not stored; the nonce is stored then. A
  request that is not accepted leaves the nonces as they are.
\<close>

theorem preparations_are_signed:
  "case verify_request env config now q rows of
     (Inl e, rows') \<Rightarrow> rows' = rows
   | (Inr v, rows') \<Rightarrow>
       \<exists>d. validate_auth_config config = Inr d \<and> authentic env d now q v \<and>
         \<not> known_nonce (vc_client v) (vc_nonce v) (live_rows now (conf_int d ''nonce_ttl_seconds'') rows) \<and> known_nonce (vc_client v) (vc_nonce v) rows'"
proof (cases "verify_request env config now q rows")
  case (Pair r rows')
  show ?thesis
  proof (cases r)
    case (Inl e)
    then have "rows' = rows" using Pair
      by (auto simp: verify_request_def bindS_def pure_act_def claim_nonce_cases ret_def split: sum.splits if_splits)
    then show ?thesis using Pair Inl by simp
  next
    case (Inr v)
    then obtain d where d: "validate_auth_config config = Inr d" "check_request env d now q = Inr v"
      "claim_nonce (vc_client v) (vc_nonce v) now (conf_int d ''nonce_ttl_seconds'') rows = (Inr (), rows')"
      using Pair by (auto simp: verify_request_Inr)
    have "authentic env d now q v" by (rule check_request_authentic [OF d(2)])
    then show ?thesis using Pair Inr d(1,3) by (auto simp: claim_nonce_cases known_nonce_def split: if_splits)
  qed
qed

section \<open>Replays\<close>

lemma verify_keeps_row:
  assumes "validate_auth_config config = Inr d" "r \<in> set rows" "now - conf_int d ''nonce_ttl_seconds'' \<le> un_used_at r"
  shows "r \<in> set (snd (verify_request env config now q rows))"
  using assms by (simp add: verify_request_def bindS_def pure_act_def claim_nonce_cases live_rows_def ret_def split: sum.split)

lemma verify_run_keeps_row:
  assumes "validate_auth_config config = Inr d" "r \<in> set rows"
    and "\<forall>(t, q)\<in>set later. t - conf_int d ''nonce_ttl_seconds'' \<le> un_used_at r"
  shows "r \<in> set (verify_run env config rows later)"
  using assms(2,3)
proof (induction later arbitrary: rows)
  case (Cons tq later)
  obtain t q where tq: "tq = (t, q)" by (cases tq)
  have "r \<in> set (snd (verify_request env config t q rows))" using verify_keeps_row [OF assms(1) Cons.prems(1)] Cons.prems(2) tq by simp
  then show ?case using Cons.IH [of "snd (verify_request env config t q rows)"] Cons.prems(2) tq by (simp add: verify_run_def)
qed (simp add: verify_run_def)

text \<open>
  C39. When nonces are kept for at least twice the clock skew, no request is accepted twice: after an accepted request, whatever
  requests come in between at times up to the present one, no request with its client, nonce and timestamp is accepted.
\<close>

theorem preparations_are_accepted_once:
  assumes "validate_auth_config config = Inr d" "2 * conf_int d ''clock_skew_seconds'' \<le> conf_int d ''nonce_ttl_seconds''"
    and "verify_request env config now q rows = (Inr v, rows1)" "\<forall>(t, _)\<in>set later. t \<le> now'"
    and "verify_request env config now' q' (verify_run env config rows1 later) = (Inr v', rows2)"
  shows "(vc_client v', vc_nonce v', vc_timestamp v') \<noteq> (vc_client v, vc_nonce v, vc_timestamp v)"
proof
  assume same: "(vc_client v', vc_nonce v', vc_timestamp v') = (vc_client v, vc_nonce v, vc_timestamp v)"
  have first: "check_request env d now q = Inr v" "claim_nonce (vc_client v) (vc_nonce v) now (conf_int d ''nonce_ttl_seconds'') rows = (Inr (), rows1)"
    using assms(1,3) by (auto simp: verify_request_Inr)
  have second: "check_request env d now' q' = Inr v'"
    "claim_nonce (vc_client v) (vc_nonce v) now' (conf_int d ''nonce_ttl_seconds'') (verify_run env config rows1 later) = (Inr (), rows2)"
    using assms(1,5) same by (auto simp: verify_request_Inr)
  have "\<bar>now - vc_timestamp v\<bar> \<le> conf_int d ''clock_skew_seconds''" "\<bar>now' - vc_timestamp v\<bar> \<le> conf_int d ''clock_skew_seconds''"
    using check_request_authentic [OF first(1)] check_request_authentic [OF second(1)] same by (simp_all add: authentic_def)
  then have window: "now' - conf_int d ''nonce_ttl_seconds'' \<le> now" using assms(2) by linarith
  define r where "r = \<lparr>un_client = vc_client v, un_nonce = vc_nonce v, un_used_at = now\<rparr>"
  have "r \<in> set rows1" using first(2) by (auto simp: claim_nonce_cases r_def split: if_splits)
  then have "r \<in> set (verify_run env config rows1 later)"
    by (rule verify_run_keeps_row [OF assms(1)]) (use assms(4) window in \<open>force simp: r_def\<close>)
  then have "known_nonce (vc_client v) (vc_nonce v) (live_rows now' (conf_int d ''nonce_ttl_seconds'') (verify_run env config rows1 later))"
    using window by (auto simp: known_nonce_def live_rows_def r_def intro!: bexI [of _ r])
  then show False using second(2) by (simp add: claim_nonce_cases)
qed

section \<open>Signed requests are accepted\<close>

text \<open>Digests are written as 64 lower-case hexadecimal digits.\<close>

definition hex_digests :: "mail_auth_env \<Rightarrow> bool" where
  "hex_digests env \<longleftrightarrow> (\<forall>t. lower_hex 64 (ma_sha256 env t)) \<and> (\<forall>k t. lower_hex 64 (ma_hmac env k t))"

lemma strip_plain: "list_all (\<lambda>c. \<not> is_space c) t \<Longrightarrow> strip t = t"
  by (simp add: strip_def dropWhile_none)

lemma token_chars: "alnum c \<Longrightarrow> \<not> is_space c" "c \<in> set ''._:-'' \<Longrightarrow> \<not> is_space c" "c \<in> set ''_-'' \<Longrightarrow> \<not> is_space c"
proof -
  have "(65 \<le> k \<and> k \<le> 90) \<or> (97 \<le> k \<and> k \<le> 122) \<or> (48 \<le> k \<and> k \<le> 57) \<Longrightarrow>
    \<not> ((9 \<le> k \<and> k \<le> 13) \<or> (28 \<le> k \<and> k \<le> 32) \<or> k = 133 \<or> k = 160)" for k :: nat by presburger
  then show "alnum c \<Longrightarrow> \<not> is_space c" by (simp add: alnum_def char_in_def is_space_def Let_def)
  show "c \<in> set ''._:-'' \<Longrightarrow> \<not> is_space c" "c \<in> set ''_-'' \<Longrightarrow> \<not> is_space c" by (auto simp: is_space_def)
qed

lemma token_plain: "client_id_text t \<Longrightarrow> strip t = t \<and> t \<noteq> []" "nonce_text t \<Longrightarrow> strip t = t \<and> t \<noteq> []"
proof -
  assume "client_id_text t"
  then have "t \<noteq> []" "list_all (\<lambda>c. alnum c \<or> c \<in> set ''._:-'') t" by (auto simp: client_id_text_def token_text_def split: list.splits)
  moreover from this have "list_all (\<lambda>c. \<not> is_space c) t" unfolding list_all_iff using token_chars(1,2) by blast
  ultimately show "strip t = t \<and> t \<noteq> []" using strip_plain by blast
next
  assume "nonce_text t"
  then have "t \<noteq> []" "list_all (\<lambda>c. alnum c \<or> c \<in> set ''_-'') t" by (auto simp: nonce_text_def chars_text_def)
  moreover from this have "list_all (\<lambda>c. \<not> is_space c) t" unfolding list_all_iff using token_chars(1,3) by blast
  ultimately show "strip t = t \<and> t \<noteq> []" using strip_plain by blast
qed

lemma hex_plain: "lower_hex 64 t \<Longrightarrow> strip t = t \<and> casefold t = t \<and> t \<noteq> []"
proof -
  assume hex: "lower_hex 64 t"
  have chars: "\<not> is_space c \<and> code c \<noteq> 223 \<and> lower_char c = c" if "c \<in> set t" for c
    using that hex unfolding lower_hex_def list_all_iff
    by (auto simp: is_digit_def char_in_def is_space_def lower_char_def Let_def dest!: bspec)
  then have "map (\<lambda>c. if code c = 223 then ''ss'' else [lower_char c]) t = map (\<lambda>c. [c]) t" by (intro map_cong) auto
  then have "casefold t = t" unfolding casefold_def by (simp only: concat_map_singleton) simp
  moreover have "strip t = t" using chars by (intro strip_plain) (simp add: list_all_iff)
  ultimately show ?thesis using hex by (auto simp: lower_hex_def)
qed

lemma header_names:
  "casefold ''X-WWCX-Client-ID'' = ''x-wwcx-client-id''" "casefold ''X-WWCX-Timestamp'' = ''x-wwcx-timestamp''" "casefold ''X-WWCX-Nonce'' = ''x-wwcx-nonce''"
  "casefold ''X-WWCX-Content-SHA256'' = ''x-wwcx-content-sha256''" "casefold ''X-WWCX-Signature'' = ''x-wwcx-signature''"
  by code_simp+

lemma built_headers:
  assumes "build_headers env secret c m p body ts n = Inr hs" "hex_digests env" "0 \<le> ts"
  shows "normalized_headers hs = [(''x-wwcx-client-id'', c), (''x-wwcx-timestamp'', show_int ts), (''x-wwcx-nonce'', n),
      (''x-wwcx-content-sha256'', ma_sha256 env body), (''x-wwcx-signature'', ma_hmac env secret (canonical_request m p c ts n (ma_sha256 env body)))]"
    and "32 \<le> int (length secret)" "client_id_text c" "nonce_text n"
proof -
  show built: "32 \<le> int (length secret)" "client_id_text c" "nonce_text n"
    using assms(1) by (simp_all add: build_headers_def mail_guard_Inr_iff)
  have hs: "hs = [(''X-WWCX-Client-ID'', c), (''X-WWCX-Timestamp'', show_int ts), (''X-WWCX-Nonce'', n), (''X-WWCX-Content-SHA256'', ma_sha256 env body),
      (''X-WWCX-Signature'', ma_hmac env secret (canonical_request m p c ts n (ma_sha256 env body)))]"
    using assms(1) by (simp add: build_headers_def mail_guard_Inr_iff Let_def)
  have ts: "strip (show_int ts) = show_int ts" using assms(3) strip_digits [OF show_nat_digits] by (simp add: show_int_def)
  have digests: "strip (ma_sha256 env t) = ma_sha256 env t" "strip (ma_hmac env k t) = ma_hmac env k t" for k t
    using assms(2) hex_plain by (simp_all add: hex_digests_def)
  show "normalized_headers hs = [(''x-wwcx-client-id'', c), (''x-wwcx-timestamp'', show_int ts), (''x-wwcx-nonce'', n),
      (''x-wwcx-content-sha256'', ma_sha256 env body), (''x-wwcx-signature'', ma_hmac env secret (canonical_request m p c ts n (ma_sha256 env body)))]"
    unfolding normalized_headers_def hs
    by (simp add: header_names token_plain built ts digests dict_of_distinct)
qed

text \<open>
  A request with the headers that \<open>build_headers\<close> makes under the runtime secret is accepted, when its client is allowed, its
  time within the clock skew, its body within the limit and its nonce not stored.
\<close>

theorem built_requests_are_accepted:
  assumes "validate_auth_config config = Inr d" "conf_bool d ''enabled''" "hex_digests env" "0 \<le> ts"
    and "build_headers env (auth_secret env d) c m p body ts n = Inr hs" "JStr c \<in> set (conf_list d ''allowed_clients'')"
    and "int (length body) \<le> conf_int d ''max_request_bytes''" "\<bar>now - ts\<bar> \<le> conf_int d ''clock_skew_seconds''"
    and "\<not> known_nonce c n (live_rows now (conf_int d ''nonce_ttl_seconds'') rows)"
  shows "verify_request env config now \<lparr>mq_headers = hs, mq_method = m, mq_path = p, mq_body = body\<rparr> rows =
    (Inr \<lparr>vc_client = c, vc_timestamp = ts, vc_nonce = n, vc_content = ma_sha256 env body\<rparr>,
     live_rows now (conf_int d ''nonce_ttl_seconds'') rows @ [\<lparr>un_client = c, un_nonce = n, un_used_at = now\<rparr>])"
proof -
  note built = built_headers [OF assms(5,3,4)]
  have plain: "c \<noteq> []" "n \<noteq> []" using token_plain built by blast+
  have digests: "lower_hex 64 (ma_sha256 env t)" "casefold (ma_sha256 env t) = ma_sha256 env t" "ma_sha256 env t \<noteq> []"
    "lower_hex 64 (ma_hmac env k t)" "casefold (ma_hmac env k t) = ma_hmac env k t" "ma_hmac env k t \<noteq> []" for k t
    using assms(3) hex_plain by (simp_all add: hex_digests_def)
  have time: "show_int ts \<noteq> []" "int_of_str (show_int ts) = Some ts" using assms(4) by (simp_all add: show_int_def)
  have "check_request env d now \<lparr>mq_headers = hs, mq_method = m, mq_path = p, mq_body = body\<rparr> =
      Inr \<lparr>vc_client = c, vc_timestamp = ts, vc_nonce = n, vc_content = ma_sha256 env body\<rparr>"
    using built(2) assms(8) by (simp add: check_request_def guard_def Let_def built required_header_def header_names plain digests time assms(2,6,7) checked_timestamp_def not_less)
  then show ?thesis
    using assms(9) by (simp add: verify_request_def assms(1) claim_nonce_cases bindS_def pure_act_def ret_def)
qed

text \<open>
  The bound of the previous property is needed, and the configuration check does not demand it: when nonces are kept for less
  than twice the clock skew, a request signed for a moment one skew ahead is accepted now and once more when its window ends.
\<close>

theorem short_retention_replays:
  assumes "validate_auth_config config = Inr d" "conf_bool d ''enabled''" "hex_digests env" "0 \<le> now"
    and "conf_int d ''nonce_ttl_seconds'' < 2 * conf_int d ''clock_skew_seconds''"
    and "build_headers env (auth_secret env d) c m p body (now + conf_int d ''clock_skew_seconds'') n = Inr hs" "JStr c \<in> set (conf_list d ''allowed_clients'')"
    and "int (length body) \<le> conf_int d ''max_request_bytes''" "\<not> known_nonce c n rows"
  shows "\<exists>v rows1 rows2. let q = \<lparr>mq_headers = hs, mq_method = m, mq_path = p, mq_body = body\<rparr> in
    verify_request env config now q rows = (Inr v, rows1) \<and>
    verify_request env config (now + 2 * conf_int d ''clock_skew_seconds'') q rows1 = (Inr v, rows2)"
proof -
  let ?skew = "conf_int d ''clock_skew_seconds''" and ?ttl = "conf_int d ''nonce_ttl_seconds''"
  have skew: "30 \<le> ?skew" using validated_settings [OF assms(1)] by (simp add: auth_settings_def)
  have fresh: "\<not> known_nonce c n (live_rows t ?ttl rows)" for t using assms(9) by (auto simp: known_nonce_def live_rows_def)
  let ?rows1 = "live_rows now ?ttl rows @ [\<lparr>un_client = c, un_nonce = n, un_used_at = now\<rparr>]"
  have "\<not> known_nonce c n (live_rows (now + 2 * ?skew) ?ttl ?rows1)"
    using assms(5,9) by (auto simp: known_nonce_def live_rows_def)
  then show ?thesis
    using built_requests_are_accepted [OF assms(1-3) _ assms(6-8) _ fresh, of now]
      built_requests_are_accepted [OF assms(1-3) _ assms(6-8), of "now + 2 * ?skew" ?rows1] assms(4) skew
    by (simp add: Let_def)
qed

section \<open>An example\<close>

definition demo_mail_env :: mail_auth_env where
  "demo_mail_env = \<lparr>ma_sha256 = (\<lambda>_. replicate 64 (CHR ''a'')), ma_hmac = (\<lambda>_ _. replicate 64 (CHR ''b'')), ma_environ = (\<lambda>_. Some (replicate 32 (CHR ''s'')))\<rparr>"

definition demo_auth_doc :: "int \<Rightarrow> doc" where
  "demo_auth_doc ttl = [(''enabled'', JBool True), (''authentication'', JStr ''hmac_sha256''), (''secret_env'', JStr ''TOKEN''),
     (''allowed_clients'', JList [JStr ''site-admin'']), (''clock_skew_seconds'', JInt 300), (''nonce_ttl_seconds'', JInt ttl),
     (''nonce_store'', JStr ''n''), (''max_request_bytes'', JInt 4096)]"

definition demo_nonce :: "char \<Rightarrow> string" where
  "demo_nonce c = replicate 16 c"

definition demo_signed :: "int \<Rightarrow> char \<Rightarrow> (string \<times> string) list" where
  "demo_signed ts c = (case build_headers demo_mail_env (replicate 32 (CHR ''s'')) ''site-admin'' ''POST'' ''/p'' ''body'' ts (demo_nonce c) of Inr hs \<Rightarrow> hs | Inl _ \<Rightarrow> [])"

definition demo_mail_request :: "int \<Rightarrow> char \<Rightarrow> mail_request" where
  "demo_mail_request ts c = \<lparr>mq_headers = demo_signed ts c, mq_method = ''POST'', mq_path = ''/p'', mq_body = ''body''\<rparr>"

lemma demo_valid: "validate_auth_config (JObj (demo_auth_doc 900)) = Inr (demo_auth_doc 900)" "validate_auth_config (JObj (demo_auth_doc 300)) = Inr (demo_auth_doc 300)"
proof -
  have names: "client_id_text ''site-admin''" "variable_name ''TOKEN''" "strip ''TOKEN'' = ''TOKEN''" "strip ''n'' = ''n''" by code_simp+
  have keys: "require_exact_keys (JObj (demo_auth_doc ttl)) auth_keys label = Inr (demo_auth_doc ttl)" for ttl label
    by (simp add: require_exact_keys_def demo_auth_doc_def auth_keys_def)
  have clients: "check_clients (jget (demo_auth_doc ttl) ''allowed_clients'') = Inr ()" for ttl
    by (simp add: check_clients_def demo_auth_doc_def jget_def strings_of_def guard_def names)
  have valid: "validate_auth_config (JObj (demo_auth_doc ttl)) = Inr (demo_auth_doc ttl)" if "300 \<le> ttl" "ttl \<le> 86400" for ttl
    unfolding validate_auth_config_def keys bindE_simps clients
    using that by (simp add: demo_auth_doc_def jget_def guard_def require_text_def require_int_def whole_def Let_def names)
  show "validate_auth_config (JObj (demo_auth_doc 900)) = Inr (demo_auth_doc 900)" "validate_auth_config (JObj (demo_auth_doc 300)) = Inr (demo_auth_doc 300)"
    by (simp_all add: valid)
qed

lemma demo_settings:
  "conf_bool (demo_auth_doc ttl) ''enabled''" "conf_int (demo_auth_doc ttl) ''clock_skew_seconds'' = 300" "conf_int (demo_auth_doc ttl) ''nonce_ttl_seconds'' = ttl"
  "conf_int (demo_auth_doc ttl) ''max_request_bytes'' = 4096" "JStr ''site-admin'' \<in> set (conf_list (demo_auth_doc ttl) ''allowed_clients'')"
  "auth_secret demo_mail_env (demo_auth_doc ttl) = replicate 32 (CHR ''s'')" "hex_digests demo_mail_env"
proof -
  have "lower_hex 64 (replicate 64 (CHR ''a''))" "lower_hex 64 (replicate 64 (CHR ''b''))" by code_simp+
  then show "hex_digests demo_mail_env" by (simp add: hex_digests_def demo_mail_env_def)
qed (simp_all add: demo_auth_doc_def conf_bool_def conf_int_def whole_def jget_def conf_list_def auth_secret_def demo_mail_env_def)

lemma demo_built: "build_headers demo_mail_env (auth_secret demo_mail_env (demo_auth_doc ttl)) ''site-admin'' ''POST'' ''/p'' ''body'' ts (demo_nonce (CHR ''n'')) = Inr (demo_signed ts (CHR ''n''))"
  "build_headers demo_mail_env (auth_secret demo_mail_env (demo_auth_doc ttl)) ''site-admin'' ''POST'' ''/p'' ''body'' ts (demo_nonce (CHR ''m'')) = Inr (demo_signed ts (CHR ''m''))"
proof -
  have "client_id_text ''site-admin''" "nonce_text (demo_nonce (CHR ''n''))" "nonce_text (demo_nonce (CHR ''m''))" by code_simp+
  then show "build_headers demo_mail_env (auth_secret demo_mail_env (demo_auth_doc ttl)) ''site-admin'' ''POST'' ''/p'' ''body'' ts (demo_nonce (CHR ''n'')) = Inr (demo_signed ts (CHR ''n''))"
    "build_headers demo_mail_env (auth_secret demo_mail_env (demo_auth_doc ttl)) ''site-admin'' ''POST'' ''/p'' ''body'' ts (demo_nonce (CHR ''m'')) = Inr (demo_signed ts (CHR ''m''))"
    by (simp_all add: demo_signed_def demo_settings build_headers_def guard_def Let_def)
qed

text \<open>Accepted at the settings of the repository.\<close>

theorem built_requests_are_accepted_witness:
  "fst (verify_request demo_mail_env (JObj (demo_auth_doc 900)) 1000 (demo_mail_request 1000 (CHR ''n'')) []) =
     Inr \<lparr>vc_client = ''site-admin'', vc_timestamp = 1000, vc_nonce = demo_nonce (CHR ''n''), vc_content = replicate 64 (CHR ''a'')\<rparr>"
  using built_requests_are_accepted [OF demo_valid(1) demo_settings(1) demo_settings(7) _ demo_built(1) demo_settings(5), of 1000 1000 "[]"]
  by (simp add: demo_settings demo_mail_request_def known_nonce_def live_rows_def) (simp add: demo_mail_env_def)

text \<open>Two requests with different nonces are accepted.\<close>

lemma demo_accepted:
  "\<exists>v rows1. verify_request demo_mail_env (JObj (demo_auth_doc 900)) 1000 (demo_mail_request 1000 (CHR ''n'')) [] = (Inr v, rows1) \<and> vc_nonce v = demo_nonce (CHR ''n'') \<and>
     (\<exists>v' rows2. verify_request demo_mail_env (JObj (demo_auth_doc 900)) 1001 (demo_mail_request 1001 (CHR ''m'')) rows1 = (Inr v', rows2) \<and> vc_nonce v' = demo_nonce (CHR ''m''))"
proof -
  let ?rows1 = "live_rows 1000 900 [] @ [\<lparr>un_client = ''site-admin'', un_nonce = demo_nonce (CHR ''n''), un_used_at = 1000\<rparr>]"
  have "demo_nonce (CHR ''n'') \<noteq> demo_nonce (CHR ''m'')" by (simp add: demo_nonce_def)
  then have fresh: "\<not> known_nonce ''site-admin'' (demo_nonce (CHR ''m'')) (live_rows 1001 900 ?rows1)" by (auto simp: known_nonce_def live_rows_def)
  show ?thesis
    using built_requests_are_accepted [OF demo_valid(1) demo_settings(1) demo_settings(7) _ demo_built(1) demo_settings(5), of 1000 1000 "[]"]
      built_requests_are_accepted [OF demo_valid(1) demo_settings(1) demo_settings(7) _ demo_built(2) demo_settings(5), of 1001 1001 ?rows1] fresh
    by (simp add: demo_settings demo_mail_request_def known_nonce_def live_rows_def)
qed

theorem preparations_are_accepted_once_witness:
  "\<exists>v v' rows1 rows2. verify_request demo_mail_env (JObj (demo_auth_doc 900)) 1000 (demo_mail_request 1000 (CHR ''n'')) [] = (Inr v, rows1) \<and>
     verify_request demo_mail_env (JObj (demo_auth_doc 900)) 1001 (demo_mail_request 1001 (CHR ''m'')) rows1 = (Inr v', rows2) \<and>
     (vc_client v', vc_nonce v', vc_timestamp v') \<noteq> (vc_client v, vc_nonce v, vc_timestamp v)"
proof -
  obtain v rows1 v' rows2 where run: "verify_request demo_mail_env (JObj (demo_auth_doc 900)) 1000 (demo_mail_request 1000 (CHR ''n'')) [] = (Inr v, rows1)"
    "verify_request demo_mail_env (JObj (demo_auth_doc 900)) 1001 (demo_mail_request 1001 (CHR ''m'')) rows1 = (Inr v', rows2)"
    using demo_accepted by blast
  have "verify_request demo_mail_env (JObj (demo_auth_doc 900)) 1001 (demo_mail_request 1001 (CHR ''m'')) (verify_run demo_mail_env (JObj (demo_auth_doc 900)) rows1 []) = (Inr v', rows2)"
    using run(2) by (simp add: verify_run_def)
  from preparations_are_accepted_once [OF demo_valid(1) _ run(1) _ this] show ?thesis using run by (simp add: demo_settings)
qed

text \<open>With a retention of one skew, which the check of the configuration accepts, the same request is accepted twice.\<close>

theorem short_retention_replays_witness:
  "\<exists>v rows1 rows2. verify_request demo_mail_env (JObj (demo_auth_doc 300)) 1000 (demo_mail_request 1300 (CHR ''n'')) [] = (Inr v, rows1) \<and>
     verify_request demo_mail_env (JObj (demo_auth_doc 300)) 1600 (demo_mail_request 1300 (CHR ''n'')) rows1 = (Inr v, rows2)"
proof -
  have "build_headers demo_mail_env (auth_secret demo_mail_env (demo_auth_doc 300)) ''site-admin'' ''POST'' ''/p'' ''body''
      (1000 + conf_int (demo_auth_doc 300) ''clock_skew_seconds'') (demo_nonce (CHR ''n'')) = Inr (demo_signed 1300 (CHR ''n''))"
    unfolding demo_settings(2) by (simp add: demo_built)
  from short_retention_replays [OF demo_valid(2) demo_settings(1) demo_settings(7) _ _ this demo_settings(5), of "[]"]
  show ?thesis by (simp add: demo_settings demo_mail_request_def known_nonce_def Let_def)
qed

end
