(* ===== verification/MailPolicy.thy ===== *)
theory MailPolicy
  imports MailAuth
begin

text \<open>
  The policy of outbound mail, server/outbound_mail_policy.py: its validation, recipients and sender, the correspondence footer, and
  the composition of a message with its control headers and audit record.
\<close>

section \<open>Checks\<close>

definition policy_text :: "json \<Rightarrow> string \<Rightarrow> string outcome" where
  "policy_text value label =
     (let bad = Inl (ValueError (label @ '' must be non-empty text'')) in
      case value of JStr t \<Rightarrow> if strip t = [] then bad else Inr (strip t) | _ \<Rightarrow> bad)"

definition policy_bool :: "json \<Rightarrow> string \<Rightarrow> bool outcome" where
  "policy_bool value label = (case value of JBool b \<Rightarrow> Inr b | _ \<Rightarrow> Inl (ValueError (label @ '' must be boolean'')))"

definition policy_keys :: "json \<Rightarrow> string list \<Rightarrow> string \<Rightarrow> doc outcome" where
  "policy_keys value expected label =
     (case value of
        JObj d \<Rightarrow>
          if set (map fst d) = set expected then Inr d
          else Inl (ValueError (label @ '' keys invalid; missing='' @ repr_names (filter (\<lambda>k. k \<notin> set (map fst d)) expected) @ '', unexpected='' @
            repr_names (filter (\<lambda>k. k \<notin> set expected) (map fst d))))
      | _ \<Rightarrow> Inl (ValueError (label @ '' must be an object'')))"

fun check_each :: "(string \<times> json \<Rightarrow> 'a outcome) \<Rightarrow> doc \<Rightarrow> unit outcome" where
  "check_each f [] = Inr ()"
| "check_each f (kv # d) = bindE (f kv) (\<lambda>_. check_each f d)"

definition check_bools :: "doc \<Rightarrow> string \<Rightarrow> unit outcome" where
  "check_bools d label = check_each (\<lambda>(k, v). policy_bool v (label @ k)) d"

text \<open>The named fields of a section, as booleans.\<close>

definition named :: "doc \<Rightarrow> string list \<Rightarrow> doc" where
  "named d ks = map (\<lambda>k. (k, jget d k)) ks"

definition email_char :: "char \<Rightarrow> bool" where
  "email_char c \<longleftrightarrow> \<not> is_space c \<and> c \<noteq> CHR 0x40 \<and> c \<noteq> CHR 0x3C \<and> c \<noteq> CHR 0x3E"

text \<open>\<open>EMAIL_RE\<close>: one at sign, a dot inside the domain.\<close>

definition email_text :: "string \<Rightarrow> bool" where
  "email_text t \<longleftrightarrow>
     (case split_on (CHR 0x40) t of
        [l, d] \<Rightarrow> l \<noteq> [] \<and> list_all email_char l \<and> list_all email_char d \<and> CHR ''.'' \<in> set (butlast (tl d))
      | _ \<Rightarrow> False)"

definition control_char :: "char \<Rightarrow> bool" where
  "control_char c \<longleftrightarrow> upper_letter c \<or> is_digit c \<or> c \<in> set ''._:-''"

definition control_text :: "string \<Rightarrow> bool" where
  "control_text t \<longleftrightarrow>
     (case t of [] \<Rightarrow> False
      | c # cs \<Rightarrow> (upper_letter c \<or> is_digit c) \<and> list_all control_char cs \<and> 5 \<le> length cs \<and> length cs \<le> 127)"

definition placeholder_address :: string where
  "placeholder_address = ''CONFIGURE_AT_DEPLOYMENT''"

definition message_classes :: "string list" where
  "message_classes = [''business_correspondence'', ''commercial'', ''legal_notice'', ''support'']"

definition policy_contract :: string where
  "policy_contract = ''wwcx.outbound-mail-policy.v1''"

definition policy_section_keys :: "string list" where
  "policy_section_keys = [''contract'', ''enabled'', ''deployment_authorized'', ''smtp_cutover_authorized'', ''organization'', ''footer'', ''tracking'',
     ''audit'', ''delivery'']"

definition organization_keys :: "string list" where
  "organization_keys = [''legal_name'', ''operating_name'', ''website'', ''privacy_url'', ''contact_email'', ''mailing_address'']"

definition footer_keys :: "string list" where
  "footer_keys = [''append_to_plain_text'', ''append_to_html'', ''include_confidentiality_notice'', ''include_non_creation_caveat'', ''include_action_link'',
     ''include_tracking_disclosure'', ''require_unsubscribe_for_commercial'']"

definition tracking_keys :: "string list" where
  "tracking_keys = [''action_base_url'', ''transparent_action_links'', ''hidden_open_tracking'', ''device_fingerprinting'', ''collect_full_ip'',
     ''ip_storage_mode'', ''retention_days'']"

definition audit_keys :: "string list" where
  "audit_keys = [''write_jsonl'', ''record_recipient_addresses'', ''record_body'', ''record_action_token'', ''record_action_token_hash'']"

definition delivery_keys :: "string list" where
  "delivery_keys = [''provider'', ''allow_prepare'', ''allow_external_submission'', ''allow_live_delivery'', ''allowed_from_domains'', ''max_recipients'',
     ''message_size_limit_bytes'']"

text \<open>A whole number between two bounds; booleans count as 0 and 1.\<close>

definition between :: "json \<Rightarrow> int \<Rightarrow> int \<Rightarrow> bool" where
  "between v least most \<longleftrightarrow> (case whole v of None \<Rightarrow> False | Some n \<Rightarrow> least \<le> n \<and> n \<le> most)"

definition check_organization :: "json \<Rightarrow> doc outcome" where
  "check_organization value =
     bindE (policy_keys value organization_keys ''organization'') (\<lambda>d.
     bindE (check_each (\<lambda>(k, v). policy_text v (''organization.'' @ k)) d) (\<lambda>_.
     guard (email_text (conf_str d ''contact_email'')) (ValueError ''organization.contact_email is invalid'') (Inr d)))"

definition check_footer :: "json \<Rightarrow> doc outcome" where
  "check_footer value = bindE (policy_keys value footer_keys ''footer'') (\<lambda>d. bindE (check_bools d ''footer.'') (\<lambda>_. Inr d))"

definition check_tracking :: "json \<Rightarrow> doc outcome" where
  "check_tracking value =
     bindE (policy_keys value tracking_keys ''tracking'') (\<lambda>d.
     bindE (policy_text (jget d ''action_base_url'') ''tracking.action_base_url'') (\<lambda>_.
     bindE (check_bools (named d [''transparent_action_links'', ''hidden_open_tracking'', ''device_fingerprinting'', ''collect_full_ip'']) ''tracking.'') (\<lambda>_.
     guard (\<not> conf_bool d ''hidden_open_tracking'') (ValueError ''hidden open tracking is prohibited'')
     (guard (\<not> conf_bool d ''device_fingerprinting'') (ValueError ''device fingerprinting is prohibited'')
     (guard (\<not> conf_bool d ''collect_full_ip'') (ValueError ''full IP-address storage is prohibited by this contract'')
     (bindE (hashable (jget d ''ip_storage_mode'')) (\<lambda>mode.
     guard (mode \<in> {JStr ''none'', JStr ''truncated'', JStr ''keyed_hash''}) (ValueError ''unsupported IP storage mode'')
     (guard (between (jget d ''retention_days'') 1 730) (ValueError ''tracking.retention_days must be between 1 and 730'') (Inr d)))))))))"

definition check_audit :: "json \<Rightarrow> doc outcome" where
  "check_audit value =
     bindE (policy_keys value audit_keys ''audit'') (\<lambda>d.
     bindE (check_bools d ''audit.'') (\<lambda>_.
     guard (\<not> (conf_bool d ''record_body'' \<or> conf_bool d ''record_action_token'' \<or> \<not> conf_bool d ''record_action_token_hash''))
       (ValueError ''audit policy would retain prohibited content'') (Inr d)))"

definition providers :: "string list" where
  "providers = [''disabled'', ''smtp_submission'', ''gmail_api'', ''microsoft_graph'', ''manual_export'']"

definition check_delivery :: "json \<Rightarrow> doc outcome" where
  "check_delivery value =
     bindE (policy_keys value delivery_keys ''delivery'') (\<lambda>d.
     bindE (hashable (jget d ''provider'')) (\<lambda>provider.
     guard (provider \<in> set (map JStr providers)) (ValueError ''delivery.provider is unsupported'')
     (bindE (check_bools (named d [''allow_prepare'', ''allow_external_submission'', ''allow_live_delivery'']) ''delivery.'') (\<lambda>_.
     guard (conf_list d ''allowed_from_domains'' \<noteq> []) (ValueError ''allowed_from_domains must be non-empty'')
     (guard (between (jget d ''max_recipients'') 1 500) (ValueError ''invalid max_recipients'')
     (guard (between (jget d ''message_size_limit_bytes'') 1024 10485760) (ValueError ''invalid message size limit'') (Inr d)))))))"

text \<open>The conditions across sections.\<close>

definition check_gates :: "doc \<Rightarrow> doc \<Rightarrow> doc \<Rightarrow> doc \<Rightarrow> doc \<Rightarrow> unit outcome" where
  "check_gates p org footer tracking delivery =
     guard (\<not> (conf_bool p ''enabled'' \<and> \<not> conf_bool p ''deployment_authorized'')) (ValueError ''enabled policy requires deployment authorization'')
     (guard (\<not> (conf_bool delivery ''allow_external_submission'' \<and> \<not> conf_bool p ''enabled'')) (ValueError ''external submission requires an enabled policy'')
     (bindE (if conf_bool delivery ''allow_live_delivery'' then
        guard (conf_bool p ''enabled'' \<and> conf_bool p ''deployment_authorized'' \<and> conf_bool p ''smtp_cutover_authorized'')
          (ValueError ''live delivery requires all cutover gates'')
        (guard (jget delivery ''provider'' \<notin> {JStr ''disabled'', JStr ''manual_export''}) (ValueError ''live delivery requires a delivery provider'')
        (guard (jget org ''mailing_address'' \<noteq> JStr placeholder_address) (ValueError ''live delivery requires a mailing address'') (Inr ())))
      else Inr ()) (\<lambda>_.
     guard (\<not> (conf_bool footer ''include_action_link'' \<and> (\<not> conf_bool tracking ''transparent_action_links'' \<or> \<not> conf_bool footer ''include_tracking_disclosure'')))
       (ValueError ''action links require disclosure'') (Inr ()))))"

definition validate_policy :: "json \<Rightarrow> doc outcome" where
  "validate_policy value =
     bindE (policy_keys value policy_section_keys ''policy'') (\<lambda>p.
     guard (jget p ''contract'' = JStr policy_contract) (ValueError ''unsupported policy contract'')
     (bindE (check_bools (named p [''enabled'', ''deployment_authorized'', ''smtp_cutover_authorized'']) []) (\<lambda>_.
     bindE (check_organization (jget p ''organization'')) (\<lambda>org.
     bindE (check_footer (jget p ''footer'')) (\<lambda>footer.
     bindE (check_tracking (jget p ''tracking'')) (\<lambda>tracking.
     bindE (check_audit (jget p ''audit'')) (\<lambda>_.
     bindE (check_delivery (jget p ''delivery'')) (\<lambda>delivery.
     bindE (check_gates p org footer tracking delivery) (\<lambda>_. Inr p)))))))))"

text \<open>A section of a policy that has been validated.\<close>

definition section_of :: "doc \<Rightarrow> string \<Rightarrow> doc" where
  "section_of p k = (case jget p k of JObj d \<Rightarrow> d | _ \<Rightarrow> [])"

section \<open>Addresses\<close>

definition normalize_recipients :: "string list \<Rightarrow> int \<Rightarrow> string list outcome" where
  "normalize_recipients values max_count =
     bindE (check_each (\<lambda>(_, v). policy_text v ''recipient'') (map (\<lambda>v. ([], JStr v)) values)) (\<lambda>_.
     let result = sort (remdups (map (\<lambda>v. casefold (strip v)) values)) in
     guard (result \<noteq> [] \<and> int (length result) \<le> max_count \<and> list_all (\<lambda>v. email_text v \<and> CHR 0x0D \<notin> set v \<and> CHR 0x0A \<notin> set v) result)
       (ValueError ''recipient address or count is invalid'') (Inr result))"

definition validate_from_address :: "json \<Rightarrow> json \<Rightarrow> string outcome" where
  "validate_from_address policy value =
     bindE (validate_policy policy) (\<lambda>p.
     bindE (policy_text value ''from_address'') (\<lambda>t.
     let address = casefold t in
     guard (email_text address \<and> after_last (CHR 0x40) address \<in> set (map (\<lambda>x. casefold (py_str x)) (conf_list (section_of p ''delivery'') ''allowed_from_domains'')))
       (ValueError ''from_address domain is not allowed'') (Inr address)))"

section \<open>Composition\<close>

text \<open>The moment of a composition as the texts the code makes of it, the random token and SHA-256.\<close>

record compose_env =
  ce_iso :: string
  ce_iso_seconds :: string
  ce_stamp :: string
  ce_token :: string
  ce_sha256 :: "string \<Rightarrow> string"

text \<open>\<open>quote(token, safe="")\<close>: percent signs with the bytes of the UTF-8 encoding.\<close>

definition quote_char :: "char \<Rightarrow> string" where
  "quote_char c =
     (let n = code c; byte = (\<lambda>b. CHR ''%'' # upper (hex2 b)) in
      if alnum c \<or> c \<in> set ''_.-~'' then [c] else if n < 128 then byte n else byte (192 + n div 64) @ byte (128 + n mod 64))"

definition strip_end :: "char \<Rightarrow> string \<Rightarrow> string" where
  "strip_end c t = rev (dropWhile (\<lambda>x. x = c) (rev t))"

definition build_action_url :: "json \<Rightarrow> string \<Rightarrow> string outcome" where
  "build_action_url base token =
     bindE (policy_text base ''base_url'') (\<lambda>b. bindE (policy_text (JStr token) ''token'') (\<lambda>t.
     Inr (strip_end (CHR ''/'') b @ ''/'' @ concat (map quote_char t))))"

definition derive_control_id :: "compose_env \<Rightarrow> json \<Rightarrow> string list \<Rightarrow> string outcome" where
  "derive_control_id env subject recipients =
     bindE (policy_text subject ''subject'') (\<lambda>s. bindE (normalize_recipients recipients 500) (\<lambda>rs.
     Inr (''WWCX-'' @ ce_stamp env @ ''-'' @ upper (take 12 (ce_sha256 env (canonical_json (JList [JStr s, JList (map JStr rs), JStr (ce_iso env)])))))))"

definition control :: "json \<Rightarrow> string \<Rightarrow> string outcome" where
  "control value label =
     bindE (policy_text value label) (\<lambda>t. guard (control_text t) (ValueError (label @ '' contains unsupported characters'')) (Inr t))"

text \<open>Optional identifiers: \<open>None\<close> and the empty text are no identifier.\<close>

definition given :: "string option \<Rightarrow> string option" where
  "given v = (case v of None \<Rightarrow> None | Some t \<Rightarrow> if t = [] then None else Some t)"

definition optional_control :: "string option \<Rightarrow> string \<Rightarrow> string option outcome" where
  "optional_control v label = (case given v of None \<Rightarrow> Inr None | Some t \<Rightarrow> map_sum id Some (control (JStr t) label))"

definition build_control_headers :: "string \<Rightarrow> string option \<Rightarrow> string option \<Rightarrow> (string \<times> string) list outcome" where
  "build_control_headers control_id case_id action_id =
     bindE (control (JStr control_id) ''control_id'') (\<lambda>c.
     bindE (optional_control case_id ''case_id'') (\<lambda>case'.
     bindE (optional_control action_id ''action_id'') (\<lambda>action.
     let h = [(''X-WWCX-Control-ID'', c), (''X-WWCX-Policy'', policy_contract), (''X-WWCX-Tracking'', ''disclosed-action-link; no-hidden-pixel'')] @
       (case case' of None \<Rightarrow> [] | Some t \<Rightarrow> [(''X-WWCX-Case-ID'', t)]) @ (case action of None \<Rightarrow> [] | Some t \<Rightarrow> [(''X-WWCX-Action-ID'', t)]) in
     guard (list_all (\<lambda>(_, v). CHR 0x0D \<notin> set v \<and> CHR 0x0A \<notin> set v) h) (ValueError ''unsafe header value'') (Inr h))))"

definition footer_marker :: string where
  "footer_marker = CHR 0x5B # ''WWCX-CORRESPONDENCE-CONTROL'' @ [CHR 0x5D]"

text \<open>Who signs, and the links of the footer.\<close>

record footer_request =
  fr_class :: string
  fr_signer :: string
  fr_title :: string
  fr_control_id :: string
  fr_action_url :: "string option"
  fr_unsubscribe :: "string option"

definition footer_lines :: "doc \<Rightarrow> footer_request \<Rightarrow> string \<Rightarrow> string \<Rightarrow> string \<Rightarrow> string list \<Rightarrow> string list" where
  "footer_lines p r signer title control_id link =
     (let footer = section_of p ''footer''; org = section_of p ''organization'' in
      [''--'', signer, title, conf_str org ''operating_name'' @ '' | '' @ conf_str org ''legal_name'', conf_str org ''mailing_address'',
       ''Email: '' @ conf_str org ''contact_email'' @ '' | Web: '' @ conf_str org ''website'', []] @
      [footer_marker, ''Correspondence control: '' @ control_id] @ link @
      (if conf_bool footer ''include_tracking_disclosure''
       then [''Access to the linked correspondence record may be logged for security, delivery verification, records management, and dispute resolution.'',
         ''Privacy information: '' @ conf_str org ''privacy_url''] else []) @
      (if conf_bool footer ''include_confidentiality_notice''
       then [[], ''CONFIDENTIALITY AND RECORDS NOTICE: This message and any attachments may contain confidential information intended for the addressed recipient. If received in error, notify the sender and delete the material.'']
       else []) @
      (if conf_bool footer ''include_non_creation_caveat''
       then [''This notice does not create confidentiality, privilege, a contractual duty, or other legal rights where they do not otherwise exist.''] else []) @
      (case given (fr_unsubscribe r) of
         Some u \<Rightarrow> if fr_class r = ''commercial'' then [[], ''Commercial-message preferences or unsubscribe: '' @ u] else []
       | None \<Rightarrow> []))"

definition render_plain_footer :: "json \<Rightarrow> footer_request \<Rightarrow> string outcome" where
  "render_plain_footer policy r =
     bindE (validate_policy policy) (\<lambda>p.
     guard (fr_class r \<in> set message_classes) (ValueError ''unsupported message class'')
     (bindE (if fr_class r = ''commercial'' \<and> conf_bool (section_of p ''footer'') ''require_unsubscribe_for_commercial''
        then policy_text (opt_str (fr_unsubscribe r)) ''unsubscribe_url'' else Inr []) (\<lambda>_.
     bindE (policy_text (JStr (fr_signer r)) ''signer_name'') (\<lambda>signer.
     bindE (policy_text (JStr (fr_title r)) ''signer_title'') (\<lambda>title.
     bindE (control (JStr (fr_control_id r)) ''control_id'') (\<lambda>c.
     bindE (if conf_bool (section_of p ''footer'') ''include_action_link''
        then map_sum id (\<lambda>u. [''View the correspondence record or acknowledge receipt: '' @ u]) (policy_text (opt_str (fr_action_url r)) ''action_url'')
        else Inr []) (\<lambda>link.
     Inr (rstrip (join [CHR 0x0A] (footer_lines p r signer title c link)) @ [CHR 0x0A]))))))))"

text \<open>\<open>needle in text\<close>.\<close>

fun body_contains :: "string \<Rightarrow> string \<Rightarrow> bool" where
  "body_contains needle [] \<longleftrightarrow> needle = []"
| "body_contains needle (c # t) \<longleftrightarrow> starts_with (c # t) needle \<or> body_contains needle t"

definition html_char :: "char \<Rightarrow> string" where
  "html_char c =
     (let n = code c in
      if n = 38 then ''&amp;'' else if n = 60 then ''&lt;'' else if n = 62 then ''&gt;'' else if n = 34 then ''&quot;''
      else if n = 39 then ''&#x27;'' else [c])"

definition html_marker :: string where
  "html_marker = ''data-wwcx-correspondence-control='' @ [CHR 0x22, CHR ''1'', CHR 0x22]"

definition render_html_footer :: "json \<Rightarrow> footer_request \<Rightarrow> string outcome" where
  "render_html_footer policy r =
     map_sum id (\<lambda>footer.
       ''<div '' @ html_marker @ '' style='' @ [CHR 0x22] @
       ''margin-top:24px;border-top:1px solid #bbb;padding-top:14px;font-family:Arial,sans-serif;font-size:12px;line-height:1.45;color:#444'' @
       [CHR 0x22, CHR 0x3E] @ join ''<br>'' (map (\<lambda>l. concat (map html_char l)) (split_on (CHR 0x0A) (rstrip footer))) @ ''</div>'')
       (render_plain_footer policy r)"

definition append_plain_footer :: "string \<Rightarrow> string \<Rightarrow> string" where
  "append_plain_footer body footer =
     (let b = rstrip body in
      if body_contains footer_marker b then b @ [CHR 0x0A] else if b \<noteq> [] then b @ [CHR 0x0A, CHR 0x0A] @ footer else footer)"

definition append_html_footer :: "string \<Rightarrow> string \<Rightarrow> string" where
  "append_html_footer body footer = (if body_contains html_marker body then body else rstrip body @ footer)"

text \<open>The length of the UTF-8 encoding.\<close>

definition utf8_size :: "string \<Rightarrow> int" where
  "utf8_size t = int (length t + length (filter (\<lambda>c. 128 \<le> code c) t))"

record compose_request =
  cq_body :: string
  cq_subject :: string
  cq_recipients :: "string list"
  cq_from :: json
  cq_signer :: string
  cq_title :: string
  cq_class :: string
  cq_html :: "string option"
  cq_control_id :: "string option"
  cq_case_id :: "string option"
  cq_action_id :: "string option"
  cq_unsubscribe :: "string option"

record composed =
  co_body :: string
  co_html :: "string option"
  co_headers :: "(string \<times> string) list"
  co_control_id :: string
  co_action_url :: string
  co_token :: string
  co_token_sha256 :: string
  co_from :: string
  co_recipients :: "string list"
  co_audit :: doc
  co_provider :: json
  co_live :: json

definition composition_audit :: "compose_env \<Rightarrow> doc \<Rightarrow> compose_request \<Rightarrow> string list \<Rightarrow> string \<Rightarrow> string \<Rightarrow> string \<Rightarrow> doc outcome" where
  "composition_audit env p q recipients from_address control_id token_hash =
     (let delivery = section_of p ''delivery'' in
      bindE (control (JStr control_id) ''control_id'') (\<lambda>c.
      bindE (policy_text (JStr (cq_subject q)) ''subject'') (\<lambda>subject.
      bindE (optional_control (cq_case_id q) ''case_id'') (\<lambda>case'.
      bindE (optional_control (cq_action_id q) ''action_id'') (\<lambda>action.
      Inr ([(''event'', JStr ''outbound_message_prepared''), (''occurred_at'', JStr (ce_iso_seconds env)), (''control_id'', JStr c),
        (''message_class'', JStr (cq_class q)), (''subject_sha256'', JStr (ce_sha256 env subject)), (''body_sha256'', JStr (ce_sha256 env (cq_body q))),
        (''recipient_count'', JInt (int (length recipients))), (''from_address'', JStr from_address), (''action_token_sha256'', JStr token_hash),
        (''policy_contract'', JStr policy_contract), (''delivery_provider'', jget delivery ''provider''),
        (''live_delivery_authorized'', jget delivery ''allow_live_delivery'')] @
        (if conf_bool (section_of p ''audit'') ''record_recipient_addresses'' then [(''recipients'', JList (map JStr recipients))] else []) @
        (case case' of None \<Rightarrow> [] | Some t \<Rightarrow> [(''case_id'', JStr t)]) @ (case action of None \<Rightarrow> [] | Some t \<Rightarrow> [(''action_id'', JStr t)])))))))"

definition compose_message :: "compose_env \<Rightarrow> json \<Rightarrow> compose_request \<Rightarrow> composed outcome" where
  "compose_message env policy q =
     bindE (validate_policy policy) (\<lambda>p.
     let delivery = section_of p ''delivery'' in
     guard (conf_bool delivery ''allow_prepare'') (ValueError ''message preparation is disabled'')
     (bindE (normalize_recipients (cq_recipients q) (conf_int delivery ''max_recipients'')) (\<lambda>recipients.
     bindE (validate_from_address policy (cq_from q)) (\<lambda>from_address.
     bindE (case given (cq_control_id q) of Some c \<Rightarrow> Inr c | None \<Rightarrow> derive_control_id env (JStr (cq_subject q)) recipients) (\<lambda>control_id.
     let token = ce_token env; token_hash = ce_sha256 env token in
     bindE (build_action_url (jget (section_of p ''tracking'') ''action_base_url'') token) (\<lambda>action_url.
     let r = \<lparr>fr_class = cq_class q, fr_signer = cq_signer q, fr_title = cq_title q, fr_control_id = control_id, fr_action_url = Some action_url,
       fr_unsubscribe = cq_unsubscribe q\<rparr> in
     bindE (render_plain_footer policy r) (\<lambda>footer.
     let plain = append_plain_footer (cq_body q) footer in
     bindE (case cq_html q of None \<Rightarrow> Inr None | Some h \<Rightarrow> map_sum id (\<lambda>f. Some (append_html_footer h f)) (render_html_footer policy r)) (\<lambda>html.
     guard (utf8_size plain + utf8_size (case html of None \<Rightarrow> [] | Some h \<Rightarrow> h) \<le> conf_int delivery ''message_size_limit_bytes'')
       (ValueError ''prepared message exceeds size limit'')
     (bindE (composition_audit env p q recipients from_address control_id token_hash) (\<lambda>audit.
     bindE (build_control_headers control_id (cq_case_id q) (cq_action_id q)) (\<lambda>headers.
     Inr \<lparr>co_body = plain, co_html = html, co_headers = headers, co_control_id = control_id, co_action_url = action_url, co_token = token,
       co_token_sha256 = token_hash, co_from = from_address, co_recipients = recipients, co_audit = audit, co_provider = jget delivery ''provider'',
       co_live = jget delivery ''allow_live_delivery''\<rparr>)))))))))))"

section \<open>Activated copies\<close>

definition set_in :: "json \<Rightarrow> string \<Rightarrow> (string \<times> json) list \<Rightarrow> json outcome" where
  "set_in policy k updates =
     (case policy of
        JObj p \<Rightarrow>
          (case dget p k of
             None \<Rightarrow> Inl (KeyError k)
           | Some (JObj d) \<Rightarrow> Inr (JObj (dset p k (JObj (foldl (\<lambda>d (a, v). dset d a v) d updates))))
           | Some _ \<Rightarrow> Inl (TypeError ''item assignment''))
      | _ \<Rightarrow> Inl (TypeError ''item assignment''))"

definition set_fields :: "json \<Rightarrow> (string \<times> json) list \<Rightarrow> json outcome" where
  "set_fields policy updates =
     (case policy of JObj p \<Rightarrow> Inr (JObj (foldl (\<lambda>d (a, v). dset d a v) p updates)) | _ \<Rightarrow> Inl (TypeError ''item assignment''))"

definition prepare_only_copy :: "json \<Rightarrow> json \<Rightarrow> json outcome" where
  "prepare_only_copy policy mailing_address =
     bindE (set_fields policy [(''enabled'', JBool True), (''deployment_authorized'', JBool True)]) (\<lambda>c.
     bindE (policy_text mailing_address ''mailing_address'') (\<lambda>address.
     bindE (set_in c ''organization'' [(''mailing_address'', JStr address)]) (\<lambda>c.
     bindE (set_in c ''delivery'' [(''provider'', JStr ''manual_export''), (''allow_prepare'', JBool True), (''allow_external_submission'', JBool True),
       (''allow_live_delivery'', JBool False)]) (\<lambda>c.
     bindE (validate_policy c) (\<lambda>_. Inr c)))))"

definition activated_copy :: "json \<Rightarrow> json \<Rightarrow> json outcome" where
  "activated_copy policy mailing_address =
     bindE (prepare_only_copy policy mailing_address) (\<lambda>c.
     bindE (set_fields c [(''smtp_cutover_authorized'', JBool True)]) (\<lambda>c.
     bindE (set_in c ''delivery'' [(''provider'', JStr ''smtp_submission''), (''allow_live_delivery'', JBool True)]) (\<lambda>c.
     bindE (validate_policy c) (\<lambda>_. Inr c))))"

end
