(* ===== verification/MailGateway.thy ===== *)
theory MailGateway
  imports MailPolicy
begin

text \<open>
  The outbound-mail gateway, server/outbound_mail_gateway.py, with the final scan (mail_final_scan.py) and the submission boundary
  (mail_secure_submission.py): configuration, normalization of requests, the delivery gate, SMTP submission and the audit file.
\<close>

section \<open>Errors and environment\<close>

datatype mail_error =
  GatewayFailed string | MailMisconfigured string | DeliveryDisabled string | ProviderUnavailable string | MailPython py_error

text \<open>Exceptions of the policy module and of the configuration of the preparation API, as they pass through.\<close>

definition policy_step :: "'a outcome \<Rightarrow> mail_error + 'a" where
  "policy_step = map_sum MailPython id"

definition auth_message :: "mail_auth_error \<Rightarrow> string" where
  "auth_message e =
     (case e of AuthMisconfigured m \<Rightarrow> m | PreparationDisabled m \<Rightarrow> m | AuthUnavailable m \<Rightarrow> m | AuthInvalid m \<Rightarrow> m | NonceReplayed m \<Rightarrow> m)"

definition configured :: "mail_auth_error + 'a \<Rightarrow> mail_error + 'a" where
  "configured = map_sum (\<lambda>e. MailMisconfigured (auth_message e)) id"

text \<open>What a submission does: an exception, before or after the message was taken, or the recipients the server refused.\<close>

datatype smtp_result = SmtpFailed bool py_error | Refused "string list"

text \<open>A message as it is built: its headers and its text.\<close>

record mime_message =
  mm_headers :: "(string \<times> string) list"
  mm_content :: string

text \<open>
  The environment variables, the texts of the clock, the fresh message id, the serialization of a message, the SMTP server and
  the final scanner, which answers on the serialized bytes.
\<close>

record mail_env =
  me_auth :: mail_auth_env
  me_compose :: compose_env
  me_date :: string
  me_now :: string
  me_message_id :: string
  me_serialize :: "mime_message \<Rightarrow> string"
  me_smtp :: "string \<Rightarrow> string list \<Rightarrow> string \<Rightarrow> smtp_result"
  me_scanner :: "(string \<Rightarrow> json) option"
  me_audit_fails :: "py_error option"

text \<open>What happened outside: messages handed to an SMTP server (sender, recipients, bytes), lines of the audit file.\<close>

record mail_state =
  ms_submitted :: "(string \<times> string list \<times> string) list"
  ms_audit :: "doc list"

type_synonym 'a mail_act = "(mail_error, mail_state, 'a) eact"

section \<open>Configuration\<close>

text \<open>A section that is no object has no keys; Python raises there, with various exceptions.\<close>

definition gateway_keys :: "json \<Rightarrow> string list \<Rightarrow> string \<Rightarrow> mail_error + doc" where
  "gateway_keys value expected label =
     (case value of
        JObj d \<Rightarrow>
          if set (map fst d) = set expected then Inr d
          else Inl (MailMisconfigured (label @ '' keys invalid; missing='' @ repr_names (filter (\<lambda>k. k \<notin> set (map fst d)) expected) @ '', unexpected='' @
            repr_names (filter (\<lambda>k. k \<notin> set expected) (map fst d))))
      | _ \<Rightarrow> Inl (MailPython (TypeError label)))"

definition gateway_bool :: "json \<Rightarrow> string \<Rightarrow> mail_error + bool" where
  "gateway_bool value label = (case value of JBool b \<Rightarrow> Inr b | _ \<Rightarrow> Inl (MailMisconfigured (label @ '' must be boolean'')))"

definition gateway_int :: "json \<Rightarrow> string \<Rightarrow> int \<Rightarrow> int \<Rightarrow> mail_error + unit" where
  "gateway_int value label least most =
     guard (between value least most) (MailMisconfigured (label @ '' must be between '' @ show_int least @ '' and '' @ show_int most)) (Inr ())"

definition gateway_text :: "json \<Rightarrow> string \<Rightarrow> mail_error + string" where
  "gateway_text value label =
     (let bad = Inl (MailMisconfigured (label @ '' must be non-empty text'')) in
      case value of JStr t \<Rightarrow> if strip t = [] then bad else Inr (strip t) | _ \<Rightarrow> bad)"

fun all_texts :: "doc \<Rightarrow> string \<Rightarrow> string list \<Rightarrow> mail_error + unit" where
  "all_texts d label [] = Inr ()"
| "all_texts d label (k # ks) = bindE (gateway_text (jget d k) (label @ k)) (\<lambda>_. all_texts d label ks)"

fun all_bools :: "doc \<Rightarrow> string \<Rightarrow> string list \<Rightarrow> mail_error + unit" where
  "all_bools d label [] = Inr ()"
| "all_bools d label (k # ks) = bindE (gateway_bool (jget d k) (label @ k)) (\<lambda>_. all_bools d label ks)"

definition gateway_section_keys :: "string list" where
  "gateway_section_keys = [''contract'', ''enabled'', ''deployment_authorized'', ''external_delivery_authorized'', ''listen'', ''paths'', ''provider'', ''admin'',
     ''preparation_api'', ''content'']"

definition gateway_contract :: string where
  "gateway_contract = ''wwcx.outbound-mail-gateway.v1''"

definition check_profile :: "string \<Rightarrow> json \<Rightarrow> mail_error + unit" where
  "check_profile name value =
     bindE (gateway_text (JStr name) ''provider profile name'') (\<lambda>_.
     case value of
       JObj profile \<Rightarrow>
         let label = ''provider.'' @ name in
         bindE (gateway_text (jget profile ''type'') (label @ ''.type'')) (\<lambda>kind.
         guard (kind \<in> {''disabled'', ''smtp'', ''gmail_api'', ''webhook''}) (MailMisconfigured (''provider type '' @ kind @ '' is unsupported''))
         (bindE (gateway_bool (jget profile ''enabled'') (label @ ''.enabled'')) (\<lambda>_.
         if kind = ''smtp'' then
           bindE (gateway_keys value [''type'', ''enabled'', ''host_env'', ''port_env'', ''username_env'', ''password_env'', ''starttls'', ''timeout_seconds''] label) (\<lambda>_.
           bindE (all_texts profile (label @ ''.'') [''host_env'', ''port_env'', ''username_env'', ''password_env'']) (\<lambda>_.
           bindE (gateway_bool (jget profile ''starttls'') (label @ ''.starttls'')) (\<lambda>_.
           gateway_int (jget profile ''timeout_seconds'') (label @ ''.timeout_seconds'') 1 120)))
         else if kind = ''gmail_api'' then
           bindE (gateway_keys value [''type'', ''enabled'', ''credential_source''] label) (\<lambda>_. all_texts profile (label @ ''.'') [''credential_source''])
         else if kind = ''webhook'' then
           bindE (gateway_keys value [''type'', ''enabled'', ''url_env'', ''secret_env''] label) (\<lambda>_. all_texts profile (label @ ''.'') [''url_env'', ''secret_env''])
         else bindE (gateway_keys value [''type'', ''enabled''] label) (\<lambda>_. Inr ()))))
     | _ \<Rightarrow> Inl (MailMisconfigured (''provider profile '' @ name @ '' must be an object'')))"

fun check_profiles :: "doc \<Rightarrow> mail_error + unit" where
  "check_profiles [] = Inr ()"
| "check_profiles ((name, value) # ps) = bindE (check_profile name value) (\<lambda>_. check_profiles ps)"

definition check_provider :: "json \<Rightarrow> mail_error + (string \<times> doc)" where
  "check_provider value =
     bindE (gateway_keys value [''selected'', ''profiles''] ''provider'') (\<lambda>provider.
     bindE (gateway_text (jget provider ''selected'') ''provider.selected'') (\<lambda>selected.
     let profiles = section_of provider ''profiles'' in
     guard (profiles \<noteq> []) (MailMisconfigured ''provider.profiles must be a non-empty object'')
     (guard (selected \<in> set (map fst profiles)) (MailMisconfigured ''selected provider profile does not exist'')
     (bindE (check_profiles profiles) (\<lambda>_. Inr (selected, profiles))))))"

definition check_admin :: "json \<Rightarrow> mail_error + doc" where
  "check_admin value =
     bindE (gateway_keys value [''preview_enabled'', ''send_endpoint_enabled'', ''require_explicit_send_confirmation'', ''max_recipient_count'', ''max_body_bytes'',
       ''audit_view_limit''] ''admin'') (\<lambda>admin.
     bindE (all_bools admin ''admin.'' [''preview_enabled'', ''send_endpoint_enabled'', ''require_explicit_send_confirmation'']) (\<lambda>_.
     bindE (gateway_int (jget admin ''max_recipient_count'') ''admin.max_recipient_count'' 1 500) (\<lambda>_.
     bindE (gateway_int (jget admin ''max_body_bytes'') ''admin.max_body_bytes'' 1024 10485760) (\<lambda>_.
     bindE (gateway_int (jget admin ''audit_view_limit'') ''admin.audit_view_limit'' 1 5000) (\<lambda>_. Inr admin)))))"

definition check_content :: "json \<Rightarrow> mail_error + unit" where
  "check_content value =
     bindE (gateway_keys value [''persist_message_bodies'', ''persist_attachment_bytes'', ''draft_retention_hours''] ''content'') (\<lambda>content.
     bindE (all_bools content ''content.'' [''persist_message_bodies'', ''persist_attachment_bytes'']) (\<lambda>_.
     gateway_int (jget content ''draft_retention_hours'') ''content.draft_retention_hours'' 1 720))"

text \<open>An enabled gateway has every authorization; \<open>profiles[selected]\<close> is looked up under the stripped name.\<close>

definition check_enabled :: "doc \<Rightarrow> doc \<Rightarrow> string \<Rightarrow> doc \<Rightarrow> mail_error + unit" where
  "check_enabled c admin selected profiles =
     (if conf_bool c ''enabled'' then
        guard (conf_bool c ''deployment_authorized'') (MailMisconfigured ''enabled gateway requires deployment authorization'')
        (guard (conf_bool c ''external_delivery_authorized'') (MailMisconfigured ''enabled gateway requires external-delivery authorization'')
        (guard (conf_bool admin ''send_endpoint_enabled'') (MailMisconfigured ''enabled gateway requires the send endpoint'')
        (let profile = section_of profiles selected in
         guard (jget profile ''type'' \<noteq> JStr ''disabled'' \<and> conf_bool profile ''enabled'')
           (MailMisconfigured ''enabled gateway requires an enabled non-disabled provider'') (Inr ()))))
      else Inr ())"

definition validate_gateway_config :: "json \<Rightarrow> mail_error + doc" where
  "validate_gateway_config value =
     bindE (gateway_keys value gateway_section_keys ''gateway'') (\<lambda>c.
     guard (jget c ''contract'' = JStr gateway_contract) (MailMisconfigured ''unsupported gateway contract'')
     (bindE (all_bools c [] [''enabled'', ''deployment_authorized'', ''external_delivery_authorized'']) (\<lambda>_.
     bindE (gateway_keys (jget c ''listen'') [''host'', ''port''] ''listen'') (\<lambda>listen.
     bindE (all_texts listen ''listen.'' [''host'']) (\<lambda>_.
     bindE (gateway_int (jget listen ''port'') ''listen.port'' 1 65535) (\<lambda>_.
     bindE (gateway_keys (jget c ''paths'') [''policy'', ''audit_jsonl''] ''paths'') (\<lambda>paths.
     bindE (all_texts paths ''paths.'' [''policy'', ''audit_jsonl'']) (\<lambda>_.
     bindE (check_provider (jget c ''provider'')) (\<lambda>(selected, profiles).
     bindE (check_admin (jget c ''admin'')) (\<lambda>admin.
     bindE (configured (validate_auth_config (jget c ''preparation_api''))) (\<lambda>_.
     bindE (check_content (jget c ''content'')) (\<lambda>_.
     bindE (check_enabled c admin selected profiles) (\<lambda>_. Inr c)))))))))))))"

section \<open>Providers\<close>

definition environment_value :: "mail_env \<Rightarrow> string \<Rightarrow> string option" where
  "environment_value env name = given (map_option strip (ma_environ (me_auth env) name))"

record provider_status =
  ps_name :: string
  ps_kind :: string
  ps_selected :: bool
  ps_enabled :: bool
  ps_configured :: bool
  ps_ready :: bool
  ps_detail :: string

definition selected_name :: "doc \<Rightarrow> string" where
  "selected_name c = conf_str (section_of c ''provider'') ''selected''"

definition profiles_of :: "doc \<Rightarrow> doc" where
  "profiles_of c = section_of (section_of c ''provider'') ''profiles''"

definition all_set :: "mail_env \<Rightarrow> doc \<Rightarrow> string list \<Rightarrow> bool" where
  "all_set env profile ks = list_all (\<lambda>k. environment_value env (conf_str profile k) \<noteq> None) ks"

definition provider_status_of :: "mail_env \<Rightarrow> doc \<Rightarrow> string \<Rightarrow> doc \<Rightarrow> provider_status" where
  "provider_status_of env c name profile =
     (let kind = conf_str profile ''type''; enabled = conf_bool profile ''enabled''; admin = section_of c ''admin'';
        (configured, detail) =
          (if kind = ''smtp'' then
             (let ok = all_set env profile [''host_env'', ''port_env'', ''username_env'', ''password_env''] in
              (ok, if ok then ''Runtime SMTP settings present'' else ''Runtime SMTP settings incomplete''))
           else if kind = ''gmail_api'' then (False, ''Connector adapter reserved; no live adapter installed'')
           else if kind = ''webhook'' then
             (let ok = all_set env profile [''url_env'', ''secret_env''] in
              (ok, if ok then ''Runtime webhook settings present'' else ''Runtime webhook settings incomplete''))
           else (False, ''Disabled profile'')) in
      \<lparr>ps_name = name, ps_kind = kind, ps_selected = (name = selected_name c), ps_enabled = enabled, ps_configured = configured,
        ps_ready = (name = selected_name c \<and> enabled \<and> configured \<and> conf_bool c ''enabled'' \<and> conf_bool c ''deployment_authorized'' \<and>
          conf_bool c ''external_delivery_authorized'' \<and> conf_bool admin ''send_endpoint_enabled''), ps_detail = detail\<rparr>)"

definition provider_statuses :: "mail_env \<Rightarrow> json \<Rightarrow> mail_error + provider_status list" where
  "provider_statuses env config =
     bindE (validate_gateway_config config) (\<lambda>c.
     Inr (map (\<lambda>(name, v). provider_status_of env c name (case v of JObj p \<Rightarrow> p | _ \<Rightarrow> [])) (profiles_of c)))"

definition provider_doc :: "provider_status \<Rightarrow> json" where
  "provider_doc p = JObj [(''name'', JStr (ps_name p)), (''type'', JStr (ps_kind p)), (''selected'', JBool (ps_selected p)), (''enabled'', JBool (ps_enabled p)),
     (''configured'', JBool (ps_configured p)), (''ready'', JBool (ps_ready p)), (''detail'', JStr (ps_detail p))]"

definition gateway_status :: "mail_env \<Rightarrow> json \<Rightarrow> json \<Rightarrow> mail_error + doc" where
  "gateway_status env config policy =
     bindE (validate_gateway_config config) (\<lambda>c.
     bindE (policy_step (validate_policy policy)) (\<lambda>p.
     bindE (provider_statuses env config) (\<lambda>statuses.
     bindE (configured (auth_status (me_auth env) (jget c ''preparation_api''))) (\<lambda>preparation.
     let ready = list_ex ps_ready statuses; admin = section_of c ''admin''; tracking = section_of p ''tracking''; content = section_of c ''content'' in
     Inr [(''gateway'', JStr ''wwcx-outbound-mail-gateway''), (''contract'', JStr gateway_contract), (''state'', JStr (if ready then ''ready'' else ''disabled'')),
       (''preview_enabled'', jget admin ''preview_enabled''),
       (''external_delivery_enabled'', JBool (conf_bool c ''enabled'' \<and> conf_bool c ''deployment_authorized'' \<and> conf_bool c ''external_delivery_authorized'' \<and>
          conf_bool admin ''send_endpoint_enabled'' \<and> ready)),
       (''policy_enabled'', jget p ''enabled''), (''transparent_action_links'', jget tracking ''transparent_action_links''),
       (''hidden_open_tracking'', jget tracking ''hidden_open_tracking''), (''device_fingerprinting'', jget tracking ''device_fingerprinting''),
       (''persist_message_bodies'', jget content ''persist_message_bodies''), (''persist_attachment_bytes'', jget content ''persist_attachment_bytes''),
       (''preparation_api'', JObj preparation), (''providers'', JList (map provider_doc statuses)), (''checked_at'', JStr (me_now env))]))))"

section \<open>Requests\<close>

definition split_addresses :: "json \<Rightarrow> mail_error + string list" where
  "split_addresses value =
     (case value of
        JNull \<Rightarrow> Inr []
      | JStr t \<Rightarrow> Inr (filter (\<lambda>w. w \<noteq> []) (map strip (split_on (CHR '','') (map (\<lambda>c. if c = CHR '';'' then CHR '','' else c) t))))
      | JList vs \<Rightarrow> Inr (filter (\<lambda>w. w \<noteq> []) (map (\<lambda>v. strip (py_str v)) vs))
      | _ \<Rightarrow> Inl (GatewayFailed ''recipient fields must be text or a list''))"

record mail_message =
  mg_from :: string
  mg_to :: "string list"
  mg_cc :: "string list"
  mg_bcc :: "string list"
  mg_recipients :: "string list"
  mg_subject :: string
  mg_body :: string
  mg_class :: string
  mg_signer :: string
  mg_title :: string
  mg_case_id :: "string option"
  mg_action_id :: "string option"
  mg_control_id :: "string option"
  mg_unsubscribe :: "string option"
  mg_mailing_address :: "string option"
  mg_reply_to :: "string option"

text \<open>\<open>str(payload.get(k, default)).strip()\<close>, and with \<open>or None\<close>.\<close>

definition field_text :: "doc \<Rightarrow> string \<Rightarrow> string \<Rightarrow> string" where
  "field_text d k v0 = strip (py_str (jget_default d k (JStr v0)))"

definition optional_field :: "doc \<Rightarrow> string \<Rightarrow> string option" where
  "optional_field d k = given (Some (field_text d k []))"

definition normalize_message_request :: "json \<Rightarrow> json \<Rightarrow> mail_error + mail_message" where
  "normalize_message_request config payload =
     bindE (validate_gateway_config config) (\<lambda>c.
     case payload of
       JObj d \<Rightarrow>
         let subject = field_text d ''subject'' []; body = py_str (jget_default d ''body'' (JStr [])); admin = section_of c ''admin'' in
         guard (subject \<noteq> []) (GatewayFailed ''subject is required'')
         (guard (strip body \<noteq> []) (GatewayFailed ''message body is required'')
         (guard (utf8_size body \<le> conf_int admin ''max_body_bytes'') (GatewayFailed ''message body exceeds the configured size limit'')
         (bindE (split_addresses (jget d ''to'')) (\<lambda>to.
         bindE (split_addresses (jget d ''cc'')) (\<lambda>cc.
         bindE (split_addresses (jget d ''bcc'')) (\<lambda>bcc.
         bindE (policy_step (normalize_recipients (to @ cc @ bcc) 500)) (\<lambda>recipients.
         guard (int (length recipients) \<le> conf_int admin ''max_recipient_count'') (GatewayFailed ''recipient count exceeds the configured limit'')
         (let kind = field_text d ''message_class'' ''business_correspondence'' in
          guard (kind \<in> set message_classes) (GatewayFailed ''message class is unsupported'')
          (Inr \<lparr>mg_from = field_text d ''from_address'' ''john@ww.cx'', mg_to = to, mg_cc = cc, mg_bcc = bcc, mg_recipients = recipients, mg_subject = subject,
            mg_body = body, mg_class = kind, mg_signer = field_text d ''signer_name'' ''John Kaminski'',
            mg_title = field_text d ''signer_title'' ''Authorized Representative'', mg_case_id = optional_field d ''case_id'',
            mg_action_id = optional_field d ''action_id'', mg_control_id = optional_field d ''control_id'', mg_unsubscribe = optional_field d ''unsubscribe_url'',
            mg_mailing_address = optional_field d ''mailing_address'', mg_reply_to = optional_field d ''reply_to''\<rparr>)))))))))
     | _ \<Rightarrow> Inl (GatewayFailed ''request payload must be an object''))"

text \<open>The policy with the sender and the mailing address of the request.\<close>

definition runtime_policy :: "json \<Rightarrow> mail_message \<Rightarrow> mail_error + json" where
  "runtime_policy base m =
     bindE (if strip (mg_from m) = [] then Inr base
       else bindE (policy_step (validate_from_address base (JStr (strip (mg_from m))))) (\<lambda>address.
         policy_step (set_in base ''organization'' [(''contact_email'', JStr address)]))) (\<lambda>candidate.
     bindE (case mg_mailing_address m of None \<Rightarrow> Inr candidate
       | Some a \<Rightarrow> policy_step (set_in candidate ''organization'' [(''mailing_address'', JStr a)])) (\<lambda>candidate.
     bindE (policy_step (validate_policy candidate)) (\<lambda>_. Inr candidate)))"

record preview =
  pv_request :: mail_message
  pv_body :: string
  pv_headers :: "(string \<times> string) list"
  pv_control_id :: string
  pv_action_url :: string
  pv_token :: string
  pv_token_sha256 :: string
  pv_audit :: doc

definition json_object :: "json \<Rightarrow> doc" where
  "json_object v = (case v of JObj d \<Rightarrow> d | _ \<Rightarrow> [])"

definition preview_enabled :: "json \<Rightarrow> bool outcome" where
  "preview_enabled config =
     (case config of
        JObj c \<Rightarrow>
          (case dget c ''admin'' of
             None \<Rightarrow> Inl (KeyError ''admin'')
           | Some (JObj admin) \<Rightarrow> (case dget admin ''preview_enabled'' of None \<Rightarrow> Inl (KeyError ''preview_enabled'') | Some v \<Rightarrow> Inr (truthy v))
           | Some _ \<Rightarrow> Inl (TypeError ''admin''))
      | _ \<Rightarrow> Inl (TypeError ''config''))"

definition compose_preview :: "mail_env \<Rightarrow> json \<Rightarrow> json \<Rightarrow> json \<Rightarrow> mail_error + preview" where
  "compose_preview env config base payload =
     bindE (policy_step (preview_enabled config)) (\<lambda>on.
     guard on (DeliveryDisabled ''message preview is disabled'')
     (bindE (normalize_message_request config payload) (\<lambda>m.
     bindE (runtime_policy base m) (\<lambda>policy.
     bindE (policy_step (compose_message (me_compose env) policy
       \<lparr>cq_body = mg_body m, cq_subject = mg_subject m, cq_recipients = mg_recipients m,
         cq_from = jget (section_of (json_object policy) ''organization'') ''contact_email'', cq_signer = mg_signer m, cq_title = mg_title m, cq_class = mg_class m,
         cq_html = None, cq_control_id = mg_control_id m, cq_case_id = mg_case_id m, cq_action_id = mg_action_id m, cq_unsubscribe = mg_unsubscribe m\<rparr>)) (\<lambda>r.
     Inr \<lparr>pv_request = m, pv_body = co_body r, pv_headers = co_headers r, pv_control_id = co_control_id r, pv_action_url = co_action_url r,
       pv_token = co_token r, pv_token_sha256 = co_token_sha256 r, pv_audit = co_audit r\<rparr>)))))"

text \<open>A header value with a line break is refused by \<open>email.policy.SMTP\<close>.\<close>

definition build_email_message :: "mail_env \<Rightarrow> preview \<Rightarrow> mail_error + mime_message" where
  "build_email_message env pv =
     (let m = pv_request pv;
        h = [(''From'', mg_from m), (''To'', join '', '' (mg_to m))] @ (if mg_cc m \<noteq> [] then [(''Cc'', join '', '' (mg_cc m))] else []) @
          (case mg_reply_to m of None \<Rightarrow> [] | Some t \<Rightarrow> [(''Reply-To'', t)]) @
          [(''Subject'', mg_subject m), (''Date'', me_date env), (''Message-ID'', me_message_id env)] @ pv_headers pv in
      guard (list_all (\<lambda>(_, v). CHR 0x0D \<notin> set v \<and> CHR 0x0A \<notin> set v) h)
        (MailPython (ValueError ''Header values may not contain linefeed or carriage return characters''))
        (Inr \<lparr>mm_headers = h, mm_content = pv_body pv\<rparr>))"

section \<open>Delivery\<close>

definition delivery_gate :: "json \<Rightarrow> json \<Rightarrow> bool \<Rightarrow> mail_error + unit" where
  "delivery_gate config policy confirmation =
     bindE (validate_gateway_config config) (\<lambda>c.
     bindE (policy_step (validate_policy policy)) (\<lambda>p.
     let admin = section_of c ''admin'' in
     guard (\<not> (conf_bool admin ''require_explicit_send_confirmation'' \<and> \<not> confirmation)) (DeliveryDisabled ''explicit send confirmation is required'')
     (guard (conf_bool c ''enabled'') (DeliveryDisabled ''gateway is disabled'')
     (guard (conf_bool c ''deployment_authorized'') (DeliveryDisabled ''deployment is not authorized'')
     (guard (conf_bool c ''external_delivery_authorized'') (DeliveryDisabled ''external delivery is not authorized'')
     (guard (conf_bool admin ''send_endpoint_enabled'') (DeliveryDisabled ''send endpoint is disabled'')
     (guard (conf_bool p ''enabled'' \<and> conf_bool p ''smtp_cutover_authorized'') (DeliveryDisabled ''outbound-mail policy cutover is not authorized'')
     (Inr ()))))))))"

text \<open>\<open>_environment_value\<close> of the four settings, and the port.\<close>

definition smtp_settings :: "mail_env \<Rightarrow> doc \<Rightarrow> mail_error + (string \<times> int)" where
  "smtp_settings env profile =
     (case (environment_value env (conf_str profile ''host_env''), environment_value env (conf_str profile ''port_env''),
        environment_value env (conf_str profile ''username_env''), environment_value env (conf_str profile ''password_env'')) of
        (Some host, Some port_text, Some username, Some password) \<Rightarrow>
          (case int_of_str port_text of
             None \<Rightarrow> Inl (ProviderUnavailable ''runtime SMTP port is invalid'')
           | Some port \<Rightarrow> guard (1 \<le> port \<and> port \<le> 65535) (ProviderUnavailable ''runtime SMTP port is out of range'') (Inr (host, port)))
      | _ \<Rightarrow> Inl (ProviderUnavailable ''runtime SMTP settings are incomplete''))"

record delivery =
  dl_provider :: string
  dl_message_id :: string
  dl_recipient_count :: int
  dl_submitted_at :: string

definition hand_over :: "mail_env \<Rightarrow> string \<Rightarrow> string list \<Rightarrow> string \<Rightarrow> string list mail_act" where
  "hand_over env sender recipients bytes s =
     (let taken = s\<lparr>ms_submitted := ms_submitted s @ [(sender, recipients, bytes)]\<rparr> in
      case me_smtp env sender recipients bytes of
        SmtpFailed late e \<Rightarrow> (Inl (MailPython e), if late then taken else s)
      | Refused rs \<Rightarrow> (Inr rs, taken))"

definition selected_profile :: "doc \<Rightarrow> doc" where
  "selected_profile c = section_of (profiles_of c) (selected_name c)"

text \<open>The part that both submissions share: settings, sending, and what a refusal raises.\<close>

definition submit_bytes :: "mail_env \<Rightarrow> doc \<Rightarrow> preview \<Rightarrow> (mail_error + string) \<Rightarrow> delivery mail_act" where
  "submit_bytes env c pv bytes =
     (let profile = selected_profile c; recipients = mg_recipients (pv_request pv) in
      bindS (pure_act (guard (conf_str profile ''type'' = ''smtp'' \<and> conf_bool profile ''enabled'')
        (ProviderUnavailable ''selected provider is not an enabled SMTP profile'') (smtp_settings env profile))) (\<lambda>_.
      bindS (pure_act bytes) (\<lambda>b.
      bindS (hand_over env (mg_from (pv_request pv)) recipients b) (\<lambda>refused.
      bindS (pure_act (guard (refused = []) (ProviderUnavailable (''SMTP provider refused '' @ show_int (int (length refused)) @ '' recipient(s)'')) (Inr ()))) (\<lambda>_.
      ret \<lparr>dl_provider = selected_name c, dl_message_id = me_message_id env, dl_recipient_count = int (length recipients), dl_submitted_at = me_now env\<rparr>)))))"

definition submit_smtp :: "mail_env \<Rightarrow> doc \<Rightarrow> preview \<Rightarrow> delivery mail_act" where
  "submit_smtp env c pv = submit_bytes env c pv (map_sum id (me_serialize env) (build_email_message env pv))"

definition append_mail_audit :: "mail_env \<Rightarrow> doc \<Rightarrow> unit mail_act" where
  "append_mail_audit env d s = (case me_audit_fails env of Some e \<Rightarrow> (Inl (MailPython e), s) | None \<Rightarrow> (Inr (), s\<lparr>ms_audit := ms_audit s @ [d]\<rparr>))"

definition mail_delivery_event :: "mail_env \<Rightarrow> preview \<Rightarrow> delivery \<Rightarrow> doc" where
  "mail_delivery_event env pv r =
     [(''event'', JStr ''outbound_message_submitted''), (''occurred_at'', JStr (dl_submitted_at r)), (''control_id'', JStr (pv_control_id pv)),
      (''case_id'', opt_str (mg_case_id (pv_request pv))), (''action_id'', opt_str (mg_action_id (pv_request pv))), (''provider'', JStr (dl_provider r)),
      (''provider_type'', JStr ''smtp''), (''provider_message_id_sha256'', JStr (ce_sha256 (me_compose env) (dl_message_id r))),
      (''recipient_count'', JInt (dl_recipient_count r)), (''action_token_sha256'', JStr (pv_token_sha256 pv)), (''policy_contract'', JStr policy_contract),
      (''gateway_contract'', JStr gateway_contract)]"

text \<open>The providers: only SMTP has an adapter.\<close>

definition submit_selected :: "doc \<Rightarrow> delivery mail_act \<Rightarrow> delivery mail_act" where
  "submit_selected c smtp =
     (let kind = conf_str (selected_profile c) ''type'' in
      if selected_name c \<notin> set (map fst (profiles_of c)) then raise_err (MailPython (KeyError (selected_name c)))
      else if kind = ''smtp'' then smtp
      else if kind = ''gmail_api'' \<or> kind = ''webhook'' then
        raise_err (ProviderUnavailable (kind @ '' provider contract exists but its live adapter is not installed''))
      else raise_err (ProviderUnavailable ''no delivery provider is selected''))"

record sent =
  st_delivery :: delivery
  st_control_id :: string
  st_action_url :: string
  st_event :: doc

definition send_message :: "mail_env \<Rightarrow> json \<Rightarrow> json \<Rightarrow> json \<Rightarrow> bool \<Rightarrow> bool \<Rightarrow> sent mail_act" where
  "send_message env config base payload confirmation audited =
     bindS (pure_act (compose_preview env config base payload)) (\<lambda>pv.
     bindS (pure_act (runtime_policy base (pv_request pv))) (\<lambda>policy.
     bindS (pure_act (delivery_gate config policy confirmation)) (\<lambda>_.
     let c = json_object config in
     bindS (submit_selected c (submit_smtp env c pv)) (\<lambda>r.
     let event = mail_delivery_event env pv r in
     bindS (if audited \<and> conf_bool (section_of (json_object base) ''audit'') ''write_jsonl'' then append_mail_audit env event else ret ()) (\<lambda>_.
     ret \<lparr>st_delivery = r, st_control_id = pv_control_id pv, st_action_url = pv_action_url pv, st_event = event\<rparr>)))))"

text \<open>\<open>read_audit_events\<close> on the lines of the file, the last ones first; lines that are no objects are passed over.\<close>

definition read_audit_events :: "string list \<Rightarrow> int \<Rightarrow> doc list" where
  "read_audit_events lines limit =
     (if limit < 1 then []
      else List.map_filter (\<lambda>l. case json_loads l of Some (JObj d) \<Rightarrow> Some d | _ \<Rightarrow> None) (rev (drop (nat (int (length lines) - limit)) lines)))"

section \<open>Final scan\<close>

definition scan_text :: "json \<Rightarrow> string option" where
  "scan_text value =
     (case value of
        JStr t \<Rightarrow> let n = strip t in if n = [] \<or> CHR 0x0D \<in> set n \<or> CHR 0x0A \<in> set n \<or> 256 < int (length n) then None else Some n
      | _ \<Rightarrow> None)"

definition final_scan_states :: "string list" where
  "final_scan_states = [''clean'', ''infected'', ''suspicious'', ''unscannable'', ''scan_error'', ''not_scanned'']"

definition reason_codes_ok :: "json \<Rightarrow> bool" where
  "reason_codes_ok value =
     (case value of
        JList vs \<Rightarrow>
          (case strings_of vs of
             None \<Rightarrow> False
           | Some ts \<Rightarrow> list_all (\<lambda>t. strip t \<noteq> [] \<and> int (length t) \<le> 128) ts \<and> int (length ts) \<le> 64 \<and> distinct ts)
      | _ \<Rightarrow> False)"

text \<open>The normalized result, or none; the texts of the different failures are not told apart.\<close>

definition normalize_scan :: "mail_env \<Rightarrow> json \<Rightarrow> string \<Rightarrow> doc option" where
  "normalize_scan env value bytes =
     (case value of
        JObj d \<Rightarrow>
          if set (map fst d) = {''contract'', ''state'', ''engine'', ''engine_version'', ''ruleset_version'', ''message_sha256'', ''reason_codes''} \<and>
             jget d ''contract'' = JStr ''wwcx.mail-final-scan.v1'' then
            (case (map_option casefold (scan_text (jget d ''state'')), scan_text (jget d ''engine''), scan_text (jget d ''engine_version''), scan_text (jget d ''ruleset_version'')) of
               (Some state, Some engine, Some version, Some rules) \<Rightarrow>
                 if state \<in> set final_scan_states \<and> jget d ''message_sha256'' = JStr (ma_sha256 (me_auth env) bytes) \<and> reason_codes_ok (jget d ''reason_codes'')
                 then Some [(''contract'', JStr ''wwcx.mail-final-scan.v1''), (''state'', JStr state), (''engine'', JStr engine), (''engine_version'', JStr version),
                   (''ruleset_version'', JStr rules), (''message_sha256'', JStr (ma_sha256 (me_auth env) bytes)), (''reason_codes'', jget d ''reason_codes'')]
                 else None
             | _ \<Rightarrow> None)
          else None
      | _ \<Rightarrow> None)"

definition require_clean :: "mail_env \<Rightarrow> string \<Rightarrow> mail_error + doc" where
  "require_clean env bytes =
     guard (bytes \<noteq> []) (DeliveryDisabled ''final composed MIME bytes are required'')
     (case me_scanner env of
        None \<Rightarrow> Inl (DeliveryDisabled ''final outbound scanner is not configured'')
      | Some scan \<Rightarrow>
          (case normalize_scan env (scan bytes) bytes of
             None \<Rightarrow> Inl (DeliveryDisabled ''final scan result is invalid'')
           | Some d \<Rightarrow> guard (jget d ''state'' = JStr ''clean'') (DeliveryDisabled (''final outbound scan is not clean: '' @ conf_str d ''state'')) (Inr d)))"

text \<open>\<open>send_preview\<close> of mail_secure_submission: the bytes are built once, scanned, and those are sent.\<close>

definition send_preview :: "mail_env \<Rightarrow> json \<Rightarrow> json \<Rightarrow> preview \<Rightarrow> bool \<Rightarrow> sent mail_act" where
  "send_preview env config base pv confirmation =
     bindS (pure_act (runtime_policy base (pv_request pv))) (\<lambda>policy.
     bindS (pure_act (delivery_gate config policy confirmation)) (\<lambda>_.
     bindS (pure_act (map_sum id (me_serialize env) (build_email_message env pv))) (\<lambda>bytes.
     bindS (pure_act (require_clean env bytes)) (\<lambda>scan.
     let c = json_object config in
     bindS (submit_selected c (submit_bytes env c pv (Inr bytes))) (\<lambda>r.
     ret \<lparr>st_delivery = r, st_control_id = pv_control_id pv, st_action_url = pv_action_url pv,
       st_event = mail_delivery_event env pv r @ [(''final_scan'', JObj scan)]\<rparr>)))))"

end
