(* ===== verification/MailTheorems.thy ===== *)
theory MailTheorems
  imports MailGateway MailAuthTheorems
begin

text \<open>
  What outbound mail promises: a message reaches the SMTP server only through open gates, the bytes sent are the bytes that were
  scanned clean, composed messages carry the correspondence control, and the audit has exactly the submissions that returned.
\<close>

section \<open>What a successful step found\<close>

named_theorems mail_Inr

lemmas [mail_Inr] = bindE_Inr_iff mail_guard_Inr_iff map_sum_Inr_iff bindS_Inr_iff basic_Inr_iff

lemma policy_text_Inr [mail_Inr]: "policy_text v label = Inr t \<longleftrightarrow> (\<exists>u. v = JStr u \<and> t = strip u \<and> t \<noteq> [])"
  by (auto simp: policy_text_def Let_def split: json.split)

lemma control_Inr [mail_Inr]: "control v label = Inr t \<longleftrightarrow> (\<exists>u. v = JStr u \<and> t = strip u \<and> control_text t)"
proof -
  have "control_text t \<Longrightarrow> t \<noteq> []" for t by (auto simp: control_text_def)
  then show ?thesis by (auto simp: control_def mail_Inr)
qed

lemma policy_step_Inr [mail_Inr]: "policy_step r = Inr v \<longleftrightarrow> r = Inr v"
  by (cases r) (simp_all add: policy_step_def)

lemma configured_Inr [mail_Inr]: "configured r = Inr v \<longleftrightarrow> r = Inr v"
  by (cases r) (simp_all add: configured_def)

lemma policy_keys_Inr [mail_Inr]: "policy_keys v ks label = Inr d \<longleftrightarrow> v = JObj d \<and> set (map fst d) = set ks"
  by (auto simp: policy_keys_def split: json.split)

lemma gateway_keys_Inr [mail_Inr]: "gateway_keys v ks label = Inr d \<longleftrightarrow> v = JObj d \<and> set (map fst d) = set ks"
  by (auto simp: gateway_keys_def split: json.split)

lemma validate_gateway_config_Inr: "validate_gateway_config config = Inr c \<Longrightarrow> config = JObj c"
  unfolding validate_gateway_config_def by (simp only: mail_Inr) (auto simp: mail_Inr split_def)

section \<open>Policies\<close>

text \<open>What a valid policy rules out, and what it demands before live delivery.\<close>

definition lawful :: "doc \<Rightarrow> bool" where
  "lawful p \<longleftrightarrow>
     (let org = section_of p ''organization''; footer = section_of p ''footer''; tracking = section_of p ''tracking''; audit = section_of p ''audit'';
        delivery = section_of p ''delivery'' in
      \<not> conf_bool tracking ''hidden_open_tracking'' \<and> \<not> conf_bool tracking ''device_fingerprinting'' \<and> \<not> conf_bool tracking ''collect_full_ip'' \<and>
      \<not> conf_bool audit ''record_body'' \<and> \<not> conf_bool audit ''record_action_token'' \<and> conf_bool audit ''record_action_token_hash'' \<and>
      email_text (conf_str org ''contact_email'') \<and>
      (conf_bool footer ''include_action_link'' \<longrightarrow> conf_bool tracking ''transparent_action_links'' \<and> conf_bool footer ''include_tracking_disclosure'') \<and>
      (conf_bool delivery ''allow_live_delivery'' \<longrightarrow>
         conf_bool p ''enabled'' \<and> conf_bool p ''deployment_authorized'' \<and> conf_bool p ''smtp_cutover_authorized'' \<and>
         jget org ''mailing_address'' \<noteq> JStr placeholder_address))"

lemma validate_policy_Inr:
  assumes "validate_policy v = Inr p"
  obtains org footer tracking audit delivery where "v = JObj p" "check_organization (jget p ''organization'') = Inr org" "check_footer (jget p ''footer'') = Inr footer"
    "check_tracking (jget p ''tracking'') = Inr tracking" "check_audit (jget p ''audit'') = Inr audit" "check_delivery (jget p ''delivery'') = Inr delivery"
    "check_gates p org footer tracking delivery = Inr ()"
proof -
  from assms show thesis
    unfolding validate_policy_def
    by (simp only: mail_Inr sum.inject old.unit.exhaust) (elim exE conjE, rule that, simp_all)
qed

lemma section_values:
  "check_organization v = Inr d \<Longrightarrow> v = JObj d \<and> email_text (conf_str d ''contact_email'')"
  "check_footer v = Inr d \<Longrightarrow> v = JObj d"
  "check_tracking v = Inr d \<Longrightarrow> v = JObj d \<and> \<not> conf_bool d ''hidden_open_tracking'' \<and> \<not> conf_bool d ''device_fingerprinting'' \<and> \<not> conf_bool d ''collect_full_ip''"
  "check_audit v = Inr d \<Longrightarrow> v = JObj d \<and> \<not> conf_bool d ''record_body'' \<and> \<not> conf_bool d ''record_action_token'' \<and> conf_bool d ''record_action_token_hash''"
  "check_delivery v = Inr d \<Longrightarrow> v = JObj d"
  unfolding check_organization_def check_footer_def check_tracking_def check_audit_def check_delivery_def by (simp_all only: mail_Inr) blast+

text \<open>
  A policy that validates is lawful: no hidden tracking, no fingerprints, no full addresses, no bodies or tokens in the audit,
  action links only with disclosure, and live delivery only with every authorization and a mailing address.
\<close>

theorem valid_policies_are_lawful: "case validate_policy v of Inl _ \<Rightarrow> True | Inr p \<Rightarrow> v = JObj p \<and> lawful p"
proof (cases "validate_policy v")
  case (Inr p)
  then obtain org footer tracking audit delivery where
    parts: "v = JObj p" "check_organization (jget p ''organization'') = Inr org" "check_footer (jget p ''footer'') = Inr footer"
      "check_tracking (jget p ''tracking'') = Inr tracking" "check_audit (jget p ''audit'') = Inr audit" "check_delivery (jget p ''delivery'') = Inr delivery"
    and gates: "check_gates p org footer tracking delivery = Inr ()" by (rule validate_policy_Inr)
  have sections: "section_of p ''organization'' = org" "section_of p ''footer'' = footer" "section_of p ''tracking'' = tracking" "section_of p ''audit'' = audit"
    "section_of p ''delivery'' = delivery"
    using section_values(1) [OF parts(2)] section_values(2) [OF parts(3)] section_values(3) [OF parts(4)] section_values(4) [OF parts(5)]
      section_values(5) [OF parts(6)] by (simp_all add: section_of_def)
  show ?thesis
    using parts(1) Inr gates section_values(1) [OF parts(2)] section_values(3) [OF parts(4)] section_values(4) [OF parts(5)]
    by (auto simp: lawful_def sections Let_def check_gates_def mail_guard_Inr_iff bindE_Inr_iff split: if_splits)
qed simp

section \<open>Composition\<close>

lemma contains_append: "body_contains m (m @ t)"
  by (cases "m @ t") (simp_all add: starts_with_def, metis append_eq_conv_conj)

lemma contains_later: "body_contains m t \<Longrightarrow> body_contains m (s @ t)"
  by (induction s) auto

lemma contains_earlier: "body_contains m s \<Longrightarrow> body_contains m (s @ t)"
proof (induction s)
  case (Cons c s)
  show ?case
  proof (cases "starts_with (c # s) m")
    case True
    then obtain u where "c # s = m @ u" unfolding starts_with_def by (metis append_take_drop_id)
    then show ?thesis using contains_append [of m "u @ t"] by (metis append_assoc)
  qed (use Cons in simp)
next
  case Nil
  then show ?case by (cases t) (simp_all add: starts_with_def)
qed

lemma contains_middle: "body_contains m (s @ m @ t)"
  by (intro contains_later contains_append)

text \<open>A composition that returns went through these steps.\<close>

lemma compose_message_Inr:
  assumes "compose_message env policy q = Inr r"
  obtains p footer t a where "validate_policy policy = Inr p" "conf_bool (section_of p ''delivery'') ''allow_prepare''"
    "normalize_recipients (cq_recipients q) (conf_int (section_of p ''delivery'') ''max_recipients'') = Inr (co_recipients r)"
    "validate_from_address policy (cq_from q) = Inr (co_from r)"
    "render_plain_footer policy t = Inr footer" "fr_control_id t = co_control_id r" "co_body r = append_plain_footer (cq_body q) footer"
    "utf8_size (co_body r) \<le> conf_int (section_of p ''delivery'') ''message_size_limit_bytes''"
    "composition_audit env p q (co_recipients r) (co_from r) (co_control_id r) (co_token_sha256 r) = Inr (co_audit r)"
    "build_control_headers (co_control_id r) (cq_case_id q) (cq_action_id q) = Inr (co_headers r)" "co_token_sha256 r = ce_sha256 env (co_token r)"
proof -
  have "0 \<le> utf8_size t" for t by (simp add: utf8_size_def)
  then have le: "utf8_size a + utf8_size b \<le> n \<Longrightarrow> utf8_size a \<le> n" for a b n by (smt (verit))
  from assms show thesis
    unfolding compose_message_def Let_def
    by (simp only: mail_Inr sum.inject) (elim exE conjE, rule that, auto intro: le)
qed

lemma contains_iff: "body_contains m t \<longleftrightarrow> (\<exists>s v. t = s @ m @ v)"
proof
  show "body_contains m t \<Longrightarrow> \<exists>s v. t = s @ m @ v"
  proof (induction t)
    case (Cons c t)
    show ?case
    proof (cases "starts_with (c # t) m")
      case True
      then have "c # t = [] @ m @ drop (length m) (c # t)" unfolding starts_with_def by (metis append_Nil append_take_drop_id)
      then show ?thesis by blast
    next
      case False
      then obtain s v where "t = s @ m @ v" using Cons by auto
      then have "c # t = (c # s) @ m @ v" by simp
      then show ?thesis by blast
    qed
  qed simp
qed (use contains_middle in blast)

lemma contains_trans: "body_contains m t \<Longrightarrow> body_contains t u \<Longrightarrow> body_contains m u"
  unfolding contains_iff by (metis append_assoc)

lemma rstrip_prefix: "\<not> is_space c \<Longrightarrow> \<exists>u. rstrip (s @ [c] @ t) = s @ [c] @ u"
proof -
  assume c: "\<not> is_space c"
  have "rstrip (s @ [c] @ t) = s @ [c] @ rstrip t \<or> rstrip (s @ [c] @ t) = s @ [c]"
    using c by (auto simp: rstrip_def dropWhile_append)
  then show ?thesis by (metis append_Nil2)
qed

lemma contains_rstrip: "body_contains (m @ [c]) t \<Longrightarrow> \<not> is_space c \<Longrightarrow> body_contains (m @ [c]) (rstrip t)"
proof -
  assume "body_contains (m @ [c]) t" and c: "\<not> is_space c"
  then obtain s v where t: "t = (s @ m) @ [c] @ v" unfolding contains_iff by auto
  obtain u where "rstrip t = (s @ m) @ [c] @ u" using rstrip_prefix [OF c] unfolding t by blast
  then show ?thesis unfolding contains_iff by (metis append_assoc)
qed

lemma join_neighbours: "body_contains (x @ sep @ y) (join sep (a @ x # y # b))"
proof (induction a)
  case Nil
  show ?case by (cases b) (auto simp: contains_iff intro: exI [of _ "[]"])
next
  case (Cons z a)
  have "join sep ((z # a) @ x # y # b) = z @ sep @ join sep (a @ x # y # b)" by (cases a) simp_all
  then show ?case using Cons contains_later by simp
qed

text \<open>The line that names the correspondence under the marker.\<close>

definition control_lines :: "string \<Rightarrow> string" where
  "control_lines control_id = footer_marker @ [CHR 0x0A] @ ''Correspondence control: '' @ control_id"

lemma control_not_space: "control_char c \<Longrightarrow> \<not> is_space c"
  unfolding control_char_def
proof (elim disjE)
  assume "upper_letter c"
  then have "alnum c" by (simp add: upper_letter_def alnum_def)
  then show ?thesis by (rule token_chars(1))
next
  show "is_digit c \<Longrightarrow> \<not> is_space c" by (rule digit_not_space)
next
  show "c \<in> set ''._:-'' \<Longrightarrow> \<not> is_space c" by (rule token_chars(2))
qed

lemma control_end: "control_text c \<Longrightarrow> \<exists>m x. c = m @ [x] \<and> \<not> is_space x"
proof -
  assume "control_text c"
  then obtain d cs where cs: "c = d # cs" "control_char d" "list_all control_char cs"
    by (cases c) (auto simp: control_text_def control_char_def)
  then have "control_char (last c)" by (auto simp: list_all_iff)
  then have "c = butlast c @ [last c] \<and> \<not> is_space (last c)" using cs(1) control_not_space by simp
  then show ?thesis by blast
qed

lemma control_JStr: "control (JStr u) label = Inr t \<longleftrightarrow> t = strip u \<and> control_text t"
  by (simp add: control_Inr)

lemma render_plain_footer_Inr:
  assumes "render_plain_footer policy t = Inr footer"
  obtains p signer title link where "control_text (strip (fr_control_id t))"
    "rstrip (join [CHR 0x0A] (footer_lines p t signer title (strip (fr_control_id t)) link)) @ [CHR 0x0A] = footer"
  using assms unfolding render_plain_footer_def
  by (simp only: bindE_Inr_iff mail_guard_Inr_iff control_JStr sum.inject) (elim exE conjE, simp only:)

lemma footer_lines_named: "\<exists>a b. footer_lines p t signer title c link = a @ footer_marker # (''Correspondence control: '' @ c) # b"
  unfolding footer_lines_def Let_def
  by (intro exI) (rule arg_cong2 [of _ _ _ _ append, OF refl], subst append_Cons, subst append_Cons, subst append_Nil, rule refl)

lemma footer_named:
  assumes "render_plain_footer policy t = Inr footer"
  shows "body_contains (control_lines (strip (fr_control_id t))) footer" "control_text (strip (fr_control_id t))"
proof -
  let ?c = "strip (fr_control_id t)"
  obtain p signer title link where c: "control_text ?c"
    and footer: "rstrip (join [CHR 0x0A] (footer_lines p t signer title ?c link)) @ [CHR 0x0A] = footer"
    using assms by (rule render_plain_footer_Inr)
  obtain m x where last: "?c = m @ [x]" "\<not> is_space x" using control_end [OF c] by blast
  have lines: "control_lines ?c = (footer_marker @ [CHR 0x0A] @ ''Correspondence control: '' @ m) @ [x]"
    unfolding control_lines_def last(1) by (simp only: append_assoc)
  obtain a b where "footer_lines p t signer title ?c link = a @ footer_marker # (''Correspondence control: '' @ ?c) # b"
    using footer_lines_named by blast
  then have "body_contains (control_lines ?c) (join [CHR 0x0A] (footer_lines p t signer title ?c link))"
    using join_neighbours [of footer_marker "[CHR 0x0A]" "''Correspondence control: '' @ ?c" a b] by (simp only: control_lines_def)
  then have "body_contains (control_lines ?c) (rstrip (join [CHR 0x0A] (footer_lines p t signer title ?c link)))"
    using last(2) unfolding lines by (rule contains_rstrip)
  then show "body_contains (control_lines ?c) footer" unfolding footer [symmetric] by (rule contains_earlier)
  show "control_text ?c" by (rule c)
qed

text \<open>The text of a message: with the footer that names the correspondence, or with a marker that was in its body.\<close>

lemma append_plain_footer_cases:
  "body_contains footer_marker (rstrip body) \<and> append_plain_footer body footer = rstrip body @ [CHR 0x0A] \<or>
   (\<exists>s. append_plain_footer body footer = s @ footer)"
  by (auto simp: append_plain_footer_def Let_def)

definition addressed :: "string list \<Rightarrow> int \<Rightarrow> bool" where
  "addressed recipients most \<longleftrightarrow> recipients \<noteq> [] \<and> int (length recipients) \<le> most \<and> sorted recipients \<and> distinct recipients \<and> list_all email_text recipients"

lemma normalize_recipients_Inr: "normalize_recipients values most = Inr rs \<Longrightarrow> addressed rs most \<and> set rs = (\<lambda>v. casefold (strip v)) ` set values"
  unfolding normalize_recipients_def Let_def
  by (simp only: mail_Inr sum.inject) (auto simp: addressed_def list_all_iff)

lemma validate_from_Inr: "validate_from_address policy v = Inr a \<Longrightarrow> email_text a"
  unfolding validate_from_address_def Let_def by (simp only: mail_Inr sum.inject) blast

lemma control_headers_Inr:
  assumes "build_control_headers control_id case_id action_id = Inr h"
  shows "dget h ''X-WWCX-Control-ID'' = Some (strip control_id)" "list_all (\<lambda>(_, v). CHR 0x0D \<notin> set v \<and> CHR 0x0A \<notin> set v) h"
proof -
  obtain a where "h = (''X-WWCX-Control-ID'', strip control_id) # a" "list_all (\<lambda>(_, v). CHR 0x0D \<notin> set v \<and> CHR 0x0A \<notin> set v) h"
    using assms unfolding build_control_headers_def Let_def
    by (simp only: bindE_Inr_iff mail_guard_Inr_iff control_JStr sum.inject) (elim exE conjE, auto)
  then show "dget h ''X-WWCX-Control-ID'' = Some (strip control_id)" "list_all (\<lambda>(_, v). CHR 0x0D \<notin> set v \<and> CHR 0x0A \<notin> set v) h" by simp_all
qed

lemma composition_audit_Inr: "composition_audit env p q rs a c h = Inr d \<Longrightarrow> dget d ''action_token_sha256'' = Some (JStr h) \<and> dget d ''control_id'' = Some (JStr (strip c))"
  unfolding composition_audit_def Let_def
  by (simp only: bindE_Inr_iff control_JStr sum.inject) (elim exE conjE, hypsubst, simp)

text \<open>
  A composed message is addressed to sorted, distinct addresses within the limit of the policy, comes from an allowed address, has headers without line breaks
  that name its control id, an audit record with the digest of its token, and a text that names the control id under the marker of the
  footer, unless its body had that marker already.
\<close>

theorem composed_messages_are_controlled:
  "case compose_message env policy q of
     Inl _ \<Rightarrow> True
   | Inr r \<Rightarrow>
       addressed (co_recipients r) (conf_int (section_of (json_object policy) ''delivery'') ''max_recipients'') \<and> email_text (co_from r) \<and>
       control_text (strip (co_control_id r)) \<and> dget (co_headers r) ''X-WWCX-Control-ID'' = Some (strip (co_control_id r)) \<and>
       list_all (\<lambda>(_, v). CHR 0x0D \<notin> set v \<and> CHR 0x0A \<notin> set v) (co_headers r) \<and>
       dget (co_audit r) ''control_id'' = Some (JStr (strip (co_control_id r))) \<and>
       dget (co_audit r) ''action_token_sha256'' = Some (JStr (ce_sha256 env (co_token r))) \<and>
       (body_contains (control_lines (strip (co_control_id r))) (co_body r) \<or> body_contains footer_marker (rstrip (cq_body q)))"
proof (cases "compose_message env policy q")
  case (Inr r)
  then obtain p footer t a where valid: "validate_policy policy = Inr p"
    and recipients: "normalize_recipients (cq_recipients q) (conf_int (section_of p ''delivery'') ''max_recipients'') = Inr (co_recipients r)"
    and sender: "validate_from_address policy (cq_from q) = Inr (co_from r)"
    and footer: "render_plain_footer policy t = Inr footer" "fr_control_id t = co_control_id r" "co_body r = append_plain_footer (cq_body q) footer"
    and audit: "composition_audit env p q (co_recipients r) (co_from r) (co_control_id r) (co_token_sha256 r) = Inr (co_audit r)"
    and headers: "build_control_headers (co_control_id r) (cq_case_id q) (cq_action_id q) = Inr (co_headers r)" and token: "co_token_sha256 r = ce_sha256 env (co_token r)"
    by (rule compose_message_Inr)
  have "policy = JObj p" using valid by (rule validate_policy_Inr)
  moreover have "body_contains (control_lines (strip (co_control_id r))) (co_body r) \<or> body_contains footer_marker (rstrip (cq_body q))"
    using append_plain_footer_cases [of "cq_body q" footer] footer_named(1) [OF footer(1)] contains_later unfolding footer(2,3) by metis
  ultimately show ?thesis
    using Inr normalize_recipients_Inr [OF recipients] validate_from_Inr [OF sender] footer_named(2) [OF footer(1)] control_headers_Inr [OF headers]
      composition_audit_Inr [OF audit] token footer(2) by (simp add: json_object_def)
qed simp

text \<open>A body with the marker is sent without the footer, and so without its control id, disclosure and links.\<close>

theorem marked_bodies_get_no_footer:
  "case compose_message env policy q of
     Inl _ \<Rightarrow> True
   | Inr r \<Rightarrow> (if body_contains footer_marker (rstrip (cq_body q)) then co_body r = rstrip (cq_body q) @ [CHR 0x0A] else True)"
proof (cases "compose_message env policy q")
  case (Inr r)
  then obtain p footer t a where "co_body r = append_plain_footer (cq_body q) footer" by (rule compose_message_Inr)
  then show ?thesis using Inr by (simp add: append_plain_footer_def Let_def)
qed simp

section \<open>Gates\<close>

text \<open>The authorizations of the gateway and of the policy, the selected provider, and the confirmation where it is demanded.\<close>

definition gates_open :: "doc \<Rightarrow> doc \<Rightarrow> bool \<Rightarrow> bool" where
  "gates_open c p confirmation \<longleftrightarrow>
     (let admin = section_of c ''admin''; profile = selected_profile c in
      conf_bool c ''enabled'' \<and> conf_bool c ''deployment_authorized'' \<and> conf_bool c ''external_delivery_authorized'' \<and> conf_bool admin ''send_endpoint_enabled'' \<and>
      conf_bool p ''enabled'' \<and> conf_bool p ''smtp_cutover_authorized'' \<and> (confirmation \<or> \<not> conf_bool admin ''require_explicit_send_confirmation'') \<and>
      conf_str profile ''type'' = ''smtp'' \<and> conf_bool profile ''enabled'')"

lemma delivery_gate_Inr:
  assumes "delivery_gate config policy confirmation = Inr u" "conf_str (selected_profile c) ''type'' = ''smtp''" "conf_bool (selected_profile c) ''enabled''"
    "validate_gateway_config config = Inr c"
  obtains p where "validate_policy policy = Inr p" "gates_open c p confirmation"
proof -
  obtain p where "validate_policy policy = Inr p" "gates_open c p confirmation"
    using assms unfolding delivery_gate_def Let_def gates_open_def
    by (simp only: bindE_Inr_iff mail_guard_Inr_iff policy_step_Inr sum.inject) blast
  then show thesis by (rule that)
qed

lemma hand_over_submitted: "hand_over env a rs b s = (r, s') \<Longrightarrow> (ms_submitted s' = ms_submitted s \<or> ms_submitted s' = ms_submitted s @ [(a, rs, b)]) \<and> ms_audit s' = ms_audit s"
  by (auto simp: hand_over_def Let_def split: smtp_result.splits if_splits)

lemma hand_over_Inr: "hand_over env a rs b s = (Inr refused, s') \<Longrightarrow> ms_submitted s' = ms_submitted s @ [(a, rs, b)]"
  by (auto simp: hand_over_def Let_def split: smtp_result.splits if_splits)

lemmas submit_simps = submit_bytes_def Let_def bindS_def pure_act_def guard_def ret_def

text \<open>What a submission may do, and when.\<close>

lemma submit_bytes_effect:
  assumes "submit_bytes env c pv bytes s = (r, s')"
  shows "ms_audit s' = ms_audit s"
    and "ms_submitted s' = ms_submitted s \<or>
      (\<exists>b. bytes = Inr b \<and> conf_str (selected_profile c) ''type'' = ''smtp'' \<and> conf_bool (selected_profile c) ''enabled'' \<and>
         ms_submitted s' = ms_submitted s @ [(mg_from (pv_request pv), mg_recipients (pv_request pv), b)])"
    and "r = Inr v \<Longrightarrow> length (ms_submitted s') = Suc (length (ms_submitted s))"
proof -
  have "ms_audit s' = ms_audit s \<and> (ms_submitted s' = ms_submitted s \<or>
      (\<exists>b. bytes = Inr b \<and> conf_str (selected_profile c) ''type'' = ''smtp'' \<and> conf_bool (selected_profile c) ''enabled'' \<and>
         ms_submitted s' = ms_submitted s @ [(mg_from (pv_request pv), mg_recipients (pv_request pv), b)])) \<and>
      (r = Inr v \<longrightarrow> length (ms_submitted s') = Suc (length (ms_submitted s)))"
  proof (cases "conf_str (selected_profile c) ''type'' = ''smtp'' \<and> conf_bool (selected_profile c) ''enabled''")
    case False
    then show ?thesis using assms by (auto simp: submit_simps)
  next
    case profile: True
    show ?thesis
    proof (cases "smtp_settings env (selected_profile c)")
      case (Inl e)
      then show ?thesis using assms profile by (auto simp: submit_simps)
    next
      case settings: (Inr x)
      show ?thesis
      proof (cases bytes)
        case (Inl e)
        then show ?thesis using assms profile settings by (auto simp: submit_simps)
      next
        case (Inr b)
        obtain h s1 where sent: "hand_over env (mg_from (pv_request pv)) (mg_recipients (pv_request pv)) b s = (h, s1)"
          by (cases "hand_over env (mg_from (pv_request pv)) (mg_recipients (pv_request pv)) b s")
        have s1: "s' = s1" and ok: "r = Inr v \<longrightarrow> (\<exists>refused. h = Inr refused)"
          using assms profile settings Inr sent by (cases h; auto simp: submit_simps split: if_splits)+
        have len: "r = Inr v \<longrightarrow> length (ms_submitted s1) = Suc (length (ms_submitted s))"
          using ok sent hand_over_Inr by (metis length_append_singleton)
        show ?thesis
          unfolding s1
        proof (intro conjI)
          show "ms_audit s1 = ms_audit s" "r = Inr v \<longrightarrow> length (ms_submitted s1) = Suc (length (ms_submitted s))"
            using hand_over_submitted [OF sent] len by blast+
          show "ms_submitted s1 = ms_submitted s \<or>
            (\<exists>b. bytes = Inr b \<and> conf_str (selected_profile c) ''type'' = ''smtp'' \<and> conf_bool (selected_profile c) ''enabled'' \<and>
              ms_submitted s1 = ms_submitted s @ [(mg_from (pv_request pv), mg_recipients (pv_request pv), b)])"
            using hand_over_submitted [OF sent] profile Inr by blast
        qed
      qed
    qed
  qed
  then show "ms_audit s' = ms_audit s" "r = Inr v \<Longrightarrow> length (ms_submitted s') = Suc (length (ms_submitted s))"
    "ms_submitted s' = ms_submitted s \<or>
      (\<exists>b. bytes = Inr b \<and> conf_str (selected_profile c) ''type'' = ''smtp'' \<and> conf_bool (selected_profile c) ''enabled'' \<and>
         ms_submitted s' = ms_submitted s @ [(mg_from (pv_request pv), mg_recipients (pv_request pv), b)])" by blast+
qed

lemma submit_selected_cases:
  "submit_selected c m s = m s \<or> (\<exists>e. submit_selected c m s = (Inl e, s))"
  by (auto simp: submit_selected_def Let_def raise_err_def)

text \<open>The gates are open for a prepared message, with the policy in force for it.\<close>

definition mail_permitted :: "json \<Rightarrow> json \<Rightarrow> bool \<Rightarrow> preview \<Rightarrow> bool" where
  "mail_permitted config base confirmation pv \<longleftrightarrow>
     (\<exists>c policy p. validate_gateway_config config = Inr c \<and> runtime_policy base (pv_request pv) = Inr policy \<and> validate_policy policy = Inr p \<and>
        gates_open c p confirmation)"

lemma submitted_under_gates:
  assumes "runtime_policy base (pv_request pv) = Inr policy" "delivery_gate config policy confirmation = Inr u"
    and "submit_selected (json_object config) (submit_bytes env (json_object config) pv bytes) s = (r, s')"
  shows "ms_audit s' = ms_audit s"
    and "ms_submitted s' = ms_submitted s \<or>
      (\<exists>b. bytes = Inr b \<and> mail_permitted config base confirmation pv \<and> ms_submitted s' = ms_submitted s @ [(mg_from (pv_request pv), mg_recipients (pv_request pv), b)])"
    and "r = Inr v \<Longrightarrow> length (ms_submitted s') = Suc (length (ms_submitted s))"
proof -
  let ?c = "json_object config" and ?m = "submit_bytes env (json_object config) pv bytes"
  obtain c where c: "validate_gateway_config config = Inr c" using assms(2) unfolding delivery_gate_def by (auto simp: bindE_Inr_iff)
  have object: "?c = c" using validate_gateway_config_Inr [OF c] by (simp add: json_object_def)
  consider "?m s = (r, s')" | e where "r = Inl e" "s' = s" using submit_selected_cases [of ?c ?m s] assms(3) by auto
  then have "ms_audit s' = ms_audit s \<and> (ms_submitted s' = ms_submitted s \<or>
      (\<exists>b. bytes = Inr b \<and> mail_permitted config base confirmation pv \<and> ms_submitted s' = ms_submitted s @ [(mg_from (pv_request pv), mg_recipients (pv_request pv), b)])) \<and>
      (r = Inr v \<longrightarrow> length (ms_submitted s') = Suc (length (ms_submitted s)))"
  proof cases
    case 1
    note effect = submit_bytes_effect [OF 1]
    have "mail_permitted config base confirmation pv" if smtp: "conf_str (selected_profile c) ''type'' = ''smtp''" "conf_bool (selected_profile c) ''enabled''"
    proof -
      obtain p where "validate_policy policy = Inr p" "gates_open c p confirmation" by (rule delivery_gate_Inr [OF assms(2) smtp c])
      then show ?thesis using c assms(1) unfolding mail_permitted_def by blast
    qed
    then show ?thesis using effect(1,2) effect(3) [of v] unfolding object by blast
  qed simp
  then show "ms_audit s' = ms_audit s" "r = Inr v \<Longrightarrow> length (ms_submitted s') = Suc (length (ms_submitted s))"
    "ms_submitted s' = ms_submitted s \<or>
      (\<exists>b. bytes = Inr b \<and> mail_permitted config base confirmation pv \<and> ms_submitted s' = ms_submitted s @ [(mg_from (pv_request pv), mg_recipients (pv_request pv), b)])"
    by blast+
qed

lemma bind_pure_cases:
  assumes "bindS (pure_act x) f s = (r, s')"
  obtains (Raised) e where "x = Inl e" "r = Inl e" "s' = s" | (Went) v where "x = Inr v" "f v s = (r, s')"
  using assms by (cases x) (auto simp: bindS_pure)

text \<open>
  C24. Sending hands a message to the SMTP server at most once, and only the composed message to its recipients while every gate
  that the delivery gate checks is open, an enabled SMTP profile is selected and the confirmation given where it is demanded.
\<close>

theorem submissions_pass_every_gate:
  "case send_message env config base payload confirmation audited s of
     (_, s') \<Rightarrow> ms_submitted s' = ms_submitted s \<or>
       (\<exists>pv m. compose_preview env config base payload = Inr pv \<and> mail_permitted config base confirmation pv \<and> build_email_message env pv = Inr m \<and>
          ms_submitted s' = ms_submitted s @ [(mg_from (pv_request pv), mg_recipients (pv_request pv), me_serialize env m)])"
proof (cases "send_message env config base payload confirmation audited s")
  case (Pair r s')
  have "ms_submitted s' = ms_submitted s \<or>
       (\<exists>pv m. compose_preview env config base payload = Inr pv \<and> mail_permitted config base confirmation pv \<and> build_email_message env pv = Inr m \<and>
          ms_submitted s' = ms_submitted s @ [(mg_from (pv_request pv), mg_recipients (pv_request pv), me_serialize env m)])"
    using Pair unfolding send_message_def Let_def
  proof (elim bind_pure_cases, goal_cases)
    case (4 pv policy u)
    let ?submit = "submit_selected (json_object config) (submit_smtp env (json_object config) pv)"
    obtain d s1 where sent: "?submit s = (d, s1)" by (cases "?submit s")
    have "ms_submitted s' = ms_submitted s1"
      using 4(4) sent by (cases d) (auto simp: bindS_def append_mail_audit_def ret_def split: if_splits option.splits)
    then show ?case
      using submitted_under_gates(2) [OF 4(2,3), of env "map_sum id (me_serialize env) (build_email_message env pv)" s d s1] sent 4(1)
      unfolding submit_smtp_def map_sum_Inr_iff by metis
  qed simp_all
  then show ?thesis using Pair by simp
qed

text \<open>
  C25. The submission boundary sends only bytes that were scanned: what it hands to the SMTP server are the bytes that the final scanner
  found clean, under open gates, to the recipients of the message, at most once; a submission that returns has handed them over.
\<close>

theorem scanned_bytes_are_sent:
  "case send_preview env config base pv confirmation s of
     (r, s') \<Rightarrow> (ms_submitted s' = ms_submitted s \<and> \<not> is_ok r) \<or>
       (\<exists>scan d m. mail_permitted config base confirmation pv \<and> build_email_message env pv = Inr m \<and> me_scanner env = Some scan \<and>
          normalize_scan env (scan (me_serialize env m)) (me_serialize env m) = Some d \<and> jget d ''state'' = JStr ''clean'' \<and>
          ms_submitted s' = ms_submitted s @ [(mg_from (pv_request pv), mg_recipients (pv_request pv), me_serialize env m)])"
proof (cases "send_preview env config base pv confirmation s")
  case (Pair r s')
  have "(ms_submitted s' = ms_submitted s \<and> \<not> is_ok r) \<or>
       (\<exists>scan d m. mail_permitted config base confirmation pv \<and> build_email_message env pv = Inr m \<and> me_scanner env = Some scan \<and>
          normalize_scan env (scan (me_serialize env m)) (me_serialize env m) = Some d \<and> jget d ''state'' = JStr ''clean'' \<and>
          ms_submitted s' = ms_submitted s @ [(mg_from (pv_request pv), mg_recipients (pv_request pv), me_serialize env m)])"
    using Pair unfolding send_preview_def Let_def
  proof (elim bind_pure_cases, goal_cases)
    case (5 policy u bytes scanned)
    let ?submit = "submit_selected (json_object config) (submit_bytes env (json_object config) pv (Inr bytes))"
    obtain x s1 where sent: "?submit s = (x, s1)" by (cases "?submit s")
    have last: "s' = s1" "is_ok r \<longrightarrow> (\<exists>v. x = Inr v)" using 5(5) sent by (cases x; auto simp: bindS_def ret_def)+
    obtain m where m: "build_email_message env pv = Inr m" "bytes = me_serialize env m" using 5(3) by (auto simp: map_sum_Inr_iff)
    obtain scan d where scan: "me_scanner env = Some scan" "normalize_scan env (scan bytes) bytes = Some d" "jget d ''state'' = JStr ''clean''"
      using 5(4) unfolding require_clean_def by (auto simp: mail_guard_Inr_iff split: option.splits)
    consider "ms_submitted s1 = ms_submitted s" "\<not> is_ok r"
      | "mail_permitted config base confirmation pv" "ms_submitted s1 = ms_submitted s @ [(mg_from (pv_request pv), mg_recipients (pv_request pv), bytes)]"
      using submitted_under_gates(2,3) [OF 5(1,2) sent] last(2) by fastforce
    then show ?case using m scan unfolding last(1) by metis
  qed simp_all
  then show ?thesis using Pair by simp
qed

text \<open>
  The audit has exactly the submissions that returned: a send that returns has handed over one message and, where an audit is kept,
  appended its event; a send that raises has appended nothing.
\<close>

theorem audits_follow_success:
  "case send_message env config base payload confirmation audited s of
     (Inl _, s') \<Rightarrow> ms_audit s' = ms_audit s
   | (Inr st, s') \<Rightarrow> length (ms_submitted s') = Suc (length (ms_submitted s)) \<and>
       ms_audit s' = ms_audit s @ (if audited \<and> conf_bool (section_of (json_object base) ''audit'') ''write_jsonl'' then [st_event st] else [])"
proof (cases "send_message env config base payload confirmation audited s")
  case (Pair r s')
  have "(\<not> is_ok r \<and> ms_audit s' = ms_audit s) \<or>
     (\<exists>st. r = Inr st \<and> length (ms_submitted s') = Suc (length (ms_submitted s)) \<and>
        ms_audit s' = ms_audit s @ (if audited \<and> conf_bool (section_of (json_object base) ''audit'') ''write_jsonl'' then [st_event st] else []))"
    using Pair unfolding send_message_def Let_def
  proof (elim bind_pure_cases, goal_cases)
    case (4 pv policy u)
    let ?submit = "submit_selected (json_object config) (submit_smtp env (json_object config) pv)"
    obtain d s1 where sent: "?submit s = (d, s1)" by (cases "?submit s")
    note gates = submitted_under_gates [OF 4(2,3) sent [unfolded submit_smtp_def]]
    show ?case
    proof (cases d)
      case (Inl e)
      then show ?thesis using 4(4) sent gates(1) by (auto simp: bindS_def)
    next
      case (Inr v)
      then show ?thesis using 4(4) sent gates(1) gates(3) [OF Inr]
        by (auto simp: bindS_def append_mail_audit_def ret_def split: if_splits option.splits)
    qed
  qed simp_all
  then show ?thesis using Pair by (cases r) simp_all
qed

end
