(* ===== verification/MailWitnesses.thy ===== *)
theory MailWitnesses
  imports MailTheorems
begin

text \<open>
  A message that is sent: a configuration and a policy with every gate open, and a scanner that finds everything clean.
\<close>

definition demo_profile :: doc where
  "demo_profile = [(''type'', JStr ''smtp''), (''enabled'', JBool True), (''host_env'', JStr ''MAIL_HOST''), (''port_env'', JStr ''MAIL_PORT''),
     (''username_env'', JStr ''MAIL_USER''), (''password_env'', JStr ''MAIL_PASS''), (''starttls'', JBool True), (''timeout_seconds'', JInt 30)]"

definition demo_mail_config :: doc where
  "demo_mail_config = [(''contract'', JStr gateway_contract), (''enabled'', JBool True), (''deployment_authorized'', JBool True),
     (''external_delivery_authorized'', JBool True), (''listen'', JObj [(''host'', JStr ''127.0.0.1''), (''port'', JInt 8086)]),
     (''paths'', JObj [(''policy'', JStr ''p''), (''audit_jsonl'', JStr ''a'')]),
     (''provider'', JObj [(''selected'', JStr ''smtp''), (''profiles'', JObj [(''smtp'', JObj demo_profile)])]),
     (''admin'', JObj [(''preview_enabled'', JBool True), (''send_endpoint_enabled'', JBool True), (''require_explicit_send_confirmation'', JBool True),
        (''max_recipient_count'', JInt 50), (''max_body_bytes'', JInt 65536), (''audit_view_limit'', JInt 100)]),
     (''preparation_api'', JObj (demo_auth_doc 900)),
     (''content'', JObj [(''persist_message_bodies'', JBool False), (''persist_attachment_bytes'', JBool False), (''draft_retention_hours'', JInt 24)])]"

definition demo_mail_policy :: doc where
  "demo_mail_policy = [(''contract'', JStr policy_contract), (''enabled'', JBool True), (''deployment_authorized'', JBool True), (''smtp_cutover_authorized'', JBool True),
     (''organization'', JObj [(''legal_name'', JStr ''L''), (''operating_name'', JStr ''O''), (''website'', JStr ''w''), (''privacy_url'', JStr ''p''),
        (''contact_email'', JStr ''a@ww.cx''), (''mailing_address'', JStr ''m'')]),
     (''footer'', JObj (map (\<lambda>k. (k, JBool (k = ''append_to_plain_text''))) footer_keys)),
     (''tracking'', JObj [(''action_base_url'', JStr ''u''), (''transparent_action_links'', JBool True), (''hidden_open_tracking'', JBool False),
        (''device_fingerprinting'', JBool False), (''collect_full_ip'', JBool False), (''ip_storage_mode'', JStr ''none''), (''retention_days'', JInt 30)]),
     (''audit'', JObj [(''write_jsonl'', JBool True), (''record_recipient_addresses'', JBool False), (''record_body'', JBool False),
        (''record_action_token'', JBool False), (''record_action_token_hash'', JBool True)]),
     (''delivery'', JObj [(''provider'', JStr ''smtp_submission''), (''allow_prepare'', JBool True), (''allow_external_submission'', JBool True),
        (''allow_live_delivery'', JBool True), (''allowed_from_domains'', JList [JStr ''ww.cx'']), (''max_recipients'', JInt 10),
        (''message_size_limit_bytes'', JInt 4096)])]"

definition demo_payload :: json where
  "demo_payload = JObj [(''subject'', JStr ''s''), (''body'', JStr ''b''), (''to'', JStr ''X@y.z''), (''from_address'', JStr ''a@ww.cx''), (''control_id'', JStr ''WWCX-1'')]"

definition demo_message :: mail_message where
  "demo_message = \<lparr>mg_from = ''a@ww.cx'', mg_to = [''X@y.z''], mg_cc = [], mg_bcc = [], mg_recipients = [''x@y.z''], mg_subject = ''s'', mg_body = ''b'',
     mg_class = ''business_correspondence'', mg_signer = ''John Kaminski'', mg_title = ''Authorized Representative'', mg_case_id = None, mg_action_id = None,
     mg_control_id = Some ''WWCX-1'', mg_unsubscribe = None, mg_mailing_address = None, mg_reply_to = None\<rparr>"

definition demo_outbound :: mail_env where
  "demo_outbound = \<lparr>me_auth = demo_mail_env\<lparr>ma_environ := \<lambda>n. Some (if n = ''MAIL_PORT'' then ''587'' else ''v'')\<rparr>,
     me_compose = \<lparr>ce_iso = ''t'', ce_iso_seconds = ''t'', ce_stamp = ''t'', ce_token = ''k'', ce_sha256 = (\<lambda>_. ''d'')\<rparr>, me_date = ''t'', me_now = ''t'',
     me_message_id = ''i'', me_serialize = mm_content, me_smtp = (\<lambda>_ _ _. Refused []),
     me_scanner = Some (\<lambda>b. JObj [(''contract'', JStr ''wwcx.mail-final-scan.v1''), (''state'', JStr ''clean''), (''engine'', JStr ''e''), (''engine_version'', JStr ''1''),
       (''ruleset_version'', JStr ''1''), (''message_sha256'', JStr (replicate 64 (CHR ''a''))), (''reason_codes'', JList [])]), me_audit_fails = None\<rparr>"

lemma demo_texts: "strip ''u'' = ''u''" "strip ''L'' = ''L''" "strip ''O'' = ''O''" "strip ''w'' = ''w''" "strip ''p'' = ''p''" "strip ''m'' = ''m''" "strip ''a'' = ''a''"
  "strip ''a@ww.cx'' = ''a@ww.cx''" "email_text ''a@ww.cx''" "strip ''127.0.0.1'' = ''127.0.0.1''" "strip ''smtp'' = ''smtp''"
  "strip ''MAIL_HOST'' = ''MAIL_HOST''" "strip ''MAIL_PORT'' = ''MAIL_PORT''" "strip ''MAIL_USER'' = ''MAIL_USER''" "strip ''MAIL_PASS'' = ''MAIL_PASS''"
  by code_simp+

lemma demo_policy_valid: "validate_policy (JObj demo_mail_policy) = Inr demo_mail_policy"
proof -
  have org: "check_organization (jget demo_mail_policy ''organization'') = Inr (section_of demo_mail_policy ''organization'')"
    by (simp add: check_organization_def demo_mail_policy_def section_of_def jget_def policy_keys_def organization_keys_def policy_text_def Let_def guard_def conf_str_def demo_texts)
  have footer: "check_footer (jget demo_mail_policy ''footer'') = Inr (section_of demo_mail_policy ''footer'')"
    by (simp add: check_footer_def demo_mail_policy_def section_of_def jget_def policy_keys_def footer_keys_def check_bools_def policy_bool_def)
  have tracking: "check_tracking (jget demo_mail_policy ''tracking'') = Inr (section_of demo_mail_policy ''tracking'')"
    by (simp add: check_tracking_def demo_mail_policy_def section_of_def jget_def policy_keys_def tracking_keys_def check_bools_def policy_bool_def named_def policy_text_def
      Let_def guard_def conf_bool_def hashable_def between_def whole_def demo_texts)
  have audit: "check_audit (jget demo_mail_policy ''audit'') = Inr (section_of demo_mail_policy ''audit'')"
    by (simp add: check_audit_def demo_mail_policy_def section_of_def jget_def policy_keys_def audit_keys_def check_bools_def policy_bool_def guard_def conf_bool_def)
  have delivery: "check_delivery (jget demo_mail_policy ''delivery'') = Inr (section_of demo_mail_policy ''delivery'')"
    by (simp add: check_delivery_def demo_mail_policy_def section_of_def jget_def policy_keys_def delivery_keys_def check_bools_def policy_bool_def named_def
      guard_def conf_list_def hashable_def between_def whole_def providers_def)
  have gates: "check_gates demo_mail_policy (section_of demo_mail_policy ''organization'') (section_of demo_mail_policy ''footer'')
      (section_of demo_mail_policy ''tracking'') (section_of demo_mail_policy ''delivery'') = Inr ()"
    by (simp add: check_gates_def demo_mail_policy_def section_of_def jget_def guard_def conf_bool_def placeholder_address_def footer_keys_def)
  have keys: "policy_keys (JObj demo_mail_policy) policy_section_keys ''policy'' = Inr demo_mail_policy"
    by (simp add: policy_keys_def demo_mail_policy_def policy_section_keys_def)
  have flags: "jget demo_mail_policy ''contract'' = JStr policy_contract"
    "check_bools (named demo_mail_policy [''enabled'', ''deployment_authorized'', ''smtp_cutover_authorized'']) [] = Inr ()"
    by (simp_all add: demo_mail_policy_def jget_def check_bools_def named_def policy_bool_def)
  show ?thesis unfolding validate_policy_def keys bindE_simps flags org footer tracking audit delivery gates by (simp add: guard_def)
qed

lemma demo_config_valid: "validate_gateway_config (JObj demo_mail_config) = Inr demo_mail_config"
proof -
  note fields = demo_mail_config_def jget_def section_of_def conf_bool_def guard_def gateway_text_def gateway_bool_def gateway_int_def between_def whole_def Let_def demo_texts
  have profile: "check_profile ''smtp'' (JObj demo_profile) = Inr ()"
    by (simp add: check_profile_def demo_profile_def gateway_keys_def fields)
  have provider: "check_provider (jget demo_mail_config ''provider'') = Inr (''smtp'', [(''smtp'', JObj demo_profile)])"
    by (simp add: check_provider_def gateway_keys_def fields profile)
  have admin: "check_admin (jget demo_mail_config ''admin'') = Inr (section_of demo_mail_config ''admin'')"
    by (simp add: check_admin_def gateway_keys_def fields)
  have preparation: "configured (validate_auth_config (jget demo_mail_config ''preparation_api'')) = Inr (demo_auth_doc 900)"
    by (simp add: fields configured_def demo_valid)
  have content: "check_content (jget demo_mail_config ''content'') = Inr ()"
    by (simp add: check_content_def gateway_keys_def fields)
  have enabled: "check_enabled demo_mail_config (section_of demo_mail_config ''admin'') ''smtp'' [(''smtp'', JObj demo_profile)] = Inr ()"
    by (simp add: check_enabled_def demo_profile_def fields)
  have rest: "gateway_keys (jget demo_mail_config ''listen'') [''host'', ''port''] ''listen'' = Inr (section_of demo_mail_config ''listen'')"
    "all_texts (section_of demo_mail_config ''listen'') ''listen.'' [''host''] = Inr ()"
    "gateway_int (jget (section_of demo_mail_config ''listen'') ''port'') ''listen.port'' 1 65535 = Inr ()"
    "gateway_keys (jget demo_mail_config ''paths'') [''policy'', ''audit_jsonl''] ''paths'' = Inr (section_of demo_mail_config ''paths'')"
    "all_texts (section_of demo_mail_config ''paths'') ''paths.'' [''policy'', ''audit_jsonl''] = Inr ()"
    "all_bools demo_mail_config [] [''enabled'', ''deployment_authorized'', ''external_delivery_authorized''] = Inr ()"
    "jget demo_mail_config ''contract'' = JStr gateway_contract"
    by (simp_all add: gateway_keys_def fields)
  have keys: "gateway_keys (JObj demo_mail_config) gateway_section_keys ''gateway'' = Inr demo_mail_config"
    by (simp add: gateway_keys_def demo_mail_config_def gateway_section_keys_def)
  show ?thesis
    unfolding validate_gateway_config_def keys bindE_simps rest provider admin preparation content split_conv enabled by (simp add: guard_def)
qed

lemma demo_fields: "strip ''s'' = ''s''" "strip ''b'' = ''b''" "split_addresses (JStr ''X@y.z'') = Inr [''X@y.z'']" "split_addresses JNull = Inr []" "strip ''WWCX-1'' = ''WWCX-1''" "strip (''john@ww.cx'') = ''john@ww.cx''"
  "strip ''business_correspondence'' = ''business_correspondence''" "strip ''John Kaminski'' = ''John Kaminski''"
  "strip ''Authorized Representative'' = ''Authorized Representative''" "strip [] = []" "utf8_size ''b'' = 1" "casefold ''a@ww.cx'' = ''a@ww.cx''"
  "after_last (CHR 0x40) ''a@ww.cx'' = ''ww.cx''" "casefold ''ww.cx'' = ''ww.cx''" "control_text ''WWCX-1''"
  by code_simp+

lemma demo_recipients: "normalize_recipients [''X@y.z''] n = (if 1 \<le> n then Inr [''x@y.z''] else Inl (ValueError ''recipient address or count is invalid''))"
proof -
  have "strip ''X@y.z'' = ''X@y.z''" "casefold ''X@y.z'' = ''x@y.z''" "email_text ''x@y.z''" by code_simp+
  then show ?thesis by (simp add: normalize_recipients_def policy_text_def guard_def)
qed

lemma demo_request: "normalize_message_request (JObj demo_mail_config) demo_payload = Inr demo_message"
  unfolding normalize_message_request_def demo_config_valid bindE_simps demo_payload_def
  by (simp add: field_text_def optional_field_def jget_default_def jget_def given_def guard_def demo_fields demo_recipients policy_step_def
    demo_mail_config_def section_of_def conf_int_def whole_def message_classes_def demo_message_def demo_texts Let_def)

lemma demo_from: "validate_from_address (JObj demo_mail_policy) (JStr ''a@ww.cx'') = Inr ''a@ww.cx''"
  unfolding validate_from_address_def demo_policy_valid bindE_simps
  by (simp add: policy_text_def demo_texts demo_fields Let_def guard_def demo_mail_policy_def section_of_def jget_def conf_list_def)

lemma demo_runtime: "runtime_policy (JObj demo_mail_policy) demo_message = Inr (JObj demo_mail_policy)"
proof -
  have "set_in (JObj demo_mail_policy) ''organization'' [(''contact_email'', JStr ''a@ww.cx'')] = Inr (JObj demo_mail_policy)"
    by (simp add: set_in_def demo_mail_policy_def)
  then show ?thesis by (simp add: runtime_policy_def demo_message_def demo_texts demo_from policy_step_def demo_policy_valid)
qed

text \<open>The footer, the link and the composed message.\<close>

definition demo_footer :: string where
  "demo_footer = ''--'' @ [CHR 0x0A] @ ''John Kaminski'' @ [CHR 0x0A] @ ''Authorized Representative'' @ [CHR 0x0A] @ ''O | L'' @ [CHR 0x0A] @ ''m'' @ [CHR 0x0A] @
     ''Email: a@ww.cx | Web: w'' @ [CHR 0x0A, CHR 0x0A] @ footer_marker @ [CHR 0x0A] @ ''Correspondence control: WWCX-1'' @ [CHR 0x0A]"

definition demo_footer_request :: footer_request where
  "demo_footer_request = \<lparr>fr_class = ''business_correspondence'', fr_signer = ''John Kaminski'', fr_title = ''Authorized Representative'',
     fr_control_id = ''WWCX-1'', fr_action_url = Some ''u/k'', fr_unsubscribe = None\<rparr>"

lemma demo_footer_rendered: "render_plain_footer (JObj demo_mail_policy) demo_footer_request = Inr demo_footer"
proof -
  have lines: "footer_lines demo_mail_policy demo_footer_request ''John Kaminski'' ''Authorized Representative'' ''WWCX-1'' [] =
      [''--'', ''John Kaminski'', ''Authorized Representative'', ''O | L'', ''m'', ''Email: a@ww.cx | Web: w'', [], footer_marker, ''Correspondence control: WWCX-1'']"
    by (simp add: footer_lines_def demo_mail_policy_def section_of_def jget_def conf_bool_def conf_str_def footer_keys_def demo_footer_request_def given_def)
  have trimmed: "rstrip (join [CHR 0x0A] [''--'', ''John Kaminski'', ''Authorized Representative'', ''O | L'', ''m'', ''Email: a@ww.cx | Web: w'', [], footer_marker,
      ''Correspondence control: WWCX-1'']) @ [CHR 0x0A] = demo_footer"
    by code_simp
  have link: "\<not> conf_bool (section_of demo_mail_policy ''footer'') ''include_action_link''"
    by (simp add: demo_mail_policy_def section_of_def jget_def conf_bool_def footer_keys_def)
  show ?thesis
    unfolding render_plain_footer_def demo_policy_valid bindE_simps
    using lines trimmed link
    by (simp add: demo_footer_request_def guard_def message_classes_def policy_text_def control_def demo_fields Let_def)
qed

lemma demo_url: "build_action_url (JStr ''u'') ''k'' = Inr ''u/k''"
  by code_simp

lemma mail_demo_size: "utf8_size (append_plain_footer ''b'' demo_footer) + utf8_size [] \<le> 4096"
  by code_simp

definition demo_compose :: compose_request where
  "demo_compose = \<lparr>cq_body = ''b'', cq_subject = ''s'', cq_recipients = [''x@y.z''], cq_from = JStr ''a@ww.cx'', cq_signer = ''John Kaminski'',
     cq_title = ''Authorized Representative'', cq_class = ''business_correspondence'', cq_html = None, cq_control_id = Some ''WWCX-1'', cq_case_id = None,
     cq_action_id = None, cq_unsubscribe = None\<rparr>"

lemma demo_recipients_again: "normalize_recipients [''x@y.z''] n = (if 1 \<le> n then Inr [''x@y.z''] else Inl (ValueError ''recipient address or count is invalid''))"
proof -
  have "strip ''x@y.z'' = ''x@y.z''" "casefold ''x@y.z'' = ''x@y.z''" "email_text ''x@y.z''" by code_simp+
  then show ?thesis by (simp add: normalize_recipients_def policy_text_def guard_def)
qed

definition demo_composed :: composed where
  "demo_composed = (case compose_message (me_compose demo_outbound) (JObj demo_mail_policy) demo_compose of Inr r \<Rightarrow> r)"

lemma demo_is_composed:
  "compose_message (me_compose demo_outbound) (JObj demo_mail_policy) demo_compose = Inr demo_composed"
  "co_headers demo_composed = [(''X-WWCX-Control-ID'', ''WWCX-1''), (''X-WWCX-Policy'', policy_contract), (''X-WWCX-Tracking'', ''disclosed-action-link; no-hidden-pixel'')]"
  "co_body demo_composed = append_plain_footer ''b'' demo_footer"
proof -
  have delivery: "conf_bool (section_of demo_mail_policy ''delivery'') ''allow_prepare''" "conf_int (section_of demo_mail_policy ''delivery'') ''max_recipients'' = 10"
    "conf_int (section_of demo_mail_policy ''delivery'') ''message_size_limit_bytes'' = 4096"
    "jget (section_of demo_mail_policy ''tracking'') ''action_base_url'' = JStr ''u''"
    by (simp_all add: demo_mail_policy_def section_of_def jget_def conf_bool_def conf_int_def whole_def)
  have headers: "build_control_headers ''WWCX-1'' None None =
      Inr [(''X-WWCX-Control-ID'', ''WWCX-1''), (''X-WWCX-Policy'', policy_contract), (''X-WWCX-Tracking'', ''disclosed-action-link; no-hidden-pixel'')]"
    by (simp add: build_control_headers_def control_def policy_text_def optional_control_def given_def guard_def demo_fields policy_contract_def Let_def)
  have audit: "\<exists>a. composition_audit (me_compose demo_outbound) demo_mail_policy demo_compose [''x@y.z''] ''a@ww.cx'' ''WWCX-1'' h = Inr a" for h
    by (simp add: composition_audit_def control_def policy_text_def optional_control_def given_def guard_def demo_fields demo_compose_def Let_def)
  have request: "\<lparr>fr_class = cq_class demo_compose, fr_signer = cq_signer demo_compose, fr_title = cq_title demo_compose, fr_control_id = ''WWCX-1'', fr_action_url = Some ''u/k'',
      fr_unsubscribe = cq_unsubscribe demo_compose\<rparr> = demo_footer_request"
    by (simp add: demo_compose_def demo_footer_request_def)
  have token: "ce_token (me_compose demo_outbound) = ''k''" by (simp add: demo_outbound_def)
  have fields: "cq_recipients demo_compose = [''x@y.z'']" "cq_from demo_compose = JStr ''a@ww.cx''" "cq_control_id demo_compose = Some ''WWCX-1''" "cq_html demo_compose = None"
    "cq_body demo_compose = ''b''" "cq_case_id demo_compose = None" "cq_action_id demo_compose = None" "given (Some ''WWCX-1'') = Some ''WWCX-1''"
    by (simp_all add: demo_compose_def given_def)
  obtain a where a: "composition_audit (me_compose demo_outbound) demo_mail_policy demo_compose [''x@y.z''] ''a@ww.cx'' ''WWCX-1''
      (ce_sha256 (me_compose demo_outbound) ''k'') = Inr a" using audit by blast
  have "compose_message (me_compose demo_outbound) (JObj demo_mail_policy) demo_compose =
      Inr \<lparr>co_body = append_plain_footer ''b'' demo_footer, co_html = None,
        co_headers = [(''X-WWCX-Control-ID'', ''WWCX-1''), (''X-WWCX-Policy'', policy_contract), (''X-WWCX-Tracking'', ''disclosed-action-link; no-hidden-pixel'')],
        co_control_id = ''WWCX-1'', co_action_url = ''u/k'', co_token = ''k'', co_token_sha256 = ce_sha256 (me_compose demo_outbound) ''k'', co_from = ''a@ww.cx'',
        co_recipients = [''x@y.z''], co_audit = a, co_provider = jget (section_of demo_mail_policy ''delivery'') ''provider'',
        co_live = jget (section_of demo_mail_policy ''delivery'') ''allow_live_delivery''\<rparr>"
    unfolding compose_message_def demo_policy_valid bindE_simps Let_def fields token demo_from option.case delivery demo_url request demo_footer_rendered headers
    using mail_demo_size a by (simp add: demo_recipients_again guard_def headers delivery(1))
  then show "compose_message (me_compose demo_outbound) (JObj demo_mail_policy) demo_compose = Inr demo_composed"
    "co_headers demo_composed = [(''X-WWCX-Control-ID'', ''WWCX-1''), (''X-WWCX-Policy'', policy_contract), (''X-WWCX-Tracking'', ''disclosed-action-link; no-hidden-pixel'')]"
    "co_body demo_composed = append_plain_footer ''b'' demo_footer"
    by (simp_all add: demo_composed_def)
qed

text \<open>The whole way, through both submissions.\<close>

definition demo_preview :: preview where
  "demo_preview = \<lparr>pv_request = demo_message, pv_body = co_body demo_composed, pv_headers = co_headers demo_composed, pv_control_id = co_control_id demo_composed,
     pv_action_url = co_action_url demo_composed, pv_token = co_token demo_composed, pv_token_sha256 = co_token_sha256 demo_composed, pv_audit = co_audit demo_composed\<rparr>"

lemma demo_is_previewed: "compose_preview demo_outbound (JObj demo_mail_config) (JObj demo_mail_policy) demo_payload = Inr demo_preview"
proof -
  have enabled: "preview_enabled (JObj demo_mail_config) = Inr True" by (simp add: preview_enabled_def demo_mail_config_def)
  have "jget (section_of (json_object (JObj demo_mail_policy)) ''organization'') ''contact_email'' = JStr ''a@ww.cx''"
    by (simp add: json_object_def section_of_def demo_mail_policy_def jget_def)
  then have request: "\<lparr>cq_body = mg_body demo_message, cq_subject = mg_subject demo_message, cq_recipients = mg_recipients demo_message,
      cq_from = jget (section_of (json_object (JObj demo_mail_policy)) ''organization'') ''contact_email'', cq_signer = mg_signer demo_message, cq_title = mg_title demo_message,
      cq_class = mg_class demo_message, cq_html = None, cq_control_id = mg_control_id demo_message, cq_case_id = mg_case_id demo_message,
      cq_action_id = mg_action_id demo_message, cq_unsubscribe = mg_unsubscribe demo_message\<rparr> = demo_compose"
    by (simp add: demo_message_def demo_compose_def)
  show ?thesis
    unfolding compose_preview_def enabled demo_request bindE_simps demo_runtime request demo_is_composed(1) policy_step_def
    by (simp add: guard_def demo_preview_def)
qed

lemma demo_is_built: "\<exists>m. build_email_message demo_outbound demo_preview = Inr m \<and> mm_content m = append_plain_footer ''b'' demo_footer"
proof -
  have "list_all (\<lambda>(_, v). CHR 0x0D \<notin> set v \<and> CHR 0x0A \<notin> set v) ([(''From'', ''a@ww.cx''), (''To'', join '', '' [''X@y.z'']), (''Subject'', ''s''), (''Date'', ''t''),
      (''Message-ID'', ''i''), (''X-WWCX-Control-ID'', ''WWCX-1''), (''X-WWCX-Policy'', policy_contract), (''X-WWCX-Tracking'', ''disclosed-action-link; no-hidden-pixel'')])"
    by (simp add: policy_contract_def)
  then show ?thesis
    by (simp add: build_email_message_def demo_preview_def demo_message_def demo_is_composed demo_outbound_def guard_def Let_def)
qed

lemma demo_gate: "delivery_gate (JObj demo_mail_config) (JObj demo_mail_policy) True = Inr ()"
  unfolding delivery_gate_def demo_config_valid demo_policy_valid policy_step_def
  by (simp add: demo_mail_config_def demo_mail_policy_def section_of_def jget_def conf_bool_def guard_def Let_def)

lemma demo_profile_selected: "selected_profile demo_mail_config = demo_profile" "selected_name demo_mail_config = ''smtp''"
  "map fst (profiles_of demo_mail_config) = [''smtp'']"
  by (simp_all add: selected_profile_def profiles_of_def selected_name_def demo_mail_config_def section_of_def jget_def conf_str_def)

lemma demo_settings_read: "me_auth env = me_auth demo_outbound \<Longrightarrow> smtp_settings env demo_profile = Inr (''v'', 587)"
proof -
  assume "me_auth env = me_auth demo_outbound"
  moreover have "int_of_str ''587'' = Some 587" "strip ''587'' = ''587''" "strip ''v'' = ''v''" by code_simp+
  ultimately show ?thesis
    by (simp add: smtp_settings_def environment_value_def given_def demo_profile_def jget_def conf_str_def demo_outbound_def guard_def)
qed

lemma demo_is_submitted:
  "\<exists>r. submit_selected demo_mail_config (submit_bytes demo_outbound demo_mail_config demo_preview (Inr b)) s =
    (Inr r, s\<lparr>ms_submitted := ms_submitted s @ [(''a@ww.cx'', [''x@y.z''], b)]\<rparr>)"
  using demo_settings_read [OF refl]
  by (simp add: submit_selected_def submit_bytes_def demo_profile_selected demo_profile_def jget_def conf_str_def conf_bool_def guard_def bindS_def pure_act_def ret_def
    hand_over_def demo_outbound_def demo_preview_def demo_message_def Let_def)

definition demo_mail_state :: mail_state where
  "demo_mail_state = \<lparr>ms_submitted = [], ms_audit = []\<rparr>"

lemma demo_audited: "conf_bool (section_of (json_object (JObj demo_mail_policy)) ''audit'') ''write_jsonl''"
  by (simp add: json_object_def demo_mail_policy_def section_of_def jget_def conf_bool_def)

lemma demo_is_sent:
  "\<exists>st s'. send_message demo_outbound (JObj demo_mail_config) (JObj demo_mail_policy) demo_payload True True demo_mail_state = (Inr st, s') \<and>
     ms_submitted s' = [(''a@ww.cx'', [''x@y.z''], append_plain_footer ''b'' demo_footer)]"
proof -
  obtain m where m: "build_email_message demo_outbound demo_preview = Inr m" "mm_content m = append_plain_footer ''b'' demo_footer" using demo_is_built by blast
  have request: "pv_request demo_preview = demo_message" by (simp add: demo_preview_def)
  have serialize: "me_serialize demo_outbound m = append_plain_footer ''b'' demo_footer" "me_audit_fails demo_outbound = None" using m(2) by (simp_all add: demo_outbound_def)
  obtain r where "submit_selected demo_mail_config (submit_bytes demo_outbound demo_mail_config demo_preview (Inr (append_plain_footer ''b'' demo_footer))) demo_mail_state =
      (Inr r, demo_mail_state\<lparr>ms_submitted := ms_submitted demo_mail_state @ [(''a@ww.cx'', [''x@y.z''], append_plain_footer ''b'' demo_footer)]\<rparr>)"
    using demo_is_submitted by blast
  then show ?thesis
    using demo_audited serialize m(1)
    by (simp add: send_message_def demo_is_previewed demo_runtime request demo_gate bindS_def pure_act_def ret_def json_object_def submit_smtp_def append_mail_audit_def
      demo_mail_state_def Let_def)
qed

lemma demo_is_scanned_and_sent:
  "\<exists>st s'. send_preview demo_outbound (JObj demo_mail_config) (JObj demo_mail_policy) demo_preview True demo_mail_state = (Inr st, s') \<and>
     ms_submitted s' = [(''a@ww.cx'', [''x@y.z''], append_plain_footer ''b'' demo_footer)]"
proof -
  obtain m where m: "build_email_message demo_outbound demo_preview = Inr m" "mm_content m = append_plain_footer ''b'' demo_footer" using demo_is_built by blast
  have request: "pv_request demo_preview = demo_message" by (simp add: demo_preview_def)
  have serialize: "me_serialize demo_outbound m = append_plain_footer ''b'' demo_footer" using m(2) by (simp add: demo_outbound_def)
  have "append_plain_footer ''b'' demo_footer \<noteq> []" by (auto simp: append_plain_footer_def Let_def demo_footer_def)
  moreover have "map_option casefold (scan_text (JStr ''clean'')) = Some ''clean''" "scan_text (JStr ''e'') = Some ''e''" "scan_text (JStr ''1'') = Some ''1''" by code_simp+
  ultimately obtain d where d: "require_clean demo_outbound (append_plain_footer ''b'' demo_footer) = Inr d"
    by (simp add: require_clean_def guard_def normalize_scan_def demo_outbound_def demo_mail_env_def jget_def final_scan_states_def reason_codes_ok_def strings_of_def)
  obtain r where "submit_selected demo_mail_config (submit_bytes demo_outbound demo_mail_config demo_preview (Inr (append_plain_footer ''b'' demo_footer))) demo_mail_state =
      (Inr r, demo_mail_state\<lparr>ms_submitted := ms_submitted demo_mail_state @ [(''a@ww.cx'', [''x@y.z''], append_plain_footer ''b'' demo_footer)]\<rparr>)"
    using demo_is_submitted by blast
  then show ?thesis
    using serialize m(1) d
    by (simp add: send_preview_def demo_runtime request demo_gate bindS_def pure_act_def ret_def json_object_def demo_mail_state_def Let_def)
qed

text \<open>A server that takes the message and refuses one recipient: the caller sees an error, and the audit does not have the submission.\<close>

lemma refused_submissions_are_not_audited:
  "\<exists>s'. send_message (demo_outbound\<lparr>me_smtp := \<lambda>_ _ _. Refused [''x@y.z'']\<rparr>) (JObj demo_mail_config) (JObj demo_mail_policy) demo_payload True True demo_mail_state =
       (Inl (ProviderUnavailable ''SMTP provider refused 1 recipient(s)''), s') \<and> length (ms_submitted s') = 1 \<and> ms_audit s' = []"
proof -
  let ?env = "demo_outbound\<lparr>me_smtp := \<lambda>_ _ _. Refused [''x@y.z'']\<rparr>"
  have preview: "compose_preview ?env (JObj demo_mail_config) (JObj demo_mail_policy) demo_payload = Inr demo_preview"
    using demo_is_previewed by (simp add: compose_preview_def)
  obtain m where m: "build_email_message ?env demo_preview = Inr m" using demo_is_built by (auto simp: build_email_message_def)
  have request: "pv_request demo_preview = demo_message" by (simp add: demo_preview_def)
  have "show_int 1 = ''1''" by code_simp
  then have "submit_selected demo_mail_config (submit_bytes ?env demo_mail_config demo_preview (Inr b)) demo_mail_state =
      (Inl (ProviderUnavailable ''SMTP provider refused 1 recipient(s)''),
       demo_mail_state\<lparr>ms_submitted := [(''a@ww.cx'', [''x@y.z''], b)]\<rparr>)" for b
    using demo_settings_read [of ?env]
    by (simp add: submit_selected_def submit_bytes_def demo_profile_selected demo_profile_def jget_def conf_str_def conf_bool_def guard_def bindS_def pure_act_def ret_def
      hand_over_def demo_preview_def demo_message_def demo_mail_state_def Let_def)
  then show ?thesis
    using m by (simp add: send_message_def preview demo_runtime request demo_gate bindS_def pure_act_def json_object_def submit_smtp_def demo_mail_state_def Let_def)
qed

section \<open>The properties at this message\<close>

theorem composed_messages_are_controlled_witness:
  "dget (co_headers demo_composed) ''X-WWCX-Control-ID'' = Some (strip (co_control_id demo_composed)) \<and> control_text (strip (co_control_id demo_composed)) \<and>
   email_text (co_from demo_composed) \<and> dget (co_audit demo_composed) ''control_id'' = Some (JStr (strip (co_control_id demo_composed)))"
  using composed_messages_are_controlled [where env = "me_compose demo_outbound" and policy = "JObj demo_mail_policy" and q = demo_compose] by (simp add: demo_is_composed(1))

theorem submissions_pass_every_gate_witness:
  "\<exists>pv. compose_preview demo_outbound (JObj demo_mail_config) (JObj demo_mail_policy) demo_payload = Inr pv \<and> mail_permitted (JObj demo_mail_config) (JObj demo_mail_policy) True pv"
proof -
  obtain st s' where "send_message demo_outbound (JObj demo_mail_config) (JObj demo_mail_policy) demo_payload True True demo_mail_state = (Inr st, s')"
    "ms_submitted s' = [(''a@ww.cx'', [''x@y.z''], append_plain_footer ''b'' demo_footer)]" using demo_is_sent by blast
  then show ?thesis
    using submissions_pass_every_gate [where env = demo_outbound and config = "JObj demo_mail_config" and base = "JObj demo_mail_policy" and payload = demo_payload
        and confirmation = True and audited = True and s = demo_mail_state]
    by (simp add: demo_mail_state_def) blast
qed

theorem scanned_bytes_are_sent_witness:
  "\<exists>scan d m. me_scanner demo_outbound = Some scan \<and> build_email_message demo_outbound demo_preview = Inr m \<and>
     normalize_scan demo_outbound (scan (me_serialize demo_outbound m)) (me_serialize demo_outbound m) = Some d \<and> jget d ''state'' = JStr ''clean''"
proof -
  obtain st s' where "send_preview demo_outbound (JObj demo_mail_config) (JObj demo_mail_policy) demo_preview True demo_mail_state = (Inr st, s')"
    using demo_is_scanned_and_sent by blast
  then show ?thesis
    using scanned_bytes_are_sent [where env = demo_outbound and config = "JObj demo_mail_config" and base = "JObj demo_mail_policy" and pv = demo_preview
        and confirmation = True and s = demo_mail_state] by simp blast
qed

theorem audits_follow_success_witness:
  "\<exists>st s'. send_message demo_outbound (JObj demo_mail_config) (JObj demo_mail_policy) demo_payload True True demo_mail_state = (Inr st, s') \<and>
     ms_audit s' = [st_event st] \<and> length (ms_submitted s') = 1"
proof -
  obtain st s' where run: "send_message demo_outbound (JObj demo_mail_config) (JObj demo_mail_policy) demo_payload True True demo_mail_state = (Inr st, s')"
    using demo_is_sent by blast
  then show ?thesis
    using audits_follow_success [where env = demo_outbound and config = "JObj demo_mail_config" and base = "JObj demo_mail_policy" and payload = demo_payload
        and confirmation = True and audited = True and s = demo_mail_state]
    by (simp add: demo_audited demo_mail_state_def)
qed

end
