(* ===== verification/Spec2Isabelle.thy ===== *)
theory Spec2Isabelle
  imports StoreForward TrustRoutes KeyLifecycle ControlPlane GatewayRoutes GatewayQuarantine SecurityRuns TurnTheorems OpsTheorems ReleaseSuccess MailAuthTheorems MailWitnesses
begin

text \<open>
  Verification library for four systems of the repository: the telegraph federation
  (src/reference/telegraph_*.py), the messaging gateway (src/services/wwcx-messaging-gateway/app), the
  security identity gateway of Edge1 (src/server/edge1_security_*.py) and the operator services of Edge1
  (other files of src/server).
  Each definition is a translation of the Python code under the same name where HOL allows it.

  \<^bold>\<open>How the code is read.\<close> A class is a record of its attributes, a method a function from the state to an
  outcome and the new state (\<open>act\<close> and \<open>eact\<close> of Effects): a raise is \<open>Inl\<close> of a \<open>py_error\<close>, so the changes made
  before it stay visible. A Python dictionary is an association list in insertion order (\<open>dget\<close>,
  \<open>dset\<close> of Prelude), a JSON value the datatype \<open>json\<close>, a string a \<open>char list\<close>, an \<open>int\<close> an unbounded
  \<open>int\<close>, a float that the code only compares or rounds an exact rational. An SQL table is the list of
  its rows in \<open>rowid\<close> order; \<open>update_where\<close> is \<open>UPDATE\<close>, and \<open>transaction\<close> (Effects) undoes the
  changes of a transaction that raised.

  \<^bold>\<open>Foundations.\<close>
  Prelude: the exceptions, outcomes, dictionaries, Python's \<open>str\<close> and \<open>int\<close> methods, row updates, and the
  collections that carry the proofs. Effects: sequencing of actions. Json: \<open>json.dumps\<close> and
  \<open>json.loads\<close> with the round trip between them. PyText: \<open>str\<close> and \<open>repr\<close> of values. Heapq: the list
  algorithms of \<open>heapq\<close>, with a comparison that may raise. Contracts: the interfaces as locales,
  \<open>op_machine\<close> (operations preserve an invariant), \<open>absorbing_machine\<close> (final rows stay),
  \<open>monotone_machine\<close> (a counter never falls), \<open>lww_register\<close> (last writer wins behind a duplicate filter),
  \<open>nonce_filter\<close> (a value is accepted once per window); Heapq adds \<open>bag_queue\<close>, Effects
  \<open>state_frame\<close> (what is built from actions that keep a relation between states keeps it). Every one is interpreted on
  the model's own operations: \<open>queue\<close>, \<open>graph\<close>, \<open>keyring\<close>, \<open>journal\<close>, \<open>control\<close>, \<open>cache\<close>, \<open>replay_store\<close>,
  \<open>gateway\<close>, \<open>boundary\<close>, \<open>media\<close>, \<open>consent\<close>, \<open>delivery\<close>, \<open>heap\<close>, \<open>sessions\<close>, \<open>calm\<close>, \<open>effect\<close>, \<open>silent\<close>,
  \<open>turns\<close>, \<open>steady\<close>.

  \<^bold>\<open>Telegraph federation.\<close>
  StoreForward models telegraph_store_forward.py: \<open>enqueue\<close>, \<open>claim_due\<close> with expiry and lease release,
  \<open>fail_msg\<close>, \<open>acknowledge_delivery\<close>, \<open>transfer_custody\<close>, \<open>cancel_msg\<close>, the reports, and \<open>process_once\<close> with
  the sender as an argument. A retry delay that exceeds the floats raises, as \<open>**\<close> does (\<open>float_power\<close>). Shown: the table
  invariant, capacity, terminal states are final, a claim is its reference, leases exclude, envelopes come back as accepted,
  duplicates are recognised, and an iteration of the worker reports what became of each envelope, for retry policies
  whose delays fit (\<open>delays_fit\<close>; others raise, \<open>overflowing_delays_raise\<close>).
  TrustGraph and TrustRoutes model telegraph_trust_graph.py: nodes, links, quarantine, the heap-driven
  search \<open>candidates\<close> (a terminating function on the simple paths still open) and its decisions. Shown:
  the search finds exactly the compliant routes when the limit is not reached, and it terminates.
  Crypto and KeyLifecycle model telegraph_crypto.py and telegraph_key_lifecycle.py. Shown: signed documents
  verify, a revoked key stays dead, manifests replicate a rotation.
  Office, IncrementalSync, OfficeProps, OfficeTheorems model telegraph_federation_demo.py,
  telegraph_storage.py, telegraph_office_service.py and telegraph_incremental_sync.py: the SQLite store, the
  handlers of the office, replay protection, the change journal and its pages; rows with a NULL key are kept as SQLite keeps
  them. Shown: peers are verified
  identities, remote data never raises trust, a nonce is accepted once per window, deltas are authentic
  and in order and published ones are accepted, receipts form a signed chain.
  ControlPlane models telegraph_control_plane.py. Shown: heartbeats are not replayed, published ones are
  accepted, the derived values keep their bounds, silence never improves a peer that was fine.

  \<^bold>\<open>Messaging gateway.\<close>
  GatewayModel models models.py, compliance.py, outbound_policy.py and store.py; GatewayStore the tables and
  statements of persistence.py; GatewayWorker outbound_worker.py. GatewayConsent shows that the
  durable store refines the in-memory one and that consent is the latest keyword in any order of arrival.
  GatewaySends shows that the worker sends only what policy, consent and rate permit, never sends again
  after an uncertain attempt, and keeps the rate. GatewayDelivery models delivery_status.py and
  delivery_router.py; the shown status is the latest event in both stores.
  GatewayWebhooks models webhook_receipts.py, webhook_collision.py, webhook_audit.py, inbound_worker.py and
  the webhook route of main.py. GatewayInbound gives its transactions as the step relation \<open>txn\<close>: handlers
  and recovery workers are flights that interleave and may die between two transactions; writing an event may raise
  before or after its commit, and the worker's retry is a transaction of its own. Shown: receipts
  tell the truth about the event store; processed receipts are final. GatewayRecovery shows what the
  intake achieves: a receipt that waits is accepted, or fails with all its attempts used because its event id is taken;
  a replay is told from a changed payload; refused requests only count.
  GatewayMedia and GatewayQuarantine model quarantine_storage.py and media_quarantine.py; every write of a call may fail
  before or after it took effect (\<open>fault\<close>). Shown: a stored blob has its digest, described media verifies and stays
  readable, blobs without metadata stem from ingests that raised; a clean result is only recorded of content that verified
  before and after the scan.
  GatewayRoutes models the other routes of main.py, telegraph_office.py and provider_readiness.py. Shown: a
  paused gateway takes nothing in.

  \<^bold>\<open>Security identity gateway.\<close>
  It exchanges a signed assertion of another site for a session and runs one operation for the holder.
  SecurityCore models edge1_security_auth_core.py: the exceptions (\<open>auth_exn\<close>), the configuration contract, scopes
  and validators. SecurityAssertion models edge1_security_assertion.py: strict JSON, base64url, RS256 and the
  checks of claims and times. SecurityStore models edge1_security_auth_store.py, the SQLite tables with one definition per
  method and \<open>auth_step\<close> over its calls; SecurityGateway edge1_security_auth_gateway.py and the audit file;
  SecurityHttp, SecurityRoutes and SecurityAdapter edge1_security_auth_http.py with its configuration, helpers, types
  and actions, up to \<open>http_handle\<close> and runs of requests \<open>http_run\<close>.
  SecuritySessions: the tables' invariant, and a session is honoured only while it lives. SecurityLimits: rates and the
  spacing of guarded actions. SecurityFrames: every route but the one that runs operations leaves the runs alone, and every
  route changes the store by a sequence of its calls (\<open>served\<close>), so that facts on call sequences hold of
  requests. SecurityTheorems: sessions stem from validated assertions, which are exchanged once while valid; operations are
  authorised. SecurityEndings: logout and the account API. SecurityWitnesses and SecurityRuns:
  accepted configurations, RS256 against its mathematical definition, and concrete requests, one of them with a
  real signature under a 2052-bit key.

  \<^bold>\<open>Operator services of Edge1.\<close>
  TurnState models edge1_operator_turn_state.py: seeding a turn and the handoff transaction, which may be cut off at
  any checkpoint. TurnTheorems: the tables agree, a handoff happens entirely or not at all and once per key, and the handoffs
  of a turn form a chain of owners.
  HostControl models asterisk_process_identity.py and the broker edge1_operator_privileged_broker.py, HostReload the action of
  edge1_operations_typed_actions.py that asks it. What the code reads from the host is a numbered observation of
  \<open>host_env\<close>, which may change between any two of them. HostTheorems: the broker restarts the console once exactly when the
  peer, the request, the audit file and its observations are as demanded; the action restarts it at most twice, and once when it returns.
  VpnStore models vpn_access_registration.py, every call as an action on the tables \<open>vpn_db\<close>; SQLite errors other than
  violated constraints are left out, and rows that tie in an ORDER BY stay in their order. VpnTheorems: the tables agree, a
  registration rests on a recent acceptance of the policy in force, a new policy ends registrations, quarantine holds until it is
  lifted. Its hypotheses \<open>times_read_back\<close> and \<open>times_shown\<close> are that fromisoformat reads what isoformat writes and that it writes something.
  OpsStore, OpsActions and OpsRoutes model edge1_operations_api.py: authentication, the allowlist and its two kinds of action,
  idempotency claims and all routes, on the registration store and the host control. A request is handled as a whole, and a request whose handler
  raises is \<open>Dropped\<close>. OpsTheorems: only signed requests act, and once; processes are those of the allowlist; typed
  actions run once per claim. The locales \<open>vpn_frame\<close> and \<open>ops_frame\<close> with its extensions carry relations that every
  operation keeps; each property interprets them on the relation it needs.
  ReleaseControl models edge1_release_controller.py: the checkouts below the release directory, the links \<open>current\<close> and
  \<open>previous\<close>, the drop-ins with their backups, prepare, promote, rollback and status. Commands are \<open>le_command\<close> of the
  arguments and a number, failures of file operations \<open>le_io\<close>; a file's content is its text, the state file the value it parses
  to, and a copy with its replacement is one step. ReleaseTheorems: only fixed commands run, links lead to releases, a
  promotion happens entirely or not at all and is checked, a rollback returns. ReleaseSuccess: \<open>wins\<close> is the total
  correctness of an action, and a promotion on a host that obliges succeeds.
  MailPolicy models outbound_mail_policy.py (policies, control headers, footers, action links), MailGateway
  outbound_mail_gateway.py, mail_final_scan.py and mail_secure_submission.py: configuration, previews, delivery over SMTP or to a
  file, the audit file, and the scan of the final bytes. The serialization of a message, the SMTP server, the scanner, the
  texts of clocks and SHA-256 are fields of \<open>compose_env\<close> and \<open>mail_env\<close>; a configuration section that is not an object raises
  without its exact exception, and the texts of invalid scan results are not told apart. MailTheorems: composed messages carry
  their control headers and footer, a submission passed every gate of configuration, provider and confirmation, the bytes
  handed over are those that were scanned clean, audits follow success. MailWitnesses: a concrete delivery, and one that is
  delivered but raises.
  MailAuth models outbound_mail_preparation_auth.py. MailAuthTheorems: accepted requests are signed, what \<open>build_headers\<close> signs is
  accepted (hypothesis \<open>hex_digests\<close>: digests are 64 hexadecimal digits), nothing is accepted twice when nonces are kept for twice the
  clock skew, and with less there are replays.

  \<^bold>\<open>Fuel and termination.\<close> \<open>search\<close>, the heap operations and \<open>receive_line\<close> terminate by a measure; the JSON parser takes
  fuel, and \<open>json_loads\<close> gives it the length of the text plus one, which its round trip shows to be enough; the strict parser of assertions takes the same. Every
  other recursion is structural.

  \<^bold>\<open>Arguments and simplifications.\<close> SHA-256, HMAC, Ed25519, key generation, random draws, fresh ids,
  environment variables, the clock, \<open>isoformat\<close>, \<open>fromisoformat\<close> and UUID parsing are arguments, with
  documented behaviour as named hypotheses (\<open>signatures_verify\<close>, \<open>readable_times\<close>). One reading of the clock
  serves a transaction or a worker iteration; an iteration of outbound_worker.py is one step (\<open>worker_once\<close>), although the code
  runs it as several transactions. Transactions are atomic, and a row locked by another one is
  not modelled (\<open>SKIP LOCKED\<close> finds no locked rows). PostgreSQL text is ordered as in the C collation.
  An instant of the gateway is an \<open>int\<close> of microseconds, a UUID its text. A jsonb payload comes back as it was stored. The
  verification envelope that messages carry for display is left out. In the security gateway the key file, UTF-8 decoding, random draws and the failure of the audit
  file are fields of \<open>auth_env\<close>, the operations client and the account backend fields of \<open>http_world\<close>; the clock is read once per
  request and once after an operation; errors of SQLite other than violated constraints are left out; texts are those of
  code points up to 255, and JSON numbers that are not integers are not values.

  \<^bold>\<open>Not modelled.\<close> HTTP servers, command lines, adapters of carriers and scanners, deployment scripts,
  exporters that only read system files, and the browser code: input and output without state of their
  own, or glue to services outside the repository. The manifest lists them.
\<close>

end
